(* ===== verification/Prelude.thy ===== *)
theory Prelude
  imports Main "HOL-Library.Word"
begin

text \<open>
  Shared vocabulary of the development: the error-or-value results of fallible Python code,
  tables of rows with a primary key (the database as the code sees it), UUIDs and their text
  forms, the JSON values stored in JSONB columns, and the few string operations the code uses.

  Strings are sequences of UTF-8 bytes (\<open>char\<close> is a byte). Equality and concatenation agree
  with Python's; operations that count or classify code points are written on the encoding.
\<close>

named_theorems model_defs \<open>definitions of the small operations a component proof unfolds\<close>
named_theorems frame_simps \<open>what an operation leaves unchanged\<close>

section \<open>Results of fallible code\<close>

text \<open>
  \<open>Inl e\<close> is a raised exception, \<open>Inr v\<close> a returned value. A transaction whose body raises is
  rolled back, so a raising operation returns no database.
\<close>

type_synonym ('e, 'a) result = "'e + 'a"

definition ebind :: "('e, 'a) result \<Rightarrow> ('a \<Rightarrow> ('e, 'b) result) \<Rightarrow> ('e, 'b) result" where
  "ebind r f = (case r of Inl e \<Rightarrow> Inl e | Inr x \<Rightarrow> f x)"

definition guard :: "bool \<Rightarrow> 'e \<Rightarrow> ('e, unit) result" where
  "guard ok e = (if ok then Inr () else Inl e)"

lemma ebind_simps [simp]:
  "ebind (Inl e) f = Inl e"
  "ebind (Inr x) f = f x"
  by (simp_all add: ebind_def)

lemma ebind_Inr_iff: "ebind r f = Inr y \<longleftrightarrow> (\<exists>x. r = Inr x \<and> f x = Inr y)"
  by (cases r) auto

lemma ebind_Inl_iff: "ebind r f = Inl e \<longleftrightarrow> r = Inl e \<or> (\<exists>x. r = Inr x \<and> f x = Inl e)"
  by (cases r) auto

lemma guard_simps [simp]:
  "guard True e = Inr ()"
  "guard False e = Inl e"
  "guard ok e = Inr u \<longleftrightarrow> ok"
  "guard ok e = Inl e' \<longleftrightarrow> \<not> ok \<and> e' = e"
  by (auto simp: guard_def)

section \<open>Tables\<close>

text \<open>
  A table is the list of its rows in insertion order; \<open>key\<close> reads the primary key.
  \<open>get_row\<close> is \<open>session.get\<close>, \<open>put_row\<close> writes the attributes of the row with that key.
\<close>

definition get_row :: "('r \<Rightarrow> 'k) \<Rightarrow> 'k \<Rightarrow> 'r list \<Rightarrow> 'r option" where
  "get_row key k rows = find (\<lambda>r. key r = k) rows"

definition put_row :: "('r \<Rightarrow> 'k) \<Rightarrow> 'r \<Rightarrow> 'r list \<Rightarrow> 'r list" where
  "put_row key x rows = map (\<lambda>r. if key r = key x then x else r) rows"

definition keys_ok :: "('r \<Rightarrow> 'k) \<Rightarrow> 'r list \<Rightarrow> bool" where
  "keys_ok key rows \<longleftrightarrow> distinct (map key rows)"

lemma get_row_Nil [simp]: "get_row key k [] = None"
  by (simp add: get_row_def)

lemma get_row_Cons: "get_row key k (r # rs) = (if key r = k then Some r else get_row key k rs)"
  by (simp add: get_row_def)

lemma put_row_Nil [simp]: "put_row key x [] = []"
  by (simp add: put_row_def)

lemma put_row_Cons:
  "put_row key x (r # rs) = (if key r = key x then x else r) # put_row key x rs"
  by (simp add: put_row_def)

lemma get_row_SomeD: "get_row key k rows = Some r \<Longrightarrow> r \<in> set rows \<and> key r = k"
  by (induction rows) (auto simp: get_row_Cons split: if_splits)

lemma get_row_None_iff: "get_row key k rows = None \<longleftrightarrow> k \<notin> key ` set rows"
  by (induction rows) (auto simp: get_row_Cons)

lemma get_row_mem:
  "keys_ok key rows \<Longrightarrow> r \<in> set rows \<Longrightarrow> get_row key (key r) rows = Some r"
  by (induction rows) (force simp: get_row_Cons keys_ok_def)+

lemma put_row_keys [simp]: "map key (put_row key x rows) = map key rows"
  by (induction rows) (auto simp: put_row_Cons)

lemma keys_ok_put_row [simp]: "keys_ok key (put_row key x rows) = keys_ok key rows"
  by (simp add: keys_ok_def)

lemma length_put_row [simp]: "length (put_row key x rows) = length rows"
  by (simp add: put_row_def)

lemma get_put_row:
  "get_row key k (put_row key x rows) =
     (if k = key x then map_option (\<lambda>_. x) (get_row key k rows) else get_row key k rows)"
  by (induction rows) (auto simp: get_row_Cons put_row_Cons)

lemma set_put_row_subset: "set (put_row key x rows) \<subseteq> insert x (set rows)"
  by (induction rows) (auto simp: put_row_Cons)

lemma set_put_row:
  "set (put_row key x rows) =
     {r \<in> set rows. key r \<noteq> key x} \<union> (if key x \<in> key ` set rows then {x} else {})"
  by (induction rows) (auto simp: put_row_Cons)

lemma put_row_absent: "key x \<notin> key ` set rows \<Longrightarrow> put_row key x rows = rows"
  by (induction rows) (auto simp: put_row_Cons)

lemma keys_ok_append1:
  "keys_ok key (rows @ [x]) \<longleftrightarrow> keys_ok key rows \<and> key x \<notin> key ` set rows"
  by (auto simp: keys_ok_def)

lemma get_row_append1:
  "get_row key k (rows @ [x]) =
     (case get_row key k rows of Some r \<Rightarrow> Some r | None \<Rightarrow> if key x = k then Some x else None)"
  by (induction rows) (auto simp: get_row_Cons)

lemma put_row_put_row [simp]:
  "key x = key y \<Longrightarrow> put_row key y (put_row key x rows) = put_row key y rows"
  by (induction rows) (auto simp: put_row_Cons)

lemma put_row_mem: "r \<in> set (put_row key x rows) \<Longrightarrow> r = x \<or> (r \<in> set rows \<and> key r \<noteq> key x)"
  by (induction rows) (auto simp: put_row_Cons split: if_splits)

text \<open>A total over a table after one row is rewritten.\<close>

lemma sum_put_row:
  fixes f :: "'r \<Rightarrow> int"
  assumes "keys_ok key rows" and "get_row key (key x) rows = Some old"
  shows "sum_list (map f (put_row key x rows)) = sum_list (map f rows) - f old + f x"
  using assms
proof (induction rows)
  case Nil
  then show ?case by simp
next
  case (Cons r rows)
  show ?case
  proof (cases "key r = key x")
    case True
    then have "put_row key x rows = rows"
      using Cons.prems(1) by (intro put_row_absent) (auto simp: keys_ok_def)
    with True Cons.prems show ?thesis by (simp add: put_row_Cons get_row_Cons)
  next
    case False
    with Cons show ?thesis by (simp add: put_row_Cons get_row_Cons keys_ok_def)
  qed
qed

text \<open>Writing a function of some rows back, one after the other, maps it over the table.\<close>

lemma fold_put_row:
  assumes "distinct (map key xs)" and "set xs \<subseteq> set rows" and "keys_ok key rows"
    and "\<And>x. key (f x) = key x"
  shows "fold (\<lambda>x rs. put_row key (f x) rs) xs rows = map (\<lambda>r. if r \<in> set xs then f r else r) rows"
  using assms(1,2)
proof (induction xs rule: rev_induct)
  case Nil
  then show ?case by simp
next
  case (snoc x xs)
  let ?g = "\<lambda>r. if r \<in> set xs then f r else r"
  have key_g: "key (?g r) = key r" for r using assms(4) by simp
  have same: "r = x" if "r \<in> set rows" "key r = key x" for r
    using that snoc.prems(2) assms(3) by (auto simp: keys_ok_def distinct_map inj_on_def)
  have "fold (\<lambda>x rs. put_row key (f x) rs) (xs @ [x]) rows = put_row key (f x) (map ?g rows)"
    using snoc by simp
  also have "\<dots> = map (\<lambda>r. if key r = key x then f x else ?g r) rows"
    by (simp only: put_row_def map_map comp_def key_g assms(4))
  also have "\<dots> = map (\<lambda>r. if r \<in> set (xs @ [x]) then f r else r) rows"
    using snoc.prems(1) by (intro map_cong refl) (auto dest: same)
  finally show ?case .
qed

text \<open>\<open>ORDER BY f, \<dots>\<close> with \<open>LIMIT 1\<close>: the first row that no other row precedes.\<close>

fun first_by :: "('r \<Rightarrow> 'r \<Rightarrow> bool) \<Rightarrow> 'r list \<Rightarrow> 'r option" where
  "first_by lt [] = None"
| "first_by lt (r # rs) =
     (case first_by lt rs of None \<Rightarrow> Some r | Some s \<Rightarrow> if lt s r then Some s else Some r)"

lemma first_by_SomeD: "first_by lt rs = Some r \<Longrightarrow> r \<in> set rs"
  by (induction rs arbitrary: r) (auto split: option.splits if_splits)

lemma first_by_None_iff [simp]: "first_by lt rs = None \<longleftrightarrow> rs = []"
  by (cases rs) (auto split: option.splits)

lemma first_by_least:
  assumes tr: "\<And>x y z. lt x y \<Longrightarrow> lt y z \<Longrightarrow> lt x z"
    and nt: "\<And>x y z. \<not> lt x y \<Longrightarrow> \<not> lt y z \<Longrightarrow> \<not> lt x z"
    and irr: "\<And>x. \<not> lt x x"
  shows "first_by lt rs = Some r \<Longrightarrow> s \<in> set rs \<Longrightarrow> \<not> lt s r"
proof (induction rs arbitrary: r s)
  case Nil
  then show ?case by simp
next
  case (Cons a rs)
  show ?case
  proof (cases "first_by lt rs")
    case None
    with Cons.prems irr show ?thesis by simp
  next
    case (Some b)
    have least: "\<not> lt t b" if "t \<in> set rs" for t
      using Cons.IH [OF Some that] .
    show ?thesis
    proof (cases "lt b a")
      case True
      with Cons.prems Some have "r = b" by simp
      moreover have "\<not> lt a b" using True tr irr by blast
      ultimately show ?thesis using Cons.prems(2) least by auto
    next
      case False
      with Cons.prems Some have "r = a" by simp
      moreover have "\<not> lt t a" if "t \<in> set rs" for t
        using nt [OF least [OF that] False] .
      ultimately show ?thesis using Cons.prems(2) irr by auto
    qed
  qed
qed

text \<open>\<open>ORDER BY\<close> as insertion sort: stable, so ties keep insertion order.\<close>

fun insert_by :: "('r \<Rightarrow> 'r \<Rightarrow> bool) \<Rightarrow> 'r \<Rightarrow> 'r list \<Rightarrow> 'r list" where
  "insert_by lt x [] = [x]"
| "insert_by lt x (y # ys) = (if lt y x then y # insert_by lt x ys else x # y # ys)"

definition order_by :: "('r \<Rightarrow> 'r \<Rightarrow> bool) \<Rightarrow> 'r list \<Rightarrow> 'r list" where
  "order_by lt rs = foldr (insert_by lt) rs []"

lemma set_insert_by [simp]: "set (insert_by lt x ys) = insert x (set ys)"
  by (induction ys) auto

lemma set_order_by [simp]: "set (order_by lt rs) = set rs"
  by (induction rs) (auto simp: order_by_def)

lemma distinct_insert_by: "distinct (insert_by lt x ys) \<longleftrightarrow> distinct (x # ys)"
  by (induction ys) auto

lemma distinct_order_by [simp]: "distinct (order_by lt rs) = distinct rs"
proof (induction rs)
  case Nil
  then show ?case by (simp add: order_by_def)
next
  case (Cons a rs)
  have "set (foldr (insert_by lt) rs []) = set rs"
    using set_order_by [of lt rs] by (simp add: order_by_def)
  with Cons show ?case by (simp add: order_by_def distinct_insert_by)
qed

section \<open>UUIDs\<close>

type_synonym uuid = "128 word"

definition hex_digit :: "nat \<Rightarrow> char" where
  "hex_digit n = (if n < 10 then char_of (48 + n) else char_of (87 + n))"

definition nibble :: "nat \<Rightarrow> nat \<Rightarrow> nat" where
  "nibble n i = n div 16 ^ i mod 16"

definition uuid_hex :: "uuid \<Rightarrow> string" where
  "uuid_hex u = map (\<lambda>i. hex_digit (nibble (unat u) i)) (rev [0..<32])"

lemma nibbles_eq:
  "n < 16 ^ k \<Longrightarrow> m < 16 ^ k \<Longrightarrow> (\<And>i. i < k \<Longrightarrow> nibble n i = nibble m i) \<Longrightarrow> n = m"
proof (induction k arbitrary: n m)
  case 0
  then show ?case by simp
next
  case (Suc k)
  have "n div 16 = m div 16"
  proof (rule Suc.IH)
    show "n div 16 < 16 ^ k" and "m div 16 < 16 ^ k"
      using Suc.prems(1,2) by auto
    fix i
    assume "i < k"
    then have "nibble n (Suc i) = nibble m (Suc i)" using Suc.prems(3) by simp
    then show "nibble (n div 16) i = nibble (m div 16) i"
      by (simp add: nibble_def div_mult2_eq)
  qed
  moreover have "n mod 16 = m mod 16"
    using Suc.prems(3) [of 0] by (simp add: nibble_def)
  ultimately show ?case by (metis div_mult_mod_eq)
qed

lemma hex_digit_inj: "a < 16 \<Longrightarrow> b < 16 \<Longrightarrow> hex_digit a = hex_digit b \<Longrightarrow> a = b"
proof -
  assume a: "a < 16" and b: "b < 16" and eq: "hex_digit a = hex_digit b"
  have "of_char (hex_digit a) = (of_char (hex_digit b) :: nat)" using eq by simp
  with a b show "a = b"
    by (auto simp: hex_digit_def split: if_splits)
qed

lemma uuid_hex_inj: "uuid_hex u = uuid_hex v \<longleftrightarrow> u = v"
proof
  assume eq: "uuid_hex u = uuid_hex v"
  have "unat u = unat v"
  proof (rule nibbles_eq [where k = 32])
    show "unat u < 16 ^ 32" and "unat v < 16 ^ 32"
      using unsigned_less [where w = u and 'a = nat] unsigned_less [where w = v and 'a = nat] by simp_all
    fix i :: nat
    assume "i < 32"
    then have "hex_digit (nibble (unat u) i) = hex_digit (nibble (unat v) i)"
      using eq by (auto simp: uuid_hex_def)
    then show "nibble (unat u) i = nibble (unat v) i"
      by (rule hex_digit_inj [rotated 2]) (simp_all add: nibble_def)
  qed
  then show "u = v" by (simp add: word_unat_eq_iff)
qed simp

lemma length_uuid_hex [simp]: "length (uuid_hex u) = 32"
  by (simp add: uuid_hex_def)

lemma take_drop_eqI: "take n xs = take n ys \<Longrightarrow> drop n xs = drop n ys \<Longrightarrow> xs = ys"
  by (metis append_take_drop_id)

text \<open>The dashed form \<open>8-4-4-4-12\<close> of a hexadecimal text.\<close>

definition dashed :: "string \<Rightarrow> string" where
  "dashed h = take 8 h @ ''-'' @ take 4 (drop 8 h) @ ''-'' @ take 4 (drop 12 h) @ ''-''
     @ take 4 (drop 16 h) @ ''-'' @ drop 20 h"

definition uuid_str :: "uuid \<Rightarrow> string" where
  "uuid_str u = dashed (uuid_hex u)"

lemma split_eq:
  "length a = length b \<Longrightarrow> a @ c # xs = b @ c # ys \<Longrightarrow> a = b \<and> xs = ys"
  by simp

lemma dashed_inj:
  assumes "length h = 32" and "length g = 32" and eq: "dashed h = dashed g"
  shows "h = g"
proof -
  have len: "length (take n h) = length (take n g)"
    "length (take n (drop m h)) = length (take n (drop m g))" for n m
    using assms(1,2) by simp_all
  note d = eq [unfolded dashed_def append.simps]
  note e1 = split_eq [OF len(1) d]
  note e2 = split_eq [OF len(2) conjunct2 [OF e1]]
  note e3 = split_eq [OF len(2) conjunct2 [OF e2]]
  note e4 = split_eq [OF len(2) conjunct2 [OF e3]]
  have d16: "drop 16 h = drop 16 g" by (rule take_drop_eqI [of 4]) (use e4 in simp_all)
  have d12: "drop 12 h = drop 12 g" by (rule take_drop_eqI [of 4]) (use e3 d16 in simp_all)
  have d8: "drop 8 h = drop 8 g" by (rule take_drop_eqI [of 4]) (use e2 d12 in simp_all)
  show ?thesis by (rule take_drop_eqI [of 8]) (use e1 d8 in simp_all)
qed

lemma uuid_str_inj: "uuid_str u = uuid_str v \<longleftrightarrow> u = v"
  using dashed_inj [of "uuid_hex u" "uuid_hex v"] by (auto simp: uuid_str_def uuid_hex_inj)

end
