(* ===== verification/Py_Values.thy ===== *)
theory Py_Values
  imports Prelude "HOL-Library.AList"
begin

text \<open>
  The Python and PostgreSQL values the code computes with: text (UTF-8 bytes) with \<open>strip\<close> and
  slices by code point, JSON objects, instants, Bogota calendar dates and times of day, and the
  ISO renderings that reach audit records. This is the language's own behaviour, not code of the
  repository.
\<close>

section \<open>Text\<close>

text \<open>
  Code points of a UTF-8 text and back. Decoding is total (stray bytes stand for themselves), so
  that \<open>utf8_decode (utf8_encode cs) = cs\<close> for every list of 21-bit code points.
\<close>

fun utf8_decode_aux :: "nat \<Rightarrow> nat list \<Rightarrow> nat list" where
  "utf8_decode_aux 0 bs = []"
| "utf8_decode_aux (Suc n) [] = []"
| "utf8_decode_aux (Suc n) (a # bs) =
     (if a < 192 then a # utf8_decode_aux n bs
      else if a < 224 then
        (case bs of b # bs' \<Rightarrow> ((a - 192) * 64 + b mod 64) # utf8_decode_aux n bs' | _ \<Rightarrow> [])
      else if a < 240 then
        (case bs of b # c # bs' \<Rightarrow>
           ((a - 224) * 4096 + b mod 64 * 64 + c mod 64) # utf8_decode_aux n bs' | _ \<Rightarrow> [])
      else
        (case bs of b # c # e # bs' \<Rightarrow>
           ((a - 240) * 262144 + b mod 64 * 4096 + c mod 64 * 64 + e mod 64)
             # utf8_decode_aux n bs' | _ \<Rightarrow> []))"

definition utf8_decode :: "string \<Rightarrow> nat list" where
  "utf8_decode s = utf8_decode_aux (length s) (map of_char s)"

definition utf8_encode1 :: "nat \<Rightarrow> nat list" where
  "utf8_encode1 c =
     (if c < 128 then [c]
      else if c < 2048 then [192 + c div 64, 128 + c mod 64]
      else if c < 65536 then [224 + c div 4096, 128 + c div 64 mod 64, 128 + c mod 64]
      else [240 + c div 262144, 128 + c div 4096 mod 64, 128 + c div 64 mod 64, 128 + c mod 64])"

definition utf8_encode :: "nat list \<Rightarrow> string" where
  "utf8_encode cs = map char_of (concat (map utf8_encode1 cs))"

lemma utf8_encode1_nonempty: "utf8_encode1 c \<noteq> []"
  by (simp add: utf8_encode1_def)

lemma decode2:
  "x < 32 \<Longrightarrow> y < 64 \<Longrightarrow>
     utf8_decode_aux (Suc m) ((192 + x) # (128 + y) # rest) = (x * 64 + y) # utf8_decode_aux m rest"
proof -
  assume "x < 32" and y: "y < 64"
  moreover have "(128 + y) mod 64 = y" using y by (simp add: mod_add_left_eq [symmetric])
  ultimately show ?thesis by simp
qed

lemma decode3:
  "x < 16 \<Longrightarrow> y < 64 \<Longrightarrow> z < 64 \<Longrightarrow>
     utf8_decode_aux (Suc m) ((224 + x) # (128 + y) # (128 + z) # rest) =
       (x * 4096 + y * 64 + z) # utf8_decode_aux m rest"
proof -
  assume "x < 16" and y: "y < 64" and z: "z < 64"
  moreover have "(128 + y) mod 64 = y" "(128 + z) mod 64 = z"
    using y z by (simp_all add: mod_add_left_eq [symmetric])
  ultimately show ?thesis by simp
qed

lemma decode4:
  "y < 64 \<Longrightarrow> z < 64 \<Longrightarrow> w < 64 \<Longrightarrow>
     utf8_decode_aux (Suc m) ((240 + x) # (128 + y) # (128 + z) # (128 + w) # rest) =
       (x * 262144 + y * 4096 + z * 64 + w) # utf8_decode_aux m rest"
proof -
  assume y: "y < 64" and z: "z < 64" and w: "w < 64"
  moreover have "(128 + y) mod 64 = y" "(128 + z) mod 64 = z" "(128 + w) mod 64 = w"
    using y z w by (simp_all add: mod_add_left_eq [symmetric])
  ultimately show ?thesis by simp
qed

lemma utf8_decode_aux_encode:
  "list_all (\<lambda>c. c < 4194304) cs \<Longrightarrow> length (concat (map utf8_encode1 cs)) \<le> n \<Longrightarrow>
     utf8_decode_aux n (concat (map utf8_encode1 cs)) = cs"
proof (induction cs arbitrary: n)
  case Nil
  then show ?case by (cases n) simp_all
next
  case (Cons c cs)
  obtain m where n: "n = Suc m" using Cons.prems by (cases n) (auto simp: utf8_encode1_def split: if_splits)
  have IH: "utf8_decode_aux m (concat (map utf8_encode1 cs)) = cs"
    if "length (concat (map utf8_encode1 cs)) \<le> m"
    using Cons that by simp
  have len: "length (concat (map utf8_encode1 cs)) \<le> m"
    using Cons.prems(2) n by (cases "utf8_encode1 c") (auto simp: utf8_encode1_nonempty)
  have c2: "c div 64 * 64 + c mod 64 = c" by simp
  have e3: "c div 4096 = c div 64 div 64" and e4: "c div 262144 = c div 4096 div 64"
    using div_mult2_eq [of c 64 64] div_mult2_eq [of c 4096 64] by simp_all
  have d3: "c div 64 = c div 4096 * 64 + c div 64 mod 64" and
    d4: "c div 4096 = c div 262144 * 64 + c div 4096 mod 64"
    unfolding e3 e4 by (simp_all only: div_mult_mod_eq)
  have c3: "c div 4096 * 4096 + c div 64 mod 64 * 64 + c mod 64 = c"
    using c2 d3 by linarith
  have c4: "c div 262144 * 262144 + c div 4096 mod 64 * 4096 + c div 64 mod 64 * 64 + c mod 64 = c"
    using c3 d4 by linarith
  have lt: "c mod 64 < 64" "c div 64 mod 64 < 64" "c div 4096 mod 64 < 64" by simp_all
  show ?case
  proof -
    consider "c < 128" | "128 \<le> c" "c < 2048" | "2048 \<le> c" "c < 65536" | "65536 \<le> c" by linarith
    then show ?thesis
    proof cases
      case 1
      then have "utf8_encode1 c = [c]" by (simp add: utf8_encode1_def)
      with 1 show ?thesis by (simp add: n IH [OF len])
    next
      case 2
      then have k: "c div 64 < 32" by linarith
      from 2 have "utf8_encode1 c = [192 + c div 64, 128 + c mod 64]" by (simp add: utf8_encode1_def)
      with k show ?thesis
        by (simp only: list.map concat.simps append.simps n decode2 lt IH [OF len] c2)
    next
      case 3
      then have k: "c div 4096 < 16" by linarith
      from 3 have "utf8_encode1 c = [224 + c div 4096, 128 + c div 64 mod 64, 128 + c mod 64]"
        by (simp add: utf8_encode1_def)
      with k show ?thesis
        by (simp only: list.map concat.simps append.simps n decode3 lt IH [OF len] c3)
    next
      case 4
      then have "utf8_encode1 c = [240 + c div 262144, 128 + c div 4096 mod 64,
          128 + c div 64 mod 64, 128 + c mod 64]" by (simp add: utf8_encode1_def)
      then show ?thesis
        by (simp only: list.map concat.simps append.simps n decode4 lt IH [OF len] c4)
    qed
  qed
qed

lemma utf8_encode1_byte: "c < 4194304 \<Longrightarrow> b \<in> set (utf8_encode1 c) \<Longrightarrow> b < 256"
  by (auto simp: utf8_encode1_def split: if_splits)

lemma utf8_decode_encode:
  assumes "list_all (\<lambda>c. c < 4194304) cs"
  shows "utf8_decode (utf8_encode cs) = cs"
proof -
  let ?bs = "concat (map utf8_encode1 cs)"
  have "map (of_char \<circ> char_of) ?bs = (?bs :: nat list)"
    using assms by (intro map_idI) (auto simp: list_all_iff dest!: utf8_encode1_byte)
  then show ?thesis
    using utf8_decode_aux_encode [OF assms order_refl] by (simp add: utf8_decode_def utf8_encode_def)
qed

lemma utf8_decode_aux_bound:
  "list_all (\<lambda>b. b < 256) bs \<Longrightarrow> list_all (\<lambda>c. c < 4194304) (utf8_decode_aux n bs)"
proof (induction n bs rule: utf8_decode_aux.induct)
  case (3 n a bs)
  have m: "x mod 64 \<le> 63" for x :: nat using mod_less_divisor [of 64 x] by linarith
  show ?case
    using 3 m
    by (auto simp: list_all_iff split: list.split)
qed simp_all

definition is_space :: "nat \<Rightarrow> bool" where
  "is_space c \<longleftrightarrow> (9 \<le> c \<and> c \<le> 13) \<or> (28 \<le> c \<and> c \<le> 32) \<or>
     c \<in> {133, 160, 5760, 8232, 8233, 8239, 8287, 12288} \<or> (8192 \<le> c \<and> c \<le> 8202)"

definition strip_cps :: "nat list \<Rightarrow> nat list" where
  "strip_cps cs = rev (dropWhile is_space (rev (dropWhile is_space cs)))"

definition strip :: "string \<Rightarrow> string" where
  "strip s = utf8_encode (strip_cps (utf8_decode s))"

text \<open>\<open>s.rstrip()\<close>.\<close>

definition rstrip :: "string \<Rightarrow> string" where
  "rstrip s = utf8_encode (rev (dropWhile is_space (rev (utf8_decode s))))"

text \<open>\<open>not s.strip()\<close>.\<close>

definition blank :: "string \<Rightarrow> bool" where
  "blank s \<longleftrightarrow> list_all is_space (utf8_decode s)"

text \<open>\<open>s[:n]\<close>: the first \<open>n\<close> code points.\<close>

definition cp_take :: "nat \<Rightarrow> string \<Rightarrow> string" where
  "cp_take n s = utf8_encode (take n (utf8_decode s))"

lemma blank_Nil [simp]: "blank []"
  by (simp add: blank_def utf8_decode_def)

section \<open>ASCII strings\<close>

text \<open>On ASCII a byte is a code point, and the operations above are those on bytes.\<close>

definition ascii :: "string \<Rightarrow> bool" where
  "ascii s \<longleftrightarrow> list_all (\<lambda>c. (of_char c :: nat) < 128) s"

abbreviation char_space :: "char \<Rightarrow> bool" where
  "char_space c \<equiv> is_space (of_char c)"

lemma ascii_simps [simp]:
  "ascii []" "ascii (c # s) \<longleftrightarrow> (of_char c :: nat) < 128 \<and> ascii s"
  by (simp_all add: ascii_def)

lemma utf8_decode_aux_ascii:
  "list_all (\<lambda>b. b < 128) bs \<Longrightarrow> length bs \<le> n \<Longrightarrow> utf8_decode_aux n bs = bs"
proof (induction bs arbitrary: n)
  case Nil
  then show ?case by (cases n) simp_all
next
  case (Cons b bs)
  then show ?case by (cases n) auto
qed

lemma utf8_decode_ascii: "ascii s \<Longrightarrow> utf8_decode s = map of_char s"
  unfolding utf8_decode_def by (rule utf8_decode_aux_ascii) (simp_all add: ascii_def list_all_iff)

lemma utf8_encode_ascii: "ascii s \<Longrightarrow> utf8_encode (map of_char s) = s"
  by (induction s) (simp_all add: utf8_encode_def utf8_encode1_def)

lemma ascii_dropWhile [simp]: "ascii s \<Longrightarrow> ascii (dropWhile p s)"
  by (induction s) auto

lemma ascii_rev [simp]: "ascii (rev s) = ascii s"
  by (auto simp: ascii_def list_all_iff)

lemma ascii_take [simp]: "ascii s \<Longrightarrow> ascii (take n s)"
  by (auto simp: ascii_def list_all_iff dest: in_set_takeD)

lemma strip_ascii:
  "ascii s \<Longrightarrow> strip s = rev (dropWhile char_space (rev (dropWhile char_space s)))"
  using utf8_encode_ascii [of "rev (dropWhile char_space (rev (dropWhile char_space s)))"]
  by (simp add: strip_def strip_cps_def utf8_decode_ascii dropWhile_map rev_map comp_def)

lemma blank_ascii: "ascii s \<Longrightarrow> blank s = list_all char_space s"
  by (simp add: blank_def utf8_decode_ascii list_all_iff)

lemma cp_take_ascii: "ascii s \<Longrightarrow> cp_take n s = take n s"
  using utf8_encode_ascii [of "take n s"] by (simp add: cp_take_def utf8_decode_ascii take_map)

lemmas ascii_eval = strip_ascii blank_ascii cp_take_ascii utf8_decode_ascii is_space_def

text \<open>
  \<open>s.upper()\<close> up to the code points whose uppercase is ASCII (the letters, dotless i and long s);
  it decides every comparison with an ASCII word.
\<close>

lemma not_blank_ascii:
  "(of_char c :: nat) < 128 \<Longrightarrow> \<not> is_space (of_char c) \<Longrightarrow> \<not> blank (c # s)"
  by (simp add: blank_def utf8_decode_def)

definition upper_cp :: "nat \<Rightarrow> nat" where
  "upper_cp c = (if 97 \<le> c \<and> c \<le> 122 then c - 32 else if c = 305 then 73 else if c = 383 then 83 else c)"

definition upper :: "string \<Rightarrow> string" where
  "upper s = utf8_encode (map upper_cp (utf8_decode s))"

definition is_digit :: "char \<Rightarrow> bool" where
  "is_digit c \<longleftrightarrow> (let n = (of_char c :: nat) in 48 \<le> n \<and> n \<le> 57)"

definition digit_val :: "char \<Rightarrow> int" where
  "digit_val c = of_char c - 48"

text \<open>\<open>str(n)\<close>.\<close>

fun show_nat_acc :: "nat \<Rightarrow> string \<Rightarrow> string" where
  "show_nat_acc n acc =
     (let acc' = char_of (48 + n mod 10) # acc in
      if n < 10 then acc' else show_nat_acc (n div 10) acc')"

declare show_nat_acc.simps [simp del]

definition show_nat :: "nat \<Rightarrow> string" where
  "show_nat n = show_nat_acc n []"

definition show_int :: "int \<Rightarrow> string" where
  "show_int i = (if i < 0 then ''-'' @ show_nat (nat (- i)) else show_nat (nat i))"

definition pad :: "nat \<Rightarrow> string \<Rightarrow> string" where
  "pad n s = replicate (n - length s) (CHR ''0'') @ s"

definition join :: "string \<Rightarrow> string list \<Rightarrow> string" where
  "join sep ss = (case ss of [] \<Rightarrow> [] | x # xs \<Rightarrow> x @ concat (map (\<lambda>s. sep @ s) xs))"

text \<open>\<open>s.split(",")\<close>.\<close>

fun split_on :: "char \<Rightarrow> string \<Rightarrow> string list" where
  "split_on c [] = [[]]"
| "split_on c (x # xs) =
     (if x = c then [] # split_on c xs
      else case split_on c xs of [] \<Rightarrow> [[x]] | w # ws \<Rightarrow> (x # w) # ws)"

text \<open>\<open>int(s)\<close> for a decimal literal with an optional sign (no digit-group underscores).\<close>

definition digits_val :: "string \<Rightarrow> int" where
  "digits_val s = foldl (\<lambda>n c. 10 * n + digit_val c) 0 s"

definition parse_int :: "string \<Rightarrow> int option" where
  "parse_int s = (case strip s of
      [] \<Rightarrow> None
    | c # cs \<Rightarrow>
        (if c = CHR ''-'' then (if cs \<noteq> [] \<and> list_all is_digit cs then Some (- digits_val cs) else None)
         else if c = CHR ''+'' then (if cs \<noteq> [] \<and> list_all is_digit cs then Some (digits_val cs) else None)
         else if list_all is_digit (c # cs) then Some (digits_val (c # cs)) else None))"

text \<open>Accented letters of the Spanish texts.\<close>

definition a_acute :: string where "a_acute = [CHR 0xC3, CHR 0xA1]"
definition e_acute :: string where "e_acute = [CHR 0xC3, CHR 0xA9]"
definition i_acute :: string where "i_acute = [CHR 0xC3, CHR 0xAD]"
definition o_acute :: string where "o_acute = [CHR 0xC3, CHR 0xB3]"
definition u_acute :: string where "u_acute = [CHR 0xC3, CHR 0xBA]"
definition n_tilde :: string where "n_tilde = [CHR 0xC3, CHR 0xB1]"
definition em_dash :: string where "em_dash = [CHR 0xE2, CHR 0x80, CHR 0x94]"

section \<open>Unicode\<close>

text \<open>
  Case folding, compatibility forms, combining classes, digits and alphanumerics come from the Unicode character
  database, a table outside the repository: \<open>ucd\<close> is a parameter of what uses it. \<open>ascii_ucd\<close> is
  its restriction to ASCII and the Spanish accents.
\<close>

record ucd =
  uc_casefold :: "nat \<Rightarrow> nat list"
  uc_nfkd :: "nat \<Rightarrow> nat list"
  uc_combining :: "nat \<Rightarrow> bool"
  uc_isdigit :: "nat \<Rightarrow> bool"
  uc_isdecimal :: "nat \<Rightarrow> bool"
  uc_isalnum :: "nat \<Rightarrow> bool"
  uc_nfkc :: "nat list \<Rightarrow> nat list"
  uc_decimal :: "nat \<Rightarrow> int"
  uc_nfd :: "nat \<Rightarrow> nat list"
  uc_mark :: "nat \<Rightarrow> bool"
  uc_punct :: "nat \<Rightarrow> bool"

definition ascii_ucd :: ucd where
  "ascii_ucd = \<lparr>
     uc_casefold = (\<lambda>c. if 65 \<le> c \<and> c \<le> 90 \<or> c \<in> {193, 201, 205, 209, 211, 218} then [c + 32] else [c]),
     uc_nfkd = (\<lambda>c. case map_of [(225, [97, 769]), (233, [101, 769]), (237, [105, 769]),
                  (241, [110, 771]), (243, [111, 769]), (250, [117, 769])] c of
                None \<Rightarrow> [c] | Some cs \<Rightarrow> cs),
     uc_combining = (\<lambda>c. 768 \<le> c \<and> c \<le> 879),
     uc_isdigit = (\<lambda>c. 48 \<le> c \<and> c \<le> 57),
     uc_isdecimal = (\<lambda>c. 48 \<le> c \<and> c \<le> 57),
     uc_isalnum = (\<lambda>c. 48 \<le> c \<and> c \<le> 57 \<or> 65 \<le> c \<and> c \<le> 90 \<or> 97 \<le> c \<and> c \<le> 122),
     uc_nfkc = (\<lambda>cs. cs), uc_decimal = (\<lambda>c. int c - 48),
     uc_nfd = (\<lambda>c. case map_of [(225, [97, 769]), (233, [101, 769]), (237, [105, 769]),
                  (241, [110, 771]), (243, [111, 769]), (250, [117, 769])] c of
                None \<Rightarrow> [c] | Some cs \<Rightarrow> cs),
     uc_mark = (\<lambda>c. 768 \<le> c \<and> c \<le> 879),
     uc_punct = (\<lambda>c. c \<in> {33, 34, 35, 37, 38, 39, 40, 41, 42, 44, 45, 46, 47, 58, 59, 63, 64, 91, 92, 93, 95, 123, 125, 161, 191})\<rparr>"

text \<open>\<open>s.casefold()\<close>, and the text without its accents (canonical decomposition less category Mn).\<close>

definition casefold :: "ucd \<Rightarrow> string \<Rightarrow> string" where
  "casefold u s = utf8_encode (concat (map (uc_casefold u) (utf8_decode s)))"

definition strip_accents :: "ucd \<Rightarrow> string \<Rightarrow> string" where
  "strip_accents u s = utf8_encode (filter (\<lambda>c. \<not> uc_mark u c) (concat (map (uc_nfd u) (utf8_decode s))))"

text \<open>The maximal runs of word characters, as the regular expressions' \<open>\w\<close> and \<open>\b\<close> see them.\<close>

definition word_char :: "ucd \<Rightarrow> nat \<Rightarrow> bool" where
  "word_char u c \<longleftrightarrow> uc_isalnum u c \<or> c = 95"

fun words_from :: "ucd \<Rightarrow> nat list \<Rightarrow> nat list \<Rightarrow> nat list list" where
  "words_from u w [] = (if w = [] then [] else [rev w])"
| "words_from u w (c # cs) =
     (if word_char u c then words_from u (c # w) cs
      else if w = [] then words_from u [] cs else rev w # words_from u [] cs)"

definition words :: "ucd \<Rightarrow> string \<Rightarrow> nat list list" where
  "words u s = words_from u [] (utf8_decode s)"

definition int_of_digits :: "ucd \<Rightarrow> nat list \<Rightarrow> int" where
  "int_of_digits u ds = foldl (\<lambda>n c. 10 * n + uc_decimal u c) 0 ds"

text \<open>\<open>a < b\<close> for strings: UTF-8 bytes compare as code points do.\<close>

fun str_less :: "string \<Rightarrow> string \<Rightarrow> bool" where
  "str_less xs [] = False"
| "str_less [] (y # ys) = True"
| "str_less (x # xs) (y # ys) = ((of_char x :: nat) < of_char y \<or> (x = y \<and> str_less xs ys))"

text \<open>\<open>k in s\<close> for strings.\<close>

fun is_prefix :: "'a list \<Rightarrow> 'a list \<Rightarrow> bool" where
  "is_prefix [] ys = True"
| "is_prefix (x # xs) [] = False"
| "is_prefix (x # xs) (y # ys) = (x = y \<and> is_prefix xs ys)"

fun is_infix :: "'a list \<Rightarrow> 'a list \<Rightarrow> bool" where
  "is_infix k [] = (k = [])"
| "is_infix k (y # ys) = (is_prefix k (y # ys) \<or> is_infix k ys)"

section \<open>JSON\<close>

datatype json =
    JNull
  | JBool bool
  | JInt int
  | JStr string
  | JList "json list"
  | JObj "(string \<times> json) list"

text \<open>\<open>d.get(k)\<close>, \<open>k in d\<close> and \<open>{**d, k: v}\<close> for a value that is an object.\<close>

definition jget :: "string \<Rightarrow> json \<Rightarrow> json" where
  "jget k j = (case j of JObj kvs \<Rightarrow> (case map_of kvs k of None \<Rightarrow> JNull | Some v \<Rightarrow> v) | _ \<Rightarrow> JNull)"

definition jhas :: "string \<Rightarrow> json \<Rightarrow> bool" where
  "jhas k j = (case j of JObj kvs \<Rightarrow> map_of kvs k \<noteq> None | _ \<Rightarrow> False)"

definition jset :: "string \<Rightarrow> json \<Rightarrow> json \<Rightarrow> json" where
  "jset k v j = (case j of JObj kvs \<Rightarrow> JObj (AList.update k v kvs) | _ \<Rightarrow> j)"

definition is_obj :: "json \<Rightarrow> bool" where
  "is_obj j = (case j of JObj _ \<Rightarrow> True | _ \<Rightarrow> False)"

definition is_str :: "json \<Rightarrow> bool" where
  "is_str j = (case j of JStr _ \<Rightarrow> True | _ \<Rightarrow> False)"

text \<open>\<open>type(v) is int\<close>: a bool is not.\<close>

definition is_int :: "json \<Rightarrow> bool" where
  "is_int j = (case j of JInt _ \<Rightarrow> True | _ \<Rightarrow> False)"

lemma json_tests [simp]:
  "is_obj (JObj kvs)" "\<not> is_obj JNull" "\<not> is_obj (JStr s)" "\<not> is_obj (JInt i)"
  "is_str (JStr s)" "\<not> is_str JNull" "\<not> is_str (JInt i)" "\<not> is_str (JObj kvs)"
  "is_int (JInt i)" "\<not> is_int JNull" "\<not> is_int (JStr s)" "\<not> is_int (JBool b)"
  "is_obj (jset k v (JObj kvs))"
  by (simp_all add: is_obj_def is_str_def is_int_def jset_def)

lemma is_intE: "is_int j \<Longrightarrow> (\<And>i. j = JInt i \<Longrightarrow> P) \<Longrightarrow> P"
  by (cases j) (auto simp: is_int_def)

lemma is_strE: "is_str j \<Longrightarrow> (\<And>s. j = JStr s \<Longrightarrow> P) \<Longrightarrow> P"
  by (cases j) (auto simp: is_str_def)

lemma is_objE: "is_obj j \<Longrightarrow> (\<And>kvs. j = JObj kvs \<Longrightarrow> P) \<Longrightarrow> P"
  by (cases j) (auto simp: is_obj_def)

lemma jget_jset:
  "is_obj j \<Longrightarrow> jget k (jset k' v j) = (if k = k' then v else jget k j)"
  by (auto elim!: is_objE simp: jget_def jset_def update_conv)

lemma jget_JObj: "jget k (JObj kvs) = (case map_of kvs k of None \<Rightarrow> JNull | Some v \<Rightarrow> v)"
  by (simp add: jget_def)

text \<open>\<open>bool(v)\<close>.\<close>

fun truthy :: "json \<Rightarrow> bool" where
  "truthy JNull = False"
| "truthy (JBool b) = b"
| "truthy (JInt i) = (i \<noteq> 0)"
| "truthy (JStr s) = (s \<noteq> [])"
| "truthy (JList xs) = (xs \<noteq> [])"
| "truthy (JObj kvs) = (kvs \<noteq> [])"

text \<open>\<open>str(v)\<close>; \<open>rp\<close> is the interpreter's \<open>repr\<close> of a list or dict.\<close>

definition py_str :: "(json \<Rightarrow> string) \<Rightarrow> json \<Rightarrow> string" where
  "py_str rp j = (case j of JNull \<Rightarrow> ''None'' | JBool b \<Rightarrow> (if b then ''True'' else ''False'')
     | JInt i \<Rightarrow> show_int i | JStr s \<Rightarrow> s | _ \<Rightarrow> rp j)"

definition opt_json :: "('a \<Rightarrow> json) \<Rightarrow> 'a option \<Rightarrow> json" where
  "opt_json f x = (case x of None \<Rightarrow> JNull | Some v \<Rightarrow> f v)"

section \<open>Instants, dates and times of day\<close>

text \<open>
  An instant is the number of microseconds since 0001-01-01T00:00Z, a date its proleptic
  Gregorian ordinal (\<open>date.toordinal()\<close>), a time of day the microseconds since midnight. The zone
  America/Bogota is five hours behind UTC with no daylight saving, as it has been since 1993.
\<close>

type_synonym instant = int
type_synonym date = int
type_synonym tod = int

text \<open>A \<open>datetime\<close> is naive, or aware: an instant seen at an offset from UTC.\<close>

datatype datetime = Naive int | Aware instant int

definition datetime_add :: "datetime \<Rightarrow> int \<Rightarrow> datetime" where
  "datetime_add t us = (case t of Naive l \<Rightarrow> Naive (l + us) | Aware i off \<Rightarrow> Aware (i + us) off)"

definition us_second :: int where "us_second = 1000000"
definition us_minute :: int where "us_minute = 60 * us_second"
definition us_hour :: int where "us_hour = 60 * us_minute"
definition us_day :: int where "us_day = 24 * us_hour"
definition bogota_offset :: int where "bogota_offset = - 5 * us_hour"

lemmas us_defs = us_second_def us_minute_def us_hour_def us_day_def bogota_offset_def

definition seconds :: "int \<Rightarrow> int" where "seconds n = n * us_second"
definition minutes :: "int \<Rightarrow> int" where "minutes n = n * us_minute"
definition hours :: "int \<Rightarrow> int" where "hours n = n * us_hour"
definition days :: "int \<Rightarrow> int" where "days n = n * us_day"

definition bogota_date :: "instant \<Rightarrow> date" where
  "bogota_date t = (t + bogota_offset) div us_day + 1"

definition bogota_time :: "instant \<Rightarrow> tod" where
  "bogota_time t = (t + bogota_offset) mod us_day"

text \<open>\<open>datetime.combine(d, tod, tzinfo=BOGOTA)\<close>.\<close>

definition bogota_instant :: "date \<Rightarrow> tod \<Rightarrow> instant" where
  "bogota_instant d tm = (d - 1) * us_day + tm - bogota_offset"

definition at_hour :: "int \<Rightarrow> tod" where
  "at_hour h = h * us_hour"

text \<open>Monday is 0.\<close>

definition weekday :: "date \<Rightarrow> int" where
  "weekday d = (d + 6) mod 7"

lemma us_day_pos [simp]: "0 < us_day" "us_day \<noteq> 0"
  by (simp_all add: us_defs)

lemma bogota_date_instant [simp]:
  "0 \<le> tm \<Longrightarrow> tm < us_day \<Longrightarrow> bogota_date (bogota_instant d tm) = d"
  by (simp add: bogota_date_def bogota_instant_def)

lemma bogota_time_instant [simp]:
  "0 \<le> tm \<Longrightarrow> tm < us_day \<Longrightarrow> bogota_time (bogota_instant d tm) = tm"
  by (simp add: bogota_time_def bogota_instant_def)

lemma bogota_instant_of [simp]: "bogota_instant (bogota_date t) (bogota_time t) = t"
  by (simp add: bogota_date_def bogota_time_def bogota_instant_def)

lemma bogota_time_bounds: "0 \<le> bogota_time t" "bogota_time t < us_day"
  by (simp_all add: bogota_time_def)

text \<open>\<open>time.fromisoformat\<close> on the form \<open>HH:MM\<close>, the only one the settings' patterns admit.\<close>

definition parse_hhmm :: "string \<Rightarrow> tod option" where
  "parse_hhmm s = (case s of
      [a, b, c, d, e] \<Rightarrow>
        (let h = 10 * digit_val a + digit_val b; m = 10 * digit_val d + digit_val e in
         if is_digit a \<and> is_digit b \<and> c = CHR '':'' \<and> is_digit d \<and> is_digit e \<and> h < 24 \<and> m < 60
         then Some (h * us_hour + m * us_minute) else None)
    | _ \<Rightarrow> None)"

section \<open>ISO renderings\<close>

definition is_leap :: "int \<Rightarrow> bool" where
  "is_leap y \<longleftrightarrow> y mod 4 = 0 \<and> (y mod 100 \<noteq> 0 \<or> y mod 400 = 0)"

definition days_before_year :: "int \<Rightarrow> int" where
  "days_before_year y = (let p = y - 1 in p * 365 + p div 4 - p div 100 + p div 400)"

definition month_table :: "(int \<times> int) list" where
  "month_table = [(1, 0), (2, 31), (3, 59), (4, 90), (5, 120), (6, 151), (7, 181), (8, 212),
     (9, 243), (10, 273), (11, 304), (12, 334)]"

definition days_before_month :: "int \<Rightarrow> int \<Rightarrow> int" where
  "days_before_month y m =
     (case map_of month_table m of None \<Rightarrow> 0 | Some n \<Rightarrow> n) + (if m > 2 \<and> is_leap y then 1 else 0)"

text \<open>\<open>date.fromordinal\<close>: four-hundred, hundred, four and one year cycles, then the month.\<close>

definition ymd_of_date :: "date \<Rightarrow> int \<times> int \<times> int" where
  "ymd_of_date d =
     (let n = d - 1; n400 = n div 146097; a = n mod 146097;
          n100 = a div 36524; b = a mod 36524;
          n4 = b div 1461; c = b mod 1461;
          n1 = c div 365; r = c mod 365;
          y = n400 * 400 + 1 + n100 * 100 + n4 * 4 + n1
      in if n1 = 4 \<or> n100 = 4 then (y - 1, 12, 31)
         else let m = (r + 50) div 32;
                  m' = (if days_before_month y m > r then m - 1 else m)
              in (y, m', r - days_before_month y m' + 1))"

definition date_iso :: "date \<Rightarrow> string" where
  "date_iso d = (case ymd_of_date d of (y, m, dd) \<Rightarrow>
     pad 4 (show_int y) @ ''-'' @ pad 2 (show_int m) @ ''-'' @ pad 2 (show_int dd))"

text \<open>\<open>datetime.isoformat()\<close> of an instant in UTC.\<close>

definition instant_iso :: "instant \<Rightarrow> string" where
  "instant_iso t =
     (let d = t div us_day + 1; s = t mod us_day; us = s mod us_second in
      date_iso d @ ''T'' @ pad 2 (show_int (s div us_hour)) @ '':''
        @ pad 2 (show_int (s mod us_hour div us_minute)) @ '':''
        @ pad 2 (show_int (s mod us_minute div us_second))
        @ (if us = 0 then [] else ''.'' @ pad 6 (show_int us)) @ ''+00:00'')"

text \<open>\<open>time.strftime("%H:%M")\<close>.\<close>

definition hhmm :: "tod \<Rightarrow> string" where
  "hhmm t = pad 2 (show_int (t div us_hour)) @ '':'' @ pad 2 (show_int (t mod us_hour div us_minute))"

section \<open>The calendar\<close>

definition days_in_month :: "int \<Rightarrow> int \<Rightarrow> int" where
  "days_in_month y m = (if m = 2 then (if is_leap y then 29 else 28) else if m \<in> {4, 6, 9, 11} then 30 else 31)"

text \<open>\<open>date(year, month, day)\<close>; \<open>None\<close> is its ValueError.\<close>

definition make_date :: "int \<Rightarrow> int \<Rightarrow> int \<Rightarrow> date option" where
  "make_date y m d =
     (if 1 \<le> y \<and> y \<le> 9999 \<and> 1 \<le> m \<and> m \<le> 12 \<and> 1 \<le> d \<and> d \<le> days_in_month y m
      then Some (days_before_year y + days_before_month y m + d) else None)"

lemma month_cases:
  fixes m :: int
  assumes "1 \<le> m" "m \<le> 12"
  obtains "m = 1" | "m = 2" | "m = 3" | "m = 4" | "m = 5" | "m = 6" | "m = 7" | "m = 8" | "m = 9" | "m = 10"
    | "m = 11" | "m = 12"
proof -
  have "m = 1 \<or> m = 2 \<or> m = 3 \<or> m = 4 \<or> m = 5 \<or> m = 6 \<or> m = 7 \<or> m = 8 \<or> m = 9 \<or> m = 10 \<or> m = 11 \<or> m = 12"
    using assms by presburger
  with that show ?thesis by blast
qed

lemma days_before_next_month:
  assumes "1 \<le> m" "m < 12"
  shows "days_before_month y (m + 1) = days_before_month y m + days_in_month y m"
proof -
  from assms have "1 \<le> m" "m \<le> 12" by simp_all
  then show ?thesis
    using assms(2) by (cases m rule: month_cases) (simp_all add: days_before_month_def month_table_def days_in_month_def)
qed

lemma div_pred:
  fixes y k :: int
  assumes "0 < k"
  shows "y div k = (y - 1) div k + (if y mod k = 0 then 1 else 0)"
proof (cases "y mod k = 0")
  case True
  have "y - 1 = k * (y div k - 1) + (k - 1)" using True mult_div_mod_eq [of k y] by (simp add: algebra_simps)
  then have "(y - 1) div k = y div k - 1" by (rule int_div_pos_eq) (use assms in simp_all)
  with True show ?thesis by simp
next
  case False
  have "y - 1 = k * (y div k) + (y mod k - 1)" using mult_div_mod_eq [of k y] by simp
  then have "(y - 1) div k = y div k"
    by (rule int_div_pos_eq) (use assms False pos_mod_sign [of k y] pos_mod_bound [of k y] in linarith)+
  with False show ?thesis by simp
qed

lemma leap_count:
  fixes y :: int
  assumes "p100 \<Longrightarrow> p4" "p400 \<Longrightarrow> p100" "a4 = b4 + (if p4 then 1 else 0)" "a100 = b100 + (if p100 then 1 else 0)"
    "a400 = b400 + (if p400 then 1 else 0)"
  shows "y * 365 + a4 - a100 + a400 =
    (y - 1) * 365 + b4 - b100 + b400 + 365 + (if p4 \<and> (\<not> p100 \<or> p400) then 1 else 0)"
  using assms by (cases p4; cases p100; cases p400) simp_all

lemma days_before_next_year: "days_before_year (y + 1) = days_before_year y + 365 + (if is_leap y then 1 else 0)"
proof -
  have m: "y mod 100 = 0 \<Longrightarrow> y mod 4 = 0" "y mod 400 = 0 \<Longrightarrow> y mod 100 = 0"
    by (auto simp: mod_eq_0_iff_dvd elim: dvd_trans [rotated])
  have "days_before_year (y + 1) = y * 365 + y div 4 - y div 100 + y div 400" by (simp add: days_before_year_def)
  also have "\<dots> = (y - 1) * 365 + (y - 1) div 4 - (y - 1) div 100 + (y - 1) div 400 + 365 +
      (if y mod 4 = 0 \<and> (\<not> y mod 100 = 0 \<or> y mod 400 = 0) then 1 else 0)"
    by (rule leap_count [OF m]) (assumption | rule div_pred, simp)+
  also have "\<dots> = days_before_year y + 365 + (if is_leap y then 1 else 0)"
    by (simp only: days_before_year_def is_leap_def Let_def)
  finally show ?thesis .
qed

lemma december: "days_before_month y 12 + days_in_month y 12 = 365 + (if is_leap y then 1 else 0)"
  by (simp add: days_before_month_def month_table_def days_in_month_def)

text \<open>\<open>date.fromordinal\<close> undoes the count of days.\<close>

lemma days_before_cycles:
  assumes "0 \<le> n100" "n100 \<le> 3" "0 \<le> n4" "n4 \<le> 24" "0 \<le> n1" "n1 \<le> 3"
  shows "days_before_year (n400 * 400 + 1 + n100 * 100 + n4 * 4 + n1) =
    n400 * 146097 + n100 * 36524 + n4 * 1461 + n1 * 365"
proof -
  let ?p = "n400 * 400 + n100 * 100 + n4 * 4 + n1"
  have "?p div 4 = n400 * 100 + n100 * 25 + n4" by (rule int_div_pos_eq [where r = n1]) (use assms in simp_all)
  moreover have "?p div 100 = n400 * 4 + n100"
    by (rule int_div_pos_eq [where r = "n4 * 4 + n1"]) (use assms in simp_all)
  moreover have "?p div 400 = n400"
    by (rule int_div_pos_eq [where r = "n100 * 100 + n4 * 4 + n1"]) (use assms in simp_all)
  ultimately show ?thesis by (simp add: days_before_year_def Let_def algebra_simps)
qed

lemma month_estimate:
  fixes r y :: int
  assumes "0 \<le> r" "r < 365"
  defines "m \<equiv> (r + 50) div 32"
  defines "k \<equiv> (if days_before_month y m > r then m - 1 else m)"
  shows "1 \<le> k \<and> k \<le> 12 \<and> days_before_month y k \<le> r \<and> r < days_before_month y k + days_in_month y k"
proof -
  have lo: "1 \<le> m" and hi: "m \<le> 12" using assms(1,2) by (simp_all add: m_def)
  have r: "m * 32 - 50 \<le> r" "r < m * 32 - 18" using assms(1,2) by (simp_all add: m_def)
  show ?thesis
    using lo hi
    by (cases m rule: month_cases)
      (use r assms(1,2) in \<open>simp_all add: k_def days_before_month_def month_table_def days_in_month_def\<close>)
qed

lemma ymd_of_date_valid:
  assumes "ymd_of_date t = (y, m, d)" "1 \<le> t"
  shows "1 \<le> y \<and> 1 \<le> m \<and> m \<le> 12 \<and> 1 \<le> d \<and> d \<le> days_in_month y m \<and>
    t = days_before_year y + days_before_month y m + d"
proof -
  define n where "n = t - 1"
  define a where "a = n mod 146097"
  define b where "b = a mod 36524"
  define c where "c = b mod 1461"
  define r where "r = c mod 365"
  define n400 where "n400 = n div 146097"
  define n100 where "n100 = a div 36524"
  define n4 where "n4 = b div 1461"
  define n1 where "n1 = c div 365"
  define y0 where "y0 = n400 * 400 + 1 + n100 * 100 + n4 * 4 + n1"
  have n: "n = n400 * 146097 + n100 * 36524 + n4 * 1461 + n1 * 365 + r"
    by (simp add: n400_def n100_def n4_def n1_def r_def c_def b_def a_def)
  have "0 \<le> n" using assms(2) by (simp add: n_def)
  then have g0: "0 \<le> n400" by (simp add: n400_def)
  have ra: "0 \<le> a" "a < 146097" by (simp_all add: a_def)
  have rb: "0 \<le> b" "b < 36524" by (simp_all add: b_def)
  have rc: "0 \<le> c" "c < 1461" by (simp_all add: c_def)
  have rr: "0 \<le> r" "r < 365" by (simp_all add: r_def)
  have g: "0 \<le> n100" "n100 \<le> 4" "0 \<le> n4" "n4 \<le> 24" "0 \<le> n1" "n1 \<le> 4"
    using ra rb rc by (simp_all add: n100_def n4_def n1_def)
  have e100: "n100 = 4 \<Longrightarrow> b = 0"
    using ra mult_div_mod_eq [of 36524 a] pos_mod_sign [of 36524 a] by (simp add: n100_def b_def)
  have e4: "n1 = 4 \<Longrightarrow> r = 0"
    using rc mult_div_mod_eq [of 365 c] pos_mod_sign [of 365 c] by (simp add: n1_def r_def)
  have ymd: "(y, m, d) = (if n1 = 4 \<or> n100 = 4 then (y0 - 1, 12, 31)
      else let k = (if days_before_month y0 ((r + 50) div 32) > r then (r + 50) div 32 - 1 else (r + 50) div 32)
           in (y0, k, r - days_before_month y0 k + 1))"
    unfolding assms(1) [symmetric] ymd_of_date_def Let_def y0_def n400_def n100_def n4_def n1_def r_def c_def
      b_def a_def n_def by simp
  show ?thesis
  proof (cases "n1 = 4 \<or> n100 = 4")
    case False
    then have k: "days_before_year y0 = n400 * 146097 + n100 * 36524 + n4 * 1461 + n1 * 365"
      unfolding y0_def using g by (intro days_before_cycles) simp_all
    from False ymd month_estimate [OF rr, of y0] have "y = y0" "1 \<le> m" "m \<le> 12" "d = r - days_before_month y0 m + 1"
      "days_before_month y0 m \<le> r" "r < days_before_month y0 m + days_in_month y0 m"
      by (simp_all add: Let_def)
    moreover have "1 \<le> y0" using g g0 by (simp add: y0_def)
    ultimately show ?thesis using n k by (simp add: n_def)
  next
    case True
    then have eq: "y = y0 - 1" "m = 12" "d = 31" using ymd by simp_all
    have dec: "days_before_month y 12 = 334 + (if is_leap y then 1 else 0)" "days_in_month y 12 = 31"
      by (simp_all add: days_before_month_def month_table_def days_in_month_def)
    have "is_leap y \<and> days_before_year y = n - 365 \<and> 1 \<le> y"
    proof (cases "n100 = 4")
      case True
      with e100 have z: "b = 0" by simp
      then have zz: "n4 = 0" "n1 = 0" "r = 0" by (simp_all add: n4_def n1_def r_def c_def)
      have yy: "y = n400 * 400 + 1 + 3 * 100 + 24 * 4 + 3" using True zz eq by (simp add: y0_def)
      have "days_before_year y = n400 * 146097 + 3 * 36524 + 24 * 1461 + 3 * 365"
        unfolding yy by (rule days_before_cycles) simp_all
      moreover have "y = (n400 + 1) * 400" using yy by simp
      ultimately show ?thesis using n True zz g0 by (simp add: is_leap_def)
    next
      case False
      with True e4 have z: "n1 = 4" "r = 0" by simp_all
      then have "c \<ge> 1460" using rc by (simp add: n1_def) 
      then have n4: "n4 \<le> 23" using rb mult_div_mod_eq [of 1461 b] unfolding c_def n4_def by linarith
      have n3: "n100 \<le> 3" using False g by simp
      have yy: "y = n400 * 400 + 1 + n100 * 100 + n4 * 4 + 3" using z eq by (simp add: y0_def)
      have "days_before_year y = n400 * 146097 + n100 * 36524 + n4 * 1461 + 3 * 365"
        unfolding yy by (rule days_before_cycles) (use g n4 n3 in simp_all)
      moreover have "is_leap y"
      proof -
        have "y = (n400 * 100 + n100 * 25 + n4 + 1) * 4" using yy by simp
        then have "y mod 4 = 0" by simp
        moreover have "y mod 100 = n4 * 4 + 4"
          by (rule int_mod_pos_eq [where q = "n400 * 4 + n100"]) (use yy g n4 in simp_all)
        ultimately show ?thesis using g by (simp add: is_leap_def)
      qed
      ultimately show ?thesis using n z g g0 yy by simp
    qed
    with eq dec show ?thesis by (simp add: n_def)
  qed
qed

end
