(* ===== verification/Schema_Conversation.thy ===== *)
theory Schema_Conversation
  imports Py_Values
begin

text \<open>
  The rows of the conversational tables: \<open>app/customer/models.py\<close>, \<open>app/conversation/models.py\<close>,
  \<open>app/conversation/states.py\<close>, \<open>app/handoff/models.py\<close>, \<open>app/agent/models.py\<close>,
  \<open>app/channel/models.py\<close> and \<open>app/audit/models.py\<close>. Columns whose CHECK constraint or validator admits a fixed list of
  strings are datatypes; \<open>*_str\<close> gives the stored string. Each \<open>*_ck\<close> is the conjunction of the
  table's CHECK constraints that a datatype does not already enforce. The single-valued column
  \<open>channel\<close> ('WHATSAPP') and the \<open>updated_at\<close> columns the server maintains are left out.
\<close>

section \<open>Conversation\<close>

datatype conversation_state =
    NEW | BOT_ACTIVE | ANSWERING_INFORMATION | COLLECTING_EVENT_DATA | QUOTE_REQUEST_READY
  | WAITING_FOR_APPOINTMENT_DATE | WAITING_FOR_APPOINTMENT_SELECTION
  | APPOINTMENT_PENDING_CONFIRMATION | APPOINTMENT_CONFIRMED | WAITING_FOR_HUMAN
  | HUMAN_ACTIVE | RETURNED_TO_BOT | RESOLVED | CLOSED

fun conversation_state_str :: "conversation_state \<Rightarrow> string" where
  "conversation_state_str NEW = ''NEW''"
| "conversation_state_str BOT_ACTIVE = ''BOT_ACTIVE''"
| "conversation_state_str ANSWERING_INFORMATION = ''ANSWERING_INFORMATION''"
| "conversation_state_str COLLECTING_EVENT_DATA = ''COLLECTING_EVENT_DATA''"
| "conversation_state_str QUOTE_REQUEST_READY = ''QUOTE_REQUEST_READY''"
| "conversation_state_str WAITING_FOR_APPOINTMENT_DATE = ''WAITING_FOR_APPOINTMENT_DATE''"
| "conversation_state_str WAITING_FOR_APPOINTMENT_SELECTION = ''WAITING_FOR_APPOINTMENT_SELECTION''"
| "conversation_state_str APPOINTMENT_PENDING_CONFIRMATION = ''APPOINTMENT_PENDING_CONFIRMATION''"
| "conversation_state_str APPOINTMENT_CONFIRMED = ''APPOINTMENT_CONFIRMED''"
| "conversation_state_str WAITING_FOR_HUMAN = ''WAITING_FOR_HUMAN''"
| "conversation_state_str HUMAN_ACTIVE = ''HUMAN_ACTIVE''"
| "conversation_state_str RETURNED_TO_BOT = ''RETURNED_TO_BOT''"
| "conversation_state_str RESOLVED = ''RESOLVED''"
| "conversation_state_str CLOSED = ''CLOSED''"

definition all_states :: "conversation_state list" where
  "all_states = [NEW, BOT_ACTIVE, ANSWERING_INFORMATION, COLLECTING_EVENT_DATA, QUOTE_REQUEST_READY,
     WAITING_FOR_APPOINTMENT_DATE, WAITING_FOR_APPOINTMENT_SELECTION,
     APPOINTMENT_PENDING_CONFIRMATION, APPOINTMENT_CONFIRMED, WAITING_FOR_HUMAN,
     HUMAN_ACTIVE, RETURNED_TO_BOT, RESOLVED, CLOSED]"

lemma all_states_complete: "s \<in> set all_states"
  by (cases s) (simp_all add: all_states_def)

text \<open>\<open>ConversationState(text)\<close>: the member with that value, or ValueError.\<close>

definition conversation_state_of :: "string \<Rightarrow> conversation_state option" where
  "conversation_state_of t = find (\<lambda>s. conversation_state_str s = t) all_states"

lemma conversation_state_of_str [simp]: "conversation_state_of (conversation_state_str s) = Some s"
  by (cases s) (simp_all add: conversation_state_of_def all_states_def)

record customer =
  cu_id :: int
  cu_phone_number :: string
  cu_full_name :: "string option"

record conversation =
  cv_id :: int
  cv_customer_id :: int
  cv_state :: conversation_state
  cv_last_intent :: "string option"
  cv_pending_action :: "string option"
  cv_pending_fields :: "string list"
  cv_pending_confirmation :: "json option"
  cv_visit_draft :: "json option"
  cv_booking_draft :: "json option"
  cv_last_question_code :: "string option"
  cv_active_lead_id :: "uuid option"
  cv_failed_understanding_count :: int
  cv_services_failed_understanding_count :: "int option"
  cv_bot_enabled :: bool
  cv_automation_epoch :: uuid
  cv_assigned_agent_id :: "int option"

text \<open>A version of an answer template; only the latest version of a code is ever sent.\<close>

record knowledge_entry =
  ke_code :: string
  ke_version :: int
  ke_status :: string
  ke_answer_template :: string
  ke_allowed_variables :: "string list"

section \<open>Handoff\<close>

datatype handoff_status = HO_PENDING | HO_TAKEN | HO_RETURNED | HO_RESOLVED
datatype handoff_priority = HO_NORMAL | HO_URGENT | HO_CRITICAL

fun priority_str :: "handoff_priority \<Rightarrow> string" where
  "priority_str HO_NORMAL = ''NORMAL''"
| "priority_str HO_URGENT = ''URGENT''"
| "priority_str HO_CRITICAL = ''CRITICAL''"

record handoff =
  ho_id :: int
  ho_conversation_id :: int
  ho_status :: handoff_status
  ho_reason :: string
  ho_priority :: handoff_priority
  ho_summary :: string
  ho_assigned_to :: "string option"
  ho_assigned_agent_id :: "int option"
  ho_taken_at :: "instant option"
  ho_resolved_at :: "instant option"

section \<open>Staff accounts\<close>

datatype agent_role = ROLE_ADMIN | ROLE_AGENT

fun agent_role_str :: "agent_role \<Rightarrow> string" where
  "agent_role_str ROLE_ADMIN = ''ADMIN''"
| "agent_role_str ROLE_AGENT = ''AGENT''"

record agent =
  ag_id :: int
  ag_name :: string
  ag_document_id :: "string option"
  ag_password_hash :: "string option"
  ag_role :: agent_role
  ag_active :: bool
  ag_created_at :: instant

record agent_session =
  se_id :: int
  se_agent_id :: int
  se_token_hash :: string
  se_created_at :: instant
  se_expires_at :: instant
  se_revoked_at :: "instant option"

section \<open>Channel: messages, outbox, inbox\<close>

record message =
  ms_id :: int
  ms_external_message_id :: string
  ms_conversation_id :: int
  ms_customer_id :: int
  ms_direction :: string
  ms_message_type :: string
  ms_content :: json
  ms_provider_timestamp :: "instant option"

datatype message_kind = KIND_TEXT | KIND_DOCUMENT

datatype outbox_status = OB_PENDING | OB_SENDING | OB_SENT | OB_FAILED | OB_SUPPRESSED | OB_REVIEW

fun outbox_status_str :: "outbox_status \<Rightarrow> string" where
  "outbox_status_str OB_PENDING = ''PENDING''"
| "outbox_status_str OB_SENDING = ''SENDING''"
| "outbox_status_str OB_SENT = ''SENT''"
| "outbox_status_str OB_FAILED = ''FAILED''"
| "outbox_status_str OB_SUPPRESSED = ''SUPPRESSED''"
| "outbox_status_str OB_REVIEW = ''REVIEW''"

record outbox =
  ob_id :: int
  ob_conversation_id :: int
  ob_message_id :: int
  ob_recipient_phone_number :: string
  ob_payload :: json
  ob_message_kind :: message_kind
  ob_catalog_asset_id :: "uuid option"
  ob_status :: outbox_status
  ob_attempts :: nat
  ob_last_error :: "string option"
  ob_sent_at :: "instant option"
  ob_next_attempt_at :: "instant option"
  ob_claimed_at :: "instant option"
  ob_claim_token :: "uuid option"
  ob_delivery_context :: "json option"
  ob_send_admission :: "json option"
  ob_delivery_reason :: "string option"
  ob_delivery_decided_at :: "instant option"
  ob_created_at :: instant

definition outbox_ck :: "outbox \<Rightarrow> bool" where
  "outbox_ck r \<longleftrightarrow> (ob_message_kind r = KIND_DOCUMENT \<longrightarrow> ob_catalog_asset_id r \<noteq> None)"

record provider_status =
  mp_provider_message_id :: string
  mp_message_id :: "int option"
  mp_status :: string
  mp_recipient_id :: "string option"
  mp_provider_timestamp :: "instant option"
  mp_payload :: json

datatype webhook_status =
    WE_RECEIVED | WE_FAILED | WE_PREPARED | WE_PROCESSED | WE_EXHAUSTED | WE_REVIEW

record webhook_event =
  we_id :: int
  we_payload :: json
  we_status :: webhook_status
  we_error :: "string option"
  we_request_id :: "string option"
  we_intake_version :: "int option"
  we_ingest_attempts :: nat
  we_next_attempt_at :: "instant option"
  we_processed_at :: "instant option"

datatype inbox_status =
    IJ_PENDING | IJ_PROCESSING | IJ_EXTERNAL | IJ_COMPLETED | IJ_FAILED | IJ_REVIEW

record inbox_job =
  ij_id :: int
  ij_message_id :: int
  ij_conversation_id :: int
  ij_status :: inbox_status
  ij_origin :: string
  ij_attempts :: nat
  ij_claim_token :: "uuid option"
  ij_claimed_at :: "instant option"
  ij_next_attempt_at :: "instant option"
  ij_completed_at :: "instant option"
  ij_last_error :: "string option"
  ij_completion_reason :: "string option"
  ij_request_id :: "string option"
  ij_external_operation :: "string option"
  ij_external_result :: "json option"

text \<open>\<open>ck_inbox_job_owner\<close>: exactly the claimed statuses carry a claim token.\<close>

definition inbox_job_ck :: "inbox_job \<Rightarrow> bool" where
  "inbox_job_ck j \<longleftrightarrow>
     (ij_status j \<in> {IJ_PROCESSING, IJ_EXTERNAL} \<and> ij_claim_token j \<noteq> None) \<or>
     (ij_status j \<notin> {IJ_PROCESSING, IJ_EXTERNAL} \<and> ij_claim_token j = None)"

section \<open>Audit\<close>

record audit_event =
  ae_actor :: string
  ae_action :: string
  ae_entity :: string
  ae_old_value :: "json option"
  ae_new_value :: "json option"
  ae_reason :: string
  ae_request_id :: "string option"
  ae_created_at :: instant
  ae_id :: int

end
