(* ===== verification/Schema_Booking.thy ===== *)
theory Schema_Booking
  imports Py_Values
begin

text \<open>
  The rows of the booking, payment, visit and notification tables: \<open>app/plan/models.py\<close>,
  \<open>app/event/models.py\<close>, \<open>app/reservation/models.py\<close>, \<open>app/payment/models.py\<close>,
  \<open>app/appointment/models.py\<close>, \<open>app/notifications/models.py\<close> and \<open>app/ai/models.py\<close>, with their
  CHECK constraints as \<open>*_ck\<close> predicates.
\<close>

section \<open>Plans and events\<close>

record plan =
  pl_id :: uuid
  pl_code :: string
  pl_name :: string
  pl_event_type :: string
  pl_price_cop :: int
  pl_duration_minutes :: int
  pl_exclusive :: bool
  pl_weekend_only :: bool
  pl_overnight :: bool
  pl_checkin_from :: "tod option"
  pl_checkout_time :: "tod option"
  pl_active :: bool
  pl_sort_order :: int

definition plan_ck :: "plan \<Rightarrow> bool" where
  "plan_ck p \<longleftrightarrow>
     pl_event_type p \<in> {''ROMANTIC_DINNER'', ''PROPOSAL''} \<and> 0 < pl_price_cop p \<and>
     0 < pl_duration_minutes p \<and>
     (pl_overnight p \<longrightarrow> pl_checkin_from p \<noteq> None \<and> pl_checkout_time p \<noteq> None)"

text \<open>
  \<open>app/lead/models.py\<close>. A \<open>Decimal\<close> is its integer coefficient and the number of digits after the point:
  \<open>(45, 1)\<close> is 4.5, and differs from \<open>(450, 2)\<close> in its text only.
\<close>

type_synonym decimal = "int \<times> nat"

record lead =
  ld_id :: uuid
  ld_customer_id :: int
  ld_status :: string
  ld_estimated_budget :: "decimal option"
  ld_budget_range :: string
  ld_budget_data_status :: string

record event_row =
  ev_id :: uuid
  ev_lead_id :: uuid
  ev_event_type :: "string option"
  ev_event_type_other :: "string option"
  ev_plan_id :: "uuid option"
  ev_event_date :: "date option"
  ev_event_month :: "string option"
  ev_event_date_type :: "string option"
  ev_event_date_raw :: "string option"
  ev_guest_count :: "int option"
  ev_guest_count_min :: "int option"
  ev_guest_count_max :: "int option"
  ev_guest_count_status :: "string option"
  ev_special_requests :: "string option"
  ev_created_at :: instant

record service_request =
  es_id :: uuid
  es_event_id :: uuid
  es_service_name :: string
  es_status :: string
  es_position :: "int option"
  es_created_at :: instant

text \<open>\<open>app/quote/models.py\<close>.\<close>

record quote_request =
  qr_id :: uuid
  qr_lead_id :: uuid
  qr_event_id :: uuid
  qr_request_status :: string
  qr_minimum_data_complete :: bool
  qr_missing_fields :: "string list"
  qr_date_pending :: bool
  qr_summary_snapshot :: json
  qr_requested_at :: "instant option"
  qr_due_at :: "instant option"

section \<open>Reservations\<close>

datatype reservation_status =
    RV_PAYMENT_PENDING | RV_PAYMENT_REVIEW | RV_RESERVED | RV_EXPIRED | RV_CANCELLED

fun reservation_status_str :: "reservation_status \<Rightarrow> string" where
  "reservation_status_str RV_PAYMENT_PENDING = ''PAYMENT_PENDING''"
| "reservation_status_str RV_PAYMENT_REVIEW = ''PAYMENT_REVIEW''"
| "reservation_status_str RV_RESERVED = ''RESERVED''"
| "reservation_status_str RV_EXPIRED = ''EXPIRED''"
| "reservation_status_str RV_CANCELLED = ''CANCELLED''"

datatype payment_kind = PK_DEPOSIT | PK_FULL

fun payment_kind_str :: "payment_kind \<Rightarrow> string" where
  "payment_kind_str PK_DEPOSIT = ''DEPOSIT''"
| "payment_kind_str PK_FULL = ''FULL''"

datatype calendar_status = CAL_NONE | CAL_CONFIRMED

record reservation =
  rv_id :: uuid
  rv_lead_id :: uuid
  rv_event_id :: uuid
  rv_plan_id :: uuid
  rv_conversation_id :: "int option"
  rv_customer_id :: int
  rv_status :: reservation_status
  rv_starts_at :: instant
  rv_ends_at :: instant
  rv_price_cop :: int
  rv_amount_paid_cop :: int
  rv_payment_kind :: "payment_kind option"
  rv_balance_due_at :: "instant option"
  rv_balance_overdue_at :: "instant option"
  rv_hold_expires_at :: "instant option"
  rv_external_calendar_id :: "string option"
  rv_calendar_status :: calendar_status
  rv_created_at :: instant

definition reservation_ck :: "reservation \<Rightarrow> bool" where
  "reservation_ck r \<longleftrightarrow>
     0 < rv_price_cop r \<and> 0 \<le> rv_amount_paid_cop r \<and> rv_starts_at r < rv_ends_at r"

section \<open>Payment evidence\<close>

datatype download_status = DL_PENDING | DL_DOWNLOADED | DL_FAILED_RETRYABLE | DL_FAILED_PERMANENT
datatype review_status = RW_PENDING_REVIEW | RW_ACCEPTED | RW_REJECTED

fun download_status_str :: "download_status \<Rightarrow> string" where
  "download_status_str DL_PENDING = ''PENDING''"
| "download_status_str DL_DOWNLOADED = ''DOWNLOADED''"
| "download_status_str DL_FAILED_RETRYABLE = ''FAILED_RETRYABLE''"
| "download_status_str DL_FAILED_PERMANENT = ''FAILED_PERMANENT''"

fun review_status_str :: "review_status \<Rightarrow> string" where
  "review_status_str RW_PENDING_REVIEW = ''PENDING_REVIEW''"
| "review_status_str RW_ACCEPTED = ''ACCEPTED''"
| "review_status_str RW_REJECTED = ''REJECTED''"

record evidence =
  pe_id :: int
  pe_conversation_id :: int
  pe_customer_id :: int
  pe_message_id :: int
  pe_media_id :: string
  pe_mime_type :: string
  pe_declared_sha256 :: string
  pe_storage_path :: "string option"
  pe_verified_sha256 :: "string option"
  pe_size_bytes :: "int option"
  pe_download_status :: download_status
  pe_download_attempts :: nat
  pe_next_attempt_at :: "instant option"
  pe_prereview_claim_token :: "uuid option"
  pe_prereview_claimed_at :: "instant option"
  pe_review_status :: review_status
  pe_reviewed_by_agent_id :: "int option"
  pe_reviewed_at :: "instant option"
  pe_review_note :: "string option"
  pe_customer_reason :: "string option"
  pe_amount_cop :: "int option"
  pe_lead_id :: "uuid option"
  pe_reservation_id :: "uuid option"
  pe_created_at :: instant

definition evidence_ck :: "evidence \<Rightarrow> bool" where
  "evidence_ck e \<longleftrightarrow> (case pe_size_bytes e of None \<Rightarrow> True | Some n \<Rightarrow> 0 \<le> n)"

datatype attempt_status = AT_COMPLETED | AT_FAILED | AT_SKIPPED
datatype suggestion = SG_ACCEPT | SG_REVIEW | SG_REJECT

fun attempt_status_str :: "attempt_status \<Rightarrow> string" where
  "attempt_status_str AT_COMPLETED = ''COMPLETED''"
| "attempt_status_str AT_FAILED = ''FAILED''"
| "attempt_status_str AT_SKIPPED = ''SKIPPED''"

fun suggestion_str :: "suggestion \<Rightarrow> string" where
  "suggestion_str SG_ACCEPT = ''ACCEPT''"
| "suggestion_str SG_REVIEW = ''REVIEW''"
| "suggestion_str SG_REJECT = ''REJECT''"

record evidence_review =
  er_id :: uuid
  er_evidence_id :: int
  er_created_at :: instant
  er_model :: string
  er_prompt_version :: string
  er_status :: attempt_status
  er_extracted :: "json option"
  er_checks :: json
  er_suggestion :: suggestion
  er_suggested_amount_cop :: "int option"
  er_ai_execution_id :: "int option"
  er_error :: "string option"
  er_attempt_number :: nat

definition evidence_review_ck :: "evidence_review \<Rightarrow> bool" where
  "evidence_review_ck r \<longleftrightarrow> 0 < er_attempt_number r \<and>
     (case er_suggested_amount_cop r of None \<Rightarrow> True | Some a \<Rightarrow> 0 < a)"

record ai_execution =
  ax_id :: int
  ax_task :: string
  ax_model :: string
  ax_prompt_version :: string
  ax_latency_ms :: int
  ax_success :: bool
  ax_error_reason :: "string option"
  ax_conversation_id :: "int option"
  ax_input_payload :: json
  ax_validation_status :: string

section \<open>Visits\<close>

datatype appointment_status =
    AP_PENDING_CONFIRMATION | AP_CONFIRMED | AP_RESCHEDULED | AP_CANCELLED | AP_LATE_CANCEL
  | AP_COMPLETED | AP_NO_SHOW

definition appointment_active :: "appointment_status \<Rightarrow> bool" where
  "appointment_active s \<longleftrightarrow> s \<in> {AP_PENDING_CONFIRMATION, AP_CONFIRMED, AP_RESCHEDULED}"

definition calculate_visit_end_time :: "tod \<Rightarrow> tod" where
  "calculate_visit_end_time start = (start + minutes 45) mod us_day"

record appointment =
  ap_id :: uuid
  ap_customer_id :: int
  ap_lead_id :: "uuid option"
  ap_appointment_date :: date
  ap_start_time :: tod
  ap_end_time :: tod
  ap_attendee_count :: int
  ap_visit_reason :: string
  ap_status :: appointment_status
  ap_external_calendar_id :: "string option"
  ap_reminder_scheduled_at :: "instant option"
  ap_reminder_sent_at :: "instant option"
  ap_reschedule_count :: int
  ap_cancellation_reason :: "string option"
  ap_cancelled_at :: "instant option"
  ap_requires_reconciliation :: bool

definition visit_hours :: "tod list" where
  "visit_hours = [at_hour 8, at_hour 9, at_hour 10, at_hour 11]"

definition appointment_ck :: "appointment \<Rightarrow> bool" where
  "appointment_ck a \<longleftrightarrow>
     ap_start_time a \<in> set visit_hours \<and> 1 \<le> ap_attendee_count a \<and> ap_attendee_count a \<le> 3 \<and>
     0 \<le> ap_reschedule_count a \<and>
     (ap_status a = AP_CONFIRMED \<longrightarrow> ap_external_calendar_id a \<noteq> None)"

record appointment_change =
  ac_appointment_id :: uuid
  ac_previous_date :: date
  ac_previous_start_time :: tod
  ac_new_date :: date
  ac_new_start_time :: tod
  ac_changed_by_type :: string
  ac_changed_by_id :: string

section \<open>Scheduled notifications\<close>

datatype notification_status =
    NT_PENDING | NT_SENDING | NT_SENT | NT_DELIVERED | NT_READ | NT_FAILED | NT_DEFERRED | NT_EXPIRED

fun notification_status_str :: "notification_status \<Rightarrow> string" where
  "notification_status_str NT_PENDING = ''PENDING''"
| "notification_status_str NT_SENDING = ''SENDING''"
| "notification_status_str NT_SENT = ''SENT''"
| "notification_status_str NT_DELIVERED = ''DELIVERED''"
| "notification_status_str NT_READ = ''READ''"
| "notification_status_str NT_FAILED = ''FAILED''"
| "notification_status_str NT_DEFERRED = ''DEFERRED''"
| "notification_status_str NT_EXPIRED = ''EXPIRED''"

record recipient =
  nr_id :: int
  nr_phone_number :: string
  nr_notify_on_evidence :: bool
  nr_notify_on_payment_pending :: bool
  nr_active :: bool
  nr_last_inbound_at :: "instant option"
  nr_last_inbound_message_id :: "string option"

text \<open>
  The columns shared by \<open>StaffOutbox\<close> and \<open>CustomerNotification\<close> (the protocol
  \<open>NotificationRow\<close> of \<open>app/notifications/queue.py\<close>); the two tables extend them.
\<close>

record notification_row =
  nt_id :: int
  nt_status :: notification_status
  nt_attempts :: nat
  nt_next_attempt_at :: instant
  nt_claim_token :: "uuid option"
  nt_claimed_at :: "instant option"
  nt_last_error :: "string option"
  nt_last_error_code :: "int option"
  nt_provider_message_id :: "string option"
  nt_sent_at :: "instant option"
  nt_created_at :: instant
  nt_updated_at :: instant

record staff_outbox = notification_row +
  so_recipient_id :: int
  so_event_kind :: string
  so_source_entity :: string
  so_source_id :: string
  so_params :: "string list"
  so_message_kind :: "string option"
  so_template_name :: "string option"

record customer_notification = notification_row +
  cn_reservation_id :: uuid
  cn_customer_id :: int
  cn_kind :: string
  cn_phone_number :: string
  cn_params :: "string list"
  cn_template_name :: string

end
