(* ===== verification/Schema_Catalog.thy ===== *)
theory Schema_Catalog
  imports Py_Values
begin

text \<open>The catalogue files of \<open>app/catalog/models.py\<close> and the CHECK constraints of their table.\<close>

record catalog_asset =
  ca_id :: uuid
  ca_name :: string
  ca_file_path :: string
  ca_file_hash :: string
  ca_mime_type :: string
  ca_file_size :: int
  ca_media_id :: "string option"
  ca_media_uploaded_at :: "instant option"
  ca_active :: bool
  ca_version :: int
  ca_created_at :: instant

record catalog_map =
  cm_id :: int
  cm_asset_id :: uuid
  cm_event_type :: string
  cm_send_mode :: string

text \<open>\<open>uq_catalog_send_proactive_lead_asset\<close>: one proactive send per lead and file.\<close>

record catalog_send =
  cs_id :: uuid
  cs_lead_id :: uuid
  cs_asset_id :: uuid
  cs_trigger :: string
  cs_outbound_message_id :: int

definition catalog_asset_ck :: "catalog_asset \<Rightarrow> bool" where
  "catalog_asset_ck a \<longleftrightarrow> ca_mime_type a = ''application/pdf'' \<and> 0 < ca_file_size a \<and> 1 \<le> ca_version a"

end
