(* ===== verification/Database.thy ===== *)
theory Database
  imports Complex_Main Schema_Conversation Schema_Booking Schema_Catalog
begin

text \<open>
  The state the operations share: one record with the tables, the clock and the sources of fresh
  identifiers, and the settings of \<open>app/config/settings.py\<close> the modelled code reads.

  A transaction is a function from the database to a result: raising rolls it back. The clock is
  the reading that \<open>datetime.now(UTC)\<close> and the server's \<open>now()\<close> give in it. \<open>uuid4()\<close> draws the next
  element of \<open>db_entropy\<close>; serial keys are drawn from the increasing counter \<open>db_seq\<close>.
\<close>

datatype app_error =
    ValueError string
  | InvalidStateTransition conversation_state conversation_state
  | InvalidReservationTransition reservation_status reservation_status
  | InvalidBookingPlan string
  | PrereviewConflict string
  | PrereviewEvidenceNotFound
  | CalendarUnavailableError
  | AlreadyExistsError
  | EventNotFoundError
  | IntegrityError
  | HTTPException nat string
  | KnowledgeRenderError string
  | OtherError string

record settings =
  st_human_hours_days :: string
  st_human_hours_start :: string
  st_human_hours_end :: string
  st_admin_login_max_failures :: nat
  st_admin_login_window_minutes :: int
  st_inbox_batch_size :: nat
  st_inbox_claim_timeout_seconds :: int
  st_inbox_max_attempts :: nat
  st_inbox_max_backoff_seconds :: int
  st_inbox_poll_interval_us :: int
  st_outbox_batch_size :: nat
  st_outbox_sending_timeout_seconds :: int
  st_outbox_max_attempts :: nat
  st_outbox_max_backoff_seconds :: int
  st_catalog_media_ttl_days :: int
  st_catalog_storage_dir :: string
  st_payment_evidence_dir :: string
  st_inbound_media_max_mb :: nat
  st_whatsapp_api_base_url :: string
  st_meta_graph_api_version :: string
  st_staff_notifications_enabled :: bool
  st_staff_template_evidence_name :: string
  st_staff_template_pending_name :: string
  st_staff_template_language :: string
  st_staff_window_safety_minutes :: int
  st_staff_deferred_max_age_hours :: int
  st_staff_outbox_max_attempts :: nat
  st_balance_reminders_enabled :: bool
  st_booking_reminder_days_before :: int
  st_booking_reminder_time :: string
  st_customer_template_balance_reminder_name :: string
  st_staff_template_overdue_name :: string
  st_payment_review_ai_enabled :: bool
  st_payment_review_confidence_ok :: rat
  st_payment_review_confidence_min :: rat
  st_payment_review_max_attempts :: nat
  st_openrouter_model_vision :: string
  st_google_freebusy_calendar_ids :: string
  st_booking_account_number :: string
  st_booking_exclusivity_keyword :: string
  st_booking_hours_start :: string
  st_booking_hours_end :: string
  st_booking_latest_start :: string
  st_booking_min_lead_days :: int
  st_booking_deposit_percent :: int
  st_self_service_booking_enabled :: bool
  st_booking_bank_name :: string
  st_booking_account_type :: string
  st_booking_account_holder :: string
  st_bank_breb_key :: string
  st_ai_confidence_safe :: rat
  st_ai_confidence_probable :: rat
  st_ai_confidence_uncertain :: rat
  st_lodging_plan_code :: string
  st_catalog_max_file_mb :: nat

record db =
  db_customers :: "customer list"
  db_conversations :: "conversation list"
  db_handoffs :: "handoff list"
  db_agents :: "agent list"
  db_agent_sessions :: "agent_session list"
  db_messages :: "message list"
  db_outbox :: "outbox list"
  db_provider_statuses :: "provider_status list"
  db_webhook_events :: "webhook_event list"
  db_inbox_jobs :: "inbox_job list"
  db_catalog_assets :: "catalog_asset list"
  db_catalog_maps :: "catalog_map list"
  db_catalog_sends :: "catalog_send list"
  db_knowledge :: "knowledge_entry list"
  db_leads :: "lead list"
  db_plans :: "plan list"
  db_events :: "event_row list"
  db_service_requests :: "service_request list"
  db_quote_requests :: "quote_request list"
  db_reservations :: "reservation list"
  db_evidence :: "evidence list"
  db_reviews :: "evidence_review list"
  db_ai_executions :: "ai_execution list"
  db_appointments :: "appointment list"
  db_appointment_changes :: "appointment_change list"
  db_holidays :: "date list"
  db_blocked_dates :: "date list"
  db_recipients :: "recipient list"
  db_staff_outbox :: "staff_outbox list"
  db_customer_notifications :: "customer_notification list"
  db_audit :: "audit_event list"
  db_clock :: instant
  db_seq :: int
  db_entropy :: "nat \<Rightarrow> uuid"
  db_draws :: nat

definition empty_db :: "(nat \<Rightarrow> uuid) \<Rightarrow> instant \<Rightarrow> db" where
  "empty_db entropy now = \<lparr>db_customers = [], db_conversations = [], db_handoffs = [],
     db_agents = [], db_agent_sessions = [],
     db_messages = [], db_outbox = [], db_provider_statuses = [], db_webhook_events = [],
     db_inbox_jobs = [], db_catalog_assets = [], db_catalog_maps = [], db_catalog_sends = [],
     db_knowledge = [], db_leads = [], db_plans = [], db_events = [], db_service_requests = [], db_quote_requests = [], db_reservations = [], db_evidence = [],
     db_reviews = [], db_ai_executions = [], db_appointments = [], db_appointment_changes = [],
     db_holidays = [], db_blocked_dates = [], db_recipients = [], db_staff_outbox = [],
     db_customer_notifications = [], db_audit = [], db_clock = now, db_seq = 1,
     db_entropy = entropy, db_draws = 0\<rparr>"

section \<open>Fresh identifiers\<close>

definition uuid4 :: "db \<Rightarrow> uuid \<times> db" where
  "uuid4 d = (db_entropy d (db_draws d), d\<lparr>db_draws := Suc (db_draws d)\<rparr>)"

definition next_serial :: "db \<Rightarrow> int \<times> db" where
  "next_serial d = (db_seq d, d\<lparr>db_seq := db_seq d + 1\<rparr>)"

section \<open>Row updates\<close>

definition put_conversation :: "conversation \<Rightarrow> db \<Rightarrow> db" where
  "put_conversation x d = d\<lparr>db_conversations := put_row cv_id x (db_conversations d)\<rparr>"

definition put_handoff :: "handoff \<Rightarrow> db \<Rightarrow> db" where
  "put_handoff x d = d\<lparr>db_handoffs := put_row ho_id x (db_handoffs d)\<rparr>"

definition put_agent :: "agent \<Rightarrow> db \<Rightarrow> db" where
  "put_agent x d = d\<lparr>db_agents := put_row ag_id x (db_agents d)\<rparr>"

definition put_agent_session :: "agent_session \<Rightarrow> db \<Rightarrow> db" where
  "put_agent_session x d = d\<lparr>db_agent_sessions := put_row se_id x (db_agent_sessions d)\<rparr>"

definition put_customer :: "customer \<Rightarrow> db \<Rightarrow> db" where
  "put_customer x d = d\<lparr>db_customers := put_row cu_id x (db_customers d)\<rparr>"

definition put_outbox :: "outbox \<Rightarrow> db \<Rightarrow> db" where
  "put_outbox x d = d\<lparr>db_outbox := put_row ob_id x (db_outbox d)\<rparr>"

definition put_job :: "inbox_job \<Rightarrow> db \<Rightarrow> db" where
  "put_job x d = d\<lparr>db_inbox_jobs := put_row ij_id x (db_inbox_jobs d)\<rparr>"

definition put_webhook_event :: "webhook_event \<Rightarrow> db \<Rightarrow> db" where
  "put_webhook_event x d = d\<lparr>db_webhook_events := put_row we_id x (db_webhook_events d)\<rparr>"

definition put_catalog_asset :: "catalog_asset \<Rightarrow> db \<Rightarrow> db" where
  "put_catalog_asset x d = d\<lparr>db_catalog_assets := put_row ca_id x (db_catalog_assets d)\<rparr>"

definition put_lead :: "lead \<Rightarrow> db \<Rightarrow> db" where
  "put_lead x d = d\<lparr>db_leads := put_row ld_id x (db_leads d)\<rparr>"

definition put_event :: "event_row \<Rightarrow> db \<Rightarrow> db" where
  "put_event x d = d\<lparr>db_events := put_row ev_id x (db_events d)\<rparr>"

definition put_service_request :: "service_request \<Rightarrow> db \<Rightarrow> db" where
  "put_service_request x d = d\<lparr>db_service_requests := put_row es_id x (db_service_requests d)\<rparr>"

definition put_quote_request :: "quote_request \<Rightarrow> db \<Rightarrow> db" where
  "put_quote_request x d = d\<lparr>db_quote_requests := put_row qr_id x (db_quote_requests d)\<rparr>"

definition put_reservation :: "reservation \<Rightarrow> db \<Rightarrow> db" where
  "put_reservation x d = d\<lparr>db_reservations := put_row rv_id x (db_reservations d)\<rparr>"

definition put_evidence :: "evidence \<Rightarrow> db \<Rightarrow> db" where
  "put_evidence x d = d\<lparr>db_evidence := put_row pe_id x (db_evidence d)\<rparr>"

definition put_appointment :: "appointment \<Rightarrow> db \<Rightarrow> db" where
  "put_appointment x d = d\<lparr>db_appointments := put_row ap_id x (db_appointments d)\<rparr>"

definition put_recipient :: "recipient \<Rightarrow> db \<Rightarrow> db" where
  "put_recipient x d = d\<lparr>db_recipients := put_row nr_id x (db_recipients d)\<rparr>"

definition put_staff :: "staff_outbox \<Rightarrow> db \<Rightarrow> db" where
  "put_staff x d = d\<lparr>db_staff_outbox := put_row nt_id x (db_staff_outbox d)\<rparr>"

definition put_customer_notification :: "customer_notification \<Rightarrow> db \<Rightarrow> db" where
  "put_customer_notification x d =
     d\<lparr>db_customer_notifications := put_row nt_id x (db_customer_notifications d)\<rparr>"

lemmas put_defs = put_conversation_def put_handoff_def put_agent_def put_agent_session_def put_customer_def put_outbox_def put_job_def
  put_webhook_event_def put_catalog_asset_def put_lead_def put_event_def put_service_request_def put_quote_request_def put_reservation_def put_evidence_def put_appointment_def
  put_recipient_def put_staff_def put_customer_notification_def

section \<open>Audit\<close>

definition audit_at ::
  "instant \<Rightarrow> string \<Rightarrow> string \<Rightarrow> string \<Rightarrow> json option \<Rightarrow> json option \<Rightarrow> string \<Rightarrow> string option \<Rightarrow> db \<Rightarrow> db"
where
  "audit_at stamp actor action entity old new reason request_id d =
     d\<lparr>db_audit := db_audit d @ [\<lparr>ae_actor = actor, ae_action = action, ae_entity = entity,
         ae_old_value = old, ae_new_value = new, ae_reason = reason,
         ae_request_id = request_id, ae_created_at = stamp, ae_id = db_seq d\<rparr>],
       db_seq := db_seq d + 1\<rparr>"

text \<open>\<open>session.add(AuditEvent(...))\<close>, stamped by the server's clock.\<close>

definition audit ::
  "string \<Rightarrow> string \<Rightarrow> string \<Rightarrow> json option \<Rightarrow> json option \<Rightarrow> string \<Rightarrow> string option \<Rightarrow> db \<Rightarrow> db"
where
  "audit actor action entity old new reason request_id d =
     audit_at (db_clock d) actor action entity old new reason request_id d"

text \<open>An audit record touches the audit table and the key counter only.\<close>

lemma audit_frame [simp]:
  "db_customers (audit a b c e f g h d) = db_customers d"
  "db_conversations (audit a b c e f g h d) = db_conversations d"
  "db_handoffs (audit a b c e f g h d) = db_handoffs d"
  "db_agents (audit a b c e f g h d) = db_agents d"
  "db_agent_sessions (audit a b c e f g h d) = db_agent_sessions d"
  "db_messages (audit a b c e f g h d) = db_messages d"
  "db_outbox (audit a b c e f g h d) = db_outbox d"
  "db_inbox_jobs (audit a b c e f g h d) = db_inbox_jobs d"
  "db_plans (audit a b c e f g h d) = db_plans d"
  "db_leads (audit a b c e f g h d) = db_leads d"
  "db_knowledge (audit a b c e f g h d) = db_knowledge d"
  "db_catalog_sends (audit a b c e f g h d) = db_catalog_sends d"
  "db_catalog_maps (audit a b c e f g h d) = db_catalog_maps d"
  "db_catalog_assets (audit a b c e f g h d) = db_catalog_assets d"
  "db_events (audit a b c e f g h d) = db_events d"
  "db_service_requests (audit a b c e f g h d) = db_service_requests d"
  "db_quote_requests (audit a b c e f g h d) = db_quote_requests d"
  "db_reservations (audit a b c e f g h d) = db_reservations d"
  "db_evidence (audit a b c e f g h d) = db_evidence d"
  "db_reviews (audit a b c e f g h d) = db_reviews d"
  "db_appointments (audit a b c e f g h d) = db_appointments d"
  "db_recipients (audit a b c e f g h d) = db_recipients d"
  "db_staff_outbox (audit a b c e f g h d) = db_staff_outbox d"
  "db_customer_notifications (audit a b c e f g h d) = db_customer_notifications d"
  "db_clock (audit a b c e f g h d) = db_clock d"
  "db_entropy (audit a b c e f g h d) = db_entropy d"
  "db_draws (audit a b c e f g h d) = db_draws d"
  by (simp_all add: audit_def audit_at_def)

lemma put_reservation_frame [simp]:
  "db_audit (put_reservation r d) = db_audit d"
  "db_evidence (put_reservation r d) = db_evidence d"
  "db_plans (put_reservation r d) = db_plans d"
  "db_clock (put_reservation r d) = db_clock d"
  "db_reservations (put_reservation r d) = put_row rv_id r (db_reservations d)"
  by (simp_all add: put_reservation_def)

lemma put_evidence_frame [simp]:
  "db_audit (put_evidence e d) = db_audit d"
  "db_reservations (put_evidence e d) = db_reservations d"
  "db_plans (put_evidence e d) = db_plans d"
  "db_clock (put_evidence e d) = db_clock d"
  "db_evidence (put_evidence e d) = put_row pe_id e (db_evidence d)"
  by (simp_all add: put_evidence_def)

lemma put_event_frame [simp]:
  "db_audit (put_event e d) = db_audit d"
  "db_reservations (put_event e d) = db_reservations d"
  "db_evidence (put_event e d) = db_evidence d"
  "db_plans (put_event e d) = db_plans d"
  "db_clock (put_event e d) = db_clock d"
  "db_events (put_event e d) = put_row ev_id e (db_events d)"
  by (simp_all add: put_event_def)

lemma put_conversation_frame [simp]:
  "db_handoffs (put_conversation c d) = db_handoffs d"
  "db_outbox (put_conversation c d) = db_outbox d"
  "db_conversations (put_conversation c d) = put_row cv_id c (db_conversations d)"
  "db_clock (put_conversation c d) = db_clock d"
  by (simp_all add: put_conversation_def)

text \<open>The audit records only grow: the history is append-only.\<close>

definition audit_extends :: "db \<Rightarrow> db \<Rightarrow> bool" where
  "audit_extends d d' \<longleftrightarrow> (\<exists>new. db_audit d' = db_audit d @ new)"

lemma audit_extends_refl [simp, intro]: "audit_extends d d"
  by (simp add: audit_extends_def)

lemma audit_extends_trans: "audit_extends a b \<Longrightarrow> audit_extends b c \<Longrightarrow> audit_extends a c"
  by (auto simp: audit_extends_def)

lemma audit_extends_audit [simp]: "audit_extends d' d \<Longrightarrow> audit_extends d' (audit a b c e f g h d)"
  by (auto simp: audit_extends_def audit_def audit_at_def)

end
