(* ===== verification/Samples.thy ===== *)
theory Samples
  imports Database
begin

text \<open>
  Concrete rows, settings and a database on which the theorems' hypotheses are exercised: the
  defaults of \<open>app/config/settings.py\<close>, one customer with a conversation, two plans, and a booking
  request of 15 August 2026 whose receipt waits for review.
\<close>

definition sample_settings :: settings where
  "sample_settings = \<lparr>st_human_hours_days = ''1,2,3,4,5'', st_human_hours_start = ''08:00'',
     st_human_hours_end = ''16:00'', st_admin_login_max_failures = 5,
     st_admin_login_window_minutes = 15, st_inbox_batch_size = 10, st_inbox_claim_timeout_seconds = 120,
     st_inbox_max_attempts = 5, st_inbox_max_backoff_seconds = 300, st_inbox_poll_interval_us = us_second,
     st_outbox_batch_size = 10, st_outbox_sending_timeout_seconds = 120, st_outbox_max_attempts = 5,
     st_outbox_max_backoff_seconds = 300,
     st_catalog_media_ttl_days = 25, st_catalog_storage_dir = ''catalogs'',
     st_payment_evidence_dir = ''/evidence'', st_inbound_media_max_mb = 16,
     st_whatsapp_api_base_url = ''https://graph.facebook.com/'', st_meta_graph_api_version = ''v20.0'', st_staff_notifications_enabled = True,
     st_staff_template_evidence_name = ''evidencia'', st_staff_template_pending_name = ''pendiente'',
     st_staff_template_language = ''es'', st_staff_window_safety_minutes = 30,
     st_staff_deferred_max_age_hours = 48, st_staff_outbox_max_attempts = 5,
     st_balance_reminders_enabled = True, st_booking_reminder_days_before = 3,
     st_booking_reminder_time = ''10:00'', st_customer_template_balance_reminder_name = ''saldo'',
     st_staff_template_overdue_name = ''vencido'', st_payment_review_ai_enabled = True,
     st_payment_review_confidence_ok = 4 / 5, st_payment_review_confidence_min = 1 / 2,
     st_payment_review_max_attempts = 2, st_openrouter_model_vision = ''google/gemini-2.5-flash-lite'',
     st_google_freebusy_calendar_ids = ''principal'', st_booking_account_number = ''123456789'',
     st_booking_exclusivity_keyword = ''exclusividad'', st_booking_hours_start = ''12:00'',
     st_booking_hours_end = ''24:00'', st_booking_latest_start = ''21:00'', st_booking_min_lead_days = 1,
     st_booking_deposit_percent = 50,
     st_self_service_booking_enabled = True, st_booking_bank_name = ''Banco'', st_booking_account_type = ''Ahorros'',
     st_booking_account_holder = ''La Ceiba'', st_bank_breb_key = ''@ceiba'',
     st_ai_confidence_safe = 85 / 100, st_ai_confidence_probable = 70 / 100, st_ai_confidence_uncertain = 50 / 100,
     st_lodging_plan_code = ''REFUGIO_DOS'', st_catalog_max_file_mb = 16\<rparr>"

text \<open>1 August 2026, 09:00 in Bogota.\<close>

definition sample_now :: instant where
  "sample_now = bogota_instant 739829 (at_hour 9)"

definition sample_customer :: customer where
  "sample_customer = \<lparr>cu_id = 1, cu_phone_number = ''+573001112233'', cu_full_name = Some ''Ana''\<rparr>"

definition sample_conversation :: conversation where
  "sample_conversation = \<lparr>cv_id = 1, cv_customer_id = 1, cv_state = BOT_ACTIVE, cv_last_intent = None,
     cv_pending_action = None, cv_pending_fields = [], cv_pending_confirmation = None,
     cv_visit_draft = None, cv_booking_draft = None, cv_last_question_code = None,
     cv_active_lead_id = None, cv_failed_understanding_count = 0,
     cv_services_failed_understanding_count = None, cv_bot_enabled = True, cv_automation_epoch = 7,
     cv_assigned_agent_id = None\<rparr>"

definition sample_plan :: plan where
  "sample_plan = \<lparr>pl_id = 21, pl_code = ''CENA_EXCLUSIVA'', pl_name = ''Cena exclusiva'',
     pl_event_type = ''ROMANTIC_DINNER'', pl_price_cop = 950000, pl_duration_minutes = 180,
     pl_exclusive = True, pl_weekend_only = False, pl_overnight = False, pl_checkin_from = None,
     pl_checkout_time = None, pl_active = True, pl_sort_order = 1\<rparr>"

definition sample_overnight :: plan where
  "sample_overnight = \<lparr>pl_id = 22, pl_code = ''REFUGIO_DOS'', pl_name = ''Refugio para dos'',
     pl_event_type = ''ROMANTIC_DINNER'', pl_price_cop = 1200000, pl_duration_minutes = 1200,
     pl_exclusive = False, pl_weekend_only = False, pl_overnight = True,
     pl_checkin_from = Some (at_hour 15), pl_checkout_time = Some (at_hour 11), pl_active = True,
     pl_sort_order = 2\<rparr>"

definition sample_start :: instant where
  "sample_start = bogota_instant 739843 (at_hour 19)"

definition sample_event :: event_row where
  "sample_event = \<lparr>ev_id = 31, ev_lead_id = 41, ev_event_type = Some ''ROMANTIC_DINNER'', ev_event_type_other = None,
     ev_plan_id = None, ev_event_date = None, ev_event_month = Some ''2026-08'',
     ev_event_date_type = Some ''MONTH'', ev_event_date_raw = Some ''agosto'', ev_guest_count = Some 2,
     ev_guest_count_min = None, ev_guest_count_max = None, ev_guest_count_status = Some ''PROVIDED'', ev_special_requests = None,
     ev_created_at = sample_now\<rparr>"

definition sample_reservation :: reservation where
  "sample_reservation = \<lparr>rv_id = 51, rv_lead_id = 41, rv_event_id = 31, rv_plan_id = 21,
     rv_conversation_id = Some 1, rv_customer_id = 1, rv_status = RV_PAYMENT_REVIEW,
     rv_starts_at = sample_start, rv_ends_at = sample_start + minutes 180, rv_price_cop = 950000,
     rv_amount_paid_cop = 0, rv_payment_kind = None, rv_balance_due_at = None,
     rv_balance_overdue_at = None, rv_hold_expires_at = None, rv_external_calendar_id = None,
     rv_calendar_status = CAL_NONE, rv_created_at = sample_now\<rparr>"

definition sample_evidence :: evidence where
  "sample_evidence = \<lparr>pe_id = 61, pe_conversation_id = 1, pe_customer_id = 1, pe_message_id = 71,
     pe_media_id = ''media'', pe_mime_type = ''image/jpeg'', pe_declared_sha256 = [],
     pe_storage_path = None, pe_verified_sha256 = None, pe_size_bytes = None,
     pe_download_status = DL_DOWNLOADED, pe_download_attempts = 1, pe_next_attempt_at = None,
     pe_prereview_claim_token = None, pe_prereview_claimed_at = None,
     pe_review_status = RW_PENDING_REVIEW, pe_reviewed_by_agent_id = None, pe_reviewed_at = None,
     pe_review_note = None, pe_customer_reason = None, pe_amount_cop = None, pe_lead_id = None,
     pe_reservation_id = Some 51, pe_created_at = sample_now\<rparr>"

definition sample_recipient :: recipient where
  "sample_recipient = \<lparr>nr_id = 81, nr_phone_number = ''+573009998877'', nr_notify_on_evidence = True,
     nr_notify_on_payment_pending = True, nr_active = True, nr_last_inbound_at = Some sample_now,
     nr_last_inbound_message_id = Some ''wamid.1''\<rparr>"

definition sample_entropy :: "nat \<Rightarrow> uuid" where
  "sample_entropy n = word_of_nat (1000 + n)"

definition sample_db :: db where
  "sample_db = (empty_db sample_entropy sample_now)
     \<lparr>db_customers := [sample_customer], db_conversations := [sample_conversation],
      db_plans := [sample_plan, sample_overnight], db_events := [sample_event],
      db_reservations := [sample_reservation], db_evidence := [sample_evidence], db_seq := 100\<rparr>"

lemma sample_db_simps [simp]:
  "db_customers sample_db = [sample_customer]" "db_conversations sample_db = [sample_conversation]"
  "db_plans sample_db = [sample_plan, sample_overnight]" "db_events sample_db = [sample_event]"
  "db_reservations sample_db = [sample_reservation]" "db_evidence sample_db = [sample_evidence]"
  "db_recipients sample_db = []" "db_staff_outbox sample_db = []" "db_audit sample_db = []"
  "db_clock sample_db = sample_now" "db_seq sample_db = 100" "db_handoffs sample_db = []"
  "db_entropy sample_db = sample_entropy" "db_draws sample_db = 0" "db_messages sample_db = []"
  by (simp_all add: sample_db_def empty_db_def)

lemmas sample_rows = sample_settings_def sample_customer_def sample_conversation_def sample_plan_def
  sample_overnight_def sample_event_def sample_reservation_def sample_evidence_def sample_recipient_def

end
