(* ===== verification/Status_Machine.thy ===== *)
theory Status_Machine
  imports Samples
begin

text \<open>
  The contract of a status column whose writers consult a transition matrix: a move succeeds only
  along an edge of the matrix and leaves the row in the requested status. What follows from that
  alone (runs follow paths, closed sets of statuses are never left, terminal statuses absorb) is
  proved once here; conversations and reservations interpret it.
\<close>

locale status_machine =
  fixes allowed :: "'s \<Rightarrow> 's list"
    and status :: "'st \<Rightarrow> 's"
    and move :: "'s \<Rightarrow> 'st \<Rightarrow> 'st \<Rightarrow> bool"
  assumes move_allowed: "move t x y \<Longrightarrow> t \<in> set (allowed (status x))"
    and move_status: "move t x y \<Longrightarrow> status y = t"
begin

inductive run :: "'st \<Rightarrow> 's list \<Rightarrow> 'st \<Rightarrow> bool" where
  run_nil: "run x [] x"
| run_step: "move t x y \<Longrightarrow> run y ts z \<Longrightarrow> run x (t # ts) z"

inductive_cases run_consE: "run x (t # ts) z"

fun path :: "'s \<Rightarrow> 's list \<Rightarrow> bool" where
  "path u [] = True"
| "path u (t # ts) = (t \<in> set (allowed u) \<and> path t ts)"

lemma run_path: "run x ts z \<Longrightarrow> path (status x) ts"
  by (induction rule: run.induct) (auto dest: move_allowed move_status)

lemma run_last: "run x ts z \<Longrightarrow> status z = (if ts = [] then status x else last ts)"
  by (induction rule: run.induct) (auto dest: move_status)

lemma terminal: "allowed (status x) = [] \<Longrightarrow> \<not> move t x y"
  by (auto dest: move_allowed)

lemma closed_step:
  "(\<And>u. u \<in> C \<Longrightarrow> set (allowed u) \<subseteq> C) \<Longrightarrow> status x \<in> C \<Longrightarrow> move t x y \<Longrightarrow> status y \<in> C"
  using move_allowed move_status by blast

lemma closed_run:
  assumes "run x ts z" and "\<And>u. u \<in> C \<Longrightarrow> set (allowed u) \<subseteq> C" and "status x \<in> C"
  shows "status z \<in> C"
  using assms by (induction rule: run.induct) (blast intro: closed_step)+

lemma run_terminal: "run x ts z \<Longrightarrow> allowed (status x) = [] \<Longrightarrow> ts = [] \<and> z = x"
  by (cases rule: run.cases) (auto simp: terminal)

end

end
