(* ===== verification/Conversation_Service.thy ===== *)
theory Conversation_Service
  imports Status_Machine
begin

text \<open>
  \<open>app/conversation/service.py\<close>, \<open>app/conversation/pending_actions.py\<close> and the validators of
  \<open>app/conversation/models.py\<close>: the conversation state machine, its audited transition, and the
  automation epoch that every pause or resumption of the bot renews.
\<close>

section \<open>The transition matrix\<close>

fun allowed_transitions :: "conversation_state \<Rightarrow> conversation_state list" where
  "allowed_transitions NEW = [BOT_ACTIVE, WAITING_FOR_HUMAN, CLOSED]"
| "allowed_transitions BOT_ACTIVE =
     [ANSWERING_INFORMATION, COLLECTING_EVENT_DATA, WAITING_FOR_APPOINTMENT_DATE,
      WAITING_FOR_APPOINTMENT_SELECTION, APPOINTMENT_PENDING_CONFIRMATION, WAITING_FOR_HUMAN,
      RESOLVED, CLOSED]"
| "allowed_transitions ANSWERING_INFORMATION =
     [BOT_ACTIVE, COLLECTING_EVENT_DATA, WAITING_FOR_APPOINTMENT_DATE, WAITING_FOR_HUMAN, RESOLVED]"
| "allowed_transitions COLLECTING_EVENT_DATA =
     [COLLECTING_EVENT_DATA, ANSWERING_INFORMATION, QUOTE_REQUEST_READY, BOT_ACTIVE,
      WAITING_FOR_APPOINTMENT_DATE, WAITING_FOR_HUMAN, RESOLVED]"
| "allowed_transitions QUOTE_REQUEST_READY =
     [COLLECTING_EVENT_DATA, WAITING_FOR_HUMAN, BOT_ACTIVE, RESOLVED]"
| "allowed_transitions WAITING_FOR_APPOINTMENT_DATE =
     [WAITING_FOR_APPOINTMENT_DATE, WAITING_FOR_APPOINTMENT_SELECTION, ANSWERING_INFORMATION,
      WAITING_FOR_HUMAN, BOT_ACTIVE]"
| "allowed_transitions WAITING_FOR_APPOINTMENT_SELECTION =
     [WAITING_FOR_APPOINTMENT_SELECTION, APPOINTMENT_PENDING_CONFIRMATION,
      WAITING_FOR_APPOINTMENT_DATE, ANSWERING_INFORMATION, WAITING_FOR_HUMAN, BOT_ACTIVE]"
| "allowed_transitions APPOINTMENT_PENDING_CONFIRMATION =
     [APPOINTMENT_CONFIRMED, WAITING_FOR_APPOINTMENT_DATE, WAITING_FOR_APPOINTMENT_SELECTION,
      BOT_ACTIVE, WAITING_FOR_HUMAN]"
| "allowed_transitions APPOINTMENT_CONFIRMED =
     [BOT_ACTIVE, WAITING_FOR_APPOINTMENT_DATE, WAITING_FOR_APPOINTMENT_SELECTION,
      APPOINTMENT_PENDING_CONFIRMATION, WAITING_FOR_HUMAN, RESOLVED]"
| "allowed_transitions WAITING_FOR_HUMAN = [HUMAN_ACTIVE, BOT_ACTIVE, RESOLVED, CLOSED]"
| "allowed_transitions HUMAN_ACTIVE = [RETURNED_TO_BOT, RESOLVED, CLOSED, WAITING_FOR_HUMAN]"
| "allowed_transitions RETURNED_TO_BOT =
     [BOT_ACTIVE, COLLECTING_EVENT_DATA, WAITING_FOR_APPOINTMENT_DATE, RESOLVED, WAITING_FOR_HUMAN]"
| "allowed_transitions RESOLVED = [BOT_ACTIVE, HUMAN_ACTIVE, CLOSED]"
| "allowed_transitions CLOSED = [BOT_ACTIVE, HUMAN_ACTIVE]"

section \<open>Attribute validators\<close>

definition paused_states :: "conversation_state list" where
  "paused_states = [WAITING_FOR_HUMAN, HUMAN_ACTIVE, CLOSED]"

definition paused :: "conversation_state \<Rightarrow> bool" where
  "paused s \<longleftrightarrow> s \<in> set paused_states"

lemma paused_simps [simp]:
  "paused WAITING_FOR_HUMAN" "paused HUMAN_ACTIVE" "paused CLOSED" "\<not> paused BOT_ACTIVE"
  "\<not> paused NEW" "\<not> paused RESOLVED" "\<not> paused RETURNED_TO_BOT"
  by (simp_all add: paused_def paused_states_def)

text \<open>\<open>conversation.state = value\<close>: entering, leaving or switching a pause renews the epoch.\<close>

definition set_state :: "conversation_state \<Rightarrow> conversation \<Rightarrow> db \<Rightarrow> conversation \<times> db" where
  "set_state s c d =
     (if s \<noteq> cv_state c \<and> (paused s \<or> paused (cv_state c))
      then (case uuid4 d of (u, d1) \<Rightarrow>
              let c1 = c\<lparr>cv_state := s, cv_automation_epoch := u\<rparr> in (c1, put_conversation c1 d1))
      else let c1 = c\<lparr>cv_state := s\<rparr> in (c1, put_conversation c1 d))"

text \<open>\<open>conversation.bot_enabled = value\<close>.\<close>

definition set_bot_enabled :: "bool \<Rightarrow> conversation \<Rightarrow> db \<Rightarrow> conversation \<times> db" where
  "set_bot_enabled b c d =
     (if (\<not> b \<and> cv_bot_enabled c) \<or> (b \<and> \<not> cv_bot_enabled c)
      then (case uuid4 d of (u, d1) \<Rightarrow>
              let c1 = c\<lparr>cv_bot_enabled := b, cv_automation_epoch := u\<rparr> in (c1, put_conversation c1 d1))
      else let c1 = c\<lparr>cv_bot_enabled := b\<rparr> in (c1, put_conversation c1 d))"

definition pending_actions :: "string list" where
  "pending_actions = [''NONE'', ''CLASSIFY_MESSAGE'', ''ANSWER_INFORMATION'', ''SEND_CATALOG'',
     ''COLLECT_CATALOG_EVENT_TYPE'', ''COLLECT_EVENT_TYPE'', ''COLLECT_GUEST_COUNT'',
     ''COLLECT_EVENT_DATE'', ''COLLECT_CUSTOMER_NAME'', ''COLLECT_BUDGET'', ''COLLECT_SERVICES'',
     ''CONFIRM_QUOTE_REQUEST'', ''SELECT_VISIT_DATE'', ''CONFIRM_VISIT_DATE'',
     ''SELECT_VISIT_TIME'', ''COLLECT_VISIT_ATTENDEES'', ''COLLECT_VISIT_REASON'',
     ''CONFIRM_APPOINTMENT'', ''CONFIRM_RESCHEDULE'', ''CONFIRM_VISIT_CANCELLATION'',
     ''CONFIRM_EVENT_CANCELLATION'', ''WAIT_FOR_HUMAN'', ''WAIT_FOR_PAYMENT_REVIEW'',
     ''WAIT_FOR_RESERVATION_CONFIRMATION'', ''SELECT_BOOKING_PLAN'', ''SELECT_BOOKING_DATETIME'',
     ''SELECT_BOOKING_TIME'', ''CONFIRM_BOOKING'', ''COLLECT_BOOKING_NAME'',
     ''CONFIRM_AVAILABILITY_BOOKING'']"

definition validate_pending_action :: "string option \<Rightarrow> (app_error, string option) result" where
  "validate_pending_action v =
     (case v of None \<Rightarrow> Inr None
      | Some a \<Rightarrow> if a \<notin> set pending_actions
                   then Inl (ValueError (''Invalid pending_action: '' @ a)) else Inr (Some a))"

definition set_pending_action ::
  "string option \<Rightarrow> conversation \<Rightarrow> db \<Rightarrow> (app_error, conversation \<times> db) result" where
  "set_pending_action v c d =
     ebind (validate_pending_action v) (\<lambda>a.
       let c1 = c\<lparr>cv_pending_action := a\<rparr> in Inr (c1, put_conversation c1 d))"

section \<open>The audited transition\<close>

definition coerce_conversation_state :: "string \<Rightarrow> (app_error, conversation_state) result" where
  "coerce_conversation_state t =
     (case conversation_state_of t of None \<Rightarrow> Inl (ValueError t) | Some s \<Rightarrow> Inr s)"

definition state_change_value :: "conversation \<Rightarrow> conversation_state \<Rightarrow> json" where
  "state_change_value c s =
     JObj [(''conversation_id'', JInt (cv_id c)), (''state'', JStr (conversation_state_str s))]"

definition transition_conversation ::
  "conversation \<Rightarrow> conversation_state \<Rightarrow> string \<Rightarrow> string option \<Rightarrow> string option \<Rightarrow> db
     \<Rightarrow> (app_error, conversation \<times> db) result"
where
  "transition_conversation c new_state actor reason request_id d =
     (let old_state = cv_state c in
      if new_state \<notin> set (allowed_transitions old_state)
      then Inl (InvalidStateTransition old_state new_state)
      else
        let (c1, d1) = set_state new_state c d;
            default = conversation_state_str old_state @ '' -> '' @ conversation_state_str new_state;
            transition_reason =
              (case reason of None \<Rightarrow> default | Some r \<Rightarrow> if r = [] then default else r)
        in Inr (c1, audit actor ''CONVERSATION_STATE_TRANSITION'' ''conversation''
                      (Some (state_change_value c old_state))
                      (Some (state_change_value c new_state)) transition_reason request_id d1))"

section \<open>Facts\<close>

lemma set_stateD:
  "set_state s c d = (c', d') \<Longrightarrow>
     cv_state c' = s \<and> cv_id c' = cv_id c \<and> cv_customer_id c' = cv_customer_id c \<and>
     cv_bot_enabled c' = cv_bot_enabled c \<and> cv_pending_action c' = cv_pending_action c \<and>
     db_conversations d' = put_row cv_id c' (db_conversations d) \<and>
     db_handoffs d' = db_handoffs d \<and> db_outbox d' = db_outbox d \<and> db_clock d' = db_clock d \<and>
     db_messages d' = db_messages d \<and> db_audit d' = db_audit d \<and> db_seq d' = db_seq d \<and>
     db_evidence d' = db_evidence d"
  by (auto simp: set_state_def uuid4_def put_conversation_def Let_def split: if_splits)

lemma set_state_epoch:
  "set_state s c d = (c', d') \<Longrightarrow>
     cv_automation_epoch c' =
       (if s \<noteq> cv_state c \<and> (paused s \<or> paused (cv_state c)) then db_entropy d (db_draws d)
        else cv_automation_epoch c)"
  by (auto simp: set_state_def uuid4_def Let_def split: if_splits)

lemma transition_conversation_iff:
  "(\<exists>r. transition_conversation c t actor reason req d = Inr r) \<longleftrightarrow>
     t \<in> set (allowed_transitions (cv_state c))"
  by (auto simp: transition_conversation_def Let_def split: prod.splits)

lemma transition_conversation_InrD:
  "transition_conversation c t actor reason req d = Inr (c', d') \<Longrightarrow>
     t \<in> set (allowed_transitions (cv_state c)) \<and> cv_state c' = t \<and> cv_id c' = cv_id c \<and>
     cv_customer_id c' = cv_customer_id c \<and> cv_bot_enabled c' = cv_bot_enabled c \<and>
     cv_pending_action c' = cv_pending_action c \<and>
     db_conversations d' = put_row cv_id c' (db_conversations d) \<and>
     audit_extends d d' \<and> db_handoffs d' = db_handoffs d \<and> db_clock d' = db_clock d \<and>
     db_outbox d' = db_outbox d \<and> db_evidence d' = db_evidence d"
  by (auto simp: transition_conversation_def Let_def audit_extends_def audit_def audit_at_def
      split: if_splits prod.splits dest!: set_stateD)

interpretation conv: status_machine allowed_transitions "\<lambda>(c, d). cv_state c"
  "\<lambda>t (c, d) (c', d'). \<exists>actor reason req. transition_conversation c t actor reason req d = Inr (c', d')"
  by unfold_locales (auto dest: transition_conversation_InrD)

text \<open>\<open>NEW\<close> is left for good.\<close>

lemma new_not_reentered: "NEW \<notin> set (allowed_transitions s)"
  by (cases s) simp_all

text \<open>From every state a person can be reached, directly or (from the two closed forms) in one hop more.\<close>

lemma human_reachable:
  "WAITING_FOR_HUMAN \<in> set (allowed_transitions s) \<or> HUMAN_ACTIVE \<in> set (allowed_transitions s)"
  by (cases s) simp_all

section \<open>Properties\<close>

text \<open>A transition succeeds exactly along the matrix; it moves the conversation and appends one
  audit record with the old and the new state; entering, leaving or changing between paused states
  renews the automation epoch, and no other transition does.\<close>

theorem transition_conversation_spec:
  "(case transition_conversation c t actor reason req d of
      Inl e \<Rightarrow> t \<notin> set (allowed_transitions (cv_state c)) \<and> e = InvalidStateTransition (cv_state c) t
    | Inr (c', d') \<Rightarrow> t \<in> set (allowed_transitions (cv_state c)) \<and> cv_state c' = t \<and>
        cv_automation_epoch c' =
          (if t \<noteq> cv_state c \<and> (paused t \<or> paused (cv_state c)) then db_entropy d (db_draws d)
           else cv_automation_epoch c) \<and>
        db_conversations d' = put_row cv_id c' (db_conversations d) \<and>
        (\<exists>ev. db_audit d' = db_audit d @ [ev] \<and> ae_actor ev = actor \<and>
           ae_action ev = ''CONVERSATION_STATE_TRANSITION'' \<and>
           ae_old_value ev = Some (state_change_value c (cv_state c)) \<and>
           ae_new_value ev = Some (state_change_value c t)))"
proof (cases "t \<in> set (allowed_transitions (cv_state c))")
  case False
  then show ?thesis by (simp add: transition_conversation_def)
next
  case True
  obtain c1 d1 where s: "set_state t c d = (c1, d1)" by fastforce
  with True show ?thesis
    using set_stateD [OF s] set_state_epoch [OF s]
    by (simp add: transition_conversation_def Let_def audit_def audit_at_def)
qed

text \<open>A run of transitions follows a path of the matrix and never comes back to \<open>NEW\<close>; from every
  state a person can be asked for within one step.\<close>

theorem conversation_runs:
  assumes "conv.run (c, d) ts (c', d')"
  shows "conv.path (cv_state c) ts \<and> cv_state c' = (if ts = [] then cv_state c else last ts) \<and>
    NEW \<notin> set ts \<and>
    set (allowed_transitions (cv_state c')) \<inter> {WAITING_FOR_HUMAN, HUMAN_ACTIVE} \<noteq> {}"
proof -
  have p: "conv.path (cv_state c) ts" using conv.run_path [OF assms] by simp
  have "conv.path u us \<Longrightarrow> NEW \<notin> set us" for u us
    by (induction us arbitrary: u) (use new_not_reentered in auto)
  with p have "NEW \<notin> set ts" by blast
  with p human_reachable [of "cv_state c'"] show ?thesis using conv.run_last [OF assms] by auto
qed

lemma conversation_runs_witness:
  "\<exists>c' d'. conv.run (sample_conversation, sample_db) [WAITING_FOR_HUMAN] (c', d') \<and> NEW \<notin> set [WAITING_FOR_HUMAN]"
proof -
  have "\<exists>r. transition_conversation sample_conversation WAITING_FOR_HUMAN ''SYSTEM'' None None sample_db = Inr r"
    unfolding transition_conversation_iff by (simp add: sample_conversation_def)
  then obtain c' d' where t: "transition_conversation sample_conversation WAITING_FOR_HUMAN ''SYSTEM'' None None sample_db
      = Inr (c', d')" by (metis prod.exhaust)
  then have r: "conv.run (sample_conversation, sample_db) [WAITING_FOR_HUMAN] (c', d')"
    by (intro conv.run_step [OF _ conv.run_nil]) auto
  with conversation_runs [OF r] show ?thesis by blast
qed

end
