(* ===== verification/Handoff_Service.thy ===== *)
theory Handoff_Service
  imports Conversation_Service
begin

text \<open>
  \<open>app/handoff/service.py\<close>: opening a case for a human agent. The case, its audit record, the
  pending action and the conversation's transition are one transaction; the answer code depends
  on the attention hours in Bogota.
\<close>

definition handoff_reasons :: "string list" where
  "handoff_reasons = [''CUSTOMER_REQUEST'', ''QUOTE_PREPARATION'', ''PRICE_NEGOTIATION'',
     ''DISCOUNT_REQUEST'', ''PAYMENT_REVIEW'', ''RESERVATION_CONFIRMATION'', ''CANCELLATION'',
     ''COMPLAINT'', ''LOW_CONFIDENCE'', ''UNSUPPORTED_REQUEST'', ''CAPACITY_REVIEW'',
     ''SPECIAL_EVENT'', ''SUPPLIER_CONFIRMATION'', ''URGENT_EVENT'', ''SYSTEM_ERROR'',
     ''REPEATED_NO_SHOW'', ''MANUAL_TAKEOVER'', ''TEMPLATE_UNAVAILABLE'',
     ''CATALOG_NOT_AVAILABLE'', ''OTHER'']"

definition normalize_handoff_reason :: "string \<Rightarrow> string" where
  "normalize_handoff_reason reason = (if reason \<in> set handoff_reasons then reason else ''OTHER'')"

section \<open>The summary\<close>

definition message_text :: "json \<Rightarrow> string" where
  "message_text content =
     (let t = jget ''text'' content in
      if is_obj t then (case jget ''body'' t of JStr b \<Rightarrow> b | _ \<Rightarrow> ''[mensaje no textual]'')
      else ''[mensaje no textual]'')"

text \<open>The last \<open>limit\<close> messages by id, oldest first.\<close>

definition last_messages :: "int \<Rightarrow> nat \<Rightarrow> db \<Rightarrow> message list" where
  "last_messages cid limit d =
     rev (take limit (order_by (\<lambda>a b. ms_id a > ms_id b)
       (filter (\<lambda>m. ms_conversation_id m = cid) (db_messages d))))"

definition build_deterministic_summary ::
  "conversation \<Rightarrow> customer \<Rightarrow> string \<Rightarrow> string option \<Rightarrow> nat \<Rightarrow> db \<Rightarrow> string" where
  "build_deterministic_summary c cu reason detail limit d =
     (let name = (case cu_full_name cu of
          None \<Rightarrow> ''Sin nombre confirmado''
        | Some n \<Rightarrow> if n = [] then ''Sin nombre confirmado'' else n);
          detail_text = (case detail of None \<Rightarrow> [] | Some t \<Rightarrow> if t = [] then [] else '' - '' @ t)
      in join [CHR 0x0A]
       ([''Cliente: '' @ name,
         ''Telefono: '' @ cu_phone_number cu,
         ''Conversacion: '' @ show_int (cv_id c),
         ''Motivo: '' @ reason @ detail_text,
         ''Ultimos mensajes:'']
        @ map (\<lambda>m. ''- '' @ ms_direction m @ '': '' @ message_text (ms_content m))
            (last_messages (cv_id c) limit d)))"

section \<open>Attention hours\<close>

definition datetime_local :: "datetime \<Rightarrow> int" where
  "datetime_local t = (case t of Naive l \<Rightarrow> l | Aware i off \<Rightarrow> i + off)"

fun all_some :: "'a option list \<Rightarrow> 'a list option" where
  "all_some [] = Some []"
| "all_some (None # xs) = None"
| "all_some (Some x # xs) = map_option ((#) x) (all_some xs)"

definition attention_days :: "settings \<Rightarrow> int list option" where
  "attention_days st =
     all_some (map parse_int
       (filter (\<lambda>day. \<not> blank day) (split_on (CHR '','') (st_human_hours_days st))))"

definition is_human_business_hours ::
  "settings \<Rightarrow> datetime option \<Rightarrow> instant \<Rightarrow> (app_error, bool) result" where
  "is_human_business_hours st now clock =
     (let local_now = datetime_local (case now of None \<Rightarrow> Aware clock bogota_offset | Some t \<Rightarrow> t);
          local_time = local_now mod us_day;
          local_weekday = weekday (local_now div us_day + 1)
      in case (attention_days st, parse_hhmm (st_human_hours_start st), parse_hhmm (st_human_hours_end st)) of
           (Some ds, Some from, Some until) \<Rightarrow>
             Inr (local_weekday \<in> set ds \<and> from \<le> local_time \<and> local_time < until)
         | _ \<Rightarrow> Inl (ValueError ''human hours''))"

definition handoff_response_code ::
  "settings \<Rightarrow> datetime option \<Rightarrow> instant \<Rightarrow> (app_error, string) result" where
  "handoff_response_code st now clock =
     ebind (is_human_business_hours st now clock) (\<lambda>open_now.
       Inr (if open_now then ''RESP-HANDOFF-001'' else ''RESP-HANDOFF-002''))"

section \<open>Opening a case\<close>

definition new_handoff :: "int \<Rightarrow> int \<Rightarrow> string \<Rightarrow> handoff_priority \<Rightarrow> string \<Rightarrow> handoff" where
  "new_handoff k cid reason priority summary =
     \<lparr>ho_id = k, ho_conversation_id = cid, ho_status = HO_PENDING, ho_reason = reason,
      ho_priority = priority, ho_summary = summary, ho_assigned_to = None, ho_assigned_agent_id = None,
      ho_taken_at = None, ho_resolved_at = None\<rparr>"

definition add_handoff :: "handoff \<Rightarrow> db \<Rightarrow> db" where
  "add_handoff h d = d\<lparr>db_handoffs := db_handoffs d @ [h]\<rparr>"

definition create_handoff ::
  "conversation \<Rightarrow> customer \<Rightarrow> string \<Rightarrow> handoff_priority \<Rightarrow> string option \<Rightarrow> settings
     \<Rightarrow> string option \<Rightarrow> nat \<Rightarrow> db \<Rightarrow> (app_error, handoff \<times> string \<times> conversation \<times> db) result"
where
  "create_handoff c cu reason priority request_id st detail limit d =
     (let normalized = normalize_handoff_reason reason;
          summary = build_deterministic_summary c cu normalized detail limit d;
          (k, d1) = next_serial d;
          h = new_handoff k (cv_id c) normalized priority summary;
          d2 = add_handoff h d1;
          d3 = audit ''SYSTEM'' ''HANDOFF_CREATED'' ''handoff'' None
                 (Some (JObj [(''conversation_id'', JInt (cv_id c)), (''reason'', JStr normalized),
                    (''detail'', opt_json JStr detail), (''priority'', JStr (priority_str priority))]))
                 normalized request_id d2
      in ebind (set_pending_action (Some ''WAIT_FOR_HUMAN'') c d3) (\<lambda>(c1, d4).
         ebind (if cv_state c1 \<noteq> WAITING_FOR_HUMAN
                then transition_conversation c1 WAITING_FOR_HUMAN ''SYSTEM'' (Some normalized) None d4
                else Inr (c1, d4)) (\<lambda>(c2, d5).
         ebind (handoff_response_code st None (db_clock d5)) (\<lambda>code.
           Inr (h, code, c2, d5)))))"

section \<open>Facts\<close>

lemma normalize_handoff_reason_mem: "normalize_handoff_reason r \<in> set handoff_reasons"
  by (auto simp: normalize_handoff_reason_def handoff_reasons_def)

lemma set_pending_wait:
  "set_pending_action (Some ''WAIT_FOR_HUMAN'') c d =
     Inr (c\<lparr>cv_pending_action := Some ''WAIT_FOR_HUMAN''\<rparr>,
          put_conversation (c\<lparr>cv_pending_action := Some ''WAIT_FOR_HUMAN''\<rparr>) d)"
  by (simp add: set_pending_action_def validate_pending_action_def pending_actions_def Let_def)

lemma waiting_allowed_iff:
  "WAITING_FOR_HUMAN \<in> set (allowed_transitions s) \<longleftrightarrow> s \<notin> {WAITING_FOR_HUMAN, RESOLVED, CLOSED}"
  by (cases s) simp_all

definition hours_ok :: "settings \<Rightarrow> bool" where
  "hours_ok st \<longleftrightarrow> attention_days st \<noteq> None \<and> parse_hhmm (st_human_hours_start st) \<noteq> None \<and>
     parse_hhmm (st_human_hours_end st) \<noteq> None"

lemma handoff_response_code_ok:
  "hours_ok st \<Longrightarrow> \<exists>code. handoff_response_code st now clock = Inr code"
  by (auto simp: hours_ok_def handoff_response_code_def is_human_business_hours_def Let_def)

lemma handoff_response_code_cases:
  "handoff_response_code st now clock = Inr code \<Longrightarrow>
     code \<in> {''RESP-HANDOFF-001'', ''RESP-HANDOFF-002''}"
  by (auto simp: handoff_response_code_def ebind_Inr_iff split: if_splits)

lemma create_handoff_InrD:
  assumes "create_handoff c cu reason priority req st detail limit d = Inr (h, code, c', d')"
  shows "cv_state c' = WAITING_FOR_HUMAN" "cv_pending_action c' = Some ''WAIT_FOR_HUMAN''"
    "ho_status h = HO_PENDING" "ho_conversation_id h = cv_id c"
    "db_handoffs d' = db_handoffs d @ [h]" "cv_id c' = cv_id c"
    "code \<in> {''RESP-HANDOFF-001'', ''RESP-HANDOFF-002''}"
    "cv_state c \<notin> {RESOLVED, CLOSED}"
  using assms
  by (auto simp: create_handoff_def Let_def set_pending_wait ebind_Inr_iff next_serial_def
      add_handoff_def new_handoff_def waiting_allowed_iff split: if_splits
      dest!: transition_conversation_InrD handoff_response_code_cases)

lemma create_handoff_total:
  assumes "hours_ok st" and open_state: "cv_state c \<notin> {RESOLVED, CLOSED}"
  shows "\<exists>r. create_handoff c cu reason priority req st detail limit d = Inr r"
proof -
  let ?c = "c\<lparr>cv_pending_action := Some ''WAIT_FOR_HUMAN''\<rparr>"
  have step: "\<exists>r. (if cv_state ?c \<noteq> WAITING_FOR_HUMAN
       then transition_conversation ?c WAITING_FOR_HUMAN ''SYSTEM'' n None d4 else Inr (?c, d4)) = Inr r" for n d4
    using open_state transition_conversation_iff [of ?c WAITING_FOR_HUMAN]
    by (auto simp: waiting_allowed_iff)
  have "\<exists>n d4 h. create_handoff c cu reason priority req st detail limit d =
      ebind (if cv_state ?c \<noteq> WAITING_FOR_HUMAN
             then transition_conversation ?c WAITING_FOR_HUMAN ''SYSTEM'' n None d4 else Inr (?c, d4)) (\<lambda>(c2, d5).
      ebind (handoff_response_code st None (db_clock d5)) (\<lambda>code. Inr (h, code, c2, d5)))"
    unfolding create_handoff_def Let_def next_serial_def prod.case set_pending_wait ebind_simps
    by (intro exI) (rule refl)
  then obtain n d4 h where eq: "create_handoff c cu reason priority req st detail limit d =
      ebind (if cv_state ?c \<noteq> WAITING_FOR_HUMAN
             then transition_conversation ?c WAITING_FOR_HUMAN ''SYSTEM'' n None d4 else Inr (?c, d4)) (\<lambda>(c2, d5).
      ebind (handoff_response_code st None (db_clock d5)) (\<lambda>code. Inr (h, code, c2, d5)))" by blast
  obtain r where r: "(if cv_state ?c \<noteq> WAITING_FOR_HUMAN
       then transition_conversation ?c WAITING_FOR_HUMAN ''SYSTEM'' n None d4 else Inr (?c, d4)) = Inr r"
    using step by blast
  obtain code where "handoff_response_code st None (db_clock (snd r)) = Inr code"
    using handoff_response_code_ok [OF assms(1)] by blast
  then show ?thesis unfolding eq r by (simp add: case_prod_beta)
qed

lemma sample_hours_ok: "hours_ok sample_settings"
  by (simp add: hours_ok_def attention_days_def sample_settings_def parse_int_def ascii_eval parse_hhmm_def
      is_digit_def digit_val_def digits_val_def us_defs)

section \<open>Properties\<close>

text \<open>With well-formed attention hours a case can be opened from every state except the two closed
  ones, \<open>RESOLVED\<close> and \<open>CLOSED\<close>, where the whole operation is rolled back.\<close>

theorem create_handoff_succeeds_iff:
  assumes "hours_ok st"
  shows "(\<exists>r. create_handoff c cu reason priority req st detail limit d = Inr r) \<longleftrightarrow>
    cv_state c \<notin> {RESOLVED, CLOSED}"
  using create_handoff_total [OF assms] by (auto dest: create_handoff_InrD(8))

lemma create_handoff_succeeds_iff_witness:
  "\<exists>r. create_handoff sample_conversation sample_customer ''OTHER'' HO_NORMAL None sample_settings None 5 sample_db = Inr r"
proof -
  from create_handoff_succeeds_iff [OF sample_hours_ok] show ?thesis by (simp add: sample_conversation_def)
qed

text \<open>An opened case waits for a person: the conversation is \<open>WAITING_FOR_HUMAN\<close> with the matching
  pending action, the new pending case of a listed reason is the only row added, and the answer is one
  of the two handoff texts.\<close>

theorem create_handoff_effect:
  assumes "create_handoff c cu reason priority req st detail limit d = Inr (h, code, c', d')"
  shows "cv_state c' = WAITING_FOR_HUMAN \<and> cv_pending_action c' = Some ''WAIT_FOR_HUMAN'' \<and>
    cv_id c' = cv_id c \<and> ho_status h = HO_PENDING \<and> ho_conversation_id h = cv_id c \<and>
    ho_reason h \<in> set handoff_reasons \<and> db_handoffs d' = db_handoffs d @ [h] \<and>
    code \<in> {''RESP-HANDOFF-001'', ''RESP-HANDOFF-002''}"
proof -
  have "ho_reason h = normalize_handoff_reason reason"
    using assms by (auto simp: create_handoff_def Let_def ebind_Inr_iff next_serial_def new_handoff_def)
  then show ?thesis
    using create_handoff_InrD [OF assms] normalize_handoff_reason_mem by simp
qed

lemma create_handoff_effect_witness:
  "\<exists>h code c' d'. create_handoff sample_conversation sample_customer ''PRICE'' HO_URGENT None sample_settings
      (Some ''rebaja'') 5 sample_db = Inr (h, code, c', d') \<and> cv_state c' = WAITING_FOR_HUMAN"
proof -
  have "\<exists>r. create_handoff sample_conversation sample_customer ''PRICE'' HO_URGENT None sample_settings
      (Some ''rebaja'') 5 sample_db = Inr r"
    by (rule create_handoff_total [OF sample_hours_ok]) (simp add: sample_conversation_def)
  then obtain h code c' d' where "create_handoff sample_conversation sample_customer ''PRICE'' HO_URGENT None
      sample_settings (Some ''rebaja'') 5 sample_db = Inr (h, code, c', d')" by (metis prod.exhaust)
  with create_handoff_effect [OF this] show ?thesis by blast
qed

end
