(* ===== verification/Lease_Queue.thy ===== *)
theory Lease_Queue
  imports Samples
begin

text \<open>
  The contract of a work queue kept in a table: a worker leases a row with a fresh token, does
  its I/O outside any transaction, and settles the row only if the token is still its own; rows
  whose lease is stale are recovered. Four queues of the program have this shape (outgoing
  messages, inbox jobs, scheduled notifications, receipt pre-reviews) and interpret it.
\<close>

datatype ('x, 'y) lease_event =
    LeaseClaim uuid instant
  | LeaseSettle 'x uuid
  | LeaseRecover 'y

definition claims_token :: "uuid \<Rightarrow> ('x, 'y) lease_event list \<Rightarrow> bool" where
  "claims_token t es \<longleftrightarrow> (\<exists>now. LeaseClaim t now \<in> set es)"

lemma claims_token_simps [simp]:
  "\<not> claims_token t []"
  "claims_token t (LeaseClaim u now # es) \<longleftrightarrow> u = t \<or> claims_token t es"
  "claims_token t (LeaseSettle x u # es) \<longleftrightarrow> claims_token t es"
  "claims_token t (LeaseRecover y # es) \<longleftrightarrow> claims_token t es"
  by (auto simp: claims_token_def)

locale lease_queue =
  fixes leased :: "'r \<Rightarrow> bool"
    and owner :: "'r \<Rightarrow> uuid option"
    and claim :: "uuid \<Rightarrow> instant \<Rightarrow> 'r \<Rightarrow> 'r"
    and settle :: "'x \<Rightarrow> uuid \<Rightarrow> 'r \<Rightarrow> 'r"
    and recover :: "'y \<Rightarrow> 'r \<Rightarrow> 'r"
  assumes claim_owner: "leased (claim t now r) \<and> owner (claim t now r) = Some t"
    and settle_fenced: "\<not> (leased r \<and> owner r = Some t) \<Longrightarrow> settle x t r = r"
    and settle_releases: "leased r \<Longrightarrow> owner r = Some t \<Longrightarrow> \<not> leased (settle x t r)"
    and recover_releases: "recover y r \<noteq> r \<Longrightarrow> \<not> leased (recover y r)"
begin

primrec lease_run :: "('x, 'y) lease_event list \<Rightarrow> 'r \<Rightarrow> 'r" where
  "lease_run [] r = r"
| "lease_run (e # es) r = lease_run es (case e of
     LeaseClaim t now \<Rightarrow> claim t now r | LeaseSettle x t \<Rightarrow> settle x t r | LeaseRecover y \<Rightarrow> recover y r)"

definition owned :: "uuid \<Rightarrow> 'r \<Rightarrow> bool" where
  "owned t r \<longleftrightarrow> leased r \<and> owner r = Some t"

lemma owned_claim: "owned u (claim t now r) \<longleftrightarrow> u = t"
  using claim_owner by (auto simp: owned_def)

lemma not_owned_settle: "\<not> owned t r \<Longrightarrow> \<not> owned t (settle x u r)"
  using settle_fenced settle_releases by (metis owned_def)

lemma not_owned_recover: "\<not> owned t r \<Longrightarrow> \<not> owned t (recover y r)"
  using recover_releases by (metis owned_def)

text \<open>A lost lease is lost for good: only a claim with the same token gives it back.\<close>

lemma lost_lease: "\<not> owned t r \<Longrightarrow> \<not> claims_token t es \<Longrightarrow> \<not> owned t (lease_run es r)"
  by (induction es arbitrary: r)
     (auto simp: owned_claim not_owned_settle not_owned_recover split: lease_event.splits)

lemma late_settle_ignored:
  "\<not> owned t r \<Longrightarrow> \<not> claims_token t es \<Longrightarrow> settle x t (lease_run es r) = lease_run es r"
  using lost_lease settle_fenced by (simp add: owned_def)

text \<open>One claim, one settlement: after the first with its token every later one changes nothing.\<close>

lemma settle_once:
  "\<not> claims_token t es \<Longrightarrow>
     settle z t (lease_run es (settle x t r)) = lease_run es (settle x t r)"
  by (rule late_settle_ignored) (metis owned_def settle_fenced settle_releases)

text \<open>A recovered row ignores the worker that had leased it.\<close>

lemma recovered_ignores:
  "recover y r \<noteq> r \<Longrightarrow> \<not> claims_token t es \<Longrightarrow>
     settle x t (lease_run es (recover y r)) = lease_run es (recover y r)"
  by (rule late_settle_ignored) (simp_all add: owned_def recover_releases)

end

end
