(* ===== verification/Notification_Queue.thy ===== *)
theory Notification_Queue
  imports Lease_Queue
begin

text \<open>
  \<open>app/notifications/queue.py\<close>: claim, recovery and settlement shared by the two tables of
  scheduled notifications, with \<open>backoff_seconds\<close> of \<open>app/channel/worker.py\<close>. The table, the audit
  function and the prefix of its actions, which the code passes as arguments, are the record
  \<open>notification_table\<close>.
\<close>

section \<open>Errors of the provider\<close>

datatype send_error =
    OutboundSendError string "int option" bool
  | RequestError string
  | StuckTimeout

fun send_error_str :: "send_error \<Rightarrow> string" where
  "send_error_str (OutboundSendError m code retryable) = m"
| "send_error_str (RequestError m) = m"
| "send_error_str StuckTimeout = ''Env'' @ i_acute @ ''o atascado recuperado''"

fun send_error_code :: "send_error \<Rightarrow> int option" where
  "send_error_code (OutboundSendError m code retryable) = code"
| "send_error_code _ = None"

fun send_error_permanent :: "send_error \<Rightarrow> bool" where
  "send_error_permanent (OutboundSendError m code retryable) = (\<not> retryable)"
| "send_error_permanent _ = False"

definition backoff_seconds :: "nat \<Rightarrow> int \<Rightarrow> int" where
  "backoff_seconds attempts max_backoff = min (2 ^ attempts) max_backoff"

section \<open>Rows\<close>

definition retire :: "notification_status \<Rightarrow> instant \<Rightarrow> 'a notification_row_scheme \<Rightarrow> 'a notification_row_scheme" where
  "retire state now row = row\<lparr>nt_status := state, nt_claim_token := None, nt_claimed_at := None,
     nt_updated_at := now\<rparr>"

definition fail_row ::
  "send_error \<Rightarrow> settings \<Rightarrow> instant \<Rightarrow> 'a notification_row_scheme \<Rightarrow> 'a notification_row_scheme"
where
  "fail_row err st now row =
     (let row1 = row\<lparr>nt_attempts := nt_attempts row + 1,
                     nt_last_error := Some (cp_take 4000 (send_error_str err)),
                     nt_last_error_code := send_error_code err\<rparr>;
          row2 = retire (if send_error_permanent err \<or>
                            st_staff_outbox_max_attempts st \<le> nt_attempts row1
                         then NT_FAILED else NT_PENDING) now row1
      in row2\<lparr>nt_next_attempt_at := now +
           seconds (backoff_seconds (nt_attempts row2) (st_outbox_max_backoff_seconds st))\<rparr>)"

text \<open>The server's \<open>onupdate\<close> stamps \<open>updated_at\<close> with its clock.\<close>

definition lease_row :: "uuid \<Rightarrow> instant \<Rightarrow> instant \<Rightarrow> 'a notification_row_scheme \<Rightarrow> 'a notification_row_scheme" where
  "lease_row token now clock row = row\<lparr>nt_status := NT_SENDING, nt_claim_token := Some token,
     nt_claimed_at := Some now, nt_updated_at := clock\<rparr>"

section \<open>The table operations\<close>

record 'r notification_table =
  nq_rows :: "db \<Rightarrow> 'r list"
  nq_put :: "'r \<Rightarrow> db \<Rightarrow> db"
  nq_audit :: "string \<Rightarrow> 'r \<Rightarrow> string option \<Rightarrow> string option \<Rightarrow> db \<Rightarrow> db"
  nq_prefix :: string

definition fail_notification ::
  "'a notification_row_scheme notification_table \<Rightarrow> 'a notification_row_scheme \<Rightarrow> send_error
     \<Rightarrow> settings \<Rightarrow> instant \<Rightarrow> db \<Rightarrow> db"
where
  "fail_notification nq row err st now d =
     (let old = nt_status row; row' = fail_row err st now row
      in nq_audit nq (nq_prefix nq @ ''_FAILED'') row' (Some (notification_status_str old)) None
           (nq_put nq row' d))"

text \<open>\<open>values\<close> are the tuples the caller's statement selected; \<open>row_of\<close> is their first component.\<close>

fun claim_batch ::
  "'a notification_row_scheme notification_table \<Rightarrow> instant \<Rightarrow> ('v \<Rightarrow> 'a notification_row_scheme)
     \<Rightarrow> ('v \<Rightarrow> bool) \<Rightarrow> ('v \<Rightarrow> uuid \<Rightarrow> 'c) \<Rightarrow> 'v list \<Rightarrow> db \<Rightarrow> 'c list \<times> db"
where
  "claim_batch nq now row_of admissible build_claim [] d = ([], d)"
| "claim_batch nq now row_of admissible build_claim (v # vs) d =
     (if \<not> admissible v
      then let row = retire NT_EXPIRED now (row_of v);
               d1 = nq_audit nq (nq_prefix nq @ ''_EXPIRED'') row (Some ''PENDING'') None (nq_put nq row d)
           in claim_batch nq now row_of admissible build_claim vs d1
      else case uuid4 d of (token, d1) \<Rightarrow>
             let row = lease_row token now (db_clock d1) (row_of v);
                 (cs, d2) = claim_batch nq now row_of admissible build_claim vs (nq_put nq row d1)
             in (build_claim v token # cs, d2))"

definition needs_maintenance :: "settings \<Rightarrow> instant \<Rightarrow> 'a notification_row_scheme \<Rightarrow> bool" where
  "needs_maintenance st now row =
     (let stale = now - seconds (st_outbox_sending_timeout_seconds st);
          cutoff = now - hours (st_staff_deferred_max_age_hours st)
      in (nt_status row = NT_DEFERRED \<and> nt_created_at row < cutoff) \<or>
         (nt_status row = NT_SENDING \<and>
            (case nt_claimed_at row of Some t \<Rightarrow> t < stale | None \<Rightarrow> nt_created_at row < stale)))"

definition maintain_row ::
  "'a notification_row_scheme notification_table \<Rightarrow> settings \<Rightarrow> instant
     \<Rightarrow> 'a notification_row_scheme \<Rightarrow> db \<Rightarrow> db"
where
  "maintain_row nq st now row d =
     (if nt_status row = NT_DEFERRED
      then let row' = retire NT_EXPIRED now row
           in nq_audit nq (nq_prefix nq @ ''_EXPIRED'') row' (Some ''DEFERRED'') None (nq_put nq row' d)
      else fail_notification nq row StuckTimeout st now d)"

definition maintain_queue ::
  "'a notification_row_scheme notification_table \<Rightarrow> settings \<Rightarrow> instant \<Rightarrow> db \<Rightarrow> db"
where
  "maintain_queue nq st now d =
     fold (maintain_row nq st now)
       (order_by (\<lambda>a b. nt_id a < nt_id b) (filter (needs_maintenance st now) (nq_rows nq d))) d"

text \<open>What a settlement writes to the row, before its audit record.\<close>

definition settle_row ::
  "send_error option \<Rightarrow> notification_status \<Rightarrow> ('a notification_row_scheme \<Rightarrow> 'a notification_row_scheme)
     \<Rightarrow> settings \<Rightarrow> instant \<Rightarrow> uuid \<Rightarrow> 'a notification_row_scheme \<Rightarrow> 'a notification_row_scheme"
where
  "settle_row err state upd st now token row =
     (if nt_status row \<noteq> NT_SENDING \<or> nt_claim_token row \<noteq> Some token then row
      else case err of Some e \<Rightarrow> fail_row e st now row | None \<Rightarrow> upd (retire state now row))"

definition settle_claim ::
  "'a notification_row_scheme notification_table \<Rightarrow> int \<Rightarrow> uuid \<Rightarrow> settings \<Rightarrow> instant
     \<Rightarrow> notification_status \<Rightarrow> send_error option
     \<Rightarrow> ('a notification_row_scheme \<Rightarrow> 'a notification_row_scheme) \<Rightarrow> db \<Rightarrow> db"
where
  "settle_claim nq notification_id token st now state err upd d =
     (case get_row nt_id notification_id (nq_rows nq d) of
        None \<Rightarrow> d
      | Some row \<Rightarrow>
          if nt_status row \<noteq> NT_SENDING \<or> nt_claim_token row \<noteq> Some token then d
          else (case err of
              Some e \<Rightarrow> fail_notification nq row e st now d
            | None \<Rightarrow>
                let row' = upd (retire state now row)
                in nq_audit nq (nq_prefix nq @ ''_'' @ notification_status_str state) row'
                     (Some ''SENDING'') None (nq_put nq row' d)))"

text \<open>\<open>fail\<close> and the row part of \<open>maintain_queue\<close> agree with the row functions.\<close>

definition recover_row :: "settings \<Rightarrow> instant \<Rightarrow> 'a notification_row_scheme \<Rightarrow> 'a notification_row_scheme" where
  "recover_row st now row =
     (if \<not> needs_maintenance st now row then row
      else if nt_status row = NT_DEFERRED then retire NT_EXPIRED now row
      else fail_row StuckTimeout st now row)"

section \<open>Facts on rows\<close>

lemma retire_simps [simp]:
  "nt_id (retire s now r) = nt_id r" "nt_status (retire s now r) = s"
  "nt_claim_token (retire s now r) = None" "nt_attempts (retire s now r) = nt_attempts r"
  "nt_created_at (retire s now r) = nt_created_at r"
  "nt_claimed_at (retire s now r) = None"
  by (simp_all add: retire_def)

lemma fail_row_simps [simp]:
  "nt_id (fail_row e st now r) = nt_id r" "nt_claim_token (fail_row e st now r) = None"
  "nt_attempts (fail_row e st now r) = Suc (nt_attempts r)"
  "nt_created_at (fail_row e st now r) = nt_created_at r"
  "nt_status (fail_row e st now r) =
     (if send_error_permanent e \<or> st_staff_outbox_max_attempts st \<le> Suc (nt_attempts r)
      then NT_FAILED else NT_PENDING)"
  "nt_next_attempt_at (fail_row e st now r) =
     now + seconds (backoff_seconds (Suc (nt_attempts r)) (st_outbox_max_backoff_seconds st))"
  by (simp_all add: fail_row_def Let_def)

lemma lease_row_simps [simp]:
  "nt_id (lease_row t now c r) = nt_id r" "nt_status (lease_row t now c r) = NT_SENDING"
  "nt_claim_token (lease_row t now c r) = Some t" "nt_claimed_at (lease_row t now c r) = Some now"
  "nt_attempts (lease_row t now c r) = nt_attempts r"
  by (simp_all add: lease_row_def)

lemma recover_row_id [simp]: "nt_id (recover_row st now r) = nt_id r"
  by (simp add: recover_row_def)

text \<open>Recovery leaves nothing for a second recovery at the same instant.\<close>

lemma recover_row_done: "\<not> needs_maintenance st now (recover_row st now r)"
  by (auto simp: recover_row_def needs_maintenance_def Let_def)

lemma backoff_seconds_bounds:
  "0 \<le> m \<Longrightarrow> 0 \<le> backoff_seconds n m \<and> backoff_seconds n m \<le> m"
  by (auto simp: backoff_seconds_def)

lemma backoff_seconds_mono: "backoff_seconds n m \<le> backoff_seconds (Suc n) m"
  unfolding backoff_seconds_def by (intro min.mono) simp_all

text \<open>A row waits for another attempt only while attempts are left.\<close>

definition attempts_ok :: "settings \<Rightarrow> 'a notification_row_scheme \<Rightarrow> bool" where
  "attempts_ok st r \<longleftrightarrow> nt_status r \<in> {NT_PENDING, NT_SENDING} \<longrightarrow>
     nt_attempts r < st_staff_outbox_max_attempts st"

lemma attempts_ok_steps:
  "attempts_ok st (fail_row e st now r)"
  "attempts_ok st r \<Longrightarrow> attempts_ok st (recover_row st now r)"
  "nt_status r = NT_PENDING \<Longrightarrow> attempts_ok st r \<Longrightarrow> attempts_ok st (lease_row t now c r)"
  by (auto simp: attempts_ok_def recover_row_def)

section \<open>The store\<close>

text \<open>What the queue needs of a table: a write is a write, and an audit record leaves it alone.\<close>

locale notification_store =
  fixes nq :: "'a notification_row_scheme notification_table"
  assumes rows_put: "nq_rows nq (nq_put nq r d) = put_row nt_id r (nq_rows nq d)"
    and rows_audit: "nq_rows nq (nq_audit nq action r old req d) = nq_rows nq d"
    and rows_draw: "nq_rows nq (snd (uuid4 d)) = nq_rows nq d"
begin

lemma fail_rows:
  "nq_rows nq (fail_notification nq r e st now d) = put_row nt_id (fail_row e st now r) (nq_rows nq d)"
  by (simp add: fail_notification_def Let_def rows_put rows_audit)

lemma maintain_row_rows:
  "needs_maintenance st now r \<Longrightarrow>
     nq_rows nq (maintain_row nq st now r d) = put_row nt_id (recover_row st now r) (nq_rows nq d)"
  by (simp add: maintain_row_def recover_row_def Let_def rows_put rows_audit fail_rows)

lemma fold_maintain:
  "list_all (needs_maintenance st now) rs \<Longrightarrow>
     nq_rows nq (fold (maintain_row nq st now) rs d) =
       fold (\<lambda>r. put_row nt_id (recover_row st now r)) rs (nq_rows nq d)"
  by (induction rs arbitrary: d) (simp_all add: maintain_row_rows)

lemma maintain_queue_rows:
  assumes "keys_ok nt_id (nq_rows nq d)"
  shows "nq_rows nq (maintain_queue nq st now d) = map (recover_row st now) (nq_rows nq d)"
proof -
  let ?xs = "order_by (\<lambda>a b. nt_id a < nt_id b) (filter (needs_maintenance st now) (nq_rows nq d))"
  have inj: "inj_on nt_id (set (nq_rows nq d))" and dist: "distinct (nq_rows nq d)"
    using assms by (simp_all add: keys_ok_def distinct_map)
  have "distinct (map nt_id ?xs)"
    using dist by (simp add: distinct_map) (rule inj_on_subset [OF inj], auto)
  then have "fold (\<lambda>r. put_row nt_id (recover_row st now r)) ?xs (nq_rows nq d) =
      map (\<lambda>r. if r \<in> set ?xs then recover_row st now r else r) (nq_rows nq d)"
    by (intro fold_put_row assms) auto
  also have "\<dots> = map (recover_row st now) (nq_rows nq d)"
    by (intro map_cong refl) (auto simp: recover_row_def)
  finally show ?thesis
    unfolding maintain_queue_def by (subst fold_maintain) (auto simp: list_all_iff)
qed

lemma settle_claim_rows:
  assumes "keys_ok nt_id (nq_rows nq d)" and "\<And>r. nt_id (upd r) = nt_id r"
  shows "nq_rows nq (settle_claim nq i token st now state err upd d) =
    map (\<lambda>r. if nt_id r = i then settle_row err state upd st now token r else r) (nq_rows nq d)"
proof (cases "get_row nt_id i (nq_rows nq d)")
  case None
  then have "\<forall>r \<in> set (nq_rows nq d). nt_id r \<noteq> i" by (auto simp: get_row_None_iff)
  then have "map (\<lambda>r. if nt_id r = i then settle_row err state upd st now token r else r) (nq_rows nq d)
      = nq_rows nq d" by (intro map_idI) simp
  then show ?thesis using None by (simp add: settle_claim_def)
next
  case (Some row)
  then have row: "row \<in> set (nq_rows nq d)" "nt_id row = i" by (auto dest: get_row_SomeD)
  have same: "r = row" if "r \<in> set (nq_rows nq d)" "nt_id r = i" for r
    using that row assms(1) by (auto simp: keys_ok_def distinct_map inj_on_def)
  have "nt_id (settle_row err state upd st now token row) = i"
    using row assms(2) by (simp add: settle_row_def split: option.split)
  then have put: "put_row nt_id (settle_row err state upd st now token row) (nq_rows nq d) =
      map (\<lambda>r. if nt_id r = i then settle_row err state upd st now token r else r) (nq_rows nq d)"
    unfolding put_row_def by (intro map_cong refl) (auto dest: same)
  have id: "put_row nt_id row (nq_rows nq d) = nq_rows nq d"
    unfolding put_row_def by (intro map_idI) (auto dest: same simp: row)
  show ?thesis
    unfolding put [symmetric] using Some id
    by (auto simp: settle_claim_def settle_row_def Let_def rows_put rows_audit fail_rows split: option.split)
qed

end

section \<open>The batch\<close>

text \<open>Every claim is of an admissible candidate, in the order of the statement.\<close>

lemma claim_batch_admissible:
  "claim_batch nq now row_of adm build vs d = (cs, d') \<Longrightarrow> c \<in> set cs \<Longrightarrow>
     \<exists>v token. v \<in> set vs \<and> adm v \<and> c = build v token"
proof (induction vs arbitrary: d cs d')
  case Nil
  then show ?case by simp
next
  case (Cons v vs)
  show ?case
  proof (cases "adm v")
    case False
    with Cons.prems obtain d1 where "claim_batch nq now row_of adm build vs d1 = (cs, d')"
      by (auto simp: Let_def)
    from Cons.IH [OF this Cons.prems(2)] show ?thesis by auto
  next
    case True
    with Cons.prems(1) obtain token d1 cs1 where
      rest: "claim_batch nq now row_of adm build vs d1 = (cs1, d')" and cs: "cs = build v token # cs1"
      by (auto simp: Let_def split: prod.splits)
    show ?thesis
    proof (cases "c = build v token")
      case False
      with cs Cons.prems(2) have "c \<in> set cs1" by simp
      from Cons.IH [OF rest this] show ?thesis by auto
    qed (use True in auto)
  qed
qed

lemma claim_batch_length:
  "claim_batch nq now row_of adm build vs d = (cs, d') \<Longrightarrow> length cs \<le> length vs"
proof (induction vs arbitrary: d cs d')
  case (Cons v vs)
  show ?case
  proof (cases "adm v")
    case False
    with Cons.prems obtain d1 where "claim_batch nq now row_of adm build vs d1 = (cs, d')"
      by (auto simp: Let_def)
    from Cons.IH [OF this] show ?thesis by simp
  next
    case True
    with Cons.prems obtain d1 cs1 where "claim_batch nq now row_of adm build vs d1 = (cs1, d')"
      and "length cs = Suc (length cs1)"
      by (auto simp: Let_def split: prod.splits)
    with Cons.IH show ?thesis by fastforce
  qed
qed simp

end
