(* ===== verification/Money.thy ===== *)
theory Money
  imports Samples
begin

text \<open>
  Amounts of Colombian pesos: the deposit of a booking (\<open>deposit_amount\<close> of
  \<open>app/reservation/booking.py\<close>) and their presentation (\<open>_present_cop\<close> of
  \<open>app/conversation/presentation.py\<close>).
\<close>

section \<open>The deposit\<close>

text \<open>The percentage of the price, rounded up to whole thousands by integer arithmetic.\<close>

definition deposit_amount :: "settings \<Rightarrow> int \<Rightarrow> (app_error, int) result" where
  "deposit_amount st price =
     (if price \<le> 0 then Inl (ValueError ''El precio debe ser positivo.'')
      else let numerator = price * st_booking_deposit_percent st
           in Inr ((numerator + 100000 - 1) div 100000 * 1000))"

lemma deposit_amount_Inr_iff:
  "deposit_amount st price = Inr a \<longleftrightarrow>
     0 < price \<and> a = (price * st_booking_deposit_percent st + 99999) div 100000 * 1000"
  by (auto simp: deposit_amount_def Let_def)

text \<open>The ceiling: a multiple of 1000 at or above the percentage, and less than 1000 above it.\<close>

lemma deposit_amount_bounds:
  assumes "deposit_amount st price = Inr a"
  shows "a mod 1000 = 0 \<and> price * st_booking_deposit_percent st \<le> 100 * a \<and>
     100 * a < price * st_booking_deposit_percent st + 100000"
proof -
  let ?n = "price * st_booking_deposit_percent st"
  from assms have a: "a = (?n + 99999) div 100000 * 1000"
    by (simp add: deposit_amount_Inr_iff)
  have "(?n + 99999) div 100000 * 100000 + (?n + 99999) mod 100000 = ?n + 99999"
    by (rule div_mult_mod_eq)
  moreover have "0 \<le> (?n + 99999) mod 100000" "(?n + 99999) mod 100000 < 100000" by simp_all
  ultimately have "?n \<le> 100 * a" "100 * a < ?n + 100000"
    unfolding a by linarith+
  then show ?thesis using a by simp
qed

lemma deposit_amount_pos:
  assumes "deposit_amount st price = Inr a" and "1 \<le> st_booking_deposit_percent st"
  shows "0 < a"
proof -
  have "0 < price * st_booking_deposit_percent st"
    using assms by (simp add: deposit_amount_Inr_iff)
  with deposit_amount_bounds [OF assms(1)] show ?thesis by linarith
qed

section \<open>Presentation\<close>

text \<open>\<open>f"{value:,}".replace(",", ".")\<close>: a point before every third digit from the right.\<close>

fun group3 :: "string \<Rightarrow> string" where
  "group3 (a # b # c # d # rest) = a # b # c # CHR ''.'' # group3 (d # rest)"
| "group3 ds = ds"

definition present_cop :: "int \<Rightarrow> (app_error, string) result" where
  "present_cop value =
     (if value < 0 then Inl (ValueError ''Expected a nonnegative integer COP amount'')
      else Inr (''$'' @ rev (group3 (rev (show_nat (nat value))))))"

lemma present_cop_Inr: "0 \<le> v \<Longrightarrow> \<exists>s. present_cop v = Inr s"
  by (simp add: present_cop_def)

text \<open>Dropping the points gives the digits back, so the presentation determines the amount's digits.\<close>

lemma filter_group3: "CHR ''.'' \<notin> set ds \<Longrightarrow> filter (\<lambda>c. c \<noteq> CHR ''.'') (group3 ds) = ds"
  by (induction ds rule: group3.induct) auto

section \<open>Properties\<close>

text \<open>The deposit is the configured percentage of the price rounded up to whole thousands: a multiple of
  1000, at least the percentage, and less than 1000 above it.\<close>

theorem deposit_is_ceiling:
  assumes "deposit_amount st price = Inr a"
  shows "a mod 1000 = 0 \<and> price * st_booking_deposit_percent st \<le> 100 * a \<and>
    100 * (a - 1000) < price * st_booking_deposit_percent st"
  using deposit_amount_bounds [OF assms] by auto

lemma deposit_is_ceiling_witness:
  "\<exists>a. deposit_amount sample_settings 950001 = Inr a \<and> a mod 1000 = 0 \<and> a = 476000"
proof -
  have d: "deposit_amount sample_settings 950001 = Inr 476000"
    by (simp add: deposit_amount_def sample_settings_def)
  note c = deposit_is_ceiling [OF d]
  show ?thesis by (intro exI [of _ 476000] conjI d conjunct1 [OF c] refl)
qed

end
