(* ===== verification/Staff_Texts.thy ===== *)
theory Staff_Texts
  imports Money
begin

text \<open>
  \<open>app/notifications/staff_texts.py\<close>: the parameters of a staff notice, its text, its template and
  the attention window of an adviser; with \<open>format_date_natural\<close> of
  \<open>app/conversation/presentation.py\<close>.
\<close>

section \<open>Sanitized parameters\<close>

text \<open>\<open>re.sub(r"\s+", " ", value)\<close>.\<close>

fun collapse_from :: "bool \<Rightarrow> nat list \<Rightarrow> nat list" where
  "collapse_from in_run [] = []"
| "collapse_from in_run (c # cs) =
     (if is_space c
      then (if in_run then collapse_from True cs else 32 # collapse_from True cs)
      else c # collapse_from False cs)"

definition collapse :: "nat list \<Rightarrow> nat list" where
  "collapse cs = collapse_from False cs"

definition sanitize_cps :: "nat list \<Rightarrow> nat list" where
  "sanitize_cps cs =
     (let s = strip_cps (take 120 (strip_cps (collapse cs))) in if s = [] then [45] else s)"

definition sanitize_param :: "string \<Rightarrow> string" where
  "sanitize_param value = utf8_encode (sanitize_cps (utf8_decode value))"

text \<open>Every space is U+0020 and no two are adjacent.\<close>

fun single_spaced :: "nat list \<Rightarrow> bool" where
  "single_spaced [] = True"
| "single_spaced [c] = (is_space c \<longrightarrow> c = 32)"
| "single_spaced (c # d # cs) =
     ((is_space c \<longrightarrow> c = 32 \<and> \<not> is_space d) \<and> single_spaced (d # cs))"

lemma is_space_32 [simp]: "is_space 32" and is_space_45 [simp]: "\<not> is_space 45"
  by (simp_all add: is_space_def)

lemma single_spaced_Cons:
  "single_spaced (c # cs) \<longleftrightarrow>
     (is_space c \<longrightarrow> c = 32 \<and> (cs = [] \<or> \<not> is_space (hd cs))) \<and> single_spaced cs"
  by (cases cs) auto

lemma single_spaced_collapse_from:
  "single_spaced (collapse_from b cs) \<and>
     (b \<longrightarrow> collapse_from b cs = [] \<or> \<not> is_space (hd (collapse_from b cs)))"
  by (induction b cs rule: collapse_from.induct) (auto simp: single_spaced_Cons)

lemma single_spaced_collapse: "single_spaced (collapse cs)"
  using single_spaced_collapse_from by (simp add: collapse_def)

lemma collapse_from_id:
  "single_spaced cs \<Longrightarrow> (b \<longrightarrow> cs = [] \<or> \<not> is_space (hd cs)) \<Longrightarrow> collapse_from b cs = cs"
  by (induction b cs rule: collapse_from.induct) (auto simp: single_spaced_Cons)

lemma collapse_id: "single_spaced cs \<Longrightarrow> collapse cs = cs"
  by (simp add: collapse_def collapse_from_id)

lemma single_spaced_tl: "single_spaced (c # cs) \<Longrightarrow> single_spaced cs"
  by (cases cs) auto

lemma single_spaced_drop: "single_spaced cs \<Longrightarrow> single_spaced (drop n cs)"
  by (induction n arbitrary: cs) (auto simp: drop_Suc tl_def dest: single_spaced_tl split: list.split)

lemma single_spaced_take: "single_spaced cs \<Longrightarrow> single_spaced (take n cs)"
proof (induction cs arbitrary: n)
  case (Cons c cs)
  show ?case
  proof (cases n)
    case (Suc m)
    have "single_spaced (take m cs)" using Cons by (simp add: single_spaced_Cons)
    with Cons.prems show ?thesis by (auto simp: Suc single_spaced_Cons hd_take)
  qed simp
qed simp

section \<open>Stripping\<close>

text \<open>Neither end is a space.\<close>

definition stripped :: "nat list \<Rightarrow> bool" where
  "stripped cs \<longleftrightarrow> cs = [] \<or> (\<not> is_space (hd cs) \<and> \<not> is_space (last cs))"

lemma dropWhile_drop: "\<exists>n. dropWhile p xs = drop n xs"
  by (rule exI [of _ "length (takeWhile p xs)"]) (simp add: dropWhile_eq_drop)

lemma strip_cps_slice: "\<exists>m n. strip_cps cs = take m (drop n cs)"
proof -
  obtain n where n: "dropWhile is_space cs = drop n cs" using dropWhile_drop by blast
  obtain k where k: "dropWhile is_space (rev (drop n cs)) = drop k (rev (drop n cs))"
    using dropWhile_drop by blast
  have "rev (drop k (rev ys)) = take (length ys - k) ys" for ys :: "nat list"
    by (simp add: rev_drop)
  then have "strip_cps cs = take (length (drop n cs) - k) (drop n cs)"
    by (simp only: strip_cps_def n k)
  then show ?thesis by blast
qed

lemma hd_rev_dropWhile:
  "ys \<noteq> [] \<Longrightarrow> \<not> p (hd ys) \<Longrightarrow> rev (dropWhile p (rev ys)) \<noteq> [] \<and> hd (rev (dropWhile p (rev ys))) = hd ys"
  by (cases ys) (auto simp: dropWhile_append)

lemma stripped_strip: "stripped (strip_cps cs)"
proof -
  let ?a = "dropWhile is_space cs"
  let ?b = "dropWhile is_space (rev ?a)"
  show ?thesis
  proof (cases "?a = []")
    case True
    show ?thesis by (simp only: strip_cps_def True) (simp add: stripped_def)
  next
    case False
    then have h: "\<not> is_space (hd ?a)" by (rule hd_dropWhile)
    with False have "rev ?b \<noteq> [] \<and> hd (rev ?b) = hd ?a" by (intro hd_rev_dropWhile)
    moreover from this have "\<not> is_space (hd ?b)" using hd_dropWhile [of is_space "rev ?a"] by auto
    ultimately show ?thesis using h by (simp add: strip_cps_def stripped_def last_rev)
  qed
qed

lemma strip_cps_id: "stripped cs \<Longrightarrow> strip_cps cs = cs"
proof (cases "cs = []")
  case False
  assume "stripped cs"
  with False have h: "\<not> is_space (hd cs)" "\<not> is_space (hd (rev cs))"
    by (simp_all add: stripped_def hd_rev)
  have "dropWhile is_space cs = cs" using h(1) False by (cases cs) auto
  moreover have "dropWhile is_space (rev cs) = rev cs" using h(2) False by (cases "rev cs") auto
  ultimately show ?thesis by (simp add: strip_cps_def)
qed (simp add: strip_cps_def)

lemma set_strip_cps: "set (strip_cps cs) \<subseteq> set cs"
  using strip_cps_slice [of cs] by (auto dest!: in_set_takeD in_set_dropD)

lemma length_strip_cps: "length (strip_cps cs) \<le> length cs"
  using strip_cps_slice [of cs] by auto

lemma single_spaced_strip: "single_spaced cs \<Longrightarrow> single_spaced (strip_cps cs)"
  using strip_cps_slice [of cs] single_spaced_take [OF single_spaced_drop] by metis

section \<open>Sanitizing is idempotent\<close>

lemma sanitize_cps_normal:
  "single_spaced (sanitize_cps cs) \<and> stripped (sanitize_cps cs) \<and>
     length (sanitize_cps cs) \<le> 120 \<and> sanitize_cps cs \<noteq> []"
proof -
  let ?t = "take 120 (strip_cps (collapse cs))"
  have "single_spaced (strip_cps ?t)"
    by (intro single_spaced_strip single_spaced_take single_spaced_collapse)
  moreover have "length (strip_cps ?t) \<le> 120"
    using length_strip_cps [of ?t] by simp
  moreover have "stripped [45]" by (simp add: stripped_def is_space_def)
  ultimately show ?thesis
    using stripped_strip [of ?t] by (simp add: sanitize_cps_def Let_def)
qed

lemma sanitize_cps_id:
  "single_spaced cs \<Longrightarrow> stripped cs \<Longrightarrow> length cs \<le> 120 \<Longrightarrow> cs \<noteq> [] \<Longrightarrow> sanitize_cps cs = cs"
  by (simp add: sanitize_cps_def collapse_id strip_cps_id)

lemma sanitize_cps_idem: "sanitize_cps (sanitize_cps cs) = sanitize_cps cs"
  using sanitize_cps_normal [of cs] by (simp add: sanitize_cps_id)

lemma set_collapse_from: "set (collapse_from b cs) \<subseteq> insert 32 (set cs)"
  by (induction b cs rule: collapse_from.induct) auto

lemma sanitize_cps_bound:
  assumes "list_all (\<lambda>c. c < 4194304) cs"
  shows "list_all (\<lambda>c. c < 4194304) (sanitize_cps cs)"
proof -
  have "set (sanitize_cps cs) \<subseteq> insert 45 (insert 32 (set cs))"
    using set_strip_cps [of "take 120 (strip_cps (collapse cs))"] set_strip_cps [of "collapse cs"]
      set_collapse_from [of False cs] set_take_subset [of 120 "strip_cps (collapse cs)"]
    by (auto simp: sanitize_cps_def Let_def collapse_def)
  with assms show ?thesis by (force simp: list_all_iff)
qed

lemma utf8_decode_bound: "list_all (\<lambda>c. c < 4194304) (utf8_decode s)"
proof -
  have "list_all (\<lambda>b. b < 256) (map of_char s :: nat list)" by (simp add: list_all_iff)
  then show ?thesis unfolding utf8_decode_def by (intro utf8_decode_aux_bound) 
qed

lemma utf8_decode_sanitize: "utf8_decode (sanitize_param s) = sanitize_cps (utf8_decode s)"
  by (simp add: sanitize_param_def utf8_decode_encode sanitize_cps_bound utf8_decode_bound)

lemma sanitize_param_idem: "sanitize_param (sanitize_param s) = sanitize_param s"
  unfolding sanitize_param_def [of "sanitize_param s"] utf8_decode_sanitize sanitize_cps_idem
  by (simp add: sanitize_param_def)

section \<open>Presenting dates, telephones and identities\<close>

definition month_names :: "(int \<times> string) list" where
  "month_names = [(1, ''enero''), (2, ''febrero''), (3, ''marzo''), (4, ''abril''), (5, ''mayo''),
     (6, ''junio''), (7, ''julio''), (8, ''agosto''), (9, ''septiembre''), (10, ''octubre''),
     (11, ''noviembre''), (12, ''diciembre'')]"

definition month_name :: "int \<Rightarrow> string" where
  "month_name m = (case map_of month_names m of None \<Rightarrow> [] | Some s \<Rightarrow> s)"

definition format_date_natural :: "date \<Rightarrow> string" where
  "format_date_natural d = (case ymd_of_date d of (y, m, dd) \<Rightarrow>
     show_int dd @ '' de '' @ month_name m @ '' de '' @ show_int y)"

text \<open>
  \<open>re.fullmatch(r"\+573\d{9}", phone)\<close>. \<open>digit\<close> is read on ASCII, as every number that passed
  the E.164 normalization of the webhook is.
\<close>

definition present_phone :: "string \<Rightarrow> string" where
  "present_phone phone =
     (if length phone = 13 \<and> is_prefix ''+573'' phone \<and> list_all is_digit (drop 4 phone)
      then ''+57 '' @ take 3 (drop 3 phone) @ '' '' @ take 3 (drop 6 phone) @ '' '' @ drop 9 phone
      else phone)"

definition present_start :: "instant \<Rightarrow> string" where
  "present_start starts_at =
     (let tm = bogota_time starts_at; hour = tm div us_hour; minute = tm mod us_hour div us_minute;
          period = (if hour < 12 then ''a. m.'' else ''p. m.'');
          twelve = (if hour mod 12 = 0 then 12 else hour mod 12);
          clock = show_int twelve @ '':'' @ pad 2 (show_int minute) @ '' '' @ period
      in format_date_natural (bogota_date starts_at) @ '' a las '' @ clock)"

definition build_params ::
  "customer \<Rightarrow> plan \<Rightarrow> instant \<Rightarrow> int \<Rightarrow> (app_error, string list) result" where
  "build_params cu p starts_at deposit_cop =
     (let phone = present_phone (cu_phone_number cu);
          identity = (case cu_full_name cu of
              None \<Rightarrow> phone
            | Some n \<Rightarrow> if n = [] then phone else n @ '' ('' @ phone @ '')'')
      in ebind (present_cop deposit_cop) (\<lambda>cop.
         Inr (map sanitize_param [identity, pl_name p, present_start starts_at, cop])))"

section \<open>The text of a notice\<close>

definition evidence_text :: string where
  "evidence_text = ''Nuevo comprobante de pago de {1} para {2} el {3}. Abono esperado: {4}. Rev''
     @ i_acute @ ''salo en el panel para confirmarlo.''"

definition staff_texts :: "(string \<times> string) list" where
  "staff_texts =
     [(''EVIDENCE_RECEIVED'', evidence_text),
      (''PAYMENT_PENDING_CREATED'',
         ''Nueva solicitud de reserva de {1}: {2} el {3}. Queda pendiente del abono de {4}; te avisaremos cuando llegue el comprobante.''),
      (''BALANCE_OVERDUE'',
         ''Saldo vencido: {1} tiene {2} sin pagar de la reserva de {3} el {4}. Seg'' @ u_acute
           @ ''n la pol'' @ i_acute @ ''tica, la reserva no se realiza sin el pago completo. Rev''
           @ i_acute @ ''sala en el panel.''),
      (''TEST'', evidence_text)]"

definition panel_url :: string where
  "panel_url = ''https://admin.ceibaclubhouse.com''"

text \<open>One pass over the template: a brace inside a parameter is never read again.\<close>

definition placeholder :: "char \<Rightarrow> nat option" where
  "placeholder c = map_of [(CHR ''1'', 0), (CHR ''2'', 1), (CHR ''3'', 2), (CHR ''4'', 3)] c"

fun substitute :: "string list \<Rightarrow> string \<Rightarrow> string" where
  "substitute ps (a # b # c # rest) =
     (case placeholder b of
        Some i \<Rightarrow> if a = CHR ''{'' \<and> c = CHR ''}'' then ps ! i @ substitute ps rest
                  else a # substitute ps (b # c # rest)
      | None \<Rightarrow> a # substitute ps (b # c # rest))"
| "substitute ps cs = cs"

definition render_staff_text :: "string \<Rightarrow> string list \<Rightarrow> (app_error, string) result" where
  "render_staff_text event_kind params =
     ebind (guard (\<not> (length params \<noteq> 4 \<or> list_ex (\<lambda>p. sanitize_param p \<noteq> p) params))
              (ValueError ''Staff parameters must be four sanitized strings'')) (\<lambda>_.
     case map_of staff_texts event_kind of
       None \<Rightarrow> Inl (OtherError ''KeyError'')
     | Some template \<Rightarrow> Inr (substitute params template @ [CHR 0x0A] @ ''Panel: '' @ panel_url))"

section \<open>Template and window\<close>

definition template_for :: "string \<Rightarrow> settings \<Rightarrow> string" where
  "template_for event_kind st =
     (if event_kind = ''BALANCE_OVERDUE'' then strip (st_staff_template_overdue_name st)
      else strip (if event_kind = ''PAYMENT_PENDING_CREATED'' then st_staff_template_pending_name st
                  else st_staff_template_evidence_name st))"

definition window_until :: "instant option \<Rightarrow> settings \<Rightarrow> instant option" where
  "window_until last_inbound_at st =
     map_option (\<lambda>t. t + hours 24 - minutes (st_staff_window_safety_minutes st)) last_inbound_at"

section \<open>Facts\<close>

lemma build_params_InrD:
  "build_params cu p s a = Inr ps \<Longrightarrow> length ps = 4 \<and> list_all (\<lambda>q. sanitize_param q = q) ps \<and> 0 \<le> a"
  by (auto simp: build_params_def Let_def ebind_Inr_iff sanitize_param_idem present_cop_def split: if_splits)

lemma build_params_total: "0 \<le> a \<Longrightarrow> \<exists>ps. build_params cu p s a = Inr ps"
  using present_cop_Inr [of a] by (auto simp: build_params_def Let_def)

lemma render_staff_text_ok:
  "length ps = 4 \<Longrightarrow> list_all (\<lambda>q. sanitize_param q = q) ps \<Longrightarrow> k \<in> fst ` set staff_texts \<Longrightarrow>
     \<exists>t. map_of staff_texts k = Some t \<and>
       render_staff_text k ps = Inr (substitute ps t @ [CHR 0x0A] @ ''Panel: '' @ panel_url)"
  by (cases "map_of staff_texts k")
     (auto simp: render_staff_text_def list_all_iff list_ex_iff map_of_eq_None_iff)

text \<open>A template without placeholders is copied; the parameters do not matter.\<close>

lemma substitute_no_brace: "CHR ''{'' \<notin> set cs \<Longrightarrow> substitute ps cs = cs"
  by (induction ps cs rule: substitute.induct) (auto split: option.split)

lemma window_until_bound:
  "window_until (Some t) st = Some u \<Longrightarrow> 0 \<le> st_staff_window_safety_minutes st \<Longrightarrow> u \<le> t + hours 24"
  by (auto simp: window_until_def minutes_def hours_def us_defs)

section \<open>Properties\<close>

text \<open>Sanitizing a parameter is idempotent, so what \<open>render_staff_text\<close> and the reminder worker check
  (that sanitizing changes nothing) holds of every parameter once sanitized.\<close>

theorem sanitize_param_idempotent: "sanitize_param (sanitize_param s) = sanitize_param s"
  by (rule sanitize_param_idem)

text \<open>The parameters of a notice always render: for every customer, plan, start and non-negative amount
  \<open>build_params\<close> succeeds, and \<open>render_staff_text\<close> accepts its result for every known kind of event.\<close>

theorem staff_notice_renders:
  assumes "0 \<le> amount" and "kind \<in> fst ` set staff_texts"
  shows "\<exists>ps text. build_params cu p s amount = Inr ps \<and> render_staff_text kind ps = Inr text"
proof -
  obtain ps where ps: "build_params cu p s amount = Inr ps" using build_params_total [OF assms(1)] by blast
  from build_params_InrD [OF ps] render_staff_text_ok [OF _ _ assms(2), of ps] ps show ?thesis by auto
qed

lemma staff_notice_renders_witness:
  "\<exists>ps text. build_params sample_customer sample_plan sample_start 475000 = Inr ps \<and>
     render_staff_text ''EVIDENCE_RECEIVED'' ps = Inr text"
  by (rule staff_notice_renders) (simp_all add: staff_texts_def)

end
