(* ===== verification/Notification_Service.thy ===== *)
theory Notification_Service
  imports Notification_Queue Staff_Texts
begin

text \<open>
  \<open>app/notifications/service.py\<close>: the durable notices to advisers, deduplicated by their source, and
  the interception of an adviser's own messages, which renew the attention window and requeue the
  notices that waited for it.
\<close>

section \<open>Audit\<close>

definition status_value :: "string option \<Rightarrow> json option" where
  "status_value old_status =
     (case old_status of None \<Rightarrow> None
      | Some s \<Rightarrow> if s = [] then None else Some (JObj [(''status'', JStr s)]))"

definition staff_audit :: "string \<Rightarrow> staff_outbox \<Rightarrow> string option \<Rightarrow> string option \<Rightarrow> db \<Rightarrow> db" where
  "staff_audit action row old_status request_id d =
     audit ''SYSTEM'' action ''staff_outbox'' (status_value old_status)
       (Some (JObj [(''staff_outbox_id'', JInt (nt_id row)),
                    (''recipient_id'', JInt (so_recipient_id row)),
                    (''event_kind'', JStr (so_event_kind row)),
                    (''source'', JObj [(''entity'', JStr (so_source_entity row)),
                                       (''id'', JStr (so_source_id row))]),
                    (''status'', JStr (notification_status_str (nt_status row)))]))
       ''Aviso interno a asesor'' request_id d"

definition staff_table :: "staff_outbox notification_table" where
  "staff_table = \<lparr>nq_rows = db_staff_outbox, nq_put = put_staff, nq_audit = staff_audit,
     nq_prefix = ''STAFF_NOTIFICATION''\<rparr>"

section \<open>Enqueueing\<close>

text \<open>The columns of \<open>uq_staff_outbox_source\<close>.\<close>

definition staff_source :: "staff_outbox \<Rightarrow> int \<times> string \<times> string \<times> string" where
  "staff_source r = (so_recipient_id r, so_event_kind r, so_source_entity r, so_source_id r)"

definition staff_sources_unique :: "db \<Rightarrow> bool" where
  "staff_sources_unique d \<longleftrightarrow> distinct (map staff_source (db_staff_outbox d))"

definition new_staff_row ::
  "int \<Rightarrow> int \<Rightarrow> string \<Rightarrow> string \<Rightarrow> string \<Rightarrow> string list \<Rightarrow> instant \<Rightarrow> staff_outbox" where
  "new_staff_row k recipient_id event_kind source_entity source_id params clock =
     \<lparr>nt_id = k, nt_status = NT_PENDING, nt_attempts = 0, nt_next_attempt_at = clock,
      nt_claim_token = None, nt_claimed_at = None, nt_last_error = None, nt_last_error_code = None,
      nt_provider_message_id = None, nt_sent_at = None, nt_created_at = clock,
      nt_updated_at = clock, so_recipient_id = recipient_id, so_event_kind = event_kind,
      so_source_entity = source_entity, so_source_id = source_id, so_params = params,
      so_message_kind = None, so_template_name = None\<rparr>"

text \<open>\<open>INSERT \<dots> ON CONFLICT DO NOTHING RETURNING id\<close>, then the audit record of a new row.\<close>

definition enqueue_staff_notification ::
  "int \<Rightarrow> string \<Rightarrow> string \<Rightarrow> string \<Rightarrow> string list \<Rightarrow> string option \<Rightarrow> db \<Rightarrow> int option \<times> db"
where
  "enqueue_staff_notification recipient_id event_kind source_entity source_id params request_id d =
     (if (recipient_id, event_kind, source_entity, source_id) \<in> set (map staff_source (db_staff_outbox d))
      then (None, d)
      else case next_serial d of (k, d1) \<Rightarrow>
        let row = new_staff_row k recipient_id event_kind source_entity source_id params (db_clock d1);
            d2 = d1\<lparr>db_staff_outbox := db_staff_outbox d1 @ [row]\<rparr>
        in (Some k, staff_audit ''STAFF_NOTIFICATION_ENQUEUED'' row None request_id d2))"

definition notice_recipients :: "string \<Rightarrow> string \<Rightarrow> string \<Rightarrow> db \<Rightarrow> int list" where
  "notice_recipients event_kind source_entity source_id d =
     (let toggle = (if event_kind \<in> {''EVIDENCE_RECEIVED'', ''BALANCE_OVERDUE''}
                    then nr_notify_on_evidence else nr_notify_on_payment_pending);
          recipients = map nr_id (order_by (\<lambda>a b. nr_id a < nr_id b)
            (filter (\<lambda>r. nr_active r \<and> toggle r) (db_recipients d)))
      in if event_kind = ''BALANCE_OVERDUE''
         then let notified = map so_recipient_id (filter (\<lambda>r. so_event_kind r = event_kind \<and>
                     so_source_entity r = source_entity \<and> so_source_id r = source_id)
                     (db_staff_outbox d))
              in filter (\<lambda>i. i \<notin> set notified) recipients
         else recipients)"

definition enqueue_all ::
  "int list \<Rightarrow> string \<Rightarrow> string \<Rightarrow> string \<Rightarrow> string list \<Rightarrow> string option \<Rightarrow> db \<Rightarrow> db" where
  "enqueue_all recipients event_kind source_entity source_id params request_id d =
     fold (\<lambda>i d. snd (enqueue_staff_notification i event_kind source_entity source_id params request_id d))
       recipients d"

text \<open>The amount a notice names: what is missing of the price or of the deposit.\<close>

definition expected_amount :: "settings \<Rightarrow> reservation \<Rightarrow> (app_error, int) result" where
  "expected_amount st r =
     ebind (if rv_status r = RV_RESERVED then Inr (rv_price_cop r)
            else deposit_amount st (rv_price_cop r)) (\<lambda>base.
       Inr (max 0 (base - rv_amount_paid_cop r)))"

definition enqueue_for_reservation ::
  "reservation \<Rightarrow> string \<Rightarrow> string \<Rightarrow> string \<Rightarrow> settings \<Rightarrow> string option \<Rightarrow> db \<Rightarrow> (app_error, db) result"
where
  "enqueue_for_reservation r event_kind source_entity source_id st request_id d =
     (if \<not> st_staff_notifications_enabled st then Inr d
      else let recipients = notice_recipients event_kind source_entity source_id d in
      if recipients = [] then Inr d
      else case (get_row cu_id (rv_customer_id r) (db_customers d),
                 get_row pl_id (rv_plan_id r) (db_plans d)) of
          (Some cu, Some p) \<Rightarrow>
            ebind (expected_amount st r) (\<lambda>amount.
            ebind (build_params cu p (rv_starts_at r) amount) (\<lambda>ps.
              let params = (if event_kind = ''BALANCE_OVERDUE''
                            then [ps ! 0, ps ! 3, ps ! 1, ps ! 2] else ps)
              in Inr (enqueue_all recipients event_kind source_entity source_id params request_id d)))
        | _ \<Rightarrow> Inl (OtherError ''AttributeError''))"

section \<open>An adviser writes\<close>

definition requeue_row :: "instant \<Rightarrow> staff_outbox \<Rightarrow> staff_outbox" where
  "requeue_row now row = row\<lparr>nt_status := NT_PENDING, nt_next_attempt_at := now,
     nt_last_error_code := None, nt_last_error := None, nt_updated_at := now\<rparr>"

definition requeue_deferred :: "string option \<Rightarrow> instant \<Rightarrow> staff_outbox \<Rightarrow> db \<Rightarrow> db" where
  "requeue_deferred request_id now row d =
     (let row' = requeue_row now row
      in staff_audit ''STAFF_NOTIFICATION_REQUEUED'' row' (Some ''DEFERRED'') request_id (put_staff row' d))"

definition intercept_staff_inbound ::
  "string \<Rightarrow> instant option \<Rightarrow> string \<Rightarrow> settings \<Rightarrow> string option \<Rightarrow> db \<Rightarrow> bool \<times> db"
where
  "intercept_staff_inbound phone_number provider_timestamp external_message_id st request_id d =
     (case find (\<lambda>r. nr_phone_number r = phone_number \<and> nr_active r) (db_recipients d) of
        None \<Rightarrow> (False, d)
      | Some recipient \<Rightarrow>
          (case provider_timestamp of
             None \<Rightarrow> (True, d)
           | Some ts \<Rightarrow>
               if nr_last_inbound_message_id recipient = Some external_message_id \<or>
                  (case nr_last_inbound_at recipient of None \<Rightarrow> False | Some l \<Rightarrow> ts \<le> l)
               then (True, d)
               else
                 let recipient' = recipient\<lparr>nr_last_inbound_at := Some ts,
                       nr_last_inbound_message_id := Some external_message_id\<rparr>;
                     d1 = audit ''SYSTEM'' ''STAFF_INBOUND_RECEIVED'' ''notification_recipient'' None
                            (Some (JObj [(''recipient_id'', JInt (nr_id recipient)),
                               (''last_inbound_at'', JStr (instant_iso ts))]))
                            (''Ventana de atenci'' @ o_acute @ ''n del asesor actualizada'')
                            request_id (put_recipient recipient' d);
                     now = db_clock d1;
                     cutoff = max now ts - hours (st_staff_deferred_max_age_hours st);
                     deferred = order_by (\<lambda>a b. nt_id a < nt_id b)
                       (filter (\<lambda>r. so_recipient_id r = nr_id recipient \<and> nt_status r = NT_DEFERRED \<and>
                          nt_created_at r > cutoff) (db_staff_outbox d1))
                 in (True, fold (requeue_deferred request_id now) deferred d1)))"

section \<open>Facts\<close>

lemma staff_audit_frame [simp]:
  "db_staff_outbox (staff_audit a r old req d) = db_staff_outbox d"
  "db_recipients (staff_audit a r old req d) = db_recipients d"
  "db_reservations (staff_audit a r old req d) = db_reservations d"
  "db_evidence (staff_audit a r old req d) = db_evidence d"
  "db_plans (staff_audit a r old req d) = db_plans d"
  "db_customers (staff_audit a r old req d) = db_customers d"
  "db_events (staff_audit a r old req d) = db_events d"
  "db_clock (staff_audit a r old req d) = db_clock d"
  "audit_extends d0 d \<Longrightarrow> audit_extends d0 (staff_audit a r old req d)"
  by (simp_all add: staff_audit_def)

lemma put_staff_frame [simp]:
  "db_staff_outbox (put_staff r d) = put_row nt_id r (db_staff_outbox d)"
  "db_audit (put_staff r d) = db_audit d" "db_clock (put_staff r d) = db_clock d"
  "db_recipients (put_staff r d) = db_recipients d"
  by (simp_all add: put_staff_def)

interpretation staff: notification_store staff_table
  by unfold_locales (simp_all add: staff_table_def uuid4_def)

lemma enqueue_staff_sources:
  "staff_sources_unique d \<Longrightarrow>
     staff_sources_unique (snd (enqueue_staff_notification i k e s ps req d))"
  by (auto simp: enqueue_staff_notification_def staff_sources_unique_def next_serial_def Let_def
      new_staff_row_def staff_source_def)

lemma enqueue_staff_frame:
  "db_reservations (snd (enqueue_staff_notification i k e s ps req d)) = db_reservations d"
  "db_evidence (snd (enqueue_staff_notification i k e s ps req d)) = db_evidence d"
  "db_plans (snd (enqueue_staff_notification i k e s ps req d)) = db_plans d"
  "db_customers (snd (enqueue_staff_notification i k e s ps req d)) = db_customers d"
  "db_events (snd (enqueue_staff_notification i k e s ps req d)) = db_events d"
  "db_clock (snd (enqueue_staff_notification i k e s ps req d)) = db_clock d"
  "\<exists>new. db_audit (snd (enqueue_staff_notification i k e s ps req d)) = db_audit d @ new"
  "\<exists>new. db_staff_outbox (snd (enqueue_staff_notification i k e s ps req d)) = db_staff_outbox d @ new"
  by (auto simp: enqueue_staff_notification_def next_serial_def Let_def staff_audit_def audit_def audit_at_def)

lemma enqueue_all_simps:
  "enqueue_all [] k e s ps req d = d"
  "enqueue_all (i # is) k e s ps req d =
     enqueue_all is k e s ps req (snd (enqueue_staff_notification i k e s ps req d))"
  by (simp_all add: enqueue_all_def)

lemma enqueue_all_sources:
  "staff_sources_unique d \<Longrightarrow> staff_sources_unique (enqueue_all is k e s ps req d)"
  by (induction "is" arbitrary: d) (simp_all add: enqueue_all_simps enqueue_staff_sources)

lemma enqueue_all_frame:
  "db_reservations (enqueue_all is k e s ps req d) = db_reservations d \<and>
   db_evidence (enqueue_all is k e s ps req d) = db_evidence d \<and>
   db_plans (enqueue_all is k e s ps req d) = db_plans d \<and>
   db_customers (enqueue_all is k e s ps req d) = db_customers d \<and>
   db_events (enqueue_all is k e s ps req d) = db_events d \<and>
   db_clock (enqueue_all is k e s ps req d) = db_clock d \<and>
   audit_extends d (enqueue_all is k e s ps req d)"
proof (induction "is" arbitrary: d)
  case Nil
  then show ?case by (simp add: enqueue_all_simps)
next
  case (Cons i "is")
  have "audit_extends d (snd (enqueue_staff_notification i k e s ps req d))"
    using enqueue_staff_frame(7) by (simp add: audit_extends_def)
  then show ?case
    unfolding enqueue_all_simps using Cons.IH audit_extends_trans
    by (metis enqueue_staff_frame(1-6))
qed

text \<open>A notice changes no booking and no payment.\<close>

lemma enqueue_for_reservation_frame:
  assumes "enqueue_for_reservation r k e s st req d = Inr d'"
  shows "db_reservations d' = db_reservations d \<and> db_evidence d' = db_evidence d \<and>
    db_plans d' = db_plans d \<and> db_customers d' = db_customers d \<and> db_events d' = db_events d \<and>
    db_clock d' = db_clock d \<and> audit_extends d d'"
  using assms
  by (auto simp: enqueue_for_reservation_def Let_def ebind_Inr_iff enqueue_all_frame
      split: if_splits option.splits)

section \<open>Properties\<close>

text \<open>A notice is stored once per recipient, kind and source: the unique key survives every enqueueing
  for a booking, and enqueueing the same notice again changes nothing.\<close>

theorem notices_deduplicated:
  assumes "staff_sources_unique d" and "enqueue_for_reservation r kind entity k st req d = Inr d'"
  shows "staff_sources_unique d' \<and>
    (\<forall>i ps. (i, kind, entity, k) \<in> set (map staff_source (db_staff_outbox d')) \<longrightarrow>
       enqueue_staff_notification i kind entity k ps req d' = (None, d'))"
  using assms
  by (auto simp: enqueue_for_reservation_def Let_def ebind_Inr_iff enqueue_all_sources
      enqueue_staff_notification_def split: if_splits option.splits)

lemma notices_deduplicated_witness:
  "\<exists>d'. enqueue_for_reservation sample_reservation ''EVIDENCE_RECEIVED'' ''payment_evidence'' ''61'' sample_settings
      None sample_db = Inr d' \<and> staff_sources_unique d'"
proof -
  have run: "enqueue_for_reservation sample_reservation ''EVIDENCE_RECEIVED'' ''payment_evidence'' ''61'' sample_settings
      None sample_db = Inr sample_db"
    by (simp add: enqueue_for_reservation_def notice_recipients_def Let_def order_by_def sample_settings_def)
  have "staff_sources_unique sample_db" by (simp add: staff_sources_unique_def)
  from notices_deduplicated [OF this run] run show ?thesis by blast
qed

end
