(* ===== verification/Notification_Workers.thy ===== *)
theory Notification_Workers
  imports Notification_Service
begin

text \<open>
  \<open>app/notifications/worker.py\<close> and \<open>app/notifications/customer_worker.py\<close>: the delivery of staff notices
  and of balance reminders, and \<open>app/notifications/statuses.py\<close>: the delivery receipts of the provider.
  The sender is a parameter: a provider with a state \<open>'w\<close> of its own.
\<close>

record 'w staff_sender =
  ss_send_text :: "string \<Rightarrow> string \<Rightarrow> 'w \<Rightarrow> (send_error, string) result \<times> 'w"
  ss_send_template :: "string \<Rightarrow> string \<Rightarrow> string \<Rightarrow> string list \<Rightarrow> 'w \<Rightarrow> (send_error, string) result \<times> 'w"

text \<open>The \<open>error\<close> and \<open>provider_id\<close> variables after the \<open>try\<close>.\<close>

definition sent_result :: "(send_error, string) result \<times> 'w \<Rightarrow> send_error option \<times> string option \<times> 'w" where
  "sent_result r = (case r of (Inl e, w) \<Rightarrow> (Some e, None, w) | (Inr m, w) \<Rightarrow> (None, Some m, w))"

section \<open>Staff notices\<close>

record staff_claim =
  sc_id :: int
  sc_token :: uuid
  sc_phone :: string
  sc_active :: bool
  sc_last_inbound_at :: "instant option"
  sc_event_kind :: string
  sc_params :: "string list"
  sc_last_error_code :: "int option"

definition build_staff_claim :: "staff_outbox \<times> recipient \<Rightarrow> uuid \<Rightarrow> staff_claim" where
  "build_staff_claim v token = (case v of (row, recipient) \<Rightarrow>
     \<lparr>sc_id = nt_id row, sc_token = token, sc_phone = nr_phone_number recipient,
      sc_active = nr_active recipient, sc_last_inbound_at = nr_last_inbound_at recipient,
      sc_event_kind = so_event_kind row, sc_params = so_params row,
      sc_last_error_code = nt_last_error_code row\<rparr>)"

definition due_order :: "'a notification_row_scheme \<Rightarrow> 'a notification_row_scheme \<Rightarrow> bool" where
  "due_order a b \<longleftrightarrow> nt_created_at a < nt_created_at b \<or>
     (nt_created_at a = nt_created_at b \<and> nt_id a < nt_id b)"

definition due :: "instant \<Rightarrow> 'a notification_row_scheme \<Rightarrow> bool" where
  "due now r \<longleftrightarrow> nt_status r = NT_PENDING \<and> nt_next_attempt_at r \<le> now"

definition staff_candidates :: "settings \<Rightarrow> instant \<Rightarrow> db \<Rightarrow> (staff_outbox \<times> recipient) list" where
  "staff_candidates st now d =
     take (st_outbox_batch_size st) (order_by (\<lambda>a b. due_order (fst a) (fst b))
       (concat (map (\<lambda>row. map (\<lambda>r. (row, r)) (filter (\<lambda>r. nr_id r = so_recipient_id row) (db_recipients d)))
          (filter (due now) (db_staff_outbox d)))))"

definition claim_staff_outbox_batch :: "settings \<Rightarrow> instant \<Rightarrow> db \<Rightarrow> staff_claim list \<times> db" where
  "claim_staff_outbox_batch st now d =
     claim_batch staff_table now fst (\<lambda>_. True) build_staff_claim (staff_candidates st now d) d"

definition maintain_staff_outbox :: "settings \<Rightarrow> instant \<Rightarrow> db \<Rightarrow> db" where
  "maintain_staff_outbox st now d = maintain_queue staff_table st now d"

text \<open>The pairs (\<open>kind\<close>, \<open>state\<close>) a turn of the loop decides between.\<close>

datatype staff_plan = SP_EXPIRE | SP_TEXT | SP_TEMPLATE | SP_DEFER

fun plan_kind :: "staff_plan \<Rightarrow> string option" where
  "plan_kind SP_TEXT = Some ''TEXT''"
| "plan_kind SP_TEMPLATE = Some ''TEMPLATE''"
| "plan_kind _ = None"

fun plan_state :: "staff_plan \<Rightarrow> notification_status" where
  "plan_state SP_EXPIRE = NT_EXPIRED"
| "plan_state SP_DEFER = NT_DEFERRED"
| "plan_state _ = NT_SENT"

definition staff_plan_of :: "staff_claim \<Rightarrow> settings \<Rightarrow> instant \<Rightarrow> staff_plan" where
  "staff_plan_of c st now =
     (if \<not> sc_active c then SP_EXPIRE
      else if (case window_until (sc_last_inbound_at c) st of None \<Rightarrow> False | Some until \<Rightarrow> until > now) \<and>
              sc_last_error_code c \<noteq> Some 131047 then SP_TEXT
      else if template_for (sc_event_kind c) st \<noteq> [] then SP_TEMPLATE
      else SP_DEFER)"

definition send_staff ::
  "'w staff_sender \<Rightarrow> staff_claim \<Rightarrow> settings \<Rightarrow> staff_plan \<Rightarrow> 'w
     \<Rightarrow> (app_error, send_error option \<times> string option \<times> 'w) result"
where
  "send_staff sender c st plan w =
     (case plan of
        SP_TEXT \<Rightarrow> ebind (render_staff_text (sc_event_kind c) (sc_params c)) (\<lambda>body.
                     Inr (sent_result (ss_send_text sender (sc_phone c) body w)))
      | SP_TEMPLATE \<Rightarrow> Inr (sent_result (ss_send_template sender (sc_phone c)
                     (template_for (sc_event_kind c) st) (st_staff_template_language st) (sc_params c) w))
      | _ \<Rightarrow> Inr (None, None, w))"

definition staff_update :: "staff_plan \<Rightarrow> string \<Rightarrow> string option \<Rightarrow> instant \<Rightarrow> staff_outbox \<Rightarrow> staff_outbox" where
  "staff_update plan template message_id now row =
     (let row1 = row\<lparr>so_message_kind := plan_kind plan,
                     so_template_name := (if plan_kind plan = Some ''TEMPLATE'' then Some template else None)\<rparr>
      in if plan_state plan = NT_SENT
         then row1\<lparr>nt_provider_message_id := message_id, nt_sent_at := Some now,
                   nt_last_error := None, nt_last_error_code := None\<rparr>
         else row1)"

text \<open>An exception outside the two the \<open>try\<close> names ends the turn; what was committed stays.\<close>

fun deliver_staff ::
  "'w staff_sender \<Rightarrow> settings \<Rightarrow> instant \<Rightarrow> staff_claim list \<Rightarrow> db \<Rightarrow> 'w
     \<Rightarrow> (app_error, unit) result \<times> db \<times> 'w"
where
  "deliver_staff sender st now [] d w = (Inr (), d, w)"
| "deliver_staff sender st now (c # cs) d w =
     (let plan = staff_plan_of c st now in
      case send_staff sender c st plan w of
        Inl e \<Rightarrow> (Inl e, d, w)
      | Inr (err, provider_id, w1) \<Rightarrow>
          deliver_staff sender st now cs
            (settle_claim staff_table (sc_id c) (sc_token c) st now (plan_state plan) err
               (staff_update plan (template_for (sc_event_kind c) st) provider_id now) d) w1)"

definition process_staff_outbox_once ::
  "'w staff_sender \<Rightarrow> settings \<Rightarrow> instant option \<Rightarrow> db \<Rightarrow> 'w \<Rightarrow> (app_error, nat) result \<times> db \<times> 'w"
where
  "process_staff_outbox_once sender st now_arg d w =
     (if \<not> st_staff_notifications_enabled st then (Inr 0, d, w)
      else let now = (case now_arg of None \<Rightarrow> db_clock d | Some t \<Rightarrow> t);
               d1 = maintain_staff_outbox st now d;
               (claims, d2) = claim_staff_outbox_batch st now d1;
               (r, d3, w1) = deliver_staff sender st now claims d2 w
           in (ebind r (\<lambda>_. Inr (length claims)), d3, w1))"

section \<open>Customer reminders\<close>

definition customer_audit ::
  "string \<Rightarrow> customer_notification \<Rightarrow> string option \<Rightarrow> string option \<Rightarrow> instant option \<Rightarrow> db \<Rightarrow> db" where
  "customer_audit action row old_status request_id now d =
     (let (rid, d1) = (case request_id of
            Some r \<Rightarrow> if r = [] then (case uuid4 d of (u, d1) \<Rightarrow> (uuid_str u, d1)) else (r, d)
          | None \<Rightarrow> (case uuid4 d of (u, d1) \<Rightarrow> (uuid_str u, d1)))
      in audit_at (case now of None \<Rightarrow> db_clock d1 | Some t \<Rightarrow> t) ''SYSTEM'' action ''customer_notification''
           (status_value old_status)
           (Some (JObj [(''customer_notification_id'', JInt (nt_id row)),
                        (''reservation_id'', JStr (uuid_str (cn_reservation_id row))),
                        (''customer_id'', JInt (cn_customer_id row)),
                        (''kind'', JStr (cn_kind row)),
                        (''status'', JStr (notification_status_str (nt_status row)))]))
           ''Recordatorio programado de saldo al cliente'' (Some rid) d1)"

definition customer_table :: "customer_notification notification_table" where
  "customer_table = \<lparr>nq_rows = db_customer_notifications, nq_put = put_customer_notification,
     nq_audit = (\<lambda>action row old req. customer_audit action row old req None),
     nq_prefix = ''CUSTOMER_NOTIFICATION''\<rparr>"

record customer_claim =
  cc_id :: int
  cc_token :: uuid
  cc_phone_number :: string
  cc_template_name :: string
  cc_params :: "string list"

definition build_customer_claim :: "customer_notification \<times> reservation \<Rightarrow> uuid \<Rightarrow> customer_claim" where
  "build_customer_claim v token = (case v of (row, _) \<Rightarrow>
     \<lparr>cc_id = nt_id row, cc_token = token, cc_phone_number = cn_phone_number row,
      cc_template_name = cn_template_name row, cc_params = cn_params row\<rparr>)"

definition customer_admissible :: "instant \<Rightarrow> customer_notification \<times> reservation \<Rightarrow> bool" where
  "customer_admissible now v = (case v of (row, r) \<Rightarrow>
     rv_status r = RV_RESERVED \<and> rv_amount_paid_cop r < rv_price_cop r \<and> rv_starts_at r > now \<and>
     strip (cn_template_name row) \<noteq> [])"

definition customer_candidates :: "settings \<Rightarrow> instant \<Rightarrow> db \<Rightarrow> (customer_notification \<times> reservation) list" where
  "customer_candidates st now d =
     take (st_outbox_batch_size st) (order_by (\<lambda>a b. due_order (fst a) (fst b))
       (concat (map (\<lambda>row. map (\<lambda>r. (row, r)) (filter (\<lambda>r. rv_id r = cn_reservation_id row) (db_reservations d)))
          (filter (due now) (db_customer_notifications d)))))"

definition claim_customer_batch :: "settings \<Rightarrow> instant \<Rightarrow> db \<Rightarrow> customer_claim list \<times> db" where
  "claim_customer_batch st now d =
     claim_batch customer_table now fst (customer_admissible now) build_customer_claim
       (customer_candidates st now d) d"

definition send_reminder ::
  "'w staff_sender \<Rightarrow> customer_claim \<Rightarrow> 'w \<Rightarrow> send_error option \<times> string option \<times> 'w" where
  "send_reminder sender c w =
     (if length (cc_params c) \<noteq> 5 \<or> list_ex (\<lambda>p. sanitize_param p \<noteq> p) (cc_params c)
      then (Some (OutboundSendError (''Par'' @ a_acute @ ''metros del recordatorio inv'' @ a_acute @ ''lidos'')
                    None False), None, w)
      else sent_result (ss_send_template sender (cc_phone_number c) (cc_template_name c) ''es'' (cc_params c) w))"

definition customer_update :: "string option \<Rightarrow> instant \<Rightarrow> customer_notification \<Rightarrow> customer_notification" where
  "customer_update message_id now row = row\<lparr>nt_provider_message_id := message_id, nt_sent_at := Some now,
     nt_last_error := None, nt_last_error_code := None\<rparr>"

fun deliver_reminders ::
  "'w staff_sender \<Rightarrow> settings \<Rightarrow> instant \<Rightarrow> customer_claim list \<Rightarrow> db \<Rightarrow> 'w \<Rightarrow> db \<times> 'w" where
  "deliver_reminders sender st now [] d w = (d, w)"
| "deliver_reminders sender st now (c # cs) d w =
     (case send_reminder sender c w of (err, provider_id, w1) \<Rightarrow>
        deliver_reminders sender st now cs
          (settle_claim customer_table (cc_id c) (cc_token c) st now NT_SENT err
             (customer_update provider_id now) d) w1)"

definition process_customer_notifications_once ::
  "'w staff_sender \<Rightarrow> settings \<Rightarrow> instant option \<Rightarrow> db \<Rightarrow> 'w \<Rightarrow> nat \<times> db \<times> 'w"
where
  "process_customer_notifications_once sender st now_arg d w =
     (if \<not> st_balance_reminders_enabled st then (0, d, w)
      else let now = (case now_arg of None \<Rightarrow> db_clock d | Some t \<Rightarrow> t);
               d1 = maintain_queue customer_table st now d;
               (claims, d2) = claim_customer_batch st now d1;
               (d3, w1) = deliver_reminders sender st now claims d2 w
           in (length claims, d3, w1))"

section \<open>Facts\<close>

lemma staff_update_simps [simp]:
  "nt_id (staff_update plan tmpl m now r) = nt_id r"
  "nt_status (staff_update plan tmpl m now r) = nt_status r"
  "nt_claim_token (staff_update plan tmpl m now r) = nt_claim_token r"
  by (simp_all add: staff_update_def Let_def)

lemma customer_update_simps [simp]:
  "nt_id (customer_update m now r) = nt_id r" "nt_status (customer_update m now r) = nt_status r"
  "nt_claim_token (customer_update m now r) = nt_claim_token r"
  by (simp_all add: customer_update_def)

lemma plan_state_settled: "plan_state p \<in> {NT_SENT, NT_EXPIRED, NT_DEFERRED}"
  by (cases p) simp_all

interpretation customer: notification_store customer_table
  by unfold_locales
     (auto simp: customer_table_def put_customer_notification_def customer_audit_def audit_at_def
        uuid4_def Let_def split: option.splits)

interpretation staff_lease: lease_queue "\<lambda>r :: staff_outbox. nt_status r = NT_SENDING" nt_claim_token
  "\<lambda>token now. lease_row token now now"
  "\<lambda>(err, plan, template, message_id, st, now) token.
     settle_row err (plan_state plan) (staff_update plan template message_id now) st now token"
  "\<lambda>(st, now). recover_row st now"
proof unfold_locales
  fix x :: "send_error option \<times> staff_plan \<times> string \<times> string option \<times> settings \<times> instant"
    and t and r :: staff_outbox
  assume r: "nt_status r = NT_SENDING" "nt_claim_token r = Some t"
  obtain err plan template m st now where x: "x = (err, plan, template, m, st, now)" by (cases x)
  show "nt_status ((case x of (err, plan, template, message_id, st, now) \<Rightarrow> \<lambda>token.
      settle_row err (plan_state plan) (staff_update plan template message_id now) st now token) t r) \<noteq> NT_SENDING"
    using r by (cases plan) (auto simp: x settle_row_def split: option.split)
next
  fix y :: "settings \<times> instant" and r :: staff_outbox
  obtain st now where y: "y = (st, now)" by (cases y)
  assume "(case y of (st, now) \<Rightarrow> recover_row st now) r \<noteq> r"
  then show "nt_status ((case y of (st, now) \<Rightarrow> recover_row st now) r) \<noteq> NT_SENDING"
    by (auto simp: y recover_row_def split: if_splits)
qed (auto simp: settle_row_def)

interpretation customer_lease: lease_queue "\<lambda>r :: customer_notification. nt_status r = NT_SENDING"
  nt_claim_token "\<lambda>token now. lease_row token now now"
  "\<lambda>(err, message_id, st, now) token. settle_row err NT_SENT (customer_update message_id now) st now token"
  "\<lambda>(st, now). recover_row st now"
proof unfold_locales
  fix x :: "send_error option \<times> string option \<times> settings \<times> instant"
    and t and r :: customer_notification
  assume r: "nt_status r = NT_SENDING" "nt_claim_token r = Some t"
  obtain err m st now where x: "x = (err, m, st, now)" by (cases x)
  show "nt_status ((case x of (err, message_id, st, now) \<Rightarrow> \<lambda>token.
      settle_row err NT_SENT (customer_update message_id now) st now token) t r) \<noteq> NT_SENDING"
    using r by (auto simp: x settle_row_def split: option.split)
next
  fix y :: "settings \<times> instant" and r :: customer_notification
  obtain st now where y: "y = (st, now)" by (cases y)
  assume "(case y of (st, now) \<Rightarrow> recover_row st now) r \<noteq> r"
  then show "nt_status ((case y of (st, now) \<Rightarrow> recover_row st now) r) \<noteq> NT_SENDING"
    by (auto simp: y recover_row_def split: if_splits)
qed (auto simp: settle_row_def)

text \<open>Free text only to an active adviser who wrote within the window.\<close>

lemma staff_plan_text_iff:
  "staff_plan_of c st now = SP_TEXT \<longleftrightarrow>
     sc_active c \<and> sc_last_error_code c \<noteq> Some 131047 \<and>
     (\<exists>l. sc_last_inbound_at c = Some l \<and>
        now < l + hours 24 - minutes (st_staff_window_safety_minutes st))"
  by (auto simp: staff_plan_of_def window_until_def split: option.splits)

lemma customer_claims_admissible:
  assumes "claim_customer_batch st now d = (cs, d')" and "c \<in> set cs"
  shows "\<exists>row r. row \<in> set (db_customer_notifications d) \<and> r \<in> set (db_reservations d) \<and>
    rv_id r = cn_reservation_id row \<and> nt_status row = NT_PENDING \<and> nt_next_attempt_at row \<le> now \<and>
    rv_status r = RV_RESERVED \<and> rv_amount_paid_cop r < rv_price_cop r \<and> now < rv_starts_at r \<and>
    cc_id c = nt_id row \<and> cc_phone_number c = cn_phone_number row"
proof -
  from claim_batch_admissible [OF assms(1) [unfolded claim_customer_batch_def] assms(2)]
  obtain row r token where v: "(row, r) \<in> set (customer_candidates st now d)"
    "customer_admissible now (row, r)" "c = build_customer_claim (row, r) token" by auto
  from v(1) have "row \<in> set (db_customer_notifications d)" "due now row" "r \<in> set (db_reservations d)"
    "rv_id r = cn_reservation_id row"
    by (auto simp: customer_candidates_def dest!: in_set_takeD)
  then show ?thesis using v(2,3)
    by (auto simp: customer_admissible_def build_customer_claim_def due_def)
qed

section \<open>Properties\<close>

text \<open>Maintenance of the staff queue recovers every stale lease and expires every old deferred notice, in
  one pass, and touches no other row; nothing is left to recover at that instant.\<close>

theorem staff_maintenance_complete:
  assumes "keys_ok nt_id (db_staff_outbox d)"
  shows "db_staff_outbox (maintain_staff_outbox st now d) = map (recover_row st now) (db_staff_outbox d) \<and>
    \<not> list_ex (needs_maintenance st now) (db_staff_outbox (maintain_staff_outbox st now d))"
proof -
  have "db_staff_outbox (maintain_staff_outbox st now d) = map (recover_row st now) (db_staff_outbox d)"
    using staff.maintain_queue_rows [of d st now] assms
    by (simp add: maintain_staff_outbox_def staff_table_def)
  then show ?thesis by (simp add: list_ex_iff recover_row_done)
qed

definition sample_notice :: staff_outbox where
  "sample_notice = (new_staff_row 91 81 ''EVIDENCE_RECEIVED'' ''payment_evidence'' ''61'' [] sample_now)
     \<lparr>nt_status := NT_SENDING, nt_claim_token := Some 5, nt_claimed_at := Some sample_now\<rparr>"

lemma staff_maintenance_complete_witness:
  "map nt_status (db_staff_outbox (maintain_staff_outbox sample_settings (sample_now + hours 1)
     (sample_db\<lparr>db_staff_outbox := [sample_notice]\<rparr>))) = [NT_PENDING]"
proof -
  let ?d = "sample_db\<lparr>db_staff_outbox := [sample_notice]\<rparr>"
  have "keys_ok nt_id (db_staff_outbox ?d)" by (simp add: keys_ok_def)
  from staff_maintenance_complete [OF this] show ?thesis
    by (simp add: recover_row_def needs_maintenance_def sample_notice_def new_staff_row_def sample_settings_def
        Let_def us_defs seconds_def hours_def)
qed

text \<open>A sender whose lease was recovered can no longer settle the notice: whatever happens to the row
  afterwards, as long as its token is not issued again, its late result changes nothing.\<close>

theorem stale_staff_sender_ignored:
  assumes "recover_row st now r \<noteq> r" and "\<not> claims_token token es"
  shows "settle_row err (plan_state plan) (staff_update plan template m later) st' later token
      (staff_lease.lease_run es (recover_row st now r)) = staff_lease.lease_run es (recover_row st now r)"
  using staff_lease.recovered_ignores [of "(st, now)" r token es "(err, plan, template, m, st', later)"] assms
  by simp

lemma stale_staff_sender_ignored_witness:
  "settle_row None NT_SENT (staff_update SP_TEXT [] (Some ''wamid'') 0) sample_settings 0 5
     (recover_row sample_settings (sample_now + hours 1) sample_notice) =
   recover_row sample_settings (sample_now + hours 1) sample_notice"
proof -
  have "recover_row sample_settings (sample_now + hours 1) sample_notice \<noteq> sample_notice"
    by (simp add: recover_row_def needs_maintenance_def sample_notice_def new_staff_row_def sample_settings_def
        Let_def us_defs seconds_def hours_def fail_row_def retire_def)
  from stale_staff_sender_ignored [OF this, of 5 "[]" None SP_TEXT "[]" "Some ''wamid''" 0 sample_settings]
  show ?thesis by simp
qed

text \<open>Free text goes only to an active adviser whose last message is recent: strictly within the provider's
  24 hours, less the safety margin; in every other case the notice is expired, deferred or a template.\<close>

theorem staff_text_only_in_window:
  assumes "staff_plan_of c st now = SP_TEXT" and "0 \<le> st_staff_window_safety_minutes st"
  shows "sc_active c \<and> (\<exists>l. sc_last_inbound_at c = Some l \<and> now < l + hours 24)"
  using assms by (auto simp: staff_plan_text_iff minutes_def us_defs)

lemma staff_text_only_in_window_witness:
  "sc_active (build_staff_claim (sample_notice, sample_recipient) 5)"
proof -
  have "staff_plan_of (build_staff_claim (sample_notice, sample_recipient) 5) sample_settings (sample_now + hours 1) = SP_TEXT"
    by (simp add: staff_plan_text_iff build_staff_claim_def sample_notice_def new_staff_row_def sample_rows
        hours_def minutes_def us_defs)
  from staff_text_only_in_window [OF this] show ?thesis by (simp add: sample_settings_def)
qed

text \<open>A balance reminder is claimed for delivery only while its booking is confirmed, not fully paid and in
  the future.\<close>

theorem reminders_only_for_unpaid_bookings:
  assumes "claim_customer_batch st now d = (cs, d')" and "c \<in> set cs"
  shows "\<exists>row r. row \<in> set (db_customer_notifications d) \<and> r \<in> set (db_reservations d) \<and>
    rv_id r = cn_reservation_id row \<and> nt_status row = NT_PENDING \<and> nt_next_attempt_at row \<le> now \<and>
    rv_status r = RV_RESERVED \<and> rv_amount_paid_cop r < rv_price_cop r \<and> now < rv_starts_at r \<and>
    cc_id c = nt_id row \<and> cc_phone_number c = cn_phone_number row"
  by (rule customer_claims_admissible [OF assms])

definition sample_reminder :: customer_notification where
  "sample_reminder = \<lparr>nt_id = 95, nt_status = NT_PENDING, nt_attempts = 0, nt_next_attempt_at = sample_now,
     nt_claim_token = None, nt_claimed_at = None, nt_last_error = None, nt_last_error_code = None,
     nt_provider_message_id = None, nt_sent_at = None, nt_created_at = sample_now, nt_updated_at = sample_now,
     cn_reservation_id = 51, cn_customer_id = 1, cn_kind = ''BALANCE_REMINDER_DUE'',
     cn_phone_number = ''+573001112233'', cn_params = [''a'', ''b'', ''c'', ''d'', ''e''], cn_template_name = ''saldo''\<rparr>"

lemma reminders_only_for_unpaid_bookings_witness:
  "\<exists>r :: reservation. rv_status r = RV_RESERVED \<and> rv_amount_paid_cop r < rv_price_cop r \<and> sample_now < rv_starts_at r"
proof -
  let ?d = "sample_db\<lparr>db_reservations := [sample_reservation\<lparr>rv_status := RV_RESERVED\<rparr>],
      db_customer_notifications := [sample_reminder]\<rparr>"
  have "customer_candidates sample_settings sample_now ?d =
      [(sample_reminder, sample_reservation\<lparr>rv_status := RV_RESERVED\<rparr>)]"
    by (simp add: customer_candidates_def due_def order_by_def sample_reminder_def sample_rows)
  moreover have "customer_admissible sample_now (sample_reminder, sample_reservation\<lparr>rv_status := RV_RESERVED\<rparr>)"
    by (simp add: customer_admissible_def sample_reminder_def sample_rows ascii_eval sample_start_def
        sample_now_def bogota_instant_def at_hour_def us_defs)
  ultimately have "\<exists>c d'. claim_customer_batch sample_settings sample_now ?d = ([c], d')"
    by (simp add: claim_customer_batch_def Let_def uuid4_def)
  then obtain c d' where "claim_customer_batch sample_settings sample_now ?d = ([c], d')" by blast
  from reminders_only_for_unpaid_bookings [OF this list.set_intros(1)] show ?thesis
    by blast
qed

end
