(* ===== verification/Notification_Statuses.thy ===== *)
theory Notification_Statuses
  imports Notification_Workers
begin

text \<open>
  \<open>app/notifications/statuses.py\<close>: the delivery receipts the provider reports for staff notices and
  balance reminders, with \<open>parse_provider_timestamp\<close> of \<open>app/channel/inbound.py\<close>.
\<close>

section \<open>The timestamp\<close>

definition unix_epoch :: instant where
  "unix_epoch = 719162 * us_day"

text \<open>
  \<open>datetime.fromtimestamp(n, UTC)\<close>: OverflowError beyond a 64-bit \<open>time_t\<close>, ValueError or OSError
  outside the years 1 to 9999.
\<close>

datatype stamp = Stamp instant | StampInvalid | StampOverflow

definition from_timestamp :: "int \<Rightarrow> stamp" where
  "from_timestamp n =
     (if n < - (2 ^ 63) \<or> 2 ^ 63 \<le> n then StampOverflow
      else if n < - 62135596800 \<or> 253402300800 \<le> n then StampInvalid
      else Stamp (unix_epoch + seconds n))"

text \<open>The handler catches TypeError, ValueError and OSError; OverflowError is none of them.\<close>

definition parse_provider_timestamp :: "json \<Rightarrow> (app_error, instant option) result" where
  "parse_provider_timestamp t =
     (case t of JNull \<Rightarrow> Inr None
      | _ \<Rightarrow> (case (case t of JStr s \<Rightarrow> parse_int s | JInt i \<Rightarrow> Some i
                    | JBool b \<Rightarrow> Some (if b then 1 else 0) | _ \<Rightarrow> None) of
                None \<Rightarrow> Inr None
              | Some n \<Rightarrow> (case from_timestamp n of
                    Stamp i \<Rightarrow> Inr (Some i) | StampInvalid \<Rightarrow> Inr None
                  | StampOverflow \<Rightarrow> Inl (OtherError ''OverflowError''))))"

section \<open>Recording a receipt\<close>

definition required_str :: "string \<Rightarrow> json \<Rightarrow> (app_error, string) result" where
  "required_str k payload =
     (if \<not> jhas k payload then Inl (OtherError ''KeyError'')
      else case jget k payload of JStr s \<Rightarrow> Inr s | _ \<Rightarrow> Inl (OtherError ''DataError''))"

definition optional_str :: "string \<Rightarrow> json \<Rightarrow> (app_error, string option) result" where
  "optional_str k payload =
     (case jget k payload of JNull \<Rightarrow> Inr None | JStr s \<Rightarrow> Inr (Some s) | _ \<Rightarrow> Inl (OtherError ''DataError''))"

text \<open>\<open>uq_provider_status\<close>: a NULL timestamp is never equal to another.\<close>

definition same_provider_status :: "provider_status \<Rightarrow> provider_status \<Rightarrow> bool" where
  "same_provider_status a b \<longleftrightarrow> mp_provider_message_id a = mp_provider_message_id b \<and>
     mp_status a = mp_status b \<and> mp_provider_timestamp a = mp_provider_timestamp b \<and>
     mp_provider_timestamp a \<noteq> None"

definition insert_provider_status :: "provider_status \<Rightarrow> db \<Rightarrow> (app_error, db) result" where
  "insert_provider_status s d =
     (if list_ex (same_provider_status s) (db_provider_statuses d) then Inl IntegrityError
      else Inr (d\<lparr>db_provider_statuses := db_provider_statuses d @ [s]\<rparr>))"

section \<open>Applying it to a notification\<close>

definition receipt_rank :: "notification_status \<Rightarrow> int" where
  "receipt_rank s = (case s of NT_SENT \<Rightarrow> 0 | NT_DELIVERED \<Rightarrow> 1 | NT_READ \<Rightarrow> 2 | _ \<Rightarrow> - 1)"

definition incoming_status :: "string \<Rightarrow> notification_status option" where
  "incoming_status s = map_of [(''DELIVERED'', NT_DELIVERED), (''READ'', NT_READ), (''FAILED'', NT_FAILED)] s"

definition first_error :: "json \<Rightarrow> json" where
  "first_error payload = (case jget ''errors'' payload of
       JList (e # _) \<Rightarrow> if is_obj e then e else JObj [] | _ \<Rightarrow> JObj [])"

definition failure_text :: "(json \<Rightarrow> string) \<Rightarrow> json \<Rightarrow> string" where
  "failure_text rp first =
     (let m = jget ''message'' first; t = jget ''title'' first
      in cp_take 4000 (if truthy m then py_str rp m else if truthy t then py_str rp t
                       else ''Env'' @ i_acute @ ''o fallido''))"

definition window_closed_code :: int where
  "window_closed_code = 131047"

definition receive_status ::
  "(json \<Rightarrow> string) \<Rightarrow> ('a notification_row_scheme \<Rightarrow> string option) \<Rightarrow> notification_status
     \<Rightarrow> json \<Rightarrow> string \<Rightarrow> instant \<Rightarrow> 'a notification_row_scheme \<Rightarrow> 'a notification_row_scheme"
where
  "receive_status rp message_kind retry payload status now row =
     (let old = nt_status row in
      case incoming_status (upper status) of
        None \<Rightarrow> row
      | Some incoming \<Rightarrow>
          if incoming \<in> {NT_DELIVERED, NT_READ} \<and> receipt_rank incoming > receipt_rank old
          then row\<lparr>nt_status := incoming, nt_updated_at := now\<rparr>
          else if incoming = NT_FAILED \<and> old \<notin> {NT_DELIVERED, NT_READ}
          then let first = first_error payload;
                   code = (case jget ''code'' first of JInt c \<Rightarrow> Some c | _ \<Rightarrow> None);
                   row1 = row\<lparr>nt_last_error_code := code, nt_last_error := Some (failure_text rp first),
                              nt_claim_token := None, nt_claimed_at := None, nt_updated_at := now\<rparr>
               in if code = Some window_closed_code \<and> message_kind row = Some ''TEXT''
                  then row1\<lparr>nt_status := retry, nt_next_attempt_at := now\<rparr>
                  else row1\<lparr>nt_status := NT_FAILED\<rparr>
          else row)"

definition apply_provider_status ::
  "(json \<Rightarrow> string) \<Rightarrow> 'a notification_row_scheme notification_table
     \<Rightarrow> ('a notification_row_scheme \<Rightarrow> string option) \<Rightarrow> notification_status
     \<Rightarrow> json \<Rightarrow> 'a notification_row_scheme \<Rightarrow> string option \<Rightarrow> db \<Rightarrow> (app_error, bool \<times> db) result"
where
  "apply_provider_status rp nq message_kind retry payload row request_id d =
     ebind (required_str ''id'' payload) (\<lambda>pid.
     ebind (required_str ''status'' payload) (\<lambda>status.
     ebind (optional_str ''recipient_id'' payload) (\<lambda>recipient.
     ebind (parse_provider_timestamp (jget ''timestamp'' payload)) (\<lambda>stamp.
     ebind (insert_provider_status \<lparr>mp_provider_message_id = pid, mp_message_id = None,
              mp_status = status, mp_recipient_id = recipient, mp_provider_timestamp = stamp,
              mp_payload = payload\<rparr> d) (\<lambda>d1.
       let old = nt_status row;
           row' = receive_status rp message_kind retry payload status (db_clock d1) row;
           d2 = nq_put nq row' d1;
           action = (if nt_status row' = NT_PENDING then ''REQUEUED''
                     else notification_status_str (nt_status row'))
       in Inr (True, if nt_status row' \<noteq> old
                     then nq_audit nq (nq_prefix nq @ ''_'' @ action) row'
                            (Some (notification_status_str old)) request_id d2
                     else d2))))))"

definition row_by_provider_id :: "string \<Rightarrow> 'a notification_row_scheme list \<Rightarrow> 'a notification_row_scheme option" where
  "row_by_provider_id pid rows = find (\<lambda>r. nt_provider_message_id r = Some pid) rows"

definition record_customer_provider_status ::
  "(json \<Rightarrow> string) \<Rightarrow> json \<Rightarrow> string option \<Rightarrow> db \<Rightarrow> (app_error, bool \<times> db) result" where
  "record_customer_provider_status rp payload request_id d =
     ebind (required_str ''id'' payload) (\<lambda>pid.
     case row_by_provider_id pid (db_customer_notifications d) of
       None \<Rightarrow> Inr (False, d)
     | Some row \<Rightarrow> apply_provider_status rp customer_table (\<lambda>_. None) NT_FAILED payload row request_id d)"

definition record_staff_provider_status ::
  "(json \<Rightarrow> string) \<Rightarrow> settings \<Rightarrow> json \<Rightarrow> string option \<Rightarrow> db \<Rightarrow> (app_error, bool \<times> db) result" where
  "record_staff_provider_status rp st payload request_id d =
     ebind (required_str ''id'' payload) (\<lambda>pid.
     case row_by_provider_id pid (db_staff_outbox d) of
       None \<Rightarrow> record_customer_provider_status rp payload request_id d
     | Some row \<Rightarrow> apply_provider_status rp staff_table so_message_kind
         (if template_for (so_event_kind row) st \<noteq> [] then NT_PENDING else NT_DEFERRED)
         payload row request_id d)"

section \<open>Facts\<close>

text \<open>A receipt never goes backwards: delivered stays delivered or becomes read, read stays read.\<close>

lemma incoming_status_range: "incoming_status s = Some i \<Longrightarrow> i \<in> {NT_DELIVERED, NT_READ, NT_FAILED}"
  by (auto simp: incoming_status_def split: if_splits)

lemma receive_status_rank:
  assumes "nt_status row \<in> {NT_DELIVERED, NT_READ}"
  shows "nt_status (receive_status rp mk retry payload status now row) \<in> {NT_DELIVERED, NT_READ} \<and>
    receipt_rank (nt_status row) \<le>
      receipt_rank (nt_status (receive_status rp mk retry payload status now row))"
  using assms
  by (cases "incoming_status (upper status)")
     (auto simp: receive_status_def Let_def receipt_rank_def dest!: incoming_status_range)

lemma receive_status_id [simp]: "nt_id (receive_status rp mk retry payload s now row) = nt_id row"
  by (auto simp: receive_status_def Let_def split: option.split)

lemma insert_provider_status_unique:
  "insert_provider_status s d = Inr d' \<Longrightarrow>
     \<not> list_ex (same_provider_status s) (db_provider_statuses d) \<and>
     db_provider_statuses d' = db_provider_statuses d @ [s] \<and>
     db_staff_outbox d' = db_staff_outbox d \<and> db_clock d' = db_clock d"
  by (auto simp: insert_provider_status_def split: if_splits)

lemma staff_table_simps [simp]:
  "nq_put staff_table = put_staff" "nq_audit staff_table = staff_audit" "nq_rows staff_table = db_staff_outbox"
  by (simp_all add: staff_table_def)

text \<open>The same receipt, delivered twice, is stored once.\<close>

lemma apply_provider_status_once:
  assumes "apply_provider_status rp staff_table mk retry payload row req d = Inr (b, d')"
    and "parse_provider_timestamp (jget ''timestamp'' payload) = Inr (Some i)"
  shows "apply_provider_status rp staff_table mk retry' payload row' req' d' = Inl IntegrityError"
  using assms
  by (auto simp: apply_provider_status_def ebind_Inr_iff Let_def insert_provider_status_def
      staff_audit_def put_staff_def audit_def audit_at_def same_provider_status_def split: if_splits)

section \<open>Properties\<close>

text \<open>Delivery receipts are monotone: a delivered or read notification never loses that status, whatever
  the provider reports later, failures included.\<close>

theorem receipts_monotone:
  assumes "nt_status row \<in> {NT_DELIVERED, NT_READ}"
  shows "nt_status (receive_status rp mk retry payload status now row) \<in> {NT_DELIVERED, NT_READ} \<and>
    receipt_rank (nt_status row) \<le> receipt_rank (nt_status (receive_status rp mk retry payload status now row))"
  by (rule receive_status_rank [OF assms])

lemma receipts_monotone_witness:
  "nt_status (receive_status (\<lambda>_. []) so_message_kind NT_PENDING (JObj []) ''failed'' 0
     (sample_notice\<lparr>nt_status := NT_READ\<rparr>)) = NT_READ"
  using receipts_monotone [of "sample_notice\<lparr>nt_status := NT_READ\<rparr>" "\<lambda>_. []" so_message_kind NT_PENDING "JObj []" "''failed''" 0]
  by (auto simp: receipt_rank_def)

text \<open>A receipt with a timestamp is stored once: processing it a second time is refused by the unique key,
  so the whole savepoint, status change included, is rolled back.\<close>

theorem duplicate_receipt_refused:
  assumes "apply_provider_status rp staff_table mk retry payload row req d = Inr (b, d')"
    and "parse_provider_timestamp (jget ''timestamp'' payload) = Inr (Some i)"
  shows "apply_provider_status rp staff_table mk retry' payload row' req' d' = Inl IntegrityError"
  by (rule apply_provider_status_once [OF assms])

lemma duplicate_receipt_refused_witness:
  "\<exists>d'. apply_provider_status (\<lambda>_. []) staff_table so_message_kind NT_DEFERRED
      (JObj [(''id'', JStr ''w''), (''status'', JStr ''read''), (''timestamp'', JInt 1785000000)])
      sample_notice None d' = Inl IntegrityError"
proof -
  let ?p = "JObj [(''id'', JStr ''w''), (''status'', JStr ''read''), (''timestamp'', JInt 1785000000)]"
  have stamp: "parse_provider_timestamp (jget ''timestamp'' ?p) = Inr (Some (unix_epoch + seconds 1785000000))"
    by (simp add: parse_provider_timestamp_def jget_JObj from_timestamp_def)
  have "\<exists>d'. apply_provider_status (\<lambda>_. []) staff_table so_message_kind NT_DEFERRED ?p sample_notice None sample_db = Inr (True, d')"
    unfolding apply_provider_status_def stamp
    by (simp add: required_str_def optional_str_def jhas_def jget_JObj insert_provider_status_def sample_db_def
        empty_db_def Let_def)
  then obtain d' where "apply_provider_status (\<lambda>_. []) staff_table so_message_kind NT_DEFERRED ?p sample_notice None
      sample_db = Inr (True, d')" by blast
  from duplicate_receipt_refused [OF this stamp] show ?thesis by blast
qed

text \<open>A status whose timestamp does not fit 64 bits is not skipped like the other malformed ones: the
  OverflowError of \<open>datetime.fromtimestamp\<close> escapes the handler and aborts the receipt.\<close>

theorem huge_timestamp_aborts:
  assumes "2 ^ 63 \<le> n"
  shows "parse_provider_timestamp (JInt n) = Inl (OtherError ''OverflowError'')"
  using assms by (simp add: parse_provider_timestamp_def from_timestamp_def)

lemma huge_timestamp_aborts_witness:
  "parse_provider_timestamp (JInt (2 ^ 63)) = Inl (OtherError ''OverflowError'')"
  by (rule huge_timestamp_aborts) simp

end
