(* ===== verification/Reservation_Service.thy ===== *)
theory Reservation_Service
  imports Status_Machine
begin

text \<open>
  \<open>app/reservation/service.py\<close>: the reservation state machine (matrix D2) and its audited
  transition, which every other writer of a reservation's status goes through.
\<close>

fun reservation_transitions :: "reservation_status \<Rightarrow> reservation_status list" where
  "reservation_transitions RV_PAYMENT_PENDING = [RV_PAYMENT_REVIEW, RV_EXPIRED, RV_CANCELLED]"
| "reservation_transitions RV_PAYMENT_REVIEW = [RV_PAYMENT_PENDING, RV_RESERVED, RV_CANCELLED]"
| "reservation_transitions RV_RESERVED = [RV_CANCELLED]"
| "reservation_transitions RV_EXPIRED = []"
| "reservation_transitions RV_CANCELLED = []"

definition reservation_status_value :: "reservation \<Rightarrow> reservation_status \<Rightarrow> json" where
  "reservation_status_value r s =
     JObj [(''status'', JStr (reservation_status_str s)),
           (''reservation_id'', JStr (uuid_str (rv_id r)))]"

definition transition_reservation ::
  "reservation \<Rightarrow> reservation_status \<Rightarrow> string \<Rightarrow> string \<Rightarrow> string option \<Rightarrow> db
     \<Rightarrow> (app_error, reservation \<times> db) result"
where
  "transition_reservation r new_status actor reason request_id d =
     ebind (guard (\<not> blank actor) (ValueError ''El actor es obligatorio.'')) (\<lambda>_.
     ebind (guard (\<not> blank reason) (ValueError ''El motivo es obligatorio.'')) (\<lambda>_.
     (let old_status = rv_status r in
      if new_status \<notin> set (reservation_transitions old_status)
      then Inl (InvalidReservationTransition old_status new_status)
      else let r1 = r\<lparr>rv_status := new_status\<rparr>
           in Inr (r1, audit actor ''RESERVATION_STATUS_CHANGED'' ''reservation''
                         (Some (reservation_status_value r old_status))
                         (Some (reservation_status_value r new_status))
                         reason request_id (put_reservation r1 d)))))"

section \<open>Facts\<close>

lemma transition_reservation_Inr_iff:
  "transition_reservation r t actor reason req d = Inr (r', d') \<longleftrightarrow>
     \<not> blank actor \<and> \<not> blank reason \<and> t \<in> set (reservation_transitions (rv_status r)) \<and>
     r' = r\<lparr>rv_status := t\<rparr> \<and>
     d' = audit actor ''RESERVATION_STATUS_CHANGED'' ''reservation''
            (Some (reservation_status_value r (rv_status r)))
            (Some (reservation_status_value r t)) reason req (put_reservation r' d)"
  by (auto simp: transition_reservation_def Let_def ebind_Inr_iff)

interpretation rsv: status_machine reservation_transitions "\<lambda>(r, d). rv_status r"
  "\<lambda>t (r, d) (r', d').
     \<exists>actor reason req. transition_reservation r t actor reason req d = Inr (r', d')"
  by unfold_locales (auto simp: transition_reservation_Inr_iff)

lemma reservation_terminal_iff:
  "reservation_transitions s = [] \<longleftrightarrow> s \<in> {RV_EXPIRED, RV_CANCELLED}"
  by (cases s) simp_all

text \<open>\<open>RESERVED\<close> is entered from \<open>PAYMENT_REVIEW\<close> only.\<close>

lemma reserved_from_review:
  "RV_RESERVED \<in> set (reservation_transitions s) \<longleftrightarrow> s = RV_PAYMENT_REVIEW"
  by (cases s) simp_all

lemma transition_reservation_frame:
  assumes "transition_reservation r t actor reason req d = Inr (r', d')"
  shows "rv_id r' = rv_id r" "rv_status r' = t" "rv_amount_paid_cop r' = rv_amount_paid_cop r"
    "rv_price_cop r' = rv_price_cop r" "rv_starts_at r' = rv_starts_at r"
    "rv_ends_at r' = rv_ends_at r" "rv_plan_id r' = rv_plan_id r"
    "rv_customer_id r' = rv_customer_id r"
    "db_reservations d' = put_row rv_id r' (db_reservations d)" "db_evidence d' = db_evidence d"
    "db_plans d' = db_plans d" "db_clock d' = db_clock d" "audit_extends d d'"
  using assms
  by (auto simp: transition_reservation_Inr_iff audit_extends_def audit_def audit_at_def)

lemma transition_reservation_InrD:
  "transition_reservation r t actor reason req d = Inr (r', d') \<Longrightarrow>
     t \<in> set (reservation_transitions (rv_status r)) \<and> r' = r\<lparr>rv_status := t\<rparr> \<and>
     db_reservations d' = put_row rv_id r' (db_reservations d) \<and> db_evidence d' = db_evidence d \<and>
     db_plans d' = db_plans d \<and> db_clock d' = db_clock d \<and> audit_extends d d'"
  by (auto simp: transition_reservation_Inr_iff audit_extends_def audit_def audit_at_def)

section \<open>Properties\<close>

text \<open>Runs of reservation transitions follow the matrix: \<open>EXPIRED\<close> and \<open>CANCELLED\<close> are final, a booking
  becomes \<open>RESERVED\<close> only out of \<open>PAYMENT_REVIEW\<close>, and once \<open>RESERVED\<close> it can only be cancelled.\<close>

theorem reservation_runs:
  assumes "rsv.run (r, d) ts (r', d')"
  shows "(rv_status r \<in> {RV_EXPIRED, RV_CANCELLED} \<longrightarrow> ts = [] \<and> r' = r) \<and>
    (rv_status r' = RV_RESERVED \<longrightarrow> ts \<noteq> [] \<longrightarrow>
      last (rv_status r # butlast ts) = RV_PAYMENT_REVIEW) \<and>
    (rv_status r = RV_RESERVED \<longrightarrow> rv_status r' \<in> {RV_RESERVED, RV_CANCELLED})"
proof (intro conjI)
  show "rv_status r \<in> {RV_EXPIRED, RV_CANCELLED} \<longrightarrow> ts = [] \<and> r' = r"
    using rsv.run_terminal [OF assms] by (auto simp: reservation_terminal_iff)
  have "rv_status r = RV_RESERVED \<Longrightarrow> rv_status r' \<in> {RV_RESERVED, RV_CANCELLED}"
    using rsv.closed_run [OF assms, of "{RV_RESERVED, RV_CANCELLED}"] by force
  then show "rv_status r = RV_RESERVED \<longrightarrow> rv_status r' \<in> {RV_RESERVED, RV_CANCELLED}" by blast
  have *: "rsv.path u us \<Longrightarrow> us \<noteq> [] \<Longrightarrow> last us = RV_RESERVED \<Longrightarrow>
      last (u # butlast us) = RV_PAYMENT_REVIEW" for u us
    by (induction us arbitrary: u) (auto simp: reserved_from_review split: if_splits)
  show "rv_status r' = RV_RESERVED \<longrightarrow> ts \<noteq> [] \<longrightarrow>
      last (rv_status r # butlast ts) = RV_PAYMENT_REVIEW"
    using rsv.run_path [OF assms] rsv.run_last [OF assms] * by auto
qed

lemma reservation_runs_witness:
  "\<exists>r' d'. rsv.run (sample_reservation, sample_db) [RV_RESERVED] (r', d') \<and>
     rv_status sample_reservation = RV_PAYMENT_REVIEW"
proof -
  have "\<not> blank ''asesor''" by (simp add: not_blank_ascii is_space_def)
  then obtain r' d' where t: "transition_reservation sample_reservation RV_RESERVED ''asesor'' ''asesor'' None sample_db
      = Inr (r', d')"
    by (simp add: transition_reservation_Inr_iff sample_reservation_def)
  then have s: "rv_status r' = RV_RESERVED" using transition_reservation_InrD [OF t] by simp
  have r: "rsv.run (sample_reservation, sample_db) [RV_RESERVED] (r', d')"
    using t by (intro rsv.run_step [OF _ rsv.run_nil]) auto
  from reservation_runs [OF r] s r show ?thesis by auto
qed

end
