(* ===== verification/Booking_Availability.thy ===== *)
theory Booking_Availability
  imports Reservation_Service
begin

text \<open>
  \<open>app/reservation/availability.py\<close>: when a plan ends, whether an interval lies in the booking
  hours, and which calendar events and confirmed reservations block it. The interval ends are
  exclusive, and requests that are not \<open>RESERVED\<close> never hold a slot.
\<close>

record calendar_event =
  ce_event_id :: string
  ce_calendar_id :: string
  ce_summary :: string
  ce_description :: "string option"
  ce_start :: instant
  ce_end :: instant

datatype blocker_kind = CALENDAR_EXCLUSIVE | RESERVED_EXCLUSIVE | RESERVED_CONFLICT | RESERVED_OVERNIGHT

fun blocker_kind_str :: "blocker_kind \<Rightarrow> string" where
  "blocker_kind_str CALENDAR_EXCLUSIVE = ''CALENDAR_EXCLUSIVE''"
| "blocker_kind_str RESERVED_EXCLUSIVE = ''RESERVED_EXCLUSIVE''"
| "blocker_kind_str RESERVED_CONFLICT = ''RESERVED_CONFLICT''"
| "blocker_kind_str RESERVED_OVERNIGHT = ''RESERVED_OVERNIGHT''"

datatype blocker = BookingBlocker blocker_kind string

record booking_availability =
  ba_available :: bool
  ba_blockers :: "blocker list"

section \<open>The end of a booking\<close>

definition booking_ends_at :: "plan \<Rightarrow> datetime \<Rightarrow> (app_error, datetime) result" where
  "booking_ends_at p starts_at =
     (if \<not> pl_overnight p then Inr (datetime_add starts_at (minutes (pl_duration_minutes p)))
      else case (starts_at, pl_checkout_time p) of
          (Aware i off, Some checkout) \<Rightarrow> Inr (Aware (bogota_instant (bogota_date i + 1) checkout) off)
        | _ \<Rightarrow> Inl (ValueError ''Overnight bookings require a timezone and checkout time''))"

section \<open>The blockers of an interval\<close>

definition normalized :: "ucd \<Rightarrow> string \<Rightarrow> string" where
  "normalized u value =
     strip (utf8_encode (filter (\<lambda>c. \<not> uc_combining u c)
       (concat (map (uc_nfkd u) (concat (map (uc_casefold u) (utf8_decode value)))))))"

definition overlaps :: "instant \<Rightarrow> instant \<Rightarrow> instant \<Rightarrow> instant \<Rightarrow> bool" where
  "overlaps s e s' e' \<longleftrightarrow> s' < e \<and> s < e'"

definition calendar_blockers ::
  "ucd \<Rightarrow> string \<Rightarrow> instant \<Rightarrow> instant \<Rightarrow> calendar_event list \<Rightarrow> blocker list" where
  "calendar_blockers u keyword starts_at ends_at evs =
     map (\<lambda>e. BookingBlocker CALENDAR_EXCLUSIVE (ce_event_id e))
       (filter (\<lambda>e. overlaps starts_at ends_at (ce_start e) (ce_end e) \<and>
          is_infix keyword (normalized u (ce_summary e @ '' '' @
            (case ce_description e of None \<Rightarrow> [] | Some t \<Rightarrow> t)))) evs)"

text \<open>One turn of the loop over the reservations (each with its loaded plan).\<close>

definition reservation_blocker ::
  "plan \<Rightarrow> instant \<Rightarrow> instant \<Rightarrow> reservation \<times> plan \<Rightarrow> blocker list" where
  "reservation_blocker p starts_at ends_at = (\<lambda>(r, q).
     if rv_status r \<noteq> RV_RESERVED \<or> rv_starts_at r \<ge> ends_at \<or> starts_at \<ge> rv_ends_at r then []
     else if pl_overnight q \<and> (pl_exclusive p \<or> pl_overnight p)
       then [BookingBlocker RESERVED_OVERNIGHT (uuid_str (rv_id r))]
     else if pl_exclusive q then [BookingBlocker RESERVED_EXCLUSIVE (uuid_str (rv_id r))]
     else if pl_exclusive p then [BookingBlocker RESERVED_CONFLICT (uuid_str (rv_id r))]
     else [])"

definition evaluate_booking_availability ::
  "ucd \<Rightarrow> plan \<Rightarrow> instant \<Rightarrow> instant \<Rightarrow> calendar_event list \<Rightarrow> (reservation \<times> plan) list \<Rightarrow> string
     \<Rightarrow> (app_error, booking_availability) result"
where
  "evaluate_booking_availability u p starts_at ends_at evs rs exclusivity_keyword =
     (let keyword = normalized u exclusivity_keyword in
      if keyword = [] then Inl (ValueError ''The booking exclusivity keyword must not be empty'')
      else let blockers = calendar_blockers u keyword starts_at ends_at evs
                 @ concat (map (reservation_blocker p starts_at ends_at) rs)
           in Inr \<lparr>ba_available = (blockers = []), ba_blockers = blockers\<rparr>)"

section \<open>The booking window\<close>

datatype window_reason =
  TIMEZONE_REQUIRED | INVALID_RANGE | CROSSES_MIDNIGHT | OUTSIDE_HOURS | MIN_LEAD_DAYS | WEEKEND_ONLY

text \<open>\<open>BookingWindow(True)\<close> is \<open>None\<close>, \<open>BookingWindow(False, reason)\<close> is \<open>Some reason\<close>.\<close>

type_synonym booking_window = "window_reason option"

definition parse_clock :: "string \<Rightarrow> (app_error, tod) result" where
  "parse_clock s = (case parse_hhmm s of None \<Rightarrow> Inl (ValueError s) | Some t \<Rightarrow> Inr t)"

text \<open>The checks after the opening hours: how the interval ends, then the lead time.\<close>

definition window_end ::
  "instant \<Rightarrow> instant \<Rightarrow> settings \<Rightarrow> plan option \<Rightarrow> (app_error, booking_window) result" where
  "window_end s e st p =
     (let midnight = bogota_instant (bogota_date s + 1) 0 in
      ebind (if st_booking_hours_end st = ''24:00'' then Inr midnight
             else ebind (parse_clock (st_booking_hours_end st)) (\<lambda>t.
                    Inr (bogota_instant (bogota_date s) t))) (\<lambda>allowed_end.
      case p of
        Some q \<Rightarrow>
          if pl_overnight q then
            ebind (booking_ends_at q (Aware s bogota_offset)) (\<lambda>t.
              Inr (if t \<noteq> Aware e bogota_offset then Some INVALID_RANGE else None))
          else Inr (if e > midnight then Some CROSSES_MIDNIGHT
                    else if e > allowed_end then Some OUTSIDE_HOURS else None)
      | None \<Rightarrow> Inr (if e > midnight then Some CROSSES_MIDNIGHT
                     else if e > allowed_end then Some OUTSIDE_HOURS else None)))"

definition window_hours ::
  "instant \<Rightarrow> settings \<Rightarrow> plan option \<Rightarrow> (app_error, booking_window) result" where
  "window_hours s st p =
     ebind (case p of
         Some q \<Rightarrow> if pl_overnight q
                   then (case pl_checkin_from q of Some t \<Rightarrow> Inr t | None \<Rightarrow> Inl (OtherError ''checkin''))
                   else parse_clock (st_booking_hours_start st)
       | None \<Rightarrow> parse_clock (st_booking_hours_start st)) (\<lambda>first_start.
     if bogota_time s < first_start then Inr (Some OUTSIDE_HOURS)
     else ebind (parse_clock (st_booking_latest_start st)) (\<lambda>latest.
       Inr (if bogota_time s > latest then Some OUTSIDE_HOURS else None)))"

definition validate_booking_window ::
  "datetime \<Rightarrow> datetime \<Rightarrow> settings \<Rightarrow> date option \<Rightarrow> plan option \<Rightarrow> instant
     \<Rightarrow> (app_error, booking_window) result"
where
  "validate_booking_window starts_at ends_at st today p clock =
     (case (starts_at, ends_at) of
        (Aware s _, Aware e _) \<Rightarrow>
          if e \<le> s then Inr (Some INVALID_RANGE)
          else if (case p of Some q \<Rightarrow> pl_weekend_only q \<and> weekday (bogota_date s) \<notin> {5, 6} | None \<Rightarrow> False)
          then Inr (Some WEEKEND_ONLY)
          else if (case p of Some q \<Rightarrow> pl_overnight q \<and>
                      (pl_checkin_from q = None \<or> pl_checkout_time q = None) | None \<Rightarrow> False)
          then Inr (Some INVALID_RANGE)
          else ebind (window_hours s st p) (\<lambda>h.
            case h of Some r \<Rightarrow> Inr (Some r) | None \<Rightarrow>
            ebind (window_end s e st p) (\<lambda>w.
            case w of Some r \<Rightarrow> Inr (Some r) | None \<Rightarrow>
              (let day = (case today of Some t \<Rightarrow> t | None \<Rightarrow> bogota_date clock) in
               Inr (if bogota_date s < day + st_booking_min_lead_days st
                    then Some MIN_LEAD_DAYS else None))))
      | _ \<Rightarrow> Inr (Some TIMEZONE_REQUIRED))"

section \<open>The booking context\<close>

text \<open>The confirmed reservations that meet the interval, with their plans, in query order.\<close>

definition plan_of :: "db \<Rightarrow> reservation \<Rightarrow> (reservation \<times> plan) list" where
  "plan_of d r = (case get_row pl_id (rv_plan_id r) (db_plans d) of None \<Rightarrow> [] | Some q \<Rightarrow> [(r, q)])"

definition reserved_between :: "db \<Rightarrow> instant \<Rightarrow> instant \<Rightarrow> reservation list" where
  "reserved_between d starts_at ends_at =
     filter (\<lambda>r. rv_status r = RV_RESERVED \<and> rv_starts_at r < ends_at \<and> rv_ends_at r > starts_at)
       (db_reservations d)"

definition reservation_lt :: "reservation \<Rightarrow> reservation \<Rightarrow> bool" where
  "reservation_lt a b \<longleftrightarrow> rv_starts_at a < rv_starts_at b \<or>
     (rv_starts_at a = rv_starts_at b \<and> rv_id a < rv_id b)"

definition fetch_booking_context ::
  "ucd \<Rightarrow> bool \<Rightarrow> plan \<Rightarrow> instant \<Rightarrow> instant
     \<Rightarrow> (instant \<Rightarrow> instant \<Rightarrow> string list \<Rightarrow> (app_error, calendar_event list) result)
     \<Rightarrow> settings \<Rightarrow> uuid option \<Rightarrow> db \<Rightarrow> (app_error, booking_availability) result"
where
  "fetch_booking_context u idle p starts_at ends_at list_events st exclude d =
     (if \<not> idle
      then Inl (ValueError ''Booking context requires an idle session without pending writes'')
      else let ids = filter (\<lambda>s. s \<noteq> []) (map strip
                 (split_on (CHR '','') (st_google_freebusy_calendar_ids st))) in
      if ids = [] then Inl CalendarUnavailableError
      else let rs = order_by reservation_lt (filter (\<lambda>r. Some (rv_id r) \<noteq> exclude)
                 (reserved_between d starts_at ends_at)) in
      ebind (list_events starts_at ends_at ids) (\<lambda>evs.
        let evs' = (case exclude of None \<Rightarrow> evs
                    | Some x \<Rightarrow> filter (\<lambda>e. ce_event_id e \<noteq> uuid_hex x) evs)
        in evaluate_booking_availability u p starts_at ends_at evs'
             (concat (map (plan_of d) rs)) (st_booking_exclusivity_keyword st)))"

section \<open>Facts\<close>

text \<open>The symmetric relation the loop decides: two plans may not share an overlapping interval.\<close>

definition plans_conflict :: "plan \<Rightarrow> plan \<Rightarrow> bool" where
  "plans_conflict p q \<longleftrightarrow> pl_exclusive p \<or> pl_exclusive q \<or> (pl_overnight p \<and> pl_overnight q)"

lemma plans_conflict_sym: "plans_conflict p q \<longleftrightarrow> plans_conflict q p"
  by (auto simp: plans_conflict_def)

lemma overlaps_sym: "overlaps s e s' e' \<longleftrightarrow> overlaps s' e' s e"
  by (auto simp: overlaps_def)

lemma reservation_blocker_Nil_iff:
  "reservation_blocker p s e (r, q) = [] \<longleftrightarrow>
     \<not> (rv_status r = RV_RESERVED \<and> overlaps s e (rv_starts_at r) (rv_ends_at r) \<and> plans_conflict p q)"
  by (auto simp: reservation_blocker_def overlaps_def plans_conflict_def)

lemma blockers_Nil_iff:
  "concat (map (reservation_blocker p s e) rs) = [] \<longleftrightarrow>
     (\<forall>r q. (r, q) \<in> set rs \<longrightarrow>
        \<not> (rv_status r = RV_RESERVED \<and> overlaps s e (rv_starts_at r) (rv_ends_at r) \<and>
           plans_conflict p q))"
proof -
  have "concat (map (reservation_blocker p s e) rs) = [] \<longleftrightarrow>
      (\<forall>r q. (r, q) \<in> set rs \<longrightarrow> reservation_blocker p s e (r, q) = [])"
    by auto
  then show ?thesis by (simp only: reservation_blocker_Nil_iff)
qed

lemma evaluate_booking_InrD:
  "evaluate_booking_availability u p s e evs rs k = Inr a \<Longrightarrow>
     (ba_available a \<longleftrightarrow> ba_blockers a = []) \<and>
     (ba_blockers a = [] \<longrightarrow> (\<forall>r q. (r, q) \<in> set rs \<longrightarrow>
        \<not> (rv_status r = RV_RESERVED \<and> overlaps s e (rv_starts_at r) (rv_ends_at r) \<and>
           plans_conflict p q)))"
  unfolding evaluate_booking_availability_def Let_def
  by (simp split: if_splits del: concat_eq_Nil_conv) (auto simp: blockers_Nil_iff simp del: concat_eq_Nil_conv)

lemma evaluate_booking_total:
  "normalized u k \<noteq> [] \<Longrightarrow> \<exists>a. evaluate_booking_availability u p s e evs rs k = Inr a"
  by (simp add: evaluate_booking_availability_def Let_def)

lemma booking_ends_after:
  assumes "plan_ck p" and "booking_ends_at p (Aware s off) = Inr t"
    and "\<And>c. pl_checkout_time p = Some c \<Longrightarrow> 0 \<le> c"
  shows "\<exists>e. t = Aware e off \<and> s < e"
proof (cases "pl_overnight p")
  case False
  with assms show ?thesis
    by (auto simp: booking_ends_at_def datetime_add_def plan_ck_def minutes_def us_defs)
next
  case True
  with assms(2) obtain c where c: "pl_checkout_time p = Some c"
    and t: "t = Aware (bogota_instant (bogota_date s + 1) c) off"
    by (auto simp: booking_ends_at_def split: option.splits)
  have "s = bogota_instant (bogota_date s) (bogota_time s)" by simp
  also have "\<dots> < bogota_instant (bogota_date s + 1) c"
    using bogota_time_bounds(2) [of s] assms(3) [OF c] by (simp add: bogota_instant_def algebra_simps)
  finally show ?thesis using t by auto
qed

section \<open>The window's verdict\<close>

text \<open>What an accepted window guarantees.\<close>

lemma validate_booking_window_NoneD:
  assumes "validate_booking_window starts_at ends_at st today p clock = Inr None"
  shows "\<exists>s o1 e o2. starts_at = Aware s o1 \<and> ends_at = Aware e o2 \<and> s < e \<and>
    (\<exists>latest. parse_hhmm (st_booking_latest_start st) = Some latest \<and> bogota_time s \<le> latest) \<and>
    (case p of Some q \<Rightarrow> pl_weekend_only q \<longrightarrow> weekday (bogota_date s) \<in> {5, 6} | None \<Rightarrow> True) \<and>
    (case p of Some q \<Rightarrow> pl_overnight q \<longrightarrow> booking_ends_at q (Aware s bogota_offset) = Inr (Aware e bogota_offset)
     | None \<Rightarrow> True) \<and>
    (\<not> (case p of Some q \<Rightarrow> pl_overnight q | None \<Rightarrow> False) \<longrightarrow> e \<le> bogota_instant (bogota_date s + 1) 0) \<and>
    (case today of Some t \<Rightarrow> t | None \<Rightarrow> bogota_date clock) + st_booking_min_lead_days st \<le> bogota_date s"
proof (cases starts_at)
  case (Naive l)
  with assms show ?thesis by (simp add: validate_booking_window_def)
next
  case s: (Aware s o1)
  show ?thesis
  proof (cases ends_at)
    case (Naive l)
    with assms s show ?thesis by (simp add: validate_booking_window_def)
  next
    case e: (Aware e o2)
    have hours: "window_hours s st p = Inr None" and fin: "window_end s e st p = Inr None"
      and rest: "s < e" "case p of Some q \<Rightarrow> pl_weekend_only q \<longrightarrow> weekday (bogota_date s) \<in> {5, 6} | None \<Rightarrow> True"
      "(case today of Some t \<Rightarrow> t | None \<Rightarrow> bogota_date clock) + st_booking_min_lead_days st \<le> bogota_date s"
      using assms unfolding s e validate_booking_window_def
      by (auto simp: ebind_Inr_iff split: if_splits option.splits)
    from hours have "\<exists>latest. parse_hhmm (st_booking_latest_start st) = Some latest \<and> bogota_time s \<le> latest"
      by (auto simp: window_hours_def ebind_Inr_iff parse_clock_def split: if_splits option.splits)
    moreover from fin have "(case p of Some q \<Rightarrow> pl_overnight q \<longrightarrow>
        booking_ends_at q (Aware s bogota_offset) = Inr (Aware e bogota_offset) | None \<Rightarrow> True) \<and>
      (\<not> (case p of Some q \<Rightarrow> pl_overnight q | None \<Rightarrow> False) \<longrightarrow> e \<le> bogota_instant (bogota_date s + 1) 0)"
      by (auto simp: window_end_def Let_def ebind_Inr_iff split: if_splits option.splits)
    ultimately show ?thesis using rest s e by blast
  qed
qed

section \<open>Properties\<close>

text \<open>The verdict on an interval is exact: available means that no calendar event that overlaps it names
  the exclusivity keyword, and no confirmed reservation that overlaps it has a conflicting plan.\<close>

theorem availability_exact:
  assumes "evaluate_booking_availability u p s e evs rs keyword = Inr a"
  shows "ba_available a \<longleftrightarrow>
     (\<forall>ev \<in> set evs. \<not> (overlaps s e (ce_start ev) (ce_end ev) \<and>
        is_infix (normalized u keyword) (normalized u (ce_summary ev @ '' '' @
          (case ce_description ev of None \<Rightarrow> [] | Some t \<Rightarrow> t))))) \<and>
     (\<forall>(r, q) \<in> set rs. \<not> (rv_status r = RV_RESERVED \<and>
        overlaps s e (rv_starts_at r) (rv_ends_at r) \<and> plans_conflict p q))"
proof -
  let ?cal = "calendar_blockers u (normalized u keyword) s e evs"
  let ?res = "concat (map (reservation_blocker p s e) rs)"
  have a: "ba_available a \<longleftrightarrow> ?cal = [] \<and> ?res = []"
    using assms by (auto simp: evaluate_booking_availability_def Let_def split: if_splits)
  have "?cal = [] \<longleftrightarrow> (\<forall>ev \<in> set evs. \<not> (overlaps s e (ce_start ev) (ce_end ev) \<and>
        is_infix (normalized u keyword) (normalized u (ce_summary ev @ '' '' @
          (case ce_description ev of None \<Rightarrow> [] | Some t \<Rightarrow> t)))))"
    by (auto simp: calendar_blockers_def filter_empty_conv)
  then show ?thesis unfolding a blockers_Nil_iff by blast
qed

lemma availability_exact_witness:
  "\<exists>a. evaluate_booking_availability ascii_ucd sample_plan 0 10 [] [(sample_reservation, sample_plan)] ''exclusividad'' = Inr a \<and>
     ba_available a"
proof -
  have k: "normalized ascii_ucd ''exclusividad'' \<noteq> []"
    by (simp add: normalized_def ascii_ucd_def ascii_eval utf8_encode_def utf8_encode1_def strip_def strip_cps_def)
  obtain a where a: "evaluate_booking_availability ascii_ucd sample_plan 0 10 []
      [(sample_reservation, sample_plan)] ''exclusividad'' = Inr a"
    using evaluate_booking_total [OF k] by blast
  from availability_exact [OF a] a show ?thesis by (simp add: sample_reservation_def)
qed

text \<open>An accepted window is honoured: it starts no later than the latest start, respects the lead time
  and the weekend rule, an overnight stay ends exactly at its checkout, and any other booking ends by
  midnight of its own day.\<close>

theorem booking_window_sound:
  assumes "validate_booking_window starts_at ends_at st today p clock = Inr None"
  shows "\<exists>s o1 e o2. starts_at = Aware s o1 \<and> ends_at = Aware e o2 \<and> s < e \<and>
    (\<exists>latest. parse_hhmm (st_booking_latest_start st) = Some latest \<and> bogota_time s \<le> latest) \<and>
    (case p of Some q \<Rightarrow> pl_weekend_only q \<longrightarrow> weekday (bogota_date s) \<in> {5, 6} | None \<Rightarrow> True) \<and>
    (case p of Some q \<Rightarrow> pl_overnight q \<longrightarrow> booking_ends_at q (Aware s bogota_offset) = Inr (Aware e bogota_offset)
     | None \<Rightarrow> True) \<and>
    (\<not> (case p of Some q \<Rightarrow> pl_overnight q | None \<Rightarrow> False) \<longrightarrow> e \<le> bogota_instant (bogota_date s + 1) 0) \<and>
    (case today of Some t \<Rightarrow> t | None \<Rightarrow> bogota_date clock) + st_booking_min_lead_days st \<le> bogota_date s"
  by (rule validate_booking_window_NoneD [OF assms])

lemma booking_window_sound_witness:
  "\<exists>latest. parse_hhmm (st_booking_latest_start sample_settings) = Some latest \<and> bogota_time sample_start \<le> latest"
proof -
  have "validate_booking_window (Aware sample_start 0) (Aware (sample_start + minutes 180) 0) sample_settings
      None (Some sample_plan) sample_now = Inr None"
    by (simp add: validate_booking_window_def sample_rows sample_start_def sample_now_def window_hours_def
        window_end_def parse_clock_def parse_hhmm_def is_digit_def digit_val_def minutes_def us_defs at_hour_def
        bogota_date_def bogota_time_def bogota_instant_def)
  from booking_window_sound [OF this] show ?thesis by auto
qed

text \<open>A booking of a plan that satisfies its CHECK constraints ends strictly after it starts.\<close>

theorem booking_ends_after_start:
  assumes "plan_ck p" and "booking_ends_at p (Aware s off) = Inr t"
    and "\<And>c. pl_checkout_time p = Some c \<Longrightarrow> 0 \<le> c"
  shows "\<exists>e. t = Aware e off \<and> s < e"
  using assms by (rule booking_ends_after)

lemma booking_ends_after_start_witness:
  "\<exists>e. booking_ends_at sample_overnight (Aware sample_start 0) = Inr (Aware e 0) \<and> sample_start < e"
proof -
  have ck: "plan_ck sample_overnight" by (simp add: plan_ck_def sample_rows)
  obtain t where t: "booking_ends_at sample_overnight (Aware sample_start 0) = Inr t"
    by (simp add: booking_ends_at_def sample_rows)
  from booking_ends_after_start [OF ck t] t show ?thesis by (auto simp: sample_rows at_hour_def us_defs)
qed

end
