(* ===== verification/Booking_Requests.thy ===== *)
theory Booking_Requests
  imports Booking_Availability Notification_Service
begin

text \<open>
  \<open>app/reservation/booking.py\<close>: the pending booking request a customer makes, and the link of a
  received payment receipt to the customer's booking. Neither holds a slot nor approves a payment.
\<close>

section \<open>A pending request\<close>

definition event_date_value :: "event_row \<Rightarrow> json" where
  "event_date_value e = JObj
     [(''event_id'', JStr (uuid_str (ev_id e))),
      (''event_date'', opt_json (\<lambda>d. JStr (date_iso d)) (ev_event_date e)),
      (''event_date_type'', opt_json JStr (ev_event_date_type e)),
      (''event_month'', opt_json JStr (ev_event_month e)),
      (''event_date_raw'', opt_json JStr (ev_event_date_raw e))]"

definition new_reservation ::
  "uuid \<Rightarrow> uuid \<Rightarrow> event_row \<Rightarrow> plan \<Rightarrow> conversation option \<Rightarrow> customer \<Rightarrow> instant \<Rightarrow> instant
     \<Rightarrow> instant \<Rightarrow> reservation"
where
  "new_reservation k lead_id e p c cu starts_at ends_at clock =
     \<lparr>rv_id = k, rv_lead_id = lead_id, rv_event_id = ev_id e, rv_plan_id = pl_id p,
      rv_conversation_id = map_option cv_id c, rv_customer_id = cu_id cu,
      rv_status = RV_PAYMENT_PENDING, rv_starts_at = starts_at, rv_ends_at = ends_at,
      rv_price_cop = pl_price_cop p, rv_amount_paid_cop = 0, rv_payment_kind = None,
      rv_balance_due_at = None, rv_balance_overdue_at = None, rv_hold_expires_at = None,
      rv_external_calendar_id = None, rv_calendar_status = CAL_NONE, rv_created_at = clock\<rparr>"

text \<open>The event takes the plan and the exact local date; the raw text goes when the date changes.\<close>

definition capture_date :: "plan \<Rightarrow> date \<Rightarrow> event_row \<Rightarrow> event_row" where
  "capture_date p local_date e =
     (let date_changed = ev_event_date e \<noteq> Some local_date \<or> ev_event_date_type e \<noteq> Some ''EXACT'';
          e1 = e\<lparr>ev_plan_id := Some (pl_id p), ev_event_date := Some local_date,
                 ev_event_date_type := Some ''EXACT'', ev_event_month := None\<rparr>
      in if date_changed then e1\<lparr>ev_event_date_raw := None\<rparr> else e1)"

text \<open>The two audit records of a request; the first only when the event's date changes.\<close>

definition request_audit ::
  "event_row \<Rightarrow> event_row \<Rightarrow> plan \<Rightarrow> reservation \<Rightarrow> string \<Rightarrow> string option \<Rightarrow> db \<Rightarrow> db" where
  "request_audit e e' p r actor request_id d =
     (let date_changed = (ev_event_date e \<noteq> ev_event_date e' \<or> ev_event_date_type e \<noteq> Some ''EXACT'');
          d1 = (if date_changed
                then audit actor ''EVENT_DATE_CAPTURED'' ''event'' (Some (event_date_value e))
                       (Some (event_date_value e')) ''Fecha seleccionada para solicitud de reserva''
                       request_id d
                else d)
      in audit actor ''RESERVATION_CREATED'' ''reservation'' None
           (Some (JObj [(''reservation_id'', JStr (uuid_str (rv_id r))), (''plan_code'', JStr (pl_code p)),
              (''starts_at'', JStr (instant_iso (rv_starts_at r))),
              (''ends_at'', JStr (instant_iso (rv_ends_at r))),
              (''checkout'', if pl_overnight p then JStr (instant_iso (rv_ends_at r)) else JNull),
              (''price_cop'', JInt (pl_price_cop p))]))
           ''Solicitud pendiente de pago; sin bloqueo de disponibilidad'' request_id d1)"

definition create_pending_reservation ::
  "uuid \<Rightarrow> event_row \<Rightarrow> plan \<Rightarrow> conversation option \<Rightarrow> customer \<Rightarrow> datetime \<Rightarrow> string
     \<Rightarrow> string option \<Rightarrow> settings \<Rightarrow> db \<Rightarrow> (app_error, reservation \<times> event_row \<times> db) result"
where
  "create_pending_reservation lead_id e p c cu starts_at actor request_id st d =
     ebind (guard (pl_active p) (InvalidBookingPlan (''El plan est'' @ a_acute @ '' inactivo.''))) (\<lambda>_.
     ebind (guard (Some (pl_event_type p) = ev_event_type e)
              (InvalidBookingPlan ''El plan no corresponde al tipo de evento.'')) (\<lambda>_.
     case starts_at of
       Naive _ \<Rightarrow> Inl (ValueError ''La fecha requiere zona horaria.'')
     | Aware start _ \<Rightarrow>
     ebind (guard (\<not> blank actor) (ValueError ''El actor es obligatorio.'')) (\<lambda>_.
     (case uuid4 d of (k, d1) \<Rightarrow>
     ebind (booking_ends_at p (Aware start 0)) (\<lambda>t.
       let ends_at = (case t of Aware i _ \<Rightarrow> i | Naive l \<Rightarrow> l);
           r = new_reservation k lead_id e p c cu start ends_at (db_clock d1);
           e' = capture_date p (bogota_date start) e;
           d2 = put_event e' (d1\<lparr>db_reservations := db_reservations d1 @ [r]\<rparr>);
           d4 = request_audit e e' p r actor request_id d2
       in ebind (guard (reservation_ck r) IntegrityError) (\<lambda>_.
          ebind (enqueue_for_reservation r ''PAYMENT_PENDING_CREATED'' ''reservation'' (uuid_str k)
                   st request_id d4) (\<lambda>d5. Inr (r, e', d5))))))))"

section \<open>The booking a payment belongs to\<close>

definition payable :: "instant \<Rightarrow> int \<Rightarrow> reservation \<Rightarrow> bool" where
  "payable now customer_id r \<longleftrightarrow> rv_customer_id r = customer_id \<and> rv_starts_at r > now \<and>
     (rv_status r \<in> {RV_PAYMENT_REVIEW, RV_PAYMENT_PENDING} \<or>
      (rv_status r = RV_RESERVED \<and> rv_amount_paid_cop r < rv_price_cop r))"

fun payment_rank :: "reservation_status \<Rightarrow> nat" where
  "payment_rank RV_PAYMENT_REVIEW = 0"
| "payment_rank RV_PAYMENT_PENDING = 1"
| "payment_rank RV_RESERVED = 2"
| "payment_rank _ = 3"

definition payment_before :: "reservation \<Rightarrow> reservation \<Rightarrow> bool" where
  "payment_before a b \<longleftrightarrow> payment_rank (rv_status a) < payment_rank (rv_status b) \<or>
     (payment_rank (rv_status a) = payment_rank (rv_status b) \<and>
        (rv_created_at a > rv_created_at b \<or>
         (rv_created_at a = rv_created_at b \<and> rv_id a > rv_id b)))"

definition payment_reservation_candidate :: "int \<Rightarrow> instant \<Rightarrow> db \<Rightarrow> reservation option" where
  "payment_reservation_candidate customer_id now d =
     first_by payment_before (filter (payable now customer_id) (db_reservations d))"

section \<open>Linking a receipt\<close>

definition link_audit :: "evidence \<Rightarrow> reservation \<Rightarrow> string option \<Rightarrow> db \<Rightarrow> db" where
  "link_audit e r request_id d =
     audit ''SYSTEM'' ''PAYMENT_EVIDENCE_LINKED'' ''payment_evidence''
       (Some (JObj [(''evidence_id'', JInt (pe_id e)), (''reservation_id'', JNull)]))
       (Some (JObj [(''evidence_id'', JInt (pe_id e)), (''reservation_id'', JStr (uuid_str (rv_id r))),
          (''customer_id'', JInt (pe_customer_id e)),
          (''reservation_status'', JStr (reservation_status_str (rv_status r)))]))
       ''Comprobante vinculado a la reserva futura del cliente'' request_id d"

definition attach_payment_evidence ::
  "evidence \<Rightarrow> string option \<Rightarrow> settings \<Rightarrow> db
     \<Rightarrow> (app_error, reservation option \<times> evidence \<times> db) result"
where
  "attach_payment_evidence e request_id st d =
     (if pe_reservation_id e \<noteq> None then Inr (None, e, d)
      else case payment_reservation_candidate (pe_customer_id e) (db_clock d) d of
        None \<Rightarrow> Inr (None, e, d)
      | Some r \<Rightarrow>
          let e' = e\<lparr>pe_reservation_id := Some (rv_id r)\<rparr>; d1 = put_evidence e' d in
          ebind (if rv_status r = RV_PAYMENT_PENDING
                 then transition_reservation r RV_PAYMENT_REVIEW ''SYSTEM'' ''Comprobante recibido'' request_id d1
                 else Inr (r, d1)) (\<lambda>(r', d2).
          ebind (enqueue_for_reservation r' ''EVIDENCE_RECEIVED'' ''payment_evidence''
                   (show_int (pe_id e)) st request_id (link_audit e r' request_id d2)) (\<lambda>d3.
            Inr (Some r', e', d3))))"

section \<open>Facts\<close>

lemma payment_before_order:
  "payment_before x y \<Longrightarrow> payment_before y z \<Longrightarrow> payment_before x z"
  "\<not> payment_before x y \<Longrightarrow> \<not> payment_before y z \<Longrightarrow> \<not> payment_before x z"
  "\<not> payment_before x x"
  unfolding payment_before_def by (smt (verit) less_trans linorder_neqE order.asym)+

lemma candidate_SomeD:
  assumes "payment_reservation_candidate k now d = Some r"
  shows "r \<in> set (db_reservations d) \<and> payable now k r \<and>
     (\<forall>s \<in> set (db_reservations d). payable now k s \<longrightarrow> \<not> payment_before s r)"
proof -
  note f = assms [unfolded payment_reservation_candidate_def]
  have "\<not> payment_before s r" if "s \<in> set (db_reservations d)" "payable now k s" for s
    by (rule first_by_least [of payment_before, OF payment_before_order f]) (use that in simp_all)
  with first_by_SomeD [OF f] show ?thesis by simp
qed

lemma not_blank_reasons [simp]:
  "\<not> blank ''SYSTEM''" "\<not> blank ''Comprobante recibido''"
  by (simp_all add: not_blank_ascii is_space_def)

lemma capture_date_simps [simp]:
  "ev_id (capture_date p t e) = ev_id e" "ev_event_date (capture_date p t e) = Some t"
  "ev_event_date_type (capture_date p t e) = Some ''EXACT''"
  "ev_event_month (capture_date p t e) = None" "ev_plan_id (capture_date p t e) = Some (pl_id p)"
  by (simp_all add: capture_date_def Let_def)

lemma new_reservation_simps [simp]:
  "rv_id (new_reservation k l e p c cu s t now) = k"
  "rv_status (new_reservation k l e p c cu s t now) = RV_PAYMENT_PENDING"
  "rv_amount_paid_cop (new_reservation k l e p c cu s t now) = 0"
  "rv_price_cop (new_reservation k l e p c cu s t now) = pl_price_cop p"
  "rv_plan_id (new_reservation k l e p c cu s t now) = pl_id p"
  "rv_starts_at (new_reservation k l e p c cu s t now) = s"
  "rv_ends_at (new_reservation k l e p c cu s t now) = t"
  "rv_customer_id (new_reservation k l e p c cu s t now) = cu_id cu"
  "rv_hold_expires_at (new_reservation k l e p c cu s t now) = None"
  "rv_calendar_status (new_reservation k l e p c cu s t now) = CAL_NONE"
  by (simp_all add: new_reservation_def)

lemma request_audit_frame [simp]:
  "db_reservations (request_audit e e' p r actor req d) = db_reservations d"
  "db_evidence (request_audit e e' p r actor req d) = db_evidence d"
  "db_plans (request_audit e e' p r actor req d) = db_plans d"
  "db_clock (request_audit e e' p r actor req d) = db_clock d"
  "audit_extends d0 d \<Longrightarrow> audit_extends d0 (request_audit e e' p r actor req d)"
  by (simp_all add: request_audit_def Let_def)

lemma link_audit_frame [simp]:
  "db_reservations (link_audit e r req d) = db_reservations d"
  "db_evidence (link_audit e r req d) = db_evidence d"
  "db_plans (link_audit e r req d) = db_plans d"
  "db_clock (link_audit e r req d) = db_clock d"
  "audit_extends d0 d \<Longrightarrow> audit_extends d0 (link_audit e r req d)"
  by (simp_all add: link_audit_def)

lemma booking_ends_at_utc: "booking_ends_at p (Aware i 0) = Inr t \<Longrightarrow> \<exists>e. t = Aware e 0"
  by (auto simp: booking_ends_at_def datetime_add_def split: if_splits option.splits)

text \<open>What a successful request is: unpaid, pending, of the plan's price, at the asked instant.\<close>

lemma create_pending_reservation_InrD:
  assumes "create_pending_reservation lead_id e p c cu s actor req st d = Inr (r, e', d')"
  shows "\<exists>i off ends. s = Aware i off \<and>
      booking_ends_at p (Aware i 0) = Inr (Aware ends 0) \<and>
      r = new_reservation (db_entropy d (db_draws d)) lead_id e p c cu i ends (db_clock d) \<and>
      e' = capture_date p (bogota_date i) e \<and> reservation_ck r \<and>
      pl_active p \<and> ev_event_type e = Some (pl_event_type p) \<and>
      db_reservations d' = db_reservations d @ [r] \<and> db_evidence d' = db_evidence d \<and>
      db_plans d' = db_plans d \<and> audit_extends d d'"
proof (cases s)
  case (Naive l)
  with assms show ?thesis by (simp add: create_pending_reservation_def ebind_Inr_iff)
next
  case (Aware i off)
  from assms obtain t where t: "booking_ends_at p (Aware i 0) = Inr t"
    by (auto simp: create_pending_reservation_def ebind_Inr_iff Aware uuid4_def)
  with booking_ends_at_utc obtain ends where ends: "t = Aware ends 0" by blast
  let ?r = "new_reservation (db_entropy d (db_draws d)) lead_id e p c cu i ends (db_clock d)"
  let ?e = "capture_date p (bogota_date i) e"
  let ?d1 = "d\<lparr>db_draws := Suc (db_draws d)\<rparr>"
  let ?d2 = "put_event ?e (?d1\<lparr>db_reservations := db_reservations ?d1 @ [?r]\<rparr>)"
  let ?d4 = "request_audit e ?e p ?r actor req ?d2"
  have d2: "audit_extends d ?d2" by (simp add: audit_extends_def)
  from assms have facts: "r = ?r" "e' = ?e" "reservation_ck ?r" "pl_active p"
      "ev_event_type e = Some (pl_event_type p)"
      "enqueue_for_reservation ?r ''PAYMENT_PENDING_CREATED'' ''reservation''
         (uuid_str (db_entropy d (db_draws d))) st req ?d4 = Inr d'"
    by (auto simp: create_pending_reservation_def ebind_Inr_iff Aware uuid4_def Let_def t ends)
  note frame = enqueue_for_reservation_frame [OF facts(6)]
  have "audit_extends d d'" by (rule audit_extends_trans [of d ?d4]) (use d2 frame in simp_all)
  with frame facts t ends show ?thesis unfolding Aware by auto
qed

lemma attach_payment_evidence_InrD:
  assumes "attach_payment_evidence e req st d = Inr (Some r, e', d')"
  shows "\<exists>r0. pe_reservation_id e = None \<and>
      payment_reservation_candidate (pe_customer_id e) (db_clock d) d = Some r0 \<and>
      e' = e\<lparr>pe_reservation_id := Some (rv_id r0)\<rparr> \<and>
      r = r0\<lparr>rv_status := (if rv_status r0 = RV_PAYMENT_PENDING then RV_PAYMENT_REVIEW else rv_status r0)\<rparr> \<and>
      db_evidence d' = put_row pe_id e' (db_evidence d) \<and>
      db_reservations d' = (if rv_status r0 = RV_PAYMENT_PENDING
         then put_row rv_id r (db_reservations d) else db_reservations d) \<and>
      db_plans d' = db_plans d \<and> audit_extends d d'"
proof -
  have free: "pe_reservation_id e = None"
    using assms by (cases "pe_reservation_id e") (simp_all add: attach_payment_evidence_def)
  obtain r0 where cand: "payment_reservation_candidate (pe_customer_id e) (db_clock d) d = Some r0"
    using assms free
    by (cases "payment_reservation_candidate (pe_customer_id e) (db_clock d) d")
       (simp_all add: attach_payment_evidence_def)
  let ?e = "e\<lparr>pe_reservation_id := Some (rv_id r0)\<rparr>"
  let ?step = "if rv_status r0 = RV_PAYMENT_PENDING
      then transition_reservation r0 RV_PAYMENT_REVIEW ''SYSTEM'' ''Comprobante recibido'' req (put_evidence ?e d)
      else Inr (r0, put_evidence ?e d)"
  obtain r1 d2 where step1: "?step = Inr (r1, d2)"
    using assms free cand by (cases ?step) (auto simp: attach_payment_evidence_def Let_def)
  with assms free cand have "r1 = r \<and> e' = ?e \<and>
      enqueue_for_reservation r ''EVIDENCE_RECEIVED'' ''payment_evidence''
        (show_int (pe_id e)) st req (link_audit e r req d2) = Inr d'"
    by (simp only: attach_payment_evidence_def Let_def option.case simp_thms if_False if_True
        ebind_simps prod.case not_None_eq) (auto simp: ebind_Inr_iff)
  then have r1: "r1 = r" and e': "e' = ?e"
    and notice: "enqueue_for_reservation r ''EVIDENCE_RECEIVED'' ''payment_evidence''
         (show_int (pe_id e)) st req (link_audit e r req d2) = Inr d'"
    by blast+
  have step: "(if rv_status r0 = RV_PAYMENT_PENDING
         then transition_reservation r0 RV_PAYMENT_REVIEW ''SYSTEM'' ''Comprobante recibido'' req (put_evidence e' d)
         else Inr (r0, put_evidence e' d)) = Inr (r, d2)"
    using step1 unfolding r1 e' .
  have ext: "audit_extends d (put_evidence e' d)" by (simp add: audit_extends_def)
  have "db_evidence d2 = put_row pe_id e' (db_evidence d) \<and>
      db_reservations d2 = (if rv_status r0 = RV_PAYMENT_PENDING
         then put_row rv_id r (db_reservations d) else db_reservations d) \<and>
      db_plans d2 = db_plans d \<and>
      audit_extends d d2 \<and>
      r = r0\<lparr>rv_status := (if rv_status r0 = RV_PAYMENT_PENDING then RV_PAYMENT_REVIEW else rv_status r0)\<rparr>"
  proof (cases "rv_status r0 = RV_PAYMENT_PENDING")
    case True
    with step have "transition_reservation r0 RV_PAYMENT_REVIEW ''SYSTEM'' ''Comprobante recibido'' req
        (put_evidence e' d) = Inr (r, d2)" by simp
    from transition_reservation_InrD [OF this] audit_extends_trans [OF ext] True show ?thesis by auto
  next
    case False
    with step ext show ?thesis by auto
  qed
  then have d2: "db_evidence d2 = put_row pe_id e' (db_evidence d)"
      "db_reservations d2 = (if rv_status r0 = RV_PAYMENT_PENDING
         then put_row rv_id r (db_reservations d) else db_reservations d)"
      "db_plans d2 = db_plans d"
      "audit_extends d d2"
      "r = r0\<lparr>rv_status := (if rv_status r0 = RV_PAYMENT_PENDING then RV_PAYMENT_REVIEW else rv_status r0)\<rparr>"
    by blast+
  note frame = enqueue_for_reservation_frame [OF notice]
  have "audit_extends d d'"
    by (rule audit_extends_trans [of d "link_audit e r req d2"]) (use d2 frame in simp_all)
  with frame d2(1-3) show ?thesis
    by (intro exI [of _ r0] conjI free cand e' d2(5)) simp_all
qed

section \<open>Properties\<close>

text \<open>A successful booking request is an unpaid, pending reservation of the plan's price whose interval is
  the plan's, together with the exact local date on the event; it adds that one reservation and leaves
  every other one (hence every confirmed slot), every receipt and every plan as they were.\<close>

theorem booking_request_effect:
  assumes "create_pending_reservation lead_id e p c cu s actor req st d = Inr (r, e', d')"
  shows "\<exists>i off ends. s = Aware i off \<and> booking_ends_at p (Aware i 0) = Inr (Aware ends 0) \<and>
    rv_status r = RV_PAYMENT_PENDING \<and> rv_amount_paid_cop r = 0 \<and> rv_price_cop r = pl_price_cop p \<and>
    rv_starts_at r = i \<and> rv_ends_at r = ends \<and> i < ends \<and> pl_active p \<and>
    ev_event_type e = Some (pl_event_type p) \<and> ev_event_date e' = Some (bogota_date i) \<and>
    ev_event_date_type e' = Some ''EXACT'' \<and> ev_plan_id e' = Some (pl_id p) \<and>
    db_reservations d' = db_reservations d @ [r] \<and> db_evidence d' = db_evidence d \<and>
    db_plans d' = db_plans d \<and> audit_extends d d'"
proof -
  from create_pending_reservation_InrD [OF assms] obtain i off ends where
    "s = Aware i off" "booking_ends_at p (Aware i 0) = Inr (Aware ends 0)"
    "r = new_reservation (db_entropy d (db_draws d)) lead_id e p c cu i ends (db_clock d)"
    "e' = capture_date p (bogota_date i) e" "reservation_ck r" "pl_active p"
    "ev_event_type e = Some (pl_event_type p)" "db_reservations d' = db_reservations d @ [r]"
    "db_evidence d' = db_evidence d" "db_plans d' = db_plans d" "audit_extends d d'"
    by blast
  then show ?thesis by (auto simp: reservation_ck_def)
qed

lemma booking_request_effect_witness:
  "\<exists>r e' d'. create_pending_reservation 41 sample_event sample_plan None sample_customer (Aware sample_start 0)
     ''SYSTEM'' None (sample_settings\<lparr>st_staff_notifications_enabled := False\<rparr>) sample_db = Inr (r, e', d') \<and>
     rv_status r = RV_PAYMENT_PENDING"
proof -
  have "\<exists>r e' d'. create_pending_reservation 41 sample_event sample_plan None sample_customer (Aware sample_start 0)
     ''SYSTEM'' None (sample_settings\<lparr>st_staff_notifications_enabled := False\<rparr>) sample_db = Inr (r, e', d')"
    by (simp add: create_pending_reservation_def sample_plan_def sample_event_def booking_ends_at_def
        datetime_add_def uuid4_def Let_def enqueue_for_reservation_def reservation_ck_def minutes_def us_defs)
  then obtain r e' d' where run: "create_pending_reservation 41 sample_event sample_plan None sample_customer
     (Aware sample_start 0) ''SYSTEM'' None (sample_settings\<lparr>st_staff_notifications_enabled := False\<rparr>) sample_db
     = Inr (r, e', d')" by blast
  from booking_request_effect [OF run] run show ?thesis by blast
qed

text \<open>A receipt is linked to the customer's best candidate: a future booking still to be paid, and among
  those none in review is passed over for one pending, nor a newer one for an older one of the same
  status; the link moves a pending booking to review and never confirms it.\<close>

theorem receipt_link_choice:
  assumes "attach_payment_evidence e req st d = Inr (Some r, e', d')"
  shows "\<exists>r0 \<in> set (db_reservations d). pe_reservation_id e = None \<and> pe_reservation_id e' = Some (rv_id r0) \<and>
    payable (db_clock d) (pe_customer_id e) r0 \<and>
    (\<forall>s \<in> set (db_reservations d). payable (db_clock d) (pe_customer_id e) s \<longrightarrow> \<not> payment_before s r0) \<and>
    rv_id r = rv_id r0 \<and> rv_amount_paid_cop r = rv_amount_paid_cop r0 \<and>
    rv_status r = (if rv_status r0 = RV_PAYMENT_PENDING then RV_PAYMENT_REVIEW else rv_status r0)"
proof -
  from attach_payment_evidence_InrD [OF assms] obtain r0 where
    "pe_reservation_id e = None"
    and cand: "payment_reservation_candidate (pe_customer_id e) (db_clock d) d = Some r0"
    and "e' = e\<lparr>pe_reservation_id := Some (rv_id r0)\<rparr>"
    and "r = r0\<lparr>rv_status := (if rv_status r0 = RV_PAYMENT_PENDING then RV_PAYMENT_REVIEW else rv_status r0)\<rparr>"
    by blast
  with candidate_SomeD [OF cand] show ?thesis by (intro bexI [of _ r0]) auto
qed

lemma receipt_link_choice_witness:
  "\<exists>r e' d'. attach_payment_evidence (sample_evidence\<lparr>pe_reservation_id := None\<rparr>) None
      (sample_settings\<lparr>st_staff_notifications_enabled := False\<rparr>) sample_db = Inr (Some r, e', d') \<and>
      rv_status r \<noteq> RV_RESERVED"
proof -
  have c: "payment_reservation_candidate 1 sample_now sample_db = Some sample_reservation"
    by (simp add: payment_reservation_candidate_def payable_def sample_reservation_def sample_start_def
        sample_now_def bogota_instant_def at_hour_def us_defs)
  have "\<exists>r e' d'. attach_payment_evidence (sample_evidence\<lparr>pe_reservation_id := None\<rparr>) None
      (sample_settings\<lparr>st_staff_notifications_enabled := False\<rparr>) sample_db = Inr (Some r, e', d')"
    using c by (simp add: attach_payment_evidence_def sample_evidence_def sample_reservation_def Let_def
        enqueue_for_reservation_def)
  then obtain r e' d' where run: "attach_payment_evidence (sample_evidence\<lparr>pe_reservation_id := None\<rparr>) None
      (sample_settings\<lparr>st_staff_notifications_enabled := False\<rparr>) sample_db = Inr (Some r, e', d')" by blast
  from receipt_link_choice [OF run] run show ?thesis by (auto simp: sample_reservation_def)
qed

end
