(* ===== verification/Calendar.thy ===== *)
theory Calendar
  imports Booking_Availability
begin

text \<open>
  \<open>app/calendar/adapter.py\<close>: the interface of the external calendar, the fake adapter that
  implements it in memory, and the contract its clients rely on. A calendar is a state \<open>'c\<close> of its
  own, outside the database and its transactions; an operation that raises
  CalendarUnavailableError may or may not have taken effect.
\<close>

record busy_interval =
  bi_start :: instant
  bi_end :: instant
  bi_offset :: int  \<comment> \<open>the UTC offset of the zone the start carries\<close>

definition intersects :: "busy_interval \<Rightarrow> instant \<Rightarrow> instant \<Rightarrow> bool" where
  "intersects b start finish \<longleftrightarrow> bi_start b < finish \<and> start < bi_end b"

record event_ref =
  xr_event_id :: string
  xr_summary :: string
  xr_start :: instant
  xr_end :: instant
  xr_description :: "string option"

section \<open>The protocol\<close>

record 'c calendar =
  cal_list_events :: "instant \<Rightarrow> instant \<Rightarrow> string list \<Rightarrow> 'c \<Rightarrow> (app_error, calendar_event list) result \<times> 'c"
  cal_get_busy_intervals :: "date \<Rightarrow> string list \<Rightarrow> 'c \<Rightarrow> (app_error, busy_interval list) result \<times> 'c"
  cal_create_event :: "string \<Rightarrow> string \<Rightarrow> instant \<Rightarrow> instant \<Rightarrow> string option \<Rightarrow> 'c
                         \<Rightarrow> (app_error, event_ref) result \<times> 'c"
  cal_update_event :: "string \<Rightarrow> string \<Rightarrow> instant \<Rightarrow> instant \<Rightarrow> string option \<Rightarrow> 'c
                         \<Rightarrow> (app_error, event_ref) result \<times> 'c"
  cal_delete_event :: "string \<Rightarrow> 'c \<Rightarrow> (app_error, unit) result \<times> 'c"
  cal_get_event :: "string \<Rightarrow> 'c \<Rightarrow> (app_error, event_ref) result \<times> 'c"

definition event_ref_of :: "string \<Rightarrow> string \<Rightarrow> instant \<Rightarrow> instant \<Rightarrow> string option \<Rightarrow> event_ref" where
  "event_ref_of k summary start finish description =
     \<lparr>xr_event_id = k, xr_summary = summary, xr_start = start, xr_end = finish, xr_description = description\<rparr>"

section \<open>The contract\<close>

locale calendar_adapter =
  fixes cal :: "'c calendar"
    and events :: "'c \<Rightarrow> string \<Rightarrow> event_ref option"
  assumes create_ok: "cal_create_event cal k s a b t c = (Inr x, c') \<Longrightarrow>
      events c k = None \<and> events c' = (events c)(k \<mapsto> event_ref_of k s a b t)"
    and create_exists: "cal_create_event cal k s a b t c = (Inl AlreadyExistsError, c') \<Longrightarrow>
      events c k \<noteq> None \<and> events c' = events c"
    and create_down: "cal_create_event cal k s a b t c = (Inl CalendarUnavailableError, c') \<Longrightarrow>
      events c' = events c \<or> events c' = (events c)(k \<mapsto> event_ref_of k s a b t)"
    and create_errors: "cal_create_event cal k s a b t c = (Inl e, c') \<Longrightarrow>
      e = AlreadyExistsError \<or> e = CalendarUnavailableError"
    and update_ok: "cal_update_event cal k s a b t c = (Inr x, c') \<Longrightarrow>
      events c k \<noteq> None \<and> events c' = (events c)(k \<mapsto> event_ref_of k s a b t)"
    and update_missing: "cal_update_event cal k s a b t c = (Inl EventNotFoundError, c') \<Longrightarrow>
      events c k = None \<and> events c' = events c"
    and update_errors: "cal_update_event cal k s a b t c = (Inl e, c') \<Longrightarrow>
      e = EventNotFoundError \<or> e = CalendarUnavailableError"
    and delete_ok: "cal_delete_event cal k c = (Inr u, c') \<Longrightarrow>
      events c k \<noteq> None \<and> events c' = (events c)(k := None)"
    and delete_missing: "cal_delete_event cal k c = (Inl EventNotFoundError, c') \<Longrightarrow>
      events c k = None \<and> events c' = events c"
    and delete_errors: "cal_delete_event cal k c = (Inl e, c') \<Longrightarrow>
      e = EventNotFoundError \<or> e = CalendarUnavailableError"
    and get_ok: "cal_get_event cal k c = (Inr x, c') \<Longrightarrow> events c k = Some x \<and> events c' = events c"
    and get_missing: "cal_get_event cal k c = (Inl EventNotFoundError, c') \<Longrightarrow>
      events c k = None \<and> events c' = events c"
    and get_errors: "cal_get_event cal k c = (Inl e, c') \<Longrightarrow>
      e = EventNotFoundError \<or> e = CalendarUnavailableError"

section \<open>The fake adapter\<close>

record fake_calendar =
  fc_busy_by_calendar :: "(string \<times> busy_interval list) list"
  fc_raise_on :: "string list"
  fc_timeout_after_create :: bool
  fc_fail_update_once :: bool
  fc_events :: "(string \<times> event_ref) list"
  fc_listed_events :: "calendar_event list"
  fc_created_event_ids :: "string list"
  fc_updated_event_ids :: "string list"
  fc_deleted_event_ids :: "string list"
  fc_queried_calendar_ids :: "string list list"
  fc_create_call_count :: nat
  fc_update_call_count :: nat
  fc_delete_call_count :: nat
  fc_query_call_count :: nat

definition fake_init ::
  "(string \<times> busy_interval list) list \<Rightarrow> string list \<Rightarrow> bool \<Rightarrow> bool \<Rightarrow> fake_calendar" where
  "fake_init busy raise_on timeout_after_create fail_update_once =
     \<lparr>fc_busy_by_calendar = busy, fc_raise_on = raise_on,
      fc_timeout_after_create = timeout_after_create, fc_fail_update_once = fail_update_once,
      fc_events = [], fc_listed_events = [], fc_created_event_ids = [], fc_updated_event_ids = [],
      fc_deleted_event_ids = [], fc_queried_calendar_ids = [], fc_create_call_count = 0,
      fc_update_call_count = 0, fc_delete_call_count = 0, fc_query_call_count = 0\<rparr>"

text \<open>\<open>u\<close> is the identifier \<open>uuid4()\<close> draws.\<close>

definition fake_add_event ::
  "uuid \<Rightarrow> string \<Rightarrow> string \<Rightarrow> instant \<Rightarrow> instant \<Rightarrow> string option \<Rightarrow> fake_calendar
     \<Rightarrow> calendar_event \<times> fake_calendar" where
  "fake_add_event u calendar_id summary start finish description c =
     (let e = \<lparr>ce_event_id = uuid_hex u, ce_calendar_id = calendar_id, ce_summary = summary,
               ce_description = description, ce_start = start, ce_end = finish\<rparr>
      in (e, c\<lparr>fc_listed_events := fc_listed_events c @ [e]\<rparr>))"

text \<open>Comparison of strings: UTF-8 bytes compare as code points do.\<close>

fun str_less :: "string \<Rightarrow> string \<Rightarrow> bool" where
  "str_less [] ys = (ys \<noteq> [])"
| "str_less (x # xs) [] = False"
| "str_less (x # xs) (y # ys) =
     ((of_char x :: nat) < of_char y \<or> (x = y \<and> str_less xs ys))"

definition listed_before :: "calendar_event \<Rightarrow> calendar_event \<Rightarrow> bool" where
  "listed_before a b \<longleftrightarrow> ce_start a < ce_start b \<or> (ce_start a = ce_start b \<and>
     (str_less (ce_calendar_id a) (ce_calendar_id b) \<or>
      (ce_calendar_id a = ce_calendar_id b \<and> str_less (ce_event_id a) (ce_event_id b))))"

definition fake_list_events ::
  "instant \<Rightarrow> instant \<Rightarrow> string list \<Rightarrow> fake_calendar \<Rightarrow> (app_error, calendar_event list) result \<times> fake_calendar" where
  "fake_list_events start finish calendar_ids c =
     (if ''list_events'' \<in> set (fc_raise_on c) \<or> ''query'' \<in> set (fc_raise_on c)
      then (Inl CalendarUnavailableError, c)
      else (Inr (order_by listed_before (filter (\<lambda>e. ce_calendar_id e \<in> set calendar_ids \<and>
              ce_start e < finish \<and> start < ce_end e) (fc_listed_events c))), c))"

definition fake_add_busy :: "string \<Rightarrow> busy_interval \<Rightarrow> fake_calendar \<Rightarrow> fake_calendar" where
  "fake_add_busy calendar_id b c =
     c\<lparr>fc_busy_by_calendar := AList.update calendar_id
        ((case map_of (fc_busy_by_calendar c) calendar_id of None \<Rightarrow> [] | Some bs \<Rightarrow> bs) @ [b])
        (fc_busy_by_calendar c)\<rparr>"

text \<open>\<open>datetime.combine(target_date, time.min/max, tzinfo)\<close> in the zone of the interval's start.\<close>

definition interval_touches_date :: "busy_interval \<Rightarrow> date \<Rightarrow> bool" where
  "interval_touches_date b target_date =
     (let midnight = (target_date - 1) * us_day - bi_offset b
      in intersects b midnight (midnight + us_day - 1))"

definition fake_get_busy_intervals ::
  "date \<Rightarrow> string list \<Rightarrow> fake_calendar \<Rightarrow> (app_error, busy_interval list) result \<times> fake_calendar" where
  "fake_get_busy_intervals target_date calendar_ids c0 =
     (let c = c0\<lparr>fc_query_call_count := fc_query_call_count c0 + 1,
                 fc_queried_calendar_ids := fc_queried_calendar_ids c0 @ [calendar_ids]\<rparr>
      in if ''query'' \<in> set (fc_raise_on c) then (Inl CalendarUnavailableError, c)
         else (Inr (concat (map (\<lambda>k. filter (\<lambda>b. interval_touches_date b target_date)
                 (case map_of (fc_busy_by_calendar c) k of None \<Rightarrow> [] | Some bs \<Rightarrow> bs)) calendar_ids)), c))"

definition fake_create_event ::
  "string \<Rightarrow> string \<Rightarrow> instant \<Rightarrow> instant \<Rightarrow> string option \<Rightarrow> fake_calendar
     \<Rightarrow> (app_error, event_ref) result \<times> fake_calendar" where
  "fake_create_event k summary start finish description c0 =
     (let c = c0\<lparr>fc_create_call_count := fc_create_call_count c0 + 1\<rparr>
      in if map_of (fc_events c) k \<noteq> None then (Inl AlreadyExistsError, c)
         else if ''create'' \<in> set (fc_raise_on c) then (Inl CalendarUnavailableError, c)
         else let e = event_ref_of k summary start finish description;
                  c1 = c\<lparr>fc_events := AList.update k e (fc_events c),
                         fc_created_event_ids := fc_created_event_ids c @ [k]\<rparr>
              in if fc_timeout_after_create c1
                 then (Inl CalendarUnavailableError, c1\<lparr>fc_timeout_after_create := False\<rparr>)
                 else (Inr e, c1))"

definition fake_update_event ::
  "string \<Rightarrow> string \<Rightarrow> instant \<Rightarrow> instant \<Rightarrow> string option \<Rightarrow> fake_calendar
     \<Rightarrow> (app_error, event_ref) result \<times> fake_calendar" where
  "fake_update_event k summary start finish description c0 =
     (let c = c0\<lparr>fc_update_call_count := fc_update_call_count c0 + 1\<rparr>
      in if fc_fail_update_once c then (Inl CalendarUnavailableError, c\<lparr>fc_fail_update_once := False\<rparr>)
         else if ''update'' \<in> set (fc_raise_on c) then (Inl CalendarUnavailableError, c)
         else if map_of (fc_events c) k = None then (Inl EventNotFoundError, c)
         else let e = event_ref_of k summary start finish description
              in (Inr e, c\<lparr>fc_events := AList.update k e (fc_events c),
                           fc_updated_event_ids := fc_updated_event_ids c @ [k]\<rparr>))"

definition fake_delete_event :: "string \<Rightarrow> fake_calendar \<Rightarrow> (app_error, unit) result \<times> fake_calendar" where
  "fake_delete_event k c0 =
     (let c = c0\<lparr>fc_delete_call_count := fc_delete_call_count c0 + 1\<rparr>
      in if ''delete'' \<in> set (fc_raise_on c) then (Inl CalendarUnavailableError, c)
         else if map_of (fc_events c) k = None then (Inl EventNotFoundError, c)
         else (Inr (), c\<lparr>fc_events := AList.delete k (fc_events c),
                         fc_deleted_event_ids := fc_deleted_event_ids c @ [k]\<rparr>))"

definition fake_get_event :: "string \<Rightarrow> fake_calendar \<Rightarrow> (app_error, event_ref) result \<times> fake_calendar" where
  "fake_get_event k c =
     (if ''get'' \<in> set (fc_raise_on c) then (Inl CalendarUnavailableError, c)
      else case map_of (fc_events c) k of None \<Rightarrow> (Inl EventNotFoundError, c) | Some e \<Rightarrow> (Inr e, c))"

definition fake_calendar_adapter :: "fake_calendar calendar" where
  "fake_calendar_adapter = \<lparr>cal_list_events = fake_list_events,
     cal_get_busy_intervals = fake_get_busy_intervals, cal_create_event = fake_create_event,
     cal_update_event = fake_update_event, cal_delete_event = fake_delete_event,
     cal_get_event = fake_get_event\<rparr>"

definition fake_events :: "fake_calendar \<Rightarrow> string \<Rightarrow> event_ref option" where
  "fake_events c = map_of (fc_events c)"

interpretation fake: calendar_adapter fake_calendar_adapter fake_events
  by unfold_locales
     (auto simp: fake_calendar_adapter_def fake_events_def fake_create_event_def fake_update_event_def
        fake_delete_event_def fake_get_event_def Let_def update_conv' delete_conv'
        split: if_splits option.splits)

end
