(* ===== verification/Settlement.thy ===== *)
theory Settlement
  imports Booking_Requests Calendar
begin

text \<open>
  \<open>app/reservation/settlement.py\<close>: a person accepts or rejects a payment receipt in one local
  transaction; the external calendar is synchronized afterwards, and old unpaid requests expire.
\<close>

section \<open>The audit of a decision\<close>

definition payment_audit ::
  "evidence \<Rightarrow> string \<Rightarrow> string option \<Rightarrow> string option \<Rightarrow> int option \<Rightarrow> evidence_review option \<Rightarrow> db \<Rightarrow> db"
where
  "payment_audit e actor note request_id amount_cop review d =
     (let proposal = (case review of None \<Rightarrow> []
          | Some v \<Rightarrow> [(''review_id'', JStr (uuid_str (er_id v))),
                       (''suggested_amount_cop'', opt_json JInt (er_suggested_amount_cop v)),
                       (''amount_differs_from_suggestion'', JBool (amount_cop \<noteq> er_suggested_amount_cop v))]);
          accepted = (pe_review_status e = RW_ACCEPTED);
          noted = (case note of None \<Rightarrow> False | Some n \<Rightarrow> n \<noteq> []);
          text = (case note of None \<Rightarrow> [] | Some n \<Rightarrow> n);
          base = (if accepted then (if review \<noteq> None then ''aceptado con propuesta de IA'' else ''aceptado manual'')
                  else if noted then text else ''Comprobante rechazado por asesor'');
          reason = (if noted \<and> accepted then cp_take 255 (base @ '': '' @ text) else base)
      in audit actor (''PAYMENT_EVIDENCE_'' @ review_status_str (pe_review_status e)) ''payment_evidence''
           (Some (JObj [(''evidence_id'', JInt (pe_id e)), (''review_status'', JStr ''PENDING_REVIEW'')]))
           (Some (JObj ([(''evidence_id'', JInt (pe_id e)),
                         (''review_status'', JStr (review_status_str (pe_review_status e))),
                         (''amount_cop'', opt_json JInt amount_cop), (''note'', opt_json JStr note)] @ proposal)))
           reason request_id d)"

section \<open>Acceptance\<close>

datatype settlement_kind = SK_RESERVED | SK_PARTIAL | SK_CONFLICT | SK_NO_RESERVATION
  | SK_BALANCE_PAID | SK_BALANCE_PARTIAL

fun settlement_kind_str :: "settlement_kind \<Rightarrow> string" where
  "settlement_kind_str SK_RESERVED = ''RESERVED''"
| "settlement_kind_str SK_PARTIAL = ''PARTIAL''"
| "settlement_kind_str SK_CONFLICT = ''CONFLICT''"
| "settlement_kind_str SK_NO_RESERVATION = ''NO_RESERVATION''"
| "settlement_kind_str SK_BALANCE_PAID = ''BALANCE_PAID''"
| "settlement_kind_str SK_BALANCE_PARTIAL = ''BALANCE_PARTIAL''"

record settlement_result =
  sr_kind :: settlement_kind
  sr_reservation :: "reservation option"
  sr_missing_cop :: int
  sr_blockers :: "blocker list"

definition has_pending_payment_evidence :: "uuid \<Rightarrow> db \<Rightarrow> bool" where
  "has_pending_payment_evidence k d \<longleftrightarrow>
     list_ex (\<lambda>e. pe_reservation_id e = Some k \<and> pe_review_status e = RW_PENDING_REVIEW) (db_evidence d)"

text \<open>\<open>note or text\<close>.\<close>

definition note_or :: "string option \<Rightarrow> string \<Rightarrow> string" where
  "note_or note t = (case note of None \<Rightarrow> t | Some n \<Rightarrow> if n = [] then t else n)"

definition paid_value :: "reservation \<Rightarrow> int \<Rightarrow> (string \<times> json) list" where
  "paid_value r amount = [(''reservation_id'', JStr (uuid_str (rv_id r))), (''amount_paid_cop'', JInt amount)]"

definition blocker_json :: "blocker \<Rightarrow> json" where
  "blocker_json b = (case b of BookingBlocker k ref \<Rightarrow>
     JObj [(''kind'', JStr (blocker_kind_str k)), (''ref'', JStr ref)])"

text \<open>The guards, up to the locked reservation.\<close>

definition accept_guards ::
  "evidence \<Rightarrow> int \<Rightarrow> string \<Rightarrow> evidence_review option \<Rightarrow> db \<Rightarrow> (app_error, reservation option) result"
where
  "accept_guards e amount_cop actor review d =
     ebind (guard (0 < amount_cop) (ValueError ''El monto debe ser un entero positivo.'')) (\<lambda>_.
     ebind (guard (\<not> blank actor) (ValueError ''El actor es obligatorio.'')) (\<lambda>_.
     ebind (guard (pe_review_status e = RW_PENDING_REVIEW)
              (ValueError ''El comprobante ya fue revisado.'')) (\<lambda>_.
     ebind (guard (pe_download_status e \<noteq> DL_FAILED_PERMANENT)
              (ValueError (''La descarga del comprobante fall'' @ o_acute @ ''. Solicita una nueva imagen.''))) (\<lambda>_.
     ebind (guard (case review of None \<Rightarrow> True
                   | Some v \<Rightarrow> er_evidence_id v = pe_id e \<and> er_status v = AT_COMPLETED)
              (ValueError ''La propuesta no corresponde a este comprobante.'')) (\<lambda>_.
     case pe_reservation_id e of
       None \<Rightarrow> Inr None
     | Some k \<Rightarrow>
         (case get_row rv_id k (db_reservations d) of
            None \<Rightarrow> Inl (ValueError (''La reserva no est'' @ a_acute @ '' pendiente de revisi'' @ o_acute @ ''n de pago.''))
          | Some r \<Rightarrow>
              if rv_status r \<notin> {RV_PAYMENT_REVIEW, RV_PAYMENT_PENDING, RV_RESERVED}
              then Inl (ValueError (''La reserva no est'' @ a_acute @ '' pendiente de revisi'' @ o_acute @ ''n de pago.''))
              else Inr (Some r)))))))"

definition accepted_row :: "evidence \<Rightarrow> int \<Rightarrow> string option \<Rightarrow> instant \<Rightarrow> evidence" where
  "accepted_row e amount_cop note now = e\<lparr>pe_review_status := RW_ACCEPTED, pe_amount_cop := Some amount_cop,
     pe_reviewed_at := Some now, pe_review_note := note\<rparr>"

text \<open>A payment of the balance of a confirmed booking.\<close>

definition settle_balance ::
  "reservation \<Rightarrow> int \<Rightarrow> string \<Rightarrow> string option \<Rightarrow> string option \<Rightarrow> db \<Rightarrow> settlement_result \<times> db"
where
  "settle_balance r amount_cop actor note request_id d =
     (let old_paid = rv_amount_paid_cop r;
          r1 = r\<lparr>rv_amount_paid_cop := old_paid + amount_cop\<rparr>;
          missing = max 0 (rv_price_cop r1 - rv_amount_paid_cop r1);
          r2 = (if missing = 0
                then r1\<lparr>rv_payment_kind := Some PK_FULL, rv_balance_due_at := None, rv_balance_overdue_at := None\<rparr>
                else r1);
          d1 = audit actor ''RESERVATION_BALANCE_PAYMENT'' ''reservation''
                 (Some (JObj (paid_value r2 old_paid)))
                 (Some (JObj (paid_value r2 (rv_amount_paid_cop r2) @
                    [(''missing_cop'', JInt missing),
                     (''payment_kind'', opt_json (\<lambda>k. JStr (payment_kind_str k)) (rv_payment_kind r2))])))
                 (note_or note (''Aceptaci'' @ o_acute @ ''n humana de pago de saldo''))
                 request_id (put_reservation r2 d)
      in (\<lparr>sr_kind = (if missing \<noteq> 0 then SK_BALANCE_PARTIAL else SK_BALANCE_PAID),
           sr_reservation = Some r2, sr_missing_cop = missing, sr_blockers = []\<rparr>, d1))"

text \<open>\<open>r\<close> is in review and the deposit is complete: the last look at the local calendar.\<close>

definition local_blockers :: "ucd \<Rightarrow> settings \<Rightarrow> reservation \<Rightarrow> db \<Rightarrow> (app_error, blocker list) result" where
  "local_blockers u st r d =
     (case get_row pl_id (rv_plan_id r) (db_plans d) of
        None \<Rightarrow> Inl (OtherError ''AttributeError'')
      | Some p \<Rightarrow>
          ebind (evaluate_booking_availability u p (rv_starts_at r) (rv_ends_at r) []
                   (concat (map (plan_of d) (reserved_between d (rv_starts_at r) (rv_ends_at r))))
                   (st_booking_exclusivity_keyword st)) (\<lambda>a. Inr (ba_blockers a)))"

definition confirm_reservation ::
  "reservation \<Rightarrow> string \<Rightarrow> string option \<Rightarrow> db \<Rightarrow> (app_error, reservation \<times> db) result" where
  "confirm_reservation r actor request_id d =
     ebind (transition_reservation r RV_RESERVED actor ''Pago humano aceptado; anticipo completo'' request_id d) (\<lambda>(r1, d1).
       let full = (rv_amount_paid_cop r1 \<ge> rv_price_cop r1);
           r2 = r1\<lparr>rv_payment_kind := Some (if full then PK_FULL else PK_DEPOSIT),
                   rv_balance_due_at := (if full then None else Some (rv_starts_at r1 - days 1))\<rparr>
       in Inr (r2, put_reservation r2 d1))"

definition payment_settled_audit ::
  "settlement_kind \<Rightarrow> reservation \<Rightarrow> int \<Rightarrow> int \<Rightarrow> blocker list \<Rightarrow> string \<Rightarrow> string option \<Rightarrow> string option
     \<Rightarrow> db \<Rightarrow> db" where
  "payment_settled_audit kind r old_paid missing blockers actor note request_id d =
     audit actor (''RESERVATION_PAYMENT_'' @ settlement_kind_str kind) ''reservation''
       (Some (JObj (paid_value r old_paid)))
       (Some (JObj (paid_value r (rv_amount_paid_cop r) @
          [(''missing_cop'', JInt missing), (''blockers'', JList (map blocker_json blockers))])))
       (note_or note (''Aceptaci'' @ o_acute @ ''n humana de comprobante'')) request_id d"

text \<open>A payment towards the deposit: still short of it, or covering it.\<close>

definition settle_partial ::
  "reservation \<Rightarrow> int \<Rightarrow> int \<Rightarrow> string \<Rightarrow> string option \<Rightarrow> string option \<Rightarrow> db
     \<Rightarrow> (app_error, settlement_result \<times> db) result"
where
  "settle_partial r old_paid missing actor note request_id d =
     ebind (if \<not> has_pending_payment_evidence (rv_id r) d
            then transition_reservation r RV_PAYMENT_PENDING actor ''Abono parcial registrado'' request_id d
            else Inr (r, d)) (\<lambda>(r1, d1).
       Inr (\<lparr>sr_kind = SK_PARTIAL, sr_reservation = Some r1, sr_missing_cop = missing, sr_blockers = []\<rparr>,
            payment_settled_audit SK_PARTIAL r1 old_paid missing [] actor note request_id d1))"

definition settle_covered ::
  "ucd \<Rightarrow> settings \<Rightarrow> reservation \<Rightarrow> int \<Rightarrow> string \<Rightarrow> string option \<Rightarrow> string option \<Rightarrow> blocker list \<Rightarrow> db
     \<Rightarrow> (app_error, settlement_result \<times> db) result"
where
  "settle_covered u st r old_paid actor note request_id calendar_blks d =
     ebind (local_blockers u st r d) (\<lambda>local.
       let blockers = local @ calendar_blks in
       if blockers \<noteq> [] then
         Inr (\<lparr>sr_kind = SK_CONFLICT, sr_reservation = Some r, sr_missing_cop = 0, sr_blockers = blockers\<rparr>,
              payment_settled_audit SK_CONFLICT r old_paid 0 blockers actor note request_id d)
       else
         ebind (confirm_reservation r actor request_id d) (\<lambda>(r1, d1).
           Inr (\<lparr>sr_kind = SK_RESERVED, sr_reservation = Some r1, sr_missing_cop = 0, sr_blockers = []\<rparr>,
                payment_settled_audit SK_RESERVED r1 old_paid 0 [] actor note request_id d1)))"

definition enter_review ::
  "reservation \<Rightarrow> string \<Rightarrow> string option \<Rightarrow> db \<Rightarrow> (app_error, reservation \<times> db) result" where
  "enter_review r actor request_id d =
     (if rv_status r = RV_PAYMENT_PENDING
      then transition_reservation r RV_PAYMENT_REVIEW actor
             (''Liquidaci'' @ o_acute @ ''n humana de comprobante vinculado'') request_id d
      else Inr (r, d))"

definition settle_deposit ::
  "ucd \<Rightarrow> settings \<Rightarrow> reservation \<Rightarrow> int \<Rightarrow> string \<Rightarrow> string option \<Rightarrow> string option \<Rightarrow> blocker list \<Rightarrow> db
     \<Rightarrow> (app_error, settlement_result \<times> db) result"
where
  "settle_deposit u st r amount_cop actor note request_id calendar_blks d =
     (let old_paid = rv_amount_paid_cop r; r1 = r\<lparr>rv_amount_paid_cop := old_paid + amount_cop\<rparr> in
      ebind (enter_review r1 actor request_id (put_reservation r1 d)) (\<lambda>(r2, d2).
      ebind (deposit_amount st (rv_price_cop r2)) (\<lambda>deposit.
        let missing = max 0 (deposit - rv_amount_paid_cop r2)
        in if missing \<noteq> 0 then settle_partial r2 old_paid missing actor note request_id d2
           else settle_covered u st r2 old_paid actor note request_id calendar_blks d2)))"

definition accept_payment ::
  "ucd \<Rightarrow> settings \<Rightarrow> evidence \<Rightarrow> int \<Rightarrow> string \<Rightarrow> string option \<Rightarrow> string option \<Rightarrow> blocker list
     \<Rightarrow> evidence_review option \<Rightarrow> db \<Rightarrow> (app_error, settlement_result \<times> evidence \<times> db) result"
where
  "accept_payment u st e amount_cop actor note request_id calendar_blks review d =
     ebind (accept_guards e amount_cop actor review d) (\<lambda>reservation.
     let e' = accepted_row e amount_cop note (db_clock d);
         d1 = payment_audit e' actor note request_id (Some amount_cop) review (put_evidence e' d) in
     case reservation of
       None \<Rightarrow> Inr (\<lparr>sr_kind = SK_NO_RESERVATION, sr_reservation = None, sr_missing_cop = 0,
                     sr_blockers = []\<rparr>, e', d1)
     | Some r \<Rightarrow>
         if rv_status r = RV_RESERVED
         then (case settle_balance r amount_cop actor note request_id d1 of (res, d2) \<Rightarrow> Inr (res, e', d2))
         else ebind (settle_deposit u st r amount_cop actor note request_id calendar_blks d1) (\<lambda>(res, d2).
                Inr (res, e', d2)))"

section \<open>Rejection\<close>

definition rejected_row :: "evidence \<Rightarrow> string \<Rightarrow> instant \<Rightarrow> evidence" where
  "rejected_row e note now = e\<lparr>pe_review_status := RW_REJECTED, pe_reviewed_at := Some now,
     pe_review_note := Some note\<rparr>"

definition reject_payment ::
  "evidence \<Rightarrow> string \<Rightarrow> string \<Rightarrow> string option \<Rightarrow> db
     \<Rightarrow> (app_error, reservation option \<times> evidence \<times> db) result"
where
  "reject_payment e actor note request_id d =
     ebind (guard (\<not> (blank actor \<or> blank note)) (ValueError ''El actor y el motivo son obligatorios.'')) (\<lambda>_.
     ebind (guard (pe_review_status e = RW_PENDING_REVIEW) (ValueError ''El comprobante ya fue revisado.'')) (\<lambda>_.
     let e' = rejected_row e note (db_clock d);
         d1 = payment_audit e' actor (Some note) request_id None None (put_evidence e' d) in
     case pe_reservation_id e of
       None \<Rightarrow> Inr (None, e', d1)
     | Some k \<Rightarrow>
         (case get_row rv_id k (db_reservations d1) of
            None \<Rightarrow> Inr (None, e', d1)
          | Some r \<Rightarrow>
              if rv_status r = RV_PAYMENT_REVIEW \<and> \<not> has_pending_payment_evidence (rv_id r) d1
              then ebind (transition_reservation r RV_PAYMENT_PENDING actor note request_id d1) (\<lambda>(r', d2).
                     Inr (Some r', e', d2))
              else Inr (Some r, e', d1))))"

end
