(* ===== verification/Settlement_Facts.thy ===== *)
theory Settlement_Facts
  imports Settlement
begin

text \<open>
  What the settlement of payments preserves: the ledger (a booking's paid amount is the sum of its
  accepted receipts), the deposit of every confirmed booking, and the absence of double bookings.
\<close>

section \<open>One booking is written\<close>

text \<open>From \<open>d\<close> to \<open>d'\<close> the reservation \<open>r\<close> was written, audit records were added, and nothing else.\<close>

definition wrote :: "db \<Rightarrow> reservation \<Rightarrow> db \<Rightarrow> bool" where
  "wrote d r d' \<longleftrightarrow> db_reservations d' = put_row rv_id r (db_reservations d) \<and>
     db_evidence d' = db_evidence d \<and> db_plans d' = db_plans d \<and> db_clock d' = db_clock d \<and>
     audit_extends d d'"

lemma wrote_put: "wrote d r (put_reservation r d)"
  by (simp add: wrote_def audit_extends_def)

lemma wrote_put_again: "wrote d r d' \<Longrightarrow> rv_id r' = rv_id r \<Longrightarrow> wrote d r' (put_reservation r' d')"
  by (auto simp: wrote_def audit_extends_def)

lemma wrote_audit: "wrote d r d' \<Longrightarrow> wrote d r (audit a b c e f g h d')"
  by (simp add: wrote_def)

lemma wrote_transition:
  "wrote d r d' \<Longrightarrow> transition_reservation r t a n q d' = Inr (r', d'') \<Longrightarrow> wrote d r' d''"
  by (drule transition_reservation_InrD) (auto simp: wrote_def intro: audit_extends_trans)

lemma wrote_if_transition:
  "wrote d r d' \<Longrightarrow> (if b then transition_reservation r t a n q d' else Inr (r, d')) = Inr (r', d'') \<Longrightarrow>
     wrote d r' d'' \<and> r' = (if b then r\<lparr>rv_status := t\<rparr> else r)"
  by (cases b) (auto intro: wrote_transition dest: transition_reservation_InrD)

text \<open>The terms of a booking, which no payment changes.\<close>

definition same_terms :: "reservation \<Rightarrow> reservation \<Rightarrow> bool" where
  "same_terms a b \<longleftrightarrow> rv_id a = rv_id b \<and> rv_plan_id a = rv_plan_id b \<and> rv_price_cop a = rv_price_cop b \<and>
     rv_starts_at a = rv_starts_at b \<and> rv_ends_at a = rv_ends_at b \<and> rv_customer_id a = rv_customer_id b"

lemma same_terms_refl [simp]: "same_terms r r"
  "same_terms r (r\<lparr>rv_status := s\<rparr>) " "same_terms r (r\<lparr>rv_amount_paid_cop := a\<rparr>)"
  by (simp_all add: same_terms_def)

section \<open>The balance of a confirmed booking\<close>

lemma settle_balance_D:
  "settle_balance r a actor note req d = (res, d') \<Longrightarrow>
     \<exists>r'. sr_reservation res = Some r' \<and> wrote d r' d' \<and> same_terms r r' \<and>
       rv_status r' = rv_status r \<and> rv_amount_paid_cop r' = rv_amount_paid_cop r + a \<and>
       sr_missing_cop res = max 0 (rv_price_cop r - rv_amount_paid_cop r') \<and>
       (sr_kind res = SK_BALANCE_PAID \<longleftrightarrow> rv_price_cop r \<le> rv_amount_paid_cop r') \<and>
       (sr_kind res \<in> {SK_BALANCE_PAID, SK_BALANCE_PARTIAL})"
  by (auto simp: settle_balance_def Let_def same_terms_def intro!: wrote_audit wrote_put split: if_splits)

section \<open>The deposit\<close>

text \<open>The slot of \<open>r\<close> is free of every confirmed booking whose plan conflicts with its own.\<close>

definition slot_free :: "db \<Rightarrow> reservation \<Rightarrow> bool" where
  "slot_free d r \<longleftrightarrow> (\<forall>s \<in> set (db_reservations d). \<forall>p q.
     rv_status s = RV_RESERVED \<and> overlaps (rv_starts_at r) (rv_ends_at r) (rv_starts_at s) (rv_ends_at s) \<and>
     get_row pl_id (rv_plan_id r) (db_plans d) = Some p \<and>
     get_row pl_id (rv_plan_id s) (db_plans d) = Some q \<longrightarrow> \<not> plans_conflict p q)"

lemma local_blockers_Nil:
  assumes "local_blockers u st r d = Inr []"
  shows "slot_free d r"
proof -
  from assms obtain p a where p: "get_row pl_id (rv_plan_id r) (db_plans d) = Some p"
    and a: "evaluate_booking_availability u p (rv_starts_at r) (rv_ends_at r) []
       (concat (map (plan_of d) (reserved_between d (rv_starts_at r) (rv_ends_at r))))
       (st_booking_exclusivity_keyword st) = Inr a" "ba_blockers a = []"
    by (auto simp: local_blockers_def ebind_Inr_iff split: option.splits)
  note free = evaluate_booking_InrD [OF a(1)]
  show ?thesis
    unfolding slot_free_def
  proof (intro ballI allI impI)
    fix s p' q
    assume s: "s \<in> set (db_reservations d)"
      and h: "rv_status s = RV_RESERVED \<and> overlaps (rv_starts_at r) (rv_ends_at r) (rv_starts_at s) (rv_ends_at s) \<and>
        get_row pl_id (rv_plan_id r) (db_plans d) = Some p' \<and>
        get_row pl_id (rv_plan_id s) (db_plans d) = Some q"
    have "(s, q) \<in> set (concat (map (plan_of d) (reserved_between d (rv_starts_at r) (rv_ends_at r))))"
      using s h by (auto simp: reserved_between_def overlaps_def plan_of_def intro!: bexI [of _ s])
    with free a(2) h p show "\<not> plans_conflict p' q" by auto
  qed
qed

lemma confirm_reservation_D:
  "confirm_reservation r actor req d = Inr (r', d') \<Longrightarrow> wrote d0 r d \<Longrightarrow>
     wrote d0 r' d' \<and> same_terms r r' \<and> rv_status r' = RV_RESERVED \<and>
     rv_amount_paid_cop r' = rv_amount_paid_cop r"
  by (auto simp: confirm_reservation_def ebind_Inr_iff Let_def same_terms_def
      dest: wrote_transition transition_reservation_InrD intro!: wrote_put_again)

text \<open>How a payment towards the deposit ends.\<close>

definition deposit_outcome :: "settings \<Rightarrow> db \<Rightarrow> settlement_result \<Rightarrow> reservation \<Rightarrow> bool" where
  "deposit_outcome st d res r' \<longleftrightarrow>
     (\<exists>a. deposit_amount st (rv_price_cop r') = Inr a \<and>
        sr_missing_cop res = max 0 (a - rv_amount_paid_cop r') \<and>
        (sr_kind res = SK_RESERVED \<and> a \<le> rv_amount_paid_cop r' \<and> rv_status r' = RV_RESERVED \<and>
            sr_blockers res = [] \<and> slot_free d r' \<or>
         sr_kind res = SK_PARTIAL \<and> rv_amount_paid_cop r' < a \<and>
            rv_status r' \<in> {RV_PAYMENT_PENDING, RV_PAYMENT_REVIEW} \<or>
         sr_kind res = SK_CONFLICT \<and> a \<le> rv_amount_paid_cop r' \<and> sr_blockers res \<noteq> [] \<and>
            rv_status r' \<notin> {RV_RESERVED, RV_PAYMENT_PENDING}))"

lemma slot_free_wrote:
  assumes "wrote d r d'" and "slot_free d' x" and "rv_status r \<noteq> RV_RESERVED" and "rv_id r \<in> rv_id ` set (db_reservations d)"
    and "\<forall>s \<in> set (db_reservations d). rv_id s = rv_id r \<longrightarrow> rv_status s \<noteq> RV_RESERVED"
  shows "slot_free d x"
  using assms unfolding slot_free_def wrote_def by (auto simp: set_put_row split: if_splits)

lemma same_terms_trans: "same_terms a b \<Longrightarrow> same_terms b c \<Longrightarrow> same_terms a c"
  by (simp add: same_terms_def)

lemma slot_free_terms: "same_terms r r' \<Longrightarrow> slot_free d r \<Longrightarrow> slot_free d r'"
  by (simp add: same_terms_def slot_free_def)

lemma payment_settled_wrote:
  "wrote d r d' \<Longrightarrow> wrote d r (payment_settled_audit k r0 old m bs actor note req d')"
  by (simp add: payment_settled_audit_def wrote_audit)

lemma settle_partial_D:
  assumes "settle_partial r old m actor note req d = Inr (res, d')" and "wrote d0 r d"
  shows "\<exists>r'. sr_reservation res = Some r' \<and> sr_kind res = SK_PARTIAL \<and> sr_missing_cop res = m \<and>
     wrote d0 r' d' \<and> same_terms r r' \<and> rv_amount_paid_cop r' = rv_amount_paid_cop r \<and>
     rv_status r' \<in> {RV_PAYMENT_PENDING, rv_status r}"
proof -
  from assms(1) obtain r1 d1 where
    step: "(if \<not> has_pending_payment_evidence (rv_id r) d
       then transition_reservation r RV_PAYMENT_PENDING actor ''Abono parcial registrado'' req d
       else Inr (r, d)) = Inr (r1, d1)"
    and res: "res = \<lparr>sr_kind = SK_PARTIAL, sr_reservation = Some r1, sr_missing_cop = m, sr_blockers = []\<rparr>"
    and d': "d' = payment_settled_audit SK_PARTIAL r1 old m [] actor note req d1"
    by (auto simp: settle_partial_def ebind_Inr_iff)
  from wrote_if_transition [OF assms(2) step] have w: "wrote d0 r1 d1"
    and r1: "r1 = (if \<not> has_pending_payment_evidence (rv_id r) d then r\<lparr>rv_status := RV_PAYMENT_PENDING\<rparr> else r)"
    by blast+
  then show ?thesis using payment_settled_wrote [OF w] by (auto simp: res d')
qed

lemma settle_covered_D:
  assumes "settle_covered u st r old actor note req blks d = Inr (res, d')" and w: "wrote d0 r d"
  shows "\<exists>r'. sr_reservation res = Some r' \<and> sr_missing_cop res = 0 \<and>
     wrote d0 r' d' \<and> same_terms r r' \<and> rv_amount_paid_cop r' = rv_amount_paid_cop r \<and>
     (sr_kind res = SK_RESERVED \<and> rv_status r' = RV_RESERVED \<and> sr_blockers res = [] \<and> slot_free d r' \<or>
      sr_kind res = SK_CONFLICT \<and> rv_status r' = rv_status r \<and> sr_blockers res \<noteq> [])"
proof -
  from assms(1) obtain l where l: "local_blockers u st r d = Inr l"
    by (auto simp: settle_covered_def ebind_Inr_iff)
  show ?thesis
  proof (cases "l @ blks = []")
    case True
    with assms(1) l obtain r1 d1 where c: "confirm_reservation r actor req d = Inr (r1, d1)"
      and res: "res = \<lparr>sr_kind = SK_RESERVED, sr_reservation = Some r1, sr_missing_cop = 0, sr_blockers = []\<rparr>"
      and d': "d' = payment_settled_audit SK_RESERVED r1 old 0 [] actor note req d1"
      by (auto simp: settle_covered_def Let_def ebind_Inr_iff)
    note r1 = confirm_reservation_D [OF c w]
    have "slot_free d r" using local_blockers_Nil l True by auto
    then have "slot_free d r1" using r1 slot_free_terms by blast
    with r1 show ?thesis using payment_settled_wrote by (auto simp: res d')
  next
    case False
    with assms(1) l have "res = \<lparr>sr_kind = SK_CONFLICT, sr_reservation = Some r, sr_missing_cop = 0,
        sr_blockers = l @ blks\<rparr>" "d' = payment_settled_audit SK_CONFLICT r old 0 (l @ blks) actor note req d"
      by (auto simp: settle_covered_def Let_def)
    with False show ?thesis using payment_settled_wrote [OF w] by auto
  qed
qed

lemma enter_review_D:
  "enter_review r actor req d = Inr (r', d') \<Longrightarrow> wrote d0 r d \<Longrightarrow>
     rv_status r \<in> {RV_PAYMENT_PENDING, RV_PAYMENT_REVIEW} \<Longrightarrow>
     wrote d0 r' d' \<and> r' = r\<lparr>rv_status := RV_PAYMENT_REVIEW\<rparr>"
  unfolding enter_review_def by (drule wrote_if_transition [rotated], assumption) auto

lemma slot_free_written:
  assumes w: "wrote d x d'" and free: "slot_free d' y" and r: "r \<in> set (db_reservations d)"
    and keys: "keys_ok rv_id (db_reservations d)" and x: "rv_id x = rv_id r"
    and st: "rv_status x \<noteq> RV_RESERVED" "rv_status r \<noteq> RV_RESERVED"
  shows "slot_free d y"
proof (rule slot_free_wrote [OF w free st(1)])
  show "rv_id x \<in> rv_id ` set (db_reservations d)" using r x by auto
  show "\<forall>s\<in>set (db_reservations d). rv_id s = rv_id x \<longrightarrow> rv_status s \<noteq> RV_RESERVED"
  proof (intro ballI impI)
    fix s
    assume "s \<in> set (db_reservations d)" and "rv_id s = rv_id x"
    with r x keys have "s = r" by (auto simp: keys_ok_def distinct_map inj_on_def)
    with st show "rv_status s \<noteq> RV_RESERVED" by simp
  qed
qed

lemma settle_deposit_D:
  assumes run: "settle_deposit u st r a actor note req blks d = Inr (res, d')"
    and r: "r \<in> set (db_reservations d)" and keys: "keys_ok rv_id (db_reservations d)"
    and pending: "rv_status r \<in> {RV_PAYMENT_PENDING, RV_PAYMENT_REVIEW}"
  shows "\<exists>r'. sr_reservation res = Some r' \<and> wrote d r' d' \<and> same_terms r r' \<and>
     rv_amount_paid_cop r' = rv_amount_paid_cop r + a \<and> deposit_outcome st d res r'"
proof -
  let ?r1 = "r\<lparr>rv_amount_paid_cop := rv_amount_paid_cop r + a\<rparr>"
  from run obtain r2 d2 dep where
    step: "enter_review ?r1 actor req (put_reservation ?r1 d) = Inr (r2, d2)"
    and dep: "deposit_amount st (rv_price_cop r2) = Inr dep"
    and rest: "(if max 0 (dep - rv_amount_paid_cop r2) \<noteq> 0
        then settle_partial r2 (rv_amount_paid_cop r) (max 0 (dep - rv_amount_paid_cop r2)) actor note req d2
        else settle_covered u st r2 (rv_amount_paid_cop r) actor note req blks d2) = Inr (res, d')"
    by (auto simp: settle_deposit_def Let_def ebind_Inr_iff)
  have w2: "wrote d r2 d2" and r2: "r2 = ?r1\<lparr>rv_status := RV_PAYMENT_REVIEW\<rparr>"
    using enter_review_D [OF step] wrote_put [of d ?r1] pending by auto
  have t2: "same_terms r r2" "rv_amount_paid_cop r2 = rv_amount_paid_cop r + a"
    "rv_status r2 = RV_PAYMENT_REVIEW" "rv_id r2 = rv_id r"
    by (simp_all add: r2 same_terms_def)
  show ?thesis
  proof (cases "rv_amount_paid_cop r2 < dep")
    case True
    with rest have "settle_partial r2 (rv_amount_paid_cop r) (dep - rv_amount_paid_cop r2) actor note req d2
        = Inr (res, d')" by simp
    from settle_partial_D [OF this w2] t2 True dep show ?thesis
      by (auto simp: deposit_outcome_def same_terms_def)
  next
    case False
    with rest have "settle_covered u st r2 (rv_amount_paid_cop r) actor note req blks d2 = Inr (res, d')"
      by simp
    from settle_covered_D [OF this w2] t2 False dep pending show ?thesis
      using slot_free_written [OF w2 _ r keys t2(4)] by (auto simp: deposit_outcome_def same_terms_def)
  qed
qed

section \<open>Acceptance\<close>

lemma payment_audit_frame [simp]:
  "db_reservations (payment_audit e a n q am rv d) = db_reservations d"
  "db_evidence (payment_audit e a n q am rv d) = db_evidence d"
  "db_plans (payment_audit e a n q am rv d) = db_plans d"
  "db_clock (payment_audit e a n q am rv d) = db_clock d"
  "audit_extends d0 d \<Longrightarrow> audit_extends d0 (payment_audit e a n q am rv d)"
  by (simp_all add: payment_audit_def Let_def)

lemma accept_guards_D:
  "accept_guards e a actor review d = Inr ro \<Longrightarrow>
     0 < a \<and> \<not> blank actor \<and> pe_review_status e = RW_PENDING_REVIEW \<and>
     pe_download_status e \<noteq> DL_FAILED_PERMANENT \<and>
     (case pe_reservation_id e of None \<Rightarrow> ro = None
      | Some k \<Rightarrow> \<exists>r. ro = Some r \<and> get_row rv_id k (db_reservations d) = Some r \<and>
          rv_status r \<in> {RV_PAYMENT_REVIEW, RV_PAYMENT_PENDING, RV_RESERVED})"
  by (auto simp: accept_guards_def ebind_Inr_iff split: option.splits if_splits)

lemma slot_free_cong:
  "db_reservations d = db_reservations d' \<Longrightarrow> db_plans d = db_plans d' \<Longrightarrow> slot_free d r = slot_free d' r"
  by (simp add: slot_free_def)

text \<open>What an acceptance leaves behind, in every branch.\<close>

definition accepted_outcome ::
  "settings \<Rightarrow> db \<Rightarrow> evidence \<Rightarrow> int \<Rightarrow> settlement_result \<Rightarrow> db \<Rightarrow> bool" where
  "accepted_outcome st d e a res d' \<longleftrightarrow>
     (case pe_reservation_id e of
        None \<Rightarrow> sr_kind res = SK_NO_RESERVATION \<and> sr_reservation res = None \<and>
                db_reservations d' = db_reservations d
      | Some k \<Rightarrow> \<exists>r r'. get_row rv_id k (db_reservations d) = Some r \<and> sr_reservation res = Some r' \<and>
          db_reservations d' = put_row rv_id r' (db_reservations d) \<and> same_terms r r' \<and>
          rv_amount_paid_cop r' = rv_amount_paid_cop r + a \<and>
          (rv_status r = RV_RESERVED \<and> rv_status r' = RV_RESERVED \<and>
             sr_kind res \<in> {SK_BALANCE_PAID, SK_BALANCE_PARTIAL} \<or>
           rv_status r \<in> {RV_PAYMENT_PENDING, RV_PAYMENT_REVIEW} \<and> deposit_outcome st d res r'))"

lemma accept_payment_D:
  assumes run: "accept_payment u st e a actor note req blks review d = Inr (res, e', d')"
    and keys: "keys_ok rv_id (db_reservations d)"
  shows "0 < a \<and> pe_review_status e = RW_PENDING_REVIEW \<and> e' = accepted_row e a note (db_clock d) \<and>
     db_evidence d' = put_row pe_id e' (db_evidence d) \<and> db_plans d' = db_plans d \<and>
     audit_extends d d' \<and> accepted_outcome st d e a res d'"
proof -
  let ?e = "accepted_row e a note (db_clock d)"
  let ?d1 = "payment_audit ?e actor note req (Some a) review (put_evidence ?e d)"
  have d1: "db_reservations ?d1 = db_reservations d" "db_evidence ?d1 = put_row pe_id ?e (db_evidence d)"
    "db_plans ?d1 = db_plans d" "audit_extends d ?d1"
    by (simp_all add: audit_extends_def) (simp add: payment_audit_def Let_def audit_def audit_at_def)
  from run obtain ro where g: "accept_guards e a actor review d = Inr ro"
    by (auto simp: accept_payment_def ebind_Inr_iff)
  note gd = accept_guards_D [OF g]
  show ?thesis
  proof (cases "pe_reservation_id e")
    case None
    with gd have "ro = None" by simp
    with run g None d1 gd show ?thesis
      by (auto simp: accept_payment_def Let_def accepted_outcome_def)
  next
    case (Some k)
    with gd obtain r where ro: "ro = Some r" and r: "get_row rv_id k (db_reservations d) = Some r"
      and rs: "rv_status r \<in> {RV_PAYMENT_REVIEW, RV_PAYMENT_PENDING, RV_RESERVED}" by auto
    have e': "e' = ?e" using run g ro
      by (auto simp: accept_payment_def Let_def ebind_Inr_iff split: if_splits prod.splits)
    have fin: ?thesis if "sr_reservation res = Some r'" "wrote ?d1 r' d'" "same_terms r r'"
      "rv_amount_paid_cop r' = rv_amount_paid_cop r + a"
      "rv_status r = RV_RESERVED \<and> rv_status r' = RV_RESERVED \<and>
         sr_kind res \<in> {SK_BALANCE_PAID, SK_BALANCE_PARTIAL} \<or>
       rv_status r \<in> {RV_PAYMENT_PENDING, RV_PAYMENT_REVIEW} \<and> deposit_outcome st d res r'" for r'
      using that gd r Some d1 audit_extends_trans
      by (auto simp: e' wrote_def accepted_outcome_def)
    show ?thesis
    proof (cases "rv_status r = RV_RESERVED")
      case True
      with run g ro have "settle_balance r a actor note req ?d1 = (res, d')"
        by (auto simp: accept_payment_def Let_def split: prod.splits)
      from settle_balance_D [OF this] True show ?thesis using fin by auto
    next
      case False
      with run g ro have s: "settle_deposit u st r a actor note req blks ?d1 = Inr (res, d')"
        by (auto simp: accept_payment_def Let_def ebind_Inr_iff)
      have pend: "rv_status r \<in> {RV_PAYMENT_PENDING, RV_PAYMENT_REVIEW}" using rs False by auto
      have "r \<in> set (db_reservations ?d1)" using r d1 by (auto dest: get_row_SomeD)
      from settle_deposit_D [OF s this _ pend] keys d1 obtain r' where
        "sr_reservation res = Some r'" "wrote ?d1 r' d'" "same_terms r r'"
        "rv_amount_paid_cop r' = rv_amount_paid_cop r + a" "deposit_outcome st ?d1 res r'" by auto
      moreover have "deposit_outcome st ?d1 res r' = deposit_outcome st d res r'"
        unfolding deposit_outcome_def using slot_free_cong [OF d1(1,3)] by simp
      ultimately show ?thesis using fin pend by auto
    qed
  qed
qed

end
