(* ===== verification/Settlement_Invariants.thy ===== *)
theory Settlement_Invariants
  imports Settlement_Facts
begin

text \<open>
  The invariants of bookings and payments, and that accepting or rejecting a receipt, linking one
  and opening a request keep them.
\<close>

section \<open>No double booking\<close>

definition no_double_booking :: "db \<Rightarrow> bool" where
  "no_double_booking d \<longleftrightarrow> (\<forall>r \<in> set (db_reservations d). \<forall>s \<in> set (db_reservations d). \<forall>p q.
     rv_id r \<noteq> rv_id s \<and> rv_status r = RV_RESERVED \<and> rv_status s = RV_RESERVED \<and>
     overlaps (rv_starts_at r) (rv_ends_at r) (rv_starts_at s) (rv_ends_at s) \<and>
     get_row pl_id (rv_plan_id r) (db_plans d) = Some p \<and>
     get_row pl_id (rv_plan_id s) (db_plans d) = Some q \<longrightarrow> \<not> plans_conflict p q)"

lemma no_double_booking_write:
  assumes ok: "no_double_booking d" and res: "db_reservations d' = put_row rv_id r' (db_reservations d)"
    and plans: "db_plans d' = db_plans d"
    and free: "rv_status r' = RV_RESERVED \<Longrightarrow> slot_free d r'"
  shows "no_double_booking d'"
  unfolding no_double_booking_def
proof (intro ballI allI impI)
  fix a b p q
  assume ab: "a \<in> set (db_reservations d')" "b \<in> set (db_reservations d')"
    and h: "rv_id a \<noteq> rv_id b \<and> rv_status a = RV_RESERVED \<and> rv_status b = RV_RESERVED \<and>
     overlaps (rv_starts_at a) (rv_ends_at a) (rv_starts_at b) (rv_ends_at b) \<and>
     get_row pl_id (rv_plan_id a) (db_plans d') = Some p \<and>
     get_row pl_id (rv_plan_id b) (db_plans d') = Some q"
  consider "a = r'" "b \<in> set (db_reservations d)" | "b = r'" "a \<in> set (db_reservations d)"
    | "a \<in> set (db_reservations d)" "b \<in> set (db_reservations d)" | "a = r'" "b = r'"
    using ab unfolding res by (auto dest!: put_row_mem)
  then show "\<not> plans_conflict p q"
  proof cases
    case 1
    with h have "slot_free d a" using free by simp
    with 1 h plans show ?thesis by (auto simp: slot_free_def)
  next
    case 2
    with h have "slot_free d b" using free by simp
    with 2 h plans show ?thesis
      by (auto simp: slot_free_def overlaps_sym [of "rv_starts_at a"] plans_conflict_sym [of p])
  next
    case 3
    with ok h plans show ?thesis unfolding no_double_booking_def by metis
  qed (use h in simp)
qed

section \<open>Deposits\<close>

definition deposits_covered :: "settings \<Rightarrow> db \<Rightarrow> bool" where
  "deposits_covered st d \<longleftrightarrow> (\<forall>r \<in> set (db_reservations d). rv_status r = RV_RESERVED \<longrightarrow>
     (\<exists>a. deposit_amount st (rv_price_cop r) = Inr a \<and> a \<le> rv_amount_paid_cop r))"

lemma deposits_covered_write:
  assumes "deposits_covered st d" and "db_reservations d' = put_row rv_id r' (db_reservations d)"
    and "rv_status r' = RV_RESERVED \<Longrightarrow>
       \<exists>a. deposit_amount st (rv_price_cop r') = Inr a \<and> a \<le> rv_amount_paid_cop r'"
  shows "deposits_covered st d'"
  using assms unfolding deposits_covered_def by (auto dest!: put_row_mem)

section \<open>The ledger\<close>

text \<open>What a receipt credits to the booking \<open>k\<close>.\<close>

definition credit :: "uuid \<Rightarrow> evidence \<Rightarrow> int" where
  "credit k e = (if pe_review_status e = RW_ACCEPTED \<and> pe_reservation_id e = Some k
     then (case pe_amount_cop e of None \<Rightarrow> 0 | Some a \<Rightarrow> a) else 0)"

definition credited :: "uuid \<Rightarrow> db \<Rightarrow> int" where
  "credited k d = sum_list (map (credit k) (db_evidence d))"

definition ledger_ok :: "db \<Rightarrow> bool" where
  "ledger_ok d \<longleftrightarrow> (\<forall>r \<in> set (db_reservations d). rv_amount_paid_cop r = credited (rv_id r) d)"

lemma credited_put:
  "keys_ok pe_id (db_evidence d) \<Longrightarrow> get_row pe_id (pe_id e') (db_evidence d) = Some e \<Longrightarrow>
     db_evidence d' = put_row pe_id e' (db_evidence d) \<Longrightarrow>
     credited k d' = credited k d - credit k e + credit k e'"
  by (simp add: credited_def sum_put_row)

text \<open>The three invariants, with the primary keys they rest on.\<close>

definition bookings_ok :: "settings \<Rightarrow> db \<Rightarrow> bool" where
  "bookings_ok st d \<longleftrightarrow> keys_ok rv_id (db_reservations d) \<and> keys_ok pe_id (db_evidence d) \<and>
     no_double_booking d \<and> deposits_covered st d \<and> ledger_ok d"

lemma accepted_row_simps [simp]:
  "pe_id (accepted_row e a n now) = pe_id e" "pe_review_status (accepted_row e a n now) = RW_ACCEPTED"
  "pe_reservation_id (accepted_row e a n now) = pe_reservation_id e"
  "credit k (accepted_row e a n now) = (if pe_reservation_id e = Some k then a else 0)"
  by (simp_all add: accepted_row_def credit_def)

lemma rejected_row_simps [simp]:
  "pe_id (rejected_row e n now) = pe_id e" "pe_review_status (rejected_row e n now) = RW_REJECTED"
  "credit k (rejected_row e n now) = 0"
  by (simp_all add: rejected_row_def credit_def)

lemma credit_unreviewed: "pe_review_status e = RW_PENDING_REVIEW \<Longrightarrow> credit k e = 0"
  by (simp add: credit_def)

lemma ledger_write:
  assumes "ledger_ok d" and "db_reservations d' = put_row rv_id r' (db_reservations d)"
    and "get_row rv_id (rv_id r') (db_reservations d) = Some r" and "keys_ok rv_id (db_reservations d)"
    and "\<And>k. credited k d' = credited k d + (if k = rv_id r' then a else 0)"
    and "rv_amount_paid_cop r' = rv_amount_paid_cop r + a"
  shows "ledger_ok d'"
  unfolding ledger_ok_def
proof
  fix s
  assume "s \<in> set (db_reservations d')"
  then consider "s = r'" | "s \<in> set (db_reservations d)" "rv_id s \<noteq> rv_id r'"
    unfolding assms(2) by (auto dest: put_row_mem)
  then show "rv_amount_paid_cop s = credited (rv_id s) d'"
  proof cases
    case 1
    from assms(3) have "r \<in> set (db_reservations d) \<and> rv_id r = rv_id r'" by (rule get_row_SomeD)
    with assms(1) have "rv_amount_paid_cop r = credited (rv_id r') d" by (auto simp: ledger_ok_def)
    with 1 assms(5,6) show ?thesis by simp
  next
    case 2
    with assms(1,5) show ?thesis by (simp add: ledger_ok_def)
  qed
qed

section \<open>Acceptance keeps them\<close>

lemma deposit_outcome_reserved:
  "deposit_outcome st d res r' \<Longrightarrow> rv_status r' = RV_RESERVED \<Longrightarrow>
     slot_free d r' \<and> (\<exists>a. deposit_amount st (rv_price_cop r') = Inr a \<and> a \<le> rv_amount_paid_cop r')"
  by (auto simp: deposit_outcome_def)

text \<open>A confirmed booking keeps its own slot free of the others.\<close>

lemma reserved_slot_free_other:
  assumes "no_double_booking d" and "r \<in> set (db_reservations d)" and "rv_status r = RV_RESERVED"
    and "same_terms r r'" and "rv_status r' = RV_RESERVED"
    and res: "db_reservations d' = put_row rv_id r' (db_reservations d)" and "db_plans d' = db_plans d"
    and "keys_ok rv_id (db_reservations d)"
  shows "no_double_booking d'"
  unfolding no_double_booking_def
proof (intro ballI allI impI)
  fix a b p q
  assume ab: "a \<in> set (db_reservations d')" "b \<in> set (db_reservations d')"
    and h: "rv_id a \<noteq> rv_id b \<and> rv_status a = RV_RESERVED \<and> rv_status b = RV_RESERVED \<and>
     overlaps (rv_starts_at a) (rv_ends_at a) (rv_starts_at b) (rv_ends_at b) \<and>
     get_row pl_id (rv_plan_id a) (db_plans d') = Some p \<and>
     get_row pl_id (rv_plan_id b) (db_plans d') = Some q"
  have old: "\<exists>y \<in> set (db_reservations d). same_terms y x \<and> rv_status y = rv_status x"
    if "x \<in> set (db_reservations d')" for x
  proof (cases "x = r'")
    case True
    with assms(2-5) show ?thesis by metis
  next
    case False
    with that have "x \<in> set (db_reservations d)" unfolding res by (auto dest: put_row_mem)
    then show ?thesis by (rule bexI [rotated]) simp
  qed
  obtain a0 b0 where "a0 \<in> set (db_reservations d)" "b0 \<in> set (db_reservations d)"
    "same_terms a0 a" "same_terms b0 b" "rv_status a0 = RV_RESERVED" "rv_status b0 = RV_RESERVED"
    using old ab h by metis
  with assms(1) h assms(7) show "\<not> plans_conflict p q"
    unfolding no_double_booking_def same_terms_def by metis
qed

lemma accept_keeps_bookings:
  assumes ok: "bookings_ok st d" and e: "get_row pe_id (pe_id e) (db_evidence d) = Some e"
    and run: "accept_payment u st e a actor note req blks review d = Inr (res, e', d')"
  shows "bookings_ok st d'"
proof -
  from ok have keys: "keys_ok rv_id (db_reservations d)" "keys_ok pe_id (db_evidence d)"
    and nd: "no_double_booking d" and dc: "deposits_covered st d" and lg: "ledger_ok d"
    by (simp_all add: bookings_ok_def)
  note D = accept_payment_D [OF run keys(1)]
  have cr: "credited k d' = credited k d + (if pe_reservation_id e = Some k then a else 0)" for k
    using credited_put [of d e' e d'] D e keys(2) by (simp add: credit_unreviewed)
  have keys_e: "keys_ok pe_id (db_evidence d')" using D keys by simp
  show ?thesis
  proof (cases "pe_reservation_id e")
    case None
    with D have "db_reservations d' = db_reservations d" "db_plans d' = db_plans d"
      by (simp_all add: accepted_outcome_def)
    with keys nd dc lg cr None keys_e show ?thesis
      by (simp add: bookings_ok_def no_double_booking_def deposits_covered_def ledger_ok_def)
  next
    case (Some k)
    with D obtain r r' where r: "get_row rv_id k (db_reservations d) = Some r"
      and res: "db_reservations d' = put_row rv_id r' (db_reservations d)" and same: "same_terms r r'"
      and paid: "rv_amount_paid_cop r' = rv_amount_paid_cop r + a"
      and out: "rv_status r = RV_RESERVED \<and> rv_status r' = RV_RESERVED \<or>
        rv_status r \<in> {RV_PAYMENT_PENDING, RV_PAYMENT_REVIEW} \<and> deposit_outcome st d res r'"
      by (auto simp: accepted_outcome_def)
    have plans: "db_plans d' = db_plans d" using D by simp
    have rm: "r \<in> set (db_reservations d)" "rv_id r = k" using get_row_SomeD [OF r] by simp_all
    have idr: "rv_id r' = k" using same rm by (simp add: same_terms_def)
    have "ledger_ok d'"
      by (rule ledger_write [OF lg res _ keys(1) _ paid]) (use r idr cr Some in auto)
    moreover have "deposits_covered st d'"
    proof (rule deposits_covered_write [OF dc res])
      assume "rv_status r' = RV_RESERVED"
      with out show "\<exists>a. deposit_amount st (rv_price_cop r') = Inr a \<and> a \<le> rv_amount_paid_cop r'"
        using deposit_outcome_reserved dc rm(1) same paid D
        by (fastforce simp: deposits_covered_def same_terms_def)
    qed
    moreover have "no_double_booking d'"
      using out
    proof
      assume "rv_status r = RV_RESERVED \<and> rv_status r' = RV_RESERVED"
      then show ?thesis by (intro reserved_slot_free_other [OF nd rm(1) _ same _ res plans keys(1)]) simp_all
    next
      assume "rv_status r \<in> {RV_PAYMENT_PENDING, RV_PAYMENT_REVIEW} \<and> deposit_outcome st d res r'"
      then show ?thesis
        by (intro no_double_booking_write [OF nd res plans]) (blast dest: deposit_outcome_reserved)
    qed
    ultimately show ?thesis using keys res keys_e by (simp add: bookings_ok_def)
  qed
qed

section \<open>The other writers\<close>

text \<open>Writing a booking that is not confirmed, with its paid amount untouched, keeps everything.\<close>

lemma unconfirmed_write_keeps:
  assumes ok: "bookings_ok st d" and r: "get_row rv_id (rv_id r') (db_reservations d) = Some r"
    and res: "db_reservations d' = put_row rv_id r' (db_reservations d)" and "db_plans d' = db_plans d"
    and "rv_status r' \<noteq> RV_RESERVED" and "rv_amount_paid_cop r' = rv_amount_paid_cop r"
    and "\<And>k. credited k d' = credited k d" and "keys_ok pe_id (db_evidence d')"
  shows "bookings_ok st d'"
proof -
  from ok have "no_double_booking d'" by (intro no_double_booking_write [OF _ res]) (simp_all add: assms bookings_ok_def)
  moreover from ok have "deposits_covered st d'"
    by (intro deposits_covered_write [OF _ res]) (simp_all add: assms bookings_ok_def)
  moreover from ok have "ledger_ok d'"
    by (intro ledger_write [OF _ res r, where a = 0]) (simp_all add: assms bookings_ok_def)
  ultimately show ?thesis using ok assms by (simp add: bookings_ok_def)
qed

lemma same_tables_keep:
  assumes ok: "bookings_ok st d" and res: "db_reservations d' = db_reservations d"
    and plans: "db_plans d' = db_plans d" and cr: "\<And>k. credited k d' = credited k d"
    and keys: "keys_ok pe_id (db_evidence d')"
  shows "bookings_ok st d'"
proof -
  have "no_double_booking d' = no_double_booking d" unfolding no_double_booking_def res plans ..
  moreover have "deposits_covered st d' = deposits_covered st d" unfolding deposits_covered_def res ..
  moreover have "ledger_ok d' = ledger_ok d" unfolding ledger_ok_def res cr ..
  ultimately show ?thesis using ok res keys by (simp add: bookings_ok_def)
qed

lemma reject_payment_D:
  assumes run: "reject_payment e actor note req d = Inr (ro, e', d')"
  shows "pe_review_status e = RW_PENDING_REVIEW \<and> e' = rejected_row e note (db_clock d) \<and>
     db_evidence d' = put_row pe_id e' (db_evidence d) \<and> db_plans d' = db_plans d \<and>
     (db_reservations d' = db_reservations d \<or>
      (\<exists>k r. pe_reservation_id e = Some k \<and> get_row rv_id k (db_reservations d) = Some r \<and>
         rv_status r = RV_PAYMENT_REVIEW \<and>
         db_reservations d' = put_row rv_id (r\<lparr>rv_status := RV_PAYMENT_PENDING\<rparr>) (db_reservations d)))"
  using run
  by (auto simp: reject_payment_def ebind_Inr_iff Let_def split: option.splits if_splits
      dest!: transition_reservation_InrD)

lemma reject_keeps_bookings:
  assumes ok: "bookings_ok st d" and e: "get_row pe_id (pe_id e) (db_evidence d) = Some e"
    and run: "reject_payment e actor note req d = Inr (ro, e', d')"
  shows "bookings_ok st d'"
proof -
  note D = reject_payment_D [OF run]
  have keys: "keys_ok pe_id (db_evidence d)" using ok by (simp add: bookings_ok_def)
  have cr: "credited k d' = credited k d" for k
    using credited_put [of d e' e d'] D e keys by (simp add: credit_unreviewed)
  have keys': "keys_ok pe_id (db_evidence d')" using D keys by simp
  show ?thesis
  proof (cases "db_reservations d' = db_reservations d")
    case True
    then show ?thesis using same_tables_keep [OF ok] D cr keys' by blast
  next
    case False
    with D obtain k r where r: "get_row rv_id k (db_reservations d) = Some r" "rv_status r = RV_PAYMENT_REVIEW"
      and res: "db_reservations d' = put_row rv_id (r\<lparr>rv_status := RV_PAYMENT_PENDING\<rparr>) (db_reservations d)"
      by blast
    have "rv_id r = k" using get_row_SomeD [OF r(1)] by simp
    with r(1) D cr keys' show ?thesis
      by (intro unconfirmed_write_keeps [OF ok _ res]) simp_all
  qed
qed

lemma attach_keeps_bookings:
  assumes ok: "bookings_ok st d" and e: "get_row pe_id (pe_id e) (db_evidence d) = Some e"
    and pending: "pe_review_status e = RW_PENDING_REVIEW"
    and run: "attach_payment_evidence e req st' d = Inr (Some r, e', d')"
  shows "bookings_ok st d'"
proof -
  from attach_payment_evidence_InrD [OF run] obtain r0 where
    cand: "payment_reservation_candidate (pe_customer_id e) (db_clock d) d = Some r0"
    and e': "e' = e\<lparr>pe_reservation_id := Some (rv_id r0)\<rparr>"
    and r: "r = r0\<lparr>rv_status := (if rv_status r0 = RV_PAYMENT_PENDING then RV_PAYMENT_REVIEW else rv_status r0)\<rparr>"
    and db: "db_evidence d' = put_row pe_id e' (db_evidence d)" "db_plans d' = db_plans d"
    and res: "db_reservations d' = (if rv_status r0 = RV_PAYMENT_PENDING
       then put_row rv_id r (db_reservations d) else db_reservations d)"
    by blast
  have keys: "keys_ok pe_id (db_evidence d)" "keys_ok rv_id (db_reservations d)"
    using ok by (simp_all add: bookings_ok_def)
  have "pe_id e' = pe_id e" "pe_review_status e' = RW_PENDING_REVIEW" using pending by (simp_all add: e')
  then have cr: "credited k d' = credited k d" for k
    using credited_put [of d e' e d'] db e keys pending by (simp add: credit_unreviewed)
  have keys': "keys_ok pe_id (db_evidence d')" using db keys by simp
  show ?thesis
  proof (cases "rv_status r0 = RV_PAYMENT_PENDING")
    case True
    have "r0 \<in> set (db_reservations d)" using candidate_SomeD [OF cand] by simp
    then have r0: "get_row rv_id (rv_id r) (db_reservations d) = Some r0" using keys by (simp add: r get_row_mem)
    show ?thesis
      by (rule unconfirmed_write_keeps [OF ok r0 _ db(2) _ _ cr keys']) (simp_all add: res r True)
  next
    case False
    then show ?thesis by (intro same_tables_keep [OF ok _ db(2) cr keys']) (simp add: res)
  qed
qed

section \<open>Properties\<close>

lemma sample_bookings_ok: "bookings_ok sample_settings sample_db"
  by (simp add: bookings_ok_def keys_ok_def no_double_booking_def deposits_covered_def ledger_ok_def
      credited_def credit_def sample_reservation_def sample_evidence_def)

lemma not_blank_asesor [simp]: "\<not> blank ''asesor''"
  by (simp add: not_blank_ascii is_space_def)

lemma not_blank_confirmed [simp]: "\<not> blank ''Pago humano aceptado; anticipo completo''"
  by (simp add: not_blank_ascii is_space_def)

lemma sample_keyword: "normalized ascii_ucd ''exclusividad'' \<noteq> []"
  by (simp add: normalized_def ascii_ucd_def ascii_eval utf8_encode_def utf8_encode1_def strip_def strip_cps_def)

lemma sample_guards: "accept_guards sample_evidence 475000 ''asesor'' None sample_db = Inr (Some sample_reservation)"
  by (simp add: accept_guards_def sample_evidence_def sample_reservation_def get_row_Cons)

text \<open>The sample acceptance: the deposit of the sample booking, on an empty calendar, confirms it.\<close>

lemma sample_acceptance:
  "\<exists>res e' d'. accept_payment ascii_ucd sample_settings sample_evidence 475000 ''asesor'' None None [] None sample_db
     = Inr (res, e', d') \<and> sr_kind res = SK_RESERVED"
  using sample_keyword
  apply (simp add: accept_payment_def sample_guards Let_def)
  apply (simp add: sample_reservation_def settle_deposit_def Let_def enter_review_def deposit_amount_def sample_settings_def)
  apply (simp add: settle_covered_def local_blockers_def get_row_Cons put_row_Cons reserved_between_def
    evaluate_booking_availability_def Let_def calendar_blockers_def confirm_reservation_def sample_plan_def
    transition_reservation_def sample_reservation_def)
  done

text \<open>Accepting a payment keeps the booking invariants: no two confirmed bookings that overlap have
  conflicting plans, every confirmed booking has its deposit paid, and the amount paid of every booking
  is the sum of its accepted receipts.\<close>

theorem acceptance_keeps_invariants:
  assumes "bookings_ok st d" and "get_row pe_id (pe_id e) (db_evidence d) = Some e"
    and "accept_payment u st e a actor note req blks review d = Inr (res, e', d')"
  shows "no_double_booking d' \<and> deposits_covered st d' \<and> ledger_ok d'"
  using accept_keeps_bookings [OF assms] by (simp add: bookings_ok_def)

lemma acceptance_keeps_invariants_witness:
  "\<exists>res e' d'. accept_payment ascii_ucd sample_settings sample_evidence 475000 ''asesor'' None None [] None sample_db
     = Inr (res, e', d') \<and> no_double_booking d' \<and> ledger_ok d'"
proof -
  obtain res e' d' where run: "accept_payment ascii_ucd sample_settings sample_evidence 475000 ''asesor'' None None []
      None sample_db = Inr (res, e', d')" using sample_acceptance by blast
  from acceptance_keeps_invariants [OF sample_bookings_ok _ run] run show ?thesis by (simp add: get_row_Cons)
qed



text \<open>Rejecting a receipt keeps the same invariants and credits nothing.\<close>

theorem rejection_keeps_invariants:
  assumes "bookings_ok st d" and "get_row pe_id (pe_id e) (db_evidence d) = Some e"
    and "reject_payment e actor note req d = Inr (ro, e', d')"
  shows "bookings_ok st d' \<and> pe_review_status e' = RW_REJECTED \<and>
    (\<forall>r \<in> set (db_reservations d'). rv_status r = RV_RESERVED \<longrightarrow> r \<in> set (db_reservations d))"
  using reject_keeps_bookings [OF assms] reject_payment_D [OF assms(3)]
  by (auto dest!: put_row_mem)

lemma rejection_keeps_invariants_witness:
  "\<exists>ro e' d'. reject_payment sample_evidence ''asesor'' ''asesor'' None sample_db = Inr (ro, e', d') \<and>
     bookings_ok sample_settings d'"
proof -
  have "\<exists>ro e' d'. reject_payment sample_evidence ''asesor'' ''asesor'' None sample_db = Inr (ro, e', d')"
    by (simp add: reject_payment_def Let_def sample_evidence_def sample_reservation_def get_row_Cons
        transition_reservation_def has_pending_payment_evidence_def put_row_Cons rejected_row_def)
  then obtain ro e' d' where run: "reject_payment sample_evidence ''asesor'' ''asesor'' None sample_db = Inr (ro, e', d')"
    by blast
  from rejection_keeps_invariants [OF sample_bookings_ok _ run] run show ?thesis by (simp add: get_row_Cons)
qed

text \<open>Linking a receipt that waits for review to a booking keeps the same invariants.\<close>

theorem link_keeps_invariants:
  assumes "bookings_ok st d" and "get_row pe_id (pe_id e) (db_evidence d) = Some e"
    and "pe_review_status e = RW_PENDING_REVIEW"
    and "attach_payment_evidence e req st' d = Inr (Some r, e', d')"
  shows "bookings_ok st d'"
  by (rule attach_keeps_bookings [OF assms])

lemma link_keeps_invariants_witness:
  "\<exists>r e' d'. attach_payment_evidence (sample_evidence\<lparr>pe_reservation_id := None\<rparr>) None
      (sample_settings\<lparr>st_staff_notifications_enabled := False\<rparr>)
      (sample_db\<lparr>db_evidence := [sample_evidence\<lparr>pe_reservation_id := None\<rparr>]\<rparr>) = Inr (Some r, e', d') \<and>
      bookings_ok sample_settings d'"
proof -
  let ?e = "sample_evidence\<lparr>pe_reservation_id := None\<rparr>"
  let ?d = "sample_db\<lparr>db_evidence := [?e]\<rparr>"
  have c: "payment_reservation_candidate 1 sample_now ?d = Some sample_reservation"
    by (simp add: payment_reservation_candidate_def payable_def sample_reservation_def sample_start_def
        sample_now_def bogota_instant_def at_hour_def us_defs)
  have "\<exists>r e' d'. attach_payment_evidence ?e None
      (sample_settings\<lparr>st_staff_notifications_enabled := False\<rparr>) ?d = Inr (Some r, e', d')"
    using c by (simp add: attach_payment_evidence_def sample_evidence_def sample_reservation_def Let_def
        enqueue_for_reservation_def)
  then obtain r e' d' where run: "attach_payment_evidence ?e None
      (sample_settings\<lparr>st_staff_notifications_enabled := False\<rparr>) ?d = Inr (Some r, e', d')" by blast
  have "bookings_ok sample_settings ?d"
    by (simp add: bookings_ok_def keys_ok_def no_double_booking_def deposits_covered_def ledger_ok_def
        credited_def credit_def sample_reservation_def sample_evidence_def)
  from link_keeps_invariants [OF this _ _ run] run show ?thesis
    by (simp add: get_row_Cons sample_evidence_def)
qed

end
