(* ===== verification/Calendar_Sync.thy ===== *)
theory Calendar_Sync
  imports Settlement_Invariants
begin

text \<open>
  \<open>app/reservation/settlement.py\<close>, the calendar part: \<open>sync_reservation_calendar\<close> and
  \<open>release_reservation_calendar\<close> run after the settlement's commit, in transactions of their own, and
  \<open>expire_pending_reservations\<close> closes the unpaid requests of the past.

  Each of them returns the database as well as the result: what a first transaction committed
  stays when a later step raises. \<open>other\<close> stands for whatever the other workers commit while the
  calendar is called, between the transactions of a synchronization.
\<close>

section \<open>Releasing\<close>

definition reservation_ref :: "uuid \<Rightarrow> string option \<Rightarrow> (string \<times> json) list" where
  "reservation_ref k external = [(''reservation_id'', JStr (uuid_str k)),
     (''external_calendar_id'', opt_json JStr external)]"

text \<open>\<open>str(uuid4())\<close>.\<close>

definition fresh_text :: "db \<Rightarrow> string \<times> db" where
  "fresh_text d = (case uuid4 d of (u, d1) \<Rightarrow> (uuid_str u, d1))"

definition finish_release :: "uuid \<Rightarrow> db \<Rightarrow> (app_error, unit) result \<times> db" where
  "finish_release k d =
     (case get_row rv_id k (db_reservations d) of
        None \<Rightarrow> (Inl (OtherError ''AttributeError''), d)
      | Some row \<Rightarrow>
          let old_id = rv_external_calendar_id row;
              row' = row\<lparr>rv_external_calendar_id := None, rv_calendar_status := CAL_NONE\<rparr>;
              (rid, d1) = fresh_text d
          in (Inr (), audit ''SYSTEM'' ''CALENDAR_EVENT_DELETED'' ''reservation''
                (Some (JObj (reservation_ref k old_id)))
                (Some (JObj (reservation_ref k None @ [(''calendar_status'', JStr ''NONE'')])))
                ''Evento definitivo liberado'' (Some rid) (put_reservation row' d1)))"

definition release_reservation_calendar ::
  "'c calendar \<Rightarrow> uuid \<Rightarrow> (db \<Rightarrow> db) \<Rightarrow> db \<Rightarrow> 'c \<Rightarrow> (app_error, unit) result \<times> db \<times> 'c" where
  "release_reservation_calendar cal k other d c =
     (case cal_delete_event cal (uuid_hex k) c of
        (Inl e, c1) \<Rightarrow>
          if e = EventNotFoundError then (case finish_release k (other d) of (r, d1) \<Rightarrow> (r, d1, c1))
          else (Inl e, d, c1)
      | (Inr _, c1) \<Rightarrow> (case finish_release k (other d) of (r, d1) \<Rightarrow> (r, d1, c1)))"

section \<open>Synchronizing\<close>

record event_snapshot =
  es_summary :: string
  es_start :: instant
  es_end :: instant
  es_existing :: "string option"
  es_description :: string

definition snapshot_of :: "settings \<Rightarrow> reservation \<Rightarrow> plan \<Rightarrow> customer \<Rightarrow> event_snapshot" where
  "snapshot_of st r p cu =
     (let who = (case cu_full_name cu of None \<Rightarrow> cu_phone_number cu
                 | Some n \<Rightarrow> if n = [] then cu_phone_number cu else n);
          summary = pl_name p @ '' '' @ em_dash @ '' '' @ who;
          nl = [CHR 0x0A]
      in \<lparr>es_summary = (if pl_exclusive p
                        then summary @ '' '' @ em_dash @ '' '' @ st_booking_exclusivity_keyword st else summary),
          es_start = rv_starts_at r, es_end = rv_ends_at r, es_existing = rv_external_calendar_id r,
          es_description = ''Plan: '' @ pl_name p @ nl @ ''Precio: '' @ show_int (rv_price_cop r) @ nl
            @ ''Pagado: '' @ show_int (rv_amount_paid_cop r) @ nl
            @ ''Tel'' @ e_acute @ ''fono: '' @ cu_phone_number cu @ nl
            @ ''reservation_id: '' @ uuid_str (rv_id r)\<rparr>)"

definition read_snapshot :: "settings \<Rightarrow> uuid \<Rightarrow> db \<Rightarrow> (app_error, event_snapshot) result" where
  "read_snapshot st k d =
     (case get_row rv_id k (db_reservations d) of
        None \<Rightarrow> Inl (ValueError ''Solo se sincronizan reservas confirmadas.'')
      | Some r \<Rightarrow>
          if rv_status r \<noteq> RV_RESERVED then Inl (ValueError ''Solo se sincronizan reservas confirmadas.'')
          else (case (get_row pl_id (rv_plan_id r) (db_plans d), get_row cu_id (rv_customer_id r) (db_customers d)) of
                  (Some p, Some cu) \<Rightarrow> Inr (snapshot_of st r p cu)
                | _ \<Rightarrow> Inl (OtherError ''AttributeError'')))"

text \<open>The calls to the calendar, inside the \<open>try\<close>.\<close>

definition create_snapshot ::
  "'c calendar \<Rightarrow> string \<Rightarrow> event_snapshot \<Rightarrow> 'c \<Rightarrow> (app_error, unit) result \<times> 'c" where
  "create_snapshot cal k s c =
     (case cal_create_event cal k (es_summary s) (es_start s) (es_end s) (Some (es_description s)) c of
        (Inl e, c1) \<Rightarrow> (Inl e, c1) | (Inr _, c1) \<Rightarrow> (Inr (), c1))"

definition update_snapshot ::
  "'c calendar \<Rightarrow> string \<Rightarrow> event_snapshot \<Rightarrow> 'c \<Rightarrow> (app_error, unit) result \<times> 'c" where
  "update_snapshot cal k s c =
     (case cal_update_event cal k (es_summary s) (es_start s) (es_end s) (Some (es_description s)) c of
        (Inl e, c1) \<Rightarrow> (Inl e, c1) | (Inr _, c1) \<Rightarrow> (Inr (), c1))"

definition push_event :: "'c calendar \<Rightarrow> string \<Rightarrow> event_snapshot \<Rightarrow> 'c \<Rightarrow> (app_error, unit) result \<times> 'c" where
  "push_event cal k s c =
     (if (case es_existing s of None \<Rightarrow> False | Some x \<Rightarrow> x \<noteq> [])
      then (case update_snapshot cal k s c of
              (Inr _, c1) \<Rightarrow> (Inr (), c1)
            | (Inl e, c1) \<Rightarrow> if e = EventNotFoundError then create_snapshot cal k s c1 else (Inl e, c1))
      else (case create_snapshot cal k s c of
              (Inr _, c1) \<Rightarrow> (Inr (), c1)
            | (Inl e, c1) \<Rightarrow>
                if e = AlreadyExistsError
                then (case cal_get_event cal k c1 of
                        (Inl e2, c2) \<Rightarrow> (Inl e2, c2)
                      | (Inr current, c2) \<Rightarrow>
                          if (xr_summary current, xr_start current, xr_end current, xr_description current) \<noteq>
                             (es_summary s, es_start s, es_end s, Some (es_description s))
                          then update_snapshot cal k s c2 else (Inr (), c2))
                else (Inl e, c1)))"

definition record_sync_failure :: "uuid \<Rightarrow> db \<Rightarrow> (app_error, unit) result \<times> db" where
  "record_sync_failure k d =
     (case get_row rv_id k (db_reservations d) of
        None \<Rightarrow> (Inl (OtherError ''AttributeError''), d)
      | Some row \<Rightarrow>
          let (rid, d1) = fresh_text d
          in (Inl CalendarUnavailableError,
              audit ''SYSTEM'' ''CALENDAR_EVENT_SYNC_FAILED'' ''reservation''
                (Some (JObj [(''reservation_id'', JStr (uuid_str k))]))
                (Some (JObj [(''calendar_status'', JStr ''NONE'')]))
                ''No se pudo sincronizar Calendar'' (Some rid)
                (put_reservation (row\<lparr>rv_calendar_status := CAL_NONE\<rparr>) d1)))"

definition record_sync ::
  "'c calendar \<Rightarrow> uuid \<Rightarrow> event_snapshot \<Rightarrow> (db \<Rightarrow> db) \<Rightarrow> db \<Rightarrow> 'c \<Rightarrow> (app_error, unit) result \<times> db \<times> 'c" where
  "record_sync cal k s other d c =
     (case get_row rv_id k (db_reservations d) of
        None \<Rightarrow> (Inl (OtherError ''AttributeError''), d, c)
      | Some row \<Rightarrow>
          if rv_status row \<noteq> RV_RESERVED \<or> (rv_starts_at row, rv_ends_at row) \<noteq> (es_start s, es_end s)
          then if rv_status row = RV_CANCELLED
               then (case release_reservation_calendar cal k other d c of
                       (Inl e, d1, c1) \<Rightarrow> (Inl e, d1, c1)
                     | (Inr _, d1, c1) \<Rightarrow> (Inl CalendarUnavailableError, d1, c1))
               else (Inl CalendarUnavailableError, d, c)
          else let row' = row\<lparr>rv_external_calendar_id := Some (uuid_hex k), rv_calendar_status := CAL_CONFIRMED\<rparr>;
                   (rid, d1) = fresh_text d
               in (Inr (), audit ''SYSTEM'' ''CALENDAR_EVENT_CREATED'' ''reservation''
                     (Some (JObj (reservation_ref k (es_existing s))))
                     (Some (JObj (reservation_ref k (Some (uuid_hex k)) @ [(''calendar_status'', JStr ''CONFIRMED'')])))
                     ''Evento definitivo de reserva sincronizado'' (Some rid) (put_reservation row' d1), c))"

definition sync_reservation_calendar ::
  "'c calendar \<Rightarrow> settings \<Rightarrow> uuid \<Rightarrow> (db \<Rightarrow> db) \<Rightarrow> db \<Rightarrow> 'c \<Rightarrow> (app_error, unit) result \<times> db \<times> 'c" where
  "sync_reservation_calendar cal st k other d c =
     (case read_snapshot st k d of
        Inl e \<Rightarrow> (Inl e, d, c)
      | Inr s \<Rightarrow>
          (case push_event cal (uuid_hex k) s c of
             (Inl e, c1) \<Rightarrow>
               if e = CalendarUnavailableError
               then (case record_sync_failure k (other d) of (r, d1) \<Rightarrow> (r, d1, c1))
               else (Inl e, other d, c1)
           | (Inr _, c1) \<Rightarrow> record_sync cal k s other (other d) c1))"

section \<open>Expiration\<close>

definition expirable :: "instant \<Rightarrow> reservation \<Rightarrow> bool" where
  "expirable now r \<longleftrightarrow> rv_status r = RV_PAYMENT_PENDING \<and> rv_starts_at r < now"

fun expire_rows :: "reservation list \<Rightarrow> db \<Rightarrow> (app_error, db) result" where
  "expire_rows [] d = Inr d"
| "expire_rows (r # rs) d = (case fresh_text d of (rid, d1) \<Rightarrow>
     ebind (transition_reservation r RV_EXPIRED ''SYSTEM'' ''Fecha vencida sin pago'' (Some rid) d1) (\<lambda>(_, d2).
       expire_rows rs d2))"

definition expire_pending_reservations :: "datetime \<Rightarrow> db \<Rightarrow> (app_error, nat \<times> db) result" where
  "expire_pending_reservations now d =
     (case now of
        Naive _ \<Rightarrow> Inl (ValueError ''La fecha requiere zona horaria.'')
      | Aware t _ \<Rightarrow>
          let rows = filter (expirable t) (db_reservations d)
          in ebind (expire_rows rows d) (\<lambda>d'. Inr (length rows, d')))"

section \<open>Facts on the calendar\<close>

definition event_matches :: "event_snapshot \<Rightarrow> event_ref \<Rightarrow> bool" where
  "event_matches s x \<longleftrightarrow> xr_summary x = es_summary s \<and> xr_start x = es_start s \<and> xr_end x = es_end s \<and>
     xr_description x = Some (es_description s)"

lemma event_matches_ref [simp]:
  "event_matches s (event_ref_of k (es_summary s) (es_start s) (es_end s) (Some (es_description s)))"
  by (simp add: event_matches_def event_ref_of_def)

context calendar_adapter
begin

abbreviation only_changes :: "string \<Rightarrow> 'c \<Rightarrow> 'c \<Rightarrow> bool" where
  "only_changes k c c' \<equiv> \<forall>k'. k' \<noteq> k \<longrightarrow> events c' k' = events c k'"

lemma create_snapshot_D:
  "create_snapshot cal k s c = (Inr u, c') \<Longrightarrow>
     (\<exists>x. events c' k = Some x \<and> event_matches s x) \<and> only_changes k c c'"
  by (auto simp: create_snapshot_def split: prod.splits sum.splits dest!: create_ok)

lemma create_snapshot_exists:
  "create_snapshot cal k s c = (Inl AlreadyExistsError, c') \<Longrightarrow> events c k \<noteq> None \<and> events c' = events c"
  by (auto simp: create_snapshot_def split: prod.splits sum.splits dest!: create_exists)

lemma create_snapshot_errors:
  "create_snapshot cal k s c = (Inl e, c') \<Longrightarrow> e = AlreadyExistsError \<or> e = CalendarUnavailableError"
  by (auto simp: create_snapshot_def split: prod.splits sum.splits dest!: create_errors)

lemma update_snapshot_D:
  "update_snapshot cal k s c = (Inr u, c') \<Longrightarrow>
     (\<exists>x. events c' k = Some x \<and> event_matches s x) \<and> only_changes k c c'"
  by (auto simp: update_snapshot_def split: prod.splits sum.splits dest!: update_ok)

lemma update_snapshot_missing:
  "update_snapshot cal k s c = (Inl EventNotFoundError, c') \<Longrightarrow> events c k = None \<and> events c' = events c"
  by (auto simp: update_snapshot_def split: prod.splits sum.splits dest!: update_missing)

lemma update_snapshot_errors:
  "update_snapshot cal k s c = (Inl e, c') \<Longrightarrow> e = EventNotFoundError \<or> e = CalendarUnavailableError"
  by (auto simp: update_snapshot_def split: prod.splits sum.splits dest!: update_errors)

text \<open>Updating or creating: the event is there afterwards, and only unavailability escapes.\<close>

lemma upsert_result:
  assumes "(case update_snapshot cal k s c of
       (Inr _, c1) \<Rightarrow> (Inr (), c1)
     | (Inl e, c1) \<Rightarrow> if e = EventNotFoundError then create_snapshot cal k s c1 else (Inl e, c1)) = (r, c')"
  shows "(case r of Inr _ \<Rightarrow> (\<exists>x. events c' k = Some x \<and> event_matches s x) \<and> only_changes k c c'
          | Inl e \<Rightarrow> e = CalendarUnavailableError)"
proof (cases "update_snapshot cal k s c")
  case (Pair r1 c1)
  show ?thesis
  proof (cases r1)
    case (Inr u)
    with Pair assms update_snapshot_D show ?thesis by auto
  next
    case (Inl e)
    show ?thesis
    proof (cases "e = EventNotFoundError")
      case True
      with Pair Inl update_snapshot_missing have gone: "events c k = None" "events c1 = events c" by auto
      from assms Pair Inl True have cr: "create_snapshot cal k s c1 = (r, c')" by simp
      show ?thesis
        using cr gone create_snapshot_D [of k s c1] create_snapshot_errors [of k s c1]
          create_snapshot_exists [of k s c1] by (cases r) auto
    next
      case False
      with assms Pair Inl show ?thesis by (auto dest: update_snapshot_errors)
    qed
  qed
qed

lemma adopt_result:
  assumes "(case create_snapshot cal k s c of
       (Inr _, c1) \<Rightarrow> (Inr (), c1)
     | (Inl e, c1) \<Rightarrow>
         if e = AlreadyExistsError
         then (case cal_get_event cal k c1 of
                 (Inl e2, c2) \<Rightarrow> (Inl e2, c2)
               | (Inr current, c2) \<Rightarrow>
                   if (xr_summary current, xr_start current, xr_end current, xr_description current) \<noteq>
                      (es_summary s, es_start s, es_end s, Some (es_description s))
                   then update_snapshot cal k s c2 else (Inr (), c2))
         else (Inl e, c1)) = (r, c')"
  shows "(case r of Inr _ \<Rightarrow> (\<exists>x. events c' k = Some x \<and> event_matches s x) \<and> only_changes k c c'
          | Inl e \<Rightarrow> e = CalendarUnavailableError)"
proof (cases "create_snapshot cal k s c")
  case (Pair r1 c1)
  show ?thesis
  proof (cases r1)
    case (Inr u)
    with Pair assms create_snapshot_D show ?thesis by auto
  next
    case (Inl e)
    show ?thesis
    proof (cases "e = AlreadyExistsError")
      case False
      with assms Pair Inl show ?thesis by (auto dest: create_snapshot_errors)
    next
      case True
      with Pair Inl create_snapshot_exists have there: "events c k \<noteq> None" "events c1 = events c" by auto
      obtain g c2 where g: "cal_get_event cal k c1 = (g, c2)" by (cases "cal_get_event cal k c1")
      show ?thesis
      proof (cases g)
        case Ge: (Inl e2)
        with assms Pair Inl True g there get_errors get_missing show ?thesis by fastforce
      next
        case Gr: (Inr x)
        with g have "cal_get_event cal k c1 = (Inr x, c2)" by simp
        from get_ok [OF this] there have x: "events c k = Some x" "events c2 = events c" by auto
        show ?thesis
        proof (cases "event_matches s x")
          case m: True
          with assms Pair Inl True g Gr x show ?thesis by (auto simp: event_matches_def)
        next
          case m: False
          with assms Pair Inl True g Gr have u: "update_snapshot cal k s c2 = (r, c')"
            by (auto simp: event_matches_def)
          show ?thesis
            using u x update_snapshot_D [of k s c2] update_snapshot_errors [of k s c2]
              update_snapshot_missing [of k s c2] by (cases r) auto
        qed
      qed
    qed
  qed
qed

lemma push_event_result:
  "push_event cal k s c = (r, c') \<Longrightarrow>
     (case r of Inr _ \<Rightarrow> (\<exists>x. events c' k = Some x \<and> event_matches s x) \<and> only_changes k c c'
      | Inl e \<Rightarrow> e = CalendarUnavailableError)"
  unfolding push_event_def by (split if_split_asm) (blast intro: upsert_result adopt_result)+

end

section \<open>Facts on the bookings\<close>

lemma fresh_text_frame [simp]:
  "db_reservations (snd (fresh_text d)) = db_reservations d" "db_evidence (snd (fresh_text d)) = db_evidence d"
  "db_plans (snd (fresh_text d)) = db_plans d" "db_clock (snd (fresh_text d)) = db_clock d"
  "db_audit (snd (fresh_text d)) = db_audit d"
  by (simp_all add: fresh_text_def uuid4_def)

text \<open>A synchronization writes the calendar columns of the booking and nothing else of it.\<close>

definition calendar_only :: "db \<Rightarrow> db \<Rightarrow> bool" where
  "calendar_only d d' \<longleftrightarrow> db_evidence d' = db_evidence d \<and> db_plans d' = db_plans d \<and>
     db_reservations d' = db_reservations d \<or>
     db_evidence d' = db_evidence d \<and> db_plans d' = db_plans d \<and>
     (\<exists>r x s. get_row rv_id (rv_id r) (db_reservations d) = Some r \<and>
        db_reservations d' = put_row rv_id (r\<lparr>rv_external_calendar_id := x, rv_calendar_status := s\<rparr>) (db_reservations d))"

lemma get_row_self: "get_row key k rows = Some r \<Longrightarrow> get_row key (key r) rows = Some r"
  by (metis get_row_SomeD)

lemma calendar_onlyI:
  "get_row rv_id k (db_reservations d) = Some r \<Longrightarrow>
     db_reservations d' = put_row rv_id (r\<lparr>rv_external_calendar_id := x, rv_calendar_status := s\<rparr>) (db_reservations d) \<Longrightarrow>
     db_evidence d' = db_evidence d \<Longrightarrow> db_plans d' = db_plans d \<Longrightarrow> calendar_only d d'"
  unfolding calendar_only_def using get_row_self [of rv_id k] by blast

lemma calendar_only_refl [simp]: "calendar_only d d"
  by (simp add: calendar_only_def)

lemma finish_release_calendar: "finish_release k d = (r, d') \<Longrightarrow> calendar_only d d'"
  by (cases "get_row rv_id k (db_reservations d)")
     (auto simp: finish_release_def Let_def fresh_text_def uuid4_def intro: calendar_onlyI)

lemma record_sync_failure_calendar: "record_sync_failure k d = (r, d') \<Longrightarrow> calendar_only d d'"
proof (cases "get_row rv_id k (db_reservations d)")
  case (Some row)
  assume "record_sync_failure k d = (r, d')"
  with Some have "db_reservations d' = put_row rv_id (row\<lparr>rv_external_calendar_id := rv_external_calendar_id row,
      rv_calendar_status := CAL_NONE\<rparr>) (db_reservations d)" "db_evidence d' = db_evidence d" "db_plans d' = db_plans d"
    by (auto simp: record_sync_failure_def Let_def fresh_text_def uuid4_def)
  then show ?thesis by (rule calendar_onlyI [OF Some])
qed (simp add: record_sync_failure_def)

lemma release_calendar:
  "release_reservation_calendar cal k id d c = (r, d', c') \<Longrightarrow> calendar_only d d'"
  by (auto simp: release_reservation_calendar_def split: prod.splits sum.splits if_splits
      dest: finish_release_calendar)

lemma record_sync_calendar: "record_sync cal k s id d c = (r, d', c') \<Longrightarrow> calendar_only d d'"
proof (cases "get_row rv_id k (db_reservations d)")
  case None
  assume "record_sync cal k s id d c = (r, d', c')"
  with None show ?thesis by (simp add: record_sync_def)
next
  case (Some row)
  assume run: "record_sync cal k s id d c = (r, d', c')"
  show ?thesis
  proof (cases "rv_status row \<noteq> RV_RESERVED \<or> (rv_starts_at row, rv_ends_at row) \<noteq> (es_start s, es_end s)")
    case True
    with run Some consider "d' = d" | r1 c1 where "release_reservation_calendar cal k id d c = (r1, d', c1)"
      by (cases "rv_status row = RV_CANCELLED")
         (auto simp: record_sync_def split: prod.splits sum.splits)
    then show ?thesis by cases (auto dest: release_calendar)
  next
    case False
    with run Some show ?thesis
      by (auto simp: record_sync_def Let_def fresh_text_def uuid4_def intro: calendar_onlyI [OF Some])
  qed
qed

lemma sync_calendar:
  "sync_reservation_calendar cal st k id d c = (r, d', c') \<Longrightarrow> calendar_only d d'"
  by (auto simp: sync_reservation_calendar_def split: prod.splits sum.splits if_splits
      dest: record_sync_failure_calendar record_sync_calendar)

lemma calendar_only_keeps:
  assumes ok: "bookings_ok st d" and c: "calendar_only d d'"
  shows "bookings_ok st d'"
proof -
  have ev: "db_evidence d' = db_evidence d" "db_plans d' = db_plans d" using c by (auto simp: calendar_only_def)
  have cr: "credited k d' = credited k d" for k by (simp add: credited_def ev)
  have keys: "keys_ok rv_id (db_reservations d)" "keys_ok pe_id (db_evidence d')"
    using ok by (simp_all add: bookings_ok_def ev)
  show ?thesis
  proof (cases "db_reservations d' = db_reservations d")
    case True
    then show ?thesis by (rule same_tables_keep [OF ok _ ev(2) cr keys(2)])
  next
    case False
    with c obtain r x s where r: "get_row rv_id (rv_id r) (db_reservations d) = Some r"
      and res: "db_reservations d' = put_row rv_id (r\<lparr>rv_external_calendar_id := x, rv_calendar_status := s\<rparr>) (db_reservations d)"
      by (auto simp: calendar_only_def)
    let ?r = "r\<lparr>rv_external_calendar_id := x, rv_calendar_status := s\<rparr>"
    have rm: "r \<in> set (db_reservations d)" using get_row_SomeD [OF r] by simp
    have same: "same_terms r ?r" by (simp add: same_terms_def)
    show ?thesis
    proof (cases "rv_status r = RV_RESERVED")
      case False
      then show ?thesis
        by (intro unconfirmed_write_keeps [OF ok _ res ev(2) _ _ cr keys(2)]) (simp_all add: r)
    next
      case True
      have "no_double_booking d'"
        by (rule reserved_slot_free_other [OF _ rm True same _ res ev(2) keys(1)])
           (use ok True in \<open>simp_all add: bookings_ok_def\<close>)
      moreover have "deposits_covered st d'"
        by (rule deposits_covered_write [OF _ res]) (use ok rm True in \<open>auto simp: bookings_ok_def deposits_covered_def\<close>)
      moreover have "ledger_ok d'"
        by (rule ledger_write [OF _ res _ keys(1), where a = 0]) (use ok r cr in \<open>simp_all add: bookings_ok_def\<close>)
      ultimately show ?thesis using keys res by (simp add: bookings_ok_def)
    qed
  qed
qed

section \<open>Facts on expiration\<close>

lemma not_blank_expired [simp]: "\<not> blank ''Fecha vencida sin pago''"
  by (simp add: not_blank_ascii is_space_def)

lemma expire_rows_ok:
  "list_all (\<lambda>r. rv_status r = RV_PAYMENT_PENDING) rs \<Longrightarrow>
     \<exists>d'. expire_rows rs d = Inr d' \<and> db_evidence d' = db_evidence d \<and> db_plans d' = db_plans d \<and>
       audit_extends d d' \<and>
       db_reservations d' =
         fold (\<lambda>r. put_row rv_id (r\<lparr>rv_status := RV_EXPIRED\<rparr>)) rs (db_reservations d)"
proof (induction rs arbitrary: d)
  case Nil
  then show ?case by simp
next
  case (Cons r rs)
  let ?t = "transition_reservation r RV_EXPIRED ''SYSTEM'' ''Fecha vencida sin pago''
      (Some (fst (fresh_text d))) (snd (fresh_text d))"
  have "\<exists>r1 d1. ?t = Inr (r1, d1)"
    using Cons.prems by (auto simp: transition_reservation_Inr_iff)
  then obtain r1 d1 where t: "?t = Inr (r1, d1)" by blast
  from transition_reservation_InrD [OF t] have d1: "r1 = r\<lparr>rv_status := RV_EXPIRED\<rparr>"
      "db_reservations d1 = put_row rv_id r1 (db_reservations d)" "db_evidence d1 = db_evidence d"
      "db_plans d1 = db_plans d" "audit_extends d d1"
    by (auto simp: audit_extends_def)
  from Cons.IH [of d1] Cons.prems obtain d' where
    d': "expire_rows rs d1 = Inr d'" "db_evidence d' = db_evidence d1" "db_plans d' = db_plans d1"
      "audit_extends d1 d'"
      "db_reservations d' = fold (\<lambda>r. put_row rv_id (r\<lparr>rv_status := RV_EXPIRED\<rparr>)) rs (db_reservations d1)"
    by auto
  have "expire_rows (r # rs) d = Inr d'"
    using t d'(1) by (simp add: case_prod_beta)
  with d' d1 show ?case by (auto intro: audit_extends_trans)
qed

lemma expire_pending_ok:
  assumes keys: "keys_ok rv_id (db_reservations d)"
  shows "\<exists>d'. expire_pending_reservations (Aware t off) d =
      Inr (length (filter (expirable t) (db_reservations d)), d') \<and>
    db_evidence d' = db_evidence d \<and> db_plans d' = db_plans d \<and> audit_extends d d' \<and>
    db_reservations d' = map (\<lambda>r. if expirable t r then r\<lparr>rv_status := RV_EXPIRED\<rparr> else r) (db_reservations d)"
proof -
  let ?rs = "filter (expirable t) (db_reservations d)"
  have "list_all (\<lambda>r. rv_status r = RV_PAYMENT_PENDING) ?rs" by (simp add: list_all_iff expirable_def)
  from expire_rows_ok [OF this, of d] obtain d' where d': "expire_rows ?rs d = Inr d'"
      "db_evidence d' = db_evidence d" "db_plans d' = db_plans d" "audit_extends d d'"
      "db_reservations d' = fold (\<lambda>r. put_row rv_id (r\<lparr>rv_status := RV_EXPIRED\<rparr>)) ?rs (db_reservations d)"
    by blast
  have "distinct (map rv_id ?rs)" using keys by (simp add: keys_ok_def distinct_map_filter)
  then have "db_reservations d' = map (\<lambda>r. if r \<in> set ?rs then r\<lparr>rv_status := RV_EXPIRED\<rparr> else r) (db_reservations d)"
    unfolding d'(5) by (intro fold_put_row keys) auto
  also have "\<dots> = map (\<lambda>r. if expirable t r then r\<lparr>rv_status := RV_EXPIRED\<rparr> else r) (db_reservations d)"
    by (intro map_cong refl) auto
  finally show ?thesis using d' by (simp add: expire_pending_reservations_def Let_def)
qed

section \<open>Properties\<close>

lemma sync_InrD:
  assumes "sync_reservation_calendar cal st k other d c = (Inr u, d', c')"
  shows "\<exists>s row. read_snapshot st k d = Inr s \<and> push_event cal (uuid_hex k) s c = (Inr (), c') \<and>
    get_row rv_id k (db_reservations (other d)) = Some row \<and> rv_status row = RV_RESERVED \<and>
    rv_starts_at row = es_start s \<and> rv_ends_at row = es_end s \<and>
    db_reservations d' = put_row rv_id (row\<lparr>rv_external_calendar_id := Some (uuid_hex k),
      rv_calendar_status := CAL_CONFIRMED\<rparr>) (db_reservations (other d))"
proof -
  from assms obtain s where s: "read_snapshot st k d = Inr s"
    by (cases "read_snapshot st k d") (simp_all add: sync_reservation_calendar_def)
  obtain r1 c1 where p: "push_event cal (uuid_hex k) s c = (r1, c1)" by fastforce
  show ?thesis
  proof (cases r1)
    case (Inl e)
    with assms s p show ?thesis
      by (auto simp: sync_reservation_calendar_def record_sync_failure_def Let_def
          split: if_splits option.splits prod.splits)
  next
    case (Inr v)
    with assms s p have rec: "record_sync cal k s other (other d) c1 = (Inr u, d', c')"
      by (simp add: sync_reservation_calendar_def)
    then obtain row where row: "get_row rv_id k (db_reservations (other d)) = Some row"
      by (cases "get_row rv_id k (db_reservations (other d))") (simp_all add: record_sync_def)
    with rec have "rv_status row = RV_RESERVED \<and> rv_starts_at row = es_start s \<and> rv_ends_at row = es_end s \<and> c1 = c' \<and>
        db_reservations d' = put_row rv_id (row\<lparr>rv_external_calendar_id := Some (uuid_hex k),
          rv_calendar_status := CAL_CONFIRMED\<rparr>) (db_reservations (other d))"
      by (auto simp: record_sync_def Let_def fresh_text_def uuid4_def
          split: if_split_asm prod.splits sum.splits)
    then show ?thesis using s p Inr row by auto
  qed
qed

text \<open>C9. For every calendar that keeps the adapter's contract, a synchronization that succeeds leaves exactly
  the booking's event under the booking's identifier, with the summary, times and description read at the
  start, leaves every other event alone, and marks the booking as confirmed in the calendar, provided it
  still is a confirmed booking of the same times.\<close>

theorem sync_puts_event:
  assumes "calendar_adapter cal events"
    and "sync_reservation_calendar cal st k other d c = (Inr u, d', c')"
  shows "\<exists>s x row. read_snapshot st k d = Inr s \<and> events c' (uuid_hex k) = Some x \<and> event_matches s x \<and>
    (\<forall>k'. k' \<noteq> uuid_hex k \<longrightarrow> events c' k' = events c k') \<and>
    get_row rv_id k (db_reservations (other d)) = Some row \<and> rv_status row = RV_RESERVED \<and>
    rv_starts_at row = es_start s \<and> rv_ends_at row = es_end s \<and>
    get_row rv_id k (db_reservations d') = Some (row\<lparr>rv_external_calendar_id := Some (uuid_hex k),
      rv_calendar_status := CAL_CONFIRMED\<rparr>)"
proof -
  from sync_InrD [OF assms(2)] obtain s row where s: "read_snapshot st k d = Inr s"
    and p: "push_event cal (uuid_hex k) s c = (Inr (), c')"
    and row: "get_row rv_id k (db_reservations (other d)) = Some row"
    and rest: "rv_status row = RV_RESERVED" "rv_starts_at row = es_start s" "rv_ends_at row = es_end s"
    and d': "db_reservations d' = put_row rv_id (row\<lparr>rv_external_calendar_id := Some (uuid_hex k),
      rv_calendar_status := CAL_CONFIRMED\<rparr>) (db_reservations (other d))" by blast
  have k: "rv_id row = k" using get_row_SomeD [OF row] by simp
  from calendar_adapter.push_event_result [OF assms(1) p] obtain x where
    "events c' (uuid_hex k) = Some x" "event_matches s x"
    "\<forall>k'. k' \<noteq> uuid_hex k \<longrightarrow> events c' k' = events c k'" by auto
  moreover have "get_row rv_id k (db_reservations d') = Some (row\<lparr>rv_external_calendar_id := Some (uuid_hex k),
      rv_calendar_status := CAL_CONFIRMED\<rparr>)"
    unfolding d' using row k by (simp add: get_put_row)
  ultimately show ?thesis using s row rest by blast
qed

text \<open>Whatever is already in the calendar, pushing a booking's event fails only because the calendar is
  unavailable: an existing or a missing event is never an error.\<close>

theorem push_fails_only_when_down:
  assumes "calendar_adapter cal events" and "push_event cal k s c = (Inl e, c')"
  shows "e = CalendarUnavailableError"
  using calendar_adapter.push_event_result [OF assms] by simp

text \<open>Synchronizing a booking never disturbs what was settled: whether it succeeds or not, the booking
  invariants survive it.\<close>

theorem sync_keeps_bookings:
  assumes "bookings_ok st d" and "sync_reservation_calendar cal st' k id d c = (r, d', c')"
  shows "bookings_ok st d'"
  using assms by (auto intro: calendar_only_keeps dest: sync_calendar)

text \<open>A run on the fake calendar.\<close>

definition sample_confirmed :: db where
  "sample_confirmed = sample_db\<lparr>db_reservations := [sample_reservation\<lparr>rv_status := RV_RESERVED,
     rv_amount_paid_cop := 475000\<rparr>], db_evidence := [sample_evidence\<lparr>pe_review_status := RW_ACCEPTED,
     pe_amount_cop := Some 475000\<rparr>]\<rparr>"

lemma sample_sync:
  "\<exists>d' c'. sync_reservation_calendar fake_calendar_adapter sample_settings 51 id sample_confirmed
     (fake_init [] [] False False) = (Inr (), d', c')"
  by (simp add: sync_reservation_calendar_def read_snapshot_def sample_confirmed_def get_row_Cons
      sample_reservation_def sample_plan_def sample_customer_def snapshot_of_def Let_def push_event_def
      create_snapshot_def fake_calendar_adapter_def fake_create_event_def fake_init_def record_sync_def
      fresh_text_def uuid4_def)

lemma sync_puts_event_witness:
  "\<exists>c' x. fake_events c' (uuid_hex 51) = Some x"
proof -
  obtain d' c' where run: "sync_reservation_calendar fake_calendar_adapter sample_settings 51 id sample_confirmed
     (fake_init [] [] False False) = (Inr (), d', c')" using sample_sync by blast
  from sync_puts_event [OF fake.calendar_adapter_axioms run] show ?thesis by blast
qed

lemma push_fails_only_when_down_witness:
  "fst (push_event fake_calendar_adapter ''a'' (snapshot_of sample_settings sample_reservation sample_plan sample_customer)
     (fake_init [] [''create''] False False)) = Inl CalendarUnavailableError"
proof -
  let ?r = "push_event fake_calendar_adapter ''a'' (snapshot_of sample_settings sample_reservation sample_plan sample_customer)
     (fake_init [] [''create''] False False)"
  have "\<exists>e c'. ?r = (Inl e, c')"
    by (simp add: push_event_def snapshot_of_def Let_def sample_reservation_def create_snapshot_def
        fake_calendar_adapter_def fake_create_event_def fake_init_def)
  then obtain e c' where e: "?r = (Inl e, c')" by blast
  from push_fails_only_when_down [OF fake.calendar_adapter_axioms e] e show ?thesis by simp
qed

lemma sync_keeps_bookings_witness:
  "\<exists>d' c'. sync_reservation_calendar fake_calendar_adapter sample_settings 51 id sample_confirmed
     (fake_init [] [] False False) = (Inr (), d', c') \<and> bookings_ok sample_settings d'"
proof -
  obtain d' c' where run: "sync_reservation_calendar fake_calendar_adapter sample_settings 51 id sample_confirmed
     (fake_init [] [] False False) = (Inr (), d', c')" using sample_sync by blast
  have "bookings_ok sample_settings sample_confirmed"
    by (simp add: sample_confirmed_def bookings_ok_def keys_ok_def no_double_booking_def deposits_covered_def
        ledger_ok_def credited_def credit_def sample_reservation_def sample_evidence_def deposit_amount_def
        sample_settings_def)
  from sync_keeps_bookings [OF this run] run show ?thesis by blast
qed

text \<open>Expiration closes exactly the unpaid requests whose start has passed, counts them, and keeps every
  other booking and the booking invariants; it never fails on an aware clock.\<close>

theorem expiration_exact:
  assumes "bookings_ok st d"
  shows "\<exists>d'. expire_pending_reservations (Aware t off) d =
      Inr (length (filter (expirable t) (db_reservations d)), d') \<and>
    db_reservations d' = map (\<lambda>r. if expirable t r then r\<lparr>rv_status := RV_EXPIRED\<rparr> else r) (db_reservations d) \<and>
    filter (\<lambda>r. rv_status r = RV_RESERVED) (db_reservations d') =
      filter (\<lambda>r. rv_status r = RV_RESERVED) (db_reservations d) \<and>
    ledger_ok d' \<and> audit_extends d d'"
proof -
  have keys: "keys_ok rv_id (db_reservations d)" and ledger: "ledger_ok d"
    using assms by (simp_all add: bookings_ok_def)
  from expire_pending_ok [OF keys, of t off] obtain d' where
    d': "expire_pending_reservations (Aware t off) d = Inr (length (filter (expirable t) (db_reservations d)), d')"
      "db_evidence d' = db_evidence d" "audit_extends d d'"
      "db_reservations d' = map (\<lambda>r. if expirable t r then r\<lparr>rv_status := RV_EXPIRED\<rparr> else r) (db_reservations d)"
    by blast
  have "filter (\<lambda>r. rv_status r = RV_RESERVED) (map (\<lambda>r. if expirable t r then r\<lparr>rv_status := RV_EXPIRED\<rparr> else r) rs) =
      filter (\<lambda>r. rv_status r = RV_RESERVED) rs" for rs
    by (induction rs) (auto simp: expirable_def)
  moreover have "ledger_ok d'"
    using ledger by (auto simp: ledger_ok_def d' credited_def)
  ultimately show ?thesis using d' by simp
qed

lemma expiration_exact_witness:
  "\<exists>d'. ledger_ok d' \<and> audit_extends sample_db d'"
  using expiration_exact [OF sample_bookings_ok, of sample_start 0] by blast

end
