(* ===== verification/Delivery.thy ===== *)
theory Delivery
  imports Handoff_Service Lease_Queue
begin

text \<open>
  \<open>app/channel/delivery.py\<close>: the provenance a queued output carries, and the short durable decision that
  admits it to the provider. The decision is taken under the locks of customer, conversation and
  output; nothing is sent without an admission, and an attempt is admitted at most once.
\<close>

section \<open>Provenance\<close>

definition transfer_response_codes :: "string list" where
  "transfer_response_codes = [''RESP-HANDOFF-001'', ''RESP-HANDOFF-002'', ''RESP-QUOTE-004'', ''RESP-QUOTE-009'',
     ''RESP-CATALOG-003'', ''RESP-FALLBACK-003'', ''RESP-CALENDAR-ERROR-001'', ''RESP-CALENDAR-ERROR-002'',
     ''RESP-CALENDAR-ERROR-003'', ''RESP-CALENDAR-ERROR-004'', ''RESP-VISIT-CONFIRM-006'',
     ''RESP-RESCHEDULE-006'', ''RESP-CANCEL-VISIT-005'', ''RESP-BOOKING-EVIDENCE-001'',
     ''RESP-BOOKING-PENDING-001'']"

text \<open>\<open>purpose\<close> is TEMPLATE or CATALOG; a stored conversation always has its epoch.\<close>

definition automatic_context :: "conversation \<Rightarrow> string \<Rightarrow> json" where
  "automatic_context c purpose = JObj [(''origin'', JStr ''AUTO''), (''purpose'', JStr purpose),
     (''epoch'', JStr (uuid_str (cv_automation_epoch c)))]"

definition handoff_context :: "conversation \<Rightarrow> handoff \<Rightarrow> (app_error, json) result" where
  "handoff_context c h =
     (if ho_conversation_id h \<noteq> cv_id c \<or> ho_status h \<noteq> HO_PENDING
      then Inl (ValueError ''Cannot authorize an unrelated or non-pending handoff notice'')
      else Inr (JObj [(''origin'', JStr ''HANDOFF_NOTICE''), (''purpose'', JStr ''TRANSFER''),
                      (''case_id'', JInt (ho_id h)), (''epoch'', JStr (uuid_str (cv_automation_epoch c)))]))"

definition human_context :: "int \<Rightarrow> json" where
  "human_context agent_id = JObj [(''origin'', JStr ''HUMAN_REPLY''), (''purpose'', JStr ''REPLY''),
     (''agent_id'', JInt agent_id)]"

definition payment_review_context :: "evidence \<Rightarrow> json" where
  "payment_review_context e = JObj [(''origin'', JStr ''PAYMENT_REVIEW_RESULT''),
     (''purpose'', JStr ''PAYMENT_DECISION''), (''evidence_id'', JInt (pe_id e)),
     (''decision'', JStr (review_status_str (pe_review_status e))),
     (''agent_id'', opt_json JInt (pe_reviewed_by_agent_id e))]"

definition payment_evidence_ack_context :: "evidence \<Rightarrow> handoff \<Rightarrow> json" where
  "payment_evidence_ack_context e h = JObj [(''origin'', JStr ''PAYMENT_EVIDENCE_ACK''),
     (''purpose'', JStr ''EVIDENCE_RECEIPT''), (''evidence_id'', JInt (pe_id e)), (''handoff_id'', JInt (ho_id h))]"

section \<open>The locked row\<close>

definition lock_delivery_row :: "int \<Rightarrow> db \<Rightarrow> (conversation \<times> outbox) option" where
  "lock_delivery_row k d =
     (case get_row ob_id k (db_outbox d) of
        None \<Rightarrow> None
      | Some row \<Rightarrow>
          (case get_row cv_id (ob_conversation_id row) (db_conversations d) of
             None \<Rightarrow> None
           | Some c \<Rightarrow>
               (case get_row cu_id (cv_customer_id c) (db_customers d) of
                  None \<Rightarrow> None | Some _ \<Rightarrow> Some (c, row))))"

section \<open>Eligibility\<close>

datatype stop = SUPPRESSED | REVIEW

text \<open>The pair of an \<open>Eligibility\<close> and its reason.\<close>

datatype verdict = Eligible string | Stop stop string

definition json_text :: "json \<Rightarrow> string option" where
  "json_text j = (case j of JStr s \<Rightarrow> Some s | JInt i \<Rightarrow> Some (show_int i)
     | JBool b \<Rightarrow> Some (if b then ''true'' else ''false'') | _ \<Rightarrow> None)"

definition proves_human :: "outbox \<Rightarrow> audit_event \<Rightarrow> bool" where
  "proves_human row ev \<longleftrightarrow> ae_action ev = ''AGENT_MESSAGE_ENQUEUED'' \<and> ae_entity ev = ''outbox'' \<and>
     (case ae_new_value ev of None \<Rightarrow> False
      | Some v \<Rightarrow> json_text (jget ''outbox_id'' v) = Some (show_int (ob_id row)) \<and> is_obj v \<and>
          jget ''outbox_id'' v = JInt (ob_id row) \<and>
          jget ''conversation_id'' v = JInt (ob_conversation_id row))"

definition human_proof :: "outbox \<Rightarrow> db \<Rightarrow> int option" where
  "human_proof row d =
     (if ob_message_kind row \<noteq> KIND_TEXT \<or> jget ''agent'' (ob_payload row) \<noteq> JBool True then None
      else map_option ae_id (find (proves_human row) (db_audit d)))"

definition payment_decision_proven :: "conversation \<Rightarrow> outbox \<Rightarrow> json \<Rightarrow> db \<Rightarrow> bool" where
  "payment_decision_proven c row context d \<longleftrightarrow>
     (case jget ''evidence_id'' context of
        JInt k \<Rightarrow> jget ''purpose'' context = JStr ''PAYMENT_DECISION'' \<and>
          (case get_row pe_id k (db_evidence d) of
             None \<Rightarrow> False
           | Some e \<Rightarrow> pe_conversation_id e = cv_id c \<and> pe_customer_id e = cv_customer_id c \<and>
               pe_message_id e = ob_message_id row \<and> pe_review_status e \<in> {RW_ACCEPTED, RW_REJECTED} \<and>
               jget ''decision'' context = JStr (review_status_str (pe_review_status e)) \<and>
               is_int (jget ''agent_id'' context) \<and>
               opt_json JInt (pe_reviewed_by_agent_id e) = jget ''agent_id'' context \<and>
               pe_reviewed_at e \<noteq> None)
      | _ \<Rightarrow> False)"

text \<open>\<open>cases\<close>: the conversation's open cases.\<close>

definition open_cases :: "conversation \<Rightarrow> db \<Rightarrow> handoff list" where
  "open_cases c d = filter (\<lambda>h. ho_conversation_id h = cv_id c \<and> ho_status h \<in> {HO_PENDING, HO_TAKEN}) (db_handoffs d)"

definition ack_evidence_verdict :: "conversation \<Rightarrow> outbox \<Rightarrow> int \<Rightarrow> db \<Rightarrow> verdict" where
  "ack_evidence_verdict c row evidence_id d =
     (case get_row pe_id evidence_id (db_evidence d) of
        None \<Rightarrow> Stop SUPPRESSED ''PAYMENT_ACK_EVIDENCE_UNLINKED''
      | Some e \<Rightarrow>
          (case pe_reservation_id e of
             None \<Rightarrow> Stop SUPPRESSED ''PAYMENT_ACK_EVIDENCE_UNLINKED''
           | Some rk \<Rightarrow>
               if pe_conversation_id e \<noteq> cv_id c \<or> pe_customer_id e \<noteq> cv_customer_id c \<or>
                  pe_message_id e \<noteq> ob_message_id row
               then Stop SUPPRESSED ''PAYMENT_ACK_EVIDENCE_UNLINKED''
               else if (case get_row rv_id rk (db_reservations d) of None \<Rightarrow> True
                        | Some r \<Rightarrow> rv_customer_id r \<noteq> cv_customer_id c)
               then Stop SUPPRESSED ''PAYMENT_ACK_RESERVATION_UNRELATED''
               else if (case get_row ms_id (pe_message_id e) (db_messages d) of None \<Rightarrow> True
                        | Some m \<Rightarrow> ms_direction m \<noteq> ''INBOUND'' \<or> ms_message_type m \<noteq> ''image'' \<or>
                            ms_customer_id m \<noteq> cv_customer_id c \<or> ms_conversation_id m \<noteq> cv_id c)
               then Stop SUPPRESSED ''PAYMENT_ACK_NOT_IMAGE''
               else Eligible ''AUTHORIZED_PAYMENT_EVIDENCE_ACK''))"

definition payment_ack_eligibility :: "conversation \<Rightarrow> outbox \<Rightarrow> json \<Rightarrow> db \<Rightarrow> verdict" where
  "payment_ack_eligibility c row context d =
     (if jget ''purpose'' context \<noteq> JStr ''EVIDENCE_RECEIPT'' then Stop SUPPRESSED ''PAYMENT_ACK_INVALID_PURPOSE''
      else case (jget ''evidence_id'' context, jget ''handoff_id'' context) of
          (JInt evidence_id, JInt case_id) \<Rightarrow>
            if cv_state c = HUMAN_ACTIVE then Stop SUPPRESSED ''PAYMENT_ACK_HUMAN_ACTIVE''
            else if cv_state c = CLOSED then Stop SUPPRESSED ''PAYMENT_ACK_CLOSED''
            else if cv_state c \<noteq> WAITING_FOR_HUMAN then Stop SUPPRESSED ''PAYMENT_ACK_WAIT_ENDED''
            else if \<not> cv_bot_enabled c then Stop SUPPRESSED ''PAYMENT_ACK_BOT_DISABLED''
            else let cases = open_cases c d in
              if list_ex (\<lambda>h. ho_status h = HO_TAKEN) cases then Stop SUPPRESSED ''PAYMENT_ACK_HANDOFF_TAKEN''
              else (case cases of
                  [h] \<Rightarrow> if ho_reason h \<noteq> ''PAYMENT_REVIEW'' \<or> ho_id h \<noteq> case_id
                         then Stop SUPPRESSED ''PAYMENT_ACK_OTHER_HANDOFF''
                         else ack_evidence_verdict c row evidence_id d
                | _ \<Rightarrow> Stop SUPPRESSED ''PAYMENT_ACK_OTHER_HANDOFF'')
        | _ \<Rightarrow> Stop SUPPRESSED ''PAYMENT_ACK_INVALID_PROOF'')"

text \<open>The two automatic origins: what is proven of the origin itself, then of the automation period.\<close>

definition handoff_notice_verdict :: "conversation \<Rightarrow> json \<Rightarrow> db \<Rightarrow> (stop \<times> string) option" where
  "handoff_notice_verdict c context d =
     (case jget ''case_id'' context of
        JInt k \<Rightarrow>
          if jget ''purpose'' context \<noteq> JStr ''TRANSFER'' then Some (REVIEW, ''HANDOFF_NOTICE_UNPROVEN'')
          else (case get_row ho_id k (db_handoffs d) of
              None \<Rightarrow> Some (REVIEW, ''HANDOFF_NOTICE_UNRELATED'')
            | Some h \<Rightarrow>
                if ho_conversation_id h \<noteq> cv_id c then Some (REVIEW, ''HANDOFF_NOTICE_UNRELATED'')
                else if ho_status h \<noteq> HO_PENDING \<or> cv_state c \<noteq> WAITING_FOR_HUMAN
                then Some (SUPPRESSED, ''HANDOFF_WAIT_ENDED'') else None)
      | _ \<Rightarrow> Some (REVIEW, ''HANDOFF_NOTICE_UNPROVEN''))"

definition period_verdict :: "conversation \<Rightarrow> string \<Rightarrow> json \<Rightarrow> verdict" where
  "period_verdict c origin context =
     (case jget ''epoch'' context of
        JStr ep \<Rightarrow>
          if ep \<noteq> uuid_str (cv_automation_epoch c) then Stop SUPPRESSED ''AUTOMATION_PERIOD_REVOKED''
          else if origin = ''AUTO'' \<and> (\<not> cv_bot_enabled c \<or> paused (cv_state c))
          then Stop SUPPRESSED ''AUTOMATION_PAUSED''
          else Eligible ''CURRENT_AUTOMATION_PERIOD''
      | _ \<Rightarrow> Stop REVIEW ''AUTOMATION_PERIOD_UNPROVEN'')"

definition context_verdict :: "conversation \<Rightarrow> outbox \<Rightarrow> json \<Rightarrow> db \<Rightarrow> verdict" where
  "context_verdict c row context d =
     (if \<not> is_obj context then Stop REVIEW ''INVALID_DELIVERY_CONTEXT''
      else case jget ''origin'' context of
        JStr origin \<Rightarrow>
          if origin = ''HUMAN_REPLY'' then
            (if jget ''purpose'' context \<noteq> JStr ''REPLY'' \<or> human_proof row d = None
             then Stop REVIEW ''HUMAN_ORIGIN_UNPROVEN'' else Eligible ''AUTHORIZED_HUMAN_REPLY'')
          else if origin = ''PAYMENT_EVIDENCE_ACK'' then payment_ack_eligibility c row context d
          else if origin = ''PAYMENT_REVIEW_RESULT'' then
            (if payment_decision_proven c row context d then Eligible ''AUTHORIZED_PAYMENT_DECISION''
             else Stop REVIEW ''PAYMENT_DECISION_UNPROVEN'')
          else if origin \<notin> {''AUTO'', ''HANDOFF_NOTICE''} then Stop REVIEW ''UNKNOWN_DELIVERY_ORIGIN''
          else (case (if origin = ''HANDOFF_NOTICE'' then handoff_notice_verdict c context d
                      else if jget ''purpose'' context \<notin> {JStr ''TEMPLATE'', JStr ''CATALOG''}
                      then Some (REVIEW, ''AUTOMATIC_PURPOSE_UNPROVEN'') else None) of
                  Some (s, reason) \<Rightarrow> Stop s reason
                | None \<Rightarrow> period_verdict c origin context)
      | _ \<Rightarrow> Stop REVIEW ''INVALID_DELIVERY_ORIGIN'')"

text \<open>A legacy row without context is adopted as a human reply when its audit proves it.\<close>

definition eligibility :: "conversation \<Rightarrow> outbox \<Rightarrow> db \<Rightarrow> verdict \<times> outbox" where
  "eligibility c row d =
     (case ob_delivery_context row of
        None \<Rightarrow>
          (case human_proof row d of
             None \<Rightarrow> (Stop REVIEW ''LEGACY_ORIGIN_UNPROVEN'', row)
           | Some proof \<Rightarrow>
               let context = JObj [(''origin'', JStr ''HUMAN_REPLY''), (''purpose'', JStr ''REPLY''),
                                   (''legacy_proof'', JInt proof)];
                   row1 = row\<lparr>ob_delivery_context := Some context\<rparr>
               in (context_verdict c row1 context d, row1))
      | Some context \<Rightarrow> (context_verdict c row context d, row))"

section \<open>Decision\<close>

definition admission_phase :: "outbox \<Rightarrow> json" where
  "admission_phase row = (case ob_send_admission row of
     Some j \<Rightarrow> if is_obj j then jget ''phase'' j else JNull | None \<Rightarrow> JNull)"

fun stop_status :: "stop \<Rightarrow> outbox_status" where
  "stop_status SUPPRESSED = OB_SUPPRESSED"
| "stop_status REVIEW = OB_REVIEW"

definition stop_delivery :: "outbox \<Rightarrow> stop \<Rightarrow> string \<Rightarrow> instant \<Rightarrow> outbox" where
  "stop_delivery row result reason now =
     (let (result', reason') = (if admission_phase row \<in> {JStr ''ADMITTED'', JStr ''UNKNOWN''}
            then (REVIEW, ''EXTERNAL_RESULT_UNCERTAIN_'' @ reason) else (result, reason))
      in row\<lparr>ob_status := stop_status result', ob_delivery_reason := Some reason',
             ob_delivery_decided_at := Some now, ob_claim_token := None, ob_claimed_at := None,
             ob_next_attempt_at := None\<rparr>)"

datatype decision = DC_ELIGIBLE | DC_ADMITTED | DC_SUPPRESSED | DC_REVIEW | DC_DISCARDED

definition stopped_decision :: "outbox \<Rightarrow> decision" where
  "stopped_decision row = (if ob_status row = OB_SUPPRESSED then DC_SUPPRESSED else DC_REVIEW)"

definition admission_value :: "uuid \<Rightarrow> uuid \<Rightarrow> instant \<Rightarrow> json" where
  "admission_value u claim_token now = JObj [(''id'', JStr (uuid_str u)),
     (''claim_token'', JStr (uuid_str claim_token)), (''at'', JStr (instant_iso now)),
     (''phase'', JStr ''ADMITTED'')]"

definition decide :: "int \<Rightarrow> uuid \<Rightarrow> bool \<Rightarrow> db \<Rightarrow> decision \<times> db" where
  "decide k claim_token admit d =
     (case lock_delivery_row k d of
        None \<Rightarrow> (DC_DISCARDED, d)
      | Some (c, row) \<Rightarrow>
          if ob_status row \<noteq> OB_SENDING \<or> ob_claim_token row \<noteq> Some claim_token then (DC_DISCARDED, d)
          else if admission_phase row = JStr ''ADMITTED'' then (DC_DISCARDED, d)
          else (case eligibility c row d of
              (Stop result reason, row1) \<Rightarrow>
                let row2 = stop_delivery row1 result reason (db_clock d)
                in (stopped_decision row2, put_outbox row2 d)
            | (Eligible _, row1) \<Rightarrow>
                if \<not> admit then (DC_ELIGIBLE, put_outbox row1 d)
                else (case uuid4 d of (u, d1) \<Rightarrow>
                  (DC_ADMITTED, put_outbox (row1\<lparr>ob_send_admission :=
                     Some (admission_value u claim_token (db_clock d1))\<rparr>) d1))))"

definition admit_outbox :: "int \<Rightarrow> uuid \<Rightarrow> db \<Rightarrow> decision \<times> db" where
  "admit_outbox k claim_token d = decide k claim_token True d"

definition check_outbox :: "int \<Rightarrow> uuid \<Rightarrow> db \<Rightarrow> decision \<times> db" where
  "check_outbox k claim_token d = decide k claim_token False d"

definition with_phase :: "string \<Rightarrow> json option \<Rightarrow> json" where
  "with_phase phase admission =
     jset ''phase'' (JStr phase) (case admission of Some j \<Rightarrow> if is_obj j then j else JObj [] | None \<Rightarrow> JObj [])"

definition reject_media_admission :: "int \<Rightarrow> uuid \<Rightarrow> db \<Rightarrow> bool \<times> db" where
  "reject_media_admission k claim_token d =
     (case lock_delivery_row k d of
        None \<Rightarrow> (False, d)
      | Some (_, row) \<Rightarrow>
          if ob_status row \<noteq> OB_SENDING \<or> ob_claim_token row \<noteq> Some claim_token then (False, d)
          else (True, put_outbox (row\<lparr>ob_send_admission :=
                 Some (with_phase ''REJECTED_MEDIA'' (ob_send_admission row))\<rparr>) d))"

section \<open>Facts\<close>

lemma lock_delivery_row_SomeD:
  "lock_delivery_row k d = Some (c, row) \<Longrightarrow>
     get_row ob_id k (db_outbox d) = Some row \<and> ob_id row = k \<and>
     get_row cv_id (ob_conversation_id row) (db_conversations d) = Some c"
  by (auto simp: lock_delivery_row_def split: option.splits dest: get_row_SomeD)

lemma context_verdict_auto:
  assumes "context_verdict c row context d = Eligible reason"
    and "jget ''origin'' context = JStr ''AUTO''"
  shows "cv_bot_enabled c \<and> \<not> paused (cv_state c) \<and>
    jget ''epoch'' context = JStr (uuid_str (cv_automation_epoch c)) \<and>
    jget ''purpose'' context \<in> {JStr ''TEMPLATE'', JStr ''CATALOG''}"
  using assms
  by (auto simp: context_verdict_def period_verdict_def split: if_splits json.splits option.splits)

text \<open>Every eligible output has an origin that the database proves.\<close>

definition authorized :: "conversation \<Rightarrow> outbox \<Rightarrow> json \<Rightarrow> db \<Rightarrow> bool" where
  "authorized c row context d \<longleftrightarrow>
     (case jget ''origin'' context of
        JStr origin \<Rightarrow>
          (origin = ''HUMAN_REPLY'' \<and> human_proof row d \<noteq> None) \<or>
          (origin = ''PAYMENT_REVIEW_RESULT'' \<and> payment_decision_proven c row context d) \<or>
          (origin = ''PAYMENT_EVIDENCE_ACK'' \<and> cv_state c = WAITING_FOR_HUMAN \<and> cv_bot_enabled c \<and>
             (\<exists>h. open_cases c d = [h] \<and> ho_reason h = ''PAYMENT_REVIEW'' \<and> ho_status h \<noteq> HO_TAKEN)) \<or>
          (origin = ''HANDOFF_NOTICE'' \<and> cv_state c = WAITING_FOR_HUMAN \<and>
             jget ''epoch'' context = JStr (uuid_str (cv_automation_epoch c))) \<or>
          (origin = ''AUTO'' \<and> cv_bot_enabled c \<and> \<not> paused (cv_state c) \<and>
             jget ''epoch'' context = JStr (uuid_str (cv_automation_epoch c)))
      | _ \<Rightarrow> False)"

lemma ack_eligible:
  assumes "payment_ack_eligibility c row context d = Eligible reason"
  shows "cv_state c = WAITING_FOR_HUMAN \<and> cv_bot_enabled c \<and>
    (\<exists>h. open_cases c d = [h] \<and> ho_reason h = ''PAYMENT_REVIEW'' \<and> ho_status h \<noteq> HO_TAKEN)"
  using assms
  by (auto simp: payment_ack_eligibility_def Let_def split: if_splits json.splits list.splits)

lemma handoff_notice_ok:
  "handoff_notice_verdict c context d = None \<Longrightarrow> cv_state c = WAITING_FOR_HUMAN"
  by (auto simp: handoff_notice_verdict_def split: if_splits json.splits option.splits)

lemma period_eligible:
  "period_verdict c origin context = Eligible reason \<Longrightarrow>
     jget ''epoch'' context = JStr (uuid_str (cv_automation_epoch c)) \<and>
     (origin = ''AUTO'' \<longrightarrow> cv_bot_enabled c \<and> \<not> paused (cv_state c))"
  by (auto simp: period_verdict_def split: if_splits json.splits)

lemma context_verdict_authorized:
  assumes e: "context_verdict c row context d = Eligible reason"
  shows "authorized c row context d"
proof -
  obtain origin where o: "jget ''origin'' context = JStr origin"
    using e by (cases "jget ''origin'' context") (auto simp: context_verdict_def split: if_splits)
  consider "origin = ''HUMAN_REPLY''" | "origin = ''PAYMENT_EVIDENCE_ACK''" | "origin = ''PAYMENT_REVIEW_RESULT''"
    | "origin = ''AUTO''" | "origin = ''HANDOFF_NOTICE''"
    using e o by (auto simp: context_verdict_def split: if_splits)
  then show ?thesis
  proof cases
    case 1
    with e o show ?thesis by (auto simp: context_verdict_def authorized_def split: if_splits)
  next
    case 2
    with e o have "payment_ack_eligibility c row context d = Eligible reason"
      by (auto simp: context_verdict_def split: if_splits)
    from ack_eligible [OF this] 2 o show ?thesis by (simp add: authorized_def)
  next
    case 3
    with e o show ?thesis by (auto simp: context_verdict_def authorized_def split: if_splits)
  next
    case 4
    with context_verdict_auto [OF e] o show ?thesis by (simp add: authorized_def)
  next
    case 5
    with e o have "handoff_notice_verdict c context d = None" "period_verdict c origin context = Eligible reason"
      by (auto simp: context_verdict_def split: if_splits option.splits)
    with handoff_notice_ok period_eligible 5 o show ?thesis by (auto simp: authorized_def)
  qed
qed

lemma eligibility_authorized:
  assumes "eligibility c row d = (Eligible reason, row')"
  shows "\<exists>context. ob_delivery_context row' = Some context \<and> authorized c row' context d \<and>
    (ob_delivery_context row \<noteq> None \<longrightarrow> row' = row) \<and>
    row' = row\<lparr>ob_delivery_context := Some context\<rparr>"
  using assms
  by (auto simp: eligibility_def Let_def split: option.splits dest: context_verdict_authorized)

lemma eligibility_row:
  "snd (eligibility c row d) = row\<lparr>ob_delivery_context := ob_delivery_context (snd (eligibility c row d))\<rparr>"
  by (auto simp: eligibility_def Let_def split: option.splits)

lemma admission_value_phase: "jget ''phase'' (admission_value u t now) = JStr ''ADMITTED'' \<and> is_obj (admission_value u t now)"
  by (simp add: admission_value_def jget_JObj)

lemma put_outbox_frame [simp]:
  "db_conversations (put_outbox r d) = db_conversations d" "db_customers (put_outbox r d) = db_customers d"
  "db_outbox (put_outbox r d) = put_row ob_id r (db_outbox d)" "db_clock (put_outbox r d) = db_clock d"
  "db_handoffs (put_outbox r d) = db_handoffs d" "db_audit (put_outbox r d) = db_audit d"
  "db_evidence (put_outbox r d) = db_evidence d" "db_messages (put_outbox r d) = db_messages d"
  "db_reservations (put_outbox r d) = db_reservations d"
  by (simp_all add: put_outbox_def)

lemma lock_after_put:
  assumes "lock_delivery_row k d = Some (c, row)" and "ob_id row' = k"
    and "ob_conversation_id row' = ob_conversation_id row" and "db_conversations d' = db_conversations d"
    and "db_customers d' = db_customers d" and "db_outbox d' = put_row ob_id row' (db_outbox d)"
  shows "lock_delivery_row k d' = Some (c, row')"
  using assms by (auto simp: lock_delivery_row_def get_put_row split: option.splits)

text \<open>An admission leaves the phase ADMITTED on the row, which every later decision discards.\<close>

lemma decide_admittedD:
  assumes "decide k t a d = (DC_ADMITTED, d')"
  shows "\<exists>c row u. lock_delivery_row k d = Some (c, row) \<and> ob_status row = OB_SENDING \<and>
    ob_claim_token row = Some t \<and> admission_phase row \<noteq> JStr ''ADMITTED'' \<and>
    (\<exists>reason row1. eligibility c row d = (Eligible reason, row1) \<and>
       lock_delivery_row k d' = Some (c, row1\<lparr>ob_send_admission := Some (admission_value u t (db_clock d))\<rparr>))"
proof -
  from assms obtain c row where lock: "lock_delivery_row k d = Some (c, row)"
    by (cases "lock_delivery_row k d") (auto simp: decide_def)
  from assms lock have own: "ob_status row = OB_SENDING" "ob_claim_token row = Some t"
    "admission_phase row \<noteq> JStr ''ADMITTED''"
    by (auto simp: decide_def split: if_splits)
  obtain v row1 where el: "eligibility c row d = (v, row1)" by fastforce
  have row1: "row1 = row\<lparr>ob_delivery_context := ob_delivery_context row1\<rparr>"
    using eligibility_row [of c row d] el by simp
  have ids: "ob_id row1 = k" "ob_conversation_id row1 = ob_conversation_id row"
    using row1 lock_delivery_row_SomeD [OF lock] by (metis outbox.select_convs(1) outbox.surjective outbox.update_convs(15))
       (metis row1 outbox.select_convs(2) outbox.surjective outbox.update_convs(15))
  show ?thesis
  proof (cases v)
    case (Stop s r)
    with assms lock own el show ?thesis by (auto simp: decide_def Let_def stopped_decision_def split: if_splits)
  next
    case (Eligible reason)
    with assms lock own el have d': "d' = put_outbox (row1\<lparr>ob_send_admission :=
        Some (admission_value (fst (uuid4 d)) t (db_clock d))\<rparr>) (snd (uuid4 d))"
      by (auto simp: decide_def uuid4_def split: if_splits)
    have "lock_delivery_row k d' = Some (c, row1\<lparr>ob_send_admission :=
        Some (admission_value (fst (uuid4 d)) t (db_clock d))\<rparr>)"
      by (rule lock_after_put [OF lock]) (simp_all add: d' uuid4_def ids)
    with lock own el Eligible show ?thesis by blast
  qed
qed

lemma decide_discards_admitted:
  "lock_delivery_row k d = Some (c, row) \<Longrightarrow> admission_phase row = JStr ''ADMITTED'' \<Longrightarrow>
     decide k t a d = (DC_DISCARDED, d)"
  by (simp add: decide_def)

section \<open>Automation periods\<close>

text \<open>Along a run of transitions the epoch stays or is drawn anew; once a pause was entered it is new.\<close>

lemma set_state_draws:
  "set_state s c d = (c', d') \<Longrightarrow> db_entropy d' = db_entropy d \<and> db_draws d \<le> db_draws d' \<and>
     (cv_automation_epoch c' = cv_automation_epoch c \<or>
      cv_automation_epoch c' = db_entropy d (db_draws d) \<and> db_draws d < db_draws d')"
  by (auto simp: set_state_def uuid4_def put_conversation_def Let_def split: if_splits)

lemma transition_epoch:
  assumes "transition_conversation c t actor reason req d = Inr (c', d')"
  shows "db_entropy d' = db_entropy d \<and> db_draws d \<le> db_draws d' \<and> cv_state c' = t \<and>
    (if t \<noteq> cv_state c \<and> (paused t \<or> paused (cv_state c))
     then cv_automation_epoch c' = db_entropy d (db_draws d)
     else cv_automation_epoch c' = cv_automation_epoch c)"
proof -
  obtain c1 d1 where s: "set_state t c d = (c1, d1)" by fastforce
  with assms have "c1 = c'" "db_entropy d' = db_entropy d1" "db_draws d' = db_draws d1"
    by (auto simp: transition_conversation_def Let_def split: if_splits)
  with set_state_draws [OF s] set_state_epoch [OF s] set_stateD [OF s] show ?thesis by auto
qed

lemma run_epoch:
  "conv.run x ts y \<Longrightarrow> db_entropy (snd y) = db_entropy (snd x) \<and> db_draws (snd x) \<le> db_draws (snd y) \<and>
     (cv_automation_epoch (fst y) = cv_automation_epoch (fst x) \<or>
      (\<exists>n \<ge> db_draws (snd x). cv_automation_epoch (fst y) = db_entropy (snd x) n))"
proof (induction rule: conv.run.induct)
  case (run_step t x y ts z)
  obtain c d c1 d1 where xy: "x = (c, d)" "y = (c1, d1)" by (cases x, cases y)
  with run_step.hyps(1) obtain actor reason req where
    "transition_conversation c t actor reason req d = Inr (c1, d1)" by auto
  note e = transition_epoch [OF this]
  have step: "db_entropy d1 = db_entropy d" "db_draws d \<le> db_draws d1"
    "cv_automation_epoch c1 = cv_automation_epoch c \<or> cv_automation_epoch c1 = db_entropy d (db_draws d)"
    using e by (auto split: if_splits)
  note ih = run_step.IH [unfolded xy, simplified]
  have "db_entropy (snd z) = db_entropy d" "db_draws d \<le> db_draws (snd z)"
    using ih step by auto
  moreover have "cv_automation_epoch (fst z) = cv_automation_epoch c \<or>
      (\<exists>n \<ge> db_draws d. cv_automation_epoch (fst z) = db_entropy d n)"
  proof (cases "cv_automation_epoch (fst z) = cv_automation_epoch c1")
    case True
    with step(3) show ?thesis by auto
  next
    case False
    with ih obtain n where "n \<ge> db_draws d1" "cv_automation_epoch (fst z) = db_entropy d1 n" by auto
    with step(1,2) show ?thesis using order_trans by auto
  qed
  ultimately show ?case using xy by simp
qed simp

lemma run_pause_epoch:
  "conv.run x ts y \<Longrightarrow> \<not> paused (cv_state (fst x)) \<Longrightarrow> \<exists>t \<in> set ts. paused t \<Longrightarrow>
     \<exists>n \<ge> db_draws (snd x). cv_automation_epoch (fst y) = db_entropy (snd x) n"
proof (induction rule: conv.run.induct)
  case (run_step t x y ts z)
  obtain c d c1 d1 where xy: "x = (c, d)" "y = (c1, d1)" by (cases x, cases y)
  with run_step.hyps(1) obtain actor reason req where
    "transition_conversation c t actor reason req d = Inr (c1, d1)" by auto
  note e = transition_epoch [OF this]
  have step: "db_entropy d1 = db_entropy d" "db_draws d \<le> db_draws d1" "cv_state c1 = t"
    using e by auto
  show ?case
  proof (cases "paused t")
    case True
    with run_step.prems xy have "t \<noteq> cv_state c" by auto
    with e True have new: "cv_automation_epoch c1 = db_entropy d (db_draws d)" by simp
    from run_epoch [OF run_step.hyps(2)] xy
    have "cv_automation_epoch (fst z) = cv_automation_epoch c1 \<or>
        (\<exists>n \<ge> db_draws d1. cv_automation_epoch (fst z) = db_entropy d1 n)" by simp
    then show ?thesis
    proof
      assume "cv_automation_epoch (fst z) = cv_automation_epoch c1"
      with new xy show ?thesis by auto
    next
      assume "\<exists>n \<ge> db_draws d1. cv_automation_epoch (fst z) = db_entropy d1 n"
      then obtain n where "n \<ge> db_draws d1" "cv_automation_epoch (fst z) = db_entropy d1 n" by blast
      with step(1,2) xy show ?thesis using order_trans by auto
    qed
  next
    case False
    with run_step.prems step(3) have "\<not> paused (cv_state c1)" "\<exists>t \<in> set ts. paused t" by auto
    with run_step.IH xy obtain n where "n \<ge> db_draws d1" "cv_automation_epoch (fst z) = db_entropy d1 n" by auto
    with step(1,2) xy show ?thesis using order_trans by auto
  qed
qed simp

lemma authorized_admission [simp]:
  "authorized c (row\<lparr>ob_send_admission := x\<rparr>) context d = authorized c row context d"
proof -
  have "proves_human (row\<lparr>ob_send_admission := x\<rparr>) = proves_human row"
    by (rule ext) (simp add: proves_human_def split: option.split)
  then have "human_proof (row\<lparr>ob_send_admission := x\<rparr>) d = human_proof row d"
    by (simp add: human_proof_def)
  moreover have "payment_decision_proven c (row\<lparr>ob_send_admission := x\<rparr>) context d = payment_decision_proven c row context d"
    by (simp add: payment_decision_proven_def split: json.split option.split)
  ultimately show ?thesis by (simp add: authorized_def split: json.split)
qed

section \<open>Properties\<close>

text \<open>An output being sent with lease 5, whose text the bot produced for the sample conversation.\<close>

definition sample_outbox :: outbox where
  "sample_outbox = \<lparr>ob_id = 91, ob_conversation_id = 1, ob_message_id = 71,
     ob_recipient_phone_number = ''+573001112233'', ob_payload = JObj [(''body'', JStr ''hola'')],
     ob_message_kind = KIND_TEXT, ob_catalog_asset_id = None, ob_status = OB_SENDING, ob_attempts = 1,
     ob_last_error = None, ob_sent_at = None, ob_next_attempt_at = None, ob_claimed_at = Some sample_now,
     ob_claim_token = Some 5, ob_delivery_context = Some (automatic_context sample_conversation ''TEMPLATE''),
     ob_send_admission = None, ob_delivery_reason = None, ob_delivery_decided_at = None,
     ob_created_at = sample_now\<rparr>"

definition outbox_db :: db where
  "outbox_db = sample_db\<lparr>db_outbox := [sample_outbox]\<rparr>"

lemma outbox_db_simps [simp]:
  "db_outbox outbox_db = [sample_outbox]" "db_conversations outbox_db = [sample_conversation]"
  "db_customers outbox_db = [sample_customer]" "db_clock outbox_db = sample_now"
  "db_handoffs outbox_db = []" "db_draws outbox_db = 0" "db_entropy outbox_db = sample_entropy"
  by (simp_all add: outbox_db_def)

lemma sample_admitted: "fst (decide 91 5 True outbox_db) = DC_ADMITTED"
  by (simp add: decide_def lock_delivery_row_def get_row_Cons sample_outbox_def sample_conversation_def
      sample_customer_def eligibility_def context_verdict_def period_verdict_def automatic_context_def
      admission_phase_def uuid4_def jget_JObj)



text \<open>An attempt is admitted at most once: after an admission every further decision on it, with any
  lease and in either mode, discards it and changes nothing.\<close>

theorem admitted_once:
  assumes "decide k t a d = (DC_ADMITTED, d')"
  shows "decide k u b d' = (DC_DISCARDED, d')"
proof -
  from decide_admittedD [OF assms] obtain c row w where
    "lock_delivery_row k d' = Some (c, row\<lparr>ob_send_admission := Some (admission_value w t (db_clock d))\<rparr>)"
    by blast
  from decide_discards_admitted [OF this] show ?thesis
    by (simp add: admission_phase_def admission_value_phase)
qed

lemma admitted_once_witness:
  "\<exists>d'. decide 91 5 True outbox_db = (DC_ADMITTED, d') \<and> decide 91 5 True d' = (DC_DISCARDED, d')"
proof -
  obtain d' where d: "decide 91 5 True outbox_db = (DC_ADMITTED, d')"
    using sample_admitted by (metis prod.collapse)
  with admitted_once [OF d] show ?thesis by blast
qed

text \<open>C20. A pause revokes what the bot had queued: once a run of transitions has entered a paused state,
  an output authorized in the earlier automation period is suppressed for good, also after the
  conversation is back with the bot (uuid4 does not draw the old period again).\<close>

theorem pause_revokes:
  assumes "conv.run (c, d) ts (c', d')" and "\<not> paused (cv_state c)" and "\<exists>t \<in> set ts. paused t"
    and "\<forall>n \<ge> db_draws d. db_entropy d n \<noteq> cv_automation_epoch c"
    and "ob_delivery_context row = Some (automatic_context c purpose)" and "purpose = ''TEMPLATE'' \<or> purpose = ''CATALOG''"
  shows "eligibility c' row e = (Stop SUPPRESSED ''AUTOMATION_PERIOD_REVOKED'', row)"
proof -
  from run_pause_epoch [OF assms(1)] assms(2,3)
  obtain n where "n \<ge> db_draws d" "cv_automation_epoch c' = db_entropy d n" by auto
  with assms(4) have "uuid_str (cv_automation_epoch c) \<noteq> uuid_str (cv_automation_epoch c')"
    by (auto simp: uuid_str_inj)
  with assms(5,6) show ?thesis
    by (auto simp: eligibility_def context_verdict_def period_verdict_def automatic_context_def jget_JObj)
qed

lemma pause_revokes_witness:
  "\<exists>c' d'. conv.run (sample_conversation, sample_db\<lparr>db_entropy := \<lambda>_. 8\<rparr>) [WAITING_FOR_HUMAN, BOT_ACTIVE] (c', d') \<and>
     cv_state c' = BOT_ACTIVE \<and>
     eligibility c' sample_outbox d' = (Stop SUPPRESSED ''AUTOMATION_PERIOD_REVOKED'', sample_outbox)"
proof -
  let ?d = "sample_db\<lparr>db_entropy := \<lambda>_. 8\<rparr>"
  obtain c1 d1 where t1: "transition_conversation sample_conversation WAITING_FOR_HUMAN ''S'' None None ?d = Inr (c1, d1)"
    using transition_conversation_iff [of sample_conversation WAITING_FOR_HUMAN "''S''" None None ?d]
    by (auto simp: sample_conversation_def)
  then have s1: "cv_state c1 = WAITING_FOR_HUMAN" by (auto dest: transition_conversation_InrD)
  then obtain c2 d2 where t2: "transition_conversation c1 BOT_ACTIVE ''S'' None None d1 = Inr (c2, d2)"
    using transition_conversation_iff [of c1 BOT_ACTIVE "''S''" None None d1] by auto
  then have s2: "cv_state c2 = BOT_ACTIVE" by (auto dest: transition_conversation_InrD)
  from t1 t2 have r: "conv.run (sample_conversation, ?d) [WAITING_FOR_HUMAN, BOT_ACTIVE] (c2, d2)"
    by (intro conv.run_step [OF _ conv.run_step [OF _ conv.run_nil]]) auto
  have "eligibility c2 sample_outbox d2 = (Stop SUPPRESSED ''AUTOMATION_PERIOD_REVOKED'', sample_outbox)"
    by (rule pause_revokes [OF r, where purpose = "''TEMPLATE''"])
       (simp_all add: sample_conversation_def sample_outbox_def)
  with r s2 show ?thesis by blast
qed

text \<open>Once the provider may have received an output, stopping it never claims that it was not sent:
  the row goes to review as uncertain, whatever the verdict, and leaves its lease.\<close>

theorem stop_after_admission:
  "let row' = stop_delivery row result reason now in
     ob_claim_token row' = None \<and> ob_status row' \<noteq> OB_SENDING \<and>
     ob_send_admission row' = ob_send_admission row \<and>
     (if admission_phase row = JStr ''ADMITTED'' \<or> admission_phase row = JStr ''UNKNOWN''
      then ob_status row' = OB_REVIEW \<and> ob_delivery_reason row' = Some (''EXTERNAL_RESULT_UNCERTAIN_'' @ reason)
      else ob_status row' = stop_status result \<and> ob_delivery_reason row' = Some reason)"
  by (cases result) (simp_all add: stop_delivery_def Let_def)

end
