(* ===== verification/Media.thy ===== *)
theory Media
  imports Samples
begin

text \<open>
  \<open>app/channel/media.py\<close>: the cached upload of a catalogue file. The provider, the file system and
  SHA-256 are outside the program: the record \<open>provider\<close> holds them. A call to the provider returns
  when it returns: meanwhile the rest of the system may have changed the database, so each call
  takes the database and gives it back.
\<close>

section \<open>The provider\<close>

text \<open>\<open>WhatsAppInvalidMediaError\<close>, \<open>PermanentCatalogMediaError\<close> and every other exception, with their text.\<close>

datatype item_error = InvalidMediaError string | PermanentCatalogMediaError string | ItemError string

fun item_error_str :: "item_error \<Rightarrow> string" where
  "item_error_str (InvalidMediaError m) = m"
| "item_error_str (PermanentCatalogMediaError m) = m"
| "item_error_str (ItemError m) = m"

text \<open>\<open>pv_sha256_file\<close> is None when the path is not an existing file.\<close>

record 'w provider =
  pv_send_text :: "string \<Rightarrow> string \<Rightarrow> db \<Rightarrow> 'w \<Rightarrow> (item_error, string) result \<times> db \<times> 'w"
  pv_send_document :: "string \<Rightarrow> string \<Rightarrow> string \<Rightarrow> string \<Rightarrow> db \<Rightarrow> 'w \<Rightarrow> (item_error, string) result \<times> db \<times> 'w"
  pv_upload_media :: "string \<Rightarrow> string \<Rightarrow> db \<Rightarrow> 'w \<Rightarrow> (item_error, string) result \<times> db \<times> 'w"
  pv_sha256_file :: "string \<Rightarrow> string option"

section \<open>File names\<close>

definition alnum :: "nat \<Rightarrow> bool" where
  "alnum c \<longleftrightarrow> 97 \<le> c \<and> c \<le> 122 \<or> 48 \<le> c \<and> c \<le> 57"

text \<open>\<open>re.sub(r"[^a-z0-9]+", "-", ...)\<close>; the flag says that the last character read was replaced.\<close>

fun slug :: "bool \<Rightarrow> nat list \<Rightarrow> string" where
  "slug gap [] = []"
| "slug gap (c # cs) =
     (if alnum c then char_of c # slug False cs
      else if gap then slug True cs else CHR ''-'' # slug True cs)"

definition strip_dashes :: "string \<Rightarrow> string" where
  "strip_dashes s = rev (dropWhile (\<lambda>c. c = CHR ''-'') (rev (dropWhile (\<lambda>c. c = CHR ''-'') s)))"

definition ends_with :: "string \<Rightarrow> string \<Rightarrow> bool" where
  "ends_with suffix s \<longleftrightarrow> is_prefix (rev suffix) (rev s)"

definition normalized_pdf_filename :: "ucd \<Rightarrow> string \<Rightarrow> string" where
  "normalized_pdf_filename u name =
     (let stem = strip_dashes (slug False (concat (map (uc_casefold u) (utf8_decode (strip name)))));
          stem1 = (if stem = [] then ''catalogo'' else stem);
          stem2 = (if ends_with ''-pdf'' stem1 then take (length stem1 - 4) stem1 else stem1)
      in stem2 @ ''.pdf'')"

text \<open>\<open>Path(dir) / path\<close> as a string: pathlib drops empty and \<open>.\<close> components.\<close>

definition path_parts :: "string \<Rightarrow> string list" where
  "path_parts p = filter (\<lambda>x. x \<noteq> [] \<and> x \<noteq> ''.'') (split_on CHR ''/'' p)"

definition path_root :: "string \<Rightarrow> string" where
  "path_root p = (if is_prefix ''//'' p \<and> \<not> is_prefix ''///'' p then ''//''
     else if is_prefix ''/'' p then ''/'' else [])"

definition path_str :: "string \<Rightarrow> string list \<Rightarrow> string" where
  "path_str anchor parts = (if anchor = [] \<and> parts = [] then ''.'' else anchor @ join ''/'' parts)"

definition resolve_file_path :: "settings \<Rightarrow> string \<Rightarrow> string" where
  "resolve_file_path st p =
     (if path_root p \<noteq> [] then path_str (path_root p) (path_parts p)
      else path_str (path_root (st_catalog_storage_dir st)) (path_parts (st_catalog_storage_dir st) @ path_parts p))"

section \<open>The cache\<close>

record catalog_document =
  cd_asset_id :: uuid
  cd_media_id :: string
  cd_filename :: string

definition cached_media_is_valid :: "settings \<Rightarrow> catalog_asset \<Rightarrow> instant \<Rightarrow> bool" where
  "cached_media_is_valid st a now =
     (case (ca_media_id a, ca_media_uploaded_at a) of
        (Some m, Some uploaded_at) \<Rightarrow> m \<noteq> [] \<and> now - days (st_catalog_media_ttl_days st) < uploaded_at
      | _ \<Rightarrow> False)"

definition validate_catalog_file :: "'w provider \<Rightarrow> string \<Rightarrow> string \<Rightarrow> (item_error, unit) result" where
  "validate_catalog_file pv path expected =
     (case pv_sha256_file pv path of
        None \<Rightarrow> Inl (PermanentCatalogMediaError (''Catalog file is missing: '' @ path))
      | Some h \<Rightarrow> if h \<noteq> expected
          then Inl (PermanentCatalogMediaError ''Catalog file hash does not match registered asset'') else Inr ())"

definition asset_value :: "uuid \<Rightarrow> string option \<Rightarrow> json" where
  "asset_value k m = JObj [(''catalog_asset_id'', JStr (uuid_str k)), (''media_id'', opt_json JStr m)]"

definition store_media :: "uuid \<Rightarrow> string option \<Rightarrow> string \<Rightarrow> db \<Rightarrow> (item_error, unit) result \<times> db" where
  "store_media k old media_id d =
     (case get_row ca_id k (db_catalog_assets d) of
        None \<Rightarrow> (Inl (PermanentCatalogMediaError (''Catalog asset '' @ uuid_str k @ '' disappeared'')), d)
      | Some a \<Rightarrow> (Inr (), audit ''INTEGRATION'' ''CATALOG_MEDIA_UPLOADED'' ''catalog_asset''
          (Some (JObj [(''media_id'', opt_json JStr old)])) (Some (asset_value k (Some media_id)))
          ''Catalog media cache refreshed'' None
          (put_catalog_asset (a\<lparr>ca_media_id := Some media_id, ca_media_uploaded_at := Some (db_clock d)\<rparr>) d)))"

definition resolve_document ::
  "'w provider \<Rightarrow> ucd \<Rightarrow> settings \<Rightarrow> uuid \<Rightarrow> db \<Rightarrow> 'w \<Rightarrow> (item_error, catalog_document) result \<times> db \<times> 'w"
where
  "resolve_document pv u st k d w =
     (case get_row ca_id k (db_catalog_assets d) of
        None \<Rightarrow> (Inl (PermanentCatalogMediaError (''Catalog asset '' @ uuid_str k @ '' does not exist'')), d, w)
      | Some snapshot \<Rightarrow>
          let document = (\<lambda>m. \<lparr>cd_asset_id = k, cd_media_id = m, cd_filename = normalized_pdf_filename u (ca_name snapshot)\<rparr>);
              path = resolve_file_path st (ca_file_path snapshot)
          in if cached_media_is_valid st snapshot (db_clock d)
             then (Inr (document (case ca_media_id snapshot of None \<Rightarrow> [] | Some m \<Rightarrow> m)), d, w)
             else (case validate_catalog_file pv path (ca_file_hash snapshot) of
                 Inl e \<Rightarrow> (Inl e, d, w)
               | Inr _ \<Rightarrow>
                   (case pv_upload_media pv path (ca_mime_type snapshot) d w of
                      (Inl e, d1, w1) \<Rightarrow> (Inl e, d1, w1)
                    | (Inr media_id, d1, w1) \<Rightarrow>
                        (case store_media k (ca_media_id snapshot) media_id d1 of
                           (Inl e, d2) \<Rightarrow> (Inl e, d2, w1)
                         | (Inr _, d2) \<Rightarrow> (Inr (document media_id), d2, w1)))))"

definition invalidate_media_cache :: "uuid \<Rightarrow> string \<Rightarrow> db \<Rightarrow> db" where
  "invalidate_media_cache k reason d =
     (case get_row ca_id k (db_catalog_assets d) of
        None \<Rightarrow> d
      | Some a \<Rightarrow> audit ''INTEGRATION'' ''CATALOG_MEDIA_CACHE_INVALIDATED'' ''catalog_asset''
          (Some (JObj [(''media_id'', opt_json JStr (ca_media_id a))])) (Some (asset_value k None)) reason None
          (put_catalog_asset (a\<lparr>ca_media_id := None, ca_media_uploaded_at := None\<rparr>) d))"

section \<open>Facts\<close>

lemma slug_chars: "ch \<in> set (slug gap cs) \<Longrightarrow> ch = CHR ''-'' \<or> alnum (of_char ch)"
  by (induction gap cs rule: slug.induct) (auto split: if_splits simp: alnum_def of_char_of)

lemma set_strip_dashes: "set (strip_dashes s) \<subseteq> set s"
  by (auto simp: strip_dashes_def dest!: set_dropWhileD)

lemma put_catalog_asset_frame [simp]:
  "db_outbox (put_catalog_asset a d) = db_outbox d" "db_clock (put_catalog_asset a d) = db_clock d"
  "db_conversations (put_catalog_asset a d) = db_conversations d"
  "db_customers (put_catalog_asset a d) = db_customers d"
  "db_catalog_assets (put_catalog_asset a d) = put_row ca_id a (db_catalog_assets d)"
  by (simp_all add: put_catalog_asset_def)

lemma audit_catalog_assets [simp]: "db_catalog_assets (audit a b c e f g h d) = db_catalog_assets d"
  by (simp add: audit_def audit_at_def)

lemma hd_strip: "rev (dropWhile p (rev (dropWhile p s))) \<noteq> [] \<Longrightarrow> \<not> p (hd (rev (dropWhile p (rev (dropWhile p s)))))"
proof -
  assume n: "rev (dropWhile p (rev (dropWhile p s))) \<noteq> []"
  obtain zs where "dropWhile p s = rev (dropWhile p (rev (dropWhile p s))) @ zs"
    by (metis rev_append rev_rev_ident takeWhile_dropWhile_id)
  with n have "hd (dropWhile p s) = hd (rev (dropWhile p (rev (dropWhile p s))))" "dropWhile p s \<noteq> []"
    by (metis hd_append2, force)
  then show ?thesis by (metis hd_dropWhile)
qed

lemma hd_strip_dashes: "strip_dashes s \<noteq> [] \<Longrightarrow> hd (strip_dashes s) \<noteq> CHR ''-''"
  unfolding strip_dashes_def by (rule hd_strip)

lemma is_prefix_iff: "is_prefix xs ys \<longleftrightarrow> (\<exists>zs. ys = xs @ zs)"
  by (induction xs ys rule: is_prefix.induct) auto

lemma ends_with_iff: "ends_with x s \<longleftrightarrow> (\<exists>zs. s = zs @ x)"
  by (metis ends_with_def is_prefix_iff rev_append rev_rev_ident)

lemma store_mediaD:
  "store_media k old m d = (Inr x, d') \<Longrightarrow>
     \<exists>a. get_row ca_id k (db_catalog_assets d) = Some a \<and> db_clock d' = db_clock d \<and>
       get_row ca_id k (db_catalog_assets d') =
         Some (a\<lparr>ca_media_id := Some m, ca_media_uploaded_at := Some (db_clock d)\<rparr>)"
  using get_row_SomeD [of ca_id k "db_catalog_assets d"]
  by (cases "get_row ca_id k (db_catalog_assets d)") (auto simp: store_media_def get_put_row)

text \<open>A resolution that calls the provider uploads the registered bytes and stores what it got.\<close>

lemma resolve_document_uploadD:
  assumes "resolve_document pv u st k d w = (Inr doc, d', w')" and "w' \<noteq> w"
  shows "\<exists>a a'. get_row ca_id k (db_catalog_assets d) = Some a \<and> \<not> cached_media_is_valid st a (db_clock d) \<and>
    pv_sha256_file pv (resolve_file_path st (ca_file_path a)) = Some (ca_file_hash a) \<and>
    get_row ca_id k (db_catalog_assets d') = Some a' \<and>
    ca_media_id a' = Some (cd_media_id doc) \<and> ca_media_uploaded_at a' = Some (db_clock d')"
proof -
  obtain a where a: "get_row ca_id k (db_catalog_assets d) = Some a"
    using assms(1) by (auto simp: resolve_document_def split: option.splits)
  let ?path = "resolve_file_path st (ca_file_path a)"
  have c: "\<not> cached_media_is_valid st a (db_clock d)"
    using assms a by (auto simp: resolve_document_def Let_def)
  have v: "validate_catalog_file pv ?path (ca_file_hash a) = Inr ()"
    using assms a c by (auto simp: resolve_document_def Let_def split: sum.splits)
  then have sha: "pv_sha256_file pv ?path = Some (ca_file_hash a)"
    by (auto simp: validate_catalog_file_def split: option.splits if_splits)
  obtain r d1 w1 where up: "pv_upload_media pv ?path (ca_mime_type a) d w = (r, d1, w1)" by (metis prod_cases3)
  with assms a c v obtain m where r: "r = Inr m" by (cases r) (auto simp: resolve_document_def Let_def)
  obtain s d2 where st: "store_media k (ca_media_id a) m d1 = (s, d2)" by fastforce
  with assms a c v up r obtain x where "s = Inr x" by (cases s) (auto simp: resolve_document_def Let_def)
  with assms a c v up r st have "d' = d2" "cd_media_id doc = m" "store_media k (ca_media_id a) m d1 = (Inr x, d2)"
    by (auto simp: resolve_document_def Let_def)
  with store_mediaD [OF this(3)] a c sha show ?thesis by auto
qed

section \<open>Properties\<close>

text \<open>The file name a customer sees is safe and never empty, whatever an asset is called: lower-case
  letters, digits and inner dashes, with the extension \<open>.pdf\<close>.\<close>

theorem pdf_filename_safe:
  "\<exists>stem. normalized_pdf_filename u name = stem @ ''.pdf'' \<and> stem \<noteq> [] \<and> hd stem \<noteq> CHR ''-'' \<and>
     set stem \<subseteq> {c. c = CHR ''-'' \<or> alnum (of_char c)}"
proof -
  define stem where "stem = strip_dashes (slug False (concat (map (uc_casefold u) (utf8_decode (strip name)))))"
  define stem1 where "stem1 = (if stem = [] then ''catalogo'' else stem)"
  define stem2 where "stem2 = (if ends_with ''-pdf'' stem1 then take (length stem1 - 4) stem1 else stem1)"
  have "set stem \<subseteq> {c. c = CHR ''-'' \<or> alnum (of_char c)}"
    using set_strip_dashes slug_chars by (fastforce simp: stem_def)
  moreover have "set ''catalogo'' \<subseteq> {c. c = CHR ''-'' \<or> alnum (of_char c)}" by (simp add: alnum_def)
  ultimately have chars: "set stem1 \<subseteq> {c. c = CHR ''-'' \<or> alnum (of_char c)}" by (simp add: stem1_def)
  have h: "stem1 \<noteq> []" "hd stem1 \<noteq> CHR ''-''" using hd_strip_dashes by (auto simp: stem1_def stem_def)
  have s2: "stem2 \<noteq> [] \<and> hd stem2 \<noteq> CHR ''-'' \<and> set stem2 \<subseteq> set stem1"
  proof (cases "ends_with ''-pdf'' stem1")
    case True
    then obtain zs where z: "stem1 = zs @ ''-pdf''" by (auto simp: ends_with_iff)
    with h(2) have "zs \<noteq> []" by auto
    with z h(2) True show ?thesis by (auto simp: stem2_def)
  next
    case False
    with h show ?thesis by (simp add: stem2_def)
  qed
  moreover have "normalized_pdf_filename u name = stem2 @ ''.pdf''"
    by (simp add: normalized_pdf_filename_def Let_def stem_def stem1_def stem2_def)
  ultimately show ?thesis using chars by blast
qed

text \<open>A file is uploaded only when the cached upload is missing or expired and its bytes are those
  registered; while the term of the new upload runs, the next request is served from the cache.\<close>

theorem upload_then_cached:
  assumes "resolve_document pv u st k d w = (Inr doc, d', w')" and "w' \<noteq> w"
    and "cd_media_id doc \<noteq> []" and "0 < st_catalog_media_ttl_days st"
  shows "(\<exists>a. get_row ca_id k (db_catalog_assets d) = Some a \<and> \<not> cached_media_is_valid st a (db_clock d) \<and>
      pv_sha256_file pv (resolve_file_path st (ca_file_path a)) = Some (ca_file_hash a)) \<and>
    (\<exists>doc'. resolve_document pv u st k d' w' = (Inr doc', d', w') \<and> cd_media_id doc' = cd_media_id doc)"
proof -
  from resolve_document_uploadD [OF assms(1,2)] obtain a a' where
    a: "get_row ca_id k (db_catalog_assets d) = Some a" "\<not> cached_media_is_valid st a (db_clock d)"
      "pv_sha256_file pv (resolve_file_path st (ca_file_path a)) = Some (ca_file_hash a)"
    and a': "get_row ca_id k (db_catalog_assets d') = Some a'" "ca_media_id a' = Some (cd_media_id doc)"
      "ca_media_uploaded_at a' = Some (db_clock d')" by blast
  have "cached_media_is_valid st a' (db_clock d')"
    using a'(2,3) assms(3,4) by (simp add: cached_media_is_valid_def days_def)
  with a a' show ?thesis by (simp add: resolve_document_def Let_def)
qed

definition sample_asset :: catalog_asset where
  "sample_asset = \<lparr>ca_id = 11, ca_name = ''Bodas 2026'', ca_file_path = ''bodas.pdf'', ca_file_hash = ''abc'',
     ca_mime_type = ''application/pdf'', ca_file_size = 1000, ca_media_id = None, ca_media_uploaded_at = None,
     ca_active = True, ca_version = 1, ca_created_at = 0\<rparr>"

definition sample_provider :: "nat provider" where
  "sample_provider = \<lparr>pv_send_text = (\<lambda>to body d n. (Inr (''wamid.'' @ show_nat n), d, n + 1)),
     pv_send_document = (\<lambda>to m f c d n. (Inr (''wamid.'' @ show_nat n), d, n + 1)),
     pv_upload_media = (\<lambda>p m d n. (Inr ''media'', d, n + 1)), pv_sha256_file = (\<lambda>p. Some ''abc'')\<rparr>"

lemma upload_then_cached_witness:
  "let d = sample_db\<lparr>db_catalog_assets := [sample_asset]\<rparr>;
       (r, d', n) = resolve_document sample_provider ascii_ucd sample_settings 11 d 0
   in n = 1 \<and> (\<exists>doc. resolve_document sample_provider ascii_ucd sample_settings 11 d' 1 = (Inr doc, d', 1))"
proof -
  let ?d = "sample_db\<lparr>db_catalog_assets := [sample_asset]\<rparr>"
  obtain d' where r: "resolve_document sample_provider ascii_ucd sample_settings 11 ?d 0 =
      (Inr \<lparr>cd_asset_id = 11, cd_media_id = ''media'', cd_filename = normalized_pdf_filename ascii_ucd ''Bodas 2026''\<rparr>, d', 1)"
    by (simp add: resolve_document_def sample_asset_def sample_provider_def cached_media_is_valid_def
        validate_catalog_file_def store_media_def get_row_Cons Let_def)
  from upload_then_cached [OF r] have
    "\<exists>doc. resolve_document sample_provider ascii_ucd sample_settings 11 d' 1 = (Inr doc, d', 1)"
    by (simp add: sample_settings_def) blast
  with r show ?thesis by (simp add: Let_def)
qed

end
