(* ===== verification/Outbox_Worker.thy ===== *)
theory Outbox_Worker
  imports Delivery Media Notification_Queue
begin

text \<open>
  The outbox half of \<open>app/channel/worker.py\<close>: due outputs are leased in order, a document waits for the
  text it follows, each output is admitted (\<open>Delivery\<close>), sent, and settled only by the worker that
  still owns its lease; stale leases are recovered as failures.
\<close>

section \<open>Dependencies\<close>

record outbox_claim =
  oc_id :: int
  oc_claim_token :: uuid
  oc_recipient_phone_number :: string
  oc_message_kind :: message_kind
  oc_payload :: json
  oc_catalog_asset_id :: "uuid option"

text \<open>The result of \<open>_dependency_blocks_claim\<close>: claim the row, leave it, or store it stopped.\<close>

datatype dependency_verdict = Unblocked | Wait | Stopped stop string

definition predecessor_ok :: "outbox \<Rightarrow> outbox \<Rightarrow> bool" where
  "predecessor_ok row p \<longleftrightarrow> ob_message_kind p = KIND_TEXT \<and>
     ob_conversation_id p = ob_conversation_id row \<and> ob_message_id p = ob_message_id row"

definition predecessor_verdict :: "outbox \<Rightarrow> dependency_verdict" where
  "predecessor_verdict p =
     (case ob_status p of
        OB_SENT \<Rightarrow> Unblocked
      | OB_PENDING \<Rightarrow> Wait
      | OB_SENDING \<Rightarrow> Wait
      | OB_SUPPRESSED \<Rightarrow> Stopped SUPPRESSED
          (case ob_delivery_reason p of None \<Rightarrow> ''PRECEDING_TEXT_SUPPRESSED''
           | Some r \<Rightarrow> if r = [] then ''PRECEDING_TEXT_SUPPRESSED'' else r)
      | OB_FAILED \<Rightarrow> Stopped SUPPRESSED ''PRECEDING_TEXT_FAILED''
      | OB_REVIEW \<Rightarrow> Stopped REVIEW ''PRECEDING_TEXT_REVIEW'')"

definition dependency_blocks_claim :: "outbox \<Rightarrow> db \<Rightarrow> dependency_verdict" where
  "dependency_blocks_claim row d =
     (case ob_delivery_context row of
        None \<Rightarrow> Unblocked
      | Some context \<Rightarrow>
          if \<not> is_obj context \<or> \<not> jhas ''after_outbox_id'' context then Unblocked
          else if ob_message_kind row \<noteq> KIND_DOCUMENT then Stopped REVIEW ''PRECEDING_TEXT_UNPROVEN''
          else (case jget ''after_outbox_id'' context of
              JInt k \<Rightarrow>
                if \<not> (0 < k \<and> k \<le> 2147483647) then Stopped REVIEW ''PRECEDING_TEXT_UNPROVEN''
                else (case get_row ob_id k (db_outbox d) of
                    None \<Rightarrow> Stopped REVIEW ''PRECEDING_TEXT_UNPROVEN''
                  | Some p \<Rightarrow> if \<not> predecessor_ok row p then Stopped REVIEW ''PRECEDING_TEXT_UNPROVEN''
                      else predecessor_verdict p)
            | _ \<Rightarrow> Stopped REVIEW ''PRECEDING_TEXT_UNPROVEN''))"

section \<open>Claim\<close>

text \<open>\<open>dependency_id\<close>: a JSON number written with one to ten digits.\<close>

definition dependency_id :: "outbox \<Rightarrow> int option" where
  "dependency_id row = (case ob_delivery_context row of
     Some context \<Rightarrow> (case jget ''after_outbox_id'' context of
         JInt k \<Rightarrow> if 1 \<le> k \<and> k \<le> 9999999999 then Some k else None | _ \<Rightarrow> None)
   | None \<Rightarrow> None)"

definition preceding_text :: "outbox \<Rightarrow> db \<Rightarrow> outbox list" where
  "preceding_text row d = filter (\<lambda>p. Some (ob_id p) = dependency_id row \<and> predecessor_ok row p) (db_outbox d)"

definition text_resolved :: "outbox \<Rightarrow> db \<Rightarrow> bool" where
  "text_resolved row d \<longleftrightarrow> list_ex (\<lambda>p. ob_status p \<notin> {OB_PENDING, OB_SENDING}) (preceding_text row d)"

definition text_blocked :: "outbox \<Rightarrow> db \<Rightarrow> bool" where
  "text_blocked row d \<longleftrightarrow>
     list_ex (\<lambda>p. ob_status p \<notin> {OB_PENDING, OB_SENDING, OB_SENT}) (preceding_text row d)"

definition claimable :: "instant \<Rightarrow> db \<Rightarrow> outbox \<Rightarrow> bool" where
  "claimable now d row \<longleftrightarrow> ob_status row = OB_PENDING \<and>
     ((case ob_next_attempt_at row of None \<Rightarrow> True | Some t \<Rightarrow> t \<le> now) \<or> text_blocked row d) \<and>
     (dependency_id row = None \<or> text_resolved row d \<or> preceding_text row d = [])"

definition outbox_order :: "outbox \<Rightarrow> outbox \<Rightarrow> bool" where
  "outbox_order a b \<longleftrightarrow> ob_created_at a < ob_created_at b \<or>
     (ob_created_at a = ob_created_at b \<and> ob_id a < ob_id b)"

definition due_outbox :: "instant \<Rightarrow> nat \<Rightarrow> db \<Rightarrow> outbox list" where
  "due_outbox now batch_size d =
     take batch_size (order_by outbox_order (filter (claimable now d) (db_outbox d)))"

definition lease_outbox :: "uuid \<Rightarrow> instant \<Rightarrow> outbox \<Rightarrow> outbox" where
  "lease_outbox token now row =
     row\<lparr>ob_status := OB_SENDING, ob_claimed_at := Some now, ob_claim_token := Some token\<rparr>"

definition outbox_claim_of :: "outbox \<Rightarrow> uuid \<Rightarrow> outbox_claim" where
  "outbox_claim_of row token = \<lparr>oc_id = ob_id row, oc_claim_token = token,
     oc_recipient_phone_number = ob_recipient_phone_number row, oc_message_kind = ob_message_kind row,
     oc_payload = ob_payload row, oc_catalog_asset_id = ob_catalog_asset_id row\<rparr>"

fun claim_outbox_rows :: "instant \<Rightarrow> outbox list \<Rightarrow> db \<Rightarrow> outbox_claim list \<times> db" where
  "claim_outbox_rows now [] d = ([], d)"
| "claim_outbox_rows now (row # rows) d =
     (case dependency_blocks_claim row d of
        Wait \<Rightarrow> claim_outbox_rows now rows d
      | Stopped result reason \<Rightarrow>
          claim_outbox_rows now rows (put_outbox (stop_delivery row result reason now) d)
      | Unblocked \<Rightarrow>
          (case uuid4 d of (token, d1) \<Rightarrow>
             (case claim_outbox_rows now rows (put_outbox (lease_outbox token now row) d1) of (claims, d2) \<Rightarrow>
                (outbox_claim_of row token # claims, d2))))"

definition claim_due_outbox_batch :: "instant \<Rightarrow> nat \<Rightarrow> db \<Rightarrow> outbox_claim list \<times> db" where
  "claim_due_outbox_batch now batch_size d = claim_outbox_rows now (due_outbox now batch_size d) d"

section \<open>Settlement\<close>

text \<open>The row after a failure whose eligibility was \<open>v\<close>.\<close>

definition unknown_if_admitted :: "outbox \<Rightarrow> outbox" where
  "unknown_if_admitted row =
     (if admission_phase row = JStr ''ADMITTED''
      then row\<lparr>ob_send_admission := map_option (jset ''phase'' (JStr ''UNKNOWN'')) (ob_send_admission row)\<rparr>
      else row)"

definition failed_attempt :: "string \<Rightarrow> outbox \<Rightarrow> outbox" where
  "failed_attempt err row =
     row\<lparr>ob_attempts := ob_attempts row + 1, ob_last_error := Some (cp_take 1000 err)\<rparr>"

definition fail_outbox ::
  "verdict \<Rightarrow> string \<Rightarrow> instant \<Rightarrow> nat \<Rightarrow> int \<Rightarrow> bool \<Rightarrow> outbox \<Rightarrow> outbox" where
  "fail_outbox v err now max_attempts max_backoff permanent row =
     (case v of
        Stop result reason \<Rightarrow>
          let row1 = stop_delivery row result reason now
          in if admission_phase row1 = JStr ''ADMITTED'' then unknown_if_admitted (failed_attempt err row1) else row1
      | Eligible _ \<Rightarrow>
          let row1 = (failed_attempt err (unknown_if_admitted row))\<lparr>ob_claim_token := None, ob_claimed_at := None\<rparr>
          in if permanent \<or> max_attempts \<le> ob_attempts row1
             then row1\<lparr>ob_status := OB_FAILED, ob_next_attempt_at := None\<rparr>
             else row1\<lparr>ob_status := OB_PENDING, ob_next_attempt_at :=
                    Some (now + seconds (backoff_seconds (ob_attempts row1) max_backoff))\<rparr>)"

definition mark_outbox_failure ::
  "conversation \<Rightarrow> outbox \<Rightarrow> string \<Rightarrow> instant \<Rightarrow> nat \<Rightarrow> int \<Rightarrow> bool \<Rightarrow> db \<Rightarrow> db" where
  "mark_outbox_failure c row err now max_attempts max_backoff permanent d =
     (case eligibility c row d of (v, row1) \<Rightarrow>
        let row2 = fail_outbox v err now max_attempts max_backoff permanent row1;
            d1 = put_outbox row2 d
        in if ob_status row2 = OB_FAILED
           then audit ''INTEGRATION'' ''WHATSAPP_OUTBOX_SEND_FAILED'' ''outbox'' None
                  (Some (JObj [(''outbox_id'', JInt (ob_id row2)), (''attempts'', JInt (int (ob_attempts row2))),
                               (''status'', JStr (outbox_status_str (ob_status row2)))]))
                  (case ob_last_error row2 of None \<Rightarrow> ''Unknown outbound send error''
                   | Some e \<Rightarrow> if e = [] then ''Unknown outbound send error'' else e) None d1
           else d1)"

definition lock_owned_outbox :: "int \<Rightarrow> uuid \<Rightarrow> db \<Rightarrow> (conversation \<times> outbox) option" where
  "lock_owned_outbox k token d =
     (case lock_delivery_row k d of
        None \<Rightarrow> None
      | Some (c, row) \<Rightarrow>
          if ob_status row \<noteq> OB_SENDING then None
          else if ob_claim_token row \<noteq> Some token then None else Some (c, row))"

datatype settlement_outcome = APPLIED | DISCARDED

definition sent_outbox :: "instant \<Rightarrow> outbox \<Rightarrow> outbox" where
  "sent_outbox sent_at row = row\<lparr>ob_status := OB_SENT,
     ob_send_admission := map_option (jset ''phase'' (JStr ''SENT'')) (ob_send_admission row),
     ob_claim_token := None, ob_sent_at := Some sent_at, ob_claimed_at := None,
     ob_next_attempt_at := None, ob_last_error := None\<rparr>"

definition record_outbound_message ::
  "outbox \<Rightarrow> message \<Rightarrow> string \<Rightarrow> string \<Rightarrow> json \<Rightarrow> db \<Rightarrow> db" where
  "record_outbound_message row inbound provider_id message_type content d =
     (if list_ex (\<lambda>m. ms_external_message_id m = provider_id) (db_messages d) then d
      else (case next_serial d of (k, d1) \<Rightarrow>
        d1\<lparr>db_messages := db_messages d1 @ [\<lparr>ms_id = k, ms_external_message_id = provider_id,
            ms_conversation_id = ob_conversation_id row, ms_customer_id = ms_customer_id inbound,
            ms_direction = ''OUTBOUND'', ms_message_type = message_type, ms_content = content,
            ms_provider_timestamp = None\<rparr>]\<rparr>))"

definition settle_outbox_success ::
  "int \<Rightarrow> uuid \<Rightarrow> string \<Rightarrow> instant \<Rightarrow> nat \<Rightarrow> int \<Rightarrow> string \<Rightarrow> json \<Rightarrow> db \<Rightarrow> settlement_outcome \<times> db" where
  "settle_outbox_success k token provider_id sent_at max_attempts max_backoff message_type content d =
     (case lock_owned_outbox k token d of
        None \<Rightarrow> (DISCARDED, d)
      | Some (c, row) \<Rightarrow>
          (case get_row ms_id (ob_message_id row) (db_messages d) of
             None \<Rightarrow> (APPLIED, mark_outbox_failure c row
                 (''Input message '' @ show_int (ob_message_id row) @ '' does not exist'') sent_at
                 max_attempts max_backoff False d)
           | Some inbound \<Rightarrow>
               (APPLIED, record_outbound_message row inbound provider_id message_type content
                  (put_outbox (sent_outbox sent_at row) d))))"

definition settle_outbox_failure ::
  "int \<Rightarrow> uuid \<Rightarrow> string \<Rightarrow> instant \<Rightarrow> nat \<Rightarrow> int \<Rightarrow> bool \<Rightarrow> db \<Rightarrow> settlement_outcome \<times> db" where
  "settle_outbox_failure k token err failed_at max_attempts max_backoff permanent d =
     (case lock_owned_outbox k token d of
        None \<Rightarrow> (DISCARDED, d)
      | Some (c, row) \<Rightarrow>
          (APPLIED, mark_outbox_failure c row err failed_at max_attempts max_backoff permanent d))"

section \<open>Recovery\<close>

definition stale_sending :: "instant \<Rightarrow> outbox \<Rightarrow> bool" where
  "stale_sending stale_before row \<longleftrightarrow> ob_status row = OB_SENDING \<and>
     (case ob_claimed_at row of Some t \<Rightarrow> t < stale_before
      | None \<Rightarrow> ob_claim_token row = None \<and> ob_created_at row < stale_before)"

definition recover_outbox_row :: "instant \<Rightarrow> instant \<Rightarrow> nat \<Rightarrow> int \<Rightarrow> int \<Rightarrow> nat \<times> db \<Rightarrow> nat \<times> db" where
  "recover_outbox_row stale_before now max_attempts max_backoff k v = (case v of (n, d) \<Rightarrow>
     (case lock_delivery_row k d of
        None \<Rightarrow> (n, d)
      | Some (c, row) \<Rightarrow>
          if stale_sending stale_before row
          then (n + 1, mark_outbox_failure c row ''stale SENDING recovered by reaper'' now
                         max_attempts max_backoff False d)
          else (n, d)))"

definition recover_stale_sending_outbox :: "instant \<Rightarrow> int \<Rightarrow> nat \<Rightarrow> int \<Rightarrow> db \<Rightarrow> nat \<times> db" where
  "recover_stale_sending_outbox now timeout max_attempts max_backoff d =
     (let stale_before = now - seconds timeout;
          candidates = order_by (\<lambda>a b. ob_created_at a < ob_created_at b)
                         (filter (stale_sending stale_before) (db_outbox d))
      in fold (recover_outbox_row stale_before now max_attempts max_backoff) (map ob_id candidates) (0, d))"

section \<open>Processing\<close>

definition extract_text_body :: "outbox_claim \<Rightarrow> (item_error, string) result" where
  "extract_text_body c =
     (case jget ''body'' (jget ''text'' (oc_payload c)) of
        JStr body \<Rightarrow> Inr body
      | _ \<Rightarrow> Inl (ItemError (''Outbox '' @ show_int (oc_id c) @ '' does not contain text.body'')))"

definition extract_document_caption :: "outbox_claim \<Rightarrow> (item_error, string) result" where
  "extract_document_caption c =
     (case jget ''caption'' (jget ''document'' (oc_payload c)) of
        JStr caption \<Rightarrow>
          if caption = [] then Inl (ItemError (''Outbox '' @ show_int (oc_id c) @ '' does not contain document.caption''))
          else Inr caption
      | _ \<Rightarrow> Inl (ItemError (''Outbox '' @ show_int (oc_id c) @ '' does not contain document.caption'')))"

definition document_catalog_asset_id :: "outbox_claim \<Rightarrow> (item_error, uuid) result" where
  "document_catalog_asset_id c =
     (case oc_catalog_asset_id c of
        None \<Rightarrow> Inl (ItemError (''Outbox '' @ show_int (oc_id c) @ '' does not reference a catalog asset''))
      | Some a \<Rightarrow> Inr a)"

definition refused :: "decision \<Rightarrow> settlement_outcome" where
  "refused x = (if x = DC_DISCARDED then DISCARDED else APPLIED)"

text \<open>
  The body of the \<open>try\<close>: a refusal of the decision returns at once, an exception carries its error, and
  a sent output the arguments of the success settlement.
\<close>

datatype 'a attempt = Refused settlement_outcome | Raised item_error | Sent 'a

record sent_item =
  si_provider_id :: string
  si_sent_at :: instant
  si_message_type :: string
  si_content :: json

definition text_content :: "string \<Rightarrow> json" where
  "text_content body = JObj [(''text'', JObj [(''body'', JStr body)])]"

definition document_content :: "uuid \<Rightarrow> string \<Rightarrow> string \<Rightarrow> json" where
  "document_content asset_id filename caption = JObj [(''document'', JObj [
     (''catalog_asset_id'', JStr (uuid_str asset_id)), (''filename'', JStr filename), (''caption'', JStr caption)])]"

definition attempt_text ::
  "'w provider \<Rightarrow> outbox_claim \<Rightarrow> db \<Rightarrow> 'w \<Rightarrow> sent_item attempt \<times> db \<times> 'w" where
  "attempt_text pv c d w =
     (case extract_text_body c of
        Inl e \<Rightarrow> (Raised e, d, w)
      | Inr body \<Rightarrow>
          (case admit_outbox (oc_id c) (oc_claim_token c) d of (decision, d1) \<Rightarrow>
             if decision \<noteq> DC_ADMITTED then (Refused (refused decision), d1, w)
             else (case pv_send_text pv (oc_recipient_phone_number c) body d1 w of
                 (Inl e, d2, w2) \<Rightarrow> (Raised e, d2, w2)
               | (Inr m, d2, w2) \<Rightarrow>
                   (Sent \<lparr>si_provider_id = m, si_sent_at = db_clock d1, si_message_type = ''text'',
                          si_content = text_content body\<rparr>, d2, w2))))"

definition document_item :: "string \<Rightarrow> instant \<Rightarrow> uuid \<Rightarrow> catalog_document \<Rightarrow> string \<Rightarrow> sent_item" where
  "document_item m sent_at asset_id doc caption =
     \<lparr>si_provider_id = m, si_sent_at = sent_at, si_message_type = ''document'',
      si_content = document_content asset_id (cd_filename doc) caption\<rparr>"

text \<open>The second half of the handler of \<open>WhatsAppInvalidMediaError\<close>: upload again and send once more.\<close>

definition resend_document ::
  "'w provider \<Rightarrow> ucd \<Rightarrow> settings \<Rightarrow> outbox_claim \<Rightarrow> uuid \<Rightarrow> string \<Rightarrow> db \<Rightarrow> 'w
     \<Rightarrow> sent_item attempt \<times> db \<times> 'w" where
  "resend_document pv u st c asset_id caption d w =
     (case check_outbox (oc_id c) (oc_claim_token c) d of (decision, d1) \<Rightarrow>
        if decision \<noteq> DC_ELIGIBLE then (Refused (refused decision), d1, w)
        else (case resolve_document pv u st asset_id d1 w of
            (Inl e, d2, w2) \<Rightarrow> (Raised e, d2, w2)
          | (Inr doc, d2, w2) \<Rightarrow>
              (case admit_outbox (oc_id c) (oc_claim_token c) d2 of (decision, d3) \<Rightarrow>
                 if decision \<noteq> DC_ADMITTED then (Refused (refused decision), d3, w2)
                 else (case pv_send_document pv (oc_recipient_phone_number c) (cd_media_id doc)
                              (cd_filename doc) caption d3 w2 of
                     (Inl e, d4, w4) \<Rightarrow> (Raised e, d4, w4)
                   | (Inr m, d4, w4) \<Rightarrow>
                       (Sent (document_item m (db_clock d4) asset_id doc caption), d4, w4)))))"

definition attempt_document ::
  "'w provider \<Rightarrow> ucd \<Rightarrow> settings \<Rightarrow> outbox_claim \<Rightarrow> db \<Rightarrow> 'w \<Rightarrow> sent_item attempt \<times> db \<times> 'w" where
  "attempt_document pv u st c d w =
     (case check_outbox (oc_id c) (oc_claim_token c) d of (decision, d1) \<Rightarrow>
        if decision \<noteq> DC_ELIGIBLE then (Refused (refused decision), d1, w)
        else (case (extract_document_caption c, document_catalog_asset_id c) of
            (Inl e, _) \<Rightarrow> (Raised e, d1, w)
          | (Inr caption, Inl e) \<Rightarrow> (Raised e, d1, w)
          | (Inr caption, Inr asset_id) \<Rightarrow>
              (case resolve_document pv u st asset_id d1 w of
                 (Inl e, d2, w2) \<Rightarrow> (Raised e, d2, w2)
               | (Inr doc, d2, w2) \<Rightarrow>
                   (case admit_outbox (oc_id c) (oc_claim_token c) d2 of (decision, d3) \<Rightarrow>
                      if decision \<noteq> DC_ADMITTED then (Refused (refused decision), d3, w2)
                      else (case pv_send_document pv (oc_recipient_phone_number c) (cd_media_id doc)
                                   (cd_filename doc) caption d3 w2 of
                          (Inr m, d4, w4) \<Rightarrow>
                            (Sent (document_item m (db_clock d3) asset_id doc caption), d4, w4)
                        | (Inl (InvalidMediaError e), d4, w4) \<Rightarrow>
                            (case reject_media_admission (oc_id c) (oc_claim_token c) d4 of (ok, d5) \<Rightarrow>
                               if \<not> ok then (Refused DISCARDED, d5, w4)
                               else resend_document pv u st c asset_id caption
                                      (invalidate_media_cache asset_id
                                         ''Meta rejected cached media_id during document send'' d5) w4)
                        | (Inl e, d4, w4) \<Rightarrow> (Raised e, d4, w4))))))"

definition attempt_outbox ::
  "'w provider \<Rightarrow> ucd \<Rightarrow> settings \<Rightarrow> outbox_claim \<Rightarrow> db \<Rightarrow> 'w \<Rightarrow> sent_item attempt \<times> db \<times> 'w" where
  "attempt_outbox pv u st c d w =
     (if oc_message_kind c = KIND_DOCUMENT then attempt_document pv u st c d w else attempt_text pv c d w)"

fun permanent_error :: "item_error \<Rightarrow> bool" where
  "permanent_error (PermanentCatalogMediaError m) = True"
| "permanent_error _ = False"

definition process_claimed_outbox_item ::
  "'w provider \<Rightarrow> ucd \<Rightarrow> settings \<Rightarrow> nat \<Rightarrow> int \<Rightarrow> outbox_claim \<Rightarrow> db \<Rightarrow> 'w
     \<Rightarrow> settlement_outcome \<times> db \<times> 'w" where
  "process_claimed_outbox_item pv u st max_attempts max_backoff c d w =
     (case attempt_outbox pv u st c d w of
        (Refused x, d1, w1) \<Rightarrow> (x, d1, w1)
      | (Raised e, d1, w1) \<Rightarrow>
          (case settle_outbox_failure (oc_id c) (oc_claim_token c) (item_error_str e) (db_clock d1)
                  max_attempts max_backoff (oc_message_kind c = KIND_DOCUMENT \<and> permanent_error e) d1 of
             (x, d2) \<Rightarrow> (x, d2, w1))
      | (Sent s, d1, w1) \<Rightarrow>
          (case settle_outbox_success (oc_id c) (oc_claim_token c) (si_provider_id s) (si_sent_at s)
                  max_attempts max_backoff (si_message_type s) (si_content s) d1 of
             (x, d2) \<Rightarrow> (x, d2, w1)))"

fun process_outbox_items ::
  "'w provider \<Rightarrow> ucd \<Rightarrow> settings \<Rightarrow> nat \<Rightarrow> int \<Rightarrow> outbox_claim list \<Rightarrow> db \<Rightarrow> 'w \<Rightarrow> db \<times> 'w" where
  "process_outbox_items pv u st max_attempts max_backoff [] d w = (d, w)"
| "process_outbox_items pv u st max_attempts max_backoff (c # cs) d w =
     (case process_claimed_outbox_item pv u st max_attempts max_backoff c d w of
        (_, d1, w1) \<Rightarrow> process_outbox_items pv u st max_attempts max_backoff cs d1 w1)"

definition process_outbox_once ::
  "'w provider \<Rightarrow> ucd \<Rightarrow> settings \<Rightarrow> db \<Rightarrow> 'w \<Rightarrow> nat \<times> db \<times> 'w" where
  "process_outbox_once pv u st d w =
     (let now = db_clock d;
          d1 = snd (recover_stale_sending_outbox now (st_outbox_sending_timeout_seconds st)
                      (st_outbox_max_attempts st) (st_outbox_max_backoff_seconds st) d);
          (claims, d2) = claim_due_outbox_batch now (st_outbox_batch_size st) d1;
          (d3, w3) = process_outbox_items pv u st (st_outbox_max_attempts st)
                       (st_outbox_max_backoff_seconds st) claims d2 w
      in (length claims, d3, w3))"

end
