(* ===== verification/Outbox_Facts.thy ===== *)
theory Outbox_Facts
  imports Outbox_Worker
begin

text \<open>
  What the outbox worker guarantees: the provider is reached only through an admission, documents
  follow their texts, one lease settles an output once, and every output is settled after boundedly
  many attempts.
\<close>

section \<open>Frames\<close>

lemma mark_outbox_failure_outbox:
  "db_outbox (mark_outbox_failure c row err now ma mb p d) =
     put_row ob_id (fail_outbox (fst (eligibility c row d)) err now ma mb p (snd (eligibility c row d))) (db_outbox d)"
  by (cases "eligibility c row d") (simp add: mark_outbox_failure_def Let_def)

lemma eligibility_ids [simp]:
  "ob_id (snd (eligibility c row d)) = ob_id row" "ob_status (snd (eligibility c row d)) = ob_status row"
  "ob_attempts (snd (eligibility c row d)) = ob_attempts row"
  "ob_claim_token (snd (eligibility c row d)) = ob_claim_token row"
  "ob_send_admission (snd (eligibility c row d)) = ob_send_admission row"
  by (subst eligibility_row, simp)+

lemma stop_delivery_simps [simp]:
  "ob_id (stop_delivery row s reason now) = ob_id row"
  "ob_attempts (stop_delivery row s reason now) = ob_attempts row"
  "ob_claim_token (stop_delivery row s reason now) = None"
  "ob_send_admission (stop_delivery row s reason now) = ob_send_admission row"
  "ob_conversation_id (stop_delivery row s reason now) = ob_conversation_id row"
  by (simp_all add: stop_delivery_def split: if_splits)

lemma stop_delivery_status: "ob_status (stop_delivery row s reason now) \<in> {OB_SUPPRESSED, OB_REVIEW}"
  by (cases s) (simp_all add: stop_delivery_def)

lemma unknown_if_admitted_simps [simp]:
  "ob_id (unknown_if_admitted row) = ob_id row" "ob_status (unknown_if_admitted row) = ob_status row"
  "ob_attempts (unknown_if_admitted row) = ob_attempts row"
  by (simp_all add: unknown_if_admitted_def)

lemma failed_attempt_simps [simp]:
  "ob_id (failed_attempt e row) = ob_id row" "ob_status (failed_attempt e row) = ob_status row"
  "ob_attempts (failed_attempt e row) = ob_attempts row + 1"
  by (simp_all add: failed_attempt_def)

lemma fail_outbox_id [simp]: "ob_id (fail_outbox v err now ma mb p row) = ob_id row"
  by (cases v) (simp_all add: fail_outbox_def Let_def)

text \<open>A failure leaves the lease, and goes back to the queue only below the limit of attempts.\<close>

lemma fail_outbox_status:
  "ob_status (fail_outbox v err now ma mb p row) \<noteq> OB_SENDING \<and>
   (ob_status (fail_outbox v err now ma mb p row) = OB_PENDING \<longrightarrow>
     ob_attempts (fail_outbox v err now ma mb p row) = ob_attempts row + 1 \<and> ob_attempts row + 1 < ma)"
proof (cases v)
  case (Stop s reason)
  then have "ob_status (fail_outbox v err now ma mb p row) = ob_status (stop_delivery row s reason now)"
    by (simp add: fail_outbox_def Let_def)
  with stop_delivery_status [of row s reason now] show ?thesis by auto
qed (auto simp: fail_outbox_def Let_def)

lemma lease_outbox_simps [simp]:
  "ob_id (lease_outbox t now r) = ob_id r" "ob_status (lease_outbox t now r) = OB_SENDING"
  "ob_attempts (lease_outbox t now r) = ob_attempts r" "ob_claim_token (lease_outbox t now r) = Some t"
  by (simp_all add: lease_outbox_def)

lemma sent_outbox_simps [simp]:
  "ob_id (sent_outbox t r) = ob_id r" "ob_status (sent_outbox t r) = OB_SENT"
  "ob_claim_token (sent_outbox t r) = None"
  by (simp_all add: sent_outbox_def)

lemma record_outbound_message_frame [simp]:
  "db_outbox (record_outbound_message row inbound m ty content d) = db_outbox d"
  by (simp add: record_outbound_message_def next_serial_def)

lemma lock_owned_SomeD:
  "lock_owned_outbox k t d = Some (c, row) \<Longrightarrow>
     lock_delivery_row k d = Some (c, row) \<and> ob_status row = OB_SENDING \<and> ob_claim_token row = Some t \<and>
     get_row ob_id k (db_outbox d) = Some row \<and> ob_id row = k"
  by (auto simp: lock_owned_outbox_def split: option.splits if_splits dest: lock_delivery_row_SomeD)

section \<open>The life of a row\<close>

text \<open>
  The moves of a row: a worker leases it or stops it in the queue, then settles it. Between the lease
  and the settlement the admission and an adopted context may have been written on it.
\<close>

inductive outbox_step :: "nat \<Rightarrow> int \<Rightarrow> outbox \<Rightarrow> outbox \<Rightarrow> bool" for ma mb where
  step_lease: "ob_status r = OB_PENDING \<Longrightarrow> outbox_step ma mb r (lease_outbox t now r)"
| step_stop: "ob_status r = OB_PENDING \<Longrightarrow> outbox_step ma mb r (stop_delivery r s reason now)"
| step_refuse: "ob_status r = OB_SENDING \<Longrightarrow>
    outbox_step ma mb r (stop_delivery (r\<lparr>ob_delivery_context := cx\<rparr>) s reason now)"
| step_sent: "ob_status r = OB_SENDING \<Longrightarrow>
    outbox_step ma mb r (sent_outbox now (r\<lparr>ob_delivery_context := cx, ob_send_admission := a\<rparr>))"
| step_fail: "ob_status r = OB_SENDING \<Longrightarrow>
    outbox_step ma mb r (fail_outbox v err now ma mb p (r\<lparr>ob_delivery_context := cx, ob_send_admission := a\<rparr>))"

inductive_cases outbox_stepE: "outbox_step ma mb r r'"

text \<open>What is left to happen to a row: two moves for each attempt it still has.\<close>

definition outbox_fuel :: "nat \<Rightarrow> outbox \<Rightarrow> nat" where
  "outbox_fuel ma r = (case ob_status r of OB_PENDING \<Rightarrow> 2 * (ma - ob_attempts r) + 2
     | OB_SENDING \<Rightarrow> 2 * (ma - ob_attempts r) + 1 | _ \<Rightarrow> 0)"

lemma outbox_fuel_stopped [simp]: "outbox_fuel ma (stop_delivery r s reason now) = 0"
  using stop_delivery_status [of r s reason now] by (auto simp: outbox_fuel_def)

lemma outbox_fuel_fail: "outbox_fuel ma (fail_outbox v err now ma mb p r) < 2 * (ma - ob_attempts r) + 1"
  using fail_outbox_status [of v err now ma mb p r]
  by (auto simp: outbox_fuel_def split: outbox_status.split)

lemma outbox_step_fuel: "outbox_step ma mb r r' \<Longrightarrow> outbox_fuel ma r' < outbox_fuel ma r"
proof (induction rule: outbox_step.induct)
  case (step_fail r v err now p a cx)
  then have "outbox_fuel ma r = 2 * (ma - ob_attempts r) + 1" by (simp add: outbox_fuel_def)
  with outbox_fuel_fail [of ma v err now mb p "r\<lparr>ob_delivery_context := cx, ob_send_admission := a\<rparr>"]
  show ?case by simp
next
  case step_stop
  then show ?case by (simp del: One_nat_def) (simp add: outbox_fuel_def)
next
  case step_refuse
  then show ?case by (simp del: One_nat_def) (simp add: outbox_fuel_def)
qed (simp_all add: outbox_fuel_def)

lemma outbox_run_bound: "(outbox_step ma mb ^^ n) r r' \<Longrightarrow> n + outbox_fuel ma r' \<le> outbox_fuel ma r"
proof (induction n arbitrary: r')
  case (Suc n)
  then obtain s where "(outbox_step ma mb ^^ n) r s" "outbox_step ma mb s r'" by auto
  with Suc.IH [of s] outbox_step_fuel [of ma mb s r'] show ?case by simp
qed simp

text \<open>The operations on the table move its rows along these steps.\<close>

definition rows_step :: "nat \<Rightarrow> int \<Rightarrow> db \<Rightarrow> db \<Rightarrow> bool" where
  "rows_step ma mb d d' \<longleftrightarrow> (\<forall>k. rel_option (\<lambda>r r'. r' = r \<or> outbox_step ma mb r r')
     (get_row ob_id k (db_outbox d)) (get_row ob_id k (db_outbox d')))"

lemma rows_step_refl: "db_outbox d' = db_outbox d \<Longrightarrow> rows_step ma mb d d'"
  by (simp add: rows_step_def option.rel_refl)

lemma rows_step_put:
  assumes "get_row ob_id k (db_outbox d) = Some r" and "db_outbox d' = put_row ob_id r' (db_outbox d)"
    and "ob_id r' = k" and "outbox_step ma mb r r'"
  shows "rows_step ma mb d d'"
  unfolding rows_step_def
proof
  fix j
  show "rel_option (\<lambda>r r'. r' = r \<or> outbox_step ma mb r r') (get_row ob_id j (db_outbox d)) (get_row ob_id j (db_outbox d'))"
    using assms by (cases "j = k"; cases "get_row ob_id j (db_outbox d)") (auto simp: get_put_row)
qed

lemma mark_outbox_failure_step:
  assumes "get_row ob_id (ob_id row) (db_outbox d) = Some row" and "ob_status row = OB_SENDING"
  shows "rows_step ma mb d (mark_outbox_failure c row err now ma mb p d)"
proof (rule rows_step_put [OF assms(1) mark_outbox_failure_outbox])
  obtain cx where "snd (eligibility c row d) = row\<lparr>ob_delivery_context := cx\<rparr>" using eligibility_row by blast
  then have "snd (eligibility c row d) = row\<lparr>ob_delivery_context := cx, ob_send_admission := ob_send_admission row\<rparr>"
    by simp
  with assms(2) show "outbox_step ma mb row (fail_outbox (fst (eligibility c row d)) err now ma mb p (snd (eligibility c row d)))"
    by (metis step_fail)
qed simp

lemma settle_failure_step: "rows_step ma mb d (snd (settle_outbox_failure k t err now ma mb p d))"
proof (cases "lock_owned_outbox k t d")
  case (Some v)
  obtain c row where v: "v = (c, row)" by (cases v)
  with lock_owned_SomeD [of k t d c row] Some
  show ?thesis by (simp add: settle_outbox_failure_def mark_outbox_failure_step)
qed (simp add: settle_outbox_failure_def rows_step_refl)

lemma settle_success_step: "rows_step ma mb d (snd (settle_outbox_success k t m now ma mb ty content d))"
proof (cases "lock_owned_outbox k t d")
  case (Some v)
  obtain c row where v: "v = (c, row)" by (cases v)
  note own = lock_owned_SomeD [OF Some [unfolded v]]
  show ?thesis
  proof (cases "get_row ms_id (ob_message_id row) (db_messages d)")
    case None
    with own Some v show ?thesis by (simp add: settle_outbox_success_def mark_outbox_failure_step)
  next
    case (Some inbound)
    have "row = row\<lparr>ob_delivery_context := ob_delivery_context row, ob_send_admission := ob_send_admission row\<rparr>" by simp
    then have "outbox_step ma mb row (sent_outbox now row)" using own by (metis step_sent)
    with own Some v \<open>lock_owned_outbox k t d = Some v\<close> show ?thesis
      by (simp add: settle_outbox_success_def rows_step_put [of k d row])
  qed
qed (simp add: settle_outbox_success_def rows_step_refl)

lemma recover_row_step:
  "rows_step ma mb d (snd (recover_outbox_row before now ma mb k (n, d)))"
proof (cases "lock_delivery_row k d")
  case (Some v)
  obtain c row where v: "v = (c, row)" by (cases v)
  note l = lock_delivery_row_SomeD [OF Some [unfolded v]]
  show ?thesis
  proof (cases "stale_sending before row")
    case True
    then have "ob_status row = OB_SENDING" by (simp add: stale_sending_def)
    with l True Some v show ?thesis by (simp add: recover_outbox_row_def mark_outbox_failure_step)
  next
    case False
    with Some v show ?thesis by (simp add: recover_outbox_row_def rows_step_refl)
  qed
qed (simp add: recover_outbox_row_def rows_step_refl)

section \<open>The lease\<close>

text \<open>The settlement of a row with a token, with the verdict and the recorded admission it meets.\<close>

datatype outbox_result = ResultSent instant | ResultFailed verdict string instant nat int bool

fun result_row :: "outbox_result \<Rightarrow> outbox \<Rightarrow> outbox" where
  "result_row (ResultSent now) row = sent_outbox now row"
| "result_row (ResultFailed v err now ma mb p) row = fail_outbox v err now ma mb p row"

definition settle_outbox_row :: "outbox_result \<Rightarrow> uuid \<Rightarrow> outbox \<Rightarrow> outbox" where
  "settle_outbox_row x t row =
     (if ob_status row = OB_SENDING \<and> ob_claim_token row = Some t then result_row x row else row)"

definition recover_row_with :: "instant \<times> verdict \<times> instant \<times> nat \<times> int \<Rightarrow> outbox \<Rightarrow> outbox" where
  "recover_row_with y row = (case y of (before, v, now, ma, mb) \<Rightarrow>
     if stale_sending before row then fail_outbox v ''stale SENDING recovered by reaper'' now ma mb False row
     else row)"

lemma result_row_settled: "ob_status (result_row x row) \<noteq> OB_SENDING"
  using fail_outbox_status by (cases x) auto

interpretation outbox_lease: lease_queue "\<lambda>r. ob_status r = OB_SENDING" ob_claim_token lease_outbox
  settle_outbox_row recover_row_with
proof unfold_locales
  show "ob_status (recover_row_with y r) \<noteq> OB_SENDING" if "recover_row_with y r \<noteq> r" for y r
    using that fail_outbox_status by (auto simp: recover_row_with_def split: prod.splits if_splits)
qed (auto simp: settle_outbox_row_def result_row_settled)

section \<open>Admission before sending\<close>

text \<open>The state in which the provider may be called for the output \<open>k\<close> leased with \<open>t\<close>.\<close>

definition sendable :: "int \<Rightarrow> uuid \<Rightarrow> db \<Rightarrow> bool" where
  "sendable k t d \<longleftrightarrow> (\<exists>c row context. lock_delivery_row k d = Some (c, row) \<and> ob_status row = OB_SENDING \<and>
     ob_claim_token row = Some t \<and> ob_delivery_context row = Some context \<and>
     admission_phase row = JStr ''ADMITTED'' \<and> authorized c row context d)"

lemma authorized_cong:
  "db_audit d' = db_audit d \<Longrightarrow> db_evidence d' = db_evidence d \<Longrightarrow> db_handoffs d' = db_handoffs d \<Longrightarrow>
     authorized c row context d' = authorized c row context d"
  by (simp add: authorized_def human_proof_def payment_decision_proven_def open_cases_def split: json.split option.split)

lemma uuid4_put_frame:
  "uuid4 d = (u, d1) \<Longrightarrow> db_audit d1 = db_audit d \<and> db_evidence d1 = db_evidence d \<and> db_handoffs d1 = db_handoffs d \<and>
     db_outbox d1 = db_outbox d \<and> db_clock d1 = db_clock d"
  by (auto simp: uuid4_def)

lemma decide_frame:
  "decide k t a d = (x, d') \<Longrightarrow>
     db_audit d' = db_audit d \<and> db_evidence d' = db_evidence d \<and> db_handoffs d' = db_handoffs d"
  by (auto simp: decide_def uuid4_def Let_def split: option.splits prod.splits verdict.splits if_splits)

lemma decide_sendable: "decide k t a d = (DC_ADMITTED, d') \<Longrightarrow> sendable k t d'"
proof -
  assume dec: "decide k t a d = (DC_ADMITTED, d')"
  from decide_admittedD [OF this] obtain c row u reason row1 where
    r: "ob_status row = OB_SENDING" "ob_claim_token row = Some t" "eligibility c row d = (Eligible reason, row1)"
    "lock_delivery_row k d' = Some (c, row1\<lparr>ob_send_admission := Some (admission_value u t (db_clock d))\<rparr>)"
    by blast
  from eligibility_authorized [OF r(3)] obtain cx where
    cx: "row1 = row\<lparr>ob_delivery_context := Some cx\<rparr>" "authorized c row1 cx d" by blast
  moreover have "authorized c row1 cx d'" using cx(2) decide_frame [OF dec] authorized_cong by metis
  ultimately show ?thesis
    using r by (auto simp: sendable_def admission_phase_def admission_value_phase)
qed

text \<open>What the provider does to its world when it is used as intended: sends in a sendable state only.\<close>

definition sends_preserve :: "('w \<Rightarrow> bool) \<Rightarrow> 'w provider \<Rightarrow> outbox_claim \<Rightarrow> bool" where
  "sends_preserve P pv c \<longleftrightarrow>
     (\<forall>to body d w. P w \<longrightarrow> sendable (oc_id c) (oc_claim_token c) d \<longrightarrow> P (snd (snd (pv_send_text pv to body d w)))) \<and>
     (\<forall>to m f caption d w. P w \<longrightarrow> sendable (oc_id c) (oc_claim_token c) d \<longrightarrow>
        P (snd (snd (pv_send_document pv to m f caption d w)))) \<and>
     (\<forall>path mime d w. P w \<longrightarrow> P (snd (snd (pv_upload_media pv path mime d w))))"

lemma resolve_document_preserve:
  assumes "P w" and "\<forall>path mime d w. P w \<longrightarrow> P (snd (snd (pv_upload_media pv path mime d w)))"
    and "resolve_document pv u st k d w = (r, d', w')"
  shows "P w'"
proof (cases "get_row ca_id k (db_catalog_assets d)")
  case None
  with assms show ?thesis by (simp add: resolve_document_def)
next
  case (Some a)
  let ?path = "resolve_file_path st (ca_file_path a)"
  obtain r1 d1 w1 where up: "pv_upload_media pv ?path (ca_mime_type a) d w = (r1, d1, w1)" by (metis prod_cases3)
  with assms(1,2) have "P w1" by (metis snd_conv)
  moreover have "w' = w \<or> w' = w1"
    using assms(3) Some up
    by (cases r1) (auto simp: resolve_document_def Let_def split: if_splits sum.splits prod.splits)
  ultimately show ?thesis using assms(1) by auto
qed

lemma admit_sendable: "admit_outbox k t d = (DC_ADMITTED, d') \<Longrightarrow> sendable k t d'"
  by (simp add: admit_outbox_def decide_sendable)

lemma attempt_text_preserve:
  assumes "P w" and "sends_preserve P pv c" and "attempt_text pv c d w = (r, d', w')"
  shows "P w'"
proof -
  obtain x d1 where ad: "admit_outbox (oc_id c) (oc_claim_token c) d = (x, d1)" by fastforce
  show ?thesis
  proof (cases "extract_text_body c")
    case (Inl e)
    with assms show ?thesis by (simp add: attempt_text_def)
  next
    case (Inr body)
    obtain r2 d2 w2 where s: "pv_send_text pv (oc_recipient_phone_number c) body d1 w = (r2, d2, w2)" by (metis prod_cases3)
    show ?thesis
    proof (cases "x = DC_ADMITTED")
      case True
      with ad have "sendable (oc_id c) (oc_claim_token c) d1" by (simp add: admit_sendable)
      with assms(1,2) s have "P w2" unfolding sends_preserve_def by (metis snd_conv)
      moreover have "w' = w2" using assms(3) Inr ad True s by (cases r2) (auto simp: attempt_text_def)
      ultimately show ?thesis by simp
    next
      case False
      with assms Inr ad show ?thesis by (simp add: attempt_text_def)
    qed
  qed
qed

lemma resend_document_preserve:
  assumes "P w" and "sends_preserve P pv c" and "resend_document pv u st c asset_id caption d w = (r, d', w')"
  shows "P w'"
proof -
  obtain x d1 where ch: "check_outbox (oc_id c) (oc_claim_token c) d = (x, d1)" by fastforce
  obtain y d2 w2 where rs: "resolve_document pv u st asset_id d1 w = (y, d2, w2)" by (metis prod_cases3)
  obtain z d3 where ad: "admit_outbox (oc_id c) (oc_claim_token c) d2 = (z, d3)" by fastforce
  have up: "P w2" using resolve_document_preserve [where P = P, OF assms(1) _ rs] assms(2) by (simp add: sends_preserve_def)
  show ?thesis
  proof (cases "x = DC_ELIGIBLE \<and> (\<exists>doc. y = Inr doc) \<and> z = DC_ADMITTED")
    case True
    then obtain doc where t: "x = DC_ELIGIBLE" "y = Inr doc" "z = DC_ADMITTED" by blast
    obtain s d4 w4 where sd: "pv_send_document pv (oc_recipient_phone_number c) (cd_media_id doc) (cd_filename doc)
        caption d3 w2 = (s, d4, w4)" by (metis prod_cases3)
    from ad t(3) have "sendable (oc_id c) (oc_claim_token c) d3" by (simp add: admit_sendable)
    with assms(2) up sd have "P w4" unfolding sends_preserve_def by (metis snd_conv)
    moreover have "w' = w4" using assms(3) ch rs ad sd t by (cases s) (auto simp: resend_document_def)
    ultimately show ?thesis by simp
  next
    case False
    with assms(1,3) up ch rs ad show ?thesis
      by (cases y) (auto simp: resend_document_def split: if_splits)
  qed
qed

lemma attempt_document_preserve:
  assumes "P w" and "sends_preserve P pv c" and "attempt_document pv u st c d w = (r, d', w')"
  shows "P w'"
proof -
  obtain x d1 where ch: "check_outbox (oc_id c) (oc_claim_token c) d = (x, d1)" by fastforce
  show ?thesis
  proof (cases "x = DC_ELIGIBLE \<and> (\<exists>caption a. extract_document_caption c = Inr caption \<and> document_catalog_asset_id c = Inr a)")
    case False
    with assms(1,3) ch show ?thesis
      by (cases "extract_document_caption c"; cases "document_catalog_asset_id c")
         (auto simp: attempt_document_def split: if_splits)
  next
    case True
    then obtain caption asset_id where t: "x = DC_ELIGIBLE" "extract_document_caption c = Inr caption"
      "document_catalog_asset_id c = Inr asset_id" by blast
    obtain y d2 w2 where rs: "resolve_document pv u st asset_id d1 w = (y, d2, w2)" by (metis prod_cases3)
    obtain z d3 where ad: "admit_outbox (oc_id c) (oc_claim_token c) d2 = (z, d3)" by fastforce
    have up: "P w2" using resolve_document_preserve [where P = P, OF assms(1) _ rs] assms(2) by (simp add: sends_preserve_def)
    show ?thesis
    proof (cases "(\<exists>doc. y = Inr doc) \<and> z = DC_ADMITTED")
      case False
      with assms(3) up ch t rs ad show ?thesis
        by (cases y) (auto simp: attempt_document_def split: if_splits)
    next
      case True
      then obtain doc where q: "y = Inr doc" "z = DC_ADMITTED" by blast
      obtain s d4 w4 where sd: "pv_send_document pv (oc_recipient_phone_number c) (cd_media_id doc) (cd_filename doc)
          caption d3 w2 = (s, d4, w4)" by (metis prod_cases3)
      from ad q(2) have "sendable (oc_id c) (oc_claim_token c) d3" by (simp add: admit_sendable)
      with assms(2) up sd have p4: "P w4" unfolding sends_preserve_def by (metis snd_conv)
      obtain ok d5 where rj: "reject_media_admission (oc_id c) (oc_claim_token c) d4 = (ok, d5)" by fastforce
      show ?thesis
      proof (cases "\<exists>e. s = Inl (InvalidMediaError e) \<and> ok")
        case True
        then obtain e where "s = Inl (InvalidMediaError e)" "ok" by blast
        with assms(3) ch t rs ad q sd rj have "resend_document pv u st c asset_id caption
            (invalidate_media_cache asset_id ''Meta rejected cached media_id during document send'' d5) w4 = (r, d', w')"
          by (simp add: attempt_document_def)
        from resend_document_preserve [OF p4 assms(2) this] show ?thesis .
      next
        case False
        with assms(3) ch t rs ad q sd rj have "w' = w4"
          by (cases s) (auto simp: attempt_document_def split: item_error.splits if_splits)
        with p4 show ?thesis by simp
      qed
    qed
  qed
qed

section \<open>Order\<close>

text \<open>A row that waits for a text is free only when that text was sent.\<close>

definition follows_sent :: "outbox \<Rightarrow> db \<Rightarrow> bool" where
  "follows_sent row d \<longleftrightarrow>
     (case ob_delivery_context row of
        None \<Rightarrow> True
      | Some context \<Rightarrow> is_obj context \<and> jhas ''after_outbox_id'' context \<longrightarrow>
          ob_message_kind row = KIND_DOCUMENT \<and>
          (\<exists>k p. jget ''after_outbox_id'' context = JInt k \<and> get_row ob_id k (db_outbox d) = Some p \<and>
             predecessor_ok row p \<and> ob_status p = OB_SENT))"

lemma predecessor_unblocked: "predecessor_verdict p = Unblocked \<longleftrightarrow> ob_status p = OB_SENT"
  by (cases "ob_status p") (simp_all add: predecessor_verdict_def)

lemma dependency_unblocked: "dependency_blocks_claim row d = Unblocked \<Longrightarrow> follows_sent row d"
  by (auto simp: dependency_blocks_claim_def follows_sent_def predecessor_unblocked
      split: option.splits if_splits json.splits)

definition sent_rows_from :: "db \<Rightarrow> db \<Rightarrow> bool" where
  "sent_rows_from d d' \<longleftrightarrow> (\<forall>k p. get_row ob_id k (db_outbox d') = Some p \<and> ob_status p = OB_SENT \<longrightarrow>
     get_row ob_id k (db_outbox d) = Some p)"

lemma sent_rows_from_put:
  "db_outbox d' = put_row ob_id r (db_outbox d) \<Longrightarrow> ob_status r \<noteq> OB_SENT \<Longrightarrow> sent_rows_from d d'"
  by (auto simp: sent_rows_from_def get_put_row split: if_splits)

lemma sent_rows_from_trans: "sent_rows_from a b \<Longrightarrow> sent_rows_from b c \<Longrightarrow> sent_rows_from a c"
  unfolding sent_rows_from_def by blast

lemma follows_sent_back: "sent_rows_from d d' \<Longrightarrow> follows_sent row d' \<Longrightarrow> follows_sent row d"
  unfolding follows_sent_def sent_rows_from_def by (cases "ob_delivery_context row") auto

lemma claim_outbox_rows_claims:
  "claim_outbox_rows now rows d = (cs, d') \<Longrightarrow> c \<in> set cs \<Longrightarrow>
     \<exists>row \<in> set rows. \<exists>token. c = outbox_claim_of row token \<and> follows_sent row d"
proof (induction now rows d arbitrary: cs rule: claim_outbox_rows.induct)
  case (2 now row rows d)
  show ?case
  proof (cases "dependency_blocks_claim row d")
    case Unblocked
    obtain token d1 where u: "uuid4 d = (token, d1)" by fastforce
    obtain cs1 d2 where r: "claim_outbox_rows now rows (put_outbox (lease_outbox token now row) d1) = (cs1, d2)" by fastforce
    with 2(4) Unblocked u have cs: "cs = outbox_claim_of row token # cs1" and d2: "d2 = d'" by auto
    have bk: "sent_rows_from d (put_outbox (lease_outbox token now row) d1)"
      using u by (intro sent_rows_from_put) (auto simp: uuid4_def)
    from 2(5) cs have "c = outbox_claim_of row token \<or> c \<in> set cs1" by simp
    then show ?thesis
    proof
      assume "c = outbox_claim_of row token"
      with dependency_unblocked [OF Unblocked] show ?thesis by auto
    next
      assume "c \<in> set cs1"
      from 2(1) [OF Unblocked u [symmetric] r [unfolded d2] this] follows_sent_back [OF bk] show ?thesis by auto
    qed
  next
    case Wait
    with 2(2) [OF Wait] 2(4,5) show ?thesis by auto
  next
    case (Stopped result reason)
    have bk: "sent_rows_from d (put_outbox (stop_delivery row result reason now) d)"
      using stop_delivery_status [of row result reason now] by (intro sent_rows_from_put) auto
    from 2(3) [OF Stopped] 2(4,5) Stopped follows_sent_back [OF bk] show ?thesis by fastforce
  qed
qed simp

lemma claim_outbox_rows_length: "length (fst (claim_outbox_rows now rows d)) \<le> length rows"
  by (induction now rows d rule: claim_outbox_rows.induct)
     (auto split: dependency_verdict.split prod.split simp: le_SucI)

section \<open>Properties\<close>

text \<open>C3. Nothing reaches a customer unless it was admitted in the state in which it is sent: whatever holds of
  the outside world and is kept by uploads and by sends of the leased, admitted and authorized output,
  still holds after an output was processed, whatever other workers do to the database meanwhile.\<close>

theorem sends_only_admitted:
  assumes "sends_preserve P pv c" and "P w"
    and "process_claimed_outbox_item pv u st ma mb c d w = (x, d', w')"
  shows "P w'"
proof -
  obtain r d1 w1 where at: "attempt_outbox pv u st c d w = (r, d1, w1)" by (metis prod_cases3)
  then have "P w1"
    using attempt_document_preserve [OF assms(2,1)] attempt_text_preserve [OF assms(2,1)]
    by (auto simp: attempt_outbox_def split: if_splits)
  moreover have "w' = w1"
    using assms(3) at by (cases r) (auto simp: process_claimed_outbox_item_def split: prod.splits)
  ultimately show ?thesis by simp
qed

text \<open>A provider that counts the sends it is asked for in a state that does not allow them.\<close>

definition auditing_provider :: "int \<Rightarrow> uuid \<Rightarrow> (db \<Rightarrow> bool) \<Rightarrow> nat provider" where
  "auditing_provider k t allowed = \<lparr>
     pv_send_text = (\<lambda>to body d n. (Inr ''wamid.X'', d, if allowed d then n else n + 1)),
     pv_send_document = (\<lambda>to m f cap d n. (Inr ''wamid.X'', d, if allowed d then n else n + 1)),
     pv_upload_media = (\<lambda>p m d n. (Inr ''media'', d, n)), pv_sha256_file = (\<lambda>p. None)\<rparr>"

lemma sends_only_admitted_witness:
  "snd (snd (process_claimed_outbox_item (auditing_provider 91 5 (sendable 91 5)) ascii_ucd sample_settings 5 300
     (outbox_claim_of sample_outbox 5) outbox_db 0)) = 0"
proof -
  have "sends_preserve (\<lambda>n. n = 0) (auditing_provider 91 5 (sendable 91 5)) (outbox_claim_of sample_outbox 5)"
    by (simp add: sends_preserve_def auditing_provider_def outbox_claim_of_def sample_outbox_def)
  from sends_only_admitted [OF this refl] show ?thesis by (metis prod.collapse)
qed

text \<open>A document never overtakes the text it follows: every claimed output was pending in the table, and if it
  names a predecessor it is a document whose predecessor is a text of the same message and conversation
  that had been sent before the batch was claimed; a batch has at most the configured size.\<close>

theorem documents_follow_texts:
  assumes "claim_due_outbox_batch now n d = (cs, d')" and "c \<in> set cs"
  shows "length cs \<le> n \<and> (\<exists>row token. row \<in> set (db_outbox d) \<and> c = outbox_claim_of row token \<and>
    ob_status row = OB_PENDING \<and> claimable now d row \<and> follows_sent row d)"
proof -
  from assms(1) have r: "claim_outbox_rows now (due_outbox now n d) d = (cs, d')"
    by (simp add: claim_due_outbox_batch_def)
  have "length cs \<le> length (due_outbox now n d)"
    using claim_outbox_rows_length [of now "due_outbox now n d" d] r by simp
  then have "length cs \<le> n" by (simp add: due_outbox_def)
  moreover from claim_outbox_rows_claims [OF r assms(2)] obtain row token where
    row: "row \<in> set (due_outbox now n d)" "c = outbox_claim_of row token" "follows_sent row d" by blast
  moreover from row(1) have "row \<in> set (db_outbox d)" "claimable now d row"
    by (auto simp: due_outbox_def dest: in_set_takeD)
  ultimately show ?thesis by (auto simp: claimable_def)
qed

definition sample_document :: outbox where
  "sample_document = sample_outbox\<lparr>ob_id := 92, ob_message_kind := KIND_DOCUMENT, ob_catalog_asset_id := Some 11,
     ob_status := OB_PENDING, ob_claim_token := None, ob_claimed_at := None,
     ob_delivery_context := Some (JObj [(''origin'', JStr ''AUTO''), (''after_outbox_id'', JInt 91)])\<rparr>"

lemma documents_follow_texts_witness:
  "follows_sent sample_document (sample_db\<lparr>db_outbox := [sample_outbox\<lparr>ob_status := OB_SENT\<rparr>, sample_document]\<rparr>)"
proof -
  let ?d = "sample_db\<lparr>db_outbox := [sample_outbox\<lparr>ob_status := OB_SENT\<rparr>, sample_document]\<rparr>"
  have "due_outbox sample_now 10 ?d = [sample_document]"
    by (simp add: due_outbox_def claimable_def order_by_def text_blocked_def text_resolved_def preceding_text_def
        dependency_id_def predecessor_ok_def sample_document_def sample_outbox_def jget_JObj)
  moreover have "dependency_blocks_claim sample_document ?d = Unblocked"
    by (simp add: dependency_blocks_claim_def predecessor_ok_def predecessor_verdict_def sample_document_def
        sample_outbox_def jget_JObj jhas_def get_row_Cons)
  ultimately obtain t d' where c: "claim_due_outbox_batch sample_now 10 ?d = ([outbox_claim_of sample_document t], d')"
    by (simp add: claim_due_outbox_batch_def uuid4_def)
  from documents_follow_texts [OF c list.set_intros(1)] obtain row t' where
    "row \<in> set (db_outbox ?d)" "outbox_claim_of sample_document t = outbox_claim_of row t'" "follows_sent row ?d" by blast
  moreover from this(2) have "ob_id row = 92" by (simp add: outbox_claim_of_def sample_document_def)
  ultimately show ?thesis by (auto simp: sample_outbox_def)
qed

text \<open>C8. An output never waits for ever: whatever its leases, refusals, failures and recoveries, its row makes at
  most two moves for each attempt it still has and two more before it is settled.\<close>

theorem outbox_settles:
  assumes "(outbox_step ma mb ^^ n) r r'"
  shows "n \<le> 2 * (ma - ob_attempts r) + 2 \<and> (n = 2 * (ma - ob_attempts r) + 2 \<longrightarrow>
    ob_status r' \<in> {OB_SENT, OB_FAILED, OB_SUPPRESSED, OB_REVIEW})"
proof -
  have "outbox_fuel ma r \<le> 2 * (ma - ob_attempts r) + 2"
    by (simp add: outbox_fuel_def split: outbox_status.split)
  moreover have "outbox_fuel ma r' = 0 \<Longrightarrow> ob_status r' \<in> {OB_SENT, OB_FAILED, OB_SUPPRESSED, OB_REVIEW}"
    by (cases "ob_status r'") (simp_all add: outbox_fuel_def)
  ultimately show ?thesis using outbox_run_bound [OF assms] by fastforce
qed

lemma two_steps: "R x y \<Longrightarrow> R y z \<Longrightarrow> (R ^^ 2) x z"
  by (auto simp: numeral_2_eq_2)

lemma outbox_settles_witness:
  "\<exists>r'. (outbox_step 1 300 ^^ 2) sample_document r' \<and> ob_status r' = OB_FAILED \<and> (2::nat) \<le> 2 * 1 + 2"
proof -
  let ?leased = "lease_outbox 5 sample_now sample_document"
  let ?failed = "fail_outbox (Eligible []) [] sample_now 1 300 False
      (?leased\<lparr>ob_delivery_context := None, ob_send_admission := None\<rparr>)"
  have l: "outbox_step 1 300 sample_document ?leased"
    by (rule step_lease) (simp add: sample_document_def)
  have f: "outbox_step 1 300 ?leased ?failed" by (rule step_fail) simp
  have run: "(outbox_step 1 300 ^^ 2) sample_document ?failed"
    using l f by (rule two_steps)
  have "ob_status ?failed = OB_FAILED" by (simp add: fail_outbox_def Let_def failed_attempt_def)
  with run outbox_settles [OF run] show ?thesis by auto
qed


text \<open>A worker that lost its lease cannot settle: after the reaper recovered the row, both settlements with the old
  token are discarded and change nothing, whatever happened to the row since, as long as the token is
  not issued again.\<close>

theorem stale_outbox_worker_ignored:
  assumes "recover_row_with y r \<noteq> r" and "\<not> claims_token t es"
    and "lock_delivery_row k d = Some (c, outbox_lease.lease_run es (recover_row_with y r))"
  shows "settle_outbox_success k t m sent_at ma mb ty content d = (DISCARDED, d) \<and>
    settle_outbox_failure k t err failed_at ma mb p d = (DISCARDED, d)"
proof -
  have "ob_status (recover_row_with y r) \<noteq> OB_SENDING" using outbox_lease.recover_releases [OF assms(1)] .
  then have "\<not> outbox_lease.owned t (recover_row_with y r)" by (simp add: outbox_lease.owned_def)
  from outbox_lease.lost_lease [OF this assms(2)] assms(3) have "lock_owned_outbox k t d = None"
    by (auto simp: lock_owned_outbox_def outbox_lease.owned_def)
  then show ?thesis by (simp add: settle_outbox_success_def settle_outbox_failure_def)
qed

lemma sample_stale:
  "recover_row_with (sample_now + 1, Eligible [], sample_now + 2, 5, 300) sample_outbox \<noteq> sample_outbox"
proof
  assume "recover_row_with (sample_now + 1, Eligible [], sample_now + 2, 5, 300) sample_outbox = sample_outbox"
  then have "ob_status (recover_row_with (sample_now + 1, Eligible [], sample_now + 2, 5, 300) sample_outbox) = OB_SENDING"
    by (simp add: sample_outbox_def)
  then show False
    by (simp add: recover_row_with_def stale_sending_def fail_outbox_def Let_def sample_outbox_def)
qed

lemma stale_outbox_worker_ignored_witness:
  "\<exists>d. settle_outbox_success 91 5 ''wamid'' 0 5 300 ''text'' JNull d = (DISCARDED, d)"
proof -
  let ?y = "(sample_now + 1, Eligible [] :: verdict, sample_now + 2, 5 :: nat, 300 :: int)"
  let ?r = "recover_row_with ?y sample_outbox"
  have ids: "ob_id ?r = 91" "ob_conversation_id ?r = 1"
    by (simp_all add: recover_row_with_def stale_sending_def fail_outbox_def Let_def failed_attempt_def
        unknown_if_admitted_def sample_outbox_def)
  have "lock_delivery_row 91 (sample_db\<lparr>db_outbox := [?r]\<rparr>) = Some (sample_conversation, ?r)"
    using ids by (simp add: lock_delivery_row_def get_row_Cons) (simp add: sample_conversation_def sample_customer_def)
  then have "lock_delivery_row 91 (sample_db\<lparr>db_outbox := [?r]\<rparr>) =
      Some (sample_conversation, outbox_lease.lease_run [] ?r)" by simp
  from stale_outbox_worker_ignored [OF sample_stale _ this, of 5 "''wamid''" 0 5 300 "''text''" JNull "[]" 0 False]
  show ?thesis by auto
qed

text \<open>A success by the owner settles the output and records the sent message once: the row becomes SENT with
  its lease released, and the message is added unless the provider's identifier is already known.\<close>

theorem success_settles_once:
  assumes "lock_owned_outbox k t d = Some (c, row)"
    and "get_row ms_id (ob_message_id row) (db_messages d) = Some inbound"
    and "settle_outbox_success k t m sent_at ma mb ty content d = (x, d')"
  shows "x = APPLIED \<and> get_row ob_id k (db_outbox d') = Some (sent_outbox sent_at row) \<and>
    (if list_ex (\<lambda>r. ms_external_message_id r = m) (db_messages d) then db_messages d' = db_messages d
     else \<exists>new. db_messages d' = db_messages d @ [new] \<and> ms_external_message_id new = m \<and>
       ms_conversation_id new = ob_conversation_id row \<and> ms_customer_id new = ms_customer_id inbound \<and>
       ms_direction new = ''OUTBOUND'' \<and> ms_content new = content) \<and>
    settle_outbox_success k t m sent_at ma mb ty content d' = (DISCARDED, d') \<and>
    settle_outbox_failure k t err failed_at ma mb p d' = (DISCARDED, d')"
proof -
  note own = lock_owned_SomeD [OF assms(1)]
  have d': "x = APPLIED" "d' = record_outbound_message row inbound m ty content (put_outbox (sent_outbox sent_at row) d)"
    using assms by (simp_all add: settle_outbox_success_def)
  then have g: "get_row ob_id k (db_outbox d') = Some (sent_outbox sent_at row)"
    using own by (simp add: get_put_row)
  have "lock_owned_outbox k t d' = None"
    using g by (auto simp: lock_owned_outbox_def lock_delivery_row_def split: option.split)
  with g d' show ?thesis
    by (simp add: settle_outbox_success_def settle_outbox_failure_def record_outbound_message_def next_serial_def)
qed

lemma success_settles_once_witness:
  "\<exists>d'. settle_outbox_success 91 5 ''wamid'' 0 5 300 ''text'' JNull
     (outbox_db\<lparr>db_messages := [\<lparr>ms_id = 71, ms_external_message_id = ''wamid.0'', ms_conversation_id = 1,
        ms_customer_id = 1, ms_direction = ''INBOUND'', ms_message_type = ''text'', ms_content = JNull,
        ms_provider_timestamp = None\<rparr>]\<rparr>) = (APPLIED, d') \<and> length (db_messages d') = 2"
proof -
  let ?m = "\<lparr>ms_id = 71, ms_external_message_id = ''wamid.0'', ms_conversation_id = 1,
        ms_customer_id = 1, ms_direction = ''INBOUND'', ms_message_type = ''text'', ms_content = JNull,
        ms_provider_timestamp = None\<rparr>"
  let ?d = "outbox_db\<lparr>db_messages := [?m]\<rparr>"
  obtain x d' where s: "settle_outbox_success 91 5 ''wamid'' 0 5 300 ''text'' JNull ?d = (x, d')" by fastforce
  have "lock_owned_outbox 91 5 ?d = Some (sample_conversation, sample_outbox)"
    by (simp add: lock_owned_outbox_def lock_delivery_row_def get_row_Cons)
       (simp add: sample_outbox_def sample_conversation_def sample_customer_def)
  moreover have "get_row ms_id (ob_message_id sample_outbox) (db_messages ?d) = Some ?m"
    by (simp add: get_row_Cons sample_outbox_def)
  moreover have "\<not> list_ex (\<lambda>r. ms_external_message_id r = ''wamid'') (db_messages ?d)" by simp
  ultimately have "x = APPLIED" "\<exists>new. db_messages d' = db_messages ?d @ [new]"
    using success_settles_once [OF _ _ s] by meson+
  then have "length (db_messages d') = 2" by auto
  with s \<open>x = APPLIED\<close> show ?thesis by blast
qed

end
