(* ===== verification/Inbound_Store.thy ===== *)
theory Inbound_Store
  imports Notification_Statuses Conversation_Service
begin

text \<open>
  The intake of \<open>app/channel/inbound.py\<close>: the messages and delivery receipts of a webhook are stored
  in one transaction, each new message with its inbox job, in the customer's active conversation.
  The typed parsing of one message (\<open>channel/schemas.py\<close>, a pydantic model) is the parameter \<open>parse\<close>.
\<close>

section \<open>Phone numbers\<close>

definition digits_of :: "ucd \<Rightarrow> string \<Rightarrow> nat list" where
  "digits_of u s = filter (uc_isdigit u) (utf8_decode s)"

definition normalize_phone_number :: "ucd \<Rightarrow> string \<Rightarrow> (app_error, string) result" where
  "normalize_phone_number u s =
     (let digits = digits_of u s in
      if digits = [] then Inl (ValueError ''phone_number must contain at least one digit'')
      else if is_prefix ''+'' (strip s) then Inr (''+'' @ utf8_encode digits)
      else if length digits = 10 then Inr (''+57'' @ utf8_encode digits)
      else Inr (''+'' @ utf8_encode digits))"

section \<open>The payload\<close>

text \<open>\<open>for x in v\<close> and \<open>v.get(k, default)\<close> of a JSON value; anything else raises.\<close>

definition json_iter :: "json \<Rightarrow> (app_error, json list) result" where
  "json_iter j = (case j of
       JList xs \<Rightarrow> Inr xs
     | JObj kvs \<Rightarrow> Inr (map (JStr \<circ> fst) kvs)
     | JStr s \<Rightarrow> Inr (map (\<lambda>c. JStr (utf8_encode [c])) (utf8_decode s))
     | _ \<Rightarrow> Inl (OtherError ''TypeError''))"

definition json_get :: "string \<Rightarrow> json \<Rightarrow> json \<Rightarrow> (app_error, json) result" where
  "json_get k dflt j =
     (if is_obj j then Inr (if jhas k j then jget k j else dflt) else Inl (OtherError ''AttributeError''))"

text \<open>A loop that collects what its body yields; the first exception ends it.\<close>

fun collect :: "('a \<Rightarrow> ('e, 'b list) result) \<Rightarrow> 'a list \<Rightarrow> ('e, 'b list) result" where
  "collect f [] = Inr []"
| "collect f (x # xs) = ebind (f x) (\<lambda>ys. ebind (collect f xs) (\<lambda>zs. Inr (ys @ zs)))"

definition change_value :: "json \<Rightarrow> (app_error, json list) result" where
  "change_value change =
     ebind (json_get ''field'' JNull change) (\<lambda>field.
       if field \<noteq> JStr ''messages'' then Inr []
       else let v = jget ''value'' change in Inr (if is_obj v then [v] else []))"

definition iter_whatsapp_change_values :: "json \<Rightarrow> (app_error, json list) result" where
  "iter_whatsapp_change_values payload =
     ebind (json_get ''object'' JNull payload) (\<lambda>kind.
       if kind \<noteq> JStr ''whatsapp_business_account'' then Inr []
       else ebind (json_get ''entry'' (JList []) payload) (\<lambda>v.
            ebind (json_iter v) (collect (\<lambda>entry.
              ebind (json_get ''changes'' (JList []) entry) (\<lambda>v.
              ebind (json_iter v) (collect change_value))))))"

record inbound_message =
  im_external_message_id :: string
  im_phone_number :: string
  im_message_type :: string
  im_content :: json
  im_provider_timestamp :: "instant option"

definition extract_inbound_message ::
  "ucd \<Rightarrow> (json \<Rightarrow> inbound_message option) \<Rightarrow> json \<Rightarrow> (app_error, inbound_message list) result" where
  "extract_inbound_message u parse message =
     ebind (json_get ''id'' JNull message) (\<lambda>i.
     let sender = jget ''from'' message in
       if \<not> truthy i \<or> \<not> truthy sender \<or> \<not> truthy (jget ''type'' message) then Inr []
       else (case parse message of
           None \<Rightarrow> Inr []
         | Some m \<Rightarrow> ebind (normalize_phone_number u (case sender of JStr s \<Rightarrow> s | _ \<Rightarrow> []))
             (\<lambda>phone. Inr [m\<lparr>im_phone_number := phone\<rparr>])))"

definition extract_inbound_messages ::
  "ucd \<Rightarrow> (json \<Rightarrow> inbound_message option) \<Rightarrow> json \<Rightarrow> (app_error, inbound_message list) result" where
  "extract_inbound_messages u parse payload =
     ebind (iter_whatsapp_change_values payload) (collect (\<lambda>value.
       ebind (json_get ''messages'' (JList []) value) (\<lambda>v.
       ebind (json_iter v) (collect (extract_inbound_message u parse)))))"

definition extract_provider_status :: "json \<Rightarrow> (app_error, json list) result" where
  "extract_provider_status status =
     ebind (json_get ''id'' JNull status) (\<lambda>i.
       Inr (if truthy i \<and> truthy (jget ''status'' status) then [status] else []))"

definition extract_provider_statuses :: "json \<Rightarrow> (app_error, json list) result" where
  "extract_provider_statuses payload =
     ebind (iter_whatsapp_change_values payload) (collect (\<lambda>value.
       ebind (json_get ''statuses'' (JList []) value) (\<lambda>v.
       ebind (json_iter v) (collect extract_provider_status))))"

definition extract_text_body_of :: "json \<Rightarrow> string" where
  "extract_text_body_of content =
     (case jget ''body'' (jget ''text'' content) of
        JStr body \<Rightarrow> body
      | _ \<Rightarrow> (case [c. JStr c \<leftarrow> map (\<lambda>t. jget ''caption'' (jget t content)) [''image'', ''document'', ''audio'', ''video'']] of
            c # _ \<Rightarrow> c | [] \<Rightarrow> []))"

section \<open>What a turn works on\<close>

datatype input_origin = TEXT | AUDIO_TRANSCRIPT

record persisted_message =
  pm_message_id :: int
  pm_conversation_id :: int
  pm_customer_id :: int
  pm_message_text :: string
  pm_context :: json
  pm_external_message_id :: string
  pm_message_type :: string
  pm_content :: json
  pm_input_origin :: input_origin

definition persisted_context :: "conversation \<Rightarrow> json" where
  "persisted_context c = JObj [
     (''state'', JStr (conversation_state_str (cv_state c))), (''bot_enabled'', JBool (cv_bot_enabled c)),
     (''last_intent'', opt_json JStr (cv_last_intent c)), (''pending_action'', opt_json JStr (cv_pending_action c)),
     (''last_question_code'', opt_json JStr (cv_last_question_code c)), (''known_fields'', JObj []),
     (''failed_understanding_count'', JInt (cv_failed_understanding_count c)),
     (''pending_confirmation'', opt_json id (cv_pending_confirmation c)),
     (''booking_draft_active'', JBool (case cv_booking_draft c of None \<Rightarrow> False | Some j \<Rightarrow> truthy j)),
     (''pending_fields'', JList (map JStr (cv_pending_fields c)))]"

definition persisted_message_from_models :: "message \<Rightarrow> conversation \<Rightarrow> persisted_message" where
  "persisted_message_from_models m c = \<lparr>pm_message_id = ms_id m, pm_conversation_id = cv_id c,
     pm_customer_id = ms_customer_id m, pm_message_text = extract_text_body_of (ms_content m),
     pm_context = persisted_context c, pm_external_message_id = ms_external_message_id m,
     pm_message_type = ms_message_type m, pm_content = ms_content m, pm_input_origin = TEXT\<rparr>"

section \<open>Storing a message\<close>

text \<open>\<open>INSERT ... ON CONFLICT DO NOTHING\<close>, then the row; a value too long for its column is refused.\<close>

definition get_or_create_customer :: "string \<Rightarrow> db \<Rightarrow> (app_error, customer \<times> db) result" where
  "get_or_create_customer phone d =
     (if length (utf8_decode phone) > 32 then Inl (OtherError ''DataError'')
      else case find (\<lambda>c. cu_phone_number c = phone) (db_customers d) of
        Some c \<Rightarrow> Inr (c, d)
      | None \<Rightarrow> (case next_serial d of (k, d1) \<Rightarrow>
          let c = \<lparr>cu_id = k, cu_phone_number = phone, cu_full_name = None\<rparr>
          in Inr (c, d1\<lparr>db_customers := db_customers d1 @ [c]\<rparr>)))"

definition new_conversation :: "int \<Rightarrow> customer \<Rightarrow> uuid \<Rightarrow> conversation" where
  "new_conversation k c epoch = \<lparr>cv_id = k, cv_customer_id = cu_id c, cv_state = NEW, cv_last_intent = None,
     cv_pending_action = None, cv_pending_fields = [], cv_pending_confirmation = None,
     cv_visit_draft = None, cv_booking_draft = None, cv_last_question_code = None,
     cv_active_lead_id = None, cv_failed_understanding_count = 0,
     cv_services_failed_understanding_count = None, cv_bot_enabled = True, cv_automation_epoch = epoch,
     cv_assigned_agent_id = None\<rparr>"

definition active_conversation :: "int \<Rightarrow> db \<Rightarrow> conversation option" where
  "active_conversation customer_id d = first_by (\<lambda>a b. cv_id b < cv_id a)
     (filter (\<lambda>c. cv_customer_id c = customer_id \<and> cv_state c \<notin> {RESOLVED, CLOSED}) (db_conversations d))"

definition get_or_create_active_conversation :: "customer \<Rightarrow> db \<Rightarrow> (app_error, conversation \<times> db) result" where
  "get_or_create_active_conversation cu d =
     (case active_conversation (cu_id cu) d of
        Some c \<Rightarrow> Inr (c, d)
      | None \<Rightarrow> (case next_serial d of (k, d1) \<Rightarrow> case uuid4 d1 of (epoch, d2) \<Rightarrow>
          let c = new_conversation k cu epoch
          in transition_conversation c BOT_ACTIVE ''SYSTEM'' (Some ''Initial valid WhatsApp message stored'') None
               (d2\<lparr>db_conversations := db_conversations d2 @ [c]\<rparr>)))"

definition new_job :: "int \<Rightarrow> message \<Rightarrow> string option \<Rightarrow> inbox_job" where
  "new_job k m request_id = \<lparr>ij_id = k, ij_message_id = ms_id m, ij_conversation_id = ms_conversation_id m,
     ij_status = IJ_PENDING, ij_origin = ''NEW'', ij_attempts = 0, ij_claim_token = None, ij_claimed_at = None,
     ij_next_attempt_at = None, ij_completed_at = None, ij_last_error = None, ij_completion_reason = None,
     ij_request_id = request_id, ij_external_operation = None, ij_external_result = None\<rparr>"

definition add_job :: "message \<Rightarrow> string option \<Rightarrow> (inbox_job \<Rightarrow> inbox_job) \<Rightarrow> db \<Rightarrow> db" where
  "add_job m request_id f d = (case next_serial d of (k, d1) \<Rightarrow>
     d1\<lparr>db_inbox_jobs := db_inbox_jobs d1 @ [f (new_job k m request_id)]\<rparr>)"

definition legacy_job :: "inbox_job \<Rightarrow> inbox_job" where
  "legacy_job j = j\<lparr>ij_status := IJ_REVIEW, ij_origin := ''LEGACY'', ij_last_error := Some ''LEGACY_UNPROVEN''\<rparr>"

definition job_of :: "int \<Rightarrow> db \<Rightarrow> inbox_job option" where
  "job_of message_id d = find (\<lambda>j. ij_message_id j = message_id) (db_inbox_jobs d)"

text \<open>A message the provider delivers again.\<close>

definition redelivered_message ::
  "customer \<Rightarrow> message \<Rightarrow> string option \<Rightarrow> db \<Rightarrow> (app_error, persisted_message option \<times> db) result" where
  "redelivered_message cu m request_id d =
     (if ms_direction m \<noteq> ''INBOUND'' \<or> ms_customer_id m \<noteq> cu_id cu
      then Inl (ValueError ''Inbound external identity conflicts with another message'')
      else (case job_of (ms_id m) d of
          None \<Rightarrow> Inr (None, add_job m request_id legacy_job d)
        | Some job \<Rightarrow>
            if ij_status job = IJ_COMPLETED then Inr (None, d)
            else (case get_row cv_id (ms_conversation_id m) (db_conversations d) of
                None \<Rightarrow> Inl (OtherError ''AttributeError'')
              | Some c \<Rightarrow> Inr (Some (persisted_message_from_models m c), d))))"

definition new_message :: "int \<Rightarrow> inbound_message \<Rightarrow> conversation \<Rightarrow> customer \<Rightarrow> message" where
  "new_message k im c cu = \<lparr>ms_id = k, ms_external_message_id = im_external_message_id im,
     ms_conversation_id = cv_id c, ms_customer_id = cu_id cu, ms_direction = ''INBOUND'',
     ms_message_type = im_message_type im, ms_content = im_content im,
     ms_provider_timestamp = im_provider_timestamp im\<rparr>"

definition first_delivery ::
  "inbound_message \<Rightarrow> customer \<Rightarrow> string option \<Rightarrow> db \<Rightarrow> (app_error, persisted_message option \<times> db) result" where
  "first_delivery im cu request_id d =
     (if length (utf8_decode (im_external_message_id im)) > 255 then Inl (OtherError ''DataError'')
      else ebind (get_or_create_active_conversation cu d) (\<lambda>(c, d1).
        case next_serial d1 of (k, d2) \<Rightarrow>
          let m = new_message k im c cu;
              d3 = d2\<lparr>db_messages := db_messages d2 @ [m]\<rparr>
          in Inr (Some (persisted_message_from_models m c), add_job m request_id id d3)))"

definition persist_inbound_message ::
  "settings \<Rightarrow> string option \<Rightarrow> inbound_message \<Rightarrow> db \<Rightarrow> (app_error, persisted_message option \<times> db) result" where
  "persist_inbound_message st request_id im d =
     (case intercept_staff_inbound (im_phone_number im) (im_provider_timestamp im)
             (im_external_message_id im) st request_id d of
        (True, d1) \<Rightarrow> Inr (None, d1)
      | (False, d1) \<Rightarrow>
          ebind (get_or_create_customer (im_phone_number im) d1) (\<lambda>(cu, d2).
            case find (\<lambda>m. ms_external_message_id m = im_external_message_id im) (db_messages d2) of
              Some m \<Rightarrow> redelivered_message cu m request_id d2
            | None \<Rightarrow> first_delivery im cu request_id d2))"

section \<open>Storing a receipt\<close>

definition record_message_status :: "message \<Rightarrow> json \<Rightarrow> db \<Rightarrow> (app_error, db) result" where
  "record_message_status m payload d =
     ebind (required_str ''status'' payload) (\<lambda>status.
     ebind (optional_str ''recipient_id'' payload) (\<lambda>recipient.
     ebind (parse_provider_timestamp (jget ''timestamp'' payload)) (\<lambda>stamp.
       insert_provider_status \<lparr>mp_provider_message_id = ms_external_message_id m, mp_message_id = Some (ms_id m),
         mp_status = status, mp_recipient_id = recipient, mp_provider_timestamp = stamp, mp_payload = payload\<rparr> d)))"

text \<open>The savepoint is rolled back when the receipt was stored before.\<close>

definition record_provider_status ::
  "(json \<Rightarrow> string) \<Rightarrow> settings \<Rightarrow> string option \<Rightarrow> json \<Rightarrow> db \<Rightarrow> (app_error, db) result" where
  "record_provider_status rp st request_id payload d =
     ebind (required_str ''id'' payload) (\<lambda>pid.
       case (case find (\<lambda>m. ms_external_message_id m = pid) (db_messages d) of
               Some m \<Rightarrow> record_message_status m payload d
             | None \<Rightarrow> ebind (record_staff_provider_status rp st payload request_id d) (\<lambda>(_, d1). Inr d1)) of
         Inl IntegrityError \<Rightarrow> Inr d
       | r \<Rightarrow> r)"

section \<open>Storing a webhook\<close>

fun each :: "('a \<Rightarrow> 's \<Rightarrow> ('e, 's) result) \<Rightarrow> 'a list \<Rightarrow> 's \<Rightarrow> ('e, 's) result" where
  "each f [] d = Inr d"
| "each f (x # xs) d = ebind (f x d) (each f xs)"

fun persist_messages ::
  "settings \<Rightarrow> string option \<Rightarrow> inbound_message list \<Rightarrow> db \<Rightarrow> (app_error, persisted_message list \<times> db) result" where
  "persist_messages st request_id [] d = Inr ([], d)"
| "persist_messages st request_id (im # ims) d =
     ebind (persist_inbound_message st request_id im d) (\<lambda>(p, d1).
     ebind (persist_messages st request_id ims d1) (\<lambda>(ps, d2).
       Inr ((case p of None \<Rightarrow> ps | Some x \<Rightarrow> x # ps), d2)))"

definition persist_payload ::
  "ucd \<Rightarrow> (json \<Rightarrow> inbound_message option) \<Rightarrow> (json \<Rightarrow> string) \<Rightarrow> settings \<Rightarrow> string option \<Rightarrow> json \<Rightarrow> db
     \<Rightarrow> (app_error, persisted_message list \<times> db) result"
where
  "persist_payload u parse rp st request_id payload d =
     ebind (extract_inbound_messages u parse payload) (\<lambda>messages.
     ebind (extract_provider_statuses payload) (\<lambda>statuses.
     ebind (each (record_provider_status rp st request_id) statuses d) (\<lambda>d1.
       persist_messages st request_id
         (order_by (\<lambda>a b. str_less (im_phone_number a) (im_phone_number b)) messages) d1)))"

definition store_webhook_event :: "json \<Rightarrow> string option \<Rightarrow> db \<Rightarrow> int \<times> db" where
  "store_webhook_event payload request_id d = (case next_serial d of (k, d1) \<Rightarrow>
     (k, d1\<lparr>db_webhook_events := db_webhook_events d1 @ [\<lparr>we_id = k, we_payload = payload, we_status = WE_RECEIVED,
        we_error = None, we_request_id = request_id, we_intake_version = Some 2, we_ingest_attempts = 0,
        we_next_attempt_at = None, we_processed_at = None\<rparr>]\<rparr>))"

section \<open>Facts\<close>

text \<open>What the intake keeps: identities are unique, keys are issued once, a message has at most one job
  and belongs to a stored conversation.\<close>

definition intake_ok :: "db \<Rightarrow> bool" where
  "intake_ok d \<longleftrightarrow>
     distinct (map cu_phone_number (db_customers d)) \<and>
     distinct (map ms_external_message_id (db_messages d)) \<and> distinct (map ms_id (db_messages d)) \<and>
     (\<forall>m \<in> set (db_messages d). ms_id m < db_seq d) \<and>
     distinct (map ij_message_id (db_inbox_jobs d)) \<and> distinct (map ij_id (db_inbox_jobs d)) \<and>
     (\<forall>j \<in> set (db_inbox_jobs d). ij_id j < db_seq d \<and> ij_message_id j \<in> ms_id ` set (db_messages d)) \<and>
     ms_conversation_id ` set (db_messages d) \<subseteq> cv_id ` set (db_conversations d)"

definition intake_same :: "db \<Rightarrow> db \<Rightarrow> bool" where
  "intake_same d d' \<longleftrightarrow> db_messages d' = db_messages d \<and> db_inbox_jobs d' = db_inbox_jobs d \<and>
     db_customers d' = db_customers d \<and> db_seq d \<le> db_seq d' \<and>
     cv_id ` set (db_conversations d) \<subseteq> cv_id ` set (db_conversations d')"

lemma intake_same_refl [simp]: "intake_same d d"
  by (simp add: intake_same_def)

lemma intake_same_trans: "intake_same a b \<Longrightarrow> intake_same b c \<Longrightarrow> intake_same a c"
  by (auto simp: intake_same_def)

lemma intake_same_ok:
  assumes "intake_same d d'" and "intake_ok d"
  shows "intake_ok d'"
proof -
  have "\<forall>m \<in> set (db_messages d). ms_id m < db_seq d'" "\<forall>j \<in> set (db_inbox_jobs d). ij_id j < db_seq d'"
    using assms by (auto simp: intake_same_def intake_ok_def intro: less_le_trans)
  moreover have "ms_conversation_id ` set (db_messages d) \<subseteq> cv_id ` set (db_conversations d')"
    using assms unfolding intake_same_def intake_ok_def by (meson subset_trans)
  ultimately show ?thesis using assms by (simp add: intake_same_def intake_ok_def)
qed

lemma intake_same_audit [simp]: "intake_same d' d \<Longrightarrow> intake_same d' (audit a b c e f g h d)"
  by (simp add: intake_same_def audit_def audit_at_def)

lemma put_row_key_set [simp]: "key ` set (put_row key x rows) = key ` set rows"
  by (metis list.set_map put_row_keys)

lemma intake_same_puts [simp]:
  "intake_same d (put_recipient r d)" "intake_same d (put_staff x d)" "intake_same d (put_conversation c d)"
  by (simp_all add: intake_same_def put_recipient_def put_staff_def put_conversation_def)

lemma intake_same_staff_audit: "intake_same d (staff_audit a row old req d)"
  by (auto simp: staff_audit_def audit_def audit_at_def uuid4_def intake_same_def split: option.splits)

lemma intake_same_requeue: "intake_same d (fold (requeue_deferred req now) rows d)"
proof (induction rows arbitrary: d)
  case (Cons r rows)
  have "intake_same d (requeue_deferred req now r d)"
    using intake_same_trans [OF intake_same_puts(2) intake_same_staff_audit] by (simp add: requeue_deferred_def Let_def)
  with Cons show ?case by (auto intro: intake_same_trans)
qed simp

lemma requeue_recipients: "db_recipients (fold (requeue_deferred req now) rows d) = db_recipients d"
  by (induction rows arbitrary: d)
     (simp_all add: requeue_deferred_def Let_def staff_audit_def audit_def audit_at_def uuid4_def put_staff_def
       split: option.split)

text \<open>An adviser's number is recognised again after the interception.\<close>

definition staff_number :: "string \<Rightarrow> db \<Rightarrow> bool" where
  "staff_number phone d \<longleftrightarrow> list_ex (\<lambda>r. nr_phone_number r = phone \<and> nr_active r) (db_recipients d)"

lemma list_ex_put_row:
  "r \<in> set rows \<Longrightarrow> P x \<Longrightarrow> key x = key r \<Longrightarrow> list_ex P (put_row key x rows)"
  by (force simp: list_ex_iff put_row_def)

lemma interceptD:
  assumes "intercept_staff_inbound phone ts mid st req d = (b, d')"
  shows "b = staff_number phone d \<and> intake_same d d' \<and> (b \<longrightarrow> staff_number phone d') \<and> (\<not> b \<longrightarrow> d' = d)"
proof (cases "find (\<lambda>r. nr_phone_number r = phone \<and> nr_active r) (db_recipients d)")
  case None
  with assms have "b = False" "d' = d" by (simp_all add: intercept_staff_inbound_def)
  moreover from None have "\<not> staff_number phone d" by (auto simp: staff_number_def find_None_iff list_ex_iff)
  ultimately show ?thesis by simp
next
  case (Some r)
  then have r: "r \<in> set (db_recipients d)" "nr_phone_number r = phone" "nr_active r"
    by (auto simp: find_Some_iff)
  then have n: "staff_number phone d" by (auto simp: staff_number_def list_ex_iff)
  let ?stale = "\<lambda>t. nr_last_inbound_message_id r = Some mid \<or>
    (case nr_last_inbound_at r of None \<Rightarrow> False | Some l \<Rightarrow> t \<le> l)"
  show ?thesis
  proof (cases "\<exists>t. ts = Some t \<and> \<not> ?stale t")
    case False
    with assms Some have "b = True" "d' = d"
      by (cases ts; simp add: intercept_staff_inbound_def)+
    with n show ?thesis by simp
  next
    case True
    then obtain t where t: "ts = Some t" "\<not> ?stale t" by blast
    define x where "x = r\<lparr>nr_last_inbound_at := Some t, nr_last_inbound_message_id := Some mid\<rparr>"
    have "b = True \<and> (\<exists>rows now a1 a2 a3 a4 a5 a6.
        d' = fold (requeue_deferred req now) rows (audit a1 a2 a3 a4 a5 a6 req (put_recipient x d)))"
      using assms Some t by (simp add: intercept_staff_inbound_def Let_def x_def) blast
    then obtain rows now a1 a2 a3 a4 a5 a6 where d': "b = True"
      "d' = fold (requeue_deferred req now) rows (audit a1 a2 a3 a4 a5 a6 req (put_recipient x d))" by blast
    have "intake_same d d'"
      unfolding d' by (rule intake_same_trans [OF _ intake_same_requeue]) simp
    moreover have "db_recipients d' = put_row nr_id x (db_recipients d)"
      by (simp add: d' requeue_recipients audit_def audit_at_def put_recipient_def)
    moreover have "list_ex (\<lambda>r. nr_phone_number r = phone \<and> nr_active r) (put_row nr_id x (db_recipients d))"
      by (rule list_ex_put_row [OF r(1)]) (simp_all add: r x_def)
    ultimately show ?thesis using n d'(1) by (simp add: staff_number_def)
  qed
qed

section \<open>Stored messages\<close>

lemma transition_intake:
  "transition_conversation c t actor reason req d = Inr (c', d') \<Longrightarrow> intake_same d d' \<and>
     db_recipients d' = db_recipients d \<and> cv_id c' = cv_id c \<and> cv_customer_id c' = cv_customer_id c"
  by (auto simp: transition_conversation_def set_state_def uuid4_def put_conversation_def Let_def
      intake_same_def audit_def audit_at_def split: if_splits)

lemma active_conversation_SomeD:
  "active_conversation k d = Some c \<Longrightarrow> c \<in> set (db_conversations d) \<and> cv_customer_id c = k \<and>
     cv_state c \<notin> {RESOLVED, CLOSED}"
  using first_by_SomeD by (fastforce simp: active_conversation_def)

lemma get_or_create_active_conversationD:
  assumes "get_or_create_active_conversation cu d = Inr (c, d')"
  shows "intake_same d d' \<and> db_recipients d' = db_recipients d \<and> cv_customer_id c = cu_id cu \<and>
    cv_state c \<notin> {RESOLVED, CLOSED} \<and> c \<in> set (db_conversations d')"
proof (cases "active_conversation (cu_id cu) d")
  case (Some c0)
  with assms active_conversation_SomeD [OF Some] show ?thesis
    by (simp add: get_or_create_active_conversation_def)
next
  case None
  let ?c = "new_conversation (db_seq d) cu (db_entropy d (db_draws d))"
  let ?d = "(snd (uuid4 (snd (next_serial d))))\<lparr>db_conversations := db_conversations d @ [?c]\<rparr>"
  from None assms have t: "transition_conversation ?c BOT_ACTIVE ''SYSTEM''
      (Some ''Initial valid WhatsApp message stored'') None ?d = Inr (c, d')"
    by (simp add: get_or_create_active_conversation_def next_serial_def uuid4_def Let_def)
  have "intake_same d ?d" by (auto simp: intake_same_def next_serial_def uuid4_def)
  with transition_intake [OF t] have "intake_same d d'" "db_recipients d' = db_recipients d" "cv_customer_id c = cu_id cu"
    by (auto intro: intake_same_trans simp: next_serial_def uuid4_def new_conversation_def)
  moreover from transition_conversation_InrD [OF t] have "cv_state c = BOT_ACTIVE" "cv_id c = db_seq d"
    "db_conversations d' = put_row cv_id c (db_conversations d @ [?c])"
    by (simp_all add: new_conversation_def)
  moreover from this have "c \<in> set (db_conversations d')"
    by (simp add: set_put_row new_conversation_def put_row_def)
  ultimately show ?thesis by simp
qed

lemma add_job_frame [simp]:
  "db_messages (add_job m req f d) = db_messages d" "db_customers (add_job m req f d) = db_customers d"
  "db_recipients (add_job m req f d) = db_recipients d" "db_conversations (add_job m req f d) = db_conversations d"
  "db_inbox_jobs (add_job m req f d) = db_inbox_jobs d @ [f (new_job (db_seq d) m req)]"
  "db_seq (add_job m req f d) = db_seq d + 1"
  by (simp_all add: add_job_def next_serial_def)

lemma job_of_None: "job_of k d = None \<longleftrightarrow> k \<notin> ij_message_id ` set (db_inbox_jobs d)"
  by (auto simp: job_of_def find_None_iff)

lemma add_job_ok:
  assumes "intake_ok d" and "m \<in> set (db_messages d)" and "job_of (ms_id m) d = None"
    and "\<And>j. ij_id (f j) = ij_id j \<and> ij_message_id (f j) = ij_message_id j"
  shows "intake_ok (add_job m req f d)"
proof -
  let ?j = "f (new_job (db_seq d) m req)"
  have j: "ij_id ?j = db_seq d" "ij_message_id ?j = ms_id m" using assms(4) by (simp_all add: new_job_def)
  have old: "\<forall>x \<in> set (db_inbox_jobs d). ij_id x < db_seq d" "\<forall>x \<in> set (db_messages d). ms_id x < db_seq d"
    using assms(1) by (simp_all add: intake_ok_def)
  then have "ij_id ?j \<notin> ij_id ` set (db_inbox_jobs d)" using j by auto
  moreover have "ij_message_id ?j \<notin> ij_message_id ` set (db_inbox_jobs d)" using assms(3) j by (simp add: job_of_None)
  moreover have "\<forall>x \<in> set (db_messages d). ms_id x < db_seq d + 1" "\<forall>x \<in> set (db_inbox_jobs d). ij_id x < db_seq d + 1"
    using old by auto
  ultimately show ?thesis using assms(1,2) j by (simp add: intake_ok_def)
qed

lemma find_snoc: "find P xs = None \<Longrightarrow> find P (xs @ [x]) = (if P x then Some x else None)"
  by (induction xs) (auto split: if_splits)

lemma get_or_create_customerD:
  assumes "get_or_create_customer phone d = Inr (c, d')"
  shows "find (\<lambda>c. cu_phone_number c = phone) (db_customers d') = Some c \<and> db_messages d' = db_messages d \<and>
    db_inbox_jobs d' = db_inbox_jobs d \<and> db_recipients d' = db_recipients d \<and> length (utf8_decode phone) \<le> 32 \<and>
    (intake_ok d \<longrightarrow> intake_ok d')"
proof (cases "find (\<lambda>c. cu_phone_number c = phone) (db_customers d)")
  case (Some c0)
  with assms show ?thesis by (auto simp: get_or_create_customer_def split: if_splits)
next
  case None
  with assms have d': "d' = (snd (next_serial d))\<lparr>db_customers := db_customers d @ [c]\<rparr>" "cu_phone_number c = phone"
    "length (utf8_decode phone) \<le> 32"
    by (auto simp: get_or_create_customer_def next_serial_def Let_def split: if_splits)
  moreover have "find (\<lambda>c. cu_phone_number c = phone) (db_customers d @ [c]) = Some c"
    using None d'(2) by (simp add: find_snoc)
  moreover have "intake_ok d \<Longrightarrow> intake_ok d'"
    using None d' by (auto simp: intake_ok_def next_serial_def find_None_iff)
  ultimately show ?thesis by (simp add: next_serial_def)
qed

lemma first_deliveryD:
  assumes "first_delivery im cu req d = Inr (r, d')"
  shows "\<exists>m c j. db_messages d' = db_messages d @ [m] \<and> ms_external_message_id m = im_external_message_id im \<and>
    ms_direction m = ''INBOUND'' \<and> ms_customer_id m = cu_id cu \<and> ms_conversation_id m = cv_id c \<and>
    c \<in> set (db_conversations d') \<and> cv_customer_id c = cu_id cu \<and> cv_state c \<notin> {RESOLVED, CLOSED} \<and>
    db_inbox_jobs d' = db_inbox_jobs d @ [j] \<and> ij_message_id j = ms_id m \<and> ij_conversation_id j = cv_id c \<and>
    ij_status j = IJ_PENDING \<and> r = Some (persisted_message_from_models m c) \<and>
    db_recipients d' = db_recipients d \<and> db_customers d' = db_customers d \<and>
    ms_id m \<ge> db_seq d \<and> ij_id j > ms_id m \<and> db_seq d' > ij_id j \<and>
    cv_id ` set (db_conversations d) \<subseteq> cv_id ` set (db_conversations d')"
proof -
  from assms obtain c d1 where g: "get_or_create_active_conversation cu d = Inr (c, d1)"
    and d': "r = Some (persisted_message_from_models (new_message (db_seq d1) im c cu) c)"
      "d' = add_job (new_message (db_seq d1) im c cu) req id
        (d1\<lparr>db_seq := db_seq d1 + 1, db_messages := db_messages d1 @ [new_message (db_seq d1) im c cu]\<rparr>)"
    by (auto simp: first_delivery_def ebind_Inr_iff next_serial_def Let_def split: if_splits)
  from get_or_create_active_conversationD [OF g] show ?thesis
    by (intro exI [of _ "new_message (db_seq d1) im c cu"] exI [of _ c]
        exI [of _ "new_job (db_seq d1 + 1) (new_message (db_seq d1) im c cu) req"])
       (simp add: d' new_message_def new_job_def intake_same_def)
qed

lemma first_delivery_ok:
  assumes "first_delivery im cu req d = Inr (r, d')" and "intake_ok d"
    and "im_external_message_id im \<notin> ms_external_message_id ` set (db_messages d)"
  shows "intake_ok d'"
proof -
  from first_deliveryD [OF assms(1)] obtain m c j where
    m: "db_messages d' = db_messages d @ [m]" "ms_external_message_id m = im_external_message_id im"
    "db_inbox_jobs d' = db_inbox_jobs d @ [j]" "ij_message_id j = ms_id m" "db_customers d' = db_customers d"
    and keys: "ms_id m \<ge> db_seq d" "ij_id j > ms_id m" "db_seq d' > ij_id j"
    and conv: "ms_conversation_id m = cv_id c" "c \<in> set (db_conversations d')"
      "cv_id ` set (db_conversations d) \<subseteq> cv_id ` set (db_conversations d')" by blast
  have old: "\<forall>x \<in> set (db_messages d). ms_id x < db_seq d" "\<forall>x \<in> set (db_inbox_jobs d). ij_id x < db_seq d"
    "\<forall>x \<in> set (db_inbox_jobs d). ij_message_id x \<in> ms_id ` set (db_messages d)"
    "ms_conversation_id ` set (db_messages d) \<subseteq> cv_id ` set (db_conversations d)"
    using assms(2) by (simp_all add: intake_ok_def)
  have new: "ms_id m \<notin> ms_id ` set (db_messages d)" "ij_id j \<notin> ij_id ` set (db_inbox_jobs d)"
    using old(1,2) keys by force+
  moreover have "ms_id m \<notin> ij_message_id ` set (db_inbox_jobs d)" using old(3) new(1) by auto
  moreover have "\<forall>x \<in> set (db_messages d). ms_id x < db_seq d'" "\<forall>x \<in> set (db_inbox_jobs d). ij_id x < db_seq d'"
    using old(1,2) keys by force+
  moreover have "ms_conversation_id ` set (db_messages d) \<subseteq> cv_id ` set (db_conversations d')"
    "ms_conversation_id m \<in> cv_id ` set (db_conversations d')"
    using old(4) conv by auto
  ultimately show ?thesis using assms(2,3) keys old(3) m(4) unfolding intake_ok_def m(1,3,5) by (simp add: m(2))
qed

lemma find_external_None:
  "find (\<lambda>m. ms_external_message_id m = x) ms = None \<longleftrightarrow> x \<notin> ms_external_message_id ` set ms"
  by (auto simp: find_None_iff)

lemma persist_inbound_ok:
  assumes "persist_inbound_message st req im d = Inr (r, d')" and "intake_ok d"
  shows "intake_ok d'"
proof -
  obtain b d1 where i: "intercept_staff_inbound (im_phone_number im) (im_provider_timestamp im)
      (im_external_message_id im) st req d = (b, d1)" by fastforce
  have ok1: "intake_ok d1" using interceptD [OF i] assms(2) intake_same_ok by blast
  show ?thesis
  proof (cases b)
    case True
    with assms(1) i ok1 show ?thesis by (simp add: persist_inbound_message_def)
  next
    case False
    with assms(1) i obtain cu d2 where g: "get_or_create_customer (im_phone_number im) d1 = Inr (cu, d2)"
      and k: "(case find (\<lambda>m. ms_external_message_id m = im_external_message_id im) (db_messages d2) of
         Some m \<Rightarrow> redelivered_message cu m req d2 | None \<Rightarrow> first_delivery im cu req d2) = Inr (r, d')"
      by (auto simp: persist_inbound_message_def ebind_Inr_iff)
    have ok2: "intake_ok d2" using get_or_create_customerD [OF g] ok1 by blast
    show ?thesis
    proof (cases "find (\<lambda>m. ms_external_message_id m = im_external_message_id im) (db_messages d2)")
      case None
      with k first_delivery_ok [OF _ ok2] show ?thesis by (simp add: find_external_None)
    next
      case (Some m)
      then have "m \<in> set (db_messages d2)" by (auto simp: find_Some_iff)
      with add_job_ok [OF ok2 this, of legacy_job req] Some k ok2 show ?thesis
        by (auto simp: redelivered_message_def legacy_job_def split: if_splits option.splits)
    qed
  qed
qed

lemma persist_messages_ok:
  "persist_messages st req ims d = Inr (ps, d') \<Longrightarrow> intake_ok d \<Longrightarrow> intake_ok d'"
proof (induction ims arbitrary: d ps d')
  case (Cons im ims)
  then show ?case using persist_inbound_ok by (fastforce simp: ebind_Inr_iff)
qed simp

lemma insert_status_intake: "insert_provider_status s d = Inr d' \<Longrightarrow> intake_same d d'"
  by (auto simp: insert_provider_status_def intake_same_def split: if_splits)

lemma record_message_status_intake: "record_message_status m payload d = Inr d' \<Longrightarrow> intake_same d d'"
  by (auto simp: record_message_status_def ebind_Inr_iff dest: insert_status_intake)

lemma customer_audit_intake: "intake_same d (customer_audit a row old req now d)"
  by (auto simp: customer_audit_def audit_at_def uuid4_def intake_same_def Let_def split: option.split)

lemma apply_status_intake:
  assumes "apply_provider_status rp nq mk retry payload row req d = Inr (b, d')"
    and "\<And>x e. intake_same e (nq_put nq x e)" and "\<And>a x o' r e. intake_same e (nq_audit nq a x o' r e)"
  shows "intake_same d d'"
proof -
  from assms(1) obtain s d1 row' where ins: "insert_provider_status s d = Inr d1"
    and d': "d' = nq_put nq row' d1 \<or> (\<exists>a o' r. d' = nq_audit nq a row' o' r (nq_put nq row' d1))"
    by (fastforce simp: apply_provider_status_def ebind_Inr_iff Let_def split: if_splits)
  from d' have "intake_same d1 d'" using assms(2,3) intake_same_trans by blast
  with insert_status_intake [OF ins] show ?thesis by (rule intake_same_trans)
qed

lemma customer_table_intake [simp]:
  "intake_same d (nq_put customer_table x d)" "intake_same d (nq_audit customer_table a x o' r d)"
  by (simp_all add: customer_table_def customer_audit_intake) (simp add: intake_same_def put_customer_notification_def)

lemma staff_table_intake [simp]:
  "intake_same d (nq_put staff_table x d)" "intake_same d (nq_audit staff_table a x o' r d)"
  by (simp_all add: staff_table_def intake_same_staff_audit)

lemma customer_status_intake:
  assumes "record_customer_provider_status rp payload req d = Inr (b, d')"
  shows "intake_same d d'"
proof -
  from assms obtain pid where "(case row_by_provider_id pid (db_customer_notifications d) of
      None \<Rightarrow> Inr (False, d)
    | Some row \<Rightarrow> apply_provider_status rp customer_table (\<lambda>_. None) NT_FAILED payload row req d) = Inr (b, d')"
    unfolding record_customer_provider_status_def ebind_Inr_iff by blast
  then show ?thesis
    by (cases "row_by_provider_id pid (db_customer_notifications d)") (auto intro: apply_status_intake)
qed

lemma staff_status_intake:
  assumes "record_staff_provider_status rp st payload req d = Inr (b, d')"
  shows "intake_same d d'"
proof -
  from assms obtain pid where k: "(case row_by_provider_id pid (db_staff_outbox d) of
      None \<Rightarrow> record_customer_provider_status rp payload req d
    | Some row \<Rightarrow> apply_provider_status rp staff_table so_message_kind
        (if template_for (so_event_kind row) st \<noteq> [] then NT_PENDING else NT_DEFERRED) payload row req d) = Inr (b, d')"
    unfolding record_staff_provider_status_def ebind_Inr_iff by blast
  show ?thesis
  proof (cases "row_by_provider_id pid (db_staff_outbox d)")
    case None
    with k customer_status_intake show ?thesis by simp
  next
    case (Some row)
    with k have "apply_provider_status rp staff_table so_message_kind
        (if template_for (so_event_kind row) st \<noteq> [] then NT_PENDING else NT_DEFERRED) payload row req d = Inr (b, d')"
      by simp
    then show ?thesis by (rule apply_status_intake) (simp_all only: staff_table_intake)
  qed
qed

lemma record_status_intake:
  assumes "record_provider_status rp st req payload d = Inr d'"
  shows "intake_same d d'"
proof -
  obtain pid where pid: "required_str ''id'' payload = Inr pid"
    using assms by (auto simp: record_provider_status_def ebind_Inr_iff)
  define x where "x = (case find (\<lambda>m. ms_external_message_id m = pid) (db_messages d) of
      Some m \<Rightarrow> record_message_status m payload d
    | None \<Rightarrow> ebind (record_staff_provider_status rp st payload req d) (\<lambda>(_, d1). Inr d1))"
  have "x = Inr d1 \<Longrightarrow> intake_same d d1" for d1
    unfolding x_def using record_message_status_intake staff_status_intake
    by (cases "find (\<lambda>m. ms_external_message_id m = pid) (db_messages d)") (auto simp: ebind_Inr_iff)
  moreover have "(case x of Inl IntegrityError \<Rightarrow> Inr d | r \<Rightarrow> r) = Inr d'"
    using assms pid by (simp add: record_provider_status_def x_def)
  then have "x = Inr d' \<or> d' = d" by (auto split: sum.splits app_error.splits)
  ultimately show ?thesis by auto
qed

lemma each_status_intake: "each (record_provider_status rp st req) xs d = Inr d' \<Longrightarrow> intake_same d d'"
proof (induction xs arbitrary: d)
  case (Cons x xs)
  then show ?case using record_status_intake intake_same_trans by (fastforce simp: ebind_Inr_iff)
qed simp

text \<open>After either path of a delivery, the next one finds the message with its job and stops there.\<close>

lemma find_job_of: "j \<in> set (db_inbox_jobs d) \<Longrightarrow> job_of (ij_message_id j) d \<noteq> None"
  by (auto simp: job_of_None)

lemma redelivered_again:
  assumes "(case find (\<lambda>m. ms_external_message_id m = x) (db_messages d) of
      Some m \<Rightarrow> redelivered_message cu m req d | None \<Rightarrow> first_delivery im cu req d) = Inr (r, d1)"
    and "x = im_external_message_id im" and "intake_ok d"
  shows "\<exists>m r'. find (\<lambda>m. ms_external_message_id m = x) (db_messages d1) = Some m \<and>
    redelivered_message cu m req' d1 = Inr (r', d1) \<and> db_customers d1 = db_customers d \<and>
    db_recipients d1 = db_recipients d"
proof (cases "find (\<lambda>m. ms_external_message_id m = x) (db_messages d)")
  case None
  with assms have f: "first_delivery im cu req d = Inr (r, d1)" by simp
  from first_deliveryD [OF this] obtain m c j where
    m: "db_messages d1 = db_messages d @ [m]" "ms_external_message_id m = x" "ms_direction m = ''INBOUND''"
      "ms_customer_id m = cu_id cu" "ms_conversation_id m = cv_id c" "c \<in> set (db_conversations d1)"
      "db_inbox_jobs d1 = db_inbox_jobs d @ [j]" "ij_message_id j = ms_id m" "ij_status j = IJ_PENDING"
      "db_recipients d1 = db_recipients d" "db_customers d1 = db_customers d" "ms_id m \<ge> db_seq d"
    using assms(2) by blast
  have "find (\<lambda>m. ms_external_message_id m = x) (db_messages d1) = Some m"
    using None m by (simp add: find_snoc)
  moreover have "ms_id m \<notin> ij_message_id ` set (db_inbox_jobs d)"
    using assms(3) m(12) by (fastforce simp: intake_ok_def)
  then have "find (\<lambda>j. ij_message_id j = ms_id m) (db_inbox_jobs d) = None"
    by (auto simp: find_None_iff image_iff)
  from find_snoc [OF this] have "job_of (ms_id m) d1 = Some j" by (simp add: job_of_def m(7,8))
  moreover obtain c' where "get_row cv_id (ms_conversation_id m) (db_conversations d1) = Some c'"
    using m(5,6) get_row_None_iff [of cv_id "cv_id c" "db_conversations d1"]
    by (cases "get_row cv_id (cv_id c) (db_conversations d1)") auto
  ultimately show ?thesis using m by (simp add: redelivered_message_def)
next
  case (Some m)
  with assms(1) have r: "redelivered_message cu m req d = Inr (r, d1)" by simp
  show ?thesis
  proof (cases "job_of (ms_id m) d")
    case None
    with r have d1: "d1 = add_job m req legacy_job d" and ok: "ms_direction m = ''INBOUND''" "ms_customer_id m = cu_id cu"
      by (auto simp: redelivered_message_def split: if_splits)
    have "job_of (ms_id m) d1 = Some (legacy_job (new_job (db_seq d) m req))"
      using None unfolding job_of_def d1 by (simp add: find_snoc legacy_job_def new_job_def)
    moreover have "ms_conversation_id m \<in> cv_id ` set (db_conversations d)"
      using Some assms(3) by (auto simp: intake_ok_def find_Some_iff)
    then obtain c where "get_row cv_id (ms_conversation_id m) (db_conversations d) = Some c"
      using get_row_None_iff [of cv_id "ms_conversation_id m" "db_conversations d"] by fastforce
    ultimately show ?thesis using Some d1 ok by (simp add: redelivered_message_def legacy_job_def new_job_def)
  next
    case job: (Some j)
    have "redelivered_message cu m req' d = redelivered_message cu m req d"
      by (simp add: redelivered_message_def job)
    moreover have "d1 = d"
      using r by (simp add: redelivered_message_def job split: if_splits option.splits)
    ultimately show ?thesis using r Some by simp
  qed
qed

section \<open>Properties\<close>

text \<open>C12. A webhook is stored whole or not at all, and storing it keeps every identity unique: no two customers
  with one phone number, no two messages with one provider identifier, at most one job per message.\<close>

theorem payload_keeps_identities:
  assumes "persist_payload u parse rp st req payload d = Inr (ps, d')" and "intake_ok d"
  shows "intake_ok d'"
  using assms each_status_intake intake_same_ok persist_messages_ok
  by (fastforce simp: persist_payload_def ebind_Inr_iff)

definition sample_payload :: json where
  "sample_payload = JObj [(''object'', JStr ''whatsapp_business_account''), (''entry'', JList [JObj [
     (''changes'', JList [JObj [(''field'', JStr ''messages''), (''value'', JObj [(''messages'', JList [JObj [
        (''id'', JStr ''wamid.9''), (''from'', JStr ''573001112233''), (''type'', JStr ''text'')]])])]])]])]"

definition sample_inbound :: inbound_message where
  "sample_inbound = \<lparr>im_external_message_id = ''wamid.9'', im_phone_number = ''+573001112233'',
     im_message_type = ''text'', im_content = JObj [(''text'', JObj [(''body'', JStr ''hola'')])],
     im_provider_timestamp = Some sample_now\<rparr>"

lemma normalize_sample: "normalize_phone_number ascii_ucd ''573001112233'' = Inr ''+573001112233''"
  by (simp add: normalize_phone_number_def digits_of_def ascii_ucd_def ascii_eval utf8_encode_def utf8_encode1_def
      Let_def char_of_eq_iff)

lemma extract_sample:
  "extract_inbound_messages ascii_ucd (\<lambda>_. Some sample_inbound) sample_payload = Inr [sample_inbound]"
  by (simp add: extract_inbound_messages_def iter_whatsapp_change_values_def sample_payload_def json_get_def
      json_iter_def jhas_def jget_JObj change_value_def extract_inbound_message_def normalize_sample)
     (simp add: sample_inbound_def)

lemma sample_intake_ok: "intake_ok sample_db"
  by (simp add: intake_ok_def sample_db_def empty_db_def)

lemma persist_sample:
  "\<exists>p d'. persist_inbound_message sample_settings None sample_inbound sample_db = Inr (Some p, d')"
  by (simp add: persist_inbound_message_def intercept_staff_inbound_def sample_inbound_def get_or_create_customer_def
      sample_customer_def first_delivery_def get_or_create_active_conversation_def active_conversation_def
      sample_conversation_def next_serial_def Let_def ascii_eval)

lemma payload_keeps_identities_witness:
  "\<exists>ps d'. persist_payload ascii_ucd (\<lambda>_. Some sample_inbound) (\<lambda>_. []) sample_settings None sample_payload sample_db =
     Inr (ps, d') \<and> intake_ok d'"
proof -
  obtain p d' where "persist_inbound_message sample_settings None sample_inbound sample_db = Inr (Some p, d')"
    using persist_sample by blast
  then have "persist_payload ascii_ucd (\<lambda>_. Some sample_inbound) (\<lambda>_. []) sample_settings None sample_payload sample_db =
      Inr ([p], d')"
    unfolding persist_payload_def extract_sample ebind_simps
    by (simp add: order_by_def extract_provider_statuses_def iter_whatsapp_change_values_def sample_payload_def
        json_get_def json_iter_def jhas_def jget_JObj change_value_def)
  with payload_keeps_identities [OF this sample_intake_ok] show ?thesis by blast
qed

text \<open>C13. Delivery is idempotent: storing a message that was stored before, in any later webhook, adds neither a
  message nor a job, and does not fail.\<close>

theorem redelivery_changes_nothing:
  assumes "persist_inbound_message st req im d = Inr (r, d1)" and "intake_ok d"
  shows "\<exists>r' d2. persist_inbound_message st req' im d1 = Inr (r', d2) \<and> db_messages d2 = db_messages d1 \<and>
    db_inbox_jobs d2 = db_inbox_jobs d1 \<and> db_customers d2 = db_customers d1"
proof -
  obtain b e where i: "intercept_staff_inbound (im_phone_number im) (im_provider_timestamp im)
      (im_external_message_id im) st req d = (b, e)" by fastforce
  obtain b2 e2 where i2: "intercept_staff_inbound (im_phone_number im) (im_provider_timestamp im)
      (im_external_message_id im) st req' d1 = (b2, e2)" by fastforce
  show ?thesis
  proof (cases b)
    case True
    with assms(1) i have "d1 = e" by (simp add: persist_inbound_message_def)
    with True interceptD [OF i] interceptD [OF i2] have "b2 = True" "intake_same d1 e2" by auto
    with i2 show ?thesis by (simp add: persist_inbound_message_def intake_same_def)
  next
    case False
    with interceptD [OF i] have ns: "\<not> staff_number (im_phone_number im) d" "e = d" by auto
    from assms(1) i False ns obtain cu d2 where g: "get_or_create_customer (im_phone_number im) d = Inr (cu, d2)"
      and k: "(case find (\<lambda>m. ms_external_message_id m = im_external_message_id im) (db_messages d2) of
         Some m \<Rightarrow> redelivered_message cu m req d2 | None \<Rightarrow> first_delivery im cu req d2) = Inr (r, d1)"
      by (auto simp: persist_inbound_message_def ebind_Inr_iff)
    note cu = get_or_create_customerD [OF g]
    have again: "\<exists>m j r'. find (\<lambda>m. ms_external_message_id m = im_external_message_id im) (db_messages d1) = Some m \<and>
        redelivered_message cu m req' d1 = Inr (r', d1) \<and> db_customers d1 = db_customers d2 \<and> db_recipients d1 = db_recipients d2"
      using redelivered_again k assms(2) cu by blast
    have "find (\<lambda>c. cu_phone_number c = im_phone_number im) (db_customers d1) = Some cu" using cu again by auto
    with cu have "get_or_create_customer (im_phone_number im) d1 = Inr (cu, d1)"
      by (simp add: get_or_create_customer_def)
    moreover have "b2 = False" "e2 = d1"
      using interceptD [OF i2] again cu ns(1) by (auto simp: staff_number_def)
    ultimately show ?thesis using again i2 by (auto simp: persist_inbound_message_def)
  qed
qed

lemma redelivery_changes_nothing_witness:
  "\<exists>r d1 r' d2. persist_inbound_message sample_settings None sample_inbound sample_db = Inr (r, d1) \<and>
     persist_inbound_message sample_settings None sample_inbound d1 = Inr (r', d2) \<and> db_messages d2 = db_messages d1"
  using persist_sample redelivery_changes_nothing [OF _ sample_intake_ok] by meson

end
