(* ===== verification/Inbox.thy ===== *)
theory Inbox
  imports Inbound_Store Lease_Queue
begin

text \<open>
  \<open>app/channel/inbox.py\<close> with \<open>app/orchestrator/inbox_effects.py\<close>: every stored message is a job; the
  oldest unfinished job of a conversation is leased, classified outside any transaction, and applied
  in one. Calendar operations are deferred: the transaction that asks for one is rolled back, the
  call is made between transactions, and the turn is replayed with its result.

  The dialogue itself (routing of media, classification, orchestration), the transcription and the
  agenda service enter as the record \<open>handlers\<close>; results hold for every choice of it. An exception
  is known by the name of its class, which is what the job stores.
\<close>

section \<open>Claims\<close>

record inbox_claim =
  ic_id :: int
  ic_message_id :: int
  ic_conversation_id :: int
  ic_claim_token :: uuid
  ic_persisted :: persisted_message
  ic_context_fingerprint :: string
  ic_request_id :: "string option"
  ic_silent :: bool

text \<open>\<open>DeferredAgendaCall\<close>: the operation's name and the signature of its business inputs.\<close>

record agenda_call =
  ac_name :: string
  ac_signature :: string

definition mutating_calls :: "string list" where
  "mutating_calls = [''confirm_appointment'', ''reschedule_appointment'', ''cancel_appointment'']"

definition mutating :: "agenda_call \<Rightarrow> bool" where
  "mutating call \<longleftrightarrow> ac_name call \<in> set mutating_calls"

text \<open>\<open>AgendaResults\<close>: what the calls of this acquisition returned, in order.\<close>

type_synonym 'v agenda_results = "(agenda_call \<times> 'v) list"

text \<open>
  One access of the dialogue to the agenda: at position \<open>i\<close> the recorded result, if the replay asks for
  the same operation, a deferral past the end, and an error when the replay changed its mind.
\<close>

datatype 'v agenda_answer = Answer 'v | Defer agenda_call | ReplayChanged

definition agenda_access :: "'v agenda_results \<Rightarrow> nat \<Rightarrow> agenda_call \<Rightarrow> 'v agenda_answer" where
  "agenda_access results i call =
     (if i < length results
      then (case results ! i of (expected, v) \<Rightarrow> if expected \<noteq> call then ReplayChanged else Answer v)
      else Defer call)"

text \<open>How an orchestration ends: committed, with an exception, or asking for an agenda call.\<close>

datatype 'd turn_end = TurnDone 'd | TurnRaised string | TurnDeferred agenda_call

record ('t, 'v) handlers =
  ih_hash :: "conversation \<Rightarrow> string option \<Rightarrow> json option \<Rightarrow> string"
  ih_booking_event :: "conversation \<Rightarrow> db \<Rightarrow> json option"
  ih_transcribe :: "inbox_claim \<Rightarrow> db \<Rightarrow> (string, inbox_claim) result \<times> db"
  ih_classify :: "inbox_claim \<Rightarrow> db \<Rightarrow> (string, 't) result \<times> db"
  ih_audio_turn :: 't
  ih_route :: "inbox_claim \<Rightarrow> message option \<Rightarrow> conversation \<Rightarrow> customer \<Rightarrow> db \<Rightarrow> (string, bool \<times> db) result"
  ih_orchestrate :: "inbox_claim \<Rightarrow> 't option \<Rightarrow> conversation \<Rightarrow> customer \<Rightarrow> 'v agenda_results \<Rightarrow> db \<Rightarrow> db turn_end"
  ih_call :: "agenda_call \<Rightarrow> db \<Rightarrow> (string, 'v) result \<times> db"
  ih_result :: "'v \<Rightarrow> json"

section \<open>Jobs\<close>

definition silent_reason :: "conversation \<Rightarrow> string option" where
  "silent_reason c =
     (if paused (cv_state c) then Some (''SILENT_'' @ conversation_state_str (cv_state c))
      else if \<not> cv_bot_enabled c then Some ''SILENT_BOT_DISABLED'' else None)"

definition fingerprint :: "('t, 'v) handlers \<Rightarrow> conversation \<Rightarrow> customer \<Rightarrow> json option \<Rightarrow> string" where
  "fingerprint h c cu booking_event = ih_hash h c (cu_full_name cu) booking_event"

definition lock_context :: "int \<Rightarrow> db \<Rightarrow> (customer \<times> conversation) option" where
  "lock_context conversation_id d =
     (case get_row cv_id conversation_id (db_conversations d) of
        None \<Rightarrow> None
      | Some c \<Rightarrow> (case get_row cu_id (cv_customer_id c) (db_customers d) of
            None \<Rightarrow> None | Some cu \<Rightarrow> Some (cu, c)))"

definition leased_job :: "inbox_job \<Rightarrow> bool" where
  "leased_job j \<longleftrightarrow> ij_status j \<in> {IJ_PROCESSING, IJ_EXTERNAL}"

definition owned_job :: "inbox_claim \<Rightarrow> db \<Rightarrow> (inbox_job \<times> customer \<times> conversation) option" where
  "owned_job claim d =
     (case (lock_context (ic_conversation_id claim) d, get_row ij_id (ic_id claim) (db_inbox_jobs d)) of
        (Some (cu, c), Some job) \<Rightarrow>
          if ij_message_id job \<noteq> ic_message_id claim \<or> \<not> leased_job job \<or>
             ij_claim_token job \<noteq> Some (ic_claim_token claim)
          then None else Some (job, cu, c)
      | _ \<Rightarrow> None)"

definition retire_job :: "inbox_status \<Rightarrow> string option \<Rightarrow> inbox_job \<Rightarrow> inbox_job" where
  "retire_job status reason job = job\<lparr>ij_status := status, ij_claim_token := None, ij_claimed_at := None,
     ij_next_attempt_at := None, ij_last_error := reason\<rparr>"

definition fail_job :: "string \<Rightarrow> instant \<Rightarrow> settings \<Rightarrow> inbox_job \<Rightarrow> inbox_job" where
  "fail_job reason now st job =
     (let job1 = job\<lparr>ij_attempts := ij_attempts job + 1\<rparr> in
      if ij_external_operation job1 \<noteq> None then retire_job IJ_REVIEW (Some ''EXTERNAL_OUTCOME_UNCERTAIN'') job1
      else if st_inbox_max_attempts st \<le> ij_attempts job1 then retire_job IJ_FAILED (Some reason) job1
      else (retire_job IJ_PENDING (Some reason) job1)\<lparr>ij_next_attempt_at :=
             Some (now + seconds (min (2 ^ ij_attempts job1) (st_inbox_max_backoff_seconds st)))\<rparr>)"

definition settle_inbox_failure :: "settings \<Rightarrow> inbox_claim \<Rightarrow> string \<Rightarrow> db \<Rightarrow> string \<times> db" where
  "settle_inbox_failure st claim error_name d =
     (case owned_job claim d of
        None \<Rightarrow> (''DISCARDED'', d)
      | Some (job, _, _) \<Rightarrow> (''FAILED'', put_job (fail_job error_name (db_clock d) st job) d))"

section \<open>Recovery\<close>

definition stale_job :: "instant \<Rightarrow> inbox_job \<Rightarrow> bool" where
  "stale_job cutoff j \<longleftrightarrow> leased_job j \<and> (case ij_claimed_at j of None \<Rightarrow> False | Some t \<Rightarrow> t < cutoff)"

definition recover_inbox_job :: "instant \<Rightarrow> instant \<Rightarrow> settings \<Rightarrow> int \<times> int \<Rightarrow> nat \<times> db \<Rightarrow> nat \<times> db" where
  "recover_inbox_job cutoff now st ids v = (case (ids, v) of ((job_id, conversation_id), (n, d)) \<Rightarrow>
     (case lock_context conversation_id d of
        None \<Rightarrow> (n, d)
      | Some _ \<Rightarrow>
          (case get_row ij_id job_id (db_inbox_jobs d) of
             None \<Rightarrow> (n, d)
           | Some job \<Rightarrow>
               if stale_job cutoff job then (n + 1, put_job (fail_job ''CLAIM_EXPIRED'' now st job) d)
               else (n, d))))"

definition recover_stale_inbox :: "instant \<Rightarrow> settings \<Rightarrow> db \<Rightarrow> nat \<times> db" where
  "recover_stale_inbox now st d =
     (let cutoff = now - seconds (st_inbox_claim_timeout_seconds st);
          candidates = take (st_inbox_batch_size st) (order_by (\<lambda>a b. ij_id a < ij_id b)
                         (filter (stale_job cutoff) (db_inbox_jobs d)))
      in fold (recover_inbox_job cutoff now st)
           (map (\<lambda>j. (ij_id j, ij_conversation_id j)) candidates) (0, d))"

section \<open>Claim\<close>

text \<open>The earliest unfinished job of a conversation.\<close>

definition first_unfinished :: "int \<Rightarrow> db \<Rightarrow> inbox_job option" where
  "first_unfinished conversation_id d = first_by (\<lambda>a b. ij_id a < ij_id b)
     (filter (\<lambda>j. ij_conversation_id j = conversation_id \<and> ij_status j \<noteq> IJ_COMPLETED) (db_inbox_jobs d))"

definition due_job :: "instant \<Rightarrow> int list option \<Rightarrow> inbox_job \<Rightarrow> bool" where
  "due_job now message_ids j \<longleftrightarrow> ij_status j = IJ_PENDING \<and>
     (case ij_next_attempt_at j of None \<Rightarrow> True | Some t \<Rightarrow> t \<le> now) \<and>
     (case message_ids of None \<Rightarrow> True | Some ids \<Rightarrow> ij_message_id j \<in> set ids)"

definition claim_candidates :: "instant \<Rightarrow> nat \<Rightarrow> int list option \<Rightarrow> db \<Rightarrow> int list" where
  "claim_candidates now batch_size message_ids d =
     take batch_size (map ij_conversation_id (order_by (\<lambda>a b. ij_id a < ij_id b)
       (filter (\<lambda>j. first_unfinished (ij_conversation_id j) d = Some j \<and> due_job now message_ids j) (db_inbox_jobs d))))"

definition lease_job :: "uuid \<Rightarrow> instant \<Rightarrow> inbox_job \<Rightarrow> inbox_job" where
  "lease_job token now j = j\<lparr>ij_status := IJ_PROCESSING, ij_claim_token := Some token, ij_claimed_at := Some now\<rparr>"

definition inbox_claim_of ::
  "('t, 'v) handlers \<Rightarrow> inbox_job \<Rightarrow> message \<Rightarrow> customer \<Rightarrow> conversation \<Rightarrow> json option \<Rightarrow> uuid \<Rightarrow> inbox_claim" where
  "inbox_claim_of h job m cu c booking_event token =
     (let p = persisted_message_from_models m c in
      \<lparr>ic_id = ij_id job, ic_message_id = ij_message_id job, ic_conversation_id = ij_conversation_id job,
       ic_claim_token = token,
       ic_persisted = p\<lparr>pm_context := jset ''booking_event'' (opt_json id booking_event) (pm_context p)\<rparr>,
       ic_context_fingerprint = fingerprint h c cu booking_event, ic_request_id = ij_request_id job,
       ic_silent = (silent_reason c \<noteq> None)\<rparr>)"

definition claim_conversation ::
  "('t, 'v) handlers \<Rightarrow> instant \<Rightarrow> int list option \<Rightarrow> int \<Rightarrow> db \<Rightarrow> inbox_claim option \<times> db" where
  "claim_conversation h now message_ids conversation_id d =
     (case lock_context conversation_id d of
        None \<Rightarrow> (None, d)
      | Some (cu, c) \<Rightarrow>
          (case first_unfinished conversation_id d of
             None \<Rightarrow> (None, d)
           | Some job \<Rightarrow>
               if \<not> due_job now message_ids job then (None, d)
               else (case get_row ms_id (ij_message_id job) (db_messages d) of
                   None \<Rightarrow> (None, d)
                 | Some m \<Rightarrow>
                     (case uuid4 d of (token, d1) \<Rightarrow>
                        (Some (inbox_claim_of h job m cu c (ih_booking_event h c d) token),
                         put_job (lease_job token now job) d1)))))"

fun claim_conversations ::
  "('t, 'v) handlers \<Rightarrow> instant \<Rightarrow> int list option \<Rightarrow> int list \<Rightarrow> db \<Rightarrow> inbox_claim list \<times> db" where
  "claim_conversations h now message_ids [] d = ([], d)"
| "claim_conversations h now message_ids (k # ks) d =
     (case claim_conversation h now message_ids k d of (c, d1) \<Rightarrow>
      case claim_conversations h now message_ids ks d1 of (cs, d2) \<Rightarrow>
        ((case c of None \<Rightarrow> cs | Some x \<Rightarrow> x # cs), d2))"

definition claim_inbox_batch ::
  "('t, 'v) handlers \<Rightarrow> instant \<Rightarrow> nat \<Rightarrow> int list option \<Rightarrow> db \<Rightarrow> inbox_claim list \<times> db" where
  "claim_inbox_batch h now batch_size message_ids d =
     claim_conversations h now message_ids (claim_candidates now batch_size message_ids d) d"

section \<open>A turn\<close>

definition complete_job :: "instant \<Rightarrow> string \<Rightarrow> inbox_job \<Rightarrow> inbox_job" where
  "complete_job now reason job =
     (retire_job IJ_COMPLETED None job)\<lparr>ij_completed_at := Some now, ij_completion_reason := Some reason\<rparr>"

definition completion_reason :: "bool \<Rightarrow> string option \<Rightarrow> string" where
  "completion_reason handled silent =
     (case silent of
        Some s \<Rightarrow> if handled then s @ ''_NON_TEXT'' else s
      | None \<Rightarrow> if handled then ''ROUTED_NON_TEXT'' else ''ORCHESTRATED'')"

definition apply_turn ::
  "('t, 'v) handlers \<Rightarrow> settings \<Rightarrow> inbox_claim \<Rightarrow> 't option \<Rightarrow> 'v agenda_results \<Rightarrow> db \<Rightarrow> (string \<times> db) turn_end" where
  "apply_turn h st claim turn results d =
     (case owned_job claim d of
        None \<Rightarrow> TurnDone (''DISCARDED'', d)
      | Some (job, cu, c) \<Rightarrow>
          let silent = silent_reason c;
              changed = (fingerprint h c cu (ih_booking_event h c d) \<noteq> ic_context_fingerprint claim)
          in if changed \<and> ij_external_operation job \<noteq> None
             then TurnDone (''REVIEW'', put_job (retire_job IJ_REVIEW (Some ''CONTEXT_CHANGED_AFTER_EXTERNAL'') job) d)
             else if changed \<and> silent = None
             then TurnDone (''RETRY'', put_job (fail_job ''CONTEXT_CHANGED_RECLASSIFY'' (db_clock d) st job) d)
             else (case ih_route h claim (get_row ms_id (ic_message_id claim) (db_messages d)) c cu d of
                 Inl e \<Rightarrow> TurnRaised e
               | Inr (True, d1) \<Rightarrow>
                   TurnDone (''COMPLETED'', put_job (complete_job (db_clock d1) (completion_reason True silent) job) d1)
               | Inr (False, d1) \<Rightarrow>
                   if turn = None \<and> silent = None then TurnRaised ''RuntimeError''
                   else (case ih_orchestrate h claim turn c cu results d1 of
                       TurnRaised e \<Rightarrow> TurnRaised e
                     | TurnDeferred call \<Rightarrow> TurnDeferred call
                     | TurnDone d2 \<Rightarrow>
                         TurnDone (''COMPLETED'',
                           put_job (complete_job (db_clock d2) (completion_reason False silent) job) d2))))"

definition prepare_external ::
  "('t, 'v) handlers \<Rightarrow> settings \<Rightarrow> inbox_claim \<Rightarrow> agenda_call \<Rightarrow> db \<Rightarrow> bool \<times> db" where
  "prepare_external h st claim call d =
     (case owned_job claim d of
        None \<Rightarrow> (False, d)
      | Some (job, cu, c) \<Rightarrow>
          if fingerprint h c cu (ih_booking_event h c d) \<noteq> ic_context_fingerprint claim
          then (False, put_job (fail_job ''CONTEXT_CHANGED_RECLASSIFY'' (db_clock d) st job) d)
          else if mutating call
          then (True, put_job (job\<lparr>ij_status := IJ_EXTERNAL, ij_external_operation := Some (ac_name call)\<rparr>) d)
          else (True, d))"

definition record_external_result :: "inbox_claim \<Rightarrow> json \<Rightarrow> db \<Rightarrow> bool \<times> db" where
  "record_external_result claim value d =
     (case owned_job claim d of
        None \<Rightarrow> (False, d)
      | Some (job, _, _) \<Rightarrow> (True, put_job (job\<lparr>ij_external_result := Some value\<rparr>) d))"

text \<open>The loop over the deferred calls, bounded by \<open>range(12)\<close>.\<close>

fun turn_loop ::
  "nat \<Rightarrow> ('t, 'v) handlers \<Rightarrow> settings \<Rightarrow> inbox_claim \<Rightarrow> 't option \<Rightarrow> 'v agenda_results \<Rightarrow> db
     \<Rightarrow> (string, string) result \<times> db" where
  "turn_loop 0 h st claim turn results d = (Inl ''RuntimeError'', d)"
| "turn_loop (Suc n) h st claim turn results d =
     (case apply_turn h st claim turn results d of
        TurnDone (outcome, d1) \<Rightarrow> (Inr outcome, d1)
      | TurnRaised e \<Rightarrow> (Inl e, d)
      | TurnDeferred call \<Rightarrow>
          (case prepare_external h st claim call d of
             (False, d1) \<Rightarrow> (Inr ''DISCARDED'', d1)
           | (True, d1) \<Rightarrow>
               (case ih_call h call d1 of
                  (Inl e, d2) \<Rightarrow> (Inl e, d2)
                | (Inr v, d2) \<Rightarrow>
                    if mutating call
                    then (case record_external_result claim (ih_result h v) d2 of
                        (False, d3) \<Rightarrow> (Inr ''DISCARDED'', d3)
                      | (True, d3) \<Rightarrow> turn_loop n h st claim turn (results @ [(call, v)]) d3)
                    else turn_loop n h st claim turn (results @ [(call, v)]) d2)))"

definition audio_written_confirm_actions :: "string list" where
  "audio_written_confirm_actions = [''CONFIRM_BOOKING'', ''CONFIRM_APPOINTMENT'', ''CONFIRM_RESCHEDULE'',
     ''CONFIRM_VISIT_CANCELLATION'', ''CONFIRM_QUOTE_REQUEST'']"

definition audio_confirmation_requires_text :: "input_origin \<Rightarrow> json \<Rightarrow> bool" where
  "audio_confirmation_requires_text origin action \<longleftrightarrow>
     origin = AUDIO_TRANSCRIPT \<and> action \<in> set (map JStr audio_written_confirm_actions)"

text \<open>The turn that is applied: fixed for a spoken confirmation, none for silence or an empty text.\<close>

definition claim_turn ::
  "('t, 'v) handlers \<Rightarrow> inbox_claim \<Rightarrow> db \<Rightarrow> (string, 't option) result \<times> db" where
  "claim_turn h claim d =
     (let p = ic_persisted claim; text = strip (pm_message_text p);
          passive = (ic_silent claim \<and> pm_message_type p \<noteq> ''text'')
      in if audio_confirmation_requires_text (pm_input_origin p) (jget ''pending_action'' (pm_context p))
         then (Inr (Some (ih_audio_turn h)), d)
         else if text \<noteq> [] \<and> \<not> passive
         then (case ih_classify h claim d of (Inl e, d1) \<Rightarrow> (Inl e, d1) | (Inr t, d1) \<Rightarrow> (Inr (Some t), d1))
         else (Inr None, d))"

definition process_claimed_inbox ::
  "('t, 'v) handlers \<Rightarrow> settings \<Rightarrow> inbox_claim \<Rightarrow> db \<Rightarrow> string \<times> db" where
  "process_claimed_inbox h st claim0 d =
     (case ih_transcribe h claim0 d of
        (Inl e, d1) \<Rightarrow> settle_inbox_failure st claim0 e d1
      | (Inr claim, d1) \<Rightarrow>
          (case claim_turn h claim d1 of
             (Inl e, d2) \<Rightarrow> settle_inbox_failure st claim e d2
           | (Inr turn, d2) \<Rightarrow>
               (case turn_loop 12 h st claim turn [] d2 of
                  (Inr outcome, d3) \<Rightarrow> (outcome, d3)
                | (Inl e, d3) \<Rightarrow> settle_inbox_failure st claim e d3)))"

text \<open>The handler of \<open>CancelledError\<close>.\<close>

definition cancel_claimed_inbox :: "inbox_claim \<Rightarrow> db \<Rightarrow> db" where
  "cancel_claimed_inbox claim d =
     (case owned_job claim d of
        None \<Rightarrow> d
      | Some (job, _, _) \<Rightarrow> put_job
          (if ij_external_operation job \<noteq> None then retire_job IJ_REVIEW (Some ''EXTERNAL_OUTCOME_UNCERTAIN'') job
           else retire_job IJ_PENDING (Some ''CANCELLED'') job) d)"

section \<open>Webhook events\<close>

definition webhook_failed :: "settings \<Rightarrow> instant \<Rightarrow> string \<Rightarrow> webhook_event \<Rightarrow> webhook_event" where
  "webhook_failed st now err e =
     (let n = we_ingest_attempts e + 1 in
      e\<lparr>we_ingest_attempts := n,
        we_status := (if st_inbox_max_attempts st \<le> n then WE_EXHAUSTED else WE_FAILED),
        we_error := Some (cp_take 4000 err),
        we_next_attempt_at := Some (now + seconds (min (2 ^ n) (st_inbox_max_backoff_seconds st)))\<rparr>)"

text \<open>\<open>str(error)\<close> of the exceptions of the intake.\<close>

fun app_error_str :: "app_error \<Rightarrow> string" where
  "app_error_str (ValueError m) = m"
| "app_error_str (OtherError m) = m"
| "app_error_str _ = ''error''"

definition message_ids_of :: "inbound_message list \<Rightarrow> db \<Rightarrow> int list" where
  "message_ids_of messages d = map ms_id
     (filter (\<lambda>m. ms_external_message_id m \<in> im_external_message_id ` set messages) (db_messages d))"

definition expand_event ::
  "ucd \<Rightarrow> (json \<Rightarrow> inbound_message option) \<Rightarrow> (json \<Rightarrow> string) \<Rightarrow> settings \<Rightarrow> int \<Rightarrow> instant \<Rightarrow> db
     \<Rightarrow> (app_error, int list) result \<times> db" where
  "expand_event u parse rp st event_id now d =
     (case get_row we_id event_id (db_webhook_events d) of
        None \<Rightarrow> (Inr [], d)
      | Some e \<Rightarrow>
          if we_status e \<in> {WE_PROCESSED, WE_EXHAUSTED, WE_REVIEW} then (Inr [], d)
          else if we_intake_version e \<noteq> Some 2
          then (Inr [], put_webhook_event (e\<lparr>we_status := WE_REVIEW, we_error := Some ''LEGACY_EVENT_UNPROVEN''\<rparr>) d)
          else
            (let ids = (\<lambda>d1. case extract_inbound_messages u parse (we_payload e) of
                   Inl x \<Rightarrow> (Inl x, d) | Inr ms \<Rightarrow> (Inr (message_ids_of ms d1), d1))
             in if we_status e \<notin> {WE_RECEIVED, WE_FAILED} then ids d
                else if (case we_next_attempt_at e of None \<Rightarrow> False | Some t \<Rightarrow> t > now) then (Inr [], d)
                else (case persist_payload u parse rp st (we_request_id e) (we_payload e) d of
                    Inl x \<Rightarrow> (Inr [], put_webhook_event (webhook_failed st now (app_error_str x) e) d)
                  | Inr (_, d1) \<Rightarrow> ids (put_webhook_event
                      (e\<lparr>we_status := WE_PREPARED, we_error := None, we_next_attempt_at := None\<rparr>) d1))))"

definition job_statuses :: "string list \<Rightarrow> db \<Rightarrow> inbox_status list" where
  "job_statuses external_ids d = concat (map (\<lambda>m. map ij_status
       (filter (\<lambda>j. ij_message_id j = ms_id m) (db_inbox_jobs d)))
     (filter (\<lambda>m. ms_external_message_id m \<in> set external_ids) (db_messages d)))"

fun webhook_status_str :: "webhook_status \<Rightarrow> string" where
  "webhook_status_str WE_RECEIVED = ''RECEIVED''"
| "webhook_status_str WE_FAILED = ''FAILED''"
| "webhook_status_str WE_PREPARED = ''PREPARED''"
| "webhook_status_str WE_PROCESSED = ''PROCESSED''"
| "webhook_status_str WE_EXHAUSTED = ''EXHAUSTED''"
| "webhook_status_str WE_REVIEW = ''REVIEW''"

definition refreshed_event ::
  "settings \<Rightarrow> instant \<Rightarrow> nat \<Rightarrow> inbox_status list \<Rightarrow> webhook_event \<Rightarrow> webhook_event" where
  "refreshed_event st now n statuses e =
     (if length statuses \<noteq> n then e\<lparr>we_status := WE_REVIEW, we_error := Some ''MISSING_MESSAGE_CONTROL''\<rparr>
      else if list_all (\<lambda>s. s = IJ_COMPLETED) statuses
      then e\<lparr>we_status := WE_PROCESSED, we_error := None, we_processed_at := Some now\<rparr>
      else if IJ_REVIEW \<in> set statuses
      then e\<lparr>we_status := WE_REVIEW, we_error := Some ''MESSAGE_REQUIRES_REVIEW''\<rparr>
      else if IJ_FAILED \<in> set statuses
      then e\<lparr>we_status := WE_EXHAUSTED, we_error := Some ''MESSAGE_ATTEMPTS_EXHAUSTED''\<rparr>
      else e\<lparr>we_next_attempt_at := Some (now + st_inbox_poll_interval_us st)\<rparr>)"

definition refresh_event ::
  "ucd \<Rightarrow> (json \<Rightarrow> inbound_message option) \<Rightarrow> settings \<Rightarrow> int \<Rightarrow> db \<Rightarrow> (app_error, string \<times> db) result" where
  "refresh_event u parse st event_id d =
     (case get_row we_id event_id (db_webhook_events d) of
        None \<Rightarrow> Inr (''MISSING'', d)
      | Some e \<Rightarrow>
          if we_status e \<noteq> WE_PREPARED then Inr (webhook_status_str (we_status e), d)
          else ebind (extract_inbound_messages u parse (we_payload e)) (\<lambda>messages.
            let ids = remdups (map im_external_message_id messages);
                e' = refreshed_event st (db_clock d) (length ids) (job_statuses ids d) e
            in Inr (webhook_status_str (we_status e'), put_webhook_event e' d)))"

section \<open>The worker\<close>

fun process_claims :: "('t, 'v) handlers \<Rightarrow> settings \<Rightarrow> inbox_claim list \<Rightarrow> db \<Rightarrow> string list \<times> db" where
  "process_claims h st [] d = ([], d)"
| "process_claims h st (c # cs) d =
     (case process_claimed_inbox h st c d of (x, d1) \<Rightarrow>
      case process_claims h st cs d1 of (xs, d2) \<Rightarrow> (x # xs, d2))"

text \<open>At most one round per message; the result counts the outcomes.\<close>

fun process_rounds :: "nat \<Rightarrow> ('t, 'v) handlers \<Rightarrow> settings \<Rightarrow> int list \<Rightarrow> db \<Rightarrow> string list \<times> db" where
  "process_rounds 0 h st ids d = ([], d)"
| "process_rounds (Suc n) h st ids d =
     (case claim_inbox_batch h (db_clock d) (st_inbox_batch_size st) (Some ids) d of (claims, d1) \<Rightarrow>
        if claims = [] then ([], d1)
        else (case process_claims h st claims d1 of (xs, d2) \<Rightarrow>
              case process_rounds n h st ids d2 of (ys, d3) \<Rightarrow> (xs @ ys, d3)))"

definition process_message_ids :: "('t, 'v) handlers \<Rightarrow> settings \<Rightarrow> int list \<Rightarrow> db \<Rightarrow> string list \<times> db" where
  "process_message_ids h st ids d = process_rounds (length ids) h st ids d"

definition process_event ::
  "('t, 'v) handlers \<Rightarrow> ucd \<Rightarrow> (json \<Rightarrow> inbound_message option) \<Rightarrow> (json \<Rightarrow> string) \<Rightarrow> settings \<Rightarrow> int \<Rightarrow> db
     \<Rightarrow> (app_error, string list) result \<times> db" where
  "process_event h u parse rp st event_id d =
     (case expand_event u parse rp st event_id (db_clock d) d of
        (Inl x, d1) \<Rightarrow> (Inl x, d1)
      | (Inr ids, d1) \<Rightarrow>
          (case process_message_ids h st ids d1 of (counts, d2) \<Rightarrow>
             (case refresh_event u parse st event_id d2 of
                Inl x \<Rightarrow> (Inl x, d2)
              | Inr (status, d3) \<Rightarrow> (Inr (counts @ [''EVENT_'' @ status]), d3))))"

definition due_webhook :: "instant \<Rightarrow> webhook_event \<Rightarrow> bool" where
  "due_webhook now e \<longleftrightarrow> (case we_next_attempt_at e of None \<Rightarrow> True | Some t \<Rightarrow> t \<le> now)"

text \<open>\<open>ORDER BY next_attempt_at ASC NULLS FIRST, id\<close>.\<close>

definition prepared_order :: "webhook_event \<Rightarrow> webhook_event \<Rightarrow> bool" where
  "prepared_order a b = (case (we_next_attempt_at a, we_next_attempt_at b) of
       (None, Some _) \<Rightarrow> True
     | (Some _, None) \<Rightarrow> False
     | (None, None) \<Rightarrow> we_id a < we_id b
     | (Some s, Some t) \<Rightarrow> s < t \<or> (s = t \<and> we_id a < we_id b))"

fun expand_events ::
  "ucd \<Rightarrow> (json \<Rightarrow> inbound_message option) \<Rightarrow> (json \<Rightarrow> string) \<Rightarrow> settings \<Rightarrow> instant \<Rightarrow> int list \<Rightarrow> db
     \<Rightarrow> (app_error, unit) result \<times> db" where
  "expand_events u parse rp st now [] d = (Inr (), d)"
| "expand_events u parse rp st now (k # ks) d =
     (case expand_event u parse rp st k now d of
        (Inl x, d1) \<Rightarrow> (Inl x, d1)
      | (Inr _, d1) \<Rightarrow> expand_events u parse rp st now ks d1)"

fun refresh_events ::
  "ucd \<Rightarrow> (json \<Rightarrow> inbound_message option) \<Rightarrow> settings \<Rightarrow> int list \<Rightarrow> db \<Rightarrow> (app_error, string list) result \<times> db" where
  "refresh_events u parse st [] d = (Inr [], d)"
| "refresh_events u parse st (k # ks) d =
     (case refresh_event u parse st k d of
        Inl x \<Rightarrow> (Inl x, d)
      | Inr (s, d1) \<Rightarrow> (case refresh_events u parse st ks d1 of
            (Inl x, d2) \<Rightarrow> (Inl x, d2) | (Inr ss, d2) \<Rightarrow> (Inr ((''EVENT_'' @ s) # ss), d2)))"

definition process_inbox_once ::
  "('t, 'v) handlers \<Rightarrow> ucd \<Rightarrow> (json \<Rightarrow> inbound_message option) \<Rightarrow> (json \<Rightarrow> string) \<Rightarrow> settings \<Rightarrow> db
     \<Rightarrow> (app_error, nat \<times> string list) result \<times> db" where
  "process_inbox_once h u parse rp st d =
     (let now = db_clock d;
          (recovered, d1) = recover_stale_inbox now st d;
          events = map we_id (take (st_inbox_batch_size st) (order_by (\<lambda>a b. we_id a < we_id b)
            (filter (\<lambda>e. we_intake_version e = Some 2 \<and> we_status e \<in> {WE_RECEIVED, WE_FAILED} \<and> due_webhook now e)
               (db_webhook_events d1))))
      in case expand_events u parse rp st now events d1 of
           (Inl x, d2) \<Rightarrow> (Inl x, d2)
         | (Inr _, d2) \<Rightarrow>
             (let (claims, d3) = claim_inbox_batch h now (st_inbox_batch_size st) None d2;
                  (counts, d4) = process_claims h st claims d3;
                  prepared = map we_id (take (st_inbox_batch_size st) (order_by prepared_order
                    (filter (\<lambda>e. we_status e = WE_PREPARED \<and> due_webhook now e) (db_webhook_events d4))))
              in case refresh_events u parse st prepared d4 of
                   (Inl x, d5) \<Rightarrow> (Inl x, d5)
                 | (Inr ss, d5) \<Rightarrow> (Inr (recovered, counts @ ss), d5)))"

end
