(* ===== verification/Inbox_Facts.thy ===== *)
theory Inbox_Facts
  imports Inbox
begin

text \<open>
  What the inbox guarantees: messages of a conversation are processed in order, a turn whose external
  effect may have happened is never repeated on its own, a worker that lost its lease changes nothing,
  and an event counts as processed only when all its messages are.
\<close>

section \<open>Frames\<close>

lemma retire_job_simps [simp]:
  "ij_id (retire_job s r j) = ij_id j" "ij_status (retire_job s r j) = s"
  "ij_conversation_id (retire_job s r j) = ij_conversation_id j"
  "ij_external_operation (retire_job s r j) = ij_external_operation j"
  "ij_claim_token (retire_job s r j) = None" "ij_message_id (retire_job s r j) = ij_message_id j"
  by (simp_all add: retire_job_def)

lemma fail_job_simps [simp]:
  "ij_id (fail_job r now st j) = ij_id j" "ij_conversation_id (fail_job r now st j) = ij_conversation_id j"
  "ij_external_operation (fail_job r now st j) = ij_external_operation j"
  "ij_message_id (fail_job r now st j) = ij_message_id j"
  by (simp_all add: fail_job_def Let_def)

lemma fail_job_status:
  "ij_status (fail_job r now st j) \<in> {IJ_REVIEW, IJ_FAILED, IJ_PENDING} \<and>
   (ij_external_operation j \<noteq> None \<longrightarrow> ij_status (fail_job r now st j) = IJ_REVIEW)"
  by (simp add: fail_job_def Let_def)

lemma fail_job_external [simp]:
  "ij_external_operation j \<noteq> None \<Longrightarrow> ij_status (fail_job r now st j) = IJ_REVIEW"
  using fail_job_status by blast

lemma complete_job_simps [simp]:
  "ij_id (complete_job now r j) = ij_id j" "ij_status (complete_job now r j) = IJ_COMPLETED"
  "ij_external_operation (complete_job now r j) = ij_external_operation j"
  by (simp_all add: complete_job_def)

lemma lease_job_simps [simp]:
  "ij_id (lease_job t now j) = ij_id j" "ij_status (lease_job t now j) = IJ_PROCESSING"
  "ij_conversation_id (lease_job t now j) = ij_conversation_id j"
  "ij_external_operation (lease_job t now j) = ij_external_operation j"
  "ij_claim_token (lease_job t now j) = Some t"
  by (simp_all add: lease_job_def)

lemma put_job_frame [simp]:
  "db_inbox_jobs (put_job j d) = put_row ij_id j (db_inbox_jobs d)" "db_clock (put_job j d) = db_clock d"
  "db_conversations (put_job j d) = db_conversations d" "db_customers (put_job j d) = db_customers d"
  "db_messages (put_job j d) = db_messages d"
  by (simp_all add: put_job_def)

lemma owned_job_SomeD:
  "owned_job claim d = Some (job, cu, c) \<Longrightarrow>
     get_row ij_id (ic_id claim) (db_inbox_jobs d) = Some job \<and> leased_job job \<and>
     ij_claim_token job = Some (ic_claim_token claim) \<and>
     lock_context (ic_conversation_id claim) d = Some (cu, c)"
  by (auto simp: owned_job_def split: option.splits if_splits)

section \<open>Order\<close>

lemma first_unfinishedD:
  assumes "first_unfinished k d = Some j"
  shows "j \<in> set (db_inbox_jobs d) \<and> ij_conversation_id j = k \<and> ij_status j \<noteq> IJ_COMPLETED \<and>
    (\<forall>i \<in> set (db_inbox_jobs d). ij_conversation_id i = k \<and> ij_id i < ij_id j \<longrightarrow> ij_status i = IJ_COMPLETED)"
proof -
  have j: "j \<in> set (db_inbox_jobs d)" "ij_conversation_id j = k" "ij_status j \<noteq> IJ_COMPLETED"
    using assms first_by_SomeD by (fastforce simp: first_unfinished_def)+
  moreover have "\<not> ij_id i < ij_id j" if "i \<in> set (db_inbox_jobs d)" "ij_conversation_id i = k" "ij_status i \<noteq> IJ_COMPLETED" for i
    using assms that first_by_least [of "\<lambda>a b. ij_id a < ij_id b"] by (fastforce simp: first_unfinished_def)
  ultimately show ?thesis by blast
qed

text \<open>Leasing moves no job out of its place and finishes none.\<close>

definition jobs_leased :: "db \<Rightarrow> db \<Rightarrow> bool" where
  "jobs_leased d d' \<longleftrightarrow>
     (\<forall>j \<in> set (db_inbox_jobs d). \<exists>j' \<in> set (db_inbox_jobs d'). ij_id j' = ij_id j \<and>
        ij_conversation_id j' = ij_conversation_id j \<and> (ij_status j' = IJ_COMPLETED \<longrightarrow> ij_status j = IJ_COMPLETED)) \<and>
     (\<forall>j' \<in> set (db_inbox_jobs d'). j' \<in> set (db_inbox_jobs d) \<or> ij_status j' = IJ_PROCESSING)"

lemma jobs_leased_refl [simp]: "db_inbox_jobs d' = db_inbox_jobs d \<Longrightarrow> jobs_leased d d'"
  by (auto simp: jobs_leased_def)

lemma jobs_leased_trans: "jobs_leased a b \<Longrightarrow> jobs_leased b c \<Longrightarrow> jobs_leased a c"
  unfolding jobs_leased_def by (metis (no_types, opaque_lifting))

lemma jobs_leased_put:
  assumes "keys_ok ij_id (db_inbox_jobs d)" and "j \<in> set (db_inbox_jobs d)"
    and "db_inbox_jobs d' = put_row ij_id (lease_job t now j) (db_inbox_jobs d)"
  shows "jobs_leased d d'"
proof -
  have same: "i = j" if "i \<in> set (db_inbox_jobs d)" "ij_id i = ij_id j" for i
    using that assms(1,2) by (auto simp: keys_ok_def dest: inj_onD [OF distinct_map [THEN iffD1, THEN conjunct2]])
  show ?thesis
    unfolding jobs_leased_def
  proof (intro conjI ballI)
    fix i assume i: "i \<in> set (db_inbox_jobs d)"
    show "\<exists>j' \<in> set (db_inbox_jobs d'). ij_id j' = ij_id i \<and> ij_conversation_id j' = ij_conversation_id i \<and>
        (ij_status j' = IJ_COMPLETED \<longrightarrow> ij_status i = IJ_COMPLETED)"
      using i same [OF i]
      by (intro bexI [of _ "if ij_id i = ij_id j then lease_job t now j else i"]) (auto simp: assms(3) put_row_def)
  next
    fix i assume "i \<in> set (db_inbox_jobs d')"
    then show "i \<in> set (db_inbox_jobs d) \<or> ij_status i = IJ_PROCESSING"
      by (auto simp: assms(3) dest!: put_row_mem)
  qed
qed

lemma claim_conversationD:
  assumes "claim_conversation h now ids k d = (c, d')" and "keys_ok ij_id (db_inbox_jobs d)"
  shows "jobs_leased d d' \<and> keys_ok ij_id (db_inbox_jobs d') \<and>
    (\<forall>x. c = Some x \<longrightarrow> (\<exists>job. first_unfinished k d = Some job \<and> due_job now ids job \<and> ic_id x = ij_id job \<and>
       ic_message_id x = ij_message_id job \<and> ic_conversation_id x = k))"
proof (cases c)
  case None
  with assms have "d' = d" by (auto simp: claim_conversation_def uuid4_def split: option.splits prod.splits if_splits)
  with None assms(2) show ?thesis by simp
next
  case (Some x)
  with assms(1) obtain cu cv job m token d1 where
    c: "first_unfinished k d = Some job" "due_job now ids job" "uuid4 d = (token, d1)"
      "x = inbox_claim_of h job m cu cv (ih_booking_event h cv d) token" "d' = put_job (lease_job token now job) d1"
    by (auto simp: claim_conversation_def split: option.splits prod.splits if_splits)
  note j = first_unfinishedD [OF c(1)]
  have d': "db_inbox_jobs d' = put_row ij_id (lease_job token now job) (db_inbox_jobs d)"
    using c(3,5) by (auto simp: uuid4_def)
  with jobs_leased_put [OF assms(2) _ d'] j assms(2) c(1,2,4) Some show ?thesis
    by (auto simp: inbox_claim_of_def Let_def)
qed

definition next_in_line :: "inbox_claim \<Rightarrow> db \<Rightarrow> bool" where
  "next_in_line x d \<longleftrightarrow> (\<exists>job \<in> set (db_inbox_jobs d). ij_id job = ic_id x \<and> ij_message_id job = ic_message_id x \<and>
     ij_conversation_id job = ic_conversation_id x \<and> ij_status job = IJ_PENDING \<and>
     (\<forall>i \<in> set (db_inbox_jobs d). ij_conversation_id i = ij_conversation_id job \<and> ij_id i < ij_id job \<longrightarrow>
        ij_status i = IJ_COMPLETED))"

lemma first_unfinished_in_line:
  assumes "first_unfinished k d = Some job" and "due_job now ids job" and "ic_id x = ij_id job"
    and "ic_message_id x = ij_message_id job" and "ic_conversation_id x = k"
  shows "next_in_line x d"
  using first_unfinishedD [OF assms(1)] assms(2-) by (auto simp: next_in_line_def due_job_def)

lemma next_in_line_back:
  assumes "jobs_leased d d'" and "next_in_line x d'"
  shows "next_in_line x d"
proof -
  from assms(2) obtain job where job: "job \<in> set (db_inbox_jobs d')" "ij_id job = ic_id x" "ij_message_id job = ic_message_id x"
     "ij_conversation_id job = ic_conversation_id x" "ij_status job = IJ_PENDING"
    and first: "\<And>i. i \<in> set (db_inbox_jobs d') \<Longrightarrow> ij_conversation_id i = ij_conversation_id job \<Longrightarrow>
       ij_id i < ij_id job \<Longrightarrow> ij_status i = IJ_COMPLETED"
    unfolding next_in_line_def by blast
  have mem: "job \<in> set (db_inbox_jobs d)" using assms(1) job(1,5) by (auto simp: jobs_leased_def)
  have "ij_status i = IJ_COMPLETED" if i: "i \<in> set (db_inbox_jobs d)" "ij_conversation_id i = ij_conversation_id job"
      "ij_id i < ij_id job" for i
  proof -
    from assms(1) i(1) obtain j' where "j' \<in> set (db_inbox_jobs d')" "ij_id j' = ij_id i"
      "ij_conversation_id j' = ij_conversation_id i" "ij_status j' = IJ_COMPLETED \<longrightarrow> ij_status i = IJ_COMPLETED"
      unfolding jobs_leased_def by blast
    with first i show ?thesis by simp
  qed
  with mem job show ?thesis unfolding next_in_line_def by blast
qed

lemma claim_conversations_in_line:
  "claim_conversations h now ids ks d = (cs, d') \<Longrightarrow> keys_ok ij_id (db_inbox_jobs d) \<Longrightarrow> x \<in> set cs \<Longrightarrow>
     next_in_line x d"
proof (induction ks arbitrary: d cs)
  case (Cons k ks)
  obtain c d1 where c: "claim_conversation h now ids k d = (c, d1)" by fastforce
  obtain cs1 d2 where r: "claim_conversations h now ids ks d1 = (cs1, d2)" by fastforce
  note D = claim_conversationD [OF c Cons.prems(2)]
  from Cons.prems(1) c r have "d2 = d'" and cs: "cs = (case c of None \<Rightarrow> cs1 | Some y \<Rightarrow> y # cs1)" by auto
  from cs Cons.prems(3) have "c = Some x \<or> x \<in> set cs1" by (auto split: option.splits)
  then show ?case
  proof
    assume "c = Some x"
    with D obtain job where "first_unfinished k d = Some job" "due_job now ids job" "ic_id x = ij_id job"
      "ic_message_id x = ij_message_id job" "ic_conversation_id x = k" by blast
    then show ?thesis by (rule first_unfinished_in_line)
  next
    assume "x \<in> set cs1"
    with Cons.IH [OF r [unfolded \<open>d2 = d'\<close>]] D have "next_in_line x d1" by blast
    with next_in_line_back D show ?thesis by blast
  qed
qed simp

section \<open>External effects\<close>

text \<open>A job that recorded an agenda operation is never queued again without a person.\<close>

definition external_safe :: "db \<Rightarrow> bool" where
  "external_safe d \<longleftrightarrow> (\<forall>j \<in> set (db_inbox_jobs d). ij_external_operation j \<noteq> None \<longrightarrow> ij_status j \<noteq> IJ_PENDING)"

lemma external_safe_put:
  "external_safe d \<Longrightarrow> (ij_external_operation j \<noteq> None \<Longrightarrow> ij_status j \<noteq> IJ_PENDING) \<Longrightarrow>
     db_inbox_jobs d' = put_row ij_id j (db_inbox_jobs d) \<Longrightarrow> external_safe d'"
  by (auto simp: external_safe_def dest: put_row_mem)

lemma external_safe_put_job [intro]:
  "external_safe d \<Longrightarrow> (ij_external_operation j \<noteq> None \<Longrightarrow> ij_status j \<noteq> IJ_PENDING) \<Longrightarrow> external_safe (put_job j d)"
  by (rule external_safe_put) simp_all

text \<open>What the unmodelled parts of a turn must respect: they do not queue a job that recorded an operation.\<close>

definition handlers_safe :: "('t, 'v) handlers \<Rightarrow> bool" where
  "handlers_safe h \<longleftrightarrow>
     (\<forall>c d. external_safe d \<longrightarrow> external_safe (snd (ih_transcribe h c d))) \<and>
     (\<forall>c d. external_safe d \<longrightarrow> external_safe (snd (ih_classify h c d))) \<and>
     (\<forall>c d. external_safe d \<longrightarrow> external_safe (snd (ih_call h c d))) \<and>
     (\<forall>c m cv cu d b d'. external_safe d \<longrightarrow> ih_route h c m cv cu d = Inr (b, d') \<longrightarrow> external_safe d') \<and>
     (\<forall>c t cv cu rs d d'. external_safe d \<longrightarrow> ih_orchestrate h c t cv cu rs d = TurnDone d' \<longrightarrow> external_safe d')"

lemma fail_safe: "external_safe d \<Longrightarrow> external_safe (put_job (fail_job r now st j) d)"
  using fail_job_status [of r now st j] by auto

lemma complete_safe: "external_safe d \<Longrightarrow> external_safe (put_job (complete_job now r j) d)"
  by auto

lemma settle_failure_safe: "external_safe d \<Longrightarrow> external_safe (snd (settle_inbox_failure st c e d))"
  by (auto simp: settle_inbox_failure_def fail_safe split: option.split prod.split)

lemma apply_turn_safe:
  assumes "apply_turn h st claim turn results d = TurnDone (x, d')" and "external_safe d" and "handlers_safe h"
  shows "external_safe d'"
proof (cases "owned_job claim d")
  case None
  with assms show ?thesis by (simp add: apply_turn_def)
next
  case (Some v)
  obtain job cu c where v: "v = (job, cu, c)" by (cases v)
  let ?changed = "fingerprint h c cu (ih_booking_event h c d) \<noteq> ic_context_fingerprint claim"
  let ?m = "get_row ms_id (ic_message_id claim) (db_messages d)"
  show ?thesis
  proof (cases "?changed \<and> (ij_external_operation job \<noteq> None \<or> silent_reason c = None)")
    case True
    with assms Some v show ?thesis
      by (cases "ij_external_operation job") (auto simp: apply_turn_def Let_def fail_safe)
  next
    case 3: False
    then obtain b d1 where r: "ih_route h claim ?m c cu d = Inr (b, d1)"
      using assms(1) Some v by (cases "ih_route h claim ?m c cu d") (auto simp: apply_turn_def Let_def)
    have s1: "external_safe d1" using assms(2,3) r unfolding handlers_safe_def by blast
    show ?thesis
    proof (cases b)
      case True
      with assms(1) Some v 3 r s1 show ?thesis by (auto simp: apply_turn_def Let_def complete_safe)
    next
      case False
      with assms(1) Some v 3 r obtain d2 where o: "ih_orchestrate h claim turn c cu results d1 = TurnDone d2"
        and d': "d' = put_job (complete_job (db_clock d2) (completion_reason False (silent_reason c)) job) d2"
        by (cases "ih_orchestrate h claim turn c cu results d1") (auto simp: apply_turn_def Let_def split: if_splits)
      have "external_safe d2" using assms(3) s1 o unfolding handlers_safe_def by blast
      with d' show ?thesis by (simp add: complete_safe)
    qed
  qed
qed

lemma prepare_safe:
  "prepare_external h st claim call d = (b, d') \<Longrightarrow> external_safe d \<Longrightarrow> external_safe d'"
  by (auto simp: prepare_external_def fail_safe intro!: external_safe_put_job split: option.splits if_splits)

lemma leased_not_pending: "leased_job j \<Longrightarrow> ij_status j \<noteq> IJ_PENDING"
  by (auto simp: leased_job_def)

lemma record_result_safe:
  "record_external_result claim v d = (b, d') \<Longrightarrow> external_safe d \<Longrightarrow> external_safe d'"
  by (auto simp: record_external_result_def split: option.splits
      dest!: owned_job_SomeD leased_not_pending)

lemma turn_loop_safe:
  assumes "handlers_safe h"
  shows "turn_loop n h st claim turn results d = (x, d') \<Longrightarrow> external_safe d \<Longrightarrow> external_safe d'"
proof (induction n arbitrary: results d)
  case (Suc n)
  show ?case
  proof (cases "apply_turn h st claim turn results d")
    case (TurnDone v)
    with Suc.prems show ?thesis using apply_turn_safe [OF _ _ assms] by (cases v) auto
  next
    case (TurnRaised e)
    with Suc.prems show ?thesis by simp
  next
    case (TurnDeferred call)
    obtain ok d1 where p: "prepare_external h st claim call d = (ok, d1)" by fastforce
    note s1 = prepare_safe [OF p Suc.prems(2)]
    show ?thesis
    proof (cases ok)
      case False
      with Suc.prems TurnDeferred p s1 show ?thesis by simp
    next
      case True
      obtain r d2 where c: "ih_call h call d1 = (r, d2)" by fastforce
      have s2: "external_safe d2" using assms s1 c unfolding handlers_safe_def by (metis snd_conv)
      show ?thesis
      proof (cases r)
        case (Inl e)
        with Suc.prems TurnDeferred p True c s2 show ?thesis by simp
      next
        case (Inr v)
        obtain ok3 d3 where e: "record_external_result claim (ih_result h v) d2 = (ok3, d3)" by fastforce
        note s3 = record_result_safe [OF e s2]
        show ?thesis
        proof (cases "mutating call")
          case True
          with Suc.prems(1) TurnDeferred p \<open>ok\<close> c Inr e Suc.IH [OF _ s3] s3 show ?thesis by (cases ok3) auto
        next
          case False
          with Suc.prems(1) TurnDeferred p \<open>ok\<close> c Inr Suc.IH [OF _ s2] show ?thesis by auto
        qed
      qed
    qed
  qed
qed simp

lemma process_claimed_safe:
  assumes "handlers_safe h" and "external_safe d"
  shows "external_safe (snd (process_claimed_inbox h st claim d))"
proof -
  obtain r1 d1 where t: "ih_transcribe h claim d = (r1, d1)" by fastforce
  have s1: "external_safe d1" using assms t unfolding handlers_safe_def by (metis snd_conv)
  show ?thesis
  proof (cases r1)
    case (Inl e)
    with t s1 show ?thesis by (simp add: process_claimed_inbox_def settle_failure_safe)
  next
    case (Inr claim1)
    obtain r2 d2 where c: "claim_turn h claim1 d1 = (r2, d2)" by fastforce
    obtain rc dc where cl: "ih_classify h claim1 d1 = (rc, dc)" by fastforce
    have "external_safe dc" using assms(1) s1 cl unfolding handlers_safe_def by (metis snd_conv)
    moreover have "d2 = d1 \<or> d2 = dc"
      using c cl by (auto simp: claim_turn_def Let_def split: if_splits sum.splits)
    ultimately have s2: "external_safe d2" using s1 by auto
    show ?thesis
    proof (cases r2)
      case (Inl e)
      with t c \<open>r1 = Inr claim1\<close> s2 show ?thesis by (simp add: process_claimed_inbox_def settle_failure_safe)
    next
      case (Inr turn)
      obtain r3 d3 where l: "turn_loop 12 h st claim1 turn [] d2 = (r3, d3)" by fastforce
      have "external_safe d3" by (rule turn_loop_safe [OF assms(1) l s2])
      with t c \<open>r1 = Inr claim1\<close> Inr l show ?thesis
        by (cases r3) (simp_all add: process_claimed_inbox_def settle_failure_safe)
    qed
  qed
qed

lemma recover_job_safe: "external_safe d \<Longrightarrow> external_safe (snd (recover_inbox_job cutoff now st ids (n, d)))"
  by (auto simp: recover_inbox_job_def fail_safe split: prod.split option.split)

lemma recover_stale_safe: "external_safe d \<Longrightarrow> external_safe (snd (recover_stale_inbox now st d))"
proof -
  have "external_safe (snd v) \<Longrightarrow> external_safe (snd (fold (recover_inbox_job cutoff now st) ks v))" for cutoff ks v
    by (induction ks arbitrary: v) (simp, metis fold_simps(2) prod.collapse recover_job_safe)
  then show "external_safe d \<Longrightarrow> ?thesis" by (simp add: recover_stale_inbox_def Let_def)
qed

lemma cancel_safe: "external_safe d \<Longrightarrow> external_safe (cancel_claimed_inbox claim d)"
  by (auto simp: cancel_claimed_inbox_def split: option.split prod.split)

lemma claim_conversation_safe:
  assumes "claim_conversation h now ids k d = (c, d')" and "external_safe d"
  shows "external_safe d'"
  using assms by (auto simp: claim_conversation_def uuid4_def intro!: external_safe_put_job
      split: option.splits prod.splits if_splits) (simp_all add: external_safe_def)

section \<open>The lease\<close>

datatype job_result = JobFailed string instant settings | JobCompleted instant string | JobReview string | JobCancelled

fun job_result_row :: "job_result \<Rightarrow> inbox_job \<Rightarrow> inbox_job" where
  "job_result_row (JobFailed r now st) j = fail_job r now st j"
| "job_result_row (JobCompleted now r) j = complete_job now r j"
| "job_result_row (JobReview r) j = retire_job IJ_REVIEW (Some r) j"
| "job_result_row JobCancelled j =
     (if ij_external_operation j \<noteq> None then retire_job IJ_REVIEW (Some ''EXTERNAL_OUTCOME_UNCERTAIN'') j
      else retire_job IJ_PENDING (Some ''CANCELLED'') j)"

definition settle_job :: "job_result \<Rightarrow> uuid \<Rightarrow> inbox_job \<Rightarrow> inbox_job" where
  "settle_job x t j = (if leased_job j \<and> ij_claim_token j = Some t then job_result_row x j else j)"

definition recover_job_row :: "instant \<times> instant \<times> settings \<Rightarrow> inbox_job \<Rightarrow> inbox_job" where
  "recover_job_row y j = (case y of (cutoff, now, st) \<Rightarrow>
     if stale_job cutoff j then fail_job ''CLAIM_EXPIRED'' now st j else j)"

lemma not_leased_fail: "\<not> leased_job (fail_job r now st j)"
  using fail_job_status [of r now st j] by (auto simp: leased_job_def)

lemma not_leased_result: "\<not> leased_job (job_result_row x j)"
  by (cases x) (simp_all add: not_leased_fail, simp_all add: leased_job_def)

interpretation inbox_lease: lease_queue leased_job ij_claim_token lease_job settle_job recover_job_row
  by unfold_locales
     (auto simp: settle_job_def recover_job_row_def not_leased_result not_leased_fail leased_job_def [of "lease_job _ _ _"]
       split: prod.splits if_splits)

section \<open>Events\<close>

lemma length_concat_le:
  "(\<And>x. x \<in> set xs \<Longrightarrow> length (f x) \<le> 1) \<Longrightarrow> length (concat (map f xs)) \<le> length xs"
proof (induction xs)
  case (Cons a xs)
  have "length (f a) \<le> 1" "length (concat (map f xs)) \<le> length xs" using Cons by simp_all
  then show ?case by simp
qed simp

lemma length_concat_one:
  "(\<And>x. x \<in> set xs \<Longrightarrow> length (f x) \<le> 1) \<Longrightarrow> length (concat (map f xs)) = length xs \<Longrightarrow>
     x \<in> set xs \<Longrightarrow> length (f x) = 1"
proof (induction xs)
  case (Cons a xs)
  have le: "length (f a) \<le> 1" "length (concat (map f xs)) \<le> length xs"
    using Cons.prems(1) length_concat_le [of xs f] by simp_all
  with Cons.prems(2) have "length (f a) = 1" "length (concat (map f xs)) = length xs" by simp_all
  with Cons show ?case by auto
qed simp

lemma distinct_filter_le_one:
  "distinct (map g xs) \<Longrightarrow> length (filter (\<lambda>x. g x = k) xs) \<le> 1"
proof (induction xs)
  case (Cons a xs)
  have "filter (\<lambda>x. g x = k) xs = []" if "g a = k"
  proof (rule filter_False, rule ballI)
    fix x assume "x \<in> set xs"
    then have "g x \<in> g ` set xs" by simp
    with Cons.prems that show "g x \<noteq> k" by auto
  qed
  with Cons show ?case by (cases "g a = k") simp_all
qed simp

text \<open>If there are as many statuses as identifiers, each identifier has its message and its one job.\<close>

lemma job_statuses_complete:
  assumes "intake_ok d" and "distinct ids" and "length (job_statuses ids d) = length ids" and "x \<in> set ids"
  shows "\<exists>m \<in> set (db_messages d). \<exists>j \<in> set (db_inbox_jobs d). ms_external_message_id m = x \<and>
    ij_message_id j = ms_id m \<and> ij_status j \<in> set (job_statuses ids d)"
proof -
  let ?jobs = "\<lambda>m. filter (\<lambda>j. ij_message_id j = ms_id m) (db_inbox_jobs d)"
  define ms where "ms = filter (\<lambda>m. ms_external_message_id m \<in> set ids) (db_messages d)"
  have st: "job_statuses ids d = concat (map (\<lambda>m. map ij_status (?jobs m)) ms)"
    by (simp add: job_statuses_def ms_def)
  have one: "length (map ij_status (?jobs m)) \<le> 1" for m :: message
    using assms(1) distinct_filter_le_one [of ij_message_id "db_inbox_jobs d" "ms_id m"] by (simp add: intake_ok_def)
  have dist: "distinct (map ms_external_message_id ms)"
    using assms(1) by (simp add: ms_def intake_ok_def distinct_map_filter)
  have sub: "set (map ms_external_message_id ms) \<subseteq> set ids" by (auto simp: ms_def)
  have "card (set (map ms_external_message_id ms)) = length ms" using distinct_card [OF dist] by simp
  then have "length ms \<le> length ids"
    using card_mono [OF finite_set sub] distinct_card [OF assms(2)] by simp
  moreover have "length (job_statuses ids d) \<le> length ms"
    unfolding st by (rule length_concat_le) (use one in simp)
  ultimately have len: "length ms = length ids" "length (job_statuses ids d) = length ms" using assms(3) by simp_all
  have "card (set (map ms_external_message_id ms)) = card (set ids)"
    using len(1) dist assms(2) by (metis distinct_card length_map)
  then have "set (map ms_external_message_id ms) = set ids" using card_subset_eq [OF finite_set sub] by blast
  with assms(4) have "x \<in> ms_external_message_id ` set ms" by simp
  then obtain m where m: "m \<in> set ms" "ms_external_message_id m = x" by blast
  have "length (map ij_status (?jobs m)) = 1"
    by (rule length_concat_one [OF one _ m(1)]) (use len(2) st in simp)
  then obtain j where "j \<in> set (?jobs m)" by (cases "?jobs m") auto
  moreover from this have "ij_status j \<in> set (job_statuses ids d)" unfolding st using m(1) by auto
  ultimately show ?thesis using m by (auto simp: ms_def)
qed

section \<open>Properties\<close>

text \<open>C10. Messages of a conversation are processed in the order they were accepted: every claimed job was pending
  and every earlier job of its conversation was completed before the batch was claimed; a job that
  failed or waits for review blocks its conversation.\<close>

theorem inbox_in_order:
  assumes "claim_inbox_batch h now n ids d = (cs, d')" and "keys_ok ij_id (db_inbox_jobs d)" and "c \<in> set cs"
  shows "next_in_line c d"
  using claim_conversations_in_line [OF assms(1) [unfolded claim_inbox_batch_def] assms(2,3)] .

definition sample_message :: message where
  "sample_message = \<lparr>ms_id = 71, ms_external_message_id = ''wamid.9'', ms_conversation_id = 1,
     ms_customer_id = 1, ms_direction = ''INBOUND'', ms_message_type = ''text'',
     ms_content = JObj [(''text'', JObj [(''body'', JStr ''hola'')])], ms_provider_timestamp = None\<rparr>"

definition sample_job :: inbox_job where
  "sample_job = new_job 72 sample_message None"

definition inbox_db :: db where
  "inbox_db = sample_db\<lparr>db_messages := [sample_message], db_inbox_jobs := [sample_job]\<rparr>"

text \<open>A dialogue that answers nothing, and no agenda.\<close>

definition quiet_handlers :: "(unit, unit) handlers" where
  "quiet_handlers = \<lparr>ih_hash = (\<lambda>c n b. []), ih_booking_event = (\<lambda>c d. None),
     ih_transcribe = (\<lambda>c d. (Inr c, d)), ih_classify = (\<lambda>c d. (Inr (), d)), ih_audio_turn = (),
     ih_route = (\<lambda>c m cv cu d. Inr (False, d)), ih_orchestrate = (\<lambda>c t cv cu rs d. TurnDone d),
     ih_call = (\<lambda>c d. (Inr (), d)), ih_result = (\<lambda>_. JNull)\<rparr>"

lemma sample_claimed:
  "\<exists>c d'. claim_inbox_batch quiet_handlers sample_now 10 None inbox_db = ([c], d') \<and> ic_id c = 72"
  by (simp add: claim_inbox_batch_def claim_candidates_def first_unfinished_def inbox_db_def sample_job_def new_job_def
      due_job_def order_by_def claim_conversation_def lock_context_def get_row_Cons sample_message_def
      sample_conversation_def sample_customer_def uuid4_def inbox_claim_of_def Let_def)

lemma inbox_in_order_witness: "\<exists>c. next_in_line c inbox_db \<and> ic_id c = 72"
proof -
  obtain c d' where c: "claim_inbox_batch quiet_handlers sample_now 10 None inbox_db = ([c], d')" "ic_id c = 72"
    using sample_claimed by blast
  have "keys_ok ij_id (db_inbox_jobs inbox_db)" by (simp add: inbox_db_def keys_ok_def)
  from inbox_in_order [OF c(1) this list.set_intros(1)] c(2) show ?thesis by blast
qed

text \<open>C11. An agenda operation that may have been carried out is never repeated by the system: a job that recorded
  one never goes back to the queue, whether its turn ends, fails, is cancelled or its lease expires;
  it completes or waits for a person. The dialogue is any that does not touch the queue that way.\<close>

theorem external_effect_not_repeated:
  assumes "external_safe d" and "handlers_safe h"
  shows "external_safe (snd (process_claimed_inbox h st claim d)) \<and>
    external_safe (snd (recover_stale_inbox now st d)) \<and> external_safe (cancel_claimed_inbox claim d) \<and>
    external_safe (snd (claim_conversation h now ids k d))"
  using assms process_claimed_safe recover_stale_safe cancel_safe claim_conversation_safe
  by (metis prod.collapse)

lemma quiet_handlers_safe: "handlers_safe quiet_handlers"
  by (simp add: handlers_safe_def quiet_handlers_def)

lemma external_effect_not_repeated_witness:
  "external_safe (snd (recover_stale_inbox (sample_now + hours 1) sample_settings (inbox_db\<lparr>db_inbox_jobs :=
     [sample_job\<lparr>ij_status := IJ_EXTERNAL, ij_claim_token := Some 5, ij_claimed_at := Some sample_now,
        ij_external_operation := Some ''confirm_appointment''\<rparr>]\<rparr>)))"
proof -
  have "external_safe (inbox_db\<lparr>db_inbox_jobs := [sample_job\<lparr>ij_status := IJ_EXTERNAL, ij_claim_token := Some 5,
      ij_claimed_at := Some sample_now, ij_external_operation := Some ''confirm_appointment''\<rparr>]\<rparr>)"
    by (simp add: external_safe_def)
  from external_effect_not_repeated [OF this quiet_handlers_safe] show ?thesis by blast
qed

text \<open>A worker that lost its job changes nothing: after the job was recovered, its late turn, its failure and its
  external result are discarded, whatever happened to the job since, as long as its token is not issued
  again.\<close>

theorem stale_inbox_worker_ignored:
  assumes "recover_job_row y j \<noteq> j" and "\<not> claims_token (ic_claim_token claim) es"
    and "get_row ij_id (ic_id claim) (db_inbox_jobs d) = Some (inbox_lease.lease_run es (recover_job_row y j))"
  shows "apply_turn h st claim turn results d = TurnDone (''DISCARDED'', d) \<and>
    settle_inbox_failure st claim err d = (''DISCARDED'', d) \<and>
    prepare_external h st claim call d = (False, d) \<and> record_external_result claim v d = (False, d)"
proof -
  have "\<not> leased_job (recover_job_row y j)" using inbox_lease.recover_releases [OF assms(1)] .
  then have "\<not> inbox_lease.owned (ic_claim_token claim) (recover_job_row y j)" by (simp add: inbox_lease.owned_def)
  from inbox_lease.lost_lease [OF this assms(2)] assms(3) have "owned_job claim d = None"
    by (auto simp: owned_job_def inbox_lease.owned_def split: option.split)
  then show ?thesis
    by (simp add: apply_turn_def settle_inbox_failure_def prepare_external_def record_external_result_def)
qed

definition sample_inbox_claim :: inbox_claim where
  "sample_inbox_claim = inbox_claim_of quiet_handlers sample_job sample_message sample_customer sample_conversation None 5"

lemma stale_inbox_worker_ignored_witness:
  "\<exists>d. settle_inbox_failure sample_settings sample_inbox_claim ''Timeout'' d = (''DISCARDED'', d)"
proof -
  let ?j = "lease_job 5 sample_now sample_job"
  let ?y = "(sample_now + 1, sample_now + 2, sample_settings)"
  have "recover_job_row ?y ?j \<noteq> ?j"
  proof
    assume "recover_job_row ?y ?j = ?j"
    moreover have "stale_job (sample_now + 1) ?j" by (simp add: stale_job_def leased_job_def lease_job_def)
    ultimately have "fail_job ''CLAIM_EXPIRED'' (sample_now + 2) sample_settings ?j = ?j" by (simp add: recover_job_row_def)
    then show False using not_leased_fail by (metis inbox_lease.claim_owner)
  qed
  moreover have "ij_id (recover_job_row ?y ?j) = 72"
    by (simp add: recover_job_row_def sample_job_def new_job_def)
  then have "get_row ij_id (ic_id sample_inbox_claim) [recover_job_row ?y ?j] = Some (inbox_lease.lease_run [] (recover_job_row ?y ?j))"
    by (simp add: get_row_Cons sample_inbox_claim_def inbox_claim_of_def Let_def sample_job_def new_job_def)
  ultimately have "\<forall>d. d = inbox_db\<lparr>db_inbox_jobs := [recover_job_row ?y ?j]\<rparr> \<longrightarrow>
      settle_inbox_failure sample_settings sample_inbox_claim ''Timeout'' d = (''DISCARDED'', d)"
    by (intro allI impI,
      intro stale_inbox_worker_ignored [where es = "[]", THEN conjunct2, THEN conjunct1]) simp_all
  then show ?thesis by blast
qed

text \<open>An event is reported as processed only when every message of its payload is stored and its job is
  completed.\<close>

theorem processed_means_completed:
  assumes "refresh_event u parse st k d = Inr (''PROCESSED'', d')" and "intake_ok d"
    and "get_row we_id k (db_webhook_events d) = Some e" and "we_status e = WE_PREPARED"
    and "extract_inbound_messages u parse (we_payload e) = Inr messages" and "im \<in> set messages"
  shows "\<exists>m \<in> set (db_messages d). \<exists>j \<in> set (db_inbox_jobs d).
    ms_external_message_id m = im_external_message_id im \<and> ij_message_id j = ms_id m \<and> ij_status j = IJ_COMPLETED"
proof -
  let ?ids = "remdups (map im_external_message_id messages)"
  let ?e = "refreshed_event st (db_clock d) (length ?ids) (job_statuses ?ids d) e"
  from assms(1,3,4,5) have "webhook_status_str (we_status ?e) = ''PROCESSED''"
    by (simp add: refresh_event_def Let_def)
  then have "we_status ?e = WE_PROCESSED" by (cases "we_status ?e") simp_all
  then have len: "length (job_statuses ?ids d) = length ?ids" and all: "list_all (\<lambda>s. s = IJ_COMPLETED) (job_statuses ?ids d)"
    using assms(4) by (auto simp: refreshed_event_def split: if_splits)
  have "im_external_message_id im \<in> set ?ids" using assms(6) by simp
  from job_statuses_complete [OF assms(2) distinct_remdups len this] all
  show ?thesis by (auto simp: list_all_iff)
qed

definition sample_webhook :: webhook_event where
  "sample_webhook = \<lparr>we_id = 73, we_payload = sample_payload, we_status = WE_PREPARED, we_error = None,
     we_request_id = None, we_intake_version = Some 2, we_ingest_attempts = 0, we_next_attempt_at = None,
     we_processed_at = None\<rparr>"

lemma processed_means_completed_witness:
  "\<exists>d'. refresh_event ascii_ucd (\<lambda>_. Some sample_inbound) sample_settings 73 (inbox_db\<lparr>db_webhook_events := [sample_webhook],
       db_inbox_jobs := [complete_job 0 ''ORCHESTRATED'' sample_job]\<rparr>) = Inr (''PROCESSED'', d') \<and>
     ij_status (complete_job 0 ''ORCHESTRATED'' sample_job) = IJ_COMPLETED"
proof -
  let ?j = "complete_job 0 ''ORCHESTRATED'' sample_job"
  let ?d = "inbox_db\<lparr>db_webhook_events := [sample_webhook], db_inbox_jobs := [?j]\<rparr>"
  have j: "ij_message_id ?j = 71" "ij_id ?j = 72"
    by (simp_all add: complete_job_def retire_job_def sample_job_def new_job_def sample_message_def)
  have x: "extract_inbound_messages ascii_ucd (\<lambda>_. Some sample_inbound) (we_payload sample_webhook) = Inr [sample_inbound]"
    by (simp add: sample_webhook_def extract_sample)
  have row: "get_row we_id 73 (db_webhook_events ?d) = Some sample_webhook" by (simp add: get_row_Cons sample_webhook_def)
  have js: "job_statuses [im_external_message_id sample_inbound] ?d = [IJ_COMPLETED]"
    using j by (simp add: job_statuses_def inbox_db_def sample_inbound_def sample_message_def)
  have "refresh_event ascii_ucd (\<lambda>_. Some sample_inbound) sample_settings 73 ?d = Inr (''PROCESSED'',
      put_webhook_event (refreshed_event sample_settings (db_clock ?d) 1 [IJ_COMPLETED] sample_webhook) ?d)"
    unfolding refresh_event_def row option.case x ebind_simps
    by (simp add: js refreshed_event_def Let_def) (simp add: sample_webhook_def)
  moreover have "intake_ok ?d"
    using j by (simp add: intake_ok_def inbox_db_def sample_message_def sample_conversation_def)
  ultimately show ?thesis
    using processed_means_completed [OF _ _ row _ x list.set_intros(1)] by auto
qed

text \<open>C40. An adviser's message is stored only as an interception: it gets no message and no job, so the event that
  brought it ends in REVIEW as \<open>MISSING_MESSAGE_CONTROL\<close> although nothing is missing.\<close>

theorem staff_event_left_for_review:
  assumes "staff_number (im_phone_number im) d"
    and "im_external_message_id im \<notin> ms_external_message_id ` set (db_messages d)"
    and "persist_inbound_message st req im d = Inr (r, d1)"
    and "get_row we_id k (db_webhook_events d1) = Some e" and "we_status e = WE_PREPARED"
    and "extract_inbound_messages u parse (we_payload e) = Inr [im]"
  shows "r = None \<and> db_inbox_jobs d1 = db_inbox_jobs d \<and> refresh_event u parse st k d1 = Inr (''REVIEW'',
    put_webhook_event (e\<lparr>we_status := WE_REVIEW, we_error := Some ''MISSING_MESSAGE_CONTROL''\<rparr>) d1)"
proof -
  obtain b e1 where i: "intercept_staff_inbound (im_phone_number im) (im_provider_timestamp im)
      (im_external_message_id im) st req d = (b, e1)" by fastforce
  with interceptD [OF i] assms(1,3) have "r = None" "d1 = e1" "intake_same d d1"
    by (auto simp: persist_inbound_message_def)
  moreover from this have "job_statuses [im_external_message_id im] d1 = []"
    using assms(2) by (auto simp: job_statuses_def intake_same_def filter_empty_conv image_iff)
  then have "refreshed_event st (db_clock d1) 1 (job_statuses [im_external_message_id im] d1) e =
      e\<lparr>we_status := WE_REVIEW, we_error := Some ''MISSING_MESSAGE_CONTROL''\<rparr>" by (simp add: refreshed_event_def)
  ultimately show ?thesis using assms(4-6) by (simp add: refresh_event_def intake_same_def)
qed

lemma staff_event_left_for_review_witness:
  "\<exists>d1. refresh_event ascii_ucd (\<lambda>_. Some sample_inbound) sample_settings 73 d1 =
     Inr (''REVIEW'', put_webhook_event (sample_webhook\<lparr>we_status := WE_REVIEW, we_error := Some ''MISSING_MESSAGE_CONTROL''\<rparr>) d1)"
proof -
  let ?rec = "sample_recipient\<lparr>nr_phone_number := ''+573001112233'', nr_last_inbound_message_id := Some ''wamid.9''\<rparr>"
  let ?d = "sample_db\<lparr>db_recipients := [?rec], db_webhook_events := [sample_webhook]\<rparr>"
  have n: "staff_number (im_phone_number sample_inbound) ?d"
    by (simp add: staff_number_def sample_inbound_def sample_recipient_def)
  have p: "persist_inbound_message sample_settings None sample_inbound ?d = Inr (None, ?d)"
    by (simp add: persist_inbound_message_def intercept_staff_inbound_def sample_inbound_def sample_recipient_def)
  have x: "extract_inbound_messages ascii_ucd (\<lambda>_. Some sample_inbound) (we_payload sample_webhook) = Inr [sample_inbound]"
    by (simp add: sample_webhook_def extract_sample)
  have row: "get_row we_id 73 (db_webhook_events ?d) = Some sample_webhook" by (simp add: get_row_Cons sample_webhook_def)
  have "we_status sample_webhook = WE_PREPARED" by (simp add: sample_webhook_def)
  from staff_event_left_for_review [OF n _ p row this x] show ?thesis by auto
qed

end
