(* ===== verification/Visits.thy ===== *)
theory Visits
  imports Calendar Staff_Texts Samples
begin

text \<open>
  Visits to the venue: \<open>app/scheduling/availability.py\<close> and the scheduling service of
  \<open>app/appointment/service.py\<close>. A visit is inserted as pending, mirrored in the external calendar
  outside any transaction, and settled in a second transaction.

  \<open>other n\<close> is what other workers commit before the service's transaction \<open>n\<close>; the reading of the clock
  the callers pass is a \<open>datetime\<close>. The constraints and unique indexes of the appointment table are
  checked where a transaction writes it: a violation is \<open>IntegrityError\<close>.
\<close>

section \<open>Availability\<close>

record visit_date_decision =
  vd_accepted :: bool
  vd_response_code :: "string option"

definition validate_visit_date :: "date \<Rightarrow> date \<Rightarrow> date list \<Rightarrow> date list \<Rightarrow> visit_date_decision" where
  "validate_visit_date visit_date today holidays blocked_dates =
     (let days_until_visit = visit_date - today;
          refuse = (\<lambda>code. \<lparr>vd_accepted = False, vd_response_code = Some code\<rparr>)
      in if days_until_visit = 0 then refuse ''RESP-VISIT-004''
         else if days_until_visit = 1 then refuse ''RESP-VISIT-005''
         else if weekday visit_date \<in> {0, 6} then refuse ''RESP-VISIT-006''
         else if visit_date \<in> set holidays then refuse ''RESP-VISIT-007''
         else if visit_date \<in> set blocked_dates then refuse ''RESP-VISIT-008''
         else if days_until_visit < 3 then refuse ''RESP-VISIT-004''
         else \<lparr>vd_accepted = True, vd_response_code = None\<rparr>)"

record visit_slot =
  vs_start_time :: tod
  vs_end_time :: tod

definition deterministic_visit_slots :: "visit_slot list" where
  "deterministic_visit_slots =
     map (\<lambda>start. \<lparr>vs_start_time = start, vs_end_time = calculate_visit_end_time start\<rparr>) visit_hours"

definition slot_datetime :: "date \<Rightarrow> tod \<Rightarrow> instant" where
  "slot_datetime visit_date slot_time = bogota_instant visit_date slot_time"

definition busy_intersects_slot :: "busy_interval \<Rightarrow> date \<Rightarrow> tod \<Rightarrow> bool" where
  "busy_intersects_slot interval visit_date slot_time =
     (let slot_start = slot_datetime visit_date slot_time
      in intersects interval slot_start (slot_start + minutes 45))"

record availability_result =
  av_visit_date :: date
  av_slots :: "visit_slot list"
  av_response_code :: string
  av_requires_review :: bool

text \<open>\<open>_local_calendar_state\<close>: holidays, blocked dates and the taken times of that day.\<close>

definition local_calendar_state :: "date \<Rightarrow> db \<Rightarrow> date list \<times> date list \<times> tod list" where
  "local_calendar_state visit_date d =
     (filter (\<lambda>x. x = visit_date) (db_holidays d), filter (\<lambda>x. x = visit_date) (db_blocked_dates d),
      map ap_start_time (filter (\<lambda>a. ap_appointment_date a = visit_date \<and> appointment_active (ap_status a))
        (db_appointments d)))"

definition available_slots ::
  "'c calendar \<Rightarrow> string list \<Rightarrow> date \<Rightarrow> date \<Rightarrow> db \<Rightarrow> 'c \<Rightarrow> (app_error, availability_result) result \<times> 'c" where
  "available_slots cal calendar_ids visit_date today d c =
     (case local_calendar_state visit_date d of (holidays, blocked, active_times) \<Rightarrow>
        let decision = validate_visit_date visit_date today holidays blocked;
            answer = (\<lambda>slots code review. \<lparr>av_visit_date = visit_date, av_slots = slots,
                        av_response_code = code, av_requires_review = review\<rparr>)
        in if \<not> vd_accepted decision
           then (Inr (answer [] (case vd_response_code decision of None \<Rightarrow> ''RESP-VISIT-009'' | Some r \<Rightarrow> r) False), c)
           else (case cal_get_busy_intervals cal visit_date calendar_ids c of
                   (Inl e, c1) \<Rightarrow>
                     (if e = CalendarUnavailableError then Inr (answer [] ''RESP-CALENDAR-ERROR-001'' True) else Inl e, c1)
                 | (Inr busy, c1) \<Rightarrow>
                     let slots = filter (\<lambda>slot. vs_start_time slot \<notin> set active_times \<and>
                           \<not> list_ex (\<lambda>b. busy_intersects_slot b visit_date (vs_start_time slot)) busy)
                           deterministic_visit_slots
                     in (Inr (if slots = [] then answer [] ''RESP-VISIT-009'' False
                              else answer slots ''RESP-VISIT-TIME-001'' False), c1)))"

definition is_slot_available ::
  "'c calendar \<Rightarrow> string list \<Rightarrow> date \<Rightarrow> tod \<Rightarrow> date \<Rightarrow> db \<Rightarrow> 'c \<Rightarrow> (app_error, bool) result \<times> 'c" where
  "is_slot_available cal calendar_ids visit_date visit_time today d c =
     (case available_slots cal calendar_ids visit_date today d c of
        (Inl e, c1) \<Rightarrow> (Inl e, c1)
      | (Inr r, c1) \<Rightarrow>
          (if av_requires_review r then Inl CalendarUnavailableError
           else Inr (visit_time \<in> vs_start_time ` set (av_slots r)), c1))"

section \<open>The description of the calendar event\<close>

definition event_type_labels :: "(string \<times> string) list" where
  "event_type_labels = [
     (''WEDDING'', ''una boda''), (''CIVIL_WEDDING'', ''una boda civil''),
     (''PROPOSAL'', ''una propuesta de matrimonio''), (''BIRTHDAY'', ''un cumplea'' @ n_tilde @ ''os''),
     (''GRADUATION'', ''una graduaci'' @ o_acute @ ''n''), (''ANNIVERSARY'', ''un aniversario''),
     (''ROMANTIC_DINNER'', ''una cena rom'' @ a_acute @ ''ntica''), (''CORPORATE_EVENT'', ''un evento empresarial''),
     (''FAMILY_EVENT'', ''un evento familiar''), (''BAPTISM'', ''un bautizo''),
     (''FIRST_COMMUNION'', ''una primera comuni'' @ o_acute @ ''n''), (''BABY_SHOWER'', ''un baby shower''),
     (''WORKSHOP'', ''un taller''), (''POOL_DAY'', ''un d'' @ i_acute @ ''a de piscina''),
     (''PRIVATE_DINNER'', ''una cena privada''), (''GENDER_REVEAL'', ''una revelaci'' @ o_acute @ ''n de g'' @ e_acute @ ''nero''),
     (''OTHER'', ''una celebraci'' @ o_acute @ ''n'')]"

text \<open>\<open>re.sub("^(?:un|una|el|la|los|las)\s+", "", label)\<close>; the labels are lower case.\<close>

fun strip_article :: "string list \<Rightarrow> string \<Rightarrow> string" where
  "strip_article [] label = label"
| "strip_article (w # ws) label =
     (let rest = drop (length w) label
      in if is_prefix w label \<and> rest \<noteq> [] \<and> char_space (hd rest) then dropWhile char_space rest
         else strip_article ws label)"

fun capitalized :: "string \<Rightarrow> string" where
  "capitalized [] = []"
| "capitalized (c # cs) = upper [c] @ cs"

definition event_type_display_name :: "string option \<Rightarrow> string option" where
  "event_type_display_name event_type =
     (case Option.bind event_type (map_of event_type_labels) of
        None \<Rightarrow> None
      | Some label \<Rightarrow>
          if label = [] then None
          else Some (capitalized (strip_article [''un'', ''una'', ''el'', ''la'', ''los'', ''las''] (strip label))))"

definition build_visit_description ::
  "string option \<Rightarrow> string option \<Rightarrow> string option \<Rightarrow> int option \<Rightarrow> int option \<Rightarrow> string option \<Rightarrow> string option" where
  "build_visit_description customer_name phone_number event_type event_guest_count attendee_count visit_reason =
     (let values = [(''Nombre del cliente'', customer_name), (''Tel'' @ e_acute @ ''fono'', phone_number),
            (''Tipo de evento'', event_type_display_name event_type),
            (''Invitados del evento'', map_option show_int event_guest_count),
            (''Asistentes a la visita'', map_option show_int attendee_count),
            (''Motivo de la visita'', visit_reason)];
          line = (\<lambda>(label, value). case value of
             None \<Rightarrow> [] | Some v \<Rightarrow> if strip v = [] then [] else [label @ '': '' @ strip v]);
          text = join [CHR 0x0A] (concat (map line values))
      in if text = [] then None else Some text)"

definition latest_event_first :: "event_row \<Rightarrow> event_row \<Rightarrow> bool" where
  "latest_event_first a b \<longleftrightarrow> ev_created_at b < ev_created_at a \<or>
     (ev_created_at a = ev_created_at b \<and> ev_id b < ev_id a)"

definition build_current_visit_description ::
  "int \<Rightarrow> uuid option \<Rightarrow> int \<Rightarrow> string \<Rightarrow> db \<Rightarrow> string option" where
  "build_current_visit_description customer_id lead_id attendee_count visit_reason d =
     (let customer = get_row cu_id customer_id (db_customers d);
          event = (case lead_id of None \<Rightarrow> None
                   | Some lead \<Rightarrow> first_by latest_event_first (filter (\<lambda>e. ev_lead_id e = lead) (db_events d)))
      in build_visit_description (Option.bind customer cu_full_name) (map_option cu_phone_number customer)
           (Option.bind event ev_event_type) (Option.bind event ev_guest_count)
           (Some attendee_count) (Some visit_reason))"

section \<open>The appointment table\<close>

text \<open>\<open>uq_appointment_active_slot\<close> and the unique external identifier.\<close>

definition slot_taken :: "appointment \<Rightarrow> db \<Rightarrow> bool" where
  "slot_taken a d \<longleftrightarrow> appointment_active (ap_status a) \<and>
     list_ex (\<lambda>x. ap_id x \<noteq> ap_id a \<and> appointment_active (ap_status x) \<and>
       (ap_appointment_date x, ap_start_time x) = (ap_appointment_date a, ap_start_time a)) (db_appointments d)"

definition external_taken :: "appointment \<Rightarrow> db \<Rightarrow> bool" where
  "external_taken a d \<longleftrightarrow> ap_external_calendar_id a \<noteq> None \<and>
     list_ex (\<lambda>x. ap_id x \<noteq> ap_id a \<and> ap_external_calendar_id x = ap_external_calendar_id a) (db_appointments d)"

definition commit_appointment :: "appointment \<Rightarrow> db \<Rightarrow> (app_error, db) result" where
  "commit_appointment a d =
     (if \<not> appointment_ck a \<or> slot_taken a d \<or> external_taken a d then Inl IntegrityError
      else Inr (put_appointment a d))"

record visit_request =
  vq_customer_id :: int
  vq_lead_id :: "uuid option"
  vq_visit_date :: date
  vq_visit_time :: tod
  vq_attendee_count :: int
  vq_visit_reason :: string
  vq_customer_confirmation :: bool

definition new_appointment :: "visit_request \<Rightarrow> uuid \<Rightarrow> appointment" where
  "new_appointment q u = \<lparr>ap_id = u, ap_customer_id = vq_customer_id q, ap_lead_id = vq_lead_id q,
     ap_appointment_date = vq_visit_date q, ap_start_time = vq_visit_time q,
     ap_end_time = calculate_visit_end_time (vq_visit_time q), ap_attendee_count = vq_attendee_count q,
     ap_visit_reason = vq_visit_reason q, ap_status = AP_PENDING_CONFIRMATION,
     ap_external_calendar_id = None, ap_reminder_scheduled_at = None, ap_reminder_sent_at = None,
     ap_reschedule_count = 0, ap_cancellation_reason = None, ap_cancelled_at = None,
     ap_requires_reconciliation = False\<rparr>"

definition insert_pending_appointment :: "visit_request \<Rightarrow> db \<Rightarrow> (app_error, uuid \<times> db) result" where
  "insert_pending_appointment q d =
     (if vq_visit_time q \<notin> set visit_hours then Inl (ValueError ''Invalid appointment start_time'')
      else if 255 < length (utf8_decode (vq_visit_reason q)) then Inl (OtherError ''DBAPIError'')
      else (case uuid4 d of (u, d1) \<Rightarrow>
        let a = new_appointment q u
        in if \<not> appointment_ck a \<or> slot_taken a d1 \<or> u \<in> ap_id ` set (db_appointments d1) \<or>
              get_row cu_id (vq_customer_id q) (db_customers d1) = None
           then Inl IntegrityError
           else Inr (u, d1\<lparr>db_appointments := db_appointments d1 @ [a]\<rparr>)))"

section \<open>Settling a visit\<close>

datatype visit_operation = VO_CONFIRM | VO_RESCHEDULE

record visit_settlement =
  vt_operation :: visit_operation
  vt_appointment_id :: uuid
  vt_visit_date :: date
  vt_visit_time :: tod
  vt_external_calendar_id :: string
  vt_reminder_at :: instant
  vt_previous_date :: "date option"
  vt_previous_time :: "tod option"
  vt_actor :: "string option"

definition appointment_change_actors :: "string list" where
  "appointment_change_actors = [''SYSTEM'', ''CUSTOMER'', ''AGENT'', ''BUSINESS_MANAGER'']"

definition rescheduled :: "visit_settlement \<Rightarrow> appointment \<Rightarrow> appointment" where
  "rescheduled change a = a\<lparr>ap_appointment_date := vt_visit_date change, ap_start_time := vt_visit_time change,
     ap_end_time := calculate_visit_end_time (vt_visit_time change), ap_status := AP_RESCHEDULED,
     ap_reschedule_count := ap_reschedule_count a + 1,
     ap_reminder_scheduled_at := Some (vt_reminder_at change), ap_requires_reconciliation := False\<rparr>"

definition confirmed :: "visit_settlement \<Rightarrow> appointment \<Rightarrow> appointment" where
  "confirmed change a = a\<lparr>ap_external_calendar_id := Some (vt_external_calendar_id change),
     ap_status := AP_CONFIRMED, ap_reminder_scheduled_at := Some (vt_reminder_at change),
     ap_requires_reconciliation := False\<rparr>"

definition settle_visit_appointment :: "visit_settlement \<Rightarrow> db \<Rightarrow> (app_error, db) result" where
  "settle_visit_appointment change d =
     (case get_row ap_id (vt_appointment_id change) (db_appointments d) of
        None \<Rightarrow> Inl (ValueError ''Appointment not found'')
      | Some a \<Rightarrow>
          (case vt_operation change of
             VO_CONFIRM \<Rightarrow>
               if ap_status a \<noteq> AP_PENDING_CONFIRMATION
               then Inl (ValueError ''Appointment changed before confirmation settlement'')
               else commit_appointment (confirmed change a) d
           | VO_RESCHEDULE \<Rightarrow>
               if (Some (ap_appointment_date a), Some (ap_start_time a)) \<noteq> (vt_previous_date change, vt_previous_time change)
                  \<or> \<not> appointment_active (ap_status a)
               then Inl (ValueError ''Appointment changed before reschedule settlement'')
               else if vt_visit_time change \<notin> set visit_hours
               then Inl (ValueError ''Invalid appointment start_time'')
               else (case vt_actor change of
                       None \<Rightarrow> Inl (ValueError ''Invalid appointment change actor'')
                     | Some actor \<Rightarrow>
                         if actor \<notin> set appointment_change_actors
                         then Inl (ValueError ''Invalid appointment change actor'')
                         else commit_appointment (rescheduled change a)
                           (d\<lparr>db_appointment_changes := db_appointment_changes d @
                              [\<lparr>ac_appointment_id = vt_appointment_id change,
                                ac_previous_date = ap_appointment_date a, ac_previous_start_time = ap_start_time a,
                                ac_new_date = vt_visit_date change, ac_new_start_time = vt_visit_time change,
                                ac_changed_by_type = actor, ac_changed_by_id = actor\<rparr>]\<rparr>))))"

section \<open>The calendar\<close>

text \<open>
  A creation that fails is tried once more. The handler ends with \<open>raise\<close>: unless the retry found
  the event already there, the first failure is raised again, a successful retry included.
\<close>

definition create_or_reconcile_event ::
  "'c calendar \<Rightarrow> string \<Rightarrow> string \<Rightarrow> instant \<Rightarrow> instant \<Rightarrow> string option \<Rightarrow> 'c \<Rightarrow> (app_error, unit) result \<times> 'c" where
  "create_or_reconcile_event cal k summary start finish description c =
     (case cal_create_event cal k summary start finish description c of
        (Inr _, c1) \<Rightarrow> (Inr (), c1)
      | (Inl e, c1) \<Rightarrow>
          if e = AlreadyExistsError then (Inr (), c1)
          else if e = CalendarUnavailableError
          then (case cal_create_event cal k summary start finish description c1 of
                  (Inr _, c2) \<Rightarrow> (Inl CalendarUnavailableError, c2)
                | (Inl e2, c2) \<Rightarrow> if e2 = AlreadyExistsError then (Inr (), c2) else (Inl e2, c2))
          else (Inl e, c1))"

definition update_or_reconcile_event ::
  "'c calendar \<Rightarrow> string \<Rightarrow> string \<Rightarrow> instant \<Rightarrow> instant \<Rightarrow> string option \<Rightarrow> 'c \<Rightarrow> (app_error, unit) result \<times> 'c" where
  "update_or_reconcile_event cal k summary start finish description c =
     (case cal_update_event cal k summary start finish description c of
        (Inr _, c1) \<Rightarrow> (Inr (), c1)
      | (Inl e, c1) \<Rightarrow>
          if e = EventNotFoundError
          then (case cal_create_event cal k summary start finish description c1 of
                  (Inr _, c2) \<Rightarrow> (Inr (), c2)
                | (Inl e2, c2) \<Rightarrow> (Inl (if e2 = AlreadyExistsError then CalendarUnavailableError else e2), c2))
          else if e = CalendarUnavailableError
          then (case cal_update_event cal k summary start finish description c1 of
                  (Inr _, c2) \<Rightarrow> (Inr (), c2) | (Inl e2, c2) \<Rightarrow> (Inl e2, c2))
          else (Inl e, c1))"

section \<open>The service\<close>

record visit_result =
  vr_response_code :: string
  vr_state :: "conversation_state option"
  vr_appointment_id :: "uuid option"
  vr_external_calendar_id :: "string option"
  vr_variables :: "(string \<times> string) list"
  vr_needs_handoff :: bool

definition visit_reply :: "string \<Rightarrow> visit_result" where
  "visit_reply code = \<lparr>vr_response_code = code, vr_state = None, vr_appointment_id = None,
     vr_external_calendar_id = None, vr_variables = [], vr_needs_handoff = False\<rparr>"

definition visit_summary :: string where
  "visit_summary = ''Visita comercial La Ceiba Club House''"

definition reminder_at :: "tod \<Rightarrow> date \<Rightarrow> instant" where
  "reminder_at send_time visit_date = bogota_instant (visit_date - 1) send_time"

definition mark_appointment_for_reconciliation :: "uuid \<Rightarrow> db \<Rightarrow> db" where
  "mark_appointment_for_reconciliation k d =
     (case get_row ap_id k (db_appointments d) of
        None \<Rightarrow> d | Some a \<Rightarrow> put_appointment (a\<lparr>ap_requires_reconciliation := True\<rparr>) d)"

definition when_variables :: "string \<Rightarrow> string \<Rightarrow> date \<Rightarrow> tod \<Rightarrow> (string \<times> string) list" where
  "when_variables date_key time_key visit_date visit_time =
     [(date_key, format_date_natural visit_date), (time_key, hhmm visit_time)]"

definition local_date :: "datetime \<Rightarrow> date" where
  "local_date t = (case t of Naive l \<Rightarrow> l div us_day + 1 | Aware i off \<Rightarrow> (i + off) div us_day + 1)"

text \<open>From the committed pending row: the calendar event, then the second transaction.\<close>

definition finish_confirmation ::
  "'c calendar \<Rightarrow> tod \<Rightarrow> visit_request \<Rightarrow> uuid \<Rightarrow> (nat \<Rightarrow> db \<Rightarrow> db) \<Rightarrow> db \<Rightarrow> 'c
     \<Rightarrow> (app_error, visit_result) result \<times> db \<times> 'c" where
  "finish_confirmation cal send_time q u other d c =
     (let event_id = uuid_hex u; d1 = other 1 d;
          description = build_current_visit_description (vq_customer_id q) (vq_lead_id q) (vq_attendee_count q)
            (vq_visit_reason q) d1
      in case create_or_reconcile_event cal event_id visit_summary (slot_datetime (vq_visit_date q) (vq_visit_time q))
                (slot_datetime (vq_visit_date q) (calculate_visit_end_time (vq_visit_time q))) description c of
           (Inl e, c1) \<Rightarrow>
             if e = CalendarUnavailableError
             then (Inr ((visit_reply ''RESP-CALENDAR-ERROR-002'')\<lparr>vr_state := Some WAITING_FOR_HUMAN,
                     vr_appointment_id := Some u, vr_needs_handoff := True\<rparr>),
                   mark_appointment_for_reconciliation u (other 2 d1), c1)
             else (Inl e, d1, c1)
         | (Inr _, c1) \<Rightarrow>
             (case settle_visit_appointment \<lparr>vt_operation = VO_CONFIRM, vt_appointment_id = u,
                     vt_visit_date = vq_visit_date q, vt_visit_time = vq_visit_time q,
                     vt_external_calendar_id = event_id, vt_reminder_at = reminder_at send_time (vq_visit_date q),
                     vt_previous_date = None, vt_previous_time = None, vt_actor = None\<rparr> (other 2 d1) of
                Inl e \<Rightarrow> (Inl e, other 2 d1, c1)
              | Inr d2 \<Rightarrow>
                  (Inr ((visit_reply ''RESP-VISIT-CONFIRM-003'')\<lparr>vr_state := Some APPOINTMENT_CONFIRMED,
                     vr_appointment_id := Some u, vr_external_calendar_id := Some event_id,
                     vr_variables := when_variables ''visit_date'' ''visit_time'' (vq_visit_date q) (vq_visit_time q)\<rparr>),
                   d2, c1)))"

definition slot_gone :: visit_result where
  "slot_gone = (visit_reply ''RESP-VISIT-CONFIRM-005'')\<lparr>vr_state := Some WAITING_FOR_APPOINTMENT_SELECTION\<rparr>"

definition confirm_appointment ::
  "'c calendar \<Rightarrow> string list \<Rightarrow> tod \<Rightarrow> visit_request \<Rightarrow> datetime \<Rightarrow> (nat \<Rightarrow> db \<Rightarrow> db) \<Rightarrow> db \<Rightarrow> 'c
     \<Rightarrow> (app_error, visit_result) result \<times> db \<times> 'c" where
  "confirm_appointment cal calendar_ids send_time q now other d c =
     (if \<not> vq_customer_confirmation q
      then (Inr ((visit_reply ''RESP-VISIT-CONFIRM-001'')\<lparr>vr_state := Some APPOINTMENT_PENDING_CONFIRMATION\<rparr>), d, c)
      else (case is_slot_available cal calendar_ids (vq_visit_date q) (vq_visit_time q) (local_date now) d c of
         (Inl e, c1) \<Rightarrow>
           (if e = CalendarUnavailableError
            then Inr ((visit_reply ''RESP-CALENDAR-ERROR-001'')\<lparr>vr_state := Some WAITING_FOR_HUMAN, vr_needs_handoff := True\<rparr>)
            else Inl e, d, c1)
       | (Inr available, c1) \<Rightarrow>
           if \<not> available then (Inr slot_gone, d, c1)
           else (case insert_pending_appointment q (other 0 d) of
                   Inl e \<Rightarrow> (if e = IntegrityError then Inr slot_gone else Inl e, other 0 d, c1)
                 | Inr (u, d1) \<Rightarrow> finish_confirmation cal send_time q u other d1 c1)))"

definition active_appointments_for_customer :: "int \<Rightarrow> db \<Rightarrow> appointment list" where
  "active_appointments_for_customer customer_id d =
     order_by (\<lambda>a b. ap_appointment_date a < ap_appointment_date b \<or>
         (ap_appointment_date a = ap_appointment_date b \<and> ap_start_time a < ap_start_time b))
       (filter (\<lambda>a. ap_customer_id a = customer_id \<and> appointment_active (ap_status a)) (db_appointments d))"

definition current_appointment_variables :: "appointment \<Rightarrow> (string \<times> string) list" where
  "current_appointment_variables a = when_variables ''visit_date'' ''visit_time'' (ap_appointment_date a) (ap_start_time a)"

definition request_reschedule :: "int \<Rightarrow> db \<Rightarrow> visit_result" where
  "request_reschedule customer_id d =
     (case active_appointments_for_customer customer_id d of
        [a] \<Rightarrow> (visit_reply ''RESP-RESCHEDULE-001'')\<lparr>vr_appointment_id := Some (ap_id a),
                 vr_variables := current_appointment_variables a\<rparr>
      | [] \<Rightarrow> (visit_reply ''RESP-RESCHEDULE-006'')\<lparr>vr_needs_handoff := True\<rparr>
      | _ \<Rightarrow> (visit_reply ''RESP-RESCHEDULE-002'')\<lparr>vr_needs_handoff := True\<rparr>)"

definition request_cancellation :: "int \<Rightarrow> db \<Rightarrow> visit_result" where
  "request_cancellation customer_id d =
     (case active_appointments_for_customer customer_id d of
        [a] \<Rightarrow> (visit_reply ''RESP-CANCEL-VISIT-001'')\<lparr>vr_appointment_id := Some (ap_id a),
                 vr_variables := current_appointment_variables a\<rparr>
      | _ \<Rightarrow> (visit_reply ''RESP-CANCEL-VISIT-005'')\<lparr>vr_needs_handoff := True\<rparr>)"

definition prepare_reschedule_summary :: "uuid \<Rightarrow> date \<Rightarrow> tod \<Rightarrow> visit_result" where
  "prepare_reschedule_summary k new_date new_time =
     (visit_reply ''RESP-RESCHEDULE-003'')\<lparr>vr_state := Some APPOINTMENT_PENDING_CONFIRMATION,
        vr_appointment_id := Some k, vr_variables := when_variables ''new_visit_date'' ''new_visit_time'' new_date new_time\<rparr>"

definition retry_confirmation_message :: "uuid \<Rightarrow> visit_result" where
  "retry_confirmation_message k =
     (visit_reply ''RESP-VISIT-CONFIRM-003'')\<lparr>vr_state := Some APPOINTMENT_CONFIRMED, vr_appointment_id := Some k\<rparr>"

text \<open>The move itself: the calendar first, then the settlement.\<close>

definition move_appointment ::
  "'c calendar \<Rightarrow> tod \<Rightarrow> appointment \<Rightarrow> uuid \<Rightarrow> date \<Rightarrow> tod \<Rightarrow> string \<Rightarrow> (nat \<Rightarrow> db \<Rightarrow> db) \<Rightarrow> db \<Rightarrow> 'c
     \<Rightarrow> (app_error, visit_result) result \<times> db \<times> 'c" where
  "move_appointment cal send_time a k new_date new_time actor other d c =
     (let d1 = other 0 d;
          description = build_current_visit_description (ap_customer_id a) (ap_lead_id a) (ap_attendee_count a)
            (ap_visit_reason a) d1
      in case update_or_reconcile_event cal (uuid_hex k) visit_summary (slot_datetime new_date new_time)
                (slot_datetime new_date (calculate_visit_end_time new_time)) description c of
           (Inl e, c1) \<Rightarrow>
             (if e = CalendarUnavailableError
              then Inr ((visit_reply ''RESP-CALENDAR-ERROR-003'')\<lparr>vr_needs_handoff := True\<rparr>) else Inl e, d1, c1)
         | (Inr _, c1) \<Rightarrow>
             (case settle_visit_appointment \<lparr>vt_operation = VO_RESCHEDULE, vt_appointment_id = k,
                     vt_visit_date = new_date, vt_visit_time = new_time, vt_external_calendar_id = uuid_hex k,
                     vt_reminder_at = reminder_at send_time new_date, vt_previous_date = Some (ap_appointment_date a),
                     vt_previous_time = Some (ap_start_time a), vt_actor = Some actor\<rparr> (other 1 d1) of
                Inl e \<Rightarrow> (if e = IntegrityError then Inr (visit_reply ''RESP-VISIT-CONFIRM-005'') else Inl e, other 1 d1, c1)
              | Inr d2 \<Rightarrow>
                  (Inr ((visit_reply ''RESP-RESCHEDULE-004'')\<lparr>vr_state := Some APPOINTMENT_CONFIRMED,
                     vr_appointment_id := Some k,
                     vr_variables := when_variables ''new_visit_date'' ''new_visit_time'' new_date new_time\<rparr>), d2, c1)))"

definition reschedule_appointment ::
  "'c calendar \<Rightarrow> string list \<Rightarrow> tod \<Rightarrow> uuid \<Rightarrow> date \<Rightarrow> tod \<Rightarrow> string \<Rightarrow> datetime \<Rightarrow> (nat \<Rightarrow> db \<Rightarrow> db) \<Rightarrow> db \<Rightarrow> 'c
     \<Rightarrow> (app_error, visit_result) result \<times> db \<times> 'c" where
  "reschedule_appointment cal calendar_ids send_time k new_date new_time actor now other d c =
     (case get_row ap_id k (db_appointments d) of
        None \<Rightarrow> (Inr (visit_reply ''RESP-RESCHEDULE-006''), d, c)
      | Some a \<Rightarrow>
          (case is_slot_available cal calendar_ids new_date new_time (local_date now) d c of
             (Inl e, c1) \<Rightarrow>
               (if e = CalendarUnavailableError
                then Inr ((visit_reply ''RESP-CALENDAR-ERROR-001'')\<lparr>vr_needs_handoff := True\<rparr>) else Inl e, d, c1)
           | (Inr available, c1) \<Rightarrow>
               if \<not> available then (Inr (visit_reply ''RESP-VISIT-CONFIRM-005''), d, c1)
               else move_appointment cal send_time a k new_date new_time actor other d c1))"

definition cancelled :: "string \<Rightarrow> instant \<Rightarrow> appointment \<Rightarrow> appointment" where
  "cancelled reason now a =
     (let remaining = bogota_instant (ap_appointment_date a) (ap_start_time a) - now
      in a\<lparr>ap_status := (if remaining < hours 24 then AP_LATE_CANCEL else AP_CANCELLED),
           ap_cancellation_reason := Some reason, ap_cancelled_at := Some now\<rparr>)"

definition cancel_row :: "uuid \<Rightarrow> string \<Rightarrow> instant \<Rightarrow> db \<Rightarrow> (app_error, visit_result) result \<times> db" where
  "cancel_row k reason now d =
     (case get_row ap_id k (db_appointments d) of
        None \<Rightarrow> (Inr (visit_reply ''RESP-CANCEL-VISIT-005''), d)
      | Some a \<Rightarrow>
          if 500 < length (utf8_decode reason) then (Inl (OtherError ''DBAPIError''), d)
          else (Inr ((visit_reply ''RESP-CANCEL-VISIT-002'')\<lparr>vr_appointment_id := Some k\<rparr>),
                put_appointment (cancelled reason now a) d))"

text \<open>\<open>now\<close> is aware, so that \<open>astimezone\<close> does not read the host's zone.\<close>

definition cancel_appointment ::
  "'c calendar \<Rightarrow> uuid \<Rightarrow> bool \<Rightarrow> string \<Rightarrow> instant \<Rightarrow> (nat \<Rightarrow> db \<Rightarrow> db) \<Rightarrow> db \<Rightarrow> 'c
     \<Rightarrow> (app_error, visit_result) result \<times> db \<times> 'c" where
  "cancel_appointment cal k customer_confirmation reason now other d c =
     (if \<not> customer_confirmation then (Inr (visit_reply ''RESP-CANCEL-VISIT-003''), d, c)
      else (case get_row ap_id k (db_appointments d) of
         None \<Rightarrow> (Inr (visit_reply ''RESP-CANCEL-VISIT-005''), d, c)
       | Some a \<Rightarrow>
           let cancel = (\<lambda>c1. case cancel_row k reason now (other 0 d) of (r, d1) \<Rightarrow> (r, d1, c1))
           in (case ap_external_calendar_id a of
                 None \<Rightarrow> cancel c
               | Some external \<Rightarrow>
                   (case cal_delete_event cal external c of
                      (Inr _, c1) \<Rightarrow> cancel c1
                    | (Inl e, c1) \<Rightarrow>
                        if e = EventNotFoundError then cancel c1
                        else if e = CalendarUnavailableError
                        then (Inr ((visit_reply ''RESP-CALENDAR-ERROR-004'')\<lparr>vr_appointment_id := Some k,
                                vr_needs_handoff := True\<rparr>),
                              mark_appointment_for_reconciliation k (other 0 d), c1)
                        else (Inl e, d, c1)))))"

section \<open>Reminders of visits\<close>

definition get_visit_reminder :: "uuid \<Rightarrow> db \<Rightarrow> (app_error, uuid \<times> instant \<times> string) result" where
  "get_visit_reminder k d =
     (case Option.bind (get_row ap_id k (db_appointments d)) ap_reminder_scheduled_at of
        None \<Rightarrow> Inl (ValueError ''Appointment has no reminder'')
      | Some t \<Rightarrow> Inr (k, t, ''RESP-VISIT-REMINDER-001''))"

definition reminder_due :: "instant \<Rightarrow> appointment \<Rightarrow> bool" where
  "reminder_due now a \<longleftrightarrow> (case ap_reminder_scheduled_at a of None \<Rightarrow> False | Some t \<Rightarrow> t \<le> now) \<and>
     ap_reminder_sent_at a = None \<and> appointment_active (ap_status a)"

definition process_due_reminders :: "instant \<Rightarrow> db \<Rightarrow> db" where
  "process_due_reminders now d =
     d\<lparr>db_appointments := map (\<lambda>a. if reminder_due now a then a\<lparr>ap_reminder_sent_at := Some now\<rparr> else a)
        (db_appointments d)\<rparr>"

definition count_sent_reminders :: "uuid \<Rightarrow> db \<Rightarrow> nat" where
  "count_sent_reminders k d =
     length (filter (\<lambda>a. ap_id a = k \<and> ap_reminder_sent_at a \<noteq> None) (db_appointments d))"

section \<open>Attendees\<close>

record visit_attendees =
  va_accepted :: bool
  va_response_code :: "string option"
  va_needs_handoff :: bool

definition validate_visit_attendees :: "int \<Rightarrow> bool \<Rightarrow> visit_attendees" where
  "validate_visit_attendees attendee_count exception_requested =
     (if 1 \<le> attendee_count \<and> attendee_count \<le> 3
      then \<lparr>va_accepted = True, va_response_code = None, va_needs_handoff = False\<rparr>
      else if exception_requested
      then \<lparr>va_accepted = False, va_response_code = Some ''RESP-VISIT-DATA-002'', va_needs_handoff = True\<rparr>
      else \<lparr>va_accepted = False, va_response_code = Some ''RESP-VISIT-DATA-002'', va_needs_handoff = False\<rparr>)"

section \<open>The time a customer asks for\<close>

record visit_time_result =
  vi_accepted :: bool
  vi_preferred_visit_time :: "tod option"
  vi_response_code :: "string option"
  vi_interpretation :: string

text \<open>\<open>interpret_visit_time\<close> after the clock of the text was read.\<close>

definition classify_visit_time :: "tod option \<Rightarrow> tod list \<Rightarrow> visit_time_result" where
  "classify_visit_time candidate offered_slots =
     (case candidate of
        None \<Rightarrow> \<lparr>vi_accepted = False, vi_preferred_visit_time = None,
                  vi_response_code = Some ''RESP-VISIT-TIME-003'', vi_interpretation = ''NO_INTERPRETABLE''\<rparr>
      | Some t \<Rightarrow>
          if t \<notin> set visit_hours
          then \<lparr>vi_accepted = False, vi_preferred_visit_time = Some t,
                 vi_response_code = Some ''RESP-VISIT-TIME-002'', vi_interpretation = ''OUT_OF_HOURS''\<rparr>
          else if t \<notin> set offered_slots
          then \<lparr>vi_accepted = False, vi_preferred_visit_time = Some t,
                 vi_response_code = Some ''RESP-VISIT-TIME-004'', vi_interpretation = ''OUTSIDE_OFFER''\<rparr>
          else \<lparr>vi_accepted = True, vi_preferred_visit_time = Some t, vi_response_code = None,
                 vi_interpretation = ''OFFERED_SLOT''\<rparr>)"

end
