(* ===== verification/Visits_Facts.thy ===== *)
theory Visits_Facts
  imports Visits
begin

text \<open>
  What the scheduling of visits guarantees: only free slots on admissible days are offered, two
  active visits never share a slot whatever the interleaving of the transactions, a confirmed visit
  has its event in the external calendar, and a cancelled one has lost it.
\<close>

section \<open>Availability\<close>

lemma validate_visit_date_D:
  "vd_accepted (validate_visit_date visit_date today holidays blocked) \<Longrightarrow>
     weekday visit_date \<noteq> 0 \<and> weekday visit_date \<noteq> 6 \<and> visit_date \<notin> set holidays \<and> visit_date \<notin> set blocked \<and>
     today + 3 \<le> visit_date"
  by (simp add: validate_visit_date_def Let_def split: if_splits)

text \<open>What a non-empty list of slots implies.\<close>

lemma available_slots_D:
  assumes "available_slots cal ids visit_date today d c = (Inr r, c')" and "s \<in> set (av_slots r)"
  shows "\<exists>busy. cal_get_busy_intervals cal visit_date ids c = (Inr busy, c') \<and>
    vd_accepted (validate_visit_date visit_date today (filter (\<lambda>x. x = visit_date) (db_holidays d))
      (filter (\<lambda>x. x = visit_date) (db_blocked_dates d))) \<and>
    s \<in> set deterministic_visit_slots \<and>
    vs_start_time s \<notin> ap_start_time ` {a \<in> set (db_appointments d). ap_appointment_date a = visit_date \<and> appointment_active (ap_status a)} \<and>
    (\<forall>b \<in> set busy. \<not> busy_intersects_slot b visit_date (vs_start_time s))"
proof -
  let ?decision = "validate_visit_date visit_date today (filter (\<lambda>x. x = visit_date) (db_holidays d))
    (filter (\<lambda>x. x = visit_date) (db_blocked_dates d))"
  obtain res c1 where busy: "cal_get_busy_intervals cal visit_date ids c = (res, c1)" by (cases "cal_get_busy_intervals cal visit_date ids c")
  have acc: "vd_accepted ?decision"
    using assms by (auto simp: available_slots_def local_calendar_state_def Let_def split: if_splits)
  show ?thesis
  proof (cases res)
    case (Inl e)
    with assms busy acc show ?thesis
      by (auto simp: available_slots_def local_calendar_state_def Let_def split: if_splits)
  next
    case (Inr bs)
    with assms busy acc show ?thesis
      by (auto simp: available_slots_def local_calendar_state_def Let_def list_ex_iff split: if_splits)
  qed
qed

lemma deterministic_slot_D:
  "s \<in> set deterministic_visit_slots \<Longrightarrow>
     vs_start_time s \<in> set visit_hours \<and> vs_end_time s = vs_start_time s + minutes 45"
  by (auto simp: deterministic_visit_slots_def visit_hours_def calculate_visit_end_time_def at_hour_def
      minutes_def us_defs)

lemma is_slot_available_D:
  assumes "is_slot_available cal ids visit_date visit_time today d c = (Inr True, c')"
  shows "visit_time \<in> set visit_hours \<and> today + 3 \<le> visit_date"
proof -
  obtain r where r: "available_slots cal ids visit_date today d c = (Inr r, c')" "visit_time \<in> vs_start_time ` set (av_slots r)"
    using assms by (auto simp: is_slot_available_def split: prod.splits sum.splits if_splits)
  then obtain s where "s \<in> set (av_slots r)" "visit_time = vs_start_time s" by blast
  with available_slots_D [OF r(1)] show ?thesis
    by (metis deterministic_slot_D validate_visit_date_D)
qed

section \<open>The table of visits\<close>

definition visits_ok :: "db \<Rightarrow> bool" where
  "visits_ok d \<longleftrightarrow> keys_ok ap_id (db_appointments d) \<and> (\<forall>a \<in> set (db_appointments d). appointment_ck a) \<and>
     (\<forall>a \<in> set (db_appointments d). \<forall>b \<in> set (db_appointments d).
        appointment_active (ap_status a) \<longrightarrow> appointment_active (ap_status b) \<longrightarrow>
        ap_appointment_date a = ap_appointment_date b \<longrightarrow> ap_start_time a = ap_start_time b \<longrightarrow> ap_id a = ap_id b)"

lemma visits_okD:
  assumes "visits_ok d"
  shows "keys_ok ap_id (db_appointments d)"
    and "a \<in> set (db_appointments d) \<Longrightarrow> appointment_ck a"
    and "\<lbrakk>a \<in> set (db_appointments d); b \<in> set (db_appointments d); appointment_active (ap_status a);
          appointment_active (ap_status b); ap_appointment_date a = ap_appointment_date b;
          ap_start_time a = ap_start_time b\<rbrakk> \<Longrightarrow> ap_id a = ap_id b"
  using assms unfolding visits_ok_def by blast+

lemma visits_ok_put:
  assumes ok: "visits_ok d" and ck: "appointment_ck a" and free: "\<not> slot_taken a d"
  shows "visits_ok (put_appointment a d)"
  unfolding visits_ok_def
proof (intro conjI ballI impI)
  let ?rows = "put_row ap_id a (db_appointments d)"
  have rows: "db_appointments (put_appointment a d) = ?rows" by (simp add: put_appointment_def)
  show "keys_ok ap_id (db_appointments (put_appointment a d))" using visits_okD(1) [OF ok] by (simp add: rows)
  fix x assume x: "x \<in> set (db_appointments (put_appointment a d))"
  then have x': "x = a \<or> (x \<in> set (db_appointments d) \<and> ap_id x \<noteq> ap_id a)" unfolding rows by (rule put_row_mem)
  then show "appointment_ck x" using visits_okD(2) [OF ok] ck by blast
  fix y assume y: "y \<in> set (db_appointments (put_appointment a d))"
    and act: "appointment_active (ap_status x)" "appointment_active (ap_status y)"
    and same: "ap_appointment_date x = ap_appointment_date y" "ap_start_time x = ap_start_time y"
  then have y': "y = a \<or> (y \<in> set (db_appointments d) \<and> ap_id y \<noteq> ap_id a)" unfolding rows by (blast dest: put_row_mem)
  show "ap_id x = ap_id y"
    using x' y' act same free visits_okD(3) [OF ok, of x y] by (auto simp: slot_taken_def list_ex_iff)
qed

lemma visits_ok_cong: "db_appointments d = db_appointments e \<Longrightarrow> visits_ok d = visits_ok e"
  by (simp only: visits_ok_def)

lemma visits_ok_frame [simp]:
  "visits_ok (d\<lparr>db_appointment_changes := cs\<rparr>) = visits_ok d"
  "visits_ok (d\<lparr>db_draws := n\<rparr>) = visits_ok d"
  by (simp_all add: visits_ok_cong [of "d\<lparr>db_appointment_changes := cs\<rparr>" d]
      visits_ok_cong [of "d\<lparr>db_draws := n\<rparr>" d])

lemma commit_appointment_ok:
  "commit_appointment a d = Inr d' \<Longrightarrow> visits_ok d \<Longrightarrow> visits_ok d' \<and> d' = put_appointment a d"
  by (auto simp: commit_appointment_def visits_ok_put split: if_splits)

lemma settle_visit_ok: "settle_visit_appointment change d = Inr d' \<Longrightarrow> visits_ok d \<Longrightarrow> visits_ok d'"
  by (auto simp: settle_visit_appointment_def dest: commit_appointment_ok
      split: option.splits visit_operation.splits if_splits)

lemma insert_pending_ok:
  assumes "insert_pending_appointment q d = Inr (u, d')" and ok: "visits_ok d"
  shows "visits_ok d' \<and> get_row ap_id u (db_appointments d') = Some (new_appointment q u)"
proof -
  let ?a = "new_appointment q u"
  have ck: "appointment_ck ?a" and free: "\<not> slot_taken ?a d" and fresh: "u \<notin> ap_id ` set (db_appointments d)"
    and rows: "db_appointments d' = db_appointments d @ [?a]"
    using assms(1) by (auto simp: insert_pending_appointment_def uuid4_def Let_def slot_taken_def split: if_splits)
  have key: "ap_id ?a = u" by (simp add: new_appointment_def)
  have "visits_ok d'"
    unfolding visits_ok_def
  proof (intro conjI ballI impI)
    show "keys_ok ap_id (db_appointments d')"
      using visits_okD(1) [OF ok] fresh key by (simp add: rows keys_ok_append1)
    fix x assume x: "x \<in> set (db_appointments d')"
    then show "appointment_ck x" using visits_okD(2) [OF ok] ck by (auto simp: rows)
    fix y assume y: "y \<in> set (db_appointments d')" and act: "appointment_active (ap_status x)" "appointment_active (ap_status y)"
      and same: "ap_appointment_date x = ap_appointment_date y" "ap_start_time x = ap_start_time y"
    show "ap_id x = ap_id y"
      using x y act same free fresh key visits_okD(3) [OF ok, of x y]
      by (auto simp: rows slot_taken_def list_ex_iff)
  qed
  moreover have "get_row ap_id u (db_appointments d) = None" using fresh by (simp add: get_row_None_iff)
  ultimately show ?thesis using key by (simp add: rows get_row_append1)
qed

text \<open>A rewrite that keeps the key, the constraint and the slot keeps the table well formed.\<close>

lemma visits_ok_same_slot:
  assumes ok: "visits_ok d" and row: "get_row ap_id k (db_appointments d) = Some a"
    and same: "ap_id b = ap_id a" "ap_appointment_date b = ap_appointment_date a" "ap_start_time b = ap_start_time a"
    and act: "appointment_active (ap_status b) \<Longrightarrow> appointment_active (ap_status a)" and ck: "appointment_ck b"
  shows "visits_ok (put_appointment b d)"
proof (rule visits_ok_put [OF ok ck])
  have a: "a \<in> set (db_appointments d)" using get_row_SomeD [OF row] by simp
  show "\<not> slot_taken b d"
    using visits_okD(3) [OF ok _ a] act same by (auto simp: slot_taken_def list_ex_iff)
qed

lemma mark_ok: "visits_ok d \<Longrightarrow> visits_ok (mark_appointment_for_reconciliation k d)"
proof (cases "get_row ap_id k (db_appointments d)")
  case (Some a)
  assume ok: "visits_ok d"
  have "appointment_ck a" using visits_okD(2) [OF ok] get_row_SomeD [OF Some] by simp
  then show ?thesis
    by (simp add: mark_appointment_for_reconciliation_def Some)
       (rule visits_ok_same_slot [OF ok Some], simp_all add: appointment_ck_def)
qed (simp add: mark_appointment_for_reconciliation_def)

lemma cancelled_simps [simp]:
  "ap_id (cancelled reason now a) = ap_id a" "ap_appointment_date (cancelled reason now a) = ap_appointment_date a"
  "ap_start_time (cancelled reason now a) = ap_start_time a"
  "\<not> appointment_active (ap_status (cancelled reason now a))"
  by (simp_all add: cancelled_def Let_def appointment_active_def)

lemma cancelled_ck: "appointment_ck a \<Longrightarrow> appointment_ck (cancelled reason now a)"
  by (simp add: appointment_ck_def cancelled_def Let_def)

lemma cancel_row_ok: "visits_ok d \<Longrightarrow> visits_ok (snd (cancel_row k reason now d))"
proof (cases "get_row ap_id k (db_appointments d)")
  case (Some a)
  assume ok: "visits_ok d"
  have "appointment_ck a" using visits_okD(2) [OF ok] get_row_SomeD [OF Some] by simp
  then have "visits_ok (put_appointment (cancelled reason now a) d)"
    by (intro visits_ok_same_slot [OF ok Some]) (simp_all add: cancelled_ck)
  with ok show ?thesis by (simp add: cancel_row_def Some)
qed (simp add: cancel_row_def)

lemma visits_ok_map:
  assumes "visits_ok d" and "\<And>a. ap_id (f a) = ap_id a" and "\<And>a. ap_appointment_date (f a) = ap_appointment_date a"
    and "\<And>a. ap_start_time (f a) = ap_start_time a" and "\<And>a. ap_status (f a) = ap_status a"
    and "\<And>a. appointment_ck (f a) = appointment_ck a"
  shows "visits_ok (d\<lparr>db_appointments := map f (db_appointments d)\<rparr>)"
  unfolding visits_ok_def
proof (intro conjI ballI impI)
  show "keys_ok ap_id (db_appointments (d\<lparr>db_appointments := map f (db_appointments d)\<rparr>))"
    using visits_okD(1) [OF assms(1)] assms(2) by (simp add: keys_ok_def comp_def)
  fix x assume "x \<in> set (db_appointments (d\<lparr>db_appointments := map f (db_appointments d)\<rparr>))"
  then obtain a where a: "a \<in> set (db_appointments d)" "x = f a" by auto
  then show "appointment_ck x" using visits_okD(2) [OF assms(1)] assms(6) by simp
  fix y assume "y \<in> set (db_appointments (d\<lparr>db_appointments := map f (db_appointments d)\<rparr>))"
    and act: "appointment_active (ap_status x)" "appointment_active (ap_status y)"
    and same: "ap_appointment_date x = ap_appointment_date y" "ap_start_time x = ap_start_time y"
  then obtain b where b: "b \<in> set (db_appointments d)" "y = f b" by auto
  show "ap_id x = ap_id y" using visits_okD(3) [OF assms(1) a(1) b(1)] act same a b assms(2-5) by simp
qed

lemma process_due_reminders_ok: "visits_ok d \<Longrightarrow> visits_ok (process_due_reminders now d)"
  unfolding process_due_reminders_def by (rule visits_ok_map) (auto simp: appointment_ck_def)

lemma finish_confirmation_ok:
  assumes ok: "visits_ok d" and other: "\<And>n e. visits_ok e \<Longrightarrow> visits_ok (other n e)"
  shows "visits_ok (fst (snd (finish_confirmation cal send_time q u other d c)))"
  using other [OF ok, of 1] other [OF other [OF ok], of 2 1]
  by (auto simp: finish_confirmation_def Let_def mark_ok split: prod.splits sum.splits dest: settle_visit_ok)

lemma confirm_appointment_ok:
  assumes ok: "visits_ok d" and other: "\<And>n e. visits_ok e \<Longrightarrow> visits_ok (other n e)"
  shows "visits_ok (fst (snd (confirm_appointment cal ids send_time q now other d c)))"
proof (cases "vq_customer_confirmation q")
  case True
  obtain r c1 where slot: "is_slot_available cal ids (vq_visit_date q) (vq_visit_time q) (local_date now) d c = (r, c1)"
    by fastforce
  show ?thesis
  proof (cases r)
    case (Inr available)
    show ?thesis
    proof (cases available)
      case True
      show ?thesis
      proof (cases "insert_pending_appointment q (other 0 d)")
        case (Inr p)
        obtain u d1 where p: "p = (u, d1)" by (cases p)
        have "visits_ok (fst (snd (finish_confirmation cal send_time q u other d1 c1)))"
          using insert_pending_ok [OF Inr [unfolded p] other [OF ok]] by (intro finish_confirmation_ok other) simp_all
        with True \<open>vq_customer_confirmation q\<close> slot Inr p \<open>r = Inr available\<close> show ?thesis by (simp add: confirm_appointment_def)
      qed (use True \<open>vq_customer_confirmation q\<close> slot Inr other [OF ok, of 0] in \<open>simp add: confirm_appointment_def\<close>)
    qed (use \<open>vq_customer_confirmation q\<close> slot Inr ok in \<open>simp add: confirm_appointment_def\<close>)
  qed (use True slot ok in \<open>simp add: confirm_appointment_def\<close>)
qed (use ok in \<open>simp add: confirm_appointment_def\<close>)

lemma move_appointment_ok:
  assumes ok: "visits_ok d" and other: "\<And>n e. visits_ok e \<Longrightarrow> visits_ok (other n e)"
  shows "visits_ok (fst (snd (move_appointment cal send_time a k new_date new_time actor other d c)))"
  using other [OF ok, of 0] other [OF other [OF ok], of 1 0]
  by (auto simp: move_appointment_def Let_def split: prod.splits sum.splits dest: settle_visit_ok)

lemma reschedule_appointment_ok:
  assumes ok: "visits_ok d" and other: "\<And>n e. visits_ok e \<Longrightarrow> visits_ok (other n e)"
  shows "visits_ok (fst (snd (reschedule_appointment cal ids send_time k new_date new_time actor now other d c)))"
proof -
  have "visits_ok (fst (snd (move_appointment cal send_time a k new_date new_time actor other d c1)))" for a c1
    by (rule move_appointment_ok [OF ok]) (rule other)
  with ok show ?thesis
    by (simp add: reschedule_appointment_def split: option.split prod.split sum.split)
qed

lemma cancel_appointment_ok:
  assumes ok: "visits_ok d" and other: "\<And>n e. visits_ok e \<Longrightarrow> visits_ok (other n e)"
  shows "visits_ok (fst (snd (cancel_appointment cal k confirmation reason now other d c)))"
  using ok mark_ok [OF other [OF ok, of 0], of k] cancel_row_ok [OF other [OF ok, of 0], of k reason now]
  by (simp add: cancel_appointment_def case_prod_beta split: option.split sum.split)

section \<open>The external calendar\<close>

context calendar_adapter
begin

lemma create_or_reconcile_D:
  assumes "create_or_reconcile_event cal k s a b t c = (Inr u, c')"
  shows "events c' k \<noteq> None"
proof -
  obtain r c1 where c1: "cal_create_event cal k s a b t c = (r, c1)" by fastforce
  obtain r2 c2 where c2: "cal_create_event cal k s a b t c1 = (r2, c2)" by fastforce
  show ?thesis
  proof (cases r)
    case (Inr x)
    with assms c1 create_ok [of k s a b t c x c1] show ?thesis by (simp add: create_or_reconcile_event_def)
  next
    case (Inl e)
    show ?thesis
    proof (cases "e = AlreadyExistsError")
      case True
      with Inl assms c1 create_exists [of k s a b t c c1] show ?thesis by (simp add: create_or_reconcile_event_def)
    next
      case False
      with Inl assms c1 c2 have "r2 = Inl AlreadyExistsError \<and> c' = c2"
        by (auto simp: create_or_reconcile_event_def split: if_splits sum.splits)
      with c2 create_exists [of k s a b t c1 c2] show ?thesis by simp
    qed
  qed
qed

lemma update_or_reconcile_D:
  assumes "update_or_reconcile_event cal k s a b t c = (Inr u, c')"
  shows "events c' k = Some (event_ref_of k s a b t)"
proof -
  obtain r c1 where c1: "cal_update_event cal k s a b t c = (r, c1)" by fastforce
  obtain r2 c2 where c2: "cal_create_event cal k s a b t c1 = (r2, c2)" by fastforce
  obtain r3 c3 where c3: "cal_update_event cal k s a b t c1 = (r3, c3)" by fastforce
  show ?thesis
  proof (cases r)
    case (Inr x)
    with assms c1 update_ok [of k s a b t c x c1] show ?thesis by (simp add: update_or_reconcile_event_def)
  next
    case (Inl e)
    show ?thesis
    proof (cases "e = EventNotFoundError")
      case True
      with Inl assms c1 c2 obtain x where "r2 = Inr x" "c' = c2"
        by (auto simp: update_or_reconcile_event_def split: sum.splits)
      with c2 create_ok [of k s a b t c1 x c2] show ?thesis by simp
    next
      case False
      with Inl assms c1 c3 obtain x where "r3 = Inr x" "c' = c3"
        by (auto simp: update_or_reconcile_event_def split: if_splits sum.splits)
      with c3 update_ok [of k s a b t c1 x c3] show ?thesis by simp
    qed
  qed
qed

end

lemma settle_confirm_D:
  assumes "settle_visit_appointment change d = Inr d'" and "vt_operation change = VO_CONFIRM"
  shows "\<exists>a. get_row ap_id (vt_appointment_id change) (db_appointments d) = Some a \<and>
    get_row ap_id (vt_appointment_id change) (db_appointments d') = Some (confirmed change a)"
proof -
  obtain a where a: "get_row ap_id (vt_appointment_id change) (db_appointments d) = Some a"
    and d': "d' = put_appointment (confirmed change a) d"
    using assms by (auto simp: settle_visit_appointment_def commit_appointment_def split: option.splits if_splits)
  have "ap_id (confirmed change a) = vt_appointment_id change"
    using get_row_SomeD [OF a] by (simp add: confirmed_def)
  with a d' show ?thesis by (simp add: put_appointment_def get_put_row)
qed

lemma settle_reschedule_D:
  assumes "settle_visit_appointment change d = Inr d'" and "vt_operation change = VO_RESCHEDULE"
  shows "\<exists>a actor. get_row ap_id (vt_appointment_id change) (db_appointments d) = Some a \<and>
    Some (ap_appointment_date a) = vt_previous_date change \<and> Some (ap_start_time a) = vt_previous_time change \<and>
    vt_actor change = Some actor \<and>
    get_row ap_id (vt_appointment_id change) (db_appointments d') = Some (rescheduled change a) \<and>
    db_appointment_changes d' = db_appointment_changes d @
      [\<lparr>ac_appointment_id = vt_appointment_id change, ac_previous_date = ap_appointment_date a,
        ac_previous_start_time = ap_start_time a, ac_new_date = vt_visit_date change,
        ac_new_start_time = vt_visit_time change, ac_changed_by_type = actor, ac_changed_by_id = actor\<rparr>]"
proof -
  obtain a actor where a: "get_row ap_id (vt_appointment_id change) (db_appointments d) = Some a"
    and prev: "Some (ap_appointment_date a) = vt_previous_date change" "Some (ap_start_time a) = vt_previous_time change"
    and actor: "vt_actor change = Some actor"
    and d': "d' = put_appointment (rescheduled change a) (d\<lparr>db_appointment_changes := db_appointment_changes d @
      [\<lparr>ac_appointment_id = vt_appointment_id change, ac_previous_date = ap_appointment_date a,
        ac_previous_start_time = ap_start_time a, ac_new_date = vt_visit_date change,
        ac_new_start_time = vt_visit_time change, ac_changed_by_type = actor, ac_changed_by_id = actor\<rparr>]\<rparr>)"
    using assms by (auto simp: settle_visit_appointment_def commit_appointment_def split: option.splits if_splits)
  have "ap_id (rescheduled change a) = vt_appointment_id change"
    using get_row_SomeD [OF a] by (simp add: rescheduled_def)
  with a prev actor d' show ?thesis by (simp add: put_appointment_def get_put_row)
qed

text \<open>The only branch of \<open>confirm_appointment\<close> that reports a confirmation.\<close>

lemma confirm_appointment_D:
  assumes "confirm_appointment cal ids send_time q now other d c = (Inr r, d', c')"
    and "vr_response_code r = ''RESP-VISIT-CONFIRM-003''"
  shows "\<exists>u d1 c1. is_slot_available cal ids (vq_visit_date q) (vq_visit_time q) (local_date now) d c = (Inr True, c1) \<and>
    insert_pending_appointment q (other 0 d) = Inr (u, d1) \<and>
    finish_confirmation cal send_time q u other d1 c1 = (Inr r, d', c')"
proof -
  obtain res c1 where slot: "is_slot_available cal ids (vq_visit_date q) (vq_visit_time q) (local_date now) d c = (res, c1)"
    by fastforce
  have "res = Inr True"
    using assms slot by (auto simp: confirm_appointment_def visit_reply_def slot_gone_def split: if_splits sum.splits)
  moreover obtain p where "insert_pending_appointment q (other 0 d) = Inr p"
    using assms slot \<open>res = Inr True\<close>
    by (cases "insert_pending_appointment q (other 0 d)")
       (auto simp: confirm_appointment_def visit_reply_def slot_gone_def split: if_splits)
  ultimately show ?thesis
    using assms slot by (cases p) (auto simp: confirm_appointment_def visit_reply_def split: if_splits)
qed

lemma finish_confirmation_D:
  assumes "finish_confirmation cal send_time q u other d c = (Inr r, d', c')"
    and "vr_response_code r = ''RESP-VISIT-CONFIRM-003''"
  shows "\<exists>description change. create_or_reconcile_event cal (uuid_hex u) visit_summary
      (slot_datetime (vq_visit_date q) (vq_visit_time q))
      (slot_datetime (vq_visit_date q) (calculate_visit_end_time (vq_visit_time q))) description c = (Inr (), c') \<and>
    settle_visit_appointment change (other 2 (other 1 d)) = Inr d' \<and> vt_operation change = VO_CONFIRM \<and>
    vt_appointment_id change = u \<and> vt_external_calendar_id change = uuid_hex u \<and>
    vt_reminder_at change = reminder_at send_time (vq_visit_date q) \<and> vr_appointment_id r = Some u"
  using assms
  by (auto simp: finish_confirmation_def Let_def visit_reply_def split: prod.splits sum.splits if_splits)

section \<open>Properties\<close>

definition sample_visit :: visit_request where
  "sample_visit = \<lparr>vq_customer_id = 1, vq_lead_id = Some 41, vq_visit_date = 739833, vq_visit_time = at_hour 9,
     vq_attendee_count = 2, vq_visit_reason = ''Boda'', vq_customer_confirmation = True\<rparr>"

definition visit_db :: db where
  "visit_db = sample_db"

definition quiet_calendar :: fake_calendar where
  "quiet_calendar = fake_init [] [] False False"

definition bogota_clock :: datetime where
  "bogota_clock = Aware sample_now bogota_offset"

lemma visit_db_rows [simp]:
  "db_appointments visit_db = []" "db_holidays visit_db = []" "db_blocked_dates visit_db = []"
  "db_customers visit_db = [sample_customer]" "db_draws visit_db = 0" "db_entropy visit_db = sample_entropy"
  "db_appointment_changes visit_db = []"
  by (simp_all add: visit_db_def sample_db_def empty_db_def)

lemma visit_db_ok: "visits_ok visit_db"
  by (simp add: visits_ok_def keys_ok_def)

lemmas sample_visit_eval = sample_visit_def bogota_clock_def local_date_def weekday_def sample_now_def
  bogota_instant_def at_hour_def us_defs

lemma sample_slots:
  "available_slots fake_calendar_adapter [''principal''] 739833 739829 visit_db quiet_calendar =
     (Inr \<lparr>av_visit_date = 739833, av_slots = deterministic_visit_slots,
        av_response_code = ''RESP-VISIT-TIME-001'', av_requires_review = False\<rparr>,
      quiet_calendar\<lparr>fc_query_call_count := 1, fc_queried_calendar_ids := [[''principal'']]\<rparr>)"
  by (simp add: available_slots_def local_calendar_state_def validate_visit_date_def weekday_def
      fake_calendar_adapter_def fake_get_busy_intervals_def quiet_calendar_def fake_init_def
      deterministic_visit_slots_def visit_hours_def)

lemma sample_available:
  "is_slot_available fake_calendar_adapter [''principal''] 739833 (at_hour 9) 739829 visit_db quiet_calendar =
     (Inr True, quiet_calendar\<lparr>fc_query_call_count := 1, fc_queried_calendar_ids := [[''principal'']]\<rparr>)"
  by (simp add: is_slot_available_def sample_slots deterministic_visit_slots_def visit_hours_def)

text \<open>A slot that is offered is one of the four visiting hours, forty-five minutes long, on a day at least three
  days ahead that is neither Sunday nor Monday, a holiday or a blocked date; no active visit holds it and no
  busy interval of the external calendars overlaps it.\<close>

theorem offered_slots_are_free:
  assumes "available_slots cal ids visit_date today d c = (Inr r, c')" and "s \<in> set (av_slots r)"
  shows "vs_start_time s \<in> {at_hour 8, at_hour 9, at_hour 10, at_hour 11} \<and> vs_end_time s = vs_start_time s + minutes 45 \<and>
    today + 3 \<le> visit_date \<and> weekday visit_date \<notin> {0, 6} \<and>
    visit_date \<notin> set (db_holidays d) \<and> visit_date \<notin> set (db_blocked_dates d) \<and>
    (\<forall>a \<in> set (db_appointments d). \<not> (appointment_active (ap_status a) \<and>
       ap_appointment_date a = visit_date \<and> ap_start_time a = vs_start_time s)) \<and>
    (\<exists>busy. cal_get_busy_intervals cal visit_date ids c = (Inr busy, c') \<and>
       (\<forall>b \<in> set busy. bi_end b \<le> bogota_instant visit_date (vs_start_time s) \<or>
          bogota_instant visit_date (vs_start_time s) + minutes 45 \<le> bi_start b))"
proof -
  from available_slots_D [OF assms] obtain busy
    where busy: "cal_get_busy_intervals cal visit_date ids c = (Inr busy, c')"
      and acc: "vd_accepted (validate_visit_date visit_date today (filter (\<lambda>x. x = visit_date) (db_holidays d))
        (filter (\<lambda>x. x = visit_date) (db_blocked_dates d)))"
      and slot: "s \<in> set deterministic_visit_slots"
      and free: "vs_start_time s \<notin> ap_start_time ` {a \<in> set (db_appointments d). ap_appointment_date a = visit_date \<and> appointment_active (ap_status a)}"
      and idle: "\<forall>b \<in> set busy. \<not> busy_intersects_slot b visit_date (vs_start_time s)"
    by blast
  have hour: "vs_start_time s \<in> {at_hour 8, at_hour 9, at_hour 10, at_hour 11}" "vs_end_time s = vs_start_time s + minutes 45"
    using deterministic_slot_D [OF slot] by (simp_all add: visit_hours_def)
  have day: "today + 3 \<le> visit_date" "weekday visit_date \<notin> {0, 6}" "visit_date \<notin> set (db_holidays d)" "visit_date \<notin> set (db_blocked_dates d)"
    using validate_visit_date_D [OF acc] by simp_all
  have "\<forall>b \<in> set busy. bi_end b \<le> bogota_instant visit_date (vs_start_time s) \<or>
      bogota_instant visit_date (vs_start_time s) + minutes 45 \<le> bi_start b"
    using idle by (auto simp: busy_intersects_slot_def intersects_def slot_datetime_def Let_def not_less)
  moreover have "\<forall>a \<in> set (db_appointments d). \<not> (appointment_active (ap_status a) \<and>
       ap_appointment_date a = visit_date \<and> ap_start_time a = vs_start_time s)" using free by force
  ultimately show ?thesis using hour day busy by blast
qed

lemma offered_slots_are_free_witness:
  "\<exists>r s c'. available_slots fake_calendar_adapter [''principal''] 739833 739829 visit_db quiet_calendar = (Inr r, c') \<and>
     s \<in> set (av_slots r) \<and> weekday 739833 \<notin> {0, 6} \<and> vs_end_time s = vs_start_time s + minutes 45"
proof -
  have s: "\<lparr>vs_start_time = at_hour 8, vs_end_time = calculate_visit_end_time (at_hour 8)\<rparr> \<in> set deterministic_visit_slots"
    by (simp add: deterministic_visit_slots_def visit_hours_def)
  with offered_slots_are_free [OF sample_slots] sample_slots show ?thesis by fastforce
qed




lemma local_date_sample [simp]: "local_date bogota_clock = 739829"
  by (simp add: local_date_def bogota_clock_def sample_now_def bogota_instant_def at_hour_def us_defs)

lemma sample_insert:
  "insert_pending_appointment sample_visit visit_db =
     Inr (1000, visit_db\<lparr>db_draws := 1, db_appointments := [new_appointment sample_visit 1000]\<rparr>)"
proof -
  have ascii: "ascii ''Boda''" by simp
  then show ?thesis
    by (simp add: insert_pending_appointment_def sample_visit_def utf8_decode_ascii uuid4_def sample_entropy_def
      new_appointment_def appointment_ck_def visit_hours_def slot_taken_def get_row_Cons sample_customer_def Let_def)
qed

lemma sample_create:
  "create_or_reconcile_event fake_calendar_adapter k s a b t
     (quiet_calendar\<lparr>fc_query_call_count := 1, fc_queried_calendar_ids := ids\<rparr>) = (Inr (), quiet_calendar\<lparr>fc_query_call_count := 1,
       fc_queried_calendar_ids := ids, fc_create_call_count := 1, fc_events := [(k, event_ref_of k s a b t)],
       fc_created_event_ids := [k]\<rparr>)"
  by (simp add: create_or_reconcile_event_def fake_calendar_adapter_def fake_create_event_def quiet_calendar_def
      fake_init_def Let_def)

lemma sample_settle:
  "settle_visit_appointment \<lparr>vt_operation = VO_CONFIRM, vt_appointment_id = 1000, vt_visit_date = dt, vt_visit_time = tm,
      vt_external_calendar_id = x, vt_reminder_at = t, vt_previous_date = None, vt_previous_time = None, vt_actor = None\<rparr>
     (visit_db\<lparr>db_draws := 1, db_appointments := [new_appointment sample_visit 1000]\<rparr>) =
   Inr (visit_db\<lparr>db_draws := 1, db_appointments := [(new_appointment sample_visit 1000)
      \<lparr>ap_external_calendar_id := Some x, ap_status := AP_CONFIRMED, ap_reminder_scheduled_at := Some t\<rparr>]\<rparr>)"
  by (simp add: settle_visit_appointment_def get_row_Cons new_appointment_def sample_visit_def commit_appointment_def
      confirmed_def appointment_ck_def visit_hours_def slot_taken_def external_taken_def put_appointment_def put_row_Cons)

lemma sample_confirmation:
  "\<exists>r d' c'. confirm_appointment fake_calendar_adapter [''principal''] (at_hour 9) sample_visit bogota_clock (\<lambda>n e. e)
     visit_db quiet_calendar = (Inr r, d', c') \<and> vr_response_code r = ''RESP-VISIT-CONFIRM-003'' \<and> vr_appointment_id r = Some 1000"
proof -
  have q: "vq_customer_confirmation sample_visit" "vq_visit_date sample_visit = 739833" "vq_visit_time sample_visit = at_hour 9"
    by (simp_all add: sample_visit_def)
  show ?thesis
    by (simp add: confirm_appointment_def q sample_available sample_insert finish_confirmation_def sample_create
        sample_settle visit_reply_def Let_def del: One_nat_def)
qed


text \<open>A second attempt to create the event of a visit that succeeds is reported as a failure: the calendar holds the
  event, but the customer is sent to a person and the visit stays pending, flagged for reconciliation.\<close>

theorem created_visit_reported_down:
  assumes "calendar_adapter cal events"
    and "\<And>s a b t. \<exists>c1. cal_create_event cal (uuid_hex u) s a b t c = (Inl CalendarUnavailableError, c1) \<and>
      (\<exists>x c2. cal_create_event cal (uuid_hex u) s a b t c1 = (Inr x, c2))"
    and "get_row ap_id u (db_appointments (other 2 (other 1 d))) = Some a"
  shows "\<exists>r d' c' x. finish_confirmation cal send_time q u other d c = (Inr r, d', c') \<and>
    vr_response_code r = ''RESP-CALENDAR-ERROR-002'' \<and> vr_state r = Some WAITING_FOR_HUMAN \<and>
    events c' (uuid_hex u) = Some x \<and> xr_start x = bogota_instant (vq_visit_date q) (vq_visit_time q) \<and>
    get_row ap_id u (db_appointments d') = Some (a\<lparr>ap_requires_reconciliation := True\<rparr>)"
proof -
  let ?desc = "build_current_visit_description (vq_customer_id q) (vq_lead_id q) (vq_attendee_count q)
            (vq_visit_reason q) (other 1 d)"
  let ?start = "slot_datetime (vq_visit_date q) (vq_visit_time q)"
  let ?finish = "slot_datetime (vq_visit_date q) (calculate_visit_end_time (vq_visit_time q))"
  from assms(2) obtain c1 x c2
    where c1: "cal_create_event cal (uuid_hex u) visit_summary ?start ?finish ?desc c = (Inl CalendarUnavailableError, c1)"
      and c2: "cal_create_event cal (uuid_hex u) visit_summary ?start ?finish ?desc c1 = (Inr x, c2)" by blast
  have ev: "create_or_reconcile_event cal (uuid_hex u) visit_summary ?start ?finish ?desc c = (Inl CalendarUnavailableError, c2)"
    by (simp add: create_or_reconcile_event_def c1 c2 del: One_nat_def)
  have "events c2 (uuid_hex u) = Some (event_ref_of (uuid_hex u) visit_summary ?start ?finish ?desc)"
    using calendar_adapter.create_ok [OF assms(1) c2] by simp
  moreover have "get_row ap_id u (db_appointments (mark_appointment_for_reconciliation u (other 2 (other 1 d)))) =
      Some (a\<lparr>ap_requires_reconciliation := True\<rparr>)"
    using assms(3) get_row_SomeD [OF assms(3)]
    by (simp add: mark_appointment_for_reconciliation_def put_appointment_def get_put_row)
  ultimately show ?thesis
    by (simp add: finish_confirmation_def Let_def ev visit_reply_def del: One_nat_def)
       (simp add: event_ref_of_def slot_datetime_def)
qed

text \<open>A calendar whose service recovers after one failed creation.\<close>

definition flaky_create ::
  "string \<Rightarrow> string \<Rightarrow> instant \<Rightarrow> instant \<Rightarrow> string option \<Rightarrow> fake_calendar \<Rightarrow> (app_error, event_ref) result \<times> fake_calendar" where
  "flaky_create k s a b t c =
     (if fc_fail_update_once c then (Inl CalendarUnavailableError, c\<lparr>fc_fail_update_once := False\<rparr>)
      else fake_create_event k s a b t c)"

definition flaky_calendar :: "fake_calendar calendar" where
  "flaky_calendar = fake_calendar_adapter\<lparr>cal_create_event := flaky_create\<rparr>"

lemma flaky_calendar_adapter: "calendar_adapter flaky_calendar fake_events"
  by unfold_locales
     (auto simp: flaky_calendar_def flaky_create_def fake_calendar_adapter_def fake_events_def fake_create_event_def
        fake_update_event_def fake_delete_event_def fake_get_event_def Let_def update_conv' delete_conv'
        split: if_splits option.splits)

lemma created_visit_reported_down_witness:
  "\<exists>r d' c'. finish_confirmation flaky_calendar (at_hour 9) sample_visit 1000 (\<lambda>n e. e)
       (visit_db\<lparr>db_draws := 1, db_appointments := [new_appointment sample_visit 1000]\<rparr>) (fake_init [] [] False True) = (Inr r, d', c') \<and>
     vr_response_code r = ''RESP-CALENDAR-ERROR-002'' \<and> fake_events c' (uuid_hex 1000) \<noteq> None"
proof -
  have "\<exists>c1. cal_create_event flaky_calendar (uuid_hex 1000) s a b t (fake_init [] [] False True) =
        (Inl CalendarUnavailableError, c1) \<and>
      (\<exists>x c2. cal_create_event flaky_calendar (uuid_hex 1000) s a b t c1 = (Inr x, c2))" for s a b t
    by (simp add: flaky_calendar_def fake_calendar_adapter_def flaky_create_def fake_init_def fake_create_event_def Let_def)
  moreover have "get_row ap_id 1000 (db_appointments (visit_db\<lparr>db_draws := 1,
      db_appointments := [new_appointment sample_visit 1000]\<rparr>)) = Some (new_appointment sample_visit 1000)"
    by (simp add: get_row_Cons new_appointment_def)
  ultimately show ?thesis
    using created_visit_reported_down [OF flaky_calendar_adapter, of 1000 "fake_init [] [] False True"
      "\<lambda>n e. e" "visit_db\<lparr>db_draws := 1, db_appointments := [new_appointment sample_visit 1000]\<rparr>"] by fastforce
qed

text \<open>C23. A cancelled visit has lost its calendar event and is late exactly when less than a day was left; when the
  calendar cannot be reached the visit keeps its state and is flagged for reconciliation.\<close>

theorem cancelled_visit_leaves_calendar:
  assumes "calendar_adapter cal events"
    and "cancel_appointment cal k True reason now other d c = (Inr r, d', c')"
    and "get_row ap_id k (db_appointments d) = Some a" and "get_row ap_id k (db_appointments (other 0 d)) = Some b"
  shows "(vr_response_code r = ''RESP-CANCEL-VISIT-002'' \<longrightarrow>
      (\<forall>x. ap_external_calendar_id a = Some x \<longrightarrow> events c' x = None) \<and>
      (\<exists>e. get_row ap_id k (db_appointments d') = Some e \<and> ap_cancelled_at e = Some now \<and>
        ap_status e = (if bogota_instant (ap_appointment_date b) (ap_start_time b) - now < hours 24
                       then AP_LATE_CANCEL else AP_CANCELLED))) \<and>
    (vr_response_code r = ''RESP-CALENDAR-ERROR-004'' \<longrightarrow> vr_needs_handoff r \<and>
      get_row ap_id k (db_appointments d') = Some (b\<lparr>ap_requires_reconciliation := True\<rparr>)) \<and>
    vr_response_code r \<in> {''RESP-CANCEL-VISIT-002'', ''RESP-CALENDAR-ERROR-004''}"
proof -
  have key: "ap_id b = k" using get_row_SomeD [OF assms(4)] by simp
  have marked: "get_row ap_id k (db_appointments (mark_appointment_for_reconciliation k (other 0 d))) =
      Some (b\<lparr>ap_requires_reconciliation := True\<rparr>)"
    using assms(4) key by (simp add: mark_appointment_for_reconciliation_def put_appointment_def get_put_row)
  have row: "\<exists>e. get_row ap_id k (db_appointments d1) = Some e \<and> ap_cancelled_at e = Some now \<and>
        ap_status e = (if bogota_instant (ap_appointment_date b) (ap_start_time b) - now < hours 24
                       then AP_LATE_CANCEL else AP_CANCELLED) \<and> vr_response_code r = ''RESP-CANCEL-VISIT-002''"
    if "cancel_row k reason now (other 0 d) = (Inr r, d1)" for d1
    using that assms(4) key
    by (auto simp: cancel_row_def cancelled_def Let_def visit_reply_def put_appointment_def get_put_row split: if_splits)
  define res where "res = (\<lambda>x. fst (cal_delete_event cal x c))"
  define c1 where "c1 = (\<lambda>x. snd (cal_delete_event cal x c))"
  have del: "cal_delete_event cal x c = (res x, c1 x)" for x by (simp add: res_def c1_def)
  consider "ap_external_calendar_id a = None" | x u where "ap_external_calendar_id a = Some x" "res x = Inr u"
    | x e where "ap_external_calendar_id a = Some x" "res x = Inl e"
    by (metis option.exhaust sum.exhaust)
  then show ?thesis
  proof cases
    case 1
    with assms(2,3) obtain d1 where "cancel_row k reason now (other 0 d) = (Inr r, d1)" "d' = d1"
      by (auto simp: cancel_appointment_def split: prod.splits)
    with row 1 show ?thesis by auto
  next
    case 2
    with assms(2,3) del obtain d1 where "cancel_row k reason now (other 0 d) = (Inr r, d1)" "d' = d1" "c' = c1 x"
      by (auto simp: cancel_appointment_def split: prod.splits)
    with row 2 calendar_adapter.delete_ok [OF assms(1) del [of x, unfolded 2(2)]] show ?thesis by auto
  next
    case 3
    show ?thesis
    proof (cases "e = EventNotFoundError")
      case True
      with 3 assms(2,3) del obtain d1 where "cancel_row k reason now (other 0 d) = (Inr r, d1)" "d' = d1" "c' = c1 x"
        by (auto simp: cancel_appointment_def split: prod.splits)
      with row 3 True calendar_adapter.delete_missing [OF assms(1), of x c "c1 x"] del [of x] show ?thesis by auto
    next
      case False
      with 3 assms(2,3) del have "d' = mark_appointment_for_reconciliation k (other 0 d)"
        "r = (visit_reply ''RESP-CALENDAR-ERROR-004'')\<lparr>vr_appointment_id := Some k, vr_needs_handoff := True\<rparr>"
        by (auto simp: cancel_appointment_def split: if_splits)
      with marked show ?thesis by (simp add: visit_reply_def)
    qed
  qed
qed

definition sample_appointment :: appointment where
  "sample_appointment = (new_appointment sample_visit 1000)\<lparr>ap_status := AP_CONFIRMED,
     ap_external_calendar_id := Some ''k''\<rparr>"

definition cancel_db :: db where
  "cancel_db = visit_db\<lparr>db_appointments := [sample_appointment]\<rparr>"

lemma cancel_db_row: "get_row ap_id 1000 (db_appointments cancel_db) = Some sample_appointment"
  by (simp add: cancel_db_def sample_appointment_def new_appointment_def get_row_Cons)

lemma cancelled_visit_leaves_calendar_witness:
  "\<exists>r d' c' e. cancel_appointment fake_calendar_adapter 1000 True ''Viaje'' sample_now (\<lambda>n x. x) cancel_db quiet_calendar = (Inr r, d', c') \<and>
     get_row ap_id 1000 (db_appointments d') = Some e \<and> ap_status e = AP_CANCELLED"
proof -
  have "ascii ''Viaje''" by simp
  then have run: "cancel_appointment fake_calendar_adapter 1000 True ''Viaje'' sample_now (\<lambda>n x. x) cancel_db quiet_calendar =
      (Inr ((visit_reply ''RESP-CANCEL-VISIT-002'')\<lparr>vr_appointment_id := Some 1000\<rparr>),
       put_appointment (cancelled ''Viaje'' sample_now sample_appointment) cancel_db,
       quiet_calendar\<lparr>fc_delete_call_count := 1\<rparr>)"
    by (simp add: cancel_appointment_def cancel_db_row cancel_row_def utf8_decode_ascii fake_calendar_adapter_def
        fake_delete_event_def quiet_calendar_def fake_init_def Let_def sample_appointment_def)
  have status: "bogota_instant (ap_appointment_date sample_appointment) (ap_start_time sample_appointment) - sample_now = days 4"
    by (simp add: sample_appointment_def new_appointment_def sample_visit_def sample_now_def bogota_instant_def days_def
        at_hour_def us_defs)
  from cancelled_visit_leaves_calendar [OF fake.calendar_adapter_axioms run cancel_db_row cancel_db_row]
  obtain e where "get_row ap_id 1000 (db_appointments (put_appointment (cancelled ''Viaje'' sample_now sample_appointment) cancel_db)) = Some e"
    "ap_status e = AP_CANCELLED"
    by (auto simp: status visit_reply_def hours_def days_def us_defs)
  with run show ?thesis by blast
qed

text \<open>C22. A visit reported as moved had kept its slot since it was read; its row is rescheduled to the new slot, the
  calendar event is at the new time, and the move is recorded with the slot it left.\<close>

theorem rescheduled_visit_recorded:
  assumes "calendar_adapter cal events"
    and "reschedule_appointment cal ids send_time k new_date new_time actor now other d c = (Inr r, d', c')"
    and "vr_response_code r = ''RESP-RESCHEDULE-004''"
  shows "\<exists>a b e x. get_row ap_id k (db_appointments d) = Some a \<and>
    get_row ap_id k (db_appointments (other 1 (other 0 d))) = Some b \<and>
    (ap_appointment_date b, ap_start_time b) = (ap_appointment_date a, ap_start_time a) \<and>
    get_row ap_id k (db_appointments d') = Some e \<and> ap_status e = AP_RESCHEDULED \<and>
    (ap_appointment_date e, ap_start_time e) = (new_date, new_time) \<and>
    ap_reschedule_count e = ap_reschedule_count b + 1 \<and>
    db_appointment_changes d' = db_appointment_changes (other 1 (other 0 d)) @
      [\<lparr>ac_appointment_id = k, ac_previous_date = ap_appointment_date a, ac_previous_start_time = ap_start_time a,
        ac_new_date = new_date, ac_new_start_time = new_time, ac_changed_by_type = actor, ac_changed_by_id = actor\<rparr>] \<and>
    events c' (uuid_hex k) = Some x \<and> xr_start x = bogota_instant new_date new_time \<and>
    new_time \<in> set visit_hours \<and> local_date now + 3 \<le> new_date"
proof -
  obtain a where a: "get_row ap_id k (db_appointments d) = Some a"
    using assms(2,3) by (auto simp: reschedule_appointment_def visit_reply_def split: option.splits)
  obtain res c1 where slot: "is_slot_available cal ids new_date new_time (local_date now) d c = (res, c1)" by fastforce
  have ok: "res = Inr True"
    using assms(2,3) a slot by (auto simp: reschedule_appointment_def visit_reply_def split: if_splits sum.splits)
  have move: "move_appointment cal send_time a k new_date new_time actor other d c1 = (Inr r, d', c')"
    using assms(2) a slot ok by (simp add: reschedule_appointment_def)
  then obtain description u change
    where ev: "update_or_reconcile_event cal (uuid_hex k) visit_summary (slot_datetime new_date new_time)
        (slot_datetime new_date (calculate_visit_end_time new_time)) description c1 = (Inr u, c')"
      and st: "settle_visit_appointment change (other 1 (other 0 d)) = Inr d'" "vt_operation change = VO_RESCHEDULE"
      and ch: "vt_appointment_id change = k" "vt_visit_date change = new_date" "vt_visit_time change = new_time"
        "vt_previous_date change = Some (ap_appointment_date a)" "vt_previous_time change = Some (ap_start_time a)"
        "vt_actor change = Some actor"
    using assms(3)
    by (auto simp: move_appointment_def Let_def visit_reply_def split: prod.splits sum.splits if_splits)
  from settle_reschedule_D [OF st] ch a
    calendar_adapter.update_or_reconcile_D [OF assms(1) ev] is_slot_available_D [OF slot [unfolded ok]]
  show ?thesis by (auto simp: rescheduled_def event_ref_of_def slot_datetime_def)
qed

lemma sample_available_moved:
  "is_slot_available fake_calendar_adapter [''principal''] 739833 (at_hour 10) 739829 cancel_db quiet_calendar =
     (Inr True, quiet_calendar\<lparr>fc_query_call_count := 1, fc_queried_calendar_ids := [[''principal'']]\<rparr>)"
  by (simp add: is_slot_available_def available_slots_def local_calendar_state_def validate_visit_date_def weekday_def
      fake_calendar_adapter_def fake_get_busy_intervals_def quiet_calendar_def fake_init_def cancel_db_def
      sample_appointment_def new_appointment_def sample_visit_def appointment_active_def
      deterministic_visit_slots_def visit_hours_def at_hour_def us_defs)

lemma sample_update:
  "update_or_reconcile_event fake_calendar_adapter k s a b t
     (quiet_calendar\<lparr>fc_query_call_count := 1, fc_queried_calendar_ids := ids\<rparr>) = (Inr (), quiet_calendar\<lparr>fc_query_call_count := 1,
       fc_queried_calendar_ids := ids, fc_create_call_count := 1, fc_update_call_count := 1,
       fc_events := [(k, event_ref_of k s a b t)], fc_created_event_ids := [k]\<rparr>)"
  by (simp add: update_or_reconcile_event_def fake_calendar_adapter_def fake_update_event_def fake_create_event_def
      quiet_calendar_def fake_init_def Let_def)

lemma sample_settle_move:
  "\<exists>d'. settle_visit_appointment \<lparr>vt_operation = VO_RESCHEDULE, vt_appointment_id = 1000, vt_visit_date = 739833,
      vt_visit_time = at_hour 10, vt_external_calendar_id = x, vt_reminder_at = t,
      vt_previous_date = Some (ap_appointment_date sample_appointment),
      vt_previous_time = Some (ap_start_time sample_appointment), vt_actor = Some ''CUSTOMER''\<rparr> cancel_db = Inr d'"
  by (simp add: settle_visit_appointment_def cancel_db_row)
     (simp add: commit_appointment_def appointment_ck_def slot_taken_def external_taken_def visit_hours_def
       rescheduled_def sample_appointment_def new_appointment_def sample_visit_def appointment_active_def cancel_db_def
       appointment_change_actors_def)

lemma rescheduled_visit_recorded_witness:
  "\<exists>r d' c' e. reschedule_appointment fake_calendar_adapter [''principal''] (at_hour 9) 1000 739833 (at_hour 10)
       ''CUSTOMER'' bogota_clock (\<lambda>n x. x) cancel_db quiet_calendar = (Inr r, d', c') \<and>
     get_row ap_id 1000 (db_appointments d') = Some e \<and> ap_start_time e = at_hour 10"
proof -
  obtain d1 where st: "settle_visit_appointment \<lparr>vt_operation = VO_RESCHEDULE, vt_appointment_id = 1000, vt_visit_date = 739833,
      vt_visit_time = at_hour 10, vt_external_calendar_id = uuid_hex 1000, vt_reminder_at = reminder_at (at_hour 9) 739833,
      vt_previous_date = Some (ap_appointment_date sample_appointment),
      vt_previous_time = Some (ap_start_time sample_appointment), vt_actor = Some ''CUSTOMER''\<rparr> cancel_db = Inr d1"
    using sample_settle_move by blast
  have "\<exists>r d' c'. reschedule_appointment fake_calendar_adapter [''principal''] (at_hour 9) 1000 739833 (at_hour 10)
       ''CUSTOMER'' bogota_clock (\<lambda>n x. x) cancel_db quiet_calendar = (Inr r, d', c') \<and> vr_response_code r = ''RESP-RESCHEDULE-004''"
    by (simp add: reschedule_appointment_def cancel_db_row sample_available_moved move_appointment_def sample_update st
        visit_reply_def Let_def del: One_nat_def)
  then obtain r d' c' where run: "reschedule_appointment fake_calendar_adapter [''principal''] (at_hour 9) 1000 739833
      (at_hour 10) ''CUSTOMER'' bogota_clock (\<lambda>n x. x) cancel_db quiet_calendar = (Inr r, d', c')"
    and code: "vr_response_code r = ''RESP-RESCHEDULE-004''" by blast
  from rescheduled_visit_recorded [OF fake.calendar_adapter_axioms run code] run show ?thesis by auto
qed

end
