(* ===== verification/Inbound_Media.thy ===== *)
theory Inbound_Media
  imports Samples
begin

text \<open>
  The files customers send: \<open>normalize_sha256\<close> and \<open>download_inbound_media\<close> of
  \<open>app/channel/media.py\<close>. The HTTP client of the provider is the record \<open>media_client\<close>, whose replies
  are those the code tells apart; SHA-256 is the parameter \<open>sha\<close>, from bytes to the 32 bytes of the digest.
\<close>

section \<open>Base64 and hexadecimal\<close>

text \<open>The alphabet is A-Z, a-z, 0-9, + and /.\<close>

definition b64_char :: "nat \<Rightarrow> char" where
  "b64_char n = char_of (if n < 26 then 65 + n else if n < 52 then 71 + n else if n < 62 then n - 4
                         else if n = 62 then 43 else 47)"

definition b64_val :: "char \<Rightarrow> nat option" where
  "b64_val c = (let n = (of_char c :: nat) in
     if 65 \<le> n \<and> n \<le> 90 then Some (n - 65) else if 97 \<le> n \<and> n \<le> 122 then Some (n - 71)
     else if 48 \<le> n \<and> n \<le> 57 then Some (n + 4) else if n = 43 then Some 62 else if n = 47 then Some 63 else None)"

fun b64_encode :: "nat list \<Rightarrow> string" where
  "b64_encode [] = []"
| "b64_encode [x] = [b64_char (x div 4), b64_char (x mod 4 * 16), CHR ''='', CHR ''='']"
| "b64_encode [x, y] = [b64_char (x div 4), b64_char (x mod 4 * 16 + y div 16), b64_char (y mod 16 * 4), CHR ''='']"
| "b64_encode (x # y # z # r) =
     b64_char (x div 4) # b64_char (x mod 4 * 16 + y div 16) # b64_char (y mod 16 * 4 + z div 64) # b64_char (z mod 64)
       # b64_encode r"

text \<open>\<open>base64.b64decode(s, validate=True)\<close>: groups of four of the alphabet, the last one padded.\<close>

fun b64_quad :: "char \<Rightarrow> char \<Rightarrow> char \<Rightarrow> char \<Rightarrow> nat list option" where
  "b64_quad a b c d = (case (b64_val a, b64_val b, b64_val c, b64_val d) of
      (Some w, Some x, Some y, Some z) \<Rightarrow> Some [w * 4 + x div 16, x mod 16 * 16 + y div 4, y mod 4 * 64 + z]
    | _ \<Rightarrow> None)"

fun b64_last :: "char \<Rightarrow> char \<Rightarrow> char \<Rightarrow> char \<Rightarrow> nat list option" where
  "b64_last a b c d =
     (if d \<noteq> CHR ''='' then b64_quad a b c d
      else if c \<noteq> CHR ''=''
      then (case (b64_val a, b64_val b, b64_val c) of
              (Some w, Some x, Some y) \<Rightarrow> Some [w * 4 + x div 16, x mod 16 * 16 + y div 4] | _ \<Rightarrow> None)
      else (case (b64_val a, b64_val b) of
              (Some w, Some x) \<Rightarrow> Some [w * 4 + x div 16] | _ \<Rightarrow> None))"

fun b64_decode :: "string \<Rightarrow> nat list option" where
  "b64_decode [] = Some []"
| "b64_decode (a # b # c # d # r) =
     (if r = [] then b64_last a b c d
      else (case (b64_quad a b c d, b64_decode r) of (Some xs, Some ys) \<Rightarrow> Some (xs @ ys) | _ \<Rightarrow> None))"
| "b64_decode _ = None"

definition is_hex :: "char \<Rightarrow> bool" where
  "is_hex c \<longleftrightarrow> (let n = (of_char c :: nat) in 48 \<le> n \<and> n \<le> 57 \<or> 65 \<le> n \<and> n \<le> 70 \<or> 97 \<le> n \<and> n \<le> 102)"

definition lower_hex :: "char \<Rightarrow> char" where
  "lower_hex c = (let n = (of_char c :: nat) in if 65 \<le> n \<and> n \<le> 70 then char_of (n + 32) else c)"

text \<open>\<open>bytes.hex()\<close>.\<close>

definition hex_of :: "nat list \<Rightarrow> string" where
  "hex_of bs = concat (map (\<lambda>b. [hex_digit (b div 16), hex_digit (b mod 16)]) bs)"

definition normalize_sha256 :: "string \<Rightarrow> (app_error, string) result" where
  "normalize_sha256 value =
     (let normalized = strip value
      in if length normalized = 64 \<and> list_all is_hex normalized then Inr (map lower_hex normalized)
         else (case b64_decode normalized of
                 None \<Rightarrow> Inl (ValueError ''Invalid SHA-256 encoding'')
               | Some digest \<Rightarrow>
                   if length digest \<noteq> 32 then Inl (ValueError ''Invalid SHA-256 digest length'')
                   else Inr (hex_of digest)))"

section \<open>Downloading\<close>

datatype download_error = DownloadFailed string | HashMismatch string | TooLarge string

definition download_error_str :: "download_error \<Rightarrow> string" where
  "download_error_str e = (case e of DownloadFailed m \<Rightarrow> m | HashMismatch m \<Rightarrow> m | TooLarge m \<Rightarrow> m)"

record inbound_file =
  if_bytes :: string
  if_mime_type :: string
  if_sha256 :: string
  if_sha256_base64 :: string
  if_size_bytes :: nat

text \<open>
  A reply: a failure of transport or decoding, a status the code refuses, or the body. A stream has
  the content type, the chunks that arrived, and whether it ended without an error.
\<close>

datatype 'a http_reply = Http_Failed | Http_Rejected | Http_Ok 'a

record media_stream =
  sm_content_type :: "string option"
  sm_chunks :: "string list"
  sm_complete :: bool

record 'w media_client =
  mc_get :: "string \<Rightarrow> 'w \<Rightarrow> json http_reply \<times> 'w"
  mc_stream :: "string \<Rightarrow> 'w \<Rightarrow> media_stream http_reply \<times> 'w"

text \<open>\<open>s.rstrip("/")\<close>.\<close>

definition rstrip_slashes :: "string \<Rightarrow> string" where
  "rstrip_slashes s = rev (dropWhile (\<lambda>c. c = CHR ''/'') (rev s))"

definition inbound_media_metadata_url :: "settings \<Rightarrow> string \<Rightarrow> string" where
  "inbound_media_metadata_url st media_id =
     rstrip_slashes (st_whatsapp_api_base_url st) @ ''/'' @ st_meta_graph_api_version st @ ''/'' @ media_id"

fun collect_chunks :: "nat \<Rightarrow> string \<Rightarrow> string list \<Rightarrow> (download_error, string) result" where
  "collect_chunks max_bytes content [] = Inr content"
| "collect_chunks max_bytes content (chunk # chunks) =
     (if max_bytes < length content + length chunk
      then Inl (TooLarge ''Inbound media exceeds the configured size limit'')
      else collect_chunks max_bytes (content @ chunk) chunks)"

definition declared_size :: "json \<Rightarrow> int option" where
  "declared_size metadata = (case jget ''file_size'' metadata of
      JInt i \<Rightarrow> Some i | JBool b \<Rightarrow> Some (if b then 1 else 0) | _ \<Rightarrow> None)"

definition check_declared :: "json \<Rightarrow> string \<Rightarrow> (download_error, unit) result" where
  "check_declared declared calculated_hex =
     (case declared of
        JNull \<Rightarrow> Inr ()
      | JStr s \<Rightarrow>
          if blank s then Inl (HashMismatch ''Inbound media metadata sha256 is invalid'')
          else (case normalize_sha256 s of
                  Inl _ \<Rightarrow> Inl (HashMismatch ''Inbound media metadata sha256 is invalid'')
                | Inr metadata_hex \<Rightarrow>
                    if metadata_hex \<noteq> calculated_hex
                    then Inl (HashMismatch ''Inbound media sha256 verification failed'') else Inr ())
      | _ \<Rightarrow> Inl (HashMismatch ''Inbound media metadata sha256 is invalid''))"

definition media_mime :: "(json \<Rightarrow> string) \<Rightarrow> json \<Rightarrow> string option \<Rightarrow> string" where
  "media_mime rp metadata content_type =
     (if truthy (jget ''mime_type'' metadata) then py_str rp (jget ''mime_type'' metadata)
      else (case content_type of None \<Rightarrow> ''application/octet-stream'' | Some t \<Rightarrow> t))"

definition file_of ::
  "(string \<Rightarrow> nat list) \<Rightarrow> (json \<Rightarrow> string) \<Rightarrow> json \<Rightarrow> media_stream \<Rightarrow> string \<Rightarrow> (download_error, inbound_file) result" where
  "file_of sha rp metadata stream content =
     (let digest = sha content
      in ebind (check_declared (jget ''sha256'' metadata) (hex_of digest)) (\<lambda>_.
           Inr \<lparr>if_bytes = content, if_mime_type = media_mime rp metadata (sm_content_type stream),
                if_sha256 = hex_of digest, if_sha256_base64 = b64_encode digest, if_size_bytes = length content\<rparr>))"

definition download_inbound_media ::
  "'w media_client \<Rightarrow> (string \<Rightarrow> nat list) \<Rightarrow> (json \<Rightarrow> string) \<Rightarrow> settings \<Rightarrow> nat option \<Rightarrow> string \<Rightarrow> 'w
     \<Rightarrow> (download_error, inbound_file) result \<times> 'w" where
  "download_inbound_media client sha rp st limit media_id w =
     (let failed = DownloadFailed ''Inbound media download failed'';
          rejected = DownloadFailed ''Meta rejected an inbound media request'';
          max_bytes = (case limit of None \<Rightarrow> st_inbound_media_max_mb st * 1024 * 1024 | Some n \<Rightarrow> n)
      in case mc_get client (inbound_media_metadata_url st media_id) w of
           (Http_Failed, w1) \<Rightarrow> (Inl failed, w1)
         | (Http_Rejected, w1) \<Rightarrow> (Inl rejected, w1)
         | (Http_Ok metadata, w1) \<Rightarrow>
             if \<not> is_obj metadata then (Inl (DownloadFailed ''Inbound media metadata must be an object''), w1)
             else (case jget ''url'' metadata of
                JStr fresh_url \<Rightarrow>
                  if fresh_url = [] then (Inl (DownloadFailed ''Inbound media metadata did not include a URL''), w1)
                  else if (case declared_size metadata of None \<Rightarrow> False | Some n \<Rightarrow> int max_bytes < n)
                  then (Inl (TooLarge ''Inbound media exceeds the configured size limit''), w1)
                  else (case mc_stream client fresh_url w1 of
                          (Http_Failed, w2) \<Rightarrow> (Inl failed, w2)
                        | (Http_Rejected, w2) \<Rightarrow> (Inl rejected, w2)
                        | (Http_Ok stream, w2) \<Rightarrow>
                            (ebind (collect_chunks max_bytes [] (sm_chunks stream)) (\<lambda>content.
                               if \<not> sm_complete stream then Inl failed
                               else file_of sha rp metadata stream content), w2))
              | _ \<Rightarrow> (Inl (DownloadFailed ''Inbound media metadata did not include a URL''), w1)))"

section \<open>Facts\<close>

lemma b64_val_char: "n < 64 \<Longrightarrow> b64_val (b64_char n) = Some n"
  by (auto simp: b64_val_def b64_char_def Let_def)

lemma b64_char_ascii: "n < 64 \<Longrightarrow> (of_char (b64_char n) :: nat) < 128 \<and> \<not> char_space (b64_char n)"
  by (auto simp: b64_char_def is_space_def)

lemma b64_char_plain: "n < 64 \<Longrightarrow> b64_char n \<noteq> CHR ''=''"
proof
  assume "n < 64" and "b64_char n = CHR ''=''"
  with b64_val_char [of n] show False by (simp add: b64_val_def)
qed

lemma b64_encode_Nil_iff [simp]: "b64_encode bs = [] \<longleftrightarrow> bs = []"
  by (cases bs rule: b64_encode.cases) simp_all

text \<open>The six-bit groups of three bytes, and back.\<close>

lemma pack:
  fixes q a m :: nat
  shows "a < m \<Longrightarrow> (q * m + a) div m = q" "a < m \<Longrightarrow> (q * m + a) mod m = a"
  by simp_all

lemma sextets:
  fixes x y z :: nat
  assumes "x < 256" "y < 256" "z < 256"
  shows "x div 4 < 64" "x mod 4 * 16 + y div 16 < 64" "y mod 16 * 4 + z div 64 < 64" "z mod 64 < 64"
    "x div 4 * 4 + (x mod 4 * 16 + y div 16) div 16 = x"
    "(x mod 4 * 16 + y div 16) mod 16 * 16 + (y mod 16 * 4 + z div 64) div 4 = y"
    "(y mod 16 * 4 + z div 64) mod 4 * 64 + z mod 64 = z"
    "x mod 4 * 16 < 64" "y mod 16 * 4 < 64"
    "x div 4 * 4 + x mod 4 * 16 div 16 = x"
    "(x mod 4 * 16 + y div 16) mod 16 * 16 + y mod 16 * 4 div 4 = y"
proof -
  have y: "y div 16 < 16" and z: "z div 64 < 4" using assms by (simp_all add: div_less_iff_less_mult)
  have m: "x mod 4 < 4" "y mod 16 < 16" by simp_all
  show "x div 4 < 64" "z mod 64 < 64" using assms by (simp_all add: div_less_iff_less_mult)
  show "x mod 4 * 16 + y div 16 < 64" "y mod 16 * 4 + z div 64 < 64" "x mod 4 * 16 < 64" "y mod 16 * 4 < 64"
    using y z m by linarith+
  show "x div 4 * 4 + (x mod 4 * 16 + y div 16) div 16 = x" "x div 4 * 4 + x mod 4 * 16 div 16 = x"
    using pack(1) [OF y] by simp_all
  show "(x mod 4 * 16 + y div 16) mod 16 * 16 + (y mod 16 * 4 + z div 64) div 4 = y"
    "(x mod 4 * 16 + y div 16) mod 16 * 16 + y mod 16 * 4 div 4 = y"
    using pack [OF y] pack [OF z] by simp_all
  show "(y mod 16 * 4 + z div 64) mod 4 * 64 + z mod 64 = z" using pack [OF z] by simp
qed

lemma b64_roundtrip: "\<forall>b \<in> set bs. b < 256 \<Longrightarrow> b64_decode (b64_encode bs) = Some bs"
proof (induction bs rule: b64_encode.induct)
  case (4 x y z r)
  then have "x < 256" "y < 256" "z < 256" by simp_all
  note s = sextets [OF this]
  with 4 show ?case by (simp add: b64_val_char b64_char_plain s)
next
  case (3 x y)
  then have "x < 256" "y < 256" "(0::nat) < 256" by simp_all
  note s = sextets [OF this]
  have y: "y div 16 < 16" using \<open>y < 256\<close> by (simp add: div_less_iff_less_mult)
  show ?case by (simp add: b64_val_char b64_char_plain s y)
next
  case (2 x)
  then have "x < 256" "(0::nat) < 256" "(0::nat) < 256" by simp_all
  note s = sextets [OF this]
  show ?case by (simp add: b64_val_char s)
qed simp

lemma equals_plain: "\<not> is_space 61"
  by (simp add: is_space_def)

lemma b64_encode_chars:
  "\<forall>b \<in> set bs. b < 256 \<Longrightarrow> \<forall>c \<in> set (b64_encode bs). (of_char c :: nat) < 128 \<and> \<not> char_space c"
proof (induction bs rule: b64_encode.induct)
  case (4 x y z r)
  then have "x < 256" "y < 256" "z < 256" by simp_all
  note s = sextets [OF this]
  with 4 show ?case by (simp add: b64_char_ascii s)
next
  case (3 x y)
  then have "x < 256" "y < 256" "(0::nat) < 256" by simp_all
  note s = sextets [OF this]
  show ?case by (simp add: b64_char_ascii s equals_plain)
next
  case (2 x)
  then have "x < 256" "(0::nat) < 256" "(0::nat) < 256" by simp_all
  note s = sextets [OF this]
  show ?case by (simp add: b64_char_ascii s equals_plain)
qed simp

lemma b64_encode_length: "length (b64_encode bs) = 4 * ((length bs + 2) div 3)"
proof (induction bs rule: b64_encode.induct)
  case (4 x y z r)
  have "(n + 5) div 3 = Suc ((n + 2) div 3)" for n :: nat by presburger
  from this [of "length r"] have "(length (x # y # z # r) + 2) div 3 = Suc ((length r + 2) div 3)"
    by (simp add: add.commute)
  with 4 show ?case by simp
qed simp_all

lemma dropWhile_none: "\<forall>c \<in> set s. \<not> p c \<Longrightarrow> dropWhile p s = s"
  by (cases s) simp_all

lemma strip_plain:
  assumes "\<forall>c \<in> set s. (of_char c :: nat) < 128 \<and> \<not> char_space c"
  shows "strip s = s"
proof -
  have "ascii s" using assms by (simp add: ascii_def list_all_iff)
  moreover have "dropWhile char_space s = s" by (rule dropWhile_none) (use assms in simp)
  moreover have "dropWhile char_space (rev s) = rev s" by (rule dropWhile_none) (use assms in simp)
  ultimately show ?thesis by (simp add: strip_ascii)
qed

text \<open>Hexadecimal digits.\<close>

lemma hex_digit_plain:
  "n < 16 \<Longrightarrow> is_hex (hex_digit n) \<and> lower_hex (hex_digit n) = hex_digit n \<and>
     (of_char (hex_digit n) :: nat) < 128 \<and> \<not> char_space (hex_digit n)"
  by (auto simp: is_hex_def lower_hex_def hex_digit_def is_space_def Let_def)

lemma hex_of_chars:
  assumes "\<forall>b \<in> set bs. b < 256"
  shows "\<forall>c \<in> set (hex_of bs). is_hex c \<and> lower_hex c = c \<and> (of_char c :: nat) < 128 \<and> \<not> char_space c"
proof
  fix c assume "c \<in> set (hex_of bs)"
  then obtain b where "b \<in> set bs" "c = hex_digit (b div 16) \<or> c = hex_digit (b mod 16)" by (auto simp: hex_of_def)
  moreover from this(1) assms have "b div 16 < 16" "b mod 16 < 16" by (auto simp: div_less_iff_less_mult)
  ultimately show "is_hex c \<and> lower_hex c = c \<and> (of_char c :: nat) < 128 \<and> \<not> char_space c"
    using hex_digit_plain by blast
qed

lemma length_hex_of [simp]: "length (hex_of bs) = 2 * length bs"
  by (induction bs) (simp_all add: hex_of_def)

section \<open>Properties\<close>

text \<open>C39. A digest is recognized in both encodings the provider uses: its Base64 form and its hexadecimal form
  normalize to the same lower-case text, and decoding Base64 is the inverse of encoding.\<close>

theorem digest_encodings_agree:
  assumes "\<forall>b \<in> set digest. b < 256" and "length digest = 32"
  shows "normalize_sha256 (b64_encode digest) = Inr (hex_of digest) \<and>
    normalize_sha256 (hex_of digest) = Inr (hex_of digest) \<and>
    b64_decode (b64_encode digest) = Some digest"
proof -
  have "normalize_sha256 (b64_encode digest) = Inr (hex_of digest)"
    using strip_plain [OF b64_encode_chars [OF assms(1)]] assms b64_roundtrip [OF assms(1)]
    by (simp add: normalize_sha256_def b64_encode_length Let_def)
  moreover have "normalize_sha256 (hex_of digest) = Inr (hex_of digest)"
  proof -
    note c = hex_of_chars [OF assms(1)]
    have "strip (hex_of digest) = hex_of digest" by (rule strip_plain) (use c in blast)
    moreover have "map lower_hex (hex_of digest) = hex_of digest" using c by (simp add: map_idI)
    ultimately show ?thesis using c assms(2) by (simp add: normalize_sha256_def list_all_iff Let_def)
  qed
  ultimately show ?thesis using b64_roundtrip [OF assms(1)] by blast
qed

lemma digest_encodings_agree_witness:
  "normalize_sha256 (b64_encode (replicate 32 255)) = normalize_sha256 (hex_of (replicate 32 255))"
  using digest_encodings_agree [of "replicate 32 255"] by simp

end
