(* ===== verification/Payment_Evidence.thy ===== *)
theory Payment_Evidence
  imports Booking_Requests Inbound_Media Media
begin

text \<open>
  Receipts as evidence: their registration when a customer sends a file while a payment case is open
  (\<open>app/payment/service.py\<close>), and the worker that downloads, verifies and keeps the file
  (\<open>app/payment/worker.py\<close>). \<open>other\<close> is what other workers commit while a file is downloaded.
\<close>

section \<open>Registration\<close>

definition open_payment_handoff :: "int \<Rightarrow> db \<Rightarrow> handoff option" where
  "open_payment_handoff conversation_id d =
     first_by (\<lambda>a b. ho_id b < ho_id a)
       (filter (\<lambda>h. ho_conversation_id h = conversation_id \<and> ho_reason h = ''PAYMENT_REVIEW'' \<and>
          ho_status h \<in> {HO_PENDING, HO_TAKEN}) (db_handoffs d))"

record payment_media =
  pm_media_id :: string
  pm_mime_type :: string
  pm_declared_sha256 :: string

definition payment_media_fields :: "message \<Rightarrow> payment_media option" where
  "payment_media_fields m =
     (let raw = jget (ms_message_type m) (ms_content m);
          media_id = (if truthy (jget ''media_id'' raw) then jget ''media_id'' raw else jget ''id'' raw)
      in if ms_message_type m \<notin> {''image'', ''document''} \<or> \<not> is_obj raw then None
         else (case (media_id, jget ''mime_type'' raw, jget ''sha256'' raw) of
                 (JStr i, JStr mime, JStr sha) \<Rightarrow>
                   if i = [] \<or> mime = [] \<or> sha = [] then None
                   else Some \<lparr>pm_media_id = i, pm_mime_type = mime, pm_declared_sha256 = sha\<rparr>
               | _ \<Rightarrow> None))"

definition new_evidence :: "conversation \<Rightarrow> customer \<Rightarrow> message \<Rightarrow> payment_media \<Rightarrow> int \<Rightarrow> instant \<Rightarrow> evidence" where
  "new_evidence cv cu m media k now = \<lparr>pe_id = k, pe_conversation_id = cv_id cv, pe_customer_id = cu_id cu,
     pe_message_id = ms_id m, pe_media_id = pm_media_id media, pe_mime_type = pm_mime_type media,
     pe_declared_sha256 = pm_declared_sha256 media, pe_storage_path = None, pe_verified_sha256 = None,
     pe_size_bytes = None, pe_download_status = DL_PENDING, pe_download_attempts = 0,
     pe_next_attempt_at = None, pe_prereview_claim_token = None, pe_prereview_claimed_at = None,
     pe_review_status = RW_PENDING_REVIEW, pe_reviewed_by_agent_id = None, pe_reviewed_at = None,
     pe_review_note = None, pe_customer_reason = None, pe_amount_cop = None,
     pe_lead_id = cv_active_lead_id cv, pe_reservation_id = None, pe_created_at = now\<rparr>"

definition created_audit :: "evidence \<Rightarrow> string option \<Rightarrow> db \<Rightarrow> db" where
  "created_audit e request_id d = audit ''SYSTEM'' ''PAYMENT_EVIDENCE_CREATED'' ''payment_evidence'' None
     (Some (JObj [(''evidence_id'', JInt (pe_id e)), (''conversation_id'', JInt (pe_conversation_id e)),
       (''message_id'', JInt (pe_message_id e)), (''mime_type'', JStr (pe_mime_type e)),
       (''download_status'', JStr (download_status_str (pe_download_status e))),
       (''review_status'', JStr (review_status_str (pe_review_status e)))]))
     ''Inbound payment evidence registered for human review'' request_id d"

text \<open>The case becomes urgent; the change is recorded only when there is one.\<close>

definition raise_priority :: "handoff \<Rightarrow> string option \<Rightarrow> db \<Rightarrow> handoff \<times> db" where
  "raise_priority h request_id d =
     (if ho_priority h \<noteq> HO_URGENT
      then (h\<lparr>ho_priority := HO_URGENT\<rparr>,
            audit ''SYSTEM'' ''HANDOFF_PRIORITY_RAISED'' ''handoff''
              (Some (JObj [(''handoff_id'', JInt (ho_id h)), (''priority'', JStr (priority_str (ho_priority h)))]))
              (Some (JObj [(''handoff_id'', JInt (ho_id h)), (''priority'', JStr ''URGENT'')]))
              ''Payment evidence received'' request_id d)
      else (h, d))"

definition summary_line :: "evidence \<Rightarrow> string" where
  "summary_line e = ''[comprobante recibido: '' @ pe_mime_type e @ '', evidencia #'' @ show_int (pe_id e) @ '']''"

definition mention_evidence :: "evidence \<Rightarrow> handoff \<Rightarrow> handoff" where
  "mention_evidence e h =
     (if is_infix (summary_line e) (ho_summary h) then h
      else h\<lparr>ho_summary := rstrip (ho_summary h) @ [CHR 0x0A] @ summary_line e\<rparr>)"

definition register_evidence ::
  "evidence \<Rightarrow> handoff \<Rightarrow> string option \<Rightarrow> settings \<Rightarrow> db \<Rightarrow> (app_error, evidence \<times> db) result" where
  "register_evidence e h request_id st d =
     ebind (attach_payment_evidence e request_id st (d\<lparr>db_evidence := db_evidence d @ [e]\<rparr>)) (\<lambda>(_, e1, d1).
       (case raise_priority h request_id (created_audit e1 request_id d1) of
          (h1, d2) \<Rightarrow> Inr (e1, put_handoff (mention_evidence e1 h1) d2)))"

definition create_payment_evidence ::
  "conversation \<Rightarrow> customer \<Rightarrow> message \<Rightarrow> handoff \<Rightarrow> string option \<Rightarrow> settings \<Rightarrow> db
     \<Rightarrow> (app_error, evidence option \<times> db) result" where
  "create_payment_evidence cv cu m h request_id st d =
     (case payment_media_fields m of
        None \<Rightarrow> Inr (None, d)
      | Some media \<Rightarrow>
          (case find (\<lambda>e. pe_message_id e = ms_id m) (db_evidence d) of
             Some existing \<Rightarrow> Inr (Some existing, d)
           | None \<Rightarrow>
               (case next_serial d of (k, d1) \<Rightarrow>
                  ebind (register_evidence (new_evidence cv cu m media k (db_clock d1)) h request_id st d1) (\<lambda>(e, d2).
                    Inr (Some e, d2)))))"

definition create_payment_evidence_for_open_handoff ::
  "conversation \<Rightarrow> customer \<Rightarrow> message \<Rightarrow> string option \<Rightarrow> settings \<Rightarrow> db \<Rightarrow> (app_error, evidence option \<times> db) result" where
  "create_payment_evidence_for_open_handoff cv cu m request_id st d =
     (case open_payment_handoff (cv_id cv) d of
        None \<Rightarrow> Inr (None, d)
      | Some h \<Rightarrow> create_payment_evidence cv cu m h request_id st d)"

section \<open>The worker's claim\<close>

record evidence_claim =
  ec_evidence_id :: int
  ec_media_id :: string
  ec_mime_type :: string
  ec_declared_sha256 :: string
  ec_attempts :: nat
  ec_created_at :: instant

definition evidence_backoff_seconds :: "nat \<Rightarrow> int \<Rightarrow> int" where
  "evidence_backoff_seconds attempts max_backoff_seconds = min (2 ^ attempts) max_backoff_seconds"

definition max_download_attempts :: nat where
  "max_download_attempts = 6"

definition download_due :: "instant \<Rightarrow> evidence \<Rightarrow> bool" where
  "download_due now e \<longleftrightarrow> pe_download_status e \<in> {DL_PENDING, DL_FAILED_RETRYABLE} \<and>
     (case pe_next_attempt_at e of None \<Rightarrow> True | Some t \<Rightarrow> t \<le> now)"

definition evidence_before :: "evidence \<Rightarrow> evidence \<Rightarrow> bool" where
  "evidence_before a b \<longleftrightarrow> pe_created_at a < pe_created_at b \<or> (pe_created_at a = pe_created_at b \<and> pe_id a < pe_id b)"

definition claim_one_evidence :: "instant \<Rightarrow> int \<Rightarrow> db \<Rightarrow> (evidence_claim \<times> db) option" where
  "claim_one_evidence now lease_seconds d =
     (case first_by evidence_before (filter (download_due now) (db_evidence d)) of
        None \<Rightarrow> None
      | Some e \<Rightarrow>
          let e1 = e\<lparr>pe_download_attempts := pe_download_attempts e + 1,
                     pe_next_attempt_at := Some (now + seconds lease_seconds)\<rparr>
          in Some (\<lparr>ec_evidence_id = pe_id e1, ec_media_id = pe_media_id e1, ec_mime_type = pe_mime_type e1,
                    ec_declared_sha256 = pe_declared_sha256 e1, ec_attempts = pe_download_attempts e1,
                    ec_created_at = pe_created_at e1\<rparr>, put_evidence e1 d))"

section \<open>Verification and storage\<close>

definition validate_download :: "ucd \<Rightarrow> evidence_claim \<Rightarrow> inbound_file \<Rightarrow> (download_error, unit) result" where
  "validate_download u claim media =
     (if casefold u (strip (takeWhile (\<lambda>c. c \<noteq> CHR '';'') (if_mime_type media))) \<noteq> casefold u (ec_mime_type claim)
      then Inl (HashMismatch ''Downloaded MIME type differs from inbound declaration'')
      else (case normalize_sha256 (ec_declared_sha256 claim) of
              Inl _ \<Rightarrow> Inl (HashMismatch ''Inbound declaration contains an invalid sha256'')
            | Inr declared \<Rightarrow>
                if if_sha256 media \<noteq> declared
                then Inl (HashMismatch ''Downloaded hash differs from inbound declaration'') else Inr ()))"

definition supported_mime_extensions :: "(string \<times> string) list" where
  "supported_mime_extensions = [(''image/jpeg'', ''.jpg''), (''image/png'', ''.png''), (''image/webp'', ''.webp''),
     (''application/pdf'', ''.pdf'')]"

definition evidence_path :: "settings \<Rightarrow> int \<Rightarrow> string \<Rightarrow> string" where
  "evidence_path st evidence_id extension =
     path_str (path_root (st_payment_evidence_dir st))
       (path_parts (st_payment_evidence_dir st) @ [show_int evidence_id @ extension])"

text \<open>
  The outside world of the worker: the provider's files, and the file system, which writes a file
  whole (through a temporary name) or answers with the error's text.
\<close>

record 'w evidence_io =
  eo_client :: "'w media_client"
  eo_sha :: "string \<Rightarrow> nat list"
  eo_repr :: "json \<Rightarrow> string"
  eo_ucd :: ucd
  eo_write :: "string \<Rightarrow> string \<Rightarrow> 'w \<Rightarrow> string option \<times> 'w"

section \<open>Settling a download\<close>

definition download_value :: "evidence \<Rightarrow> json" where
  "download_value e = JObj [(''evidence_id'', JInt (pe_id e)),
     (''download_status'', JStr (download_status_str (pe_download_status e))),
     (''attempts'', JInt (int (pe_download_attempts e))),
     (''size_bytes'', opt_json JInt (pe_size_bytes e))]"

definition downloaded :: "inbound_file \<Rightarrow> string \<Rightarrow> evidence \<Rightarrow> evidence" where
  "downloaded media storage_path e = e\<lparr>pe_download_status := DL_DOWNLOADED, pe_storage_path := Some storage_path,
     pe_verified_sha256 := Some (if_sha256 media), pe_size_bytes := Some (int (if_size_bytes media)),
     pe_next_attempt_at := None\<rparr>"

definition settle_download_success :: "evidence_claim \<Rightarrow> inbound_file \<Rightarrow> string \<Rightarrow> instant \<Rightarrow> db \<Rightarrow> db" where
  "settle_download_success claim media storage_path now d =
     (case get_row pe_id (ec_evidence_id claim) (db_evidence d) of
        None \<Rightarrow> d
      | Some e \<Rightarrow>
          let e1 = downloaded media storage_path e
          in audit_at now ''INTEGRATION'' ''PAYMENT_EVIDENCE_DOWNLOADED'' ''payment_evidence''
               (Some (JObj [(''download_status'', JStr ''PENDING'')])) (Some (download_value e1))
               ''Payment evidence downloaded and hash verified'' None (put_evidence e1 d))"

definition download_failed :: "instant \<Rightarrow> bool \<Rightarrow> int \<Rightarrow> evidence \<Rightarrow> evidence" where
  "download_failed now permanent max_backoff_seconds e =
     (if permanent \<or> max_download_attempts \<le> pe_download_attempts e
      then e\<lparr>pe_download_status := DL_FAILED_PERMANENT, pe_next_attempt_at := None\<rparr>
      else e\<lparr>pe_download_status := DL_FAILED_RETRYABLE, pe_next_attempt_at :=
               Some (now + seconds (evidence_backoff_seconds (pe_download_attempts e) max_backoff_seconds))\<rparr>)"

definition settle_download_failure ::
  "evidence_claim \<Rightarrow> instant \<Rightarrow> bool \<Rightarrow> string \<Rightarrow> int \<Rightarrow> db \<Rightarrow> db" where
  "settle_download_failure claim now permanent reason max_backoff_seconds d =
     (case get_row pe_id (ec_evidence_id claim) (db_evidence d) of
        None \<Rightarrow> d
      | Some e \<Rightarrow>
          let e1 = download_failed now permanent max_backoff_seconds e
          in audit_at now ''INTEGRATION'' ''PAYMENT_EVIDENCE_DOWNLOAD_FAILED'' ''payment_evidence'' None
               (Some (download_value e1)) (cp_take 500 reason) None (put_evidence e1 d))"

definition permanent_download_error :: "evidence_claim \<Rightarrow> download_error \<Rightarrow> bool" where
  "permanent_download_error claim e = (case e of
      DownloadFailed _ \<Rightarrow> max_download_attempts \<le> ec_attempts claim | _ \<Rightarrow> True)"

text \<open>The download, its verification and the file: everything inside the \<open>try\<close>.\<close>

definition fetch_evidence ::
  "'w evidence_io \<Rightarrow> settings \<Rightarrow> evidence_claim \<Rightarrow> string \<Rightarrow> 'w \<Rightarrow> (download_error, inbound_file \<times> string) result \<times> 'w" where
  "fetch_evidence io st claim extension w =
     (case download_inbound_media (eo_client io) (eo_sha io) (eo_repr io) st None (ec_media_id claim) w of
        (Inl e, w1) \<Rightarrow> (Inl e, w1)
      | (Inr media, w1) \<Rightarrow>
          (case validate_download (eo_ucd io) claim media of
             Inl e \<Rightarrow> (Inl e, w1)
           | Inr _ \<Rightarrow>
               let target = evidence_path st (ec_evidence_id claim) extension
               in (case eo_write io target (if_bytes media) w1 of
                     (Some message, w2) \<Rightarrow> (Inl (DownloadFailed message), w2)
                   | (None, w2) \<Rightarrow> (Inr (media, target), w2))))"

definition process_payment_evidence_once ::
  "'w evidence_io \<Rightarrow> settings \<Rightarrow> instant \<Rightarrow> (db \<Rightarrow> db) \<Rightarrow> db \<Rightarrow> 'w \<Rightarrow> nat \<times> db \<times> 'w" where
  "process_payment_evidence_once io st now other d w =
     (case claim_one_evidence now (st_outbox_sending_timeout_seconds st) d of
        None \<Rightarrow> (0, d, w)
      | Some (claim, d1) \<Rightarrow>
          let fail = (\<lambda>permanent reason. settle_download_failure claim now permanent reason
                        (st_outbox_max_backoff_seconds st) (other d1))
          in (case map_of supported_mime_extensions (ec_mime_type claim) of
                None \<Rightarrow> (1, fail True ''Unsupported payment evidence MIME type'', w)
              | Some extension \<Rightarrow>
                  if ec_created_at claim < now - days 6
                  then (1, fail True ''Payment evidence media URL is outside the download window'', w)
                  else (case fetch_evidence io st claim extension w of
                          (Inl e, w1) \<Rightarrow> (1, fail (permanent_download_error claim e) (download_error_str e), w1)
                        | (Inr (media, target), w1) \<Rightarrow>
                            (1, settle_download_success claim media target now (other d1), w1))))"

end
