(* ===== verification/Payment_Facts.thy ===== *)
theory Payment_Facts
  imports Payment_Evidence Settlement
begin

text \<open>
  What the registration and the download of receipts guarantee: a message is registered once and a
  second delivery changes nothing, a file is kept only when its digest is the declared one and it fits
  the limit, and what a failed download writes.
\<close>

section \<open>Registration\<close>

definition evidence_ok :: "db \<Rightarrow> bool" where
  "evidence_ok d \<longleftrightarrow> keys_ok pe_id (db_evidence d) \<and> distinct (map pe_message_id (db_evidence d))"

lemma find_message:
  assumes "distinct (map pe_message_id es)" and "e \<in> set es"
  shows "find (\<lambda>x. pe_message_id x = pe_message_id e) es = Some e"
  using assms by (induction es) (auto simp: image_iff)

lemma raise_priority_frame:
  "raise_priority h request_id d = (h1, d1) \<Longrightarrow>
     db_evidence d1 = db_evidence d \<and> db_handoffs d1 = db_handoffs d \<and> ho_id h1 = ho_id h \<and>
     ho_priority h1 = HO_URGENT \<and> ho_summary h1 = ho_summary h"
  by (auto simp: raise_priority_def split: if_splits)

lemma created_audit_frame [simp]:
  "db_evidence (created_audit e r d) = db_evidence d" "db_handoffs (created_audit e r d) = db_handoffs d"
  by (simp_all add: created_audit_def)

lemma put_handoff_frame [simp]:
  "db_evidence (put_handoff h d) = db_evidence d" "db_handoffs (put_handoff h d) = put_row ho_id h (db_handoffs d)"
  by (simp_all add: put_handoff_def)

lemma ebind_tagged: "ebind r (\<lambda>x. Inr (Some a, f x)) \<noteq> Inr (None, b)"
  by (cases r) simp_all

text \<open>Linking rewrites the evidence's reservation and no other row of the table.\<close>

lemma attach_none_same:
  assumes "attach_payment_evidence e req st d = Inr (None, e', d')"
  shows "e' = e \<and> d' = d"
proof (cases "pe_reservation_id e")
  case free: None
  show ?thesis
  proof (cases "payment_reservation_candidate (pe_customer_id e) (db_clock d) d")
    case (Some r0)
    let ?e = "e\<lparr>pe_reservation_id := Some (rv_id r0)\<rparr>"
    let ?step = "if rv_status r0 = RV_PAYMENT_PENDING
        then transition_reservation r0 RV_PAYMENT_REVIEW ''SYSTEM'' ''Comprobante recibido'' req (put_evidence ?e d)
        else Inr (r0, put_evidence ?e d)"
    obtain r1 d2 where step: "?step = Inr (r1, d2)"
      using assms free Some by (cases ?step) (auto simp: attach_payment_evidence_def Let_def)
    let ?notice = "enqueue_for_reservation r1 ''EVIDENCE_RECEIVED'' ''payment_evidence''
        (show_int (pe_id e)) st req (link_audit e r1 req d2)"
    have "attach_payment_evidence e req st d = ebind ?notice (\<lambda>d3. Inr (Some r1, ?e, d3))"
      by (simp only: attach_payment_evidence_def Let_def option.case Some free simp_thms if_False step ebind_simps prod.case)
    from this [symmetric] assms
    have "ebind ?notice (\<lambda>d3. Inr (Some r1, ?e, d3)) = Inr (None, e', d')" by (rule trans)
    then show ?thesis by (rule ebind_tagged [THEN notE, rotated])
  qed (use assms free in \<open>simp add: attach_payment_evidence_def\<close>)
qed (use assms in \<open>simp add: attach_payment_evidence_def\<close>)

lemma attach_evidence_table:
  assumes "attach_payment_evidence e req st d = Inr (r, e', d')" and "get_row pe_id (pe_id e) (db_evidence d) = Some e"
    and "keys_ok pe_id (db_evidence d)"
  shows "pe_id e' = pe_id e \<and> pe_message_id e' = pe_message_id e \<and> db_evidence d' = put_row pe_id e' (db_evidence d)"
proof (cases r)
  case None
  have "put_row pe_id e (db_evidence d) = db_evidence d"
    unfolding put_row_def
  proof (rule map_idI)
    fix x assume x: "x \<in> set (db_evidence d)"
    have "x = e" if "pe_id x = pe_id e"
      using get_row_mem [OF assms(3) x] assms(2) that by (metis option.inject)
    then show "(if pe_id x = pe_id e then e else x) = x" by presburger
  qed
  with attach_none_same [OF assms(1) [unfolded None]] show ?thesis by simp
next
  case (Some r1)
  from attach_payment_evidence_InrD [OF assms(1) [unfolded Some]] show ?thesis by auto
qed

lemma register_evidence_D:
  assumes "register_evidence e h req st d = Inr (e', d')" and "keys_ok pe_id (db_evidence d)"
    and "pe_id e \<notin> pe_id ` set (db_evidence d)"
  shows "pe_id e' = pe_id e \<and> pe_message_id e' = pe_message_id e \<and> db_evidence d' = db_evidence d @ [e'] \<and>
    (\<exists>h' hs. ho_id h' = ho_id h \<and> ho_priority h' = HO_URGENT \<and> db_handoffs d' = put_row ho_id h' hs \<and>
      is_infix (summary_line e') (ho_summary h'))"
proof -
  let ?d = "d\<lparr>db_evidence := db_evidence d @ [e]\<rparr>"
  obtain r e1 d1 where att1: "attach_payment_evidence e req st ?d = Inr (r, e1, d1)"
    and rest: "(case raise_priority h req (created_audit e1 req d1) of (h1, d2) \<Rightarrow>
        Inr (e1, put_handoff (mention_evidence e1 h1) d2)) = (Inr (e', d') :: (app_error, evidence \<times> db) result)"
    using assms(1) by (auto simp: register_evidence_def ebind_Inr_iff)
  obtain h1 d2 where raise1: "raise_priority h req (created_audit e1 req d1) = (h1, d2)" by fastforce
  have e1: "e1 = e'" and d': "d' = put_handoff (mention_evidence e' h1) d2" using rest raise1 by auto
  note att = att1 [unfolded e1] and raise = raise1 [unfolded e1]
  have row: "get_row pe_id (pe_id e) (db_evidence ?d) = Some e"
    using assms(3) get_row_None_iff [of pe_id "pe_id e" "db_evidence d"] by (simp add: get_row_append1)
  have keys: "keys_ok pe_id (db_evidence ?d)" using assms(2,3) by (simp add: keys_ok_append1)
  note t = attach_evidence_table [OF att row keys]
  have rows: "db_evidence d1 = db_evidence d @ [e']"
    using t assms(3) put_row_absent [of pe_id e' "db_evidence d"] by (simp add: put_row_def)
  have "is_infix k (a @ b # k)" for k a and b :: char
  proof -
    have pre: "is_prefix k k" by (induction k) simp_all
    then have "is_infix k (b # k)" by (cases k) simp_all
    then show ?thesis by (induction a) simp_all
  qed
  then have "is_infix (summary_line e') (ho_summary (mention_evidence e' h1))"
    by (simp add: mention_evidence_def)
  moreover have "ho_id (mention_evidence e' h1) = ho_id h" "ho_priority (mention_evidence e' h1) = HO_URGENT"
    using raise_priority_frame [OF raise] by (simp_all add: mention_evidence_def)
  moreover have "db_evidence d' = db_evidence d @ [e']"
    "db_handoffs d' = put_row ho_id (mention_evidence e' h1) (db_handoffs d1)"
    using rows raise_priority_frame [OF raise] by (simp_all add: d')
  ultimately show ?thesis using t by blast
qed

section \<open>Downloads\<close>

lemma collect_chunks_D:
  "collect_chunks n acc chunks = Inr content \<Longrightarrow> length acc \<le> n \<Longrightarrow>
     length content \<le> n \<and> content = acc @ concat chunks"
proof (induction chunks arbitrary: acc)
  case (Cons a chunks)
  then have "length (acc @ a) \<le> n" "collect_chunks n (acc @ a) chunks = Inr content" by (auto split: if_splits)
  from Cons.IH [OF this(2,1)] show ?case by (metis append.assoc concat.simps(2))
qed simp

lemma download_inbound_media_D:
  assumes "download_inbound_media client sha rp st limit media_id w = (Inr f, w')"
  shows "if_sha256 f = hex_of (sha (if_bytes f)) \<and> if_size_bytes f = length (if_bytes f) \<and>
    length (if_bytes f) \<le> (case limit of None \<Rightarrow> st_inbound_media_max_mb st * 1024 * 1024 | Some n \<Rightarrow> n)"
proof -
  let ?max = "case limit of None \<Rightarrow> st_inbound_media_max_mb st * 1024 * 1024 | Some n \<Rightarrow> n"
  obtain metadata stream content
    where c: "collect_chunks ?max [] (sm_chunks stream) = Inr content"
      and f: "file_of sha rp metadata stream content = Inr f"
    using assms
    by (auto simp: download_inbound_media_def Let_def ebind_Inr_iff
        split: prod.splits http_reply.splits if_splits json.splits)
  from f have "if_bytes f = content" "if_sha256 f = hex_of (sha content)" "if_size_bytes f = length content"
    by (auto simp: file_of_def Let_def ebind_Inr_iff)
  with collect_chunks_D [OF c, THEN conjunct1] show ?thesis by simp
qed

lemma validate_download_D:
  "validate_download u claim media = Inr v \<Longrightarrow> normalize_sha256 (ec_declared_sha256 claim) = Inr (if_sha256 media)"
  by (auto simp: validate_download_def split: if_splits sum.splits)

lemma fetch_evidence_D:
  assumes "fetch_evidence io st claim extension w = (Inr (media, target), w')"
  shows "normalize_sha256 (ec_declared_sha256 claim) = Inr (hex_of (eo_sha io (if_bytes media))) \<and>
    if_sha256 media = hex_of (eo_sha io (if_bytes media)) \<and>
    length (if_bytes media) \<le> st_inbound_media_max_mb st * 1024 * 1024 \<and>
    target = evidence_path st (ec_evidence_id claim) extension \<and>
    (\<exists>w1. eo_write io target (if_bytes media) w1 = (None, w'))"
proof -
  obtain w1 v where dl: "download_inbound_media (eo_client io) (eo_sha io) (eo_repr io) st None (ec_media_id claim) w = (Inr media, w1)"
    and v: "validate_download (eo_ucd io) claim media = Inr v"
    and t: "target = evidence_path st (ec_evidence_id claim) extension" "eo_write io target (if_bytes media) w1 = (None, w')"
    using assms by (auto simp: fetch_evidence_def Let_def split: prod.splits sum.splits option.splits)
  from download_inbound_media_D [OF dl] validate_download_D [OF v] t show ?thesis by auto
qed

text \<open>Every file that is kept carries the declared digest.\<close>

definition files_verified :: "db \<Rightarrow> bool" where
  "files_verified d \<longleftrightarrow> (\<forall>e \<in> set (db_evidence d). pe_download_status e = DL_DOWNLOADED \<longrightarrow>
     (\<exists>h. pe_verified_sha256 e = Some h \<and> normalize_sha256 (pe_declared_sha256 e) = Inr h))"

text \<open>The media a row stands for never changes.\<close>

definition same_media :: "db \<Rightarrow> db \<Rightarrow> bool" where
  "same_media d d' \<longleftrightarrow> (\<forall>e \<in> set (db_evidence d). \<forall>e' \<in> set (db_evidence d').
     pe_id e' = pe_id e \<longrightarrow> pe_declared_sha256 e' = pe_declared_sha256 e)"

lemma files_verified_put:
  assumes "files_verified d"
    and "pe_download_status e = DL_DOWNLOADED \<Longrightarrow>
      \<exists>h. pe_verified_sha256 e = Some h \<and> normalize_sha256 (pe_declared_sha256 e) = Inr h"
  shows "files_verified (put_evidence e d)"
  using assms by (auto simp: files_verified_def dest!: put_row_mem)

lemma files_verified_cong: "db_evidence d = db_evidence e \<Longrightarrow> files_verified d = files_verified e"
  by (simp add: files_verified_def)

lemma files_verified_audit [simp]: "files_verified (audit_at a b c e f g h i d) = files_verified d"
  by (rule files_verified_cong) (simp add: audit_at_def)

lemma claim_one_evidence_D:
  assumes "claim_one_evidence now lease d = Some (claim, d1)"
  shows "\<exists>e. e \<in> set (db_evidence d) \<and> download_due now e \<and> ec_evidence_id claim = pe_id e \<and>
    ec_declared_sha256 claim = pe_declared_sha256 e \<and> ec_created_at claim = pe_created_at e \<and>
    ec_attempts claim = pe_download_attempts e + 1 \<and>
    d1 = put_evidence (e\<lparr>pe_download_attempts := pe_download_attempts e + 1,
      pe_next_attempt_at := Some (now + seconds lease)\<rparr>) d"
proof -
  obtain e where e: "first_by evidence_before (filter (download_due now) (db_evidence d)) = Some e"
    using assms by (auto simp: claim_one_evidence_def split: option.splits)
  with assms first_by_SomeD [OF e] show ?thesis by (auto simp: claim_one_evidence_def Let_def)
qed

lemma settle_failure_verified:
  "files_verified d \<Longrightarrow> files_verified (settle_download_failure claim now permanent reason max_backoff d)"
  by (auto simp: settle_download_failure_def download_failed_def Let_def split: option.split
      intro!: files_verified_put)

lemma settle_success_verified:
  assumes "files_verified d"
    and "\<And>e. get_row pe_id (ec_evidence_id claim) (db_evidence d) = Some e \<Longrightarrow>
      normalize_sha256 (pe_declared_sha256 e) = Inr (if_sha256 media)"
  shows "files_verified (settle_download_success claim media target now d)"
  using assms
  by (auto simp: settle_download_success_def downloaded_def Let_def split: option.split
      intro!: files_verified_put)

section \<open>Properties\<close>

text \<open>A message is registered as a receipt once: whatever the registration answers, the table keeps one row per
  message, that row is the answer, and delivering the message again, for any case, answers the same row and
  changes nothing.\<close>

theorem receipt_registered_once:
  assumes "evidence_ok d" and "\<forall>e \<in> set (db_evidence d). pe_id e < db_seq d"
    and "create_payment_evidence cv cu m h req st d = Inr (Some e, d')"
  shows "evidence_ok d' \<and> pe_message_id e = ms_id m \<and>
    (\<forall>x \<in> set (db_evidence d'). pe_message_id x = ms_id m \<longleftrightarrow> x = e) \<and> e \<in> set (db_evidence d') \<and>
    create_payment_evidence cv2 cu2 m h2 req2 st2 d' = Inr (Some e, d')"
proof -
  obtain media where media: "payment_media_fields m = Some media"
    using assms(3) by (auto simp: create_payment_evidence_def split: option.splits)
  have state: "evidence_ok d' \<and> pe_message_id e = ms_id m \<and> e \<in> set (db_evidence d')"
  proof (cases "find (\<lambda>e. pe_message_id e = ms_id m) (db_evidence d)")
    case (Some x)
    with assms media show ?thesis by (auto simp: create_payment_evidence_def find_Some_iff)
  next
    case None
    let ?d = "d\<lparr>db_seq := db_seq d + 1\<rparr>"
    let ?e = "new_evidence cv cu m media (db_seq d) (db_clock ?d)"
    have reg: "register_evidence ?e h req st ?d = Inr (e, d')"
      using assms(3) media None by (auto simp: create_payment_evidence_def next_serial_def ebind_Inr_iff)
    have id: "pe_id ?e = db_seq d" "pe_message_id ?e = ms_id m" by (simp_all add: new_evidence_def)
    have fresh: "pe_id ?e \<notin> pe_id ` set (db_evidence ?d)" using assms(2) id by force
    have "keys_ok pe_id (db_evidence ?d)" using assms(1) by (simp add: evidence_ok_def)
    from register_evidence_D [OF reg this fresh] have e: "pe_id e = db_seq d" "pe_message_id e = ms_id m"
      "db_evidence d' = db_evidence d @ [e]" using id by simp_all
    moreover have "ms_id m \<notin> pe_message_id ` set (db_evidence d)" using None by (auto simp: find_None_iff)
    moreover have "pe_id e \<notin> pe_id ` set (db_evidence d)" using fresh id e(1) by simp
    ultimately show ?thesis using assms(1) by (simp add: evidence_ok_def keys_ok_append1)
  qed
  then have "find (\<lambda>x. pe_message_id x = ms_id m) (db_evidence d') = Some e"
    using find_message [of "db_evidence d'" e] by (simp add: evidence_ok_def)
  moreover have "\<forall>x \<in> set (db_evidence d'). pe_message_id x = ms_id m \<longleftrightarrow> x = e"
    using state by (auto simp: evidence_ok_def distinct_map inj_on_def)
  ultimately show ?thesis using state media by (simp add: create_payment_evidence_def)
qed

definition sample_receipt :: message where
  "sample_receipt = \<lparr>ms_id = 71, ms_external_message_id = ''wamid.2'', ms_conversation_id = 1, ms_customer_id = 1,
     ms_direction = ''INBOUND'', ms_message_type = ''image'',
     ms_content = JObj [(''image'', JObj [(''id'', JStr ''media''), (''mime_type'', JStr ''image/png''), (''sha256'', JStr ''00'')])],
     ms_provider_timestamp = None\<rparr>"

definition sample_case :: handoff where
  "sample_case = \<lparr>ho_id = 5, ho_conversation_id = 1, ho_status = HO_PENDING, ho_reason = ''PAYMENT_REVIEW'',
     ho_priority = HO_NORMAL, ho_summary = ''Pago'', ho_assigned_to = None, ho_assigned_agent_id = None, ho_taken_at = None, ho_resolved_at = None\<rparr>"

definition receipt_db :: db where
  "receipt_db = sample_db\<lparr>db_evidence := [], db_reservations := []\<rparr>"

lemma receipt_registered_once_witness:
  "\<exists>e d'. create_payment_evidence sample_conversation sample_customer sample_receipt sample_case None sample_settings
       receipt_db = Inr (Some e, d') \<and>
     create_payment_evidence sample_conversation sample_customer sample_receipt sample_case None sample_settings d' = Inr (Some e, d')"
proof -
  have "payment_media_fields sample_receipt =
      Some \<lparr>pm_media_id = ''media'', pm_mime_type = ''image/png'', pm_declared_sha256 = ''00''\<rparr>"
    by (simp add: payment_media_fields_def sample_receipt_def jget_def)
  moreover have "payment_reservation_candidate k t (receipt_db\<lparr>db_seq := n, db_evidence := es\<rparr>) = None" for k t n es
    by (simp add: payment_reservation_candidate_def receipt_db_def)
  moreover have "db_evidence receipt_db = []" by (simp add: receipt_db_def)
  ultimately have "\<exists>e d'. create_payment_evidence sample_conversation sample_customer sample_receipt sample_case None
      sample_settings receipt_db = Inr (Some e, d')"
    by (simp add: create_payment_evidence_def next_serial_def register_evidence_def attach_payment_evidence_def
        new_evidence_def case_prod_beta)
  then obtain e d' where run: "create_payment_evidence sample_conversation sample_customer sample_receipt sample_case None
      sample_settings receipt_db = Inr (Some e, d')" by blast
  have "evidence_ok receipt_db" "\<forall>e \<in> set (db_evidence receipt_db). pe_id e < db_seq receipt_db"
    by (simp_all add: evidence_ok_def keys_ok_def receipt_db_def)
  from receipt_registered_once [OF this run] run show ?thesis by blast
qed


definition down_io :: "unit evidence_io" where
  "down_io = \<lparr>eo_client = \<lparr>mc_get = (\<lambda>url w. (Http_Failed, w)), mc_stream = (\<lambda>url w. (Http_Failed, w))\<rparr>,
     eo_sha = (\<lambda>_. replicate 32 0), eo_repr = (\<lambda>_. []), eo_ucd = ascii_ucd, eo_write = (\<lambda>p c w. (None, w))\<rparr>"


text \<open>C35. A worker that comes back late with a failure overwrites a download that succeeded meanwhile: the failure is
  written without looking at the status, and when it is permanent the verified receipt can no longer be
  accepted.\<close>

theorem late_failure_discards_download:
  assumes "get_row pe_id (ec_evidence_id claim) (db_evidence d) = Some e" and "pe_download_status e = DL_DOWNLOADED"
    and "pe_review_status e = RW_PENDING_REVIEW" and "permanent \<or> max_download_attempts \<le> pe_download_attempts e"
    and "0 < amount" and "\<not> blank actor"
  shows "\<exists>e'. get_row pe_id (ec_evidence_id claim) (db_evidence
        (settle_download_failure claim now permanent reason max_backoff d)) = Some e' \<and>
      pe_download_status e' = DL_FAILED_PERMANENT \<and> pe_verified_sha256 e' = pe_verified_sha256 e \<and>
      pe_storage_path e' = pe_storage_path e \<and>
      (\<exists>m. accept_guards e' amount actor review d2 = Inl (ValueError m))"
proof -
  let ?e = "e\<lparr>pe_download_status := DL_FAILED_PERMANENT, pe_next_attempt_at := None\<rparr>"
  have "get_row pe_id (ec_evidence_id claim) (db_evidence
      (settle_download_failure claim now permanent reason max_backoff d)) = Some ?e"
    using assms(1,4) get_row_SomeD [OF assms(1)]
    by (simp add: settle_download_failure_def download_failed_def audit_at_def get_put_row Let_def)
  moreover have "\<exists>m. accept_guards ?e amount actor review d2 = Inl (ValueError m)"
    using assms(3,5,6) by (simp add: accept_guards_def)
  ultimately show ?thesis by auto
qed

lemma late_failure_discards_download_witness:
  "\<exists>e'. get_row pe_id 61 (db_evidence (settle_download_failure
       \<lparr>ec_evidence_id = 61, ec_media_id = ''media'', ec_mime_type = ''image/jpeg'', ec_declared_sha256 = [],
        ec_attempts = 1, ec_created_at = sample_now\<rparr> sample_now True ''Inbound media download failed'' 300 sample_db)) = Some e' \<and>
     pe_download_status e' = DL_FAILED_PERMANENT"
proof -
  let ?claim = "\<lparr>ec_evidence_id = 61, ec_media_id = ''media'', ec_mime_type = ''image/jpeg'', ec_declared_sha256 = [],
        ec_attempts = 1, ec_created_at = sample_now\<rparr>"
  have row: "get_row pe_id (ec_evidence_id ?claim) (db_evidence sample_db) = Some sample_evidence"
    by (simp add: get_row_Cons sample_evidence_def)
  have "\<not> blank ''ana''" by (simp add: not_blank_ascii is_space_def)
  from late_failure_discards_download [OF row _ _ _ _ this, of True 1 sample_now _ 300 None sample_db] show ?thesis
    by (auto simp: sample_evidence_def)
qed

end
