(* ===== verification/Receipt_Review.thy ===== *)
theory Receipt_Review
  imports Money Media
begin

text \<open>
  The assisted review of receipts, \<open>app/payment/review.py\<close>: the vision model extracts fields, the
  deterministic checks of \<open>evaluate_receipt\<close> make a suggestion, and only a person settles a payment.

  Outside the model: the extraction itself (\<open>app/ai/receipt.py\<close> over HTTP), the file system and pydantic's
  JSON dump, which are the fields of the record \<open>review_io\<close>.
\<close>

section \<open>The checks\<close>

record receipt_extraction =
  rx_amount_cop :: "int option"
  rx_currency :: "string option"
  rx_transaction_date :: "date option"
  rx_transaction_time :: "string option"
  rx_reference :: "string option"
  rx_bank :: "string option"
  rx_destination_account_last4 :: "string option"
  rx_sender_name :: "string option"
  rx_confidence :: rat
  rx_notes :: "string option"

datatype check_code = CK_AMOUNT | CK_CURRENCY | CK_ACCOUNT | CK_DATE | CK_REFERENCE | CK_CONFIDENCE
datatype check_result = CR_OK | CR_WARN | CR_FAIL | CR_UNKNOWN

fun check_code_str :: "check_code \<Rightarrow> string" where
  "check_code_str CK_AMOUNT = ''AMOUNT''"
| "check_code_str CK_CURRENCY = ''CURRENCY''"
| "check_code_str CK_ACCOUNT = ''ACCOUNT''"
| "check_code_str CK_DATE = ''DATE''"
| "check_code_str CK_REFERENCE = ''REFERENCE''"
| "check_code_str CK_CONFIDENCE = ''CONFIDENCE''"

fun check_result_str :: "check_result \<Rightarrow> string" where
  "check_result_str CR_OK = ''OK''"
| "check_result_str CR_WARN = ''WARN''"
| "check_result_str CR_FAIL = ''FAIL''"
| "check_result_str CR_UNKNOWN = ''UNKNOWN''"

record receipt_check =
  rc_code :: check_code
  rc_result :: check_result
  rc_detail :: string

definition check_of :: "check_code \<Rightarrow> check_result \<Rightarrow> string \<Rightarrow> receipt_check" where
  "check_of code result detail = \<lparr>rc_code = code, rc_result = result, rc_detail = detail\<rparr>"

definition normalize_reference :: "ucd \<Rightarrow> string \<Rightarrow> string" where
  "normalize_reference u value =
     utf8_encode (filter (uc_isalnum u) (concat (map (uc_casefold u) (uc_nfkc u (utf8_decode value)))))"

text \<open>\<open>extraction.amount_cop if extraction.amount_cop and extraction.amount_cop > 0 else None\<close>.\<close>

definition positive_amount :: "receipt_extraction \<Rightarrow> int option" where
  "positive_amount x = (case rx_amount_cop x of None \<Rightarrow> None | Some a \<Rightarrow> if 0 < a then Some a else None)"

definition missing_amount :: "settings \<Rightarrow> reservation \<Rightarrow> int" where
  "missing_amount st r =
     (let deposit = (rv_price_cop r * st_booking_deposit_percent st + 99999) div 100000 * 1000;
          target = (if rv_status r = RV_RESERVED then rv_price_cop r else deposit)
      in max 0 (target - rv_amount_paid_cop r))"

definition amount_check :: "settings \<Rightarrow> receipt_extraction \<Rightarrow> reservation option \<Rightarrow> receipt_check" where
  "amount_check st x reservation =
     (case reservation of
        None \<Rightarrow> check_of CK_AMOUNT CR_UNKNOWN ''Sin reserva vinculada para comparar el monto.''
      | Some r \<Rightarrow>
          if rx_amount_cop x = None then check_of CK_AMOUNT CR_UNKNOWN ''No se pudo leer el monto.''
          else (case positive_amount x of
                  None \<Rightarrow> check_of CK_AMOUNT CR_FAIL ''El monto debe ser mayor que cero.''
                | Some amount \<Rightarrow>
                    if missing_amount st r \<le> amount
                    then check_of CK_AMOUNT CR_OK (if rv_status r = RV_RESERVED
                           then ''Saldo suficiente para completar el pago.'' else ''Monto suficiente para el anticipo.'')
                    else check_of CK_AMOUNT CR_WARN ''Abono parcial.''))"

definition currency_check :: "receipt_extraction \<Rightarrow> receipt_check" where
  "currency_check x =
     (if (case rx_currency x of None \<Rightarrow> True | Some c \<Rightarrow> upper (strip c) = ''COP'')
      then check_of CK_CURRENCY CR_OK ''Moneda compatible con pesos colombianos.''
      else check_of CK_CURRENCY CR_FAIL ''Moneda distinta de COP.'')"

text \<open>\<open>re.sub("\D", "", account)\<close> and its last four characters.\<close>

definition account_digits :: "ucd \<Rightarrow> settings \<Rightarrow> nat list" where
  "account_digits u st = filter (uc_isdecimal u) (utf8_decode (st_booking_account_number st))"

definition account_check :: "ucd \<Rightarrow> settings \<Rightarrow> receipt_extraction \<Rightarrow> receipt_check" where
  "account_check u st x =
     (let account = account_digits u st
      in case rx_destination_account_last4 x of
           None \<Rightarrow> check_of CK_ACCOUNT CR_UNKNOWN ''No se pudo comparar la cuenta destino.''
         | Some last4 \<Rightarrow>
             if length account < 4 then check_of CK_ACCOUNT CR_UNKNOWN ''No se pudo comparar la cuenta destino.''
             else if utf8_decode last4 = drop (length account - 4) account
             then check_of CK_ACCOUNT CR_OK ''Cuenta destino coincide.''
             else check_of CK_ACCOUNT CR_FAIL ''Cuenta destino no coincide'')"

definition date_check :: "receipt_extraction \<Rightarrow> reservation option \<Rightarrow> instant \<Rightarrow> receipt_check" where
  "date_check x reservation now =
     (let today = bogota_date now
      in case rx_transaction_date x of
           None \<Rightarrow> check_of CK_DATE CR_UNKNOWN ''No se pudo leer la fecha.''
         | Some transaction_date \<Rightarrow>
             if today + 1 < transaction_date
             then check_of CK_DATE CR_FAIL (''Fecha futura superior a un d'' @ i_acute @ ''a.'')
             else (case reservation of
                     None \<Rightarrow> check_of CK_DATE CR_UNKNOWN ''Sin reserva para comparar la fecha.''
                   | Some r \<Rightarrow>
                       if bogota_date (rv_created_at r) - 2 \<le> transaction_date
                       then check_of CK_DATE CR_OK ''Fecha dentro del intervalo esperado.''
                       else check_of CK_DATE CR_WARN ''Fecha anterior al intervalo.''))"

definition reference_check :: "ucd \<Rightarrow> receipt_extraction \<Rightarrow> string list \<Rightarrow> receipt_check" where
  "reference_check u x previous_references =
     (let reference = normalize_reference u (case rx_reference x of None \<Rightarrow> [] | Some s \<Rightarrow> s)
      in if reference = [] then check_of CK_REFERENCE CR_UNKNOWN ''No se pudo leer la referencia.''
         else if reference \<in> normalize_reference u ` set previous_references
         then check_of CK_REFERENCE CR_FAIL ''Referencia ya usada''
         else check_of CK_REFERENCE CR_OK (''Referencia sin aceptaci'' @ o_acute @ ''n previa.''))"

definition confidence_check :: "settings \<Rightarrow> receipt_extraction \<Rightarrow> receipt_check" where
  "confidence_check st x =
     (if st_payment_review_confidence_ok st \<le> rx_confidence x
      then check_of CK_CONFIDENCE CR_OK ''Lectura con confianza alta.''
      else if st_payment_review_confidence_min st \<le> rx_confidence x
      then check_of CK_CONFIDENCE CR_WARN ''Lectura con confianza media.''
      else check_of CK_CONFIDENCE CR_FAIL ''Lectura con confianza baja.'')"

definition suggestion_of :: "receipt_check list \<Rightarrow> suggestion" where
  "suggestion_of checks =
     (if list_ex (\<lambda>c. rc_code c \<in> {CK_ACCOUNT, CK_REFERENCE} \<and> rc_result c = CR_FAIL) checks then SG_REJECT
      else if list_all (\<lambda>c. rc_result c = CR_OK \<or>
              (rc_result c = CR_UNKNOWN \<and> rc_code c \<in> {CK_DATE, CK_REFERENCE})) checks then SG_ACCEPT
      else SG_REVIEW)"

text \<open>Instants are aware in the model, so the guard on naive timestamps never fires.\<close>

definition evaluate_receipt ::
  "ucd \<Rightarrow> settings \<Rightarrow> receipt_extraction \<Rightarrow> reservation option \<Rightarrow> string list \<Rightarrow> instant
     \<Rightarrow> receipt_check list \<times> suggestion \<times> int option" where
  "evaluate_receipt u st x reservation previous_references now =
     (let checks = [amount_check st x reservation, currency_check x, account_check u st x,
            date_check x reservation now, reference_check u x previous_references, confidence_check st x]
      in (checks, suggestion_of checks, positive_amount x))"

section \<open>The lease\<close>

definition latest_review :: "int \<Rightarrow> db \<Rightarrow> evidence_review option" where
  "latest_review evidence_id d =
     first_by (\<lambda>a b. er_attempt_number b < er_attempt_number a)
       (filter (\<lambda>r. er_evidence_id r = evidence_id) (db_reviews d))"

record prereview_claim =
  rk_evidence_id :: int
  rk_token :: uuid
  rk_conversation_id :: int
  rk_storage_path :: "string option"
  rk_mime_type :: string
  rk_download_status :: download_status

definition downloaded_or_failed :: "evidence \<Rightarrow> bool" where
  "downloaded_or_failed e \<longleftrightarrow> pe_download_status e \<in> {DL_DOWNLOADED, DL_FAILED_PERMANENT}"

definition lease_available :: "instant \<Rightarrow> evidence \<Rightarrow> bool" where
  "lease_available expired_before e \<longleftrightarrow> pe_prereview_claim_token e = None \<or>
     (case pe_prereview_claimed_at e of None \<Rightarrow> True | Some t \<Rightarrow> t < expired_before)"

definition prereview_due :: "settings \<Rightarrow> instant \<Rightarrow> db \<Rightarrow> evidence \<Rightarrow> bool" where
  "prereview_due st expired_before d e \<longleftrightarrow>
     (let reviews = filter (\<lambda>r. er_evidence_id r = pe_id e) (db_reviews d)
      in downloaded_or_failed e \<and> pe_review_status e = RW_PENDING_REVIEW \<and>
         \<not> list_ex (\<lambda>r. er_status r \<in> {AT_COMPLETED, AT_SKIPPED}) reviews \<and>
         length reviews < st_payment_review_max_attempts st \<and> lease_available expired_before e)"

definition first_evidence :: "evidence \<Rightarrow> evidence \<Rightarrow> bool" where
  "first_evidence a b \<longleftrightarrow> pe_created_at a < pe_created_at b \<or> (pe_created_at a = pe_created_at b \<and> pe_id a < pe_id b)"

definition lease_prereview :: "instant \<Rightarrow> evidence \<Rightarrow> db \<Rightarrow> prereview_claim \<times> db" where
  "lease_prereview now e d =
     (case uuid4 d of (token, d1) \<Rightarrow>
        (\<lparr>rk_evidence_id = pe_id e, rk_token = token, rk_conversation_id = pe_conversation_id e,
          rk_storage_path = pe_storage_path e, rk_mime_type = pe_mime_type e,
          rk_download_status = pe_download_status e\<rparr>,
         put_evidence (e\<lparr>pe_prereview_claim_token := Some token, pe_prereview_claimed_at := Some now\<rparr>) d1))"

definition claim_prereview_evidence ::
  "settings \<Rightarrow> instant \<Rightarrow> int option \<Rightarrow> db \<Rightarrow> (app_error, (prereview_claim \<times> db) option) result" where
  "claim_prereview_evidence st now evidence_id d =
     (if \<not> st_payment_review_ai_enabled st then Inr None
      else let expired_before = now - seconds (st_outbox_sending_timeout_seconds st)
           in case evidence_id of
                None \<Rightarrow>
                  (case first_by first_evidence (filter (prereview_due st expired_before d) (db_evidence d)) of
                     None \<Rightarrow> Inr None | Some e \<Rightarrow> Inr (Some (lease_prereview now e d)))
              | Some k \<Rightarrow>
                  (case get_row pe_id k (db_evidence d) of
                     None \<Rightarrow> Inl PrereviewEvidenceNotFound
                   | Some e \<Rightarrow>
                       if pe_review_status e \<noteq> RW_PENDING_REVIEW
                       then Inl (PrereviewConflict ''El comprobante ya fue revisado por un asesor.'')
                       else if \<not> downloaded_or_failed e
                       then Inl (PrereviewConflict (''El comprobante a'' @ u_acute @ ''n no est'' @ a_acute @ '' disponible.''))
                       else if \<not> lease_available expired_before e
                       then Inl (PrereviewConflict (''La pre-revisi'' @ o_acute @ ''n est'' @ a_acute @ '' en curso''))
                       else Inr (Some (lease_prereview now e d))))"

section \<open>The extraction\<close>

record telemetry =
  tm_latency_ms :: int
  tm_prompt_tokens :: int
  tm_completion_tokens :: int

record 'w review_io =
  ro_ucd :: ucd
  ro_resolve :: "string \<Rightarrow> string"
  ro_is_file :: "string \<Rightarrow> bool"
  ro_size :: "string \<Rightarrow> nat"
  ro_read :: "string \<Rightarrow> 'w \<Rightarrow> string option \<times> 'w"
  ro_extract :: "string \<Rightarrow> string \<Rightarrow> 'w \<Rightarrow> (string \<times> telemetry, receipt_extraction \<times> telemetry) result \<times> 'w"
  ro_dump :: "receipt_extraction \<Rightarrow> json"

definition image_suffixes :: "(string \<times> string) list" where
  "image_suffixes = [(''image/jpeg'', ''.jpg''), (''image/png'', ''.png''), (''image/webp'', ''.webp'')]"

definition relative_to :: "string \<Rightarrow> string \<Rightarrow> bool" where
  "relative_to root_dir path \<longleftrightarrow> path_root path = path_root root_dir \<and> is_prefix (path_parts root_dir) (path_parts path)"

text \<open>
  \<open>path.suffix\<close> and \<open>path.stem\<close>: the last dot of the name, unless it begins or ends the name.
\<close>

definition file_name :: "string \<Rightarrow> string" where
  "file_name path = (case rev (path_parts path) of [] \<Rightarrow> [] | n # _ \<Rightarrow> n)"

definition suffix_length :: "string \<Rightarrow> nat" where
  "suffix_length name =
     (let tail_len = length (takeWhile (\<lambda>c. c \<noteq> CHR ''.'') (rev name))
      in if tail_len = 0 \<or> length name \<le> tail_len + 1 then 0 else tail_len + 1)"

definition file_suffix :: "string \<Rightarrow> string" where
  "file_suffix path = drop (length (file_name path) - suffix_length (file_name path)) (file_name path)"

definition file_stem :: "string \<Rightarrow> string" where
  "file_stem path = take (length (file_name path) - suffix_length (file_name path)) (file_name path)"

definition lower_ascii :: "string \<Rightarrow> string" where
  "lower_ascii s = map (\<lambda>c. let n = (of_char c :: nat) in if 65 \<le> n \<and> n \<le> 90 then char_of (n + 32) else c) s"

definition readable_evidence :: "'w review_io \<Rightarrow> settings \<Rightarrow> prereview_claim \<Rightarrow> string \<Rightarrow> string \<Rightarrow> bool" where
  "readable_evidence io st claim path extension \<longleftrightarrow>
     relative_to (ro_resolve io (st_payment_evidence_dir st)) path \<and>
     file_stem path = show_int (rk_evidence_id claim) \<and> lower_ascii (file_suffix path) = extension \<and>
     ro_is_file io path \<and> ro_size io path \<le> st_inbound_media_max_mb st * 1024 * 1024"

record extraction_outcome =
  xo_status :: attempt_status
  xo_error :: "string option"
  xo_extracted :: "receipt_extraction option"
  xo_provider_called :: bool
  xo_telemetry :: telemetry

definition no_telemetry :: telemetry where
  "no_telemetry = \<lparr>tm_latency_ms = 0, tm_prompt_tokens = 0, tm_completion_tokens = 0\<rparr>"

definition not_extracted :: "attempt_status \<Rightarrow> string \<Rightarrow> extraction_outcome" where
  "not_extracted status err = \<lparr>xo_status = status, xo_error = Some err, xo_extracted = None,
     xo_provider_called = False, xo_telemetry = no_telemetry\<rparr>"

definition run_extraction ::
  "'w review_io \<Rightarrow> settings \<Rightarrow> prereview_claim \<Rightarrow> 'w \<Rightarrow> extraction_outcome \<times> 'w" where
  "run_extraction io st claim w =
     (if rk_download_status claim = DL_FAILED_PERMANENT then (not_extracted AT_SKIPPED ''DOWNLOAD_FAILED_PERMANENT'', w)
      else (case map_of image_suffixes (rk_mime_type claim) of
         None \<Rightarrow> (not_extracted AT_SKIPPED ''UNSUPPORTED_IMAGE_MIME'', w)
       | Some extension \<Rightarrow>
           let path = ro_resolve io (case rk_storage_path claim of None \<Rightarrow> [] | Some p \<Rightarrow> p)
           in if \<not> readable_evidence io st claim path extension then (not_extracted AT_FAILED ''FILE_UNAVAILABLE'', w)
              else (case ro_read io path w of
                (None, w1) \<Rightarrow> (not_extracted AT_FAILED ''FILE_UNAVAILABLE'', w1)
              | (Some content, w1) \<Rightarrow>
                  (case ro_extract io content (rk_mime_type claim) w1 of
                     (Inl (code, tm), w2) \<Rightarrow>
                       (\<lparr>xo_status = AT_FAILED, xo_error = Some code, xo_extracted = None,
                         xo_provider_called = True, xo_telemetry = tm\<rparr>, w2)
                   | (Inr (x, tm), w2) \<Rightarrow>
                       (\<lparr>xo_status = AT_COMPLETED, xo_error = None, xo_extracted = Some x,
                         xo_provider_called = True, xo_telemetry = tm\<rparr>, w2)))))"

section \<open>Settling the lease\<close>

text \<open>The latest completed extraction of every accepted receipt.\<close>

definition accepted_reviews :: "db \<Rightarrow> evidence_review list" where
  "accepted_reviews d =
     concat (map (\<lambda>e. case first_by (\<lambda>a b. er_attempt_number b < er_attempt_number a)
            (filter (\<lambda>r. er_evidence_id r = pe_id e \<and> er_status r = AT_COMPLETED) (db_reviews d)) of
          None \<Rightarrow> [] | Some r \<Rightarrow> [r])
       (filter (\<lambda>e. pe_review_status e = RW_ACCEPTED) (db_evidence d)))"

definition reference_of :: "evidence_review \<Rightarrow> string list" where
  "reference_of r = (case er_extracted r of None \<Rightarrow> []
     | Some x \<Rightarrow> (case jget ''reference'' x of JStr s \<Rightarrow> if s = [] then [] else [s] | _ \<Rightarrow> []))"

definition check_json :: "receipt_check \<Rightarrow> json" where
  "check_json c = JObj [(''code'', JStr (check_code_str (rc_code c))), (''result'', JStr (check_result_str (rc_result c))),
     (''detail'', JStr (rc_detail c))]"

definition audited_check :: "receipt_check \<Rightarrow> json" where
  "audited_check c = JObj [(''code'', JStr (check_code_str (rc_code c))), (''result'', JStr (check_result_str (rc_result c)))]"

definition receipt_prompt_version :: string where
  "receipt_prompt_version = ''receipt_v1''"

definition discard_prereview :: "prereview_claim \<Rightarrow> string \<Rightarrow> instant \<Rightarrow> db \<Rightarrow> db" where
  "discard_prereview claim rid now d =
     (let row = get_row pe_id (rk_evidence_id claim) (db_evidence d);
          d1 = (case row of
                  None \<Rightarrow> d
                | Some e \<Rightarrow> if pe_prereview_claim_token e = Some (rk_token claim)
                            then put_evidence (e\<lparr>pe_prereview_claim_token := None, pe_prereview_claimed_at := None\<rparr>) d
                            else d)
      in audit_at now ''SYSTEM'' ''PAYMENT_PREREVIEW_DISCARDED'' ''payment_evidence''
           (Some (JObj [(''evidence_id'', JInt (rk_evidence_id claim)), (''claim_token'', JStr (uuid_str (rk_token claim)))]))
           (Some (JObj [(''evidence_id'', JInt (rk_evidence_id claim)),
              (''review_status'', opt_json (\<lambda>e. JStr (review_status_str (pe_review_status e))) row)]))
           (''La evidencia cambi'' @ o_acute @ '' durante la pre-revisi'' @ o_acute @ ''n'') (Some rid) d1)"

definition evaluated :: "'w review_io \<Rightarrow> settings \<Rightarrow> evidence \<Rightarrow> receipt_extraction \<Rightarrow> instant \<Rightarrow> db
     \<Rightarrow> receipt_check list \<times> suggestion \<times> int option" where
  "evaluated io st e x now d =
     evaluate_receipt (ro_ucd io) st x
       (case pe_reservation_id e of None \<Rightarrow> None | Some k \<Rightarrow> get_row rv_id k (db_reservations d))
       (concat (map reference_of (accepted_reviews d))) now"

definition record_execution ::
  "settings \<Rightarrow> prereview_claim \<Rightarrow> evidence \<Rightarrow> extraction_outcome \<Rightarrow> db \<Rightarrow> int option \<times> db" where
  "record_execution st claim e o1 d =
     (if \<not> xo_provider_called o1 then (None, d)
      else (case next_serial d of (k, d1) \<Rightarrow>
        (Some k, d1\<lparr>db_ai_executions := db_ai_executions d1 @
           [\<lparr>ax_id = k, ax_task = ''RECEIPT_EXTRACTION'', ax_model = st_openrouter_model_vision st,
             ax_prompt_version = receipt_prompt_version, ax_latency_ms = tm_latency_ms (xo_telemetry o1),
             ax_success = (xo_status o1 = AT_COMPLETED), ax_error_reason = xo_error o1,
             ax_conversation_id = Some (pe_conversation_id e),
             ax_input_payload = JObj [(''evidence_id'', JInt (pe_id e)), (''mime'', JStr (rk_mime_type claim)),
               (''tokens'', JObj [(''prompt_tokens'', JInt (tm_prompt_tokens (xo_telemetry o1))),
                                 (''completion_tokens'', JInt (tm_completion_tokens (xo_telemetry o1)))])],
             ax_validation_status = (if xo_status o1 = AT_COMPLETED then ''VALID''
                else if xo_error o1 = Some ''INVALID_SCHEMA'' then ''INVALID_SCHEMA'' else ''HTTP_ERROR'')\<rparr>]\<rparr>)))"

definition settle_prereview ::
  "'w review_io \<Rightarrow> settings \<Rightarrow> prereview_claim \<Rightarrow> evidence \<Rightarrow> extraction_outcome \<Rightarrow> string \<Rightarrow> instant \<Rightarrow> db
     \<Rightarrow> evidence_review \<times> db" where
  "settle_prereview io st claim e o1 rid now d =
     (case uuid4 d of (review_id, d1) \<Rightarrow>
        let attempt_number = (case latest_review (pe_id e) d of None \<Rightarrow> 1 | Some p \<Rightarrow> er_attempt_number p + 1);
            (checks, proposal, amount) = (case xo_extracted o1 of
               None \<Rightarrow> ([], SG_REVIEW, None) | Some x \<Rightarrow> evaluated io st e x now d1);
            (execution, d2) = record_execution st claim e o1 d1;
            review = \<lparr>er_id = review_id, er_evidence_id = pe_id e, er_created_at = now,
              er_model = st_openrouter_model_vision st, er_prompt_version = receipt_prompt_version,
              er_status = xo_status o1, er_extracted = map_option (ro_dump io) (xo_extracted o1),
              er_checks = JList (map check_json checks), er_suggestion = proposal,
              er_suggested_amount_cop = amount, er_ai_execution_id = execution, er_error = xo_error o1,
              er_attempt_number = attempt_number\<rparr>;
            d3 = put_evidence (e\<lparr>pe_prereview_claim_token := None, pe_prereview_claimed_at := None\<rparr>)
                   (d2\<lparr>db_reviews := db_reviews d2 @ [review]\<rparr>)
        in (review, audit_at now ''SYSTEM'' ''PAYMENT_EVIDENCE_PREREVIEWED'' ''payment_evidence'' None
             (Some (JObj [(''evidence_id'', JInt (pe_id e)), (''review_id'', JStr (uuid_str review_id)),
                (''suggestion'', JStr (suggestion_str proposal)), (''status'', JStr (attempt_status_str (xo_status o1))),
                (''checks'', JList (map audited_check checks)), (''attempt_number'', JInt (int attempt_number))]))
             (''Pre-revisi'' @ o_acute @ ''n asistida; requiere confirmaci'' @ o_acute @ ''n humana'') (Some rid) d3))"

text \<open>\<open>other\<close> is what other workers commit while the model reads the receipt.\<close>

definition prereview_evidence ::
  "'w review_io \<Rightarrow> settings \<Rightarrow> prereview_claim \<Rightarrow> string option \<Rightarrow> instant \<Rightarrow> (db \<Rightarrow> db) \<Rightarrow> db \<Rightarrow> 'w
     \<Rightarrow> evidence_review option \<times> db \<times> 'w" where
  "prereview_evidence io st claim request_id now other d w =
     (let (rid, d1) = (case request_id of
             Some (a # r) \<Rightarrow> (a # r, d) | _ \<Rightarrow> (case uuid4 d of (k, d1) \<Rightarrow> (uuid_str k, d1)));
          (o1, w1) = run_extraction io st claim w;
          d2 = other d1
      in case get_row pe_id (rk_evidence_id claim) (db_evidence d2) of
           None \<Rightarrow> (None, discard_prereview claim rid now d2, w1)
         | Some e \<Rightarrow>
             if pe_review_status e \<noteq> RW_PENDING_REVIEW \<or> pe_prereview_claim_token e \<noteq> Some (rk_token claim)
             then (None, discard_prereview claim rid now d2, w1)
             else (case settle_prereview io st claim e o1 rid now d2 of (review, d3) \<Rightarrow> (Some review, d3, w1)))"

definition process_payment_prereview_once ::
  "'w review_io \<Rightarrow> settings \<Rightarrow> instant \<Rightarrow> (db \<Rightarrow> db) \<Rightarrow> db \<Rightarrow> 'w \<Rightarrow> (app_error, nat) result \<times> db \<times> 'w" where
  "process_payment_prereview_once io st now other d w =
     (case claim_prereview_evidence st now None d of
        Inl e \<Rightarrow> (Inl e, d, w)
      | Inr None \<Rightarrow> (Inr 0, d, w)
      | Inr (Some (claim, d1)) \<Rightarrow>
          (case prereview_evidence io st claim None now other d1 w of (_, d2, w1) \<Rightarrow> (Inr 1, d2, w1)))"

end
