(* ===== verification/Receipt_Facts.thy ===== *)
theory Receipt_Facts
  imports Receipt_Review
begin

text \<open>
  What the assisted review guarantees: it never settles a payment, a worker that lost its lease leaves no
  review, the automatic attempts are bounded, the suggestion follows exactly from the readings, and
  the deposit it compares with is the one the booking asks for.
\<close>

section \<open>Frames\<close>

definition human_fields :: "evidence \<Rightarrow> int \<times> review_status \<times> int option \<times> instant option \<times> int option \<times> uuid option" where
  "human_fields e = (pe_id e, pe_review_status e, pe_amount_cop e, pe_reviewed_at e, pe_reviewed_by_agent_id e,
     pe_reservation_id e)"

lemma put_evidence_human:
  assumes "keys_ok pe_id (db_evidence d)" and "get_row pe_id k (db_evidence d) = Some e" and "human_fields e' = human_fields e"
  shows "map human_fields (db_evidence (put_evidence e' d)) = map human_fields (db_evidence d)"
proof -
  have e: "e \<in> set (db_evidence d)" "pe_id e' = pe_id e" using get_row_SomeD [OF assms(2)] assms(3) by (simp_all add: human_fields_def)
  have "x = e" if "x \<in> set (db_evidence d)" "pe_id x = pe_id e'" for x
    using get_row_mem [OF assms(1) that(1)] get_row_mem [OF assms(1) e(1)] that(2) e(2) by (metis option.inject)
  then show ?thesis using assms(3) by (auto simp: put_row_def)
qed

lemma discard_prereview_frame:
  assumes "keys_ok pe_id (db_evidence d)"
  shows "db_reservations (discard_prereview claim rid now d) = db_reservations d \<and>
    map human_fields (db_evidence (discard_prereview claim rid now d)) = map human_fields (db_evidence d) \<and>
    db_reviews (discard_prereview claim rid now d) = db_reviews d"
proof (cases "get_row pe_id (rk_evidence_id claim) (db_evidence d)")
  case (Some e)
  have "map human_fields (db_evidence (put_evidence (e\<lparr>pe_prereview_claim_token := None, pe_prereview_claimed_at := None\<rparr>) d)) =
      map human_fields (db_evidence d)"
    by (rule put_evidence_human [OF assms Some]) (simp add: human_fields_def)
  then show ?thesis by (simp add: discard_prereview_def Some audit_at_def Let_def put_evidence_def)
qed (simp add: discard_prereview_def audit_at_def Let_def)

lemma record_execution_frame [simp]:
  "db_reservations (snd (record_execution st claim e o1 d)) = db_reservations d"
  "db_evidence (snd (record_execution st claim e o1 d)) = db_evidence d"
  "db_reviews (snd (record_execution st claim e o1 d)) = db_reviews d"
  by (simp_all add: record_execution_def next_serial_def)

lemma settle_prereview_D:
  assumes "settle_prereview io st claim e o1 rid now d = (v, d')"
  shows "db_reservations d' = db_reservations d \<and> db_reviews d' = db_reviews d @ [v] \<and> er_evidence_id v = pe_id e \<and>
    db_evidence d' = put_row pe_id (e\<lparr>pe_prereview_claim_token := None, pe_prereview_claimed_at := None\<rparr>) (db_evidence d)"
  using assms
  by (auto simp: settle_prereview_def uuid4_def audit_at_def put_evidence_def case_prod_beta Let_def)

section \<open>The suggestion\<close>

lemma check_of_simps [simp]:
  "rc_code (check_of c r t) = c" "rc_result (check_of c r t) = r"
  by (simp_all add: check_of_def)

definition account_readable :: "ucd \<Rightarrow> settings \<Rightarrow> receipt_extraction \<Rightarrow> bool" where
  "account_readable u st x \<longleftrightarrow> rx_destination_account_last4 x \<noteq> None \<and> 4 \<le> length (account_digits u st)"

definition account_matches :: "ucd \<Rightarrow> settings \<Rightarrow> receipt_extraction \<Rightarrow> bool" where
  "account_matches u st x \<longleftrightarrow> map_option utf8_decode (rx_destination_account_last4 x) =
     Some (drop (length (account_digits u st) - 4) (account_digits u st))"

definition reference_text :: "ucd \<Rightarrow> receipt_extraction \<Rightarrow> string" where
  "reference_text u x = normalize_reference u (case rx_reference x of None \<Rightarrow> [] | Some s \<Rightarrow> s)"

definition reference_used :: "ucd \<Rightarrow> receipt_extraction \<Rightarrow> string list \<Rightarrow> bool" where
  "reference_used u x previous \<longleftrightarrow> reference_text u x \<noteq> [] \<and> reference_text u x \<in> normalize_reference u ` set previous"

lemma code_simps [simp]:
  "rc_code (amount_check st x r) = CK_AMOUNT" "rc_code (currency_check x) = CK_CURRENCY"
  "rc_code (account_check u st x) = CK_ACCOUNT" "rc_code (date_check x r now) = CK_DATE"
  "rc_code (reference_check u x prev) = CK_REFERENCE" "rc_code (confidence_check st x) = CK_CONFIDENCE"
  by (simp_all add: amount_check_def currency_check_def account_check_def date_check_def reference_check_def
      confidence_check_def Let_def split: option.split)

lemma account_result:
  "rc_result (account_check u st x) = (if \<not> account_readable u st x then CR_UNKNOWN
     else if account_matches u st x then CR_OK else CR_FAIL)"
  by (auto simp: account_check_def account_readable_def account_matches_def Let_def split: option.split)

lemma reference_result:
  "rc_result (reference_check u x prev) = (if reference_text u x = [] then CR_UNKNOWN
     else if reference_used u x prev then CR_FAIL else CR_OK)"
  by (simp add: reference_check_def reference_text_def reference_used_def Let_def)

lemma amount_ok_iff:
  "rc_result (amount_check st x r) = CR_OK \<longleftrightarrow>
     (\<exists>s a. r = Some s \<and> rx_amount_cop x = Some a \<and> 0 < a \<and> missing_amount st s \<le> a)"
  by (auto simp: amount_check_def positive_amount_def split: option.splits)

lemma currency_ok_iff:
  "rc_result (currency_check x) = CR_OK \<longleftrightarrow> (\<forall>c. rx_currency x = Some c \<longrightarrow> upper (strip c) = ''COP'')"
  "rc_result (currency_check x) \<noteq> CR_UNKNOWN"
  by (simp_all add: currency_check_def split: option.splits)

lemma date_ok_iff:
  "rc_result (date_check x r now) \<in> {CR_OK, CR_UNKNOWN} \<longleftrightarrow>
     (\<forall>t. rx_transaction_date x = Some t \<longrightarrow> t \<le> bogota_date now + 1 \<and>
        (\<forall>s. r = Some s \<longrightarrow> bogota_date (rv_created_at s) \<le> t + 2))"
  by (auto simp: date_check_def Let_def split: option.splits)

lemma confidence_ok_iff:
  "rc_result (confidence_check st x) = CR_OK \<longleftrightarrow> st_payment_review_confidence_ok st \<le> rx_confidence x"
  by (simp add: confidence_check_def)

lemma missing_amount_pending:
  "rv_status r \<noteq> RV_RESERVED \<Longrightarrow> deposit_amount st (rv_price_cop r) = Inr a \<Longrightarrow>
     missing_amount st r = max 0 (a - rv_amount_paid_cop r)"
  by (simp add: missing_amount_def deposit_amount_Inr_iff)

section \<open>The lease\<close>

definition attempts_of :: "int \<Rightarrow> db \<Rightarrow> nat" where
  "attempts_of k d = length (filter (\<lambda>r. er_evidence_id r = k) (db_reviews d))"

lemma automatic_claim_D:
  assumes "claim_prereview_evidence st now None d = Inr (Some (claim, d1))"
  shows "\<exists>e. e \<in> set (db_evidence d) \<and> rk_evidence_id claim = pe_id e \<and> pe_review_status e = RW_PENDING_REVIEW \<and>
    attempts_of (pe_id e) d < st_payment_review_max_attempts st \<and> db_reviews d1 = db_reviews d \<and>
    (\<forall>r \<in> set (db_reviews d). er_evidence_id r = pe_id e \<longrightarrow> er_status r = AT_FAILED)"
proof -
  let ?exp = "now - seconds (st_outbox_sending_timeout_seconds st)"
  obtain e where e: "first_by first_evidence (filter (prereview_due st ?exp d) (db_evidence d)) = Some e"
    and l: "lease_prereview now e d = (claim, d1)"
    using assms by (auto simp: claim_prereview_evidence_def Let_def split: if_splits option.splits)
  have mem: "e \<in> set (db_evidence d)" and due: "prereview_due st ?exp d e" using first_by_SomeD [OF e] by simp_all
  have status: "er_status r = AT_FAILED" if "r \<in> set (db_reviews d)" "er_evidence_id r = pe_id e" for r
    using due that by (cases "er_status r") (auto simp: prereview_due_def list_ex_iff Let_def)
  have "pe_review_status e = RW_PENDING_REVIEW" "attempts_of (pe_id e) d < st_payment_review_max_attempts st"
    using due by (simp_all add: prereview_due_def attempts_of_def Let_def)
  moreover have "rk_evidence_id claim = pe_id e" "db_reviews d1 = db_reviews d"
    using l by (auto simp: lease_prereview_def uuid4_def put_evidence_def)
  ultimately show ?thesis using mem status by blast
qed

lemma prereview_D:
  assumes "prereview_evidence io st claim req now other d w = (v, d', w')"
  shows "\<exists>x. (x = d \<or> x = snd (uuid4 d)) \<and>
    db_reviews d' = db_reviews (other x) @ (case v of None \<Rightarrow> [] | Some r \<Rightarrow> [r]) \<and>
    (\<forall>r. v = Some r \<longrightarrow> er_evidence_id r = rk_evidence_id claim \<and>
       (\<exists>e. get_row pe_id (rk_evidence_id claim) (db_evidence (other x)) = Some e \<and>
          pe_review_status e = RW_PENDING_REVIEW \<and> pe_prereview_claim_token e = Some (rk_token claim))) \<and>
    db_reservations d' = db_reservations (other x) \<and>
    (keys_ok pe_id (db_evidence (other x)) \<longrightarrow> map human_fields (db_evidence d') = map human_fields (db_evidence (other x)))"
proof -
  define base where "base = (case req of Some (a # r) \<Rightarrow> (a # r, d) | _ \<Rightarrow> (case uuid4 d of (k, d1) \<Rightarrow> (uuid_str k, d1)))"
  have b: "snd base = d \<or> snd base = snd (uuid4 d)"
    by (auto simp: base_def uuid4_def split: option.split list.split)
  obtain rid d1 where base: "base = (rid, d1)" by fastforce
  obtain o1 w1 where ex: "run_extraction io st claim w = (o1, w1)" by fastforce
  note run = assms [unfolded prereview_evidence_def base_def [symmetric] base ex Let_def prod.case]
  show ?thesis
  proof (cases "get_row pe_id (rk_evidence_id claim) (db_evidence (other d1))")
    case None
    with run have "v = None" "d' = discard_prereview claim rid now (other d1)" by simp_all
    with b base discard_prereview_frame [of "other d1" claim rid now] None show ?thesis
      by (auto simp: discard_prereview_def audit_at_def Let_def)
  next
    case (Some e)
    have id: "pe_id e = rk_evidence_id claim" using get_row_SomeD [OF Some] by simp
    show ?thesis
    proof (cases "pe_review_status e \<noteq> RW_PENDING_REVIEW \<or> pe_prereview_claim_token e \<noteq> Some (rk_token claim)")
      case True
      with run Some have v: "v = None" and d': "d' = discard_prereview claim rid now (other d1)" by auto
      have "db_reviews d' = db_reviews (other d1)" "db_reservations d' = db_reservations (other d1)"
        by (simp_all add: d' discard_prereview_def audit_at_def Let_def put_evidence_def split: option.split)
      with v d' b base discard_prereview_frame [of "other d1" claim rid now] show ?thesis by auto
    next
      case False
      obtain r d3 where st: "settle_prereview io st claim e o1 rid now (other d1) = (r, d3)" by fastforce
      with run Some False have v: "v = Some r" and d': "d' = d3" by simp_all
      note S = settle_prereview_D [OF st]
      have "map human_fields (db_evidence d3) = map human_fields (db_evidence (other d1))" if "keys_ok pe_id (db_evidence (other d1))"
        using put_evidence_human [OF that Some, of "e\<lparr>pe_prereview_claim_token := None, pe_prereview_claimed_at := None\<rparr>"] S
        by (simp add: human_fields_def)
      with S v d' b base id Some False show ?thesis by auto
    qed
  qed
qed

section \<open>Properties\<close>

text \<open>C34. The assisted review never settles a payment: whatever the model extracts, no booking changes and no receipt's
  decision, amount, reviewer or booking changes; at most one review is added, and only by the worker whose
  lease the pending receipt still carries.\<close>

theorem prereview_never_settles:
  assumes "prereview_evidence io st claim req now other d w = (v, d', w')"
    and "\<And>x. keys_ok pe_id (db_evidence x) \<Longrightarrow> keys_ok pe_id (db_evidence (other x))"
    and "keys_ok pe_id (db_evidence d)"
  shows "\<exists>x. (x = d \<or> x = snd (uuid4 d)) \<and> db_reservations d' = db_reservations (other x) \<and>
    map human_fields (db_evidence d') = map human_fields (db_evidence (other x)) \<and>
    db_reviews d' = db_reviews (other x) @ (case v of None \<Rightarrow> [] | Some r \<Rightarrow> [r]) \<and>
    (v \<noteq> None \<longrightarrow> (\<exists>e. get_row pe_id (rk_evidence_id claim) (db_evidence (other x)) = Some e \<and>
       pe_review_status e = RW_PENDING_REVIEW \<and> pe_prereview_claim_token e = Some (rk_token claim)))"
proof -
  from prereview_D [OF assms(1)] obtain x where x: "x = d \<or> x = snd (uuid4 d)"
    and r: "db_reviews d' = db_reviews (other x) @ (case v of None \<Rightarrow> [] | Some r \<Rightarrow> [r])"
      "\<forall>r. v = Some r \<longrightarrow> er_evidence_id r = rk_evidence_id claim \<and>
       (\<exists>e. get_row pe_id (rk_evidence_id claim) (db_evidence (other x)) = Some e \<and>
          pe_review_status e = RW_PENDING_REVIEW \<and> pe_prereview_claim_token e = Some (rk_token claim))"
      "db_reservations d' = db_reservations (other x)"
      "keys_ok pe_id (db_evidence (other x)) \<longrightarrow> map human_fields (db_evidence d') = map human_fields (db_evidence (other x))"
    by blast
  have "keys_ok pe_id (db_evidence x)" using x assms(3) by (auto simp: uuid4_def)
  with x r assms(2) show ?thesis by blast
qed

definition sample_review_io :: "unit review_io" where
  "sample_review_io = \<lparr>ro_ucd = ascii_ucd, ro_resolve = (\<lambda>p. p), ro_is_file = (\<lambda>_. True), ro_size = (\<lambda>_. 10),
     ro_read = (\<lambda>p w. (Some [], w)), ro_extract = (\<lambda>c m w. (Inl (''MODEL_UNAVAILABLE'', no_telemetry), w)), ro_dump = (\<lambda>_. JNull)\<rparr>"

definition sample_prereview_claim :: prereview_claim where
  "sample_prereview_claim = \<lparr>rk_evidence_id = 61, rk_token = 9, rk_conversation_id = 1, rk_storage_path = None,
     rk_mime_type = ''image/heic'', rk_download_status = DL_DOWNLOADED\<rparr>"

definition leased_db :: db where
  "leased_db = sample_db\<lparr>db_evidence := [sample_evidence\<lparr>pe_prereview_claim_token := Some 9\<rparr>]\<rparr>"

lemma prereview_never_settles_witness:
  "\<exists>v d'. prereview_evidence sample_review_io sample_settings sample_prereview_claim (Some ''r'') sample_now (\<lambda>x. x) leased_db () = (v, d', ()) \<and>
     db_reservations d' = [sample_reservation] \<and> map human_fields (db_evidence d') = [human_fields sample_evidence]"
proof -
  obtain v d' where run: "prereview_evidence sample_review_io sample_settings sample_prereview_claim (Some ''r'') sample_now (\<lambda>x. x) leased_db () = (v, d', ())"
    by (metis prod_cases3 old.unit.exhaust)
  have "keys_ok pe_id (db_evidence leased_db)" by (simp add: leased_db_def keys_ok_def)
  from prereview_never_settles [OF run _ this] obtain x where "x = leased_db \<or> x = snd (uuid4 leased_db)"
    "db_reservations d' = db_reservations x" "map human_fields (db_evidence d') = map human_fields (db_evidence x)" by auto
  then have "db_reservations d' = [sample_reservation] \<and> map human_fields (db_evidence d') = [human_fields sample_evidence]"
    by (auto simp: leased_db_def uuid4_def human_fields_def)
  with run show ?thesis by (intro exI [of _ v] exI [of _ d'] conjI) simp_all
qed

text \<open>C33. The suggestion is exact. It rejects when the receipt names another account or a reference that an accepted
  receipt used; otherwise it accepts exactly when the amount covers what the booking lacks, the currency and the
  account agree, the date is neither in the future nor too old, and the reading is confident; the suggested
  amount is positive.\<close>

theorem receipt_suggestion_exact:
  "(let rejected = (account_readable u st x \<and> \<not> account_matches u st x) \<or> reference_used u x previous;
        accepted = \<not> rejected \<and> account_readable u st x \<and>
          (\<exists>s a. r = Some s \<and> rx_amount_cop x = Some a \<and> 0 < a \<and> missing_amount st s \<le> a) \<and>
          (\<forall>c. rx_currency x = Some c \<longrightarrow> upper (strip c) = ''COP'') \<and>
          (\<forall>t. rx_transaction_date x = Some t \<longrightarrow> t \<le> bogota_date now + 1 \<and>
             (\<forall>s. r = Some s \<longrightarrow> bogota_date (rv_created_at s) \<le> t + 2)) \<and>
          st_payment_review_confidence_ok st \<le> rx_confidence x
    in fst (snd (evaluate_receipt u st x r previous now)) =
         (if rejected then SG_REJECT else if accepted then SG_ACCEPT else SG_REVIEW)) \<and>
   (\<forall>a. snd (snd (evaluate_receipt u st x r previous now)) = Some a \<longrightarrow> 0 < a)"
proof -
  let ?checks = "[amount_check st x r, currency_check x, account_check u st x, date_check x r now,
      reference_check u x previous, confidence_check st x]"
  have ev: "evaluate_receipt u st x r previous now = (?checks, suggestion_of ?checks, positive_amount x)"
    by (simp add: evaluate_receipt_def Let_def)
  have rej: "list_ex (\<lambda>c. rc_code c \<in> {CK_ACCOUNT, CK_REFERENCE} \<and> rc_result c = CR_FAIL) ?checks \<longleftrightarrow>
      (account_readable u st x \<and> \<not> account_matches u st x) \<or> reference_used u x previous"
    by (auto simp: account_result reference_result reference_used_def)
  have acc: "list_all (\<lambda>c. rc_result c = CR_OK \<or> (rc_result c = CR_UNKNOWN \<and> rc_code c \<in> {CK_DATE, CK_REFERENCE})) ?checks \<longleftrightarrow>
      rc_result (amount_check st x r) = CR_OK \<and> rc_result (currency_check x) = CR_OK \<and>
      rc_result (account_check u st x) = CR_OK \<and> rc_result (date_check x r now) \<in> {CR_OK, CR_UNKNOWN} \<and>
      rc_result (reference_check u x previous) \<in> {CR_OK, CR_UNKNOWN} \<and> rc_result (confidence_check st x) = CR_OK"
    by auto
  have ref: "rc_result (reference_check u x previous) \<in> {CR_OK, CR_UNKNOWN} \<longleftrightarrow> \<not> reference_used u x previous"
    by (auto simp: reference_result reference_used_def)
  have acct: "rc_result (account_check u st x) = CR_OK \<longleftrightarrow> account_readable u st x \<and> account_matches u st x"
    by (simp add: account_result)
  have pos: "\<forall>a. positive_amount x = Some a \<longrightarrow> 0 < a"
    by (simp add: positive_amount_def split: option.split)
  show ?thesis
    unfolding ev fst_conv snd_conv suggestion_of_def rej acc ref acct amount_ok_iff currency_ok_iff(1) date_ok_iff
      confidence_ok_iff Let_def
    using pos by auto
qed

text \<open>The review compares with the same deposit the booking asks for: when it suggests accepting a receipt of a
  booking that is not confirmed yet, the payments reach \<open>deposit_amount\<close> with the suggested amount.\<close>

theorem accepted_suggestion_covers_deposit:
  assumes "evaluate_receipt u st x (Some r) previous now = (checks, SG_ACCEPT, amount)"
    and "rv_status r \<noteq> RV_RESERVED" and "0 < rv_price_cop r"
  shows "\<exists>a deposit. amount = Some a \<and> deposit_amount st (rv_price_cop r) = Inr deposit \<and>
    missing_amount st r = max 0 (deposit - rv_amount_paid_cop r) \<and> deposit \<le> rv_amount_paid_cop r + a"
proof -
  obtain deposit where dep: "deposit_amount st (rv_price_cop r) = Inr deposit"
    using assms(3) by (auto simp: deposit_amount_def Let_def)
  let ?checks = "[amount_check st x (Some r), currency_check x, account_check u st x, date_check x (Some r) now,
      reference_check u x previous, confidence_check st x]"
  have "suggestion_of ?checks = SG_ACCEPT" and amount: "amount = positive_amount x"
    using assms(1) by (auto simp: evaluate_receipt_def Let_def)
  then have "rc_result (amount_check st x (Some r)) = CR_OK"
    by (auto simp: suggestion_of_def split: if_splits)
  then obtain a where a: "rx_amount_cop x = Some a" "0 < a" "missing_amount st r \<le> a"
    by (auto simp: amount_ok_iff)
  with missing_amount_pending [OF assms(2) dep] dep amount show ?thesis
    by (auto simp: positive_amount_def)
qed

definition sample_extraction :: receipt_extraction where
  "sample_extraction = \<lparr>rx_amount_cop = Some 475000, rx_currency = None, rx_transaction_date = None,
     rx_transaction_time = None, rx_reference = None, rx_bank = None, rx_destination_account_last4 = Some ''6789'',
     rx_sender_name = None, rx_confidence = 9 / 10, rx_notes = None\<rparr>"

lemma accepted_suggestion_covers_deposit_witness:
  "\<exists>a. snd (snd (evaluate_receipt ascii_ucd sample_settings sample_extraction (Some sample_reservation) [] sample_now)) = Some a \<and>
     deposit_amount sample_settings (rv_price_cop sample_reservation) = Inr 475000 \<and> 475000 \<le> a"
proof -
  have d: "deposit_amount sample_settings (rv_price_cop sample_reservation) = Inr 475000"
    by (simp add: deposit_amount_def sample_settings_def sample_reservation_def)
  have "account_readable ascii_ucd sample_settings sample_extraction" "account_matches ascii_ucd sample_settings sample_extraction"
    by (simp_all add: account_readable_def account_matches_def account_digits_def sample_settings_def sample_extraction_def
        ascii_ucd_def utf8_decode_ascii)
  moreover have "\<not> reference_used ascii_ucd sample_extraction []" by (simp add: reference_used_def)
  moreover have "missing_amount sample_settings sample_reservation = 475000"
    by (simp add: missing_amount_def sample_settings_def sample_reservation_def)
  ultimately have acc: "fst (snd (evaluate_receipt ascii_ucd sample_settings sample_extraction (Some sample_reservation) [] sample_now)) = SG_ACCEPT"
    by (simp add: evaluate_receipt_def suggestion_of_def account_result amount_ok_iff currency_ok_iff(1) confidence_ok_iff
        reference_result Let_def)
       (simp add: sample_extraction_def sample_settings_def date_check_def reference_text_def normalize_reference_def
         ascii_ucd_def utf8_encode_def utf8_decode_def)
  obtain cs am where run: "evaluate_receipt ascii_ucd sample_settings sample_extraction (Some sample_reservation) [] sample_now = (cs, SG_ACCEPT, am)"
    using acc by (cases "evaluate_receipt ascii_ucd sample_settings sample_extraction (Some sample_reservation) [] sample_now") auto
  have "rv_status sample_reservation \<noteq> RV_RESERVED" "0 < rv_price_cop sample_reservation" "rv_amount_paid_cop sample_reservation = 0"
    by (simp_all add: sample_reservation_def)
  with accepted_suggestion_covers_deposit [OF run] d run show ?thesis by auto
qed

lemma receipt_suggestion_exact_witness:
  "fst (snd (evaluate_receipt ascii_ucd sample_settings (sample_extraction\<lparr>rx_destination_account_last4 := Some ''0000''\<rparr>)
     (Some sample_reservation) [] sample_now)) = SG_REJECT"
proof -
  let ?x = "sample_extraction\<lparr>rx_destination_account_last4 := Some ''0000''\<rparr>"
  have "account_readable ascii_ucd sample_settings ?x" "\<not> account_matches ascii_ucd sample_settings ?x"
    by (simp_all add: account_readable_def account_matches_def account_digits_def sample_settings_def sample_extraction_def
        ascii_ucd_def utf8_decode_ascii)
  with receipt_suggestion_exact [where u = ascii_ucd and st = sample_settings and x = ?x and
      r = "Some sample_reservation" and previous = "[]" and now = sample_now]
  show ?thesis by (simp add: Let_def)
qed

text \<open>Automatic reviews are bounded: a pass adds at most one review, to a receipt that had fewer than the configured
  attempts and no completed or skipped one, so that no receipt ever gets more automatic attempts than configured.\<close>

theorem automatic_reviews_bounded:
  assumes "process_payment_prereview_once io st now (\<lambda>x. x) d w = (res, d', w')"
  shows "attempts_of k d' \<le> max (attempts_of k d) (st_payment_review_max_attempts st) \<and>
    (attempts_of k d' \<noteq> attempts_of k d \<longrightarrow> attempts_of k d' = attempts_of k d + 1 \<and>
       (\<forall>r \<in> set (db_reviews d). er_evidence_id r = k \<longrightarrow> er_status r = AT_FAILED))"
proof (cases "claim_prereview_evidence st now None d")
  case (Inr c)
  show ?thesis
  proof (cases c)
    case (Some p)
    obtain claim d1 where p: "p = (claim, d1)" by (cases p)
    obtain v d2 w1 where run: "prereview_evidence io st claim None now (\<lambda>x. x) d1 w = (v, d2, w1)" by (metis prod_cases3)
    have d': "d' = d2" using assms Inr Some p run by (simp add: process_payment_prereview_once_def)
    from prereview_D [OF run] have rows: "db_reviews d2 = db_reviews d1 @ (case v of None \<Rightarrow> [] | Some r \<Rightarrow> [r])"
      and own: "\<forall>r. v = Some r \<longrightarrow> er_evidence_id r = rk_evidence_id claim" by (auto simp: uuid4_def)
    from automatic_claim_D [OF Inr [unfolded Some p]] obtain e :: evidence where e: "rk_evidence_id claim = pe_id e"
      "attempts_of (pe_id e) d < st_payment_review_max_attempts st" "db_reviews d1 = db_reviews d"
      "\<forall>r \<in> set (db_reviews d). er_evidence_id r = pe_id e \<longrightarrow> er_status r = AT_FAILED" by blast
    show ?thesis
    proof (cases v)
      case None
      with rows e d' show ?thesis by (simp add: attempts_of_def)
    next
      case (Some r)
      with own e have "er_evidence_id r = pe_id e" by simp
      with rows e d' Some show ?thesis by (cases "k = pe_id e") (simp_all add: attempts_of_def)
    qed
  qed (use assms Inr in \<open>simp add: process_payment_prereview_once_def\<close>)
qed (use assms in \<open>simp add: process_payment_prereview_once_def\<close>)

lemma automatic_reviews_bounded_witness:
  "\<exists>res d' w'. process_payment_prereview_once sample_review_io sample_settings sample_now (\<lambda>x. x) sample_db () = (res, d', w') \<and>
     attempts_of 61 d' \<le> 2"
proof -
  obtain res d' w' where run: "process_payment_prereview_once sample_review_io sample_settings sample_now (\<lambda>x. x) sample_db () = (res, d', w')"
    by (metis prod_cases3)
  have "attempts_of 61 sample_db = 0" "st_payment_review_max_attempts sample_settings = 2"
    by (simp_all add: attempts_of_def sample_db_def empty_db_def sample_settings_def)
  with automatic_reviews_bounded [OF run, of 61] run show ?thesis by auto
qed

end
