(* ===== verification/Reminders.thy ===== *)
theory Reminders
  imports Notification_Workers Booking_Availability
begin

text \<open>
  \<open>app/reservation/reminders.py\<close>: the scheduler that queues the reminders of an unpaid balance and marks
  the balances that are overdue. One pass is one transaction; rows locked by others are skipped in the
  code and are not part of the model's table.
\<close>

section \<open>Records of the scheduler\<close>

text \<open>\<open>AuditEvent.new_value["k"].as_string() = s\<close>.\<close>

definition new_value_is :: "string \<Rightarrow> string \<Rightarrow> audit_event \<Rightarrow> bool" where
  "new_value_is k s a \<longleftrightarrow> (case ae_new_value a of None \<Rightarrow> False | Some v \<Rightarrow> jget k v = JStr s)"

definition about_reservation :: "reservation \<Rightarrow> audit_event \<Rightarrow> bool" where
  "about_reservation r a \<longleftrightarrow> ae_entity a = ''reservation'' \<and> new_value_is ''reservation_id'' (uuid_str (rv_id r)) a"

definition audit_once ::
  "string \<Rightarrow> reservation \<Rightarrow> string \<Rightarrow> string \<Rightarrow> instant \<Rightarrow> string \<Rightarrow> db \<Rightarrow> db" where
  "audit_once action r kind reason now request_id d =
     (if list_ex (\<lambda>a. ae_action a = action \<and> about_reservation r a \<and> new_value_is ''kind'' kind a) (db_audit d) then d
      else audit_at now ''SYSTEM'' action ''reservation'' None
             (Some (JObj [(''reservation_id'', JStr (uuid_str (rv_id r))), (''kind'', JStr kind),
                (''starts_at'', JStr (instant_iso (rv_starts_at r))), (''ends_at'', JStr (instant_iso (rv_ends_at r)))]))
             reason (Some request_id) d)"

definition later_audit :: "audit_event \<Rightarrow> audit_event \<Rightarrow> bool" where
  "later_audit a b \<longleftrightarrow> ae_created_at b < ae_created_at a \<or> (ae_created_at a = ae_created_at b \<and> ae_id b < ae_id a)"

definition reserved_at :: "reservation \<Rightarrow> db \<Rightarrow> instant" where
  "reserved_at r d =
     (case first_by later_audit (filter (\<lambda>a. ae_action a = ''RESERVATION_STATUS_CHANGED'' \<and> about_reservation r a \<and>
             new_value_is ''status'' ''RESERVED'' a) (db_audit d)) of
        None \<Rightarrow> rv_created_at r | Some a \<Rightarrow> ae_created_at a)"

section \<open>One reminder\<close>

definition first_name :: "customer \<Rightarrow> string" where
  "first_name cu = (case cu_full_name cu of
      None \<Rightarrow> ''cliente''
    | Some n \<Rightarrow> if blank n then ''cliente''
                else utf8_encode (takeWhile (\<lambda>c. \<not> is_space c) (dropWhile is_space (utf8_decode n))))"

definition reminder_params :: "reservation \<Rightarrow> customer \<Rightarrow> instant \<Rightarrow> db \<Rightarrow> (app_error, string list) result" where
  "reminder_params r cu due_at d =
     (case get_row pl_id (rv_plan_id r) (db_plans d) of
        None \<Rightarrow> Inl (OtherError ''AttributeError'')
      | Some p \<Rightarrow> ebind (present_cop (rv_price_cop r - rv_amount_paid_cop r)) (\<lambda>cop.
          Inr (map sanitize_param [first_name cu, pl_name p, present_start (rv_starts_at r), cop, present_start due_at])))"

text \<open>\<open>uq_customer_notification_reservation_kind\<close>.\<close>

definition reminder_key :: "customer_notification \<Rightarrow> uuid \<times> string" where
  "reminder_key n = (cn_reservation_id n, cn_kind n)"

definition new_reminder :: "reservation \<Rightarrow> customer \<Rightarrow> string \<Rightarrow> string list \<Rightarrow> string \<Rightarrow> instant \<Rightarrow> int \<Rightarrow> customer_notification" where
  "new_reminder r cu kind params template now k =
     \<lparr>nt_id = k, nt_status = NT_PENDING, nt_attempts = 0, nt_next_attempt_at = now, nt_claim_token = None,
      nt_claimed_at = None, nt_last_error = None, nt_last_error_code = None, nt_provider_message_id = None,
      nt_sent_at = None, nt_created_at = now, nt_updated_at = now,
      cn_reservation_id = rv_id r, cn_customer_id = rv_customer_id r, cn_kind = kind,
      cn_phone_number = cu_phone_number cu, cn_params = params, cn_template_name = template\<rparr>"

text \<open>\<open>INSERT \<dots> ON CONFLICT DO NOTHING\<close>, and the records of an insertion.\<close>

definition insert_reminder ::
  "reservation \<Rightarrow> customer \<Rightarrow> string \<Rightarrow> string list \<Rightarrow> string \<Rightarrow> instant \<Rightarrow> string \<Rightarrow> db \<Rightarrow> nat \<times> db" where
  "insert_reminder r cu kind params template now request_id d =
     (if (rv_id r, kind) \<in> reminder_key ` set (db_customer_notifications d) then (0, d)
      else (case next_serial d of (k, d1) \<Rightarrow>
        let n = new_reminder r cu kind params template now k;
            d2 = d1\<lparr>db_customer_notifications := db_customer_notifications d1 @ [n]\<rparr>;
            d3 = audit_once ''BALANCE_REMINDER_INTERVAL_CAPTURED'' r kind
                   ''Intervalo real; saldo exigible antes de la entrada'' now request_id d2
        in (1, customer_audit ''CUSTOMER_NOTIFICATION_ENQUEUED'' n None (Some request_id) (Some now) d3)))"

record reminder_pass =
  rp_settings :: settings
  rp_now :: instant
  rp_clock :: tod
  rp_request_id :: string

definition remind_kind ::
  "reminder_pass \<Rightarrow> reservation \<Rightarrow> customer \<Rightarrow> instant \<Rightarrow> instant \<Rightarrow> string list \<Rightarrow> string \<times> date \<Rightarrow> db
     \<Rightarrow> (app_error, nat \<times> db) result" where
  "remind_kind p r cu due_at confirmed_at existing_kinds entry d =
     (case entry of (kind, day) \<Rightarrow>
        let now = rp_now p; scheduled_at = bogota_instant day (rp_clock p);
            template = strip (st_customer_template_balance_reminder_name (rp_settings p))
        in if kind \<in> set existing_kinds \<or> now < scheduled_at then Inr (0, d)
           else if scheduled_at \<le> confirmed_at
           then Inr (0, audit_once ''BALANCE_REMINDER_SKIPPED_LATE'' r kind
                  (''La reserva qued'' @ o_acute @ '' confirmada despu'' @ e_acute @ ''s de la hora del recordatorio'')
                  now (rp_request_id p) d)
           else if due_at \<le> now then Inr (0, d)
           else if template = []
           then Inr (0, audit_once ''BALANCE_REMINDER_NO_TEMPLATE'' r kind
                  ''Plantilla de recordatorio al cliente sin configurar'' now (rp_request_id p) d)
           else ebind (reminder_params r cu due_at d) (\<lambda>params.
                  Inr (insert_reminder r cu kind params template now (rp_request_id p) d)))"

definition reminder_schedule :: "settings \<Rightarrow> reservation \<Rightarrow> instant \<Rightarrow> (string \<times> date) list" where
  "reminder_schedule st r due_at =
     [(''BALANCE_REMINDER_EARLY'', bogota_date (rv_starts_at r) - st_booking_reminder_days_before st),
      (''BALANCE_REMINDER_DUE'', bogota_date due_at)]"

fun remind_kinds ::
  "reminder_pass \<Rightarrow> reservation \<Rightarrow> customer \<Rightarrow> instant \<Rightarrow> instant \<Rightarrow> string list \<Rightarrow> (string \<times> date) list \<Rightarrow> nat \<times> db
     \<Rightarrow> (app_error, nat \<times> db) result" where
  "remind_kinds p r cu due_at confirmed_at existing [] (n, d) = Inr (n, d)"
| "remind_kinds p r cu due_at confirmed_at existing (e # es) (n, d) =
     ebind (remind_kind p r cu due_at confirmed_at existing e d) (\<lambda>(m, d1).
       remind_kinds p r cu due_at confirmed_at existing es (n + m, d1))"

section \<open>Overdue balances\<close>

definition mark_overdue :: "reminder_pass \<Rightarrow> reservation \<Rightarrow> instant \<Rightarrow> db \<Rightarrow> (app_error, db) result" where
  "mark_overdue p r due_at d =
     (if due_at \<le> rp_now p \<and> rv_balance_overdue_at r = None
      then let r1 = r\<lparr>rv_balance_overdue_at := Some (rp_now p)\<rparr>;
               d1 = audit_at (rp_now p) ''SYSTEM'' ''RESERVATION_BALANCE_OVERDUE'' ''reservation''
                      (Some (JObj [(''balance_overdue_at'', JNull)]))
                      (Some (JObj [(''reservation_id'', JStr (uuid_str (rv_id r1))),
                         (''balance_overdue_at'', JStr (instant_iso (rp_now p))),
                         (''balance_cop'', JInt (rv_price_cop r1 - rv_amount_paid_cop r1)),
                         (''starts_at'', JStr (instant_iso (rv_starts_at r1))),
                         (''ends_at'', JStr (instant_iso (rv_ends_at r1)))]))
                      ''Saldo pendiente al vencer el plazo de pago'' (Some (rp_request_id p)) (put_reservation r1 d)
           in enqueue_for_reservation r1 ''BALANCE_OVERDUE'' ''reservation'' (uuid_str (rv_id r1)) (rp_settings p)
                (Some (rp_request_id p)) d1
      else Inr d)"

section \<open>A pass\<close>

definition unpaid_booking :: "instant \<Rightarrow> reservation \<Rightarrow> bool" where
  "unpaid_booking now r \<longleftrightarrow> rv_status r = RV_RESERVED \<and> rv_amount_paid_cop r < rv_price_cop r \<and> now < rv_starts_at r"

definition reminder_candidates :: "instant \<Rightarrow> db \<Rightarrow> (int \<times> uuid) list" where
  "reminder_candidates now d =
     map (\<lambda>r. (rv_customer_id r, rv_id r))
       (order_by (\<lambda>a b. rv_customer_id a < rv_customer_id b \<or>
            (rv_customer_id a = rv_customer_id b \<and> rv_id a < rv_id b))
          (filter (unpaid_booking now) (db_reservations d)))"

definition remind_reservation :: "reminder_pass \<Rightarrow> reservation \<Rightarrow> customer \<Rightarrow> instant \<Rightarrow> nat \<times> db \<Rightarrow> (app_error, nat \<times> db) result" where
  "remind_reservation p r cu due_at nd =
     (case nd of (n, d) \<Rightarrow>
        ebind (remind_kinds p r cu due_at (reserved_at r d)
                 (map cn_kind (filter (\<lambda>x. cn_reservation_id x = rv_id r) (db_customer_notifications d)))
                 (reminder_schedule (rp_settings p) r due_at) (n, d)) (\<lambda>(m, d1).
        ebind (mark_overdue p r due_at d1) (\<lambda>d2. Inr (m, d2))))"

fun remind_all :: "reminder_pass \<Rightarrow> (int \<times> uuid) list \<Rightarrow> nat \<times> db \<Rightarrow> (app_error, nat \<times> db) result" where
  "remind_all p [] nd = Inr nd"
| "remind_all p ((customer_id, reservation_id) # cs) nd =
     (case (get_row cu_id customer_id (db_customers (snd nd)), get_row rv_id reservation_id (db_reservations (snd nd))) of
        (Some cu, Some r) \<Rightarrow>
          (if rv_customer_id r \<noteq> cu_id cu \<or> \<not> unpaid_booking (rp_now p) r then remind_all p cs nd
           else (case rv_balance_due_at r of
                   None \<Rightarrow> remind_all p cs nd
                 | Some due_at \<Rightarrow> ebind (remind_reservation p r cu due_at nd) (remind_all p cs)))
      | _ \<Rightarrow> remind_all p cs nd)"

definition enqueue_balance_reminders :: "settings \<Rightarrow> datetime \<Rightarrow> db \<Rightarrow> (app_error, nat \<times> db) result" where
  "enqueue_balance_reminders st t d =
     (if \<not> st_balance_reminders_enabled st then Inr (0, d)
      else (case t of
         Naive _ \<Rightarrow> Inl (ValueError ''La fecha del programador debe incluir zona horaria'')
       | Aware now _ \<Rightarrow>
           ebind (parse_clock (st_booking_reminder_time st)) (\<lambda>clock.
             (case uuid4 d of (u, d1) \<Rightarrow>
                remind_all \<lparr>rp_settings = st, rp_now = now, rp_clock = clock, rp_request_id = uuid_str u\<rparr>
                  (reminder_candidates now d1) (0, d1)))))"

end
