(* ===== verification/Reminder_Facts.thy ===== *)
theory Reminder_Facts
  imports Reminders
begin

text \<open>
  What a pass of the scheduler guarantees: a reminder is queued once per booking and kind, only in its
  interval and only for an unpaid, confirmed, future booking, and the overdue mark is exact.
\<close>

section \<open>Frames\<close>

lemma audit_once_frame [simp]:
  "db_reservations (audit_once a r k t now q d) = db_reservations d"
  "db_customers (audit_once a r k t now q d) = db_customers d"
  "db_plans (audit_once a r k t now q d) = db_plans d"
  "db_customer_notifications (audit_once a r k t now q d) = db_customer_notifications d"
  by (simp_all add: audit_once_def audit_at_def)

lemma customer_audit_frame [simp]:
  "db_reservations (customer_audit a n old q now d) = db_reservations d"
  "db_customers (customer_audit a n old q now d) = db_customers d"
  "db_plans (customer_audit a n old q now d) = db_plans d"
  "db_customer_notifications (customer_audit a n old q now d) = db_customer_notifications d"
  by (simp_all add: customer_audit_def audit_at_def uuid4_def Let_def split: option.split)

lemma enqueue_staff_customer_rows:
  "db_customer_notifications (snd (enqueue_staff_notification i k e s ps req d)) = db_customer_notifications d"
  by (simp add: enqueue_staff_notification_def next_serial_def Let_def staff_audit_def audit_def audit_at_def)

lemma enqueue_all_customer_rows:
  "db_customer_notifications (enqueue_all is k e s ps req d) = db_customer_notifications d"
  by (induction "is" arbitrary: d) (simp_all add: enqueue_all_simps enqueue_staff_customer_rows)

lemma enqueue_for_reservation_customer_rows:
  "enqueue_for_reservation r k e s st req d = Inr d' \<Longrightarrow> db_customer_notifications d' = db_customer_notifications d"
  by (auto simp: enqueue_for_reservation_def Let_def ebind_Inr_iff enqueue_all_customer_rows
      split: if_splits option.splits)

section \<open>The queued rows\<close>

text \<open>What every queued reminder satisfies.\<close>

definition timely :: "reminder_pass \<Rightarrow> reservation \<Rightarrow> instant \<Rightarrow> customer_notification \<Rightarrow> bool" where
  "timely p r due_at n \<longleftrightarrow> cn_reservation_id n = rv_id r \<and> cn_customer_id n = rv_customer_id r \<and> rp_now p < due_at \<and>
     (\<exists>day. (cn_kind n, day) \<in> set (reminder_schedule (rp_settings p) r due_at) \<and> bogota_instant day (rp_clock p) \<le> rp_now p) \<and>
     nt_status n = NT_PENDING \<and> length (cn_params n) = 5 \<and> cn_template_name n \<noteq> []"

definition appended :: "(customer_notification \<Rightarrow> bool) \<Rightarrow> nat \<Rightarrow> db \<Rightarrow> nat \<Rightarrow> db \<Rightarrow> bool" where
  "appended good n d m d' \<longleftrightarrow> (\<exists>new. db_customer_notifications d' = db_customer_notifications d @ new \<and>
     m = n + length new \<and> (\<forall>x \<in> set new. good x)) \<and>
     (distinct (map reminder_key (db_customer_notifications d)) \<longrightarrow> distinct (map reminder_key (db_customer_notifications d')))"

lemma appended_refl: "db_customer_notifications d' = db_customer_notifications d \<Longrightarrow> appended good n d n d'"
  by (simp add: appended_def)

lemma appended_trans:
  assumes "appended good n d m d1" and "appended good m d1 k d2"
  shows "appended good n d k d2"
proof -
  obtain new1 where one: "db_customer_notifications d1 = db_customer_notifications d @ new1" "m = n + length new1"
    "\<forall>x \<in> set new1. good x" using assms(1) by (auto simp: appended_def)
  obtain new2 where two: "db_customer_notifications d2 = db_customer_notifications d1 @ new2" "k = m + length new2"
    "\<forall>x \<in> set new2. good x" using assms(2) by (auto simp: appended_def)
  have "db_customer_notifications d2 = db_customer_notifications d @ (new1 @ new2) \<and> k = n + length (new1 @ new2) \<and>
      (\<forall>x \<in> set (new1 @ new2). good x)" using one two by auto
  moreover have "distinct (map reminder_key (db_customer_notifications d)) \<longrightarrow>
      distinct (map reminder_key (db_customer_notifications d2))" using assms unfolding appended_def by blast
  ultimately show ?thesis unfolding appended_def by blast
qed

lemma appended_mono: "appended good n d m d' \<Longrightarrow> (\<And>x. good x \<Longrightarrow> good' x) \<Longrightarrow> appended good' n d m d'"
  by (auto simp: appended_def)

lemma appended_frame:
  "db_customer_notifications e = db_customer_notifications d' \<Longrightarrow> appended good n d m d' \<Longrightarrow> appended good n d m e"
  by (simp add: appended_def)

lemma insert_reminder_D:
  assumes "insert_reminder r cu kind params template now q d = (m, d')"
    and "good (new_reminder r cu kind params template now (db_seq d))"
  shows "appended good n d (n + m) d'"
proof (cases "(rv_id r, kind) \<in> reminder_key ` set (db_customer_notifications d)")
  case True
  with assms(1) show ?thesis by (simp add: insert_reminder_def appended_refl)
next
  case False
  let ?n = "new_reminder r cu kind params template now (db_seq d)"
  have "db_customer_notifications d' = db_customer_notifications d @ [?n]" "m = 1"
    using assms(1) False by (auto simp: insert_reminder_def next_serial_def Let_def)
  moreover have "reminder_key ?n = (rv_id r, kind)" by (simp add: reminder_key_def new_reminder_def)
  ultimately show ?thesis using assms(2) False by (auto simp: appended_def)
qed

lemma insert_reminder_frame:
  "insert_reminder r cu kind params template now q d = (m, d') \<Longrightarrow>
     db_reservations d' = db_reservations d \<and> db_customers d' = db_customers d \<and> db_plans d' = db_plans d"
  by (auto simp: insert_reminder_def next_serial_def Let_def split: if_splits)

lemma remind_kind_D:
  assumes "remind_kind p r cu due_at confirmed_at existing (kind, day) d = Inr (m, d')"
    and "(kind, day) \<in> set (reminder_schedule (rp_settings p) r due_at)"
  shows "appended (timely p r due_at) n d (n + m) d' \<and>
    db_reservations d' = db_reservations d \<and> db_customers d' = db_customers d \<and> db_plans d' = db_plans d"
proof (cases "kind \<in> set existing \<or> rp_now p < bogota_instant day (rp_clock p) \<or>
    bogota_instant day (rp_clock p) \<le> confirmed_at \<or> due_at \<le> rp_now p \<or>
    strip (st_customer_template_balance_reminder_name (rp_settings p)) = []")
  case True
  then have "m = 0 \<and> db_customer_notifications d' = db_customer_notifications d \<and>
      db_reservations d' = db_reservations d \<and> db_customers d' = db_customers d \<and> db_plans d' = db_plans d"
    using assms(1) by (auto simp: remind_kind_def Let_def split: if_splits)
  then show ?thesis by (simp add: appended_refl)
next
  case False
  then obtain params where ps: "reminder_params r cu due_at d = Inr params"
    and ins: "insert_reminder r cu kind params (strip (st_customer_template_balance_reminder_name (rp_settings p)))
        (rp_now p) (rp_request_id p) d = (m, d')"
    using assms(1) by (auto simp: remind_kind_def Let_def ebind_Inr_iff)
  have "length params = 5" using ps by (auto simp: reminder_params_def ebind_Inr_iff split: option.splits)
  then have "timely p r due_at (new_reminder r cu kind params (strip (st_customer_template_balance_reminder_name (rp_settings p)))
        (rp_now p) (db_seq d))"
    using False assms(2) by (auto simp: timely_def new_reminder_def)
  from insert_reminder_D [where good = "timely p r due_at", OF ins this] insert_reminder_frame [OF ins] show ?thesis by blast
qed

lemma remind_kinds_D:
  "remind_kinds p r cu due_at confirmed_at existing es (n, d) = Inr (m, d') \<Longrightarrow>
     set es \<subseteq> set (reminder_schedule (rp_settings p) r due_at) \<Longrightarrow>
     appended (timely p r due_at) n d m d' \<and>
     db_reservations d' = db_reservations d \<and> db_customers d' = db_customers d \<and> db_plans d' = db_plans d"
proof (induction es arbitrary: n d)
  case Nil
  then show ?case by (simp add: appended_refl)
next
  case (Cons e es)
  obtain kind day where e: "e = (kind, day)" by fastforce
  from Cons.prems(1) obtain m1 d1 where s: "remind_kind p r cu due_at confirmed_at existing (kind, day) d = Inr (m1, d1)"
    and rest: "remind_kinds p r cu due_at confirmed_at existing es (n + m1, d1) = Inr (m, d')"
    by (auto simp: ebind_Inr_iff e)
  have in_schedule: "(kind, day) \<in> set (reminder_schedule (rp_settings p) r due_at)" using Cons.prems(2) e by simp
  from remind_kind_D [OF s in_schedule, of n] Cons.IH [OF rest] Cons.prems(2) appended_trans show ?case by auto
qed

section \<open>One booking\<close>

definition marked :: "instant \<Rightarrow> reservation \<Rightarrow> reservation" where
  "marked now r = r\<lparr>rv_balance_overdue_at := Some now\<rparr>"

lemma mark_overdue_D:
  assumes "mark_overdue p r due_at d = Inr d'"
  shows "db_customer_notifications d' = db_customer_notifications d \<and> db_customers d' = db_customers d \<and>
    db_reservations d' = (if due_at \<le> rp_now p \<and> rv_balance_overdue_at r = None
      then put_row rv_id (marked (rp_now p) r) (db_reservations d) else db_reservations d)"
proof (cases "due_at \<le> rp_now p \<and> rv_balance_overdue_at r = None")
  case True
  with assms obtain x where "enqueue_for_reservation (marked (rp_now p) r) ''BALANCE_OVERDUE'' ''reservation''
      (uuid_str (rv_id r)) (rp_settings p) (Some (rp_request_id p)) x = Inr d'"
    and x: "db_customer_notifications x = db_customer_notifications d" "db_customers x = db_customers d"
      "db_reservations x = put_row rv_id (marked (rp_now p) r) (db_reservations d)"
    by (auto simp: mark_overdue_def marked_def Let_def audit_at_def put_reservation_def)
  from enqueue_for_reservation_frame [OF this(1)] enqueue_for_reservation_customer_rows [OF this(1)] x True
  show ?thesis by simp
qed (use assms in \<open>auto simp: mark_overdue_def\<close>)

lemma remind_reservation_D:
  assumes "remind_reservation p r cu due_at (n, d) = Inr (m, d')"
  shows "appended (timely p r due_at) n d m d' \<and> db_customers d' = db_customers d \<and>
    db_reservations d' = (if due_at \<le> rp_now p \<and> rv_balance_overdue_at r = None
      then put_row rv_id (marked (rp_now p) r) (db_reservations d) else db_reservations d)"
proof -
  obtain d1 where k: "remind_kinds p r cu due_at (reserved_at r d)
      (map cn_kind (filter (\<lambda>x. cn_reservation_id x = rv_id r) (db_customer_notifications d)))
      (reminder_schedule (rp_settings p) r due_at) (n, d) = Inr (m, d1)"
    and mk: "mark_overdue p r due_at d1 = Inr d'"
    using assms by (auto simp: remind_reservation_def ebind_Inr_iff)
  from remind_kinds_D [OF k] have "appended (timely p r due_at) n d m d1"
    "db_reservations d1 = db_reservations d" "db_customers d1 = db_customers d" by auto
  with mark_overdue_D [OF mk] appended_frame show ?thesis by fastforce
qed

section \<open>A pass\<close>

definition overdue :: "instant \<Rightarrow> customer list \<Rightarrow> reservation \<Rightarrow> bool" where
  "overdue now cus r \<longleftrightarrow> unpaid_booking now r \<and> (\<exists>t. rv_balance_due_at r = Some t \<and> t \<le> now) \<and>
     rv_balance_overdue_at r = None \<and> get_row cu_id (rv_customer_id r) cus \<noteq> None"

definition after_pass :: "instant \<Rightarrow> customer list \<Rightarrow> (int \<times> uuid) list \<Rightarrow> reservation \<Rightarrow> reservation" where
  "after_pass now cus cs r = (if overdue now cus r \<and> (rv_customer_id r, rv_id r) \<in> set cs then marked now r else r)"

lemma marked_simps [simp]:
  "rv_id (marked now r) = rv_id r" "rv_customer_id (marked now r) = rv_customer_id r"
  "unpaid_booking t (marked now r) = unpaid_booking t r" "rv_balance_due_at (marked now r) = rv_balance_due_at r"
  "\<not> overdue t cus (marked now r)"
  by (simp_all add: marked_def unpaid_booking_def overdue_def)

text \<open>Which booking a queued reminder is for, read before the pass.\<close>

definition for_unpaid :: "reminder_pass \<Rightarrow> reservation list \<Rightarrow> customer_notification \<Rightarrow> bool" where
  "for_unpaid p rs n \<longleftrightarrow> (\<exists>r \<in> set rs. \<exists>due_at. unpaid_booking (rp_now p) r \<and> rv_balance_due_at r = Some due_at \<and> timely p r due_at n)"

lemma timely_marked: "timely p (marked t r) due_at n = timely p r due_at n"
  by (simp add: timely_def marked_def reminder_schedule_def)

lemma for_unpaid_back:
  assumes "for_unpaid p rs' n" and "\<And>r'. r' \<in> set rs' \<Longrightarrow> \<exists>r \<in> set rs. r' = r \<or> r' = marked t r"
  shows "for_unpaid p rs n"
proof -
  from assms(1) obtain r' due_at where r': "r' \<in> set rs'" "unpaid_booking (rp_now p) r'" "rv_balance_due_at r' = Some due_at"
    "timely p r' due_at n" by (auto simp: for_unpaid_def)
  with assms(2) obtain r where "r \<in> set rs" "r' = r \<or> r' = marked t r" by blast
  with r' show ?thesis by (auto simp: for_unpaid_def timely_marked)
qed

lemma remind_all_D:
  "remind_all p cs (n, d) = Inr (m, d') \<Longrightarrow> keys_ok rv_id (db_reservations d) \<Longrightarrow>
     appended (for_unpaid p (db_reservations d)) n d m d' \<and> db_customers d' = db_customers d \<and>
     db_reservations d' = map (after_pass (rp_now p) (db_customers d) cs) (db_reservations d)"
proof (induction cs arbitrary: n d)
  case Nil
  have "map (after_pass (rp_now p) (db_customers d) []) (db_reservations d) = db_reservations d"
    by (rule map_idI) (simp add: after_pass_def)
  with Nil show ?case by (simp add: appended_refl)
next
  case (Cons c cs)
  obtain k v where c: "c = (k, v)" by fastforce
  let ?after = "\<lambda>cs. map (after_pass (rp_now p) (db_customers d) cs) (db_reservations d)"
  show ?case
  proof (cases "\<exists>cu r due_at. get_row cu_id k (db_customers d) = Some cu \<and> get_row rv_id v (db_reservations d) = Some r \<and>
      rv_customer_id r = cu_id cu \<and> unpaid_booking (rp_now p) r \<and> rv_balance_due_at r = Some due_at")
    case False
    then have rest: "remind_all p cs (n, d) = Inr (m, d')"
      using Cons.prems(1) by (auto simp: c split: option.splits if_splits)
    have "after_pass (rp_now p) (db_customers d) (c # cs) r = after_pass (rp_now p) (db_customers d) cs r"
      if r: "r \<in> set (db_reservations d)" for r
    proof -
      have "\<not> overdue (rp_now p) (db_customers d) r \<or> (rv_customer_id r, rv_id r) \<noteq> c"
      proof (rule ccontr)
        assume "\<not> ?thesis"
        then have o: "overdue (rp_now p) (db_customers d) r" and eq: "rv_customer_id r = k" "rv_id r = v" by (auto simp: c)
        obtain cu where cu: "get_row cu_id k (db_customers d) = Some cu" using o eq by (auto simp: overdue_def)
        have "get_row rv_id v (db_reservations d) = Some r" using get_row_mem [OF Cons.prems(2) r] eq by simp
        with False o cu eq get_row_SomeD [OF cu] show False by (auto simp: overdue_def)
      qed
      then show ?thesis by (auto simp: after_pass_def)
    qed
    then have "?after (c # cs) = ?after cs" by simp
    with Cons.IH [OF rest Cons.prems(2)] show ?thesis by simp
  next
    case True
    then obtain cu r due_at where cu: "get_row cu_id k (db_customers d) = Some cu"
      and r: "get_row rv_id v (db_reservations d) = Some r" and own: "rv_customer_id r = cu_id cu"
      and unpaid: "unpaid_booking (rp_now p) r" and due: "rv_balance_due_at r = Some due_at" by blast
    from Cons.prems(1) obtain m1 d1 where one: "remind_reservation p r cu due_at (n, d) = Inr (m1, d1)"
      and rest: "remind_all p cs (m1, d1) = Inr (m, d')"
      by (auto simp: c cu r own unpaid due ebind_Inr_iff)
    note R = remind_reservation_D [OF one]
    have r': "r \<in> set (db_reservations d)" "rv_id r = v" "rv_customer_id r = k"
      using get_row_SomeD [OF r] get_row_SomeD [OF cu] own by simp_all
    let ?go = "due_at \<le> rp_now p \<and> rv_balance_overdue_at r = None"
    have rows: "db_reservations d1 = map (\<lambda>x. if x = r \<and> ?go then marked (rp_now p) r else x) (db_reservations d)"
    proof (cases ?go)
      case True
      have "x = r" if "x \<in> set (db_reservations d)" "rv_id x = rv_id r" for x
        using get_row_mem [OF Cons.prems(2) that(1)] r that(2) r'(2) by simp
      with True R show ?thesis by (auto simp: put_row_def)
    next
      case False
      with R show ?thesis by auto
    qed
    have keys: "keys_ok rv_id (db_reservations d1)"
    proof -
      have "map rv_id (db_reservations d1) = map rv_id (db_reservations d)" unfolding rows by (auto simp: comp_def)
      with Cons.prems(2) show ?thesis by (simp add: keys_ok_def)
    qed
    note IH = Cons.IH [OF rest keys]
    have go: "overdue (rp_now p) (db_customers d) r \<longleftrightarrow> ?go"
      using unpaid due cu r' by (auto simp: overdue_def)
    have "after_pass (rp_now p) (db_customers d) cs (if x = r \<and> ?go then marked (rp_now p) r else x) =
        after_pass (rp_now p) (db_customers d) (c # cs) x" if x: "x \<in> set (db_reservations d)" for x
    proof (cases "x = r")
      case True
      then show ?thesis using go r' by (auto simp: after_pass_def c)
    next
      case False
      have "rv_id x \<noteq> v" using get_row_mem [OF Cons.prems(2) x] r False by auto
      with False show ?thesis by (simp add: after_pass_def c)
    qed
    then have res: "db_reservations d' = ?after (c # cs)"
      using IH R by (simp add: rows)
    have "appended (for_unpaid p (db_reservations d)) n d m1 d1"
      by (rule appended_mono [of "timely p r due_at"]) (use R r' unpaid due in \<open>auto simp: for_unpaid_def\<close>)
    moreover have "appended (for_unpaid p (db_reservations d)) m1 d1 m d'"
    proof (rule appended_mono [of "for_unpaid p (db_reservations d1)"])
      show "appended (for_unpaid p (db_reservations d1)) m1 d1 m d'" using IH by blast
      show "for_unpaid p (db_reservations d1) x \<Longrightarrow> for_unpaid p (db_reservations d) x" for x
        by (rule for_unpaid_back [of _ _ _ _ "rp_now p"]) (auto simp: rows split: if_splits)
    qed
    ultimately show ?thesis using res IH R appended_trans by metis
  qed
qed

section \<open>Properties\<close>

lemma enqueue_balance_reminders_D:
  assumes "enqueue_balance_reminders st (Aware now off) d = Inr (n, d')" and "st_balance_reminders_enabled st"
  shows "\<exists>p. rp_settings p = st \<and> rp_now p = now \<and> parse_clock (st_booking_reminder_time st) = Inr (rp_clock p) \<and>
    remind_all p (reminder_candidates now d) (0, d\<lparr>db_draws := Suc (db_draws d)\<rparr>) = Inr (n, d')"
proof -
  obtain clock where "parse_clock (st_booking_reminder_time st) = Inr clock"
    using assms by (auto simp: enqueue_balance_reminders_def ebind_Inr_iff)
  moreover have "reminder_candidates now (d\<lparr>db_draws := k\<rparr>) = reminder_candidates now d" for k
    by (simp add: reminder_candidates_def)
  ultimately show ?thesis
    using assms
    by (intro exI [of _ "\<lparr>rp_settings = st, rp_now = now, rp_clock = clock,
          rp_request_id = uuid_str (db_entropy d (db_draws d))\<rparr>"])
       (simp add: enqueue_balance_reminders_def uuid4_def)
qed

text \<open>C36. A pass queues a reminder only for a confirmed, unpaid, future booking, on or after the hour of its day and
  before the balance is due, with its five parameters and a template; it only adds rows, counts them, and
  never queues a booking's reminder of one kind twice.\<close>

theorem reminders_timely_and_once:
  assumes "enqueue_balance_reminders st (Aware now off) d = Inr (n, d')" and "st_balance_reminders_enabled st"
    and "keys_ok rv_id (db_reservations d)" and "distinct (map reminder_key (db_customer_notifications d))"
  shows "\<exists>new. db_customer_notifications d' = db_customer_notifications d @ new \<and> n = length new \<and>
    distinct (map reminder_key (db_customer_notifications d')) \<and>
    (\<forall>x \<in> set new. \<exists>r \<in> set (db_reservations d). \<exists>due_at clock day.
       cn_reservation_id x = rv_id r \<and> rv_status r = RV_RESERVED \<and> rv_amount_paid_cop r < rv_price_cop r \<and>
       now < rv_starts_at r \<and> rv_balance_due_at r = Some due_at \<and> now < due_at \<and>
       parse_clock (st_booking_reminder_time st) = Inr clock \<and> (cn_kind x, day) \<in> set (reminder_schedule st r due_at) \<and>
       bogota_instant day clock \<le> now \<and> length (cn_params x) = 5 \<and> cn_template_name x \<noteq> [])"
proof -
  from enqueue_balance_reminders_D [OF assms(1,2)] obtain p
    where p: "rp_settings p = st" "rp_now p = now" "parse_clock (st_booking_reminder_time st) = Inr (rp_clock p)"
      and run: "remind_all p (reminder_candidates now d) (0, d\<lparr>db_draws := Suc (db_draws d)\<rparr>) = Inr (n, d')" by blast
  have "keys_ok rv_id (db_reservations (d\<lparr>db_draws := Suc (db_draws d)\<rparr>))" using assms(3) by simp
  from remind_all_D [OF run this] obtain new
    where new: "db_customer_notifications d' = db_customer_notifications d @ new" "n = length new"
      "distinct (map reminder_key (db_customer_notifications d'))" "\<forall>x \<in> set new. for_unpaid p (db_reservations d) x"
    using assms(4) by (auto simp: appended_def)
  have "\<exists>r \<in> set (db_reservations d). \<exists>due_at clock day.
       cn_reservation_id x = rv_id r \<and> rv_status r = RV_RESERVED \<and> rv_amount_paid_cop r < rv_price_cop r \<and>
       now < rv_starts_at r \<and> rv_balance_due_at r = Some due_at \<and> now < due_at \<and>
       parse_clock (st_booking_reminder_time st) = Inr clock \<and> (cn_kind x, day) \<in> set (reminder_schedule st r due_at) \<and>
       bogota_instant day clock \<le> now \<and> length (cn_params x) = 5 \<and> cn_template_name x \<noteq> []"
    if "for_unpaid p (db_reservations d) x" for x
    using that p by (auto simp: for_unpaid_def timely_def unpaid_booking_def)
  with new show ?thesis by blast
qed

text \<open>Noon of the day before the booking of the samples, unpaid by half; the balance is due at eleven that night.\<close>

definition unpaid_sample :: reservation where
  "unpaid_sample = sample_reservation\<lparr>rv_status := RV_RESERVED, rv_amount_paid_cop := 475000,
     rv_balance_due_at := Some (bogota_instant 739842 (at_hour 23))\<rparr>"

definition unpaid_db :: db where
  "unpaid_db = sample_db\<lparr>db_reservations := [unpaid_sample]\<rparr>"

definition reminder_noon :: instant where
  "reminder_noon = bogota_instant 739842 (at_hour 12)"

definition sample_pass :: "uuid \<Rightarrow> reminder_pass" where
  "sample_pass u = \<lparr>rp_settings = sample_settings, rp_now = reminder_noon, rp_clock = at_hour 10, rp_request_id = uuid_str u\<rparr>"

lemma strip_saldo [simp]: "strip ''saldo'' = ''saldo''"
  by (simp add: ascii_eval)

lemma sample_reminder_params:
  "\<exists>ps. \<forall>d. db_plans d = [sample_plan, sample_overnight] \<longrightarrow> reminder_params unpaid_sample sample_customer t d = Inr ps"
proof -
  obtain cop where "present_cop (rv_price_cop unpaid_sample - rv_amount_paid_cop unpaid_sample) = Inr cop"
    using present_cop_Inr [of "rv_price_cop unpaid_sample - rv_amount_paid_cop unpaid_sample"]
    by (auto simp: unpaid_sample_def sample_reservation_def)
  moreover have "get_row pl_id (rv_plan_id unpaid_sample) [sample_plan, sample_overnight] = Some sample_plan"
    by (simp add: get_row_Cons unpaid_sample_def sample_reservation_def sample_plan_def)
  ultimately show ?thesis by (simp add: reminder_params_def)
qed

lemma sample_schedule:
  "reminder_schedule sample_settings unpaid_sample (bogota_instant 739842 (at_hour 23)) =
     [(''BALANCE_REMINDER_EARLY'', 739840), (''BALANCE_REMINDER_DUE'', 739842)]"
  by (simp add: reminder_schedule_def unpaid_sample_def sample_reservation_def sample_start_def sample_settings_def
      at_hour_def us_defs)

lemma sample_remind:
  assumes "db_plans d = [sample_plan, sample_overnight]" and "(51, kind) \<notin> reminder_key ` set (db_customer_notifications d)"
    and "day = 739840 \<or> day = 739842"
  shows "\<exists>d1. remind_kind (sample_pass u) unpaid_sample sample_customer (bogota_instant 739842 (at_hour 23)) sample_now []
      (kind, day) d = Inr (1, d1) \<and> db_plans d1 = db_plans d \<and>
      (\<exists>x. db_customer_notifications d1 = db_customer_notifications d @ [x] \<and> reminder_key x = (51, kind))"
proof -
  obtain ps where ps: "reminder_params unpaid_sample sample_customer (bogota_instant 739842 (at_hour 23)) d = Inr ps"
    using sample_reminder_params assms(1) by blast
  have times: "bogota_instant day (at_hour 10) \<le> reminder_noon" "sample_now < bogota_instant day (at_hour 10)"
    "reminder_noon < bogota_instant 739842 (at_hour 23)"
    using assms(3) by (auto simp: reminder_noon_def sample_now_def bogota_instant_def at_hour_def us_defs)
  have key: "rv_id unpaid_sample = 51" by (simp add: unpaid_sample_def sample_reservation_def)
  show ?thesis
    using assms(2) times ps key
    by (auto simp: remind_kind_def sample_pass_def sample_settings_def Let_def not_less insert_reminder_def next_serial_def
        reminder_key_def new_reminder_def)
qed

lemma sample_reminders:
  "\<exists>d'. enqueue_balance_reminders sample_settings (Aware reminder_noon bogota_offset) unpaid_db = Inr (2, d')"
proof -
  let ?due = "bogota_instant 739842 (at_hour 23)"
  define u where "u = db_entropy unpaid_db (db_draws unpaid_db)"
  define d0 where "d0 = unpaid_db\<lparr>db_draws := Suc (db_draws unpaid_db)\<rparr>"
  have rows: "db_plans d0 = [sample_plan, sample_overnight]" "db_customer_notifications d0 = []"
    "db_reservations d0 = [unpaid_sample]" "db_customers d0 = [sample_customer]" "db_audit d0 = []"
    by (simp_all add: d0_def unpaid_db_def sample_db_def empty_db_def)
  obtain d1 x where one: "remind_kind (sample_pass u) unpaid_sample sample_customer ?due sample_now []
      (''BALANCE_REMINDER_EARLY'', 739840) d0 = Inr (1, d1)" "db_plans d1 = [sample_plan, sample_overnight]"
      "db_customer_notifications d1 = [x]" "reminder_key x = (51, ''BALANCE_REMINDER_EARLY'')"
    using sample_remind [of d0 "''BALANCE_REMINDER_EARLY''" 739840 u] rows by auto
  obtain d2 where two: "remind_kind (sample_pass u) unpaid_sample sample_customer ?due sample_now []
      (''BALANCE_REMINDER_DUE'', 739842) d1 = Inr (1, d2)"
    using sample_remind [of d1 "''BALANCE_REMINDER_DUE''" 739842 u] one by auto
  have confirmed: "reserved_at unpaid_sample d0 = sample_now"
    by (simp add: reserved_at_def rows unpaid_sample_def sample_reservation_def)
  have "\<not> ?due \<le> reminder_noon" by (simp add: reminder_noon_def bogota_instant_def at_hour_def us_defs)
  then have "mark_overdue (sample_pass u) unpaid_sample ?due d2 = Inr d2" by (simp add: mark_overdue_def sample_pass_def)
  then have "remind_reservation (sample_pass u) unpaid_sample sample_customer ?due (0, d0) = Inr (2, d2)"
    using one(1) two by (simp add: remind_reservation_def rows confirmed sample_schedule sample_pass_def)
  moreover have "unpaid_booking reminder_noon unpaid_sample"
    by (simp add: unpaid_booking_def unpaid_sample_def sample_reservation_def sample_start_def reminder_noon_def
        bogota_instant_def at_hour_def us_defs)
  moreover have "rv_balance_due_at unpaid_sample = Some ?due" "rv_id unpaid_sample = 51" "rv_customer_id unpaid_sample = 1"
    by (simp_all add: unpaid_sample_def sample_reservation_def)
  moreover have "cu_id sample_customer = 1" by (simp add: sample_customer_def)
  ultimately have "remind_all (sample_pass u) (reminder_candidates reminder_noon d0) (0, d0) = Inr (2, d2)"
    by (simp add: reminder_candidates_def rows order_by_def get_row_Cons sample_pass_def)
  moreover have "st_balance_reminders_enabled sample_settings" by (simp add: sample_settings_def)
  moreover have "parse_clock (st_booking_reminder_time sample_settings) = Inr (at_hour 10)"
    by (simp add: parse_clock_def parse_hhmm_def sample_settings_def digit_val_def is_digit_def at_hour_def us_defs)
  ultimately show ?thesis
    by (simp add: enqueue_balance_reminders_def uuid4_def u_def [symmetric] d0_def [symmetric] sample_pass_def)
qed

lemma reminders_timely_and_once_witness:
  "\<exists>d'. enqueue_balance_reminders sample_settings (Aware reminder_noon bogota_offset) unpaid_db = Inr (2, d') \<and>
     length (db_customer_notifications d') = 2 \<and> distinct (map reminder_key (db_customer_notifications d'))"
proof -
  obtain d' where run: "enqueue_balance_reminders sample_settings (Aware reminder_noon bogota_offset) unpaid_db = Inr (2, d')"
    using sample_reminders by blast
  have "st_balance_reminders_enabled sample_settings" by (simp add: sample_settings_def)
  moreover have "keys_ok rv_id (db_reservations unpaid_db)" by (simp add: keys_ok_def unpaid_db_def)
  moreover have none: "db_customer_notifications unpaid_db = []" by (simp add: unpaid_db_def sample_db_def empty_db_def)
  ultimately show ?thesis using reminders_timely_and_once [OF run] run by auto
qed

text \<open>A pass marks a balance as overdue exactly for the confirmed, unpaid, future bookings whose due time has come
  and that were not marked, with the time of the pass, and changes nothing else of any booking.\<close>

theorem overdue_marking_exact:
  assumes "enqueue_balance_reminders st (Aware now off) d = Inr (n, d')" and "st_balance_reminders_enabled st"
    and "keys_ok rv_id (db_reservations d)"
  shows "db_reservations d' = map (\<lambda>r.
      if rv_status r = RV_RESERVED \<and> rv_amount_paid_cop r < rv_price_cop r \<and> now < rv_starts_at r \<and>
         (\<exists>t. rv_balance_due_at r = Some t \<and> t \<le> now) \<and> rv_balance_overdue_at r = None \<and>
         get_row cu_id (rv_customer_id r) (db_customers d) \<noteq> None
      then r\<lparr>rv_balance_overdue_at := Some now\<rparr> else r) (db_reservations d)"
proof -
  from enqueue_balance_reminders_D [OF assms(1,2)] obtain p
    where p: "rp_now p = now"
      and run: "remind_all p (reminder_candidates now d) (0, d\<lparr>db_draws := Suc (db_draws d)\<rparr>) = Inr (n, d')" by blast
  have "keys_ok rv_id (db_reservations (d\<lparr>db_draws := Suc (db_draws d)\<rparr>))" using assms(3) by simp
  from remind_all_D [OF run this] p
  have "db_reservations d' = map (after_pass now (db_customers d) (reminder_candidates now d)) (db_reservations d)" by simp
  moreover have "after_pass now (db_customers d) (reminder_candidates now d) r =
      (if overdue now (db_customers d) r then marked now r else r)" if "r \<in> set (db_reservations d)" for r
    using that by (auto simp: after_pass_def reminder_candidates_def overdue_def)
  ultimately have "db_reservations d' = map (\<lambda>r. if overdue now (db_customers d) r then marked now r else r) (db_reservations d)"
    by (simp cong: map_cong)
  then show ?thesis by (simp only: overdue_def unpaid_booking_def marked_def conj_assoc)
qed

lemma overdue_marking_exact_witness:
  "\<exists>n d'. enqueue_balance_reminders sample_settings (Aware reminder_noon bogota_offset) unpaid_db = Inr (n, d') \<and>
     db_reservations d' = [unpaid_sample]"
proof -
  obtain d' where run: "enqueue_balance_reminders sample_settings (Aware reminder_noon bogota_offset) unpaid_db = Inr (2, d')"
    using sample_reminders by blast
  have "st_balance_reminders_enabled sample_settings" "keys_ok rv_id (db_reservations unpaid_db)"
    by (simp_all add: sample_settings_def keys_ok_def unpaid_db_def)
  moreover have "db_reservations unpaid_db = [unpaid_sample]" "reminder_noon < bogota_instant 739842 (at_hour 23)"
    by (simp_all add: unpaid_db_def reminder_noon_def bogota_instant_def at_hour_def us_defs)
  moreover have "rv_balance_due_at unpaid_sample = Some (bogota_instant 739842 (at_hour 23))" by (simp add: unpaid_sample_def)
  ultimately show ?thesis using overdue_marking_exact [OF run] run by auto
qed

end
