(* ===== verification/Event_Dates.thy ===== *)
theory Event_Dates
  imports Samples
begin

text \<open>
  The date of an event as customers write it: \<open>app/event/validation.py\<close>, and the guard
  \<open>parse_date_raw\<close> of \<open>app/conversation/entity_validation.py\<close> before its parser.

  The search for a month that has a given day is a loop without a bound in the code, so a parse is an
  option: \<open>None\<close> means that it does not return.
\<close>

section \<open>The date triplet\<close>

record date_triplet =
  dt_event_date :: "date option"
  dt_event_month :: "string option"
  dt_event_date_type :: string
  dt_event_date_raw :: string

definition date_resolved :: "date_triplet \<Rightarrow> bool" where
  "date_resolved t \<longleftrightarrow> dt_event_date t \<noteq> None \<or> dt_event_month t \<noteq> None \<or> dt_event_date_type t \<in> {''FLEXIBLE'', ''UNKNOWN''}"

text \<open>\<open>re.fullmatch("\d{4}-\d{2}", s)\<close>.\<close>

definition month_shape :: "ucd \<Rightarrow> string \<Rightarrow> bool" where
  "month_shape u s \<longleftrightarrow> (case utf8_decode s of
      [a, b, c, d, e, f, g] \<Rightarrow> list_all (uc_isdecimal u) [a, b, c, d, f, g] \<and> e = 45 | _ \<Rightarrow> False)"

definition validate_event_date_triplet ::
  "ucd \<Rightarrow> date option \<Rightarrow> string option \<Rightarrow> string \<Rightarrow> string \<Rightarrow> (app_error, date_triplet) result" where
  "validate_event_date_triplet u event_date event_month kind raw =
     (if strip raw = [] then Inl (ValueError ''MISSING_EVENT_DATE_RAW'')
      else if kind = ''EXACT'' \<and> event_date = None then Inl (ValueError ''INVALID_DATE_TRIPLET'')
      else if event_date \<noteq> None \<and> kind \<noteq> ''EXACT'' then Inl (ValueError ''INVALID_DATE_TRIPLET'')
      else if kind = ''APPROXIMATE'' \<and> (event_date \<noteq> None \<or> event_month = None) then Inl (ValueError ''INVALID_DATE_TRIPLET'')
      else if kind = ''FLEXIBLE'' \<and> event_date \<noteq> None then Inl (ValueError ''INVALID_DATE_TRIPLET'')
      else if kind = ''UNKNOWN'' \<and> (event_date \<noteq> None \<or> event_month \<noteq> None) then Inl (ValueError ''INVALID_DATE_TRIPLET'')
      else if (case event_month of None \<Rightarrow> False | Some m \<Rightarrow> \<not> month_shape u m) then Inl (ValueError ''INVALID_DATE'')
      else Inr \<lparr>dt_event_date = event_date, dt_event_month = event_month, dt_event_date_type = kind, dt_event_date_raw = raw\<rparr>)"

definition validate_event_date_not_past :: "date \<Rightarrow> date \<Rightarrow> (app_error, unit) result" where
  "validate_event_date_not_past day today = guard (today \<le> day) (ValueError ''PAST_DATE'')"

section \<open>Words of the text\<close>

definition event_months :: "(string \<times> int) list" where
  "event_months = [(''enero'', 1), (''febrero'', 2), (''marzo'', 3), (''abril'', 4), (''mayo'', 5), (''junio'', 6),
     (''julio'', 7), (''agosto'', 8), (''septiembre'', 9), (''setiembre'', 9), (''octubre'', 10),
     (''noviembre'', 11), (''diciembre'', 12)]"

definition event_weekdays :: "(string \<times> int) list" where
  "event_weekdays = [(''lunes'', 0), (''martes'', 1), (''miercoles'', 2), (''mi'' @ e_acute @ ''rcoles'', 2),
     (''jueves'', 3), (''viernes'', 4), (''sabado'', 5), (''s'' @ a_acute @ ''bado'', 5), (''domingo'', 6)]"

definition month_in :: "string \<Rightarrow> int option" where
  "month_in s = map_option snd (find (\<lambda>(name, _). is_infix name s) event_months)"

definition weekday_in :: "ucd \<Rightarrow> string \<Rightarrow> int option" where
  "weekday_in u s =
     map_option snd (find (\<lambda>(name, _). is_infix (strip_accents u name) (strip_accents u s)) event_weekdays)"

text \<open>\<open>re.search("\b(\d{1,2})\b", s)\<close> and \<open>re.search("\b(20\d{2})\b", s)\<close>: words of that shape.\<close>

definition short_number :: "ucd \<Rightarrow> string \<Rightarrow> int option" where
  "short_number u s = map_option (int_of_digits u)
     (find (\<lambda>w. (length w = 1 \<or> length w = 2) \<and> list_all (uc_isdecimal u) w) (words u s))"

definition explicit_year :: "ucd \<Rightarrow> string \<Rightarrow> int option" where
  "explicit_year u s = map_option (int_of_digits u)
     (find (\<lambda>w. length w = 4 \<and> take 2 w = [50, 48] \<and> list_all (uc_isdecimal u) w) (words u s))"

section \<open>The next date with a given day\<close>

definition next_month :: "int \<Rightarrow> int \<Rightarrow> int \<times> int" where
  "next_month y m = (if m = 12 then (y + 1, 1) else (y, m + 1))"

partial_function (option) next_date_from :: "int \<Rightarrow> date \<Rightarrow> int \<Rightarrow> int \<Rightarrow> date option" where
  "next_date_from day today y m =
     (case make_date y m day of
        Some candidate \<Rightarrow>
          if today \<le> candidate then Some candidate
          else next_date_from day today (fst (next_month y m)) (snd (next_month y m))
      | None \<Rightarrow> next_date_from day today (fst (next_month y m)) (snd (next_month y m)))"

declare next_date_from.simps [code]

definition next_future_date_for_day :: "int \<Rightarrow> date \<Rightarrow> date option" where
  "next_future_date_for_day day today = (case ymd_of_date today of (y, m, _) \<Rightarrow> next_date_from day today y m)"

section \<open>The parser\<close>

definition infer_year :: "int \<Rightarrow> date \<Rightarrow> int" where
  "infer_year month today = (case ymd_of_date today of (y, m, _) \<Rightarrow> if month < m then y + 1 else y)"

definition month_text :: "int \<Rightarrow> int \<Rightarrow> string" where
  "month_text y m = pad 4 (show_int y) @ ''-'' @ pad 2 (show_int m)"

text \<open>A text without a month: a weekday that counts as true in Python (Monday is 0), or a day of the month.\<close>

definition parse_without_month ::
  "ucd \<Rightarrow> string \<Rightarrow> string \<Rightarrow> date \<Rightarrow> (app_error, date_triplet) result option" where
  "parse_without_month u raw normalized today =
     (case weekday_in u normalized of
        Some w \<Rightarrow>
          if w \<noteq> 0
          then (let ahead = (w - weekday today) mod 7; days_ahead = (if ahead = 0 then 7 else ahead)
                in Some (validate_event_date_triplet u (Some (today + days_ahead)) None ''EXACT'' raw))
          else (case short_number u normalized of
                  Some day \<Rightarrow> map_option (\<lambda>parsed. validate_event_date_triplet u (Some parsed) None ''EXACT'' raw)
                    (next_future_date_for_day day today)
                | None \<Rightarrow> Some (Inl (ValueError ''INVALID_DATE'')))
      | None \<Rightarrow> (case short_number u normalized of
                  Some day \<Rightarrow> map_option (\<lambda>parsed. validate_event_date_triplet u (Some parsed) None ''EXACT'' raw)
                    (next_future_date_for_day day today)
                | None \<Rightarrow> Some (Inl (ValueError ''INVALID_DATE''))))"

definition parse_day_of_month ::
  "ucd \<Rightarrow> string \<Rightarrow> bool \<Rightarrow> int \<Rightarrow> int \<Rightarrow> int \<Rightarrow> date \<Rightarrow> (app_error, date_triplet) result" where
  "parse_day_of_month u raw has_year year month day today =
     (case make_date year month day of
        None \<Rightarrow> Inl (ValueError ''INVALID_CALENDAR_DATE'')
      | Some parsed \<Rightarrow>
          ebind (if \<not> has_year \<and> parsed < today
                 then (case make_date (year + 1) month day of
                         None \<Rightarrow> Inl (ValueError ''day is out of range for month'') | Some p \<Rightarrow> Inr p)
                 else Inr parsed) (\<lambda>day2.
          ebind (validate_event_date_not_past day2 today) (\<lambda>_.
            validate_event_date_triplet u (Some day2) None ''EXACT'' raw)))"

definition parse_with_month ::
  "ucd \<Rightarrow> string \<Rightarrow> string \<Rightarrow> int \<Rightarrow> date \<Rightarrow> (app_error, date_triplet) result" where
  "parse_with_month u raw normalized month today =
     (let found = explicit_year u normalized;
          year = (case found of Some y \<Rightarrow> y | None \<Rightarrow> infer_year month today)
      in case short_number u normalized of
           Some day \<Rightarrow> parse_day_of_month u raw (found \<noteq> None) year month day today
         | None \<Rightarrow>
             let event_month = month_text year month
             in if found \<noteq> None \<and> str_less event_month (case ymd_of_date today of (y, m, _) \<Rightarrow> month_text y m)
                then Inl (ValueError ''PAST_DATE'')
                else validate_event_date_triplet u None (Some event_month)
                       (if is_infix ''cualquier'' normalized then ''FLEXIBLE'' else ''APPROXIMATE'') raw)"

definition undecided :: "string \<Rightarrow> bool" where
  "undecided normalized \<longleftrightarrow> is_infix (''todav'' @ i_acute @ ''a no'') normalized \<or> is_infix ''todavia no'' normalized \<or>
     is_infix (''no s'' @ e_acute) normalized"

definition parse_customer_date_expression ::
  "ucd \<Rightarrow> string \<Rightarrow> date \<Rightarrow> (app_error, date_triplet) result option" where
  "parse_customer_date_expression u raw today =
     (let normalized = casefold u (strip raw)
      in if normalized = [] then Some (Inl (ValueError ''INVALID_DATE''))
         else if undecided normalized then Some (validate_event_date_triplet u None None ''UNKNOWN'' raw)
         else (case month_in normalized of
                 None \<Rightarrow> parse_without_month u raw normalized today
               | Some month \<Rightarrow> Some (parse_with_month u raw normalized month today)))"

definition parse_date_raw :: "ucd \<Rightarrow> string \<Rightarrow> date \<Rightarrow> (app_error, date_triplet) result option" where
  "parse_date_raw u raw today =
     (case short_number u raw of
        Some day \<Rightarrow> if 1 \<le> day \<and> day \<le> 31 then parse_customer_date_expression u raw today
                    else Some (Inl (ValueError ''INVALID_DATE''))
      | None \<Rightarrow> parse_customer_date_expression u raw today)"

section \<open>The search for a day\<close>

lemma no_such_day: "\<not> (1 \<le> d \<and> d \<le> 31) \<Longrightarrow> make_date y m d = None"
  by (auto simp: make_date_def days_in_month_def split: if_splits)

lemma next_date_never:
  assumes "\<not> (1 \<le> day \<and> day \<le> 31)"
  shows "next_date_from day today y m = None"
proof (rule ccontr)
  assume "next_date_from day today y m \<noteq> None"
  then obtain r where ret: "next_date_from day today y m = Some r" by blast
  have "\<not> (1 \<le> day \<and> day \<le> 31) \<longrightarrow> False"
  proof (rule next_date_from.raw_induct [where P = "\<lambda>d t y m r. \<not> (1 \<le> d \<and> d \<le> 31) \<longrightarrow> False", OF _ ret])
    fix f :: "int \<Rightarrow> date \<Rightarrow> int \<Rightarrow> int \<Rightarrow> date option" and d t y m r
    assume IH: "\<And>d t y m r. f d t y m = Some r \<Longrightarrow> \<not> (1 \<le> d \<and> d \<le> 31) \<longrightarrow> False"
      and eq: "(case make_date y m d of
          None \<Rightarrow> f d t (fst (next_month y m)) (snd (next_month y m))
        | Some candidate \<Rightarrow> if t \<le> candidate then Some candidate
            else f d t (fst (next_month y m)) (snd (next_month y m))) = Some r"
    show "\<not> (1 \<le> d \<and> d \<le> 31) \<longrightarrow> False"
    proof
      assume d: "\<not> (1 \<le> d \<and> d \<le> 31)"
      then have "f d t (fst (next_month y m)) (snd (next_month y m)) = Some r"
        using eq unfolding no_such_day [OF d] by simp
      from IH [OF this] d show False by blast
    qed
  qed
  with assms show False by simp
qed

definition month_start :: "int \<Rightarrow> int \<Rightarrow> int" where
  "month_start y m = days_before_year y + days_before_month y m"

lemma next_month_start:
  assumes "1 \<le> m" "m \<le> 12"
  shows "month_start (fst (next_month y m)) (snd (next_month y m)) = month_start y m + days_in_month y m"
proof (cases "m = 12")
  case True
  then show ?thesis
    using december [of y]
    by (simp add: month_start_def next_month_def days_before_next_year)
      (simp add: days_before_month_def month_table_def)
next
  case False
  with assms days_before_next_month [of m y] show ?thesis by (simp add: month_start_def next_month_def)
qed

lemma make_date_start:
  "1 \<le> y \<Longrightarrow> y \<le> 9999 \<Longrightarrow> 1 \<le> m \<Longrightarrow> m \<le> 12 \<Longrightarrow> 1 \<le> d \<Longrightarrow>
     make_date y m d = (if d \<le> days_in_month y m then Some (month_start y m + d) else None)"
  by (simp add: make_date_def month_start_def)

lemma long_month_follows:
  "1 \<le> m \<Longrightarrow> m \<le> 12 \<Longrightarrow> days_in_month y m \<noteq> 31 \<Longrightarrow>
     days_in_month (fst (next_month y m)) (snd (next_month y m)) = 31"
  by (auto simp: days_in_month_def next_month_def split: if_splits)

lemma next_month_range:
  "1 \<le> m \<Longrightarrow> m \<le> 12 \<Longrightarrow> 1 \<le> snd (next_month y m) \<and> snd (next_month y m) \<le> 12 \<and>
     fst (next_month y m) \<in> {y, y + 1} \<and> (fst (next_month y m) = y + 1 \<longrightarrow> snd (next_month y m) = 1)"
  by (auto simp: next_month_def)

lemma later_month_found:
  assumes "1 \<le> y" "y \<le> 9999" "1 \<le> m" "m \<le> 12" "1 \<le> d" "d \<le> days_in_month y m" "today \<le> month_start y m"
  shows "next_date_from d today y m = Some (month_start y m + d)"
  using assms by (subst next_date_from.simps) (simp add: make_date_start)

lemma search_step:
  assumes "\<And>c. make_date y m d = Some c \<Longrightarrow> \<not> today \<le> c"
  shows "next_date_from d today y m = next_date_from d today (fst (next_month y m)) (snd (next_month y m))"
  using assms by (subst next_date_from.simps) (auto split: option.splits)

text \<open>The search ends within two months of the one it starts in: of two consecutive months one has 31 days.\<close>

lemma search_ends:
  assumes y: "1 \<le> y" "y \<le> 9998" and m: "1 \<le> m" "m \<le> 12" and d: "1 \<le> d" "d \<le> 31"
    and today: "today \<le> month_start y m + days_in_month y m"
  shows "\<exists>c. next_date_from d today y m = Some c \<and> today \<le> c"
proof (cases "d \<le> days_in_month y m \<and> today \<le> month_start y m + d")
  case True
  with y m d show ?thesis by (subst next_date_from.simps) (simp add: make_date_start)
next
  case False
  obtain y1 m1 where n1: "next_month y m = (y1, m1)" by fastforce
  obtain y2 m2 where n2: "next_month y1 m1 = (y2, m2)" by fastforce
  have r1: "1 \<le> y1" "y1 \<le> 9999" "1 \<le> m1" "m1 \<le> 12" and "y1 = y + 1 \<longrightarrow> m1 = 1"
    using next_month_range [OF m, of y] y n1 by auto
  then have r2: "1 \<le> y2" "y2 \<le> 9999" "1 \<le> m2" "m2 \<le> 12"
    using n2 y n1 m by (auto simp: next_month_def split: if_splits)
  have s1: "today \<le> month_start y1 m1" using next_month_start [OF m, of y] today n1 by simp
  have s2: "month_start y2 m2 = month_start y1 m1 + days_in_month y1 m1"
    using next_month_start [OF r1(3,4), of y1] n2 by simp
  have first: "next_date_from d today y m = next_date_from d today y1 m1"
  proof -
    have "\<not> today \<le> c" if "make_date y m d = Some c" for c
      using that False y m d by (simp add: make_date_start split: if_splits)
    from search_step [OF this] n1 show ?thesis by simp
  qed
  show ?thesis
  proof (cases "d \<le> days_in_month y1 m1")
    case True
    with first later_month_found [OF r1 d(1) True s1] s1 d show ?thesis by simp
  next
    case long: False
    then have "days_in_month y1 m1 \<noteq> 31" using d by simp
    then have d2: "d \<le> days_in_month y2 m2" using long_month_follows [OF r1(3,4), of y1] n2 d by simp
    have pos: "0 \<le> days_in_month y1 m1" by (simp add: days_in_month_def)
    have "next_date_from d today y1 m1 = next_date_from d today y2 m2"
      using search_step [of y1 m1 d today] long r1 d n2 by (simp add: make_date_start)
    moreover have "next_date_from d today y2 m2 = Some (month_start y2 m2 + d)"
      using later_month_found [OF r2 d(1) d2] s1 s2 pos by simp
    ultimately show ?thesis using first s1 s2 pos d by simp
  qed
qed

lemma next_date_is_date:
  assumes "next_date_from day today y m = Some r"
  shows "today \<le> r \<and> (\<exists>y m. make_date y m day = Some r)"
proof (rule next_date_from.raw_induct
    [where P = "\<lambda>d t y m r. t \<le> r \<and> (\<exists>y m. make_date y m d = Some r)", OF _ assms])
  fix f :: "int \<Rightarrow> date \<Rightarrow> int \<Rightarrow> int \<Rightarrow> date option" and d t y m r
  assume IH: "\<And>d t y m r. f d t y m = Some r \<Longrightarrow> t \<le> r \<and> (\<exists>y m. make_date y m d = Some r)"
    and eq: "(case make_date y m d of
        None \<Rightarrow> f d t (fst (next_month y m)) (snd (next_month y m))
      | Some candidate \<Rightarrow> if t \<le> candidate then Some candidate
          else f d t (fst (next_month y m)) (snd (next_month y m))) = Some r"
  show "t \<le> r \<and> (\<exists>y m. make_date y m d = Some r)"
  proof (cases "make_date y m d")
    case None
    with eq show ?thesis by (intro IH) simp
  next
    case (Some c)
    show ?thesis
    proof (cases "t \<le> c")
      case True
      with eq Some have "r = c" by simp
      with True Some show ?thesis by blast
    next
      case False
      with eq Some show ?thesis by (intro IH) simp
    qed
  qed
qed

lemma next_future_returns:
  assumes "1 \<le> today" "fst (ymd_of_date today) \<le> 9998" "1 \<le> day" "day \<le> 31"
  shows "next_future_date_for_day day today \<noteq> None"
proof -
  obtain y m d where ymd: "ymd_of_date today = (y, m, d)" by (metis prod_cases3)
  from ymd_of_date_valid [OF ymd assms(1)] have
    "1 \<le> y" "1 \<le> m" "m \<le> 12" "today \<le> month_start y m + days_in_month y m" by (simp_all add: month_start_def)
  then have "\<exists>c. next_date_from day today y m = Some c \<and> today \<le> c"
    by (intro search_ends) (use assms ymd in simp_all)
  then show ?thesis by (auto simp: next_future_date_for_day_def ymd)
qed

lemma next_future_is_date:
  "next_future_date_for_day day today = Some r \<Longrightarrow> today \<le> r \<and> (\<exists>y m. make_date y m day = Some r)"
  by (simp add: next_future_date_for_day_def split: prod.splits) (rule next_date_is_date)


lemmas text_eval = ascii_eval casefold_def ascii_ucd_def utf8_encode_def utf8_encode1_def strip_def strip_cps_def
  words_def word_char_def int_of_digits_def


section \<open>What an accepted date says\<close>

definition well_formed_date :: "date_triplet \<Rightarrow> bool" where
  "well_formed_date t \<longleftrightarrow>
     (dt_event_date_type t = ''EXACT'' \<and> dt_event_date t \<noteq> None \<and> dt_event_month t = None) \<or>
     (dt_event_date_type t \<in> {''APPROXIMATE'', ''FLEXIBLE''} \<and> dt_event_date t = None \<and> dt_event_month t \<noteq> None) \<or>
     (dt_event_date_type t = ''UNKNOWN'' \<and> dt_event_date t = None \<and> dt_event_month t = None)"

definition not_before :: "date \<Rightarrow> date_triplet \<Rightarrow> bool" where
  "not_before today t \<longleftrightarrow> (case dt_event_date t of None \<Rightarrow> True | Some d \<Rightarrow> today \<le> d)"

definition accepted :: "date \<Rightarrow> string \<Rightarrow> date_triplet \<Rightarrow> bool" where
  "accepted today raw t \<longleftrightarrow> well_formed_date t \<and> not_before today t \<and> dt_event_date_raw t = raw"

lemma validated:
  "validate_event_date_triplet u d m k raw = Inr t \<Longrightarrow>
     t = \<lparr>dt_event_date = d, dt_event_month = m, dt_event_date_type = k, dt_event_date_raw = raw\<rparr>"
  by (simp add: validate_event_date_triplet_def split: if_splits)

lemma exact_accepted:
  "validate_event_date_triplet u (Some d) None ''EXACT'' raw = Inr t \<Longrightarrow> today \<le> d \<Longrightarrow>
     accepted today raw t"
  by (drule validated) (simp add: accepted_def well_formed_date_def not_before_def)

lemma without_month_accepted:
  assumes "parse_without_month u raw n today = Some (Inr t)"
  shows "accepted today raw t"
proof -
  have day: "accepted today raw t"
    if "map_option (\<lambda>p. validate_event_date_triplet u (Some p) None ''EXACT'' raw)
      (next_future_date_for_day d today) = Some (Inr t)" for d
  proof -
    from that obtain p where p: "next_future_date_for_day d today = Some p"
      and v: "validate_event_date_triplet u (Some p) None ''EXACT'' raw = Inr t" by blast
    from exact_accepted [OF v] next_future_is_date [OF p] show ?thesis by blast
  qed
  have ahead: "accepted today raw t"
    if "validate_event_date_triplet u (Some (today + (if k mod 7 = 0 then 7 else k mod 7))) None ''EXACT'' raw = Inr t"
    for k :: int using that by (rule exact_accepted) simp
  show ?thesis
  proof (cases "\<exists>w. weekday_in u n = Some w \<and> w \<noteq> 0")
    case True
    with assms ahead show ?thesis by (auto simp: parse_without_month_def Let_def)
  next
    case False
    then have "(case short_number u n of
        Some d \<Rightarrow> map_option (\<lambda>p. validate_event_date_triplet u (Some p) None ''EXACT'' raw)
          (next_future_date_for_day d today)
      | None \<Rightarrow> Some (Inl (ValueError ''INVALID_DATE''))) = Some (Inr t)"
      using assms by (auto simp: parse_without_month_def split: option.splits)
    with day show ?thesis by (cases "short_number u n") simp_all
  qed
qed

lemma with_month_accepted:
  assumes "parse_with_month u raw n month today = Inr t"
  shows "accepted today raw t"
proof (cases "short_number u n")
  case None
  with assms show ?thesis
    by (auto simp: parse_with_month_def Let_def accepted_def well_formed_date_def not_before_def split: if_splits option.splits
        dest!: validated)
next
  case (Some d)
  with assms obtain k y where p: "parse_day_of_month u raw k y month d today = Inr t"
    by (simp add: parse_with_month_def Let_def)
  then show ?thesis
    by (auto simp: parse_day_of_month_def validate_event_date_not_past_def ebind_def guard_def
        split: option.splits sum.splits if_splits elim: exact_accepted)
qed

lemma customer_date_accepted:
  assumes p: "parse_customer_date_expression u raw today = Some (Inr t)"
  shows "accepted today raw t"
proof (cases "undecided (casefold u (strip raw))")
  case True
  with p show ?thesis
    by (auto simp: parse_customer_date_expression_def Let_def accepted_def well_formed_date_def not_before_def
        split: if_splits dest!: validated)
next
  case False
  with p show ?thesis
    by (auto simp: parse_customer_date_expression_def Let_def split: if_splits option.splits
        dest: without_month_accepted with_month_accepted)
qed

text \<open>C38. An accepted date has one of the four shapes of its kind (a date, a month, or nothing), counts as
  resolved, keeps the customer's words, and no exact date of it lies before today.
\<close>

theorem accepted_date_well_formed:
  assumes "parse_date_raw u raw today = Some (Inr t)"
  shows "well_formed_date t \<and> date_resolved t \<and> dt_event_date_raw t = raw \<and> not_before today t"
proof -
  have "parse_customer_date_expression u raw today = Some (Inr t)"
    using assms by (simp add: parse_date_raw_def split: option.splits if_splits)
  moreover have "date_resolved t" if "well_formed_date t"
    using that by (auto simp: well_formed_date_def date_resolved_def)
  ultimately show ?thesis using customer_date_accepted by (simp add: accepted_def)
qed

text \<open>A text that names a weekday but no month and no number is read as the next such weekday, one to
  seven days ahead; except Monday, whose number 0 counts as false, so that its text is refused.
\<close>

theorem monday_not_understood:
  assumes "n = casefold u (strip raw)" and "n \<noteq> []" and "\<not> undecided n"
    and "month_in n = None" and "weekday_in u n = Some w" and "short_number u n = None"
  shows "parse_customer_date_expression u raw today =
    (if w = 0 then Some (Inl (ValueError ''INVALID_DATE''))
     else Some (Inr \<lparr>dt_event_date = Some (today + (w - weekday today + 6) mod 7 + 1), dt_event_month = None,
       dt_event_date_type = ''EXACT'', dt_event_date_raw = raw\<rparr>))"
proof -
  have "strip raw \<noteq> []" using assms(1,2) by (auto simp: casefold_def utf8_decode_def utf8_encode_def)
  moreover have step: "(if (k :: int) mod 7 = 0 then 7 else k mod 7) = (k + 6) mod 7 + 1" for k by presburger
  ultimately show ?thesis
    using assms step [of "w - weekday today"]
    by (simp add: parse_customer_date_expression_def parse_without_month_def validate_event_date_triplet_def Let_def)
qed


lemma accepted_date_well_formed_witness:
  "\<exists>t. parse_date_raw ascii_ucd ''en abril'' 738916 = Some (Inr t) \<and> well_formed_date t \<and> date_resolved t"
proof -
  have n: "casefold ascii_ucd ''en abril'' = ''en abril''" by (simp add: text_eval, code_simp)
  have s: "short_number ascii_ucd ''en abril'' = None" by (simp add: short_number_def text_eval)
  have e: "explicit_year ascii_ucd ''en abril'' = None" by (simp add: explicit_year_def text_eval)
  have u: "\<not> undecided ''en abril''" by (simp add: undecided_def e_acute_def i_acute_def)
  have m: "month_in ''en abril'' = Some 4" by (simp add: month_in_def event_months_def)
  have t: "month_text (infer_year 4 738916) 4 = ''2024-04''" by code_simp
  have b: "strip ''en abril'' = ''en abril''" by (simp add: text_eval, code_simp?)
  have v: "month_shape ascii_ucd ''2024-04''" by (simp add: month_shape_def text_eval)
  have "parse_date_raw ascii_ucd ''en abril'' 738916 = Some (Inr \<lparr>dt_event_date = None,
      dt_event_month = Some ''2024-04'', dt_event_date_type = ''APPROXIMATE'', dt_event_date_raw = ''en abril''\<rparr>)"
    by (simp add: parse_date_raw_def parse_customer_date_expression_def b n s e u m t v parse_with_month_def Let_def
        validate_event_date_triplet_def)
  from accepted_date_well_formed [OF this] this show ?thesis by blast
qed

lemma monday_not_understood_witness:
  "parse_customer_date_expression ascii_ucd ''el lunes'' 738916 = Some (Inl (ValueError ''INVALID_DATE'')) \<and>
   weekday_in ascii_ucd ''el lunes'' = Some 0"
proof -
  have n: "''el lunes'' = casefold ascii_ucd (strip ''el lunes'')" by (simp add: text_eval, code_simp)
  have u: "\<not> undecided ''el lunes''" by (simp add: undecided_def e_acute_def i_acute_def)
  have m: "month_in ''el lunes'' = None" by (simp add: month_in_def event_months_def)
  have w: "weekday_in ascii_ucd ''el lunes'' = Some 0" by (simp add: weekday_in_def event_weekdays_def strip_accents_def text_eval)
  have k: "short_number ascii_ucd ''el lunes'' = None" by (simp add: short_number_def text_eval)
  show ?thesis using monday_not_understood [OF n _ u m w k] w by simp
qed

end
