(* ===== verification/Booking_Runs.thy ===== *)
theory Booking_Runs
  imports Calendar_Sync Payment_Facts
begin

text \<open>
  The life of the bookings as a step relation: requests, registered receipts, decisions on receipts,
  expiration and calendar synchronization, in any order and interleaved with steps of other components
  that leave the three tables alone. The invariants of the bookings hold in every reachable database.
\<close>

section \<open>Steps\<close>

text \<open>
  Freshness of identifiers is what \<open>uuid4()\<close> and the serial key of a receipt provide. A calendar
  synchronization is its transaction after the push, from whatever the others committed meanwhile.
\<close>

inductive booking_step :: "'c calendar \<Rightarrow> ucd \<Rightarrow> settings \<Rightarrow> db \<Rightarrow> db \<Rightarrow> bool" for cal u st where
  request: "create_pending_reservation lead_id e p c cu s actor req st d = Inr (r, e', d') \<Longrightarrow>
    rv_id r \<notin> rv_id ` set (db_reservations d) \<Longrightarrow>
    Some (rv_id r) \<notin> pe_reservation_id ` set (db_evidence d) \<Longrightarrow> booking_step cal u st d d'"
| receipt: "register_evidence e h req st d = Inr (e', d') \<Longrightarrow> pe_id e \<notin> pe_id ` set (db_evidence d) \<Longrightarrow>
    pe_review_status e = RW_PENDING_REVIEW \<Longrightarrow> booking_step cal u st d d'"
| accept: "get_row pe_id (pe_id e) (db_evidence d) = Some e \<Longrightarrow>
    accept_payment u st e a actor nte req blks review d = Inr (res, e', d') \<Longrightarrow> booking_step cal u st d d'"
| reject: "get_row pe_id (pe_id e) (db_evidence d) = Some e \<Longrightarrow>
    reject_payment e actor nte req d = Inr (ro, e', d') \<Longrightarrow> booking_step cal u st d d'"
| expire: "expire_pending_reservations (Aware t off) d = Inr (n, d') \<Longrightarrow> booking_step cal u st d d'"
| synchronized: "record_sync cal k s id d c = (sr, d', c') \<Longrightarrow> booking_step cal u st d d'"
| unsynchronized: "record_sync_failure k d = (sr, d') \<Longrightarrow> booking_step cal u st d d'"
| elsewhere: "db_reservations d' = db_reservations d \<Longrightarrow> db_evidence d' = db_evidence d \<Longrightarrow>
    db_plans d' = db_plans d \<Longrightarrow> booking_step cal u st d d'"

section \<open>Every step keeps the invariants\<close>

lemma credited_no_receipt:
  "Some k \<notin> pe_reservation_id ` set (db_evidence d) \<Longrightarrow> credited k d = 0"
proof -
  assume k: "Some k \<notin> pe_reservation_id ` set (db_evidence d)"
  have "sum_list (map (credit k) es) = 0" if "set es \<subseteq> set (db_evidence d)" for es
    using that by (induction es) (use k in \<open>force simp: credit_def\<close>)+
  then show ?thesis by (simp add: credited_def)
qed

lemma request_keeps:
  assumes ok: "bookings_ok st d" and run: "create_pending_reservation lead_id e p c cu s actor req st d = Inr (r, e', d')"
    and new: "rv_id r \<notin> rv_id ` set (db_reservations d)" "Some (rv_id r) \<notin> pe_reservation_id ` set (db_evidence d)"
  shows "bookings_ok st d'"
proof -
  from create_pending_reservation_InrD [OF run] have
    r: "rv_status r = RV_PAYMENT_PENDING" "rv_amount_paid_cop r = 0"
    and d': "db_reservations d' = db_reservations d @ [r]" "db_evidence d' = db_evidence d" "db_plans d' = db_plans d"
    by (auto simp: new_reservation_def)
  have cr: "credited k d' = credited k d" for k by (simp add: credited_def d')
  have "no_double_booking d'" using ok r by (auto simp: bookings_ok_def no_double_booking_def d')
  moreover have "deposits_covered st d'" using ok r by (auto simp: bookings_ok_def deposits_covered_def d')
  moreover have "ledger_ok d'"
    using ok r credited_no_receipt [OF new(2)] by (auto simp: bookings_ok_def ledger_ok_def d' cr)
  ultimately show ?thesis using ok new(1) by (auto simp: bookings_ok_def d' keys_ok_append1)
qed

lemma receipt_keeps:
  assumes ok: "bookings_ok st d" and run: "register_evidence e h req st d = Inr (e', d')"
    and new: "pe_id e \<notin> pe_id ` set (db_evidence d)" and pending: "pe_review_status e = RW_PENDING_REVIEW"
  shows "bookings_ok st d'"
proof -
  let ?d = "d\<lparr>db_evidence := db_evidence d @ [e]\<rparr>"
  have keys: "keys_ok pe_id (db_evidence ?d)" using ok new by (simp add: bookings_ok_def keys_ok_append1)
  have row: "get_row pe_id (pe_id e) (db_evidence ?d) = Some e"
    using new get_row_None_iff [of pe_id "pe_id e" "db_evidence d"] by (simp add: get_row_append1)
  have start: "bookings_ok st ?d"
    by (rule same_tables_keep [OF ok]) (use keys pending in \<open>simp_all add: credited_def credit_unreviewed\<close>)
  obtain r e1 d1 where att: "attach_payment_evidence e req st ?d = Inr (r, e1, d1)"
    and rest: "(case raise_priority h req (created_audit e1 req d1) of (h1, d2) \<Rightarrow>
        Inr (e1, put_handoff (mention_evidence e1 h1) d2)) = (Inr (e', d') :: (app_error, evidence \<times> db) result)"
    using run by (auto simp: register_evidence_def ebind_Inr_iff)
  obtain h1 d2 where raised: "raise_priority h req (created_audit e1 req d1) = (h1, d2)" by fastforce
  then have d2: "db_reservations d2 = db_reservations d1" "db_evidence d2 = db_evidence d1" "db_plans d2 = db_plans d1"
    by (auto simp: raise_priority_def created_audit_def audit_def audit_at_def split: if_splits)
  have d': "d' = put_handoff (mention_evidence e1 h1) d2"
  proof -
    have "e1 = e' \<and> put_handoff (mention_evidence e1 h1) d2 = d'"
      using rest unfolding raised prod.case sum.inject prod.inject .
    then show ?thesis by blast
  qed
  have mid: "bookings_ok st d1"
  proof (cases r)
    case None
    with att have "d1 = ?d" by (simp add: attach_none_same)
    with start show ?thesis by simp
  next
    case (Some r1)
    from attach_keeps_bookings [OF start _ pending att [unfolded Some]] row show ?thesis by simp
  qed
  then have keys1: "keys_ok pe_id (db_evidence d1)" by (simp add: bookings_ok_def)
  show ?thesis
    by (rule same_tables_keep [OF mid]) (use d2 keys1 in \<open>simp_all add: d' credited_def put_handoff_def\<close>)
qed

lemma expire_keeps:
  assumes ok: "bookings_ok st d" and run: "expire_pending_reservations (Aware t off) d = Inr (n, d')"
  shows "bookings_ok st d'"
proof -
  have keys: "keys_ok rv_id (db_reservations d)" using ok by (simp add: bookings_ok_def)
  let ?f = "\<lambda>r. if expirable t r then r\<lparr>rv_status := RV_EXPIRED\<rparr> else r"
  from expire_pending_ok [OF keys, of t off] run have
    d': "db_evidence d' = db_evidence d" "db_plans d' = db_plans d" "db_reservations d' = map ?f (db_reservations d)"
    by auto
  have f: "rv_id (?f r) = rv_id r" "rv_amount_paid_cop (?f r) = rv_amount_paid_cop r"
    "rv_status (?f r) = RV_RESERVED \<Longrightarrow> ?f r = r" for r by (simp_all split: if_splits)
  have mem: "r \<in> set (db_reservations d)" if "r \<in> set (db_reservations d')" "rv_status r = RV_RESERVED" for r
    using that f(3) by (auto simp: d')
  have nd: "no_double_booking d" using ok by (simp add: bookings_ok_def)
  have "no_double_booking d'" unfolding no_double_booking_def d'(2)
  proof (intro ballI allI impI, elim conjE)
    fix r s p q
    assume a: "r \<in> set (db_reservations d')" "s \<in> set (db_reservations d')" "rv_status r = RV_RESERVED"
      "rv_status s = RV_RESERVED" and b: "rv_id r \<noteq> rv_id s"
      "overlaps (rv_starts_at r) (rv_ends_at r) (rv_starts_at s) (rv_ends_at s)"
      "get_row pl_id (rv_plan_id r) (db_plans d) = Some p" "get_row pl_id (rv_plan_id s) (db_plans d) = Some q"
    from nd mem a b show "\<not> plans_conflict p q" unfolding no_double_booking_def by blast
  qed
  moreover have "deposits_covered st d'" using ok mem by (auto simp: bookings_ok_def deposits_covered_def)
  moreover have "ledger_ok d'" using ok by (auto simp: bookings_ok_def ledger_ok_def credited_def d')
  moreover have "keys_ok rv_id (db_reservations d')"
    using keys by (simp add: keys_ok_def d' comp_def f(1) cong: map_cong)
  ultimately show ?thesis using ok by (simp add: bookings_ok_def d')
qed

lemma step_keeps:
  assumes "booking_step cal u st d d'" and ok: "bookings_ok st d"
  shows "bookings_ok st d'"
  using assms(1)
proof cases
  case (request lead_id e p c cu s actor req r e')
  show ?thesis by (rule request_keeps [OF ok request(1-3)])
next
  case (receipt e h req e')
  show ?thesis by (rule receipt_keeps [OF ok receipt(1-3)])
next
  case (accept e a actor nte req blks review res e')
  show ?thesis by (rule accept_keeps_bookings [OF ok accept(1,2)])
next
  case (reject e actor nte req ro e')
  show ?thesis by (rule reject_keeps_bookings [OF ok reject(1,2)])
next
  case (expire t off n)
  show ?thesis by (rule expire_keeps [OF ok expire(1)])
next
  case (synchronized k s c sr c')
  show ?thesis by (rule calendar_only_keeps [OF ok record_sync_calendar [OF synchronized(1)]])
next
  case (unsynchronized k sr)
  show ?thesis by (rule calendar_only_keeps [OF ok record_sync_failure_calendar [OF unsynchronized(1)]])
next
  case elsewhere
  have "keys_ok pe_id (db_evidence d')" using ok by (simp add: elsewhere bookings_ok_def)
  with elsewhere show ?thesis by (intro same_tables_keep [OF ok]) (simp_all add: credited_def)
qed

lemma run_keeps: "(booking_step cal u st)\<^sup>*\<^sup>* d d' \<Longrightarrow> bookings_ok st d \<Longrightarrow> bookings_ok st d'"
  by (induction rule: rtranclp_induct) (blast intro: step_keeps)+

section \<open>Property\<close>

text \<open>However requests, receipts, acceptances, rejections, expirations and calendar synchronizations
  interleave: no two confirmed bookings whose plans conflict overlap, every confirmed booking has its
  deposit paid, and what a booking counts as paid is what its accepted receipts credit to it.
\<close>

theorem bookings_stay_sound:
  assumes "(booking_step cal u st)\<^sup>*\<^sup>* d d'" and "bookings_ok st d"
  shows "no_double_booking d' \<and> deposits_covered st d' \<and> ledger_ok d'"
  using run_keeps [OF assms] by (simp add: bookings_ok_def)

lemma bookings_stay_sound_witness:
  "\<exists>res e' d' d''. accept_payment ascii_ucd sample_settings sample_evidence 475000 ''asesor'' None None [] None sample_db =
       Inr (res, e', d') \<and> sr_kind res = SK_RESERVED \<and>
     booking_step fake_calendar_adapter ascii_ucd sample_settings d' d'' \<and> no_double_booking d'' \<and> ledger_ok d''"
proof -
  obtain res e' d' where run: "accept_payment ascii_ucd sample_settings sample_evidence 475000 ''asesor'' None None []
      None sample_db = Inr (res, e', d')" and k: "sr_kind res = SK_RESERVED" using sample_acceptance by blast
  have s1: "booking_step fake_calendar_adapter ascii_ucd sample_settings sample_db d'"
    by (rule booking_step.accept [OF _ run]) (simp add: get_row_Cons)
  have "keys_ok rv_id (db_reservations d')" using step_keeps [OF s1 sample_bookings_ok] by (simp add: bookings_ok_def)
  from expire_pending_ok [OF this, of sample_start 0] obtain n d'' where
    "expire_pending_reservations (Aware sample_start 0) d' = Inr (n, d'')" by blast
  then have s2: "booking_step fake_calendar_adapter ascii_ucd sample_settings d' d''" by (rule booking_step.expire)
  have "(booking_step fake_calendar_adapter ascii_ucd sample_settings)\<^sup>*\<^sup>* sample_db d''" using s1 s2 by auto
  from bookings_stay_sound [OF this sample_bookings_ok] s2 run k show ?thesis by blast
qed

end
