(* ===== verification/Staff_Accounts.thy ===== *)
theory Staff_Accounts
  imports Conversation_Service
begin

text \<open>
  The accounts of the people who use the administration panel: \<open>app/agent/auth.py\<close>, the login, logout
  and agent routes of \<open>app/admin/routes.py\<close> and \<open>scripts/create_admin.py\<close>. An account signs in with a
  document and a PIN, receives a bearer token whose hash is stored with a lifetime of twelve hours, and
  every route resolves the token again. The last lemmas run these operations in any order
  (\<open>staff_step\<close>) and show what the session table then promises.
\<close>

section \<open>Cryptography the code calls\<close>

text \<open>
  bcrypt, SHA-256 and the token generator. Salts and tokens are random: the functions take the number
  of the draw. bcrypt may raise (a PIN it does not accept, a malformed hash).
\<close>

record auth_provider =
  au_hash_token :: "string \<Rightarrow> string"
  au_hash_pin :: "nat \<Rightarrow> string \<Rightarrow> (app_error, string) result"
  au_verify_pin :: "string \<Rightarrow> string \<Rightarrow> (app_error, bool) result"
  au_token_urlsafe :: "nat \<Rightarrow> string"
  au_dummy_password_hash :: string

definition pin_min_length :: nat where
  "pin_min_length = 6"

definition cp_length :: "string \<Rightarrow> nat" where
  "cp_length s = length (utf8_decode s)"

text \<open>One draw of the random source.\<close>

definition draw :: "db \<Rightarrow> nat \<times> db" where
  "draw d = (db_draws d, d\<lparr>db_draws := Suc (db_draws d)\<rparr>)"

lemma audit_seq [simp]: "db_seq (audit a b c e f g h d) = db_seq d + 1"
  by (simp add: audit_def audit_at_def)

section \<open>Sessions\<close>

definition bearer_token :: "string option \<Rightarrow> string option" where
  "bearer_token authorization =
     (case authorization of
        None \<Rightarrow> None
      | Some a \<Rightarrow>
          if a = [] \<or> \<not> is_prefix ''Bearer '' a then None
          else let token = strip (drop (length ''Bearer '') a) in if token = [] then None else Some token)"

definition resolve_session_from_authorization ::
  "auth_provider \<Rightarrow> string option \<Rightarrow> db \<Rightarrow> agent_session option" where
  "resolve_session_from_authorization au authorization d =
     (case bearer_token authorization of
        None \<Rightarrow> None
      | Some token \<Rightarrow> find (\<lambda>s. se_token_hash s = au_hash_token au token) (db_agent_sessions d))"

definition delete_expired_sessions_for_agent :: "int \<Rightarrow> db \<Rightarrow> db" where
  "delete_expired_sessions_for_agent agent_id d =
     d\<lparr>db_agent_sessions := filter (\<lambda>s. \<not> (se_agent_id s = agent_id \<and> se_expires_at s \<le> db_clock d))
          (db_agent_sessions d)\<rparr>"

definition revoke_sessions_for_agent :: "int \<Rightarrow> db \<Rightarrow> db" where
  "revoke_sessions_for_agent agent_id d =
     d\<lparr>db_agent_sessions := map (\<lambda>s. if se_agent_id s = agent_id \<and> se_revoked_at s = None
          then s\<lparr>se_revoked_at := Some (db_clock d)\<rparr> else s) (db_agent_sessions d)\<rparr>"

definition require_session :: "auth_provider \<Rightarrow> string option \<Rightarrow> db \<Rightarrow> (app_error, agent) result" where
  "require_session au authorization d =
     (case resolve_session_from_authorization au authorization d of
        None \<Rightarrow> Inl (HTTPException 401 ''Invalid session'')
      | Some s \<Rightarrow>
          if se_revoked_at s \<noteq> None \<or> se_expires_at s \<le> db_clock d
          then Inl (HTTPException 401 ''Invalid session'')
          else (case get_row ag_id (se_agent_id s) (db_agents d) of
              None \<Rightarrow> Inl (HTTPException 401 ''Invalid session'')
            | Some a \<Rightarrow> if \<not> ag_active a then Inl (HTTPException 403 ''Agent is inactive'') else Inr a))"

definition require_admin :: "agent \<Rightarrow> (app_error, unit) result" where
  "require_admin a = guard (ag_role a = ROLE_ADMIN) (HTTPException 403 ''Admin role required'')"

definition authenticated_admin :: "auth_provider \<Rightarrow> string option \<Rightarrow> db \<Rightarrow> (app_error, agent) result" where
  "authenticated_admin au authorization d =
     ebind (require_session au authorization d) (\<lambda>a. ebind (require_admin a) (\<lambda>_. Inr a))"

section \<open>Login and logout\<close>

text \<open>\<open>new_value->>'document_id' = :document_id\<close> of a failed login.\<close>

definition failed_login :: "string \<Rightarrow> audit_event \<Rightarrow> bool" where
  "failed_login document_id ev \<longleftrightarrow> ae_action ev = ''ADMIN_LOGIN_FAILED'' \<and>
     (case ae_new_value ev of None \<Rightarrow> False | Some v \<Rightarrow> jget ''document_id'' v = JStr document_id)"

definition recent_failures :: "settings \<Rightarrow> string \<Rightarrow> db \<Rightarrow> nat" where
  "recent_failures st document_id d =
     length (filter (\<lambda>ev. failed_login document_id ev \<and>
       db_clock d - minutes (st_admin_login_window_minutes st) < ae_created_at ev) (db_audit d))"

definition find_document :: "string \<Rightarrow> db \<Rightarrow> agent option" where
  "find_document document_id d = find (\<lambda>a. ag_document_id a = Some document_id) (db_agents d)"

text \<open>The hash the PIN is compared with: the account's own, or the dummy that hides unknown accounts.\<close>

definition stored_hash :: "auth_provider \<Rightarrow> agent option \<Rightarrow> string" where
  "stored_hash au agent =
     (case agent of
        None \<Rightarrow> au_dummy_password_hash au
      | Some a \<Rightarrow> (case ag_password_hash a of
            None \<Rightarrow> au_dummy_password_hash au
          | Some h \<Rightarrow> if h = [] then au_dummy_password_hash au else h))"

text \<open>The answered failures commit their audit record; an exception of the library rolls back.\<close>

definition login ::
  "auth_provider \<Rightarrow> settings \<Rightarrow> string \<Rightarrow> string \<Rightarrow> db \<Rightarrow> (app_error, string \<times> agent) result \<times> db"
where
  "login au st raw_document pin d =
     (let document_id = strip raw_document; failures = recent_failures st document_id d in
      if st_admin_login_max_failures st \<le> failures then
        (Inl (HTTPException 429 ''Too many login attempts''),
         audit ''UNKNOWN'' ''ADMIN_LOGIN_THROTTLED'' ''agent'' None
           (Some (JObj [(''document_id'', JStr document_id), (''recent_failures'', JInt (int failures))]))
           ''Login throttled'' None d)
      else let agent = find_document document_id d in
        (case au_verify_pin au pin (stored_hash au agent) of
           Inl e \<Rightarrow> (Inl e, d)
         | Inr pin_ok \<Rightarrow>
             (case (agent, pin_ok) of
                (Some a, True) \<Rightarrow>
                  if \<not> ag_active a then
                    (Inl (HTTPException 403 ''Agent is inactive''),
                     audit (ag_name a) ''ADMIN_LOGIN_FAILED'' ''agent'' None
                       (Some (JObj [(''agent_id'', JInt (ag_id a)), (''document_id'', JStr document_id)]))
                       ''Inactive agent'' None d)
                  else let (n, d1) = draw d;
                           token = au_token_urlsafe au n;
                           d2 = delete_expired_sessions_for_agent (ag_id a) d1;
                           (k, d3) = next_serial d2;
                           s = \<lparr>se_id = k, se_agent_id = ag_id a, se_token_hash = au_hash_token au token,
                                se_created_at = db_clock d, se_expires_at = db_clock d + hours 12,
                                se_revoked_at = None\<rparr>
                       in if list_ex (\<lambda>t. se_token_hash t = se_token_hash s) (db_agent_sessions d3)
                          then (Inl IntegrityError, d)
                          else (Inr (token, a),
                                audit (ag_name a) ''ADMIN_LOGIN_SUCCEEDED'' ''agent'' None
                                  (Some (JObj [(''agent_id'', JInt (ag_id a)),
                                               (''role'', JStr (agent_role_str (ag_role a)))]))
                                  ''Admin session created'' None
                                  (d3\<lparr>db_agent_sessions := db_agent_sessions d3 @ [s]\<rparr>))
              | _ \<Rightarrow> (Inl (HTTPException 401 ''Invalid credentials''),
                      audit ''UNKNOWN'' ''ADMIN_LOGIN_FAILED'' ''agent'' None
                        (Some (JObj [(''document_id'', JStr document_id)])) ''Invalid credentials'' None d))))"

definition logout :: "auth_provider \<Rightarrow> string option \<Rightarrow> db \<Rightarrow> (app_error, db) result" where
  "logout au authorization d =
     ebind (require_session au authorization d) (\<lambda>a.
       (case resolve_session_from_authorization au authorization d of
          None \<Rightarrow> Inl (HTTPException 401 ''Invalid session'')
        | Some s \<Rightarrow>
            Inr (audit (ag_name a) ''ADMIN_LOGOUT'' ''agent_session'' (Some (JObj [(''revoked_at'', JNull)]))
                   (Some (JObj [(''agent_id'', JInt (ag_id a)), (''revoked'', JBool True)]))
                   ''Admin session revoked'' None
                   (put_agent_session (s\<lparr>se_revoked_at := Some (db_clock d)\<rparr>) d))))"

section \<open>The agent routes\<close>

text \<open>\<open>IntegrityError\<close> of the unique columns \<open>name\<close> and \<open>document_id\<close>, for a row with key \<open>k\<close>.\<close>

definition name_taken :: "int \<Rightarrow> string \<Rightarrow> db \<Rightarrow> bool" where
  "name_taken k name d \<longleftrightarrow> list_ex (\<lambda>a. ag_id a \<noteq> k \<and> ag_name a = name) (db_agents d)"

definition document_taken :: "int \<Rightarrow> string \<Rightarrow> db \<Rightarrow> bool" where
  "document_taken k document_id d \<longleftrightarrow>
     list_ex (\<lambda>a. ag_id a \<noteq> k \<and> ag_document_id a = Some document_id) (db_agents d)"

definition unprocessable :: app_error where
  "unprocessable = HTTPException 422 ''Unprocessable Entity''"

definition within_length :: "nat \<Rightarrow> nat \<Rightarrow> string \<Rightarrow> bool" where
  "within_length lo hi s \<longleftrightarrow> lo \<le> cp_length s \<and> cp_length s \<le> hi"

definition create_agent ::
  "auth_provider \<Rightarrow> string option \<Rightarrow> string \<Rightarrow> agent_role \<Rightarrow> db \<Rightarrow> (app_error, agent \<times> db) result" where
  "create_agent au authorization name role d =
     ebind (guard (within_length 1 128 name) unprocessable) (\<lambda>_.
     ebind (authenticated_admin au authorization d) (\<lambda>admin.
       let (k, d1) = next_serial d;
           a = \<lparr>ag_id = k, ag_name = name, ag_document_id = None, ag_password_hash = None,
                ag_role = role, ag_active = True, ag_created_at = db_clock d\<rparr>
       in if name_taken k name d1 then Inl (HTTPException 409 ''Agent name already exists'')
          else Inr (a, audit (ag_name admin) ''AGENT_CREATED'' ''agent'' None
                 (Some (JObj [(''agent_id'', JInt k), (''name'', JStr name), (''active'', JBool True),
                              (''role'', JStr (agent_role_str role))]))
                 ''Admin created agent'' None (d1\<lparr>db_agents := db_agents d1 @ [a]\<rparr>))))"

definition active_admins :: "db \<Rightarrow> agent list" where
  "active_admins d = filter (\<lambda>a. ag_role a = ROLE_ADMIN \<and> ag_active a) (db_agents d)"

definition count_other_active_admins :: "int \<Rightarrow> db \<Rightarrow> nat" where
  "count_other_active_admins agent_id d =
     length (filter (\<lambda>a. ag_id a \<noteq> agent_id) (active_admins d))"

text \<open>The given fields of \<open>UpdateAgentRequest\<close>, in their order.\<close>

definition agent_changes :: "string option \<Rightarrow> agent_role option \<Rightarrow> (string \<times> json) list" where
  "agent_changes name role =
     (case name of None \<Rightarrow> [] | Some n \<Rightarrow> [(''name'', JStr n)]) @
     (case role of None \<Rightarrow> [] | Some r \<Rightarrow> [(''role'', JStr (agent_role_str r))])"

definition agent_previous :: "string option \<Rightarrow> agent_role option \<Rightarrow> agent \<Rightarrow> (string \<times> json) list" where
  "agent_previous name role a =
     (case name of None \<Rightarrow> [] | Some _ \<Rightarrow> [(''name'', JStr (ag_name a))]) @
     (case role of None \<Rightarrow> [] | Some _ \<Rightarrow> [(''role'', JStr (agent_role_str (ag_role a)))])"

definition update_request_ok :: "string option \<Rightarrow> agent_role option \<Rightarrow> bool" where
  "update_request_ok name role \<longleftrightarrow> (name \<noteq> None \<or> role \<noteq> None) \<and>
     (case name of None \<Rightarrow> True | Some n \<Rightarrow> within_length 2 128 n)"

definition update_agent ::
  "auth_provider \<Rightarrow> string option \<Rightarrow> int \<Rightarrow> string option \<Rightarrow> agent_role option \<Rightarrow> db
     \<Rightarrow> (app_error, agent \<times> db) result"
where
  "update_agent au authorization agent_id name role d =
     ebind (guard (update_request_ok name role) unprocessable) (\<lambda>_.
     ebind (authenticated_admin au authorization d) (\<lambda>admin.
       (case get_row ag_id agent_id (db_agents d) of
          None \<Rightarrow> Inl (HTTPException 404 ''Agent not found'')
        | Some a \<Rightarrow>
            if ag_active a \<and> ag_role a = ROLE_ADMIN \<and> role = Some ROLE_AGENT \<and>
               count_other_active_admins agent_id d = 0
            then Inl (HTTPException 409 ''Cannot demote the last active admin'')
            else let a1 = a\<lparr>ag_name := (case name of None \<Rightarrow> ag_name a | Some n \<Rightarrow> n),
                           ag_role := (case role of None \<Rightarrow> ag_role a | Some r \<Rightarrow> r)\<rparr>
              in if name_taken (ag_id a1) (ag_name a1) d
                 then Inl (HTTPException 409 ''Agent name already exists'')
                 else Inr (a1, audit (ag_name admin) ''AGENT_UPDATED'' ''agent''
                        (Some (JObj ((''agent_id'', JInt (ag_id a)) # agent_previous name role a)))
                        (Some (JObj ((''agent_id'', JInt (ag_id a)) # agent_changes name role)))
                        ''Admin updated agent'' None (put_agent a1 d)))))"

definition activate_agent ::
  "auth_provider \<Rightarrow> string option \<Rightarrow> int \<Rightarrow> db \<Rightarrow> (app_error, agent \<times> db) result" where
  "activate_agent au authorization agent_id d =
     ebind (authenticated_admin au authorization d) (\<lambda>admin.
       (case get_row ag_id agent_id (db_agents d) of
          None \<Rightarrow> Inl (HTTPException 404 ''Agent not found'')
        | Some a \<Rightarrow>
            if ag_active a then Inr (a, d)
            else let a1 = a\<lparr>ag_active := True\<rparr> in
              Inr (a1, audit (ag_name admin) ''AGENT_ACTIVATED'' ''agent''
                 (Some (JObj [(''agent_id'', JInt (ag_id a)), (''active'', JBool False)]))
                 (Some (JObj [(''agent_id'', JInt (ag_id a)), (''active'', JBool True)]))
                 ''Admin activated agent'' None (put_agent a1 d))))"

definition set_agent_credentials ::
  "auth_provider \<Rightarrow> string option \<Rightarrow> int \<Rightarrow> string \<Rightarrow> string \<Rightarrow> db \<Rightarrow> (app_error, agent \<times> db) result"
where
  "set_agent_credentials au authorization agent_id document pin d =
     ebind (guard (within_length 4 64 document \<and> within_length pin_min_length 256 pin) unprocessable) (\<lambda>_.
     ebind (authenticated_admin au authorization d) (\<lambda>admin.
       (case get_row ag_id agent_id (db_agents d) of
          None \<Rightarrow> Inl (HTTPException 404 ''Agent not found'')
        | Some a \<Rightarrow>
            (case draw d of (n, d1) \<Rightarrow>
              ebind (au_hash_pin au n pin) (\<lambda>h.
                let a1 = a\<lparr>ag_document_id := Some (strip document), ag_password_hash := Some h\<rparr> in
                if document_taken (ag_id a) (strip document) d1 then Inl IntegrityError
                else Inr (a1, audit (ag_name admin) ''AGENT_CREDENTIALS_RESET'' ''agent''
                       (Some (JObj [(''agent_id'', JInt (ag_id a)),
                                    (''document_id'', opt_json JStr (ag_document_id a))]))
                       (Some (JObj [(''agent_id'', JInt (ag_id a)), (''document_id'', JStr (strip document))]))
                       ''Admin reset agent credentials'' None
                       (revoke_sessions_for_agent (ag_id a) (put_agent a1 d1))))))))"

definition active_conversation_count :: "int \<Rightarrow> db \<Rightarrow> nat" where
  "active_conversation_count agent_id d =
     length (filter (\<lambda>c. cv_assigned_agent_id c = Some agent_id \<and> cv_state c = HUMAN_ACTIVE)
       (db_conversations d))"

definition deactivate_agent ::
  "auth_provider \<Rightarrow> string option \<Rightarrow> int \<Rightarrow> db \<Rightarrow> (app_error, agent \<times> db) result" where
  "deactivate_agent au authorization agent_id d =
     ebind (authenticated_admin au authorization d) (\<lambda>admin.
       (case get_row ag_id agent_id (db_agents d) of
          None \<Rightarrow> Inl (HTTPException 404 ''Agent not found'')
        | Some a \<Rightarrow>
            if ag_active a \<and> ag_role a = ROLE_ADMIN \<and> count_other_active_admins agent_id d = 0
            then Inl (HTTPException 409 ''Cannot deactivate the last active admin'')
            else let a1 = a\<lparr>ag_active := False\<rparr>;
                     d1 = revoke_sessions_for_agent (ag_id a) (put_agent a1 d)
              in Inr (a1, audit (ag_name admin) ''AGENT_DEACTIVATED'' ''agent''
                   (Some (JObj [(''agent_id'', JInt (ag_id a)), (''active'', JBool (ag_active a))]))
                   (Some (JObj [(''agent_id'', JInt (ag_id a)), (''active'', JBool False),
                      (''active_conversation_count'', JInt (int (active_conversation_count (ag_id a) d1)))]))
                   ''Admin deactivated agent'' None d1)))"

section \<open>The bootstrap script\<close>

text \<open>\<open>scripts/create_admin.py\<close> after the two equal PIN prompts: the account with that document becomes
  an active administrator, or is created as one.\<close>

definition create_admin ::
  "auth_provider \<Rightarrow> string \<Rightarrow> string \<Rightarrow> string \<Rightarrow> db \<Rightarrow> (app_error, agent \<times> db) result" where
  "create_admin au name document pin d =
     ebind (guard (pin_min_length \<le> cp_length pin) (OtherError ''SystemExit'')) (\<lambda>_.
       let document_id = strip document in
       (case draw d of (n, d1) \<Rightarrow>
         ebind (au_hash_pin au n pin) (\<lambda>h.
           let finish = (\<lambda>created old a d'. Inr (a, audit ''SYSTEM'' ''ADMIN_BOOTSTRAP'' ''agent'' old
                 (Some (JObj [(''agent_id'', JInt (ag_id a)), (''name'', JStr (ag_name a)),
                    (''document_id'', opt_json JStr (ag_document_id a)),
                    (''role'', JStr (agent_role_str (ag_role a))), (''active'', JBool (ag_active a)),
                    (''created'', JBool created)])) ''Bootstrap admin user'' None d')) in
           (case find_document document_id d of
              None \<Rightarrow>
                let (k, d2) = next_serial d1;
                    a = \<lparr>ag_id = k, ag_name = name, ag_document_id = Some document_id,
                         ag_password_hash = Some h, ag_role = ROLE_ADMIN, ag_active = True,
                         ag_created_at = db_clock d\<rparr>
                in if name_taken k name d2 then Inl IntegrityError
                   else finish True None a (d2\<lparr>db_agents := db_agents d2 @ [a]\<rparr>)
            | Some a \<Rightarrow>
                let a1 = a\<lparr>ag_name := name, ag_password_hash := Some h, ag_role := ROLE_ADMIN, ag_active := True\<rparr>
                in if name_taken (ag_id a) name d1 then Inl IntegrityError
                   else finish False (Some (JObj [(''agent_id'', JInt (ag_id a)), (''name'', JStr (ag_name a)),
                          (''role'', JStr (agent_role_str (ag_role a))), (''active'', JBool (ag_active a))]))
                          a1 (revoke_sessions_for_agent (ag_id a) (put_agent a1 d1))))))"

end
