(* ===== verification/Staff_Facts.thy ===== *)
theory Staff_Facts
  imports Staff_Accounts
begin

text \<open>
  What the account operations keep true of the agent and session tables, and the theorems about signing
  in: \<open>staff_ok\<close> is the invariant, \<open>staff_step\<close> the operations in any order.
\<close>

section \<open>The invariant\<close>

definition accounts_ok :: "agent list \<Rightarrow> int \<Rightarrow> bool" where
  "accounts_ok rows n \<longleftrightarrow> keys_ok ag_id rows \<and> (\<forall>a \<in> set rows. ag_id a < n) \<and>
     (\<forall>a \<in> set rows. \<forall>b \<in> set rows. ag_name a = ag_name b \<longrightarrow> ag_id a = ag_id b) \<and>
     (\<forall>a \<in> set rows. \<forall>b \<in> set rows. ag_document_id a \<noteq> None \<longrightarrow>
        ag_document_id a = ag_document_id b \<longrightarrow> ag_id a = ag_id b) \<and>
     (\<forall>a \<in> set rows. ag_document_id a \<noteq> None \<longrightarrow> ag_password_hash a \<notin> {None, Some []})"

text \<open>Every session that is not revoked belongs to an active account.\<close>

definition sessions_ok :: "agent_session list \<Rightarrow> agent list \<Rightarrow> int \<Rightarrow> bool" where
  "sessions_ok ss rows n \<longleftrightarrow> keys_ok se_id ss \<and> (\<forall>s \<in> set ss. se_id s < n) \<and>
     distinct (map se_token_hash ss) \<and>
     (\<forall>s \<in> set ss. se_revoked_at s = None \<longrightarrow>
        (\<exists>a. get_row ag_id (se_agent_id s) rows = Some a \<and> ag_active a))"

definition staff_ok :: "db \<Rightarrow> bool" where
  "staff_ok d \<longleftrightarrow> accounts_ok (db_agents d) (db_seq d) \<and>
     sessions_ok (db_agent_sessions d) (db_agents d) (db_seq d)"

text \<open>bcrypt never returns an empty hash.\<close>

definition hash_sound :: "auth_provider \<Rightarrow> bool" where
  "hash_sound au \<longleftrightarrow> (\<forall>n p h. au_hash_pin au n p = Inr h \<longrightarrow> h \<noteq> [])"

inductive staff_step :: "auth_provider \<Rightarrow> settings \<Rightarrow> db \<Rightarrow> db \<Rightarrow> bool" for au st where
  step_login: "staff_step au st d (snd (login au st document pin d))"
| step_logout: "logout au auth d = Inr d' \<Longrightarrow> staff_step au st d d'"
| step_create: "create_agent au auth name role d = Inr (a, d') \<Longrightarrow> staff_step au st d d'"
| step_update: "update_agent au auth k new_name new_role d = Inr (a, d') \<Longrightarrow> staff_step au st d d'"
| step_activate: "activate_agent au auth k d = Inr (a, d') \<Longrightarrow> staff_step au st d d'"
| step_credentials: "set_agent_credentials au auth k document pin d = Inr (a, d') \<Longrightarrow> staff_step au st d d'"
| step_deactivate: "deactivate_agent au auth k d = Inr (a, d') \<Longrightarrow> staff_step au st d d'"
| step_bootstrap: "create_admin au name document pin d = Inr (a, d') \<Longrightarrow> staff_step au st d d'"
| step_elsewhere: "db_agents d' = db_agents d \<Longrightarrow> db_agent_sessions d' = db_agent_sessions d \<Longrightarrow>
    db_seq d \<le> db_seq d' \<Longrightarrow> staff_step au st d d'"

section \<open>Tables\<close>

lemma accounts_ok_mono: "accounts_ok rows n \<Longrightarrow> n \<le> m \<Longrightarrow> accounts_ok rows m"
  unfolding accounts_ok_def by (elim conjE, intro conjI) (assumption | meson order_less_le_trans)+

lemma sessions_ok_mono: "sessions_ok ss rows n \<Longrightarrow> n \<le> m \<Longrightarrow> sessions_ok ss rows m"
  unfolding sessions_ok_def by (elim conjE, intro conjI) (assumption | meson order_less_le_trans)+

lemma accounts_okI:
  assumes "keys_ok ag_id rows" and "\<And>a. a \<in> set rows \<Longrightarrow> ag_id a < n"
    and "\<And>a b. a \<in> set rows \<Longrightarrow> b \<in> set rows \<Longrightarrow> ag_name a = ag_name b \<Longrightarrow> ag_id a = ag_id b"
    and "\<And>a b. a \<in> set rows \<Longrightarrow> b \<in> set rows \<Longrightarrow> ag_document_id a \<noteq> None \<Longrightarrow>
           ag_document_id a = ag_document_id b \<Longrightarrow> ag_id a = ag_id b"
    and "\<And>a. a \<in> set rows \<Longrightarrow> ag_document_id a \<noteq> None \<Longrightarrow> ag_password_hash a \<notin> {None, Some []}"
  shows "accounts_ok rows n"
  using assms unfolding accounts_ok_def by blast

lemma accounts_okD:
  assumes "accounts_ok rows n"
  shows "keys_ok ag_id rows" and "a \<in> set rows \<Longrightarrow> ag_id a < n"
    and "a \<in> set rows \<Longrightarrow> b \<in> set rows \<Longrightarrow> ag_name a = ag_name b \<Longrightarrow> ag_id a = ag_id b"
    and "a \<in> set rows \<Longrightarrow> b \<in> set rows \<Longrightarrow> ag_document_id a \<noteq> None \<Longrightarrow>
           ag_document_id a = ag_document_id b \<Longrightarrow> ag_id a = ag_id b"
    and "a \<in> set rows \<Longrightarrow> ag_document_id a \<noteq> None \<Longrightarrow> ag_password_hash a \<notin> {None, Some []}"
  using assms unfolding accounts_ok_def by blast+

lemma accounts_ok_put:
  assumes ok: "accounts_ok rows n" and old: "get_row ag_id (ag_id a) rows = Some old"
    and name: "\<And>b. b \<in> set rows \<Longrightarrow> ag_id b \<noteq> ag_id a \<Longrightarrow> ag_name b \<noteq> ag_name a"
    and doc: "\<And>b. ag_document_id a \<noteq> None \<Longrightarrow> b \<in> set rows \<Longrightarrow> ag_id b \<noteq> ag_id a \<Longrightarrow>
       ag_document_id b \<noteq> ag_document_id a"
    and pair: "ag_document_id a \<noteq> None \<Longrightarrow> ag_password_hash a \<notin> {None, Some []}"
  shows "accounts_ok (put_row ag_id a rows) n"
proof (rule accounts_okI)
  note mem = put_row_mem [where key = ag_id and x = a and rows = rows]
  have "old \<in> set rows" "ag_id old = ag_id a" using get_row_SomeD [OF old] by blast+
  then have lt: "ag_id a < n" using accounts_okD(2) [OF ok, of old] by simp
  show "keys_ok ag_id (put_row ag_id a rows)" using accounts_okD(1) [OF ok] by simp
  fix b assume b: "b \<in> set (put_row ag_id a rows)"
  show "ag_id b < n" using mem [OF b] lt accounts_okD(2) [OF ok] by blast
  show "ag_password_hash b \<notin> {None, Some []}" if "ag_document_id b \<noteq> None"
    using mem [OF b] that pair accounts_okD(5) [OF ok] by blast
  fix c assume c: "c \<in> set (put_row ag_id a rows)"
  show "ag_id b = ag_id c" if "ag_name b = ag_name c"
    using mem [OF b] mem [OF c] that name accounts_okD(3) [OF ok] by metis
  show "ag_id b = ag_id c" if "ag_document_id b \<noteq> None" "ag_document_id b = ag_document_id c"
    using mem [OF b] mem [OF c] that doc accounts_okD(4) [OF ok] by metis
qed

lemma accounts_ok_add:
  assumes ok: "accounts_ok rows n" and k: "ag_id a = n"
    and name: "\<And>b. b \<in> set rows \<Longrightarrow> ag_name b \<noteq> ag_name a"
    and doc: "\<And>b. ag_document_id a \<noteq> None \<Longrightarrow> b \<in> set rows \<Longrightarrow> ag_document_id b \<noteq> ag_document_id a"
    and pair: "ag_document_id a \<noteq> None \<Longrightarrow> ag_password_hash a \<notin> {None, Some []}"
  shows "accounts_ok (rows @ [a]) (n + 1)"
proof (rule accounts_okI)
  have mem: "b = a \<or> b \<in> set rows" if "b \<in> set (rows @ [a])" for b using that by auto
  have "ag_id a \<notin> ag_id ` set rows" using accounts_okD(2) [OF ok] k by force
  then show "keys_ok ag_id (rows @ [a])" using accounts_okD(1) [OF ok] by (simp add: keys_ok_append1)
  fix b assume b: "b \<in> set (rows @ [a])"
  show "ag_id b < n + 1" using mem [OF b] k accounts_okD(2) [OF ok, of b] by auto
  show "ag_password_hash b \<notin> {None, Some []}" if "ag_document_id b \<noteq> None"
    using mem [OF b] that pair accounts_okD(5) [OF ok] by blast
  fix c assume c: "c \<in> set (rows @ [a])"
  show "ag_id b = ag_id c" if "ag_name b = ag_name c"
    using mem [OF b] mem [OF c] that name accounts_okD(3) [OF ok] by metis
  show "ag_id b = ag_id c" if "ag_document_id b \<noteq> None" "ag_document_id b = ag_document_id c"
    using mem [OF b] mem [OF c] that doc accounts_okD(4) [OF ok] by metis
qed

definition revoked_rows :: "int \<Rightarrow> instant \<Rightarrow> agent_session list \<Rightarrow> agent_session list" where
  "revoked_rows k now ss = map (\<lambda>s. if se_agent_id s = k \<and> se_revoked_at s = None
     then s\<lparr>se_revoked_at := Some now\<rparr> else s) ss"

lemma revoke_sessions_frame [simp]:
  "db_agents (revoke_sessions_for_agent k d) = db_agents d"
  "db_seq (revoke_sessions_for_agent k d) = db_seq d"
  "db_clock (revoke_sessions_for_agent k d) = db_clock d"
  "db_agent_sessions (revoke_sessions_for_agent k d) = revoked_rows k (db_clock d) (db_agent_sessions d)"
  by (simp_all add: revoke_sessions_for_agent_def revoked_rows_def)

lemma put_agent_frame [simp]:
  "db_agents (put_agent a d) = put_row ag_id a (db_agents d)"
  "db_agent_sessions (put_agent a d) = db_agent_sessions d"
  "db_seq (put_agent a d) = db_seq d" "db_clock (put_agent a d) = db_clock d"
  by (simp_all add: put_agent_def)

lemma revoked_rows_keys [simp]:
  "map se_id (revoked_rows k now ss) = map se_id ss"
  "map se_token_hash (revoked_rows k now ss) = map se_token_hash ss"
  by (simp_all add: revoked_rows_def)

lemma revoked_rows_mem:
  "s \<in> set (revoked_rows k now ss) \<Longrightarrow>
     (\<exists>t \<in> set ss. se_id t = se_id s \<and> se_agent_id t = se_agent_id s \<and> (se_revoked_at s = None \<longrightarrow> t = s)) \<and>
     (se_agent_id s = k \<longrightarrow> se_revoked_at s \<noteq> None)"
  by (force simp: revoked_rows_def split: if_splits)

lemma sessions_ok_revoke:
  assumes "sessions_ok ss rows n"
    and "\<And>j a. j \<noteq> k \<Longrightarrow> get_row ag_id j rows = Some a \<Longrightarrow> get_row ag_id j rows' = Some a"
  shows "sessions_ok (revoked_rows k now ss) rows' n"
proof -
  have ids: "\<forall>s \<in> set (revoked_rows k now ss). se_id s < n"
    using assms(1) revoked_rows_mem by (metis sessions_ok_def)
  have "\<exists>a. get_row ag_id (se_agent_id s) rows' = Some a \<and> ag_active a"
    if s: "s \<in> set (revoked_rows k now ss)" "se_revoked_at s = None" for s
  proof -
    from revoked_rows_mem [OF s(1)] s(2) have "s \<in> set ss" "se_agent_id s \<noteq> k" by auto
    with assms s(2) show ?thesis by (auto simp: sessions_ok_def)
  qed
  with ids assms(1) show ?thesis by (simp add: sessions_ok_def keys_ok_def)
qed

text \<open>Replacing one account keeps the sessions when it stays as active as it was.\<close>

lemma sessions_ok_put:
  assumes "sessions_ok ss rows n" and "get_row ag_id (ag_id a) rows = Some old"
    and "ag_active old \<longrightarrow> ag_active a"
  shows "sessions_ok ss (put_row ag_id a rows) n"
proof -
  have "\<exists>b. get_row ag_id (se_agent_id s) (put_row ag_id a rows) = Some b \<and> ag_active b"
    if "s \<in> set ss" "se_revoked_at s = None" for s
  proof -
    from assms(1) that obtain b where "get_row ag_id (se_agent_id s) rows = Some b" "ag_active b"
      by (auto simp: sessions_ok_def)
    with assms(2,3) show ?thesis by (auto simp: get_put_row)
  qed
  with assms(1) show ?thesis by (simp add: sessions_ok_def)
qed

lemma sessions_ok_add_agent:
  "sessions_ok ss rows n \<Longrightarrow> sessions_ok ss (rows @ [a]) n"
  by (fastforce simp: sessions_ok_def get_row_append1)

lemma sessions_ok_filter:
  "sessions_ok ss rows n \<Longrightarrow> sessions_ok (filter P ss) rows n"
  by (auto simp: sessions_ok_def keys_ok_def intro: distinct_map_filter)

lemma sessions_ok_put_revoked:
  assumes ok: "sessions_ok ss rows n" and s: "s \<in> set ss"
  shows "sessions_ok (put_row se_id (s\<lparr>se_revoked_at := Some t\<rparr>) ss) rows n"
proof -
  let ?s = "s\<lparr>se_revoked_at := Some t\<rparr>"
  have mem: "r = ?s \<or> (r \<in> set ss \<and> se_id r \<noteq> se_id ?s)" if "r \<in> set (put_row se_id ?s ss)" for r
    using that by (rule put_row_mem)
  have hash: "se_token_hash r = se_token_hash s" if "r \<in> set ss" "se_id r = se_id s" for r
    using ok s that by (metis (no_types, lifting) get_row_mem option.inject sessions_ok_def)
  have "map se_token_hash (put_row se_id ?s ss) = map se_token_hash ss"
    by (auto simp: put_row_def hash)
  moreover have "\<forall>r \<in> set (put_row se_id ?s ss). se_id r < n"
    using ok s mem by (fastforce simp: sessions_ok_def)
  moreover have "\<forall>r \<in> set (put_row se_id ?s ss). se_revoked_at r = None \<longrightarrow>
      (\<exists>a. get_row ag_id (se_agent_id r) rows = Some a \<and> ag_active a)"
    using ok mem by (fastforce simp: sessions_ok_def)
  ultimately show ?thesis using ok by (simp add: sessions_ok_def)
qed

lemma sessions_ok_add:
  assumes "sessions_ok ss rows n" and "se_id s = n"
    and "\<not> list_ex (\<lambda>t. se_token_hash t = se_token_hash s) ss"
    and "get_row ag_id (se_agent_id s) rows = Some a" and "ag_active a"
  shows "sessions_ok (ss @ [s]) rows (n + 1)"
  using assms by (fastforce simp: sessions_ok_def keys_ok_append1 list_ex_iff)

section \<open>What each operation writes\<close>

text \<open>\<open>accounts_step d d'\<close>: one account replaced by one that keeps its key and name apart from the others.\<close>

definition has_admin :: "agent list \<Rightarrow> bool" where
  "has_admin rows \<longleftrightarrow> (\<exists>a \<in> set rows. ag_role a = ROLE_ADMIN \<and> ag_active a)"

lemma has_admin_iff: "has_admin (db_agents d) \<longleftrightarrow> active_admins d \<noteq> []"
  by (auto simp: has_admin_def active_admins_def filter_empty_conv)

lemma has_admin_put:
  assumes keys: "keys_ok ag_id rows" and old: "get_row ag_id (ag_id a) rows = Some old" and h: "has_admin rows"
    and keep: "ag_role old = ROLE_ADMIN \<and> ag_active old \<longrightarrow> (ag_role a = ROLE_ADMIN \<and> ag_active a) \<or>
       (\<exists>b \<in> set rows. ag_id b \<noteq> ag_id a \<and> ag_role b = ROLE_ADMIN \<and> ag_active b)"
  shows "has_admin (put_row ag_id a rows)"
proof -
  from h obtain b where b: "b \<in> set rows" "ag_role b = ROLE_ADMIN" "ag_active b" by (auto simp: has_admin_def)
  have "ag_id a \<in> ag_id ` set rows" using get_row_SomeD [OF old] by (metis imageI)
  then have a_in: "a \<in> set (put_row ag_id a rows)" by (simp add: set_put_row)
  show ?thesis
  proof (cases "ag_id b = ag_id a")
    case True
    then have "b = old" using get_row_mem [OF keys b(1)] old by simp
    with b keep a_in show ?thesis by (auto simp: has_admin_def set_put_row)
  next
    case False
    with b show ?thesis by (auto simp: has_admin_def set_put_row)
  qed
qed

lemma count_other_zero:
  "count_other_active_admins k d \<noteq> 0 \<longleftrightarrow>
     (\<exists>b \<in> set (db_agents d). ag_id b \<noteq> k \<and> ag_role b = ROLE_ADMIN \<and> ag_active b)"
  by (auto simp: count_other_active_admins_def active_admins_def filter_empty_conv)

lemma not_name_takenD: "\<not> name_taken k n d \<Longrightarrow> b \<in> set (db_agents d) \<Longrightarrow> ag_id b \<noteq> k \<Longrightarrow> ag_name b \<noteq> n"
  by (auto simp: name_taken_def list_ex_iff)

lemma not_document_takenD:
  "\<not> document_taken k x d \<Longrightarrow> b \<in> set (db_agents d) \<Longrightarrow> ag_id b \<noteq> k \<Longrightarrow> ag_document_id b \<noteq> Some x"
  by (auto simp: document_taken_def list_ex_iff)

lemma create_agent_InrD:
  assumes "create_agent au auth name role d = Inr (a, d')"
  shows "ag_id a = db_seq d" "ag_document_id a = None" "\<not> name_taken (db_seq d) (ag_name a) d"
    "db_agents d' = db_agents d @ [a]" "db_agent_sessions d' = db_agent_sessions d" "db_seq d' = db_seq d + 2"
  using assms
  by (auto simp: create_agent_def ebind_Inr_iff Let_def next_serial_def name_taken_def split: if_splits)

lemma update_agent_InrD:
  assumes "update_agent au auth k name role d = Inr (a, d')"
  obtains old where "get_row ag_id k (db_agents d) = Some old" "ag_id a = k" "ag_active a = ag_active old"
    "ag_document_id a = ag_document_id old" "ag_password_hash a = ag_password_hash old"
    "\<not> name_taken k (ag_name a) d"
    "ag_active old \<and> ag_role old = ROLE_ADMIN \<longrightarrow> ag_role a = ROLE_ADMIN \<or> count_other_active_admins k d \<noteq> 0"
    "db_agents d' = put_row ag_id a (db_agents d)" "db_agent_sessions d' = db_agent_sessions d" "db_seq d' = db_seq d + 1"
proof -
  from assms obtain old where old: "get_row ag_id k (db_agents d) = Some old"
    by (auto simp: update_agent_def ebind_Inr_iff split: option.splits)
  have k: "ag_id old = k" using get_row_SomeD [OF old] by simp
  define new where "new = old\<lparr>ag_name := (case name of None \<Rightarrow> ag_name old | Some n \<Rightarrow> n),
    ag_role := (case role of None \<Rightarrow> ag_role old | Some r \<Rightarrow> r)\<rparr>"
  from assms old k have a: "a = new" and free: "\<not> name_taken k (ag_name new) d"
    and guard: "\<not> (ag_active old \<and> ag_role old = ROLE_ADMIN \<and> role = Some ROLE_AGENT \<and>
      count_other_active_admins k d = 0)"
    and d': "\<exists>x1 x2 x3 x4. d' = audit x1 ''AGENT_UPDATED'' ''agent'' x2 x3 x4 None (put_agent new d)"
    by (auto simp: update_agent_def ebind_Inr_iff Let_def new_def split: if_splits)
  have "ag_role new = ROLE_ADMIN" if "ag_role old = ROLE_ADMIN" "role \<noteq> Some ROLE_AGENT"
  proof (cases role)
    case None
    with that show ?thesis by (simp add: new_def)
  next
    case (Some r)
    with that show ?thesis by (cases r) (simp_all add: new_def)
  qed
  with guard have "ag_active old \<and> ag_role old = ROLE_ADMIN \<longrightarrow> ag_role new = ROLE_ADMIN \<or>
      count_other_active_admins k d \<noteq> 0" by auto
  with old k free d' show ?thesis by (intro that [of old]) (auto simp: a new_def)
qed

lemma activate_agent_InrD:
  assumes "activate_agent au auth k d = Inr (a, d')"
  obtains old where "get_row ag_id k (db_agents d) = Some old" "a = old\<lparr>ag_active := True\<rparr>"
    "db_agents d' = put_row ag_id a (db_agents d) \<or> (a = old \<and> db_agents d' = db_agents d)"
    "db_agent_sessions d' = db_agent_sessions d" "db_seq d \<le> db_seq d'"
proof -
  from assms obtain old where old: "get_row ag_id k (db_agents d) = Some old"
    by (auto simp: activate_agent_def ebind_Inr_iff split: option.splits)
  show ?thesis
  proof (cases "ag_active old")
    case True
    with assms old have "a = old" "d' = d" by (simp_all add: activate_agent_def ebind_Inr_iff)
    with True old show ?thesis by (intro that [of old]) (cases old, simp_all)
  next
    case False
    with assms old have "a = old\<lparr>ag_active := True\<rparr>"
      "\<exists>x1 x2 x3 x4. d' = audit x1 ''AGENT_ACTIVATED'' ''agent'' x2 x3 x4 None (put_agent a d)"
      by (auto simp: activate_agent_def ebind_Inr_iff Let_def)
    with old show ?thesis by (intro that [of old]) auto
  qed
qed

lemma set_agent_credentials_InrD:
  assumes "set_agent_credentials au auth k document pin d = Inr (a, d')"
  obtains old n h where "get_row ag_id k (db_agents d) = Some old" "au_hash_pin au n pin = Inr h"
    "a = old\<lparr>ag_document_id := Some (strip document), ag_password_hash := Some h\<rparr>"
    "\<not> document_taken k (strip document) d"
    "db_agents d' = put_row ag_id a (db_agents d)"
    "db_agent_sessions d' = revoked_rows k (db_clock d) (db_agent_sessions d)" "db_seq d' = db_seq d + 1"
proof -
  from assms obtain old where old: "get_row ag_id k (db_agents d) = Some old"
    by (auto simp: set_agent_credentials_def ebind_Inr_iff split: option.splits)
  have k: "ag_id old = k" using get_row_SomeD [OF old] by simp
  from assms old obtain h where h: "au_hash_pin au (db_draws d) pin = Inr h"
    by (auto simp: set_agent_credentials_def ebind_Inr_iff draw_def)
  show ?thesis
    using assms old k h
    by (intro that [of old "db_draws d" h])
      (auto simp: set_agent_credentials_def ebind_Inr_iff Let_def draw_def document_taken_def split: if_splits)
qed

lemma deactivate_agent_InrD:
  assumes "deactivate_agent au auth k d = Inr (a, d')"
  obtains old where "get_row ag_id k (db_agents d) = Some old" "a = old\<lparr>ag_active := False\<rparr>"
    "ag_active old \<and> ag_role old = ROLE_ADMIN \<longrightarrow> count_other_active_admins k d \<noteq> 0"
    "db_agents d' = put_row ag_id a (db_agents d)"
    "db_agent_sessions d' = revoked_rows k (db_clock d) (db_agent_sessions d)" "db_seq d' = db_seq d + 1"
proof -
  from assms obtain old where old: "get_row ag_id k (db_agents d) = Some old"
    by (auto simp: deactivate_agent_def ebind_Inr_iff split: option.splits)
  have k: "ag_id old = k" using get_row_SomeD [OF old] by simp
  show ?thesis
    using assms old k
    by (intro that [of old]) (auto simp: deactivate_agent_def ebind_Inr_iff Let_def split: if_splits)
qed

lemma create_admin_InrD:
  assumes "create_admin au name document pin d = Inr (a, d')"
  obtains
    (new) n h where "au_hash_pin au n pin = Inr h" "ag_password_hash a = Some h" "ag_id a = db_seq d"
      "ag_document_id a = Some (strip document)" "find_document (strip document) d = None"
      "ag_role a = ROLE_ADMIN" "ag_active a"
      "\<not> name_taken (db_seq d) (ag_name a) d" "db_agents d' = db_agents d @ [a]"
      "db_agent_sessions d' = db_agent_sessions d" "db_seq d' = db_seq d + 2"
  | (old) n h old where "au_hash_pin au n pin = Inr h" "find_document (strip document) d = Some old"
      "a = old\<lparr>ag_name := name, ag_password_hash := Some h, ag_role := ROLE_ADMIN, ag_active := True\<rparr>"
      "\<not> name_taken (ag_id old) name d" "db_agents d' = put_row ag_id a (db_agents d)"
      "db_agent_sessions d' = revoked_rows (ag_id old) (db_clock d) (db_agent_sessions d)"
      "db_seq d' = db_seq d + 1"
proof -
  from assms obtain h where h: "au_hash_pin au (db_draws d) pin = Inr h"
    by (auto simp: create_admin_def Let_def ebind_Inr_iff draw_def)
  show ?thesis
  proof (cases "find_document (strip document) d")
    case None
    with assms h show ?thesis
      by (intro new [of "db_draws d" h])
        (auto simp: create_admin_def Let_def draw_def next_serial_def name_taken_def ebind_Inr_iff split: if_splits)
  next
    case (Some b)
    with assms h show ?thesis
      by (intro old [of "db_draws d" h b])
        (auto simp: create_admin_def Let_def draw_def name_taken_def ebind_Inr_iff split: if_splits)
  qed
qed

lemma login_frame [simp]: "db_agents (snd (login au st document pin d)) = db_agents d"
  by (simp add: login_def Let_def draw_def next_serial_def delete_expired_sessions_for_agent_def
      split: sum.split option.split bool.split)

section \<open>The login\<close>

lemma find_document_SomeD:
  "find_document x d = Some a \<Longrightarrow> a \<in> set (db_agents d) \<and> ag_document_id a = Some x"
  by (auto simp: find_document_def find_Some_iff)

lemma find_document_NoneD: "find_document x d = None \<Longrightarrow> b \<in> set (db_agents d) \<Longrightarrow> ag_document_id b \<noteq> Some x"
  by (auto simp: find_document_def find_None_iff)

text \<open>A refused login leaves the sessions alone; a successful one drops expired rows and adds one.\<close>

lemma login_sessions:
  assumes "login au st document pin d = (r, d')"
  obtains (refused) e where "r = Inl e" "db_agent_sessions d' = db_agent_sessions d" "db_seq d \<le> db_seq d'"
  | (granted) a s where "find_document (strip document) d = Some a" "ag_active a"
      "r = Inr (au_token_urlsafe au (db_draws d), a)"
      "recent_failures st (strip document) d < st_admin_login_max_failures st"
      "au_verify_pin au pin (stored_hash au (Some a)) = Inr True"
      "se_id s = db_seq d" "se_agent_id s = ag_id a"
      "se_token_hash s = au_hash_token au (au_token_urlsafe au (db_draws d))"
      "se_expires_at s = db_clock d + hours 12" "se_revoked_at s = None"
      "\<not> list_ex (\<lambda>t. se_token_hash t = se_token_hash s)
         (filter (\<lambda>t. \<not> (se_agent_id t = ag_id a \<and> se_expires_at t \<le> db_clock d)) (db_agent_sessions d))"
      "db_agent_sessions d' =
         filter (\<lambda>t. \<not> (se_agent_id t = ag_id a \<and> se_expires_at t \<le> db_clock d)) (db_agent_sessions d) @ [s]"
      "db_seq d' = db_seq d + 2" "db_clock d' = db_clock d"
proof (cases r)
  case (Inl e)
  with assms show ?thesis
    by (intro refused)
      (auto simp: login_def Let_def draw_def next_serial_def split: if_splits sum.splits option.splits bool.splits)
next
  case (Inr v)
  have few: "recent_failures st (strip document) d < st_admin_login_max_failures st"
    using assms Inr by (auto simp: login_def Let_def split: if_splits)
  obtain ok where ok: "au_verify_pin au pin (stored_hash au (find_document (strip document) d)) = Inr ok"
    using assms Inr few by (auto simp: login_def Let_def split: sum.splits)
  obtain a where a: "find_document (strip document) d = Some a" and "ok"
    using assms Inr few ok by (auto simp: login_def Let_def split: option.splits bool.splits)
  have act: "ag_active a"
    using assms Inr few ok a \<open>ok\<close> by (auto simp: login_def Let_def split: if_splits)
  define s where "s = \<lparr>se_id = db_seq d, se_agent_id = ag_id a,
      se_token_hash = au_hash_token au (au_token_urlsafe au (db_draws d)),
      se_created_at = db_clock d, se_expires_at = db_clock d + hours 12, se_revoked_at = None\<rparr>"
  show ?thesis
    using assms Inr few ok a \<open>ok\<close> act
    by (intro granted [of a s])
      (auto simp: login_def Let_def draw_def next_serial_def delete_expired_sessions_for_agent_def s_def
        split: if_splits)
qed

section \<open>The invariant is kept\<close>

lemma logout_sessions:
  assumes "logout au auth d = Inr d'"
  obtains s where "s \<in> set (db_agent_sessions d)"
    "db_agent_sessions d' = put_row se_id (s\<lparr>se_revoked_at := Some (db_clock d)\<rparr>) (db_agent_sessions d)"
    "db_agents d' = db_agents d" "db_seq d' = db_seq d + 1"
proof -
  from assms obtain s where s: "resolve_session_from_authorization au auth d = Some s"
    by (auto simp: logout_def ebind_Inr_iff split: option.splits)
  then have "s \<in> set (db_agent_sessions d)"
    by (auto simp: resolve_session_from_authorization_def find_Some_iff split: option.splits)
  with assms s show ?thesis
    by (intro that [of s]) (auto simp: logout_def ebind_Inr_iff put_agent_session_def)
qed

lemma account_added_ok:
  assumes ok: "staff_ok d" and k: "ag_id a = db_seq d" and name: "\<not> name_taken (db_seq d) (ag_name a) d"
    and doc: "\<And>b. ag_document_id a \<noteq> None \<Longrightarrow> b \<in> set (db_agents d) \<Longrightarrow> ag_document_id b \<noteq> ag_document_id a"
    and pair: "ag_document_id a \<noteq> None \<Longrightarrow> ag_password_hash a \<notin> {None, Some []}"
    and d': "db_agents d' = db_agents d @ [a]" "db_agent_sessions d' = db_agent_sessions d" "db_seq d < db_seq d'"
  shows "staff_ok d'"
proof -
  have acc: "accounts_ok (db_agents d) (db_seq d)" and ses: "sessions_ok (db_agent_sessions d) (db_agents d) (db_seq d)"
    using ok by (simp_all add: staff_ok_def)
  have "accounts_ok (db_agents d @ [a]) (db_seq d + 1)"
  proof (rule accounts_ok_add [OF acc k _ doc pair])
    fix b assume b: "b \<in> set (db_agents d)"
    have "ag_id b \<noteq> db_seq d" using accounts_okD(2) [OF acc b] by simp
    with name b show "ag_name b \<noteq> ag_name a" by (rule not_name_takenD)
  qed
  with d' ses show ?thesis
    by (auto simp add: staff_ok_def intro: accounts_ok_mono sessions_ok_mono sessions_ok_add_agent)
qed

lemma account_written_ok:
  assumes ok: "staff_ok d" and old: "get_row ag_id k (db_agents d) = Some old" and k: "ag_id a = k"
    and name: "ag_name a = ag_name old \<or> \<not> name_taken k (ag_name a) d"
    and doc: "ag_document_id a = ag_document_id old \<or> (\<exists>x. ag_document_id a = Some x \<and> \<not> document_taken k x d)"
    and pw: "(ag_password_hash a = ag_password_hash old \<and> ag_document_id a = ag_document_id old) \<or>
       ag_password_hash a \<notin> {None, Some []}"
    and d': "db_agents d' = put_row ag_id a (db_agents d)" "db_seq d \<le> db_seq d'"
      "(db_agent_sessions d' = db_agent_sessions d \<and> (ag_active old \<longrightarrow> ag_active a)) \<or>
       db_agent_sessions d' = revoked_rows k now (db_agent_sessions d)"
  shows "staff_ok d'"
proof -
  have acc: "accounts_ok (db_agents d) (db_seq d)" and ses: "sessions_ok (db_agent_sessions d) (db_agents d) (db_seq d)"
    using ok by (simp_all add: staff_ok_def)
  have o: "old \<in> set (db_agents d)" "ag_id old = k" using get_row_SomeD [OF old] by auto
  have "accounts_ok (put_row ag_id a (db_agents d)) (db_seq d)"
  proof (rule accounts_ok_put [OF acc])
    show "get_row ag_id (ag_id a) (db_agents d) = Some old" using old k by simp
    show "ag_password_hash a \<notin> {None, Some []}" if "ag_document_id a \<noteq> None"
      using pw accounts_okD(5) [OF acc o(1)] that by auto
    fix b assume b: "b \<in> set (db_agents d)" "ag_id b \<noteq> ag_id a"
    show "ag_name b \<noteq> ag_name a"
      using name accounts_okD(3) [OF acc b(1) o(1)] not_name_takenD [OF _ b(1)] b(2) o(2) k by metis
    show "ag_document_id b \<noteq> ag_document_id a" if "ag_document_id a \<noteq> None"
      using doc accounts_okD(4) [OF acc o(1) b(1)] not_document_takenD [OF _ b(1)] b(2) o(2) k that by metis
  qed
  moreover have "sessions_ok (db_agent_sessions d') (put_row ag_id a (db_agents d)) (db_seq d)"
    using d'(3)
  proof
    assume "db_agent_sessions d' = db_agent_sessions d \<and> (ag_active old \<longrightarrow> ag_active a)"
    with sessions_ok_put [OF ses, of a old] old k show ?thesis by simp
  next
    assume "db_agent_sessions d' = revoked_rows k now (db_agent_sessions d)"
    then show ?thesis using sessions_ok_revoke [OF ses, of k "put_row ag_id a (db_agents d)"] k
      by (simp add: get_put_row)
  qed
  ultimately show ?thesis using d'(1,2)
    by (simp add: staff_ok_def) (blast intro: accounts_ok_mono sessions_ok_mono)
qed

lemma login_ok:
  assumes l: "login au st document pin d = (r, d')" and ok: "staff_ok d"
  shows "staff_ok d'"
proof -
  have acc: "accounts_ok (db_agents d) (db_seq d)" and ses: "sessions_ok (db_agent_sessions d) (db_agents d) (db_seq d)"
    using ok by (simp_all add: staff_ok_def)
  have ag: "db_agents d' = db_agents d" using login_frame [of au st document pin d] l by simp
  from l show ?thesis
  proof (cases rule: login_sessions)
    case refused
    with ag acc ses show ?thesis
      by (simp add: staff_ok_def) (blast intro: accounts_ok_mono sessions_ok_mono)
  next
    case (granted a s)
    have "get_row ag_id (se_agent_id s) (db_agents d) = Some a"
      using find_document_SomeD [OF granted(1)] get_row_mem [OF accounts_okD(1) [OF acc]] granted(7) by auto
    then have "sessions_ok (db_agent_sessions d') (db_agents d) (db_seq d + 1)"
      unfolding granted(12) using granted
      by (intro sessions_ok_add [OF sessions_ok_filter [OF ses]]) auto
    with ag granted(13) acc show ?thesis
      by (simp add: staff_ok_def) (auto intro: accounts_ok_mono sessions_ok_mono)
  qed
qed

lemma create_admin_ok:
  assumes "create_admin au name document pin d = Inr (a, d')" and hs: "hash_sound au" and ok: "staff_ok d"
  shows "staff_ok d'"
  using assms(1)
proof (cases rule: create_admin_InrD)
  case (new n h)
  with hs show ?thesis
    by (intro account_added_ok [OF ok new(3) new(8)])
      (auto simp: hash_sound_def dest: find_document_NoneD)
next
  case (old n h b)
  have acc: "accounts_ok (db_agents d) (db_seq d)" using ok by (simp add: staff_ok_def)
  have "get_row ag_id (ag_id b) (db_agents d) = Some b"
    using find_document_SomeD [OF old(2)] get_row_mem [OF accounts_okD(1) [OF acc]] by blast
  from account_written_ok [OF ok this, where a = a and d' = d' and now = "db_clock d"] old hs show ?thesis
    by (auto simp: hash_sound_def)
qed

lemma staff_step_ok:
  assumes "staff_step au st d d'" and hs: "hash_sound au" and ok: "staff_ok d"
  shows "staff_ok d'"
proof -
  have acc: "accounts_ok (db_agents d) (db_seq d)" and ses: "sessions_ok (db_agent_sessions d) (db_agents d) (db_seq d)"
    using ok by (simp_all add: staff_ok_def)
  note written = account_written_ok [OF ok, where d' = d' and now = "db_clock d"]
  note gd = get_row_SomeD [where key = ag_id]
  from assms(1) show ?thesis
  proof cases
    case (step_login document pin)
    then show ?thesis using login_ok [OF _ ok] by (metis prod.collapse)
  next
    case (step_logout auth)
    then obtain s where "s \<in> set (db_agent_sessions d)"
      "db_agent_sessions d' = put_row se_id (s\<lparr>se_revoked_at := Some (db_clock d)\<rparr>) (db_agent_sessions d)"
      "db_agents d' = db_agents d" "db_seq d' = db_seq d + 1" by (rule logout_sessions)
    with acc ses show ?thesis
      by (simp add: staff_ok_def) (auto intro: accounts_ok_mono sessions_ok_mono sessions_ok_put_revoked)
  next
    case (step_create auth name role a)
    note c = create_agent_InrD [OF step_create]
    show ?thesis by (rule account_added_ok [OF ok c(1) c(3)]) (simp_all add: c)
  next
    case (step_update auth k name role a)
    then obtain old where u: "get_row ag_id k (db_agents d) = Some old" "ag_id a = k" "ag_active a = ag_active old"
        "ag_document_id a = ag_document_id old" "ag_password_hash a = ag_password_hash old"
        "\<not> name_taken k (ag_name a) d" "db_agents d' = put_row ag_id a (db_agents d)"
        "db_agent_sessions d' = db_agent_sessions d" "db_seq d' = db_seq d + 1" by (rule update_agent_InrD)
    show ?thesis by (rule written [OF u(1)]) (use u in auto)
  next
    case (step_activate auth k a)
    then obtain old where u: "get_row ag_id k (db_agents d) = Some old" "a = old\<lparr>ag_active := True\<rparr>"
        "db_agents d' = put_row ag_id a (db_agents d) \<or> (a = old \<and> db_agents d' = db_agents d)"
        "db_agent_sessions d' = db_agent_sessions d" "db_seq d \<le> db_seq d'" by (rule activate_agent_InrD)
    show ?thesis
    proof (cases "db_agents d' = put_row ag_id a (db_agents d)")
      case True
      show ?thesis by (rule written [OF u(1)]) (use True gd [OF u(1)] u in auto)
    next
      case False
      with u acc ses show ?thesis by (auto simp: staff_ok_def intro: accounts_ok_mono sessions_ok_mono)
    qed
  next
    case (step_credentials auth k document pin a)
    then obtain old n h where u: "get_row ag_id k (db_agents d) = Some old" "au_hash_pin au n pin = Inr h"
        "a = old\<lparr>ag_document_id := Some (strip document), ag_password_hash := Some h\<rparr>"
        "\<not> document_taken k (strip document) d" "db_agents d' = put_row ag_id a (db_agents d)"
        "db_agent_sessions d' = revoked_rows k (db_clock d) (db_agent_sessions d)" "db_seq d' = db_seq d + 1"
      by (rule set_agent_credentials_InrD)
    show ?thesis by (rule written [OF u(1)]) (use gd [OF u(1)] u hs in \<open>auto simp: hash_sound_def\<close>)
  next
    case (step_deactivate auth k a)
    then obtain old where u: "get_row ag_id k (db_agents d) = Some old" "a = old\<lparr>ag_active := False\<rparr>"
        "db_agents d' = put_row ag_id a (db_agents d)"
        "db_agent_sessions d' = revoked_rows k (db_clock d) (db_agent_sessions d)" "db_seq d' = db_seq d + 1"
      by (rule deactivate_agent_InrD)
    show ?thesis by (rule written [OF u(1)]) (use gd [OF u(1)] u in auto)
  next
    case (step_bootstrap name document pin a)
    then show ?thesis using hs ok by (rule create_admin_ok)
  next
    case step_elsewhere
    with acc ses show ?thesis by (auto simp: staff_ok_def intro: accounts_ok_mono sessions_ok_mono)
  qed
qed

section \<open>An administrator remains\<close>

lemma staff_step_admin:
  assumes "staff_step au st d d'" and ok: "staff_ok d" and h: "has_admin (db_agents d)"
  shows "has_admin (db_agents d')"
proof -
  have keys: "keys_ok ag_id (db_agents d)" using ok accounts_okD(1) by (auto simp: staff_ok_def)
  note put = has_admin_put [OF keys _ h]
  note gd = get_row_SomeD [where key = ag_id]
  from assms(1) show ?thesis
  proof cases
    case (step_login document pin)
    with h show ?thesis by simp
  next
    case (step_logout auth)
    then show ?thesis using h by (elim logout_sessions) simp
  next
    case (step_create auth name role a)
    with create_agent_InrD [OF step_create] h show ?thesis by (auto simp: has_admin_def)
  next
    case (step_update auth k name role a)
    then obtain old where u: "get_row ag_id k (db_agents d) = Some old" "ag_id a = k" "ag_active a = ag_active old"
        "ag_active old \<and> ag_role old = ROLE_ADMIN \<longrightarrow> ag_role a = ROLE_ADMIN \<or> count_other_active_admins k d \<noteq> 0"
        "db_agents d' = put_row ag_id a (db_agents d)" by (rule update_agent_InrD)
    show ?thesis unfolding u(5) by (rule put) (use u(1-3) u(4) [unfolded count_other_zero] in auto)
  next
    case (step_activate auth k a)
    then obtain old where u: "get_row ag_id k (db_agents d) = Some old" "a = old\<lparr>ag_active := True\<rparr>"
        "db_agents d' = put_row ag_id a (db_agents d) \<or> (a = old \<and> db_agents d' = db_agents d)"
      by (rule activate_agent_InrD)
    have "has_admin (put_row ag_id a (db_agents d))" by (rule put) (use u gd [OF u(1)] in auto)
    with u(3) h show ?thesis by auto
  next
    case (step_credentials auth k document pin a)
    then obtain old n hh where u: "get_row ag_id k (db_agents d) = Some old"
        "a = old\<lparr>ag_document_id := Some (strip document), ag_password_hash := Some hh\<rparr>"
        "db_agents d' = put_row ag_id a (db_agents d)" by (rule set_agent_credentials_InrD)
    show ?thesis unfolding u(3) by (rule put) (use u gd [OF u(1)] in auto)
  next
    case (step_deactivate auth k a)
    then obtain old where u: "get_row ag_id k (db_agents d) = Some old" "a = old\<lparr>ag_active := False\<rparr>"
        "ag_active old \<and> ag_role old = ROLE_ADMIN \<longrightarrow> count_other_active_admins k d \<noteq> 0"
        "db_agents d' = put_row ag_id a (db_agents d)" by (rule deactivate_agent_InrD)
    show ?thesis unfolding u(4) by (rule put) (use u(1,2) u(3) [unfolded count_other_zero] gd [OF u(1)] in auto)
  next
    case (step_bootstrap name document pin a)
    from step_bootstrap show ?thesis
    proof (cases rule: create_admin_InrD)
      case (new n hh)
      then show ?thesis by (auto simp: has_admin_def)
    next
      case (old n hh b)
      have "get_row ag_id (ag_id b) (db_agents d) = Some b"
        using find_document_SomeD [OF old(2)] get_row_mem [OF keys] by blast
      then show ?thesis unfolding old(5) by (intro put) (use old in auto)
    qed
  next
    case step_elsewhere
    with h show ?thesis by simp
  qed
qed

lemma staff_run:
  assumes "rtranclp (staff_step au st) d d'" and hs: "hash_sound au" and ok: "staff_ok d"
  shows "staff_ok d' \<and> (has_admin (db_agents d) \<longrightarrow> has_admin (db_agents d'))"
  using assms(1)
proof (induction rule: rtranclp_induct)
  case base
  with ok show ?case by simp
next
  case (step x y)
  with staff_step_ok [OF step(2) hs] staff_step_admin [OF step(2)] show ?case by blast
qed

section \<open>Tokens\<close>

lemma resolve_mem: "resolve_session_from_authorization au auth d = Some s \<Longrightarrow> s \<in> set (db_agent_sessions d)"
  by (auto simp: resolve_session_from_authorization_def find_Some_iff split: option.splits)

lemma revoked_refused:
  "resolve_session_from_authorization au auth d = Some s \<Longrightarrow> se_revoked_at s \<noteq> None \<Longrightarrow>
     require_session au auth d = Inl (HTTPException 401 ''Invalid session'')"
  by (simp add: require_session_def)

text \<open>Resetting the credentials of an account or deactivating it ends all its sessions.\<close>

lemma lockout:
  assumes "deactivate_agent au admin k d = Inr (a, d') \<or> set_agent_credentials au admin k document pin d = Inr (a, d')"
    and s: "resolve_session_from_authorization au auth d' = Some s" and k: "se_agent_id s = k"
  shows "require_session au auth d' = Inl (HTTPException 401 ''Invalid session'')"
proof -
  have "db_agent_sessions d' = revoked_rows k (db_clock d) (db_agent_sessions d)"
    using assms(1) by (auto elim: deactivate_agent_InrD set_agent_credentials_InrD)
  with resolve_mem [OF s] k revoked_rows_mem have "se_revoked_at s \<noteq> None" by metis
  with s show ?thesis by (rule revoked_refused)
qed

lemma never_inactive:
  assumes "staff_ok d"
  shows "require_session au auth d \<noteq> Inl (HTTPException 403 ''Agent is inactive'')"
proof
  assume r: "require_session au auth d = Inl (HTTPException 403 ''Agent is inactive'')"
  then obtain s where s: "resolve_session_from_authorization au auth d = Some s"
    by (auto simp: require_session_def split: option.splits)
  with r have "se_revoked_at s = None" by (auto simp: require_session_def split: if_splits)
  with assms resolve_mem [OF s] obtain a where "get_row ag_id (se_agent_id s) (db_agents d) = Some a" "ag_active a"
    by (auto simp: staff_ok_def sessions_ok_def)
  with r s show False by (auto simp: require_session_def split: if_splits)
qed

text \<open>A token of \<open>secrets.token_urlsafe\<close> is a non-empty text of URL-safe base64 letters.\<close>

definition token_sound :: "auth_provider \<Rightarrow> bool" where
  "token_sound au \<longleftrightarrow> (\<forall>n. au_token_urlsafe au n \<noteq> [] \<and> strip (au_token_urlsafe au n) = au_token_urlsafe au n)"

lemma is_prefix_append [simp]: "is_prefix p (p @ s)"
  by (induction p) auto

lemma bearer_round_trip: "t \<noteq> [] \<Longrightarrow> strip t = t \<Longrightarrow> bearer_token (Some (''Bearer '' @ t)) = Some t"
  using is_prefix_append [of "''Bearer ''" t] by (simp add: bearer_token_def Let_def del: is_prefix_append)

lemma find_append_last: "\<forall>x \<in> set xs. \<not> P x \<Longrightarrow> P y \<Longrightarrow> find P (xs @ [y]) = Some y"
  by (induction xs) auto

section \<open>Guessing\<close>

lemma login_refused:
  assumes w: "0 < st_admin_login_window_minutes st"
    and v: "au_verify_pin au pin (stored_hash au (find_document (strip document) d)) = Inr False"
  shows "db_agents (snd (login au st document pin d)) = db_agents d"
    "db_agent_sessions (snd (login au st document pin d)) = db_agent_sessions d"
    "recent_failures st (strip document) d + 1 \<le> recent_failures st (strip document) (snd (login au st document pin d)) \<or>
     (st_admin_login_max_failures st \<le> recent_failures st (strip document) d \<and>
      recent_failures st (strip document) d \<le> recent_failures st (strip document) (snd (login au st document pin d)))"
proof -
  have old: "recent_failures st x d \<le> recent_failures st x (audit a b c e f g h d)" for x a b c e f g h
    by (simp add: recent_failures_def audit_def audit_at_def)
  have new: "recent_failures st x (audit ''UNKNOWN'' ''ADMIN_LOGIN_FAILED'' ''agent'' None
      (Some (JObj [(''document_id'', JStr x)])) ''Invalid credentials'' None d) = recent_failures st x d + 1" for x
    using w by (simp add: recent_failures_def audit_def audit_at_def failed_login_def jget_def minutes_def us_minute_def
      us_second_def)
  show "db_agents (snd (login au st document pin d)) = db_agents d" by simp
  show "db_agent_sessions (snd (login au st document pin d)) = db_agent_sessions d"
    using v by (simp add: login_def Let_def split: option.split)
  show "recent_failures st (strip document) d + 1 \<le> recent_failures st (strip document) (snd (login au st document pin d)) \<or>
     (st_admin_login_max_failures st \<le> recent_failures st (strip document) d \<and>
      recent_failures st (strip document) d \<le> recent_failures st (strip document) (snd (login au st document pin d)))"
    using v by (simp add: login_def Let_def new old split: option.split)
qed

definition attempts :: "auth_provider \<Rightarrow> settings \<Rightarrow> string \<Rightarrow> string list \<Rightarrow> db \<Rightarrow> db" where
  "attempts au st document pins d = fold (\<lambda>pin x. snd (login au st document pin x)) pins d"

lemma attempts_refused:
  assumes w: "0 < st_admin_login_window_minutes st"
    and "\<forall>pin \<in> set pins. au_verify_pin au pin (stored_hash au (find_document (strip document) d)) = Inr False"
  shows "db_agents (attempts au st document pins d) = db_agents d \<and>
    db_agent_sessions (attempts au st document pins d) = db_agent_sessions d \<and>
    min (st_admin_login_max_failures st) (recent_failures st (strip document) d + length pins)
      \<le> recent_failures st (strip document) (attempts au st document pins d)"
  using assms(2)
proof (induction pins arbitrary: d)
  case Nil
  then show ?case by (simp add: attempts_def)
next
  case (Cons pin pins)
  let ?d = "snd (login au st document pin d)"
  have v: "au_verify_pin au pin (stored_hash au (find_document (strip document) d)) = Inr False"
    using Cons.prems by simp
  note r = login_refused [OF w v]
  have "find_document (strip document) ?d = find_document (strip document) d" using r(1) by (simp add: find_document_def)
  with Cons.IH [of ?d] Cons.prems r(1,2,3) show ?case by (auto simp: attempts_def)
qed

section \<open>A concrete panel\<close>

definition sample_auth :: auth_provider where
  "sample_auth = \<lparr>au_hash_token = (\<lambda>t. t), au_hash_pin = (\<lambda>n p. Inr (''h'' @ p)),
     au_verify_pin = (\<lambda>p h. Inr (h = ''h'' @ p)), au_token_urlsafe = (\<lambda>n. ''tok''),
     au_dummy_password_hash = ''h000000''\<rparr>"

definition sample_admin :: agent where
  "sample_admin = \<lparr>ag_id = 5, ag_name = ''Luz'', ag_document_id = Some ''1020'',
     ag_password_hash = Some ''h123456'', ag_role = ROLE_ADMIN, ag_active = True, ag_created_at = 0\<rparr>"

definition staff_db :: db where
  "staff_db = sample_db\<lparr>db_agents := [sample_admin]\<rparr>"

lemma staff_db_ok: "staff_ok staff_db"
  by (simp add: staff_ok_def staff_db_def accounts_ok_def sessions_ok_def keys_ok_def sample_admin_def
      sample_db_def empty_db_def)

lemma sample_hash_sound: "hash_sound sample_auth"
  by (auto simp: hash_sound_def sample_auth_def)

lemma sample_token_sound: "token_sound sample_auth"
  by (simp add: token_sound_def sample_auth_def ascii_eval)

lemma staff_login: "\<exists>d'. login sample_auth sample_settings ''1020'' ''123456'' staff_db = (Inr (''tok'', sample_admin), d')"
  by (simp add: login_def Let_def recent_failures_def staff_db_def find_document_def stored_hash_def ascii_eval
      sample_auth_def sample_admin_def sample_settings_def draw_def next_serial_def
      delete_expired_sessions_for_agent_def sample_db_def empty_db_def)

section \<open>Properties\<close>

text \<open>C16. Whatever the panel's users do, the account and session tables stay sound: names, documents and
  token hashes are unique, every session that is not revoked belongs to an active account (so a token is
  never refused as merely inactive), and once there is an active administrator there always is one.\<close>

theorem staff_stays_sound:
  assumes "rtranclp (staff_step au st) d d'" and "hash_sound au" and "staff_ok d"
  shows "staff_ok d' \<and> (active_admins d \<noteq> [] \<longrightarrow> active_admins d' \<noteq> []) \<and>
    (\<forall>auth. require_session au auth d' \<noteq> Inl (HTTPException 403 ''Agent is inactive'')) \<and>
    (\<forall>s \<in> set (db_agent_sessions d'). \<forall>a \<in> set (db_agents d').
       ag_id a = se_agent_id s \<and> \<not> ag_active a \<longrightarrow> se_revoked_at s \<noteq> None)"
proof -
  from staff_run [OF assms] have ok: "staff_ok d'" and h: "has_admin (db_agents d) \<longrightarrow> has_admin (db_agents d')"
    by blast+
  have "se_revoked_at s \<noteq> None" if "s \<in> set (db_agent_sessions d')" "a \<in> set (db_agents d')"
      "ag_id a = se_agent_id s" "\<not> ag_active a" for s a
  proof
    assume "se_revoked_at s = None"
    with ok that(1) obtain b where "get_row ag_id (se_agent_id s) (db_agents d') = Some b" "ag_active b"
      by (auto simp: staff_ok_def sessions_ok_def)
    moreover have "keys_ok ag_id (db_agents d')" using ok accounts_okD(1) by (auto simp: staff_ok_def)
    ultimately show False using get_row_mem [where key = ag_id, OF _ that(2)] that(3,4) by simp
  qed
  with ok h never_inactive [OF ok] show ?thesis by (auto simp: has_admin_iff)
qed

lemma staff_stays_sound_witness:
  "staff_ok (snd (login sample_auth sample_settings ''1020'' ''123456'' staff_db)) \<and>
   active_admins (snd (login sample_auth sample_settings ''1020'' ''123456'' staff_db)) \<noteq> []"
proof -
  have "active_admins staff_db \<noteq> []" by (simp add: active_admins_def staff_db_def sample_admin_def)
  with staff_stays_sound [OF r_into_rtranclp [where r = "staff_step sample_auth sample_settings", OF step_login]
      sample_hash_sound staff_db_ok] show ?thesis by blast
qed

text \<open>C17. A successful login was verified against the account's own PIN hash and under the throttle; its
  token authenticates the account at once, and no longer than twelve hours.\<close>

theorem login_round_trip:
  assumes l: "login au st document pin d = (Inr (token, a), d')" and ok: "staff_ok d" and ts: "token_sound au"
  shows "require_session au (Some (''Bearer '' @ token)) d' = Inr a \<and>
    (\<forall>t. db_clock d + hours 12 \<le> t \<longrightarrow>
       require_session au (Some (''Bearer '' @ token)) (d'\<lparr>db_clock := t\<rparr>) =
         Inl (HTTPException 401 ''Invalid session'')) \<and>
    ag_document_id a = Some (strip document) \<and> ag_active a \<and>
    (\<exists>h. ag_password_hash a = Some h \<and> au_verify_pin au pin h = Inr True) \<and>
    recent_failures st (strip document) d < st_admin_login_max_failures st"
  using l
proof (cases rule: login_sessions)
  case (granted b s)
  have b: "b = a" and token: "token = au_token_urlsafe au (db_draws d)" using granted(3) by auto
  have acc: "accounts_ok (db_agents d) (db_seq d)" using ok by (simp add: staff_ok_def)
  note fd = find_document_SomeD [OF granted(1)]
  obtain h where h: "ag_password_hash a = Some h" "h \<noteq> []"
    using accounts_okD(5) [OF acc] fd b by fastforce
  have bt: "bearer_token (Some (''Bearer '' @ token)) = Some token"
    using ts by (intro bearer_round_trip) (auto simp: token token_sound_def)
  have "find (\<lambda>x. se_token_hash x = se_token_hash s) (db_agent_sessions d') = Some s"
    unfolding granted(12) using granted(11) by (intro find_append_last) (auto simp: list_ex_iff)
  then have res: "resolve_session_from_authorization au (Some (''Bearer '' @ token)) d' = Some s"
    using granted(8) unfolding resolve_session_from_authorization_def bt by (simp add: token)
  have ag: "db_agents d' = db_agents d" using login_frame [of au st document pin d] l by simp
  have get: "get_row ag_id (se_agent_id s) (db_agents d') = Some a"
    using fd get_row_mem [OF accounts_okD(1) [OF acc]] granted(7) ag b by auto
  have now: "require_session au (Some (''Bearer '' @ token)) d' = Inr a"
    unfolding require_session_def res using granted get b by (simp add: hours_def us_hour_def us_minute_def us_second_def)
  have later: "require_session au (Some (''Bearer '' @ token)) (d'\<lparr>db_clock := t\<rparr>) =
      Inl (HTTPException 401 ''Invalid session'')" if "db_clock d + hours 12 \<le> t" for t
  proof -
    have "resolve_session_from_authorization au (Some (''Bearer '' @ token)) (d'\<lparr>db_clock := t\<rparr>) = Some s"
      using res unfolding resolve_session_from_authorization_def bt by simp
    with that granted(9) show ?thesis by (simp add: require_session_def)
  qed
  have "au_verify_pin au pin h = Inr True" using granted(5) h b by (simp add: stored_hash_def)
  with now later h fd granted(2,4) b show ?thesis by auto
qed simp

lemma login_round_trip_witness:
  "\<exists>d'. require_session sample_auth (Some (''Bearer '' @ ''tok'')) d' = Inr sample_admin"
proof -
  from staff_login obtain d' where
    "login sample_auth sample_settings ''1020'' ''123456'' staff_db = (Inr (''tok'', sample_admin), d')" by blast
  from login_round_trip [OF this staff_db_ok sample_token_sound] show ?thesis by blast
qed



end
