(* ===== verification/Human_Cases.thy ===== *)
theory Human_Cases
  imports Delivery Staff_Texts Staff_Accounts
begin

text \<open>
  A conversation in human hands: \<open>app/admin/ownership.py\<close> and the routes of \<open>app/admin/routes.py\<close> that
  take a case, take a conversation directly, reassign it, answer in it and return it to the bot. Every
  route authenticates, then locks the conversation and its open cases in one transaction and demands
  that the two agree on who attends.
\<close>

section \<open>Ownership\<close>

definition assignment_conflict :: app_error where
  "assignment_conflict = HTTPException 409 ''Human assignment is not consistent''"

definition lock_human_case ::
  "int option \<Rightarrow> int option \<Rightarrow> db \<Rightarrow> (app_error, conversation \<times> handoff list) result" where
  "lock_human_case conversation_id handoff_id d =
     ebind (case handoff_id of
              None \<Rightarrow> Inr conversation_id
            | Some k \<Rightarrow> (case get_row ho_id k (db_handoffs d) of
                  None \<Rightarrow> Inl (HTTPException 404 ''Handoff not found'')
                | Some h \<Rightarrow> Inr (Some (ho_conversation_id h)))) (\<lambda>located.
       (case Option.bind located (\<lambda>k. get_row cv_id k (db_conversations d)) of
          None \<Rightarrow> Inl (HTTPException 404 ''Conversation not found'')
        | Some c \<Rightarrow>
            let cases = order_by (\<lambda>a b. ho_id a < ho_id b) (open_cases c d) in
            if (case handoff_id of None \<Rightarrow> False
                | Some k \<Rightarrow> length cases \<noteq> 1 \<or> ho_id (hd cases) \<noteq> k) then Inl assignment_conflict
            else if list_ex (\<lambda>h. ho_conversation_id h \<noteq> cv_id c) cases then Inl assignment_conflict
            else Inr (c, cases)))"

definition require_owned_case :: "conversation \<Rightarrow> handoff list \<Rightarrow> (app_error, handoff) result" where
  "require_owned_case c cases =
     (if cv_state c \<noteq> HUMAN_ACTIVE \<or> cv_bot_enabled c \<or> length cases \<noteq> 1 \<or> ho_status (hd cases) \<noteq> HO_TAKEN \<or>
         cv_assigned_agent_id c = None \<or> ho_assigned_agent_id (hd cases) = None \<or>
         cv_assigned_agent_id c \<noteq> ho_assigned_agent_id (hd cases)
      then Inl assignment_conflict else Inr (hd cases))"

definition require_case_owner ::
  "conversation \<Rightarrow> handoff list \<Rightarrow> int \<Rightarrow> (app_error, handoff) result" where
  "require_case_owner c cases agent_id =
     ebind (require_owned_case c cases) (\<lambda>h.
       if cv_assigned_agent_id c \<noteq> Some agent_id
       then Inl (HTTPException 403 ''Case mutation is not permitted'') else Inr h)"

definition require_pending_case :: "conversation \<Rightarrow> handoff list \<Rightarrow> (app_error, handoff) result" where
  "require_pending_case c cases =
     (if cv_state c \<noteq> WAITING_FOR_HUMAN \<or> cv_assigned_agent_id c \<noteq> None \<or> length cases \<noteq> 1 \<or>
         ho_status (hd cases) \<noteq> HO_PENDING \<or> ho_assigned_agent_id (hd cases) \<noteq> None \<or>
         ho_assigned_to (hd cases) \<noteq> None
      then Inl assignment_conflict else Inr (hd cases))"

definition require_unassigned_conversation :: "conversation \<Rightarrow> handoff list \<Rightarrow> (app_error, unit) result" where
  "require_unassigned_conversation c cases =
     guard (cv_assigned_agent_id c = None \<and> cases = []) assignment_conflict"

section \<open>Taking a case\<close>

text \<open>\<open>conversation.assigned_agent_id = value\<close>.\<close>

definition assign_conversation :: "int option \<Rightarrow> conversation \<times> db \<Rightarrow> conversation \<times> db" where
  "assign_conversation agent_id = (\<lambda>(c, d).
     let c1 = c\<lparr>cv_assigned_agent_id := agent_id\<rparr> in (c1, put_conversation c1 d))"

definition taken_value :: "handoff \<Rightarrow> conversation \<Rightarrow> agent \<Rightarrow> json" where
  "taken_value h c agent = JObj [(''handoff_id'', JInt (ho_id h)), (''conversation_id'', JInt (cv_id c)),
     (''status'', JStr ''TAKEN''), (''assigned_to'', JStr (ag_name agent)), (''assigned_agent_id'', JInt (ag_id agent))]"

text \<open>The writes of each route once its checks have passed are a definition of their own.\<close>

definition take_pending_case ::
  "agent \<Rightarrow> conversation \<Rightarrow> handoff \<Rightarrow> db \<Rightarrow> (app_error, handoff \<times> db) result" where
  "take_pending_case agent c h d =
      (let h1 = h\<lparr>ho_status := HO_TAKEN, ho_assigned_to := Some (ag_name agent),
                  ho_assigned_agent_id := Some (ag_id agent), ho_taken_at := Some (db_clock d)\<rparr>;
           (c1, d1) = assign_conversation (Some (ag_id agent)) (set_bot_enabled False c (put_handoff h1 d))
       in ebind (transition_conversation c1 HUMAN_ACTIVE (ag_name agent)
                   (Some ''Handoff taken by human agent'') None d1) (\<lambda>(c2, d2).
            Inr (h1, audit (ag_name agent) ''HANDOFF_TAKEN'' ''handoff''
              (Some (JObj [(''status'', JStr ''PENDING'')])) (Some (taken_value h1 c2 agent))
              ''Human agent took handoff'' None d2)))"

definition take_handoff ::
  "auth_provider \<Rightarrow> string option \<Rightarrow> int \<Rightarrow> db \<Rightarrow> (app_error, handoff \<times> db) result" where
  "take_handoff au authorization handoff_id d =
     ebind (require_session au authorization d) (\<lambda>agent.
     ebind (lock_human_case None (Some handoff_id) d) (\<lambda>(c, cases).
     ebind (require_pending_case c cases) (\<lambda>h. take_pending_case agent c h d)))"

definition direct_take_eligible_states :: "conversation_state list" where
  "direct_take_eligible_states = [BOT_ACTIVE, ANSWERING_INFORMATION, COLLECTING_EVENT_DATA,
     WAITING_FOR_APPOINTMENT_DATE, WAITING_FOR_APPOINTMENT_SELECTION, APPOINTMENT_PENDING_CONFIRMATION,
     APPOINTMENT_CONFIRMED, RESOLVED]"

definition build_manual_takeover_summary :: "conversation \<Rightarrow> customer \<Rightarrow> nat \<Rightarrow> db \<Rightarrow> string" where
  "build_manual_takeover_summary c cu limit d =
     (let name = (case cu_full_name cu of
          None \<Rightarrow> ''Sin nombre confirmado''
        | Some n \<Rightarrow> if n = [] then ''Sin nombre confirmado'' else n)
      in join [CHR 0x0A]
       ([''Cliente: '' @ name, ''Telefono: '' @ cu_phone_number cu,
         ''Conversacion: '' @ show_int (cv_id c), ''Motivo: MANUAL_TAKEOVER'', ''Ultimos mensajes:'']
        @ map (\<lambda>m. ''- '' @ ms_direction m @ '': '' @ message_text (ms_content m))
            (last_messages (cv_id c) limit d)))"

definition move_conversation_to_human_active ::
  "conversation \<Rightarrow> string \<Rightarrow> string \<Rightarrow> db \<Rightarrow> (app_error, conversation \<times> db) result" where
  "move_conversation_to_human_active c actor reason d =
     (if cv_state c = HUMAN_ACTIVE then Inr (c, d)
      else ebind (if cv_state c \<noteq> WAITING_FOR_HUMAN
                  then transition_conversation c WAITING_FOR_HUMAN actor (Some reason) None d
                  else Inr (c, d)) (\<lambda>(c1, d1).
             transition_conversation c1 HUMAN_ACTIVE actor (Some reason) None d1))"

text \<open>The five refusals of a direct takeover, in the order of the route.\<close>

definition direct_take_refusal :: "conversation \<Rightarrow> string option" where
  "direct_take_refusal c =
     (if cv_state c = HUMAN_ACTIVE then Some ''Conversation already has an active human agent''
      else if cv_state c = CLOSED then Some ''Closed conversations require explicit admin reopening''
      else if cv_state c = WAITING_FOR_HUMAN
        then Some ''Conversation has a handoff pendiente; take the existing handoff''
      else if cv_state c \<notin> set direct_take_eligible_states
        then Some ''Conversation state is not eligible for direct takeover''
      else None)"

definition reopen_resolved ::
  "conversation \<Rightarrow> agent \<Rightarrow> db \<Rightarrow> (app_error, conversation \<times> db) result" where
  "reopen_resolved c agent d =
     (if cv_state c = RESOLVED
      then transition_conversation c BOT_ACTIVE (ag_name agent) (Some ''Direct takeover reopening'') None
             (audit (ag_name agent) ''CONVERSATION_REOPENED'' ''conversation''
                (Some (state_change_value c (cv_state c))) (Some (state_change_value c BOT_ACTIVE))
                ''Direct takeover reopened resolved conversation'' None d)
      else Inr (c, d))"

definition manual_handoff :: "int \<Rightarrow> conversation \<Rightarrow> customer \<Rightarrow> agent \<Rightarrow> db \<Rightarrow> handoff" where
  "manual_handoff k c cu agent d =
     \<lparr>ho_id = k, ho_conversation_id = cv_id c, ho_status = HO_TAKEN, ho_reason = ''MANUAL_TAKEOVER'',
      ho_priority = HO_NORMAL, ho_summary = build_manual_takeover_summary c cu 5 d,
      ho_assigned_to = Some (ag_name agent), ho_assigned_agent_id = Some (ag_id agent),
      ho_taken_at = Some (db_clock d), ho_resolved_at = None\<rparr>"

definition manual_takeover_values :: "conversation \<Rightarrow> handoff \<Rightarrow> agent \<Rightarrow> json \<times> json" where
  "manual_takeover_values c h agent =
     (JObj [(''conversation_id'', JInt (cv_id c)), (''state'', JStr (conversation_state_str (cv_state c))),
        (''bot_enabled'', JBool (cv_bot_enabled c)),
        (''assigned_agent_id'', opt_json JInt (cv_assigned_agent_id c))],
      JObj [(''conversation_id'', JInt (cv_id c)), (''handoff_id'', JInt (ho_id h)),
        (''state'', JStr ''HUMAN_ACTIVE''), (''bot_enabled'', JBool False),
        (''assigned_to'', JStr (ag_name agent)), (''assigned_agent_id'', JInt (ag_id agent))])"

text \<open>Once the conversation is known free: the case is created already taken.\<close>

definition open_manual_case ::
  "conversation \<Rightarrow> customer \<Rightarrow> agent \<Rightarrow> db \<Rightarrow> (app_error, handoff \<times> db) result" where
  "open_manual_case c cu agent d =
     ebind (reopen_resolved c agent d) (\<lambda>(c1, d1).
       let (k, d2) = next_serial d1;
           h = manual_handoff k c1 cu agent d1;
           d3 = audit (ag_name agent) ''HANDOFF_CREATED'' ''handoff'' None
                  (Some (JObj [(''handoff_id'', JInt k), (''conversation_id'', JInt (cv_id c1)),
                     (''reason'', JStr ''MANUAL_TAKEOVER''), (''priority'', JStr ''NORMAL''),
                     (''status'', JStr ''TAKEN'')])) ''Manual direct takeover'' None (add_handoff h d2);
           (c2, d4) = set_bot_enabled False c1 d3
       in ebind (set_pending_action (Some ''WAIT_FOR_HUMAN'') c2 d4) (\<lambda>(c3, d5).
            let (c4, d6) = assign_conversation (Some (ag_id agent)) (c3, d5) in
            ebind (move_conversation_to_human_active c4 (ag_name agent) ''Manual direct takeover'' d6) (\<lambda>(c5, d7).
              Inr (h, audit (ag_name agent) ''CONVERSATION_MANUAL_TAKEOVER'' ''conversation''
                 (Some (fst (manual_takeover_values c h agent))) (Some (snd (manual_takeover_values c h agent)))
                 ''Manual direct takeover'' None
                 (audit (ag_name agent) ''HANDOFF_TAKEN'' ''handoff'' (Some (JObj [(''status'', JStr ''PENDING'')]))
                   (Some (taken_value h c5 agent)) ''Manual direct takeover'' None d7)))))"

definition take_conversation ::
  "auth_provider \<Rightarrow> string option \<Rightarrow> int \<Rightarrow> db \<Rightarrow> (app_error, handoff \<times> db) result" where
  "take_conversation au authorization conversation_id d =
     ebind (require_session au authorization d) (\<lambda>agent.
     ebind (lock_human_case (Some conversation_id) None d) (\<lambda>(c, cases).
       (case get_row cu_id (cv_customer_id c) (db_customers d) of
          None \<Rightarrow> Inl (HTTPException 409 ''Conversation has no customer'')
        | Some cu \<Rightarrow>
            (case direct_take_refusal c of
               Some detail \<Rightarrow> Inl (HTTPException 409 detail)
             | None \<Rightarrow> ebind (require_unassigned_conversation c cases) (\<lambda>_. open_manual_case c cu agent d)))))"

section \<open>Reassigning, returning, answering\<close>

definition give_case :: "agent \<Rightarrow> agent \<Rightarrow> conversation \<Rightarrow> handoff \<Rightarrow> db \<Rightarrow> handoff \<times> db" where
  "give_case admin target c h d =
     (let h1 = h\<lparr>ho_assigned_agent_id := Some (ag_id target), ho_assigned_to := Some (ag_name target)\<rparr>;
          (c1, d1) = assign_conversation (Some (ag_id target)) (c, put_handoff h1 d)
      in (h1, audit (ag_name admin) ''HANDOFF_REASSIGNED'' ''handoff''
           (Some (JObj [(''assigned_agent_id'', opt_json JInt (ho_assigned_agent_id h)),
              (''assigned_to'', opt_json JStr (ho_assigned_to h)), (''handoff_id'', JInt (ho_id h)),
              (''conversation_id'', JInt (cv_id c))]))
           (Some (JObj [(''handoff_id'', JInt (ho_id h)), (''conversation_id'', JInt (cv_id c)),
              (''assigned_agent_id'', JInt (ag_id target)), (''assigned_to'', JStr (ag_name target))]))
           ''Admin reassigned human case'' None d1))"

definition reassign_conversation ::
  "auth_provider \<Rightarrow> string option \<Rightarrow> int \<Rightarrow> int \<Rightarrow> db \<Rightarrow> (app_error, handoff \<times> db) result" where
  "reassign_conversation au authorization conversation_id target_id d =
     ebind (authenticated_admin au authorization d) (\<lambda>admin.
     ebind (lock_human_case (Some conversation_id) None d) (\<lambda>(c, cases).
     ebind (require_owned_case c cases) (\<lambda>h.
       (case get_row ag_id target_id (db_agents d) of
          None \<Rightarrow> Inl (HTTPException 404 ''Agent not found'')
        | Some target \<Rightarrow>
            if \<not> ag_active target then Inl (HTTPException 409 ''Target agent is not active'')
            else if cv_assigned_agent_id c = Some (ag_id target)
            then Inl (HTTPException 409 ''Agent already owns this case'')
            else Inr (give_case admin target c h d)))))"

definition return_case ::
  "agent \<Rightarrow> conversation \<Rightarrow> handoff \<Rightarrow> string \<Rightarrow> db \<Rightarrow> (app_error, handoff \<times> db) result" where
  "return_case agent c h resolution d =
      (let h1 = h\<lparr>ho_status := HO_RETURNED, ho_resolved_at := Some (db_clock d),
                  ho_assigned_agent_id := None, ho_assigned_to := None\<rparr>;
           (c1, d1) = set_bot_enabled True c (put_handoff h1 d)
       in ebind (set_pending_action None c1 d1) (\<lambda>(c2, d2).
          let (c3, d3) = assign_conversation None (c2, d2) in
          ebind (transition_conversation c3 RETURNED_TO_BOT (ag_name agent) (Some resolution) None d3) (\<lambda>(c4, d4).
          ebind (transition_conversation c4 BOT_ACTIVE (ag_name agent)
                   (Some ''Returned to bot after human handling'') None d4) (\<lambda>(c5, d5).
            Inr (h1, audit (ag_name agent) ''HANDOFF_RETURNED'' ''handoff''
              (Some (JObj [(''status'', JStr ''TAKEN'')]))
              (Some (JObj [(''handoff_id'', JInt (ho_id h1)), (''conversation_id'', JInt (cv_id c5)),
                           (''status'', JStr ''RETURNED'')])) resolution None d5)))))"

definition return_handoff ::
  "auth_provider \<Rightarrow> string option \<Rightarrow> int \<Rightarrow> string \<Rightarrow> db \<Rightarrow> (app_error, handoff \<times> db) result" where
  "return_handoff au authorization handoff_id resolution d =
     ebind (guard (within_length 1 500 resolution) unprocessable) (\<lambda>_.
     ebind (require_session au authorization d) (\<lambda>agent.
     ebind (lock_human_case None (Some handoff_id) d) (\<lambda>(c, cases).
     ebind (require_case_owner c cases (ag_id agent)) (\<lambda>h. return_case agent c h resolution d))))"

text \<open>\<open>" ".join(text.split())\<close>.\<close>

definition join_words :: "string \<Rightarrow> string" where
  "join_words s = utf8_encode (strip_cps (collapse (utf8_decode s)))"

definition append_handoff_summary_line :: "string \<Rightarrow> string \<Rightarrow> string \<Rightarrow> string" where
  "append_handoff_summary_line summary direction text =
     (let clean = join_words text in
      if clean = [] then summary
      else rstrip summary @ [CHR 0x0A] @ ''- '' @ direction @ '': '' @ clean)"

definition latest_message :: "int \<Rightarrow> db \<Rightarrow> message option" where
  "latest_message conversation_id d =
     first_by (\<lambda>a b. ms_id a > ms_id b) (filter (\<lambda>m. ms_conversation_id m = conversation_id) (db_messages d))"

definition agent_output :: "int \<Rightarrow> conversation \<Rightarrow> customer \<Rightarrow> message \<Rightarrow> int \<Rightarrow> string \<Rightarrow> instant \<Rightarrow> outbox" where
  "agent_output k c cu m agent_id text now =
     \<lparr>ob_id = k, ob_conversation_id = cv_id c, ob_message_id = ms_id m,
      ob_recipient_phone_number = cu_phone_number cu,
      ob_payload = JObj [(''type'', JStr ''text''), (''text'', JObj [(''body'', JStr text)]), (''agent'', JBool True)],
      ob_message_kind = KIND_TEXT, ob_catalog_asset_id = None, ob_status = OB_PENDING, ob_attempts = 0,
      ob_last_error = None, ob_sent_at = None, ob_next_attempt_at = None, ob_claimed_at = None,
      ob_claim_token = None, ob_delivery_context = Some (human_context agent_id), ob_send_admission = None,
      ob_delivery_reason = None, ob_delivery_decided_at = None, ob_created_at = now\<rparr>"

definition queue_answer ::
  "agent \<Rightarrow> conversation \<Rightarrow> handoff \<Rightarrow> customer \<Rightarrow> message \<Rightarrow> string \<Rightarrow> db \<Rightarrow> outbox \<times> db" where
  "queue_answer agent c h cu m text d =
     (let h1 = h\<lparr>ho_summary := append_handoff_summary_line (ho_summary h) ''OUTBOUND'' text\<rparr>;
          (k, d1) = next_serial d;
          row = agent_output k c cu m (ag_id agent) text (db_clock d);
          d2 = put_handoff h1 (d1\<lparr>db_outbox := db_outbox d1 @ [row]\<rparr>)
      in (row, audit (ag_name agent) ''AGENT_MESSAGE_ENQUEUED'' ''outbox'' None
           (Some (JObj [(''conversation_id'', JInt (cv_id c)), (''outbox_id'', JInt k)]))
           ''Human agent message queued through admin API'' None d2))"

definition answer_in_case ::
  "agent \<Rightarrow> conversation \<Rightarrow> handoff \<Rightarrow> string \<Rightarrow> db \<Rightarrow> (app_error, outbox \<times> db) result" where
  "answer_in_case agent c h text d =
     (case (get_row cu_id (cv_customer_id c) (db_customers d), latest_message (cv_id c) d) of
        (Some cu, Some m) \<Rightarrow> Inr (queue_answer agent c h cu m text d)
      | _ \<Rightarrow> Inl (HTTPException 409 ''Conversation cannot receive agent messages''))"

definition create_agent_message ::
  "auth_provider \<Rightarrow> string option \<Rightarrow> int \<Rightarrow> string \<Rightarrow> db \<Rightarrow> (app_error, outbox \<times> db) result" where
  "create_agent_message au authorization conversation_id text d =
     ebind (guard (within_length 1 4096 text) unprocessable) (\<lambda>_.
     ebind (require_session au authorization d) (\<lambda>agent.
     ebind (lock_human_case (Some conversation_id) None d) (\<lambda>(c, cases).
     ebind (require_case_owner c cases (ag_id agent)) (\<lambda>h. answer_in_case agent c h text d))))"

end
