(* ===== verification/Conversation_Reset.thy ===== *)
theory Conversation_Reset
  imports Human_Cases Inbox
begin

text \<open>
  \<open>app/admin/conversation_reset.py\<close>: an administrator ends everything open with a customer. The
  conversations close under a new automation epoch, the cases resolve, the waiting inbox jobs complete;
  messages, audit and queued outputs stay, and the new epoch keeps the queued outputs from being sent.
\<close>

record reset_summary =
  rs_phone_number :: string
  rs_customer_id :: "int option"
  rs_conversations_found :: nat
  rs_conversations_closed :: nat
  rs_handoffs_resolved :: nat
  rs_inbox_jobs_completed :: nat
  rs_pending_outbox_suppressed :: nat
  rs_customer_name_cleared :: bool
  rs_dry_run :: bool
  rs_active_lead_links_cleared :: nat
  rs_audit_events_added :: nat

definition no_customer_summary :: "string \<Rightarrow> bool \<Rightarrow> reset_summary" where
  "no_customer_summary phone dry_run = \<lparr>rs_phone_number = phone, rs_customer_id = None,
     rs_conversations_found = 0, rs_conversations_closed = 0, rs_handoffs_resolved = 0,
     rs_inbox_jobs_completed = 0, rs_pending_outbox_suppressed = 0, rs_customer_name_cleared = False,
     rs_dry_run = dry_run, rs_active_lead_links_cleared = 0, rs_audit_events_added = 0\<rparr>"

section \<open>What is open\<close>

definition customer_conversations :: "int \<Rightarrow> db \<Rightarrow> conversation list" where
  "customer_conversations customer_id d = order_by (\<lambda>a b. cv_id a < cv_id b)
     (filter (\<lambda>c. cv_customer_id c = customer_id) (db_conversations d))"

definition unresolved_handoffs :: "int list \<Rightarrow> db \<Rightarrow> handoff list" where
  "unresolved_handoffs ids d = order_by (\<lambda>a b. ho_id a < ho_id b)
     (filter (\<lambda>h. ho_conversation_id h \<in> set ids \<and> ho_status h \<noteq> HO_RESOLVED) (db_handoffs d))"

definition unfinished_jobs :: "int list \<Rightarrow> db \<Rightarrow> inbox_job list" where
  "unfinished_jobs ids d = order_by (\<lambda>a b. ij_id a < ij_id b)
     (filter (\<lambda>j. ij_conversation_id j \<in> set ids \<and> ij_status j \<noteq> IJ_COMPLETED) (db_inbox_jobs d))"

definition undelivered_outputs :: "int list \<Rightarrow> db \<Rightarrow> outbox list" where
  "undelivered_outputs ids d = order_by (\<lambda>a b. ob_id a < ob_id b)
     (filter (\<lambda>r. ob_conversation_id r \<in> set ids \<and> ob_status r \<in> {OB_PENDING, OB_SENDING}) (db_outbox d))"

section \<open>The snapshot\<close>

fun handoff_status_str :: "handoff_status \<Rightarrow> string" where
  "handoff_status_str HO_PENDING = ''PENDING''"
| "handoff_status_str HO_TAKEN = ''TAKEN''"
| "handoff_status_str HO_RETURNED = ''RETURNED''"
| "handoff_status_str HO_RESOLVED = ''RESOLVED''"

fun inbox_status_str :: "inbox_status \<Rightarrow> string" where
  "inbox_status_str IJ_PENDING = ''PENDING''"
| "inbox_status_str IJ_PROCESSING = ''PROCESSING''"
| "inbox_status_str IJ_EXTERNAL = ''EXTERNAL''"
| "inbox_status_str IJ_COMPLETED = ''COMPLETED''"
| "inbox_status_str IJ_FAILED = ''FAILED''"
| "inbox_status_str IJ_REVIEW = ''REVIEW''"

definition opt_value :: "json option \<Rightarrow> json" where
  "opt_value v = (case v of None \<Rightarrow> JNull | Some j \<Rightarrow> j)"

definition conversation_snapshot :: "conversation \<Rightarrow> json" where
  "conversation_snapshot c = JObj
     [(''id'', JInt (cv_id c)), (''state'', JStr (conversation_state_str (cv_state c))),
      (''active_lead_id'', opt_json (\<lambda>u. JStr (uuid_str u)) (cv_active_lead_id c)),
      (''bot_enabled'', JBool (cv_bot_enabled c)),
      (''assigned_agent_id'', opt_json JInt (cv_assigned_agent_id c)),
      (''automation_epoch'', JStr (uuid_str (cv_automation_epoch c))),
      (''pending_action'', opt_json JStr (cv_pending_action c)),
      (''pending_fields'', JList (map JStr (cv_pending_fields c))),
      (''pending_confirmation'', opt_value (cv_pending_confirmation c)),
      (''visit_draft'', opt_value (cv_visit_draft c))]"

definition reset_snapshot ::
  "customer \<Rightarrow> conversation list \<Rightarrow> handoff list \<Rightarrow> outbox list \<Rightarrow> inbox_job list \<Rightarrow> json" where
  "reset_snapshot cu cs hs outs jobs = JObj
     [(''customer'', JObj [(''id'', JInt (cu_id cu)), (''phone_number'', JStr (cu_phone_number cu)),
         (''full_name'', opt_json JStr (cu_full_name cu))]),
      (''conversations'', JList (map conversation_snapshot cs)),
      (''handoffs'', JList (map (\<lambda>h. JObj [(''id'', JInt (ho_id h)),
         (''conversation_id'', JInt (ho_conversation_id h)), (''status'', JStr (handoff_status_str (ho_status h))),
         (''assigned_to'', opt_json JStr (ho_assigned_to h)),
         (''assigned_agent_id'', opt_json JInt (ho_assigned_agent_id h))]) hs)),
      (''outbox'', JList (map (\<lambda>r. JObj [(''id'', JInt (ob_id r)),
         (''conversation_id'', JInt (ob_conversation_id r)), (''status'', JStr (outbox_status_str (ob_status r)))]) outs)),
      (''inbox_jobs'', JList (map (\<lambda>j. JObj [(''id'', JInt (ij_id j)),
         (''conversation_id'', JInt (ij_conversation_id j)), (''status'', JStr (inbox_status_str (ij_status j))),
         (''last_error'', opt_json JStr (ij_last_error j))]) jobs))]"

section \<open>The reset\<close>

text \<open>The assignments to one conversation, in order; the state and the switch renew the epoch by
  themselves, and the last line renews it in any case.\<close>

definition reset_conversation_row :: "conversation \<Rightarrow> db \<Rightarrow> db" where
  "reset_conversation_row c d =
     (case set_state CLOSED c d of (c1, d1) \<Rightarrow>
        let c2 = c1\<lparr>cv_pending_action := None, cv_pending_fields := [], cv_pending_confirmation := None,
                    cv_visit_draft := None, cv_last_question_code := None, cv_last_intent := None,
                    cv_failed_understanding_count := 0, cv_services_failed_understanding_count := Some 0\<rparr>
        in (case set_bot_enabled True c2 d1 of (c3, d2) \<Rightarrow>
            (case uuid4 d2 of (u, d3) \<Rightarrow>
               put_conversation (c3\<lparr>cv_assigned_agent_id := None, cv_active_lead_id := None,
                                    cv_automation_epoch := u\<rparr>) d3)))"

definition resolve_case :: "instant \<Rightarrow> handoff \<Rightarrow> handoff" where
  "resolve_case now h = h\<lparr>ho_status := HO_RESOLVED, ho_resolved_at := Some now, ho_assigned_to := None,
     ho_assigned_agent_id := None\<rparr>"

definition cancel_job :: "instant \<Rightarrow> inbox_job \<Rightarrow> inbox_job" where
  "cancel_job now j = (retire_job IJ_COMPLETED (Some ''RESET_BY_ADMIN'') j)\<lparr>ij_completed_at := Some now\<rparr>"

definition epoch_values :: "int list \<Rightarrow> db \<Rightarrow> json" where
  "epoch_values ids d = JObj (concat (map (\<lambda>k. case get_row cv_id k (db_conversations d) of
      None \<Rightarrow> [] | Some c \<Rightarrow> [(show_int k, JStr (uuid_str (cv_automation_epoch c)))]) ids))"

definition execute_reset ::
  "customer \<Rightarrow> conversation list \<Rightarrow> handoff list \<Rightarrow> inbox_job list \<Rightarrow> outbox list
     \<Rightarrow> string \<Rightarrow> string \<Rightarrow> string option \<Rightarrow> db \<Rightarrow> db"
where
  "execute_reset cu cs hs jobs outs actor reason request_id d =
     (let old = reset_snapshot cu cs hs outs jobs; now = db_clock d; ids = map cv_id cs;
          d1 = put_customer (cu\<lparr>cu_full_name := None\<rparr>) d;
          d2 = fold reset_conversation_row cs d1;
          d3 = fold (\<lambda>h. put_handoff (resolve_case now h)) hs d2;
          d4 = fold (\<lambda>j. put_job (cancel_job now j)) jobs d3
      in audit actor ''ADMIN_CONVERSATION_RESET'' ''customer'' (Some old)
           (Some (JObj [(''phone_number'', JStr (cu_phone_number cu)), (''customer_id'', JInt (cu_id cu)),
              (''conversation_ids'', JList (map JInt ids)), (''conversation_state'', JStr ''CLOSED''),
              (''full_name'', JNull), (''active_lead_id'', JNull),
              (''inbox_jobs_completed'', JInt (int (length jobs))),
              (''pending_outbox_suppressed'', JInt (int (length outs))),
              (''automation_epochs'', epoch_values ids d4), (''reason'', JStr (strip reason))]))
           ''Admin conversation reset'' request_id d4)"

definition reset_conversation_by_phone ::
  "ucd \<Rightarrow> string \<Rightarrow> bool \<Rightarrow> string \<Rightarrow> string option \<Rightarrow> string option \<Rightarrow> db
     \<Rightarrow> (app_error, reset_summary \<times> db) result"
where
  "reset_conversation_by_phone u raw_phone dry_run actor reason request_id d =
     (case normalize_phone_number u raw_phone of
        Inl (ValueError msg) \<Rightarrow> Inl (HTTPException 422 msg)
      | Inl e \<Rightarrow> Inl e
      | Inr phone \<Rightarrow>
          if \<not> dry_run \<and> (case reason of None \<Rightarrow> True | Some r \<Rightarrow> blank r)
          then Inl (HTTPException 422 ''Reason is required for a reset'')
          else (case find (\<lambda>c. cu_phone_number c = phone) (db_customers d) of
              None \<Rightarrow> Inr (no_customer_summary phone dry_run, d)
            | Some cu \<Rightarrow>
                let cs = customer_conversations (cu_id cu) d; ids = map cv_id cs;
                    hs = unresolved_handoffs ids d; jobs = unfinished_jobs ids d;
                    outs = undelivered_outputs ids d
                in if list_ex leased_job jobs
                   then Inl (HTTPException 409 ''Conversation is being processed; retry shortly'')
                   else let summary = \<lparr>rs_phone_number = phone, rs_customer_id = Some (cu_id cu),
                              rs_conversations_found = length cs,
                              rs_conversations_closed = length (filter (\<lambda>c. cv_state c \<noteq> CLOSED) cs),
                              rs_handoffs_resolved = length hs, rs_inbox_jobs_completed = length jobs,
                              rs_pending_outbox_suppressed = length outs,
                              rs_customer_name_cleared = (cu_full_name cu \<noteq> None), rs_dry_run = dry_run,
                              rs_active_lead_links_cleared =
                                length (filter (\<lambda>c. cv_active_lead_id c \<noteq> None) cs),
                              rs_audit_events_added = (if dry_run then 0 else 1)\<rparr>
                        in if dry_run then Inr (summary, d)
                           else Inr (summary, execute_reset cu cs hs jobs outs actor
                                  (case reason of None \<Rightarrow> [] | Some r \<Rightarrow> r) request_id d)))"

text \<open>\<open>POST /admin/conversations/reset\<close>: the request demands a reason, of at most 300 characters, unless
  it is a dry run; the request identifier is drawn for the call.\<close>

definition reset_request_ok :: "bool \<Rightarrow> string option \<Rightarrow> bool" where
  "reset_request_ok dry_run reason \<longleftrightarrow>
     (case reason of None \<Rightarrow> True | Some r \<Rightarrow> cp_length r \<le> 300) \<and>
     (dry_run \<or> (case reason of None \<Rightarrow> False | Some r \<Rightarrow> \<not> blank r))"

definition reset_conversation ::
  "auth_provider \<Rightarrow> ucd \<Rightarrow> string option \<Rightarrow> string \<Rightarrow> bool \<Rightarrow> string option \<Rightarrow> db
     \<Rightarrow> (app_error, reset_summary \<times> db) result"
where
  "reset_conversation au u authorization phone dry_run reason d =
     ebind (guard (reset_request_ok dry_run reason) unprocessable) (\<lambda>_.
     ebind (authenticated_admin au authorization d) (\<lambda>admin.
       (case uuid4 d of (r, d1) \<Rightarrow>
          reset_conversation_by_phone u phone dry_run (ag_name admin) reason
            (Some (''admin-reset-'' @ uuid_str r)) d1)))"

end
