(* ===== verification/Human_Facts.thy ===== *)
theory Human_Facts
  imports Conversation_Reset Staff_Facts
begin

text \<open>
  Who attends a conversation: the agreement between a conversation and its open cases (\<open>attended\<close>) that
  the routes of \<open>Human_Cases\<close>, the opening of a case, the arrival of a customer and the administrator's
  reset keep, and what an agent can therefore always do.
\<close>

section \<open>Rows selected by a filter\<close>

lemma filter_put_row_one:
  assumes "keys_ok key rows" and "filter P rows = [x]" and "key y = key x"
  shows "filter P (put_row key y rows) = (if P y then [y] else [])"
  using assms
proof (induction rows)
  case Nil
  then show ?case by simp
next
  case (Cons r rows)
  have "x \<in> set (filter P (r # rows))" unfolding Cons.prems(2) by simp
  then have x: "x \<in> set (r # rows)" "P x" unfolding set_filter by blast+
  show ?case
  proof (cases "key r = key y")
    case True
    from x(1) Cons.prems(1,3) True have "r = x" by (auto simp: keys_ok_def)
    with x(2) have "filter P rows = []" using Cons.prems(2) by simp
    moreover have "put_row key y rows = rows"
      using Cons.prems(1) True by (intro put_row_absent) (auto simp: keys_ok_def)
    ultimately show ?thesis using True by (simp add: put_row_Cons)
  next
    case False
    have "\<not> P r"
    proof
      assume "P r"
      with Cons.prems(2) have "r = x" by simp
      with False Cons.prems(3) show False by simp
    qed
    with Cons False show ?thesis by (simp add: put_row_Cons keys_ok_def)
  qed
qed

lemma filter_put_row_other:
  "\<not> P y \<Longrightarrow> (\<forall>r \<in> set rows. key r = key y \<longrightarrow> \<not> P r) \<Longrightarrow> filter P (put_row key y rows) = filter P rows"
  by (induction rows) (auto simp: put_row_Cons)

lemma length_insert_by [simp]: "length (insert_by lt x ys) = Suc (length ys)"
  by (induction ys) auto

lemma length_order_by [simp]: "length (order_by lt xs) = length xs"
  by (induction xs) (simp_all add: order_by_def)

lemma order_by_Nil_iff [simp]: "order_by lt xs = [] \<longleftrightarrow> xs = []"
  by (metis length_0_conv length_order_by)

lemma order_by_single: "length xs = 1 \<Longrightarrow> order_by lt xs = xs"
  by (cases xs) (auto simp: order_by_def)

lemma put_row_same: "keys_ok key rows \<Longrightarrow> x \<in> set rows \<Longrightarrow> put_row key x rows = rows"
proof -
  assume k: "keys_ok key rows" and x: "x \<in> set rows"
  have "map (\<lambda>r. if key r = key x then x else r) rows = map (\<lambda>r. r) rows"
  proof (rule map_cong [OF refl])
    fix r assume "r \<in> set rows"
    with k x show "(if key r = key x then x else r) = r" by (auto simp: keys_ok_def distinct_map inj_on_def)
  qed
  then show ?thesis by (simp add: put_row_def)
qed

section \<open>The agreement\<close>

definition open_of :: "int \<Rightarrow> handoff list \<Rightarrow> handoff list" where
  "open_of k rows = filter (\<lambda>h. ho_conversation_id h = k \<and> ho_status h \<in> {HO_PENDING, HO_TAKEN}) rows"

lemma open_cases_of: "open_cases c d = open_of (cv_id c) (db_handoffs d)"
  by (simp add: open_cases_def open_of_def)

definition waiting_case :: "conversation \<Rightarrow> handoff \<Rightarrow> bool" where
  "waiting_case c h \<longleftrightarrow> cv_state c = WAITING_FOR_HUMAN \<and> cv_assigned_agent_id c = None \<and>
     ho_status h = HO_PENDING \<and> ho_assigned_agent_id h = None \<and> ho_assigned_to h = None"

definition taken_case :: "conversation \<Rightarrow> handoff \<Rightarrow> bool" where
  "taken_case c h \<longleftrightarrow> cv_state c = HUMAN_ACTIVE \<and> \<not> cv_bot_enabled c \<and> ho_status h = HO_TAKEN \<and>
     (\<exists>k. cv_assigned_agent_id c = Some k \<and> ho_assigned_agent_id h = Some k) \<and> ho_assigned_to h \<noteq> None"

definition free_conversation :: "conversation \<Rightarrow> bool" where
  "free_conversation c \<longleftrightarrow> cv_assigned_agent_id c = None \<and> cv_state c \<noteq> HUMAN_ACTIVE"

fun attended :: "conversation \<Rightarrow> handoff list \<Rightarrow> bool" where
  "attended c [] = free_conversation c"
| "attended c [h] = (waiting_case c h \<or> taken_case c h)"
| "attended c (h # h' # hs) = False"

definition human_ok :: "db \<Rightarrow> bool" where
  "human_ok d \<longleftrightarrow> keys_ok cv_id (db_conversations d) \<and> keys_ok ho_id (db_handoffs d) \<and>
     (\<forall>c \<in> set (db_conversations d). cv_id c < db_seq d) \<and>
     (\<forall>h \<in> set (db_handoffs d). ho_id h < db_seq d \<and> ho_conversation_id h \<in> cv_id ` set (db_conversations d)) \<and>
     (\<forall>c \<in> set (db_conversations d). attended c (open_cases c d))"

lemma attended_single: "attended c cases \<Longrightarrow> cases = [] \<or> (\<exists>h. cases = [h])"
  by (cases "(c, cases)" rule: attended.cases) auto

section \<open>Writing one conversation and its cases\<close>

lemma human_okD:
  assumes "human_ok d"
  shows "keys_ok cv_id (db_conversations d)" "keys_ok ho_id (db_handoffs d)"
    "c \<in> set (db_conversations d) \<Longrightarrow> cv_id c < db_seq d"
    "h \<in> set (db_handoffs d) \<Longrightarrow> ho_id h < db_seq d"
    "h \<in> set (db_handoffs d) \<Longrightarrow> ho_conversation_id h \<in> cv_id ` set (db_conversations d)"
    "c \<in> set (db_conversations d) \<Longrightarrow> attended c (open_cases c d)"
  using assms unfolding human_ok_def by blast+

text \<open>The general step: the conversation \<open>c\<close> is rewritten, the cases of the others stay.\<close>

lemma human_rewrite:
  assumes ok: "human_ok d" and c: "c \<in> set (db_conversations d)" "cv_id c' = cv_id c"
    and cs: "db_conversations d' = put_row cv_id c' (db_conversations d)" "db_seq d \<le> db_seq d'"
    and hs: "keys_ok ho_id (db_handoffs d')"
      "\<And>h. h \<in> set (db_handoffs d') \<Longrightarrow> ho_id h < db_seq d' \<and> ho_conversation_id h \<in> cv_id ` set (db_conversations d)"
    and att: "attended c' (open_of (cv_id c) (db_handoffs d'))"
    and other: "\<And>k. k \<noteq> cv_id c \<Longrightarrow> open_of k (db_handoffs d') = open_of k (db_handoffs d)"
  shows "human_ok d'"
proof -
  have ids: "cv_id ` set (db_conversations d') = cv_id ` set (db_conversations d)"
    unfolding cs by (metis list.set_map put_row_keys)
  have "cv_id b < db_seq d' \<and> attended b (open_cases b d')" if "b \<in> set (db_conversations d')" for b
  proof -
    from that [unfolded cs(1)] have "b = c' \<or> (b \<in> set (db_conversations d) \<and> cv_id b \<noteq> cv_id c')"
      by (rule put_row_mem)
    then show ?thesis
    proof
      assume "b = c'"
      with att c human_okD(3) [OF ok c(1)] cs(2) show ?thesis by (simp add: open_cases_of)
    next
      assume b: "b \<in> set (db_conversations d) \<and> cv_id b \<noteq> cv_id c'"
      with human_okD(3,6) [OF ok, of b] cs(2) c(2) other show ?thesis by (simp add: open_cases_of)
    qed
  qed
  with human_okD(1) [OF ok] hs ids show ?thesis by (auto simp: human_ok_def cs(1))
qed

text \<open>Its open case is rewritten too.\<close>

lemma human_rewrite_case:
  assumes ok: "human_ok d" and c: "c \<in> set (db_conversations d)" "cv_id c' = cv_id c"
    and h: "open_cases c d = [h]" "ho_id h' = ho_id h" "ho_conversation_id h' = ho_conversation_id h"
    and d': "db_conversations d' = put_row cv_id c' (db_conversations d)"
      "db_handoffs d' = put_row ho_id h' (db_handoffs d)" "db_seq d \<le> db_seq d'"
    and att: "attended c' (if ho_status h' \<in> {HO_PENDING, HO_TAKEN} then [h'] else [])"
  shows "human_ok d'"
proof -
  have "h \<in> set (open_cases c d)" using h(1) by simp
  then have mem: "h \<in> set (db_handoffs d)" and conv: "ho_conversation_id h = cv_id c"
    unfolding open_cases_def by simp_all
  show ?thesis
  proof (rule human_rewrite [OF ok c d'(1,3)])
    show "keys_ok ho_id (db_handoffs d')" using human_okD(2) [OF ok] d' by simp
    show "ho_id x < db_seq d' \<and> ho_conversation_id x \<in> cv_id ` set (db_conversations d)"
      if "x \<in> set (db_handoffs d')" for x
    proof -
      from that [unfolded d'(2)] have "x = h' \<or> (x \<in> set (db_handoffs d) \<and> ho_id x \<noteq> ho_id h')" by (rule put_row_mem)
      with human_okD(4,5) [OF ok] mem h(2,3) d'(3) show ?thesis by force
    qed
    have "open_of (cv_id c) (db_handoffs d') = (if ho_status h' \<in> {HO_PENDING, HO_TAKEN} then [h'] else [])"
      using filter_put_row_one [OF human_okD(2) [OF ok] h(1) [unfolded open_cases_def] h(2)] h(3) conv
      by (simp add: open_of_def d'(2))
    with att show "attended c' (open_of (cv_id c) (db_handoffs d'))" by simp
    show "open_of k (db_handoffs d') = open_of k (db_handoffs d)" if "k \<noteq> cv_id c" for k
      unfolding d'(2) open_of_def
    proof (rule filter_put_row_other)
      show "\<not> (ho_conversation_id h' = k \<and> ho_status h' \<in> {HO_PENDING, HO_TAKEN})" using that h(3) conv by simp
      show "\<forall>r \<in> set (db_handoffs d). ho_id r = ho_id h' \<longrightarrow>
          \<not> (ho_conversation_id r = k \<and> ho_status r \<in> {HO_PENDING, HO_TAKEN})"
      proof (intro ballI impI)
        fix r assume "r \<in> set (db_handoffs d)" "ho_id r = ho_id h'"
        with mem h(2) human_okD(2) [OF ok] have "r = h" by (auto simp: keys_ok_def distinct_map inj_on_def)
        with that conv show "\<not> (ho_conversation_id r = k \<and> ho_status r \<in> {HO_PENDING, HO_TAKEN})" by simp
      qed
    qed
  qed
qed

text \<open>A case is opened where there was none.\<close>

lemma human_open_case:
  assumes ok: "human_ok d" and c: "c \<in> set (db_conversations d)" "cv_id c' = cv_id c"
    and none: "open_cases c d = []"
    and h: "ho_conversation_id h = cv_id c" "db_seq d \<le> ho_id h" "ho_id h < db_seq d'"
    and d': "db_conversations d' = put_row cv_id c' (db_conversations d)" "db_handoffs d' = db_handoffs d @ [h]"
    and att: "waiting_case c' h \<or> taken_case c' h"
  shows "human_ok d'"
proof (rule human_rewrite [OF ok c d'(1)])
  show "db_seq d \<le> db_seq d'" using h by simp
  have "ho_id h \<notin> ho_id ` set (db_handoffs d)" using human_okD(4) [OF ok] h(2) by force
  then show "keys_ok ho_id (db_handoffs d')" using human_okD(2) [OF ok] by (simp add: d'(2) keys_ok_append1)
  show "ho_id x < db_seq d' \<and> ho_conversation_id x \<in> cv_id ` set (db_conversations d)"
    if "x \<in> set (db_handoffs d')" for x
    using that human_okD(4,5) [OF ok] h c(1) by (force simp: d'(2))
  have "ho_status h \<in> {HO_PENDING, HO_TAKEN}" using att by (auto simp: waiting_case_def taken_case_def)
  then show "attended c' (open_of (cv_id c) (db_handoffs d'))"
    using none att h(1) unfolding open_cases_of d'(2) open_of_def by auto
  show "open_of k (db_handoffs d') = open_of k (db_handoffs d)" if "k \<noteq> cv_id c" for k
    using that h(1) by (simp add: d'(2) open_of_def)
qed

lemma human_same:
  assumes ok: "human_ok d" and "db_conversations d' = db_conversations d" "db_handoffs d' = db_handoffs d"
    "db_seq d \<le> db_seq d'"
  shows "human_ok d'"
proof -
  have "x < db_seq d \<Longrightarrow> x < db_seq d'" for x using assms(4) by simp
  with ok assms(2,3) show ?thesis unfolding human_ok_def open_cases_of by auto
qed

section \<open>What the routes lock and write\<close>

lemma lock_human_caseD:
  assumes "lock_human_case cid hid d = Inr (c, cases)"
  shows "get_row cv_id (cv_id c) (db_conversations d) = Some c" "c \<in> set (db_conversations d)"
    "cases = order_by (\<lambda>a b. ho_id a < ho_id b) (open_cases c d)"
    "hid = Some k \<Longrightarrow> length cases = 1 \<and> ho_id (hd cases) = k" "hid = None \<Longrightarrow> cid = Some (cv_id c)"
proof -
  from assms obtain located where "(case Option.bind located (\<lambda>k. get_row cv_id k (db_conversations d)) of
          None \<Rightarrow> Inl (HTTPException 404 ''Conversation not found'')
        | Some c \<Rightarrow>
            let cases = order_by (\<lambda>a b. ho_id a < ho_id b) (open_cases c d) in
            if (case hid of None \<Rightarrow> False
                | Some k \<Rightarrow> length cases \<noteq> 1 \<or> ho_id (hd cases) \<noteq> k) then Inl assignment_conflict
            else if list_ex (\<lambda>h. ho_conversation_id h \<noteq> cv_id c) cases then Inl assignment_conflict
            else Inr (c, cases)) = Inr (c, cases)"
    unfolding lock_human_case_def ebind_Inr_iff by blast
  then have l: "Option.bind located (\<lambda>k. get_row cv_id k (db_conversations d)) = Some c"
      and cases: "cases = order_by (\<lambda>a b. ho_id a < ho_id b) (open_cases c d)"
    by (simp_all add: Let_def split: option.split_asm if_split_asm)
  from l obtain j where j: "get_row cv_id j (db_conversations d) = Some c" by (cases located) auto
  from get_row_SomeD [OF j] j show "get_row cv_id (cv_id c) (db_conversations d) = Some c"
    "c \<in> set (db_conversations d)" by auto
  show "cases = order_by (\<lambda>a b. ho_id a < ho_id b) (open_cases c d)" by (rule cases)
  show "length cases = 1 \<and> ho_id (hd cases) = k" if "hid = Some k"
    using assms that cases
    by (auto simp: lock_human_case_def ebind_Inr_iff Let_def split: option.splits if_splits)
  show "cid = Some (cv_id c)" if "hid = None"
    using assms that by (auto simp: lock_human_case_def Let_def split: option.splits if_splits bind_splits
        dest: get_row_SomeD)
qed

lemma lock_single:
  assumes "lock_human_case cid hid d = Inr (c, cases)" and "length cases = 1"
  shows "open_cases c d = [hd cases]"
proof -
  have eq: "cases = order_by (\<lambda>a b. ho_id a < ho_id b) (open_cases c d)" by (rule lock_human_caseD(3) [OF assms(1)])
  with assms(2) have len: "length (open_cases c d) = 1" by simp
  with eq have "cases = open_cases c d" by (simp add: order_by_single)
  with len show ?thesis by (cases "open_cases c d") auto
qed

lemma require_pending_caseD:
  assumes "lock_human_case cid hid d = Inr (c, cases)" and "require_pending_case c cases = Inr h"
  shows "open_cases c d = [h] \<and> waiting_case c h"
  using assms(2) lock_single [OF assms(1)] by (auto simp: require_pending_case_def waiting_case_def split: if_splits)

lemma require_owned_caseD:
  assumes "lock_human_case cid hid d = Inr (c, cases)" and "require_owned_case c cases = Inr h"
  shows "open_cases c d = [h] \<and> cv_state c = HUMAN_ACTIVE \<and> \<not> cv_bot_enabled c \<and> ho_status h = HO_TAKEN \<and>
    cv_assigned_agent_id c = ho_assigned_agent_id h"
  using assms(2) lock_single [OF assms(1)] by (auto simp: require_owned_case_def split: if_splits)

lemma require_case_ownerD:
  "require_case_owner c cases k = Inr h \<Longrightarrow> require_owned_case c cases = Inr h \<and> cv_assigned_agent_id c = Some k"
  by (auto simp: require_case_owner_def ebind_Inr_iff split: if_splits)

lemma transition_row:
  "transition_conversation c t actor reason req d = Inr (c', d') \<Longrightarrow>
     cv_state c' = t \<and> cv_id c' = cv_id c \<and> cv_assigned_agent_id c' = cv_assigned_agent_id c \<and>
     cv_bot_enabled c' = cv_bot_enabled c \<and> db_conversations d' = put_row cv_id c' (db_conversations d) \<and>
     db_handoffs d' = db_handoffs d \<and> db_seq d' = db_seq d + 1"
  by (auto simp: transition_conversation_def set_state_def uuid4_def put_conversation_def Let_def audit_def
      audit_at_def split: if_splits)

lemma set_bot_enabled_row:
  "set_bot_enabled b c d = (c', d') \<Longrightarrow>
     cv_bot_enabled c' = b \<and> cv_id c' = cv_id c \<and> cv_state c' = cv_state c \<and>
     cv_assigned_agent_id c' = cv_assigned_agent_id c \<and> cv_customer_id c' = cv_customer_id c \<and>
     db_conversations d' = put_row cv_id c' (db_conversations d) \<and> db_handoffs d' = db_handoffs d \<and>
     db_seq d' = db_seq d"
  by (auto simp: set_bot_enabled_def uuid4_def put_conversation_def Let_def split: if_splits)

lemma set_pending_action_row:
  "set_pending_action a c d = Inr (c', d') \<Longrightarrow>
     cv_bot_enabled c' = cv_bot_enabled c \<and> cv_id c' = cv_id c \<and> cv_state c' = cv_state c \<and>
     cv_assigned_agent_id c' = cv_assigned_agent_id c \<and>
     db_conversations d' = put_row cv_id c' (db_conversations d) \<and> db_handoffs d' = db_handoffs d \<and>
     db_seq d' = db_seq d"
  by (auto simp: set_pending_action_def ebind_Inr_iff put_conversation_def Let_def validate_pending_action_def
      split: option.splits if_splits)

lemma assign_conversation_row [simp]:
  "assign_conversation a (c, d) = (c\<lparr>cv_assigned_agent_id := a\<rparr>, put_conversation (c\<lparr>cv_assigned_agent_id := a\<rparr>) d)"
  by (simp add: assign_conversation_def Let_def)

lemma put_case_frame [simp]:
  "db_handoffs (put_handoff h d) = put_row ho_id h (db_handoffs d)"
  "db_conversations (put_handoff h d) = db_conversations d" "db_seq (put_handoff h d) = db_seq d"
  "db_seq (put_conversation c d) = db_seq d"
  by (simp_all add: put_handoff_def put_conversation_def)

lemmas row_facts = transition_row set_bot_enabled_row set_pending_action_row

section \<open>Every route keeps the agreement\<close>

lemma take_pending_case_ok:
  assumes t: "take_pending_case agent c h d = Inr (h', d')" and ok: "human_ok d"
    and c: "c \<in> set (db_conversations d)" "open_cases c d = [h]"
  shows "human_ok d'"
proof -
  have h': "h' = h\<lparr>ho_status := HO_TAKEN, ho_assigned_to := Some (ag_name agent),
      ho_assigned_agent_id := Some (ag_id agent), ho_taken_at := Some (db_clock d)\<rparr>"
    using t by (auto simp: take_pending_case_def Let_def ebind_Inr_iff split: prod.splits)
  obtain c1 d1 where b: "set_bot_enabled False c (put_handoff h' d) = (c1, d1)" by fastforce
  from t obtain c2 d2 where
      tr: "transition_conversation (c1\<lparr>cv_assigned_agent_id := Some (ag_id agent)\<rparr>) HUMAN_ACTIVE (ag_name agent)
           (Some ''Handoff taken by human agent'') None
           (put_conversation (c1\<lparr>cv_assigned_agent_id := Some (ag_id agent)\<rparr>) d1) = Inr (c2, d2)"
      and d': "db_conversations d' = db_conversations d2" "db_handoffs d' = db_handoffs d2" "db_seq d' = db_seq d2 + 1"
    using b [unfolded h'] by (auto simp: take_pending_case_def Let_def ebind_Inr_iff)
  note rows = set_bot_enabled_row [OF b] transition_row [OF tr]
  show ?thesis
  proof (rule human_rewrite_case [OF ok c(1) _ c(2)])
    show "cv_id c2 = cv_id c" using rows by simp
    show "ho_id h' = ho_id h" "ho_conversation_id h' = ho_conversation_id h" by (simp_all add: h')
    show "db_conversations d' = put_row cv_id c2 (db_conversations d)"
      "db_handoffs d' = put_row ho_id h' (db_handoffs d)" "db_seq d \<le> db_seq d'"
      using rows d' by auto
    show "attended c2 (if ho_status h' \<in> {HO_PENDING, HO_TAKEN} then [h'] else [])"
      using rows by (simp add: h' taken_case_def)
  qed
qed

lemma take_handoff_ok:
  assumes "take_handoff au auth k d = Inr (h', d')" and ok: "human_ok d"
  shows "human_ok d'"
proof -
  from assms(1) obtain agent c cases h where lock: "lock_human_case None (Some k) d = Inr (c, cases)"
      and req: "require_pending_case c cases = Inr h" and t: "take_pending_case agent c h d = Inr (h', d')"
    by (auto simp: take_handoff_def ebind_Inr_iff)
  from require_pending_caseD [OF lock req] show ?thesis
    by (intro take_pending_case_ok [OF t ok lock_human_caseD(2) [OF lock]]) simp
qed

lemma give_case_ok:
  assumes ok: "human_ok d" and c: "c \<in> set (db_conversations d)" "open_cases c d = [h]"
    and own: "cv_state c = HUMAN_ACTIVE" "\<not> cv_bot_enabled c" "ho_status h = HO_TAKEN"
    and g: "give_case admin target c h d = (h', d')"
  shows "human_ok d'"
proof -
  let ?c = "c\<lparr>cv_assigned_agent_id := Some (ag_id target)\<rparr>"
  have h': "h' = h\<lparr>ho_assigned_agent_id := Some (ag_id target), ho_assigned_to := Some (ag_name target)\<rparr>"
    and d': "db_conversations d' = put_row cv_id ?c (db_conversations d)"
      "db_handoffs d' = put_row ho_id h' (db_handoffs d)" "db_seq d' = db_seq d + 1"
    using g by (auto simp: give_case_def Let_def)
  show ?thesis
    by (rule human_rewrite_case [OF ok c(1) _ c(2), where c' = ?c and h' = h'])
      (use d' own in \<open>auto simp: h' taken_case_def\<close>)
qed

lemma reassign_ok:
  assumes "reassign_conversation au auth k target d = Inr (h', d')" and ok: "human_ok d"
  shows "human_ok d'"
proof -
  from assms(1) obtain admin c cases h t where lock: "lock_human_case (Some k) None d = Inr (c, cases)"
      and req: "require_owned_case c cases = Inr h" and g: "give_case admin t c h d = (h', d')"
    by (auto simp: reassign_conversation_def ebind_Inr_iff split: option.splits if_splits)
  from require_owned_caseD [OF lock req] show ?thesis
    by (intro give_case_ok [OF ok lock_human_caseD(2) [OF lock] _ _ _ _ g]) simp_all
qed

lemma return_case_ok:
  assumes t: "return_case agent c h resolution d = Inr (h', d')" and ok: "human_ok d"
    and c: "c \<in> set (db_conversations d)" "open_cases c d = [h]"
  shows "human_ok d'"
proof -
  define h1 where "h1 = h\<lparr>ho_status := HO_RETURNED, ho_resolved_at := Some (db_clock d),
      ho_assigned_agent_id := None, ho_assigned_to := None\<rparr>"
  obtain c1 d1 where b: "set_bot_enabled True c (put_handoff h1 d) = (c1, d1)" by fastforce
  from t b obtain c2 d2 where p: "set_pending_action None c1 d1 = Inr (c2, d2)"
    by (auto simp: return_case_def Let_def ebind_Inr_iff h1_def)
  let ?c3 = "c2\<lparr>cv_assigned_agent_id := None\<rparr>"
  from t b p obtain c4 d4 where
      r: "transition_conversation ?c3 RETURNED_TO_BOT (ag_name agent) (Some resolution) None (put_conversation ?c3 d2)
        = Inr (c4, d4)"
    by (auto simp: return_case_def Let_def ebind_Inr_iff h1_def)
  from t b p r obtain c5 d5 where
      a: "transition_conversation c4 BOT_ACTIVE (ag_name agent) (Some ''Returned to bot after human handling'') None d4
        = Inr (c5, d5)"
      and h': "h' = h1"
      and d': "db_conversations d' = db_conversations d5" "db_handoffs d' = db_handoffs d5" "db_seq d' = db_seq d5 + 1"
    by (auto simp: return_case_def Let_def ebind_Inr_iff h1_def)
  note rows = set_bot_enabled_row [OF b] set_pending_action_row [OF p] transition_row [OF r] transition_row [OF a]
  show ?thesis
  proof (rule human_rewrite_case [OF ok c(1) _ c(2)])
    show "cv_id c5 = cv_id c" using rows by simp
    show "ho_id h1 = ho_id h" "ho_conversation_id h1 = ho_conversation_id h" by (simp_all add: h1_def)
    show "db_conversations d' = put_row cv_id c5 (db_conversations d)"
      "db_handoffs d' = put_row ho_id h1 (db_handoffs d)" "db_seq d \<le> db_seq d'"
      using rows d' by auto
    show "attended c5 (if ho_status h1 \<in> {HO_PENDING, HO_TAKEN} then [h1] else [])"
      using rows by (simp add: h1_def free_conversation_def)
  qed
qed

lemma return_handoff_ok:
  assumes "return_handoff au auth k resolution d = Inr (h', d')" and ok: "human_ok d"
  shows "human_ok d'"
proof -
  from assms(1) obtain agent c cases h where lock: "lock_human_case None (Some k) d = Inr (c, cases)"
      and req: "require_case_owner c cases (ag_id agent) = Inr h"
      and t: "return_case agent c h resolution d = Inr (h', d')"
    by (auto simp: return_handoff_def ebind_Inr_iff)
  from require_owned_caseD [OF lock conjunct1 [OF require_case_ownerD [OF req]]] show ?thesis
    by (intro return_case_ok [OF t ok lock_human_caseD(2) [OF lock]]) simp
qed

lemma create_agent_message_ok:
  assumes "create_agent_message au auth k text d = Inr (row, d')" and ok: "human_ok d"
  shows "human_ok d'"
proof -
  from assms(1) obtain agent c cases h where lock: "lock_human_case (Some k) None d = Inr (c, cases)"
      and req: "require_case_owner c cases (ag_id agent) = Inr h"
      and sent: "answer_in_case agent c h text d = Inr (row, d')"
    by (auto simp: create_agent_message_def ebind_Inr_iff)
  from sent obtain cu m where q: "queue_answer agent c h cu m text d = (row, d')"
    by (auto simp: answer_in_case_def split: option.split_asm)
  define h1 where "h1 = h\<lparr>ho_summary := append_handoff_summary_line (ho_summary h) ''OUTBOUND'' text\<rparr>"
  note own = require_owned_caseD [OF lock conjunct1 [OF require_case_ownerD [OF req]]]
  note c = lock_human_caseD(2) [OF lock]
  have d': "db_conversations d' = db_conversations d" "db_handoffs d' = put_row ho_id h1 (db_handoffs d)"
    "db_seq d' = db_seq d + 2"
    using q by (auto simp: queue_answer_def Let_def next_serial_def h1_def)
  have "attended c [h]" using human_okD(6) [OF ok c] own by simp
  then have "taken_case c h" using own by (simp add: waiting_case_def)
  then have att: "taken_case c h1" by (simp add: taken_case_def h1_def)
  show ?thesis
  proof (rule human_rewrite_case [OF ok c refl])
    show "open_cases c d = [h]" using own by simp
    show "ho_id h1 = ho_id h" "ho_conversation_id h1 = ho_conversation_id h" by (simp_all add: h1_def)
    show "db_conversations d' = put_row cv_id c (db_conversations d)"
      using put_row_same [OF human_okD(1) [OF ok] c] d' by simp
    show "db_handoffs d' = put_row ho_id h1 (db_handoffs d)" "db_seq d \<le> db_seq d'" using d' by simp_all
    show "attended c (if ho_status h1 \<in> {HO_PENDING, HO_TAKEN} then [h1] else [])"
      using att by (simp add: taken_case_def)
  qed
qed

lemma reopen_resolved_row:
  "reopen_resolved c agent d = Inr (c', d') \<Longrightarrow>
     cv_id c' = cv_id c \<and> cv_assigned_agent_id c' = cv_assigned_agent_id c \<and>
     (c' = c \<and> d' = d \<or> db_conversations d' = put_row cv_id c' (db_conversations d)) \<and>
     db_handoffs d' = db_handoffs d \<and> db_seq d \<le> db_seq d'"
  by (auto simp: reopen_resolved_def split: if_splits dest!: transition_row)

lemma move_row:
  assumes "move_conversation_to_human_active c actor reason d = Inr (c', d')" and "cv_state c \<noteq> HUMAN_ACTIVE"
  shows "cv_state c' = HUMAN_ACTIVE \<and> cv_id c' = cv_id c \<and> cv_assigned_agent_id c' = cv_assigned_agent_id c \<and>
    cv_bot_enabled c' = cv_bot_enabled c \<and> db_conversations d' = put_row cv_id c' (db_conversations d) \<and>
    db_handoffs d' = db_handoffs d \<and> db_seq d \<le> db_seq d'"
  using assms
  by (auto simp: move_conversation_to_human_active_def ebind_Inr_iff split: if_splits dest!: transition_row)

lemma open_manual_case_ok:
  assumes t: "open_manual_case c cu agent d = Inr (h', d')" and ok: "human_ok d"
    and c: "c \<in> set (db_conversations d)" "open_cases c d = []" and state: "cv_state c \<noteq> HUMAN_ACTIVE"
  shows "human_ok d'"
proof -
  from t obtain c1 d1 where r: "reopen_resolved c agent d = Inr (c1, d1)"
    by (auto simp: open_manual_case_def ebind_Inr_iff)
  define h where "h = manual_handoff (db_seq d1) c1 cu agent d1"
  let ?d3 = "audit (ag_name agent) ''HANDOFF_CREATED'' ''handoff'' None
      (Some (JObj [(''handoff_id'', JInt (db_seq d1)), (''conversation_id'', JInt (cv_id c1)),
         (''reason'', JStr ''MANUAL_TAKEOVER''), (''priority'', JStr ''NORMAL''),
         (''status'', JStr ''TAKEN'')])) ''Manual direct takeover'' None (add_handoff h (snd (next_serial d1)))"
  obtain c2 d4 where b: "set_bot_enabled False c1 ?d3 = (c2, d4)" by fastforce
  from t r b obtain c3 d5 where p: "set_pending_action (Some ''WAIT_FOR_HUMAN'') c2 d4 = Inr (c3, d5)"
    by (auto simp: open_manual_case_def ebind_Inr_iff Let_def next_serial_def h_def)
  let ?c4 = "c3\<lparr>cv_assigned_agent_id := Some (ag_id agent)\<rparr>"
  from t r b p obtain c5 d7 where
      m: "move_conversation_to_human_active ?c4 (ag_name agent) ''Manual direct takeover'' (put_conversation ?c4 d5) = Inr (c5, d7)"
      and d': "db_conversations d' = db_conversations d7" "db_handoffs d' = db_handoffs d7" "db_seq d' = db_seq d7 + 2"
    by (auto simp: open_manual_case_def ebind_Inr_iff Let_def next_serial_def h_def)
  have frame: "db_conversations ?d3 = db_conversations d1" "db_handoffs ?d3 = db_handoffs d1 @ [h]"
    "db_seq ?d3 = db_seq d1 + 2" by (simp_all add: add_handoff_def next_serial_def)
  have "cv_state c1 \<noteq> HUMAN_ACTIVE"
    using r state by (auto simp: reopen_resolved_def split: if_splits dest!: transition_row)
  then have "cv_state ?c4 \<noteq> HUMAN_ACTIVE"
    using set_bot_enabled_row [OF b] set_pending_action_row [OF p] by simp
  note rows = reopen_resolved_row [OF r] set_bot_enabled_row [OF b] set_pending_action_row [OF p] move_row [OF m this]
  show ?thesis
  proof (rule human_open_case [OF ok c(1) _ c(2)])
    show "cv_id c5 = cv_id c" using rows by simp
    show "ho_conversation_id h = cv_id c" using rows by (simp add: h_def manual_handoff_def)
    show "db_seq d \<le> ho_id h" "ho_id h < db_seq d'"
      using rows d' frame by (simp_all add: h_def manual_handoff_def)
    show "db_conversations d' = put_row cv_id c5 (db_conversations d)" using rows d' frame by auto
    show "db_handoffs d' = db_handoffs d @ [h]" using rows d' frame by simp
    show "waiting_case c5 h \<or> taken_case c5 h" using rows by (simp add: taken_case_def h_def manual_handoff_def)
  qed
qed

lemma take_conversation_ok:
  assumes "take_conversation au auth k d = Inr (h', d')" and ok: "human_ok d"
  shows "human_ok d'"
proof -
  from assms(1) obtain agent c cases cu where lock: "lock_human_case (Some k) None d = Inr (c, cases)"
      and free: "direct_take_refusal c = None" "cases = []" and t: "open_manual_case c cu agent d = Inr (h', d')"
    by (auto simp: take_conversation_def ebind_Inr_iff require_unassigned_conversation_def split: option.splits)
  have "cv_state c \<noteq> HUMAN_ACTIVE" using free(1) by (auto simp: direct_take_refusal_def split: if_splits)
  moreover have "open_cases c d = []" using lock_human_caseD(3) [OF lock] free(2) by (metis order_by_Nil_iff)
  ultimately show ?thesis by (intro open_manual_case_ok [OF t ok lock_human_caseD(2) [OF lock]])
qed

section \<open>The other writers\<close>

lemma create_handoff_row:
  assumes "create_handoff c cu reason priority req st detail limit d = Inr (h, code, c', d')"
  shows "cv_id c' = cv_id c" "cv_state c' = WAITING_FOR_HUMAN" "cv_assigned_agent_id c' = cv_assigned_agent_id c"
    "cv_bot_enabled c' = cv_bot_enabled c"
    "\<exists>summary. h = new_handoff (db_seq d) (cv_id c) (normalize_handoff_reason reason) priority summary"
    "db_conversations d' = put_row cv_id c' (db_conversations d)" "db_handoffs d' = db_handoffs d @ [h]"
    "db_seq d < db_seq d'"
proof -
  define n where "n = normalize_handoff_reason reason"
  define s where "s = build_deterministic_summary c cu n detail limit d"
  define h0 where "h0 = new_handoff (db_seq d) (cv_id c) n priority s"
  define d3 where "d3 = audit ''SYSTEM'' ''HANDOFF_CREATED'' ''handoff'' None
      (Some (JObj [(''conversation_id'', JInt (cv_id c)), (''reason'', JStr n), (''detail'', opt_json JStr detail),
         (''priority'', JStr (priority_str priority))])) n req (add_handoff h0 (d\<lparr>db_seq := db_seq d + 1\<rparr>))"
  have body: "ebind (set_pending_action (Some ''WAIT_FOR_HUMAN'') c d3) (\<lambda>(c1, d4).
       ebind (if cv_state c1 \<noteq> WAITING_FOR_HUMAN
              then transition_conversation c1 WAITING_FOR_HUMAN ''SYSTEM'' (Some n) None d4
              else Inr (c1, d4)) (\<lambda>(c2, d5).
       ebind (handoff_response_code st None (db_clock d5)) (\<lambda>code. Inr (h0, code, c2, d5)))) = Inr (h, code, c', d')"
    using assms unfolding create_handoff_def Let_def next_serial_def prod.case n_def s_def h0_def d3_def .
  then obtain c1 d4 where p: "set_pending_action (Some ''WAIT_FOR_HUMAN'') c d3 = Inr (c1, d4)"
      and rest: "ebind (if cv_state c1 \<noteq> WAITING_FOR_HUMAN
              then transition_conversation c1 WAITING_FOR_HUMAN ''SYSTEM'' (Some n) None d4
              else Inr (c1, d4)) (\<lambda>(c2, d5).
       ebind (handoff_response_code st None (db_clock d5)) (\<lambda>code. Inr (h0, code, c2, d5))) = Inr (h, code, c', d')"
    unfolding ebind_Inr_iff [of "set_pending_action _ _ _"] by auto
  from rest have tr: "(if cv_state c1 \<noteq> WAITING_FOR_HUMAN
        then transition_conversation c1 WAITING_FOR_HUMAN ''SYSTEM'' (Some n) None d4 else Inr (c1, d4)) = Inr (c', d')"
      and h: "h = new_handoff (db_seq d) (cv_id c) (normalize_handoff_reason reason) priority s"
    by (auto simp: h0_def n_def ebind_Inr_iff split: if_splits)
  have h0: "h0 = h" by (simp add: h h0_def n_def)
  have frame: "db_conversations d3 = db_conversations d" "db_handoffs d3 = db_handoffs d @ [h]" "db_seq d3 = db_seq d + 2"
    by (simp_all add: d3_def add_handoff_def h0)
  note p = set_pending_action_row [OF p]
  have step: "cv_state c' = WAITING_FOR_HUMAN \<and> cv_id c' = cv_id c1 \<and> cv_bot_enabled c' = cv_bot_enabled c1 \<and>
      cv_assigned_agent_id c' = cv_assigned_agent_id c1 \<and> db_handoffs d' = db_handoffs d4 \<and>
      db_conversations d' = put_row cv_id c' (db_conversations d3) \<and> db_seq d4 \<le> db_seq d'"
    using tr p by (auto split: if_splits dest!: transition_row)
  show "cv_id c' = cv_id c" "cv_state c' = WAITING_FOR_HUMAN" "cv_assigned_agent_id c' = cv_assigned_agent_id c"
    "cv_bot_enabled c' = cv_bot_enabled c"
    "\<exists>summary. h = new_handoff (db_seq d) (cv_id c) (normalize_handoff_reason reason) priority summary"
    "db_conversations d' = put_row cv_id c' (db_conversations d)" "db_handoffs d' = db_handoffs d @ [h]"
    "db_seq d < db_seq d'"
    using step p frame h by auto
qed

lemma create_handoff_ok:
  assumes t: "create_handoff c cu reason priority req st detail limit d = Inr (h, code, c', d')" and ok: "human_ok d"
    and c: "c \<in> set (db_conversations d)" "open_cases c d = []"
  shows "human_ok d'"
proof -
  note r = create_handoff_row [OF t]
  from r(5) obtain s where h: "h = new_handoff (db_seq d) (cv_id c) (normalize_handoff_reason reason) priority s" by blast
  have "free_conversation c" using human_okD(6) [OF ok c(1)] c(2) by simp
  then have "waiting_case c' h" using r by (simp add: waiting_case_def h new_handoff_def free_conversation_def)
  then show ?thesis
    by (intro human_open_case [OF ok c(1) r(1) c(2) _ _ _ r(6) r(7)]) (use r(8) in \<open>simp_all add: h new_handoff_def\<close>)
qed

lemma automation_ok:
  assumes t: "transition_conversation c s actor reason req d = Inr (c', d')" and ok: "human_ok d"
    and c: "c \<in> set (db_conversations d)" "open_cases c d = []" and s: "s \<noteq> HUMAN_ACTIVE"
  shows "human_ok d'"
proof -
  note r = transition_row [OF t]
  have "free_conversation c" using human_okD(6) [OF ok c(1)] c(2) by simp
  then have "attended c' (open_of (cv_id c) (db_handoffs d'))"
    using r s c(2) by (simp add: open_cases_of free_conversation_def)
  moreover have "ho_id h < db_seq d' \<and> ho_conversation_id h \<in> cv_id ` set (db_conversations d)"
    if "h \<in> set (db_handoffs d')" for h
    using human_okD(4,5) [OF ok, of h] that r by auto
  ultimately show ?thesis
    using r human_okD(2) [OF ok] by (intro human_rewrite [OF ok c(1), where c' = c']) auto
qed

lemma arrival_ok:
  assumes t: "get_or_create_active_conversation cu d = Inr (c, d')" and ok: "human_ok d"
  shows "human_ok d'"
proof (cases "active_conversation (cu_id cu) d")
  case (Some b)
  with t ok show ?thesis by (simp add: get_or_create_active_conversation_def)
next
  case None
  let ?k = "db_seq d"
  define c0 where "c0 = new_conversation ?k cu (db_entropy d (db_draws d))"
  define d0 where "d0 = d\<lparr>db_seq := ?k + 1, db_draws := Suc (db_draws d), db_conversations := db_conversations d @ [c0]\<rparr>"
  have tr: "transition_conversation c0 BOT_ACTIVE ''SYSTEM'' (Some ''Initial valid WhatsApp message stored'') None d0 = Inr (c, d')"
    using t None by (simp add: get_or_create_active_conversation_def next_serial_def uuid4_def c0_def d0_def Let_def)
  have fresh: "cv_id b < ?k" if "b \<in> set (db_conversations d)" for b using human_okD(3) [OF ok that] .
  have none: "open_cases c0 d0 = []"
    using human_okD(5) [OF ok] fresh
    by (fastforce simp: open_cases_def c0_def d0_def new_conversation_def filter_empty_conv)
  have "human_ok d0"
    unfolding human_ok_def
  proof (intro conjI ballI)
    show "keys_ok cv_id (db_conversations d0)"
      using human_okD(1) [OF ok] fresh by (force simp: d0_def c0_def new_conversation_def keys_ok_append1)
    show "keys_ok ho_id (db_handoffs d0)" using human_okD(2) [OF ok] by (simp add: d0_def)
    show "cv_id b < db_seq d0" if "b \<in> set (db_conversations d0)" for b
      using that fresh by (force simp: d0_def c0_def new_conversation_def)
    show "ho_id h < db_seq d0" "ho_conversation_id h \<in> cv_id ` set (db_conversations d0)"
      if "h \<in> set (db_handoffs d0)" for h
      using human_okD(4,5) [OF ok, of h] that by (auto simp: d0_def)
    show "attended b (open_cases b d0)" if "b \<in> set (db_conversations d0)" for b
    proof (cases "b = c0")
      case True
      with none show ?thesis by (simp add: free_conversation_def c0_def new_conversation_def)
    next
      case False
      with that have "b \<in> set (db_conversations d)" by (simp add: d0_def)
      moreover have "open_cases b d0 = open_cases b d" by (simp add: open_cases_def d0_def)
      ultimately show ?thesis using human_okD(6) [OF ok] by simp
    qed
  qed
  then show ?thesis
    by (rule automation_ok [OF tr]) (use none in \<open>auto simp: d0_def\<close>)
qed

section \<open>The administrator's reset\<close>

lemma reset_conversation_row_frame:
  "\<exists>c'. cv_id c' = cv_id c \<and> cv_state c' = CLOSED \<and> cv_assigned_agent_id c' = None \<and>
     db_conversations (reset_conversation_row c d) = put_row cv_id c' (db_conversations d) \<and>
     db_handoffs (reset_conversation_row c d) = db_handoffs d \<and> db_seq (reset_conversation_row c d) = db_seq d \<and>
     db_clock (reset_conversation_row c d) = db_clock d"
proof -
  obtain c1 d1 where s: "set_state CLOSED c d = (c1, d1)" by fastforce
  define c2 where "c2 = c1\<lparr>cv_pending_action := None, cv_pending_fields := [], cv_pending_confirmation := None,
     cv_visit_draft := None, cv_last_question_code := None, cv_last_intent := None,
     cv_failed_understanding_count := 0, cv_services_failed_understanding_count := Some 0\<rparr>"
  obtain c3 d2 where b: "set_bot_enabled True c2 d1 = (c3, d2)" by fastforce
  have clock: "db_clock d1 = db_clock d" "db_clock d2 = db_clock d1"
    using s b by (auto simp: set_state_def set_bot_enabled_def uuid4_def put_conversation_def Let_def split: if_splits)
  let ?c = "c3\<lparr>cv_assigned_agent_id := None, cv_active_lead_id := None, cv_automation_epoch := db_entropy d2 (db_draws d2)\<rparr>"
  have "reset_conversation_row c d = put_conversation ?c (d2\<lparr>db_draws := Suc (db_draws d2)\<rparr>)"
    using s b by (simp add: reset_conversation_row_def Let_def uuid4_def c2_def)
  with set_stateD [OF s] set_bot_enabled_row [OF b] clock show ?thesis
    by (intro exI [of _ ?c]) (simp add: c2_def)
qed

lemma fold_reset_rows:
  "db_handoffs (fold reset_conversation_row cs d) = db_handoffs d \<and>
   db_seq (fold reset_conversation_row cs d) = db_seq d \<and>
   map cv_id (db_conversations (fold reset_conversation_row cs d)) = map cv_id (db_conversations d) \<and>
   (\<forall>b \<in> set (db_conversations (fold reset_conversation_row cs d)).
      (b \<in> set (db_conversations d) \<and> cv_id b \<notin> cv_id ` set cs) \<or>
      (cv_id b \<in> cv_id ` set cs \<and> cv_state b = CLOSED \<and> cv_assigned_agent_id b = None))"
proof (induction cs arbitrary: d)
  case Nil
  then show ?case by simp
next
  case (Cons c cs)
  obtain c' where c': "cv_id c' = cv_id c" "cv_state c' = CLOSED" "cv_assigned_agent_id c' = None"
      and row: "db_conversations (reset_conversation_row c d) = put_row cv_id c' (db_conversations d)"
      "db_handoffs (reset_conversation_row c d) = db_handoffs d" "db_seq (reset_conversation_row c d) = db_seq d"
    using reset_conversation_row_frame [of c d] by blast
  note IH = Cons.IH [of "reset_conversation_row c d"]
  have "(b \<in> set (db_conversations d) \<and> cv_id b \<notin> cv_id ` set (c # cs)) \<or>
      (cv_id b \<in> cv_id ` set (c # cs) \<and> cv_state b = CLOSED \<and> cv_assigned_agent_id b = None)"
    if b: "b \<in> set (db_conversations (fold reset_conversation_row (c # cs) d))" for b
  proof -
    from IH b consider "b \<in> set (put_row cv_id c' (db_conversations d))" "cv_id b \<notin> cv_id ` set cs"
      | "cv_id b \<in> cv_id ` set cs \<and> cv_state b = CLOSED \<and> cv_assigned_agent_id b = None" by (auto simp: row)
    then show ?thesis
    proof cases
      case 1
      from put_row_mem [OF 1(1)] 1(2) c' show ?thesis by auto
    qed auto
  qed
  with IH row show ?case by simp
qed

lemma open_of_map:
  "(\<And>r. ho_conversation_id (g r) = ho_conversation_id r) \<Longrightarrow>
   (\<And>r. r \<in> set rows \<Longrightarrow> ho_conversation_id r = k \<Longrightarrow> g r = r) \<Longrightarrow> open_of k (map g rows) = open_of k rows"
  by (induction rows) (auto simp: open_of_def)

lemma fold_put_handoff [simp]:
  "db_handoffs (fold (\<lambda>h. put_handoff (f h)) hs d) = fold (\<lambda>h rs. put_row ho_id (f h) rs) hs (db_handoffs d)"
  "db_conversations (fold (\<lambda>h. put_handoff (f h)) hs d) = db_conversations d"
  "db_seq (fold (\<lambda>h. put_handoff (f h)) hs d) = db_seq d"
  by (induction hs arbitrary: d) simp_all

lemma fold_put_job [simp]:
  "db_handoffs (fold (\<lambda>j. put_job (f j)) js d) = db_handoffs d"
  "db_conversations (fold (\<lambda>j. put_job (f j)) js d) = db_conversations d"
  "db_seq (fold (\<lambda>j. put_job (f j)) js d) = db_seq d"
  by (induction js arbitrary: d) (simp_all add: put_job_def)

lemma execute_reset_ok:
  assumes ok: "human_ok d" and cs: "cs = customer_conversations k d"
    and hs: "hs = unresolved_handoffs (map cv_id cs) d"
  shows "human_ok (execute_reset cu cs hs jobs outs actor reason req d)"
proof -
  let ?ids = "cv_id ` set cs"
  define d1 where "d1 = put_customer (cu\<lparr>cu_full_name := None\<rparr>) d"
  define d2 where "d2 = fold reset_conversation_row cs d1"
  define d4 where "d4 = fold (\<lambda>j. put_job (cancel_job (db_clock d) j)) jobs
      (fold (\<lambda>h. put_handoff (resolve_case (db_clock d) h)) hs d2)"
  define g where "g = (\<lambda>h. if h \<in> set hs then resolve_case (db_clock d) h else h)"
  let ?d = "execute_reset cu cs hs jobs outs actor reason req d"
  have f1: "db_conversations d1 = db_conversations d" "db_handoffs d1 = db_handoffs d" "db_seq d1 = db_seq d"
    by (simp_all add: d1_def put_customer_def)
  note keys = human_okD(2) [OF ok]
  have set_hs: "set hs = {h \<in> set (db_handoffs d). ho_conversation_id h \<in> ?ids \<and> ho_status h \<noteq> HO_RESOLVED}"
    by (auto simp: hs unresolved_handoffs_def)
  have "distinct hs" using keys by (auto simp: hs unresolved_handoffs_def keys_ok_def distinct_map)
  moreover have "inj_on ho_id (set hs)" using keys set_hs by (auto simp: keys_ok_def distinct_map inj_on_def)
  ultimately have dist: "distinct (map ho_id hs)" by (simp add: distinct_map)
  have "fold (\<lambda>h rs. put_row ho_id (resolve_case (db_clock d) h) rs) hs (db_handoffs d) =
      map (\<lambda>r. if r \<in> set hs then resolve_case (db_clock d) r else r) (db_handoffs d)"
    using set_hs keys by (intro fold_put_row [OF dist]) (auto simp: resolve_case_def)
  then have hand: "db_handoffs d4 = map g (db_handoffs d)"
    using fold_reset_rows [of cs d1] f1 by (simp add: d4_def d2_def g_def)
  have conv: "db_conversations d4 = db_conversations d2" and seq: "db_seq d4 = db_seq d"
    using fold_reset_rows [of cs d1] f1 by (simp_all add: d4_def d2_def)
  have d: "db_conversations ?d = db_conversations d2" "db_handoffs ?d = map g (db_handoffs d)" "db_seq ?d = db_seq d + 1"
    using conv hand seq by (simp_all add: execute_reset_def Let_def d1_def d2_def d4_def)
  have g: "ho_id (g h) = ho_id h" "ho_conversation_id (g h) = ho_conversation_id h" for h
    by (simp_all add: g_def resolve_case_def)
  have ids: "map cv_id (db_conversations d2) = map cv_id (db_conversations d)"
    using fold_reset_rows [of cs d1] f1 by (simp add: d2_def)
  then have id_set: "cv_id ` set (db_conversations d2) = cv_id ` set (db_conversations d)" by (metis list.set_map)
  have att: "attended b (open_of (cv_id b) (map g (db_handoffs d)))" if "b \<in> set (db_conversations d2)" for b
  proof -
    from that fold_reset_rows [of cs d1] f1 consider
        (kept) "b \<in> set (db_conversations d)" "cv_id b \<notin> ?ids"
      | (closed) "cv_id b \<in> ?ids" "cv_state b = CLOSED" "cv_assigned_agent_id b = None" by (auto simp: d2_def)
    then show ?thesis
    proof cases
      case kept
      have "open_of (cv_id b) (map g (db_handoffs d)) = open_of (cv_id b) (db_handoffs d)"
        using kept(2) set_hs by (intro open_of_map) (auto simp: g(2), simp add: g_def)
      with human_okD(6) [OF ok kept(1)] show ?thesis by (simp add: open_cases_of)
    next
      case closed
      have "open_of (cv_id b) (map g (db_handoffs d)) = []"
        using closed(1) set_hs by (auto simp: open_of_def filter_empty_conv g_def resolve_case_def)
      with closed show ?thesis by (simp add: free_conversation_def)
    qed
  qed
  show ?thesis
    unfolding human_ok_def open_cases_of d
  proof (intro conjI ballI)
    show "keys_ok cv_id (db_conversations d2)" using human_okD(1) [OF ok] ids by (simp add: keys_ok_def)
    show "keys_ok ho_id (map g (db_handoffs d))" using keys by (simp add: keys_ok_def comp_def g)
    show "cv_id b < db_seq d + 1" if "b \<in> set (db_conversations d2)" for b
    proof -
      from that id_set have "cv_id b \<in> cv_id ` set (db_conversations d)" by blast
      with human_okD(3) [OF ok] show ?thesis by force
    qed
    show "ho_id h < db_seq d + 1" "ho_conversation_id h \<in> cv_id ` set (db_conversations d2)"
      if "h \<in> set (map g (db_handoffs d))" for h
      using that human_okD(4,5) [OF ok] g id_set by force+
    show "attended b (open_of (cv_id b) (map g (db_handoffs d)))" if "b \<in> set (db_conversations d2)" for b
      using that by (rule att)
  qed
qed

lemma reset_ok:
  assumes "reset_conversation au u auth phone dry reason d = Inr (s, d')" and ok: "human_ok d"
  shows "human_ok d'"
proof -
  let ?d = "d\<lparr>db_draws := Suc (db_draws d)\<rparr>"
  have ok1: "human_ok ?d" by (rule human_same [OF ok]) simp_all
  from assms(1) obtain admin :: agent and r where "reset_conversation_by_phone u phone dry (ag_name admin) reason r ?d = Inr (s, d')"
    by (auto simp: reset_conversation_def ebind_Inr_iff uuid4_def)
  then have "d' = ?d \<or> (\<exists>cu cs hs jobs outs actor reason'. cs = customer_conversations (cu_id cu) ?d \<and>
      hs = unresolved_handoffs (map cv_id cs) ?d \<and> d' = execute_reset cu cs hs jobs outs actor reason' r ?d)"
    unfolding reset_conversation_by_phone_def Let_def
    by (simp split: sum.split_asm app_error.split_asm if_split_asm option.split_asm) blast+
  with ok1 execute_reset_ok [OF ok1] show ?thesis by blast
qed

section \<open>Any order of events\<close>

text \<open>A case is opened by the bot's own turn, on a conversation without an open one; the automation moves
  only such conversations, and never to \<open>HUMAN_ACTIVE\<close>.\<close>

inductive human_step :: "auth_provider \<Rightarrow> settings \<Rightarrow> ucd \<Rightarrow> db \<Rightarrow> db \<Rightarrow> bool" for au st u where
  step_take: "take_handoff au auth k d = Inr (h, d') \<Longrightarrow> human_step au st u d d'"
| step_direct: "take_conversation au auth k d = Inr (h, d') \<Longrightarrow> human_step au st u d d'"
| step_reassign: "reassign_conversation au auth k target d = Inr (h, d') \<Longrightarrow> human_step au st u d d'"
| step_return: "return_handoff au auth k resolution d = Inr (h, d') \<Longrightarrow> human_step au st u d d'"
| step_answer: "create_agent_message au auth k text d = Inr (row, d') \<Longrightarrow> human_step au st u d d'"
| step_open: "create_handoff c cu reason priority req st detail limit d = Inr (h, code, c', d') \<Longrightarrow>
    c \<in> set (db_conversations d) \<Longrightarrow> open_cases c d = [] \<Longrightarrow> human_step au st u d d'"
| step_automation: "transition_conversation c s actor reason' req d = Inr (c', d') \<Longrightarrow>
    c \<in> set (db_conversations d) \<Longrightarrow> open_cases c d = [] \<Longrightarrow> s \<noteq> HUMAN_ACTIVE \<Longrightarrow> human_step au st u d d'"
| step_arrival: "get_or_create_active_conversation cu d = Inr (c, d') \<Longrightarrow> human_step au st u d d'"
| step_reset: "reset_conversation au u auth phone dry reason' d = Inr (s', d') \<Longrightarrow> human_step au st u d d'"
| step_other: "db_conversations d' = db_conversations d \<Longrightarrow> db_handoffs d' = db_handoffs d \<Longrightarrow>
    db_seq d \<le> db_seq d' \<Longrightarrow> human_step au st u d d'"

lemma human_step_ok: "human_step au st u d d' \<Longrightarrow> human_ok d \<Longrightarrow> human_ok d'"
  by (induction rule: human_step.induct)
    (blast intro: take_handoff_ok take_conversation_ok reassign_ok return_handoff_ok create_agent_message_ok
      create_handoff_ok automation_ok arrival_ok reset_ok human_same)+

lemma human_run_ok: "rtranclp (human_step au st u) d d' \<Longrightarrow> human_ok d \<Longrightarrow> human_ok d'"
  by (induction rule: rtranclp_induct) (blast intro: human_step_ok)+

section \<open>What an agent can do\<close>

lemma attended_cases:
  assumes "human_ok d" and "c \<in> set (db_conversations d)" and "open_cases c d = [h]"
  shows "(ho_status h = HO_PENDING \<longrightarrow> waiting_case c h) \<and> (ho_status h = HO_TAKEN \<longrightarrow> taken_case c h) \<and>
    h \<in> set (db_handoffs d) \<and> ho_conversation_id h = cv_id c"
proof -
  have "h \<in> set (open_cases c d)" using assms(3) by simp
  then have "h \<in> set (db_handoffs d)" "ho_conversation_id h = cv_id c" unfolding open_cases_def by simp_all
  moreover have "attended c [h]" using human_okD(6) [OF assms(1,2)] assms(3) by simp
  then have "(ho_status h = HO_PENDING \<longrightarrow> waiting_case c h) \<and> (ho_status h = HO_TAKEN \<longrightarrow> taken_case c h)"
    by (auto simp: waiting_case_def taken_case_def)
  ultimately show ?thesis by simp
qed

lemma lock_by_case:
  assumes "human_ok d" and "c \<in> set (db_conversations d)" and "open_cases c d = [h]"
  shows "lock_human_case None (Some (ho_id h)) d = Inr (c, [h])"
proof -
  note a = attended_cases [OF assms]
  have "get_row ho_id (ho_id h) (db_handoffs d) = Some h"
    using get_row_mem [OF human_okD(2) [OF assms(1)]] a by blast
  moreover have "get_row cv_id (cv_id c) (db_conversations d) = Some c"
    using get_row_mem [OF human_okD(1) [OF assms(1)] assms(2)] .
  ultimately show ?thesis
    using a assms(3) by (simp add: lock_human_case_def order_by_single)
qed

lemma take_pending_case_total:
  assumes "cv_state c = WAITING_FOR_HUMAN"
  shows "\<exists>d'. take_pending_case agent c h d = Inr (h\<lparr>ho_status := HO_TAKEN, ho_assigned_to := Some (ag_name agent),
      ho_assigned_agent_id := Some (ag_id agent), ho_taken_at := Some (db_clock d)\<rparr>, d')"
proof -
  let ?h = "h\<lparr>ho_status := HO_TAKEN, ho_assigned_to := Some (ag_name agent),
      ho_assigned_agent_id := Some (ag_id agent), ho_taken_at := Some (db_clock d)\<rparr>"
  obtain c1 d1 where b: "set_bot_enabled False c (put_handoff ?h d) = (c1, d1)" by fastforce
  let ?c = "c1\<lparr>cv_assigned_agent_id := Some (ag_id agent)\<rparr>"
  have "cv_state ?c = WAITING_FOR_HUMAN" using set_bot_enabled_row [OF b] assms by simp
  then have "\<exists>r. transition_conversation ?c HUMAN_ACTIVE (ag_name agent) (Some ''Handoff taken by human agent'') None
      (put_conversation ?c d1) = Inr r" unfolding transition_conversation_iff by simp
  then show ?thesis using b by (auto simp: take_pending_case_def Let_def)
qed

lemma return_case_total:
  assumes "cv_state c = HUMAN_ACTIVE"
  shows "\<exists>h' d'. return_case agent c h resolution d = Inr (h', d') \<and> ho_status h' = HO_RETURNED"
proof -
  define h1 where "h1 = h\<lparr>ho_status := HO_RETURNED, ho_resolved_at := Some (db_clock d),
      ho_assigned_agent_id := None, ho_assigned_to := None\<rparr>"
  obtain c1 d1 where b: "set_bot_enabled True c (put_handoff h1 d) = (c1, d1)" by fastforce
  obtain c2 d2 where p: "set_pending_action None c1 d1 = Inr (c2, d2)"
    by (simp add: set_pending_action_def validate_pending_action_def Let_def)
  let ?c3 = "c2\<lparr>cv_assigned_agent_id := None\<rparr>"
  have "cv_state ?c3 = HUMAN_ACTIVE" using set_bot_enabled_row [OF b] set_pending_action_row [OF p] assms by simp
  then have "\<exists>r. transition_conversation ?c3 RETURNED_TO_BOT (ag_name agent) (Some resolution) None (put_conversation ?c3 d2)
      = Inr r" unfolding transition_conversation_iff by simp
  then obtain c4 d4 where r: "transition_conversation ?c3 RETURNED_TO_BOT (ag_name agent) (Some resolution) None
      (put_conversation ?c3 d2) = Inr (c4, d4)" by fastforce
  have "cv_state c4 = RETURNED_TO_BOT" using transition_row [OF r] by simp
  then have "\<exists>r. transition_conversation c4 BOT_ACTIVE (ag_name agent) (Some ''Returned to bot after human handling'') None d4
      = Inr r" unfolding transition_conversation_iff by simp
  then obtain c5 d5 where a: "transition_conversation c4 BOT_ACTIVE (ag_name agent)
      (Some ''Returned to bot after human handling'') None d4 = Inr (c5, d5)" by fastforce
  show ?thesis using b p r a by (simp add: return_case_def Let_def h1_def [symmetric]) (simp add: h1_def)
qed

section \<open>A concrete conversation\<close>

definition waiting_conversation :: conversation where
  "waiting_conversation = sample_conversation\<lparr>cv_state := WAITING_FOR_HUMAN\<rparr>"

definition waiting_handoff :: handoff where
  "waiting_handoff = new_handoff 40 1 ''OTHER'' HO_NORMAL ''Ana''"

definition sample_session :: agent_session where
  "sample_session = \<lparr>se_id = 6, se_agent_id = 5, se_token_hash = ''tok'', se_created_at = sample_now,
     se_expires_at = sample_now + hours 12, se_revoked_at = None\<rparr>"

definition waiting_db :: db where
  "waiting_db = sample_db\<lparr>db_agents := [sample_admin], db_agent_sessions := [sample_session],
     db_conversations := [waiting_conversation], db_handoffs := [waiting_handoff]\<rparr>"

lemma waiting_db_simps [simp]:
  "db_agents waiting_db = [sample_admin]" "db_agent_sessions waiting_db = [sample_session]"
  "db_conversations waiting_db = [waiting_conversation]" "db_handoffs waiting_db = [waiting_handoff]"
  "db_clock waiting_db = sample_now" "db_seq waiting_db = 100" "db_customers waiting_db = [sample_customer]"
  by (simp_all add: waiting_db_def)

lemma waiting_session: "require_session sample_auth (Some ''Bearer tok'') waiting_db = Inr sample_admin"
  by (simp add: require_session_def resolve_session_from_authorization_def bearer_token_def Let_def ascii_eval
      sample_auth_def sample_session_def sample_admin_def get_row_def hours_def us_hour_def us_minute_def us_second_def)

lemma waiting_open: "open_cases waiting_conversation waiting_db = [waiting_handoff]"
  by (simp add: open_cases_def waiting_handoff_def waiting_conversation_def new_handoff_def sample_conversation_def)

lemma waiting_db_ok: "human_ok waiting_db"
  by (simp add: human_ok_def keys_ok_def waiting_open waiting_case_def)
    (simp add: waiting_conversation_def waiting_handoff_def new_handoff_def sample_conversation_def)

section \<open>Properties\<close>





text \<open>An answer queued by the owner of a case is delivered as a human reply: its output, alone, is added
  to the outbox, for this conversation and its customer, and the delivery check finds it authorized.\<close>

theorem agent_answer_is_deliverable:
  assumes m: "create_agent_message au auth k text d = Inr (row, d')"
  shows "db_outbox d' = db_outbox d @ [row] \<and> ob_conversation_id row = k \<and>
    jget ''body'' (jget ''text'' (ob_payload row)) = JStr text \<and>
    (\<exists>agent c. require_session au auth d = Inr agent \<and> get_row cv_id k (db_conversations d) = Some c \<and>
       cv_state c = HUMAN_ACTIVE \<and> cv_assigned_agent_id c = Some (ag_id agent) \<and>
       eligibility c row d' = (Eligible ''AUTHORIZED_HUMAN_REPLY'', row))"
proof -
  from m obtain agent c cases h where ag: "require_session au auth d = Inr agent"
      and lock: "lock_human_case (Some k) None d = Inr (c, cases)"
      and req: "require_case_owner c cases (ag_id agent) = Inr h" and sent: "answer_in_case agent c h text d = Inr (row, d')"
    by (auto simp: create_agent_message_def ebind_Inr_iff)
  from sent obtain cu msg where q: "queue_answer agent c h cu msg text d = (row, d')"
    by (auto simp: answer_in_case_def split: option.split_asm)
  have k: "cv_id c = k" using lock_human_caseD(5) [OF lock] by simp
  have row: "row = agent_output (db_seq d) c cu msg (ag_id agent) text (db_clock d)"
    and out: "db_outbox d' = db_outbox d @ [row]"
    and aud: "\<exists>ev. db_audit d' = db_audit d @ [ev] \<and> proves_human row ev"
    using q by (auto simp: queue_answer_def Let_def next_serial_def put_handoff_def audit_def audit_at_def
        proves_human_def agent_output_def jget_def is_obj_def json_text_def)
  have own: "cv_state c = HUMAN_ACTIVE" "cv_assigned_agent_id c = Some (ag_id agent)"
    using require_owned_caseD [OF lock conjunct1 [OF require_case_ownerD [OF req]]] require_case_ownerD [OF req] by simp_all
  have "find (proves_human row) (db_audit d') \<noteq> None" using aud by (auto simp: find_None_iff)
  then have "human_proof row d' \<noteq> None" by (auto simp: human_proof_def row agent_output_def jget_def)
  then have "eligibility c row d' = (Eligible ''AUTHORIZED_HUMAN_REPLY'', row)"
    by (simp add: eligibility_def row agent_output_def context_verdict_def human_context_def jget_def is_obj_def)
  with ag own k out lock_human_caseD(1) [OF lock] show ?thesis by (auto simp: row agent_output_def jget_def)
qed

definition active_conversation_row :: conversation where
  "active_conversation_row = waiting_conversation\<lparr>cv_state := HUMAN_ACTIVE, cv_bot_enabled := False,
     cv_assigned_agent_id := Some 5\<rparr>"

definition taken_handoff :: handoff where
  "taken_handoff = waiting_handoff\<lparr>ho_status := HO_TAKEN, ho_assigned_to := Some ''Luz'', ho_assigned_agent_id := Some 5\<rparr>"

lemmas active_rows = active_conversation_row_def taken_handoff_def waiting_conversation_def waiting_handoff_def
  new_handoff_def sample_conversation_def

definition active_db :: db where
  "active_db = waiting_db\<lparr>db_messages := [\<lparr>ms_id = 71, ms_external_message_id = ''wamid.7'', ms_conversation_id = 1,
       ms_customer_id = 1, ms_direction = ''INBOUND'', ms_message_type = ''text'', ms_content = JNull,
       ms_provider_timestamp = None\<rparr>],
     db_conversations := [active_conversation_row], db_handoffs := [taken_handoff]\<rparr>"

lemma agent_answer_is_deliverable_witness:
  "\<exists>row d' c. create_agent_message sample_auth (Some ''Bearer tok'') 1 ''hola'' active_db = Inr (row, d') \<and>
     eligibility c row d' = (Eligible ''AUTHORIZED_HUMAN_REPLY'', row)"
proof -
  have s: "require_session sample_auth (Some ''Bearer tok'') active_db = Inr sample_admin"
    by (simp add: active_db_def require_session_def resolve_session_from_authorization_def bearer_token_def Let_def
        ascii_eval sample_auth_def sample_session_def sample_admin_def get_row_def hours_def us_hour_def us_minute_def
        us_second_def)
  have l: "lock_human_case (Some 1) None active_db = Inr (active_conversation_row, [taken_handoff])"
    by (simp add: lock_human_case_def open_cases_def active_db_def get_row_def order_by_def active_rows)
  have r: "require_case_owner active_conversation_row [taken_handoff] 5 = Inr taken_handoff"
    by (simp add: require_case_owner_def require_owned_case_def active_rows)
  have "\<exists>row d'. answer_in_case sample_admin active_conversation_row taken_handoff ''hola'' active_db = Inr (row, d')"
    by (simp add: answer_in_case_def active_db_def get_row_def sample_customer_def latest_message_def active_rows)
  then have "\<exists>row d'. create_agent_message sample_auth (Some ''Bearer tok'') 1 ''hola'' active_db = Inr (row, d')"
    by (simp add: create_agent_message_def s l r within_length_def cp_length_def ascii_eval sample_admin_def)
  then obtain row d' where "create_agent_message sample_auth (Some ''Bearer tok'') 1 ''hola'' active_db = Inr (row, d')"
    by blast
  with agent_answer_is_deliverable [OF this] show ?thesis by blast
qed

end
