(* ===== verification/Regex.thy ===== *)
theory Regex
  imports Samples
begin

text \<open>
  The regular expressions of Python's \<open>re\<close> that the code uses, as a backtracking matcher over code points.
  A match is tried in the engine's order of preference, so that the first element of the list of outcomes is
  the match that \<open>re\<close> reports. Classes depend on the Unicode tables \<open>ucd\<close>. This is the language's own
  behaviour, not code of the repository.
\<close>

section \<open>Expressions\<close>

datatype regex =
    Eps
  | Class "nat \<Rightarrow> bool"
  | Seq regex regex
  | Alt regex regex
  | Opt regex
  | Star regex
  | Group nat regex
  | Boundary
  | Start
  | Stop
  | Ahead bool regex
  | Behind "nat \<Rightarrow> bool" bool

text \<open>\<open>Ahead True r\<close> is the lookahead \<open>(?=r)\<close>, \<open>Ahead False r\<close> is \<open>(?!r)\<close>; \<open>Behind p b\<close> is the lookbehind over one code point.\<close>

text \<open>A point of the subject: its position, the code point before it, the rest, and the groups closed so far.\<close>

record point =
  pt_pos :: nat
  pt_prev :: "nat option"
  pt_rest :: "nat list"
  pt_groups :: "(nat \<times> nat \<times> nat list) list"

definition advance :: "point \<Rightarrow> point" where
  "advance p = (case pt_rest p of [] \<Rightarrow> p
     | c # cs \<Rightarrow> p\<lparr>pt_pos := Suc (pt_pos p), pt_prev := Some c, pt_rest := cs\<rparr>)"

text \<open>Greedy repetition; an iteration that consumes nothing ends it.\<close>

fun repeat_greedy :: "(point \<Rightarrow> point list) \<Rightarrow> nat \<Rightarrow> point \<Rightarrow> point list" where
  "repeat_greedy f 0 p = [p]"
| "repeat_greedy f (Suc n) p =
     concat (map (\<lambda>q. if pt_pos q = pt_pos p then [] else repeat_greedy f n q) (f p)) @ [p]"

definition word_at :: "ucd \<Rightarrow> nat option \<Rightarrow> bool" where
  "word_at u c = (case c of None \<Rightarrow> False | Some x \<Rightarrow> word_char u x)"

definition next_cp :: "point \<Rightarrow> nat option" where
  "next_cp p = (case pt_rest p of [] \<Rightarrow> None | c # _ \<Rightarrow> Some c)"

primrec outcomes :: "ucd \<Rightarrow> regex \<Rightarrow> point \<Rightarrow> point list" where
  "outcomes u Eps p = [p]"
| "outcomes u (Class f) p = (case next_cp p of None \<Rightarrow> [] | Some c \<Rightarrow> if f c then [advance p] else [])"
| "outcomes u (Seq a b) p = concat (map (outcomes u b) (outcomes u a p))"
| "outcomes u (Alt a b) p = outcomes u a p @ outcomes u b p"
| "outcomes u (Opt a) p = outcomes u a p @ [p]"
| "outcomes u (Star a) p = repeat_greedy (outcomes u a) (length (pt_rest p)) p"
| "outcomes u (Group k a) p =
     map (\<lambda>q. q\<lparr>pt_groups := (k, pt_pos p, take (pt_pos q - pt_pos p) (pt_rest p)) # pt_groups q\<rparr>) (outcomes u a p)"
| "outcomes u Boundary p = (if word_at u (pt_prev p) \<noteq> word_at u (next_cp p) then [p] else [])"
| "outcomes u Start p = (if pt_prev p = None then [p] else [])"
| "outcomes u Stop p = (if pt_rest p = [] then [p] else [])"
| "outcomes u (Ahead b a) p = (if (outcomes u a p \<noteq> []) = b then [p] else [])"
| "outcomes u (Behind f b) p = (if (case pt_prev p of None \<Rightarrow> False | Some c \<Rightarrow> f c) = b then [p] else [])"

section \<open>Matching\<close>

text \<open>A match: its span, its text, and its groups.\<close>

record re_match =
  rm_start :: nat
  rm_end :: nat
  rm_text :: "nat list"
  rm_groups :: "(nat \<times> nat \<times> nat list) list"

definition match_of :: "point \<Rightarrow> point \<Rightarrow> re_match" where
  "match_of p q = \<lparr>rm_start = pt_pos p, rm_end = pt_pos q, rm_text = take (pt_pos q - pt_pos p) (pt_rest p),
     rm_groups = pt_groups q\<rparr>"

definition group :: "nat \<Rightarrow> re_match \<Rightarrow> nat list option" where
  "group k m = map_option snd (map_of (rm_groups m) k)"

definition point_of :: "nat list \<Rightarrow> point" where
  "point_of cs = \<lparr>pt_pos = 0, pt_prev = None, pt_rest = cs, pt_groups = []\<rparr>"

definition match_at :: "ucd \<Rightarrow> regex \<Rightarrow> point \<Rightarrow> re_match option" where
  "match_at u r p = (case outcomes u r (p\<lparr>pt_groups := []\<rparr>) of [] \<Rightarrow> None | q # _ \<Rightarrow> Some (match_of p q))"

definition re_match_start :: "ucd \<Rightarrow> regex \<Rightarrow> nat list \<Rightarrow> re_match option" where
  "re_match_start u r cs = match_at u r (point_of cs)"

definition re_fullmatch :: "ucd \<Rightarrow> regex \<Rightarrow> nat list \<Rightarrow> re_match option" where
  "re_fullmatch u r cs = match_at u (Seq r Stop) (point_of cs)"

fun search_from :: "ucd \<Rightarrow> regex \<Rightarrow> nat \<Rightarrow> point \<Rightarrow> re_match option" where
  "search_from u r 0 p = match_at u r p"
| "search_from u r (Suc n) p = (case match_at u r p of Some m \<Rightarrow> Some m | None \<Rightarrow> search_from u r n (advance p))"

definition re_search :: "ucd \<Rightarrow> regex \<Rightarrow> nat list \<Rightarrow> re_match option" where
  "re_search u r cs = search_from u r (length cs) (point_of cs)"

text \<open>\<open>finditer\<close> for expressions that match no empty text: the leftmost match, then from its end on.\<close>

fun advance_by :: "nat \<Rightarrow> point \<Rightarrow> point" where
  "advance_by 0 p = p"
| "advance_by (Suc n) p = advance_by n (advance p)"

fun iter_from :: "ucd \<Rightarrow> regex \<Rightarrow> nat \<Rightarrow> point \<Rightarrow> re_match list" where
  "iter_from u r 0 p = []"
| "iter_from u r (Suc n) p =
     (case match_at u r p of
        Some m \<Rightarrow> if rm_end m = rm_start m then iter_from u r n (advance p)
                  else m # iter_from u r n (advance_by (rm_end m - rm_start m) p)
      | None \<Rightarrow> iter_from u r n (advance p))"

definition re_finditer :: "ucd \<Rightarrow> regex \<Rightarrow> nat list \<Rightarrow> re_match list" where
  "re_finditer u r cs = iter_from u r (length cs) (point_of cs)"

text \<open>\<open>re.sub\<close> with a replacement computed from the matched text, and \<open>re.split\<close>.\<close>

fun sub_matches :: "(nat list \<Rightarrow> nat list) \<Rightarrow> nat \<Rightarrow> nat list \<Rightarrow> re_match list \<Rightarrow> nat list" where
  "sub_matches f pos cs [] = cs"
| "sub_matches f pos cs (m # ms) =
     take (rm_start m - pos) cs @ f (rm_text m) @ sub_matches f (rm_end m) (drop (rm_end m - pos) cs) ms"

definition re_sub_with :: "ucd \<Rightarrow> regex \<Rightarrow> (nat list \<Rightarrow> nat list) \<Rightarrow> nat list \<Rightarrow> nat list" where
  "re_sub_with u r f cs = sub_matches f 0 cs (re_finditer u r cs)"

definition re_sub :: "ucd \<Rightarrow> regex \<Rightarrow> nat list \<Rightarrow> nat list \<Rightarrow> nat list" where
  "re_sub u r replacement cs = re_sub_with u r (\<lambda>_. replacement) cs"

fun split_matches :: "nat \<Rightarrow> nat list \<Rightarrow> re_match list \<Rightarrow> nat list list" where
  "split_matches pos cs [] = [cs]"
| "split_matches pos cs (m # ms) =
     take (rm_start m - pos) cs # split_matches (rm_end m) (drop (rm_end m - pos) cs) ms"

definition re_split :: "ucd \<Rightarrow> regex \<Rightarrow> nat list \<Rightarrow> nat list list" where
  "re_split u r cs = split_matches 0 cs (re_finditer u r cs)"

section \<open>Building expressions\<close>

definition cps :: "string \<Rightarrow> nat list" where
  "cps s = utf8_decode s"

fun literal_cps :: "nat list \<Rightarrow> regex" where
  "literal_cps [] = Eps"
| "literal_cps [c] = Class (\<lambda>x. x = c)"
| "literal_cps (c # cs) = Seq (Class (\<lambda>x. x = c)) (literal_cps cs)"

definition literal :: "string \<Rightarrow> regex" where
  "literal s = literal_cps (cps s)"

text \<open>\<open>re.IGNORECASE\<close>, by case folding one code point.\<close>

fun literal_ci_cps :: "ucd \<Rightarrow> nat list \<Rightarrow> regex" where
  "literal_ci_cps u [] = Eps"
| "literal_ci_cps u (c # cs) = Seq (Class (\<lambda>x. uc_casefold u x = uc_casefold u c)) (literal_ci_cps u cs)"

definition literal_ci :: "ucd \<Rightarrow> string \<Rightarrow> regex" where
  "literal_ci u s = literal_ci_cps u (cps s)"

fun alts :: "regex list \<Rightarrow> regex" where
  "alts [] = Class (\<lambda>_. False)"
| "alts [r] = r"
| "alts (r # rs) = Alt r (alts rs)"

fun seqs :: "regex list \<Rightarrow> regex" where
  "seqs [] = Eps"
| "seqs [r] = r"
| "seqs (r # rs) = Seq r (seqs rs)"

definition one_of :: "string list \<Rightarrow> regex" where
  "one_of ws = alts (map literal ws)"

definition plus :: "regex \<Rightarrow> regex" where
  "plus r = Seq r (Star r)"

text \<open>\<open>r{m,n}\<close>.\<close>

fun times_upto :: "nat \<Rightarrow> regex \<Rightarrow> regex" where
  "times_upto 0 r = Eps"
| "times_upto (Suc n) r = Opt (Seq r (times_upto n r))"

fun times :: "nat \<Rightarrow> regex \<Rightarrow> regex" where
  "times 0 r = Eps"
| "times (Suc n) r = Seq r (times n r)"

definition between :: "nat \<Rightarrow> nat \<Rightarrow> regex \<Rightarrow> regex" where
  "between m n r = Seq (times m r) (times_upto (n - m) r)"

definition range_cp :: "nat \<Rightarrow> nat \<Rightarrow> regex" where
  "range_cp a b = Class (\<lambda>c. a \<le> c \<and> c \<le> b)"

definition digit_rx :: "ucd \<Rightarrow> regex" where
  "digit_rx u = Class (uc_isdecimal u)"

definition space_rx :: regex where
  "space_rx = Class is_space"

definition word_rx :: "ucd \<Rightarrow> regex" where
  "word_rx u = Class (word_char u)"

text \<open>\<open>\b(?:a|b|\<dots>)\b\<close>.\<close>

definition whole :: "regex \<Rightarrow> regex" where
  "whole r = seqs [Boundary, r, Boundary]"

section \<open>A match lies in its subject\<close>

text \<open>\<open>q\<close> is reached from \<open>p\<close> by consuming code points.\<close>

definition reached :: "point \<Rightarrow> point \<Rightarrow> bool" where
  "reached p q \<longleftrightarrow> pt_pos p \<le> pt_pos q \<and> pt_pos q - pt_pos p \<le> length (pt_rest p) \<and>
     pt_rest q = drop (pt_pos q - pt_pos p) (pt_rest p)"

lemma reached_refl [simp]: "reached p p"
  by (simp add: reached_def)

lemma reached_groups [simp]:
  "reached (p\<lparr>pt_groups := g\<rparr>) q = reached p q" "reached p (q\<lparr>pt_groups := g\<rparr>) = reached p q"
  by (simp_all add: reached_def)

lemma reached_trans: "reached p q \<Longrightarrow> reached q r \<Longrightarrow> reached p r"
  by (auto simp: reached_def add.commute)

lemma reached_advance: "reached p (advance p)"
  by (simp add: reached_def advance_def split: list.split)

lemma repeat_greedy_reached:
  "(\<And>x y. y \<in> set (f x) \<Longrightarrow> reached x y) \<Longrightarrow> q \<in> set (repeat_greedy f n p) \<Longrightarrow> reached p q"
proof (induction f n p arbitrary: q rule: repeat_greedy.induct)
  case (2 f n p)
  show ?case
  proof (cases "q = p")
    case False
    with "2.prems"(2) obtain x where x: "x \<in> set (f p)" "pt_pos x \<noteq> pt_pos p" "q \<in> set (repeat_greedy f n x)"
      by (auto split: if_splits)
    with "2.IH" [OF x(1,2) "2.prems"(1)] "2.prems"(1) show ?thesis by (meson reached_trans)
  qed simp
qed simp

lemma outcomes_reached: "q \<in> set (outcomes u r p) \<Longrightarrow> reached p q"
proof (induction r arbitrary: p q)
  case (Seq r1 r2)
  then obtain x where "x \<in> set (outcomes u r1 p)" "q \<in> set (outcomes u r2 x)" by auto
  with Seq.IH show ?case by (meson reached_trans)
next
  case (Star r)
  then show ?case using repeat_greedy_reached [of "outcomes u r"] by simp
qed (auto split: if_splits option.splits intro: reached_advance)

lemma match_at_text:
  assumes "match_at u r p = Some m"
  shows "rm_text m = take (rm_end m - rm_start m) (pt_rest p) \<and> rm_start m = pt_pos p \<and>
    pt_pos p \<le> rm_end m \<and> rm_end m - pt_pos p \<le> length (pt_rest p)"
proof -
  from assms obtain q where "q \<in> set (outcomes u r (p\<lparr>pt_groups := []\<rparr>))" and m: "m = match_of p q"
    by (auto simp: match_at_def split: list.splits)
  then have "reached p q" using outcomes_reached reached_groups(1) by blast
  with m show ?thesis by (simp add: match_of_def reached_def)
qed

end
