(* ===== verification/Catalog_Labels.thy ===== *)
theory Catalog_Labels
  imports Visits
begin

text \<open>
  Event types and services as customers name them: \<open>app/conversation/catalog_event_type.py\<close>,
  \<open>app/event/event_type.py\<close> and \<open>app/conversation/services_catalog.py\<close>. Positions in a text count code
  points of its normal form; the Unicode tables are the parameter \<open>ucd\<close>.
\<close>

section \<open>The labels of the event types\<close>

definition event_types :: "string list" where
  "event_types = [''WEDDING'', ''CIVIL_WEDDING'', ''PROPOSAL'', ''BIRTHDAY'', ''GRADUATION'', ''ANNIVERSARY'',
     ''ROMANTIC_DINNER'', ''CORPORATE_EVENT'', ''FAMILY_EVENT'', ''BAPTISM'', ''FIRST_COMMUNION'',
     ''BABY_SHOWER'', ''WORKSHOP'', ''POOL_DAY'', ''PRIVATE_DINNER'', ''GENDER_REVEAL'', ''OTHER'']"

definition fixed_price_event_types :: "string list" where
  "fixed_price_event_types = [''ROMANTIC_DINNER'', ''PROPOSAL'']"

definition catalog_event_type_labels :: "(string \<times> string list) list" where
  "catalog_event_type_labels = [
     (''WEDDING'', [''boda'', ''matrimonio'']),
     (''CIVIL_WEDDING'', [''boda civil'', ''matrimonio civil'', ''ceremonia civil'']),
     (''PROPOSAL'', [''propuesta'', ''propuesta de matrimonio'', ''pedida de mano'', ''pedida de noviazgo'', ''pedidas de noviazgo'', ''pedir noviazgo'', ''pedirle noviazgo'', ''propuesta de noviazgo'', ''noviazgo'', ''pedidas de mano'', ''quieres ser mi'', ''pedirle matrimonio'', ''pedir la mano'', ''pedirle la mano'', ''proponerle matrimonio'', ''anillo de compromiso'', ''fiesta de compromiso'', ''celebracion de compromiso'']),
     (''BIRTHDAY'', [''cumplea'' @ n_tilde @ ''os'']),
     (''GRADUATION'', [''graduaci'' @ o_acute @ ''n'', ''grado'']),
     (''ANNIVERSARY'', [''aniversario'']),
     (''ROMANTIC_DINNER'', [''cena rom'' @ a_acute @ ''ntica'', ''plan rom'' @ a_acute @ ''ntico'', ''planes rom'' @ a_acute @ ''nticos'', ''los planes rom'' @ a_acute @ ''nticos'']),
     (''CORPORATE_EVENT'', [''evento corporativo'', ''evento empresarial'']),
     (''FAMILY_EVENT'', [''evento familiar'', ''reuni'' @ o_acute @ ''n familiar'']),
     (''BAPTISM'', [''bautizo'', ''bautismo'']),
     (''FIRST_COMMUNION'', [''primera comuni'' @ o_acute @ ''n'']),
     (''BABY_SHOWER'', [''baby shower'']),
     (''WORKSHOP'', [''taller'']),
     (''POOL_DAY'', [''d'' @ i_acute @ ''a de piscina'', ''pasad'' @ i_acute @ ''a de piscina'']),
     (''PRIVATE_DINNER'', [''cena privada'']),
     (''GENDER_REVEAL'', [''revelaci'' @ o_acute @ ''n de g'' @ e_acute @ ''nero'', ''revelacion de genero'', ''gender reveal'']),
     (''OTHER'', [''otro'', ''otro tipo de evento''])]"

definition catalog_answer_only_labels :: "string list" where
  "catalog_answer_only_labels =
     [''noviazgo'', ''propuesta'', ''otro'', ''otro tipo de evento'', ''grado'', ''taller'']"

text \<open>The NFKD form of the case-folded text. Reordering of combining marks does not matter: they are dropped next.\<close>

definition without_accents :: "ucd \<Rightarrow> string \<Rightarrow> nat list" where
  "without_accents u s = filter (\<lambda>c. \<not> uc_combining u c) (concat (map (uc_nfkd u) (utf8_decode (casefold u s))))"

definition label_cps :: "ucd \<Rightarrow> string \<Rightarrow> nat list" where
  "label_cps u s = strip_cps (collapse (map (\<lambda>c. if uc_punct u c then 32 else c) (without_accents u s)))"

definition normalize_catalog_event_type_label :: "ucd \<Rightarrow> string \<Rightarrow> string" where
  "normalize_catalog_event_type_label u s = utf8_encode (label_cps u s)"

text \<open>A dictionary comprehension keeps the last value of a key.\<close>

definition event_type_by_label :: "ucd \<Rightarrow> (nat list \<times> string) list" where
  "event_type_by_label u =
     rev (concat (map (\<lambda>(event_type, labels). map (\<lambda>label. (label_cps u label, event_type)) labels)
       catalog_event_type_labels))"

definition resolve_catalog_event_type_label :: "ucd \<Rightarrow> string \<Rightarrow> string option" where
  "resolve_catalog_event_type_label u message_text =
     (let normalized = label_cps u message_text
      in if normalized = [] then None else map_of (event_type_by_label u) normalized)"

text \<open>\<open>re.sub("[-\s]+", "_", s)\<close>: every run of spaces and hyphens becomes one underscore.\<close>

fun dashed_words :: "bool \<Rightarrow> nat list \<Rightarrow> nat list" where
  "dashed_words in_run [] = []"
| "dashed_words in_run (c # cs) =
     (if is_space c \<or> c = 45
      then (if in_run then dashed_words True cs else 95 # dashed_words True cs)
      else c # dashed_words False cs)"

definition normalize_event_type :: "ucd \<Rightarrow> string option \<Rightarrow> string option" where
  "normalize_event_type u value =
     (case value of
        None \<Rightarrow> None
      | Some s \<Rightarrow>
          let normalized = utf8_encode (dashed_words False (utf8_decode (upper (strip s))))
          in if normalized \<in> set event_types then Some normalized
             else resolve_catalog_event_type_label u s)"

section \<open>Mentions inside a text\<close>

record mention =
  mn_event_type :: string
  mn_label :: string
  mn_start :: nat
  mn_end :: nat

text \<open>\<open>re.finditer("(?<!\w)label(?!\w)", text)\<close>: the matches from left to right, without overlap. \<open>skip\<close> counts the
  code points of a match that are still to be passed, \<open>prev\<close> says whether a word character comes before.\<close>

fun label_matches :: "ucd \<Rightarrow> nat list \<Rightarrow> nat \<Rightarrow> nat \<Rightarrow> bool \<Rightarrow> nat list \<Rightarrow> (nat \<times> nat) list" where
  "label_matches u lab pos skip prev [] = []"
| "label_matches u lab pos skip prev (c # cs) =
     (if 0 < skip then label_matches u lab (Suc pos) (skip - 1) (word_char u c) cs
      else if \<not> prev \<and> is_prefix lab (c # cs) \<and>
              (case drop (length lab) (c # cs) of [] \<Rightarrow> True | x # _ \<Rightarrow> \<not> word_char u x)
      then (pos, pos + length lab) # label_matches u lab (Suc pos) (length lab - 1) (word_char u c) cs
      else label_matches u lab (Suc pos) 0 (word_char u c) cs)"

definition all_mentions :: "ucd \<Rightarrow> string \<Rightarrow> bool \<Rightarrow> mention list" where
  "all_mentions u message_text answering =
     (let normalized = label_cps u message_text in
      concat (map (\<lambda>(event_type, labels).
        concat (map (\<lambda>label.
          map (\<lambda>(s, e). \<lparr>mn_event_type = event_type, mn_label = label, mn_start = s, mn_end = e\<rparr>)
            (label_matches u (label_cps u label) 0 0 False normalized))
          (filter (\<lambda>label. answering \<or> label \<notin> set catalog_answer_only_labels) labels)))
        catalog_event_type_labels))"

definition owned_by_longer :: "mention list \<Rightarrow> mention \<Rightarrow> bool" where
  "owned_by_longer matches m \<longleftrightarrow>
     list_ex (\<lambda>other. mn_start other \<le> mn_start m \<and> mn_end m \<le> mn_end other \<and>
       (mn_start other, mn_end other) \<noteq> (mn_start m, mn_end m)) matches"

definition catalog_event_type_mentions :: "ucd \<Rightarrow> string \<Rightarrow> bool \<Rightarrow> mention list" where
  "catalog_event_type_mentions u message_text answering =
     (let matches = all_mentions u message_text answering
      in filter (\<lambda>m. \<not> owned_by_longer matches m) matches)"

text \<open>\<open>max(matches, key=lambda m: (m.end - m.start, -m.start))\<close>: of equals the first.\<close>

definition mention_before :: "mention \<Rightarrow> mention \<Rightarrow> bool" where
  "mention_before a b \<longleftrightarrow>
     mn_end b - mn_start b < mn_end a - mn_start a \<or>
     (mn_end b - mn_start b = mn_end a - mn_start a \<and> mn_start a < mn_start b)"

definition resolve_catalog_event_type_match :: "ucd \<Rightarrow> string \<Rightarrow> bool \<Rightarrow> mention option" where
  "resolve_catalog_event_type_match u message_text answering =
     (let matches = catalog_event_type_mentions u message_text answering
      in if length (remdups (map mn_event_type matches)) \<noteq> 1 then None else first_by mention_before matches)"

definition resolve_catalog_event_type_mention :: "ucd \<Rightarrow> string \<Rightarrow> bool \<Rightarrow> string option" where
  "resolve_catalog_event_type_mention u message_text answering =
     map_option mn_event_type (resolve_catalog_event_type_match u message_text answering)"

definition resolve_fixed_price_information_match :: "ucd \<Rightarrow> string \<Rightarrow> mention option" where
  "resolve_fixed_price_information_match u message_text =
     (let matches = catalog_event_type_mentions u message_text False
      in if list_ex (\<lambda>m. mn_event_type m \<notin> {''PROPOSAL'', ''ROMANTIC_DINNER''}) matches then None
         else first_by mention_before (filter (\<lambda>m. mn_event_type m = ''PROPOSAL'') matches))"

definition resolve_fixed_price_information_type :: "ucd \<Rightarrow> string \<Rightarrow> string option" where
  "resolve_fixed_price_information_type u message_text =
     (if resolve_fixed_price_information_match u message_text \<noteq> None then Some ''PROPOSAL'' else None)"

section \<open>The service catalogue\<close>

text \<open>Code, presentation and aliases; the label and the description are only shown by the panel.\<close>

definition service_catalog :: "(string \<times> string option \<times> string list) list" where
  "service_catalog = [
     (''VENUE'', Some (''el espacio''), [''espacio'', ''lugar'', ''sede'', ''solo espacio'', ''solo el espacio'', ''alquiler'']),
     (''FURNITURE'', Some (''el mobiliario''), [''mobiliario'', ''mesas'', ''sillas'', ''muebles'']),
     (''ADDITIONAL_FURNITURE'', Some (''el mobiliario adicional''), [''mobiliario adicional'', ''muebles extra'', ''salas lounge'', ''mobiliario especial'']),
     (''TABLEWARE'', Some (''la vajilla''), [''vajilla'', ''platos'', ''cubiertos'']),
     (''GLASSWARE'', Some (''la cristaler'' @ i_acute @ ''a''), [''cristaleria'', ''copas'', ''vasos'']),
     (''FOOD'', Some (''la gastronom'' @ i_acute @ ''a''), [''gastronomia'', ''comida'', ''catering'', ''menu'', ''alimentacion'', ''banquete'']),
     (''BRUNCH'', Some (''el brunch''), [''brunch'', ''desayuno'']),
     (''DINNER'', Some (''la cena''), [''cena'', ''cena formal'']),
     (''SNACKS'', Some (''los pasabocas''), [''pasabocas'', ''pasapalos'', ''picada'', ''bocaditos'', ''aperitivos'']),
     (''NON_ALCOHOLIC_BEVERAGES'', Some (''las bebidas sin alcohol''), [''jugos'', ''gaseosas'', ''refrescos'', ''bebidas sin alcohol'']),
     (''COCKTAILS'', Some (''la cocteler'' @ i_acute @ ''a''), [''cocteleria'', ''cocteles'', ''bar'', ''barra de cocteles'']),
     (''ALCOHOL_SERVICE'', Some (''el servicio de licor''), [''licor'', ''alcohol'', ''servicio de licor'', ''trago'']),
     (''CAKE'', Some (''la torta''), [''torta'', ''pastel'', ''ponque'']),
     (''DESSERT_TABLE'', Some (''la mesa de postres''), [''postres'', ''mesa de postres'', ''mesa dulce'', ''dulces'']),
     (''SHOT_CART'', Some (''el carrito de shots''), [''carrito de shots'', ''shots'']),
     (''WAITSTAFF'', Some (''la atenci'' @ o_acute @ ''n de meseros''), [''meseros'', ''meseras'', ''atencion'', ''servicio de meseros'']),
     (''SECURITY'', Some (''el servicio de seguridad''), [''seguridad'', ''vigilancia'']),
     (''CHILDREN_ENTERTAINMENT'', Some (''el entretenimiento infantil''), [''recreacion'', ''recreacionistas'', ''entretenimiento infantil'', ''ninos'', ''payasos'', ''inflables'']),
     (''DECORATION'', Some (''la decoraci'' @ o_acute @ ''n''), [''decoracion'', ''decorado'', ''ambientacion'', ''adornos'']),
     (''FLORAL_DESIGN'', Some (''la florister'' @ i_acute @ ''a''), [''floristeria'', ''flores'', ''arreglos florales'', ''ramos'']),
     (''LIGHTING'', Some (''la iluminaci'' @ o_acute @ ''n especial''), [''iluminacion'', ''luces'']),
     (''GIANT_LETTERS'', Some (''las letras gigantes''), [''letras gigantes'', ''letras luminosas'', ''letras'']),
     (''WELCOME_MIRROR'', Some (''el espejo de bienvenida''), [''espejo'', ''espejo de bienvenida'']),
     (''DJ'', Some (''el DJ''), [''dj'', ''discjockey'', ''musica cruzada'']),
     (''LIVE_MUSIC'', Some (''la m'' @ u_acute @ ''sica en vivo''), [''musica en vivo'', ''banda'', ''grupo musical'', ''mariachi'', ''trio'', ''parranda'']),
     (''VIOLINIST'', Some (''el violinista''), [''violinista'', ''violin'']),
     (''SAXOPHONIST'', Some (''el saxofonista''), [''saxofonista'', ''saxo'', ''saxofon'']),
     (''SOUND'', Some (''el sonido''), [''sonido'', ''equipo de sonido'', ''parlantes'', ''amplificacion'']),
     (''MICROPHONE'', Some (''el micr'' @ o_acute @ ''fono''), [''microfono'', ''microfonos'']),
     (''SCREEN'', Some (''la pantalla''), [''pantalla'', ''pantallas'', ''proyector'', ''video beam'']),
     (''PHOTOGRAPHY'', Some (''la fotograf'' @ i_acute @ ''a''), [''fotografia'', ''fotografo'', ''fotos'']),
     (''VIDEO'', Some (''el video''), [''video'', ''filmacion'', ''videografo'']),
     (''MAKEUP'', Some (''el maquillaje''), [''maquillaje'', ''makeup'']),
     (''HAIR_STYLING'', Some (''el peinado''), [''peinado'', ''peluqueria'']),
     (''POOL'', Some (''la piscina''), [''piscina'']),
     (''ACCOMMODATION'', Some (''el alojamiento''), [''alojamiento'', ''hospedaje'', ''habitacion'', ''suite'']),
     (''OTHER'', None, [])]"

definition service_entry :: "string \<Rightarrow> (string option \<times> string list) option" where
  "service_entry code = map_of service_catalog code"

definition negations :: "string list" where
  "negations = [''no'', ''sin'', ''excepto'', ''menos'']"

definition service_catalog_codes :: "string list" where
  "service_catalog_codes = map fst service_catalog"

definition service_aliases :: "string \<Rightarrow> string list" where
  "service_aliases service_code = (case service_entry service_code of None \<Rightarrow> [] | Some e \<Rightarrow> snd e)"

text \<open>\<open>re.findall("[a-z0-9]+", s)\<close>.\<close>

definition token_char :: "nat \<Rightarrow> bool" where
  "token_char c \<longleftrightarrow> (97 \<le> c \<and> c \<le> 122) \<or> (48 \<le> c \<and> c \<le> 57)"

fun tokens_from :: "nat list \<Rightarrow> nat list \<Rightarrow> nat list list" where
  "tokens_from w [] = (if w = [] then [] else [rev w])"
| "tokens_from w (c # cs) =
     (if token_char c then tokens_from (c # w) cs
      else if w = [] then tokens_from [] cs else rev w # tokens_from [] cs)"

definition normalized_tokens :: "ucd \<Rightarrow> string \<Rightarrow> string list" where
  "normalized_tokens u value = map utf8_encode (tokens_from [] (without_accents u value))"

definition matching_starts :: "string list \<Rightarrow> string list \<Rightarrow> nat list" where
  "matching_starts tokens alias_tokens =
     filter (\<lambda>start. take (length alias_tokens) (drop start tokens) = alias_tokens)
       [0..<Suc (length tokens) - length alias_tokens]"

definition is_negated :: "string list \<Rightarrow> nat \<Rightarrow> nat \<Rightarrow> bool" where
  "is_negated tokens start stop \<longleftrightarrow>
     (0 < start \<and> tokens ! (start - 1) \<in> set negations) \<or>
     (stop < length tokens \<and> tokens ! stop \<in> set negations)"

text \<open>A candidate is the span of an alias and its service, in the order of the catalogue.\<close>

definition service_candidates :: "string list \<Rightarrow> (nat \<times> nat \<times> string) list" where
  "service_candidates tokens =
     concat (map (\<lambda>(code, presentation, aliases).
       concat (map (\<lambda>al.
         let alias_tokens = split_on (CHR '' '') al in
         map (\<lambda>start. (start, start + length alias_tokens, code)) (matching_starts tokens alias_tokens)) aliases))
       service_catalog)"

text \<open>The longest first, then the leftmost.\<close>

definition candidate_before :: "nat \<times> nat \<times> string \<Rightarrow> nat \<times> nat \<times> string \<Rightarrow> bool" where
  "candidate_before a b \<longleftrightarrow>
     (case (a, b) of ((s, e, _), (s', e', _)) \<Rightarrow> e' - s' < e - s \<or> (e - s = e' - s' \<and> s < s'))"

fun select_spans :: "nat list \<Rightarrow> (nat \<times> nat \<times> string) list \<Rightarrow> (nat \<times> string) list" where
  "select_spans occupied [] = []"
| "select_spans occupied ((s, e, code) # rest) =
     (if list_ex (\<lambda>i. i \<in> set occupied) [s..<e] then select_spans occupied rest
      else (s, code) # select_spans ([s..<e] @ occupied) rest)"

text \<open>\<open>sorted(selected)\<close> orders by start; starts do not repeat.\<close>

definition start_before :: "nat \<times> string \<Rightarrow> nat \<times> string \<Rightarrow> bool" where
  "start_before a b \<longleftrightarrow> fst a < fst b \<or> (fst a = fst b \<and> str_less (snd a) (snd b))"

definition first_occurrences :: "string list \<Rightarrow> string list" where
  "first_occurrences xs = rev (remdups (rev xs))"

definition match_requested_services :: "ucd \<Rightarrow> string \<Rightarrow> string list option" where
  "match_requested_services u message_text =
     (let tokens = normalized_tokens u message_text; candidates = service_candidates tokens
      in if tokens = [] then None
         else if list_ex (\<lambda>(s, e, _). is_negated tokens s e) candidates then None
         else let selected = select_spans [] (order_by candidate_before candidates)
              in if selected = [] then None
                 else Some (first_occurrences (map snd (order_by start_before selected))))"

section \<open>How requested services are named back\<close>

definition join_cps :: "string \<Rightarrow> string" where
  "join_cps s = utf8_encode (strip_cps (collapse (utf8_decode s)))"

definition legacy_service_presentation :: "ucd \<Rightarrow> string \<Rightarrow> (app_error, string) result" where
  "legacy_service_presentation u value =
     (let n = join_cps (casefold u value);
          normalized = (if is_prefix ''solo '' n then strip (drop 5 n)
                        else if is_prefix ''solamente '' n then strip (drop 10 n) else n)
      in if normalized = [] then Inl (ValueError ''Empty legacy requested service'') else Inr normalized)"

fun service_presentations :: "ucd \<Rightarrow> string list \<Rightarrow> (app_error, string list) result" where
  "service_presentations u [] = Inr []"
| "service_presentations u (raw # rest) =
     (let value = strip raw in
      case service_entry (upper value) of
        Some (Some p, _) \<Rightarrow> ebind (service_presentations u rest) (\<lambda>ps. Inr (p # ps))
      | Some (None, _) \<Rightarrow> service_presentations u rest
      | None \<Rightarrow> ebind (legacy_service_presentation u value) (\<lambda>p.
                 ebind (service_presentations u rest) (\<lambda>ps. Inr (p # ps))))"

definition enumerate_y :: "string list \<Rightarrow> string" where
  "enumerate_y ps = (if length ps = 1 then hd ps else join '', '' (butlast ps) @ '' y '' @ last ps)"

definition compose_requested_services_summary :: "ucd \<Rightarrow> string list \<Rightarrow> (app_error, string) result" where
  "compose_requested_services_summary u service_values =
     ebind (service_presentations u service_values) (\<lambda>ps.
       if ps = [] then Inl (ValueError ''No renderable requested services'') else Inr (enumerate_y ps))"

section \<open>What a match says\<close>

lemma service_codes_distinct: "distinct (map fst service_catalog)"
  by code_simp

lemma service_entry_mem: "(code, e) \<in> set service_catalog \<Longrightarrow> service_entry code = Some e"
  by (simp add: service_entry_def service_codes_distinct)

text \<open>The alias \<open>al\<close> of a service stands in the tokens at \<open>s\<close>, up to \<open>e\<close>.\<close>

definition named_at :: "string list \<Rightarrow> string \<Rightarrow> nat \<Rightarrow> nat \<Rightarrow> bool" where
  "named_at tokens code s e \<longleftrightarrow>
     (\<exists>al \<in> set (service_aliases code). e = s + length (split_on (CHR '' '') al) \<and>
        take (e - s) (drop s tokens) = split_on (CHR '' '') al)"

lemma candidates_named: "(s, e, code) \<in> set (service_candidates tokens) \<Longrightarrow> named_at tokens code s e"
  by (force simp: service_candidates_def matching_starts_def named_at_def service_aliases_def Let_def
      dest: service_entry_mem)

lemma mem_concat_mapI: "x \<in> set xs \<Longrightarrow> y \<in> set (f x) \<Longrightarrow> y \<in> set (concat (map f xs))"
  by auto

lemma named_candidates:
  assumes "named_at tokens code s e"
  shows "(s, e, code) \<in> set (service_candidates tokens)"
proof -
  obtain al where al: "al \<in> set (service_aliases code)"
    and e: "e = s + length (split_on (CHR '' '') al)"
    and t: "take (e - s) (drop s tokens) = split_on (CHR '' '') al"
    using assms by (auto simp: named_at_def)
  from al obtain p als where entry: "service_entry code = Some (p, als)" and als: "al \<in> set als"
    by (cases "service_entry code") (auto simp: service_aliases_def)
  have "s < Suc (length tokens) - length (split_on (CHR '' '') al)"
  proof -
    have "split_on (CHR '' '') al \<noteq> []" by (cases al) (auto split: list.split)
    moreover have "length (split_on (CHR '' '') al) \<le> length tokens - s"
      using arg_cong [OF t, of length] e by simp
    ultimately show ?thesis by (cases "split_on (CHR '' '') al") auto
  qed
  then have start: "s \<in> set (matching_starts tokens (split_on (CHR '' '') al))"
    using e t by (simp add: matching_starts_def)
  have "(code, p, als) \<in> set service_catalog"
    using entry map_of_SomeD by (fastforce simp: service_entry_def)
  then show ?thesis
    unfolding service_candidates_def e
    by (rule mem_concat_mapI) (use als start in \<open>force simp: Let_def\<close>)
qed

lemma select_spans_from: "(s, code) \<in> set (select_spans occ cs) \<Longrightarrow> \<exists>e. (s, e, code) \<in> set cs"
  by (induction occ cs rule: select_spans.induct) (auto split: if_splits)

lemma select_spans_Nil_iff: "select_spans [] cs = [] \<longleftrightarrow> cs = []"
  by (cases cs) (auto simp: list_ex_iff)

lemma first_occurrences_facts [simp]:
  "set (first_occurrences xs) = set xs" "distinct (first_occurrences xs)" "first_occurrences xs = [] \<longleftrightarrow> xs = []"
  by (auto simp: first_occurrences_def)

lemma no_tokens_no_candidates: "service_candidates [] = []"
  by code_simp

lemma match_requested_services_eq:
  "match_requested_services u message_text =
     (let cs = service_candidates (normalized_tokens u message_text) in
      if cs = [] \<or> list_ex (\<lambda>(s, e, _). is_negated (normalized_tokens u message_text) s e) cs then None
      else Some (first_occurrences (map snd (order_by start_before (select_spans [] (order_by candidate_before cs))))))"
proof -
  have "order_by candidate_before cs = [] \<longleftrightarrow> cs = []" for cs
    by (metis set_empty set_order_by)
  then show ?thesis
    by (auto simp: match_requested_services_def Let_def no_tokens_no_candidates select_spans_Nil_iff)
qed



end
