(* ===== verification/Templates.thy ===== *)
theory Templates
  imports Regex Catalog_Labels Delivery
begin

text \<open>
  The approved answer templates: \<open>app/conversation/knowledge.py\<close>, the presentation of their variables in
  \<open>app/conversation/presentation.py\<close>, \<open>app/payment/customer_reason.py\<close>, and \<open>enqueue_template\<close> of
  \<open>app/orchestrator/service.py\<close>, by which every automatic text reaches the outbox.

  A template is parsed as \<open>str.format\<close> parses it. A field with a conversion or a format specification is
  rendered by the standard library's \<open>format\<close>, the parameter \<open>te_format\<close>.
\<close>

section \<open>The values of template variables\<close>

datatype tval =
    TNone
  | TBool bool
  | TInt int
  | TText string
  | TDate date
  | TPlan plan
  | TPlans "plan list"
  | TSettings settings
  | TReason string
  | TTexts "string list"

record text_env =
  te_ucd :: ucd
  te_format :: "(string \<times> string) list \<Rightarrow> string \<Rightarrow> char option \<Rightarrow> string \<Rightarrow> string option"

definition sanitize_customer_reason :: "ucd \<Rightarrow> string option \<Rightarrow> (app_error, string) result" where
  "sanitize_customer_reason u value =
     (case value of
        None \<Rightarrow> Inl (ValueError ''Escribe el motivo'')
      | Some s \<Rightarrow>
          if blank s then Inl (ValueError ''Escribe el motivo'')
          else if re_search u (Alt (literal_ci u ''http'') (literal_ci u ''www'')) (cps s) \<noteq> None
          then Inl (ValueError ''No incluyas enlaces en el motivo'')
          else Inr (rstrip (cp_take 200 (join_cps s))))"

section \<open>Presenters\<close>

text \<open>Each presenter gives the text of a value, or \<open>None\<close> for its TypeError or ValueError.\<close>

definition normalized_text :: "tval \<Rightarrow> string option" where
  "normalized_text v = (case v of TText s \<Rightarrow> if join_cps s = [] then None else Some (join_cps s) | _ \<Rightarrow> None)"

definition normalized_lower_text :: "ucd \<Rightarrow> tval \<Rightarrow> string option" where
  "normalized_lower_text u v = map_option (casefold u) (normalized_text v)"

definition present_cop_value :: "tval \<Rightarrow> string option" where
  "present_cop_value v = (case v of TInt n \<Rightarrow> (case present_cop n of Inr s \<Rightarrow> Some s | Inl _ \<Rightarrow> None) | _ \<Rightarrow> None)"

definition present_customer_reason :: "tval \<Rightarrow> string option" where
  "present_customer_reason v = (case v of TReason s \<Rightarrow> Some s | _ \<Rightarrow> None)"

definition present_plan_name :: "tval \<Rightarrow> string option" where
  "present_plan_name v = (case v of TPlan p \<Rightarrow> normalized_text (TText (pl_name p)) | _ \<Rightarrow> None)"

definition plan_before :: "plan \<Rightarrow> plan \<Rightarrow> bool" where
  "plan_before a b \<longleftrightarrow> pl_sort_order a < pl_sort_order b \<or>
     (pl_sort_order a = pl_sort_order b \<and> str_less (pl_code a) (pl_code b))"

fun numbered :: "nat \<Rightarrow> plan list \<Rightarrow> string list option" where
  "numbered i [] = Some []"
| "numbered i (p # ps) =
     (case (present_plan_name (TPlan p), numbered (Suc i) ps) of
        (Some name, Some rest) \<Rightarrow> Some ((show_nat i @ ''. '' @ name) # rest)
      | _ \<Rightarrow> None)"

definition present_plan_options :: "tval \<Rightarrow> string option" where
  "present_plan_options v =
     (case v of
        TPlans ps \<Rightarrow> if ps = [] \<or> list_ex (\<lambda>p. \<not> pl_active p) ps then None
                     else map_option (join [CHR 0x0A]) (numbered 1 (order_by plan_before ps))
      | _ \<Rightarrow> None)"

definition present_bank :: "(settings \<Rightarrow> string) \<Rightarrow> tval \<Rightarrow> string option" where
  "present_bank field v = (case v of TSettings st \<Rightarrow> normalized_text (TText (field st)) | _ \<Rightarrow> None)"

definition present_count :: "ucd \<Rightarrow> tval \<Rightarrow> string option" where
  "present_count u v =
     (case v of
        TInt n \<Rightarrow> if n < 0 then None else Some (show_int n)
      | TText s \<Rightarrow> (case normalized_text v of
            Some t \<Rightarrow> if list_all (uc_isdecimal u) (cps t) then Some t else None | None \<Rightarrow> None)
      | _ \<Rightarrow> None)"

definition month_rx :: regex where
  "month_rx = one_of (map snd month_names)"

definition natural_date_rx :: "ucd \<Rightarrow> regex" where
  "natural_date_rx u = seqs
     [Group 1 (alts [range_cp 49 57, Seq (range_cp 49 50) (digit_rx u), Seq (literal ''3'') (range_cp 48 49)]),
      literal '' de '', Group 2 month_rx, literal '' de '',
      Group 3 (Seq (range_cp 49 57) (times_upto 3 (digit_rx u)))]"

definition natural_month_rx :: "ucd \<Rightarrow> regex" where
  "natural_month_rx u = seqs [month_rx, literal '' de '', range_cp 49 57, times_upto 3 (digit_rx u)]"

definition event_month_rx :: "ucd \<Rightarrow> regex" where
  "event_month_rx u = seqs [range_cp 49 57, times 3 (digit_rx u), literal ''-'',
     Alt (Seq (literal ''0'') (range_cp 49 57)) (Seq (literal ''1'') (range_cp 48 50))]"

definition time_rx :: "ucd \<Rightarrow> regex" where
  "time_rx u = seqs [Alt (Seq (range_cp 48 49) (digit_rx u)) (Seq (literal ''2'') (range_cp 48 51)),
     literal '':'', range_cp 48 53, digit_rx u]"

definition appointment_options_rx :: "ucd \<Rightarrow> regex" where
  "appointment_options_rx u = Alt (time_rx u)
     (seqs [time_rx u, Star (Seq (literal '', '') (time_rx u)), literal '' y '', time_rx u])"

definition count_rx :: "ucd \<Rightarrow> regex" where
  "count_rx u = Alt (literal ''0'') (Seq (range_cp 49 57) (Star (digit_rx u)))"

definition guest_count_range_rx :: "ucd \<Rightarrow> regex" where
  "guest_count_range_rx u = seqs [literal ''entre '', count_rx u, literal '' y '', count_rx u]"

definition month_number :: "string \<Rightarrow> int option" where
  "month_number name = map_of (map (\<lambda>(n, s). (s, n)) month_names) name"

definition group_int :: "ucd \<Rightarrow> nat \<Rightarrow> re_match \<Rightarrow> int" where
  "group_int u k m = (case group k m of None \<Rightarrow> 0 | Some ds \<Rightarrow> int_of_digits u ds)"

definition group_text :: "nat \<Rightarrow> re_match \<Rightarrow> string" where
  "group_text k m = (case group k m of None \<Rightarrow> [] | Some cs \<Rightarrow> utf8_encode cs)"

definition present_date :: "ucd \<Rightarrow> tval \<Rightarrow> string option" where
  "present_date u v =
     (case v of
        TDate d \<Rightarrow> Some (format_date_natural d)
      | TText s \<Rightarrow>
          (case re_fullmatch u (natural_date_rx u) (cps s) of
             None \<Rightarrow> None
           | Some m \<Rightarrow>
               (case month_number (group_text 2 m) of
                  None \<Rightarrow> None
                | Some month \<Rightarrow>
                    (case make_date (group_int u 3 m) month (group_int u 1 m) of
                       None \<Rightarrow> None
                     | Some parsed \<Rightarrow> if format_date_natural parsed = s then Some s else None)))
      | _ \<Rightarrow> None)"

definition format_month_natural :: "ucd \<Rightarrow> string \<Rightarrow> string" where
  "format_month_natural u value =
     (let cs = cps value; year = takeWhile (\<lambda>c. c \<noteq> 45) cs; month = drop (Suc (length year)) cs
      in month_name (int_of_digits u month) @ '' de '' @ utf8_encode year)"

definition present_month :: "ucd \<Rightarrow> tval \<Rightarrow> string option" where
  "present_month u v =
     (case v of
        TText s \<Rightarrow>
          if re_fullmatch u (event_month_rx u) (cps s) \<noteq> None then Some (format_month_natural u s)
          else if re_fullmatch u (natural_month_rx u) (cps s) = None then None else Some s
      | _ \<Rightarrow> None)"

definition present_shape :: "ucd \<Rightarrow> regex \<Rightarrow> tval \<Rightarrow> string option" where
  "present_shape u r v = (case v of TText s \<Rightarrow> if re_fullmatch u r (cps s) = None then None else Some s | _ \<Rightarrow> None)"

text \<open>The presenter of services accepts one text or a list of texts; no caller passes another list.\<close>

definition present_requested_services_summary :: "ucd \<Rightarrow> tval \<Rightarrow> string option" where
  "present_requested_services_summary u v =
     (case v of
        TText s \<Rightarrow> (case compose_requested_services_summary u [s] of Inr t \<Rightarrow> Some t | Inl _ \<Rightarrow> None)
      | TTexts ss \<Rightarrow> (case compose_requested_services_summary u ss of Inr t \<Rightarrow> Some t | Inl _ \<Rightarrow> None)
      | _ \<Rightarrow> None)"

definition missing_field_labels :: "(string \<times> string) list" where
  "missing_field_labels = [(''event_type'', ''el tipo de evento''), (''guest_count'', ''la cantidad de invitados''),
     (''event_date'', ''la fecha del evento''), (''requested_services'', ''los servicios que deseas incluir''),
     (''quote_confirmation'', ''la confirmaci'' @ o_acute @ ''n de la solicitud'')]"

definition pending_topic_labels :: "(string \<times> string) list" where
  "pending_topic_labels = [(''requested_services'', ''los servicios''), (''COLLECT_SERVICES'', ''los servicios'')]"

definition present_closed_label :: "(string \<times> string) list \<Rightarrow> tval \<Rightarrow> string option" where
  "present_closed_label labels v =
     (case normalized_text v of
        None \<Rightarrow> None
      | Some t \<Rightarrow> (case map_of labels t of
                     Some l \<Rightarrow> Some l
                   | None \<Rightarrow> if t \<in> set (map snd labels) then Some t else None))"

definition format_event_type :: "string option \<Rightarrow> (app_error, string) result" where
  "format_event_type event_type =
     (case event_type of
        None \<Rightarrow> Inr (''tu celebraci'' @ o_acute @ ''n'')
      | Some t \<Rightarrow> (case map_of event_type_labels t of
                     Some l \<Rightarrow> if t \<in> set event_types then Inr l else Inl (ValueError ''Missing presentation label'')
                   | None \<Rightarrow> Inl (ValueError ''Missing presentation label'')))"

definition label_of :: "string \<Rightarrow> string list" where
  "label_of event_type = (case map_of event_type_labels event_type of None \<Rightarrow> [] | Some l \<Rightarrow> [l])"

definition event_type_by_value :: "ucd \<Rightarrow> (nat list \<times> string) list" where
  "event_type_by_value u =
     rev (concat (map (\<lambda>t. map (\<lambda>candidate. (label_cps u candidate, t))
       (t # (case map_of catalog_event_type_labels t of None \<Rightarrow> [] | Some ls \<Rightarrow> ls) @ label_of t)) event_types))"

text \<open>\<open>str(value)\<close> of a value that is not text never is the name of an event type.\<close>

definition present_event_type :: "ucd \<Rightarrow> tval \<Rightarrow> string option" where
  "present_event_type u v =
     (let known = (case v of TText s \<Rightarrow> map_of (event_type_by_value u) (label_cps u s) | _ \<Rightarrow> None)
      in case format_event_type known of Inr t \<Rightarrow> Some t | Inl _ \<Rightarrow> None)"

definition variable_presenters :: "ucd \<Rightarrow> (string \<times> (tval \<Rightarrow> string option)) list" where
  "variable_presenters u =
     [(''date'', present_date u), (''time'', present_shape u (time_rx u)), (''plan_options'', present_plan_options),
      (''plan_name'', present_plan_name), (''booking_date'', present_date u), (''booking_time'', present_shape u (time_rx u)),
      (''total_amount'', present_cop_value), (''received_amount'', present_cop_value), (''paid_amount'', present_cop_value),
      (''deposit_amount'', present_cop_value), (''missing_amount'', present_cop_value), (''balance_due_date'', present_date u),
      (''bank_name'', present_bank st_booking_bank_name), (''account_type'', present_bank st_booking_account_type),
      (''account_number'', present_bank st_booking_account_number), (''account_holder'', present_bank st_booking_account_holder),
      (''breb_key'', present_bank st_bank_breb_key), (''adult_guest_count'', present_count u), (''advisor_name'', normalized_text),
      (''appointment_options'', present_shape u (appointment_options_rx u)), (''approved_price'', normalized_text),
      (''child_guest_count'', present_count u), (''customer_name'', normalized_text), (''email'', normalized_text),
      (''event_date'', present_date u), (''event_month'', present_month u), (''event_type'', present_event_type u),
      (''guest_count'', present_count u), (''guest_count_range'', present_shape u (guest_count_range_rx u)),
      (''map_url'', normalized_text), (''missing_field'', present_closed_label missing_field_labels),
      (''new_visit_date'', present_date u), (''new_visit_time'', present_shape u (time_rx u)), (''package_name'', normalized_text),
      (''pending_topic'', present_closed_label pending_topic_labels),
      (''rejection_reason_customer_safe'', present_customer_reason),
      (''requested_services_summary'', present_requested_services_summary u), (''resolved_date'', present_date u),
      (''service_name'', normalized_lower_text u), (''total_guest_count'', present_count u),
      (''visit_attendee_count'', present_count u), (''visit_date'', present_date u), (''visit_time'', present_shape u (time_rx u))]"

fun present_variables :: "ucd \<Rightarrow> (string \<times> tval) list \<Rightarrow> (string \<times> string) list option" where
  "present_variables u [] = Some []"
| "present_variables u ((k, v) # rest) =
     (case Option.bind (map_of (variable_presenters u) k) (\<lambda>present. present v) of
        None \<Rightarrow> None
      | Some s \<Rightarrow> map_option (\<lambda>ps. (k, s) # ps) (present_variables u rest))"

text \<open>\<open>visit_reason_summary\<close>: the words "yes", "it is", "for", "a" before a known event type are not part of it.\<close>

definition visit_reason_prefix_rx :: regex where
  "visit_reason_prefix_rx = seqs
     [Start, Opt (seqs [literal ''si'', Boundary, Star (Class (\<lambda>c. c = 44 \<or> is_space c))]),
      Opt (Seq (literal ''es'') (plus space_rx)), Opt (Seq (literal ''para'') (plus space_rx)),
      Opt (Seq (Alt (literal ''un'') (literal ''una'')) (plus space_rx))]"

definition visit_reason_summary :: "ucd \<Rightarrow> string \<Rightarrow> (app_error, string) result" where
  "visit_reason_summary u visit_reason =
     (let normalized = label_cps u visit_reason;
          label = (case re_match_start u visit_reason_prefix_rx normalized of
                     None \<Rightarrow> normalized | Some m \<Rightarrow> drop (rm_end m) normalized)
      in case find (\<lambda>(t, als). label \<in> set (map (label_cps u) als)) catalog_event_type_labels of
           Some (t, _) \<Rightarrow> format_event_type (Some t)
         | None \<Rightarrow> Inr visit_reason)"

section \<open>Templates\<close>

text \<open>A parsed template: characters, and fields with a name, a conversion and a specification.\<close>

datatype segment = Chr char | Field string "char option" string

text \<open>The name runs to the first colon, exclamation mark or closing brace outside square brackets.\<close>

fun field_name :: "bool \<Rightarrow> string \<Rightarrow> string \<Rightarrow> (string \<times> char \<times> string) option" where
  "field_name inside name [] = None"
| "field_name inside name (c # cs) =
     (if inside then field_name (c \<noteq> CHR '']'') (name @ [c]) cs
      else if c = CHR ''{'' then None
      else if c = CHR ''['' then field_name True (name @ [c]) cs
      else if c = CHR ''}'' \<or> c = CHR '':'' \<or> c = CHR ''!'' then Some (name, c, cs)
      else field_name False (name @ [c]) cs)"

fun format_spec :: "nat \<Rightarrow> string \<Rightarrow> string \<Rightarrow> (string \<times> string) option" where
  "format_spec depth spec [] = None"
| "format_spec depth spec (c # cs) =
     (if c = CHR ''}'' \<and> depth = 0 then Some (spec, cs)
      else format_spec (if c = CHR ''{'' then Suc depth else if c = CHR ''}'' then depth - 1 else depth) (spec @ [c]) cs)"

definition parse_field :: "string \<Rightarrow> (segment \<times> string) option" where
  "parse_field cs =
     (case field_name False [] cs of
        None \<Rightarrow> None
      | Some (name, c, rest) \<Rightarrow>
          if c = CHR ''}'' then Some (Field name None [], rest)
          else if c = CHR '':'' then map_option (\<lambda>(spec, r). (Field name None spec, r)) (format_spec 0 [] rest)
          else (case rest of
                  conv # c2 # rest2 \<Rightarrow>
                    if c2 = CHR ''}'' then Some (Field name (Some conv) [], rest2)
                    else if c2 = CHR '':'' then map_option (\<lambda>(spec, r). (Field name (Some conv) spec, r)) (format_spec 0 [] rest2)
                    else None
                | _ \<Rightarrow> None))"

lemma field_name_shorter: "field_name i n cs = Some (m, c, rest) \<Longrightarrow> length rest < length cs"
  by (induction i n cs rule: field_name.induct) (auto split: if_splits)

lemma format_spec_shorter: "format_spec k s cs = Some (m, rest) \<Longrightarrow> length rest < length cs"
  by (induction k s cs rule: format_spec.induct) (auto split: if_splits)

lemma parse_field_shorter: "parse_field cs = Some (f, rest) \<Longrightarrow> length rest < length cs"
  by (auto simp: parse_field_def split: option.splits if_splits list.splits
      dest!: field_name_shorter format_spec_shorter)

function parse_template :: "string \<Rightarrow> segment list option" where
  "parse_template [] = Some []"
| "parse_template (c # cs) =
     (if c = CHR ''{'' then
        (case cs of
           [] \<Rightarrow> None
         | c2 # cs2 \<Rightarrow>
             if c2 = CHR ''{'' then map_option (\<lambda>s. Chr c2 # s) (parse_template cs2)
             else (case parse_field cs of
                     None \<Rightarrow> None
                   | Some (f, rest) \<Rightarrow> map_option (\<lambda>s. f # s) (parse_template rest)))
      else if c = CHR ''}'' then
        (case cs of
           [] \<Rightarrow> None
         | c2 # cs2 \<Rightarrow> if c2 = CHR ''}'' then map_option (\<lambda>s. Chr c2 # s) (parse_template cs2) else None)
      else map_option (\<lambda>s. Chr c # s) (parse_template cs))"
  by pat_completeness auto
termination by (relation "measure length") (auto dest: parse_field_shorter)

definition field_names :: "segment list \<Rightarrow> string list" where
  "field_names segs = concat (map (\<lambda>s. case s of Chr _ \<Rightarrow> [] | Field n _ _ \<Rightarrow> if n = [] then [] else [n]) segs)"

definition variables_in_template :: "string \<Rightarrow> (app_error, string list) result" where
  "variables_in_template t =
     (case parse_template t of None \<Rightarrow> Inl (ValueError ''format string'') | Some segs \<Rightarrow> Inr (remdups (field_names segs)))"

text \<open>\<open>template.format(**vars)\<close>; a field without a name is a positional one, and there are none.\<close>

fun format_segments :: "text_env \<Rightarrow> (string \<times> string) list \<Rightarrow> segment list \<Rightarrow> (app_error, string) result" where
  "format_segments te vars [] = Inr []"
| "format_segments te vars (Chr c # segs) = ebind (format_segments te vars segs) (\<lambda>s. Inr (c # s))"
| "format_segments te vars (Field n conv spec # segs) =
     ebind (if n = [] then Inl (OtherError ''IndexError'')
            else if conv = None \<and> spec = [] then
              (case map_of vars n of None \<Rightarrow> Inl (OtherError ''KeyError'') | Some s \<Rightarrow> Inr s)
            else (case te_format te vars n conv spec of None \<Rightarrow> Inl (ValueError ''format'') | Some s \<Rightarrow> Inr s)) (\<lambda>v.
     ebind (format_segments te vars segs) (\<lambda>s. Inr (v @ s)))"

section \<open>Rendering an approved answer\<close>

definition later_version :: "knowledge_entry \<Rightarrow> knowledge_entry \<Rightarrow> bool" where
  "later_version a b \<longleftrightarrow> ke_version b < ke_version a"

definition get_latest_response :: "string \<Rightarrow> db \<Rightarrow> knowledge_entry option" where
  "get_latest_response code d = first_by later_version (filter (\<lambda>e. ke_code e = code) (db_knowledge d))"

definition get_approved_response :: "string \<Rightarrow> db \<Rightarrow> knowledge_entry option" where
  "get_approved_response code d =
     first_by later_version (filter (\<lambda>e. ke_code e = code \<and> ke_status e = ''APPROVED'') (db_knowledge d))"

definition missing_value :: "(string \<times> tval) list \<Rightarrow> string \<Rightarrow> bool" where
  "missing_value vars k = (case map_of vars k of None \<Rightarrow> True | Some TNone \<Rightarrow> True | Some (TText s) \<Rightarrow> blank s | _ \<Rightarrow> False)"

definition render_response :: "text_env \<Rightarrow> string \<Rightarrow> (string \<times> tval) list \<Rightarrow> db \<Rightarrow> (app_error, string) result" where
  "render_response te code vars d =
     (case get_latest_response code d of
        None \<Rightarrow> Inl (KnowledgeRenderError ''NOT_FOUND'')
      | Some e \<Rightarrow>
          if ke_status e \<noteq> ''APPROVED'' then Inl (KnowledgeRenderError ''NOT_APPROVED'')
          else ebind (variables_in_template (ke_answer_template e)) (\<lambda>required.
            if list_ex (missing_value vars) required then Inl (KnowledgeRenderError ''MISSING_VARIABLE'')
            else if list_ex (\<lambda>(k, _). k \<notin> set (ke_allowed_variables e)) vars
            then Inl (KnowledgeRenderError ''UNKNOWN_VARIABLE'')
            else (case present_variables (te_ucd te) vars of
                    None \<Rightarrow> Inl (KnowledgeRenderError ''PRESENTATION_ERROR'')
                  | Some shown \<Rightarrow>
                      (case parse_template (ke_answer_template e) of
                         None \<Rightarrow> Inl (ValueError ''format string'')
                       | Some segs \<Rightarrow> format_segments te shown segs))))"

section \<open>Queueing an approved answer\<close>

text \<open>What a text may be sent for besides the dialogue itself: a handoff notice, a person's payment decision, the
  receipt of a payment.\<close>

record notice =
  nc_case :: "handoff option"
  nc_decision :: "evidence option"
  nc_ack :: "(evidence \<times> handoff) option"

definition no_notice :: notice where
  "no_notice = \<lparr>nc_case = None, nc_decision = None, nc_ack = None\<rparr>"

definition case_notice :: "handoff \<Rightarrow> notice" where
  "case_notice h = no_notice\<lparr>nc_case := Some h\<rparr>"

definition decision_notice :: "evidence \<Rightarrow> notice" where
  "decision_notice e = no_notice\<lparr>nc_decision := Some e\<rparr>"

definition payment_decision_codes :: "string list" where
  "payment_decision_codes = [''RESP-PAYMENT-004'', ''RESP-PAYMENT-005'', ''RESP-BOOKING-CONFIRMED-001'',
     ''RESP-BOOKING-PARTIAL-001'', ''RESP-BOOKING-REJECTED-001'', ''RESP-BOOKING-BALANCE-PAID-001'',
     ''RESP-BOOKING-BALANCE-PARTIAL-001'']"

definition output_context :: "notice \<Rightarrow> string \<Rightarrow> conversation \<Rightarrow> (app_error, json) result" where
  "output_context nc rendered_code c =
     (if nc_ack nc \<noteq> None \<and> rendered_code = ''RESP-BOOKING-EVIDENCE-001''
      then Inr (payment_evidence_ack_context (fst (the (nc_ack nc))) (snd (the (nc_ack nc))))
      else if nc_case nc \<noteq> None \<and>
        (rendered_code \<in> set transfer_response_codes \<or> rendered_code = ''RESP-BOOKING-AGENDA-ERROR-001'')
      then handoff_context c (the (nc_case nc))
      else if nc_decision nc \<noteq> None \<and> rendered_code \<in> set payment_decision_codes
      then Inr (payment_review_context (the (nc_decision nc)))
      else Inr (automatic_context c ''TEMPLATE''))"

definition text_output :: "int \<Rightarrow> conversation \<Rightarrow> customer \<Rightarrow> message \<Rightarrow> string \<Rightarrow> json \<Rightarrow> instant \<Rightarrow> outbox" where
  "text_output k c cu m body context_value now =
     \<lparr>ob_id = k, ob_conversation_id = cv_id c, ob_message_id = ms_id m,
      ob_recipient_phone_number = cu_phone_number cu,
      ob_payload = JObj [(''type'', JStr ''text''), (''text'', JObj [(''body'', JStr body)])],
      ob_message_kind = KIND_TEXT, ob_catalog_asset_id = None, ob_status = OB_PENDING, ob_attempts = 0,
      ob_last_error = None, ob_sent_at = None, ob_next_attempt_at = None, ob_claimed_at = None,
      ob_claim_token = None, ob_delivery_context = Some context_value, ob_send_admission = None,
      ob_delivery_reason = None, ob_delivery_decided_at = None, ob_created_at = now\<rparr>"

definition add_output :: "(int \<Rightarrow> outbox) \<Rightarrow> db \<Rightarrow> db" where
  "add_output row d = (case next_serial d of (k, d1) \<Rightarrow> d1\<lparr>db_outbox := db_outbox d1 @ [row k]\<rparr>)"

text \<open>A turn works on the conversation and the database. A raised error keeps the database too: a caller that
  catches it goes on in the same transaction.\<close>

type_synonym turn_result = "(app_error \<times> db, conversation \<times> db) result"

definition queue_text ::
  "notice \<Rightarrow> string \<Rightarrow> string \<Rightarrow> string \<Rightarrow> conversation \<Rightarrow> customer \<Rightarrow> message \<Rightarrow> db \<Rightarrow> turn_result" where
  "queue_text nc response_code rendered_code body c cu m d =
     (let c1 = c\<lparr>cv_last_question_code := Some response_code\<rparr>; d1 = put_conversation c1 d
      in case output_context nc rendered_code c1 of
           Inl e \<Rightarrow> Inl (e, d1)
         | Inr context_value \<Rightarrow>
             Inr (c1, add_output (\<lambda>k. text_output k c1 cu m body context_value (db_clock d1)) d1))"

definition audit_render_failure :: "string \<Rightarrow> string \<Rightarrow> conversation \<Rightarrow> string option \<Rightarrow> db \<Rightarrow> db" where
  "audit_render_failure response_code reason c request_id d =
     audit ''SYSTEM'' ''TEMPLATE_RENDER_FAILED'' ''conversation'' None
       (Some (JObj [(''response_code'', JStr response_code), (''reason'', JStr reason),
          (''conversation_id'', JInt (cv_id c)), (''request_id'', opt_json JStr request_id)]))
       reason request_id d"

definition enqueue_template ::
  "text_env \<Rightarrow> bool \<Rightarrow> notice \<Rightarrow> string \<Rightarrow> (string \<times> tval) list \<Rightarrow> conversation \<Rightarrow> customer \<Rightarrow> message \<Rightarrow>
   string option \<Rightarrow> db \<Rightarrow> turn_result" where
  "enqueue_template te strict nc response_code vars c cu m request_id d =
     (case render_response te response_code vars d of
        Inr body \<Rightarrow> queue_text nc response_code response_code body c cu m d
      | Inl (KnowledgeRenderError reason) \<Rightarrow>
          let d1 = audit_render_failure response_code reason c request_id d in
          if strict then Inl (KnowledgeRenderError reason, d1)
          else (case render_response te ''RESP-AI-ERROR-001'' [] d1 of
                  Inl e \<Rightarrow> Inl (e, d1)
                | Inr body \<Rightarrow> queue_text nc response_code ''RESP-AI-ERROR-001'' body c cu m d1)
      | Inl e \<Rightarrow> Inl (e, d))"

end
