(* ===== verification/Payment_Notices.thy ===== *)
theory Payment_Notices
  imports Templates Human_Facts Settlement
begin

text \<open>
  What a customer is told of a person's payment decision: \<open>app/reservation/notifications.py\<close> and
  \<open>notify_payment_after_commit\<close> of \<open>app/admin/routes.py\<close>. The notice runs in a transaction of its own after
  the settlement; it also ends the payment review of the conversations that sent receipts.
\<close>

section \<open>Ending the payment review\<close>

definition skipped :: "evidence \<Rightarrow> string \<Rightarrow> string \<Rightarrow> string option \<Rightarrow> db \<Rightarrow> db" where
  "skipped e kind reason request_id d =
     audit ''SYSTEM'' ''NOTIFICATION_SKIPPED'' ''conversation'' None
       (Some (JObj [(''evidence_id'', JInt (pe_id e)), (''conversation_id'', JInt (pe_conversation_id e)),
          (''result'', JStr kind)])) reason request_id d"

definition last_receipt_settled :: string where
  "last_receipt_settled = [CHR 0xC3, CHR 0x9A] @ ''ltimo comprobante pendiente liquidado por un asesor''"

definition resolve_payment_case :: "evidence \<Rightarrow> reservation \<Rightarrow> string option \<Rightarrow> handoff \<Rightarrow> db \<Rightarrow> db" where
  "resolve_payment_case e r request_id h d =
     (let h1 = h\<lparr>ho_status := HO_RESOLVED, ho_resolved_at := Some (db_clock d),
                 ho_assigned_agent_id := None, ho_assigned_to := None\<rparr>
      in audit ''SYSTEM'' ''HANDOFF_RESOLVED'' ''handoff''
           (Some (JObj [(''handoff_id'', JInt (ho_id h)), (''status'', JStr (handoff_status_str (ho_status h)))]))
           (Some (JObj [(''handoff_id'', JInt (ho_id h)), (''status'', JStr ''RESOLVED''),
              (''evidence_id'', JInt (pe_id e)), (''reservation_id'', JStr (uuid_str (rv_id r))),
              (''reviewed_by_agent_id'', opt_json JInt (pe_reviewed_by_agent_id e))]))
           last_receipt_settled request_id (put_handoff h1 d))"

definition return_after_review :: "conversation \<Rightarrow> string option \<Rightarrow> db \<Rightarrow> (app_error, conversation \<times> db) result" where
  "return_after_review c request_id d =
     (let (c1, d1) = set_bot_enabled True c d in
      ebind (set_pending_action None c1 d1) (\<lambda>(c2, d2).
        let (c3, d3) = assign_conversation None (c2, d2) in
        ebind (if cv_state c3 = HUMAN_ACTIVE
               then transition_conversation c3 RETURNED_TO_BOT ''SYSTEM''
                      (Some (''Revisi'' @ o_acute @ ''n humana de pagos finalizada'')) request_id d3
               else Inr (c3, d3)) (\<lambda>(c4, d4).
        transition_conversation c4 BOT_ACTIVE ''SYSTEM''
          (Some ''Comprobantes revisados; retorno al bot sin otros casos abiertos'') request_id d4)))"

definition other_pending :: "conversation \<Rightarrow> reservation \<Rightarrow> db \<Rightarrow> bool" where
  "other_pending c r d \<longleftrightarrow>
     list_ex (\<lambda>e. pe_conversation_id e = cv_id c \<and> pe_customer_id e = rv_customer_id r \<and>
       pe_review_status e = RW_PENDING_REVIEW) (db_evidence d)"

definition sorted_cases :: "conversation \<Rightarrow> db \<Rightarrow> handoff list" where
  "sorted_cases c d = order_by (\<lambda>a b. ho_id a < ho_id b) (open_cases c d)"

definition end_payment_review ::
  "evidence \<Rightarrow> reservation \<Rightarrow> string option \<Rightarrow> conversation \<Rightarrow> db \<Rightarrow> (app_error, db) result" where
  "end_payment_review e r request_id c d =
     (if other_pending c r d then Inr d
      else let cases = sorted_cases c d;
               payment_cases = filter (\<lambda>h. ho_reason h = ''PAYMENT_REVIEW'') cases;
               d1 = fold (resolve_payment_case e r request_id) payment_cases d
           in if payment_cases = [] \<or> length cases \<noteq> length payment_cases \<or>
                 cv_state c \<notin> {WAITING_FOR_HUMAN, HUMAN_ACTIVE} then Inr d1
              else ebind (return_after_review c request_id d1) (\<lambda>(c1, d2). Inr d2))"

text \<open>The conversations are objects of the session: each is read as the steps before it left it.\<close>

fun end_payment_reviews ::
  "evidence \<Rightarrow> reservation \<Rightarrow> string option \<Rightarrow> int list \<Rightarrow> db \<Rightarrow> (app_error, db) result" where
  "end_payment_reviews e r request_id [] d = Inr d"
| "end_payment_reviews e r request_id (k # ks) d =
     (case get_row cv_id k (db_conversations d) of
        None \<Rightarrow> end_payment_reviews e r request_id ks d
      | Some c \<Rightarrow> ebind (end_payment_review e r request_id c d) (\<lambda>d1. end_payment_reviews e r request_id ks d1))"

definition resolve_payment_handoffs ::
  "evidence \<Rightarrow> reservation \<Rightarrow> int list \<Rightarrow> string option \<Rightarrow> db \<Rightarrow> (app_error, db) result" where
  "resolve_payment_handoffs e r conversation_ids request_id d =
     (if has_pending_payment_evidence (rv_id r) d then Inr d
      else end_payment_reviews e r request_id conversation_ids d)"

section \<open>The notice of a booking payment\<close>

text \<open>The conversations of the customer that sent receipts of this booking, in the order of their keys.\<close>

definition receipt_conversations :: "reservation \<Rightarrow> db \<Rightarrow> int list" where
  "receipt_conversations r d =
     map cv_id (order_by (\<lambda>a b. cv_id a < cv_id b) (filter (\<lambda>c. cv_customer_id c = rv_customer_id r \<and>
       list_ex (\<lambda>e. pe_conversation_id e = cv_id c \<and> pe_reservation_id e = Some (rv_id r) \<and>
         pe_customer_id e = rv_customer_id r) (db_evidence d)) (db_conversations d)))"

definition opt_int :: "int option \<Rightarrow> tval" where
  "opt_int n = (case n of None \<Rightarrow> TNone | Some i \<Rightarrow> TInt i)"

definition start_variables :: "plan \<Rightarrow> reservation \<Rightarrow> (string \<times> tval) list" where
  "start_variables p r = [(''plan_name'', TPlan p), (''booking_date'', TDate (bogota_date (rv_starts_at r))),
     (''booking_time'', TText (hhmm (bogota_time (rv_starts_at r))))]"

definition still_missing :: "reservation \<Rightarrow> tval" where
  "still_missing r = TInt (max 0 (rv_price_cop r - rv_amount_paid_cop r))"

definition bank_variables :: "settings \<Rightarrow> (string \<times> tval) list" where
  "bank_variables st = map (\<lambda>k. (k, TSettings st))
     [''bank_name'', ''account_type'', ''account_number'', ''account_holder'', ''breb_key'']"

definition partial_candidates :: "settings \<Rightarrow> evidence \<Rightarrow> reservation \<Rightarrow> int \<Rightarrow> (string \<times> tval) list" where
  "partial_candidates st e r required_deposit =
     [(''received_amount'', opt_int (pe_amount_cop e)), (''paid_amount'', TInt (rv_amount_paid_cop r)),
      (''deposit_amount'', TInt required_deposit),
      (''missing_amount'', TInt (max 0 (required_deposit - rv_amount_paid_cop r)))] @ bank_variables st"

definition template_variables :: "string \<Rightarrow> db \<Rightarrow> (app_error, string list) result" where
  "template_variables code d =
     (case get_latest_response code d of
        None \<Rightarrow> Inr [] | Some k \<Rightarrow> variables_in_template (ke_answer_template k))"

definition only_required :: "string list \<Rightarrow> (string \<times> tval) list \<Rightarrow> (string \<times> tval) list" where
  "only_required required vars = filter (\<lambda>(k, _). k \<in> set required) vars"

text \<open>The template of a decision and its variables; \<open>Inr (Inl reason)\<close> is a decision that is not told.\<close>

definition decision_message ::
  "settings \<Rightarrow> evidence \<Rightarrow> string \<Rightarrow> reservation \<Rightarrow> plan \<Rightarrow> db \<Rightarrow>
   (app_error, string + string \<times> (string \<times> tval) list) result" where
  "decision_message st e kind r p d =
     (if kind = ''RESERVED'' then
        Inr (Inr (''RESP-BOOKING-CONFIRMED-001'', start_variables p r @
          [(''missing_amount'', still_missing r),
           (''balance_due_date'', TDate (bogota_date
              (case rv_balance_due_at r of Some t \<Rightarrow> t | None \<Rightarrow> rv_starts_at r - days 1)))]))
      else if kind = ''PARTIAL'' then
        ebind (deposit_amount st (rv_price_cop r)) (\<lambda>required_deposit.
        ebind (template_variables ''RESP-BOOKING-PARTIAL-001'' d) (\<lambda>required.
          Inr (Inr (''RESP-BOOKING-PARTIAL-001'', only_required required (partial_candidates st e r required_deposit)))))
      else if kind = ''REJECTED'' then Inr (Inr (''RESP-BOOKING-REJECTED-001'', []))
      else if kind = ''BALANCE_PAID'' then Inr (Inr (''RESP-BOOKING-BALANCE-PAID-001'', start_variables p r))
      else if kind = ''BALANCE_PARTIAL'' then
        Inr (case rv_balance_due_at r of
               None \<Rightarrow> Inl ''Saldo sin fecha de vencimiento''
             | Some t \<Rightarrow> Inr (''RESP-BOOKING-BALANCE-PARTIAL-001'',
                 [(''missing_amount'', still_missing r), (''balance_due_date'', TDate (bogota_date t))]))
      else Inr (Inl ''Resultado sin plantilla de reserva''))"

text \<open>An approved text was queued, or the failure to render is recorded and nothing is sent.\<close>

definition notice_outcome ::
  "evidence \<Rightarrow> string \<Rightarrow> string option \<Rightarrow> turn_result \<Rightarrow> (app_error, string \<times> db) result" where
  "notice_outcome e kind request_id res =
     (case res of
        Inr (c, d) \<Rightarrow> Inr (''ENQUEUED'', d)
      | Inl (KnowledgeRenderError reason, d) \<Rightarrow> Inr (''DEFERRED'', skipped e kind reason request_id d)
      | Inl (err, d) \<Rightarrow> Inl err)"

definition deferred :: "evidence \<Rightarrow> string \<Rightarrow> string \<Rightarrow> string option \<Rightarrow> db \<Rightarrow> (app_error, string \<times> db) result" where
  "deferred e kind reason request_id d = Inr (''DEFERRED'', skipped e kind reason request_id d)"

definition notify_conflict ::
  "text_env \<Rightarrow> settings \<Rightarrow> evidence \<Rightarrow> string \<Rightarrow> reservation \<Rightarrow> conversation \<Rightarrow> customer \<Rightarrow> message \<Rightarrow> string option
   \<Rightarrow> db \<Rightarrow> (app_error, string \<times> db) result" where
  "notify_conflict te st e kind r c cu m request_id d =
     (let c1 = c\<lparr>cv_booking_draft := None\<rparr> in
      ebind (create_handoff c1 cu ''RESERVATION_CONFIRMATION'' HO_URGENT request_id st
               (Some (''franja ya reservada; requiere reprogramaci'' @ o_acute @ ''n'')) 5 (put_conversation c1 d))
        (\<lambda>(case_row, response_code, c2, d1).
      ebind (resolve_payment_handoffs e r (receipt_conversations r d) request_id d1) (\<lambda>d2.
        if \<not> st_self_service_booking_enabled st
        then deferred e kind (''Reserva sin notificaci'' @ o_acute @ ''n conversacional'') request_id d2
        else (case get_row cv_id (cv_id c) (db_conversations d2) of
                None \<Rightarrow> Inl (OtherError ''LookupError'')
              | Some c3 \<Rightarrow> notice_outcome e kind request_id
                  (enqueue_template te True (case_notice case_row) response_code [] c3 cu m request_id d2)))))"

definition notify_decision ::
  "text_env \<Rightarrow> settings \<Rightarrow> evidence \<Rightarrow> string \<Rightarrow> reservation \<Rightarrow> conversation \<Rightarrow> customer \<Rightarrow> message \<Rightarrow> plan \<Rightarrow>
   string option \<Rightarrow> db \<Rightarrow> (app_error, string \<times> db) result" where
  "notify_decision te st e kind r c cu m p request_id d =
     ebind (resolve_payment_handoffs e r (receipt_conversations r d) request_id d) (\<lambda>d1.
       if \<not> st_self_service_booking_enabled st
       then deferred e kind ''Reserva autoservicio deshabilitada'' request_id d1
       else ebind (decision_message st e kind r p d1) (\<lambda>msg.
         case msg of
           Inl reason \<Rightarrow> deferred e kind reason request_id d1
         | Inr (code, vars) \<Rightarrow>
             (case get_row cv_id (cv_id c) (db_conversations d1) of
                None \<Rightarrow> Inl (OtherError ''LookupError'')
              | Some c1 \<Rightarrow> notice_outcome e kind request_id
                  (enqueue_template te True (decision_notice e) code vars c1 cu m request_id d1))))"

definition notify_booking_payment ::
  "text_env \<Rightarrow> settings \<Rightarrow> evidence \<Rightarrow> string \<Rightarrow> string option \<Rightarrow> db \<Rightarrow> (app_error, string \<times> db) result" where
  "notify_booking_payment te st e kind request_id d =
     (case Option.bind (pe_reservation_id e) (\<lambda>k. get_row rv_id k (db_reservations d)) of
        None \<Rightarrow> Inr (''DEFERRED'', d)
      | Some r \<Rightarrow>
          if rv_customer_id r \<noteq> pe_customer_id e
          then deferred e kind (''La evidencia no corresponde a la conversaci'' @ o_acute @ ''n'') request_id d
          else
            (case (get_row cu_id (rv_customer_id r) (db_customers d),
                   if pe_conversation_id e \<in> set (receipt_conversations r d)
                   then get_row cv_id (pe_conversation_id e) (db_conversations d) else None,
                   get_row ms_id (pe_message_id e) (db_messages d), get_row pl_id (rv_plan_id r) (db_plans d)) of
               (Some cu, Some c, Some m, Some p) \<Rightarrow>
                 if cv_customer_id c \<noteq> cu_id cu \<or> ms_conversation_id m \<noteq> cv_id c
                 then deferred e kind (''Referencias de notificaci'' @ o_acute @ ''n no relacionadas'') request_id d
                 else if kind = ''CONFLICT'' then notify_conflict te st e kind r c cu m request_id d
                 else notify_decision te st e kind r c cu m p request_id d
             | _ \<Rightarrow> deferred e kind (''Referencias de notificaci'' @ o_acute @ ''n incompletas'') request_id d))"

section \<open>The notice of any reviewed receipt\<close>

text \<open>A conversation, customer or message that is missing raises AttributeError when the text is queued. The reason was
  sanitized before it was stored; one that is not in its sanitized form is refused again here.\<close>

definition reason_value :: "ucd \<Rightarrow> string option \<Rightarrow> (app_error, tval) result" where
  "reason_value u reason =
     (case reason of
        None \<Rightarrow> Inl (ValueError ''Escribe el motivo'')
      | Some s \<Rightarrow> ebind (sanitize_customer_reason u (Some s)) (\<lambda>t.
          if t \<noteq> s then Inl (ValueError ''El motivo visible requiere saneamiento previo'') else Inr (TReason s)))"

definition unbooked_candidates :: "ucd \<Rightarrow> evidence \<Rightarrow> string \<Rightarrow> (app_error, (string \<times> tval) list) result" where
  "unbooked_candidates u e kind =
     (if kind = ''REJECTED''
      then ebind (reason_value u (pe_customer_reason e)) (\<lambda>v. Inr [(''rejection_reason_customer_safe'', v)])
      else Inr [(''received_amount'', opt_int (pe_amount_cop e))])"

definition notify_unbooked_payment ::
  "text_env \<Rightarrow> evidence \<Rightarrow> string \<Rightarrow> string option \<Rightarrow> db \<Rightarrow> (app_error, string \<times> db) result" where
  "notify_unbooked_payment te e kind request_id d =
     (let code = (if pe_review_status e = RW_ACCEPTED then ''RESP-PAYMENT-004'' else ''RESP-PAYMENT-005'') in
      ebind (unbooked_candidates (te_ucd te) e kind) (\<lambda>candidates.
      ebind (template_variables code d) (\<lambda>required.
        (case (get_row cv_id (pe_conversation_id e) (db_conversations d),
               get_row cu_id (pe_customer_id e) (db_customers d), get_row ms_id (pe_message_id e) (db_messages d)) of
           (Some c, Some cu, Some m) \<Rightarrow> notice_outcome e kind request_id
             (enqueue_template te True (decision_notice e) code (only_required required candidates) c cu m request_id d)
         | _ \<Rightarrow> Inl (OtherError ''AttributeError'')))))"

definition notify_payment_after_commit ::
  "text_env \<Rightarrow> settings \<Rightarrow> int \<Rightarrow> string \<Rightarrow> string option \<Rightarrow> db \<Rightarrow> (app_error, string \<times> db) result" where
  "notify_payment_after_commit te st evidence_id kind request_id d =
     (case get_row pe_id evidence_id (db_evidence d) of
        None \<Rightarrow> Inl (OtherError ''AttributeError'')
      | Some e \<Rightarrow>
          if pe_reservation_id e \<noteq> None then notify_booking_payment te st e kind request_id d
          else if kind = ''REJECTED'' \<and> pe_customer_reason e = None
          then Inr (''DEFERRED'', audit ''SYSTEM'' ''PAYMENT_NOTIFICATION_SKIPPED'' ''payment_evidence'' None
                 (Some (JObj [(''evidence_id'', JInt (pe_id e)), (''result'', JStr kind)]))
                 ''Rechazo sin motivo visible para el cliente'' request_id d)
          else notify_unbooked_payment te e kind request_id d)"

end
