(* ===== verification/Booking_Routes.thy ===== *)
theory Booking_Routes
  imports Payment_Notices Calendar_Sync Receipt_Review
begin

text \<open>
  The bookings and receipts as staff handle them, the routes of \<open>app/admin/routes.py\<close> that make a manual
  booking request, reschedule, cancel and re-synchronize a booking, and review a receipt. A route reads the
  calendar outside of any transaction, decides again inside one, and synchronizes and notifies after it:
  each transaction is a definition of its own, and \<open>other\<close> is what other workers commit in between. The note
  and the reason of a receipt's review are those pydantic hands over, with the white space at their ends removed.
\<close>

section \<open>The context of a booking\<close>

type_synonym list_events = "instant \<Rightarrow> instant \<Rightarrow> string list \<Rightarrow> (app_error, calendar_event list) result"

definition calendar_down :: "string \<Rightarrow> app_error \<Rightarrow> app_error" where
  "calendar_down detail e = (if e = CalendarUnavailableError then HTTPException 503 detail else e)"

definition map_error :: "('e \<Rightarrow> 'f) \<Rightarrow> ('e, 'a) result \<Rightarrow> ('f, 'a) result" where
  "map_error f r = (case r of Inl e \<Rightarrow> Inl (f e) | Inr x \<Rightarrow> Inr x)"

definition aware_instant :: "datetime \<Rightarrow> (app_error, instant) result" where
  "aware_instant t = (case t of Aware i _ \<Rightarrow> Inr i | Naive _ \<Rightarrow> Inl (ValueError ''timezone''))"

definition active_plan :: "uuid \<Rightarrow> db \<Rightarrow> (app_error, plan) result" where
  "active_plan plan_id d =
     (case get_row pl_id plan_id (db_plans d) of
        None \<Rightarrow> Inl (HTTPException 404 ''El plan no existe.'')
      | Some p \<Rightarrow> if pl_active p then Inr p else Inl (HTTPException 422 (''El plan est'' @ a_acute @ '' inactivo.'')))"

definition admin_booking_context ::
  "ucd \<Rightarrow> settings \<Rightarrow> list_events \<Rightarrow> uuid \<Rightarrow> datetime \<Rightarrow> uuid option \<Rightarrow> db
   \<Rightarrow> (app_error, plan \<times> instant \<times> instant) result" where
  "admin_booking_context u st list_events plan_id starts_at exclude d =
     ebind (active_plan plan_id d) (\<lambda>p.
     ebind (booking_ends_at p starts_at) (\<lambda>ends_at.
     ebind (validate_booking_window starts_at ends_at st None (Some p) (db_clock d)) (\<lambda>window.
       case window of
         Some reason \<Rightarrow> Inl (HTTPException 409 ''window'')
       | None \<Rightarrow>
     ebind (aware_instant starts_at) (\<lambda>s. ebind (aware_instant ends_at) (\<lambda>e.
     ebind (map_error (calendar_down ''No se pudo consultar la disponibilidad.'')
              (fetch_booking_context u True p s e list_events st exclude d)) (\<lambda>b.
       if \<not> ba_available b then Inl (HTTPException 409 ''blockers'') else Inr (p, s, e)))))))"

text \<open>The read-only check of the panel: the same context, answered instead of refused.\<close>

definition reservation_availability ::
  "ucd \<Rightarrow> settings \<Rightarrow> list_events \<Rightarrow> auth_provider \<Rightarrow> string option \<Rightarrow> uuid \<Rightarrow> datetime \<Rightarrow> db
   \<Rightarrow> (app_error, bool \<times> blocker list \<times> datetime \<times> int \<times> booking_window) result" where
  "reservation_availability u st list_events au authorization plan_id starts_at d =
     ebind (require_session au authorization d) (\<lambda>agent.
     ebind (case starts_at of Naive _ \<Rightarrow> Inl (HTTPException 422 ''La fecha debe incluir zona horaria.'')
            | Aware s _ \<Rightarrow> Inr s) (\<lambda>s.
     ebind (active_plan plan_id d) (\<lambda>p.
     ebind (booking_ends_at p starts_at) (\<lambda>ends_at.
     ebind (validate_booking_window starts_at ends_at st None (Some p) (db_clock d)) (\<lambda>window.
     ebind (aware_instant ends_at) (\<lambda>e.
     ebind (map_error (calendar_down ''No se pudo consultar la disponibilidad. Intenta nuevamente.'')
              (fetch_booking_context u True p s e list_events st None d)) (\<lambda>b.
     ebind (deposit_amount st (pl_price_cop p)) (\<lambda>deposit.
       Inr (window = None \<and> ba_available b, ba_blockers b, ends_at, deposit, window)))))))))"

definition check_fresh_booking ::
  "ucd \<Rightarrow> settings \<Rightarrow> plan \<Rightarrow> instant \<Rightarrow> instant \<Rightarrow> uuid option \<Rightarrow> db \<Rightarrow> (app_error, unit) result" where
  "check_fresh_booking u st p s e exclude d =
     (let rows = filter (\<lambda>r. exclude = None \<or> Some (rv_id r) \<noteq> exclude) (reserved_between d s e) in
      ebind (evaluate_booking_availability u p s e [] (concat (map (plan_of d) rows)) (st_booking_exclusivity_keyword st))
        (\<lambda>b. guard (ba_available b) (HTTPException 409 ''blockers'')))"

section \<open>A manual request\<close>

definition new_lead :: "uuid \<Rightarrow> int \<Rightarrow> lead" where
  "new_lead k customer_id = \<lparr>ld_id = k, ld_customer_id = customer_id, ld_status = ''QUALIFYING'',
     ld_estimated_budget = None, ld_budget_range = ''NOT_PROVIDED'', ld_budget_data_status = ''NOT_ASKED''\<rparr>"

definition new_event :: "uuid \<Rightarrow> uuid \<Rightarrow> string option \<Rightarrow> instant \<Rightarrow> event_row" where
  "new_event k lead_id event_type now = \<lparr>ev_id = k, ev_lead_id = lead_id, ev_event_type = event_type,
     ev_event_type_other = None, ev_plan_id = None, ev_event_date = None, ev_event_month = None,
     ev_event_date_type = None, ev_event_date_raw = None, ev_guest_count = None, ev_guest_count_min = None,
     ev_guest_count_max = None, ev_guest_count_status = None, ev_special_requests = None, ev_created_at = now\<rparr>"

definition add_lead :: "int \<Rightarrow> db \<Rightarrow> lead \<times> db" where
  "add_lead customer_id d = (case uuid4 d of (k, d1) \<Rightarrow>
     let l = new_lead k customer_id in (l, d1\<lparr>db_leads := db_leads d1 @ [l]\<rparr>))"

definition add_event :: "uuid \<Rightarrow> string option \<Rightarrow> db \<Rightarrow> event_row \<times> db" where
  "add_event lead_id event_type d = (case uuid4 d of (k, d1) \<Rightarrow>
     let e = new_event k lead_id event_type (db_clock d1) in (e, d1\<lparr>db_events := db_events d1 @ [e]\<rparr>))"

text \<open>\<open>request_id or str(uuid4())\<close>.\<close>

definition request_or_fresh :: "string option \<Rightarrow> db \<Rightarrow> string \<times> db" where
  "request_or_fresh request_id d =
     (case request_id of None \<Rightarrow> fresh_text d | Some r \<Rightarrow> if r = [] then fresh_text d else (r, d))"

definition customer_by_phone :: "string \<Rightarrow> string option \<Rightarrow> db \<Rightarrow> customer \<times> db" where
  "customer_by_phone phone full_name d =
     (case find (\<lambda>cu. cu_phone_number cu = phone) (db_customers d) of
        Some cu \<Rightarrow> (cu, d)
      | None \<Rightarrow> (case next_serial d of (k, d1) \<Rightarrow>
          let cu = \<lparr>cu_id = k, cu_phone_number = phone, cu_full_name = full_name\<rparr>
          in (cu, d1\<lparr>db_customers := db_customers d1 @ [cu]\<rparr>)))"

definition latest_conversation :: "int \<Rightarrow> db \<Rightarrow> conversation option" where
  "latest_conversation customer_id d =
     first_by (\<lambda>a b. cv_id b < cv_id a) (filter (\<lambda>c. cv_customer_id c = customer_id) (db_conversations d))"

record manual_request =
  mr_phone :: string
  mr_full_name :: "string option"
  mr_plan_id :: uuid
  mr_starts_at :: datetime
  mr_note :: "string option"

definition phone_rx :: "ucd \<Rightarrow> regex" where
  "phone_rx u = seqs [Opt (literal ''+''), range_cp 49 57, between 7 14 (digit_rx u)]"

definition manual_request_ok :: "ucd \<Rightarrow> manual_request \<Rightarrow> bool" where
  "manual_request_ok u m \<longleftrightarrow> re_fullmatch u (phone_rx u) (cps (mr_phone m)) \<noteq> None \<and>
     (case mr_full_name m of None \<Rightarrow> True | Some s \<Rightarrow> within_length 1 128 s) \<and>
     (case mr_note m of None \<Rightarrow> True | Some s \<Rightarrow> within_length 0 255 s) \<and>
     (case mr_starts_at m of Naive _ \<Rightarrow> False | Aware _ _ \<Rightarrow> True)"

definition plus_phone :: "string \<Rightarrow> string" where
  "plus_phone phone = ''+'' @ dropWhile (\<lambda>c. c = CHR ''+'') phone"

definition record_booking_note :: "string \<Rightarrow> reservation \<Rightarrow> string option \<Rightarrow> string option \<Rightarrow> db \<Rightarrow> db" where
  "record_booking_note actor r body request_id d =
     (case body of
        None \<Rightarrow> d
      | Some t \<Rightarrow> if t = [] then d else
          (case request_or_fresh request_id d of (rid, d1) \<Rightarrow>
             audit actor ''RESERVATION_NOTE_RECORDED'' ''reservation'' None
               (Some (JObj [(''reservation_id'', JStr (uuid_str (rv_id r))), (''note'', JStr t)])) t (Some rid) d1))"

definition manual_transaction ::
  "ucd \<Rightarrow> settings \<Rightarrow> string \<Rightarrow> manual_request \<Rightarrow> plan \<Rightarrow> instant \<Rightarrow> instant \<Rightarrow> string option \<Rightarrow> db
   \<Rightarrow> (app_error, reservation \<times> db) result" where
  "manual_transaction u st actor m p s e request_id d =
     ebind (check_fresh_booking u st p s e None d) (\<lambda>_.
       let (cu, d1) = customer_by_phone (plus_phone (mr_phone m)) (mr_full_name m) d;
           c = latest_conversation (cu_id cu) d1;
           (l, d2) = add_lead (cu_id cu) d1;
           (ev, d3) = add_event (ld_id l) (Some (pl_event_type p)) d2;
           (rid, d4) = request_or_fresh request_id d3
       in ebind (create_pending_reservation (ld_id l) ev p c cu (mr_starts_at m) actor (Some rid) st d4) (\<lambda>(r, ev', d5).
            Inr (r, record_booking_note actor r (mr_note m) request_id d5)))"

definition create_manual_reservation ::
  "ucd \<Rightarrow> settings \<Rightarrow> list_events \<Rightarrow> auth_provider \<Rightarrow> string option \<Rightarrow> manual_request \<Rightarrow> string option \<Rightarrow>
   (db \<Rightarrow> db) \<Rightarrow> db \<Rightarrow> (app_error, reservation \<times> db) result" where
  "create_manual_reservation u st list_events au authorization m request_id other d =
     ebind (guard (manual_request_ok u m) unprocessable) (\<lambda>_.
     ebind (require_session au authorization d) (\<lambda>agent.
     ebind (admin_booking_context u st list_events (mr_plan_id m) (mr_starts_at m) None d) (\<lambda>(p, s, e).
       manual_transaction u st (ag_name agent) m p s e request_id (other d))))"

section \<open>Synchronizing after a commit\<close>

text \<open>The errors that are subclasses of \<open>ValueError\<close>.\<close>

definition is_value_error :: "app_error \<Rightarrow> bool" where
  "is_value_error e = (case e of ValueError _ \<Rightarrow> True | InvalidStateTransition _ _ \<Rightarrow> True
     | InvalidReservationTransition _ _ \<Rightarrow> True | InvalidBookingPlan _ \<Rightarrow> True | PrereviewConflict _ \<Rightarrow> True | _ \<Rightarrow> False)"

definition calendar_sync_after_commit ::
  "'c calendar \<Rightarrow> settings \<Rightarrow> uuid \<Rightarrow> (db \<Rightarrow> db) \<Rightarrow> db \<Rightarrow> 'c \<Rightarrow> (app_error, bool) result \<times> db \<times> 'c" where
  "calendar_sync_after_commit cal st k other d c =
     (case sync_reservation_calendar cal st k other d c of
        (Inr _, d1, c1) \<Rightarrow> (Inr True, d1, c1)
      | (Inl e, d1, c1) \<Rightarrow>
          (if e = CalendarUnavailableError \<or> is_value_error e then Inr False else Inl e, d1, c1))"

definition sync_if ::
  "bool \<Rightarrow> 'c calendar \<Rightarrow> settings \<Rightarrow> uuid \<Rightarrow> (db \<Rightarrow> db) \<Rightarrow> db \<Rightarrow> 'c \<Rightarrow> (app_error, bool option) result \<times> db \<times> 'c" where
  "sync_if wanted cal st k other d c =
     (if \<not> wanted then (Inr None, d, c)
      else (case calendar_sync_after_commit cal st k other d c of
              (Inr b, d1, c1) \<Rightarrow> (Inr (Some b), d1, c1) | (Inl e, d1, c1) \<Rightarrow> (Inl e, d1, c1)))"

definition retry_reservation_calendar ::
  "'c calendar \<Rightarrow> settings \<Rightarrow> auth_provider \<Rightarrow> string option \<Rightarrow> uuid \<Rightarrow> (db \<Rightarrow> db) \<Rightarrow> db \<Rightarrow> 'c
   \<Rightarrow> (app_error, bool) result \<times> db \<times> 'c" where
  "retry_reservation_calendar cal st au authorization k other d c =
     (case ebind (authenticated_admin au authorization d) (\<lambda>admin.
        (case get_row rv_id k (db_reservations d) of
           None \<Rightarrow> Inl (HTTPException 404 ''La reserva no existe.'')
         | Some r \<Rightarrow> guard (rv_status r = RV_RESERVED \<and> rv_calendar_status r = CAL_NONE)
             (HTTPException 409 (''La reserva no requiere sincronizaci'' @ o_acute @ ''n.'')))) of
        Inl e \<Rightarrow> (Inl e, d, c)
      | Inr _ \<Rightarrow> calendar_sync_after_commit cal st k other d c)"

section \<open>Rescheduling\<close>

definition closed_booking :: app_error where
  "closed_booking = HTTPException 409 (''La reserva est'' @ a_acute @ '' vencida o cancelada.'')"

definition open_booking :: "uuid \<Rightarrow> db \<Rightarrow> (app_error, reservation) result" where
  "open_booking k d =
     (case get_row rv_id k (db_reservations d) of
        None \<Rightarrow> Inl (HTTPException 404 ''La reserva no existe.'')
      | Some r \<Rightarrow> if rv_status r \<in> {RV_EXPIRED, RV_CANCELLED} then Inl closed_booking else Inr r)"

definition rescheduled_row :: "instant \<Rightarrow> instant \<Rightarrow> instant \<Rightarrow> reservation \<Rightarrow> reservation" where
  "rescheduled_row s e now r =
     (let r1 = r\<lparr>rv_starts_at := s, rv_ends_at := e\<rparr>;
          r2 = (if rv_payment_kind r1 = Some PK_DEPOSIT
                then let r2 = r1\<lparr>rv_balance_due_at := Some (s - days 1)\<rparr>
                     in if s - days 1 > now then r2\<lparr>rv_balance_overdue_at := None\<rparr> else r2
                else r1)
      in if rv_status r2 = RV_RESERVED then r2\<lparr>rv_calendar_status := CAL_NONE\<rparr> else r2)"

definition rescheduled_event :: "instant \<Rightarrow> event_row \<Rightarrow> event_row" where
  "rescheduled_event s ev = ev\<lparr>ev_event_date := Some (bogota_date s), ev_event_date_type := Some ''EXACT'',
     ev_event_month := None, ev_event_date_raw := None\<rparr>"

definition due_values :: "reservation \<Rightarrow> (string \<times> json) list" where
  "due_values r = [(''balance_due_at'', opt_json (\<lambda>t. JStr (instant_iso t)) (rv_balance_due_at r)),
     (''balance_overdue_at'', opt_json (\<lambda>t. JStr (instant_iso t)) (rv_balance_overdue_at r))]"

definition span_values :: "reservation \<Rightarrow> (string \<times> json) list" where
  "span_values r = [(''reservation_id'', JStr (uuid_str (rv_id r))), (''starts_at'', JStr (instant_iso (rv_starts_at r))),
     (''ends_at'', JStr (instant_iso (rv_ends_at r)))]"

definition schedule_transaction ::
  "ucd \<Rightarrow> settings \<Rightarrow> string \<Rightarrow> uuid \<Rightarrow> plan \<Rightarrow> instant \<Rightarrow> instant \<Rightarrow> string option \<Rightarrow> db
   \<Rightarrow> (app_error, reservation \<times> db) result" where
  "schedule_transaction u st actor k p s e request_id d =
     (case get_row rv_id k (db_reservations d) of
        None \<Rightarrow> Inl (OtherError ''AttributeError'')
      | Some r \<Rightarrow>
          if rv_status r \<in> {RV_EXPIRED, RV_CANCELLED} then Inl closed_booking
          else ebind (check_fresh_booking u st p s e (Some k) d) (\<lambda>_.
            (case get_row ev_id (rv_event_id r) (db_events d) of
               None \<Rightarrow> Inl (OtherError ''AttributeError'')
             | Some ev \<Rightarrow>
                 let r1 = rescheduled_row s e (db_clock d) r; ev1 = rescheduled_event s ev;
                     (rid, d1) = request_or_fresh request_id (put_event ev1 (put_reservation r1 d))
                 in ebind (guard (reservation_ck r1) IntegrityError) (\<lambda>_.
                    Inr (r1, audit actor ''RESERVATION_RESCHEDULED'' ''reservation''
                      (Some (JObj (span_values r @ due_values r)))
                      (Some (JObj (span_values r1 @ [(''event_date'', JStr (date_iso (bogota_date s)))] @ due_values r1)))
                      (''Reprogramaci'' @ o_acute @ ''n administrativa'') (Some rid) d1)))))"

definition schedule_reservation ::
  "ucd \<Rightarrow> 'c calendar \<Rightarrow> settings \<Rightarrow> list_events \<Rightarrow> auth_provider \<Rightarrow> string option \<Rightarrow> uuid \<Rightarrow> datetime \<Rightarrow>
   string option \<Rightarrow> (db \<Rightarrow> db) \<Rightarrow> db \<Rightarrow> 'c \<Rightarrow> (app_error, reservation \<times> bool option) result \<times> db \<times> 'c" where
  "schedule_reservation u cal st list_events au authorization k starts_at request_id other d c =
     (case ebind (authenticated_admin au authorization d) (\<lambda>admin.
           ebind (open_booking k d) (\<lambda>r.
           ebind (admin_booking_context u st list_events (rv_plan_id r) starts_at (Some k) d) (\<lambda>(p, s, e).
             schedule_transaction u st (ag_name admin) k p s e request_id (other d)))) of
        Inl err \<Rightarrow> (Inl err, other d, c)
      | Inr (r, d1) \<Rightarrow>
          (case sync_if (rv_status r = RV_RESERVED) cal st k other d1 c of
             (Inl err, d2, c1) \<Rightarrow> (Inl err, d2, c1)
           | (Inr b, d2, c1) \<Rightarrow> (Inr (r, b), d2, c1)))"

section \<open>Cancelling\<close>

definition cancel_transaction ::
  "string \<Rightarrow> uuid \<Rightarrow> string \<Rightarrow> string option \<Rightarrow> db \<Rightarrow> (app_error, bool \<times> reservation \<times> db) result" where
  "cancel_transaction actor k reason request_id d =
     (case get_row rv_id k (db_reservations d) of
        None \<Rightarrow> Inl (HTTPException 404 ''La reserva no existe.'')
      | Some r \<Rightarrow>
          (case request_or_fresh request_id d of (rid, d1) \<Rightarrow>
             ebind (map_error (\<lambda>err. case err of
                        InvalidReservationTransition a b \<Rightarrow>
                          HTTPException 409 (''La reserva est'' @ a_acute @ '' vencida o ya est'' @ a_acute @ '' cancelada.'')
                      | _ \<Rightarrow> err)
                      (transition_reservation r RV_CANCELLED actor reason (Some rid) d1)) (\<lambda>(r1, d2).
               Inr (rv_status r = RV_RESERVED \<and> rv_external_calendar_id r \<noteq> None, r1, d2))))"

definition cancel_reservation ::
  "'c calendar \<Rightarrow> auth_provider \<Rightarrow> string option \<Rightarrow> uuid \<Rightarrow> string \<Rightarrow> string option \<Rightarrow> (db \<Rightarrow> db) \<Rightarrow> db \<Rightarrow> 'c
   \<Rightarrow> (app_error, reservation \<times> bool) result \<times> db \<times> 'c" where
  "cancel_reservation cal au authorization k body request_id other d c =
     (case ebind (guard (within_length 1 255 (strip body)) unprocessable) (\<lambda>_.
           ebind (authenticated_admin au authorization d) (\<lambda>admin.
             cancel_transaction (ag_name admin) k (strip body) request_id (other d))) of
        Inl err \<Rightarrow> (Inl err, other d, c)
      | Inr (release, r, d1) \<Rightarrow>
          if \<not> release then (Inr (r, True), d1, c)
          else (case release_reservation_calendar cal k other d1 c of
                  (Inr _, d2, c1) \<Rightarrow> (Inr (r, True), d2, c1)
                | (Inl err, d2, c1) \<Rightarrow>
                    (if err = CalendarUnavailableError then Inr (r, False) else Inl err, d2, c1)))"

section \<open>Reviewing a receipt\<close>

text \<open>The decision on a receipt: an acceptance with its amount and the automatic review it follows, or a rejection
  with its reasons.\<close>

datatype review_body = Accepting int "string option" "uuid option" | Rejecting string "string option"

definition review_body_ok :: "review_body \<Rightarrow> bool" where
  "review_body_ok b = (case b of
       Accepting a t _ \<Rightarrow> 0 < a \<and> a \<le> 2147483647 \<and> (case t of None \<Rightarrow> True | Some s \<Rightarrow> within_length 0 255 s)
     | Rejecting t _ \<Rightarrow> within_length 1 255 t)"

definition already_reviewed :: app_error where
  "already_reviewed = HTTPException 409 ''El comprobante ya fue revisado.''"

definition download_failed_permanently :: app_error where
  "download_failed_permanently =
     HTTPException 409 (''La descarga del comprobante fall'' @ o_acute @ ''. Solicita una nueva imagen.'')"

definition is_accepting :: "review_body \<Rightarrow> bool" where
  "is_accepting b = (case b of Accepting _ _ _ \<Rightarrow> True | Rejecting _ _ \<Rightarrow> False)"

definition reviewable :: "review_body \<Rightarrow> evidence \<Rightarrow> (app_error, unit) result" where
  "reviewable b e =
     (if pe_review_status e \<noteq> RW_PENDING_REVIEW then Inl already_reviewed
      else if is_accepting b \<and> pe_download_status e = DL_FAILED_PERMANENT then Inl download_failed_permanently
      else Inr ())"

definition visible_reason :: "ucd \<Rightarrow> review_body \<Rightarrow> evidence \<Rightarrow> (app_error, string option) result" where
  "visible_reason u b e =
     (case b of
        Rejecting _ reason \<Rightarrow>
          if pe_reservation_id e \<noteq> None then Inr None
          else map_error (\<lambda>err. case err of ValueError t \<Rightarrow> HTTPException 422 t | _ \<Rightarrow> err)
                 (ebind (sanitize_customer_reason u reason) (\<lambda>t. Inr (Some t)))
      | Accepting _ _ _ \<Rightarrow> Inr None)"

text \<open>The calendar is read only when the amount would cover the deposit of a booking not yet confirmed.\<close>

definition calendar_blockers_for ::
  "ucd \<Rightarrow> settings \<Rightarrow> list_events \<Rightarrow> review_body \<Rightarrow> evidence \<Rightarrow> db \<Rightarrow> (app_error, blocker list) result" where
  "calendar_blockers_for u st list_events b e d =
     (case (b, Option.bind (pe_reservation_id e) (\<lambda>k. get_row rv_id k (db_reservations d))) of
        (Accepting amount _ _, Some r) \<Rightarrow>
          if rv_status r \<in> {RV_PAYMENT_PENDING, RV_PAYMENT_REVIEW} then
            ebind (deposit_amount st (rv_price_cop r)) (\<lambda>deposit.
              if rv_amount_paid_cop r + amount < deposit then Inr []
              else (case get_row pl_id (rv_plan_id r) (db_plans d) of
                      None \<Rightarrow> Inl (OtherError ''AttributeError'')
                    | Some p \<Rightarrow>
                        ebind (map_error (calendar_down ''No se pudo consultar la disponibilidad.'')
                          (fetch_booking_context u True p (rv_starts_at r) (rv_ends_at r) list_events st None d)) (\<lambda>ctxt.
                          Inr (filter (\<lambda>x. case x of BookingBlocker kind _ \<Rightarrow> kind = CALENDAR_EXCLUSIVE) (ba_blockers ctxt)))))
          else Inr []
      | _ \<Rightarrow> Inr [])"

definition proposal_of :: "review_body \<Rightarrow> evidence \<Rightarrow> db \<Rightarrow> (app_error, evidence_review option) result" where
  "proposal_of b e d =
     (case b of
        Accepting _ _ (Some k) \<Rightarrow>
          (case get_row er_id k (db_reviews d) of
             None \<Rightarrow> Inl (HTTPException 422 ''La propuesta no pertenece a este comprobante.'')
           | Some rv \<Rightarrow>
               if er_evidence_id rv \<noteq> pe_id e then Inl (HTTPException 422 ''La propuesta no pertenece a este comprobante.'')
               else if er_status rv \<noteq> AT_COMPLETED
               then Inl (HTTPException 422 (''La propuesta no tiene una extracci'' @ o_acute @ ''n completada.''))
               else Inr (Some rv))
      | _ \<Rightarrow> Inr None)"

text \<open>\<open>InvalidReservationTransition\<close> is a \<open>ValueError\<close>.\<close>

definition as_conflict :: "app_error \<Rightarrow> app_error" where
  "as_conflict err = (case err of ValueError t \<Rightarrow> HTTPException 409 t
     | InvalidReservationTransition a b \<Rightarrow> HTTPException 409 (reservation_status_str a @ '' -> '' @ reservation_status_str b)
     | _ \<Rightarrow> err)"

record reviewed =
  rw_kind :: string
  rw_evidence :: evidence
  rw_reservation :: "reservation option"
  rw_missing_cop :: "int option"
  rw_blockers :: "blocker list"

definition decide_receipt ::
  "ucd \<Rightarrow> settings \<Rightarrow> string \<Rightarrow> review_body \<Rightarrow> string option \<Rightarrow> evidence_review option \<Rightarrow> blocker list \<Rightarrow>
   string option \<Rightarrow> evidence \<Rightarrow> db \<Rightarrow> (app_error, reviewed \<times> db) result" where
  "decide_receipt u st actor b reason proposal blks request_id e d =
     map_error as_conflict
       (case b of
          Accepting amount t _ \<Rightarrow>
            ebind (accept_payment u st e amount actor t request_id blks proposal d) (\<lambda>(res, e1, d1).
              Inr (\<lparr>rw_kind = settlement_kind_str (sr_kind res), rw_evidence = e1,
                    rw_reservation = sr_reservation res, rw_missing_cop = Some (sr_missing_cop res),
                    rw_blockers = sr_blockers res\<rparr>, d1))
        | Rejecting t _ \<Rightarrow>
            let e1 = e\<lparr>pe_customer_reason := reason\<rparr> in
            ebind (reject_payment e1 actor t request_id (put_evidence e1 d)) (\<lambda>(ro, e2, d1).
              Inr (\<lparr>rw_kind = ''REJECTED'', rw_evidence = e2, rw_reservation = ro, rw_missing_cop = None,
                    rw_blockers = []\<rparr>, d1)))"

definition settle_transaction ::
  "ucd \<Rightarrow> settings \<Rightarrow> agent \<Rightarrow> int \<Rightarrow> review_body \<Rightarrow> string option \<Rightarrow> blocker list \<Rightarrow> string option \<Rightarrow> db
   \<Rightarrow> (app_error, reviewed \<times> db) result" where
  "settle_transaction u st agent evidence_id b reason blks request_id d =
     (case get_row pe_id evidence_id (db_evidence d) of
        None \<Rightarrow> Inl (OtherError ''AttributeError'')
      | Some e \<Rightarrow>
          ebind (reviewable b e) (\<lambda>_.
            let e1 = e\<lparr>pe_reviewed_by_agent_id := Some (ag_id agent)\<rparr>; d1 = put_evidence e1 d in
            ebind (proposal_of b e1 d1) (\<lambda>proposal.
              decide_receipt u st (ag_name agent) b reason proposal blks request_id e1 d1)))"

definition review_note :: "review_body \<Rightarrow> string" where
  "review_note b = (case b of
       Accepting _ t _ \<Rightarrow> (case t of None \<Rightarrow> ''Comprobante aceptado por asesor''
         | Some s \<Rightarrow> if s = [] then ''Comprobante aceptado por asesor'' else s)
     | Rejecting t _ \<Rightarrow> if t = [] then ''Comprobante aceptado por asesor'' else t)"

definition reviewed_audit ::
  "agent \<Rightarrow> int \<Rightarrow> review_body \<Rightarrow> reviewed \<Rightarrow> string \<Rightarrow> string option \<Rightarrow> db \<Rightarrow> db" where
  "reviewed_audit agent evidence_id b rw notification request_id d =
     audit (ag_name agent) ''PAYMENT_EVIDENCE_REVIEWED'' ''payment_evidence''
       (Some (JObj [(''evidence_id'', JInt evidence_id), (''review_status'', JStr ''PENDING_REVIEW'')]))
       (Some (JObj [(''evidence_id'', JInt evidence_id),
          (''decision'', JStr (review_status_str (pe_review_status (rw_evidence rw)))), (''agent_id'', JInt (ag_id agent)),
          (''result'', JStr (rw_kind rw)), (''customer_notification'', JStr notification)]))
       (review_note b) request_id d"

text \<open>After the decision is committed: the calendar, the customer, the audit record, each in its own transaction.\<close>

definition after_decision ::
  "text_env \<Rightarrow> 'c calendar \<Rightarrow> settings \<Rightarrow> agent \<Rightarrow> int \<Rightarrow> review_body \<Rightarrow> reviewed \<Rightarrow> string option \<Rightarrow> (db \<Rightarrow> db) \<Rightarrow> db \<Rightarrow> 'c
   \<Rightarrow> (app_error, reviewed \<times> bool option \<times> string) result \<times> db \<times> 'c" where
  "after_decision te cal st agent evidence_id b rw request_id other d c =
     (case sync_if (rw_kind rw = ''RESERVED'') cal st
             (case rw_reservation rw of Some r \<Rightarrow> rv_id r | None \<Rightarrow> 0) other d c of
        (Inl err, d1, c1) \<Rightarrow> (Inl err, d1, c1)
      | (Inr synced, d1, c1) \<Rightarrow>
          (case notify_payment_after_commit te st evidence_id (rw_kind rw) request_id (other d1) of
             Inl err \<Rightarrow> (Inl err, other d1, c1)
           | Inr (notification, d2) \<Rightarrow>
               (Inr (rw, synced, notification), reviewed_audit agent evidence_id b rw notification request_id (other d2), c1)))"

definition settle_checks ::
  "ucd \<Rightarrow> settings \<Rightarrow> list_events \<Rightarrow> auth_provider \<Rightarrow> string option \<Rightarrow> int \<Rightarrow> review_body \<Rightarrow> db
   \<Rightarrow> (app_error, agent \<times> string option \<times> blocker list) result" where
  "settle_checks u st list_events au authorization evidence_id b d =
     ebind (guard (review_body_ok b) unprocessable) (\<lambda>_.
     ebind (authenticated_admin au authorization d) (\<lambda>agent.
       (case get_row pe_id evidence_id (db_evidence d) of
          None \<Rightarrow> Inl (HTTPException 404 ''El comprobante no existe.'')
        | Some e \<Rightarrow>
            ebind (guard (pe_review_status e = RW_PENDING_REVIEW) already_reviewed) (\<lambda>_.
            ebind (visible_reason u b e) (\<lambda>reason.
            ebind (reviewable b e) (\<lambda>_.
            ebind (calendar_blockers_for u st list_events b e d) (\<lambda>blks. Inr (agent, reason, blks))))))))"

definition settle_payment_evidence ::
  "text_env \<Rightarrow> 'c calendar \<Rightarrow> settings \<Rightarrow> list_events \<Rightarrow> auth_provider \<Rightarrow> string option \<Rightarrow> int \<Rightarrow> review_body \<Rightarrow>
   string option \<Rightarrow> (db \<Rightarrow> db) \<Rightarrow> db \<Rightarrow> 'c
   \<Rightarrow> (app_error, reviewed \<times> bool option \<times> string) result \<times> db \<times> 'c" where
  "settle_payment_evidence te cal st list_events au authorization evidence_id b request_id other d c =
     (case settle_checks (te_ucd te) st list_events au authorization evidence_id b d of
        Inl err \<Rightarrow> (Inl err, d, c)
      | Inr (agent, reason, blks) \<Rightarrow>
          (case request_or_fresh request_id (other d) of (rid, d1) \<Rightarrow>
             (case settle_transaction (te_ucd te) st agent evidence_id b reason blks (Some rid) d1 of
                Inl err \<Rightarrow> (Inl err, d1, c)
              | Inr (rw, d2) \<Rightarrow> after_decision te cal st agent evidence_id b rw (Some rid) other d2 c)))"

section \<open>Asking for the automatic review again\<close>

definition retry_payment_prereview ::
  "'w review_io \<Rightarrow> settings \<Rightarrow> auth_provider \<Rightarrow> string option \<Rightarrow> int \<Rightarrow> string option \<Rightarrow> (db \<Rightarrow> db) \<Rightarrow> db \<Rightarrow> 'w
   \<Rightarrow> (app_error, evidence_review option) result \<times> db \<times> 'w" where
  "retry_payment_prereview io st au authorization evidence_id request_id other d w =
     (let off = HTTPException 409 (''La pre-revisi'' @ o_acute @ ''n est'' @ a_acute @ '' desactivada.'') in
      case ebind (authenticated_admin au authorization d) (\<lambda>admin.
           ebind (guard (st_payment_review_ai_enabled st) off) (\<lambda>_.
             map_error (\<lambda>err. case err of PrereviewEvidenceNotFound \<Rightarrow> HTTPException 404 ''El comprobante no existe.''
                 | PrereviewConflict t \<Rightarrow> HTTPException 409 t | _ \<Rightarrow> err)
               (claim_prereview_evidence st (db_clock d) (Some evidence_id) d))) of
        Inl err \<Rightarrow> (Inl err, d, w)
      | Inr None \<Rightarrow> (Inl off, d, w)
      | Inr (Some (claim, d1)) \<Rightarrow>
          (case prereview_evidence io st claim request_id (db_clock d) other d1 w of
             (review, d2, w1) \<Rightarrow> (Inr review, d2, w1)))"

end
