(* ===== verification/Booking_Route_Facts.thy ===== *)
theory Booking_Route_Facts
  imports Booking_Routes Booking_Runs
begin

text \<open>
  The bookings with the staff at work: manual requests, rescheduling, cancelling and the review of receipts are steps
  beside those of Booking_Runs, and the invariants of the bookings hold in every database that these steps reach.
\<close>

section \<open>The transactions of the routes\<close>

lemma check_fresh_booking_D:
  assumes run: "check_fresh_booking u st p s e exclude d = Inr x"
    and q: "get_row pl_id (rv_plan_id b) (db_plans d) = Some q"
    and b: "b \<in> set (db_reservations d)" "rv_status b = RV_RESERVED" "exclude \<noteq> Some (rv_id b)"
    "overlaps s e (rv_starts_at b) (rv_ends_at b)"
  shows "\<not> plans_conflict p q"
proof -
  let ?rows = "filter (\<lambda>r. exclude = None \<or> Some (rv_id r) \<noteq> exclude) (reserved_between d s e)"
  from run obtain a where a: "evaluate_booking_availability u p s e [] (concat (map (plan_of d) ?rows))
      (st_booking_exclusivity_keyword st) = Inr a" "ba_available a"
    by (auto simp: check_fresh_booking_def ebind_Inr_iff)
  have "(b, q) \<in> set (concat (map (plan_of d) ?rows))"
    using b q by (auto simp: reserved_between_def overlaps_def plan_of_def intro!: bexI [of _ b])
  with evaluate_booking_InrD [OF a(1)] a(2) b show ?thesis by blast
qed

text \<open>A booking whose interval conflicts with no other one's may be written.\<close>

lemma moved_booking_keeps:
  assumes ok: "no_double_booking d" and res: "db_reservations d' = put_row rv_id r' (db_reservations d)"
    and plans: "db_plans d' = db_plans d"
    and free: "\<And>b p q. \<lbrakk>rv_status r' = RV_RESERVED; b \<in> set (db_reservations d); rv_id b \<noteq> rv_id r'; rv_status b = RV_RESERVED;
       overlaps (rv_starts_at r') (rv_ends_at r') (rv_starts_at b) (rv_ends_at b);
       get_row pl_id (rv_plan_id r') (db_plans d) = Some p;
       get_row pl_id (rv_plan_id b) (db_plans d) = Some q\<rbrakk> \<Longrightarrow> \<not> plans_conflict p q"
  shows "no_double_booking d'"
  unfolding no_double_booking_def
proof (intro ballI allI impI)
  fix a b p q
  assume ab: "a \<in> set (db_reservations d')" "b \<in> set (db_reservations d')"
    and h: "rv_id a \<noteq> rv_id b \<and> rv_status a = RV_RESERVED \<and> rv_status b = RV_RESERVED \<and>
     overlaps (rv_starts_at a) (rv_ends_at a) (rv_starts_at b) (rv_ends_at b) \<and>
     get_row pl_id (rv_plan_id a) (db_plans d') = Some p \<and>
     get_row pl_id (rv_plan_id b) (db_plans d') = Some q"
  consider "a = r'" "b \<in> set (db_reservations d)" | "b = r'" "a \<in> set (db_reservations d)"
    | "a \<in> set (db_reservations d)" "b \<in> set (db_reservations d)" | "a = r'" "b = r'"
    using ab unfolding res by (auto dest!: put_row_mem)
  then show "\<not> plans_conflict p q"
  proof cases
    case 1
    with free [of b p q] h plans show ?thesis by auto
  next
    case 2
    with free [of a q p] h plans show ?thesis
      by (auto simp: overlaps_sym [of "rv_starts_at a"] plans_conflict_sym [of p])
  next
    case 3
    with ok h plans show ?thesis unfolding no_double_booking_def by metis
  qed (use h in simp)
qed

lemma rescheduled_row_simps [simp]:
  "rv_id (rescheduled_row s e now r) = rv_id r" "rv_plan_id (rescheduled_row s e now r) = rv_plan_id r"
  "rv_status (rescheduled_row s e now r) = rv_status r" "rv_price_cop (rescheduled_row s e now r) = rv_price_cop r"
  "rv_amount_paid_cop (rescheduled_row s e now r) = rv_amount_paid_cop r"
  "rv_starts_at (rescheduled_row s e now r) = s" "rv_ends_at (rescheduled_row s e now r) = e"
  by (simp_all add: rescheduled_row_def Let_def)

lemma request_or_fresh_same:
  "request_or_fresh req d = (rid, d') \<Longrightarrow> db_reservations d' = db_reservations d \<and> db_evidence d' = db_evidence d \<and>
     db_plans d' = db_plans d \<and> db_customers d' = db_customers d \<and> db_conversations d' = db_conversations d \<and>
     db_audit d' = db_audit d \<and> db_clock d' = db_clock d"
  by (auto simp: request_or_fresh_def fresh_text_def uuid4_def split: option.splits if_splits)

lemma schedule_transaction_D:
  assumes "schedule_transaction u st actor k p s e req d = Inr (r', d')"
  obtains r where "get_row rv_id k (db_reservations d) = Some r" "rv_status r \<notin> {RV_EXPIRED, RV_CANCELLED}"
    "check_fresh_booking u st p s e (Some k) d = Inr ()" "r' = rescheduled_row s e (db_clock d) r" "reservation_ck r'"
    "db_reservations d' = put_row rv_id r' (db_reservations d)" "db_evidence d' = db_evidence d" "db_plans d' = db_plans d"
proof -
  from assms obtain r where r: "get_row rv_id k (db_reservations d) = Some r" and st: "rv_status r \<notin> {RV_EXPIRED, RV_CANCELLED}"
    by (auto simp: schedule_transaction_def split: option.split_asm if_split_asm)
  from assms r st obtain ev where fresh: "check_fresh_booking u st p s e (Some k) d = Inr ()"
    and ev: "get_row ev_id (rv_event_id r) (db_events d) = Some ev"
    by (auto simp: schedule_transaction_def ebind_Inr_iff split: option.split_asm if_split_asm)
  obtain rid d1 where rid: "request_or_fresh req (put_event (rescheduled_event s ev)
      (put_reservation (rescheduled_row s e (db_clock d) r) d)) = (rid, d1)" by fastforce
  from request_or_fresh_same [OF rid] assms r st fresh ev rid that show ?thesis
    by (auto simp: schedule_transaction_def Let_def ebind_Inr_iff put_event_def put_reservation_def audit_def audit_at_def)
qed

text \<open>The availability that the route checked outside its transaction was of the booking's own plan; the plan of a
  booking never changes.\<close>

lemma schedule_keeps:
  assumes ok: "bookings_ok st d" and r: "get_row rv_id k (db_reservations d) = Some r"
    and p: "get_row pl_id (rv_plan_id r) (db_plans d) = Some p"
    and run: "schedule_transaction u st actor k p s e req d = Inr (r', d')"
  shows "bookings_ok st d'"
  using run
proof (rule schedule_transaction_D)
  fix r0
  assume D: "get_row rv_id k (db_reservations d) = Some r0" "check_fresh_booking u st p s e (Some k) d = Inr ()"
    "r' = rescheduled_row s e (db_clock d) r0" "db_reservations d' = put_row rv_id r' (db_reservations d)"
    "db_evidence d' = db_evidence d" "db_plans d' = db_plans d"
  with r have r': "r' = rescheduled_row s e (db_clock d) r" by simp
  have id: "rv_id r' = k" "r \<in> set (db_reservations d)"
    using get_row_SomeD [OF r] by (simp_all add: r')
  have "no_double_booking d'"
  proof (rule moved_booking_keeps [OF _ D(4,6)])
    show "no_double_booking d" using ok by (simp add: bookings_ok_def)
    show "\<not> plans_conflict p1 q" if "b \<in> set (db_reservations d)" "rv_id b \<noteq> rv_id r'" "rv_status b = RV_RESERVED"
      "overlaps (rv_starts_at r') (rv_ends_at r') (rv_starts_at b) (rv_ends_at b)"
      "get_row pl_id (rv_plan_id r') (db_plans d) = Some p1" "get_row pl_id (rv_plan_id b) (db_plans d) = Some q" for b p1 q
      using check_fresh_booking_D [OF D(2) that(6,1,3)] that id p by (simp add: r')
  qed
  moreover have "deposits_covered st d'"
    using ok id(2) by (intro deposits_covered_write [OF _ D(4)]) (auto simp: bookings_ok_def deposits_covered_def r')
  moreover have row: "get_row rv_id (rv_id r') (db_reservations d) = Some r" using r id by simp
  have "ledger_ok d'"
    using ok by (intro ledger_write [OF _ D(4) row, where a = 0]) (simp_all add: bookings_ok_def credited_def D(5) r')
  moreover have "keys_ok rv_id (db_reservations d')" using ok by (simp add: D(4) bookings_ok_def)
  ultimately show ?thesis using ok D(5) by (simp add: bookings_ok_def)
qed

lemma cancel_keeps:
  assumes ok: "bookings_ok st d" and run: "cancel_transaction actor k reason req d = Inr (release, r', d')"
  shows "bookings_ok st d' \<and> rv_status r' = RV_CANCELLED"
proof -
  obtain rid d1 where rid: "request_or_fresh req d = (rid, d1)" by fastforce
  note same = request_or_fresh_same [OF rid]
  from run rid obtain r where r: "get_row rv_id k (db_reservations d) = Some r"
    and t: "transition_reservation r RV_CANCELLED actor reason (Some rid) d1 = Inr (r', d')"
    by (auto simp: cancel_transaction_def ebind_Inr_iff map_error_def split: option.split_asm sum.split_asm)
  note D = transition_reservation_InrD [OF t]
  have id: "rv_id r = k" using get_row_SomeD [OF r] by simp
  show ?thesis
    using D same ok id r
    by (intro conjI unconfirmed_write_keeps [OF ok, of r' r]) (auto simp: credited_def bookings_ok_def)
qed

lemma manual_keeps:
  assumes ok: "bookings_ok st d" and run: "manual_transaction u st actor m p s e req d = Inr (r, d')"
    and new: "rv_id r \<notin> rv_id ` set (db_reservations d)" "Some (rv_id r) \<notin> pe_reservation_id ` set (db_evidence d)"
  shows "bookings_ok st d'"
proof -
  obtain cu d1 where 1: "customer_by_phone (plus_phone (mr_phone m)) (mr_full_name m) d = (cu, d1)" by fastforce
  obtain l d2 where 2: "add_lead (cu_id cu) d1 = (l, d2)" by fastforce
  obtain ev d3 where 3: "add_event (ld_id l) (Some (pl_event_type p)) d2 = (ev, d3)" by fastforce
  obtain rid d4 where 4: "request_or_fresh req d3 = (rid, d4)" by fastforce
  have d4: "db_reservations d4 = db_reservations d" "db_evidence d4 = db_evidence d" "db_plans d4 = db_plans d"
    using 1 2 3 request_or_fresh_same [OF 4]
    by (auto simp: customer_by_phone_def next_serial_def add_lead_def add_event_def uuid4_def Let_def split: option.split_asm)
  from run obtain ev' d5 where
    c: "create_pending_reservation (ld_id l) ev p (latest_conversation (cu_id cu) d1) cu (mr_starts_at m) actor (Some rid) st d4
         = Inr (r, ev', d5)" and d': "d' = record_booking_note actor r (mr_note m) req d5"
    by (auto simp: manual_transaction_def ebind_Inr_iff 1 2 3 4 Let_def)
  have ok4: "bookings_ok st d4"
    using ok by (intro same_tables_keep [OF ok]) (auto simp: d4 credited_def bookings_ok_def)
  have ok5: "bookings_ok st d5" using request_keeps [OF ok4 c] new by (simp add: d4)
  obtain rid2 d6 where 6: "request_or_fresh req d5 = (rid2, d6)" by fastforce
  have "db_reservations d' = db_reservations d5" "db_evidence d' = db_evidence d5" "db_plans d' = db_plans d5"
    using request_or_fresh_same [OF 6]
    by (auto simp: d' record_booking_note_def 6 audit_def audit_at_def split: option.split)
  with ok5 show ?thesis by (intro same_tables_keep [OF ok5]) (auto simp: credited_def bookings_ok_def)
qed

text \<open>A receipt may be written as long as what decides its credit stays.\<close>

lemma evidence_write_keeps:
  assumes ok: "bookings_ok st d" and e: "get_row pe_id (pe_id e) (db_evidence d) = Some e"
    and e': "pe_id e' = pe_id e" "pe_review_status e = RW_PENDING_REVIEW" "pe_review_status e' = RW_PENDING_REVIEW"
  shows "bookings_ok st (put_evidence e' d) \<and> get_row pe_id (pe_id e') (db_evidence (put_evidence e' d)) = Some e'"
proof -
  have keys: "keys_ok pe_id (db_evidence d)" using ok by (simp add: bookings_ok_def)
  have "credited k (put_evidence e' d) = credited k d" for k
    using credited_put [of d e' e "put_evidence e' d"] keys e e' by (simp add: put_evidence_def credit_unreviewed)
  then show ?thesis
    using keys e e' by (intro conjI same_tables_keep [OF ok]) (simp_all add: put_evidence_def get_put_row)
qed

lemma settle_transaction_keeps:
  assumes ok: "bookings_ok st d" and run: "settle_transaction u st agent k b reason blks req d = Inr (rw, d')"
  shows "bookings_ok st d'"
proof -
  from run obtain e where e: "get_row pe_id k (db_evidence d) = Some e" and rev: "reviewable b e = Inr ()"
    by (auto simp: settle_transaction_def ebind_Inr_iff split: option.split_asm)
  let ?e1 = "e\<lparr>pe_reviewed_by_agent_id := Some (ag_id agent)\<rparr>" and ?d1 = "put_evidence (e\<lparr>pe_reviewed_by_agent_id := Some (ag_id agent)\<rparr>) d"
  from run e rev obtain proposal where
    dec: "decide_receipt u st (ag_name agent) b reason proposal blks req ?e1 ?d1 = Inr (rw, d')"
    by (auto simp: settle_transaction_def ebind_Inr_iff Let_def)
  have id: "pe_id e = k" using get_row_SomeD [OF e] by simp
  have pending: "pe_review_status e = RW_PENDING_REVIEW" using rev by (auto simp: reviewable_def split: if_split_asm)
  have ok1: "bookings_ok st ?d1" and e1: "get_row pe_id (pe_id ?e1) (db_evidence ?d1) = Some ?e1"
    using evidence_write_keeps [OF ok, of e ?e1] e id pending by simp_all
  show ?thesis
  proof (cases b)
    case (Accepting a t x)
    with dec obtain res e2 where "accept_payment u st ?e1 a (ag_name agent) t req blks proposal ?d1 = Inr (res, e2, d')"
      by (auto simp: decide_receipt_def map_error_def ebind_Inr_iff split: sum.split_asm)
    from accept_keeps_bookings [OF ok1 e1 this] show ?thesis .
  next
    case (Rejecting t x)
    let ?e2 = "?e1\<lparr>pe_customer_reason := reason\<rparr>"
    from Rejecting dec obtain ro e3 where
      run: "reject_payment ?e2 (ag_name agent) t req (put_evidence ?e2 ?d1) = Inr (ro, e3, d')"
      by (auto simp: decide_receipt_def map_error_def ebind_Inr_iff Let_def split: sum.split_asm)
    have ok2: "bookings_ok st (put_evidence ?e2 ?d1)"
      and e2: "get_row pe_id (pe_id ?e2) (db_evidence (put_evidence ?e2 ?d1)) = Some ?e2"
      using evidence_write_keeps [OF ok1 e1, of ?e2] pending by simp_all
    show ?thesis by (rule reject_keeps_bookings [OF ok2 e2 run])
  qed
qed

section \<open>Steps\<close>

inductive desk_step :: "'c calendar \<Rightarrow> ucd \<Rightarrow> settings \<Rightarrow> db \<Rightarrow> db \<Rightarrow> bool" for cal u st where
  booking: "booking_step cal u st d d' \<Longrightarrow> desk_step cal u st d d'"
| manual: "manual_transaction u st actor m p s e req d = Inr (r, d') \<Longrightarrow>
    rv_id r \<notin> rv_id ` set (db_reservations d) \<Longrightarrow>
    Some (rv_id r) \<notin> pe_reservation_id ` set (db_evidence d) \<Longrightarrow> desk_step cal u st d d'"
| schedule: "get_row rv_id k (db_reservations d) = Some r \<Longrightarrow> get_row pl_id (rv_plan_id r) (db_plans d) = Some p \<Longrightarrow>
    schedule_transaction u st actor k p s e req d = Inr (r', d') \<Longrightarrow> desk_step cal u st d d'"
| cancel: "cancel_transaction actor k reason req d = Inr (release, r', d') \<Longrightarrow> desk_step cal u st d d'"
| decide: "settle_transaction u st agent k b reason blks req d = Inr (rw, d') \<Longrightarrow> desk_step cal u st d d'"

lemma desk_step_keeps: "desk_step cal u st d d' \<Longrightarrow> bookings_ok st d \<Longrightarrow> bookings_ok st d'"
  by (induction rule: desk_step.induct)
    (blast intro: step_keeps manual_keeps schedule_keeps settle_transaction_keeps dest: cancel_keeps)+

lemma desk_run_keeps: "(desk_step cal u st)\<^sup>*\<^sup>* d d' \<Longrightarrow> bookings_ok st d \<Longrightarrow> bookings_ok st d'"
  by (induction rule: rtranclp_induct) (blast intro: desk_step_keeps)+

section \<open>Properties\<close>

text \<open>C1. However the customers' requests and receipts, the staff's manual requests, moves, cancellations and decisions,
  the expirations and the calendar synchronizations interleave: no two confirmed bookings whose plans conflict overlap,
  every confirmed booking has its deposit paid, and what a booking counts as paid is what its accepted receipts credit.\<close>

theorem desk_keeps_bookings_sound:
  assumes "(desk_step cal u st)\<^sup>*\<^sup>* d d'" and "bookings_ok st d"
  shows "no_double_booking d' \<and> deposits_covered st d' \<and> ledger_ok d'"
  using desk_run_keeps [OF assms] by (simp add: bookings_ok_def)

lemma sample_move:
  "\<exists>r d'. schedule_transaction ascii_ucd sample_settings ''asesor'' 51 sample_plan (sample_start + days 1)
     (sample_start + days 1 + minutes 180) (Some ''req'') sample_db = Inr (r, d') \<and> rv_starts_at r = sample_start + days 1"
  using sample_keyword
  apply (simp add: schedule_transaction_def get_row_Cons sample_reservation_def check_fresh_booking_def reserved_between_def
    evaluate_booking_availability_def Let_def calendar_blockers_def sample_settings_def sample_event_def)
  apply (simp add: rescheduled_row_def request_or_fresh_def Let_def reservation_ck_def minutes_def us_defs)
  done

lemma desk_keeps_bookings_sound_witness:
  "\<exists>r d'. schedule_transaction ascii_ucd sample_settings ''asesor'' 51 sample_plan (sample_start + days 1)
     (sample_start + days 1 + minutes 180) (Some ''req'') sample_db = Inr (r, d') \<and>
     rv_starts_at r = sample_start + days 1 \<and> no_double_booking d' \<and> ledger_ok d'"
proof -
  obtain r d' where run: "schedule_transaction ascii_ucd sample_settings ''asesor'' 51 sample_plan (sample_start + days 1)
     (sample_start + days 1 + minutes 180) (Some ''req'') sample_db = Inr (r, d')" and s: "rv_starts_at r = sample_start + days 1"
    using sample_move by blast
  have "desk_step fake_calendar_adapter ascii_ucd sample_settings sample_db d'"
    by (rule desk_step.schedule [OF _ _ run, where r = sample_reservation]) (simp_all add: get_row_Cons sample_rows)
  then have "(desk_step fake_calendar_adapter ascii_ucd sample_settings)\<^sup>*\<^sup>* sample_db d'" by auto
  from desk_keeps_bookings_sound [OF this sample_bookings_ok] run s show ?thesis by blast
qed

end
