(* ===== verification/Template_Facts.thy ===== *)
theory Template_Facts
  imports Templates
begin

text \<open>
  What the customer can be told: a text leaves only as the rendering of the latest version of an approved answer, bank
  data come only from the settings, reasons only from the sanitized ones, and queueing an answer adds one row or none.
\<close>

section \<open>Rendering\<close>

lemma get_latest_response_D:
  assumes "get_latest_response code d = Some e"
  shows "e \<in> set (db_knowledge d)" "ke_code e = code"
    "\<forall>e' \<in> set (db_knowledge d). ke_code e' = code \<longrightarrow> ke_version e' \<le> ke_version e"
proof -
  have mem: "e \<in> set (filter (\<lambda>e. ke_code e = code) (db_knowledge d))"
    using assms unfolding get_latest_response_def by (rule first_by_SomeD)
  then show "e \<in> set (db_knowledge d)" "ke_code e = code" by simp_all
  have "\<not> later_version e' e" if "e' \<in> set (filter (\<lambda>e. ke_code e = code) (db_knowledge d))" for e'
    by (rule first_by_least [OF _ _ _ assms [unfolded get_latest_response_def] that]) (auto simp: later_version_def)
  then show "\<forall>e' \<in> set (db_knowledge d). ke_code e' = code \<longrightarrow> ke_version e' \<le> ke_version e"
    by (auto simp: later_version_def not_less)
qed

definition approved_rendering ::
  "text_env \<Rightarrow> string \<Rightarrow> (string \<times> tval) list \<Rightarrow> db \<Rightarrow> string \<Rightarrow> bool" where
  "approved_rendering te code vars d body \<longleftrightarrow>
     (\<exists>e \<in> set (db_knowledge d). \<exists>segs shown. ke_code e = code \<and> ke_status e = ''APPROVED'' \<and>
        (\<forall>e' \<in> set (db_knowledge d). ke_code e' = code \<longrightarrow> ke_version e' \<le> ke_version e) \<and>
        parse_template (ke_answer_template e) = Some segs \<and>
        fst ` set vars \<subseteq> set (ke_allowed_variables e) \<and> set (field_names segs) \<subseteq> fst ` set vars \<and>
        present_variables (te_ucd te) vars = Some shown \<and> format_segments te shown segs = Inr body)"

lemma missing_value_absent: "\<not> missing_value vars k \<Longrightarrow> k \<in> fst ` set vars"
  by (auto simp: missing_value_def split: option.split_asm dest!: map_of_SomeD intro: rev_image_eqI)

lemma render_response_D:
  assumes run: "render_response te code vars d = Inr body"
  shows "approved_rendering te code vars d body"
proof -
  from run obtain e where e: "get_latest_response code d = Some e" and approved: "ke_status e = ''APPROVED''"
    by (auto simp: render_response_def split: option.split_asm if_split_asm)
  from run e approved obtain required where req: "variables_in_template (ke_answer_template e) = Inr required"
    and given: "\<not> list_ex (missing_value vars) required" and allowed: "\<not> list_ex (\<lambda>(k, _). k \<notin> set (ke_allowed_variables e)) vars"
    by (auto simp: render_response_def ebind_Inr_iff split: if_split_asm)
  from req obtain segs where segs: "parse_template (ke_answer_template e) = Some segs" and names: "required = remdups (field_names segs)"
    by (auto simp: variables_in_template_def split: option.split_asm)
  from run e approved req given allowed segs obtain shown where
    "present_variables (te_ucd te) vars = Some shown" "format_segments te shown segs = Inr body"
    by (auto simp: render_response_def ebind_Inr_iff split: option.split_asm)
  moreover have "fst ` set vars \<subseteq> set (ke_allowed_variables e)" using allowed by (auto simp: list_ex_iff)
  moreover have "set (field_names segs) \<subseteq> fst ` set vars"
    using given missing_value_absent unfolding names by (force simp: list_ex_iff)
  ultimately show ?thesis using get_latest_response_D [OF e] approved segs unfolding approved_rendering_def by blast
qed

section \<open>The values\<close>

lemma present_variables_map:
  "present_variables u vars = Some shown \<Longrightarrow> map_of shown k = Some s \<Longrightarrow>
     \<exists>v present. map_of vars k = Some v \<and> map_of (variable_presenters u) k = Some present \<and> present v = Some s"
  by (induction u vars arbitrary: shown rule: present_variables.induct)
    (auto simp: bind_eq_Some_conv split: option.split_asm if_split_asm)

definition bank_fields :: "(string \<times> (settings \<Rightarrow> string)) list" where
  "bank_fields = [(''bank_name'', st_booking_bank_name), (''account_type'', st_booking_account_type),
     (''account_number'', st_booking_account_number), (''account_holder'', st_booking_account_holder),
     (''breb_key'', st_bank_breb_key)]"

lemma bank_presenters:
  "map_of (variable_presenters u) ''bank_name'' = Some (present_bank st_booking_bank_name)"
  "map_of (variable_presenters u) ''account_type'' = Some (present_bank st_booking_account_type)"
  "map_of (variable_presenters u) ''account_number'' = Some (present_bank st_booking_account_number)"
  "map_of (variable_presenters u) ''account_holder'' = Some (present_bank st_booking_account_holder)"
  "map_of (variable_presenters u) ''breb_key'' = Some (present_bank st_bank_breb_key)"
  "map_of (variable_presenters u) ''rejection_reason_customer_safe'' = Some present_customer_reason"
  unfolding variable_presenters_def by simp_all

lemma bank_presenter:
  "(k, field) \<in> set bank_fields \<Longrightarrow> map_of (variable_presenters u) k = Some (present_bank field)"
  unfolding bank_fields_def list.set insert_iff empty_iff prod.inject
  by (elim disjE conjE FalseE) (simp_all only: bank_presenters)

lemma present_bank_D: "present_bank field v = Some s \<Longrightarrow> \<exists>st. v = TSettings st \<and> s = join_cps (field st)"
  by (cases v) (auto simp: present_bank_def normalized_text_def split: if_split_asm)

lemma present_customer_reason_D: "present_customer_reason v = Some s \<Longrightarrow> v = TReason s"
  by (cases v) (auto simp: present_customer_reason_def)

section \<open>Queueing\<close>

lemma queue_text_D:
  assumes "queue_text nc code rendered body c cu m d = Inr (c', d')"
  shows "c' = c\<lparr>cv_last_question_code := Some code\<rparr>"
    "db_conversations d' = put_row cv_id c' (db_conversations d)"
    "db_handoffs d' = db_handoffs d" "db_evidence d' = db_evidence d" "db_reservations d' = db_reservations d"
    "\<exists>context_value. output_context nc rendered c' = Inr context_value \<and>
       db_outbox d' = db_outbox d @ [text_output (db_seq d) c' cu m body context_value (db_clock d)]"
  using assms by (auto simp: queue_text_def Let_def add_output_def next_serial_def put_conversation_def split: sum.split_asm)

lemma queue_text_Inl:
  "queue_text nc code rendered body c cu m d = Inl (e, d') \<Longrightarrow>
     d' = put_conversation (c\<lparr>cv_last_question_code := Some code\<rparr>) d"
  by (auto simp: queue_text_def Let_def split: sum.split_asm)

lemma audit_render_failure_frame:
  "db_conversations (audit_render_failure code reason c req d) = db_conversations d"
  "db_handoffs (audit_render_failure code reason c req d) = db_handoffs d"
  "db_evidence (audit_render_failure code reason c req d) = db_evidence d"
  "db_reservations (audit_render_failure code reason c req d) = db_reservations d"
  "db_outbox (audit_render_failure code reason c req d) = db_outbox d"
  "db_knowledge (audit_render_failure code reason c req d) = db_knowledge d"
  "db_clock (audit_render_failure code reason c req d) = db_clock d"
  "\<exists>a. db_audit (audit_render_failure code reason c req d) = db_audit d @ [a]"
  by (simp_all add: audit_render_failure_def audit_def audit_at_def)

lemma enqueue_template_cases:
  assumes "enqueue_template te strict nc code vars c cu m req d = Inr (c', d')"
  obtains body where "render_response te code vars d = Inr body" "queue_text nc code code body c cu m d = Inr (c', d')"
  | reason body where "\<not> strict" "render_response te code vars d = Inl (KnowledgeRenderError reason)"
      "render_response te ''RESP-AI-ERROR-001'' [] (audit_render_failure code reason c req d) = Inr body"
      "queue_text nc code ''RESP-AI-ERROR-001'' body c cu m (audit_render_failure code reason c req d) = Inr (c', d')"
  using assms
  by (auto simp: enqueue_template_def Let_def split: sum.split_asm app_error.split_asm if_split_asm)

lemma enqueue_template_frame:
  assumes "enqueue_template te strict nc code vars c cu m req d = Inr (c', d')"
  shows "c' = c\<lparr>cv_last_question_code := Some code\<rparr> \<and> db_conversations d' = put_row cv_id c' (db_conversations d) \<and>
    db_handoffs d' = db_handoffs d \<and> db_evidence d' = db_evidence d \<and> db_reservations d' = db_reservations d"
  using assms
proof (cases rule: enqueue_template_cases)
  case (1 body)
  from queue_text_D [OF 1(2)] show ?thesis by simp
next
  case (2 reason body)
  from queue_text_D [OF 2(4)] show ?thesis by (simp add: audit_render_failure_frame)
qed

lemma enqueue_template_failed:
  assumes "enqueue_template te True nc code vars c cu m req d = Inl (KnowledgeRenderError reason, d')"
  shows "d' = audit_render_failure code reason c req d"
  using assms
  by (auto simp: enqueue_template_def Let_def queue_text_def output_context_def handoff_context_def ebind_def automatic_context_def
      split: sum.split_asm app_error.split_asm if_split_asm option.split_asm)

lemma approved_rendering_audit:
  "approved_rendering te code vars (audit_render_failure a b c req d) body = approved_rendering te code vars d body"
  by (simp add: approved_rendering_def audit_render_failure_frame)

section \<open>Properties\<close>

text \<open>C24. A text that was rendered is the latest version of its answer, which is approved; every variable given is allowed
  for it and every variable of the template is given. Whatever the caller passes, the bank data in it are those of the
  settings and a reason for a rejection is one that was sanitized.\<close>

theorem rendered_text_is_approved:
  assumes "render_response te code vars d = Inr body"
  shows "approved_rendering te code vars d body \<and>
    (\<forall>shown k s. present_variables (te_ucd te) vars = Some shown \<and> map_of shown k = Some s \<longrightarrow>
       (\<forall>field. (k, field) \<in> set bank_fields \<longrightarrow> (\<exists>st. map_of vars k = Some (TSettings st) \<and> s = join_cps (field st))) \<and>
       (k = ''rejection_reason_customer_safe'' \<longrightarrow> map_of vars k = Some (TReason s)))"
proof (intro conjI allI impI)
  show "approved_rendering te code vars d body" by (rule render_response_D [OF assms])
next
  fix shown k s field
  assume h: "present_variables (te_ucd te) vars = Some shown \<and> map_of shown k = Some s"
  from present_variables_map [OF h [THEN conjunct1] h [THEN conjunct2]] obtain v present where
    v: "map_of vars k = Some v" "map_of (variable_presenters (te_ucd te)) k = Some present" "present v = Some s" by blast
  {
    assume "(k, field) \<in> set bank_fields"
    from v bank_presenter [OF this] show "\<exists>st. map_of vars k = Some (TSettings st) \<and> s = join_cps (field st)"
      by (auto dest: present_bank_D)
  next
    assume "k = ''rejection_reason_customer_safe''"
    with v bank_presenters(6) show "map_of vars k = Some (TReason s)" by (auto dest: present_customer_reason_D)
  }
qed

definition sample_texts :: text_env where
  "sample_texts = \<lparr>te_ucd = ascii_ucd, te_format = (\<lambda>_ _ _ _. None)\<rparr>"

definition sample_answer :: knowledge_entry where
  "sample_answer = \<lparr>ke_code = ''RESP-BANK'', ke_version = 2, ke_status = ''APPROVED'',
     ke_answer_template = ''Cuenta {account_number}'', ke_allowed_variables = [''account_number'']\<rparr>"

definition bank_db :: db where
  "bank_db = sample_db\<lparr>db_knowledge := [sample_answer\<lparr>ke_version := 1, ke_status := ''DRAFT''\<rparr>, sample_answer]\<rparr>"

lemma parse_sample: "parse_template ''Cuenta {account_number}'' =
    Some (map Chr ''Cuenta '' @ [Field ''account_number'' None []])"
  by (simp add: parse_field_def)

lemma latest_sample: "get_latest_response ''RESP-BANK'' bank_db = Some sample_answer"
  by (simp add: get_latest_response_def bank_db_def sample_answer_def later_version_def)

lemma shown_sample:
  "present_variables ascii_ucd [(''account_number'', TSettings sample_settings)] = Some [(''account_number'', ''123456789'')]"
  by (simp add: bank_presenters present_bank_def normalized_text_def join_cps_def collapse_def sample_settings_def
      ascii_eval strip_def strip_cps_def utf8_encode_def utf8_encode1_def) code_simp

lemma render_sample:
  "render_response sample_texts ''RESP-BANK'' [(''account_number'', TSettings sample_settings)] bank_db =
     Inr ''Cuenta 123456789''"
  by (simp add: render_response_def latest_sample sample_texts_def shown_sample del: parse_template.simps present_variables.simps)
    (simp add: sample_answer_def variables_in_template_def parse_sample field_names_def missing_value_def
      shown_sample del: parse_template.simps present_variables.simps)

lemma rendered_text_is_approved_witness:
  "approved_rendering sample_texts ''RESP-BANK'' [(''account_number'', TSettings sample_settings)] bank_db ''Cuenta 123456789''"
  using rendered_text_is_approved [OF render_sample] by simp

text \<open>C25. Queueing an answer that must be approved adds exactly one text, the approved rendering, to the customer's
  number; if it cannot be rendered nothing is added, and the failure is recorded. Where a replacement is allowed, the
  text added is the approved rendering or the approved text for errors.\<close>

theorem queued_text_is_approved:
  assumes "enqueue_template te strict nc code vars c cu m req d = res"
  shows "(\<forall>c' d'. res = Inr (c', d') \<longrightarrow>
      (\<exists>k body context_value. db_outbox d' = db_outbox d @ [text_output k c' cu m body context_value (db_clock d)] \<and>
         (approved_rendering te code vars d body \<or>
          \<not> strict \<and> approved_rendering te ''RESP-AI-ERROR-001'' [] d body))) \<and>
    (\<forall>reason d'. strict \<and> res = Inl (KnowledgeRenderError reason, d') \<longrightarrow>
      db_outbox d' = db_outbox d \<and> db_conversations d' = db_conversations d \<and> (\<exists>a. db_audit d' = db_audit d @ [a]))"
proof (intro conjI allI impI)
  fix c' d' assume "res = Inr (c', d')"
  with assms have run: "enqueue_template te strict nc code vars c cu m req d = Inr (c', d')" by simp
  then show "\<exists>k body context_value. db_outbox d' = db_outbox d @ [text_output k c' cu m body context_value (db_clock d)] \<and>
         (approved_rendering te code vars d body \<or> \<not> strict \<and> approved_rendering te ''RESP-AI-ERROR-001'' [] d body)"
  proof (cases rule: enqueue_template_cases)
    case (1 body)
    from queue_text_D(6) [OF 1(2)] render_response_D [OF 1(1)] show ?thesis by blast
  next
    case (2 reason body)
    from queue_text_D(6) [OF 2(4)] render_response_D [OF 2(3)] 2(1) show ?thesis
      unfolding approved_rendering_audit by (auto simp: audit_render_failure_frame)
  qed
next
  fix reason d' assume "strict \<and> res = Inl (KnowledgeRenderError reason, d')"
  with assms have "enqueue_template te True nc code vars c cu m req d = Inl (KnowledgeRenderError reason, d')" by auto
  from enqueue_template_failed [OF this] show "db_outbox d' = db_outbox d" "db_conversations d' = db_conversations d"
    "\<exists>a. db_audit d' = db_audit d @ [a]" by (simp_all add: audit_render_failure_frame)
qed

definition incoming :: message where
  "incoming = \<lparr>ms_id = 71, ms_external_message_id = ''wamid.9'', ms_conversation_id = 1, ms_customer_id = 1,
     ms_direction = ''INBOUND'', ms_message_type = ''text'', ms_content = JObj [], ms_provider_timestamp = None\<rparr>"

lemma enqueue_sample:
  "\<exists>c' d'. enqueue_template sample_texts True no_notice ''RESP-BANK'' [(''account_number'', TSettings sample_settings)]
     sample_conversation sample_customer incoming None bank_db = Inr (c', d')"
  by (simp add: enqueue_template_def render_sample queue_text_def Let_def output_context_def no_notice_def)

lemma queued_text_is_approved_witness:
  "\<exists>c' d' k body v. enqueue_template sample_texts True no_notice ''RESP-BANK'' [(''account_number'', TSettings sample_settings)]
     sample_conversation sample_customer incoming None bank_db = Inr (c', d') \<and>
     db_outbox d' = db_outbox bank_db @ [text_output k c' sample_customer incoming body v sample_now] \<and>
     approved_rendering sample_texts ''RESP-BANK'' [(''account_number'', TSettings sample_settings)] bank_db body"
proof -
  obtain c' d' where run: "enqueue_template sample_texts True no_notice ''RESP-BANK''
      [(''account_number'', TSettings sample_settings)] sample_conversation sample_customer incoming None bank_db = Inr (c', d')"
    using enqueue_sample by blast
  have "db_clock bank_db = sample_now" by (simp add: bank_db_def)
  with queued_text_is_approved [OF refl, of sample_texts True no_notice "''RESP-BANK''"
      "[(''account_number'', TSettings sample_settings)]" sample_conversation sample_customer incoming None bank_db]
    run show ?thesis by auto
qed

end
