(* ===== verification/Notice_Facts.thy ===== *)
theory Notice_Facts
  imports Template_Facts Payment_Notices
begin

text \<open>
  What the notice of a payment decision does to the cases of a conversation. The notice of a conflict opens a case
  for a person in a conversation that a person may already attend; the facts show the state this leaves.
\<close>

section \<open>A case that nobody can attend\<close>

text \<open>The only open case waits to be taken, while the conversation still names an adviser.\<close>

definition stranded :: "db \<Rightarrow> int \<Rightarrow> handoff \<Rightarrow> bool" where
  "stranded d k h \<longleftrightarrow> (\<exists>c. get_row cv_id k (db_conversations d) = Some c \<and> cv_state c = WAITING_FOR_HUMAN \<and>
     cv_assigned_agent_id c \<noteq> None \<and> open_of k (db_handoffs d) = [h] \<and> ho_status h = HO_PENDING \<and>
     get_row ho_id (ho_id h) (db_handoffs d) = Some h)"

lemma open_of_single: "open_of k rows = [h] \<Longrightarrow> h \<in> set rows \<and> ho_conversation_id h = k"
proof -
  assume "open_of k rows = [h]"
  then have "h \<in> set (open_of k rows)" by simp
  then show ?thesis by (simp add: open_of_def)
qed

lemma stranded_lock:
  assumes "stranded d k h"
  obtains c where "lock_human_case (Some k) None d = Inr (c, [h])" "lock_human_case None (Some (ho_id h)) d = Inr (c, [h])"
    "cv_state c = WAITING_FOR_HUMAN" "cv_assigned_agent_id c \<noteq> None"
proof -
  from assms obtain c where c: "get_row cv_id k (db_conversations d) = Some c" "cv_state c = WAITING_FOR_HUMAN"
      "cv_assigned_agent_id c \<noteq> None"
    and h: "open_of k (db_handoffs d) = [h]" "get_row ho_id (ho_id h) (db_handoffs d) = Some h"
    unfolding stranded_def by blast
  have id: "cv_id c = k" using get_row_SomeD [OF c(1)] by simp
  have cases: "order_by (\<lambda>a b. ho_id a < ho_id b) (open_cases c d) = [h]"
    by (simp add: open_cases_of id h(1) order_by_def)
  have "ho_conversation_id h = k" using open_of_single [OF h(1)] by simp
  then show ?thesis using that [of c] c h id cases by (simp add: lock_human_case_def Let_def)
qed

lemma session_refused: "ebind (require_session au authorization d) (\<lambda>agent. Inl e) \<noteq> Inr x"
  by (simp add: ebind_def split: sum.split)

lemma stranded_refused:
  assumes "stranded d k h"
  shows "take_handoff au auth (ho_id h) d \<noteq> Inr x" "take_conversation au auth k d \<noteq> Inr x"
    "return_handoff au auth (ho_id h) text d \<noteq> Inr x" "create_agent_message au auth k text d \<noteq> Inr y"
    "reassign_conversation au auth k target d \<noteq> Inr x"
  using assms
proof (rule_tac [!] stranded_lock)
  fix c
  assume c: "lock_human_case (Some k) None d = Inr (c, [h])" "lock_human_case None (Some (ho_id h)) d = Inr (c, [h])"
    "cv_state c = WAITING_FOR_HUMAN" "cv_assigned_agent_id c \<noteq> None"
  {
    show "take_handoff au auth (ho_id h) d \<noteq> Inr x"
      by (simp add: take_handoff_def ebind_Inr_iff c require_pending_case_def)
  next
    show "take_conversation au auth k d \<noteq> Inr x"
      by (auto simp: take_conversation_def ebind_Inr_iff c direct_take_refusal_def split: option.splits)
  next
    show "return_handoff au auth (ho_id h) text d \<noteq> Inr x"
      by (simp add: return_handoff_def ebind_Inr_iff c require_case_owner_def require_owned_case_def)
  next
    show "create_agent_message au auth k text d \<noteq> Inr y"
      by (simp add: create_agent_message_def ebind_Inr_iff c require_case_owner_def require_owned_case_def)
  next
    show "reassign_conversation au auth k target d \<noteq> Inr x"
      by (simp add: reassign_conversation_def ebind_Inr_iff c require_owned_case_def)
  }
qed

section \<open>The notice of a conflict\<close>

lemma create_handoff_evidence:
  "create_handoff c cu reason priority req st detail limit d = Inr (h, code, c', d') \<Longrightarrow> db_evidence d' = db_evidence d"
  by (auto simp: create_handoff_def Let_def set_pending_wait ebind_Inr_iff next_serial_def add_handoff_def audit_def audit_at_def
      put_conversation_def split: if_split_asm dest!: transition_conversation_InrD)

lemma resolve_payment_case_frame:
  "db_conversations (resolve_payment_case e r req h d) = db_conversations d"
  "db_evidence (resolve_payment_case e r req h d) = db_evidence d"
  "db_handoffs (resolve_payment_case e r req h d) =
     put_row ho_id (h\<lparr>ho_status := HO_RESOLVED, ho_resolved_at := Some (db_clock d), ho_assigned_agent_id := None,
       ho_assigned_to := None\<rparr>) (db_handoffs d)"
  by (simp_all add: resolve_payment_case_def Let_def audit_def audit_at_def put_handoff_def)

text \<open>The attended payment case ends; the case just opened stays as it is, and so does the adviser of the conversation.\<close>

lemma conflict_review_ends:
  assumes c: "get_row cv_id (cv_id c) (db_conversations d) = Some c" "cv_state c = WAITING_FOR_HUMAN"
      "cv_assigned_agent_id c \<noteq> None"
    and cases: "open_of (cv_id c) (db_handoffs d) = [h, h']" "ho_id h < ho_id h'" "keys_ok ho_id (db_handoffs d)"
    and reasons: "ho_reason h = ''PAYMENT_REVIEW''" "ho_reason h' \<noteq> ''PAYMENT_REVIEW''" "ho_status h' = HO_PENDING"
    and free: "\<not> has_pending_payment_evidence (rv_id r) d" "\<not> other_pending c r d"
    and run: "resolve_payment_handoffs e r [cv_id c] req d = Inr d'"
  shows "stranded d' (cv_id c) h' \<and> db_conversations d' = db_conversations d"
proof -
  have sorted: "sorted_cases c d = [h, h']"
    using cases by (simp add: sorted_cases_def open_cases_of order_by_def)
  have d': "d' = resolve_payment_case e r req h d"
    using run c free reasons by (simp add: resolve_payment_handoffs_def end_payment_review_def sorted)
  define h1 where "h1 = h\<lparr>ho_status := HO_RESOLVED, ho_resolved_at := Some (db_clock d), ho_assigned_agent_id := None,
       ho_assigned_to := None\<rparr>"
  have h1: "ho_id h1 = ho_id h" "ho_conversation_id h1 = ho_conversation_id h" "ho_status h1 = HO_RESOLVED"
    and hs: "db_handoffs d' = put_row ho_id h1 (db_handoffs d)" by (simp_all add: h1_def d' resolve_payment_case_frame)
  have mem: "h \<in> set (db_handoffs d)" "h' \<in> set (db_handoffs d)"
  proof -
    have "{h, h'} \<subseteq> set (open_of (cv_id c) (db_handoffs d))" using cases(1) by simp
    then show "h \<in> set (db_handoffs d)" "h' \<in> set (db_handoffs d)" by (auto simp: open_of_def)
  qed
  have "open_of (cv_id c) (put_row ho_id h1 rows) = filter (\<lambda>x. ho_id x \<noteq> ho_id h) (open_of (cv_id c) rows)" for rows
    using h1 by (induction rows) (auto simp: open_of_def put_row_Cons)
  then have "open_of (cv_id c) (db_handoffs d') = [h']" using cases by (simp add: hs)
  moreover have "get_row ho_id (ho_id h') (db_handoffs d') = Some h'"
    using get_row_mem [OF cases(3) mem(2)] cases(2) h1(1) by (simp add: hs get_put_row)
  ultimately show ?thesis using c reasons by (auto simp: stranded_def d' resolve_payment_case_frame(1))
qed

lemma stranded_conversation_write:
  assumes "stranded d k h" and "db_handoffs d' = db_handoffs d"
    and "db_conversations d' = db_conversations d \<or>
      (\<exists>c c'. get_row cv_id k (db_conversations d) = Some c \<and> cv_id c' = k \<and> cv_state c' = cv_state c \<and>
         cv_assigned_agent_id c' = cv_assigned_agent_id c \<and> db_conversations d' = put_row cv_id c' (db_conversations d))"
  shows "stranded d' k h"
  using assms unfolding stranded_def by (auto simp: get_put_row)

lemma notice_outcome_stranded:
  assumes s: "stranded d k h" and c: "get_row cv_id k (db_conversations d) = Some c"
    and run: "notice_outcome e kind req (enqueue_template te True nc code vars c cu m req2 d) = Inr (x, d')"
  shows "stranded d' k h"
proof -
  have id: "cv_id c = k" using get_row_SomeD [OF c] by simp
  show ?thesis
  proof (cases "enqueue_template te True nc code vars c cu m req2 d")
    case (Inr b)
    obtain c' d1 where b: "b = (c', d1)" by fastforce
    note f = enqueue_template_frame [OF Inr [unfolded b]]
    have d1: "d' = d1" using run by (simp add: notice_outcome_def Inr b)
    have "cv_id c' = k" "cv_state c' = cv_state c" "cv_assigned_agent_id c' = cv_assigned_agent_id c" using f id by simp_all
    then show ?thesis unfolding d1 using f c by (intro stranded_conversation_write [OF s]) blast+
  next
    case (Inl b)
    with run obtain reason d1 where b: "b = (KnowledgeRenderError reason, d1)" and d': "d' = skipped e kind reason req d1"
      by (auto simp: notice_outcome_def split: prod.splits app_error.splits)
    from enqueue_template_failed [OF Inl [unfolded b]] d' show ?thesis
      by (intro stranded_conversation_write [OF s])
        (simp_all add: skipped_def audit_def audit_at_def audit_render_failure_frame)
  qed
qed

section \<open>Property\<close>

text \<open>C26. A payment whose slot was taken meanwhile: the notice of the conflict, in a conversation whose only open case is
  the payment review that an adviser attends, leaves a waiting case in a conversation that still names the adviser. From
  then on no one can take the case, answer in it, return it or reassign it: only the administrator's reset ends it.\<close>

theorem conflict_notice_strands_case:
  assumes ok: "human_ok d" and c: "c \<in> set (db_conversations d)" "open_cases c d = [h]"
    and attended: "cv_state c = HUMAN_ACTIVE" "ho_reason h = ''PAYMENT_REVIEW''"
    and receipts: "receipt_conversations r d = [cv_id c]" "\<not> has_pending_payment_evidence (rv_id r) d" "\<not> other_pending c r d"
    and run: "notify_conflict te st e kind r c cu m req d = Inr (x, d')"
  shows "\<exists>h'. open_of (cv_id c) (db_handoffs d') = [h'] \<and> ho_status h' = HO_PENDING \<and>
    (\<forall>au auth text target y z. take_handoff au auth (ho_id h') d' \<noteq> Inr y \<and> take_conversation au auth (cv_id c) d' \<noteq> Inr y \<and>
       return_handoff au auth (ho_id h') text d' \<noteq> Inr y \<and> create_agent_message au auth (cv_id c) text d' \<noteq> Inr z \<and>
       reassign_conversation au auth (cv_id c) target d' \<noteq> Inr y)"
proof -
  let ?c1 = "c\<lparr>cv_booking_draft := None\<rparr>"
  from run obtain h' code c2 d1 d2 where
    create: "create_handoff ?c1 cu ''RESERVATION_CONFIRMATION'' HO_URGENT req st
        (Some (''franja ya reservada; requiere reprogramaci'' @ o_acute @ ''n'')) 5 (put_conversation ?c1 d) = Inr (h', code, c2, d1)"
    and res: "resolve_payment_handoffs e r [cv_id c] req d1 = Inr d2"
    and rest: "(if \<not> st_self_service_booking_enabled st
        then deferred e kind (''Reserva sin notificaci'' @ o_acute @ ''n conversacional'') req d2
        else (case get_row cv_id (cv_id c) (db_conversations d2) of
                None \<Rightarrow> Inl (OtherError ''LookupError'')
              | Some c3 \<Rightarrow> notice_outcome e kind req
                  (enqueue_template te True (case_notice h') code [] c3 cu m req d2))) = Inr (x, d')"
    by (auto simp: notify_conflict_def Let_def ebind_Inr_iff receipts(1))
  note row = create_handoff_row [OF create]
  obtain s where h': "h' = new_handoff (db_seq d) (cv_id c) (normalize_handoff_reason ''RESERVATION_CONFIRMATION'') HO_URGENT s"
    using row(5) by auto
  have h: "h \<in> set (db_handoffs d)" "ho_conversation_id h = cv_id c"
    using c(2) open_of_single [of "cv_id c" "db_handoffs d" h] by (simp_all add: open_cases_of)
  have keys: "keys_ok cv_id (db_conversations d)" "keys_ok ho_id (db_handoffs d)" using human_okD(1,2) [OF ok] .
  have hs: "db_handoffs d1 = db_handoffs d @ [h']" using row(7) by simp
  have id: "ho_id h < ho_id h'" "ho_id h' = db_seq d" using human_okD(4) [OF ok h(1)] by (simp_all add: h' new_handoff_def)
  have new: "ho_status h' = HO_PENDING" "ho_conversation_id h' = cv_id c" "ho_reason h' \<noteq> ''PAYMENT_REVIEW''"
    by (simp_all add: h' new_handoff_def normalize_handoff_reason_def handoff_reasons_def)
  have c2: "cv_id c2 = cv_id c" "cv_state c2 = WAITING_FOR_HUMAN" "cv_assigned_agent_id c2 \<noteq> None"
    using row human_okD(6) [OF ok c(1)] c(2) attended by (auto simp: waiting_case_def taken_case_def)
  have gc: "get_row cv_id (cv_id c2) (db_conversations d1) = Some c2"
    using row(1,6) get_row_mem [OF keys(1) c(1)] by (simp add: put_conversation_def get_put_row)
  have open1: "open_of (cv_id c2) (db_handoffs d1) = [h, h']"
    using c(2) new by (simp add: hs open_of_def open_cases_of c2(1))
  have "ho_id h' \<notin> ho_id ` set (db_handoffs d)" using human_okD(4) [OF ok] id(2) by force
  then have keys1: "keys_ok ho_id (db_handoffs d1)" using keys(2) by (simp add: hs keys_ok_append1)
  have ev: "db_evidence d1 = db_evidence d" using create_handoff_evidence [OF create] by (simp add: put_conversation_def)
  have free: "\<not> has_pending_payment_evidence (rv_id r) d1" "\<not> other_pending c2 r d1"
    using receipts(2,3) by (simp_all add: has_pending_payment_evidence_def other_pending_def ev c2(1))
  have s2: "stranded d2 (cv_id c) h'" and cs2: "db_conversations d2 = db_conversations d1"
    using conflict_review_ends [OF gc c2(2,3) open1 id(1) keys1 attended(2) new(3,1) free] res c2(1) by simp_all
  have "stranded d' (cv_id c) h'"
  proof (cases "st_self_service_booking_enabled st")
    case False
    with rest show ?thesis
      by (intro stranded_conversation_write [OF s2]) (auto simp: deferred_def skipped_def audit_def audit_at_def)
  next
    case True
    with rest gc cs2 c2(1) have "notice_outcome e kind req (enqueue_template te True (case_notice h') code [] c2 cu m req d2) = Inr (x, d')"
      by simp
    from notice_outcome_stranded [OF s2 _ this] gc cs2 c2(1) show ?thesis by simp
  qed
  then have "open_of (cv_id c) (db_handoffs d') = [h']" by (auto simp: stranded_def)
  with stranded_refused [OF \<open>stranded d' (cv_id c) h'\<close>] new(1) show ?thesis by blast
qed

definition attended_conversation :: conversation where
  "attended_conversation = sample_conversation\<lparr>cv_state := HUMAN_ACTIVE, cv_bot_enabled := False,
     cv_assigned_agent_id := Some 5\<rparr>"

definition attended_case :: handoff where
  "attended_case = \<lparr>ho_id = 40, ho_conversation_id = 1, ho_status = HO_TAKEN, ho_reason = ''PAYMENT_REVIEW'',
     ho_priority = HO_URGENT, ho_summary = [], ho_assigned_to = Some ''Luz'', ho_assigned_agent_id = Some 5,
     ho_taken_at = Some sample_now, ho_resolved_at = None\<rparr>"

definition reviewed_receipt :: evidence where
  "reviewed_receipt = sample_evidence\<lparr>pe_review_status := RW_ACCEPTED, pe_amount_cop := Some 475000\<rparr>"

definition conflict_db :: db where
  "conflict_db = sample_db\<lparr>db_conversations := [attended_conversation], db_handoffs := [attended_case],
     db_evidence := [reviewed_receipt]\<rparr>"

definition quiet_settings :: settings where
  "quiet_settings = sample_settings\<lparr>st_self_service_booking_enabled := False\<rparr>"

lemma conflict_db_simps [simp]:
  "db_conversations conflict_db = [attended_conversation]" "db_handoffs conflict_db = [attended_case]"
  "db_evidence conflict_db = [reviewed_receipt]" "db_seq conflict_db = 100"
  by (simp_all add: conflict_db_def)

lemma conflict_open: "open_cases attended_conversation conflict_db = [attended_case]"
  by (simp add: open_cases_def attended_case_def attended_conversation_def sample_conversation_def)

lemma conflict_db_ok: "human_ok conflict_db"
  using conflict_open by (simp add: human_ok_def keys_ok_def taken_case_def)
    (simp add: attended_conversation_def attended_case_def sample_conversation_def)

lemma conflict_receipts:
  "receipt_conversations sample_reservation conflict_db = [cv_id attended_conversation]"
  "\<not> has_pending_payment_evidence (rv_id sample_reservation) conflict_db"
  "\<not> other_pending attended_conversation sample_reservation conflict_db"
  by (simp_all add: receipt_conversations_def has_pending_payment_evidence_def other_pending_def attended_conversation_def
      sample_conversation_def reviewed_receipt_def sample_evidence_def sample_reservation_def order_by_def)

lemma conflict_notified:
  "\<exists>x d'. notify_conflict sample_texts quiet_settings reviewed_receipt ''CONFLICT'' sample_reservation attended_conversation
     sample_customer incoming (Some ''req'') conflict_db = Inr (x, d')"
proof -
  let ?c = "attended_conversation\<lparr>cv_booking_draft := None\<rparr>" and ?d = "put_conversation (attended_conversation\<lparr>cv_booking_draft := None\<rparr>) conflict_db"
  let ?detail = "Some (''franja ya reservada; requiere reprogramaci'' @ o_acute @ ''n'')"
  have "hours_ok quiet_settings" using sample_hours_ok by (simp add: hours_ok_def quiet_settings_def attention_days_def)
  then have "\<exists>x. create_handoff ?c sample_customer ''RESERVATION_CONFIRMATION'' HO_URGENT (Some ''req'') quiet_settings ?detail 5 ?d = Inr x"
    by (rule create_handoff_total) (simp add: attended_conversation_def)
  then obtain h code c d where create: "create_handoff ?c sample_customer ''RESERVATION_CONFIRMATION'' HO_URGENT (Some ''req'')
      quiet_settings ?detail 5 ?d = Inr (h, code, c, d)" by (metis prod.exhaust)
  note row = create_handoff_row [OF create]
  obtain s where h: "h = new_handoff 100 1 (normalize_handoff_reason ''RESERVATION_CONFIRMATION'') HO_URGENT s"
    using row(5) by (auto simp: attended_conversation_def sample_conversation_def)
  have d: "db_handoffs d = [attended_case, h]" "db_conversations d = [c]" "db_evidence d = [reviewed_receipt]" "cv_id c = 1"
    using row(1,6,7) create_handoff_evidence [OF create]
    by (simp_all add: put_conversation_def put_row_Cons attended_conversation_def sample_conversation_def)
  have "sorted_cases c d = [attended_case, h]"
    by (simp add: sorted_cases_def open_cases_def d order_by_def h new_handoff_def attended_case_def)
  moreover have "ho_reason h \<noteq> ''PAYMENT_REVIEW''"
    by (simp add: h new_handoff_def normalize_handoff_reason_def handoff_reasons_def)
  moreover have "ho_reason attended_case = ''PAYMENT_REVIEW''" by (simp add: attended_case_def)
  ultimately have "\<exists>d2. resolve_payment_handoffs reviewed_receipt sample_reservation [cv_id attended_conversation] (Some ''req'') d = Inr d2"
    by (cases "other_pending c sample_reservation d")
      (simp_all add: resolve_payment_handoffs_def end_payment_review_def d get_row_Cons Let_def attended_conversation_def sample_conversation_def)
  then obtain d2 where d2: "resolve_payment_handoffs reviewed_receipt sample_reservation [cv_id attended_conversation] (Some ''req'') d = Inr d2"
    by blast
  have off: "\<not> st_self_service_booking_enabled quiet_settings" by (simp add: quiet_settings_def)
  show ?thesis
    unfolding notify_conflict_def Let_def create ebind_simps prod.case conflict_receipts(1) d2
    by (simp add: off deferred_def)
qed

lemma conflict_notice_strands_case_witness:
  "\<exists>d' h'. open_of 1 (db_handoffs d') = [h'] \<and> ho_status h' = HO_PENDING \<and>
     (\<forall>au auth y. take_handoff au auth (ho_id h') d' \<noteq> Inr y)"
proof -
  obtain x d' where run: "notify_conflict sample_texts quiet_settings reviewed_receipt ''CONFLICT'' sample_reservation
      attended_conversation sample_customer incoming (Some ''req'') conflict_db = Inr (x, d')" using conflict_notified by blast
  have "attended_conversation \<in> set (db_conversations conflict_db)" "cv_state attended_conversation = HUMAN_ACTIVE"
    "ho_reason attended_case = ''PAYMENT_REVIEW''" "cv_id attended_conversation = 1"
    by (simp_all add: attended_conversation_def attended_case_def sample_conversation_def)
  with conflict_notice_strands_case [OF conflict_db_ok _ conflict_open _ _ conflict_receipts run] show ?thesis by metis
qed

end
