(* ===== verification/Visit_Texts.thy ===== *)
theory Visit_Texts
  imports Regex Catalog_Labels Event_Dates
begin

text \<open>
  Dates and times in the customer's words: the reading half of \<open>app/appointment/service.py\<close>
  (\<open>resolve_visit_date_text\<close>, \<open>parse_visit_time_text\<close>, \<open>interpret_visit_time\<close>). Both visits and fixed-price
  bookings read their dates here.
\<close>

section \<open>The normalized text\<close>

definition normalize_spanish_text :: "ucd \<Rightarrow> string \<Rightarrow> nat list" where
  "normalize_spanish_text u value = without_accents u (strip value)"

definition spanish_months :: "(string \<times> int) list" where
  "spanish_months = [(''enero'', 1), (''febrero'', 2), (''marzo'', 3), (''abril'', 4), (''mayo'', 5), (''junio'', 6),
     (''julio'', 7), (''agosto'', 8), (''septiembre'', 9), (''setiembre'', 9), (''octubre'', 10), (''noviembre'', 11),
     (''diciembre'', 12)]"

definition spanish_weekdays :: "(string \<times> int) list" where
  "spanish_weekdays = [(''lunes'', 0), (''martes'', 1), (''miercoles'', 2), (''jueves'', 3), (''viernes'', 4),
     (''sabado'', 5), (''domingo'', 6)]"

definition spanish_hours :: "(string \<times> int) list" where
  "spanish_hours = [(''dos'', 2), (''ocho'', 8), (''nueve'', 9), (''diez'', 10), (''once'', 11)]"

section \<open>Patterns\<close>

definition spaces :: regex where "spaces = Star space_rx"
definition some_spaces :: regex where "some_spaces = plus space_rx"
definition date_separator :: regex where "date_separator = seqs [spaces, Class (\<lambda>c. c = 47 \<or> c = 45), spaces]"
definition month_token :: regex where "month_token = one_of (map fst spanish_months)"
definition one_or_two_digits :: "ucd \<Rightarrow> regex" where "one_or_two_digits u = between 1 2 (digit_rx u)"

definition numeric_visit_date :: "ucd \<Rightarrow> regex" where
  "numeric_visit_date u = seqs [Boundary, Group 1 (one_or_two_digits u), date_separator, Group 2 (one_or_two_digits u),
     Opt (Seq date_separator (Group 3 (between 2 4 (digit_rx u)))), Boundary]"

definition textual_visit_date :: "ucd \<Rightarrow> regex" where
  "textual_visit_date u = seqs [Boundary, Group 1 (one_or_two_digits u), some_spaces, Opt (Seq (literal ''de'') some_spaces),
     Group 2 month_token, Opt (seqs [some_spaces, literal ''de'', some_spaces, Group 3 (times 4 (digit_rx u))]), Boundary]"

definition day_only_visit_date :: "ucd \<Rightarrow> regex" where
  "day_only_visit_date u = seqs [Boundary, one_of [''el'', ''dia''], some_spaces, Group 1 (one_or_two_digits u), Boundary]"

definition date_numbers :: "ucd \<Rightarrow> regex" where
  "date_numbers u = alts
     [seqs [Boundary, Opt (Seq (one_of [''el'', ''dia'']) some_spaces), one_or_two_digits u, date_separator, one_or_two_digits u,
        Opt (Seq date_separator (between 2 4 (digit_rx u))), Boundary],
      seqs [Boundary, Opt (Seq (one_of [''el'', ''dia'']) some_spaces), one_or_two_digits u, some_spaces,
        Opt (Seq (literal ''de'') some_spaces), month_token, Boundary,
        Opt (seqs [some_spaces, literal ''de'', some_spaces, times 4 (digit_rx u)])],
      seqs [Boundary, one_of [''el'', ''dia''], some_spaces, one_or_two_digits u, Boundary]]"

definition am_pm :: "string \<Rightarrow> regex" where
  "am_pm letters = seqs [one_of (map (\<lambda>c. [c]) letters), Opt (literal ''.''), spaces, literal ''m'', Opt (literal ''.'')]"

definition clock_candidates :: "ucd \<Rightarrow> regex" where
  "clock_candidates u = seqs [Boundary, Group 1 (Opt (seqs [literal ''a'', some_spaces, literal ''las'', some_spaces])),
     Group 2 (one_or_two_digits u), Opt (Seq (literal '':'') (Group 3 (times 2 (digit_rx u)))),
     Opt (Seq spaces (Group 4 (Alt (am_pm ''ap'') (seqs [literal ''de'', some_spaces, literal ''la'', some_spaces,
       one_of [''manana'', ''tarde'', ''noche'']])))), Ahead False (word_rx u)]"

section \<open>Dates\<close>

fun first_future :: "int \<Rightarrow> int \<Rightarrow> date \<Rightarrow> int list \<Rightarrow> date option" where
  "first_future day month today [] = None"
| "first_future day month today (y # ys) =
     (case make_date y month day of
        None \<Rightarrow> first_future day month today ys
      | Some candidate \<Rightarrow> if today \<le> candidate then Some candidate else first_future day month today ys)"

definition year_of :: "date \<Rightarrow> int" where
  "year_of d = fst (ymd_of_date d)"

definition future_date :: "int \<Rightarrow> int \<Rightarrow> int option \<Rightarrow> date \<Rightarrow> date option" where
  "future_date day month year today =
     first_future day month today
       (case year of Some y \<Rightarrow> [y] | None \<Rightarrow> [year_of today..min (year_of today + 8) 9999])"

definition matched_digits :: "ucd \<Rightarrow> nat \<Rightarrow> re_match \<Rightarrow> int" where
  "matched_digits u k m = (case group k m of None \<Rightarrow> 0 | Some ds \<Rightarrow> int_of_digits u ds)"

definition optional_digits :: "ucd \<Rightarrow> nat \<Rightarrow> re_match \<Rightarrow> int option" where
  "optional_digits u k m = (case group k m of None \<Rightarrow> None | Some ds \<Rightarrow> if ds = [] then None else Some (int_of_digits u ds))"

definition month_by_name :: "nat list option \<Rightarrow> int" where
  "month_by_name name = (case name of None \<Rightarrow> 0
     | Some cs \<Rightarrow> (case map_of spanish_months (utf8_encode cs) of None \<Rightarrow> 0 | Some n \<Rightarrow> n))"

definition full_year :: "int \<Rightarrow> int" where
  "full_year y = (if y < 100 then y + 2000 else y)"

definition resolve_absolute_visit_date :: "ucd \<Rightarrow> nat list \<Rightarrow> date \<Rightarrow> date option" where
  "resolve_absolute_visit_date u txt today =
     (case re_search u (numeric_visit_date u) txt of
        Some m \<Rightarrow> future_date (matched_digits u 1 m) (matched_digits u 2 m) (map_option full_year (optional_digits u 3 m)) today
      | None \<Rightarrow>
          (case re_search u (textual_visit_date u) txt of
             None \<Rightarrow> None
           | Some m \<Rightarrow> future_date (matched_digits u 1 m) (month_by_name (group 2 m)) (optional_digits u 3 m) today))"

definition relative_words :: "(regex \<times> int) list" where
  "relative_words = [(whole (seqs [literal ''pasado'', some_spaces, literal ''manana'']), 2), (whole (literal ''manana''), 1),
     (whole (literal ''hoy''), 0)]"

fun relative_word :: "ucd \<Rightarrow> nat list \<Rightarrow> (regex \<times> int) list \<Rightarrow> (int \<times> re_match) option" where
  "relative_word u cs [] = None"
| "relative_word u cs ((r, n) # rest) =
     (case re_search u r cs of Some m \<Rightarrow> Some (n, m) | None \<Rightarrow> relative_word u cs rest)"

definition weekday_rx :: "string \<Rightarrow> regex" where
  "weekday_rx name = seqs [Boundary, Opt (Seq (one_of [''el'', ''este'', ''proximo'']) some_spaces), literal name, Boundary]"

definition days_until :: "date \<Rightarrow> int \<Rightarrow> int" where
  "days_until today target = (let n = (target - weekday today) mod 7 in if n = 0 then 7 else n)"

definition resolve_relative_visit_date :: "ucd \<Rightarrow> nat list \<Rightarrow> date \<Rightarrow> (date \<times> re_match) option" where
  "resolve_relative_visit_date u txt today =
     (case relative_word u txt relative_words of
        Some (n, m) \<Rightarrow> Some (today + n, m)
      | None \<Rightarrow> map_option (\<lambda>(target, m). (today + days_until today target, m))
          (relative_word u txt (map (\<lambda>(name, target). (weekday_rx name, target)) spanish_weekdays)))"

text \<open>\<open>_date_match_text\<close>: from the normalized match back to the original spelling.\<close>

definition normalized_offsets :: "ucd \<Rightarrow> nat list \<Rightarrow> nat list" where
  "normalized_offsets u original =
     concat (map (\<lambda>(i, c). map (\<lambda>_. i) (without_accents u (utf8_encode [c]))) (enumerate 0 original))"

definition date_match_text :: "ucd \<Rightarrow> string \<Rightarrow> re_match option \<Rightarrow> string option" where
  "date_match_text u message_text m =
     (case m of
        None \<Rightarrow> None
      | Some m \<Rightarrow>
          let original = cps (strip message_text); offsets = normalized_offsets u original;
              first = offsets ! rm_start m; last = offsets ! (rm_end m - 1)
          in Some (utf8_encode (take (Suc last - first) (drop first original))))"

datatype date_interpretation = EXACTA | RELATIVA | NO_INTERPRETABLE

record visit_date_text =
  vd_resolved_date :: "date option"
  vd_needs_confirmation :: bool
  vd_next_state :: conversation_state
  vd_interpretation :: date_interpretation
  vd_matched_text :: "string option"
  vd_inferred_month :: bool

definition no_visit_date :: visit_date_text where
  "no_visit_date = \<lparr>vd_resolved_date = None, vd_needs_confirmation = False, vd_next_state = WAITING_FOR_APPOINTMENT_DATE,
     vd_interpretation = NO_INTERPRETABLE, vd_matched_text = None, vd_inferred_month = False\<rparr>"

definition read_visit_date :: "date option \<Rightarrow> bool \<Rightarrow> date_interpretation \<Rightarrow> string option \<Rightarrow> bool \<Rightarrow> visit_date_text" where
  "read_visit_date d confirm interpretation matched inferred =
     \<lparr>vd_resolved_date = d, vd_needs_confirmation = confirm, vd_next_state = WAITING_FOR_APPOINTMENT_DATE,
      vd_interpretation = interpretation, vd_matched_text = matched, vd_inferred_month = inferred\<rparr>"

definition contradicted :: "ucd \<Rightarrow> nat list \<Rightarrow> date \<Rightarrow> bool" where
  "contradicted u txt d \<longleftrightarrow>
     list_ex (\<lambda>(name, n). re_search u (whole (literal name)) txt \<noteq> None \<and> n \<noteq> weekday d) spanish_weekdays"

text \<open>The last day of the calendar is in December 9999.\<close>

definition day_reachable :: "int \<Rightarrow> date \<Rightarrow> bool" where
  "day_reachable day today \<longleftrightarrow> 1 \<le> day \<and> day \<le> 31 \<and>
     \<not> (case ymd_of_date today of (y, m, d) \<Rightarrow> y = 9999 \<and> m = 12 \<and> day < d)"

text \<open>The guard is for the search of \<open>parse_customer_date_expression\<close>, which ends for the days 1 to 31.\<close>

definition resolve_day_only :: "ucd \<Rightarrow> string \<Rightarrow> date \<Rightarrow> bool \<Rightarrow> re_match \<Rightarrow> (app_error, visit_date_text) result" where
  "resolve_day_only u message_text today require_absolute_confirmation m =
     (if \<not> day_reachable (matched_digits u 1 m) today then Inr no_visit_date
      else (case parse_customer_date_expression u (utf8_encode (rm_text m)) today of
              None \<Rightarrow> Inl (OtherError ''search without end'')
            | Some (Inl e) \<Rightarrow> Inl e
            | Some (Inr t) \<Rightarrow> Inr (read_visit_date (dt_event_date t) require_absolute_confirmation RELATIVA
                (date_match_text u message_text (Some m)) True)))"

text \<open>\<open>date.max.toordinal()\<close>; a sum beyond it raises OverflowError.\<close>

definition max_date :: date where
  "max_date = 3652059"

definition first_some :: "'a option \<Rightarrow> 'a option \<Rightarrow> 'a option" where
  "first_some a b = (case a of None \<Rightarrow> b | Some x \<Rightarrow> Some x)"

definition resolve_visit_date_text ::
  "ucd \<Rightarrow> string \<Rightarrow> date \<Rightarrow> bool \<Rightarrow> (app_error, visit_date_text) result" where
  "resolve_visit_date_text u message_text today require_absolute_confirmation =
     (let txt = normalize_spanish_text u message_text;
          absolute_match = first_some (re_search u (numeric_visit_date u) txt) (re_search u (textual_visit_date u) txt)
      in case resolve_absolute_visit_date u txt today of
           Some absolute \<Rightarrow> Inr (read_visit_date (Some absolute) (contradicted u txt absolute) EXACTA
             (date_match_text u message_text absolute_match) False)
         | None \<Rightarrow>
             if absolute_match \<noteq> None then Inr no_visit_date
             else (case re_search u (day_only_visit_date u) txt of
                     Some m \<Rightarrow> resolve_day_only u message_text today require_absolute_confirmation m
                   | None \<Rightarrow>
                       (case resolve_relative_visit_date u txt today of
                          Some (d, m) \<Rightarrow>
                            if max_date < d then Inl (OtherError ''OverflowError'')
                            else Inr (read_visit_date (Some d) require_absolute_confirmation RELATIVA
                              (date_match_text u message_text (Some m)) False)
                        | None \<Rightarrow> Inr no_visit_date)))"

section \<open>Times\<close>

definition make_time :: "int \<Rightarrow> int \<Rightarrow> tod option" where
  "make_time h m = (if 0 \<le> h \<and> h < 24 \<and> 0 \<le> m \<and> m < 60 then Some (h * us_hour + m * us_minute) else None)"

definition has_text :: "nat \<Rightarrow> re_match \<Rightarrow> bool" where
  "has_text k m \<longleftrightarrow> (case group k m of None \<Rightarrow> False | Some cs \<Rightarrow> cs \<noteq> [])"

definition explicit_clock :: "re_match \<Rightarrow> bool" where
  "explicit_clock m \<longleftrightarrow> has_text 1 m \<or> group 3 m \<noteq> None \<or> has_text 4 m"

definition hour_word :: "ucd \<Rightarrow> nat list \<Rightarrow> int option" where
  "hour_word u cs = map_option snd (find (\<lambda>(word, _). re_search u (whole (literal word)) cs \<noteq> None) spanish_hours)"

definition afternoon_rx :: regex where
  "afternoon_rx = whole (alts [am_pm ''p'', literal ''tarde'', literal ''noche''])"

definition morning_rx :: regex where
  "morning_rx = whole (alts [am_pm ''a'', literal ''manana''])"

definition clock_of :: "ucd \<Rightarrow> int \<Rightarrow> int \<Rightarrow> nat list \<Rightarrow> tod option" where
  "clock_of u hour minute period =
     (let afternoon = re_search u afternoon_rx period \<noteq> None; morning = re_search u morning_rx period \<noteq> None;
          h = (if afternoon \<and> 1 \<le> hour \<and> hour < 12 then hour + 12 else if morning \<and> hour = 12 then 0 else hour)
      in make_time h minute)"

definition parse_visit_time_text :: "ucd \<Rightarrow> string \<Rightarrow> bool \<Rightarrow> tod option" where
  "parse_visit_time_text u message_text require_explicit =
     (let clocks = re_sub u (date_numbers u) [32] (normalize_spanish_text u message_text);
          candidates = re_finditer u (clock_candidates u) clocks;
          explicit = filter explicit_clock candidates
      in if require_explicit \<and> explicit = [] then None
         else (case explicit @ candidates of
                 [] \<Rightarrow> Option.bind (hour_word u clocks) (\<lambda>hour. clock_of u hour 0 clocks)
               | m # _ \<Rightarrow> clock_of u (matched_digits u 2 m) (matched_digits u 3 m)
                   (if has_text 4 m then the (group 4 m) else clocks)))"

datatype time_interpretation = OFFERED_SLOT | OUTSIDE_OFFER | TIME_NO_INTERPRETABLE | OUT_OF_HOURS

record visit_time_text =
  vt_accepted :: bool
  vt_preferred_visit_time :: "tod option"
  vt_response_code :: "string option"
  vt_interpretation :: time_interpretation

definition interpret_visit_time :: "ucd \<Rightarrow> string \<Rightarrow> tod list \<Rightarrow> bool \<Rightarrow> visit_time_text" where
  "interpret_visit_time u message_text offered_slots require_explicit =
     (case parse_visit_time_text u message_text require_explicit of
        None \<Rightarrow> \<lparr>vt_accepted = False, vt_preferred_visit_time = None, vt_response_code = Some ''RESP-VISIT-TIME-003'',
                 vt_interpretation = TIME_NO_INTERPRETABLE\<rparr>
      | Some candidate \<Rightarrow>
          if candidate \<notin> {at_hour 8, at_hour 9, at_hour 10, at_hour 11}
          then \<lparr>vt_accepted = False, vt_preferred_visit_time = Some candidate, vt_response_code = Some ''RESP-VISIT-TIME-002'',
                vt_interpretation = OUT_OF_HOURS\<rparr>
          else if candidate \<notin> set offered_slots
          then \<lparr>vt_accepted = False, vt_preferred_visit_time = Some candidate, vt_response_code = Some ''RESP-VISIT-TIME-004'',
                vt_interpretation = OUTSIDE_OFFER\<rparr>
          else \<lparr>vt_accepted = True, vt_preferred_visit_time = Some candidate, vt_response_code = None,
                vt_interpretation = OFFERED_SLOT\<rparr>)"

end
