(* ===== verification/Booking_Texts.thy ===== *)
theory Booking_Texts
  imports Visit_Texts
begin

text \<open>
  What the customer's words mean to the fixed-price bookings: \<open>conversation/confirmation.py\<close>,
  \<open>conversation/fixed_price_booking.py\<close>, \<open>conversation/lodging.py\<close>, \<open>conversation/explicit_human.py\<close> and the text functions of
  \<open>orchestrator/booking_flow.py\<close>.
\<close>

section \<open>Yes and no\<close>

definition thumbs_up :: string where
  "thumbs_up = [CHR 0xF0, CHR 0x9F, CHR 0x91, CHR 0x8D]"

definition affirmations :: "string list" where
  "affirmations = [''si'', ''correcto'', ''exacto'', ''asi es'', ''dale'', ''confirmo'', ''de acuerdo'', ''ok'', ''listo'',
     ''perfecto'', ''claro'', ''sip'', thumbs_up]"

definition denials :: "string list" where
  "denials = [''no'', ''incorrecto'', ''cambiar'', ''corregir'', ''esta mal'', ''modificar'']"

text \<open>\<open>string.punctuation\<close> and the two inverted signs.\<close>

definition confirmation_punctuation :: "nat \<Rightarrow> bool" where
  "confirmation_punctuation c \<longleftrightarrow> (33 \<le> c \<and> c \<le> 47) \<or> (58 \<le> c \<and> c \<le> 64) \<or> (91 \<le> c \<and> c \<le> 96) \<or> (123 \<le> c \<and> c \<le> 126) \<or>
     c = 191 \<or> c = 161"

text \<open>\<open>" ".join(s.split())\<close>.\<close>

definition joined_words :: "nat list \<Rightarrow> nat list" where
  "joined_words cs = strip_cps (collapse cs)"

definition normalize_confirmation_text :: "ucd \<Rightarrow> string \<Rightarrow> string" where
  "normalize_confirmation_text u message_text =
     (let stripped = casefold u (strip message_text) in
      if stripped = thumbs_up then stripped
      else utf8_encode (joined_words (filter (\<lambda>c. \<not> confirmation_punctuation c) (cps (strip_accents u stripped)))))"

datatype confirmation_intent = CONFIRM | DENY

definition resolve_contextual_confirmation ::
  "ucd \<Rightarrow> string \<Rightarrow> string option \<Rightarrow> string option \<Rightarrow> confirmation_intent option" where
  "resolve_contextual_confirmation u message_text pending_action last_question_code =
     (case (pending_action, last_question_code) of
        (Some action, Some code) \<Rightarrow>
          if action = [] \<or> \<not> is_prefix ''CONFIRM_'' action \<or> code = [] then None
          else (let txt = normalize_confirmation_text u message_text in
                if txt \<in> set affirmations then Some CONFIRM
                else if txt \<in> set denials then Some DENY else None)
      | _ \<Rightarrow> None)"

section \<open>Requests for a booking\<close>

definition fixed_price_information_codes :: "(string \<times> string list) list" where
  "fixed_price_information_codes = [(''PROPOSAL'', [''RESP-EVENTS-PROPOSAL-001'']),
     (''ROMANTIC_DINNER'', [''RESP-EVENTS-ROMANTIC-001'', ''RESP-ACCOMMODATION-ROMANTIC-001''])]"

definition plan_information_words :: "string list" where
  "plan_information_words = [''catalogo'', ''catalogos'', ''pdf'', ''brochure'', ''ubicacion'', ''mapa'', ''horario'', ''horarios'',
     ''parqueadero'', ''capacidad'', ''piscina'', ''mascotas'', ''proveedores'', ''alimentos'', ''bebidas'', ''licor'', ''descorche'',
     ''alojamiento'', ''pago'', ''pagos'', ''pagar'', ''comprobante'', ''cancelar'', ''cancelacion'', ''devolucion'', ''descuento'',
     ''queja'', ''emergencia'', ''ayuda'', ''informacion'', ''informarme'', ''hotel'', ''hospedaje'', ''habitacion'', ''espacios'',
     ''identidad'', ''seguridad'', ''servicios'', ''visitas'', ''respuesta'', ''precio'', ''precios'', ''valor'', ''cuesta'',
     ''tarjetas'', ''transferencia'', ''hola'', ''gracias'', ''adios'']"

definition booking_actions :: "string list" where
  "booking_actions = [''SELECT_BOOKING_PLAN'', ''SELECT_BOOKING_DATETIME'', ''SELECT_BOOKING_TIME'', ''CONFIRM_BOOKING'',
     ''COLLECT_BOOKING_NAME'', ''CONFIRM_AVAILABILITY_BOOKING'']"

definition booking_expressions :: "string list" where
  "booking_expressions = [''agendar'', ''reservar'', ''separar'', ''apartar'', ''programar'', ''cuadrar'', ''quiero la fecha'']"

definition visit_expressions :: "string list" where
  "visit_expressions = [''visita'', ''visitar'', ''conocer el lugar'', ''ir a ver'']"

definition plan_stop_words :: "string list" where
  "plan_stop_words = [''de'', ''del'', ''la'', ''el'', ''los'', ''las'', ''y'', ''para'', ''entre'', ''un'', ''una'']"

definition generic_capture_actions :: "string list" where
  "generic_capture_actions = [''COLLECT_EVENT_TYPE'', ''COLLECT_GUEST_COUNT'', ''COLLECT_EVENT_DATE'', ''COLLECT_CUSTOMER_NAME'',
     ''COLLECT_BUDGET'', ''COLLECT_SERVICES'']"

definition availability_expressions :: "string list" where
  "availability_expressions = [''disponibilidad'', ''disponible'', ''disponibles'', ''cupo'', ''cupos'', ''hay espacio'',
     ''hay agenda'', ''tienen agenda'', ''esta ocupado'', ''ocupada'', ''tienen fecha'', ''hay fecha'', ''puedo reservar el'']"

text \<open>\<open>sorted(expressions)\<close>, whole.\<close>

definition phrase_pattern :: "string list \<Rightarrow> regex" where
  "phrase_pattern expressions = whole (one_of (order_by str_less expressions))"

definition free_availability_rx :: regex where
  "free_availability_rx = seqs [Boundary, literal ''libre'', Opt (literal ''s''), Boundary,
     Ahead False (seqs [some_spaces, literal ''de'', Boundary])]"

definition information_question_rx :: regex where
  "information_question_rx = seqs [Start, Opt (Seq (one_of [''y'', ''pero'']) some_spaces),
     one_of [''donde'', ''como'', ''cuanto'', ''cuando'', ''cual'', ''que'', ''por que''], Boundary]"

definition finds :: "ucd \<Rightarrow> regex \<Rightarrow> nat list \<Rightarrow> bool" where
  "finds u r cs \<longleftrightarrow> re_search u r cs \<noteq> None"

text \<open>\<open>re.findall("\w+", text)\<close>.\<close>

definition word_list :: "ucd \<Rightarrow> nat list \<Rightarrow> nat list list" where
  "word_list u cs = words_from u [] cs"

definition names_information :: "ucd \<Rightarrow> nat list \<Rightarrow> bool" where
  "names_information u txt \<longleftrightarrow>
     list_ex (\<lambda>w. w \<in> set (map cps plan_information_words)) (word_list u txt)"

definition is_availability_inquiry :: "ucd \<Rightarrow> string \<Rightarrow> bool" where
  "is_availability_inquiry u message_text \<longleftrightarrow>
     (let txt = label_cps u message_text in
      \<not> names_information u txt \<and> re_match_start u information_question_rx txt = None \<and>
      (finds u (phrase_pattern availability_expressions) txt \<or> finds u free_availability_rx txt))"

definition booking_guard_eligible :: "conversation_state option \<Rightarrow> string option \<Rightarrow> bool \<Rightarrow> bool \<Rightarrow> bool" where
  "booking_guard_eligible state pending_action bot_enabled self_service \<longleftrightarrow>
     (let idle = pending_action = None \<or> (self_service \<and> pending_action = Some ''CLASSIFY_MESSAGE'') in
      bot_enabled \<and>
      ((idle \<and> state \<in> {Some BOT_ACTIVE, Some ANSWERING_INFORMATION}) \<or>
       (self_service \<and> state = Some NEW \<and> pending_action = None) \<or>
       (self_service \<and> state = Some COLLECTING_EVENT_DATA \<and>
        pending_action \<in> set (None # Some ''CLASSIFY_MESSAGE'' # map Some generic_capture_actions))))"

definition is_explicit_visit_request :: "ucd \<Rightarrow> string \<Rightarrow> bool" where
  "is_explicit_visit_request u message_text \<longleftrightarrow> finds u (phrase_pattern visit_expressions) (label_cps u message_text)"

definition is_fixed_price_catalog_followup :: "string option \<Rightarrow> string option \<Rightarrow> bool" where
  "is_fixed_price_catalog_followup event_type last_question_code \<longleftrightarrow>
     (case Option.bind event_type (map_of fixed_price_information_codes) of
        None \<Rightarrow> False | Some codes \<Rightarrow> last_question_code \<in> Some ` set codes)"

definition explicit_choice_rx :: regex where
  "explicit_choice_rx = seqs [Start, one_of [''me interesa'', ''quiero'', ''el de''], Boundary]"

definition is_catalog_plan_choice :: "ucd \<Rightarrow> string \<Rightarrow> bool \<Rightarrow> bool" where
  "is_catalog_plan_choice u message_text has_date \<longleftrightarrow>
     (let txt = label_cps u message_text in
      word_list u txt \<noteq> [] \<and> \<not> names_information u txt \<and>
      re_match_start u information_question_rx txt = None \<and>
      (\<not> has_date \<or> re_match_start u explicit_choice_rx txt \<noteq> None))"

definition is_fixed_price_booking :: "ucd \<Rightarrow> string \<Rightarrow> string option \<Rightarrow> bool" where
  "is_fixed_price_booking u message_text event_type \<longleftrightarrow>
     event_type \<in> Some ` set fixed_price_event_types \<and>
     finds u (phrase_pattern booking_expressions) (label_cps u message_text) \<and> \<not> is_explicit_visit_request u message_text"

section \<open>The name of a plan, with typing errors\<close>

text \<open>A row of the edit distance from the previous one; \<open>diag\<close> is \<open>previous[column - 1]\<close>.\<close>

fun edit_cells :: "'a \<Rightarrow> nat \<Rightarrow> nat \<Rightarrow> nat list \<Rightarrow> 'a list \<Rightarrow> nat list" where
  "edit_cells rc prev diag (up # ups) (lc # lcs) =
     (let cell = min (min (prev + 1) (up + 1)) (diag + (if lc \<noteq> rc then 1 else 0))
      in cell # edit_cells rc cell up ups lcs)"
| "edit_cells rc prev diag _ _ = []"

definition edit_row :: "'a \<Rightarrow> nat \<Rightarrow> nat list \<Rightarrow> 'a list \<Rightarrow> nat list" where
  "edit_row rc row previous left = row # edit_cells rc row (hd previous) (tl previous) left"

fun edit_rows :: "nat \<Rightarrow> 'a list \<Rightarrow> nat \<Rightarrow> nat list \<Rightarrow> 'a list \<Rightarrow> bool" where
  "edit_rows max_edits left row previous [] = (last previous \<le> max_edits)"
| "edit_rows max_edits left row previous (rc # rcs) =
     (let current = edit_row rc row previous left in
      if list_all (\<lambda>x. max_edits < x) current then False
      else edit_rows max_edits left (Suc row) current rcs)"

definition within_edit_distance :: "'a list \<Rightarrow> 'a list \<Rightarrow> nat \<Rightarrow> bool" where
  "within_edit_distance left right max_edits \<longleftrightarrow>
     (if max_edits = 0 \<or> left = right then left = right
      else if length left + max_edits < length right \<or> length right + max_edits < length left then False
      else let (l, r) = (if length right < length left then (right, left) else (left, right))
           in edit_rows max_edits l 1 [0..<Suc (length l)] r)"

definition edit_budget :: "nat list \<Rightarrow> nat" where
  "edit_budget word = (if 6 \<le> length word then 2 else if 4 \<le> length word then 1 else 0)"

definition significant_words :: "ucd \<Rightarrow> string \<Rightarrow> nat list list" where
  "significant_words u name = filter (\<lambda>w. w \<notin> set (map cps plan_stop_words)) (word_list u (label_cps u name))"

definition plan_named :: "ucd \<Rightarrow> nat list list \<Rightarrow> string \<Rightarrow> bool" where
  "plan_named u ws name \<longleftrightarrow>
     (let needed = significant_words u name in
      needed \<noteq> [] \<and> list_all (\<lambda>w. list_ex (\<lambda>candidate. within_edit_distance w candidate (edit_budget w)) ws) needed)"

definition match_booking_plan :: "ucd \<Rightarrow> string \<Rightarrow> plan list \<Rightarrow> plan option" where
  "match_booking_plan u message_text plans =
     (if is_explicit_visit_request u message_text then None
      else (case filter (\<lambda>p. plan_named u (word_list u (label_cps u message_text)) (pl_name p)) plans of
              [p] \<Rightarrow> Some p | _ \<Rightarrow> None))"

section \<open>Lodging, and a person\<close>

definition lodging_rx :: regex where
  "lodging_rx = whole (one_of [''hotel'', ''hoteles'', ''hospedaje'', ''hospedar'', ''hospedarme'', ''hospedarnos'', ''habitacion'',
     ''habitaciones'', ''alojamiento'', ''alojar'', ''alojarnos'', ''estadia'', ''posada'', ''motel'', ''dormir'',
     ''pasar la noche'', ''noche de pareja'', ''amanecer juntos''])"

definition match_lodging_label :: "ucd \<Rightarrow> string \<Rightarrow> string option" where
  "match_lodging_label u message_text =
     map_option (\<lambda>m. utf8_encode (rm_text m)) (re_search u lodging_rx (label_cps u message_text))"

definition is_lodging_inquiry :: "ucd \<Rightarrow> string \<Rightarrow> bool" where
  "is_lodging_inquiry u message_text \<longleftrightarrow> match_lodging_label u message_text \<noteq> None"

definition person_rx :: regex where
  "person_rx = alts [literal ''un asesor'', literal ''una asesora'', Seq (literal ''una persona'') (Opt (literal '' del equipo'')),
     literal ''alguien'']"

definition human_request_rx :: regex where
  "human_request_rx = alts
     [seqs [one_of [''quiero'', ''necesito''], literal '' hablar con '', person_rx],
      seqs [literal ''me puedes comunicar con '', person_rx],
      seqs [literal ''pasame '', Opt (literal ''con ''), person_rx],
      seqs [literal ''quiero que me atienda una persona'', Opt (literal '' del equipo'')],
      literal ''necesito una persona'']"

definition please_first_rx :: regex where
  "please_first_rx = seqs [Start, literal ''por favor'', Alt (Seq (literal '','') spaces) some_spaces]"

definition please_last_rx :: regex where
  "please_last_rx = seqs [Alt (Seq (literal '','') spaces) some_spaces, literal ''por favor'', Stop]"

definition sentence_end :: "nat \<Rightarrow> bool" where
  "sentence_end c \<longleftrightarrow> c \<in> {46, 33, 63, 59, 191, 161}"

definition clauses_of :: "ucd \<Rightarrow> nat list \<Rightarrow> nat list list" where
  "clauses_of u txt = filter (\<lambda>c. c \<noteq> []) (map strip_cps (re_split u (plus (Class sentence_end)) txt))"

definition without_please :: "ucd \<Rightarrow> nat list \<Rightarrow> nat list" where
  "without_please u clause = re_sub u please_last_rx [] (re_sub u please_first_rx [] clause)"

definition is_explicit_human_request :: "ucd \<Rightarrow> string \<Rightarrow> bool" where
  "is_explicit_human_request u message_text \<longleftrightarrow>
     (let txt = joined_words (cps (strip_accents u (casefold u message_text)));
          clauses = clauses_of u txt;
          asked = (case clauses of c # cs \<Rightarrow> if c = cps ''no quiero mas informacion'' then cs else clauses | [] \<Rightarrow> [])
      in asked \<noteq> [] \<and> list_all (\<lambda>c. re_fullmatch u human_request_rx (without_please u c) \<noteq> None) asked)"

section \<open>The clock of a booking\<close>

definition morning_word :: "(string \<Rightarrow> regex) \<Rightarrow> regex" where
  "morning_word lit = seqs [lit ''ma'', Alt (lit n_tilde) (lit ''n''), lit ''ana'']"

text \<open>\<open>\b(?:de|en|por)\s+la\s+ma[n~n]ana\b\<close>, with or without regard to case.\<close>

definition in_the_morning_rx :: "(string \<Rightarrow> regex) \<Rightarrow> regex" where
  "in_the_morning_rx lit = seqs [Boundary, alts [lit ''de'', lit ''en'', lit ''por''], some_spaces, lit ''la'', some_spaces,
     morning_word lit, Boundary]"

definition day_period_rx :: regex where
  "day_period_rx = whole (alts [am_pm ''ap'', literal ''tarde'', literal ''noche''])"

definition fromisoformat_time :: "string \<Rightarrow> (app_error, tod) result" where
  "fromisoformat_time s = (case parse_hhmm s of None \<Rightarrow> Inl (ValueError s) | Some t \<Rightarrow> Inr t)"

definition resolve_booking_clock ::
  "ucd \<Rightarrow> string \<Rightarrow> bool \<Rightarrow> string \<Rightarrow> string \<Rightarrow> (app_error, tod option) result" where
  "resolve_booking_clock u message only_time_expected hours_start latest_start =
     (let morning = finds u (in_the_morning_rx literal) (cps (casefold u message));
          time_message = (if morning then message
            else utf8_encode (re_sub u (whole (morning_word (literal_ci u))) [] (cps message)))
      in case parse_visit_time_text u time_message (\<not> only_time_expected) of
           None \<Rightarrow> Inr None
         | Some clock \<Rightarrow>
             if finds u day_period_rx (cps (casefold u time_message)) \<or> morning \<or>
                \<not> (1 \<le> clock div us_hour \<and> clock div us_hour \<le> 11)
             then Inr (Some clock)
             else ebind (fromisoformat_time hours_start) (\<lambda>start. ebind (fromisoformat_time latest_start) (\<lambda>latest.
               let afternoon = clock + 12 * us_hour in
               Inr (Some (if start \<le> afternoon \<and> afternoon \<le> latest \<and> \<not> (start \<le> clock \<and> clock \<le> latest)
                          then afternoon else clock)))))"

section \<open>The name of a customer\<close>

text \<open>The letters and their case, from the Unicode tables.\<close>

record letters =
  lt_isalpha :: "nat \<Rightarrow> bool"
  lt_cased :: "nat \<Rightarrow> bool"
  lt_title :: "nat \<Rightarrow> nat list"
  lt_lower :: "nat \<Rightarrow> nat list"

text \<open>\<open>s.title()\<close>.\<close>

fun title_from :: "letters \<Rightarrow> bool \<Rightarrow> nat list \<Rightarrow> nat list" where
  "title_from lt after_cased [] = []"
| "title_from lt after_cased (c # cs) =
     (if after_cased then lt_lower lt c else lt_title lt c) @ title_from lt (lt_cased lt c) cs"

definition strip_of :: "(nat \<Rightarrow> bool) \<Rightarrow> nat list \<Rightarrow> nat list" where
  "strip_of f cs = rev (dropWhile f (rev (dropWhile f cs)))"

definition name_marks :: "nat \<Rightarrow> bool" where
  "name_marks c \<longleftrightarrow> c \<in> {161, 33, 191, 63, 46, 44, 59, 58}"

definition greeting_rx :: "ucd \<Rightarrow> regex" where
  "greeting_rx u = seqs [Start,
     alts (map (literal_ci u) [''hola'', ''buenos d'' @ i_acute @ ''as'', ''buenas tardes'', ''buenas noches'',
       ''buen d'' @ i_acute @ ''a'', ''buen dia'', ''buenas'']),
     Alt (plus (Class (\<lambda>c. is_space c \<or> c \<in> {33, 161, 46, 44, 58, 59}))) Stop]"

definition introduction_rx :: "ucd \<Rightarrow> regex" where
  "introduction_rx u = seqs [Start, alts (map (literal_ci u) [''me llamo'', ''mi nombre es'', ''soy'', ''habla'', ''con'']),
     Alt some_spaces Stop]"

definition spoken_name :: "ucd \<Rightarrow> string \<Rightarrow> nat list" where
  "spoken_name u message =
     (let value = strip_of name_marks (cps (strip message));
          value = re_sub u (greeting_rx u) [] value;
          value = re_sub u (introduction_rx u) [] value
      in joined_words (strip_of (\<lambda>c. name_marks c \<or> c = 32) value))"

definition name_ok :: "letters \<Rightarrow> nat list \<Rightarrow> bool" where
  "name_ok lt value \<longleftrightarrow> 2 \<le> length value \<and> length value \<le> 60 \<and> value \<noteq> [] \<and> length (filter (\<lambda>c. c = 32) value) < 5 \<and>
     list_ex (lt_isalpha lt) value \<and> list_all (\<lambda>c. lt_isalpha lt c \<or> c \<in> {32, 39, 45}) value"

definition extract_booking_name :: "ucd \<Rightarrow> letters \<Rightarrow> string \<Rightarrow> string option" where
  "extract_booking_name u lt message =
     (let value = spoken_name u message in
      if name_ok lt value then Some (utf8_encode (title_from lt False value)) else None)"

end
