(* ===== verification/Booking_Text_Facts.thy ===== *)
theory Booking_Text_Facts
  imports Booking_Texts
begin

text \<open>
  Facts on the customer's words: the bounded edit distance of plan names is the edit distance, a date read from a text
  never lies in the past, a time lies within the day, and the searches end.
\<close>

section \<open>The edit distance\<close>

text \<open>\<open>edited n xs ys\<close>: \<open>ys\<close> is \<open>xs\<close> with \<open>n\<close> characters replaced, removed or inserted.\<close>

inductive edited :: "nat \<Rightarrow> 'a list \<Rightarrow> 'a list \<Rightarrow> bool" where
  nothing: "edited 0 [] []"
| keep: "edited n xs ys \<Longrightarrow> edited n (x # xs) (x # ys)"
| replace: "edited n xs ys \<Longrightarrow> edited (Suc n) (x # xs) (y # ys)"
| remove: "edited n xs ys \<Longrightarrow> edited (Suc n) (x # xs) ys"
| insert: "edited n xs ys \<Longrightarrow> edited (Suc n) xs (y # ys)"

lemma edited_append: "edited m a b \<Longrightarrow> edited n c d \<Longrightarrow> edited (m + n) (a @ c) (b @ d)"
  by (induction rule: edited.induct) (auto intro: edited.intros)

lemma edited_refl: "edited 0 xs xs"
  by (induction xs) (auto intro: edited.intros)

lemma edited_zero: "edited 0 xs ys \<longleftrightarrow> xs = ys"
proof
  have "edited n xs ys \<Longrightarrow> n = 0 \<Longrightarrow> xs = ys" for n by (induction rule: edited.induct) auto
  then show "edited 0 xs ys \<Longrightarrow> xs = ys" by blast
qed (simp add: edited_refl)

lemma edited_sym: "edited n xs ys \<Longrightarrow> edited n ys xs"
  by (induction rule: edited.induct) (auto intro: edited.intros)

lemma edited_length: "edited n xs ys \<Longrightarrow> length xs \<le> length ys + n \<and> length ys \<le> length xs + n"
  by (induction rule: edited.induct) auto

lemma edited_rev: "edited n xs ys \<Longrightarrow> edited n (rev xs) (rev ys)"
proof (induction rule: edited.induct)
  case (keep n xs ys x)
  from edited_append [OF keep.IH edited_refl [of "[x]"]] show ?case by simp
next
  case (replace n xs ys x y)
  have "edited 1 [x] [y]" using edited.replace [OF edited.nothing] by simp
  from edited_append [OF replace.IH this] show ?case by simp
next
  case (remove n xs ys x)
  have "edited 1 [x] []" using edited.remove [OF edited.nothing] by simp
  from edited_append [OF remove.IH this] show ?case by simp
next
  case (insert n xs ys y)
  have "edited 1 [] [y]" using edited.insert [OF edited.nothing] by simp
  from edited_append [OF insert.IH this] show ?case by simp
qed (simp add: edited.nothing)

lemma edited_rev_iff: "edited n (rev xs) (rev ys) \<longleftrightarrow> edited n xs ys"
  using edited_rev [of n xs ys] edited_rev [of n "rev xs" "rev ys"] by auto

lemma edited_split:
  "edited n xs zs \<Longrightarrow> zs = ys @ bs \<Longrightarrow> \<exists>a b m. xs = a @ b \<and> m \<le> n \<and> edited m b bs"
proof (induction arbitrary: ys rule: edited.induct)
  case (remove n xs zs x)
  from remove.IH [OF remove.prems] obtain a b m where "xs = a @ b" "m \<le> n" "edited m b bs" by blast
  then show ?case by (intro exI [of _ "x # a"] exI [of _ b] exI [of _ m]) simp
next
  case (keep n xs zs x)
  show ?case
  proof (cases ys)
    case Nil
    with keep have "edited n (x # xs) bs" by (auto intro: edited.keep)
    then show ?thesis by (intro exI [of _ "[]"] exI [of _ "x # xs"] exI [of _ n]) simp
  next
    case (Cons y ys')
    with keep obtain a b m where "xs = a @ b" "m \<le> n" "edited m b bs" by auto
    then show ?thesis by (intro exI [of _ "x # a"] exI [of _ b] exI [of _ m]) simp
  qed
next
  case (replace n xs zs x y)
  show ?case
  proof (cases ys)
    case Nil
    with replace have "edited (Suc n) (x # xs) bs" by (auto intro: edited.replace)
    then show ?thesis by (intro exI [of _ "[]"] exI [of _ "x # xs"] exI [of _ "Suc n"]) simp
  next
    case (Cons y' ys')
    with replace obtain a b m where "xs = a @ b" "m \<le> n" "edited m b bs" by auto
    then show ?thesis by (intro exI [of _ "x # a"] exI [of _ b] exI [of _ m]) simp
  qed
next
  case (insert n xs zs y)
  show ?case
  proof (cases ys)
    case Nil
    with insert have "edited (Suc n) xs bs" by (auto intro: edited.insert)
    then show ?thesis by (intro exI [of _ "[]"] exI [of _ xs] exI [of _ "Suc n"]) simp
  next
    case (Cons y' ys')
    with insert obtain a b m where "xs = a @ b" "m \<le> n" "edited m b bs" by auto
    then show ?thesis by (intro exI [of _ a] exI [of _ b] exI [of _ m]) simp
  qed
qed (auto intro: edited.nothing)

text \<open>The least number of edits, by recursion on the ends of the words.\<close>

fun least_edits :: "'a list \<Rightarrow> 'a list \<Rightarrow> nat" where
  "least_edits [] ys = length ys"
| "least_edits (x # xs) [] = Suc (length xs)"
| "least_edits (x # xs) (y # ys) =
     min (min (least_edits xs (y # ys) + 1) (least_edits (x # xs) ys + 1)) (least_edits xs ys + (if x \<noteq> y then 1 else 0))"

lemma least_edits_Nil [simp]: "least_edits xs [] = length xs"
  by (cases xs) simp_all

lemma edited_all: "edited (length ys) [] ys" "edited (length xs) xs []"
proof -
  show "edited (length ys) [] ys" by (induction ys) (auto intro: edited.intros)
  show "edited (length xs) xs []" by (induction xs) (auto intro: edited.intros)
qed

lemma least_edits_possible: "edited (least_edits xs ys) xs ys"
proof (induction xs ys rule: least_edits.induct)
  case (1 ys)
  then show ?case by (simp add: edited_all)
next
  case (2 x xs)
  then show ?case using edited_all(2) [of "x # xs"] by simp
next
  case (3 x xs y ys)
  then show ?case
    using edited.remove [OF "3.IH"(1), of x] edited.insert [OF "3.IH"(2), of y] edited.keep [OF "3.IH"(3)]
      edited.replace [OF "3.IH"(3), of x y]
    by (auto simp: min_def split: if_splits)
qed

lemma least_edits_least: "edited n xs ys \<Longrightarrow> least_edits xs ys \<le> n"
proof (induction rule: edited.induct)
  case (remove n xs ys x)
  then show ?case by (cases ys) auto
next
  case (insert n xs ys y)
  then show ?case by (cases xs) auto
qed auto

lemma least_edits_iff: "least_edits xs ys \<le> k \<longleftrightarrow> (\<exists>n \<le> k. edited n xs ys)"
  using least_edits_possible [of xs ys] least_edits_least order_trans by blast

section \<open>The table of the code\<close>

text \<open>A row of the table: the distances of the prefixes of a word, kept in reverse, to \<open>b\<close>.\<close>

fun distances :: "'a list \<Rightarrow> 'a list \<Rightarrow> 'a list \<Rightarrow> nat list" where
  "distances b pl [] = [least_edits pl b]"
| "distances b pl (c # cs) = least_edits pl b # distances b (c # pl) cs"

lemma distances_Nil: "distances b pl cs \<noteq> []" "hd (distances b pl cs) = least_edits pl b"
  by (cases cs; simp)+

lemma tl_distances: "tl (distances b pl (c # cs)) = least_edits (c # pl) b # tl (distances b (c # pl) cs)"
  by (cases cs) simp_all

lemma edit_cells_eq:
  "edit_cells rc (least_edits pl (rc # b)) (least_edits pl b) (tl (distances b pl lcs)) lcs = tl (distances (rc # b) pl lcs)"
proof (induction lcs arbitrary: pl)
  case (Cons c cs)
  have cell: "min (min (least_edits pl (rc # b) + 1) (least_edits (c # pl) b + 1))
      (least_edits pl b + (if c \<noteq> rc then 1 else 0)) = least_edits (c # pl) (rc # b)" by simp
  show ?case
    unfolding tl_distances edit_cells.simps Let_def cell Cons.IH ..
qed simp

lemma edit_row_eq:
  assumes "row = Suc (length b)"
  shows "edit_row rc row (distances b [] left) left = distances (rc # b) [] left"
proof -
  have "edit_row rc row (distances b [] left) left = row # tl (distances (rc # b) [] left)"
    using edit_cells_eq [of rc "[]" b left] assms by (simp add: edit_row_def distances_Nil(2))
  also have "\<dots> = distances (rc # b) [] left"
    using distances_Nil [of "rc # b" "[]" left] assms by (cases "distances (rc # b) [] left") auto
  finally show ?thesis .
qed

lemma last_distances: "last (distances b pl cs) = least_edits (rev cs @ pl) b"
  by (induction cs arbitrary: pl) (simp_all add: distances_Nil)

lemma distances_mem: "rev cs = x @ y \<Longrightarrow> least_edits (y @ pl) b \<in> set (distances b pl cs)"
proof (induction cs arbitrary: pl x y)
  case (Cons c cs)
  show ?case
  proof (cases y rule: rev_cases)
    case (snoc y' z)
    with Cons.prems have "rev cs = x @ y'" "z = c" by auto
    with Cons.IH [of x y' "c # pl"] snoc show ?thesis by simp
  qed simp
qed simp

lemma all_above:
  assumes "list_all (\<lambda>x. k < x) (distances b [] left)"
  shows "k < least_edits (rev left) (ys @ b)"
proof (rule ccontr)
  assume "\<not> k < least_edits (rev left) (ys @ b)"
  then have le: "least_edits (rev left) (ys @ b) \<le> k" by simp
  from edited_split [OF least_edits_possible [of "rev left" "ys @ b"] refl] obtain a c m where
    split: "rev left = a @ c" "m \<le> least_edits (rev left) (ys @ b)" "edited m c b" by blast
  from least_edits_least [OF split(3)] split(2) le have "least_edits c b \<le> k" by simp
  moreover have "least_edits c b \<in> set (distances b [] left)" using distances_mem [OF split(1), of "[]" b] by simp
  ultimately show False using assms by (auto simp: list_all_iff)
qed

lemma edit_rows_eq:
  "row = Suc (length b) \<Longrightarrow>
     edit_rows k left row (distances b [] left) rcs \<longleftrightarrow> least_edits (rev left) (rev rcs @ b) \<le> k"
proof (induction rcs arbitrary: row b)
  case Nil
  then show ?case by (simp add: last_distances)
next
  case (Cons rc rcs)
  have step: "edit_rows k left row (distances b [] left) (rc # rcs) =
      (if list_all (\<lambda>x. k < x) (distances (rc # b) [] left) then False
       else edit_rows k left (Suc row) (distances (rc # b) [] left) rcs)"
    unfolding edit_rows.simps Let_def edit_row_eq [OF Cons.prems] ..
  show ?case
  proof (cases "list_all (\<lambda>x. k < x) (distances (rc # b) [] left)")
    case True
    with all_above [OF True, of "rev rcs"] show ?thesis unfolding step by simp
  next
    case False
    with Cons.IH [of "Suc row" "rc # b"] Cons.prems show ?thesis unfolding step by simp
  qed
qed

lemma first_row: "distances [] pl cs = [length pl..<Suc (length pl + length cs)]"
proof (induction cs arbitrary: pl)
  case (Cons c cs)
  have "[length pl..<Suc (length pl + length (c # cs))] = length pl # [Suc (length pl)..<Suc (length pl + length (c # cs))]"
    by (rule upt_conv_Cons) simp
  with Cons show ?case by simp
qed simp

lemma edit_rows_start: "edit_rows k l 1 [0..<Suc (length l)] r \<longleftrightarrow> (\<exists>n \<le> k. edited n l r)"
proof -
  have "edit_rows k l 1 (distances [] [] l) r \<longleftrightarrow> least_edits (rev l) (rev r) \<le> k"
    using edit_rows_eq [of 1 "[]" k l r] by simp
  then show ?thesis by (simp add: first_row least_edits_iff edited_rev_iff)
qed

section \<open>Properties\<close>

text \<open>C28. The bounded comparison of two words, a table of distances cut off as soon as a row exceeds the bound, accepts
  exactly the words that some number of replaced, removed or inserted characters within the bound turns into each other.\<close>

theorem typing_errors_exact:
  "within_edit_distance left right max_edits \<longleftrightarrow> (\<exists>n \<le> max_edits. edited n left right)"
proof (cases "max_edits = 0 \<or> left = right")
  case True
  then show ?thesis using edited_refl [of right] by (auto simp: within_edit_distance_def edited_zero)
next
  case False
  show ?thesis
  proof (cases "length left + max_edits < length right \<or> length right + max_edits < length left")
    case True
    then have "\<not> (\<exists>n \<le> max_edits. edited n left right)" using edited_length [of _ left right] by fastforce
    with False True show ?thesis by (auto simp: within_edit_distance_def)
  next
    case near: False
    have "(\<exists>n \<le> max_edits. edited n right left) \<longleftrightarrow> (\<exists>n \<le> max_edits. edited n left right)"
      using edited_sym by blast
    with False near show ?thesis
      by (simp add: within_edit_distance_def edit_rows_start [unfolded One_nat_def] del: upt_Suc split: if_split)
  qed
qed


section \<open>Dates and times\<close>

lemma first_future_D: "first_future day month today ys = Some d \<Longrightarrow> today \<le> d"
  by (induction ys) (auto split: option.splits if_splits)

lemma future_date_D: "future_date day month year today = Some d \<Longrightarrow> today \<le> d"
  unfolding future_date_def by (rule first_future_D)

lemma resolve_absolute_D: "resolve_absolute_visit_date u cs today = Some d \<Longrightarrow> today \<le> d"
  by (auto simp: resolve_absolute_visit_date_def split: option.splits intro: future_date_D)

lemma relative_word_D: "relative_word u cs rs = Some (n, m) \<Longrightarrow> n \<in> snd ` set rs"
  by (induction u cs rs rule: relative_word.induct) (auto split: option.splits)

lemma days_until_bounds: "1 \<le> days_until today n \<and> days_until today n \<le> 7"
proof -
  have "0 \<le> (n - weekday today) mod 7 \<and> (n - weekday today) mod 7 < 7" by simp
  then show ?thesis by (simp add: days_until_def Let_def) linarith
qed

lemma resolve_relative_D: "resolve_relative_visit_date u cs today = Some (d, m) \<Longrightarrow> today \<le> d"
proof (cases "relative_word u cs relative_words")
  case None
  assume "resolve_relative_visit_date u cs today = Some (d, m)"
  with None obtain n where "d = today + days_until today n" by (auto simp: resolve_relative_visit_date_def)
  with days_until_bounds [of today n] show ?thesis by simp
next
  case (Some r)
  assume "resolve_relative_visit_date u cs today = Some (d, m)"
  with Some have "d = today + fst r" "fst r \<in> snd ` set relative_words"
    using relative_word_D [of u cs relative_words "fst r" "snd r"] by (cases r, auto simp: resolve_relative_visit_date_def)+
  then show ?thesis by (auto simp: relative_words_def)
qed

lemma resolve_day_only_D:
  assumes "resolve_day_only u text today confirm m = Inr v"
  shows "(vd_resolved_date v = Some d \<longrightarrow> today \<le> d) \<and> (vd_interpretation v = RELATIVA \<longrightarrow> vd_needs_confirmation v = confirm)"
proof (cases "day_reachable (matched_digits u 1 m) today")
  case True
  with assms obtain t where t: "parse_customer_date_expression u (utf8_encode (rm_text m)) today = Some (Inr t)"
    and v: "v = read_visit_date (dt_event_date t) confirm RELATIVA (date_match_text u text (Some m)) True"
    by (auto simp: resolve_day_only_def split: option.splits sum.splits)
  from customer_date_accepted [OF t] v show ?thesis by (auto simp: accepted_def not_before_def read_visit_date_def)
next
  case False
  with assms show ?thesis by (auto simp: resolve_day_only_def no_visit_date_def)
qed

lemma make_time_D: "make_time h m = Some t \<Longrightarrow> 0 \<le> t \<and> t < us_day \<and> t div us_hour = h"
  by (auto simp: make_time_def us_defs split: if_splits)

lemma clock_of_D: "clock_of u h m p = Some t \<Longrightarrow> 0 \<le> t \<and> t < us_day"
  by (auto simp: clock_of_def Let_def dest: make_time_D)

lemma parse_visit_time_D: "parse_visit_time_text u text explicit = Some t \<Longrightarrow> 0 \<le> t \<and> t < us_day"
  by (auto simp: parse_visit_time_text_def Let_def bind_eq_Some_conv split: if_splits list.splits dest: clock_of_D)


lemmas regex_eval = re_search_def re_finditer_def match_at_def next_cp_def advance_def word_at_def point_of_def match_of_def
  re_sub_def re_sub_with_def re_match_start_def literal_def cps_def one_of_def plus_def between_def range_cp_def digit_rx_def
  space_rx_def word_rx_def whole_def finds_def spaces_def some_spaces_def date_separator_def month_token_def
  one_or_two_digits_def am_pm_def spanish_months_def

lemma dos_normal: "normalize_spanish_text ascii_ucd ''dos'' = [100, 111, 115]"
  by (simp add: normalize_spanish_text_def without_accents_def text_eval)

lemma dos_evaluated:
  "re_finditer ascii_ucd (date_numbers ascii_ucd) [100, 111, 115] = []"
  "re_finditer ascii_ucd (clock_candidates ascii_ucd) [100, 111, 115] = []"
  "hour_word ascii_ucd [100, 111, 115] = Some 2"
  "re_search ascii_ucd afternoon_rx [100, 111, 115] = None"
  "re_search ascii_ucd morning_rx [100, 111, 115] = None"
  by (simp_all add: date_numbers_def clock_candidates_def hour_word_def spanish_hours_def afternoon_rx_def morning_rx_def
      regex_eval text_eval)

lemma dos_time: "parse_visit_time_text ascii_ucd ''dos'' False = Some (at_hour 2)"
  by (simp add: parse_visit_time_text_def dos_normal re_sub_def re_sub_with_def dos_evaluated clock_of_def make_time_def
      at_hour_def)

lemma hoy_normal: "normalize_spanish_text ascii_ucd ''hoy'' = [104, 111, 121]"
  by (simp add: normalize_spanish_text_def without_accents_def text_eval)

lemma hoy_evaluated:
  "re_search ascii_ucd (numeric_visit_date ascii_ucd) [104, 111, 121] = None"
  "re_search ascii_ucd (textual_visit_date ascii_ucd) [104, 111, 121] = None"
  "re_search ascii_ucd (day_only_visit_date ascii_ucd) [104, 111, 121] = None"
  "\<exists>m. relative_word ascii_ucd [104, 111, 121] relative_words = Some (0, m)"
  by (simp_all add: numeric_visit_date_def textual_visit_date_def day_only_visit_date_def relative_words_def regex_eval text_eval)

lemma hoy_date:
  "\<exists>v. resolve_visit_date_text ascii_ucd ''hoy'' 739829 True = Inr v \<and> vd_resolved_date v = Some 739829 \<and>
     vd_interpretation v = RELATIVA"
  using hoy_evaluated
  by (auto simp: resolve_visit_date_text_def hoy_normal resolve_absolute_visit_date_def first_some_def
      resolve_relative_visit_date_def max_date_def read_visit_date_def Let_def)


end
