(* ===== verification/Entities.thy ===== *)
theory Entities
  imports Booking_Texts Staff_Accounts
begin

text \<open>
  The boundary between what the language model proposes and what the database may hold:
  \<open>app/conversation/entity_validation.py\<close> and \<open>app/lead/budget.py\<close>. A check gives the code of its
  \<open>InvalidEntity\<close> or the accepted value. Texts are valid UTF-8, so that the test for lone surrogates never applies.
\<close>

section \<open>Decimals\<close>

text \<open>\<open>(c, k)\<close> is \<open>c / 10 ^ k\<close>; \<open>Decimal\<close>'s context keeps 28 digits, rounding half to even.\<close>

definition digits_count :: "int \<Rightarrow> nat" where
  "digits_count n = length (show_int \<bar>n\<bar>)"

definition half_even :: "int \<Rightarrow> int \<Rightarrow> int" where
  "half_even n m = (let q = n div m; r = n mod m in
     if 2 * r < m then q else if m < 2 * r then q + 1 else if even q then q else q + 1)"

definition dec_fix :: "decimal \<Rightarrow> decimal" where
  "dec_fix = (\<lambda>(c, k). if digits_count c \<le> 28 then (c, k)
     else let e = 10 ^ (digits_count c - 28) in (half_even c e * e, k))"

definition dec_add :: "decimal \<Rightarrow> decimal \<Rightarrow> decimal" where
  "dec_add = (\<lambda>(a, j) (b, k). dec_fix (a * 10 ^ (max j k - j) + b * 10 ^ (max j k - k), max j k))"

definition dec_millions :: "decimal \<Rightarrow> decimal" where
  "dec_millions = (\<lambda>(c, k). dec_fix (c * 1000000, k))"

definition dec_less :: "decimal \<Rightarrow> decimal \<Rightarrow> bool" where
  "dec_less = (\<lambda>(a, j) (b, k). a * 10 ^ k < b * 10 ^ j)"

definition dec_le :: "decimal \<Rightarrow> decimal \<Rightarrow> bool" where
  "dec_le = (\<lambda>(a, j) (b, k). a * 10 ^ k \<le> b * 10 ^ j)"

definition dec_int :: "int \<Rightarrow> decimal" where
  "dec_int n = (n, 0)"

definition dec_half :: decimal where
  "dec_half = (5, 1)"

text \<open>\<open>d.quantize(Decimal("1"))\<close>; \<open>None\<close> is its InvalidOperation.\<close>

definition dec_round :: "decimal \<Rightarrow> decimal option" where
  "dec_round = (\<lambda>(c, k). let n = half_even c (10 ^ k) in if digits_count n \<le> 28 then Some (n, 0) else None)"

definition dec_cents :: "decimal \<Rightarrow> bool" where
  "dec_cents = (\<lambda>(c, k). c * 100 mod 10 ^ k = 0)"

text \<open>\<open>Decimal(text)\<close> for a text of digits and points.\<close>

definition dec_of :: "ucd \<Rightarrow> nat list \<Rightarrow> decimal option" where
  "dec_of u cs =
     (let whole_part = takeWhile (\<lambda>c. c \<noteq> 46) cs; rest = drop (Suc (length whole_part)) cs in
      if whole_part @ rest = [] \<or> \<not> list_all (uc_isdecimal u) (whole_part @ rest) then None
      else Some (int_of_digits u (whole_part @ rest), length rest))"

definition dec_str :: "decimal \<Rightarrow> string" where
  "dec_str = (\<lambda>(c, k). if k = 0 then show_int c
     else show_int (c div 10 ^ k) @ ''.'' @ pad k (show_int (c mod 10 ^ k)))"

section \<open>Amounts in Spanish: \<open>lead/budget.py\<close>\<close>

definition number_words :: "(string \<times> decimal) list" where
  "number_words = [(''un'', (1, 0)), (''uno'', (1, 0)), (''una'', (1, 0)), (''dos'', (2, 0)), (''tres'', (3, 0)), (''cuatro'', (4, 0)),
     (''cinco'', (5, 0)), (''seis'', (6, 0)), (''siete'', (7, 0)), (''ocho'', (8, 0)), (''nueve'', (9, 0)), (''diez'', (10, 0)),
     (''once'', (11, 0)), (''doce'', (12, 0)), (''medio'', (5, 1)), (''media'', (5, 1))]"

text \<open>\<open>s.split()\<close>.\<close>

fun split_words :: "nat list \<Rightarrow> nat list \<Rightarrow> nat list list" where
  "split_words w [] = (if w = [] then [] else [rev w])"
| "split_words w (c # cs) =
     (if is_space c then (if w = [] then split_words [] cs else rev w # split_words [] cs) else split_words (c # w) cs)"

definition number_rx :: "ucd \<Rightarrow> regex" where
  "number_rx u = Seq (plus (digit_rx u)) (Opt (Seq (literal ''.'') (plus (digit_rx u))))"

definition token_value :: "ucd \<Rightarrow> nat list \<Rightarrow> decimal" where
  "token_value u token =
     (case map_of (map (\<lambda>(w, d). (cps w, d)) number_words) token of
        Some d \<Rightarrow> d
      | None \<Rightarrow> if re_fullmatch u (number_rx u) token = None then dec_int 0
                else (case dec_of u token of Some d \<Rightarrow> d | None \<Rightarrow> dec_int 0))"

definition parse_spanish_number :: "ucd \<Rightarrow> nat list \<Rightarrow> decimal option" where
  "parse_spanish_number u value =
     (let total = foldl (\<lambda>t token. dec_add t (token_value u token)) (dec_int 0)
                    (split_words [] (map (\<lambda>c. if c = 121 then 32 else c) value))
      in if dec_le total (dec_int 0) then None else Some total)"

definition positive_decimal :: "decimal \<Rightarrow> decimal option" where
  "positive_decimal amount = (if dec_le amount (dec_int 0) then None else dec_round amount)"

text \<open>The text without the currency marks and with points for commas.\<close>

fun remove_word :: "nat list \<Rightarrow> nat \<Rightarrow> nat list \<Rightarrow> nat list" where
  "remove_word w skip [] = []"
| "remove_word w skip (c # cs) =
     (if 0 < skip then remove_word w (skip - 1) cs
      else if is_prefix w (c # cs) then remove_word w (length w - 1) cs else c # remove_word w 0 cs)"

definition compact_amount :: "nat list \<Rightarrow> nat list" where
  "compact_amount cs = map (\<lambda>c. if c = 44 then 46 else c)
     (strip_cps (remove_word (cps ''cop'') 0 (filter (\<lambda>c. c \<noteq> 36) cs)))"

definition millions_rx :: "ucd \<Rightarrow> regex" where
  "millions_rx u = seqs [Group 1 (number_rx u), spaces, literal ''m'', Boundary]"

definition millon_accented :: string where
  "millon_accented = ''mill'' @ o_acute @ ''n''"

definition names_millions :: "nat list \<Rightarrow> bool" where
  "names_millions cs \<longleftrightarrow> list_ex (\<lambda>w. is_infix (cps w) cs) [''millon'', millon_accented, ''millones'']"

text \<open>\<open>re.split("millones?|mill\'on", s, maxsplit=1)[0].strip()\<close>.\<close>

definition before_millions :: "ucd \<Rightarrow> nat list \<Rightarrow> nat list" where
  "before_millions u cs =
     (case re_search u (Alt (Seq (literal ''millone'') (Opt (literal ''s''))) (literal millon_accented)) cs of
        None \<Rightarrow> strip_cps cs | Some m \<Rightarrow> strip_cps (take (rm_start m) cs))"

definition names_half :: "nat list \<Rightarrow> bool" where
  "names_half cs \<longleftrightarrow> is_infix (cps ''medio'') cs \<or> is_infix (cps ''media'') cs"

definition amount_digits :: "ucd \<Rightarrow> nat list \<Rightarrow> nat list" where
  "amount_digits u cs = filter (\<lambda>c. uc_isdecimal u c \<or> c = 46) cs"

text \<open>The amount that a text without currency marks names, before it is rounded. \<open>None\<close> is a ValueError or an InvalidOperation.\<close>

definition named_amount :: "ucd \<Rightarrow> nat list \<Rightarrow> decimal option" where
  "named_amount u squeezed =
     (case re_search u (millions_rx u) squeezed of
        Some m \<Rightarrow> map_option dec_millions (Option.bind (group 1 m) (dec_of u))
      | None \<Rightarrow>
          if names_millions squeezed then
            map_option (\<lambda>n. dec_millions (if names_half squeezed then dec_add n dec_half else n))
              (parse_spanish_number u (before_millions u squeezed))
          else (let ds = amount_digits u squeezed in
                if ds = [] then None
                else map_option (\<lambda>n. if dec_less n (dec_int 1000) \<and> 46 \<in> set ds then dec_millions n else n) (dec_of u ds)))"

definition minus_sign :: "nat list \<Rightarrow> bool" where
  "minus_sign cs \<longleftrightarrow> 45 \<in> set cs \<or> is_prefix (cps ''menos '') cs"

definition parse_cop_amount :: "ucd \<Rightarrow> nat list \<Rightarrow> decimal option" where
  "parse_cop_amount u raw =
     (let txt = concat (map (uc_casefold u) (strip_cps raw)) in
      if txt = [] \<or> minus_sign txt then None else Option.bind (named_amount u (compact_amount txt)) positive_decimal)"

definition calculate_budget_range :: "decimal option \<Rightarrow> string" where
  "calculate_budget_range amount =
     (case amount of
        None \<Rightarrow> ''NOT_PROVIDED''
      | Some a \<Rightarrow> if dec_less a (dec_int 4000000) then ''BELOW_REFERENCE''
                  else if dec_less a (dec_int 12000000) then ''REFERENCE_RANGE'' else ''PREMIUM'')"

section \<open>Proposed values\<close>

text \<open>What a model's answer may hold; a float is its shortest decimal form, \<open>None\<close> if it is not finite.\<close>

datatype evalue =
    VNull
  | VBool bool
  | VInt int
  | VFloat "decimal option"
  | VText string
  | VList "evalue list"
  | VDict "(string \<times> evalue) list"

record extracted_entity =
  en_entity :: string
  en_raw_value :: string
  en_normalized_value :: evalue
  en_quality_status :: string
  en_confidence :: decimal
  en_needs_confirmation :: bool
  en_validation_errors :: "string list"

datatype entity_value =
    EV_Text string
  | EV_Int int
  | EV_Bool bool
  | EV_Budget decimal
  | EV_Date date_triplet
  | EV_Range int int
  | EV_Services "string list"

record rejection_row =
  rj_entity :: string
  rj_code :: string
  rj_value_type :: string
  rj_correction :: bool

record accepted_entity =
  ac_entity :: extracted_entity
  ac_value :: entity_value
  ac_warnings :: "rejection_row list"

type_synonym 'a checked = "(string, 'a) result"

definition entity_names :: "string list" where
  "entity_names = [''full_name'', ''event_type'', ''event_date'', ''guest_count'', ''guest_count_range'', ''estimated_budget'',
     ''budget_declined'', ''requested_services'', ''special_requests'']"

definition max_integer :: int where
  "max_integer = 2147483647"

definition max_budget :: decimal where
  "max_budget = (999999999999, 2)"

definition technical_type :: "evalue \<Rightarrow> string" where
  "technical_type v = (case v of VNull \<Rightarrow> ''null'' | VBool _ \<Rightarrow> ''bool'' | VInt _ \<Rightarrow> ''int'' | VFloat _ \<Rightarrow> ''float''
     | VText _ \<Rightarrow> ''str'' | VList _ \<Rightarrow> ''list'' | VDict _ \<Rightarrow> ''dict'')"

definition rejection :: "extracted_entity \<Rightarrow> string \<Rightarrow> rejection_row" where
  "rejection e code = \<lparr>rj_entity = (if en_entity e \<in> set entity_names then en_entity e else ''UNKNOWN''), rj_code = code,
     rj_value_type = technical_type (en_normalized_value e), rj_correction = (en_quality_status e = ''CORRECTED'')\<rparr>"

section \<open>One value\<close>

definition text_value :: "evalue \<Rightarrow> string checked" where
  "text_value v =
     (case v of
        VText s \<Rightarrow> if CHR 0x00 \<in> set s then Inl ''UNREPRESENTABLE_TEXT''
                   else if strip s = [] then Inl ''REQUIRED_VALUE_MISSING'' else Inr (strip s)
      | _ \<Rightarrow> Inl ''INVALID_TEXT_TYPE'')"

definition name_value :: "letters \<Rightarrow> evalue \<Rightarrow> string checked" where
  "name_value lt v =
     (case v of
        VText s \<Rightarrow>
          if CHR 0x00 \<in> set s then Inl ''UNREPRESENTABLE_TEXT''
          else (let name = joined_words (cps s) in
                if name = [] then Inl ''REQUIRED_VALUE_MISSING''
                else if length name < 2 \<or> 120 < length name \<or> \<not> list_ex (lt_isalpha lt) name then Inl ''INVALID_NAME''
                else Inr (utf8_encode name))
      | _ \<Rightarrow> Inl ''INVALID_TEXT_TYPE'')"

definition validated_name :: "letters \<Rightarrow> evalue \<Rightarrow> string option" where
  "validated_name lt v = (case name_value lt v of Inl _ \<Rightarrow> None | Inr s \<Rightarrow> Some s)"

definition integer_in_range :: "int \<Rightarrow> int checked" where
  "integer_in_range n = (if 0 < n \<and> n \<le> max_integer then Inr n else Inl ''INTEGER_OUT_OF_RANGE'')"

definition integer_text :: "string \<Rightarrow> int checked" where
  "integer_text s =
     (let cs = strip s; digits = (if cs \<noteq> [] \<and> hd cs = CHR ''+'' then tl cs else cs) in
      if digits = [] \<or> \<not> list_all is_digit digits then Inl ''INVALID_INTEGER_FORMAT''
      else let significant = dropWhile (\<lambda>c. c = CHR ''0'') digits in
           if 10 < length significant then Inl ''INTEGER_OVERFLOW'' else integer_in_range (digits_val significant))"

definition integer_value :: "evalue \<Rightarrow> int checked" where
  "integer_value v =
     (case v of
        VText s \<Rightarrow> integer_text s
      | VFloat None \<Rightarrow> Inl ''INVALID_INTEGER_FORMAT''
      | VFloat (Some (c, k)) \<Rightarrow>
          if c mod 10 ^ k \<noteq> 0 then Inl ''INVALID_INTEGER_FORMAT'' else integer_in_range (c div 10 ^ k)
      | VInt n \<Rightarrow> integer_in_range n
      | _ \<Rightarrow> Inl ''INVALID_INTEGER_TYPE'')"

section \<open>Amounts\<close>

definition foreign_currency :: "nat list \<Rightarrow> bool" where
  "foreign_currency cs \<longleftrightarrow>
     list_ex (\<lambda>w. is_infix (cps w) cs) [''usd'', ''eur'', ''dolar'', ''d'' @ o_acute @ ''lar'', ''euro'']"

definition thousands_rx :: "ucd \<Rightarrow> regex" where
  "thousands_rx u = (let block = Seq (literal ''.'') (times 3 (digit_rx u)) in
     seqs [between 1 3 (digit_rx u), times 2 block, Star block])"

definition palos_rx :: regex where
  "palos_rx = seqs [Boundary, literal ''palo'', Opt (literal ''s''), Boundary]"

definition amount_text :: "ucd \<Rightarrow> string \<Rightarrow> nat list" where
  "amount_text u s = re_sub_with u (thousands_rx u) (filter (\<lambda>c. c \<noteq> 46)) (re_sub u palos_rx (cps ''millones'') (cps (casefold u s)))"

definition spoken_amount :: "ucd \<Rightarrow> evalue \<Rightarrow> decimal checked" where
  "spoken_amount u source =
     ebind (text_value source) (\<lambda>s.
       let folded = cps (casefold u s) in
       if minus_sign folded then Inl ''BUDGET_OUT_OF_RANGE''
       else if foreign_currency folded then Inl ''UNSUPPORTED_CURRENCY''
       else let txt = amount_text u s in
            (case (parse_cop_amount u txt, named_amount u (compact_amount txt)) of
               (Some _, Some amount) \<Rightarrow> Inr amount
             | _ \<Rightarrow> Inl ''INVALID_BUDGET_FORMAT''))"

definition plain_number_rx :: "ucd \<Rightarrow> regex" where
  "plain_number_rx u = Seq (Opt (literal ''+'')) (number_rx u)"

definition source_amount :: "ucd \<Rightarrow> evalue \<Rightarrow> string \<Rightarrow> decimal checked" where
  "source_amount u v raw =
     (case v of
        VNull \<Rightarrow> spoken_amount u (VText raw)
      | VInt n \<Rightarrow> Inr (dec_int n)
      | VFloat (Some d) \<Rightarrow> Inr d
      | VFloat None \<Rightarrow> Inl ''NONFINITE_BUDGET''
      | VText s \<Rightarrow>
          if re_fullmatch u (plain_number_rx u) (cps (strip s)) = None then spoken_amount u v
          else (case dec_of u (filter (\<lambda>c. c \<noteq> 43) (cps (strip s))) of
                  Some d \<Rightarrow> Inr d | None \<Rightarrow> Inl ''INVALID_BUDGET_FORMAT'')
      | _ \<Rightarrow> Inl ''INVALID_BUDGET_TYPE'')"

definition amount_value :: "ucd \<Rightarrow> evalue \<Rightarrow> string \<Rightarrow> decimal checked" where
  "amount_value u v raw =
     ebind (source_amount u v raw) (\<lambda>amount.
       if \<not> (dec_less (dec_int 0) amount \<and> dec_le amount max_budget) then Inl ''BUDGET_OUT_OF_RANGE''
       else if \<not> dec_cents amount then Inl ''BUDGET_PRECISION_LOSS'' else Inr amount)"

section \<open>Dates\<close>

text \<open>\<open>date.fromisoformat\<close>: calendar dates and week dates, with or without hyphens.\<close>

definition week_one :: "int \<Rightarrow> date" where
  "week_one y = (let jan4 = days_before_year y + 4 in jan4 - weekday jan4)"

definition week_date :: "int \<Rightarrow> int \<Rightarrow> int \<Rightarrow> date option" where
  "week_date y w d =
     (if 1 \<le> y \<and> y \<le> 9999 \<and> 1 \<le> w \<and> week_one y + 7 * (w - 1) < week_one (y + 1) \<and> 1 \<le> d \<and> d \<le> 7 \<and>
         1 \<le> week_one y + 7 * (w - 1) + d - 1 \<and> week_one y + 7 * (w - 1) + d - 1 \<le> max_date
      then Some (week_one y + 7 * (w - 1) + d - 1) else None)"

definition digits_only :: "string \<Rightarrow> int option" where
  "digits_only s = (if s \<noteq> [] \<and> list_all is_digit s then Some (digits_val s) else None)"

definition date_fromisoformat :: "string \<Rightarrow> date option" where
  "date_fromisoformat s =
     (case digits_only (take 4 s) of
        None \<Rightarrow> None
      | Some y \<Rightarrow>
          let separated = (length s \<in> {8, 10} \<and> s ! 4 = CHR ''-''); rest = drop (if separated then 5 else 4) s in
          if length s \<notin> {7, 8, 10} then None
          else if rest \<noteq> [] \<and> hd rest = CHR ''W'' then
            (case (digits_only (take 2 (tl rest)), drop 3 rest) of
               (Some w, []) \<Rightarrow> if length rest = 3 then week_date y w 1 else None
             | (Some w, others) \<Rightarrow>
                 (case (if separated then (if hd others = CHR ''-'' then tl others else []) else others) of
                    [c] \<Rightarrow> if is_digit c then week_date y w (digit_val c) else None
                  | _ \<Rightarrow> None)
             | _ \<Rightarrow> None)
          else if separated \<and> length rest = 5 \<and> rest ! 2 = CHR ''-'' then
            (case (digits_only (take 2 rest), digits_only (drop 3 rest)) of
               (Some m, Some d) \<Rightarrow> make_date y m d | _ \<Rightarrow> None)
          else if \<not> separated \<and> length rest = 4 then
            (case (digits_only (take 2 rest), digits_only (drop 2 rest)) of
               (Some m, Some d) \<Rightarrow> make_date y m d | _ \<Rightarrow> None)
          else None)"

definition vget :: "string \<Rightarrow> (string \<times> evalue) list \<Rightarrow> evalue" where
  "vget k kvs = (case map_of kvs k of None \<Rightarrow> VNull | Some v \<Rightarrow> v)"

definition triplet_checked :: "(app_error, date_triplet) result option \<Rightarrow> date_triplet checked" where
  "triplet_checked r = (case r of Some (Inr t) \<Rightarrow> Inr t | _ \<Rightarrow> Inl ''INVALID_DATE'')"

definition iso_shape :: "ucd \<Rightarrow> string \<Rightarrow> bool" where
  "iso_shape u s \<longleftrightarrow> re_fullmatch u (seqs [times 4 (digit_rx u), literal ''-'', times 2 (digit_rx u), literal ''-'',
     times 2 (digit_rx u)]) (cps s) \<noteq> None"

definition month_checked :: "ucd \<Rightarrow> evalue \<Rightarrow> string option checked" where
  "month_checked u v =
     (case v of
        VNull \<Rightarrow> Inr None
      | VText m \<Rightarrow> if \<not> month_shape u m then Inl ''INVALID_MONTH''
                   else if date_fromisoformat (m @ ''-01'') = None then Inl ''INVALID_DATE'' else Inr (Some m)
      | _ \<Rightarrow> Inl ''INVALID_MONTH'')"

definition day_checked :: "evalue \<Rightarrow> date option checked" where
  "day_checked v =
     (case v of
        VText s \<Rightarrow> if s = [] then Inr None
                   else (case date_fromisoformat s of None \<Rightarrow> Inl ''INVALID_DATE'' | Some d \<Rightarrow> Inr (Some d))
      | _ \<Rightarrow> Inr None)"

definition date_kinds :: "string list" where
  "date_kinds = [''EXACT'', ''APPROXIMATE'', ''FLEXIBLE'', ''UNKNOWN'']"

definition too_long :: "evalue \<Rightarrow> bool" where
  "too_long v = (case v of VText s \<Rightarrow> 200 < cp_length s | _ \<Rightarrow> False)"

text \<open>The triplet that an object proposes, and whether it is final.\<close>

definition triplet_object :: "ucd \<Rightarrow> (string \<times> evalue) list \<Rightarrow> string \<Rightarrow> (date_triplet \<times> bool) checked" where
  "triplet_object u kvs raw =
     (if list_ex (\<lambda>(k, _). k \<notin> {''event_date'', ''event_month'', ''event_date_type'', ''event_date_raw''}) kvs
      then Inl ''UNKNOWN_DATE_KEY''
      else (case vget ''event_date_type'' kvs of
              VText kind \<Rightarrow>
                if kind \<notin> set date_kinds then Inl ''INVALID_DATE_DISCRIMINATOR''
                else if vget ''event_date'' kvs \<noteq> VNull \<and> technical_type (vget ''event_date'' kvs) \<noteq> ''str'' then Inl ''INVALID_DATE_TYPE''
                else ebind (month_checked u (vget ''event_month'' kvs)) (\<lambda>month.
                     if kind = ''EXACT'' \<and> month \<noteq> None then Inl ''INCOHERENT_DATE_TRIPLET''
                     else let proposed = (case map_of kvs ''event_date_raw'' of None \<Rightarrow> VText raw | Some v \<Rightarrow> v) in
                     ebind (text_value proposed) (\<lambda>_.
                     if too_long proposed then Inl ''DATE_RAW_OVERFLOW''
                     else ebind (day_checked (vget ''event_date'' kvs)) (\<lambda>day.
                     ebind (triplet_checked (Some (validate_event_date_triplet u day month kind raw))) (\<lambda>t.
                       Inr (t, kind \<in> {''UNKNOWN'', ''FLEXIBLE''} \<and> month = None)))))
            | _ \<Rightarrow> Inl ''INVALID_DATE_DISCRIMINATOR''))"

definition proposed_triplet :: "ucd \<Rightarrow> evalue \<Rightarrow> string \<Rightarrow> date \<Rightarrow> (date_triplet \<times> bool) checked" where
  "proposed_triplet u v raw today =
     (case v of
        VDict kvs \<Rightarrow> triplet_object u kvs raw
      | VText s \<Rightarrow>
          if s = [] then ebind (triplet_checked (parse_date_raw u raw today)) (\<lambda>t. Inr (t, False))
          else (case date_fromisoformat s of
                  Some d \<Rightarrow> ebind (triplet_checked (Some (validate_event_date_triplet u (Some d) None ''EXACT'' raw))) (\<lambda>t. Inr (t, False))
                | None \<Rightarrow> if iso_shape u s then Inl ''INVALID_DATE''
                          else ebind (triplet_checked (parse_date_raw u raw today)) (\<lambda>t. Inr (t, False)))
      | _ \<Rightarrow> ebind (triplet_checked (parse_date_raw u raw today)) (\<lambda>t. Inr (t, False)))"

definition four_digits :: "ucd \<Rightarrow> string \<Rightarrow> bool" where
  "four_digits u raw \<longleftrightarrow> re_search u (seqs [Boundary, times 4 (digit_rx u), Boundary]) (cps raw) \<noteq> None"

definition this_month :: "date \<Rightarrow> string" where
  "this_month today = (case ymd_of_date today of (y, m, _) \<Rightarrow> month_text y m)"

definition not_past :: "date \<Rightarrow> date_triplet \<Rightarrow> date_triplet checked" where
  "not_past today t =
     (if (case dt_event_date t of None \<Rightarrow> False | Some d \<Rightarrow> d < today) \<or>
         (case dt_event_month t of None \<Rightarrow> False | Some m \<Rightarrow> str_less m (this_month today))
      then Inl ''DATE_IN_PAST'' else Inr t)"

definition date_value :: "ucd \<Rightarrow> evalue \<Rightarrow> string \<Rightarrow> date \<Rightarrow> date_triplet checked" where
  "date_value u v raw0 today =
     (let given = (if raw0 = [] then (case v of VDict kvs \<Rightarrow>
                     (case map_of kvs ''event_date_raw'' of None \<Rightarrow> VText [] | Some w \<Rightarrow> w) | _ \<Rightarrow> VText raw0) else VText raw0) in
      ebind (text_value given) (\<lambda>raw.
        if 200 < cp_length raw then Inl ''DATE_RAW_OVERFLOW''
        else if technical_type v \<notin> {''null'', ''str'', ''dict''} then Inl ''INVALID_DATE_TYPE''
        else ebind (proposed_triplet u v raw today) (\<lambda>(t, final).
          if final then Inr t
          else ebind (if four_digits u raw then Inr t else triplet_checked (parse_date_raw u raw today)) (\<lambda>t. not_past today t))))"

section \<open>Services\<close>

definition service_item :: "evalue \<Rightarrow> evalue checked" where
  "service_item v =
     (case v of
        VDict kvs \<Rightarrow>
          if set (map fst kvs) \<noteq> {''service_code'', ''status''} \<or> vget ''status'' kvs \<noteq> VText ''REQUESTED''
          then Inl ''INVALID_SERVICE_OBJECT'' else Inr (vget ''service_code'' kvs)
      | _ \<Rightarrow> Inr v)"

definition service_matches :: "ucd \<Rightarrow> string \<Rightarrow> string list" where
  "service_matches u t = (if upper t \<in> set service_catalog_codes then [upper t]
     else (case match_requested_services u t of None \<Rightarrow> [] | Some codes \<Rightarrow> codes))"

fun service_codes_of :: "ucd \<Rightarrow> extracted_entity \<Rightarrow> string list \<Rightarrow> rejection_row list \<Rightarrow> evalue list \<Rightarrow>
  (string list \<times> rejection_row list) checked" where
  "service_codes_of u e codes warnings [] = Inr (codes, warnings)"
| "service_codes_of u e codes warnings (v # vs) =
     ebind (service_item v) (\<lambda>item. ebind (text_value item) (\<lambda>t.
       let matches = service_matches u t in
       service_codes_of u e (codes @ filter (\<lambda>c. c \<notin> set codes) matches)
         (if matches = [] then warnings @ [rejection e ''UNSUPPORTED_SERVICE_ITEM''] else warnings) vs))"

definition services_value :: "ucd \<Rightarrow> extracted_entity \<Rightarrow> (string list \<times> rejection_row list) checked" where
  "services_value u e =
     (case (case en_normalized_value e of VText s \<Rightarrow> VList [VText s] | VNull \<Rightarrow> VList [VText (en_raw_value e)] | v \<Rightarrow> v) of
        VList (v # vs) \<Rightarrow> ebind (service_codes_of u e [] [] (v # vs)) (\<lambda>(codes, warnings).
          if codes = [] then Inl ''NO_SUPPORTED_SERVICE'' else Inr (codes, warnings))
      | _ \<Rightarrow> Inl ''INVALID_SERVICES_SHAPE'')"

section \<open>One entity\<close>

definition value_or_raw :: "extracted_entity \<Rightarrow> evalue" where
  "value_or_raw e = (case en_normalized_value e of VNull \<Rightarrow> VText (en_raw_value e) | v \<Rightarrow> v)"

definition range_value :: "evalue \<Rightarrow> entity_value checked" where
  "range_value v =
     (case v of
        VDict kvs \<Rightarrow>
          if set (map fst kvs) \<noteq> {''min'', ''max''} then Inl ''INVALID_RANGE_SHAPE''
          else ebind (integer_value (vget ''min'' kvs)) (\<lambda>low. ebind (integer_value (vget ''max'' kvs)) (\<lambda>high.
            if high < low then Inl ''RANGE_INVERTED'' else Inr (EV_Range low high)))
      | _ \<Rightarrow> Inl ''INVALID_RANGE_SHAPE'')"

definition event_type_value :: "ucd \<Rightarrow> evalue \<Rightarrow> entity_value checked" where
  "event_type_value u v = ebind (text_value v) (\<lambda>s.
     (case normalize_event_type u (Some s) of None \<Rightarrow> Inl ''UNSUPPORTED_EVENT_TYPE'' | Some t \<Rightarrow> Inr (EV_Text t)))"

definition family_value :: "ucd \<Rightarrow> letters \<Rightarrow> extracted_entity \<Rightarrow> date \<Rightarrow> (entity_value \<times> rejection_row list) checked" where
  "family_value u lt e today =
     (let v = en_normalized_value e; name = en_entity e; plain = (\<lambda>r. ebind r (\<lambda>x. Inr (x, []))) in
      if name = ''full_name'' then plain (ebind (name_value lt (value_or_raw e)) (\<lambda>s. Inr (EV_Text s)))
      else if name = ''event_type'' then plain (event_type_value u (value_or_raw e))
      else if name = ''guest_count'' then plain (ebind (integer_value (value_or_raw e)) (\<lambda>n. Inr (EV_Int n)))
      else if name = ''guest_count_range'' then plain (range_value v)
      else if name = ''event_date'' then plain (ebind (date_value u v (en_raw_value e) today) (\<lambda>t. Inr (EV_Date t)))
      else if name = ''estimated_budget'' then plain (ebind (amount_value u v (en_raw_value e)) (\<lambda>a. Inr (EV_Budget a)))
      else if name = ''budget_declined'' then plain (case v of VBool b \<Rightarrow> Inr (EV_Bool b) | _ \<Rightarrow> Inl ''INVALID_DECLINED_TYPE'')
      else if name = ''requested_services'' then ebind (services_value u e) (\<lambda>(codes, w). Inr (EV_Services codes, w))
      else if name = ''special_requests'' then plain (ebind (text_value (value_or_raw e)) (\<lambda>s. Inr (EV_Text s)))
      else Inl ''UNSUPPORTED_ENTITY'')"

definition validate_entity :: "ucd \<Rightarrow> letters \<Rightarrow> extracted_entity \<Rightarrow> date \<Rightarrow> accepted_entity checked" where
  "validate_entity u lt e today =
     (if CHR 0x00 \<in> set (en_raw_value e) then Inl ''UNREPRESENTABLE_TEXT''
      else if en_quality_status e = ''INVALID'' then Inl ''SOURCE_INVALID''
      else ebind (family_value u lt e today) (\<lambda>(value, warnings).
        if en_entity e \<noteq> ''full_name'' \<and>
           (en_needs_confirmation e \<or> en_quality_status e \<in> {''INFERRED'', ''PENDING_CONFIRMATION''})
        then Inl ''ENTITY_NEEDS_CONFIRMATION''
        else Inr \<lparr>ac_entity = e, ac_value = value, ac_warnings = warnings\<rparr>))"

definition opt_text :: "string option \<Rightarrow> evalue" where
  "opt_text s = (case s of None \<Rightarrow> VNull | Some t \<Rightarrow> VText t)"

definition canonical_value :: "entity_value \<Rightarrow> evalue" where
  "canonical_value v =
     (case v of
        EV_Text s \<Rightarrow> VText s
      | EV_Int n \<Rightarrow> VInt n
      | EV_Bool b \<Rightarrow> VBool b
      | EV_Budget a \<Rightarrow> VText (dec_str a)
      | EV_Date t \<Rightarrow> VDict [(''event_date'', opt_text (map_option date_iso (dt_event_date t))),
          (''event_month'', opt_text (dt_event_month t)), (''event_date_type'', VText (dt_event_date_type t)),
          (''event_date_raw'', VText (dt_event_date_raw t))]
      | EV_Range low high \<Rightarrow> VDict [(''min'', VInt low), (''max'', VInt high)]
      | EV_Services codes \<Rightarrow> VList (map VText codes))"

definition canonical :: "accepted_entity \<Rightarrow> extracted_entity" where
  "canonical a = (ac_entity a)\<lparr>en_normalized_value := canonical_value (ac_value a)\<rparr>"

section \<open>A batch\<close>

text \<open>The older form of an answer: a dictionary of values or of objects with the fields of an entity.\<close>

definition quality_statuses :: "string list" where
  "quality_statuses = [''PROVIDED'', ''INFERRED'', ''PENDING_CONFIRMATION'', ''CORRECTED'', ''INVALID'']"

definition vdefault :: "string \<Rightarrow> evalue \<Rightarrow> (string \<times> evalue) list \<Rightarrow> evalue" where
  "vdefault k v kvs = (case map_of kvs k of None \<Rightarrow> v | Some w \<Rightarrow> w)"

text \<open>\<open>ExtractedEntity.model_validate(data, strict=True)\<close>.\<close>

definition confidence_of :: "evalue \<Rightarrow> decimal option" where
  "confidence_of v = (case (case v of VInt n \<Rightarrow> Some (dec_int n) | VFloat d \<Rightarrow> d | _ \<Rightarrow> None) of
     Some d \<Rightarrow> if dec_le (dec_int 0) d \<and> dec_le d (dec_int 1) then Some d else None | None \<Rightarrow> None)"

fun texts_of :: "evalue list \<Rightarrow> string list option" where
  "texts_of [] = Some []"
| "texts_of (VText s # vs) = map_option (\<lambda>ss. s # ss) (texts_of vs)"
| "texts_of (v # vs) = None"

definition entity_of :: "string \<Rightarrow> evalue \<Rightarrow> evalue \<Rightarrow> evalue \<Rightarrow> evalue \<Rightarrow> evalue \<Rightarrow> evalue \<Rightarrow> extracted_entity option" where
  "entity_of name raw value status confidence confirmation errors =
     (case (raw, status, confidence_of confidence, confirmation, errors) of
        (VText r, VText q, Some c, VBool b, VList es) \<Rightarrow>
          (case texts_of es of
             Some ts \<Rightarrow> if q \<in> set quality_statuses
               then Some \<lparr>en_entity = name, en_raw_value = r, en_normalized_value = value, en_quality_status = q,
                          en_confidence = c, en_needs_confirmation = b, en_validation_errors = ts\<rparr>
               else None
           | None \<Rightarrow> None)
      | _ \<Rightarrow> None)"

definition envelope_keys :: "string list" where
  "envelope_keys = [''raw_value'', ''raw'', ''normalized_value'', ''normalized'', ''quality_status'', ''confidence'',
     ''needs_confirmation'', ''validation_errors'']"

definition has_envelope :: "(string \<times> evalue) list \<Rightarrow> bool" where
  "has_envelope kvs \<longleftrightarrow> list_ex (\<lambda>k. map_of kvs k \<noteq> None) [''raw_value'', ''raw'', ''normalized_value'', ''normalized'', ''quality_status'']"

definition ninety_percent :: evalue where
  "ninety_percent = VFloat (Some (9, 1))"

definition legacy_rejection :: "string \<Rightarrow> string \<Rightarrow> evalue \<Rightarrow> rejection_row" where
  "legacy_rejection name code v = \<lparr>rj_entity = name, rj_code = code, rj_value_type = technical_type v, rj_correction = False\<rparr>"

definition decode_legacy :: "string \<Rightarrow> evalue \<Rightarrow> (rejection_row, extracted_entity) result" where
  "decode_legacy name v =
     (if name \<notin> set entity_names then Inl (legacy_rejection ''UNKNOWN'' ''UNKNOWN_LEGACY_ENTITY'' v)
      else let plain = entity_of name (case v of VText s \<Rightarrow> VText s | _ \<Rightarrow> VText []) v (VText ''PROVIDED'') ninety_percent
                         (VBool False) (VList []);
               outcome = (\<lambda>r. case r of None \<Rightarrow> Inl (legacy_rejection name ''INVALID_LEGACY_ENVELOPE'' v) | Some e \<Rightarrow> Inr e)
           in case v of
                VDict kvs \<Rightarrow>
                  if has_envelope kvs then
                    (if list_ex (\<lambda>(k, _). k \<notin> set envelope_keys) kvs then Inl (legacy_rejection name ''UNKNOWN_LEGACY_KEY'' v)
                     else outcome (entity_of name (vdefault ''raw_value'' (vdefault ''raw'' (VText []) kvs) kvs)
                       (vdefault ''normalized_value'' (vget ''normalized'' kvs) kvs) (vdefault ''quality_status'' (VText ''PROVIDED'') kvs)
                       (vdefault ''confidence'' ninety_percent kvs) (vdefault ''needs_confirmation'' (VBool False) kvs)
                       (vdefault ''validation_errors'' (VList []) kvs)))
                  else outcome plain
              | _ \<Rightarrow> outcome plain)"

definition decode_entities ::
  "extracted_entity list \<Rightarrow> (string \<times> evalue) list \<Rightarrow> extracted_entity list \<times> rejection_row list" where
  "decode_entities typed legacy =
     (let ds = map (\<lambda>(name, v). decode_legacy name v) legacy in
      (typed @ concat (map (\<lambda>r. case r of Inr e \<Rightarrow> [e] | Inl _ \<Rightarrow> []) ds),
       concat (map (\<lambda>r. case r of Inl x \<Rightarrow> [x] | Inr _ \<Rightarrow> []) ds)))"

definition same_value :: "entity_value \<Rightarrow> entity_value \<Rightarrow> bool" where
  "same_value a b =
     (case (a, b) of
        (EV_Date s, EV_Date t) \<Rightarrow> dt_event_date s = dt_event_date t \<and> dt_event_month s = dt_event_month t \<and>
           dt_event_date_type s = dt_event_date_type t
      | (EV_Budget x, EV_Budget y) \<Rightarrow> dec_le x y \<and> dec_le y x
      | _ \<Rightarrow> a = b)"

text \<open>The accepted entities by name, the rejections, and the names that something blocks.\<close>

record batch =
  bt_by_name :: "(string \<times> accepted_entity) list"
  bt_rejected :: "rejection_row list"
  bt_blocked :: "string list"

definition conflicting :: "accepted_entity \<Rightarrow> accepted_entity \<Rightarrow> bool" where
  "conflicting previous a \<longleftrightarrow> \<not> same_value (ac_value previous) (ac_value a) \<or>
     en_needs_confirmation (ac_entity previous) \<noteq> en_needs_confirmation (ac_entity a)"

definition add_entity :: "ucd \<Rightarrow> letters \<Rightarrow> date \<Rightarrow> batch \<Rightarrow> extracted_entity \<Rightarrow> batch" where
  "add_entity u lt today b e =
     (case validate_entity u lt e today of
        Inl code \<Rightarrow> b\<lparr>bt_rejected := bt_rejected b @ [rejection e code], bt_blocked := en_entity e # bt_blocked b\<rparr>
      | Inr a \<Rightarrow>
          let b1 = b\<lparr>bt_rejected := bt_rejected b @ ac_warnings a\<rparr> in
          (case map_of (bt_by_name b1) (en_entity e) of
             None \<Rightarrow> b1\<lparr>bt_by_name := bt_by_name b1 @ [(en_entity e, a)]\<rparr>
           | Some previous \<Rightarrow>
               if conflicting previous a
               then b1\<lparr>bt_rejected := bt_rejected b1 @ [rejection e ''CONFLICTING_REPRESENTATIONS''],
                       bt_blocked := en_entity e # bt_blocked b1\<rparr>
               else b1))"

definition settle_guests :: "batch \<Rightarrow> batch" where
  "settle_guests b =
     (case (map_of (bt_by_name b) ''guest_count'', map_of (bt_by_name b) ''guest_count_range'') of
        (Some count, Some bounds) \<Rightarrow>
          if (case ac_value count of EV_Int n \<Rightarrow> ac_value bounds \<noteq> EV_Range n n | _ \<Rightarrow> True)
          then b\<lparr>bt_rejected := bt_rejected b @ [rejection (ac_entity count) ''CONFLICTING_GUEST_REPRESENTATIONS''],
                 bt_blocked := ''guest_count'' # ''guest_count_range'' # bt_blocked b\<rparr>
          else b\<lparr>bt_by_name := AList.delete ''guest_count_range'' (bt_by_name b)\<rparr>
      | _ \<Rightarrow> b)"

definition settle_budget :: "batch \<Rightarrow> batch" where
  "settle_budget b =
     (case (map_of (bt_by_name b) ''estimated_budget'', map_of (bt_by_name b) ''budget_declined'') of
        (Some amount, Some declined) \<Rightarrow>
          if ac_value declined = EV_Bool True
          then b\<lparr>bt_rejected := bt_rejected b @ [rejection (ac_entity amount) ''CONFLICTING_BUDGET_REPRESENTATIONS''],
                 bt_blocked := ''estimated_budget'' # ''budget_declined'' # bt_blocked b\<rparr>
          else b
      | _ \<Rightarrow> b)"

definition validate_entities ::
  "ucd \<Rightarrow> letters \<Rightarrow> extracted_entity list \<Rightarrow> (string \<times> evalue) list \<Rightarrow> date \<Rightarrow> accepted_entity list \<times> rejection_row list" where
  "validate_entities u lt typed legacy today =
     (case decode_entities typed legacy of (decoded, rejected) \<Rightarrow>
        let start = \<lparr>bt_by_name = [], bt_rejected = rejected, bt_blocked = map rj_entity rejected\<rparr>;
            b = settle_budget (settle_guests (foldl (add_entity u lt today) start decoded))
        in (map snd (filter (\<lambda>(n, _). n \<notin> set (bt_blocked b)) (bt_by_name b)), bt_rejected b))"

end
