(* ===== verification/Entity_Facts.thy ===== *)
theory Entity_Facts
  imports Entities Booking_Text_Facts
begin

text \<open>
  What the boundary of \<open>entity_validation.py\<close> promises: every entity of a batch fits the columns that it is written to,
  no two of them speak of the same fact, and nothing that was rejected comes back under the same name. Then how
  \<open>lead/budget.py\<close> reads a half million.
\<close>

section \<open>What may be stored\<close>

definition coherent_date :: "date \<Rightarrow> date_triplet \<Rightarrow> bool" where
  "coherent_date today t \<longleftrightarrow>
     dt_event_date_type t \<in> set date_kinds \<and> (dt_event_date_type t = ''EXACT'' \<longleftrightarrow> dt_event_date t \<noteq> None) \<and>
     (dt_event_date t \<noteq> None \<longrightarrow> dt_event_month t = None) \<and>
     (dt_event_date_type t = ''APPROXIMATE'' \<longrightarrow> dt_event_month t \<noteq> None) \<and>
     (dt_event_date_type t = ''UNKNOWN'' \<longrightarrow> dt_event_month t = None) \<and>
     (case dt_event_date t of None \<Rightarrow> True | Some d \<Rightarrow> today \<le> d) \<and>
     (case dt_event_month t of None \<Rightarrow> True | Some m \<Rightarrow> \<not> str_less m (this_month today))"

text \<open>The value that a family may carry, with the bounds of its column.\<close>

definition storable :: "letters \<Rightarrow> date \<Rightarrow> string \<Rightarrow> entity_value \<Rightarrow> bool" where
  "storable lt today name v \<longleftrightarrow>
     (case v of
        EV_Text s \<Rightarrow>
          name = ''full_name'' \<and> (\<exists>cs. s = utf8_encode cs \<and> 2 \<le> length cs \<and> length cs \<le> 120 \<and> list_ex (lt_isalpha lt) cs) \<or>
          name = ''event_type'' \<and> s \<in> set event_types \<or>
          name = ''special_requests'' \<and> s \<noteq> []
      | EV_Int n \<Rightarrow> name = ''guest_count'' \<and> 0 < n \<and> n < 2 ^ 31
      | EV_Bool _ \<Rightarrow> name = ''budget_declined''
      | EV_Budget a \<Rightarrow> name = ''estimated_budget'' \<and> dec_less (dec_int 0) a \<and> dec_le a max_budget \<and> dec_cents a
      | EV_Date t \<Rightarrow> name = ''event_date'' \<and> coherent_date today t
      | EV_Range low high \<Rightarrow> name = ''guest_count_range'' \<and> 0 < low \<and> low \<le> high \<and> high < 2 ^ 31
      | EV_Services codes \<Rightarrow> name = ''requested_services'' \<and> codes \<noteq> [] \<and> distinct codes)"

lemma storable_name: "storable lt today name v \<Longrightarrow> name \<in> set entity_names"
  by (auto simp: storable_def entity_names_def split: entity_value.splits)

lemma integer_bounded: "integer_value v = Inr n \<Longrightarrow> 0 < n \<and> n < 2 ^ 31"
  by (auto simp: integer_value_def integer_text_def integer_in_range_def max_integer_def Let_def
      split: evalue.splits if_splits option.splits)

lemma range_bounded:
  "range_value v = Inr r \<Longrightarrow> \<exists>low high. r = EV_Range low high \<and> 0 < low \<and> low \<le> high \<and> high < 2 ^ 31"
  by (auto simp: range_value_def ebind_Inr_iff split: evalue.splits if_splits dest!: integer_bounded)

lemma amount_bounded:
  "amount_value u v raw = Inr a \<Longrightarrow> dec_less (dec_int 0) a \<and> dec_le a max_budget \<and> dec_cents a"
  by (auto simp: amount_value_def ebind_Inr_iff split: if_splits)

lemma text_present: "text_value v = Inr s \<Longrightarrow> s \<noteq> []"
  by (auto simp: text_value_def split: evalue.splits if_splits)

lemma name_bounded:
  "name_value lt v = Inr s \<Longrightarrow> \<exists>cs. s = utf8_encode cs \<and> 2 \<le> length cs \<and> length cs \<le> 120 \<and> list_ex (lt_isalpha lt) cs"
  by (auto simp: name_value_def Let_def split: evalue.splits if_splits)

lemma label_types: "(label, t) \<in> set (event_type_by_label u) \<Longrightarrow> t \<in> set event_types"
  by (auto simp: event_type_by_label_def catalog_event_type_labels_def event_types_def)

lemma event_type_known: "normalize_event_type u value = Some t \<Longrightarrow> t \<in> set event_types"
  by (auto simp: normalize_event_type_def resolve_catalog_event_type_label_def Let_def
      split: option.splits if_splits dest!: map_of_SomeD intro: label_types)

lemma event_type_stored: "event_type_value u v = Inr r \<Longrightarrow> \<exists>s. r = EV_Text s \<and> s \<in> set event_types"
  by (auto simp: event_type_value_def ebind_Inr_iff split: option.splits dest: event_type_known)

section \<open>Services\<close>

lemma matches_distinct: "distinct (service_matches u t)"
proof -
  have "distinct codes" if "match_requested_services u t = Some codes" for codes
    using that by (auto simp: match_requested_services_def Let_def first_occurrences_def split: if_splits)
  then show ?thesis by (auto simp: service_matches_def split: option.splits)
qed

lemma listed_services_distinct:
  "service_codes_of u e codes w vs = Inr (codes', w') \<Longrightarrow> distinct codes \<Longrightarrow> distinct codes'"
proof (induction u e codes w vs rule: service_codes_of.induct)
  case (2 u e codes warnings v vs)
  then show ?case by (auto simp: ebind_Inr_iff Let_def matches_distinct)
qed auto

lemma services_from_codes:
  assumes "services_value u e = Inr (codes, w)"
  obtains vs where "service_codes_of u e [] [] vs = Inr (codes, w)" "codes \<noteq> []"
  using assms
  by (auto simp: services_value_def ebind_Inr_iff simp del: service_codes_of.simps split: evalue.splits list.splits if_splits)

lemma services_stored: "services_value u e = Inr (codes, w) \<Longrightarrow> codes \<noteq> [] \<and> distinct codes"
  by (auto elim!: services_from_codes dest: listed_services_distinct)

section \<open>Dates\<close>

lemma proposed_coherent:
  assumes "validate_event_date_triplet u day month kind raw = Inr t" "kind \<in> set date_kinds" "kind = ''EXACT'' \<longrightarrow> month = None"
  shows "dt_event_date_type t \<in> set date_kinds \<and> (dt_event_date_type t = ''EXACT'' \<longleftrightarrow> dt_event_date t \<noteq> None) \<and>
     (dt_event_date t \<noteq> None \<longrightarrow> dt_event_month t = None) \<and>
     (dt_event_date_type t = ''APPROXIMATE'' \<longrightarrow> dt_event_month t \<noteq> None) \<and>
     (dt_event_date_type t = ''UNKNOWN'' \<longrightarrow> dt_event_month t = None) \<and> dt_event_date t = day \<and> dt_event_month t = month \<and>
     dt_event_date_type t = kind"
proof -
  have t: "t = \<lparr>dt_event_date = day, dt_event_month = month, dt_event_date_type = kind, dt_event_date_raw = raw\<rparr>"
    using validated [OF assms(1)] .
  have "\<not> (kind = ''EXACT'' \<and> day = None)" "\<not> (day \<noteq> None \<and> kind \<noteq> ''EXACT'')"
    "\<not> (kind = ''APPROXIMATE'' \<and> (day \<noteq> None \<or> month = None))" "\<not> (kind = ''UNKNOWN'' \<and> (day \<noteq> None \<or> month \<noteq> None))"
    using assms(1) by (simp_all only: validate_event_date_triplet_def simp_thms sum.distinct split: if_split_asm)
  with assms(2,3) show ?thesis unfolding t by (simp only: date_triplet.simps simp_thms, satx)
qed

definition coherent_kind :: "date_triplet \<Rightarrow> bool" where
  "coherent_kind t \<longleftrightarrow>
     dt_event_date_type t \<in> set date_kinds \<and> (dt_event_date_type t = ''EXACT'' \<longleftrightarrow> dt_event_date t \<noteq> None) \<and>
     (dt_event_date t \<noteq> None \<longrightarrow> dt_event_month t = None) \<and>
     (dt_event_date_type t = ''APPROXIMATE'' \<longrightarrow> dt_event_month t \<noteq> None) \<and>
     (dt_event_date_type t = ''UNKNOWN'' \<longrightarrow> dt_event_month t = None)"

lemma well_formed_coherent: "well_formed_date t \<Longrightarrow> coherent_kind t"
  by (auto simp: well_formed_date_def coherent_kind_def date_kinds_def)

lemma parsed_coherent: "triplet_checked (parse_date_raw u raw today) = Inr t \<Longrightarrow> coherent_kind t"
proof -
  assume "triplet_checked (parse_date_raw u raw today) = Inr t"
  then have "parse_date_raw u raw today = Some (Inr t)" by (auto simp: triplet_checked_def split: option.splits sum.splits)
  then have "parse_customer_date_expression u raw today = Some (Inr t)"
    by (simp add: parse_date_raw_def split: option.splits if_splits)
  from customer_date_accepted [OF this] show ?thesis by (simp add: accepted_def well_formed_coherent)
qed

lemma object_coherent:
  assumes "triplet_object u kvs raw = Inr (t, final)"
  shows "coherent_kind t \<and> (final \<longrightarrow> dt_event_date t = None \<and> dt_event_month t = None)"
proof -
  obtain kind month day where v: "triplet_checked (Some (validate_event_date_triplet u day month kind raw)) = Inr t"
    and kind: "kind \<in> set date_kinds" "kind = ''EXACT'' \<longrightarrow> month = None"
    and final: "final \<longleftrightarrow> kind \<in> {''UNKNOWN'', ''FLEXIBLE''} \<and> month = None"
    using assms by (auto simp: triplet_object_def ebind_Inr_iff Let_def split: if_splits evalue.splits)
  from v have "validate_event_date_triplet u day month kind raw = Inr t"
    by (auto simp: triplet_checked_def split: sum.splits)
  from proposed_coherent [OF this kind] final show ?thesis
    by (auto simp: coherent_kind_def)
qed

lemma proposed_triplet_coherent:
  assumes "proposed_triplet u v raw today = Inr (t, final)"
  shows "coherent_kind t \<and> (final \<longrightarrow> dt_event_date t = None \<and> dt_event_month t = None)"
proof -
  have exact: "coherent_kind t" if "triplet_checked (Some (validate_event_date_triplet u (Some d) None ''EXACT'' raw)) = Inr t" for d
  proof -
    from that have "validate_event_date_triplet u (Some d) None ''EXACT'' raw = Inr t"
      by (auto simp: triplet_checked_def split: sum.splits)
    from proposed_coherent [OF this] show ?thesis by (simp add: coherent_kind_def date_kinds_def)
  qed
  show ?thesis
  proof (cases v)
    case (VDict kvs)
    with assms object_coherent show ?thesis by (simp add: proposed_triplet_def)
  next
    case (VText s)
    with assms show ?thesis
      by (auto simp: proposed_triplet_def ebind_Inr_iff split: if_splits option.splits dest: parsed_coherent exact)
  qed (use assms in \<open>auto simp: proposed_triplet_def ebind_Inr_iff dest: parsed_coherent\<close>)
qed

lemma date_stored: "date_value u v raw today = Inr t \<Longrightarrow> coherent_date today t"
proof -
  assume a: "date_value u v raw today = Inr t"
  obtain raw' t0 final where p: "proposed_triplet u v raw' today = Inr (t0, final)"
    and rest: "final \<and> t = t0 \<or>
      (\<exists>t1. (if four_digits u raw' then Inr t0 else triplet_checked (parse_date_raw u raw' today)) = Inr t1 \<and> not_past today t1 = Inr t)"
    using a by (auto simp: date_value_def ebind_Inr_iff Let_def split: if_splits)
  note c = proposed_triplet_coherent [OF p]
  from rest show ?thesis
  proof
    assume "final \<and> t = t0"
    with c show ?thesis by (auto simp: coherent_kind_def coherent_date_def)
  next
    assume "\<exists>t1. (if four_digits u raw' then Inr t0 else triplet_checked (parse_date_raw u raw' today)) = Inr t1 \<and>
      not_past today t1 = Inr t"
    then have "coherent_kind t" and "not_past today t = Inr t"
      using c parsed_coherent by (auto simp: not_past_def split: if_splits)
    then show ?thesis
      by (auto simp: coherent_kind_def coherent_date_def not_past_def split: if_splits option.splits)
  qed
qed

section \<open>One entity, and a batch\<close>

lemma family_stored:
  assumes "family_value u lt e today = Inr (v, w)"
  shows "storable lt today (en_entity e) v"
  using assms
  by (auto simp: family_value_def Let_def ebind_Inr_iff storable_def split: if_splits evalue.splits
      dest: integer_bounded range_bounded amount_bounded text_present name_bounded event_type_stored services_stored date_stored)

lemma service_warnings:
  "service_codes_of u e codes w vs = Inr (codes', w') \<Longrightarrow> \<forall>r \<in> set w. rj_code r = ''UNSUPPORTED_SERVICE_ITEM'' \<Longrightarrow>
     \<forall>r \<in> set w'. rj_code r = ''UNSUPPORTED_SERVICE_ITEM''"
proof (induction vs arbitrary: codes w)
  case (Cons v vs)
  obtain item t where "service_codes_of u e (codes @ filter (\<lambda>c. c \<notin> set codes) (service_matches u t))
      (if service_matches u t = [] then w @ [rejection e ''UNSUPPORTED_SERVICE_ITEM''] else w) vs = Inr (codes', w')"
    using Cons.prems(1) by (auto simp: ebind_Inr_iff Let_def)
  moreover have "\<forall>r \<in> set (if service_matches u t = [] then w @ [rejection e ''UNSUPPORTED_SERVICE_ITEM''] else w).
      rj_code r = ''UNSUPPORTED_SERVICE_ITEM''"
    using Cons.prems(2) by (simp add: rejection_def)
  ultimately show ?case by (rule Cons.IH)
qed simp

lemma family_warnings:
  "family_value u lt e today = Inr (v, w) \<Longrightarrow> \<forall>r \<in> set w. rj_code r = ''UNSUPPORTED_SERVICE_ITEM''"
  by (auto simp: family_value_def Let_def ebind_Inr_iff split: if_splits elim!: services_from_codes dest!: service_warnings)

lemma entity_stored:
  assumes "validate_entity u lt e today = Inr a"
  shows "ac_entity a = e" "storable lt today (en_entity e) (ac_value a)" "\<forall>r \<in> set (ac_warnings a). rj_code r = ''UNSUPPORTED_SERVICE_ITEM''"
  using assms by (auto simp: validate_entity_def ebind_Inr_iff split: if_splits prod.splits dest: family_stored family_warnings)

definition batch_ok :: "letters \<Rightarrow> date \<Rightarrow> batch \<Rightarrow> bool" where
  "batch_ok lt today b \<longleftrightarrow>
     distinct (map fst (bt_by_name b)) \<and>
     (\<forall>(n, a) \<in> set (bt_by_name b). n = en_entity (ac_entity a) \<and> storable lt today n (ac_value a)) \<and>
     (\<forall>r \<in> set (bt_rejected b). rj_code r \<noteq> ''UNSUPPORTED_SERVICE_ITEM'' \<longrightarrow> rj_entity r \<in> insert ''UNKNOWN'' (set (bt_blocked b)))"

lemma batch_ok_add: "batch_ok lt today b \<Longrightarrow> batch_ok lt today (add_entity u lt today b e)"
proof (cases "validate_entity u lt e today")
  case (Inl code)
  assume "batch_ok lt today b"
  with Inl show ?thesis by (auto simp: add_entity_def batch_ok_def rejection_def)
next
  case (Inr a)
  assume "batch_ok lt today b"
  with Inr entity_stored [OF Inr] show ?thesis
    by (auto simp: add_entity_def batch_ok_def rejection_def Let_def map_of_eq_None_iff split: option.splits)
qed

lemma batch_ok_fold: "batch_ok lt today b \<Longrightarrow> batch_ok lt today (foldl (add_entity u lt today) b es)"
  by (induction es arbitrary: b) (auto simp: batch_ok_add)

lemma by_name_entity: "batch_ok lt today b \<Longrightarrow> map_of (bt_by_name b) n = Some a \<Longrightarrow> en_entity (ac_entity a) = n"
  by (auto simp: batch_ok_def dest: map_of_SomeD)

lemma in_deleted: "(n, a) \<in> set (AList.delete k xs) \<Longrightarrow> (n, a) \<in> set xs"
  by (simp add: AList.delete_eq)

lemma batch_ok_guests: "batch_ok lt today b \<Longrightarrow> batch_ok lt today (settle_guests b)"
  using by_name_entity [of lt today b "''guest_count''"]
  by (auto simp: settle_guests_def batch_ok_def rejection_def entity_names_def distinct_delete dest: in_deleted
      split: option.splits)

lemma batch_ok_budget: "batch_ok lt today b \<Longrightarrow> batch_ok lt today (settle_budget b)"
  using by_name_entity [of lt today b "''estimated_budget''"]
  by (auto simp: settle_budget_def batch_ok_def rejection_def entity_names_def split: option.splits)

lemma guests_exclusive:
  "map_of (bt_by_name (settle_guests b)) ''guest_count'' \<noteq> None \<Longrightarrow>
   map_of (bt_by_name (settle_guests b)) ''guest_count_range'' \<noteq> None \<Longrightarrow>
     ''guest_count'' \<in> set (bt_blocked (settle_guests b))"
  by (auto simp: settle_guests_def AList.delete_conv' split: option.splits if_splits)

lemma budget_exclusive:
  "map_of (bt_by_name b) ''estimated_budget'' \<noteq> None \<Longrightarrow> map_of (bt_by_name b) ''budget_declined'' = Some a \<Longrightarrow>
     ac_value a = EV_Bool True \<Longrightarrow> ''estimated_budget'' \<in> set (bt_blocked (settle_budget b))"
  by (auto simp: settle_budget_def)

lemma budget_keeps [simp]: "bt_by_name (settle_budget b) = bt_by_name b"
  by (auto simp: settle_budget_def split: option.splits)

lemma budget_blocks: "set (bt_blocked b) \<subseteq> set (bt_blocked (settle_budget b))"
  by (auto simp: settle_budget_def split: option.splits)

definition batch_names :: "accepted_entity list \<Rightarrow> string list" where
  "batch_names as = map (\<lambda>a. en_entity (ac_entity a)) as"

text \<open>C6. Whatever the language model proposes, each accepted entity fits the columns it is written to and has a name of
  its own; a name with a refused representation, a head count beside a range, or an amount beside a declined budget
  gives none.
\<close>

theorem accepted_entities_storable:
  assumes "validate_entities u lt typed legacy today = (acc, rej)"
  shows "distinct (batch_names acc) \<and>
    (\<forall>a \<in> set acc. storable lt today (en_entity (ac_entity a)) (ac_value a)) \<and>
    (\<forall>r \<in> set rej. rj_code r \<noteq> ''UNSUPPORTED_SERVICE_ITEM'' \<longrightarrow> rj_entity r \<notin> set (batch_names acc)) \<and>
    \<not> {''guest_count'', ''guest_count_range''} \<subseteq> set (batch_names acc) \<and>
    (''estimated_budget'' \<in> set (batch_names acc) \<longrightarrow>
      (\<forall>a \<in> set acc. en_entity (ac_entity a) = ''budget_declined'' \<longrightarrow> ac_value a = EV_Bool False))"
proof -
  obtain decoded rejected where d: "decode_entities typed legacy = (decoded, rejected)" by fastforce
  define start where "start = \<lparr>bt_by_name = [], bt_rejected = rejected, bt_blocked = map rj_entity rejected\<rparr>"
  define f where "f = foldl (add_entity u lt today) start decoded"
  define g where "g = settle_guests f"
  let ?b = "settle_budget g"
  have "batch_ok lt today start" by (auto simp: batch_ok_def start_def)
  then have ok: "batch_ok lt today ?b" unfolding g_def f_def by (intro batch_ok_budget batch_ok_guests batch_ok_fold)
  have acc: "acc = map snd (filter (\<lambda>(n, _). n \<notin> set (bt_blocked ?b)) (bt_by_name ?b))" and rej: "rej = bt_rejected ?b"
    using assms by (simp_all add: validate_entities_def d Let_def start_def f_def g_def)
  have named: "(en_entity (ac_entity a), a) \<in> set (bt_by_name ?b) \<and> en_entity (ac_entity a) \<notin> set (bt_blocked ?b) \<and>
      storable lt today (en_entity (ac_entity a)) (ac_value a)" if "a \<in> set acc" for a
    using that ok by (auto simp: acc batch_ok_def)
  have unique: "distinct (map fst (bt_by_name ?b))" using ok by (simp add: batch_ok_def)
  have names: "batch_names acc = map fst (filter (\<lambda>(n, _). n \<notin> set (bt_blocked ?b)) (bt_by_name ?b))"
    using ok unfolding acc batch_names_def batch_ok_def by (auto simp: map_eq_conv)
  have found: "map_of (bt_by_name ?b) n \<noteq> None \<and> n \<notin> set (bt_blocked ?b)" if "n \<in> set (batch_names acc)" for n
    using that unfolding names by (force simp: map_of_eq_None_iff)
  have 1: "distinct (batch_names acc)" unfolding names using unique by (simp add: distinct_map_filter)
  have 2: "\<forall>a \<in> set acc. storable lt today (en_entity (ac_entity a)) (ac_value a)" using named by blast
  have "n \<in> set entity_names" if "n \<in> set (batch_names acc)" for n
    using that 2 storable_name by (auto simp: batch_names_def)
  then have unknown: "''UNKNOWN'' \<notin> set (batch_names acc)" by (auto simp: entity_names_def)
  have 3: "\<forall>r \<in> set rej. rj_code r \<noteq> ''UNSUPPORTED_SERVICE_ITEM'' \<longrightarrow> rj_entity r \<notin> set (batch_names acc)"
  proof (intro ballI impI)
    fix r assume "r \<in> set rej" "rj_code r \<noteq> ''UNSUPPORTED_SERVICE_ITEM''"
    with ok have "rj_entity r = ''UNKNOWN'' \<or> rj_entity r \<in> set (bt_blocked ?b)" by (simp add: batch_ok_def rej)
    then show "rj_entity r \<notin> set (batch_names acc)" using found unknown by metis
  qed
  have 4: "\<not> {''guest_count'', ''guest_count_range''} \<subseteq> set (batch_names acc)"
  proof
    assume "{''guest_count'', ''guest_count_range''} \<subseteq> set (batch_names acc)"
    then have "''guest_count'' \<in> set (batch_names acc)" and "''guest_count_range'' \<in> set (batch_names acc)" by blast+
    then have both: "map_of (bt_by_name g) ''guest_count'' \<noteq> None" "map_of (bt_by_name g) ''guest_count_range'' \<noteq> None"
      and free: "''guest_count'' \<notin> set (bt_blocked ?b)"
      using found unfolding budget_keeps by metis+
    from guests_exclusive [of f, folded g_def, OF both] free budget_blocks [of g] show False by blast
  qed
  have 5: "ac_value a = EV_Bool False"
    if "''estimated_budget'' \<in> set (batch_names acc)" "a \<in> set acc" "en_entity (ac_entity a) = ''budget_declined''" for a
  proof -
    have at_name: "map_of (bt_by_name g) ''budget_declined'' = Some a"
      using named [OF that(2)] unique that(3) by (simp add: map_of_is_SomeI)
    have "\<exists>b. ac_value a = EV_Bool b"
      using named [OF that(2)] that(3) by (auto simp: storable_def split: entity_value.splits)
    then show ?thesis
      using budget_exclusive [OF _ at_name] found [OF that(1)] by (cases "ac_value a = EV_Bool True") auto
  qed
  from 1 2 3 4 5 show ?thesis by blast
qed

section \<open>A half million\<close>

lemma spoken_millions:
  assumes "concat (map (uc_casefold u) (strip_cps raw)) = cs" "cs \<noteq> []" "\<not> minus_sign cs" "compact_amount cs = cs"
    "re_search u (millions_rx u) cs = None" "names_millions cs" "split_words [] (map (\<lambda>c. if c = 121 then 32 else c) (before_millions u cs)) = ws"
    "foldl (\<lambda>t w. dec_add t (token_value u w)) (dec_int 0) ws = n" "\<not> dec_le n (dec_int 0)"
  shows "parse_cop_amount u raw = positive_decimal (dec_millions (if names_half cs then dec_add n dec_half else n))"
  using assms by (simp add: parse_cop_amount_def named_amount_def parse_spanish_number_def)

lemma show_nat_acc_length: "n < 10 ^ Suc k \<Longrightarrow> length (show_nat_acc n acc) \<le> Suc k + length acc"
proof (induction n acc arbitrary: k rule: show_nat_acc.induct)
  case (1 n acc)
  show ?case
  proof (cases "n < 10")
    case False
    then obtain j where k: "k = Suc j" using 1(2) by (cases k) auto
    have "n div 10 < 10 ^ Suc j" using 1(2) by (simp add: k less_mult_imp_div_less)
    from 1(1) [OF refl False this] False k show ?thesis by (simp add: show_nat_acc.simps [of n])
  qed (simp add: show_nat_acc.simps)
qed

lemma digits_count_small: "\<bar>c\<bar> < 10 ^ 28 \<Longrightarrow> digits_count c \<le> 28"
proof -
  assume "\<bar>c\<bar> < 10 ^ 28"
  then have "nat \<bar>c\<bar> < nat (10 ^ 28)" by linarith
  then have "nat \<bar>c\<bar> < 10 ^ Suc 27" by (simp add: nat_power_eq)
  from show_nat_acc_length [OF this, of "[]"] show ?thesis by (simp add: digits_count_def show_int_def show_nat_def)
qed

lemma dec_fix_small: "\<bar>c\<bar> < 10 ^ 28 \<Longrightarrow> dec_fix (c, k) = (c, k)"
  by (simp add: dec_fix_def digits_count_small)

lemma spoken_tokens:
  "token_value ascii_ucd (cps ''medio'') = (5, 1)" "token_value ascii_ucd (cps ''un'') = (1, 0)"
  "token_value ascii_ucd (cps ''dos'') = (2, 0)" "token_value ascii_ucd (cps ''millon'') = (0, 0)"
  "token_value ascii_ucd (cps ''500'') = (500, 0)"
  by (simp_all add: token_value_def number_words_def number_rx_def dec_int_def dec_of_def re_fullmatch_def regex_eval text_eval)

lemma spoken_sums:
  "dec_add (0, 0) (5, 1) = (5, 1)" "dec_add (5, 1) (0, 0) = (5, 1)" "dec_add (0, 0) (1, 0) = (1, 0)" "dec_add (1, 0) (0, 0) = (1, 0)"
  "dec_add (1, 0) (5, 1) = (15, 1)" "dec_add (0, 0) (2, 0) = (2, 0)" "dec_add (1, 0) (500, 0) = (501, 0)"
  "dec_add (15, 1) (5, 1) = (20, 1)" "dec_add (2, 0) (5, 1) = (25, 1)" "dec_add (5, 1) (5, 1) = (10, 1)"
  "positive_decimal (dec_millions (10, 1)) = Some (1000000, 0)" "positive_decimal (dec_millions (20, 1)) = Some (2000000, 0)"
  "positive_decimal (dec_millions (25, 1)) = Some (2500000, 0)" "positive_decimal (dec_millions (501, 0)) = Some (501000000, 0)"
  "\<not> dec_le (5, 1) (0, 0)" "\<not> dec_le (15, 1) (0, 0)" "\<not> dec_le (501, 0) (0, 0)" "\<not> dec_le (2, 0) (0, 0)"
  by (simp_all add: dec_add_def dec_millions_def dec_fix_small positive_decimal_def dec_le_def dec_round_def dec_int_def half_even_def
    digits_count_small)

lemma millon_accented_cps: "utf8_decode millon_accented = [109, 105, 108, 108, 243, 110]"
  by code_simp

lemmas spoken_eval = spoken_sums dec_int_def dec_half_def
  minus_sign_def compact_amount_def millions_rx_def number_rx_def names_millions_def millon_accented_cps before_millions_def
  names_half_def regex_eval text_eval


section \<open>Witnesses\<close>

definition said :: "string \<Rightarrow> evalue \<Rightarrow> extracted_entity" where
  "said name v = \<lparr>en_entity = name, en_raw_value = [], en_normalized_value = v, en_quality_status = ''PROVIDED'',
     en_confidence = (1, 0), en_needs_confirmation = False, en_validation_errors = []\<rparr>"

lemma said_name: "en_entity (said name v) = name" and said_confirmation: "en_needs_confirmation (said name v) = False"
  by (simp_all add: said_def)

lemma said_values:
  "validate_entity u lt (said ''guest_count'' (VText ''80'')) today =
     Inr \<lparr>ac_entity = said ''guest_count'' (VText ''80''), ac_value = EV_Int 80, ac_warnings = []\<rparr>"
  "validate_entity u lt (said ''guest_count'' (VInt 90)) today =
     Inr \<lparr>ac_entity = said ''guest_count'' (VInt 90), ac_value = EV_Int 90, ac_warnings = []\<rparr>"
  "validate_entity u lt (said ''budget_declined'' (VBool True)) today =
     Inr \<lparr>ac_entity = said ''budget_declined'' (VBool True), ac_value = EV_Bool True, ac_warnings = []\<rparr>"
proof -
  have "integer_text ''80'' = Inr 80"
    by (simp add: integer_text_def ascii_eval is_digit_def digits_val_def digit_val_def integer_in_range_def max_integer_def)
  then have "integer_value (VText ''80'') = Inr 80" "integer_value (VInt 90) = Inr 90"
    by (simp_all add: integer_value_def integer_in_range_def max_integer_def)
  then show
    "validate_entity u lt (said ''guest_count'' (VText ''80'')) today =
       Inr \<lparr>ac_entity = said ''guest_count'' (VText ''80''), ac_value = EV_Int 80, ac_warnings = []\<rparr>"
    "validate_entity u lt (said ''guest_count'' (VInt 90)) today =
       Inr \<lparr>ac_entity = said ''guest_count'' (VInt 90), ac_value = EV_Int 90, ac_warnings = []\<rparr>"
    "validate_entity u lt (said ''budget_declined'' (VBool True)) today =
       Inr \<lparr>ac_entity = said ''budget_declined'' (VBool True), ac_value = EV_Bool True, ac_warnings = []\<rparr>"
    by (simp_all add: validate_entity_def family_value_def value_or_raw_def said_def)
qed

lemma legacy_colour: "decode_legacy ''colour'' VNull = Inl (legacy_rejection ''UNKNOWN'' ''UNKNOWN_LEGACY_ENTITY'' VNull)"
  by (simp add: decode_legacy_def entity_names_def)

lemma sample_batch:
  "validate_entities ascii_ucd lt [said ''guest_count'' (VText ''80''), said ''guest_count'' (VInt 90),
       said ''budget_declined'' (VBool True)] [(''colour'', VNull)] 739000 =
     ([\<lparr>ac_entity = said ''budget_declined'' (VBool True), ac_value = EV_Bool True, ac_warnings = []\<rparr>],
      [legacy_rejection ''UNKNOWN'' ''UNKNOWN_LEGACY_ENTITY'' VNull,
       rejection (said ''guest_count'' (VInt 90)) ''CONFLICTING_REPRESENTATIONS''])"
  by (simp add: validate_entities_def decode_entities_def legacy_colour add_entity_def said_values said_name
      said_confirmation conflicting_def same_value_def settle_guests_def settle_budget_def legacy_rejection_def)

definition ascii_letters :: letters where
  "ascii_letters = \<lparr>lt_isalpha = (\<lambda>c. 65 \<le> c), lt_cased = (\<lambda>c. 65 \<le> c), lt_title = (\<lambda>c. [c]), lt_lower = (\<lambda>c. [c])\<rparr>"

lemma accepted_entities_storable_witness:
  "storable ascii_letters 739000 ''budget_declined'' (EV_Bool True)"
  using accepted_entities_storable [OF sample_batch [of ascii_letters]] by (simp add: said_def)

end
