(* ===== verification/Proposals.thy ===== *)
theory Proposals
  imports Entities
begin

text \<open>
  What the language model makes of a message, and what the bot may still take from an earlier proposal: the
  \<open>IntentClassification\<close> of \<open>app/ai/schemas.py\<close>, \<open>conversation/pending_confirmation.py\<close>, \<open>conversation/faq_catalog.py\<close>,
  \<open>orchestrator/slot_filling.py\<close> and the functions of \<open>orchestrator/service.py\<close> that keep, confirm and discard a proposal.
\<close>

section \<open>Classifications\<close>

record classification =
  cl_primary_intent :: string
  cl_secondary_intents :: "string list"
  cl_sub_intent :: "string option"
  cl_confidence :: decimal
  cl_information_category :: "string option"
  cl_entities :: "(string \<times> evalue) list"
  cl_extracted_entities :: "extracted_entity list"
  cl_requested_action :: "string option"
  cl_missing_fields :: "string list"
  cl_needs_confirmation :: bool
  cl_needs_human :: bool
  cl_handoff_reason :: "string option"
  cl_priority :: handoff_priority
  cl_context_reference :: "(string \<times> evalue) list"
  cl_reasoning_code :: string

text \<open>How a classification is kept in a JSON column, whose numbers the type \<open>json\<close> leaves out: pydantic's reading and
  writing of it, and the comparison of a stored number.\<close>

record classification_json =
  cj_read :: "json \<Rightarrow> classification option"
  cj_write :: "classification \<Rightarrow> json"
  cj_same :: "json \<Rightarrow> decimal \<Rightarrow> bool"

text \<open>\<open>IntentClassification(primary_intent=..., ...)\<close> with nothing else in it.\<close>

definition bare_classification :: "string \<Rightarrow> decimal \<Rightarrow> string \<Rightarrow> string \<Rightarrow> classification" where
  "bare_classification intent confidence action reasoning = \<lparr>cl_primary_intent = intent, cl_secondary_intents = [],
     cl_sub_intent = None, cl_confidence = confidence, cl_information_category = None, cl_entities = [],
     cl_extracted_entities = [], cl_requested_action = Some action, cl_missing_fields = [], cl_needs_confirmation = False,
     cl_needs_human = False, cl_handoff_reason = None, cl_priority = HO_NORMAL, cl_context_reference = [],
     cl_reasoning_code = reasoning\<rparr>"

definition human_classification :: "string \<Rightarrow> string \<Rightarrow> handoff_priority \<Rightarrow> string \<Rightarrow> string \<Rightarrow> classification" where
  "human_classification intent reason priority action reasoning =
     (bare_classification intent (dec_int 0) action reasoning)\<lparr>cl_needs_human := True, cl_handoff_reason := Some reason,
        cl_priority := priority\<rparr>"

definition normalized_entities :: "classification \<Rightarrow> extracted_entity list" where
  "normalized_entities cl = fst (decode_entities (cl_extracted_entities cl)
     (if cl_extracted_entities cl \<noteq> [] then [] else cl_entities cl))"

section \<open>Categories of information\<close>

definition category_response_codes :: "(string \<times> string) list" where
  "category_response_codes =
     [(''identidad'', ''RESP-DISCOVERY-002''), (''ubicacion'', ''RESP-LOCATION-001''),
      (''ubicaci'' @ o_acute @ ''n'', ''RESP-LOCATION-001''), (''mapa'', ''RESP-LOCATION-002''),
      (''enlace de google maps'', ''RESP-LOCATION-002''), (''parqueadero'', ''RESP-PARKING-001''),
      (''capacidad'', ''RESP-CAPACITY-001''), (''capacidades'', ''RESP-CAPACITY-001''), (''espacios'', ''RESP-SPACES-001''),
      (''tipos de eventos'', ''RESP-EVENTS-001''), (''piscina'', ''RESP-POOL-001''), (''mascotas'', ''RESP-PETS-001''),
      (''proveedores'', ''RESP-SUPPLIERS-001''), (''proveedores externos'', ''RESP-SUPPLIERS-001''), (''alimentos'', ''RESP-FOOD-001''),
      (''alimentos externos'', ''RESP-FOOD-001''), (''bebidas externas'', ''RESP-BEVERAGES-001''), (''licor'', ''RESP-BEVERAGES-002''),
      (''descorche'', ''RESP-BEVERAGES-003''), (''alojamiento'', ''RESP-ACCOMMODATION-001''), (''horarios'', ''RESP-EVENT-HOURS-001''),
      (''horario de eventos'', ''RESP-EVENT-HOURS-001''), (''horarios de eventos'', ''RESP-EVENT-HOURS-001''),
      (''horario humano'', ''RESP-HANDOFF-002''), (''visitas'', ''RESP-VISIT-001''), (''horarios de visitas'', ''RESP-VISIT-001''),
      (''proceso para cotizar'', ''RESP-PRICE-001''), (''separacion'', ''RESP-RESERVATION-001''),
      (''separaci'' @ o_acute @ ''n'', ''RESP-RESERVATION-001''), (''proceso para separar una fecha'', ''RESP-RESERVATION-001''),
      (''pagos'', ''RESP-PAYMENT-METHODS-001''), (''medios de pago'', ''RESP-PAYMENT-METHODS-001''),
      (''servicios'', ''RESP-SERVICES-001''), (''servicios generales'', ''RESP-SERVICES-001''),
      (''tiempos de respuesta'', ''RESP-QUOTE-004''), (''cancelacion'', ''RESP-CANCEL-EVENT-002''),
      (''cancelaci'' @ o_acute @ ''n'', ''RESP-CANCEL-EVENT-002''), (''politica general de cancelacion'', ''RESP-CANCEL-EVENT-002''),
      (''pol'' @ i_acute @ ''tica general de cancelaci'' @ o_acute @ ''n'', ''RESP-CANCEL-EVENT-002''),
      (''fallos tecnicos'', ''RESP-AI-ERROR-001''), (''fallos t'' @ e_acute @ ''cnicos'', ''RESP-AI-ERROR-001''),
      (''seguridad'', ''RESP-SECURITY-001''), (''catalogo'', ''RESP-CATALOG-001''),
      (''cat'' @ a_acute @ ''logo'', ''RESP-CATALOG-001''), (''brochure'', ''RESP-CATALOG-001''), (''pdf'', ''RESP-CATALOG-001''),
      (''catalog_request'', ''RESP-CATALOG-001'')]"

definition faq_category_values :: "string list" where
  "faq_category_values = map fst category_response_codes"

definition no_approved_answer :: string where
  "no_approved_answer = ''NO_APPROVED_ANSWER''"

text \<open>\<open>" ".join(category.strip().lower().split())\<close>.\<close>

definition response_code_for_category :: "letters \<Rightarrow> string \<Rightarrow> string" where
  "response_code_for_category lt category =
     (case map_of category_response_codes (utf8_encode (joined_words (concat (map (lt_lower lt) (strip_cps (cps category)))))) of
        None \<Rightarrow> no_approved_answer | Some code \<Rightarrow> code)"

text \<open>\<open>is_catalog_request_category\<close> of \<open>catalog/service.py\<close>.\<close>

definition catalog_request_categories :: "string list" where
  "catalog_request_categories = [''catalogo'', ''cat'' @ a_acute @ ''logo'', ''catalog_request'', ''brochure'', ''pdf'']"

definition is_catalog_request_category :: "ucd \<Rightarrow> string option \<Rightarrow> bool" where
  "is_catalog_request_category u category =
     (case category of None \<Rightarrow> False
      | Some s \<Rightarrow> utf8_encode (joined_words (cps (casefold u (strip s)))) \<in> set catalog_request_categories)"

section \<open>The next question: \<open>slot_filling.py\<close>\<close>

record capture_progress =
  cg_event_type :: "string option"
  cg_guest_count :: "int option"
  cg_guest_count_min :: "int option"
  cg_guest_count_max :: "int option"
  cg_date_resolved :: bool
  cg_full_name :: "string option"
  cg_full_name_needs_confirmation :: bool
  cg_budget_data_status :: string
  cg_services_requested :: bool
  cg_pending_fields :: "string list"

definition question_code_by_action :: "(string \<times> string) list" where
  "question_code_by_action = [(''COLLECT_EVENT_TYPE'', ''RESP-EVENT-DATA-013''), (''COLLECT_GUEST_COUNT'', ''RESP-EVENT-DATA-004''),
     (''COLLECT_EVENT_DATE'', ''RESP-EVENT-DATA-001''), (''COLLECT_CUSTOMER_NAME'', ''RESP-CUSTOMER-001''),
     (''COLLECT_BUDGET'', ''RESP-BUDGET-001''), (''COLLECT_SERVICES'', ''RESP-EVENT-DATA-006'')]"

definition question_code :: "string \<Rightarrow> string" where
  "question_code action = (case map_of question_code_by_action action of None \<Rightarrow> [] | Some code \<Rightarrow> code)"

definition has_guest_count :: "capture_progress \<Rightarrow> bool" where
  "has_guest_count g \<longleftrightarrow> cg_guest_count g \<noteq> None \<or> (cg_guest_count_min g \<noteq> None \<and> cg_guest_count_max g \<noteq> None)"

definition has_event_type :: "ucd \<Rightarrow> capture_progress \<Rightarrow> bool" where
  "has_event_type u g \<longleftrightarrow> normalize_event_type u (cg_event_type g) \<noteq> None"

definition needs_budget :: "capture_progress \<Rightarrow> bool" where
  "needs_budget g \<longleftrightarrow> (case cg_event_type g of None \<Rightarrow> True | Some t \<Rightarrow> t \<notin> set fixed_price_event_types) \<and>
     cg_budget_data_status g \<in> {''NOT_ASKED'', ''ASKED_PENDING''}"

definition text_given :: "string option \<Rightarrow> bool" where
  "text_given s \<longleftrightarrow> (case s of None \<Rightarrow> False | Some t \<Rightarrow> t \<noteq> [])"

definition name_missing :: "capture_progress \<Rightarrow> bool" where
  "name_missing g \<longleftrightarrow> \<not> text_given (cg_full_name g) \<or> cg_full_name_needs_confirmation g"

definition select_next_question :: "ucd \<Rightarrow> capture_progress \<Rightarrow> string option" where
  "select_next_question u g =
     (if \<not> has_event_type u g then Some ''COLLECT_EVENT_TYPE''
      else if \<not> has_guest_count g then Some ''COLLECT_GUEST_COUNT''
      else if \<not> cg_date_resolved g then Some ''COLLECT_EVENT_DATE''
      else if name_missing g then Some ''COLLECT_CUSTOMER_NAME''
      else if needs_budget g then Some ''COLLECT_BUDGET''
      else if \<not> cg_services_requested g then Some ''COLLECT_SERVICES''
      else None)"

definition pending_fields_for :: "ucd \<Rightarrow> capture_progress \<Rightarrow> string list" where
  "pending_fields_for u g = concat
     [if \<not> has_event_type u g then [''event_type''] else [], if \<not> has_guest_count g then [''guest_count''] else [],
      if \<not> cg_date_resolved g then [''event_date''] else [], if name_missing g then [''full_name''] else [],
      if needs_budget g then [''estimated_budget''] else [], if \<not> cg_services_requested g then [''requested_services''] else []]"

definition minimum_quote_data_complete :: "ucd \<Rightarrow> capture_progress \<Rightarrow> bool" where
  "minimum_quote_data_complete u g \<longleftrightarrow> has_event_type u g \<and> has_guest_count g \<and> cg_date_resolved g \<and> \<not> name_missing g"

section \<open>Pending proposals: \<open>pending_confirmation.py\<close>\<close>

datatype proposal = Absent | Invalid string | Resolved | Tentative classification | Named string

definition proposal_kind :: "proposal \<Rightarrow> string" where
  "proposal_kind p = (case p of Absent \<Rightarrow> ''ABSENT'' | Invalid _ \<Rightarrow> ''INVALID'' | Resolved \<Rightarrow> ''RESOLVED''
     | Tentative _ \<Rightarrow> ''CLASSIFICATION'' | Named _ \<Rightarrow> ''NAME'')"

definition name_actions :: "string list" where
  "name_actions = [''COLLECT_EVENT_TYPE'', ''COLLECT_GUEST_COUNT'', ''COLLECT_EVENT_DATE'', ''COLLECT_CUSTOMER_NAME'',
     ''COLLECT_BUDGET'', ''COLLECT_SERVICES'']"

definition name_states :: "conversation_state list" where
  "name_states = [COLLECTING_EVENT_DATA, WAITING_FOR_APPOINTMENT_DATE, WAITING_FOR_APPOINTMENT_SELECTION,
     APPOINTMENT_PENDING_CONFIRMATION]"

definition proposal_context :: "conversation \<Rightarrow> json" where
  "proposal_context c = JObj [(''state'', JStr (conversation_state_str (cv_state c))),
     (''active_lead_id'', opt_json (\<lambda>k. JStr (uuid_str k)) (cv_active_lead_id c))]"

text \<open>Dictionaries are equal whatever the order of their keys; this one has two.\<close>

definition same_context :: "json \<Rightarrow> json \<Rightarrow> bool" where
  "same_context a b \<longleftrightarrow> (case (a, b) of
     (JObj xs, JObj ys) \<Rightarrow> set (map fst xs) = set (map fst ys) \<and> list_all (\<lambda>(k, _). map_of xs k = map_of ys k) xs
   | _ \<Rightarrow> a = b)"

definition evalue_of_json :: "json \<Rightarrow> evalue" where
  "evalue_of_json j = (case j of JStr s \<Rightarrow> VText s | _ \<Rightarrow> VNull)"

definition read_name :: "letters \<Rightarrow> json \<Rightarrow> conversation \<Rightarrow> proposal" where
  "read_name lt value c =
     (let versioned = jhas ''version'' value in
      if jhas ''classification'' value then Invalid ''MIXED_FAMILIES''
      else (case validated_name lt (evalue_of_json (jget ''full_name'' value)) of
              None \<Rightarrow> Invalid ''INVALID_NAME_SHAPE''
            | Some name \<Rightarrow>
                if cv_state c \<notin> set name_states \<or>
                   \<not> ((case cv_pending_action c of None \<Rightarrow> False | Some a \<Rightarrow> a \<in> set name_actions) \<or>
                      versioned \<and> cv_pending_action c = None)
                then Invalid ''NAME_CONTEXT_MISSING''
                else if \<not> versioned \<and> (cv_pending_action c \<noteq> Some ''COLLECT_CUSTOMER_NAME'' \<or>
                       cv_last_question_code c \<noteq> Some ''RESP-CUSTOMER-001'')
                then Invalid ''AMBIGUOUS_LEGACY_NAME''
                else Named name))"

definition read_classification :: "classification_json \<Rightarrow> json \<Rightarrow> conversation \<Rightarrow> proposal" where
  "read_classification cj value c =
     (let versioned = jhas ''version'' value; kind = jget ''type'' value; payload = jget ''classification'' value;
          category = jget ''information_category'' payload in
      if kind \<noteq> JNull \<and> (kind \<noteq> JStr ''CLASSIFICATION_CONFIRMATION'' \<or> \<not> versioned) then Invalid ''UNKNOWN_DISCRIMINATOR''
      else if versioned \<and> kind \<noteq> JStr ''CLASSIFICATION_CONFIRMATION'' then Invalid ''MISSING_DISCRIMINATOR''
      else if cv_pending_action c \<noteq> Some ''CLASSIFY_MESSAGE'' then Invalid ''CLASSIFICATION_CONTEXT_MISSING''
      else if \<not> versioned \<and> cv_last_question_code c \<noteq> Some ''RESP-FALLBACK-004'' then Invalid ''AMBIGUOUS_LEGACY_CLASSIFICATION''
      else if \<not> is_obj payload then Invalid ''INVALID_CLASSIFICATION_SHAPE''
      else if category \<noteq> JNull \<and> category \<notin> set (map JStr faq_category_values) then Invalid ''INVALID_CLASSIFICATION_CATEGORY''
      else (case cj_read cj payload of
              None \<Rightarrow> Invalid ''INVALID_CLASSIFICATION_SCHEMA''
            | Some cl \<Rightarrow>
                if jhas ''original_intent'' value \<and> jget ''original_intent'' value \<noteq> JStr (cl_primary_intent cl)
                then Invalid ''INCONSISTENT_CLASSIFICATION''
                else if jhas ''original_confidence'' value \<and> \<not> cj_same cj (jget ''original_confidence'' value) (cl_confidence cl)
                then Invalid ''INCONSISTENT_CONFIDENCE''
                else Tentative cl))"

definition read_pending :: "classification_json \<Rightarrow> letters \<Rightarrow> conversation \<Rightarrow> proposal" where
  "read_pending cj lt c =
     (case cv_pending_confirmation c of
        None \<Rightarrow> Absent
      | Some value \<Rightarrow>
          if value = JNull \<or> value = JObj [] then Absent
          else if \<not> is_obj value then Invalid ''NON_OBJECT''
          else if jhas ''resolved_intent'' value then Resolved
          else if jhas ''version'' value \<and> jget ''version'' value \<noteq> JInt 1 then Invalid ''UNSUPPORTED_VERSION''
          else if jhas ''version'' value \<and> \<not> same_context (jget ''context'' value) (proposal_context c) then Invalid ''CONTEXT_CHANGED''
          else if jget ''type'' value = JStr ''FULL_NAME_CONFIRMATION'' then read_name lt value c
          else read_classification cj value c)"

section \<open>Audits of the dialogue\<close>

text \<open>A float of an audited value is kept as the text of its decimal form.\<close>

definition json_of_decimal :: "decimal \<Rightarrow> json" where
  "json_of_decimal d = JStr (dec_str d)"

definition audit_domain_change ::
  "string \<Rightarrow> string \<Rightarrow> json option \<Rightarrow> json option \<Rightarrow> string \<Rightarrow> string option \<Rightarrow> db \<Rightarrow> db" where
  "audit_domain_change action entity old_value new_value reason request_id d =
     audit ''SYSTEM'' action entity old_value new_value reason request_id d"

definition audit_orchestrator_event ::
  "string \<Rightarrow> conversation \<Rightarrow> string \<Rightarrow> string option \<Rightarrow> (string \<times> json) list \<Rightarrow> db \<Rightarrow> db" where
  "audit_orchestrator_event action c reason request_id extra d =
     audit ''SYSTEM'' action ''conversation'' None (Some (JObj ((''conversation_id'', JInt (cv_id c)) # extra))) reason request_id d"

definition audit_confidence_decision ::
  "conversation \<Rightarrow> classification \<Rightarrow> string \<Rightarrow> decimal \<Rightarrow> string option \<Rightarrow> db \<Rightarrow> db" where
  "audit_confidence_decision c cl decision threshold request_id d =
     audit_orchestrator_event ''AI_CONFIDENCE_DECISION'' c decision request_id
       [(''original_intent'', JStr (cl_primary_intent cl)), (''original_confidence'', json_of_decimal (cl_confidence cl)),
        (''threshold'', json_of_decimal threshold), (''decision'', JStr decision)] d"

definition audit_confirmation_uplift :: "conversation \<Rightarrow> classification \<Rightarrow> string option \<Rightarrow> db \<Rightarrow> db" where
  "audit_confirmation_uplift c cl request_id d =
     audit_orchestrator_event ''AI_CONFIDENCE_DECISION'' c ''CONFIRMATION_UPLIFT'' request_id
       [(''decision'', JStr ''CONFIRMATION_UPLIFT''), (''confirmed_intent'', JStr (cl_primary_intent cl)),
        (''original_global_confidence'', json_of_decimal (cl_confidence cl)),
        (''original_reasoning_code'', JStr (cl_reasoning_code cl)),
        (''last_question_code'', opt_json JStr (cv_last_question_code c))] d"

section \<open>Keeping and discarding a proposal\<close>

definition discard_pending :: "conversation \<Rightarrow> string \<Rightarrow> string option \<Rightarrow> string \<Rightarrow> db \<Rightarrow> conversation \<times> db" where
  "discard_pending c kind request_id reason d =
     (let d1 = audit_orchestrator_event
                 (if kind = ''CLASSIFICATION'' then ''AI_CONFIRMATION_DISCARDED'' else ''PENDING_CONFIRMATION_DISCARDED'')
                 c reason request_id [(''pending_type'', JStr kind), (''discard_reason'', JStr reason)] d;
          c1 = c\<lparr>cv_pending_confirmation := None\<rparr>
      in (c1, put_conversation c1 d1))"

definition is_affirmative :: "ucd \<Rightarrow> string \<Rightarrow> bool" where
  "is_affirmative u message_text \<longleftrightarrow> casefold u (strip message_text) \<in>
     {''si'', ''s'' @ i_acute, ''s'', ''ok'', ''okay'', ''dale'', ''correcto'', ''claro''}"

text \<open>A recognized question of information that interrupts the proposal without answering it.\<close>

definition interrupts :: "ucd \<Rightarrow> letters \<Rightarrow> classification \<Rightarrow> string \<Rightarrow> bool" where
  "interrupts u lt cl message_text \<longleftrightarrow> cl_primary_intent cl = ''GENERAL_INFORMATION'' \<and> \<not> is_affirmative u message_text \<and>
     normalize_confirmation_text u message_text \<notin> set denials \<and>
     (case cl_information_category cl of None \<Rightarrow> False
      | Some k \<Rightarrow> \<not> is_catalog_request_category u (Some k) \<and> response_code_for_category lt k \<noteq> no_approved_answer)"

definition keep_proposal :: "proposal \<Rightarrow> conversation \<Rightarrow> db \<Rightarrow> conversation \<times> db" where
  "keep_proposal p c d =
     (case cv_pending_confirmation c of
        None \<Rightarrow> (c, d)
      | Some value \<Rightarrow>
          if jhas ''version'' value then (c, d)
          else let c1 = c\<lparr>cv_pending_confirmation := Some (jset ''context'' (proposal_context c) (jset ''version'' (JInt 1)
                     (jset ''type'' (JStr (case p of Named _ \<Rightarrow> ''FULL_NAME_CONFIRMATION'' | _ \<Rightarrow> ''CLASSIFICATION_CONFIRMATION'')) value)))\<rparr>
               in (c1, put_conversation c1 d))"

definition add_pending_field :: "string \<Rightarrow> conversation \<Rightarrow> conversation" where
  "add_pending_field f c = c\<lparr>cv_pending_fields := first_occurrences (cv_pending_fields c @ [f])\<rparr>"

definition discard_invalid :: "proposal \<Rightarrow> conversation \<Rightarrow> string option \<Rightarrow> db \<Rightarrow> conversation \<times> db" where
  "discard_invalid p c request_id d =
     (let reason = (case p of Invalid r \<Rightarrow> r | _ \<Rightarrow> ''RESOLUTION_HAS_NO_AUTHORITY'');
          c1 = (if reason = ''INVALID_NAME_SHAPE'' \<and> cv_pending_action c = Some ''COLLECT_CUSTOMER_NAME''
                then add_pending_field ''full_name'' c else c)
      in discard_pending c1 (proposal_kind p) request_id reason d)"

definition accept_classification :: "classification \<Rightarrow> conversation \<Rightarrow> string option \<Rightarrow> db \<Rightarrow> conversation \<times> db" where
  "accept_classification agreed c request_id d =
     (let d1 = audit_orchestrator_event ''AI_CONFIRMATION_ACCEPTED'' c ''Customer confirmed tentative classification'' request_id
                 [(''confirmed_intent'', JStr (cl_primary_intent agreed)),
                  (''original_confidence'', json_of_decimal (cl_confidence agreed))] d;
          c1 = c\<lparr>cv_pending_confirmation := None,
                 cv_pending_action := (if cv_pending_action c = Some ''CLASSIFY_MESSAGE'' then None else cv_pending_action c)\<rparr>
      in (c1, put_conversation c1 d1))"

text \<open>The classification that stands, and whether the customer has just confirmed it.\<close>

definition resolve_pending_confirmation ::
  "ucd \<Rightarrow> letters \<Rightarrow> classification_json \<Rightarrow> conversation \<Rightarrow> classification \<Rightarrow> string \<Rightarrow> string option \<Rightarrow> db
   \<Rightarrow> (classification \<times> bool) \<times> conversation \<times> db" where
  "resolve_pending_confirmation u lt cj c cl message_text request_id d =
     (let p = read_pending cj lt c in
      case p of
        Absent \<Rightarrow> ((cl, False), c, d)
      | Invalid r \<Rightarrow> ((cl, False), discard_invalid p c request_id d)
      | Resolved \<Rightarrow> ((cl, False), discard_invalid p c request_id d)
      | Named name \<Rightarrow>
          if interrupts u lt cl message_text then ((cl, False), keep_proposal p c d)
          else if normalize_confirmation_text u message_text \<in> set denials
          then ((cl, False), discard_pending c ''NAME'' request_id ''NAME_DENIED'' d)
          else ((cl, False), c, d)
      | Tentative agreed \<Rightarrow>
          if interrupts u lt cl message_text then ((cl, False), keep_proposal p c d)
          else if is_affirmative u message_text \<and> \<not> list_ex (\<lambda>e. en_quality_status e = ''CORRECTED'') (normalized_entities cl)
          then ((agreed, True), accept_classification agreed c request_id d)
          else ((cl, False), discard_pending c ''CLASSIFICATION'' request_id ''NOT_AFFIRMATIVE_OR_CORRECTED'' d))"

end
