(* ===== verification/Capture.thy ===== *)
theory Capture
  imports Proposals Booking_Routes
begin

text \<open>
  How the dialogue writes what the customer said about an event, the functions of \<open>orchestrator/service.py\<close> from
  \<open>get_or_create_capture_models\<close> to \<open>summary_snapshot\<close>: each entity is checked again, written to its row and audited, and
  the summary of a quote request is made of the rows.
\<close>

section \<open>The rows of a capture\<close>

definition active_lead :: "conversation \<Rightarrow> db \<Rightarrow> lead option" where
  "active_lead c d = Option.bind (cv_active_lead_id c) (\<lambda>k. get_row ld_id k (db_leads d))"

definition active_event :: "lead option \<Rightarrow> db \<Rightarrow> event_row option" where
  "active_event l d = Option.bind l (\<lambda>x. find (\<lambda>e. ev_lead_id e = ld_id x) (db_events d))"

definition capture_lead :: "conversation \<Rightarrow> customer \<Rightarrow> string option \<Rightarrow> db \<Rightarrow> lead \<times> conversation \<times> db" where
  "capture_lead c cu request_id d =
     (case active_lead c d of
        None \<Rightarrow>
          (case add_lead (cu_id cu) d of (l, d1) \<Rightarrow>
             let c1 = c\<lparr>cv_active_lead_id := Some (ld_id l)\<rparr> in
             (l, c1, audit_domain_change ''LEAD_CREATED'' ''lead'' None
                (Some (JObj [(''lead_id'', JStr (uuid_str (ld_id l))), (''conversation_id'', JInt (cv_id c))]))
                ''Commercial capture started'' request_id (put_conversation c1 d1)))
      | Some l \<Rightarrow>
          if ld_status l = ''NEW'' then (let l1 = l\<lparr>ld_status := ''QUALIFYING''\<rparr> in (l1, c, put_lead l1 d)) else (l, c, d))"

definition capture_event :: "lead \<Rightarrow> string option \<Rightarrow> db \<Rightarrow> event_row \<times> db" where
  "capture_event l request_id d =
     (case active_event (Some l) d of
        Some e \<Rightarrow> (e, d)
      | None \<Rightarrow>
          (case add_event (ld_id l) None d of (e, d1) \<Rightarrow>
             (e, audit_domain_change ''EVENT_CREATED'' ''event'' None
                (Some (JObj [(''event_id'', JStr (uuid_str (ev_id e))), (''lead_id'', JStr (uuid_str (ld_id l)))]))
                ''Commercial capture started'' request_id d1)))"

definition get_or_create_capture_models ::
  "conversation \<Rightarrow> customer \<Rightarrow> string option \<Rightarrow> db \<Rightarrow> lead \<times> event_row \<times> conversation \<times> db" where
  "get_or_create_capture_models c cu request_id d =
     (case capture_lead c cu request_id d of (l, c1, d1) \<Rightarrow>
      (case capture_event l request_id d1 of (e, d2) \<Rightarrow> (l, e, c1, d2)))"

section \<open>Checked entities\<close>

definition entity_today :: "db \<Rightarrow> date" where
  "entity_today d = bogota_date (db_clock d)"

text \<open>A type of event that is not known was a text: the check of the text came before.\<close>

definition shown_value :: "evalue \<Rightarrow> json" where
  "shown_value v = (case v of VText s \<Rightarrow> JStr s | _ \<Rightarrow> JNull)"

definition audit_discarded_event_type :: "extracted_entity \<Rightarrow> string option \<Rightarrow> db \<Rightarrow> db" where
  "audit_discarded_event_type e request_id d =
     audit_domain_change ''EVENT_TYPE_ENTITY_DISCARDED'' ''event_type'' None
       (Some (JObj [(''raw_value'', JStr (en_raw_value e)), (''normalized_value'', shown_value (en_normalized_value e))]))
       ''Unknown event_type entity discarded before domain validation'' request_id d"

definition awaits_name :: "conversation \<Rightarrow> bool" where
  "awaits_name c \<longleftrightarrow> (case cv_pending_confirmation c of None \<Rightarrow> False | Some j \<Rightarrow> jget ''type'' j = JStr ''FULL_NAME_CONFIRMATION'')"

definition audit_entity_rejection ::
  "string option \<Rightarrow> rejection_row \<Rightarrow> conversation option \<times> db \<Rightarrow> conversation option \<times> db" where
  "audit_entity_rejection request_id item = (\<lambda>(co, d).
     let d1 = audit_domain_change
                (if rj_entity item = ''full_name'' then ''PENDING_CONFIRMATION_INVALID_NAME'' else ''ENTITY_INVALID'') ''conversation'' None
                (Some (JObj [(''entity'', JStr (rj_entity item)), (''code'', JStr (rj_code item)),
                   (''value_type'', JStr (rj_value_type item))]))
                ''Entity rejected before domain mutation'' request_id d
     in case co of
          None \<Rightarrow> (None, d1)
        | Some c \<Rightarrow>
            if rj_entity item = ''full_name'' \<and> rj_correction item \<and> awaits_name c
            then (case discard_pending c ''NAME'' request_id ''INVALID_NAME_CORRECTION'' d1 of (c1, d2) \<Rightarrow> (Some c1, d2))
            else (Some c, d1))"

definition checked_entity ::
  "ucd \<Rightarrow> letters \<Rightarrow> extracted_entity \<Rightarrow> string option \<Rightarrow> conversation option \<Rightarrow> db
   \<Rightarrow> accepted_entity option \<times> conversation option \<times> db" where
  "checked_entity u lt e request_id co d =
     (case validate_entity u lt e (entity_today d) of
        Inl code \<Rightarrow>
          if code = ''UNSUPPORTED_EVENT_TYPE'' then (None, co, audit_discarded_event_type e request_id d)
          else (None, audit_entity_rejection request_id (rejection e code) (co, d))
      | Inr a \<Rightarrow> (Some a, fold (audit_entity_rejection request_id) (ac_warnings a) (co, d)))"

section \<open>Snapshots\<close>

definition date_resolved_event :: "event_row \<Rightarrow> bool" where
  "date_resolved_event e \<longleftrightarrow> ev_event_date e \<noteq> None \<or> ev_event_month e \<noteq> None \<or>
     ev_event_date_type e \<in> {Some ''FLEXIBLE'', Some ''UNKNOWN''}"

definition date_pending :: "event_row \<Rightarrow> bool" where
  "date_pending e \<longleftrightarrow> ev_event_date e = None \<and> ev_event_month e = None \<and>
     ev_event_date_type e \<in> {Some ''FLEXIBLE'', Some ''UNKNOWN''}"

definition date_snapshot :: "event_row \<Rightarrow> json" where
  "date_snapshot e = JObj [(''event_id'', JStr (uuid_str (ev_id e))),
     (''event_date'', opt_json (\<lambda>d. JStr (date_iso d)) (ev_event_date e)), (''event_month'', opt_json JStr (ev_event_month e)),
     (''event_date_type'', opt_json JStr (ev_event_date_type e)), (''event_date_raw'', opt_json JStr (ev_event_date_raw e))]"

definition guest_count_snapshot :: "event_row \<Rightarrow> json" where
  "guest_count_snapshot e = JObj [(''event_id'', JStr (uuid_str (ev_id e))), (''guest_count'', opt_json JInt (ev_guest_count e)),
     (''guest_count_min'', opt_json JInt (ev_guest_count_min e)), (''guest_count_max'', opt_json JInt (ev_guest_count_max e)),
     (''guest_count_status'', opt_json JStr (ev_guest_count_status e))]"

text \<open>\<open>str(amount) if amount else None\<close>.\<close>

definition budget_json :: "decimal option \<Rightarrow> json" where
  "budget_json a = (case a of None \<Rightarrow> JNull | Some (n, k) \<Rightarrow> if n = 0 then JNull else JStr (dec_str (n, k)))"

definition captured :: "string \<Rightarrow> extracted_entity \<Rightarrow> string" where
  "captured subject e = subject @ (if en_quality_status e \<noteq> ''CORRECTED'' then ''_CAPTURED'' else ''_CORRECTED'')"

section \<open>Writing one entity\<close>

definition apply_event_type ::
  "ucd \<Rightarrow> letters \<Rightarrow> event_row \<Rightarrow> extracted_entity \<Rightarrow> string option \<Rightarrow> db \<Rightarrow> event_row \<times> db" where
  "apply_event_type u lt ev e request_id d =
     (case checked_entity u lt e request_id None d of
        (Some a, _, d1) \<Rightarrow>
          (case ac_value a of
             EV_Text t \<Rightarrow>
               let ev1 = ev\<lparr>ev_event_type := Some t\<rparr> in
               (ev1, audit_domain_change (captured ''EVENT_TYPE'' e) ''event''
                  (Some (JObj [(''event_type'', opt_json JStr (ev_event_type ev)),
                     (''event_type_other'', opt_json JStr (ev_event_type_other ev))]))
                  (Some (JObj [(''event_id'', JStr (uuid_str (ev_id ev))), (''event_type'', JStr t)]))
                  ''Event type captured during quote data collection'' request_id (put_event ev1 d1))
           | _ \<Rightarrow> (ev, d1))
      | (None, _, d1) \<Rightarrow> (ev, d1))"

definition apply_guest_count ::
  "ucd \<Rightarrow> letters \<Rightarrow> event_row \<Rightarrow> extracted_entity \<Rightarrow> string option \<Rightarrow> db \<Rightarrow> event_row \<times> db" where
  "apply_guest_count u lt ev e request_id d =
     (case checked_entity u lt e request_id None d of
        (Some a, _, d1) \<Rightarrow>
          (case ac_value a of
             EV_Int n \<Rightarrow>
               let ev1 = ev\<lparr>ev_guest_count := Some n, ev_guest_count_min := None, ev_guest_count_max := None,
                            ev_guest_count_status := Some ''PROVIDED''\<rparr> in
               (ev1, audit_domain_change (captured ''GUEST_COUNT'' e) ''event'' (Some (guest_count_snapshot ev))
                  (Some (guest_count_snapshot ev1)) ''Guest count captured during quote data collection'' request_id (put_event ev1 d1))
           | _ \<Rightarrow> (ev, d1))
      | (None, _, d1) \<Rightarrow> (ev, d1))"

definition apply_guest_count_range ::
  "ucd \<Rightarrow> letters \<Rightarrow> event_row \<Rightarrow> extracted_entity \<Rightarrow> string option \<Rightarrow> db \<Rightarrow> event_row \<times> db" where
  "apply_guest_count_range u lt ev e request_id d =
     (case checked_entity u lt e request_id None d of
        (Some a, _, d1) \<Rightarrow>
          (case ac_value a of
             EV_Range low high \<Rightarrow>
               let ev1 = ev\<lparr>ev_guest_count := None, ev_guest_count_min := Some low, ev_guest_count_max := Some high,
                            ev_guest_count_status := Some ''RANGE''\<rparr> in
               (ev1, audit_domain_change (captured ''GUEST_COUNT'' e) ''event'' (Some (guest_count_snapshot ev))
                  (Some (guest_count_snapshot ev1)) ''Guest count range captured during quote data collection'' request_id
                  (put_event ev1 d1))
           | _ \<Rightarrow> (ev, d1))
      | (None, _, d1) \<Rightarrow> (ev, d1))"

definition apply_event_date ::
  "ucd \<Rightarrow> letters \<Rightarrow> event_row \<Rightarrow> extracted_entity \<Rightarrow> string option \<Rightarrow> db \<Rightarrow> event_row \<times> db" where
  "apply_event_date u lt ev e request_id d =
     (case checked_entity u lt e request_id None d of
        (Some a, _, d1) \<Rightarrow>
          (case ac_value a of
             EV_Date t \<Rightarrow>
               let ev1 = ev\<lparr>ev_event_date := dt_event_date t, ev_event_month := dt_event_month t,
                            ev_event_date_type := Some (dt_event_date_type t), ev_event_date_raw := Some (dt_event_date_raw t)\<rparr> in
               (ev1, audit_domain_change (captured ''EVENT_DATE'' e) ''event'' (Some (date_snapshot ev)) (Some (date_snapshot ev1))
                  ''Event date triplet captured atomically'' request_id (put_event ev1 d1))
           | _ \<Rightarrow> (ev, d1))
      | (None, _, d1) \<Rightarrow> (ev, d1))"

definition apply_special_requests ::
  "ucd \<Rightarrow> letters \<Rightarrow> event_row \<Rightarrow> extracted_entity \<Rightarrow> string option \<Rightarrow> db \<Rightarrow> event_row \<times> db" where
  "apply_special_requests u lt ev e request_id d =
     (case checked_entity u lt e request_id None d of
        (Some a, _, d1) \<Rightarrow>
          (case ac_value a of
             EV_Text t \<Rightarrow>
               let ev1 = ev\<lparr>ev_special_requests := Some t\<rparr> in
               (ev1, audit_domain_change ''EVENT_SPECIAL_REQUESTS_CAPTURED'' ''event''
                  (Some (JObj [(''special_requests'', opt_json JStr (ev_special_requests ev))]))
                  (Some (JObj [(''event_id'', JStr (uuid_str (ev_id ev))), (''special_requests'', JStr t)]))
                  ''Special requests captured during quote data collection'' request_id (put_event ev1 d1))
           | _ \<Rightarrow> (ev, d1))
      | (None, _, d1) \<Rightarrow> (ev, d1))"

definition apply_budget ::
  "ucd \<Rightarrow> letters \<Rightarrow> lead \<Rightarrow> extracted_entity \<Rightarrow> string option \<Rightarrow> db \<Rightarrow> lead \<times> db" where
  "apply_budget u lt l e request_id d =
     (case checked_entity u lt e request_id None d of
        (Some a, _, d1) \<Rightarrow>
          (case ac_value a of
             EV_Budget amount \<Rightarrow>
               let l1 = l\<lparr>ld_estimated_budget := Some amount, ld_budget_range := calculate_budget_range (Some amount),
                          ld_budget_data_status := ''PROVIDED''\<rparr> in
               (l1, audit_domain_change ''BUDGET_CAPTURED'' ''lead''
                  (Some (JObj [(''estimated_budget'', budget_json (ld_estimated_budget l)), (''budget_range'', JStr (ld_budget_range l)),
                     (''budget_data_status'', JStr (ld_budget_data_status l))]))
                  (Some (JObj [(''lead_id'', JStr (uuid_str (ld_id l))), (''estimated_budget'', JStr (dec_str amount)),
                     (''budget_range'', JStr (ld_budget_range l1)), (''budget_data_status'', JStr (ld_budget_data_status l1))]))
                  ''Budget captured during quote data collection'' request_id (put_lead l1 d1))
           | _ \<Rightarrow> (l, d1))
      | (None, _, d1) \<Rightarrow> (l, d1))"

definition apply_budget_declined :: "lead \<Rightarrow> string option \<Rightarrow> db \<Rightarrow> lead \<times> db" where
  "apply_budget_declined l request_id d =
     (let l1 = l\<lparr>ld_budget_data_status := ''DECLINED'', ld_budget_range := ''NOT_PROVIDED''\<rparr> in
      (l1, audit_domain_change ''BUDGET_DECLINED'' ''lead''
         (Some (JObj [(''budget_data_status'', JStr (ld_budget_data_status l))]))
         (Some (JObj [(''lead_id'', JStr (uuid_str (ld_id l))), (''budget_data_status'', JStr ''DECLINED'')]))
         ''Customer declined to share budget'' request_id (put_lead l1 d)))"

definition should_mark_budget_declined_by_evasion :: "lead \<Rightarrow> extracted_entity list \<Rightarrow> bool" where
  "should_mark_budget_declined_by_evasion l es \<longleftrightarrow> ld_budget_data_status l = ''ASKED_PENDING'' \<and>
     \<not> list_ex (\<lambda>e. en_entity e \<in> {''estimated_budget'', ''budget_declined''}) es"

fun add_service_requests :: "event_row \<Rightarrow> string option \<Rightarrow> int \<Rightarrow> string list \<Rightarrow> db \<Rightarrow> db" where
  "add_service_requests ev request_id n [] d = d"
| "add_service_requests ev request_id n (code # codes) d =
     (case uuid4 d of (k, d1) \<Rightarrow>
        let row = \<lparr>es_id = k, es_event_id = ev_id ev, es_service_name = code, es_status = ''REQUESTED'',
                   es_position = Some n, es_created_at = db_clock d1\<rparr>;
            d2 = audit_domain_change ''SERVICE_REQUESTED'' ''event_service_request'' None
                   (Some (JObj [(''event_id'', JStr (uuid_str (ev_id ev))), (''service_name'', JStr code), (''position'', JInt n)]))
                   ''Customer requested event service'' request_id (d1\<lparr>db_service_requests := db_service_requests d1 @ [row]\<rparr>)
        in add_service_requests ev request_id (n + 1) codes d2)"

definition apply_requested_services ::
  "ucd \<Rightarrow> letters \<Rightarrow> event_row \<Rightarrow> extracted_entity \<Rightarrow> string option \<Rightarrow> db \<Rightarrow> db" where
  "apply_requested_services u lt ev e request_id d =
     (case checked_entity u lt e request_id None d of
        (Some a, _, d1) \<Rightarrow> (case ac_value a of EV_Services codes \<Rightarrow> add_service_requests ev request_id 0 codes d1 | _ \<Rightarrow> d1)
      | (None, _, d1) \<Rightarrow> d1)"

section \<open>The name\<close>

definition needs_word :: "extracted_entity \<Rightarrow> bool" where
  "needs_word e \<longleftrightarrow> en_needs_confirmation e \<or> en_quality_status e \<in> {''PENDING_CONFIRMATION'', ''INFERRED''}"

definition name_captured :: "string \<Rightarrow> string \<Rightarrow> customer \<Rightarrow> string \<Rightarrow> string option \<Rightarrow> db \<Rightarrow> customer \<times> db" where
  "name_captured action reason cu name request_id d =
     (let cu1 = cu\<lparr>cu_full_name := Some name\<rparr> in
      (cu1, audit_domain_change action ''customer'' (Some (JObj [(''full_name'', opt_json JStr (cu_full_name cu))]))
         (Some (JObj [(''customer_id'', JInt (cu_id cu)), (''full_name'', JStr name)])) reason request_id (put_customer cu1 d)))"

definition name_proposal :: "string \<Rightarrow> conversation \<Rightarrow> json" where
  "name_proposal name c = JObj [(''type'', JStr ''FULL_NAME_CONFIRMATION''), (''version'', JInt 1), (''full_name'', JStr name),
     (''context'', proposal_context c)]"

definition apply_full_name ::
  "ucd \<Rightarrow> letters \<Rightarrow> conversation \<Rightarrow> customer \<Rightarrow> extracted_entity \<Rightarrow> string option \<Rightarrow> db \<Rightarrow> conversation \<times> customer \<times> db" where
  "apply_full_name u lt c cu e request_id d =
     (case checked_entity u lt e request_id (Some c) d of
        (None, co, d1) \<Rightarrow> (the co, cu, d1)
      | (Some a, co, d1) \<Rightarrow>
          (case ac_value a of
             EV_Text name \<Rightarrow>
               let c0 = the co in
               if needs_word e
               then (let c1 = c0\<lparr>cv_pending_confirmation := Some (name_proposal name c0)\<rparr> in (c1, cu, put_conversation c1 d1))
               else (case (if awaits_name c0 then discard_pending c0 ''NAME'' request_id ''NAME_REPLACED'' d1 else (c0, d1)) of
                       (c1, d2) \<Rightarrow>
                         (case name_captured ''CUSTOMER_NAME_CAPTURED'' ''Customer name captured during quote data collection''
                                 cu name request_id d2 of (cu1, d3) \<Rightarrow> (c1, cu1, d3)))
           | _ \<Rightarrow> (the co, cu, d1)))"

definition maybe_apply_name_confirmation ::
  "ucd \<Rightarrow> letters \<Rightarrow> classification_json \<Rightarrow> conversation \<Rightarrow> customer \<Rightarrow> string \<Rightarrow> string option \<Rightarrow> db
   \<Rightarrow> bool \<times> conversation \<times> customer \<times> db" where
  "maybe_apply_name_confirmation u lt cj c cu utterance request_id d =
     (case read_pending cj lt c of
        Named name \<Rightarrow>
          if cv_pending_action c \<noteq> Some ''COLLECT_CUSTOMER_NAME'' \<or> \<not> is_affirmative u utterance then (False, c, cu, d)
          else let c1 = c\<lparr>cv_pending_confirmation := None\<rparr> in
               (case name_captured ''CUSTOMER_NAME_CONFIRMED'' ''Customer confirmed inferred name'' cu name request_id
                       (put_conversation c1 d) of (cu1, d1) \<Rightarrow> (True, c1, cu1, d1))
      | _ \<Rightarrow> (False, c, cu, d))"

section \<open>Writing what a message says\<close>

record capture =
  ct_conversation :: conversation
  ct_customer :: customer
  ct_lead :: lead
  ct_event :: event_row

text \<open>One turn of the loop, on the entity as the check has canonized it.\<close>

definition apply_accepted ::
  "ucd \<Rightarrow> letters \<Rightarrow> string option \<Rightarrow> extracted_entity \<Rightarrow> capture \<times> db \<Rightarrow> capture \<times> db" where
  "apply_accepted u lt request_id e = (\<lambda>(k, d).
     let name = en_entity e; ev = ct_event k; on_event = (\<lambda>(ev1, d1). (k\<lparr>ct_event := ev1\<rparr>, d1));
         on_lead = (\<lambda>(l1, d1). (k\<lparr>ct_lead := l1\<rparr>, d1)) in
     if name = ''full_name''
     then (case apply_full_name u lt (ct_conversation k) (ct_customer k) e request_id d of
             (c1, cu1, d1) \<Rightarrow> (k\<lparr>ct_conversation := c1, ct_customer := cu1\<rparr>, d1))
     else if name = ''event_type'' then on_event (apply_event_type u lt ev e request_id d)
     else if name = ''guest_count'' then on_event (apply_guest_count u lt ev e request_id d)
     else if name = ''guest_count_range'' then on_event (apply_guest_count_range u lt ev e request_id d)
     else if name = ''event_date'' then on_event (apply_event_date u lt ev e request_id d)
     else if name = ''estimated_budget'' then on_lead (apply_budget u lt (ct_lead k) e request_id d)
     else if name = ''budget_declined'' \<and> en_normalized_value e = VBool True
     then on_lead (apply_budget_declined (ct_lead k) request_id d)
     else if name = ''requested_services'' then (k, apply_requested_services u lt ev e request_id d)
     else if name = ''special_requests'' then on_event (apply_special_requests u lt ev e request_id d)
     else (k, d))"

definition apply_extracted_entity ::
  "ucd \<Rightarrow> letters \<Rightarrow> string option \<Rightarrow> extracted_entity \<Rightarrow> capture \<times> db \<Rightarrow> capture \<times> db" where
  "apply_extracted_entity u lt request_id proposed = (\<lambda>(k, d).
     case checked_entity u lt proposed request_id (Some (ct_conversation k)) d of
       (None, co, d1) \<Rightarrow> (k\<lparr>ct_conversation := the co\<rparr>, d1)
     | (Some a, co, d1) \<Rightarrow> apply_accepted u lt request_id (canonical a) (k\<lparr>ct_conversation := the co\<rparr>, d1))"

definition apply_extracted_entities ::
  "ucd \<Rightarrow> letters \<Rightarrow> string option \<Rightarrow> extracted_entity list \<Rightarrow> capture \<times> db \<Rightarrow> capture \<times> db" where
  "apply_extracted_entities u lt request_id = fold (apply_extracted_entity u lt request_id)"

section \<open>How far the capture is\<close>

definition services_requested :: "event_row \<Rightarrow> db \<Rightarrow> bool" where
  "services_requested ev d \<longleftrightarrow> list_ex (\<lambda>r. es_event_id r = ev_id ev \<and> es_status r = ''REQUESTED'') (db_service_requests d)"

definition capture_progress_of :: "classification_json \<Rightarrow> letters \<Rightarrow> capture \<Rightarrow> db \<Rightarrow> capture_progress" where
  "capture_progress_of cj lt k d =
     (let ev = ct_event k in
      \<lparr>cg_event_type = ev_event_type ev, cg_guest_count = ev_guest_count ev, cg_guest_count_min = ev_guest_count_min ev,
       cg_guest_count_max = ev_guest_count_max ev, cg_date_resolved = date_resolved_event ev,
       cg_full_name = cu_full_name (ct_customer k),
       cg_full_name_needs_confirmation = (case read_pending cj lt (ct_conversation k) of Named _ \<Rightarrow> True | _ \<Rightarrow> False),
       cg_budget_data_status = ld_budget_data_status (ct_lead k), cg_services_requested = services_requested ev d,
       cg_pending_fields = cv_pending_fields (ct_conversation k)\<rparr>)"

section \<open>Quote requests\<close>

definition get_or_create_quote_request :: "lead \<Rightarrow> event_row \<Rightarrow> db \<Rightarrow> quote_request \<times> db" where
  "get_or_create_quote_request l ev d =
     (case find (\<lambda>q. qr_lead_id q = ld_id l \<and> qr_event_id q = ev_id ev) (db_quote_requests d) of
        Some q \<Rightarrow> (q, d)
      | None \<Rightarrow>
          (case uuid4 d of (k, d1) \<Rightarrow>
             let q = \<lparr>qr_id = k, qr_lead_id = ld_id l, qr_event_id = ev_id ev, qr_request_status = ''DRAFT'',
                      qr_minimum_data_complete = False, qr_missing_fields = [], qr_date_pending = date_pending ev,
                      qr_summary_snapshot = JObj [], qr_requested_at = None, qr_due_at = None\<rparr>
             in (q, d1\<lparr>db_quote_requests := db_quote_requests d1 @ [q]\<rparr>)))"

definition summary_snapshot :: "customer \<Rightarrow> lead \<Rightarrow> event_row \<Rightarrow> json" where
  "summary_snapshot cu l ev = JObj
     [(''full_name'', opt_json JStr (cu_full_name cu)), (''phone_number'', JStr (cu_phone_number cu)),
      (''event_type'', opt_json JStr (ev_event_type ev)), (''event_date'', opt_json (\<lambda>d. JStr (date_iso d)) (ev_event_date ev)),
      (''event_month'', opt_json JStr (ev_event_month ev)), (''event_date_type'', opt_json JStr (ev_event_date_type ev)),
      (''event_date_raw'', opt_json JStr (ev_event_date_raw ev)), (''date_pending'', JBool (date_pending ev)),
      (''guest_count'', opt_json JInt (ev_guest_count ev)), (''guest_count_min'', opt_json JInt (ev_guest_count_min ev)),
      (''guest_count_max'', opt_json JInt (ev_guest_count_max ev)), (''budget_data_status'', JStr (ld_budget_data_status l)),
      (''estimated_budget'', budget_json (ld_estimated_budget l))]"

definition quote_summary_response_code :: "event_row \<Rightarrow> string" where
  "quote_summary_response_code ev =
     (if date_pending ev then ''RESP-QUOTE-008''
      else if ev_event_month ev \<noteq> None \<and> ev_event_date ev = None then ''RESP-QUOTE-005'' else ''RESP-QUOTE-002'')"

definition guest_count_text :: "event_row \<Rightarrow> string" where
  "guest_count_text ev =
     (case ev_guest_count ev of
        Some n \<Rightarrow> show_int n
      | None \<Rightarrow> (case (ev_guest_count_min ev, ev_guest_count_max ev) of
                   (Some low, Some high) \<Rightarrow> ''entre '' @ show_int low @ '' y '' @ show_int high
                 | _ \<Rightarrow> ''por definir''))"

definition service_before :: "service_request \<Rightarrow> service_request \<Rightarrow> bool" where
  "service_before a b \<longleftrightarrow>
     (case (es_position a, es_position b) of
        (Some m, Some n) \<Rightarrow> m < n \<or> (m = n \<and> (es_created_at a < es_created_at b \<or>
          (es_created_at a = es_created_at b \<and> es_id a < es_id b)))
      | (Some _, None) \<Rightarrow> True
      | (None, Some _) \<Rightarrow> False
      | (None, None) \<Rightarrow> es_created_at a < es_created_at b \<or> (es_created_at a = es_created_at b \<and> es_id a < es_id b))"

definition requested_services_summary :: "event_row \<Rightarrow> db \<Rightarrow> (app_error, string list) result" where
  "requested_services_summary ev d =
     (let services = map es_service_name (order_by service_before
            (filter (\<lambda>r. es_event_id r = ev_id ev \<and> es_status r = ''REQUESTED'') (db_service_requests d)))
      in if services = [] then Inl (ValueError ''Missing requested services for quote summary'') else Inr services)"

definition event_day_text :: "ucd \<Rightarrow> event_row \<Rightarrow> (app_error, string) result" where
  "event_day_text u ev =
     (case (ev_event_date ev, ev_event_month ev) of
        (Some d, _) \<Rightarrow> Inr (format_date_natural d)
      | (None, Some m) \<Rightarrow> Inr (format_month_natural u m)
      | (None, None) \<Rightarrow> Inl (OtherError ''AttributeError''))"

definition quote_summary_variables :: "ucd \<Rightarrow> event_row \<Rightarrow> db \<Rightarrow> (app_error, (string \<times> tval) list) result" where
  "quote_summary_variables u ev d =
     (if date_pending ev then
        ebind (format_event_type (ev_event_type ev)) (\<lambda>t.
          Inr [(''event_type'', TText t), (''guest_count'', TText (guest_count_text ev))])
      else if ev_event_month ev \<noteq> None \<and> ev_event_date ev = None
      then Inr [(''event_month'', TText (format_month_natural u (the (ev_event_month ev))))]
      else
        ebind (format_event_type (ev_event_type ev)) (\<lambda>t.
        ebind (event_day_text u ev) (\<lambda>day.
        ebind (requested_services_summary ev d) (\<lambda>services.
          Inr [(''event_type'', TText t), (''guest_count'', TText (guest_count_text ev)), (''event_date'', TText day),
               (''requested_services_summary'', TTexts services)]))))"

section \<open>Entities before they are written\<close>

text \<open>\<open>normalize_event_type(normalized_value or raw_value)\<close>: a true value that is no text has no \<open>strip\<close>.\<close>

fun falsy :: "evalue \<Rightarrow> bool" where
  "falsy VNull = True"
| "falsy (VBool b) = (\<not> b)"
| "falsy (VInt n) = (n = 0)"
| "falsy (VFloat x) = (case x of None \<Rightarrow> False | Some (n, _) \<Rightarrow> n = 0)"
| "falsy (VText s) = (s = [])"
| "falsy (VList vs) = (vs = [])"
| "falsy (VDict kvs) = (kvs = [])"

definition normalized_type_of :: "ucd \<Rightarrow> extracted_entity \<Rightarrow> (app_error, string option) result" where
  "normalized_type_of u e =
     (if falsy (en_normalized_value e) then Inr (normalize_event_type u (Some (en_raw_value e)))
      else (case en_normalized_value e of
              VText s \<Rightarrow> Inr (normalize_event_type u (Some s)) | _ \<Rightarrow> Inl (OtherError ''AttributeError'')))"

fun any_event_type :: "ucd \<Rightarrow> (extracted_entity \<Rightarrow> bool) \<Rightarrow> extracted_entity list \<Rightarrow> (app_error, bool) result" where
  "any_event_type u f [] = Inr False"
| "any_event_type u f (e # es) =
     (if en_entity e \<noteq> ''event_type'' \<or> \<not> f e then any_event_type u f es
      else ebind (normalized_type_of u e) (\<lambda>t. if t \<noteq> None then Inr True else any_event_type u f es))"

fun normalize_event_type_entities ::
  "ucd \<Rightarrow> string option \<Rightarrow> extracted_entity list \<Rightarrow> db \<Rightarrow> extracted_entity list \<times> db" where
  "normalize_event_type_entities u request_id [] d = ([], d)"
| "normalize_event_type_entities u request_id (e # es) d =
     (let keep = (\<lambda>x d1. case normalize_event_type_entities u request_id es d1 of (xs, d2) \<Rightarrow> (x # xs, d2)) in
      if en_entity e \<noteq> ''event_type'' then keep e d
      else (case (case en_normalized_value e of VNull \<Rightarrow> VText (en_raw_value e) | v \<Rightarrow> v) of
              VText s \<Rightarrow>
                if CHR 0x00 \<in> set s \<or> CHR 0x00 \<in> set (en_raw_value e) then keep e d
                else (case normalize_event_type u (Some s) of
                        None \<Rightarrow> normalize_event_type_entities u request_id es (audit_discarded_event_type e request_id d)
                      | Some t \<Rightarrow> keep (e\<lparr>en_normalized_value := VText t\<rparr>) d)
            | _ \<Rightarrow> keep e d))"

definition normalized_legacy :: "ucd \<Rightarrow> (string \<times> evalue) list \<Rightarrow> (string \<times> evalue) list" where
  "normalized_legacy u kvs =
     (case map_of kvs ''event_type'' of
        Some (VText s) \<Rightarrow>
          (case normalize_event_type u (Some s) of
             None \<Rightarrow> AList.delete ''event_type'' kvs | Some t \<Rightarrow> AList.update ''event_type'' (VText t) kvs)
      | _ \<Rightarrow> kvs)"

definition normalize_classification_event_type_entities ::
  "ucd \<Rightarrow> classification \<Rightarrow> string option \<Rightarrow> db \<Rightarrow> classification \<times> db" where
  "normalize_classification_event_type_entities u cl request_id d =
     (case normalize_event_type_entities u request_id (normalized_entities cl) d of (es, d1) \<Rightarrow>
        (cl\<lparr>cl_entities := normalized_legacy u (cl_entities cl), cl_extracted_entities := es\<rparr>, d1))"

text \<open>An entity that the program itself provides.\<close>

definition provided :: "string \<Rightarrow> string \<Rightarrow> evalue \<Rightarrow> extracted_entity" where
  "provided name raw v = \<lparr>en_entity = name, en_raw_value = raw, en_normalized_value = v, en_quality_status = ''PROVIDED'',
     en_confidence = dec_int 1, en_needs_confirmation = False, en_validation_errors = []\<rparr>"

definition with_directed_event_type :: "ucd \<Rightarrow> classification \<Rightarrow> string option \<Rightarrow> (app_error, classification) result" where
  "with_directed_event_type u cl directed =
     (case directed of
        None \<Rightarrow> Inr cl
      | Some t \<Rightarrow>
          ebind (any_event_type u (\<lambda>_. True) (normalized_entities cl)) (\<lambda>found.
            Inr (if found then cl
                 else cl\<lparr>cl_extracted_entities := cl_extracted_entities cl @ [provided ''event_type'' t (VText t)]\<rparr>)))"

definition contextual_requested_service_entities ::
  "ucd \<Rightarrow> conversation \<Rightarrow> string \<Rightarrow> extracted_entity list \<Rightarrow> extracted_entity list" where
  "contextual_requested_service_entities u c utterance es =
     (if cv_pending_action c \<noteq> Some ''COLLECT_SERVICES'' \<or> list_ex (\<lambda>e. en_entity e = ''requested_services'') es then es
      else (case match_requested_services u utterance of
              None \<Rightarrow> es
            | Some codes \<Rightarrow> es @ [provided ''requested_services'' utterance (VList (map VText codes))]))"

definition resolve_contextual_confirmation_classification ::
  "ucd \<Rightarrow> conversation \<Rightarrow> string \<Rightarrow> classification \<Rightarrow> classification" where
  "resolve_contextual_confirmation_classification u c utterance fallback =
     (case resolve_contextual_confirmation u utterance (cv_pending_action c) (cv_last_question_code c) of
        None \<Rightarrow> fallback
      | Some r \<Rightarrow>
          let intent = (case r of CONFIRM \<Rightarrow> ''CONFIRM'' | DENY \<Rightarrow> ''DENY'') in
          (bare_classification intent (dec_int 1) ''RESOLVE_CONTEXTUAL_CONFIRMATION'' (''DETERMINISTIC_'' @ intent))
            \<lparr>cl_context_reference := [(''pending_action'', opt_text (cv_pending_action c)),
               (''last_question_code'', opt_text (cv_last_question_code c))]\<rparr>)"

text \<open>\<open>add_business_days_bogota\<close>: the same clock time so many weekdays later.\<close>

fun add_business_days_bogota :: "instant \<Rightarrow> nat \<Rightarrow> instant" where
  "add_business_days_bogota t 0 = t"
| "add_business_days_bogota t (Suc n) =
     (let w = weekday (bogota_date t); step = (if w = 4 then 3 else if w = 5 then 2 else 1)
      in add_business_days_bogota (t + days step) n)"

end
