(* ===== verification/Turns.thy ===== *)
theory Turns
  imports Capture Handoff_Service Payment_Evidence
begin

text \<open>
  A turn of the dialogue: the \<open>OrchestrationInput\<close> of \<open>orchestrator/service.py\<close>, the rows it works on, and the operations that
  every flow shares: queueing an answer, moving the conversation, handing it to a person.
\<close>

section \<open>Turns\<close>

datatype decision_source = DETERMINISTIC | LLM | FALLBACK
datatype message_origin = TEXT_INPUT | AUDIO_INPUT

record turn =
  tn_conversation :: conversation
  tn_customer :: customer
  tn_message :: message
  tn_text :: string
  tn_request_id :: "string option"
  tn_decision_source :: decision_source
  tn_directed_event_type :: "string option"
  tn_services_resolution_failed :: bool
  tn_confidence_entity_rescued :: bool
  tn_input_origin :: message_origin
  tn_transcription_id :: "int option"

text \<open>What \<open>BookingAgendaService\<close> answers: the availability, or a failure with its reason and the class of its error.\<close>

datatype availability_answer = AgendaAnswer booking_availability | AgendaFailure string "string option"

text \<open>
  What a turn does not change: the formatting of texts, the letters, the JSON of classifications, the settings, the
  request of the logging context, and the calendar as this turn may read it. A turn inside the inbox transaction
  does not call the calendar: the first such read raises \<open>DeferredAgendaCall\<close>, an error as any other, so that the turn is rolled
  back and played again with the answer.
\<close>

record flow_env =
  fe_texts :: text_env
  fe_letters :: letters
  fe_json :: classification_json
  fe_settings :: settings
  fe_context_request :: "string option"
  fe_agenda :: "uuid \<Rightarrow> datetime \<Rightarrow> int \<Rightarrow> (app_error, availability_answer) result"

abbreviation fe_ucd :: "flow_env \<Rightarrow> ucd" where
  "fe_ucd fe \<equiv> te_ucd (fe_texts fe)"

type_synonym stage = "turn \<times> db"
type_synonym flow = "(app_error, stage) result"

definition on_conversation :: "(conversation \<Rightarrow> conversation) \<Rightarrow> stage \<Rightarrow> stage" where
  "on_conversation f = (\<lambda>(t, d). let c = f (tn_conversation t) in (t\<lparr>tn_conversation := c\<rparr>, put_conversation c d))"

definition on_db :: "(db \<Rightarrow> db) \<Rightarrow> stage \<Rightarrow> stage" where
  "on_db f = (\<lambda>(t, d). (t, f d))"

text \<open>\<open>set_pending_action\<close> of \<open>orchestrator/service.py\<close>, for the actions of the list.\<close>

definition set_action :: "string option \<Rightarrow> conversation \<Rightarrow> conversation" where
  "set_action a c = c\<lparr>cv_pending_action := a, cv_services_failed_understanding_count :=
     (if a = Some ''COLLECT_SERVICES'' then Some 0 else cv_services_failed_understanding_count c)\<rparr>"

definition set_dialogue_action :: "string option \<Rightarrow> conversation \<Rightarrow> (app_error, conversation) result" where
  "set_dialogue_action a c = ebind (validate_pending_action a) (\<lambda>v. Inr (set_action v c))"

definition move_to :: "conversation_state \<Rightarrow> string \<Rightarrow> stage \<Rightarrow> flow" where
  "move_to s reason = (\<lambda>(t, d).
     ebind (transition_conversation (tn_conversation t) s ''SYSTEM'' (Some reason) None d) (\<lambda>(c, d1).
       Inr (t\<lparr>tn_conversation := c\<rparr>, d1)))"

section \<open>Answers\<close>

definition logged_request :: "flow_env \<Rightarrow> string option \<Rightarrow> string option" where
  "logged_request fe request_id = (if text_given request_id then request_id else fe_context_request fe)"

definition queue_reply ::
  "flow_env \<Rightarrow> bool \<Rightarrow> notice \<Rightarrow> string \<Rightarrow> (string \<times> tval) list \<Rightarrow> string option \<Rightarrow> stage \<Rightarrow> (app_error \<times> db, stage) result" where
  "queue_reply fe strict nc code vars request_id = (\<lambda>(t, d).
     case enqueue_template (fe_texts fe) strict nc code vars (tn_conversation t) (tn_customer t) (tn_message t)
            (logged_request fe request_id) d of
       Inl e \<Rightarrow> Inl e
     | Inr (c, d1) \<Rightarrow> Inr (t\<lparr>tn_conversation := c\<rparr>, d1))"

text \<open>A turn that nothing catches the error of.\<close>

definition say :: "flow_env \<Rightarrow> bool \<Rightarrow> string \<Rightarrow> (string \<times> tval) list \<Rightarrow> string option \<Rightarrow> stage \<Rightarrow> flow" where
  "say fe strict code vars request_id s =
     (case queue_reply fe strict no_notice code vars request_id s of Inl (e, _) \<Rightarrow> Inl e | Inr s1 \<Rightarrow> Inr s1)"

text \<open>\<open>try: ... except KnowledgeRenderError: ...\<close>\<close>

definition or_unavailable ::
  "(app_error \<times> db, stage) result \<Rightarrow> turn \<Rightarrow> (stage \<Rightarrow> flow) \<Rightarrow> flow" where
  "or_unavailable r t f =
     (case r of
        Inr s \<Rightarrow> Inr s
      | Inl (KnowledgeRenderError _, d) \<Rightarrow> f (t, d)
      | Inl (e, _) \<Rightarrow> Inl e)"

section \<open>A person takes over\<close>

record transfer =
  tr_intent :: string
  tr_reason :: string
  tr_priority :: handoff_priority
  tr_detail :: "string option"
  tr_response :: "string option"
  tr_variables :: "(string \<times> tval) list"

definition transfer_for :: "string \<Rightarrow> string \<Rightarrow> handoff_priority \<Rightarrow> string option \<Rightarrow> transfer" where
  "transfer_for intent reason priority detail = \<lparr>tr_intent = intent, tr_reason = reason, tr_priority = priority,
     tr_detail = detail, tr_response = None, tr_variables = []\<rparr>"

definition open_case :: "flow_env \<Rightarrow> transfer \<Rightarrow> stage \<Rightarrow> (app_error, handoff \<times> string \<times> stage) result" where
  "open_case fe tr = (\<lambda>(t, d).
     let c = tn_conversation t;
         c1 = c\<lparr>cv_visit_draft := None, cv_booking_draft := (if tr_reason tr \<noteq> ''SYSTEM_ERROR'' then None else cv_booking_draft c)\<rparr>
     in ebind (create_handoff c1 (tn_customer t) (tr_reason tr) (tr_priority tr) (tn_request_id t) (fe_settings fe)
                 (tr_detail tr) 5 (put_conversation c1 d)) (\<lambda>(h, code, c2, d2).
        ebind (if tr_reason tr = ''PAYMENT_REVIEW''
               then ebind (create_payment_evidence c2 (tn_customer t) (tn_message t) h (tn_request_id t) (fe_settings fe) d2)
                      (\<lambda>(_, d3). Inr d3)
               else Inr d2) (\<lambda>d3.
          Inr (h, code, t\<lparr>tn_conversation := c2\<rparr>, d3))))"

definition paused_for_human :: "string \<Rightarrow> conversation \<Rightarrow> conversation" where
  "paused_for_human intent c = c\<lparr>cv_last_intent := Some intent, cv_pending_action := Some ''WAIT_FOR_HUMAN'',
     cv_services_failed_understanding_count := Some 0, cv_pending_confirmation := None\<rparr>"

definition create_handoff_and_pause :: "flow_env \<Rightarrow> transfer \<Rightarrow> stage \<Rightarrow> flow" where
  "create_handoff_and_pause fe tr s =
     ebind (open_case fe tr s) (\<lambda>(h, code, s1).
     ebind (or_unavailable
              (queue_reply fe (tr_response tr = Some ''RESP-BOOKING-AGENDA-ERROR-001'') (case_notice h)
                 (if text_given (tr_response tr) then the (tr_response tr) else code) (tr_variables tr) (tn_request_id (fst s1)) s1)
              (fst s1)
              (\<lambda>s2. case queue_reply fe False (case_notice h) code [] (tn_request_id (fst s2)) s2 of
                       Inl (e, _) \<Rightarrow> Inl e | Inr s3 \<Rightarrow> Inr s3)) (\<lambda>s4.
       Inr (on_conversation (paused_for_human (tr_intent tr)) s4)))"

section \<open>The calendar\<close>

definition booking_availability_call ::
  "ucd \<Rightarrow> settings \<Rightarrow> list_events \<Rightarrow> db \<Rightarrow> uuid \<Rightarrow> datetime \<Rightarrow> int \<Rightarrow> (app_error, availability_answer) result" where
  "booking_availability_call u st list_events d plan_id starts_at duration_minutes =
     (case get_row pl_id plan_id (db_plans d) of
        None \<Rightarrow> Inr (AgendaFailure ''PLAN_INACTIVE'' None)
      | Some p \<Rightarrow>
          if \<not> pl_active p then Inr (AgendaFailure ''PLAN_INACTIVE'' None)
          else if pl_duration_minutes p \<noteq> duration_minutes then Inr (AgendaFailure ''PLAN_MISMATCH'' None)
          else ebind (booking_ends_at p starts_at) (\<lambda>ends_at.
               ebind (aware_instant starts_at) (\<lambda>s. ebind (aware_instant ends_at) (\<lambda>e.
                 (case fetch_booking_context u True p s e list_events st None d of
                    Inr b \<Rightarrow> Inr (AgendaAnswer b)
                  | Inl CalendarUnavailableError \<Rightarrow>
                      Inr (AgendaFailure ''CALENDAR_UNAVAILABLE'' (Some ''CalendarUnavailableError''))
                  | Inl err \<Rightarrow> Inl err)))))"

end
