(* ===== verification/Booking_Flow.thy ===== *)
theory Booking_Flow
  imports Turns
begin

text \<open>
  The self-service booking of a fixed-price plan, \<open>orchestrator/booking_flow.py\<close>. The slots are kept in the conversation's draft, a
  JSON object; the flow asks for the plan, the day and the time, reads the calendar, asks for the name and for a yes, and
  ends in a request that waits for a payment. It reserves nothing.
\<close>

section \<open>Drafts\<close>

text \<open>\<open>dict(conversation.booking_draft or {})\<close>: only objects are written to that column.\<close>

definition draft_of :: "conversation \<Rightarrow> json" where
  "draft_of c = (case cv_booking_draft c of Some (JObj kvs) \<Rightarrow> JObj kvs | _ \<Rightarrow> JObj [])"

definition jdrop :: "string \<Rightarrow> json \<Rightarrow> json" where
  "jdrop k j = (case j of JObj kvs \<Rightarrow> JObj (AList.delete k kvs) | _ \<Rightarrow> j)"

definition keep_draft :: "json \<Rightarrow> conversation \<Rightarrow> conversation" where
  "keep_draft draft c = c\<lparr>cv_booking_draft := Some draft\<rparr>"

definition await :: "string \<Rightarrow> conversation \<Rightarrow> conversation" where
  "await action c = c\<lparr>cv_pending_action := Some action\<rparr>"

definition misunderstood :: "conversation \<Rightarrow> conversation" where
  "misunderstood c = c\<lparr>cv_failed_understanding_count := cv_failed_understanding_count c + 1\<rparr>"

definition understood :: "conversation \<Rightarrow> conversation" where
  "understood c = c\<lparr>cv_failed_understanding_count := 0\<rparr>"

definition draft_text :: "string \<Rightarrow> json \<Rightarrow> (app_error, string) result" where
  "draft_text k draft = (case jget k draft of JStr s \<Rightarrow> Inr s
     | _ \<Rightarrow> Inl (OtherError (if jhas k draft then ''TypeError'' else ''KeyError'')))"

definition draft_date :: "json \<Rightarrow> (app_error, date) result" where
  "draft_date draft = ebind (draft_text ''date'' draft) (\<lambda>s.
     case date_fromisoformat s of None \<Rightarrow> Inl (ValueError s) | Some day \<Rightarrow> Inr day)"

text \<open>The interval's start, \<open>datetime.combine(date, time, tzinfo=BOGOTA)\<close>.\<close>

definition draft_start :: "json \<Rightarrow> (app_error, instant) result" where
  "draft_start draft = ebind (draft_date draft) (\<lambda>day. ebind (draft_text ''time'' draft) (\<lambda>s.
     ebind (fromisoformat_time s) (\<lambda>tm. Inr (bogota_instant day tm))))"

definition bogota_aware :: "instant \<Rightarrow> datetime" where
  "bogota_aware i = Aware i bogota_offset"

text \<open>\<open>isoformat()\<close> of an aware time of Bogota.\<close>

definition bogota_iso :: "datetime \<Rightarrow> string" where
  "bogota_iso t =
     (let i = (case t of Aware x _ \<Rightarrow> x | Naive x \<Rightarrow> x); s = bogota_time i; us = s mod us_second in
      date_iso (bogota_date i) @ ''T'' @ pad 2 (show_int (s div us_hour)) @ '':'' @ pad 2 (show_int (s mod us_hour div us_minute))
        @ '':'' @ pad 2 (show_int (s mod us_minute div us_second)) @ (if us = 0 then [] else ''.'' @ pad 6 (show_int us)) @ ''-05:00'')"

definition today_of :: "stage \<Rightarrow> date" where
  "today_of s = bogota_date (db_clock (snd s))"

section \<open>Handing over\<close>

definition booking_handoff ::
  "flow_env \<Rightarrow> string \<Rightarrow> string \<Rightarrow> string option \<Rightarrow> (string \<times> tval) list \<Rightarrow> stage \<Rightarrow> flow" where
  "booking_handoff fe detail reason response vars s =
     create_handoff_and_pause fe
       ((transfer_for ''HUMAN_REQUEST'' reason HO_NORMAL (Some detail))\<lparr>tr_response := response, tr_variables := vars\<rparr>)
       (if reason \<noteq> ''SYSTEM_ERROR'' then on_conversation (\<lambda>c. c\<lparr>cv_booking_draft := None\<rparr>) s else s)"

definition to_reservations :: "flow_env \<Rightarrow> string \<Rightarrow> stage \<Rightarrow> flow" where
  "to_reservations fe detail s = booking_handoff fe detail ''RESERVATION_CONFIRMATION'' None [] s"

definition pending_exists :: "flow_env \<Rightarrow> stage \<Rightarrow> flow" where
  "pending_exists fe s =
     booking_handoff fe ''Ya existe una solicitud pendiente de pago'' ''RESERVATION_CONFIRMATION''
       (Some ''RESP-BOOKING-PENDING-001'') [] s"

definition availability_failed :: "flow_env \<Rightarrow> plan \<Rightarrow> instant \<Rightarrow> string \<Rightarrow> string option \<Rightarrow> stage \<Rightarrow> flow" where
  "availability_failed fe p start reason error_class s =
     (let rid = tn_request_id (fst s);
          s1 = on_db (audit_domain_change ''BOOKING_AVAILABILITY_FAILED'' ''conversation'' None
                 (Some (JObj [(''plan_code'', JStr (pl_code p)), (''starts_at'', JStr (bogota_iso (bogota_aware start))),
                    (''duration_minutes'', JInt (pl_duration_minutes p)), (''error_class'', opt_json JStr error_class),
                    (''request_id'', opt_json JStr rid)])) reason rid) s
      in booking_handoff fe ''No se pudo consultar la disponibilidad'' ''SYSTEM_ERROR'' (Some ''RESP-BOOKING-AGENDA-ERROR-001'')
           [(''plan_name'', TPlan p), (''date'', TDate (bogota_date start)), (''time'', TText (hhmm (bogota_time start)))] s1)"

definition send_booking :: "flow_env \<Rightarrow> string \<Rightarrow> (string \<times> tval) list \<Rightarrow> stage \<Rightarrow> flow" where
  "send_booking fe name vars s =
     or_unavailable
       (queue_reply fe True no_notice (''RESP-BOOKING-'' @ name @ ''-001'') vars (tn_request_id (fst s)) s) (fst s)
       (booking_handoff fe ''plantilla de reserva no aprobada o incompleta'' ''TEMPLATE_UNAVAILABLE'' None [])"

section \<open>Questions\<close>

definition active_plans :: "db \<Rightarrow> plan list" where
  "active_plans d = order_by plan_before (filter pl_active (db_plans d))"

definition turn_event :: "stage \<Rightarrow> event_row option" where
  "turn_event = (\<lambda>(t, d). active_event (active_lead (tn_conversation t) d) d)"

definition plans_for_turn :: "stage \<Rightarrow> plan list" where
  "plans_for_turn s =
     (case turn_event s of
        None \<Rightarrow> []
      | Some e \<Rightarrow> filter (\<lambda>p. Some (pl_event_type p) = ev_event_type e) (active_plans (snd s)))"

definition ask_plan :: "flow_env \<Rightarrow> stage \<Rightarrow> flow" where
  "ask_plan fe s =
     (let plans = plans_for_turn s in
      if plans = [] then to_reservations fe ''No hay planes activos para esta experiencia'' s
      else send_booking fe ''PLAN'' [(''plan_options'', TPlans plans)] (on_conversation (await ''SELECT_BOOKING_PLAN'') s))"

definition ask_booking_datetime :: "flow_env \<Rightarrow> string \<Rightarrow> stage \<Rightarrow> flow" where
  "ask_booking_datetime fe response_kind s =
     send_booking fe response_kind []
       (on_conversation (\<lambda>c. await ''SELECT_BOOKING_DATETIME''
          (keep_draft (jdrop ''date_confirmation'' (jdrop ''time'' (jdrop ''date'' (draft_of c)))) c)) s)"

definition unavailable :: "flow_env \<Rightarrow> stage \<Rightarrow> flow" where
  "unavailable fe s = ask_booking_datetime fe ''UNAVAILABLE'' s"

definition ask_booking_time :: "flow_env \<Rightarrow> stage \<Rightarrow> flow" where
  "ask_booking_time fe s =
     send_booking fe ''TIME'' []
       (on_conversation (\<lambda>c. understood (await ''SELECT_BOOKING_TIME'' (keep_draft (jdrop ''time'' (draft_of c)) c))) s)"

definition refuse_window :: "flow_env \<Rightarrow> window_reason \<Rightarrow> stage \<Rightarrow> flow" where
  "refuse_window fe reason s =
     (if reason \<in> {OUTSIDE_HOURS, CROSSES_MIDNIGHT} then ask_booking_time fe s else ask_booking_datetime fe ''DATETIME'' s)"

section \<open>Reading a day and a time\<close>

definition consume_date_time ::
  "ucd \<Rightarrow> settings \<Rightarrow> json \<Rightarrow> string \<Rightarrow> date \<Rightarrow> bool \<Rightarrow> (app_error, bool \<times> json) result" where
  "consume_date_time u st draft txt today only_time_expected =
     (let date_message = utf8_encode (re_sub u (in_the_morning_rx (literal_ci u)) [] (cps txt)) in
      ebind (resolve_visit_date_text u date_message today True) (\<lambda>decision.
      ebind (resolve_booking_clock u txt only_time_expected (st_booking_hours_start st) (st_booking_latest_start st)) (\<lambda>clock.
        let draft1 = (case vd_resolved_date decision of
                        None \<Rightarrow> draft
                      | Some day \<Rightarrow> jset ''date_confirmation'' (JBool (vd_needs_confirmation decision))
                                      (jset ''date'' (JStr (date_iso day)) draft));
            draft2 = (case clock of None \<Rightarrow> draft1 | Some tm \<Rightarrow> jset ''time'' (JStr (hhmm tm)) draft1)
        in Inr (vd_resolved_date decision \<noteq> None \<or> clock \<noteq> None, draft2))))"

definition has_pending_request :: "int \<Rightarrow> db \<Rightarrow> bool" where
  "has_pending_request customer_id d \<longleftrightarrow>
     list_ex (\<lambda>r. rv_customer_id r = customer_id \<and> rv_status r \<in> {RV_PAYMENT_PENDING, RV_PAYMENT_REVIEW}) (db_reservations d)"

definition turn_pending :: "stage \<Rightarrow> bool" where
  "turn_pending s \<longleftrightarrow> has_pending_request (cu_id (tn_customer (fst s))) (snd s)"

section \<open>The slots\<close>

definition confirm_date :: "flow_env \<Rightarrow> json \<Rightarrow> stage \<Rightarrow> flow" where
  "confirm_date fe draft s =
     (let s1 = on_conversation (await ''SELECT_BOOKING_DATETIME'') s in
      ebind (draft_date draft) (\<lambda>day.
        or_unavailable
          (queue_reply fe True no_notice ''RESP-EVENT-DATA-003'' [(''resolved_date'', TDate day)] (tn_request_id (fst s1)) s1)
          (fst s1) (to_reservations fe (''Confirmaci'' @ o_acute @ ''n de fecha no disponible''))))"

definition audit_checkout :: "plan \<Rightarrow> instant \<Rightarrow> string \<Rightarrow> stage \<Rightarrow> stage" where
  "audit_checkout p start checkout s =
     on_db (audit_domain_change ''BOOKING_CHECKOUT_CALCULATED'' ''conversation'' None
       (Some (JObj [(''plan_code'', JStr (pl_code p)), (''starts_at'', JStr (bogota_iso (bogota_aware start))),
          (''checkout'', JStr checkout)])) ''Overnight interval calculated by backend'' (tn_request_id (fst s))) s"

definition with_checkout :: "plan \<Rightarrow> instant \<Rightarrow> datetime \<Rightarrow> json \<Rightarrow> stage \<Rightarrow> json \<times> stage" where
  "with_checkout p start ends_at draft s =
     (if pl_overnight p
      then (jset ''checkout'' (JStr (bogota_iso ends_at)) draft, audit_checkout p start (bogota_iso ends_at) s)
      else (jdrop ''checkout'' draft, s))"

definition audit_inquiry :: "plan \<Rightarrow> instant \<Rightarrow> booking_availability \<Rightarrow> stage \<Rightarrow> stage" where
  "audit_inquiry p start b s =
     on_db (audit_domain_change ''AVAILABILITY_INQUIRY_ANSWERED'' ''conversation'' None
       (Some (JObj [(''plan_code'', JStr (pl_code p)), (''starts_at'', JStr (bogota_iso (bogota_aware start))),
          (''available'', JBool (ba_available b)), (''blockers_count'', JInt (int (length (ba_blockers b))))]))
       ''Backend availability inquiry evaluated'' (tn_request_id (fst s))) s"

definition audit_conversion :: "plan \<Rightarrow> instant \<Rightarrow> stage \<Rightarrow> stage" where
  "audit_conversion p start s =
     on_db (audit_domain_change ''AVAILABILITY_INQUIRY_CONVERTED'' ''conversation'' None
       (Some (JObj [(''plan_code'', JStr (pl_code p)), (''starts_at'', JStr (bogota_iso (bogota_aware start)))]))
       ''Customer requested booking after an availability inquiry'' (tn_request_id (fst s))) s"

definition offer_booking :: "flow_env \<Rightarrow> plan \<Rightarrow> instant \<Rightarrow> json \<Rightarrow> stage \<Rightarrow> flow" where
  "offer_booking fe p start draft s =
     (let s1 = on_conversation (await ''CONFIRM_AVAILABILITY_BOOKING'') s in
      ebind (draft_text ''time'' draft) (\<lambda>time_text.
        or_unavailable
          (queue_reply fe True no_notice ''RESP-AVAILABILITY-AVAILABLE-001''
             [(''plan_name'', TPlan p), (''date'', TDate (bogota_date start)), (''time'', TText time_text)]
             (tn_request_id (fst s1)) s1)
          (fst s1)
          (booking_handoff fe ''plantilla de disponibilidad no aprobada o incompleta'' ''TEMPLATE_UNAVAILABLE'' None [])))"

definition ask_booking_confirmation :: "flow_env \<Rightarrow> plan \<Rightarrow> instant \<Rightarrow> json \<Rightarrow> stage \<Rightarrow> flow" where
  "ask_booking_confirmation fe p start draft s =
     (let s1 = on_conversation (await ''CONFIRM_BOOKING'') s in
      ebind (draft_text ''time'' draft) (\<lambda>time_text.
      ebind (deposit_amount (fe_settings fe) (pl_price_cop p)) (\<lambda>deposit.
        send_booking fe ''CONFIRM''
          [(''plan_name'', TPlan p), (''booking_date'', TDate (bogota_date start)), (''booking_time'', TText time_text),
           (''total_amount'', TInt (pl_price_cop p)), (''deposit_amount'', TInt deposit)] s1)))"

definition ask_name_or_confirmation :: "flow_env \<Rightarrow> plan \<Rightarrow> instant \<Rightarrow> json \<Rightarrow> stage \<Rightarrow> flow" where
  "ask_name_or_confirmation fe p start draft s =
     (if cu_full_name (tn_customer (fst s)) = None
      then say fe True ''RESP-CUSTOMER-001'' [] (tn_request_id (fst s)) (on_conversation (await ''COLLECT_BOOKING_NAME'') s)
      else ask_booking_confirmation fe p start draft s)"

definition slot_available :: "flow_env \<Rightarrow> plan \<Rightarrow> instant \<Rightarrow> bool \<Rightarrow> json \<Rightarrow> stage \<Rightarrow> flow" where
  "slot_available fe p start convert_inquiry draft s =
     (let draft1 = jset ''duration_minutes'' (JInt (pl_duration_minutes p)) (jset ''price_cop'' (JInt (pl_price_cop p)) draft);
          s1 = on_conversation (keep_draft draft1) s
      in if truthy (jget ''inquiry_only'' draft1) then offer_booking fe p start draft1 s1
         else if convert_inquiry \<and> turn_pending s1 then pending_exists fe s1
         else ask_name_or_confirmation fe p start draft1 (if convert_inquiry then audit_conversion p start s1 else s1))"

definition slot_read :: "flow_env \<Rightarrow> plan \<Rightarrow> instant \<Rightarrow> datetime \<Rightarrow> bool \<Rightarrow> json \<Rightarrow> stage \<Rightarrow> flow" where
  "slot_read fe p start ends_at convert_inquiry draft s =
     (case with_checkout p start ends_at draft s of (draft1, s1) \<Rightarrow>
        let s2 = on_conversation (keep_draft draft1) s1 in
        ebind (fe_agenda fe (pl_id p) (bogota_aware start) (pl_duration_minutes p)) (\<lambda>answer.
          case answer of
            AgendaFailure reason error_class \<Rightarrow> availability_failed fe p start reason error_class s2
          | AgendaAnswer b \<Rightarrow>
              let s3 = (if truthy (jget ''inquiry_only'' draft1) \<or> convert_inquiry then audit_inquiry p start b s2 else s2)
              in if \<not> ba_available b then unavailable fe s3 else slot_available fe p start convert_inquiry draft1 s3))"

definition continue_slots :: "flow_env \<Rightarrow> plan \<Rightarrow> bool \<Rightarrow> stage \<Rightarrow> flow" where
  "continue_slots fe p convert_inquiry s =
     (let draft = jset ''plan_code'' (JStr (pl_code p)) (draft_of (tn_conversation (fst s)));
          s1 = on_conversation (keep_draft draft) s
      in if truthy (jget ''date_confirmation'' draft) then confirm_date fe draft s1
         else if \<not> truthy (jget ''date'' draft)
         then send_booking fe ''DATETIME'' [] (on_conversation (await ''SELECT_BOOKING_DATETIME'') s1)
         else if \<not> truthy (jget ''time'' draft)
         then send_booking fe ''TIME'' [] (on_conversation (await ''SELECT_BOOKING_TIME'') s1)
         else ebind (draft_start draft) (\<lambda>start.
              ebind (booking_ends_at p (bogota_aware start)) (\<lambda>ends_at.
              ebind (validate_booking_window (bogota_aware start) ends_at (fe_settings fe) (Some (today_of s1)) (Some p)
                       (db_clock (snd s1))) (\<lambda>window.
                case window of
                  Some reason \<Rightarrow> refuse_window fe reason s1
                | None \<Rightarrow> slot_read fe p start ends_at convert_inquiry draft s1))))"

section \<open>The first message\<close>

definition start_collecting :: "json \<Rightarrow> stage \<Rightarrow> flow" where
  "start_collecting draft s =
     (let s1 = on_conversation (\<lambda>c. (keep_draft draft c)\<lparr>cv_pending_confirmation := None\<rparr>) s in
      ebind (if cv_state (tn_conversation (fst s1)) = NEW
             then move_to BOT_ACTIVE ''Primera solicitud de experiencia de precio fijo'' s1 else Inr s1) (\<lambda>s2.
        if cv_state (tn_conversation (fst s2)) \<noteq> COLLECTING_EVENT_DATA
        then move_to COLLECTING_EVENT_DATA ''Reserva autoservicio de precio fijo'' s2 else Inr s2))"

definition adopt_event_type :: "flow_env \<Rightarrow> string \<Rightarrow> string \<Rightarrow> stage \<Rightarrow> stage" where
  "adopt_event_type fe raw event_type = (\<lambda>(t, d).
     case get_or_create_capture_models (tn_conversation t) (tn_customer t) (tn_request_id t) d of (l, e, c, d1) \<Rightarrow>
       (t\<lparr>tn_conversation := c\<rparr>,
        snd (apply_event_type (fe_ucd fe) (fe_letters fe) e (provided ''event_type'' raw (VText event_type)) (tn_request_id t) d1)))"

definition start_with_plan :: "flow_env \<Rightarrow> plan \<Rightarrow> json \<Rightarrow> stage \<Rightarrow> flow" where
  "start_with_plan fe p draft s =
     continue_slots fe p False
       (on_conversation (keep_draft (jset ''plan_code'' (JStr (pl_code p)) (jset ''plan_id'' (JStr (uuid_str (pl_id p))) draft)))
          (adopt_event_type fe (pl_name p) (pl_event_type p) s))"

definition drafted_plan :: "json \<Rightarrow> plan list \<Rightarrow> plan option" where
  "drafted_plan draft plans = find (\<lambda>p. JStr (uuid_str (pl_id p)) = jget ''plan_id'' draft) plans"

definition start_without_plan :: "flow_env \<Rightarrow> bool \<Rightarrow> bool \<Rightarrow> json \<Rightarrow> stage \<Rightarrow> flow" where
  "start_without_plan fe inquiry_only catalog_followup draft s =
     (let s1 = (if \<not> inquiry_only then s
                else (case resolve_catalog_event_type_match (fe_ucd fe) (tn_text (fst s)) False of
                        None \<Rightarrow> s
                      | Some label \<Rightarrow> if mn_event_type label \<in> set fixed_price_event_types
                                      then adopt_event_type fe (mn_label label) (mn_event_type label) s else s))
      in ask_plan fe (if catalog_followup
                      then on_conversation (keep_draft (jset ''catalog_plan_selection'' (JBool True) draft)) s1 else s1))"

definition same_type :: "event_row option \<Rightarrow> plan \<Rightarrow> bool" where
  "same_type e p \<longleftrightarrow> (case e of None \<Rightarrow> False | Some x \<Rightarrow> Some (pl_event_type p) = ev_event_type x)"

definition choose_plan :: "flow_env \<Rightarrow> bool \<Rightarrow> bool \<Rightarrow> event_row option \<Rightarrow> json \<Rightarrow> stage \<Rightarrow> flow" where
  "choose_plan fe inquiry_only catalog_followup e draft s =
     (let plans = filter (\<lambda>p. catalog_followup \<longrightarrow> same_type e p) (active_plans (snd s)) in
      case match_booking_plan (fe_ucd fe) (tn_text (fst s)) plans of
        Some p \<Rightarrow> start_with_plan fe p draft s
      | None \<Rightarrow>
          (case (if inquiry_only then drafted_plan draft (filter (same_type e) plans) else None) of
             Some p \<Rightarrow> continue_slots fe p False s
           | None \<Rightarrow> start_without_plan fe inquiry_only catalog_followup draft s))"

definition handle_booking_start :: "flow_env \<Rightarrow> bool \<Rightarrow> stage \<Rightarrow> flow" where
  "handle_booking_start fe inquiry_only s =
     (let e = turn_event s; c = tn_conversation (fst s);
          catalog_followup = is_fixed_price_catalog_followup (Option.bind e ev_event_type) (cv_last_question_code c);
          draft0 = (if catalog_followup \<or> inquiry_only then draft_of c else JObj []);
          draft1 = (if inquiry_only then jset ''inquiry_only'' (JBool True) draft0 else draft0)
      in if \<not> catalog_followup \<and> \<not> inquiry_only \<and> turn_pending s then pending_exists fe s
         else ebind (start_collecting draft1 s) (\<lambda>s1.
              ebind (consume_date_time (fe_ucd fe) (fe_settings fe) draft1 (tn_text (fst s1)) (today_of s1) False) (\<lambda>(_, draft2).
                choose_plan fe inquiry_only catalog_followup e draft2
                  (on_conversation (\<lambda>c. (understood (keep_draft draft2 c))\<lparr>cv_pending_fields := []\<rparr>) s1))))"

section \<open>The next messages\<close>

definition not_understood :: "flow_env \<Rightarrow> plan option \<Rightarrow> stage \<Rightarrow> flow" where
  "not_understood fe p s =
     (let s1 = on_conversation misunderstood s; c = tn_conversation (fst s1) in
      if 2 \<le> cv_failed_understanding_count c
      then booking_handoff fe ''No se entendieron dos respuestas de reserva'' ''LOW_CONFIDENCE'' None [] s1
      else if cv_pending_action c = Some ''SELECT_BOOKING_PLAN'' then ask_plan fe s1
      else if cv_pending_action c \<in> {Some ''CONFIRM_BOOKING'', Some ''SELECT_BOOKING_DATETIME''}
      then (case p of None \<Rightarrow> Inl (OtherError ''AttributeError'') | Some q \<Rightarrow> continue_slots fe q False s1)
      else send_booking fe ''TIME'' [] s1)"

definition next_slot :: "flow_env \<Rightarrow> plan \<Rightarrow> json \<Rightarrow> stage \<Rightarrow> flow" where
  "next_slot fe p draft s = continue_slots fe p False (on_conversation (\<lambda>c. keep_draft draft (understood c)) s)"

definition chosen_plan :: "ucd \<Rightarrow> string \<Rightarrow> plan list \<Rightarrow> plan option" where
  "chosen_plan u txt plans =
     (let choice = normalize_catalog_event_type_label u txt; named = match_booking_plan u txt plans in
      map_option snd (find (\<lambda>(i, p). choice = show_int (int i) \<or> (case named of None \<Rightarrow> False | Some q \<Rightarrow> pl_id p = pl_id q))
        (enumerate 1 plans)))"

definition select_plan :: "flow_env \<Rightarrow> json \<Rightarrow> stage \<Rightarrow> flow" where
  "select_plan fe draft s =
     (case chosen_plan (fe_ucd fe) (tn_text (fst s)) (plans_for_turn s) of
        None \<Rightarrow> if truthy (jget ''catalog_plan_selection'' draft) then ask_plan fe s else not_understood fe None s
      | Some p \<Rightarrow>
          next_slot fe p (jset ''plan_code'' (JStr (pl_code p)) (jset ''plan_id'' (JStr (uuid_str (pl_id p)))
            (jdrop ''catalog_plan_selection'' draft))) s)"

definition collect_name :: "flow_env \<Rightarrow> plan \<Rightarrow> json \<Rightarrow> stage \<Rightarrow> flow" where
  "collect_name fe p draft s =
     (case extract_booking_name (fe_ucd fe) (fe_letters fe) (tn_text (fst s)) of
        None \<Rightarrow>
          (let s1 = on_conversation misunderstood s in
           if 2 \<le> cv_failed_understanding_count (tn_conversation (fst s1))
           then booking_handoff fe ''Nombre no reconocido en reserva'' ''LOW_CONFIDENCE'' None [] s1
           else say fe True ''RESP-CUSTOMER-003'' [] (tn_request_id (fst s1)) s1)
      | Some name \<Rightarrow>
          (case s of (t, d) \<Rightarrow>
           case name_captured ''CUSTOMER_NAME_CAPTURED'' ''Nombre capturado en flujo de reserva'' (tn_customer t) name (tn_request_id t) d of
             (cu, d1) \<Rightarrow> next_slot fe p draft (t\<lparr>tn_customer := cu\<rparr>, d1)))"

section \<open>The yes\<close>

definition requires_breb_key :: "db \<Rightarrow> (app_error, bool) result" where
  "requires_breb_key d =
     (case get_latest_response ''RESP-BOOKING-PAYMENT-001'' d of
        None \<Rightarrow> Inr False
      | Some k \<Rightarrow> if ke_status k \<noteq> ''APPROVED'' then Inr False
                  else ebind (variables_in_template (ke_answer_template k)) (\<lambda>vs. Inr (''breb_key'' \<in> set vs)))"

definition bank_data_configured :: "settings \<Rightarrow> bool \<Rightarrow> bool" where
  "bank_data_configured st breb \<longleftrightarrow> \<not> blank (st_booking_bank_name st) \<and> \<not> blank (st_booking_account_type st) \<and>
     \<not> blank (st_booking_account_number st) \<and> \<not> blank (st_booking_account_holder st) \<and> (breb \<longrightarrow> \<not> blank (st_bank_breb_key st))"

definition payment_variables :: "settings \<Rightarrow> bool \<Rightarrow> int \<Rightarrow> (string \<times> tval) list" where
  "payment_variables st breb deposit =
     [(''deposit_amount'', TInt deposit), (''bank_name'', TSettings st), (''account_type'', TSettings st),
      (''account_number'', TSettings st), (''account_holder'', TSettings st)] @ (if breb then [(''breb_key'', TSettings st)] else [])"

text \<open>The request itself, after every check.\<close>

definition add_request :: "flow_env \<Rightarrow> plan \<Rightarrow> instant \<Rightarrow> stage \<Rightarrow> flow" where
  "add_request fe p start = (\<lambda>(t, d).
     case get_or_create_capture_models (tn_conversation t) (tn_customer t) (tn_request_id t) d of (l, e, c, d1) \<Rightarrow>
       ebind (create_pending_reservation (ld_id l) e p (Some c) (tn_customer t) (Aware start 0) ''SYSTEM'' (tn_request_id t)
                (fe_settings fe) d1) (\<lambda>(r, e1, d2). Inr (t\<lparr>tn_conversation := c\<rparr>, d2)))"

definition request_booking :: "flow_env \<Rightarrow> plan \<Rightarrow> instant \<Rightarrow> bool \<Rightarrow> stage \<Rightarrow> flow" where
  "request_booking fe p start breb s =
     ebind (add_request fe p start s) (\<lambda>s1.
     ebind (move_to BOT_ACTIVE ''Solicitud pendiente de pago; sin bloqueo''
              (on_conversation (\<lambda>c. c\<lparr>cv_booking_draft := None, cv_pending_action := None\<rparr>) s1)) (\<lambda>s2.
     ebind (deposit_amount (fe_settings fe) (pl_price_cop p)) (\<lambda>deposit.
       send_booking fe ''PAYMENT'' (payment_variables (fe_settings fe) breb deposit) s2)))"

definition confirm_read :: "flow_env \<Rightarrow> plan \<Rightarrow> instant \<Rightarrow> bool \<Rightarrow> stage \<Rightarrow> flow" where
  "confirm_read fe p start breb s =
     ebind (fe_agenda fe (pl_id p) (bogota_aware start) (pl_duration_minutes p)) (\<lambda>answer.
       case answer of
         AgendaFailure reason error_class \<Rightarrow> availability_failed fe p start reason error_class s
       | AgendaAnswer b \<Rightarrow>
           if \<not> ba_available b then unavailable fe s
           else if turn_pending s then pending_exists fe s
           else request_booking fe p start breb s)"

definition confirm_booking :: "flow_env \<Rightarrow> plan \<Rightarrow> json \<Rightarrow> stage \<Rightarrow> flow" where
  "confirm_booking fe p draft s =
     (if jget ''price_cop'' draft \<noteq> JInt (pl_price_cop p) \<or> jget ''duration_minutes'' draft \<noteq> JInt (pl_duration_minutes p)
      then continue_slots fe p False s
      else ebind (requires_breb_key (snd s)) (\<lambda>breb.
        if \<not> bank_data_configured (fe_settings fe) breb then to_reservations fe ''datos bancarios no configurados'' s
        else ebind (draft_start draft) (\<lambda>start.
             ebind (booking_ends_at p (bogota_aware start)) (\<lambda>ends_at.
             ebind (validate_booking_window (bogota_aware start) ends_at (fe_settings fe) (Some (today_of s)) (Some p)
                      (db_clock (snd s))) (\<lambda>window.
               case window of Some reason \<Rightarrow> refuse_window fe reason s | None \<Rightarrow> confirm_read fe p start breb s)))))"

definition only_plan :: "plan \<Rightarrow> json" where
  "only_plan p = JObj [(''plan_id'', JStr (uuid_str (pl_id p)))]"

definition booking_reply :: "flow_env \<Rightarrow> plan \<Rightarrow> json \<Rightarrow> stage \<Rightarrow> flow" where
  "booking_reply fe p draft s =
     (let answer = normalize_confirmation_text (fe_ucd fe) (tn_text (fst s)) in
      if truthy (jget ''inquiry_only'' draft) then continue_slots fe p False s
      else if answer \<in> set denials then next_slot fe p (only_plan p) s
      else if answer \<in> set affirmations then confirm_booking fe p draft s
      else not_understood fe (Some p) s)"

definition date_reply :: "flow_env \<Rightarrow> plan \<Rightarrow> json \<Rightarrow> stage \<Rightarrow> flow" where
  "date_reply fe p draft s =
     (let answer = normalize_confirmation_text (fe_ucd fe) (tn_text (fst s));
          waiting = truthy (jget ''date_confirmation'' draft);
          only_time = (cv_pending_action (tn_conversation (fst s)) = Some ''SELECT_BOOKING_TIME'')
      in if waiting \<and> answer \<in> set affirmations then next_slot fe p (jset ''date_confirmation'' (JBool False) draft) s
         else if waiting \<and> answer \<in> set denials then next_slot fe p (only_plan p) s
         else ebind (consume_date_time (fe_ucd fe) (fe_settings fe) draft (tn_text (fst s)) (today_of s) only_time) (\<lambda>(known, draft1).
                if known then next_slot fe p draft1 s else not_understood fe (Some p) s))"

definition booking_answer :: "flow_env \<Rightarrow> string option \<Rightarrow> json \<Rightarrow> stage \<Rightarrow> flow" where
  "booking_answer fe action draft s =
     (if action = Some ''SELECT_BOOKING_PLAN'' then select_plan fe draft s
      else (case drafted_plan draft (plans_for_turn s) of
              None \<Rightarrow> ask_plan fe s
            | Some p \<Rightarrow>
                if action = Some ''CONFIRM_AVAILABILITY_BOOKING''
                then continue_slots fe p True (on_conversation (keep_draft (jdrop ''inquiry_only'' draft)) s)
                else if action = Some ''COLLECT_BOOKING_NAME'' then collect_name fe p draft s
                else if action = Some ''CONFIRM_BOOKING'' then booking_reply fe p draft s
                else date_reply fe p draft s))"

text \<open>The answer, and whether the flow has dealt with the message.\<close>

definition handle_booking_step :: "flow_env \<Rightarrow> stage \<Rightarrow> (app_error, bool \<times> stage) result" where
  "handle_booking_step fe s =
     (let c = tn_conversation (fst s); draft = draft_of c; action = cv_pending_action c in
      if \<not> st_self_service_booking_enabled (fe_settings fe)
      then ebind (to_reservations fe ''Reserva autoservicio deshabilitada'' s) (\<lambda>s1. Inr (True, s1))
      else if action = Some ''CONFIRM_AVAILABILITY_BOOKING'' \<and>
        normalize_confirmation_text (fe_ucd fe) (tn_text (fst s)) \<notin> set affirmations
      then Inr (False, on_conversation (\<lambda>c. c\<lparr>cv_booking_draft := Some (jdrop ''inquiry_only'' draft), cv_pending_action := None\<rparr>) s)
      else ebind (booking_answer fe action draft s) (\<lambda>s1. Inr (True, s1)))"

end
