(* ===== verification/Booking_Flow_Facts.thy ===== *)
theory Booking_Flow_Facts
  imports Booking_Flow Template_Facts Notice_Facts Booking_Text_Facts
begin

text \<open>
  Facts on the self-service bookings: the only step that adds a request is the yes to an offer whose price, bank data, window,
  calendar and pending requests were all checked in the same turn, and a flow that does not understand twice hands over.
\<close>

section \<open>What the steps keep\<close>

text \<open>A flow keeps the bookings.\<close>

definition keeps_bookings :: "(stage \<Rightarrow> flow) \<Rightarrow> bool" where
  "keeps_bookings f \<longleftrightarrow> (\<forall>s s'. f s = Inr s' \<longrightarrow> db_reservations (snd s') = db_reservations (snd s))"

named_theorems booking_frame

lemma keepsD: "keeps_bookings f \<Longrightarrow> f s = Inr s' \<Longrightarrow> db_reservations (snd s') = db_reservations (snd s)"
  unfolding keeps_bookings_def by blast

lemma on_conversation_frame [simp]:
  "db_reservations (snd (on_conversation f s)) = db_reservations (snd s)" "db_clock (snd (on_conversation f s)) = db_clock (snd s)"
  "db_knowledge (snd (on_conversation f s)) = db_knowledge (snd s)" "db_plans (snd (on_conversation f s)) = db_plans (snd s)"
  "tn_customer (fst (on_conversation f s)) = tn_customer (fst s)" "tn_text (fst (on_conversation f s)) = tn_text (fst s)"
  "tn_conversation (fst (on_conversation f s)) = f (tn_conversation (fst s))"
  by (simp_all add: on_conversation_def put_conversation_def Let_def split: prod.split)

lemma on_db_audit_frame [simp]:
  "db_reservations (snd (on_db (audit_domain_change a e old new r q) s)) = db_reservations (snd s)"
  "fst (on_db f s) = fst s"
  by (simp_all add: on_db_def audit_domain_change_def split: prod.split)

lemma set_state_reservations: "set_state st c d = (c', d') \<Longrightarrow> db_reservations d' = db_reservations d"
  by (auto simp: set_state_def uuid4_def put_conversation_def Let_def split: if_splits)

lemma transition_reservations:
  "transition_conversation c st actor reason req d = Inr (c', d') \<Longrightarrow> db_reservations d' = db_reservations d"
  by (auto simp: transition_conversation_def Let_def split: if_splits prod.splits dest!: set_state_reservations)

lemma create_handoff_reservations:
  "create_handoff c cu reason priority req st detail limit d = Inr (h, code, c', d') \<Longrightarrow> db_reservations d' = db_reservations d"
  by (auto simp: create_handoff_def Let_def set_pending_wait ebind_Inr_iff next_serial_def add_handoff_def
      put_conversation_def split: if_split_asm dest!: transition_reservations)

lemma move_to_keeps: "move_to st reason s = Inr s' \<Longrightarrow> db_reservations (snd s') = db_reservations (snd s)"
  by (auto simp: move_to_def ebind_Inr_iff split: prod.splits dest!: transition_reservations)

lemma queue_reply_keeps:
  "queue_reply fe strict nc code vars req s = Inr s' \<Longrightarrow> db_reservations (snd s') = db_reservations (snd s)"
  by (auto simp: queue_reply_def split: prod.splits sum.splits dest!: enqueue_template_frame)

lemma queue_text_Inl_reservations:
  "queue_text nc code rendered body c cu m d = Inl (e, d') \<Longrightarrow> db_reservations d' = db_reservations d"
  by (auto dest!: queue_text_Inl simp: put_conversation_def)

lemma enqueue_template_Inl_reservations:
  "enqueue_template te strict nc code vars c cu m req d = Inl (e, d') \<Longrightarrow> db_reservations d' = db_reservations d"
  by (auto simp: enqueue_template_def Let_def audit_render_failure_frame
      split: sum.split_asm app_error.split_asm if_split_asm dest!: queue_text_Inl_reservations)

lemma queue_reply_Inl_keeps:
  "queue_reply fe strict nc code vars req s = Inl (e, d') \<Longrightarrow> db_reservations d' = db_reservations (snd s)"
  by (auto simp: queue_reply_def split: prod.splits sum.splits dest!: enqueue_template_Inl_reservations)

lemma say_keeps: "say fe strict code vars req s = Inr s' \<Longrightarrow> db_reservations (snd s') = db_reservations (snd s)"
  by (auto simp: say_def split: sum.splits dest: queue_reply_keeps)

lemma or_unavailable_keeps:
  assumes "or_unavailable (queue_reply fe strict nc code vars req s) t f = Inr s'" "keeps_bookings f"
  shows "db_reservations (snd s') = db_reservations (snd s)"
proof (cases "queue_reply fe strict nc code vars req s")
  case (Inr s1)
  with assms queue_reply_keeps show ?thesis by (simp add: or_unavailable_def)
next
  case (Inl ed)
  obtain e d where ed: "ed = (e, d)" by fastforce
  from assms(1) Inl ed have "f (t, d) = Inr s'" by (auto simp: or_unavailable_def split: app_error.splits)
  from keepsD [OF assms(2) this] queue_reply_Inl_keeps [OF Inl [unfolded ed]] show ?thesis by simp
qed

lemma open_case_keeps:
  assumes "open_case fe tr s = Inr (h, code, s')" "tr_reason tr \<noteq> ''PAYMENT_REVIEW''"
  shows "db_reservations (snd s') = db_reservations (snd s)"
  using assms by (auto simp: open_case_def Let_def ebind_Inr_iff put_conversation_def split: prod.splits dest!: create_handoff_reservations)

lemma create_handoff_and_pause_keeps:
  assumes run: "create_handoff_and_pause fe tr s = Inr s'" and reason: "tr_reason tr \<noteq> ''PAYMENT_REVIEW''"
  shows "db_reservations (snd s') = db_reservations (snd s)"
proof -
  obtain h code s1 s4 where open_c: "open_case fe tr s = Inr (h, code, s1)"
    and q: "or_unavailable (queue_reply fe (tr_response tr = Some ''RESP-BOOKING-AGENDA-ERROR-001'') (case_notice h)
        (if text_given (tr_response tr) then the (tr_response tr) else code) (tr_variables tr) (tn_request_id (fst s1)) s1) (fst s1)
        (\<lambda>s2. case queue_reply fe False (case_notice h) code [] (tn_request_id (fst s2)) s2 of
           Inl (e, _) \<Rightarrow> Inl e | Inr s3 \<Rightarrow> Inr s3) = Inr s4"
    and s': "s' = on_conversation (paused_for_human (tr_intent tr)) s4"
    using run by (auto simp: create_handoff_and_pause_def ebind_Inr_iff)
  have "keeps_bookings (\<lambda>s2. case queue_reply fe False (case_notice h) code [] (tn_request_id (fst s2)) s2 of
           Inl (e, _) \<Rightarrow> Inl e | Inr s3 \<Rightarrow> Inr s3)"
    by (auto simp: keeps_bookings_def split: sum.splits dest: queue_reply_keeps)
  from or_unavailable_keeps [OF q this] open_case_keeps [OF open_c reason] show ?thesis by (simp add: s')
qed

lemma booking_handoff_keeps:
  "booking_handoff fe detail reason response vars s = Inr s' \<Longrightarrow> reason \<noteq> ''PAYMENT_REVIEW'' \<Longrightarrow>
     db_reservations (snd s') = db_reservations (snd s)"
  by (auto simp: booking_handoff_def transfer_for_def dest!: create_handoff_and_pause_keeps)

lemma to_reservations_keeps: "to_reservations fe detail s = Inr s' \<Longrightarrow> db_reservations (snd s') = db_reservations (snd s)"
  by (auto simp: to_reservations_def dest!: booking_handoff_keeps)

lemma pending_exists_keeps: "pending_exists fe s = Inr s' \<Longrightarrow> db_reservations (snd s') = db_reservations (snd s)"
  by (auto simp: pending_exists_def dest!: booking_handoff_keeps)

lemma availability_failed_keeps:
  "availability_failed fe p start reason error_class s = Inr s' \<Longrightarrow> db_reservations (snd s') = db_reservations (snd s)"
  by (auto simp: availability_failed_def Let_def dest!: booking_handoff_keeps)

lemma send_booking_keeps:
  assumes "send_booking fe name vars s = Inr s'"
  shows "db_reservations (snd s') = db_reservations (snd s)"
proof (rule or_unavailable_keeps [OF assms [unfolded send_booking_def]])
  show "keeps_bookings (booking_handoff fe ''plantilla de reserva no aprobada o incompleta'' ''TEMPLATE_UNAVAILABLE'' None [])"
    by (auto simp: keeps_bookings_def dest!: booking_handoff_keeps)
qed

lemma ask_plan_keeps: "ask_plan fe s = Inr s' \<Longrightarrow> db_reservations (snd s') = db_reservations (snd s)"
  by (auto simp: ask_plan_def Let_def split: if_splits dest!: to_reservations_keeps send_booking_keeps)

lemma ask_booking_datetime_keeps:
  "ask_booking_datetime fe kind s = Inr s' \<Longrightarrow> db_reservations (snd s') = db_reservations (snd s)"
  by (auto simp: ask_booking_datetime_def dest!: send_booking_keeps)

lemma unavailable_keeps: "unavailable fe s = Inr s' \<Longrightarrow> db_reservations (snd s') = db_reservations (snd s)"
  by (auto simp: unavailable_def dest!: ask_booking_datetime_keeps)

lemma refuse_window_keeps: "refuse_window fe reason s = Inr s' \<Longrightarrow> db_reservations (snd s') = db_reservations (snd s)"
  by (auto simp: refuse_window_def ask_booking_time_def split: if_splits dest!: send_booking_keeps ask_booking_datetime_keeps)

section \<open>Filling the slots keeps the bookings\<close>

lemma confirm_date_keeps:
  assumes "confirm_date fe draft s = Inr s'"
  shows "db_reservations (snd s') = db_reservations (snd s)"
proof -
  let ?s = "on_conversation (await ''SELECT_BOOKING_DATETIME'') s"
  obtain vars detail where "or_unavailable (queue_reply fe True no_notice ''RESP-EVENT-DATA-003'' vars (tn_request_id (fst ?s)) ?s)
      (fst ?s) (to_reservations fe detail) = Inr s'"
    using assms by (auto simp: confirm_date_def Let_def ebind_Inr_iff)
  moreover have "keeps_bookings (to_reservations fe detail)" by (auto simp: keeps_bookings_def dest!: to_reservations_keeps)
  ultimately show ?thesis by (auto dest!: or_unavailable_keeps)
qed

lemma offer_booking_keeps:
  assumes "offer_booking fe p start draft s = Inr s'"
  shows "db_reservations (snd s') = db_reservations (snd s)"
proof -
  let ?s = "on_conversation (await ''CONFIRM_AVAILABILITY_BOOKING'') s"
  obtain vars detail where "or_unavailable (queue_reply fe True no_notice ''RESP-AVAILABILITY-AVAILABLE-001'' vars
      (tn_request_id (fst ?s)) ?s) (fst ?s) (booking_handoff fe detail ''TEMPLATE_UNAVAILABLE'' None []) = Inr s'"
    using assms by (auto simp: offer_booking_def Let_def ebind_Inr_iff)
  moreover have "keeps_bookings (booking_handoff fe detail ''TEMPLATE_UNAVAILABLE'' None [])"
    by (auto simp: keeps_bookings_def dest!: booking_handoff_keeps)
  ultimately show ?thesis by (auto dest!: or_unavailable_keeps)
qed

lemma ask_name_or_confirmation_keeps:
  "ask_name_or_confirmation fe p start draft s = Inr s' \<Longrightarrow> db_reservations (snd s') = db_reservations (snd s)"
  by (auto simp: ask_name_or_confirmation_def ask_booking_confirmation_def Let_def ebind_Inr_iff split: if_splits
      dest!: say_keeps send_booking_keeps)

lemma audit_conversion_frame [simp]: "db_reservations (snd (audit_conversion p start s)) = db_reservations (snd s)"
  by (simp add: audit_conversion_def)

lemma slot_available_keeps:
  "slot_available fe p start convert draft s = Inr s' \<Longrightarrow> db_reservations (snd s') = db_reservations (snd s)"
  by (auto simp: slot_available_def Let_def split: if_splits
      dest!: offer_booking_keeps pending_exists_keeps ask_name_or_confirmation_keeps)

lemma with_checkout_frame: "with_checkout p start ends_at draft s = (draft1, s1) \<Longrightarrow> db_reservations (snd s1) = db_reservations (snd s)"
  by (auto simp: with_checkout_def audit_checkout_def split: if_splits)

lemma audit_inquiry_frame [simp]: "db_reservations (snd (audit_inquiry p start b s)) = db_reservations (snd s)"
  by (simp add: audit_inquiry_def)

lemma slot_read_keeps:
  assumes "slot_read fe p start ends_at convert draft s = Inr s'"
  shows "db_reservations (snd s') = db_reservations (snd s)"
proof -
  obtain draft1 s1 where c: "with_checkout p start ends_at draft s = (draft1, s1)" by (cases "with_checkout p start ends_at draft s")
  let ?s2 = "on_conversation (keep_draft draft1) s1"
  have "db_reservations (snd s') = db_reservations (snd ?s2)"
  proof (cases "fe_agenda fe (pl_id p) (bogota_aware start) (pl_duration_minutes p)")
    case (Inl e)
    with assms c show ?thesis by (simp add: slot_read_def)
  next
    case (Inr answer)
    show ?thesis
    proof (cases answer)
      case (AgendaFailure reason e)
      with assms c Inr have "availability_failed fe p start reason e ?s2 = Inr s'" by (simp add: slot_read_def Let_def)
      then show ?thesis by (rule availability_failed_keeps)
    next
      case (AgendaAnswer b)
      with assms c Inr show ?thesis
        by (simp add: slot_read_def Let_def split: if_split_asm) (auto dest!: unavailable_keeps slot_available_keeps)
    qed
  qed
  with with_checkout_frame [OF c] show ?thesis by simp
qed

lemma continue_slots_keeps:
  "continue_slots fe p convert s = Inr s' \<Longrightarrow> db_reservations (snd s') = db_reservations (snd s)"
  by (auto simp: continue_slots_def Let_def ebind_Inr_iff split: if_splits option.splits
      dest!: confirm_date_keeps send_booking_keeps refuse_window_keeps slot_read_keeps)

lemma next_slot_keeps: "next_slot fe p draft s = Inr s' \<Longrightarrow> db_reservations (snd s') = db_reservations (snd s)"
  by (auto simp: next_slot_def dest!: continue_slots_keeps)

lemma not_understood_keeps: "not_understood fe p s = Inr s' \<Longrightarrow> db_reservations (snd s') = db_reservations (snd s)"
  by (auto simp: not_understood_def Let_def split: if_splits option.splits
      dest!: booking_handoff_keeps ask_plan_keeps continue_slots_keeps send_booking_keeps)

lemma select_plan_keeps: "select_plan fe draft s = Inr s' \<Longrightarrow> db_reservations (snd s') = db_reservations (snd s)"
  by (auto simp: select_plan_def split: option.splits if_splits dest!: ask_plan_keeps not_understood_keeps next_slot_keeps)

lemma collect_name_keeps:
  assumes "collect_name fe p draft s = Inr s'"
  shows "db_reservations (snd s') = db_reservations (snd s)"
proof (cases "extract_booking_name (fe_ucd fe) (fe_letters fe) (tn_text (fst s))")
  case None
  with assms show ?thesis
    by (auto simp: collect_name_def Let_def split: if_splits dest!: booking_handoff_keeps say_keeps)
next
  case (Some name)
  obtain t d where s: "s = (t, d)" by fastforce
  obtain cu d1 where n: "name_captured ''CUSTOMER_NAME_CAPTURED'' ''Nombre capturado en flujo de reserva'' (tn_customer t) name
      (tn_request_id t) d = (cu, d1)" by fastforce
  then have "db_reservations d1 = db_reservations d"
    by (auto simp: name_captured_def Let_def audit_domain_change_def put_customer_def)
  with assms Some s n show ?thesis by (auto simp: collect_name_def dest!: next_slot_keeps)
qed

lemma date_reply_keeps: "date_reply fe p draft s = Inr s' \<Longrightarrow> db_reservations (snd s') = db_reservations (snd s)"
  by (auto simp: date_reply_def Let_def ebind_Inr_iff split: if_splits dest!: next_slot_keeps not_understood_keeps)

section \<open>The request\<close>

lemma add_lead_reservations: "add_lead k d = (l, d') \<Longrightarrow> db_reservations d' = db_reservations d"
  by (auto simp: add_lead_def uuid4_def Let_def)

lemma add_event_reservations: "add_event k t d = (e, d') \<Longrightarrow> db_reservations d' = db_reservations d"
  by (auto simp: add_event_def uuid4_def Let_def)

lemma capture_lead_reservations: "capture_lead c cu req d = (l, c', d') \<Longrightarrow> db_reservations d' = db_reservations d"
  by (auto simp: capture_lead_def Let_def audit_domain_change_def put_conversation_def put_lead_def
      split: option.splits if_splits prod.splits dest!: add_lead_reservations)

lemma capture_models_reservations:
  "get_or_create_capture_models c cu req d = (l, e, c', d') \<Longrightarrow> db_reservations d' = db_reservations d"
  by (auto simp: get_or_create_capture_models_def capture_event_def audit_domain_change_def split: prod.splits option.splits
      dest!: add_event_reservations capture_lead_reservations)

definition fresh_request :: "stage \<Rightarrow> plan \<Rightarrow> instant \<Rightarrow> reservation \<Rightarrow> bool" where
  "fresh_request s p start r \<longleftrightarrow> rv_status r = RV_PAYMENT_PENDING \<and> rv_plan_id r = pl_id p \<and> rv_price_cop r = pl_price_cop p \<and>
     rv_starts_at r = start \<and> rv_customer_id r = cu_id (tn_customer (fst s)) \<and> rv_amount_paid_cop r = 0"

lemma add_request_D:
  assumes "add_request fe p start s = Inr s'"
  shows "\<exists>r. db_reservations (snd s') = db_reservations (snd s) @ [r] \<and> fresh_request s p start r"
proof -
  obtain t d where s: "s = (t, d)" by fastforce
  obtain l e c d1 where k: "get_or_create_capture_models (tn_conversation t) (tn_customer t) (tn_request_id t) d = (l, e, c, d1)"
    by (metis prod_cases4)
  from assms s k obtain r e1 d2 where r: "create_pending_reservation (ld_id l) e p (Some c) (tn_customer t) (Aware start 0)
      ''SYSTEM'' (tn_request_id t) (fe_settings fe) d1 = Inr (r, e1, d2)" and s': "snd s' = d2"
    by (auto simp: add_request_def ebind_Inr_iff)
  from create_pending_reservation_InrD [OF r] capture_models_reservations [OF k] show ?thesis
    by (auto simp: s s' fresh_request_def new_reservation_def)
qed

lemma request_booking_D:
  assumes "request_booking fe p start breb s = Inr s'"
  shows "\<exists>r. db_reservations (snd s') = db_reservations (snd s) @ [r] \<and> fresh_request s p start r"
proof -
  obtain s1 where a: "add_request fe p start s = Inr s1"
    and rest: "ebind (move_to BOT_ACTIVE ''Solicitud pendiente de pago; sin bloqueo''
              (on_conversation (\<lambda>c. c\<lparr>cv_booking_draft := None, cv_pending_action := None\<rparr>) s1)) (\<lambda>s2.
     ebind (deposit_amount (fe_settings fe) (pl_price_cop p)) (\<lambda>deposit.
       send_booking fe ''PAYMENT'' (payment_variables (fe_settings fe) breb deposit) s2)) = Inr s'"
    using assms by (auto simp: request_booking_def ebind_Inr_iff)
  have "db_reservations (snd s') = db_reservations (snd s1)"
    using rest by (auto simp: ebind_Inr_iff dest!: move_to_keeps send_booking_keeps)
  with add_request_D [OF a] show ?thesis by simp
qed

text \<open>What must hold for the yes to become a request.\<close>

definition may_request :: "flow_env \<Rightarrow> plan \<Rightarrow> instant \<Rightarrow> stage \<Rightarrow> bool" where
  "may_request fe p start s \<longleftrightarrow>
     (let c = tn_conversation (fst s); draft = draft_of c in
      cv_pending_action c = Some ''CONFIRM_BOOKING'' \<and>
      normalize_confirmation_text (fe_ucd fe) (tn_text (fst s)) \<in> set affirmations \<and>
      \<not> truthy (jget ''inquiry_only'' draft) \<and>
      p \<in> set (plans_for_turn s) \<and> jget ''plan_id'' draft = JStr (uuid_str (pl_id p)) \<and>
      jget ''price_cop'' draft = JInt (pl_price_cop p) \<and> jget ''duration_minutes'' draft = JInt (pl_duration_minutes p) \<and>
      (\<exists>breb. requires_breb_key (snd s) = Inr breb \<and> bank_data_configured (fe_settings fe) breb) \<and>
      draft_start draft = Inr start \<and>
      (\<exists>ends_at. booking_ends_at p (bogota_aware start) = Inr ends_at \<and>
         validate_booking_window (bogota_aware start) ends_at (fe_settings fe) (Some (today_of s)) (Some p) (db_clock (snd s)) = Inr None) \<and>
      (\<exists>b. fe_agenda fe (pl_id p) (bogota_aware start) (pl_duration_minutes p) = Inr (AgendaAnswer b) \<and> ba_available b) \<and>
      \<not> turn_pending s)"

lemma confirm_booking_D:
  assumes run: "confirm_booking fe p draft s = Inr s'" and changed: "db_reservations (snd s') \<noteq> db_reservations (snd s)"
  shows "\<exists>start breb ends_at b. jget ''price_cop'' draft = JInt (pl_price_cop p) \<and>
    jget ''duration_minutes'' draft = JInt (pl_duration_minutes p) \<and>
    requires_breb_key (snd s) = Inr breb \<and> bank_data_configured (fe_settings fe) breb \<and> draft_start draft = Inr start \<and>
    booking_ends_at p (bogota_aware start) = Inr ends_at \<and>
    validate_booking_window (bogota_aware start) ends_at (fe_settings fe) (Some (today_of s)) (Some p) (db_clock (snd s)) = Inr None \<and>
    fe_agenda fe (pl_id p) (bogota_aware start) (pl_duration_minutes p) = Inr (AgendaAnswer b) \<and> ba_available b \<and>
    \<not> turn_pending s \<and> request_booking fe p start breb s = Inr s'"
proof -
  have price: "jget ''price_cop'' draft = JInt (pl_price_cop p)" "jget ''duration_minutes'' draft = JInt (pl_duration_minutes p)"
    using run changed by (auto simp: confirm_booking_def split: if_splits dest: continue_slots_keeps)
  from run price obtain breb where breb: "requires_breb_key (snd s) = Inr breb"
    and rest: "(if \<not> bank_data_configured (fe_settings fe) breb then to_reservations fe ''datos bancarios no configurados'' s
        else ebind (draft_start draft) (\<lambda>start.
             ebind (booking_ends_at p (bogota_aware start)) (\<lambda>ends_at.
             ebind (validate_booking_window (bogota_aware start) ends_at (fe_settings fe) (Some (today_of s)) (Some p)
                      (db_clock (snd s))) (\<lambda>window.
               case window of Some reason \<Rightarrow> refuse_window fe reason s | None \<Rightarrow> confirm_read fe p start breb s)))) = Inr s'"
    by (auto simp: confirm_booking_def ebind_Inr_iff)
  have bank: "bank_data_configured (fe_settings fe) breb"
    using rest changed by (auto split: if_splits dest: to_reservations_keeps)
  with rest obtain start ends_at window where t: "draft_start draft = Inr start" "booking_ends_at p (bogota_aware start) = Inr ends_at"
      "validate_booking_window (bogota_aware start) ends_at (fe_settings fe) (Some (today_of s)) (Some p) (db_clock (snd s)) = Inr window"
    and w: "(case window of Some reason \<Rightarrow> refuse_window fe reason s | None \<Rightarrow> confirm_read fe p start breb s) = Inr s'"
    by (auto simp: ebind_Inr_iff)
  have "window = None" using w changed by (auto split: option.splits dest: refuse_window_keeps)
  with w have read: "confirm_read fe p start breb s = Inr s'" by simp
  then obtain answer where a: "fe_agenda fe (pl_id p) (bogota_aware start) (pl_duration_minutes p) = Inr answer"
    and after: "(case answer of AgendaFailure reason e \<Rightarrow> availability_failed fe p start reason e s
       | AgendaAnswer b \<Rightarrow> if \<not> ba_available b then unavailable fe s
           else if turn_pending s then pending_exists fe s else request_booking fe p start breb s) = Inr s'"
    by (auto simp: confirm_read_def ebind_Inr_iff)
  from after changed obtain b where b: "answer = AgendaAnswer b" "ba_available b" "\<not> turn_pending s" "request_booking fe p start breb s = Inr s'"
    by (auto split: availability_answer.splits if_splits dest: availability_failed_keeps unavailable_keeps pending_exists_keeps)
  from price breb bank t \<open>window = None\<close> a b show ?thesis by blast
qed

lemma booking_answer_D:
  assumes run: "booking_answer fe action draft s = Inr s'" and changed: "db_reservations (snd s') \<noteq> db_reservations (snd s)"
  shows "\<exists>p. drafted_plan draft (plans_for_turn s) = Some p \<and> action = Some ''CONFIRM_BOOKING'' \<and>
    \<not> truthy (jget ''inquiry_only'' draft) \<and>
    normalize_confirmation_text (fe_ucd fe) (tn_text (fst s)) \<in> set affirmations \<and> confirm_booking fe p draft s = Inr s'"
proof -
  have not_select: "action \<noteq> Some ''SELECT_BOOKING_PLAN''"
  proof
    assume "action = Some ''SELECT_BOOKING_PLAN''"
    with run have "select_plan fe draft s = Inr s'" by (simp add: booking_answer_def)
    with changed select_plan_keeps show False by blast
  qed
  obtain p where p: "drafted_plan draft (plans_for_turn s) = Some p"
  proof (cases "drafted_plan draft (plans_for_turn s)")
    case None
    with run not_select have "ask_plan fe s = Inr s'" by (simp add: booking_answer_def)
    with changed ask_plan_keeps show ?thesis by blast
  qed blast
  have no_other: "continue_slots fe q convert s1 \<noteq> Inr s'" if "db_reservations (snd s1) = db_reservations (snd s)" for q convert s1
    using that changed continue_slots_keeps by metis
  have "action \<noteq> Some ''CONFIRM_AVAILABILITY_BOOKING''"
  proof
    assume "action = Some ''CONFIRM_AVAILABILITY_BOOKING''"
    with run p have "continue_slots fe p True (on_conversation (keep_draft (jdrop ''inquiry_only'' draft)) s) = Inr s'"
      by (simp add: booking_answer_def)
    moreover have "db_reservations (snd (on_conversation (keep_draft (jdrop ''inquiry_only'' draft)) s)) = db_reservations (snd s)"
      by simp
    ultimately show False using no_other by metis
  qed
  moreover have "action \<noteq> Some ''COLLECT_BOOKING_NAME''"
  proof
    assume "action = Some ''COLLECT_BOOKING_NAME''"
    with run p have "collect_name fe p draft s = Inr s'" by (simp add: booking_answer_def)
    with changed collect_name_keeps show False by blast
  qed
  moreover have "date_reply fe p draft s \<noteq> Inr s'" using changed date_reply_keeps by blast
  ultimately have action: "action = Some ''CONFIRM_BOOKING''" and reply: "booking_reply fe p draft s = Inr s'"
    using run not_select p by (simp_all add: booking_answer_def split: if_split_asm)
  have "\<not> truthy (jget ''inquiry_only'' draft) \<and>
      normalize_confirmation_text (fe_ucd fe) (tn_text (fst s)) \<in> set affirmations \<and> confirm_booking fe p draft s = Inr s'"
    using reply no_other changed next_slot_keeps not_understood_keeps
    by (simp add: booking_reply_def Let_def split: if_split_asm)
  with p action show ?thesis by blast
qed

text \<open>C5. A message of the booking flow changes the bookings only by adding one unpaid request, and only when it is the yes to an
  offer: of an active plan of the event, at the price and duration that were offered, with bank data to pay to, inside the
  opening hours and the lead time, on a calendar just read as free, and with no other request of the customer waiting.
\<close>

theorem request_follows_checked_offer:
  assumes "handle_booking_step fe s = Inr (handled, s')" and "db_reservations (snd s') \<noteq> db_reservations (snd s)"
  shows "\<exists>p start r. may_request fe p start s \<and> pl_active p \<and> fresh_request s p start r \<and>
    db_reservations (snd s') = db_reservations (snd s) @ [r]"
proof -
  let ?draft = "draft_of (tn_conversation (fst s))" and ?action = "cv_pending_action (tn_conversation (fst s))"
  have "booking_answer fe ?action ?draft s = Inr s'"
    using assms by (auto simp: handle_booking_step_def Let_def ebind_Inr_iff split: if_splits dest: to_reservations_keeps)
  from booking_answer_D [OF this assms(2)] obtain p where p: "drafted_plan ?draft (plans_for_turn s) = Some p"
    and yes: "?action = Some ''CONFIRM_BOOKING''" "\<not> truthy (jget ''inquiry_only'' ?draft)"
      "normalize_confirmation_text (fe_ucd fe) (tn_text (fst s)) \<in> set affirmations"
    and c: "confirm_booking fe p ?draft s = Inr s'" by blast
  have plan: "p \<in> set (plans_for_turn s)" "jget ''plan_id'' ?draft = JStr (uuid_str (pl_id p))"
    using p by (auto simp: drafted_plan_def find_Some_iff in_set_conv_nth)
  then have "pl_active p" by (auto simp: plans_for_turn_def active_plans_def split: option.splits)
  moreover obtain start breb where "may_request fe p start s" "request_booking fe p start breb s = Inr s'"
    using confirm_booking_D [OF c assms(2)] plan yes unfolding may_request_def Let_def by metis
  ultimately show ?thesis using request_booking_D by blast
qed

section \<open>Twice not understood\<close>

lemma queue_reply_conversation:
  "queue_reply fe strict nc code vars req s = Inr s' \<Longrightarrow>
     tn_conversation (fst s') = (tn_conversation (fst s))\<lparr>cv_last_question_code := Some code\<rparr>"
  by (auto simp: queue_reply_def split: prod.splits sum.splits dest!: enqueue_template_frame)

lemma set_state_draft: "set_state st c d = (c', d') \<Longrightarrow> cv_booking_draft c' = cv_booking_draft c \<and> cv_visit_draft c' = cv_visit_draft c"
  by (auto simp: set_state_def uuid4_def Let_def split: if_splits)

lemma transition_draft:
  "transition_conversation c st actor reason req d = Inr (c', d') \<Longrightarrow>
     cv_booking_draft c' = cv_booking_draft c \<and> cv_visit_draft c' = cv_visit_draft c"
  by (auto simp: transition_conversation_def Let_def split: if_splits prod.splits dest!: set_state_draft)

lemma create_handoff_draft:
  "create_handoff c cu reason priority req st detail limit d = Inr (h, code, c', d') \<Longrightarrow>
     cv_booking_draft c' = cv_booking_draft c \<and> cv_visit_draft c' = cv_visit_draft c"
  by (auto simp: create_handoff_def Let_def set_pending_wait next_serial_def ebind_Inr_iff split: if_split_asm dest!: transition_draft)

lemma open_case_conversation:
  assumes "open_case fe tr s = Inr (h, code, s')"
  shows "cv_state (tn_conversation (fst s')) = WAITING_FOR_HUMAN" "cv_visit_draft (tn_conversation (fst s')) = None"
    "tr_reason tr \<noteq> ''SYSTEM_ERROR'' \<Longrightarrow> cv_booking_draft (tn_conversation (fst s')) = None"
    "tr_reason tr \<noteq> ''PAYMENT_REVIEW'' \<Longrightarrow> db_handoffs (snd s') = db_handoffs (snd s) @ [h]" "ho_status h = HO_PENDING"
proof -
  obtain t d where s: "s = (t, d)" by fastforce
  let ?c = "(tn_conversation t)\<lparr>cv_visit_draft := None,
      cv_booking_draft := (if tr_reason tr \<noteq> ''SYSTEM_ERROR'' then None else cv_booking_draft (tn_conversation t))\<rparr>"
  obtain c2 d2 where h: "create_handoff ?c (tn_customer t) (tr_reason tr) (tr_priority tr) (tn_request_id t) (fe_settings fe)
      (tr_detail tr) 5 (put_conversation ?c d) = Inr (h, code, c2, d2)" and s': "tn_conversation (fst s') = c2"
    and e: "tr_reason tr \<noteq> ''PAYMENT_REVIEW'' \<longrightarrow> snd s' = d2"
    using assms by (auto simp: s open_case_def Let_def ebind_Inr_iff split: if_split_asm)
  from create_handoff_InrD [OF h] create_handoff_draft [OF h] e
  show "cv_state (tn_conversation (fst s')) = WAITING_FOR_HUMAN" "cv_visit_draft (tn_conversation (fst s')) = None"
    "tr_reason tr \<noteq> ''SYSTEM_ERROR'' \<Longrightarrow> cv_booking_draft (tn_conversation (fst s')) = None"
    "tr_reason tr \<noteq> ''PAYMENT_REVIEW'' \<Longrightarrow> db_handoffs (snd s') = db_handoffs (snd s) @ [h]" "ho_status h = HO_PENDING"
    by (simp_all add: s' s)
qed

lemma queue_reply_handoffs: "queue_reply fe strict nc code vars req s = Inr s' \<Longrightarrow> db_handoffs (snd s') = db_handoffs (snd s)"
  by (auto simp: queue_reply_def split: prod.splits sum.splits dest!: enqueue_template_frame)

lemma enqueue_template_Inl_handoffs:
  "enqueue_template te strict nc code vars c cu m req d = Inl (e, d') \<Longrightarrow> db_handoffs d' = db_handoffs d"
  by (auto simp: enqueue_template_def Let_def audit_render_failure_frame
      split: sum.split_asm app_error.split_asm if_split_asm dest!: queue_text_Inl)

lemma queue_reply_Inl_handoffs: "queue_reply fe strict nc code vars req s = Inl (e, d') \<Longrightarrow> db_handoffs d' = db_handoffs (snd s)"
  by (auto simp: queue_reply_def split: prod.splits sum.splits dest!: enqueue_template_Inl_handoffs)

lemma on_conversation_handoffs [simp]: "db_handoffs (snd (on_conversation f s)) = db_handoffs (snd s)"
  by (simp add: on_conversation_def Let_def split: prod.split)

text \<open>What a transfer leaves behind, whatever texts could be rendered.\<close>

lemma transfer_effect:
  assumes run: "create_handoff_and_pause fe tr s = Inr s'" and reason: "tr_reason tr \<noteq> ''PAYMENT_REVIEW''"
  shows "cv_state (tn_conversation (fst s')) = WAITING_FOR_HUMAN"
    "cv_pending_action (tn_conversation (fst s')) = Some ''WAIT_FOR_HUMAN''"
    "cv_pending_confirmation (tn_conversation (fst s')) = None" "cv_visit_draft (tn_conversation (fst s')) = None"
    "tr_reason tr \<noteq> ''SYSTEM_ERROR'' \<Longrightarrow> cv_booking_draft (tn_conversation (fst s')) = None"
    "\<exists>h. db_handoffs (snd s') = db_handoffs (snd s) @ [h] \<and> ho_status h = HO_PENDING"
proof -
  obtain h code s1 s4 where open_c: "open_case fe tr s = Inr (h, code, s1)"
    and q: "or_unavailable (queue_reply fe (tr_response tr = Some ''RESP-BOOKING-AGENDA-ERROR-001'') (case_notice h)
        (if text_given (tr_response tr) then the (tr_response tr) else code) (tr_variables tr) (tn_request_id (fst s1)) s1) (fst s1)
        (\<lambda>s2. case queue_reply fe False (case_notice h) code [] (tn_request_id (fst s2)) s2 of
           Inl (e, _) \<Rightarrow> Inl e | Inr s3 \<Rightarrow> Inr s3) = Inr s4"
    and s': "s' = on_conversation (paused_for_human (tr_intent tr)) s4"
    using run by (auto simp: create_handoff_and_pause_def ebind_Inr_iff)
  have "\<exists>lq. tn_conversation (fst s4) = (tn_conversation (fst s1))\<lparr>cv_last_question_code := Some lq\<rparr> \<and>
      db_handoffs (snd s4) = db_handoffs (snd s1)"
  proof (cases "queue_reply fe (tr_response tr = Some ''RESP-BOOKING-AGENDA-ERROR-001'') (case_notice h)
        (if text_given (tr_response tr) then the (tr_response tr) else code) (tr_variables tr) (tn_request_id (fst s1)) s1")
    case (Inr s2)
    with q have "s4 = s2" by (simp add: or_unavailable_def)
    with queue_reply_conversation [OF Inr] queue_reply_handoffs [OF Inr] show ?thesis by blast
  next
    case (Inl ed)
    obtain e d where ed: "ed = (e, d)" by fastforce
    from q Inl ed have "queue_reply fe False (case_notice h) code [] (tn_request_id (fst (fst s1, d))) (fst s1, d) = Inr s4"
      by (auto simp: or_unavailable_def split: app_error.splits sum.splits)
    from queue_reply_conversation [OF this] queue_reply_handoffs [OF this] queue_reply_Inl_handoffs [OF Inl [unfolded ed]]
    show ?thesis by (intro exI [of _ code]) simp
  qed
  with open_case_conversation [OF open_c] reason
  show "cv_state (tn_conversation (fst s')) = WAITING_FOR_HUMAN"
    "cv_pending_action (tn_conversation (fst s')) = Some ''WAIT_FOR_HUMAN''"
    "cv_pending_confirmation (tn_conversation (fst s')) = None" "cv_visit_draft (tn_conversation (fst s')) = None"
    "tr_reason tr \<noteq> ''SYSTEM_ERROR'' \<Longrightarrow> cv_booking_draft (tn_conversation (fst s')) = None"
    "\<exists>h. db_handoffs (snd s') = db_handoffs (snd s) @ [h] \<and> ho_status h = HO_PENDING"
    by (auto simp: s' paused_for_human_def)
qed

lemma set_state_knowledge: "set_state st c d = (c', d') \<Longrightarrow> db_knowledge d' = db_knowledge d"
  by (auto simp: set_state_def uuid4_def put_conversation_def Let_def split: if_splits)

lemma create_handoff_knowledge:
  "create_handoff c cu reason priority req st detail limit d = Inr (h, code, c', d') \<Longrightarrow> db_knowledge d' = db_knowledge d"
  by (auto simp: create_handoff_def Let_def set_pending_wait ebind_Inr_iff next_serial_def add_handoff_def transition_conversation_def
      put_conversation_def split: if_split_asm prod.split_asm dest!: set_state_knowledge)

text \<open>A transfer succeeds whenever the attention hours are well formed and the two transfer texts can be rendered.\<close>

lemma transfer_runs:
  assumes hours: "hours_ok (fe_settings fe)" and state: "cv_state (tn_conversation (fst s)) \<notin> {RESOLVED, CLOSED}"
    and tr: "tr_reason tr \<noteq> ''PAYMENT_REVIEW''" "tr_response tr = None" "tr_variables tr = []"
    and texts: "\<And>code d. code \<in> {''RESP-HANDOFF-001'', ''RESP-HANDOFF-002''} \<Longrightarrow> db_knowledge d = db_knowledge (snd s) \<Longrightarrow>
      \<exists>body. render_response (fe_texts fe) code [] d = Inr body"
  shows "\<exists>s'. create_handoff_and_pause fe tr s = Inr s'"
proof -
  obtain t d where s: "s = (t, d)" by fastforce
  let ?c = "(tn_conversation t)\<lparr>cv_visit_draft := None,
      cv_booking_draft := (if tr_reason tr \<noteq> ''SYSTEM_ERROR'' then None else cv_booking_draft (tn_conversation t))\<rparr>"
  have "\<exists>r. create_handoff ?c (tn_customer t) (tr_reason tr) (tr_priority tr) (tn_request_id t) (fe_settings fe) (tr_detail tr) 5
      (put_conversation ?c d) = Inr r"
    by (rule create_handoff_total [OF hours]) (use state s in simp)
  then obtain h code c2 d2 where run: "create_handoff ?c (tn_customer t) (tr_reason tr) (tr_priority tr) (tn_request_id t)
      (fe_settings fe) (tr_detail tr) 5 (put_conversation ?c d) = Inr (h, code, c2, d2)" by (metis prod.exhaust)
  note eff = create_handoff_InrD [OF run]
  have "db_knowledge d2 = db_knowledge (snd s)" using create_handoff_knowledge [OF run] by (simp add: s put_conversation_def)
  from texts [OF eff(7) this] obtain body where body: "render_response (fe_texts fe) code [] d2 = Inr body" by blast
  have "open_case fe tr s = Inr (h, code, t\<lparr>tn_conversation := c2\<rparr>, d2)"
    using run tr(1) by (simp add: open_case_def s Let_def)
  moreover have "\<exists>s4. queue_reply fe False (case_notice h) code [] (tn_request_id t) (t\<lparr>tn_conversation := c2\<rparr>, d2) = Inr s4"
    using eff by (auto simp: queue_reply_def enqueue_template_def body queue_text_def Let_def output_context_def case_notice_def
        no_notice_def handoff_context_def)
  then obtain s4 where "queue_reply fe False (case_notice h) code [] (tn_request_id t) (t\<lparr>tn_conversation := c2\<rparr>, d2) = Inr s4"
    by (rule exE)
  ultimately show ?thesis using tr by (simp add: create_handoff_and_pause_def or_unavailable_def text_given_def)
qed

text \<open>C27. The second message in a row that the flow does not understand opens a case for a person: the bot stops, and what it had
  drafted is gone.
\<close>

theorem second_misunderstanding_hands_over:
  assumes "not_understood fe p s = Inr s'" and "1 \<le> cv_failed_understanding_count (tn_conversation (fst s))"
  shows "cv_state (tn_conversation (fst s')) = WAITING_FOR_HUMAN \<and> cv_booking_draft (tn_conversation (fst s')) = None \<and>
    cv_pending_action (tn_conversation (fst s')) = Some ''WAIT_FOR_HUMAN'' \<and>
    db_reservations (snd s') = db_reservations (snd s) \<and>
    (\<exists>h. db_handoffs (snd s') = db_handoffs (snd s) @ [h] \<and> ho_status h = HO_PENDING)"
proof -
  let ?tr = "(transfer_for ''HUMAN_REQUEST'' ''LOW_CONFIDENCE'' HO_NORMAL (Some ''No se entendieron dos respuestas de reserva''))
      \<lparr>tr_response := None, tr_variables := []\<rparr>"
  let ?s = "on_conversation (\<lambda>c. c\<lparr>cv_booking_draft := None\<rparr>) (on_conversation misunderstood s)"
  from assms have "create_handoff_and_pause fe ?tr ?s = Inr s'"
    by (simp add: not_understood_def Let_def misunderstood_def booking_handoff_def split: if_splits)
  from transfer_effect [OF this] not_understood_keeps [OF assms(1)] show ?thesis by (auto simp: transfer_for_def)
qed

section \<open>Witnesses\<close>

definition sample_letters :: letters where
  "sample_letters = \<lparr>lt_isalpha = (\<lambda>c. 65 \<le> c), lt_cased = (\<lambda>c. 65 \<le> c), lt_title = (\<lambda>c. [c]), lt_lower = (\<lambda>c. [c])\<rparr>"

definition sample_env :: flow_env where
  "sample_env = \<lparr>fe_texts = sample_texts, fe_letters = sample_letters,
     fe_json = \<lparr>cj_read = (\<lambda>_. None), cj_write = (\<lambda>_. JNull), cj_same = (\<lambda>_ _. False)\<rparr>,
     fe_settings = sample_settings\<lparr>st_staff_notifications_enabled := False\<rparr>, fe_context_request = None,
     fe_agenda = (\<lambda>_ _ _. Inr (AgendaAnswer \<lparr>ba_available = True, ba_blockers = []\<rparr>))\<rparr>"

definition offered_draft :: json where
  "offered_draft = JObj [(''plan_id'', JStr (uuid_str 21)), (''date'', JStr ''2026-08-15''), (''time'', JStr ''19:00''),
     (''price_cop'', JInt 950000), (''duration_minutes'', JInt 180)]"

definition offered_conversation :: conversation where
  "offered_conversation = sample_conversation\<lparr>cv_state := COLLECTING_EVENT_DATA, cv_pending_action := Some ''CONFIRM_BOOKING'',
     cv_active_lead_id := Some 41, cv_booking_draft := Some offered_draft\<rparr>"

definition sample_turn :: "conversation \<Rightarrow> string \<Rightarrow> turn" where
  "sample_turn c txt = \<lparr>tn_conversation = c, tn_customer = sample_customer, tn_message = incoming, tn_text = txt,
     tn_request_id = None, tn_decision_source = DETERMINISTIC, tn_directed_event_type = None, tn_services_resolution_failed = False,
     tn_confidence_entity_rescued = False, tn_input_origin = TEXT_INPUT, tn_transcription_id = None\<rparr>"

definition plain_answer :: "string \<Rightarrow> string list \<Rightarrow> knowledge_entry" where
  "plain_answer code allowed = \<lparr>ke_code = code, ke_version = 1, ke_status = ''APPROVED'', ke_answer_template = ''Listo'',
     ke_allowed_variables = allowed\<rparr>"

definition booking_db :: db where
  "booking_db = sample_db\<lparr>db_reservations := [], db_leads := [(new_lead 41 1)\<lparr>ld_status := ''QUALIFYING''\<rparr>],
     db_knowledge := [plain_answer ''RESP-BOOKING-PAYMENT-001''
        [''deposit_amount'', ''bank_name'', ''account_type'', ''account_number'', ''account_holder''],
      plain_answer ''RESP-HANDOFF-001'' [], plain_answer ''RESP-HANDOFF-002'' []]\<rparr>"

lemma listo_parsed: "parse_template ''Listo'' = Some (map Chr ''Listo'')"
  by simp

lemma sample_yes: "normalize_confirmation_text ascii_ucd ''si'' = ''si''"
  by (simp add: normalize_confirmation_text_def thumbs_up_def strip_accents_def joined_words_def confirmation_punctuation_def
      cps_def collapse_def text_eval) code_simp

lemma offered_start: "draft_start offered_draft = Inr sample_start"
proof -
  have "date_fromisoformat ''2026-08-15'' = Some 739843" by code_simp
  moreover have "parse_hhmm ''19:00'' = Some (at_hour 19)" by (simp add: parse_hhmm_def is_digit_def digit_val_def at_hour_def us_defs)
  ultimately show ?thesis
    by (simp add: draft_start_def draft_date_def draft_text_def offered_draft_def jget_def fromisoformat_time_def sample_start_def)
qed

lemma offered_plans: "plans_for_turn (sample_turn offered_conversation txt, booking_db) = [sample_plan, sample_overnight]"
  by (simp add: plans_for_turn_def turn_event_def sample_turn_def offered_conversation_def sample_conversation_def booking_db_def
      active_lead_def active_event_def new_lead_def sample_event_def active_plans_def sample_plan_def sample_overnight_def
      order_by_def plan_before_def get_row_def)

lemma offered_window:
  "booking_ends_at sample_plan (bogota_aware sample_start) = Inr (bogota_aware (sample_start + minutes 180))"
  "validate_booking_window (bogota_aware sample_start) (bogota_aware (sample_start + minutes 180))
     (sample_settings\<lparr>st_staff_notifications_enabled := False\<rparr>) (Some 739829) (Some sample_plan) sample_now = Inr None"
  by (simp_all add: booking_ends_at_def sample_plan_def bogota_aware_def datetime_add_def validate_booking_window_def
      window_hours_def window_end_def parse_clock_def parse_hhmm_def is_digit_def digit_val_def sample_settings_def sample_start_def
      bogota_instant_def at_hour_def minutes_def bogota_time_def bogota_date_def us_defs)

lemma breb_not_required: "requires_breb_key booking_db = Inr False"
  by (simp add: requires_breb_key_def booking_db_def get_latest_response_def plain_answer_def variables_in_template_def
      listo_parsed field_names_def del: parse_template.simps)

lemma offered_models:
  "get_or_create_capture_models offered_conversation sample_customer None booking_db =
     ((new_lead 41 1)\<lparr>ld_status := ''QUALIFYING''\<rparr>, sample_event, offered_conversation, booking_db)"
  by (simp add: get_or_create_capture_models_def capture_lead_def capture_event_def active_lead_def active_event_def
      offered_conversation_def booking_db_def new_lead_def sample_event_def get_row_def)

lemma offered_request:
  "\<exists>d. add_request sample_env sample_plan sample_start (sample_turn offered_conversation ''si'', booking_db) =
      Inr (sample_turn offered_conversation ''si'', d) \<and> db_knowledge d = db_knowledge booking_db"
  by (simp add: add_request_def sample_turn_def offered_models sample_env_def)
    (simp add: create_pending_reservation_def sample_plan_def sample_event_def booking_ends_at_def
      datetime_add_def uuid4_def Let_def enqueue_for_reservation_def reservation_ck_def minutes_def us_defs request_audit_def
      put_event_def)

lemma payment_shown:
  "\<exists>shown. present_variables ascii_ucd (payment_variables (sample_settings\<lparr>st_staff_notifications_enabled := False\<rparr>) False 475000) = Some shown"
proof -
  have d: "map_of (variable_presenters ascii_ucd) ''deposit_amount'' = Some present_cop_value"
    by (simp add: variable_presenters_def)
  show ?thesis
    by (simp add: payment_variables_def bank_presenters d present_cop_value_def present_cop_def present_bank_def normalized_text_def
        join_cps_def collapse_def sample_settings_def ascii_eval strip_def strip_cps_def utf8_encode_def utf8_encode1_def)
qed

lemma payment_text:
  assumes "db_knowledge d = db_knowledge booking_db"
  shows "render_response sample_texts ''RESP-BOOKING-PAYMENT-001''
     (payment_variables (sample_settings\<lparr>st_staff_notifications_enabled := False\<rparr>) False 475000) d = Inr ''Listo''"
proof -
  have latest: "get_latest_response ''RESP-BOOKING-PAYMENT-001'' d = Some (plain_answer ''RESP-BOOKING-PAYMENT-001''
        [''deposit_amount'', ''bank_name'', ''account_type'', ''account_number'', ''account_holder''])"
    by (simp add: get_latest_response_def assms booking_db_def plain_answer_def)
  obtain shown where "present_variables ascii_ucd
      (payment_variables (sample_settings\<lparr>st_staff_notifications_enabled := False\<rparr>) False 475000) = Some shown"
    using payment_shown by blast
  then show ?thesis
    by (simp add: render_response_def latest sample_texts_def del: parse_template.simps present_variables.simps)
      (simp add: plain_answer_def variables_in_template_def listo_parsed field_names_def payment_variables_def
        del: parse_template.simps present_variables.simps)
qed

lemma offered_booking:
  "\<exists>s'. handle_booking_step sample_env (sample_turn offered_conversation ''si'', booking_db) = Inr (True, s') \<and>
     db_reservations (snd s') \<noteq> []"
proof -
  let ?s = "(sample_turn offered_conversation ''si'', booking_db)"
  obtain d where r: "add_request sample_env sample_plan sample_start ?s = Inr (sample_turn offered_conversation ''si'', d)"
    and k: "db_knowledge d = db_knowledge booking_db"
    using offered_request by blast
  let ?c = "offered_conversation\<lparr>cv_booking_draft := None, cv_pending_action := None\<rparr>"
  obtain c1 d1 where m: "transition_conversation ?c BOT_ACTIVE ''SYSTEM'' (Some ''Solicitud pendiente de pago; sin bloqueo'') None
      (put_conversation ?c d) = Inr (c1, d1)" and k1: "db_knowledge d1 = db_knowledge booking_db"
    by (simp add: transition_conversation_def offered_conversation_def sample_conversation_def set_state_def Let_def k
        put_conversation_def paused_def paused_states_def)
  have dep: "deposit_amount (sample_settings\<lparr>st_staff_notifications_enabled := False\<rparr>) 950000 = Inr 475000"
    by (simp add: deposit_amount_def sample_settings_def)
  have "\<exists>s'. send_booking sample_env ''PAYMENT'' (payment_variables (sample_settings\<lparr>st_staff_notifications_enabled := False\<rparr>) False 475000)
      (sample_turn c1 ''si'', d1) = Inr s'"
    by (simp add: send_booking_def queue_reply_def sample_env_def sample_turn_def logged_request_def text_given_def
        enqueue_template_def payment_text [OF k1] queue_text_def Let_def output_context_def no_notice_def or_unavailable_def)
  then have "\<exists>s'. request_booking sample_env sample_plan sample_start False ?s = Inr s'"
    using r m dep
    by (simp add: request_booking_def move_to_def on_conversation_def sample_turn_def Let_def sample_env_def sample_plan_def)
  then obtain s' where run: "request_booking sample_env sample_plan sample_start False ?s = Inr s'" by (rule exE)
  from request_booking_D [OF run] have added: "db_reservations (snd s') \<noteq> []" by auto
  have "turn_pending ?s = False"
    by (simp add: turn_pending_def has_pending_request_def booking_db_def)
  then have read: "confirm_read sample_env sample_plan sample_start False ?s = Inr s'"
    using run by (simp add: confirm_read_def sample_env_def)
  have bank: "bank_data_configured (sample_settings\<lparr>st_staff_notifications_enabled := False\<rparr>) False"
    by (simp add: bank_data_configured_def sample_settings_def ascii_eval)
  have "jget ''price_cop'' offered_draft = JInt 950000" "jget ''duration_minutes'' offered_draft = JInt 180"
    by (simp_all add: offered_draft_def jget_def)
  moreover have "pl_price_cop sample_plan = 950000" "pl_duration_minutes sample_plan = 180" by (simp_all add: sample_plan_def)
  moreover have "today_of ?s = 739829" "db_clock booking_db = sample_now" "snd ?s = booking_db"
    "fe_settings sample_env = sample_settings\<lparr>st_staff_notifications_enabled := False\<rparr>"
    by (simp_all add: today_of_def booking_db_def sample_now_def at_hour_def us_defs bogota_date_def bogota_instant_def sample_env_def)
  ultimately have "confirm_booking sample_env sample_plan offered_draft ?s = Inr s'"
    using read bank by (simp add: confirm_booking_def breb_not_required offered_start offered_window)
  moreover have "draft_of offered_conversation = offered_draft" "cv_pending_action offered_conversation = Some ''CONFIRM_BOOKING''"
    by (simp_all add: draft_of_def offered_conversation_def offered_draft_def)
  moreover have "drafted_plan offered_draft [sample_plan, sample_overnight] = Some sample_plan"
    by (simp add: drafted_plan_def offered_draft_def jget_def sample_plan_def)
  moreover have "\<not> truthy (jget ''inquiry_only'' offered_draft)" by (simp add: offered_draft_def jget_def)
  moreover have "tn_conversation (fst ?s) = offered_conversation" "tn_text (fst ?s) = ''si''" "fe_ucd sample_env = ascii_ucd"
    "st_self_service_booking_enabled (fe_settings sample_env)"
    by (simp_all add: sample_turn_def sample_env_def sample_texts_def sample_settings_def)
  moreover have "''si'' \<in> set affirmations" "''si'' \<notin> set denials" by (simp_all add: affirmations_def denials_def)
  ultimately have "handle_booking_step sample_env ?s = Inr (True, s')"
    by (simp add: handle_booking_step_def Let_def booking_answer_def offered_plans booking_reply_def sample_yes)
  with added show ?thesis by blast
qed

lemma request_follows_checked_offer_witness:
  "\<exists>s' r. handle_booking_step sample_env (sample_turn offered_conversation ''si'', booking_db) = Inr (True, s') \<and>
     db_reservations (snd s') = [r] \<and> rv_status r = RV_PAYMENT_PENDING"
proof -
  obtain s' where run: "handle_booking_step sample_env (sample_turn offered_conversation ''si'', booking_db) = Inr (True, s')"
    and added: "db_reservations (snd s') \<noteq> []" using offered_booking by blast
  have none: "db_reservations (snd (sample_turn offered_conversation ''si'', booking_db)) = []" by (simp add: booking_db_def)
  from request_follows_checked_offer [OF run] added obtain r where "db_reservations (snd s') = [r]" "rv_status r = RV_PAYMENT_PENDING"
    unfolding none by (auto simp: fresh_request_def)
  with run show ?thesis by blast
qed

definition confused_conversation :: conversation where
  "confused_conversation = offered_conversation\<lparr>cv_failed_understanding_count := 1\<rparr>"

lemma handoff_text:
  assumes "db_knowledge d = db_knowledge booking_db" "code \<in> {''RESP-HANDOFF-001'', ''RESP-HANDOFF-002''}"
  shows "render_response sample_texts code [] d = Inr ''Listo''"
proof -
  have "get_latest_response code d = Some (plain_answer code [])"
    using assms(2) by (auto simp: get_latest_response_def assms(1) booking_db_def plain_answer_def)
  then show ?thesis
    by (simp add: render_response_def del: parse_template.simps)
      (simp add: plain_answer_def variables_in_template_def listo_parsed field_names_def del: parse_template.simps)
qed

lemma confused_run: "\<exists>s'. not_understood sample_env None (sample_turn confused_conversation ''no se'', booking_db) = Inr s'"
proof -
  let ?tr = "(transfer_for ''HUMAN_REQUEST'' ''LOW_CONFIDENCE'' HO_NORMAL (Some ''No se entendieron dos respuestas de reserva''))
      \<lparr>tr_response := None, tr_variables := []\<rparr>"
  let ?s = "on_conversation (\<lambda>c. c\<lparr>cv_booking_draft := None\<rparr>)
      (on_conversation misunderstood (sample_turn confused_conversation ''no se'', booking_db))"
  have "\<exists>s'. create_handoff_and_pause sample_env ?tr ?s = Inr s'"
  proof (rule transfer_runs)
    have "hours_ok sample_settings \<Longrightarrow> hours_ok (sample_settings\<lparr>st_staff_notifications_enabled := False\<rparr>)"
      by (simp add: hours_ok_def attention_days_def)
    with sample_hours_ok show "hours_ok (fe_settings sample_env)" by (simp add: sample_env_def)
    show "cv_state (tn_conversation (fst ?s)) \<notin> {RESOLVED, CLOSED}"
      by (simp add: sample_turn_def confused_conversation_def offered_conversation_def misunderstood_def)
    show "\<exists>body. render_response (fe_texts sample_env) code [] d = Inr body"
      if "code \<in> {''RESP-HANDOFF-001'', ''RESP-HANDOFF-002''}" "db_knowledge d = db_knowledge (snd ?s)" for code d
      using handoff_text [OF _ that(1), of d] that(2) by (simp add: sample_env_def)
  qed (simp_all add: transfer_for_def)
  then show ?thesis
    by (simp add: not_understood_def Let_def booking_handoff_def misunderstood_def sample_turn_def confused_conversation_def)
qed

lemma second_misunderstanding_hands_over_witness:
  "\<exists>s' h. not_understood sample_env None (sample_turn confused_conversation ''no se'', booking_db) = Inr s' \<and>
     cv_state (tn_conversation (fst s')) = WAITING_FOR_HUMAN \<and> db_handoffs (snd s') = [h]"
proof -
  obtain s' where run: "not_understood sample_env None (sample_turn confused_conversation ''no se'', booking_db) = Inr s'"
    using confused_run by blast
  have count: "1 \<le> cv_failed_understanding_count (tn_conversation (fst (sample_turn confused_conversation ''no se'', booking_db)))"
    "db_handoffs (snd (sample_turn confused_conversation ''no se'', booking_db)) = []"
    by (simp_all add: sample_turn_def confused_conversation_def booking_db_def)
  from second_misunderstanding_hands_over [OF run count(1)] run count(2) show ?thesis by auto
qed

end
