(* ===== verification/Spec2Isabelle.thy ===== *)
theory Spec2Isabelle
  imports Handoff_Service Notification_Statuses Calendar_Sync Outbox_Facts Inbox_Facts
    Visits_Facts Payment_Facts Receipt_Facts Reminder_Facts Event_Dates Booking_Runs
    Staff_Facts Human_Facts Booking_Route_Facts Notice_Facts Booking_Text_Facts Entity_Facts
    Booking_Flow_Facts
begin

text \<open>
  A verification development for the WhatsApp assistant of an event venue: the services under
  \<open>src/app\<close> that keep its conversations, bookings, payments and messages.

  \<^bold>\<open>The program.\<close> Webhooks store the customer's messages; an inbox turns them into replies through
  a dialogue orchestrator; the replies leave through an outbox whose sending is admitted anew at the
  moment of delivery. A conversation is a state machine that a person can take over. Bookings are
  requested without holding a slot, paid by transfer with a receipt that a person accepts or
  rejects, confirmed when the deposit is covered and the slot is free, and then mirrored in an
  external calendar. Advisers and customers are notified through queues of their own.

  \<^bold>\<open>State.\<close> \<open>db\<close> (theory Database) has one list per table, the clock (\<open>datetime.now\<close>, \<open>now()\<close>), the
  serial keys and the stream that \<open>uuid4()\<close> draws from. An operation that runs in the caller's
  transaction is a function from the database to \<open>(app_error, 'a \<times> db) result\<close>: raising returns no
  database, which is the rollback. Operations with several transactions return the database next to
  the result, and an argument \<open>other\<close> for what other workers commit in between. Rows are records
  with the columns' names behind a two-letter prefix; the ORM's objects are the row values, written
  back with \<open>put_*\<close>. Strings are UTF-8 bytes (theory Py_Values decodes them where the code counts or
  classifies characters). External services are parameters: the calendar is a record of operations
  on a state of its own, the message provider likewise, the Unicode tables are the record \<open>ucd\<close>.

  \<^bold>\<open>Theories.\<close>
  \<^item> Prelude, Py_Values: results, tables, ordering, UUIDs; strings, JSON, instants and dates.
  \<^item> Schema_Conversation, Schema_Booking, Database, Samples: \<open>*/models.py\<close>, \<open>config/settings.py\<close>, and
    concrete rows for the witnesses.
  \<^item> Status_Machine, Lease_Queue: the contracts shared by the status columns and by the work queues,
    as locales with their consequences.
  \<^item> Conversation_Service, Handoff_Service, Reservation_Service: \<open>conversation/service.py\<close>,
    \<open>handoff/service.py\<close>, \<open>reservation/service.py\<close>; the first and the last interpret \<open>status_machine\<close>.
  \<^item> Booking_Availability, Booking_Requests, Money: \<open>reservation/availability.py\<close>, \<open>reservation/booking.py\<close>.
  \<^item> Staff_Texts, Notification_Queue, Notification_Service, Notification_Workers,
    Notification_Statuses: \<open>notifications/*\<close>; the two tables interpret \<open>notification_store\<close> and
    \<open>lease_queue\<close>.
  \<^item> Calendar: \<open>calendar/adapter.py\<close>, the contract \<open>calendar_adapter\<close> and the fake that satisfies it.
  \<^item> Settlement, Settlement_Facts, Settlement_Invariants, Calendar_Sync: \<open>reservation/settlement.py\<close>;
    the facts show the effect of every branch, the invariants that no operation double-books, confirms
    without a deposit or loses a payment. Booking_Runs states them for every interleaving of the
    operations on bookings, as a step relation with rule induction.
  \<^item> Reminders, Reminder_Facts: \<open>reservation/reminders.py\<close>, the balance reminders and overdue marks.
  \<^item> Payment_Evidence, Payment_Facts: \<open>payment/service.py\<close> and the download half of \<open>payment/worker.py\<close>;
    Inbound_Media is the verified download of \<open>channel/media.py\<close> that they use. Receipt_Review,
    Receipt_Facts: \<open>payment/review.py\<close>, the assisted review, which suggests and never decides.
  \<^item> Inbound_Store: the storing half of \<open>channel/inbound.py\<close> (messages, receipts of delivery, webhook
    events) and \<open>customer/phone.py\<close>. Inbox, Inbox_Facts: \<open>channel/inbox.py\<close> with the deferred agenda
    calls of \<open>orchestrator/inbox_effects.py\<close>; jobs interpret \<open>lease_queue\<close>.
  \<^item> Delivery: \<open>channel/delivery.py\<close>, what may be sent and until when. Outbox_Worker, Outbox_Facts:
    \<open>channel/worker.py\<close>; the rows follow a protocol that is a step relation, refined by the operations,
    and interpret \<open>lease_queue\<close>. Schema_Catalog, Media: \<open>catalog/models.py\<close> (assets) and the upload cache of
    \<open>channel/media.py\<close>.
  \<^item> Visits, Visits_Facts: \<open>scheduling/availability.py\<close> and the service of \<open>appointment/service.py\<close>, against any
    calendar that keeps the contract \<open>calendar_adapter\<close>.
  \<^item> Event_Dates: \<open>event/validation.py\<close>, the dates that customers write.
  \<^item> Staff_Accounts, Staff_Facts: \<open>agent/auth.py\<close>, the login and account routes of \<open>admin/routes.py\<close> and
    \<open>scripts/create_admin.py\<close>; the facts are an invariant of the accounts and sessions over a step relation
    of the routes, the round trip of a login, and the bound on failed logins.
  \<^item> Regex: a backtracking matcher for the regular expressions the code uses, with \<open>re\<close>'s order of choices.
    Catalog_Labels: the names of event types and services (\<open>conversation/catalog_event_type.py\<close>,
    \<open>conversation/services_catalog.py\<close>, \<open>event/event_type.py\<close>) and how a text is matched against them.
  \<^item> Templates, Template_Facts: \<open>conversation/knowledge.py\<close>, \<open>conversation/presentation.py\<close> and \<open>enqueue_template\<close> of
    \<open>orchestrator/service.py\<close>; the facts say that a text leaves only as the rendering of an approved answer.
  \<^item> Payment_Notices, Notice_Facts: \<open>reservation/notifications.py\<close>, what the customer is told of a payment decision;
    the facts show the case that the notice of a conflict leaves to nobody.
  \<^item> Booking_Routes, Booking_Route_Facts: the routes of \<open>admin/routes.py\<close> for manual requests, moves and cancellations
    of bookings and for the review of receipts; the facts extend the steps of Booking_Runs by the staff's.
  \<^item> Visit_Texts, Booking_Texts, Booking_Text_Facts: what a message says: the dates and times of \<open>appointment/service.py\<close>, and
    yes and no, a plan's name, lodging, a person (\<open>conversation/confirmation.py\<close>, \<open>conversation/fixed_price_booking.py\<close>,
    \<open>conversation/lodging.py\<close>, \<open>conversation/explicit_human.py\<close>); the facts are the exactness of the comparison of words and
    the bounds of what is read.
  \<^item> Entities, Entity_Facts: \<open>conversation/entity_validation.py\<close> and \<open>lead/budget.py\<close>, the gate between the language model's
    answer and the columns; the facts say that what passes can be stored.
  \<^item> Proposals, Capture: \<open>conversation/pending_confirmation.py\<close>, \<open>conversation/faq_catalog.py\<close>, \<open>orchestrator/slot_filling.py\<close> and the part of
    \<open>orchestrator/service.py\<close> that writes what a customer tells about an event.
  \<^item> Turns, Booking_Flow, Booking_Flow_Facts: a turn of the dialogue, its transfer to a person, and \<open>orchestrator/booking_flow.py\<close>;
    the facts say what a request for a booking presupposes and that misunderstanding ends at a person.
  \<^item> Human_Cases, Conversation_Reset, Human_Facts: what an adviser does with an open case
    (\<open>admin/ownership.py\<close>, the routes that take, answer, return and reassign it) and the administrator's way out
    (\<open>admin/conversation_reset.py\<close>); the facts say when case and conversation name the same adviser.

  \<^bold>\<open>Parameters.\<close> What is not code of the repository, or not yet modelled, is an argument: the message provider
  (\<open>provider\<close>), the HTTP client of a download (\<open>media_client\<close>), files and digests (\<open>evidence_io\<close>), the
  reading model (\<open>review_io\<close>), the password and token functions (\<open>auth_provider\<close>), the letters of Unicode
  (\<open>letters\<close>), pydantic's reading and writing of a stored classification (\<open>classification_json\<close>), the calendar read of a turn
  (\<open>fe_agenda\<close>, which \<open>booking_availability_call\<close> provides), the format specifications of a template (\<open>te_format\<close>), the validation of a provider message (\<open>parse\<close>), and the orchestrator, the
  classifier and the transcription of a turn (\<open>handlers\<close>). Theorems state what they need of them as hypotheses.

  \<^bold>\<open>Bounds.\<close> The UTF-8 decoder is given the length of its input and consumes at least one byte per step. A turn of
  the inbox makes at most twelve agenda calls, the code's own bound. The search for a date is a loop without a
  bound in the code and a \<open>partial_function\<close> here; it is shown to end for the days 1 to 31 only. Python's
  integers are \<open>int\<close>, UUIDs \<open>128 word\<close>.

  \<^bold>\<open>Not modelled.\<close> Locks and skipped locked rows (the model is sequential; interleavings enter as \<open>other\<close>, as step relations and
  as the events of \<open>lease_queue\<close>), logging, HTTP and file I/O, the calls to the language model, the routes that only list rows, the
  worker loops, the catalogue service, and, of the dialogue orchestrator, the choice of the flow for a message, the capture's
  dialogue and the dialogue about visits: \<open>handlers\<close> stands for them. JSON keeps no floats: an audited confidence is kept as the text
  of its decimal form. Texts are valid UTF-8, so that the code's tests for lone surrogates never apply.
\<close>

end
